(* ===== verification/Prelude.thy ===== *)
theory Prelude
  imports Main "HOL-Library.Product_Lexorder"
begin

text \<open>
  The vocabulary every component shares.

  \<^item> Identifiers, instants and JSON payloads. A UUID is its canonical text (what Python's
    \<open>str(uuid)\<close> gives), an instant is a number of microseconds, and the timestamp columns that
    may hold PostgreSQL's \<open>'infinity'\<close> have the type \<open>pgtime\<close>.
  \<^item> The exceptions the program raises, one constructor per Python class, each with its message.
    A fallible operation returns \<open>exn + 'a\<close>, an operation of a session that writes a table returns
    \<open>exn + ('a \<times> table)\<close>, and \<open>session_scope\<close> turns that into commit or rollback.
  \<^item> The SQL statements the repositories issue, over a table kept as the list of its rows:
    \<open>UPDATE ... WHERE\<close>, \<open>SELECT ... WHERE\<close> for one row, \<open>ORDER BY ... LIMIT 1\<close>.
  \<^item> \<open>evolves\<close>: how a table may change when each row moves by a row-level step relation and new
    rows are appended. The lemmas here carry row-level facts to whole tables.
\<close>

section \<open>Identifiers, instants, payloads\<close>

type_synonym uuid = string
type_synonym moment = int

definition seconds :: "int \<Rightarrow> moment" where
  "seconds s = s * 1000000"

definition milliseconds :: "int \<Rightarrow> moment" where
  "milliseconds n = n * 1000"

text \<open>A \<open>timestamptz\<close> column value: an instant, or PostgreSQL's \<open>'infinity'\<close>, above every instant.\<close>

datatype pgtime = At moment | Infinity

instantiation pgtime :: linorder
begin

fun less_eq_pgtime :: "pgtime \<Rightarrow> pgtime \<Rightarrow> bool" where
  "less_eq_pgtime (At a) (At b) = (a \<le> b)"
| "less_eq_pgtime (At a) Infinity = True"
| "less_eq_pgtime Infinity (At b) = False"
| "less_eq_pgtime Infinity Infinity = True"

definition less_pgtime :: "pgtime \<Rightarrow> pgtime \<Rightarrow> bool" where
  "less_pgtime a b = (a \<le> b \<and> \<not> b \<le> a)"

instance
proof
  fix x y z :: pgtime
  show "(x < y) = (x \<le> y \<and> \<not> y \<le> x)"
    by (rule less_pgtime_def)
  show "x \<le> x"
    by (cases x) simp_all
  show "x \<le> y \<Longrightarrow> y \<le> z \<Longrightarrow> x \<le> z"
    by (cases x; cases y; cases z) simp_all
  show "x \<le> y \<Longrightarrow> y \<le> x \<Longrightarrow> x = y"
    by (cases x; cases y) simp_all
  show "x \<le> y \<or> y \<le> x"
    by (cases x; cases y) auto
qed

end

lemma At_less [simp]: "(At a < At b) = (a < b)"
  by (auto simp: less_pgtime_def)

lemma Infinity_not_due [simp]: "\<not> Infinity \<le> At m"
  by simp

text \<open>JSON values; a Python dict is the list of its items in insertion order.\<close>

datatype json =
    JNull
  | JBool bool
  | JInt int
  | JStr string
  | JList "json list"
  | JObj "(string \<times> json) list"

type_synonym payload = "(string \<times> json) list"

definition dict_get :: "payload \<Rightarrow> string \<Rightarrow> json" where
  "dict_get d k = (case map_of d k of Some v \<Rightarrow> v | None \<Rightarrow> JNull)"

definition dict_has :: "payload \<Rightarrow> string \<Rightarrow> bool" where
  "dict_has d k = (map_of d k \<noteq> None)"

fun dict_set :: "payload \<Rightarrow> string \<Rightarrow> json \<Rightarrow> payload" where
  "dict_set [] k v = [(k, v)]"
| "dict_set ((k', v') # d) k v = (if k' = k then (k, v) # d else (k', v') # dict_set d k v)"

definition dict_update :: "payload \<Rightarrow> payload \<Rightarrow> payload" where
  "dict_update d e = foldl (\<lambda>acc (k, v). dict_set acc k v) d e"

definition dict_keys :: "payload \<Rightarrow> string set" where
  "dict_keys d = fst ` set d"

section \<open>Exceptions, sessions\<close>

datatype exn =
    ValueError string
  | RuntimeError string
  | IntegrityError string
  | InvalidRequestError string
  | IngressStateError string
  | StaleIngressLeaseError string
  | ReplyPlanStateError string
  | StaleReplyPlanLeaseError string
  | OutboundStateError string
  | StaleOutboundLeaseError string
  | AmoCrmMirrorStateError string
  | StaleAmoCrmMirrorLeaseError string
  | MirrorPayloadViolation string
  | OutboundArbiterDenied string
  | OutboundReplyTextError string
  | HandoffExpiryInvariantError string
  | AmoCrmMirrorRejected string
  | VkClientMessageReplyOwnEchoRace string
  | BookingEligibilityHttpError string
  | TypeError string
  | AssertionError string
  | AttributeError string
  | IngressPersistError string
  | AmocrmProjectionStateError string
  | StaleAmocrmProjectionLeaseError string
  | AmocrmChatBindingAmbiguousError string
  | ProjectionSkip uuid string string
  | ValidationError string
  | BookingDomainError string
  | BookingAvailabilityHttpError string
  | BookingCreateHttpError string
  | OverflowError string

text \<open>\<open>type(exc).__name__\<close>, which the workers store as the error code of a failed claim.\<close>

fun exn_name :: "exn \<Rightarrow> string" where
  "exn_name (ValueError _) = ''ValueError''"
| "exn_name (RuntimeError _) = ''RuntimeError''"
| "exn_name (IntegrityError _) = ''IntegrityError''"
| "exn_name (InvalidRequestError _) = ''InvalidRequestError''"
| "exn_name (IngressStateError _) = ''IngressStateError''"
| "exn_name (StaleIngressLeaseError _) = ''StaleIngressLeaseError''"
| "exn_name (ReplyPlanStateError _) = ''ReplyPlanStateError''"
| "exn_name (StaleReplyPlanLeaseError _) = ''StaleReplyPlanLeaseError''"
| "exn_name (OutboundStateError _) = ''OutboundStateError''"
| "exn_name (StaleOutboundLeaseError _) = ''StaleOutboundLeaseError''"
| "exn_name (AmoCrmMirrorStateError _) = ''AmoCrmMirrorStateError''"
| "exn_name (StaleAmoCrmMirrorLeaseError _) = ''StaleAmoCrmMirrorLeaseError''"
| "exn_name (MirrorPayloadViolation _) = ''MirrorPayloadViolation''"
| "exn_name (OutboundArbiterDenied _) = ''OutboundArbiterDenied''"
| "exn_name (OutboundReplyTextError _) = ''OutboundReplyTextError''"
| "exn_name (HandoffExpiryInvariantError _) = ''HandoffExpiryInvariantError''"
| "exn_name (AmoCrmMirrorRejected _) = ''AmoCrmMirrorRejected''"
| "exn_name (VkClientMessageReplyOwnEchoRace _) = ''VkClientMessageReplyOwnEchoRace''"
| "exn_name (BookingEligibilityHttpError _) = ''BookingEligibilityHttpError''"
| "exn_name (TypeError _) = ''TypeError''"
| "exn_name (AssertionError _) = ''AssertionError''"
| "exn_name (AttributeError _) = ''AttributeError''"
| "exn_name (IngressPersistError _) = ''IngressPersistError''"
| "exn_name (AmocrmProjectionStateError _) = ''AmocrmProjectionStateError''"
| "exn_name (StaleAmocrmProjectionLeaseError _) = ''StaleAmocrmProjectionLeaseError''"
| "exn_name (AmocrmChatBindingAmbiguousError _) = ''AmocrmChatBindingAmbiguousError''"
| "exn_name (ProjectionSkip _ _ _) = ''_ProjectionSkip''"
| "exn_name (ValidationError _) = ''ValidationError''"
| "exn_name (BookingDomainError _) = ''BookingDomainError''"
| "exn_name (BookingAvailabilityHttpError _) = ''BookingAvailabilityHttpError''"
| "exn_name (BookingCreateHttpError _) = ''BookingCreateHttpError''"
| "exn_name (OverflowError _) = ''OverflowError''"

text \<open>
  A unit of work: the new state is committed when the body returns and discarded when it raises.
\<close>

definition session_scope :: "('d \<Rightarrow> exn + ('a \<times> 'd)) \<Rightarrow> 'd \<Rightarrow> (exn + 'a) \<times> 'd" where
  "session_scope body d =
     (case body d of
        Inl e \<Rightarrow> (Inl e, d)
      | Inr (a, d') \<Rightarrow> (Inr a, d'))"

lemma session_scope_Inl: "session_scope body d = (Inl e, d') \<Longrightarrow> d' = d"
  by (auto simp: session_scope_def split: sum.splits)

lemma session_scope_Inr: "session_scope body d = (Inr a, d') \<longleftrightarrow> body d = Inr (a, d')"
  by (auto simp: session_scope_def split: sum.splits)

section \<open>SQL statements over a table\<close>

named_theorems sql_simps
named_theorems session_simps

definition sql_update :: "('r \<Rightarrow> bool) \<Rightarrow> ('r \<Rightarrow> 'r) \<Rightarrow> 'r list \<Rightarrow> 'r list" where
  "sql_update P f t = map (\<lambda>r. if P r then f r else r) t"

definition sql_count :: "('r \<Rightarrow> bool) \<Rightarrow> 'r list \<Rightarrow> nat" where
  "sql_count P t = length (filter P t)"

definition sql_one :: "('r \<Rightarrow> bool) \<Rightarrow> 'r list \<Rightarrow> 'r option" where
  "sql_one P t = find P t"

text \<open>
  \<open>ORDER BY key LIMIT 1\<close>: the first row, in table order, among those with the least key. Rows that
  other transactions hold locked are left out by the \<open>WHERE\<close> predicate (\<open>SKIP LOCKED\<close>).
\<close>

fun sql_least :: "('r \<Rightarrow> 'k::linorder) \<Rightarrow> 'r list \<Rightarrow> 'r option" where
  "sql_least key [] = None"
| "sql_least key (r # t) =
     (case sql_least key t of
        None \<Rightarrow> Some r
      | Some s \<Rightarrow> if key r \<le> key s then Some r else Some s)"

definition sql_first_by :: "('r \<Rightarrow> 'k::linorder) \<Rightarrow> ('r \<Rightarrow> bool) \<Rightarrow> 'r list \<Rightarrow> 'r option" where
  "sql_first_by key P t = sql_least key (filter P t)"

lemma sql_update_Nil [simp]: "sql_update P f [] = []"
  by (simp add: sql_update_def)

lemma sql_update_Cons [simp]:
  "sql_update P f (r # t) = (if P r then f r else r) # sql_update P f t"
  by (simp add: sql_update_def)

lemma sql_update_append: "sql_update P f (s @ t) = sql_update P f s @ sql_update P f t"
  by (simp add: sql_update_def)

lemma length_sql_update [simp]: "length (sql_update P f t) = length t"
  by (simp add: sql_update_def)

lemma set_sql_update: "set (sql_update P f t) = (\<lambda>r. if P r then f r else r) ` set t"
  by (simp add: sql_update_def)

lemma sql_update_cases:
  assumes "r' \<in> set (sql_update P f t)"
  obtains (hit) r where "r \<in> set t" and "P r" and "r' = f r"
    | (miss) "r' \<in> set t" and "\<not> P r'"
  using assms by (auto simp: set_sql_update split: if_splits)

lemma sql_update_none: "(\<And>r. r \<in> set t \<Longrightarrow> \<not> P r) \<Longrightarrow> sql_update P f t = t"
  by (induction t) auto

lemma map_sql_update:
  "(\<And>r. r \<in> set t \<Longrightarrow> P r \<Longrightarrow> g (f r) = g r) \<Longrightarrow> map g (sql_update P f t) = map g t"
  by (induction t) auto

lemma sql_count_0: "sql_count P t = 0 \<longleftrightarrow> (\<forall>r \<in> set t. \<not> P r)"
  by (simp add: sql_count_def filter_empty_conv)

lemma sql_one_Some: "sql_one P t = Some r \<Longrightarrow> P r \<and> r \<in> set t"
  by (auto simp: sql_one_def find_Some_iff)

lemma sql_one_None: "sql_one P t = None \<longleftrightarrow> (\<forall>r \<in> set t. \<not> P r)"
  by (auto simp: sql_one_def find_None_iff)

lemma sql_one_simps [simp]:
  "sql_one P [] = None"
  "sql_one P (r # t) = (if P r then Some r else sql_one P t)"
  by (simp_all add: sql_one_def)

lemma sql_one_append:
  "sql_one P (s @ t) = (case sql_one P s of Some r \<Rightarrow> Some r | None \<Rightarrow> sql_one P t)"
  by (induction s) auto

lemma sql_one_snoc_new:
  "sql_one P s = None \<Longrightarrow> P r \<Longrightarrow> sql_one P (s @ [r]) = Some r"
  by (simp add: sql_one_append)

lemma sql_one_update:
  "(\<And>r. r \<in> set t \<Longrightarrow> P r \<Longrightarrow> Q (f r) = Q r) \<Longrightarrow>
   sql_one Q (sql_update P f t) = map_option (\<lambda>r. if P r then f r else r) (sql_one Q t)"
  by (induction t) auto

lemma sql_one_the_row:
  "distinct (map key t) \<Longrightarrow> r \<in> set t \<Longrightarrow> sql_one (\<lambda>x. key x = key r) t = Some r"
  by (induction t) auto

lemma sql_least_None: "sql_least key t = None \<longleftrightarrow> t = []"
  by (cases t) (auto split: option.splits)

lemma sql_least_Some:
  "sql_least key t = Some r \<Longrightarrow> r \<in> set t \<and> (\<forall>s \<in> set t. key r \<le> key s)"
proof (induction t arbitrary: r)
  case Nil
  then show ?case by simp
next
  case (Cons a t)
  show ?case
  proof (cases "sql_least key t")
    case None
    with Cons.prems show ?thesis by (simp add: sql_least_None)
  next
    case (Some s)
    with Cons.IH [OF Some] Cons.prems show ?thesis
      by (fastforce split: if_splits)
  qed
qed

lemma sql_first_by_Some:
  "sql_first_by key P t = Some r \<Longrightarrow>
     r \<in> set t \<and> P r \<and> (\<forall>s \<in> set t. P s \<longrightarrow> key r \<le> key s)"
  unfolding sql_first_by_def by (drule sql_least_Some) auto

lemma sql_first_by_None: "sql_first_by key P t = None \<longleftrightarrow> (\<forall>r \<in> set t. \<not> P r)"
  by (simp add: sql_first_by_def sql_least_None filter_empty_conv)

lemmas [sql_simps] =
  sql_update_append sql_one_append sql_first_by_None sql_one_None

section \<open>Dictionaries\<close>

lemma map_of_dict_set: "map_of (dict_set d k v) = (map_of d)(k \<mapsto> v)"
  by (induction d k v rule: dict_set.induct) auto

lemma dict_get_set [simp]: "dict_get (dict_set d k v) k' = (if k' = k then v else dict_get d k')"
  by (simp add: dict_get_def map_of_dict_set)

lemma dict_has_set [simp]: "dict_has (dict_set d k v) k' = (k' = k \<or> dict_has d k')"
  by (auto simp: dict_has_def map_of_dict_set)

lemma dict_get_simps [simp]:
  "dict_get [] k = JNull"
  "dict_get ((k', v) # d) k = (if k = k' then v else dict_get d k)"
  by (simp_all add: dict_get_def)

lemma dict_has_simps [simp]:
  "dict_has [] k = False"
  "dict_has ((k', v) # d) k = (k = k' \<or> dict_has d k)"
  by (simp_all add: dict_has_def)

lemma dict_get_absent: "\<not> dict_has d k \<Longrightarrow> dict_get d k = JNull"
  by (simp add: dict_has_def dict_get_def)

section \<open>Tables evolving row by row\<close>

text \<open>
  \<open>evolves N R t t'\<close>: every row of \<open>t\<close> moved, in place, by some \<open>R\<close> steps, and rows that started as
  a row of \<open>N\<close> were appended (and may have moved since).
\<close>

definition evolves :: "('r \<Rightarrow> bool) \<Rightarrow> ('r \<Rightarrow> 'r \<Rightarrow> bool) \<Rightarrow> 'r list \<Rightarrow> 'r list \<Rightarrow> bool" where
  "evolves N R t t' =
     (\<exists>us ws. t' = us @ ws \<and> list_all2 R\<^sup>*\<^sup>* t us \<and> (\<forall>w \<in> set ws. \<exists>n. N n \<and> R\<^sup>*\<^sup>* n w))"

lemma evolves_refl [simp, intro]: "evolves N R t t"
  unfolding evolves_def by (rule exI [of _ t], rule exI [of _ "[]"]) (simp add: list.rel_refl)

lemma evolves_insert [intro]: "N r \<Longrightarrow> evolves N R t (t @ [r])"
  unfolding evolves_def
  by (rule exI [of _ t], rule exI [of _ "[r]"]) (auto simp: list.rel_refl)

lemma evolves_trans [trans]:
  assumes "evolves N R s t" and "evolves N R t u"
  shows "evolves N R s u"
proof -
  obtain t1 t2 where t: "t = t1 @ t2" and st: "list_all2 R\<^sup>*\<^sup>* s t1"
    and new: "\<forall>w \<in> set t2. \<exists>n. N n \<and> R\<^sup>*\<^sup>* n w"
    using assms(1) by (auto simp: evolves_def)
  obtain u1 u2 where u: "u = u1 @ u2" and tu: "list_all2 R\<^sup>*\<^sup>* (t1 @ t2) u1"
    and new': "\<forall>w \<in> set u2. \<exists>n. N n \<and> R\<^sup>*\<^sup>* n w"
    using assms(2) t by (auto simp: evolves_def)
  obtain v w where vw: "u1 = v @ w" and tv: "list_all2 R\<^sup>*\<^sup>* t1 v" and tw: "list_all2 R\<^sup>*\<^sup>* t2 w"
    using tu by (auto simp: list_all2_append1)
  have sv: "list_all2 R\<^sup>*\<^sup>* s v"
    by (rule list_all2_trans [OF _ st tv]) (rule rtranclp_trans)
  have "\<exists>n. N n \<and> R\<^sup>*\<^sup>* n x" if "x \<in> set w" for x
    using that tw new by (metis in_set_conv_nth list_all2_conv_all_nth rtranclp_trans)
  with new' have "\<forall>x \<in> set (w @ u2). \<exists>n. N n \<and> R\<^sup>*\<^sup>* n x"
    by auto
  moreover have "u = v @ (w @ u2)"
    using u vw by simp
  ultimately show ?thesis
    using sv unfolding evolves_def by blast
qed

lemma evolves_update:
  assumes "\<And>r. r \<in> set t \<Longrightarrow> P r \<Longrightarrow> R\<^sup>*\<^sup>* r (f r)"
  shows "evolves N R t (sql_update P f t)"
proof -
  have "list_all2 R\<^sup>*\<^sup>* t (sql_update P f t)"
    using assms by (induction t) auto
  then show ?thesis
    unfolding evolves_def
    by (intro exI [of _ "sql_update P f t"] exI [of _ "[]"]) simp
qed

lemma evolves_update1:
  assumes "\<And>r. r \<in> set t \<Longrightarrow> P r \<Longrightarrow> R r (f r)"
  shows "evolves N R t (sql_update P f t)"
  using assms by (intro evolves_update) auto

lemma evolves_row:
  assumes "evolves N R t t'" and "i < length t"
  shows "i < length t' \<and> R\<^sup>*\<^sup>* (t ! i) (t' ! i)"
proof -
  obtain us ws where t': "t' = us @ ws" and all: "list_all2 R\<^sup>*\<^sup>* t us"
    using assms(1) by (auto simp: evolves_def)
  then have "length us = length t"
    by (simp add: list_all2_lengthD)
  with all t' assms(2) show ?thesis
    by (auto simp: nth_append list_all2_conv_all_nth)
qed

lemma evolves_member:
  assumes "evolves N R t t'" and "r \<in> set t"
  shows "\<exists>r' \<in> set t'. R\<^sup>*\<^sup>* r r'"
  using assms by (metis evolves_row in_set_conv_nth)

text \<open>Where the rows of the later table come from.\<close>

lemma evolves_origin:
  assumes "evolves N R t t'" and "r' \<in> set t'"
  shows "\<exists>r. (r \<in> set t \<or> N r) \<and> R\<^sup>*\<^sup>* r r'"
proof -
  obtain us ws where t': "t' = us @ ws" and all: "list_all2 R\<^sup>*\<^sup>* t us"
    and new: "\<forall>w \<in> set ws. \<exists>n. N n \<and> R\<^sup>*\<^sup>* n w"
    using assms(1) by (auto simp: evolves_def)
  have "\<exists>r \<in> set t. R\<^sup>*\<^sup>* r r'" if "r' \<in> set us"
    using that all by (metis in_set_conv_nth list_all2_conv_all_nth)
  with t' new assms(2) show ?thesis by auto
qed

lemma rtranclp_invariant:
  assumes "R\<^sup>*\<^sup>* r r'" and "\<And>x y. R x y \<Longrightarrow> I x \<Longrightarrow> I y" and "I r"
  shows "I r'"
  using assms by (induction rule: rtranclp_induct) auto

text \<open>An invariant of single rows that new rows have and steps keep holds of the later table.\<close>

lemma evolves_invariant:
  assumes "evolves N R t t'" and "\<forall>r \<in> set t. I r"
    and "\<And>r. N r \<Longrightarrow> I r" and "\<And>x y. R x y \<Longrightarrow> I x \<Longrightarrow> I y"
  shows "\<forall>r \<in> set t'. I r"
proof
  fix r' assume "r' \<in> set t'"
  then obtain r where "r \<in> set t \<or> N r" and steps: "R\<^sup>*\<^sup>* r r'"
    using evolves_origin [OF assms(1)] by blast
  then have "I r" using assms(2,3) by blast
  then show "I r'" using rtranclp_invariant [OF steps, of I] assms(4) by blast
qed

text \<open>A row looked up by its key is found again, moved by row steps, when the steps keep the key.\<close>

lemma evolves_lookup:
  assumes "evolves N R t t'" and "\<And>r r'. R r r' \<Longrightarrow> key r' = key r"
    and "sql_one (\<lambda>x. key x = k) t = Some r"
  shows "\<exists>r'. sql_one (\<lambda>x. key x = k) t' = Some r' \<and> R\<^sup>*\<^sup>* r r'"
proof -
  have keys: "key y = key x" if "R\<^sup>*\<^sup>* x y" for x y
    using that by (induction rule: rtranclp_induct) (auto simp: assms(2))
  obtain us ws where t': "t' = us @ ws" and all: "list_all2 R\<^sup>*\<^sup>* t us"
    using assms(1) by (auto simp: evolves_def)
  from all assms(3) have "\<exists>r'. sql_one (\<lambda>x. key x = k) us = Some r' \<and> R\<^sup>*\<^sup>* r r'"
    by (induction rule: list_all2_induct) (auto simp: keys split: if_splits)
  with t' show ?thesis by (auto simp: sql_one_append)
qed

text \<open>
  A call that keeps the key columns of every row, or appends one row whose key is new, keeps a
  uniqueness constraint over those columns.
\<close>

lemma distinct_columns:
  assumes "map cols t' = map cols t \<or> (\<exists>r. t' = t @ [r] \<and> (\<forall>x \<in> set t. g (cols x) \<noteq> g (cols r)))"
    and "distinct (map (\<lambda>r. g (cols r)) t)"
  shows "distinct (map (\<lambda>r. g (cols r)) t')"
  using assms(1)
proof (elim disjE exE conjE)
  assume "map cols t' = map cols t"
  then have "map g (map cols t') = map g (map cols t)"
    by simp
  then have "map (\<lambda>r. g (cols r)) t' = map (\<lambda>r. g (cols r)) t"
    by (simp add: comp_def)
  with assms(2) show ?thesis by simp
next
  fix r assume "t' = t @ [r]" and "\<forall>x \<in> set t. g (cols x) \<noteq> g (cols r)"
  with assms(2) show ?thesis by force
qed

lemma evolves_mono:
  assumes "evolves N R t t'" and "\<And>x y. R x y \<Longrightarrow> R' x y"
  shows "evolves N R' t t'"
proof -
  have "R \<le> R'" using assms(2) by blast
  then have mono: "R'\<^sup>*\<^sup>* x y" if "R\<^sup>*\<^sup>* x y" for x y
    using rtranclp_mono that by blast
  obtain us ws where t': "t' = us @ ws" and us: "list_all2 R\<^sup>*\<^sup>* t us"
    and ws: "\<forall>w \<in> set ws. \<exists>n. N n \<and> R\<^sup>*\<^sup>* n w"
    using assms(1) unfolding evolves_def by (elim exE conjE)
  have "list_all2 R'\<^sup>*\<^sup>* t us" using us mono by (rule list_all2_mono)
  moreover have "\<forall>w \<in> set ws. \<exists>n. N n \<and> R'\<^sup>*\<^sup>* n w" using ws mono by meson
  ultimately show ?thesis unfolding evolves_def using t' by (intro exI conjI)
qed

text \<open>A call that inserts nothing moves the rows in place.\<close>

lemma evolves_in_place: "evolves (\<lambda>_. False) R t t' \<Longrightarrow> list_all2 R\<^sup>*\<^sup>* t t'"
  by (auto simp: evolves_def)

lemma list_all2_map_eq: "list_all2 S t t' \<Longrightarrow> (\<And>x y. S x y \<Longrightarrow> g y = g x) \<Longrightarrow> map g t' = map g t"
  by (induction rule: list_all2_induct) auto

text \<open>
  Rows that can only leave a partial unique index keep it unique.
\<close>

lemma distinct_partial_index:
  assumes "list_all2 S t t'" and "\<And>x y. S x y \<Longrightarrow> g y = g x \<and> (P y \<longrightarrow> P x)"
    and "distinct (map g (filter P t))"
  shows "distinct (map g (filter P t')) \<and> g ` set (filter P t') \<subseteq> g ` set (filter P t)"
  using assms(1,3)
proof (induction rule: list_all2_induct)
  case Nil
  show ?case by simp
next
  case (Cons x xs y ys)
  have IH: "distinct (map g (filter P ys)) \<and> g ` set (filter P ys) \<subseteq> g ` set (filter P xs)"
    using Cons by (simp split: if_splits)
  with assms(2) [OF Cons(1)] Cons.prems show ?case
    by (cases "P y"; cases "P x") auto
qed

section \<open>One current row\<close>

text \<open>
  An ORM object that is current is a row of the table. An UPDATE by its key replaces just that row;
  \<open>sql_put\<close> is the table after it.
\<close>

definition sql_put :: "('r \<Rightarrow> 'k) \<Rightarrow> 'r \<Rightarrow> 'r list \<Rightarrow> 'r list" where
  "sql_put key r t = sql_update (\<lambda>x. key x = key r) (\<lambda>_. r) t"

lemma distinct_key_unique:
  "distinct (map key t) \<Longrightarrow> x \<in> set t \<Longrightarrow> y \<in> set t \<Longrightarrow> key x = key y \<Longrightarrow> x = y"
  by (metis distinct_map inj_on_def)

lemma sql_update_current:
  assumes "distinct (map key t)" and "r \<in> set t" and "P r" and "\<And>x. P x \<Longrightarrow> key x = key r"
    and "key (f r) = key r"
  shows "sql_update P f t = sql_put key (f r) t"
proof -
  have same: "P x \<longleftrightarrow> key x = key (f r)" "P x \<Longrightarrow> f x = f r" if "x \<in> set t" for x
    using assms distinct_key_unique [OF assms(1) that assms(2)] by metis+
  show ?thesis
    unfolding sql_put_def sql_update_def using same by (intro map_cong) auto
qed

lemma set_sql_put: "set (sql_put key r t) \<subseteq> insert r (set t)"
  by (auto simp: sql_put_def set_sql_update)

lemma sql_put_in: "r \<in> set t \<Longrightarrow> key r' = key r \<Longrightarrow> r' \<in> set (sql_put key r' t)"
  by (force simp: sql_put_def set_sql_update)

lemma sql_put_other: "x \<in> set t \<Longrightarrow> key x \<noteq> key r \<Longrightarrow> x \<in> set (sql_put key r t)"
  by (force simp: sql_put_def set_sql_update)

lemma sql_put_cases:
  "x \<in> set (sql_put key r t) \<Longrightarrow> x = r \<or> x \<in> set t \<and> key x \<noteq> key r"
  by (auto simp: sql_put_def set_sql_update split: if_splits)

lemma map_sql_put:
  assumes "distinct (map key t)" and "r \<in> set t" and "key r' = key r" and "g r' = g r"
  shows "map g (sql_put key r' t) = map g t"
  unfolding sql_put_def
proof (rule map_sql_update)
  fix x assume "x \<in> set t" and "key x = key r'"
  then have "x = r"
    using distinct_key_unique [OF assms(1) _ assms(2)] assms(3) by simp
  with assms(4) show "g r' = g x" by simp
qed

lemma map_key_sql_put [simp]: "map key (sql_put key r t) = map key t"
  unfolding sql_put_def by (rule map_sql_update) simp

lemma sql_put_put: "key r = key r' \<Longrightarrow> sql_put key r' (sql_put key r t) = sql_put key r' t"
  by (simp add: sql_put_def sql_update_def)

lemma sql_put_same:
  assumes "distinct (map key t)" and "r \<in> set t"
  shows "sql_put key r t = t"
proof -
  have "x = r" if "x \<in> set t" and "key x = key r" for x
    using distinct_key_unique [OF assms(1) that(1) assms(2) that(2)] .
  then show ?thesis
    unfolding sql_put_def sql_update_def by (intro map_idI) auto
qed

lemma sql_one_put:
  assumes "r \<in> set t" and "key r' = key r"
  shows "sql_one (\<lambda>x. key x = key r) (sql_put key r' t) = Some r'"
  using assms by (induction t) (auto simp: sql_put_def)

lemma sql_one_put_other:
  "key r \<noteq> k \<Longrightarrow> sql_one (\<lambda>x. key x = k) (sql_put key r t) = sql_one (\<lambda>x. key x = k) t"
  by (induction t) (auto simp: sql_put_def)

lemma sql_count_current:
  assumes "distinct (map key t)" and "r \<in> set t" and "P r" and "\<And>x. P x \<Longrightarrow> key x = key r"
  shows "sql_count P t = 1"
proof -
  have only: "P x \<longleftrightarrow> x = r" if "x \<in> set t" for x
    using assms(3,4) distinct_key_unique [OF assms(1) that assms(2)] by blast
  have "set (filter P t) = {r}"
    using only assms(2) by auto
  moreover have "distinct (filter P t)"
    using assms(1) by (simp add: distinct_map)
  ultimately show ?thesis
    using distinct_card [of "filter P t"] by (simp add: sql_count_def)
qed

lemma evolves_put:
  assumes "distinct (map key t)" and "r \<in> set t" and "key r' = key r" and "R\<^sup>*\<^sup>* r r'"
  shows "evolves N R t (sql_put key r' t)"
  unfolding sql_put_def
proof (rule evolves_update)
  fix x assume "x \<in> set t" and "key x = key r'"
  then have "x = r"
    using distinct_key_unique [OF assms(1) _ assms(2)] assms(3) by simp
  with assms(4) show "R\<^sup>*\<^sup>* x r'" by simp
qed

end
