(* ===== verification/Fenced_Queue.thy ===== *)
theory Fenced_Queue
  imports Prelude
begin

text \<open>
  The contract of the leased tables (\<open>ingress_events\<close>, \<open>reply_plans\<close>, \<open>outbox_messages\<close>,
  \<open>amocrm_mirror_jobs\<close>). Each row carries a fencing pair \<open>lease_token\<close>/\<open>lease_version\<close>: a claim issues
  a new token and increments the version, a worker may finish the row only while both still match.

  A provider gives the columns of its rows, the row-level step relation of its repository and the
  table-level relation of one repository call, and proves that versions never go back, that a token
  is only ever issued together with a new version, and that finished rows do not move. The lemmas
  below are then proved once: a lease that was consumed or superseded stays dead in every later
  table, a version names at most one token, a finished row is final.
\<close>

section \<open>Fencing\<close>

definition lease_spent ::
  "('r \<Rightarrow> uuid) \<Rightarrow> ('r \<Rightarrow> int) \<Rightarrow> ('r \<Rightarrow> uuid option) \<Rightarrow> uuid \<Rightarrow> int \<Rightarrow> 'r list \<Rightarrow> bool" where
  "lease_spent key ver tok k v t =
     (case sql_one (\<lambda>r. key r = k) t of
        None \<Rightarrow> False
      | Some r \<Rightarrow> v < ver r \<or> v = ver r \<and> tok r = None)"

locale fenced_table =
  fixes key :: "'r \<Rightarrow> uuid"
    and ver :: "'r \<Rightarrow> int"
    and tok :: "'r \<Rightarrow> uuid option"
    and fin :: "'r \<Rightarrow> bool"
    and new :: "'r \<Rightarrow> bool"
    and step :: "'r \<Rightarrow> 'r \<Rightarrow> bool"
    and run :: "'r list \<Rightarrow> 'r list \<Rightarrow> bool"
  assumes step_key: "step r r' \<Longrightarrow> key r' = key r"
    and step_ver: "step r r' \<Longrightarrow> ver r \<le> ver r'"
    and step_tok: "step r r' \<Longrightarrow> ver r' = ver r \<Longrightarrow> tok r' = tok r \<or> tok r' = None"
    and step_fin: "step r r' \<Longrightarrow> fin r \<Longrightarrow> r' = r"
    and run_evolves: "run t t' \<Longrightarrow> distinct (map key t) \<Longrightarrow> evolves new step t t'"
    and run_distinct: "run t t' \<Longrightarrow> distinct (map key t) \<Longrightarrow> distinct (map key t')"
begin

lemma steps_key: "step\<^sup>*\<^sup>* r r' \<Longrightarrow> key r' = key r"
  by (induction rule: rtranclp_induct) (auto dest: step_key)

lemma steps_ver: "step\<^sup>*\<^sup>* r r' \<Longrightarrow> ver r \<le> ver r'"
  by (induction rule: rtranclp_induct) (auto dest: step_ver)

lemma steps_fin: "step\<^sup>*\<^sup>* r r' \<Longrightarrow> fin r \<Longrightarrow> r' = r"
  by (induction rule: rtranclp_induct) (auto dest: step_fin)

lemma steps_tok: "step\<^sup>*\<^sup>* r r' \<Longrightarrow> ver r' = ver r \<Longrightarrow> tok r' = tok r \<or> tok r' = None"
proof (induction rule: rtranclp_induct)
  case base
  then show ?case by simp
next
  case (step y z)
  have "ver r \<le> ver y" and "ver y \<le> ver z"
    using step.hyps by (auto dest: steps_ver step_ver)
  with step.prems have same: "ver y = ver r" "ver z = ver y"
    by simp_all
  with step.IH step_tok [OF step.hyps(2)] show ?case by auto
qed

lemma runs_distinct: "run\<^sup>*\<^sup>* t t' \<Longrightarrow> distinct (map key t) \<Longrightarrow> distinct (map key t')"
  by (induction rule: rtranclp_induct) (auto dest: run_distinct)

lemma runs_evolve: "run\<^sup>*\<^sup>* t t' \<Longrightarrow> distinct (map key t) \<Longrightarrow> evolves new step t t'"
proof (induction rule: rtranclp_induct)
  case base
  then show ?case by simp
next
  case (step y z)
  with runs_distinct run_evolves evolves_trans show ?case by metis
qed

lemma runs_row:
  assumes "run\<^sup>*\<^sup>* t t'" and "distinct (map key t)" and "sql_one (\<lambda>x. key x = k) t = Some r"
  obtains r' where "sql_one (\<lambda>x. key x = k) t' = Some r'" and "step\<^sup>*\<^sup>* r r'"
  using evolves_lookup [OF runs_evolve [OF assms(1,2)] step_key assms(3)] by blast

text \<open>A finished row is found unchanged in every later table.\<close>

lemma finished_row_final:
  assumes "run\<^sup>*\<^sup>* t t'" and "distinct (map key t)"
    and "sql_one (\<lambda>x. key x = k) t = Some r" and "fin r"
  shows "sql_one (\<lambda>x. key x = k) t' = Some r"
  using runs_row [OF assms(1-3)] steps_fin assms(4) by metis

text \<open>A spent lease stays spent.\<close>

lemma spent_stays:
  assumes "run\<^sup>*\<^sup>* t t'" and "distinct (map key t)" and "lease_spent key ver tok k v t"
  shows "lease_spent key ver tok k v t'"
proof -
  obtain r where look: "sql_one (\<lambda>x. key x = k) t = Some r"
    and lost: "v < ver r \<or> v = ver r \<and> tok r = None"
    using assms(3) by (auto simp: lease_spent_def split: option.splits)
  obtain r' where look': "sql_one (\<lambda>x. key x = k) t' = Some r'" and steps: "step\<^sup>*\<^sup>* r r'"
    using runs_row [OF assms(1,2) look] by blast
  have "v < ver r' \<or> v = ver r' \<and> tok r' = None"
    using lost steps_ver [OF steps] steps_tok [OF steps] by fastforce
  with look' show ?thesis by (simp add: lease_spent_def)
qed

text \<open>No row holds a spent lease, so no fenced update matches it.\<close>

lemma spent_not_held:
  assumes "lease_spent key ver tok k v t" and "distinct (map key t)"
    and "r \<in> set t" and "key r = k" and "ver r = v"
  shows "tok r = None"
proof -
  have "sql_one (\<lambda>x. key x = k) t = Some r"
    using sql_one_the_row [OF assms(2,3)] assms(4) by simp
  with assms(1,5) show ?thesis by (simp add: lease_spent_def)
qed

text \<open>One version, one token: two holders of the same version of a row are the same holder.\<close>

lemma version_names_token:
  assumes "run\<^sup>*\<^sup>* t t'" and "distinct (map key t)"
    and "sql_one (\<lambda>x. key x = k) t = Some r" and "sql_one (\<lambda>x. key x = k) t' = Some r'"
    and "ver r' = ver r" and "tok r = Some a" and "tok r' = Some b"
  shows "a = b"
proof -
  have "step\<^sup>*\<^sup>* r r'"
    using runs_row [OF assms(1-3)] assms(4) by (metis option.inject)
  from steps_tok [OF this assms(5)] assms(6,7) show ?thesis by simp
qed

end

section \<open>Bounded attempts\<close>

text \<open>
  Where each new version is also an attempt and attempts stop at \<open>max_attempts\<close>, the number of leases
  ever issued for a row is bounded: this is what ends the retries.
\<close>

locale bounded_leases = fenced_table key ver tok fin new step run
  for key :: "'r \<Rightarrow> uuid" and ver tok fin new step run +
  fixes att :: "'r \<Rightarrow> int"
    and mx :: "'r \<Rightarrow> int"
  assumes new_att: "new r \<Longrightarrow> att r = 0 \<and> ver r = 0 \<and> 0 < mx r"
    and step_att: "step r r' \<Longrightarrow> att r' - att r = ver r' - ver r"
    and step_mx: "step r r' \<Longrightarrow> mx r' = mx r"
    and step_bound: "step r r' \<Longrightarrow> att r \<le> mx r \<Longrightarrow> att r' \<le> mx r"
begin

lemma attempts_are_versions:
  assumes "run\<^sup>*\<^sup>* [] t" and "r \<in> set t"
  shows "att r = ver r" and "ver r \<le> mx r" and "0 \<le> ver r"
proof -
  have "\<forall>r \<in> set t. att r = ver r \<and> att r \<le> mx r \<and> 0 \<le> ver r"
  proof (rule evolves_invariant [OF runs_evolve [OF assms(1)]])
    show "distinct (map key [])" by simp
  next
    fix x y assume "step x y" and "att x = ver x \<and> att x \<le> mx x \<and> 0 \<le> ver x"
    then show "att y = ver y \<and> att y \<le> mx y \<and> 0 \<le> ver y"
      using step_att [of x y] step_mx [of x y] step_bound [of x y] step_ver [of x y] by simp
  qed (auto dest: new_att)
  with assms(2) show "att r = ver r" and "ver r \<le> mx r" and "0 \<le> ver r" by auto
qed

end

end
