(* ===== verification/Ingress.thy ===== *)
theory Ingress
  imports Fenced_Queue
begin

text \<open>
  The durable ingress queue: the table \<open>ingress_events\<close> (models/ingress.py) and its repository
  (repositories/ingress.py). Every provider event is inserted once per (channel, external id) before
  the source is acknowledged; workers lease rows, complete or fail them under the fencing pair, and
  a row whose attempts are used up is dead.

  The clock, the generated identifiers and the rows that other transactions hold locked
  (\<open>FOR UPDATE SKIP LOCKED\<close>) are arguments. The column \<open>updated_at\<close>, which nothing reads, is left out.
\<close>

section \<open>Data\<close>

datatype IngressEventType =
    SYNTHETIC_MESSAGE
  | AMOCRM_MANAGER_MESSAGE
  | VK_CLIENT_MESSAGE
  | VK_CLIENT_MESSAGE_REPLY

datatype IngressChannel = Ing_synthetic | Ing_amocrm | Ing_vk

datatype IngressStatus =
    Ing_RECEIVED
  | Ing_PROCESSING
  | Ing_PROCESSED
  | Ing_FAILED
  | Ing_DEAD

fun INGRESS_TRANSITIONS :: "IngressStatus \<Rightarrow> IngressStatus list" where
  "INGRESS_TRANSITIONS Ing_RECEIVED = [Ing_PROCESSING]"
| "INGRESS_TRANSITIONS Ing_PROCESSING = [Ing_PROCESSED, Ing_FAILED, Ing_DEAD]"
| "INGRESS_TRANSITIONS Ing_FAILED = [Ing_PROCESSING, Ing_DEAD]"
| "INGRESS_TRANSITIONS Ing_PROCESSED = []"
| "INGRESS_TRANSITIONS Ing_DEAD = []"

definition ingress_transition_allowed :: "IngressStatus \<Rightarrow> IngressStatus \<Rightarrow> bool" where
  "ingress_transition_allowed current target = (target \<in> set (INGRESS_TRANSITIONS current))"

record ingress_event =
  ie_id :: uuid
  ie_channel :: IngressChannel
  ie_external_event_id :: string
  ie_external_conversation_id :: string
  ie_event_type :: IngressEventType
  ie_status :: IngressStatus
  ie_attempt_count :: int
  ie_max_attempts :: int
  ie_next_attempt_at :: "moment option"
  ie_lease_owner :: "string option"
  ie_lease_token :: "uuid option"
  ie_lease_version :: int
  ie_lease_until :: "moment option"
  ie_correlation_id :: uuid
  ie_envelope_json :: payload
  ie_error_code :: "string option"
  ie_created_at :: moment

text \<open>The table constraint \<open>ck_ingress_channel_event_pairing\<close>, which the code mirrors at run time.\<close>

fun ingress_pairing :: "IngressChannel \<Rightarrow> IngressEventType \<Rightarrow> bool" where
  "ingress_pairing Ing_synthetic ty = (ty = SYNTHETIC_MESSAGE)"
| "ingress_pairing Ing_amocrm ty = (ty = AMOCRM_MANAGER_MESSAGE)"
| "ingress_pairing Ing_vk ty = (ty = VK_CLIENT_MESSAGE \<or> ty = VK_CLIENT_MESSAGE_REPLY)"

record ingress_claim =
  ic_event_id :: uuid
  ic_channel :: IngressChannel
  ic_external_event_id :: string
  ic_external_conversation_id :: string
  ic_event_type :: IngressEventType
  ic_status :: IngressStatus
  ic_attempt_count :: int
  ic_max_attempts :: int
  ic_lease_owner :: string
  ic_lease_token :: uuid
  ic_lease_version :: int
  ic_lease_until :: moment
  ic_correlation_id :: uuid
  ic_envelope_json :: payload

section \<open>Operations\<close>

definition ingress_row_to_claim :: "ingress_event \<Rightarrow> exn + ingress_claim" where
  "ingress_row_to_claim row =
     (case (ie_lease_token row, ie_lease_owner row, ie_lease_until row) of
        (Some token, Some owner, Some until) \<Rightarrow>
          Inr \<lparr> ic_event_id = ie_id row,
                ic_channel = ie_channel row,
                ic_external_event_id = ie_external_event_id row,
                ic_external_conversation_id = ie_external_conversation_id row,
                ic_event_type = ie_event_type row,
                ic_status = ie_status row,
                ic_attempt_count = ie_attempt_count row,
                ic_max_attempts = ie_max_attempts row,
                ic_lease_owner = owner,
                ic_lease_token = token,
                ic_lease_version = ie_lease_version row,
                ic_lease_until = until,
                ic_correlation_id = ie_correlation_id row,
                ic_envelope_json = ie_envelope_json row \<rparr>
      | _ \<Rightarrow> Inl (RuntimeError ''INGRESS_LEASE_INCOMPLETE''))"

definition ingress_get_by_channel_external ::
  "IngressChannel \<Rightarrow> string \<Rightarrow> ingress_event list \<Rightarrow> ingress_event option" where
  "ingress_get_by_channel_external channel ext t =
     sql_one (\<lambda>r. (ie_channel r, ie_external_event_id r) = (channel, ext)) t"

definition ingress_get_by_id :: "uuid \<Rightarrow> ingress_event list \<Rightarrow> ingress_event option" where
  "ingress_get_by_id event_id t = sql_one (\<lambda>r. ie_id r = event_id) t"

definition assert_channel_event_pairing ::
  "IngressChannel \<Rightarrow> IngressEventType \<Rightarrow> exn + unit" where
  "assert_channel_event_pairing channel event_type =
     (case channel of
        Ing_amocrm \<Rightarrow>
          if event_type \<noteq> AMOCRM_MANAGER_MESSAGE
          then Inl (ValueError ''INGRESS_CHANNEL_EVENT_MISMATCH'') else Inr ()
      | Ing_synthetic \<Rightarrow>
          if event_type \<noteq> SYNTHETIC_MESSAGE
          then Inl (ValueError ''INGRESS_CHANNEL_EVENT_MISMATCH'') else Inr ()
      | Ing_vk \<Rightarrow>
          if event_type \<notin> {VK_CLIENT_MESSAGE, VK_CLIENT_MESSAGE_REPLY}
          then Inl (ValueError ''INGRESS_CHANNEL_EVENT_MISMATCH'') else Inr ())"

definition ingress_new_row ::
  "uuid \<Rightarrow> moment \<Rightarrow> IngressChannel \<Rightarrow> string \<Rightarrow> string \<Rightarrow> IngressEventType \<Rightarrow> payload \<Rightarrow> uuid \<Rightarrow> int
     \<Rightarrow> ingress_event" where
  "ingress_new_row new_id now channel ext conv event_type envelope corr max_attempts =
     \<lparr> ie_id = new_id, ie_channel = channel, ie_external_event_id = ext,
       ie_external_conversation_id = conv, ie_event_type = event_type,
       ie_status = Ing_RECEIVED, ie_attempt_count = 0, ie_max_attempts = max_attempts,
       ie_next_attempt_at = None, ie_lease_owner = None, ie_lease_token = None,
       ie_lease_version = 0, ie_lease_until = None, ie_correlation_id = corr,
       ie_envelope_json = envelope, ie_error_code = None, ie_created_at = now \<rparr>"

text \<open>
  \<open>INSERT ... ON CONFLICT (channel, external_event_id) DO NOTHING\<close> and the SELECT after it. A clash of
  the generated primary key is not covered by the conflict clause and raises.
\<close>

definition ingress_insert_if_absent ::
  "uuid \<Rightarrow> moment \<Rightarrow> IngressChannel \<Rightarrow> string \<Rightarrow> string \<Rightarrow> IngressEventType \<Rightarrow> payload \<Rightarrow> uuid \<Rightarrow> int
     \<Rightarrow> ingress_event list \<Rightarrow> exn + ((ingress_event \<times> bool) \<times> ingress_event list)" where
  "ingress_insert_if_absent new_id now channel ext conv event_type envelope corr max_attempts t =
     (if max_attempts \<le> 0 then Inl (ValueError ''max_attempts must be positive'')
      else case assert_channel_event_pairing channel event_type of
        Inl e \<Rightarrow> Inl e
      | Inr _ \<Rightarrow>
          (case ingress_get_by_channel_external channel ext t of
             Some existing \<Rightarrow> Inr ((existing, False), t)
           | None \<Rightarrow>
               if ingress_get_by_id new_id t \<noteq> None then Inl (IntegrityError ''pk_ingress_events'')
               else
                 let t' = t @ [ingress_new_row new_id now channel ext conv event_type envelope corr
                                max_attempts]
                 in case ingress_get_by_channel_external channel ext t' of
                      None \<Rightarrow> Inl (RuntimeError ''INGRESS_LOOKUP_FAILED'')
                    | Some event \<Rightarrow> Inr ((event, True), t')))"

definition ingress_lease_expired :: "moment \<Rightarrow> ingress_event \<Rightarrow> bool" where
  "ingress_lease_expired now r = (case ie_lease_until r of None \<Rightarrow> False | Some u \<Rightarrow> u < now)"

definition ingress_close_row ::
  "IngressStatus \<Rightarrow> moment option \<Rightarrow> string option \<Rightarrow> ingress_event \<Rightarrow> ingress_event" where
  "ingress_close_row target next_at code r =
     r \<lparr> ie_status := target, ie_lease_owner := None, ie_lease_token := None,
         ie_lease_until := None, ie_next_attempt_at := next_at, ie_error_code := code \<rparr>"

definition ingress_exhausted :: "moment \<Rightarrow> ingress_event \<Rightarrow> bool" where
  "ingress_exhausted now r =
     (ie_status r = Ing_PROCESSING \<and> ingress_lease_expired now r \<and>
      ie_attempt_count r \<ge> ie_max_attempts r)"

definition ingress_recover_exhausted_leases ::
  "moment \<Rightarrow> ingress_event list \<Rightarrow> nat \<times> ingress_event list" where
  "ingress_recover_exhausted_leases now t =
     (sql_count (ingress_exhausted now) t,
      sql_update (ingress_exhausted now)
        (ingress_close_row Ing_DEAD None (Some ''LEASE_ATTEMPTS_EXHAUSTED'')) t)"

definition ingress_claimable :: "moment \<Rightarrow> ingress_event \<Rightarrow> bool" where
  "ingress_claimable now r =
     (ie_attempt_count r < ie_max_attempts r \<and>
      (ie_status r = Ing_RECEIVED \<or>
       ie_status r = Ing_FAILED \<and>
         (case ie_next_attempt_at r of None \<Rightarrow> False | Some n \<Rightarrow> n \<le> now) \<or>
       ie_status r = Ing_PROCESSING \<and> ingress_lease_expired now r))"

definition ingress_lease_row ::
  "string \<Rightarrow> uuid \<Rightarrow> moment \<Rightarrow> ingress_event \<Rightarrow> ingress_event" where
  "ingress_lease_row worker token until r =
     r \<lparr> ie_status := Ing_PROCESSING, ie_lease_owner := Some worker, ie_lease_token := Some token,
         ie_lease_version := ie_lease_version r + 1, ie_lease_until := Some until,
         ie_attempt_count := ie_attempt_count r + 1, ie_next_attempt_at := None,
         ie_error_code := None \<rparr>"

definition ingress_claim_next ::
  "string \<Rightarrow> int \<Rightarrow> moment \<Rightarrow> uuid \<Rightarrow> (uuid \<Rightarrow> bool) \<Rightarrow> ingress_event list
     \<Rightarrow> exn + (ingress_claim option \<times> ingress_event list)" where
  "ingress_claim_next worker lease_seconds now token locked t =
     (if lease_seconds \<le> 0 then Inl (ValueError ''lease_seconds must be positive'')
      else
        let t1 = snd (ingress_recover_exhausted_leases now t);
            until = now + seconds lease_seconds
        in case sql_first_by ie_created_at
                  (\<lambda>r. ingress_claimable now r \<and> \<not> locked (ie_id r)) t1 of
             None \<Rightarrow> Inr (None, t1)
           | Some cand \<Rightarrow>
               let t2 = sql_update (\<lambda>r. ie_id r = ie_id cand)
                          (ingress_lease_row worker token until) t1
               in case ingress_get_by_id (ie_id cand) t2 of
                    None \<Rightarrow> Inl (RuntimeError ''INGRESS_CLAIM_LOOKUP_FAILED'')
                  | Some event \<Rightarrow>
                      (case ingress_row_to_claim event of
                         Inl e \<Rightarrow> Inl e
                       | Inr claim \<Rightarrow> Inr (Some claim, t2)))"

definition ingress_held :: "uuid \<Rightarrow> uuid \<Rightarrow> int \<Rightarrow> ingress_event \<Rightarrow> bool" where
  "ingress_held event_id token version r =
     (ie_id r = event_id \<and> ie_status r = Ing_PROCESSING \<and> ie_lease_token r = Some token \<and>
      ie_lease_version r = version)"

definition ingress_complete_with_lease ::
  "uuid \<Rightarrow> uuid \<Rightarrow> int \<Rightarrow> ingress_event list \<Rightarrow> exn + (ingress_event \<times> ingress_event list)" where
  "ingress_complete_with_lease event_id token version t =
     (if \<not> ingress_transition_allowed Ing_PROCESSING Ing_PROCESSED
      then Inl (IngressStateError ''INGRESS_TRANSITION_DENIED'')
      else if sql_count (ingress_held event_id token version) t = 0
      then Inl (StaleIngressLeaseError ''INGRESS_STALE_LEASE'')
      else
        let t' = sql_update (ingress_held event_id token version)
                   (ingress_close_row Ing_PROCESSED None None) t
        in case ingress_get_by_id event_id t' of
             None \<Rightarrow> Inl (RuntimeError ''INGRESS_LOOKUP_FAILED'')
           | Some event \<Rightarrow> Inr (event, t'))"

definition ingress_fail_with_lease ::
  "uuid \<Rightarrow> uuid \<Rightarrow> int \<Rightarrow> string \<Rightarrow> int \<Rightarrow> moment \<Rightarrow> ingress_event list
     \<Rightarrow> exn + (ingress_event \<times> ingress_event list)" where
  "ingress_fail_with_lease event_id token version error_code retry_delay_seconds now t =
     (case ingress_get_by_id event_id t of
        None \<Rightarrow> Inl (RuntimeError ''INGRESS_LOOKUP_FAILED'')
      | Some event \<Rightarrow>
          if \<not> ingress_held event_id token version event
          then Inl (StaleIngressLeaseError ''INGRESS_STALE_LEASE'')
          else
            let dead = ie_attempt_count event \<ge> ie_max_attempts event;
                target = (if dead then Ing_DEAD else Ing_FAILED);
                next_at = (if dead then None else Some (now + seconds retry_delay_seconds))
            in if \<not> ingress_transition_allowed Ing_PROCESSING target
               then Inl (IngressStateError ''INGRESS_TRANSITION_DENIED'')
               else if sql_count (ingress_held event_id token version) t = 0
               then Inl (StaleIngressLeaseError ''INGRESS_STALE_LEASE'')
               else
                 let t' = sql_update (ingress_held event_id token version)
                            (ingress_close_row target next_at (Some (take 64 error_code))) t
                 in case ingress_get_by_id event_id t' of
                      None \<Rightarrow> Inl (RuntimeError ''INGRESS_LOOKUP_FAILED'')
                    | Some refreshed \<Rightarrow> Inr (refreshed, t'))"

section \<open>Row steps and repository calls\<close>

definition ingress_new :: "ingress_event \<Rightarrow> bool" where
  "ingress_new r =
     (ie_status r = Ing_RECEIVED \<and> ie_attempt_count r = 0 \<and> ie_lease_version r = 0 \<and>
      0 < ie_max_attempts r \<and> ie_next_attempt_at r = None \<and> ie_lease_owner r = None \<and>
      ie_lease_token r = None \<and> ie_lease_until r = None \<and>
      ingress_pairing (ie_channel r) (ie_event_type r))"

definition ingress_finished :: "ingress_event \<Rightarrow> bool" where
  "ingress_finished r = (ie_status r = Ing_PROCESSED \<or> ie_status r = Ing_DEAD)"

inductive ingress_step :: "ingress_event \<Rightarrow> ingress_event \<Rightarrow> bool" where
  claim: "ingress_claimable now r \<Longrightarrow> ingress_step r (ingress_lease_row w token until r)"
| complete: "ie_status r = Ing_PROCESSING \<Longrightarrow>
    ingress_step r (ingress_close_row Ing_PROCESSED None None r)"
| retry: "ie_status r = Ing_PROCESSING \<Longrightarrow> ie_attempt_count r < ie_max_attempts r \<Longrightarrow>
    ingress_step r (ingress_close_row Ing_FAILED (Some n) (Some code) r)"
| dead: "ie_status r = Ing_PROCESSING \<Longrightarrow> ie_attempt_count r \<ge> ie_max_attempts r \<Longrightarrow>
    ingress_step r (ingress_close_row Ing_DEAD None (Some code) r)"

inductive ingress_run :: "ingress_event list \<Rightarrow> ingress_event list \<Rightarrow> bool" where
  insert: "ingress_insert_if_absent i now ch ext conv ty env corr mx t = Inr (res, t') \<Longrightarrow>
    ingress_run t t'"
| recover: "ingress_recover_exhausted_leases now t = (n, t') \<Longrightarrow> ingress_run t t'"
| claim: "ingress_claim_next w secs now token locked t = Inr (c, t') \<Longrightarrow> ingress_run t t'"
| complete: "ingress_complete_with_lease i token v t = Inr (ev, t') \<Longrightarrow> ingress_run t t'"
| fail: "ingress_fail_with_lease i token v code delay now t = Inr (ev, t') \<Longrightarrow> ingress_run t t'"

lemmas ingress_row_defs =
  ingress_lease_row_def ingress_close_row_def ingress_claimable_def ingress_held_def
  ingress_exhausted_def

lemma ingress_row_keeps [simp]:
  "ie_id (ingress_lease_row w token u r) = ie_id r"
  "ie_id (ingress_close_row target n c r) = ie_id r"
  "ie_channel (ingress_lease_row w token u r) = ie_channel r"
  "ie_channel (ingress_close_row target n c r) = ie_channel r"
  "ie_external_event_id (ingress_lease_row w token u r) = ie_external_event_id r"
  "ie_external_event_id (ingress_close_row target n c r) = ie_external_event_id r"
  by (simp_all add: ingress_row_defs)

lemma assert_channel_event_pairing_iff:
  "assert_channel_event_pairing ch ty = Inr () \<longleftrightarrow> ingress_pairing ch ty"
  by (cases ch) (auto simp: assert_channel_event_pairing_def)

lemma ingress_insertE:
  assumes "ingress_insert_if_absent i now ch ext conv ty env corr mx t = Inr ((ev, created), t')"
  obtains (old) "\<not> created" and "t' = t" and "ingress_get_by_channel_external ch ext t = Some ev"
    | (new) "created" and "ev = ingress_new_row i now ch ext conv ty env corr mx" and "t' = t @ [ev]"
        and "ingress_get_by_channel_external ch ext t = None" and "ingress_get_by_id i t = None"
        and "ingress_new ev"
proof -
  have pair: "ingress_pairing ch ty"
    using assms assert_channel_event_pairing_iff [of ch ty]
    by (auto simp: ingress_insert_if_absent_def split: if_splits sum.splits)
  show ?thesis
    using assms that pair
    by (auto simp: ingress_insert_if_absent_def Let_def ingress_get_by_channel_external_def
        ingress_new_row_def ingress_new_def sql_one_append split: if_splits sum.splits option.splits)
qed

lemma ingress_recover_evolves:
  "evolves N ingress_step t (snd (ingress_recover_exhausted_leases now t))"
  by (auto simp: ingress_recover_exhausted_leases_def ingress_exhausted_def
      intro!: evolves_update1 ingress_step.dead)

lemma ingress_recover_keys [simp]:
  "map ie_id (snd (ingress_recover_exhausted_leases now t)) = map ie_id t"
  "map (\<lambda>r. (ie_channel r, ie_external_event_id r)) (snd (ingress_recover_exhausted_leases now t)) =
   map (\<lambda>r. (ie_channel r, ie_external_event_id r)) t"
  by (simp_all add: ingress_recover_exhausted_leases_def map_sql_update)

lemma ingress_row_to_claim_Inr:
  "ingress_row_to_claim row = Inr claim \<Longrightarrow>
     ic_event_id claim = ie_id row \<and> ie_lease_token row = Some (ic_lease_token claim) \<and>
     ic_lease_version claim = ie_lease_version row \<and> ic_attempt_count claim = ie_attempt_count row"
  by (auto simp: ingress_row_to_claim_def split: option.splits)

lemma ingress_claimE:
  assumes "ingress_claim_next w secs now token locked t = Inr (c, t')"
  obtains (idle) "c = None" and "t' = snd (ingress_recover_exhausted_leases now t)"
      and "\<forall>r \<in> set t'. ingress_claimable now r \<longrightarrow> locked (ie_id r)"
    | (row) t1 cand event claim where "t1 = snd (ingress_recover_exhausted_leases now t)"
      and "cand \<in> set t1" and "ingress_claimable now cand" and "\<not> locked (ie_id cand)"
      and "\<forall>r \<in> set t1. ingress_claimable now r \<and> \<not> locked (ie_id r) \<longrightarrow>
             ie_created_at cand \<le> ie_created_at r"
      and "t' = sql_update (\<lambda>r. ie_id r = ie_id cand)
             (ingress_lease_row w token (now + seconds secs)) t1"
      and "c = Some claim" and "ic_event_id claim = ie_id cand"
      and "ingress_get_by_id (ie_id cand) t' = Some event" and "ingress_row_to_claim event = Inr claim"
proof (cases "sql_first_by ie_created_at (\<lambda>r. ingress_claimable now r \<and> \<not> locked (ie_id r))
    (snd (ingress_recover_exhausted_leases now t))")
  case None
  then have "c = None" and "t' = snd (ingress_recover_exhausted_leases now t)"
    using assms by (auto simp: ingress_claim_next_def Let_def split: if_splits)
  with None show ?thesis by (intro idle) (auto simp: sql_first_by_None)
next
  case (Some cand)
  note cand = sql_first_by_Some [OF Some]
  from assms Some obtain event claim
    where t': "t' = sql_update (\<lambda>r. ie_id r = ie_id cand)
        (ingress_lease_row w token (now + seconds secs))
        (snd (ingress_recover_exhausted_leases now t))"
      and event: "ingress_get_by_id (ie_id cand) t' = Some event"
      and claim: "ingress_row_to_claim event = Inr claim" and c: "c = Some claim"
    by (auto simp: ingress_claim_next_def Let_def split: if_splits option.splits sum.splits)
  have "ic_event_id claim = ie_id cand"
    using sql_one_Some [OF event [unfolded ingress_get_by_id_def]] ingress_row_to_claim_Inr [OF claim]
    by simp
  with cand t' c event claim show ?thesis by (intro row) auto
qed

lemma ingress_claim_total:
  assumes "0 < secs"
  shows "\<exists>c t'. ingress_claim_next w secs now token locked t = Inr (c, t')"
proof (cases "sql_first_by ie_created_at (\<lambda>r. ingress_claimable now r \<and> \<not> locked (ie_id r))
    (snd (ingress_recover_exhausted_leases now t))")
  case None
  with assms show ?thesis by (simp add: ingress_claim_next_def Let_def)
next
  case (Some cand)
  let ?t1 = "snd (ingress_recover_exhausted_leases now t)"
  obtain r where "sql_one (\<lambda>x. ie_id x = ie_id cand) ?t1 = Some r" and "ie_id r = ie_id cand"
    using sql_first_by_Some [OF Some]
    by (cases "sql_one (\<lambda>x. ie_id x = ie_id cand) ?t1") (auto simp: sql_one_None dest: sql_one_Some)
  then have "ingress_get_by_id (ie_id cand) (sql_update (\<lambda>r. ie_id r = ie_id cand)
      (ingress_lease_row w token (now + seconds secs)) ?t1) =
      Some (ingress_lease_row w token (now + seconds secs) r)"
    unfolding ingress_get_by_id_def by (subst sql_one_update) auto
  with Some assms show ?thesis
    by (simp add: ingress_claim_next_def Let_def ingress_row_to_claim_def ingress_lease_row_def)
qed

lemma ingress_claim_evolves:
  assumes "ingress_claim_next w secs now token locked t = Inr (c, t')" and "distinct (map ie_id t)"
  shows "evolves N ingress_step t t'"
  using assms(1)
proof (cases rule: ingress_claimE)
  case idle
  then show ?thesis by (simp add: ingress_recover_evolves)
next
  case (row t1 cand event claim)
  have "distinct (map ie_id t1)"
    using assms(2) row(1) by simp
  then have "r = cand" if "r \<in> set t1" "ie_id r = ie_id cand" for r
    using that row(2) by (metis distinct_map inj_on_def)
  then have "evolves N ingress_step t1 t'"
    unfolding row(6) using row(3) by (intro evolves_update1) (auto intro: ingress_step.claim)
  with row(1) show ?thesis by (metis evolves_trans ingress_recover_evolves)
qed

lemma ingress_completeE:
  assumes "ingress_complete_with_lease i token v t = Inr (ev, t')"
  obtains r where "r \<in> set t" and "ingress_held i token v r"
    and "t' = sql_update (ingress_held i token v) (ingress_close_row Ing_PROCESSED None None) t"
    and "ingress_get_by_id i t' = Some ev"
  using assms
  by (auto simp: ingress_complete_with_lease_def Let_def sql_count_0
      split: if_splits option.splits)

lemma ingress_failE:
  assumes "ingress_fail_with_lease i token v code delay now t = Inr (ev, t')"
  obtains r where "ingress_get_by_id i t = Some r" and "ingress_held i token v r"
    and "ie_attempt_count r < ie_max_attempts r \<Longrightarrow>
           t' = sql_update (ingress_held i token v)
             (ingress_close_row Ing_FAILED (Some (now + seconds delay)) (Some (take 64 code))) t"
    and "ie_attempt_count r \<ge> ie_max_attempts r \<Longrightarrow>
           t' = sql_update (ingress_held i token v)
             (ingress_close_row Ing_DEAD None (Some (take 64 code))) t"
    and "ingress_get_by_id i t' = Some ev"
  using assms
  by (auto simp: ingress_fail_with_lease_def Let_def split: if_splits option.splits)

lemma ingress_run_evolves:
  assumes "ingress_run t t'" and "distinct (map ie_id t)"
  shows "evolves ingress_new ingress_step t t'"
  using assms(1)
proof cases
  case (insert i now ch ext conv ty env corr mx res)
  obtain ev created where "res = (ev, created)" by fastforce
  with insert show ?thesis by (auto elim!: ingress_insertE)
next
  case (recover now n)
  then show ?thesis by (metis ingress_recover_evolves snd_conv)
next
  case claim
  then show ?thesis by (rule ingress_claim_evolves) (rule assms(2))
next
  case (complete i token v ev)
  then show ?thesis
    by (elim ingress_completeE) (auto simp: ingress_held_def intro!: evolves_update1 ingress_step.complete)
next
  case (fail i token v code delay now ev)
  from fail obtain r where r: "ingress_get_by_id i t = Some r"
    and upd: "ie_attempt_count r < ie_max_attempts r \<Longrightarrow>
           t' = sql_update (ingress_held i token v)
             (ingress_close_row Ing_FAILED (Some (now + seconds delay)) (Some (take 64 code))) t"
      "ie_attempt_count r \<ge> ie_max_attempts r \<Longrightarrow>
           t' = sql_update (ingress_held i token v)
             (ingress_close_row Ing_DEAD None (Some (take 64 code))) t"
    by (elim ingress_failE) blast
  have "ie_id r = i" and "r \<in> set t"
    using sql_one_Some [OF r [unfolded ingress_get_by_id_def]] by simp_all
  then have only: "x = r" if "x \<in> set t" "ingress_held i token v x" for x
    using that assms(2) by (metis distinct_map inj_on_def ingress_held_def)
  show ?thesis
    by (cases "ie_attempt_count r < ie_max_attempts r")
      (auto simp: upd dest!: only simp: ingress_held_def not_less
        intro!: evolves_update1 ingress_step.retry ingress_step.dead)
qed

text \<open>
  Every call keeps the key columns of all rows, or appends one row whose keys are new.
\<close>

definition ie_keys :: "ingress_event \<Rightarrow> uuid \<times> IngressChannel \<times> string" where
  "ie_keys r = (ie_id r, ie_channel r, ie_external_event_id r)"

lemma ie_keys_rows [simp]:
  "ie_keys (ingress_lease_row w token u r) = ie_keys r"
  "ie_keys (ingress_close_row target n c r) = ie_keys r"
  by (simp_all add: ie_keys_def)

lemma ingress_run_columns:
  assumes "ingress_run t t'"
  shows "map ie_keys t' = map ie_keys t \<or>
    (\<exists>ev. t' = t @ [ev] \<and>
      (\<forall>x \<in> set t. fst (ie_keys x) \<noteq> fst (ie_keys ev) \<and> snd (ie_keys x) \<noteq> snd (ie_keys ev)))"
  using assms
proof cases
  case (insert i now ch ext conv ty env corr mx res)
  obtain ev created where "res = (ev, created)" by fastforce
  with insert show ?thesis
    by (auto elim!: ingress_insertE simp: ingress_new_row_def ie_keys_def sql_one_None
        ingress_get_by_id_def ingress_get_by_channel_external_def)
next
  case (recover now n)
  then show ?thesis by (auto simp: ingress_recover_exhausted_leases_def map_sql_update)
next
  case (claim w secs now token locked c)
  from claim show ?thesis
    by (cases rule: ingress_claimE)
      (auto simp: ingress_recover_exhausted_leases_def map_sql_update)
next
  case (complete i token v ev)
  then show ?thesis by (elim ingress_completeE) (simp add: map_sql_update)
next
  case (fail i token v code delay now ev)
  then show ?thesis
    by (elim ingress_failE) (metis ie_keys_rows(2) linorder_not_le map_sql_update)
qed

lemma ingress_run_distinct:
  assumes "ingress_run t t'"
  shows "distinct (map ie_id t) \<Longrightarrow> distinct (map ie_id t')"
    and "distinct (map (\<lambda>r. snd (ie_keys r)) t) \<Longrightarrow> distinct (map (\<lambda>r. snd (ie_keys r)) t')"
proof -
  have "map ie_keys t' = map ie_keys t \<or>
    (\<exists>ev. t' = t @ [ev] \<and> (\<forall>x \<in> set t. fst (ie_keys x) \<noteq> fst (ie_keys ev)))"
    using ingress_run_columns [OF assms] by blast
  from distinct_columns [OF this]
  show "distinct (map ie_id t) \<Longrightarrow> distinct (map ie_id t')"
    by (simp add: ie_keys_def)
  have "map ie_keys t' = map ie_keys t \<or>
    (\<exists>ev. t' = t @ [ev] \<and> (\<forall>x \<in> set t. snd (ie_keys x) \<noteq> snd (ie_keys ev)))"
    using ingress_run_columns [OF assms] by blast
  from distinct_columns [OF this]
  show "distinct (map (\<lambda>r. snd (ie_keys r)) t) \<Longrightarrow> distinct (map (\<lambda>r. snd (ie_keys r)) t')" .
qed

section \<open>The contract, discharged\<close>

lemma ingress_step_fenced:
  assumes "ingress_step r r'"
  shows "ie_id r' = ie_id r" and "ie_lease_version r \<le> ie_lease_version r'"
    and "ie_lease_version r' = ie_lease_version r \<Longrightarrow> ie_lease_token r' = None"
    and "\<not> ingress_finished r"
    and "ie_attempt_count r' - ie_attempt_count r = ie_lease_version r' - ie_lease_version r"
    and "ie_max_attempts r' = ie_max_attempts r"
    and "ie_attempt_count r \<le> ie_max_attempts r \<Longrightarrow> ie_attempt_count r' \<le> ie_max_attempts r"
  using assms by (auto elim!: ingress_step.cases simp: ingress_row_defs ingress_finished_def)

interpretation ingress: bounded_leases ie_id ie_lease_version ie_lease_token ingress_finished
  ingress_new ingress_step ingress_run ie_attempt_count ie_max_attempts
  using ingress_run_evolves ingress_run_distinct(1)
  by unfold_locales (auto dest: ingress_step_fenced simp: ingress_new_def)

lemma ingress_spent_stale:
  assumes "lease_spent ie_id ie_lease_version ie_lease_token i v t" and "distinct (map ie_id t)"
  shows "ingress_complete_with_lease i token v t = Inl (StaleIngressLeaseError ''INGRESS_STALE_LEASE'')"
    and "ingress_fail_with_lease i token v code delay now t =
           Inl (StaleIngressLeaseError ''INGRESS_STALE_LEASE'')"
proof -
  have none: "\<not> ingress_held i token v r" if "r \<in> set t" for r
    using ingress.spent_not_held [OF assms that] by (auto simp: ingress_held_def)
  then show "ingress_complete_with_lease i token v t =
      Inl (StaleIngressLeaseError ''INGRESS_STALE_LEASE'')"
    by (simp add: ingress_complete_with_lease_def ingress_transition_allowed_def sql_count_0)
  obtain r where r: "sql_one (\<lambda>x. ie_id x = i) t = Some r"
    using assms(1) by (auto simp: lease_spent_def split: option.splits)
  with sql_one_Some [OF r] none
  show "ingress_fail_with_lease i token v code delay now t =
      Inl (StaleIngressLeaseError ''INGRESS_STALE_LEASE'')"
    by (simp add: ingress_fail_with_lease_def ingress_get_by_id_def)
qed

text \<open>What a claim did to its row.\<close>

lemma ingress_claim_row:
  assumes "ingress_claim_next w secs now token locked t = Inr (Some c, t')"
    and "distinct (map ie_id t)"
  obtains r where "sql_one (\<lambda>x. ie_id x = ic_event_id c) t = Some r"
    and "ingress_claimable now r" and "\<not> locked (ie_id r)"
    and "sql_one (\<lambda>x. ie_id x = ic_event_id c) t' =
           Some (ingress_lease_row w token (now + seconds secs) r)"
    and "ic_lease_version c = ie_lease_version r + 1" and "ic_lease_token c = token"
    and "ic_attempt_count c = ie_attempt_count r + 1"
  using assms(1)
proof (cases rule: ingress_claimE)
  case idle
  then show ?thesis by simp
next
  case (row t1 cand event claim)
  have "cand \<in> set t"
    using row(2,3) unfolding row(1) ingress_recover_exhausted_leases_def
    by (auto simp: ingress_row_defs elim!: sql_update_cases)
  then have t: "sql_one (\<lambda>x. ie_id x = ie_id cand) t = Some cand"
    by (rule sql_one_the_row [OF assms(2)])
  have "distinct (map ie_id t1)"
    using assms(2) row(1) by simp
  then have "sql_one (\<lambda>x. ie_id x = ie_id cand) t1 = Some cand"
    using row(2) by (rule sql_one_the_row)
  then have t': "sql_one (\<lambda>x. ie_id x = ie_id cand) t' =
      Some (ingress_lease_row w token (now + seconds secs) cand)"
    unfolding row(6) by (subst sql_one_update) auto
  then have "event = ingress_lease_row w token (now + seconds secs) cand"
    using row(9) by (simp add: ingress_get_by_id_def)
  with ingress_row_to_claim_Inr [OF row(10)] t t' row(3,4,7,8) show ?thesis
    by (intro that [of cand]) (simp_all add: ingress_lease_row_def)
qed

lemma ingress_reachable_distinct: "ingress_run\<^sup>*\<^sup>* [] t \<Longrightarrow> distinct (map ie_id t)"
  by (erule ingress.runs_distinct) simp

lemma ingress_reachable_unique:
  "ingress_run\<^sup>*\<^sup>* [] t \<Longrightarrow> distinct (map (\<lambda>r. snd (ie_keys r)) t)"
  by (induction rule: rtranclp_induct) (auto dest: ingress_run_distinct(2))

lemma ingress_close_spends:
  assumes "distinct (map ie_id t)" and "r \<in> set t" and "ingress_held i token v r"
  shows "lease_spent ie_id ie_lease_version ie_lease_token i v
           (sql_update (ingress_held i token v) (ingress_close_row target n code) t)"
proof -
  have "sql_one (\<lambda>x. ie_id x = i) t = Some r"
    using sql_one_the_row [OF assms(1,2)] assms(3) by (simp add: ingress_held_def)
  then have "sql_one (\<lambda>x. ie_id x = i)
      (sql_update (ingress_held i token v) (ingress_close_row target n code) t) =
      Some (ingress_close_row target n code r)"
    using assms(3) by (subst sql_one_update) auto
  with assms(3) show ?thesis
    by (simp add: lease_spent_def ingress_row_defs)
qed

lemma ingress_finish_spends:
  assumes "distinct (map ie_id t)"
    and "ingress_complete_with_lease i token v t = Inr (ev, t') \<or>
         ingress_fail_with_lease i token v code delay now t = Inr (ev, t')"
  shows "lease_spent ie_id ie_lease_version ie_lease_token i v t'" and "ingress_run t t'"
proof -
  show "ingress_run t t'"
    using assms(2) by (auto intro: ingress_run.intros)
  show "lease_spent ie_id ie_lease_version ie_lease_token i v t'"
    using assms(2)
  proof (elim disjE)
    assume "ingress_complete_with_lease i token v t = Inr (ev, t')"
    then show ?thesis
      by (elim ingress_completeE) (simp add: ingress_close_spends [OF assms(1)])
  next
    assume "ingress_fail_with_lease i token v code delay now t = Inr (ev, t')"
    then show ?thesis
      by (elim ingress_failE)
        (metis ingress_close_spends [OF assms(1)] ingress_get_by_id_def sql_one_Some linorder_not_le)
  qed
qed

section \<open>Row invariant\<close>

definition ingress_row_ok :: "ingress_event \<Rightarrow> bool" where
  "ingress_row_ok r =
     (ingress_pairing (ie_channel r) (ie_event_type r) \<and>
      ie_attempt_count r \<le> ie_max_attempts r \<and>
      (ie_status r = Ing_PROCESSING \<longleftrightarrow> ie_lease_token r \<noteq> None) \<and>
      (ie_lease_owner r = None \<longleftrightarrow> ie_lease_token r = None) \<and>
      (ie_lease_until r = None \<longleftrightarrow> ie_lease_token r = None) \<and>
      (ie_status r = Ing_FAILED \<longleftrightarrow> ie_next_attempt_at r \<noteq> None) \<and>
      (ie_status r = Ing_RECEIVED \<or> ie_status r = Ing_FAILED \<longrightarrow>
         ie_attempt_count r < ie_max_attempts r))"

lemma ingress_reachable_ok:
  assumes "ingress_run\<^sup>*\<^sup>* [] t"
  shows "\<forall>r \<in> set t. ingress_row_ok r"
proof (rule evolves_invariant [OF ingress.runs_evolve [OF assms]])
  fix r r' assume "ingress_step r r'" and "ingress_row_ok r"
  then show "ingress_row_ok r'"
    by (cases rule: ingress_step.cases) (auto simp: ingress_row_ok_def ingress_row_defs)
qed (auto simp: ingress_new_def ingress_row_ok_def)

section \<open>Properties\<close>

text \<open>
  A worker that lost its lease can do nothing. In any reachable ingress table let one worker
  claim an event and, after any further repository calls, another worker claim the same event again.
  From then on, whatever calls follow, completing or failing the event with the first worker's
  fencing pair raises the stale-lease error: its result is never recorded.
\<close>

theorem ingress_reclaim_fences_old_worker:
  assumes "ingress_run\<^sup>*\<^sup>* [] t0"
    and "ingress_claim_next w secs now token locked t0 = Inr (Some c, t1)"
    and "ingress_run\<^sup>*\<^sup>* t1 t2"
    and "ingress_claim_next w' secs' now' token' locked' t2 = Inr (Some c', t3)"
    and "ic_event_id c' = ic_event_id c"
    and "ingress_run\<^sup>*\<^sup>* t3 t4"
  shows "ingress_complete_with_lease (ic_event_id c) (ic_lease_token c) (ic_lease_version c) t4 =
           Inl (StaleIngressLeaseError ''INGRESS_STALE_LEASE'') \<and>
         ingress_fail_with_lease (ic_event_id c) (ic_lease_token c) (ic_lease_version c) code delay
             now'' t4 =
           Inl (StaleIngressLeaseError ''INGRESS_STALE_LEASE'')"
proof -
  have d0: "distinct (map ie_id t0)"
    using assms(1) by (rule ingress_reachable_distinct)
  have "ingress_run t0 t1" and run23: "ingress_run t2 t3"
    using assms(2,4) by (auto intro: ingress_run.claim)
  then have d1: "distinct (map ie_id t1)" and d2: "distinct (map ie_id t2)"
    using d0 assms(3) by (auto dest: ingress.run_distinct ingress.runs_distinct)
  obtain r0 where r1: "sql_one (\<lambda>x. ie_id x = ic_event_id c) t1 =
      Some (ingress_lease_row w token (now + seconds secs) r0)"
    and v1: "ic_lease_version c = ie_lease_version r0 + 1"
    using ingress_claim_row [OF assms(2) d0] by metis
  obtain r2 where r2: "sql_one (\<lambda>x. ie_id x = ic_event_id c) t2 = Some r2"
    and le: "ie_lease_version (ingress_lease_row w token (now + seconds secs) r0) \<le> ie_lease_version r2"
    using ingress.runs_row [OF assms(3) d1 r1] ingress.steps_ver by metis
  have "sql_one (\<lambda>x. ie_id x = ic_event_id c) t3 =
      Some (ingress_lease_row w' token' (now' + seconds secs') r2)"
    using ingress_claim_row [OF assms(4) d2] r2 assms(5) by (metis option.inject)
  with le v1
  have "lease_spent ie_id ie_lease_version ie_lease_token (ic_event_id c) (ic_lease_version c) t3"
    by (simp add: lease_spent_def ingress_lease_row_def)
  then have "lease_spent ie_id ie_lease_version ie_lease_token (ic_event_id c) (ic_lease_version c) t4"
    using ingress.spent_stays [OF assms(6)] ingress.run_distinct [OF run23 d2] by blast
  moreover have "distinct (map ie_id t4)"
    using ingress.runs_distinct [OF assms(6)] ingress.run_distinct [OF run23 d2] by blast
  ultimately show ?thesis by (simp add: ingress_spent_stale)
qed

text \<open>
  A lease is used at most once. After a worker completed or failed an event under a lease
  version, every later attempt to complete or fail that event under the same version, with any
  token, raises the stale-lease error.
\<close>

theorem ingress_lease_used_once:
  assumes "ingress_run\<^sup>*\<^sup>* [] t"
    and "ingress_complete_with_lease i token v t = Inr (ev, t1) \<or>
         ingress_fail_with_lease i token v code delay now t = Inr (ev, t1)"
    and "ingress_run\<^sup>*\<^sup>* t1 t2"
  shows "ingress_complete_with_lease i token' v t2 =
           Inl (StaleIngressLeaseError ''INGRESS_STALE_LEASE'') \<and>
         ingress_fail_with_lease i token' v code' delay' now' t2 =
           Inl (StaleIngressLeaseError ''INGRESS_STALE_LEASE'')"
proof -
  note d = ingress_reachable_distinct [OF assms(1)]
  note spent = ingress_finish_spends [OF d assms(2)]
  have d1: "distinct (map ie_id t1)"
    using ingress.run_distinct [OF spent(2) d] .
  from ingress.spent_stays [OF assms(3) d1 spent(1)] ingress.runs_distinct [OF assms(3) d1]
  show ?thesis by (simp add: ingress_spent_stale)
qed

text \<open>
  Claiming makes progress and is fair to age. In a reachable table, when some event is claimable
  and not locked by another transaction, \<open>claim_next\<close> with a positive lease returns a claim; the
  claimed event was itself claimable and unlocked, no claimable unlocked event is older, the claim
  carries the new token, the next version and the next attempt number, which is within the bound.
\<close>

theorem ingress_claim_progress:
  assumes "ingress_run\<^sup>*\<^sup>* [] t" and "0 < secs"
    and "r \<in> set t" and "ingress_claimable now r" and "\<not> locked (ie_id r)"
  shows "\<exists>c t' r0. ingress_claim_next w secs now token locked t = Inr (Some c, t') \<and>
           r0 \<in> set t \<and> ie_id r0 = ic_event_id c \<and> ingress_claimable now r0 \<and> \<not> locked (ie_id r0) \<and>
           ie_created_at r0 \<le> ie_created_at r \<and>
           ic_lease_token c = token \<and> ic_lease_version c = ie_lease_version r0 + 1 \<and>
           ic_attempt_count c \<le> ie_max_attempts r0"
proof -
  note d = ingress_reachable_distinct [OF assms(1)]
  obtain c t' where run: "ingress_claim_next w secs now token locked t = Inr (c, t')"
    using ingress_claim_total [OF assms(2)] by blast
  have keep: "x \<in> set t \<Longrightarrow> ingress_claimable now x \<Longrightarrow>
      x \<in> set (snd (ingress_recover_exhausted_leases now t))" for x
    by (auto simp: ingress_recover_exhausted_leases_def set_sql_update ingress_row_defs)
  from run show ?thesis
  proof (cases rule: ingress_claimE)
    case idle
    with keep assms(3-5) show ?thesis by blast
  next
    case (row t1 cand event claim)
    obtain r0 where r0: "sql_one (\<lambda>x. ie_id x = ic_event_id claim) t = Some r0"
      "ingress_claimable now r0" "\<not> locked (ie_id r0)" "ic_lease_version claim = ie_lease_version r0 + 1"
      "ic_lease_token claim = token" "ic_attempt_count claim = ie_attempt_count r0 + 1"
      using ingress_claim_row [OF run [unfolded row(7)] d] by metis
    note in_t = sql_one_Some [OF r0(1)]
    have "r0 \<in> set t1"
      using keep in_t r0(2) row(1) by blast
    then have "r0 = cand"
      using in_t row(1,2,8) d by (metis distinct_map ingress_recover_keys(1) inj_on_def)
    then have "ie_created_at r0 \<le> ie_created_at r"
      using row(1,5) keep assms(3-5) by blast
    moreover have "ic_attempt_count claim \<le> ie_max_attempts r0"
      using r0(2,6) by (simp add: ingress_claimable_def)
    ultimately show ?thesis
      using run row(7) r0 in_t by (intro exI [of _ claim] exI [of _ t'] exI [of _ r0]) simp
  qed
qed

text \<open>
  No event is stuck. Every event of a reachable table that is not finished will, from some
  instant on, be either claimable or taken to \<open>DEAD\<close> by the recovery that each claim runs first; its
  attempt count equals the number of leases issued and never exceeds \<open>max_attempts\<close>.
\<close>

theorem ingress_no_event_stuck:
  assumes "ingress_run\<^sup>*\<^sup>* [] t" and "r \<in> set t" and "\<not> ingress_finished r"
  shows "(\<exists>T. \<forall>now \<ge> T. ingress_claimable now r \<or> ingress_exhausted now r) \<and>
         ie_attempt_count r = ie_lease_version r \<and> ie_lease_version r \<le> ie_max_attempts r"
proof -
  have ok: "ingress_row_ok r"
    using ingress_reachable_ok [OF assms(1)] assms(2) by blast
  have "\<exists>T. \<forall>now \<ge> T. ingress_claimable now r \<or> ingress_exhausted now r"
  proof (cases "ie_status r")
    case Ing_RECEIVED
    with ok show ?thesis by (auto simp: ingress_claimable_def ingress_row_ok_def)
  next
    case Ing_PROCESSING
    then obtain u where "ie_lease_until r = Some u"
      using ok by (auto simp: ingress_row_ok_def)
    with Ing_PROCESSING show ?thesis
      by (intro exI [of _ "u + 1"])
        (auto simp: ingress_claimable_def ingress_exhausted_def ingress_lease_expired_def)
  next
    case Ing_FAILED
    then obtain n where "ie_next_attempt_at r = Some n"
      using ok by (auto simp: ingress_row_ok_def)
    with Ing_FAILED ok show ?thesis
      by (intro exI [of _ n]) (auto simp: ingress_claimable_def ingress_row_ok_def)
  qed (use assms(3) in \<open>auto simp: ingress_finished_def\<close>)
  with ingress.attempts_are_versions [OF assms(1,2)] show ?thesis by simp
qed

text \<open>
  Ingress is idempotent per provider event. In a reachable table the pairs (channel, external
  id) are unique; once an event was inserted, a second insert of the same pair, with whatever other
  arguments and after whatever calls, returns the stored event as a duplicate and changes nothing,
  and the stored event still has the id it was given.
\<close>

theorem ingress_insert_idempotent:
  assumes "ingress_run\<^sup>*\<^sup>* [] t"
    and "ingress_insert_if_absent i now ch ext conv ty env corr mx t = Inr ((ev, created), t1)"
    and "ingress_run\<^sup>*\<^sup>* t1 t2" and "0 < mx'" and "ingress_pairing ch ty'"
  shows "distinct (map (\<lambda>r. snd (ie_keys r)) t2) \<and>
    (\<exists>ev'. ingress_insert_if_absent i' now' ch ext conv' ty' env' corr' mx' t2 =
             Inr ((ev', False), t2) \<and> ie_id ev' = ie_id ev)"
proof -
  have run: "ingress_run t t1"
    using assms(2) by (rule ingress_run.insert)
  then have reach2: "ingress_run\<^sup>*\<^sup>* [] t2"
    using assms(1,3) by (meson rtranclp.rtrancl_into_rtrancl rtranclp_trans)
  have "ingress_get_by_channel_external ch ext t1 = Some ev"
    using assms(2)
    by (cases rule: ingress_insertE)
      (auto simp: ingress_get_by_channel_external_def sql_one_append ingress_new_row_def)
  then have "sql_one (\<lambda>x. snd (ie_keys x) = (ch, ext)) t1 = Some ev"
    by (simp add: ingress_get_by_channel_external_def ie_keys_def)
  moreover have "evolves ingress_new ingress_step t1 t2"
    using ingress.runs_evolve [OF assms(3)] ingress.run_distinct [OF run]
      ingress_reachable_distinct [OF assms(1)] by blast
  moreover have "snd (ie_keys y) = snd (ie_keys x)" if "ingress_step x y" for x y
    using that by (auto elim!: ingress_step.cases)
  ultimately obtain ev' where "sql_one (\<lambda>x. snd (ie_keys x) = (ch, ext)) t2 = Some ev'"
    and steps: "ingress_step\<^sup>*\<^sup>* ev ev'"
    using evolves_lookup [of ingress_new ingress_step t1 t2 "\<lambda>r. snd (ie_keys r)"] by blast
  then have "ingress_get_by_channel_external ch ext t2 = Some ev'"
    by (simp add: ingress_get_by_channel_external_def ie_keys_def)
  then have "ingress_insert_if_absent i' now' ch ext conv' ty' env' corr' mx' t2 =
      Inr ((ev', False), t2)"
    using assms(4,5) assert_channel_event_pairing_iff [of ch ty']
    by (simp add: ingress_insert_if_absent_def)
  then show ?thesis
    using ingress_reachable_unique [OF reach2] ingress.steps_key [OF steps] by blast
qed

section \<open>A run of the queue\<close>

text \<open>
  One event, claimed by a worker that stalls, claimed again after the lease expired and completed
  by the second worker.
\<close>

definition ingress_demo0 :: "ingress_event list" where
  "ingress_demo0 = [ingress_new_row ''e1'' 10 Ing_synthetic ''m1'' ''c1'' SYNTHETIC_MESSAGE
     [(''text'', JStr ''hello'')] ''r1'' 5]"

definition ingress_demo1 :: "ingress_event list" where
  "ingress_demo1 = sql_update (\<lambda>_. True) (ingress_lease_row ''w1'' ''k1'' 30000100) ingress_demo0"

definition ingress_demo2 :: "ingress_event list" where
  "ingress_demo2 = sql_update (\<lambda>_. True) (ingress_lease_row ''w2'' ''k2'' 70000000) ingress_demo1"

definition ingress_demo3 :: "ingress_event list" where
  "ingress_demo3 = sql_update (\<lambda>_. True) (ingress_close_row Ing_PROCESSED None None) ingress_demo2"

definition ingress_demo_claim :: "ingress_event list \<Rightarrow> ingress_claim" where
  "ingress_demo_claim t = projr (ingress_row_to_claim (hd t))"

lemma ingress_demo_insert:
  "ingress_insert_if_absent ''e1'' 10 Ing_synthetic ''m1'' ''c1'' SYNTHETIC_MESSAGE
     [(''text'', JStr ''hello'')] ''r1'' 5 [] = Inr ((hd ingress_demo0, True), ingress_demo0)"
  by code_simp

lemma ingress_demo_claim1:
  "ingress_claim_next ''w1'' 30 100 ''k1'' (\<lambda>_. False) ingress_demo0 =
     Inr (Some (ingress_demo_claim ingress_demo1), ingress_demo1)"
  by code_simp

lemma ingress_demo_claim2:
  "ingress_claim_next ''w2'' 30 40000000 ''k2'' (\<lambda>_. False) ingress_demo1 =
     Inr (Some (ingress_demo_claim ingress_demo2), ingress_demo2)"
  by code_simp

lemma ingress_demo_complete:
  "ingress_complete_with_lease ''e1'' ''k2'' 2 ingress_demo2 = Inr (hd ingress_demo3, ingress_demo3)"
  by code_simp

lemma ingress_demo_reach:
  "ingress_run\<^sup>*\<^sup>* [] ingress_demo0" "ingress_run\<^sup>*\<^sup>* [] ingress_demo1" "ingress_run\<^sup>*\<^sup>* [] ingress_demo2"
proof -
  show r0: "ingress_run\<^sup>*\<^sup>* [] ingress_demo0"
    using ingress_run.insert [OF ingress_demo_insert] by simp
  show r1: "ingress_run\<^sup>*\<^sup>* [] ingress_demo1"
    using r0 ingress_run.claim [OF ingress_demo_claim1] by simp
  show "ingress_run\<^sup>*\<^sup>* [] ingress_demo2"
    using r1 ingress_run.claim [OF ingress_demo_claim2] by simp
qed

theorem ingress_reclaim_fences_old_worker_witness:
  "ingress_complete_with_lease ''e1'' ''k1'' 1 ingress_demo3 =
     Inl (StaleIngressLeaseError ''INGRESS_STALE_LEASE'')"
proof -
  have "ic_event_id (ingress_demo_claim ingress_demo2) = ic_event_id (ingress_demo_claim ingress_demo1)"
    by code_simp
  moreover have "ic_event_id (ingress_demo_claim ingress_demo1) = ''e1''"
    "ic_lease_token (ingress_demo_claim ingress_demo1) = ''k1''"
    "ic_lease_version (ingress_demo_claim ingress_demo1) = 1"
    by code_simp+
  moreover have "ingress_run\<^sup>*\<^sup>* ingress_demo2 ingress_demo3"
    using ingress_run.complete [OF ingress_demo_complete] by simp
  ultimately show ?thesis
    using ingress_reclaim_fences_old_worker [OF ingress_demo_reach(1) ingress_demo_claim1 _
        ingress_demo_claim2] by fastforce
qed

theorem ingress_lease_used_once_witness:
  "ingress_fail_with_lease ''e1'' ''k2'' 2 ''Boom'' 1 50000000 ingress_demo3 =
     Inl (StaleIngressLeaseError ''INGRESS_STALE_LEASE'')"
  using ingress_lease_used_once [OF ingress_demo_reach(3) disjI1 [OF ingress_demo_complete]]
  by blast

theorem ingress_claim_progress_witness:
  "\<exists>c t' r0. ingress_claim_next ''w2'' 30 40000000 ''k2'' (\<lambda>_. False) ingress_demo1 = Inr (Some c, t') \<and>
     r0 \<in> set ingress_demo1 \<and> ic_lease_version c = ie_lease_version r0 + 1"
proof -
  have "hd ingress_demo1 \<in> set ingress_demo1" "ingress_claimable 40000000 (hd ingress_demo1)"
    by code_simp+
  then show ?thesis
    using ingress_claim_progress [OF ingress_demo_reach(2), of 30 "hd ingress_demo1" 40000000
        "\<lambda>_. False" "''w2''" "''k2''"] by auto
qed

theorem ingress_no_event_stuck_witness:
  "\<exists>T. \<forall>now \<ge> T. ingress_claimable now (hd ingress_demo1) \<or> ingress_exhausted now (hd ingress_demo1)"
proof -
  have "hd ingress_demo1 \<in> set ingress_demo1" "\<not> ingress_finished (hd ingress_demo1)"
    by code_simp+
  then show ?thesis
    using ingress_no_event_stuck [OF ingress_demo_reach(2), of "hd ingress_demo1"] by auto
qed

theorem ingress_insert_idempotent_witness:
  "\<exists>ev'. ingress_insert_if_absent ''e2'' 99 Ing_synthetic ''m1'' ''c1'' SYNTHETIC_MESSAGE [] ''r2'' 3
     ingress_demo1 = Inr ((ev', False), ingress_demo1) \<and> ie_id ev' = ''e1''"
proof -
  have "ingress_run\<^sup>*\<^sup>* ingress_demo0 ingress_demo1"
    using ingress_run.claim [OF ingress_demo_claim1] by simp
  moreover have "ie_id (hd ingress_demo0) = ''e1''"
    by code_simp
  ultimately show ?thesis
    using ingress_insert_idempotent [OF _ ingress_demo_insert, of ingress_demo1 3 SYNTHETIC_MESSAGE]
    by auto
qed

end
