(* ===== verification/Conversation.thy ===== *)
theory Conversation
  imports Prelude
begin

text \<open>
  The dialog row and its repository: models/conversation.py, models/conversation_ops_event.py and
  repositories/conversations.py. A dialog is owned by the bot or by a manager; three counters fence
  everything derived from it: \<open>context_version\<close> (client and manager messages), \<open>manager_epoch\<close>
  (manager interventions) and \<open>current_event_seq\<close> (ordered dialog events).

  A repository function receives the ORM object of the dialog, whose columns are the row as the
  session last read it, updates the row by its id and returns the refreshed object. Row locks make
  each transaction on one dialog atomic; the rows other transactions hold are the predicate
  \<open>locked\<close> of the claiming query.
\<close>

section \<open>Data\<close>

datatype Channel = Channel_SYNTHETIC | Channel_VK

datatype ConversationStatus = OPEN | HANDOFF | CLOSED

datatype ConversationOwnership = BOT | MANAGER

datatype HandoffState = BOT_ACTIVE | HUMAN_ACTIVE | HUMAN_PAUSE

definition HANDOFF_QUARANTINE_REASONS :: "string list" where
  "HANDOFF_QUARANTINE_REASONS =
     [''HANDOFF_DEFERRED_PLAN_MISSING'',
      ''HANDOFF_DEFERRED_PLAN_TYPE'',
      ''HANDOFF_DEFERRED_PLAN_NOT_OPEN'',
      ''HANDOFF_DEFERRED_PLAN_CONTEXT'',
      ''HANDOFF_DEFERRED_PLAN_MANAGER_EPOCH'',
      ''HANDOFF_DEFERRED_PLAN_EVENT_SEQ'',
      ''HANDOFF_DEFERRED_PLAN_DEADLINE'',
      ''HANDOFF_DEFERRED_PLAN_MARKER'',
      ''HANDOFF_EXPIRY_UNSUPPORTED_STATE'']"

definition HANDOFF_QUARANTINE_CLEAR_PATHS :: "string list" where
  "HANDOFF_QUARANTINE_CLEAR_PATHS = [''MANAGER_MESSAGE_APPLIED'']"

definition HANDOFF_QUARANTINE_CLEAR_PATH_MANAGER_MESSAGE :: string where
  "HANDOFF_QUARANTINE_CLEAR_PATH_MANAGER_MESSAGE = ''MANAGER_MESSAGE_APPLIED''"

record conversation =
  c_id :: uuid
  c_channel :: Channel
  c_external_conversation_id :: string
  c_status :: ConversationStatus
  c_ownership :: ConversationOwnership
  c_context_version :: int
  c_handoff_state :: HandoffState
  c_manager_epoch :: int
  c_current_event_seq :: int
  c_manager_sequence_hwm :: "int option"
  c_vk_client_external_reply_hwm :: "int option"
  c_handoff_deadline_at :: "pgtime option"
  c_human_pause_anchor_at :: "moment option"
  c_last_client_activity_at :: "moment option"
  c_manager_takeover_at :: "moment option"
  c_active_reply_plan_id :: "uuid option"
  c_canonical_identity_id :: "uuid option"
  c_handoff_quarantined_at :: "moment option"
  c_handoff_quarantine_reason :: "string option"
  c_handoff_quarantine_cleared_at :: "moment option"
  c_handoff_quarantine_clear_path :: "string option"
  c_created_at :: moment

datatype ConversationOpsEventType = HANDOFF_EXPIRY_QUARANTINED | HANDOFF_QUARANTINE_CLEARED

record ops_event =
  oe_id :: uuid
  oe_conversation_id :: uuid
  oe_created_at :: moment
  oe_event_type :: ConversationOpsEventType
  oe_reason_code :: string
  oe_clear_path :: "string option"
  oe_manager_epoch :: int
  oe_context_version :: int

definition conversation_allows_automatic_reply :: "conversation \<Rightarrow> bool" where
  "conversation_allows_automatic_reply c =
     (if c_manager_takeover_at c \<noteq> None then False
      else if c_handoff_state c \<noteq> BOT_ACTIVE then False
      else if c_ownership c = MANAGER then False
      else if c_status c = HANDOFF then False
      else if c_status c = CLOSED then False
      else True)"

definition handoff_expiry_quarantine_is_active :: "conversation \<Rightarrow> bool" where
  "handoff_expiry_quarantine_is_active c =
     (c_handoff_quarantined_at c \<noteq> None \<and> c_handoff_quarantine_cleared_at c = None)"

text \<open>The check constraints of the table.\<close>

definition ck_conversations_handoff_consistency :: "conversation \<Rightarrow> bool" where
  "ck_conversations_handoff_consistency c =
     ((c_status c = CLOSED \<and> c_ownership c = BOT \<and> c_handoff_state c = BOT_ACTIVE \<and>
       c_handoff_deadline_at c = None \<and> c_human_pause_anchor_at c = None \<and>
       c_manager_takeover_at c = None) \<or>
      (c_status c = OPEN \<and> c_ownership c = BOT \<and> c_handoff_state c = BOT_ACTIVE \<and>
       c_handoff_deadline_at c = None \<and> c_human_pause_anchor_at c = None \<and>
       c_manager_takeover_at c = None) \<or>
      (c_status c = HANDOFF \<and> c_ownership c = MANAGER \<and> c_handoff_state c = HUMAN_ACTIVE \<and>
       c_handoff_deadline_at c \<noteq> None \<and> c_human_pause_anchor_at c = None \<and>
       c_manager_takeover_at c \<noteq> None) \<or>
      (c_status c = HANDOFF \<and> c_ownership c = MANAGER \<and> c_handoff_state c = HUMAN_PAUSE \<and>
       c_handoff_deadline_at c \<noteq> None \<and> c_human_pause_anchor_at c \<noteq> None \<and>
       c_manager_takeover_at c \<noteq> None))"

definition ck_conversations_handoff_quarantine :: "conversation \<Rightarrow> bool" where
  "ck_conversations_handoff_quarantine c =
     (((c_handoff_quarantined_at c = None \<and> c_handoff_quarantine_reason c = None \<and>
        c_handoff_quarantine_cleared_at c = None \<and> c_handoff_quarantine_clear_path c = None) \<or>
       (c_handoff_quarantined_at c \<noteq> None \<and> c_handoff_quarantine_reason c \<noteq> None \<and>
        c_handoff_quarantine_cleared_at c = None \<and> c_handoff_quarantine_clear_path c = None) \<or>
       (c_handoff_quarantined_at c \<noteq> None \<and> c_handoff_quarantine_reason c \<noteq> None \<and>
        c_handoff_quarantine_cleared_at c \<noteq> None \<and> c_handoff_quarantine_clear_path c \<noteq> None)) \<and>
      (case c_handoff_quarantine_reason c of
         None \<Rightarrow> True | Some s \<Rightarrow> s \<in> set HANDOFF_QUARANTINE_REASONS) \<and>
      (case c_handoff_quarantine_clear_path c of
         None \<Rightarrow> True | Some s \<Rightarrow> s \<in> set HANDOFF_QUARANTINE_CLEAR_PATHS))"

definition ck_conversations_counters :: "conversation \<Rightarrow> bool" where
  "ck_conversations_counters c =
     (0 \<le> c_context_version c \<and> 0 \<le> c_manager_epoch c \<and> 0 \<le> c_current_event_seq c \<and>
      (case c_manager_sequence_hwm c of None \<Rightarrow> True | Some h \<Rightarrow> 0 \<le> h))"

definition conversation_ok :: "conversation \<Rightarrow> bool" where
  "conversation_ok c =
     (ck_conversations_handoff_consistency c \<and> ck_conversations_handoff_quarantine c \<and>
      ck_conversations_counters c)"

section \<open>Operations\<close>

definition conv_get_by_channel_external ::
  "Channel \<Rightarrow> string \<Rightarrow> conversation list \<Rightarrow> conversation option" where
  "conv_get_by_channel_external channel ext t =
     sql_one (\<lambda>c. (c_channel c, c_external_conversation_id c) = (channel, ext)) t"

definition conv_get_by_id_for_update :: "uuid \<Rightarrow> conversation list \<Rightarrow> conversation option" where
  "conv_get_by_id_for_update cid t = sql_one (\<lambda>c. c_id c = cid) t"

definition lock_for_update :: "uuid \<Rightarrow> conversation list \<Rightarrow> exn + conversation" where
  "lock_for_update cid t =
     (case conv_get_by_id_for_update cid t of
        None \<Rightarrow> Inl (RuntimeError ''CONVERSATION_LOOKUP_FAILED'')
      | Some c \<Rightarrow> Inr c)"

text \<open>\<open>session.refresh(conversation)\<close> after an UPDATE by id.\<close>

definition conv_update_refresh ::
  "conversation \<Rightarrow> (conversation \<Rightarrow> conversation) \<Rightarrow> conversation list
     \<Rightarrow> exn + (conversation \<times> conversation list)" where
  "conv_update_refresh c f t =
     (let t' = sql_update (\<lambda>x. c_id x = c_id c) f t
      in case sql_one (\<lambda>x. c_id x = c_id c) t' of
           None \<Rightarrow> Inl (InvalidRequestError ''Could not refresh instance'')
         | Some c' \<Rightarrow> Inr (c', t'))"

definition conv_handoff_due :: "moment \<Rightarrow> conversation \<Rightarrow> bool" where
  "conv_handoff_due now c =
     (c_status c = HANDOFF \<and> c_ownership c = MANAGER \<and>
      (c_handoff_state c = HUMAN_ACTIVE \<or> c_handoff_state c = HUMAN_PAUSE) \<and>
      (case c_handoff_deadline_at c of None \<Rightarrow> False | Some d \<Rightarrow> d \<le> At now) \<and>
      (c_handoff_quarantined_at c = None \<or> c_handoff_quarantine_cleared_at c \<noteq> None))"

definition conv_deadline :: "conversation \<Rightarrow> pgtime" where
  "conv_deadline c = (case c_handoff_deadline_at c of None \<Rightarrow> Infinity | Some d \<Rightarrow> d)"

definition claim_next_due_handoff ::
  "moment \<Rightarrow> (uuid \<Rightarrow> bool) \<Rightarrow> conversation list \<Rightarrow> conversation option" where
  "claim_next_due_handoff now locked t =
     sql_first_by (\<lambda>c. (conv_deadline c, c_created_at c))
       (\<lambda>c. conv_handoff_due now c \<and> \<not> locked (c_id c)) t"

definition conv_return_row :: "uuid option \<Rightarrow> conversation \<Rightarrow> conversation" where
  "conv_return_row plan_id c =
     c \<lparr> c_status := OPEN, c_ownership := BOT, c_handoff_state := BOT_ACTIVE,
         c_handoff_deadline_at := None, c_human_pause_anchor_at := None,
         c_manager_takeover_at := None, c_active_reply_plan_id := plan_id \<rparr>"

definition return_due_handoff_to_bot ::
  "conversation \<Rightarrow> moment \<Rightarrow> uuid option \<Rightarrow> conversation list
     \<Rightarrow> exn + (conversation \<times> conversation list)" where
  "return_due_handoff_to_bot c moment plan_id t =
     (let P = (\<lambda>x. c_id x = c_id c \<and> c_status x = HANDOFF \<and> c_ownership x = MANAGER \<and>
                 c_handoff_state x = c_handoff_state c \<and>
                 (case c_handoff_deadline_at x of None \<Rightarrow> False | Some d \<Rightarrow> d \<le> At moment))
      in if sql_count P t = 0 then Inl (RuntimeError ''HANDOFF_EXPIRY_STALE_CLAIM'')
         else
           let t' = sql_update P (conv_return_row plan_id) t
           in case sql_one (\<lambda>x. c_id x = c_id c) t' of
                None \<Rightarrow> Inl (InvalidRequestError ''Could not refresh instance'')
              | Some c' \<Rightarrow> Inr (c', t'))"

definition conv_new_row :: "uuid \<Rightarrow> moment \<Rightarrow> Channel \<Rightarrow> string \<Rightarrow> conversation" where
  "conv_new_row new_id now channel ext =
     \<lparr> c_id = new_id, c_channel = channel, c_external_conversation_id = ext,
       c_status = OPEN, c_ownership = BOT, c_context_version = 0, c_handoff_state = BOT_ACTIVE,
       c_manager_epoch = 0, c_current_event_seq = 0, c_manager_sequence_hwm = None,
       c_vk_client_external_reply_hwm = None, c_handoff_deadline_at = None,
       c_human_pause_anchor_at = None, c_last_client_activity_at = None,
       c_manager_takeover_at = None, c_active_reply_plan_id = None,
       c_canonical_identity_id = None, c_handoff_quarantined_at = None,
       c_handoff_quarantine_reason = None, c_handoff_quarantine_cleared_at = None,
       c_handoff_quarantine_clear_path = None, c_created_at = now \<rparr>"

definition conv_get_or_create ::
  "uuid \<Rightarrow> moment \<Rightarrow> Channel \<Rightarrow> string \<Rightarrow> conversation list
     \<Rightarrow> exn + ((conversation \<times> bool) \<times> conversation list)" where
  "conv_get_or_create new_id now channel ext t =
     (case conv_get_by_channel_external channel ext t of
        Some existing \<Rightarrow> Inr ((existing, False), t)
      | None \<Rightarrow>
          if conv_get_by_id_for_update new_id t \<noteq> None then Inl (IntegrityError ''conversations_pkey'')
          else
            let t' = t @ [conv_new_row new_id now channel ext]
            in case conv_get_by_channel_external channel ext t' of
                 None \<Rightarrow> Inl (RuntimeError ''CONVERSATION_LOOKUP_FAILED'')
               | Some c \<Rightarrow> Inr ((c, True), t'))"

definition conv_seq_row :: "conversation \<Rightarrow> conversation" where
  "conv_seq_row c = c \<lparr> c_current_event_seq := c_current_event_seq c + 1 \<rparr>"

definition allocate_next_event_seq ::
  "conversation \<Rightarrow> conversation list \<Rightarrow> exn + (conversation \<times> conversation list)" where
  "allocate_next_event_seq c t =
     (if sql_count (\<lambda>x. c_id x = c_id c) t = 0
      then Inl (RuntimeError ''CONVERSATION_LOOKUP_FAILED'')
      else conv_update_refresh c conv_seq_row t)"

definition conv_bump_row :: "moment \<Rightarrow> conversation \<Rightarrow> conversation" where
  "conv_bump_row activity_at c =
     c \<lparr> c_context_version := c_context_version c + 1,
         c_last_client_activity_at := Some activity_at \<rparr>"

definition bump_context_for_new_message ::
  "conversation \<Rightarrow> moment \<Rightarrow> conversation list \<Rightarrow> exn + (conversation \<times> conversation list)" where
  "bump_context_for_new_message c activity_at t =
     (if sql_count (\<lambda>x. c_id x = c_id c) t = 0
      then Inl (RuntimeError ''CONVERSATION_LOOKUP_FAILED'')
      else conv_update_refresh c (conv_bump_row activity_at) t)"

definition append_conversation_ops_event ::
  "uuid \<Rightarrow> moment \<Rightarrow> conversation \<Rightarrow> ConversationOpsEventType \<Rightarrow> string \<Rightarrow> string option
     \<Rightarrow> ops_event list \<Rightarrow> exn + (ops_event \<times> ops_event list)" where
  "append_conversation_ops_event new_id now c event_type reason_code clear_path ops =
     (if reason_code \<notin> set HANDOFF_QUARANTINE_REASONS
      then Inl (ValueError ''HANDOFF_QUARANTINE_REASON_INVALID'')
      else if event_type = HANDOFF_EXPIRY_QUARANTINED \<and> clear_path \<noteq> None
      then Inl (ValueError ''HANDOFF_QUARANTINE_CLEAR_PATH_UNEXPECTED'')
      else if event_type = HANDOFF_QUARANTINE_CLEARED \<and>
              (case clear_path of None \<Rightarrow> True | Some s \<Rightarrow> s \<notin> set HANDOFF_QUARANTINE_CLEAR_PATHS)
      then Inl (ValueError ''HANDOFF_QUARANTINE_CLEAR_PATH_INVALID'')
      else if sql_one (\<lambda>e. oe_id e = new_id) ops \<noteq> None
      then Inl (IntegrityError ''conversation_ops_events_pkey'')
      else
        let event = \<lparr> oe_id = new_id, oe_conversation_id = c_id c, oe_created_at = now,
                      oe_event_type = event_type, oe_reason_code = reason_code,
                      oe_clear_path = clear_path, oe_manager_epoch = c_manager_epoch c,
                      oe_context_version = c_context_version c \<rparr>
        in Inr (event, ops @ [event]))"

definition conv_quarantine_row :: "moment \<Rightarrow> string \<Rightarrow> conversation \<Rightarrow> conversation" where
  "conv_quarantine_row moment reason_code c =
     c \<lparr> c_handoff_quarantined_at := Some moment, c_handoff_quarantine_reason := Some reason_code,
         c_handoff_quarantine_cleared_at := None, c_handoff_quarantine_clear_path := None \<rparr>"

definition quarantine_due_handoff_expiry ::
  "uuid \<Rightarrow> moment \<Rightarrow> conversation \<Rightarrow> string \<Rightarrow> moment \<Rightarrow> conversation list \<Rightarrow> ops_event list
     \<Rightarrow> exn + (conversation \<times> conversation list \<times> ops_event list)" where
  "quarantine_due_handoff_expiry new_id now c reason_code moment t ops =
     (if reason_code \<notin> set HANDOFF_QUARANTINE_REASONS
      then Inl (ValueError ''HANDOFF_QUARANTINE_REASON_INVALID'')
      else case append_conversation_ops_event new_id now c HANDOFF_EXPIRY_QUARANTINED reason_code
                  None ops of
        Inl e \<Rightarrow> Inl e
      | Inr (_, ops') \<Rightarrow>
          (case conv_update_refresh c (conv_quarantine_row moment reason_code) t of
             Inl e \<Rightarrow> Inl e
           | Inr (c', t') \<Rightarrow> Inr (c', t', ops')))"

definition conv_clear_row :: "moment \<Rightarrow> conversation \<Rightarrow> conversation" where
  "conv_clear_row moment c =
     c \<lparr> c_handoff_quarantine_cleared_at := Some moment,
         c_handoff_quarantine_clear_path := Some HANDOFF_QUARANTINE_CLEAR_PATH_MANAGER_MESSAGE \<rparr>"

text \<open>Returns the refreshed object beside the flag: Python refreshes it in place.\<close>

definition clear_active_handoff_quarantine_for_manager_message ::
  "uuid \<Rightarrow> moment \<Rightarrow> conversation \<Rightarrow> moment \<Rightarrow> conversation list \<Rightarrow> ops_event list
     \<Rightarrow> exn + ((bool \<times> conversation) \<times> conversation list \<times> ops_event list)" where
  "clear_active_handoff_quarantine_for_manager_message new_id now c moment t ops =
     (if \<not> handoff_expiry_quarantine_is_active c then Inr ((False, c), t, ops)
      else case c_handoff_quarantine_reason c of
        None \<Rightarrow> Inl (RuntimeError ''HANDOFF_QUARANTINE_REASON_MISSING'')
      | Some reason_code \<Rightarrow>
          if reason_code \<notin> set HANDOFF_QUARANTINE_REASONS
          then Inl (RuntimeError ''HANDOFF_QUARANTINE_REASON_MISSING'')
          else case append_conversation_ops_event new_id now c HANDOFF_QUARANTINE_CLEARED reason_code
                      (Some HANDOFF_QUARANTINE_CLEAR_PATH_MANAGER_MESSAGE) ops of
            Inl e \<Rightarrow> Inl e
          | Inr (_, ops') \<Rightarrow>
              let P = (\<lambda>x. c_id x = c_id c \<and> c_handoff_quarantined_at x \<noteq> None \<and>
                         c_handoff_quarantine_cleared_at x = None \<and>
                         c_handoff_quarantine_reason x = Some reason_code)
              in if sql_count P t \<noteq> 1 then Inl (RuntimeError ''HANDOFF_QUARANTINE_CLEAR_STALE'')
                 else
                   let t' = sql_update P (conv_clear_row moment) t
                   in case sql_one (\<lambda>x. c_id x = c_id c) t' of
                        None \<Rightarrow> Inl (InvalidRequestError ''Could not refresh instance'')
                      | Some c' \<Rightarrow> Inr ((True, c'), t', ops'))"

definition handoff_pause_valid :: "int \<Rightarrow> bool" where
  "handoff_pause_valid pause = (10 * 60 \<le> pause \<and> pause \<le> 15 * 60)"

definition conv_human_active_row :: "moment \<Rightarrow> int \<Rightarrow> conversation \<Rightarrow> conversation" where
  "conv_human_active_row moment pause c =
     c \<lparr> c_ownership := MANAGER, c_status := HANDOFF, c_handoff_state := HUMAN_ACTIVE,
         c_context_version := c_context_version c + 1,
         c_manager_epoch := c_manager_epoch c + 1,
         c_manager_takeover_at :=
           (case c_manager_takeover_at c of None \<Rightarrow> Some moment | Some m \<Rightarrow> Some m),
         c_handoff_deadline_at := Some (At (moment + seconds pause)),
         c_human_pause_anchor_at := None, c_active_reply_plan_id := None \<rparr>"

definition apply_chronologically_new_manager_message ::
  "uuid \<Rightarrow> moment \<Rightarrow> conversation \<Rightarrow> int \<Rightarrow> moment \<Rightarrow> int \<Rightarrow> conversation list \<Rightarrow> ops_event list
     \<Rightarrow> exn + ((conversation \<times> bool) \<times> conversation list \<times> ops_event list)" where
  "apply_chronologically_new_manager_message new_id now c provider_sequence moment pause t ops =
     (if \<not> handoff_pause_valid pause
      then Inl (ValueError ''handoff_pause_seconds must be between 600 and 900'')
      else case clear_active_handoff_quarantine_for_manager_message new_id now c moment t ops of
        Inl e \<Rightarrow> Inl e
      | Inr ((_, c1), t1, ops1) \<Rightarrow>
          let entered_from_bot = (c_handoff_state c1 = BOT_ACTIVE)
          in case conv_update_refresh c1
                    (\<lambda>x. conv_human_active_row moment pause x
                           \<lparr> c_manager_sequence_hwm := Some provider_sequence \<rparr>) t1 of
               Inl e \<Rightarrow> Inl e
             | Inr (c2, t2) \<Rightarrow> Inr ((c2, entered_from_bot), t2, ops1))"

definition apply_chronologically_new_vk_external_reply ::
  "uuid \<Rightarrow> moment \<Rightarrow> conversation \<Rightarrow> int \<Rightarrow> moment \<Rightarrow> int \<Rightarrow> conversation list \<Rightarrow> ops_event list
     \<Rightarrow> exn + ((conversation \<times> bool) \<times> conversation list \<times> ops_event list)" where
  "apply_chronologically_new_vk_external_reply new_id now c provider_sequence moment pause t ops =
     (if \<not> handoff_pause_valid pause
      then Inl (ValueError ''handoff_pause_seconds must be between 600 and 900'')
      else case clear_active_handoff_quarantine_for_manager_message new_id now c moment t ops of
        Inl e \<Rightarrow> Inl e
      | Inr ((_, c1), t1, ops1) \<Rightarrow>
          let entered_from_bot = (c_handoff_state c1 = BOT_ACTIVE)
          in case conv_update_refresh c1
                    (\<lambda>x. conv_human_active_row moment pause x
                           \<lparr> c_vk_client_external_reply_hwm := Some provider_sequence \<rparr>) t1 of
               Inl e \<Rightarrow> Inl e
             | Inr (c2, t2) \<Rightarrow> Inr ((c2, entered_from_bot), t2, ops1))"

definition conv_pause_row :: "moment \<Rightarrow> int \<Rightarrow> conversation \<Rightarrow> conversation" where
  "conv_pause_row moment pause c =
     c \<lparr> c_handoff_state := HUMAN_PAUSE,
         c_handoff_deadline_at := Some (At (moment + seconds pause)),
         c_human_pause_anchor_at := Some moment \<rparr>"

definition enter_or_continue_human_pause ::
  "conversation \<Rightarrow> moment \<Rightarrow> int \<Rightarrow> conversation list
     \<Rightarrow> exn + ((conversation \<times> bool) \<times> conversation list)" where
  "enter_or_continue_human_pause c moment pause t =
     (if \<not> handoff_pause_valid pause
      then Inl (ValueError ''handoff_pause_seconds must be between 600 and 900'')
      else if c_handoff_state c = HUMAN_PAUSE then Inr ((c, False), t)
      else if c_handoff_state c \<noteq> HUMAN_ACTIVE then Inr ((c, False), t)
      else case conv_update_refresh c (conv_pause_row moment pause) t of
             Inl e \<Rightarrow> Inl e
           | Inr (c', t') \<Rightarrow> Inr ((c', True), t'))"

definition conv_takeover_row :: "moment \<Rightarrow> conversation \<Rightarrow> conversation" where
  "conv_takeover_row moment c =
     c \<lparr> c_ownership := MANAGER, c_status := HANDOFF, c_handoff_state := HUMAN_ACTIVE,
         c_manager_epoch := c_manager_epoch c + 1, c_manager_takeover_at := Some moment,
         c_handoff_deadline_at := Some Infinity, c_human_pause_anchor_at := None,
         c_active_reply_plan_id := None \<rparr>"

definition apply_manager_takeover ::
  "uuid \<Rightarrow> moment \<Rightarrow> conversation list \<Rightarrow> exn + ((conversation \<times> bool) \<times> conversation list)" where
  "apply_manager_takeover cid moment t =
     (case lock_for_update cid t of
        Inl e \<Rightarrow> Inl e
      | Inr c \<Rightarrow>
          if c_status c = CLOSED then Inr ((c, False), t)
          else if c_ownership c = MANAGER \<and> c_manager_takeover_at c \<noteq> None \<and> c_status c = HANDOFF \<and>
                  c_handoff_state c = HUMAN_ACTIVE \<and> c_handoff_deadline_at c \<noteq> None \<and>
                  c_human_pause_anchor_at c = None
          then Inr ((c, False), t)
          else case conv_update_refresh c (conv_takeover_row moment) t of
                 Inl e \<Rightarrow> Inl e
               | Inr (c', t') \<Rightarrow> Inr ((c', True), t'))"

text \<open>
  \<open>conversation.active_reply_plan_id = ...; flush()\<close>, which the services do directly on the object.
\<close>

definition set_active_reply_plan ::
  "conversation \<Rightarrow> uuid option \<Rightarrow> conversation list \<Rightarrow> exn + (conversation \<times> conversation list)" where
  "set_active_reply_plan c plan_id t =
     conv_update_refresh c (\<lambda>x. x \<lparr> c_active_reply_plan_id := plan_id \<rparr>) t"

section \<open>Row steps\<close>

inductive conv_step :: "conversation \<Rightarrow> conversation \<Rightarrow> bool" where
  seq: "conv_step c (conv_seq_row c)"
| bump: "conv_step c (conv_bump_row m c)"
| manager: "handoff_pause_valid pause \<Longrightarrow> 0 \<le> n \<Longrightarrow>
    (case c_manager_sequence_hwm c of None \<Rightarrow> True | Some h \<Rightarrow> h < n) \<Longrightarrow>
    conv_step c (conv_human_active_row m pause c \<lparr> c_manager_sequence_hwm := Some n \<rparr>)"
| vk_reply: "handoff_pause_valid pause \<Longrightarrow> 0 \<le> n \<Longrightarrow>
    (case c_vk_client_external_reply_hwm c of None \<Rightarrow> True | Some h \<Rightarrow> h < n) \<Longrightarrow>
    conv_step c (conv_human_active_row m pause c \<lparr> c_vk_client_external_reply_hwm := Some n \<rparr>)"
| pause: "handoff_pause_valid pause \<Longrightarrow> c_handoff_state c = HUMAN_ACTIVE \<Longrightarrow>
    conv_step c (conv_pause_row m pause c)"
| takeover: "c_status c \<noteq> CLOSED \<Longrightarrow> conv_step c (conv_takeover_row m c)"
| return: "c_status c = HANDOFF \<Longrightarrow> c_handoff_deadline_at c = Some d \<Longrightarrow> d \<le> At m \<Longrightarrow>
    \<not> handoff_expiry_quarantine_is_active c \<Longrightarrow> conv_step c (conv_return_row p c)"
| quarantine: "r \<in> set HANDOFF_QUARANTINE_REASONS \<Longrightarrow> c_status c = HANDOFF \<Longrightarrow>
    conv_step c (conv_quarantine_row m r c)"
| clear: "handoff_expiry_quarantine_is_active c \<Longrightarrow> conv_step c (conv_clear_row m c)"
| active_plan: "conv_step c (c \<lparr> c_active_reply_plan_id := p \<rparr>)"

lemmas conv_row_defs =
  conv_seq_row_def conv_bump_row_def conv_human_active_row_def conv_pause_row_def
  conv_takeover_row_def conv_return_row_def conv_quarantine_row_def conv_clear_row_def

lemmas conversation_ok_defs =
  conversation_ok_def ck_conversations_handoff_consistency_def ck_conversations_handoff_quarantine_def
  ck_conversations_counters_def

definition conv_new :: "conversation \<Rightarrow> bool" where
  "conv_new c = (\<exists>i now ch ext. c = conv_new_row i now ch ext)"

lemma conv_new_row_ok: "conversation_ok (conv_new_row i now ch ext)"
  by (simp add: conv_new_row_def conversation_ok_defs)

lemma conv_new_ok: "conv_new c \<Longrightarrow> conversation_ok c"
  unfolding conv_new_def using conv_new_row_ok by blast

text \<open>Every step keeps the constraints of the table.\<close>

lemma conv_step_handoff_consistency:
  assumes "conv_step c c'" and "ck_conversations_handoff_consistency c"
  shows "ck_conversations_handoff_consistency c'"
  using assms
  by (cases rule: conv_step.cases)
    (simp_all add: ck_conversations_handoff_consistency_def conv_row_defs split: option.split)

lemma conv_step_handoff_quarantine:
  assumes "conv_step c c'" and "ck_conversations_handoff_quarantine c"
  shows "ck_conversations_handoff_quarantine c'"
  using assms
  by (cases rule: conv_step.cases)
    (simp_all add: ck_conversations_handoff_quarantine_def conv_row_defs
      HANDOFF_QUARANTINE_CLEAR_PATHS_def HANDOFF_QUARANTINE_CLEAR_PATH_MANAGER_MESSAGE_def
      handoff_expiry_quarantine_is_active_def, auto)

lemma conv_step_counters:
  assumes "conv_step c c'" and "ck_conversations_counters c"
  shows "ck_conversations_counters c'"
  using assms
  by (cases rule: conv_step.cases) (simp_all add: ck_conversations_counters_def conv_row_defs)

lemma conv_step_ok: "conv_step c c' \<Longrightarrow> conversation_ok c \<Longrightarrow> conversation_ok c'"
  by (simp add: conversation_ok_def conv_step_handoff_consistency conv_step_handoff_quarantine
      conv_step_counters)

text \<open>The fences never go back, and the identity columns never change.\<close>

definition conv_fences :: "conversation \<Rightarrow> int \<times> int \<times> int" where
  "conv_fences c = (c_context_version c, c_manager_epoch c, c_current_event_seq c)"

definition conv_le :: "conversation \<Rightarrow> conversation \<Rightarrow> bool" where
  "conv_le c c' =
     (c_id c' = c_id c \<and> c_channel c' = c_channel c \<and>
      c_external_conversation_id c' = c_external_conversation_id c \<and>
      c_created_at c' = c_created_at c \<and>
      c_context_version c \<le> c_context_version c' \<and> c_manager_epoch c \<le> c_manager_epoch c' \<and>
      c_current_event_seq c \<le> c_current_event_seq c' \<and>
      (\<forall>h. c_manager_sequence_hwm c = Some h \<longrightarrow>
         (\<exists>h'. c_manager_sequence_hwm c' = Some h' \<and> h \<le> h')))"

lemma conv_step_le: "conv_step c c' \<Longrightarrow> conv_le c c'"
  by (cases rule: conv_step.cases) (auto simp: conv_le_def conv_row_defs)

lemma conv_le_refl [simp]: "conv_le c c"
  by (simp add: conv_le_def)

lemma conv_le_trans [trans]: "conv_le a b \<Longrightarrow> conv_le b c \<Longrightarrow> conv_le a c"
  by (fastforce simp: conv_le_def)

lemma conv_steps_le: "conv_step\<^sup>*\<^sup>* c c' \<Longrightarrow> conv_le c c'"
  by (induction rule: rtranclp_induct) (auto dest: conv_step_le intro: conv_le_trans)

lemma conv_step_id: "conv_step c c' \<Longrightarrow> c_id c' = c_id c"
  by (auto dest: conv_step_le simp: conv_le_def)

section \<open>Operations on a current object\<close>

text \<open>
  Under the row lock the object a service holds is the row itself. Each operation then succeeds,
  returns the stepped row and leaves a table in which only that row moved.
\<close>

definition conv_current :: "conversation \<Rightarrow> conversation list \<Rightarrow> bool" where
  "conv_current c t = (distinct (map c_id t) \<and> c \<in> set t)"

lemma conv_current_put:
  "conv_current c t \<Longrightarrow> c_id c' = c_id c \<Longrightarrow> conv_current c' (sql_put c_id c' t)"
  by (auto simp: conv_current_def intro: sql_put_in)

lemma conv_current_lock: "conv_current c t \<Longrightarrow> lock_for_update (c_id c) t = Inr c"
  by (simp add: conv_current_def lock_for_update_def conv_get_by_id_for_update_def sql_one_the_row)

lemma lock_for_update_Inr:
  "lock_for_update i t = Inr c \<Longrightarrow> distinct (map c_id t) \<Longrightarrow> conv_current c t \<and> c_id c = i"
  by (auto simp: lock_for_update_def conv_get_by_id_for_update_def conv_current_def
      dest: sql_one_Some split: option.splits)

lemma conv_update_refresh_current:
  assumes "conv_current c t" and "\<And>x. c_id (f x) = c_id x"
  shows "conv_update_refresh c f t = Inr (f c, sql_put c_id (f c) t)"
proof -
  have "sql_update (\<lambda>x. c_id x = c_id c) f t = sql_put c_id (f c) t"
    using assms by (intro sql_update_current) (auto simp: conv_current_def)
  moreover have "sql_one (\<lambda>x. c_id x = c_id c) (sql_put c_id (f c) t) = Some (f c)"
    using assms by (intro sql_one_put) (auto simp: conv_current_def)
  ultimately show ?thesis by (simp add: conv_update_refresh_def)
qed

lemma conv_current_count: "conv_current c t \<Longrightarrow> sql_count (\<lambda>x. c_id x = c_id c) t = 1"
  unfolding conv_current_def by (rule sql_count_current [of c_id]) auto

lemma allocate_next_event_seq_current:
  "conv_current c t \<Longrightarrow>
   allocate_next_event_seq c t = Inr (conv_seq_row c, sql_put c_id (conv_seq_row c) t)"
  by (simp add: allocate_next_event_seq_def conv_current_count conv_update_refresh_current
      conv_seq_row_def)

lemma bump_context_current:
  "conv_current c t \<Longrightarrow>
   bump_context_for_new_message c m t = Inr (conv_bump_row m c, sql_put c_id (conv_bump_row m c) t)"
  by (simp add: bump_context_for_new_message_def conv_current_count conv_update_refresh_current
      conv_bump_row_def)

lemma set_active_reply_plan_current:
  "conv_current c t \<Longrightarrow>
   set_active_reply_plan c p t =
     Inr (c \<lparr> c_active_reply_plan_id := p \<rparr>, sql_put c_id (c \<lparr> c_active_reply_plan_id := p \<rparr>) t)"
  by (simp add: set_active_reply_plan_def conv_update_refresh_current)

lemma return_due_handoff_current:
  assumes "conv_current c t" and "conv_handoff_due m c"
  shows "return_due_handoff_to_bot c m p t =
    Inr (conv_return_row p c, sql_put c_id (conv_return_row p c) t)"
proof -
  let ?P = "\<lambda>x. c_id x = c_id c \<and> c_status x = HANDOFF \<and> c_ownership x = MANAGER \<and>
    c_handoff_state x = c_handoff_state c \<and>
    (case c_handoff_deadline_at x of None \<Rightarrow> False | Some d \<Rightarrow> d \<le> At m)"
  have c: "?P c" "distinct (map c_id t)" "c \<in> set t"
    using assms by (auto simp: conv_current_def conv_handoff_due_def)
  then have "sql_count ?P t = 1"
    by (intro sql_count_current [of c_id]) auto
  moreover have "sql_update ?P (conv_return_row p) t = sql_put c_id (conv_return_row p c) t"
    using c by (intro sql_update_current) (auto simp: conv_return_row_def)
  moreover have "sql_one (\<lambda>x. c_id x = c_id c) (sql_put c_id (conv_return_row p c) t) =
      Some (conv_return_row p c)"
    using c by (intro sql_one_put) (auto simp: conv_return_row_def)
  ultimately show ?thesis by (simp add: return_due_handoff_to_bot_def Let_def)
qed

lemma enter_pause_current:
  assumes "conv_current c t" and "handoff_pause_valid pause"
  shows "enter_or_continue_human_pause c m pause t =
    (if c_handoff_state c = HUMAN_ACTIVE
     then Inr ((conv_pause_row m pause c, True), sql_put c_id (conv_pause_row m pause c) t)
     else Inr ((c, False), t))"
  using assms
  by (simp add: enter_or_continue_human_pause_def conv_update_refresh_current conv_pause_row_def)

lemma apply_manager_takeover_current:
  assumes "conv_current c t" and "conversation_ok c"
  shows "apply_manager_takeover (c_id c) m t =
    (if c_status c = CLOSED \<or> c_handoff_state c = HUMAN_ACTIVE then Inr ((c, False), t)
     else Inr ((conv_takeover_row m c, True), sql_put c_id (conv_takeover_row m c) t))"
  using assms
  by (auto simp: apply_manager_takeover_def conv_current_lock conv_update_refresh_current
      conv_takeover_row_def conversation_ok_def ck_conversations_handoff_consistency_def)

text \<open>The quarantine gate: a new row of the append-only history, and the dialog row.\<close>

definition ops_fresh :: "uuid \<Rightarrow> ops_event list \<Rightarrow> bool" where
  "ops_fresh i ops = (sql_one (\<lambda>e. oe_id e = i) ops = None)"

lemma append_ops_event_Inr:
  "append_conversation_ops_event i now c ty r p ops = Inr (e, ops') \<Longrightarrow>
     ops' = ops @ [e] \<and> oe_conversation_id e = c_id c \<and> oe_event_type e = ty \<and>
     oe_reason_code e = r \<and> r \<in> set HANDOFF_QUARANTINE_REASONS"
  by (auto simp: append_conversation_ops_event_def Let_def split: if_splits)

lemma quarantine_current:
  assumes "conv_current c t" and "r \<in> set HANDOFF_QUARANTINE_REASONS" and "ops_fresh i ops"
  shows "\<exists>e. quarantine_due_handoff_expiry i now c r m t ops =
    Inr (conv_quarantine_row m r c, sql_put c_id (conv_quarantine_row m r c) t, ops @ [e]) \<and>
    oe_conversation_id e = c_id c \<and> oe_event_type e = HANDOFF_EXPIRY_QUARANTINED \<and> oe_reason_code e = r"
  using assms
  by (auto simp: quarantine_due_handoff_expiry_def append_conversation_ops_event_def ops_fresh_def
      Let_def conv_update_refresh_current conv_quarantine_row_def)

lemma clear_quarantine_current:
  assumes "conv_current c t" and "conversation_ok c"
    and "handoff_expiry_quarantine_is_active c \<Longrightarrow> ops_fresh i ops"
  shows "\<exists>evs. clear_active_handoff_quarantine_for_manager_message i now c m t ops =
    (if handoff_expiry_quarantine_is_active c
     then Inr ((True, conv_clear_row m c), sql_put c_id (conv_clear_row m c) t, ops @ evs)
     else Inr ((False, c), t, ops @ evs))"
proof (cases "handoff_expiry_quarantine_is_active c")
  case False
  then show ?thesis
    by (intro exI [of _ "[]"]) (simp add: clear_active_handoff_quarantine_for_manager_message_def)
next
  case True
  then obtain r where r: "c_handoff_quarantine_reason c = Some r" "r \<in> set HANDOFF_QUARANTINE_REASONS"
    using assms(2)
    by (auto simp: conversation_ok_def ck_conversations_handoff_quarantine_def
        handoff_expiry_quarantine_is_active_def)
  let ?P = "\<lambda>x. c_id x = c_id c \<and> c_handoff_quarantined_at x \<noteq> None \<and>
    c_handoff_quarantine_cleared_at x = None \<and> c_handoff_quarantine_reason x = Some r"
  have c: "?P c" "distinct (map c_id t)" "c \<in> set t"
    using assms(1) True r by (auto simp: conv_current_def handoff_expiry_quarantine_is_active_def)
  then have "sql_count ?P t = 1"
    by (intro sql_count_current [of c_id]) auto
  moreover have "sql_update ?P (conv_clear_row m) t = sql_put c_id (conv_clear_row m c) t"
    using c by (intro sql_update_current) (auto simp: conv_clear_row_def)
  moreover have "sql_one (\<lambda>x. c_id x = c_id c) (sql_put c_id (conv_clear_row m c) t) =
      Some (conv_clear_row m c)"
    using c by (intro sql_one_put) (auto simp: conv_clear_row_def)
  moreover have "\<exists>e. append_conversation_ops_event i now c HANDOFF_QUARANTINE_CLEARED r
      (Some HANDOFF_QUARANTINE_CLEAR_PATH_MANAGER_MESSAGE) ops = Inr (e, ops @ [e])"
    using r assms(3) [OF True]
    by (simp add: append_conversation_ops_event_def Let_def ops_fresh_def
        HANDOFF_QUARANTINE_CLEAR_PATHS_def HANDOFF_QUARANTINE_CLEAR_PATH_MANAGER_MESSAGE_def)
  ultimately show ?thesis
    using True r
    by (auto simp: clear_active_handoff_quarantine_for_manager_message_def Let_def)
qed

text \<open>
  A manager message, as one step of the row: the quarantine gate opens and the dialog becomes
  \<open>HUMAN_ACTIVE\<close>.
\<close>

definition conv_opened :: "moment \<Rightarrow> conversation \<Rightarrow> conversation" where
  "conv_opened m c = (if handoff_expiry_quarantine_is_active c then conv_clear_row m c else c)"

lemma conv_opened_simps [simp]:
  "c_id (conv_opened m c) = c_id c"
  "c_handoff_state (conv_opened m c) = c_handoff_state c"
  "c_status (conv_opened m c) = c_status c"
  "c_manager_sequence_hwm (conv_opened m c) = c_manager_sequence_hwm c"
  "c_vk_client_external_reply_hwm (conv_opened m c) = c_vk_client_external_reply_hwm c"
  "c_context_version (conv_opened m c) = c_context_version c"
  "c_manager_epoch (conv_opened m c) = c_manager_epoch c"
  "c_current_event_seq (conv_opened m c) = c_current_event_seq c"
  by (simp_all add: conv_opened_def conv_clear_row_def)

lemma conv_opened_not_quarantined: "\<not> handoff_expiry_quarantine_is_active (conv_opened m c)"
  by (simp add: conv_opened_def conv_clear_row_def handoff_expiry_quarantine_is_active_def)

lemma conv_opened_step: "conv_step\<^sup>*\<^sup>* c (conv_opened m c)"
  by (auto simp: conv_opened_def intro: conv_step.clear)

lemma manager_message_current:
  assumes "conv_current c t" and "conversation_ok c" and "handoff_pause_valid pause"
    and "handoff_expiry_quarantine_is_active c \<Longrightarrow> ops_fresh i ops"
    and c'_def: "c' = conv_human_active_row m pause (conv_opened m c) \<lparr> c_manager_sequence_hwm := Some n \<rparr>"
  shows "\<exists>evs. apply_chronologically_new_manager_message i now c n m pause t ops =
    Inr ((c', c_handoff_state c = BOT_ACTIVE), sql_put c_id c' t, ops @ evs)"
proof -
  obtain evs where clear: "clear_active_handoff_quarantine_for_manager_message i now c m t ops =
    (if handoff_expiry_quarantine_is_active c
     then Inr ((True, conv_clear_row m c), sql_put c_id (conv_clear_row m c) t, ops @ evs)
     else Inr ((False, c), t, ops @ evs))"
    using clear_quarantine_current [OF assms(1,2,4)] by blast
  have "conv_current (conv_clear_row m c) (sql_put c_id (conv_clear_row m c) t)"
    using assms(1) by (intro conv_current_put) (auto simp: conv_clear_row_def)
  with assms(1,3) clear show ?thesis
    by (simp add: apply_chronologically_new_manager_message_def c'_def conv_opened_def Let_def
        conv_update_refresh_current conv_human_active_row_def conv_clear_row_def sql_put_put)
qed

lemma vk_external_reply_current:
  assumes "conv_current c t" and "conversation_ok c" and "handoff_pause_valid pause"
    and "handoff_expiry_quarantine_is_active c \<Longrightarrow> ops_fresh i ops"
    and c'_def: "c' = conv_human_active_row m pause (conv_opened m c)
                   \<lparr> c_vk_client_external_reply_hwm := Some n \<rparr>"
  shows "\<exists>evs. apply_chronologically_new_vk_external_reply i now c n m pause t ops =
    Inr ((c', c_handoff_state c = BOT_ACTIVE), sql_put c_id c' t, ops @ evs)"
proof -
  obtain evs where clear: "clear_active_handoff_quarantine_for_manager_message i now c m t ops =
    (if handoff_expiry_quarantine_is_active c
     then Inr ((True, conv_clear_row m c), sql_put c_id (conv_clear_row m c) t, ops @ evs)
     else Inr ((False, c), t, ops @ evs))"
    using clear_quarantine_current [OF assms(1,2,4)] by blast
  have "conv_current (conv_clear_row m c) (sql_put c_id (conv_clear_row m c) t)"
    using assms(1) by (intro conv_current_put) (auto simp: conv_clear_row_def)
  with assms(1,3) clear show ?thesis
    by (simp add: apply_chronologically_new_vk_external_reply_def c'_def conv_opened_def Let_def
        conv_update_refresh_current conv_human_active_row_def conv_clear_row_def sql_put_put)
qed

lemma conv_get_or_create_Inr:
  assumes "conv_get_or_create i now ch ext t = Inr ((c, created), t')" and "distinct (map c_id t)"
  shows "conv_current c t'" and "(\<not> created \<and> t' = t) \<or>
    (created \<and> t' = t @ [c] \<and> c = conv_new_row i now ch ext \<and>
     conv_get_by_channel_external ch ext t = None \<and> conv_get_by_id_for_update i t = None)"
    and "c_channel c = ch" and "c_external_conversation_id c = ext"
proof -
  have cases: "(\<not> created \<and> t' = t \<and> conv_get_by_channel_external ch ext t = Some c) \<or>
    (created \<and> t' = t @ [c] \<and> c = conv_new_row i now ch ext \<and>
     conv_get_by_channel_external ch ext t = None \<and> conv_get_by_id_for_update i t = None)"
    using assms(1)
    by (auto simp: conv_get_or_create_def Let_def conv_get_by_channel_external_def sql_one_append
        conv_new_row_def split: option.splits if_splits)
  then show "(\<not> created \<and> t' = t) \<or>
    (created \<and> t' = t @ [c] \<and> c = conv_new_row i now ch ext \<and>
     conv_get_by_channel_external ch ext t = None \<and> conv_get_by_id_for_update i t = None)"
    by blast
  have found: "conv_get_by_channel_external ch ext t = Some c \<Longrightarrow>
      c \<in> set t \<and> c_channel c = ch \<and> c_external_conversation_id c = ext"
    by (auto simp: conv_get_by_channel_external_def dest: sql_one_Some)
  show "conv_current c t'"
    using cases found assms(2)
    by (auto simp: conv_current_def conv_get_by_id_for_update_def sql_one_None conv_new_row_def)
  show "c_channel c = ch" and "c_external_conversation_id c = ext"
    using cases found by (auto simp: conv_new_row_def)
qed

end
