(* ===== verification/Reply_Plan.thy ===== *)
theory Reply_Plan
  imports Fenced_Queue Conversation
begin

text \<open>
  Persisted reply plans: models/reply_plan.py and repositories/reply_plans.py. A plan is created for
  one \<open>context_version\<close> of a dialog together with the other fences it was computed under; its delay is
  the column \<open>not_before\<close>. Workers lease due plans of dialogs the bot still owns; a plan is dispatched,
  superseded by a newer client message, cancelled by a manager, failed and retried, or dead.
\<close>

section \<open>Data\<close>

definition BOT_RESPONSE_DELAY_MS :: int where
  "BOT_RESPONSE_DELAY_MS = 5000"

definition REPLY_PLAN_DEFAULT_MAX_ATTEMPTS :: int where
  "REPLY_PLAN_DEFAULT_MAX_ATTEMPTS = 5"

datatype ReplyPlanType = CLIENT_REPLY | SERVICE_SIGNAL

datatype ReplyPlanStatus =
    Plan_PENDING
  | Plan_READY
  | Plan_PROCESSING
  | Plan_DISPATCHED
  | Plan_CANCELLED
  | Plan_SUPERSEDED
  | Plan_FAILED
  | Plan_DEAD

fun REPLY_PLAN_TRANSITIONS :: "ReplyPlanStatus \<Rightarrow> ReplyPlanStatus list" where
  "REPLY_PLAN_TRANSITIONS Plan_PENDING =
     [Plan_READY, Plan_PROCESSING, Plan_CANCELLED, Plan_SUPERSEDED]"
| "REPLY_PLAN_TRANSITIONS Plan_READY = [Plan_PROCESSING, Plan_CANCELLED, Plan_SUPERSEDED]"
| "REPLY_PLAN_TRANSITIONS Plan_PROCESSING =
     [Plan_DISPATCHED, Plan_FAILED, Plan_DEAD, Plan_CANCELLED, Plan_SUPERSEDED]"
| "REPLY_PLAN_TRANSITIONS Plan_FAILED =
     [Plan_PROCESSING, Plan_DEAD, Plan_CANCELLED, Plan_SUPERSEDED]"
| "REPLY_PLAN_TRANSITIONS Plan_DISPATCHED = []"
| "REPLY_PLAN_TRANSITIONS Plan_CANCELLED = []"
| "REPLY_PLAN_TRANSITIONS Plan_SUPERSEDED = []"
| "REPLY_PLAN_TRANSITIONS Plan_DEAD = []"

definition TERMINAL_REPLY_PLAN_STATUSES :: "ReplyPlanStatus list" where
  "TERMINAL_REPLY_PLAN_STATUSES = [Plan_DISPATCHED, Plan_CANCELLED, Plan_SUPERSEDED, Plan_DEAD]"

definition reply_plan_transition_allowed :: "ReplyPlanStatus \<Rightarrow> ReplyPlanStatus \<Rightarrow> bool" where
  "reply_plan_transition_allowed current target = (target \<in> set (REPLY_PLAN_TRANSITIONS current))"

record reply_plan =
  p_id :: uuid
  p_conversation_id :: uuid
  p_context_version :: int
  p_manager_epoch :: int
  p_event_seq_hwm :: int
  p_plan_type :: ReplyPlanType
  p_status :: ReplyPlanStatus
  p_not_before :: pgtime
  p_bot_response_delay_ms :: int
  p_payload_json :: payload
  p_cancel_reason :: "string option"
  p_lease_owner :: "string option"
  p_lease_token :: "uuid option"
  p_lease_version :: int
  p_lease_until :: "moment option"
  p_attempt_count :: int
  p_max_attempts :: int
  p_correlation_id :: uuid
  p_created_at :: moment

record reply_plan_claim =
  pc_plan_id :: uuid
  pc_conversation_id :: uuid
  pc_context_version :: int
  pc_manager_epoch :: int
  pc_event_seq_hwm :: int
  pc_plan_type :: ReplyPlanType
  pc_status :: ReplyPlanStatus
  pc_not_before :: pgtime
  pc_bot_response_delay_ms :: int
  pc_attempt_count :: int
  pc_max_attempts :: int
  pc_lease_owner :: string
  pc_lease_token :: uuid
  pc_lease_version :: int
  pc_lease_until :: moment
  pc_correlation_id :: uuid
  pc_payload_json :: payload

record exhausted_reply_plan_lease =
  xl_plan_id :: uuid
  xl_conversation_id :: uuid

section \<open>Operations\<close>

definition plan_row_to_claim :: "reply_plan \<Rightarrow> exn + reply_plan_claim" where
  "plan_row_to_claim row =
     (case (p_lease_token row, p_lease_owner row, p_lease_until row) of
        (Some token, Some owner, Some until) \<Rightarrow>
          Inr \<lparr> pc_plan_id = p_id row, pc_conversation_id = p_conversation_id row,
                pc_context_version = p_context_version row, pc_manager_epoch = p_manager_epoch row,
                pc_event_seq_hwm = p_event_seq_hwm row, pc_plan_type = p_plan_type row,
                pc_status = p_status row, pc_not_before = p_not_before row,
                pc_bot_response_delay_ms = p_bot_response_delay_ms row,
                pc_attempt_count = p_attempt_count row, pc_max_attempts = p_max_attempts row,
                pc_lease_owner = owner, pc_lease_token = token,
                pc_lease_version = p_lease_version row, pc_lease_until = until,
                pc_correlation_id = p_correlation_id row, pc_payload_json = p_payload_json row \<rparr>
      | _ \<Rightarrow> Inl (RuntimeError ''REPLY_PLAN_LEASE_INCOMPLETE''))"

definition plan_get_by_id :: "uuid \<Rightarrow> reply_plan list \<Rightarrow> reply_plan option" where
  "plan_get_by_id plan_id t = sql_one (\<lambda>r. p_id r = plan_id) t"

definition plan_new_row ::
  "uuid \<Rightarrow> moment \<Rightarrow> uuid \<Rightarrow> int \<Rightarrow> uuid \<Rightarrow> payload \<Rightarrow> int \<Rightarrow> int \<Rightarrow> pgtime \<Rightarrow> int \<Rightarrow> int \<Rightarrow> reply_plan"
where
  "plan_new_row new_id moment cid context_version corr payload delay_ms max_attempts scheduled_for
     manager_epoch event_seq_hwm =
     \<lparr> p_id = new_id, p_conversation_id = cid, p_context_version = context_version,
       p_manager_epoch = manager_epoch, p_event_seq_hwm = event_seq_hwm,
       p_plan_type = CLIENT_REPLY, p_status = Plan_PENDING, p_not_before = scheduled_for,
       p_bot_response_delay_ms = delay_ms, p_payload_json = payload, p_cancel_reason = None,
       p_lease_owner = None, p_lease_token = None, p_lease_version = 0, p_lease_until = None,
       p_attempt_count = 0, p_max_attempts = max_attempts, p_correlation_id = corr,
       p_created_at = moment \<rparr>"

text \<open>
  The flush raises when the row violates a constraint of the table: its primary key, the uniqueness
  of (dialog, context version), or the checks on \<open>max_attempts\<close> and \<open>context_version\<close>.
\<close>

definition create_client_reply_plan ::
  "uuid \<Rightarrow> moment \<Rightarrow> uuid \<Rightarrow> int \<Rightarrow> uuid \<Rightarrow> payload \<Rightarrow> int \<Rightarrow> int \<Rightarrow> pgtime option \<Rightarrow> int \<Rightarrow> int
     \<Rightarrow> reply_plan list \<Rightarrow> exn + (reply_plan \<times> reply_plan list)" where
  "create_client_reply_plan new_id moment cid context_version corr payload delay_ms max_attempts
     not_before manager_epoch event_seq_hwm t =
     (if delay_ms < 0 then Inl (ValueError ''delay_ms must be nonnegative'')
      else if manager_epoch < 0 \<or> event_seq_hwm < 0
      then Inl (ValueError ''reply fencing values must be nonnegative'')
      else
        let scheduled_for = (case not_before of
              Some nb \<Rightarrow> nb
            | None \<Rightarrow> At (moment + milliseconds delay_ms));
            plan = plan_new_row new_id moment cid context_version corr payload delay_ms max_attempts
                     scheduled_for manager_epoch event_seq_hwm
        in if plan_get_by_id new_id t \<noteq> None then Inl (IntegrityError ''reply_plans_pkey'')
           else if sql_one (\<lambda>r. (p_conversation_id r, p_context_version r) = (cid, context_version)) t
                     \<noteq> None
           then Inl (IntegrityError ''uq_reply_plans_conversation_context_version'')
           else if max_attempts \<le> 0
           then Inl (IntegrityError ''ck_reply_plans_max_attempts_positive'')
           else if context_version < 0
           then Inl (IntegrityError ''ck_reply_plans_context_version_nonnegative'')
           else Inr (plan, t @ [plan]))"

definition plan_open :: "reply_plan \<Rightarrow> bool" where
  "plan_open r = (p_status r \<notin> set TERMINAL_REPLY_PLAN_STATUSES)"

definition plan_close_row :: "ReplyPlanStatus \<Rightarrow> string option \<Rightarrow> reply_plan \<Rightarrow> reply_plan" where
  "plan_close_row target reason r =
     r \<lparr> p_status := target, p_cancel_reason := reason, p_lease_owner := None,
         p_lease_token := None, p_lease_until := None \<rparr>"

definition supersede_open_plans ::
  "uuid \<Rightarrow> string \<Rightarrow> reply_plan list \<Rightarrow> nat \<times> reply_plan list" where
  "supersede_open_plans cid reason t =
     (let P = (\<lambda>r. p_conversation_id r = cid \<and> plan_open r)
      in (sql_count P t, sql_update P (plan_close_row Plan_SUPERSEDED (Some (take 64 reason))) t))"

definition cancel_open_plans_for_takeover ::
  "uuid \<Rightarrow> string \<Rightarrow> reply_plan list \<Rightarrow> nat \<times> reply_plan list" where
  "cancel_open_plans_for_takeover cid reason t =
     (let P = (\<lambda>r. p_conversation_id r = cid \<and> plan_open r)
      in (sql_count P t, sql_update P (plan_close_row Plan_CANCELLED (Some (take 64 reason))) t))"

definition plan_pending_due :: "moment \<Rightarrow> reply_plan \<Rightarrow> bool" where
  "plan_pending_due now r = (p_status r = Plan_PENDING \<and> p_not_before r \<le> At now)"

definition plan_ready_row :: "reply_plan \<Rightarrow> reply_plan" where
  "plan_ready_row r = r \<lparr> p_status := Plan_READY \<rparr>"

definition mark_ready_due_plans :: "moment \<Rightarrow> reply_plan list \<Rightarrow> nat \<times> reply_plan list" where
  "mark_ready_due_plans now t =
     (sql_count (plan_pending_due now) t, sql_update (plan_pending_due now) plan_ready_row t)"

definition plan_lease_expired :: "moment \<Rightarrow> reply_plan \<Rightarrow> bool" where
  "plan_lease_expired now r = (case p_lease_until r of None \<Rightarrow> False | Some u \<Rightarrow> u < now)"

definition plan_exhausted :: "moment \<Rightarrow> reply_plan \<Rightarrow> bool" where
  "plan_exhausted now r =
     (p_status r = Plan_PROCESSING \<and> plan_lease_expired now r \<and>
      p_attempt_count r \<ge> p_max_attempts r)"

definition plan_find_exhausted_lease ::
  "moment \<Rightarrow> reply_plan list \<Rightarrow> exhausted_reply_plan_lease option" where
  "plan_find_exhausted_lease now t =
     (case sql_first_by
             (\<lambda>r. (case p_lease_until r of None \<Rightarrow> 0 | Some u \<Rightarrow> u, p_created_at r))
             (plan_exhausted now) t of
        None \<Rightarrow> None
      | Some row \<Rightarrow> Some \<lparr> xl_plan_id = p_id row, xl_conversation_id = p_conversation_id row \<rparr>)"

definition plan_recover_exhausted_lease ::
  "uuid \<Rightarrow> moment \<Rightarrow> reply_plan list \<Rightarrow> reply_plan option \<times> reply_plan list" where
  "plan_recover_exhausted_lease plan_id now t =
     (let P = (\<lambda>r. p_id r = plan_id \<and> plan_exhausted now r)
      in if sql_count P t = 0 then (None, t)
         else
           let t' = sql_update P (plan_close_row Plan_DEAD (Some ''LEASE_ATTEMPTS_EXHAUSTED'')) t
           in (plan_get_by_id plan_id t', t'))"

text \<open>The \<open>EXISTS\<close> of the claiming query: the dialog is the bot's and every fence is still current.\<close>

definition plan_fences_current :: "reply_plan \<Rightarrow> conversation \<Rightarrow> bool" where
  "plan_fences_current r c =
     (c_id c = p_conversation_id r \<and> c_status c = OPEN \<and> c_ownership c = BOT \<and>
      c_handoff_state c = BOT_ACTIVE \<and> c_context_version c = p_context_version r \<and>
      c_manager_epoch c = p_manager_epoch r \<and> c_current_event_seq c = p_event_seq_hwm r)"

definition plan_claimable :: "moment \<Rightarrow> conversation list \<Rightarrow> reply_plan \<Rightarrow> bool" where
  "plan_claimable now convs r =
     (p_attempt_count r < p_max_attempts r \<and> p_not_before r \<le> At now \<and>
      list_ex (plan_fences_current r) convs \<and>
      (p_status r = Plan_READY \<or>
       p_status r = Plan_FAILED \<and> (p_lease_until r = None \<or> plan_lease_expired now r) \<or>
       p_status r = Plan_PROCESSING \<and> plan_lease_expired now r))"

definition plan_lease_row :: "string \<Rightarrow> uuid \<Rightarrow> moment \<Rightarrow> reply_plan \<Rightarrow> reply_plan" where
  "plan_lease_row worker token until r =
     r \<lparr> p_status := Plan_PROCESSING, p_lease_owner := Some worker, p_lease_token := Some token,
         p_lease_version := p_lease_version r + 1, p_lease_until := Some until,
         p_attempt_count := p_attempt_count r + 1, p_cancel_reason := None \<rparr>"

definition plan_claim_next ::
  "string \<Rightarrow> int \<Rightarrow> moment \<Rightarrow> uuid \<Rightarrow> (uuid \<Rightarrow> bool) \<Rightarrow> conversation list \<Rightarrow> reply_plan list
     \<Rightarrow> exn + (reply_plan_claim option \<times> reply_plan list)" where
  "plan_claim_next worker lease_seconds now token locked convs t =
     (if lease_seconds \<le> 0 then Inl (ValueError ''lease_seconds must be positive'')
      else
        let t1 = snd (mark_ready_due_plans now t);
            until = now + seconds lease_seconds
        in case sql_first_by (\<lambda>r. (p_not_before r, p_created_at r))
                  (\<lambda>r. plan_claimable now convs r \<and> \<not> locked (p_id r)) t1 of
             None \<Rightarrow> Inr (None, t1)
           | Some cand \<Rightarrow>
               let t2 = sql_update (\<lambda>r. p_id r = p_id cand) (plan_lease_row worker token until) t1
               in case plan_get_by_id (p_id cand) t2 of
                    None \<Rightarrow> Inl (RuntimeError ''REPLY_PLAN_CLAIM_LOOKUP_FAILED'')
                  | Some plan \<Rightarrow>
                      (case plan_row_to_claim plan of
                         Inl e \<Rightarrow> Inl e
                       | Inr claim \<Rightarrow> Inr (Some claim, t2)))"

definition plan_held :: "uuid \<Rightarrow> uuid \<Rightarrow> int \<Rightarrow> reply_plan \<Rightarrow> bool" where
  "plan_held plan_id token version r =
     (p_id r = plan_id \<and> p_status r = Plan_PROCESSING \<and> p_lease_token r = Some token \<and>
      p_lease_version r = version)"

definition plan_dispatched_row :: "reply_plan \<Rightarrow> reply_plan" where
  "plan_dispatched_row r =
     r \<lparr> p_status := Plan_DISPATCHED, p_lease_owner := None, p_lease_token := None,
         p_lease_until := None \<rparr>"

definition complete_dispatched_with_lease ::
  "uuid \<Rightarrow> uuid \<Rightarrow> int \<Rightarrow> reply_plan list \<Rightarrow> exn + (reply_plan \<times> reply_plan list)" where
  "complete_dispatched_with_lease plan_id token version t =
     (if \<not> reply_plan_transition_allowed Plan_PROCESSING Plan_DISPATCHED
      then Inl (ReplyPlanStateError ''REPLY_PLAN_TRANSITION_DENIED'')
      else if sql_count (plan_held plan_id token version) t = 0
      then Inl (StaleReplyPlanLeaseError ''REPLY_PLAN_STALE_LEASE'')
      else
        let t' = sql_update (plan_held plan_id token version) plan_dispatched_row t
        in case plan_get_by_id plan_id t' of
             None \<Rightarrow> Inl (RuntimeError ''REPLY_PLAN_LOOKUP_FAILED'')
           | Some plan \<Rightarrow> Inr (plan, t'))"

definition plan_fail_row :: "ReplyPlanStatus \<Rightarrow> pgtime \<Rightarrow> string \<Rightarrow> reply_plan \<Rightarrow> reply_plan" where
  "plan_fail_row target not_before error_code r =
     plan_close_row target (Some (take 64 error_code)) r \<lparr> p_not_before := not_before \<rparr>"

definition plan_fail_with_lease ::
  "uuid \<Rightarrow> uuid \<Rightarrow> int \<Rightarrow> string \<Rightarrow> int \<Rightarrow> moment \<Rightarrow> reply_plan list
     \<Rightarrow> exn + (reply_plan \<times> reply_plan list)" where
  "plan_fail_with_lease plan_id token version error_code retry_delay_seconds now t =
     (case plan_get_by_id plan_id t of
        None \<Rightarrow> Inl (RuntimeError ''REPLY_PLAN_LOOKUP_FAILED'')
      | Some plan \<Rightarrow>
          if \<not> plan_held plan_id token version plan
          then Inl (StaleReplyPlanLeaseError ''REPLY_PLAN_STALE_LEASE'')
          else
            let dead = p_attempt_count plan \<ge> p_max_attempts plan;
                target = (if dead then Plan_DEAD else Plan_FAILED);
                not_before = (if dead then p_not_before plan
                              else At (now + seconds retry_delay_seconds))
            in if \<not> reply_plan_transition_allowed Plan_PROCESSING target
               then Inl (ReplyPlanStateError ''REPLY_PLAN_TRANSITION_DENIED'')
               else if sql_count (plan_held plan_id token version) t = 0
               then Inl (StaleReplyPlanLeaseError ''REPLY_PLAN_STALE_LEASE'')
               else
                 let t' = sql_update (plan_held plan_id token version)
                            (plan_fail_row target not_before error_code) t
                 in case plan_get_by_id plan_id t' of
                      None \<Rightarrow> Inl (RuntimeError ''REPLY_PLAN_LOOKUP_FAILED'')
                    | Some refreshed \<Rightarrow> Inr (refreshed, t'))"

definition plan_started_row :: "reply_plan \<Rightarrow> reply_plan" where
  "plan_started_row r =
     r \<lparr> p_payload_json := dict_set (p_payload_json r) ''booking_resolution_started'' (JBool True) \<rparr>"

definition try_mark_booking_resolution_started ::
  "uuid \<Rightarrow> uuid \<Rightarrow> int \<Rightarrow> reply_plan list \<Rightarrow> bool \<times> reply_plan list" where
  "try_mark_booking_resolution_started plan_id token version t =
     (let P = (\<lambda>r. plan_held plan_id token version r \<and>
                 \<not> dict_has (p_payload_json r) ''booking_resolution_started'' \<and>
                 \<not> dict_has (p_payload_json r) ''booking_resolution_result'')
      in if sql_count P t = 0 then (False, t) else (True, sql_update P plan_started_row t))"

definition plan_result_payload :: "payload \<Rightarrow> payload \<Rightarrow> payload" where
  "plan_result_payload payload result =
     dict_set (dict_set payload ''booking_resolution_started'' (JBool True))
       ''booking_resolution_result'' (JObj result)"

definition persist_booking_resolution_result ::
  "uuid \<Rightarrow> uuid \<Rightarrow> int \<Rightarrow> payload \<Rightarrow> reply_plan list \<Rightarrow> exn + (payload \<times> reply_plan list)" where
  "persist_booking_resolution_result plan_id token version result t =
     (case plan_get_by_id plan_id t of
        None \<Rightarrow> Inl (RuntimeError ''REPLY_PLAN_LOOKUP_FAILED'')
      | Some plan \<Rightarrow>
          if \<not> plan_held plan_id token version plan
          then Inl (StaleReplyPlanLeaseError ''REPLY_PLAN_STALE_LEASE'')
          else case dict_get (p_payload_json plan) ''booking_resolution_result'' of
                 JObj _ \<Rightarrow> Inr (p_payload_json plan, t)
               | _ \<Rightarrow>
                   let updated = plan_result_payload (p_payload_json plan) result
                   in Inr (updated,
                           sql_update (\<lambda>r. p_id r = plan_id)
                             (\<lambda>r. r \<lparr> p_payload_json := updated \<rparr>) t))"

section \<open>Row steps and repository calls\<close>

definition plan_new :: "reply_plan \<Rightarrow> bool" where
  "plan_new r =
     (p_status r = Plan_PENDING \<and> p_plan_type r = CLIENT_REPLY \<and> p_attempt_count r = 0 \<and>
      p_lease_version r = 0 \<and> 0 < p_max_attempts r \<and> p_lease_owner r = None \<and>
      p_lease_token r = None \<and> p_lease_until r = None)"

definition plan_finished :: "reply_plan \<Rightarrow> bool" where
  "plan_finished r = (\<not> plan_open r)"

inductive plan_step :: "reply_plan \<Rightarrow> reply_plan \<Rightarrow> bool" where
  ready: "p_status r = Plan_PENDING \<Longrightarrow> plan_step r (plan_ready_row r)"
| claim: "p_attempt_count r < p_max_attempts r \<Longrightarrow> p_status r \<in> {Plan_READY, Plan_FAILED, Plan_PROCESSING} \<Longrightarrow>
    plan_step r (plan_lease_row w token until r)"
| dispatch: "p_status r = Plan_PROCESSING \<Longrightarrow> plan_step r (plan_dispatched_row r)"
| retry: "p_status r = Plan_PROCESSING \<Longrightarrow> p_attempt_count r < p_max_attempts r \<Longrightarrow>
    plan_step r (plan_fail_row Plan_FAILED nb code r)"
| dead: "p_status r = Plan_PROCESSING \<Longrightarrow> p_attempt_count r \<ge> p_max_attempts r \<Longrightarrow>
    plan_step r (plan_fail_row Plan_DEAD nb code r)"
| exhausted: "p_status r = Plan_PROCESSING \<Longrightarrow> p_attempt_count r \<ge> p_max_attempts r \<Longrightarrow>
    plan_step r (plan_close_row Plan_DEAD reason r)"
| close: "plan_open r \<Longrightarrow> target \<in> {Plan_CANCELLED, Plan_SUPERSEDED} \<Longrightarrow>
    plan_step r (plan_close_row target reason r)"
| started: "p_status r = Plan_PROCESSING \<Longrightarrow>
    \<not> dict_has (p_payload_json r) ''booking_resolution_started'' \<Longrightarrow>
    \<not> dict_has (p_payload_json r) ''booking_resolution_result'' \<Longrightarrow>
    plan_step r (plan_started_row r)"
| booked: "p_status r = Plan_PROCESSING \<Longrightarrow>
    (\<And>x. dict_get (p_payload_json r) ''booking_resolution_result'' \<noteq> JObj x) \<Longrightarrow>
    plan_step r (r \<lparr> p_payload_json := plan_result_payload (p_payload_json r) result \<rparr>)"

inductive plan_run :: "reply_plan list \<Rightarrow> reply_plan list \<Rightarrow> bool" where
  create: "create_client_reply_plan i m cid cv corr pl d mx nb ep sq t = Inr (plan, t') \<Longrightarrow>
    plan_run t t'"
| supersede: "supersede_open_plans cid reason t = (n, t') \<Longrightarrow> plan_run t t'"
| cancel: "cancel_open_plans_for_takeover cid reason t = (n, t') \<Longrightarrow> plan_run t t'"
| ready: "mark_ready_due_plans now t = (n, t') \<Longrightarrow> plan_run t t'"
| recover: "plan_recover_exhausted_lease i now t = (row, t') \<Longrightarrow> plan_run t t'"
| claim: "plan_claim_next w secs now token locked convs t = Inr (c, t') \<Longrightarrow> plan_run t t'"
| complete: "complete_dispatched_with_lease i token v t = Inr (plan, t') \<Longrightarrow> plan_run t t'"
| fail: "plan_fail_with_lease i token v code delay now t = Inr (plan, t') \<Longrightarrow> plan_run t t'"
| started: "try_mark_booking_resolution_started i token v t = (b, t') \<Longrightarrow> plan_run t t'"
| booked: "persist_booking_resolution_result i token v result t = Inr (pl, t') \<Longrightarrow> plan_run t t'"

lemmas plan_row_defs =
  plan_ready_row_def plan_lease_row_def plan_dispatched_row_def plan_fail_row_def
  plan_close_row_def plan_started_row_def

lemma plan_finished_iff:
  "plan_finished r \<longleftrightarrow> p_status r \<in> {Plan_DISPATCHED, Plan_CANCELLED, Plan_SUPERSEDED, Plan_DEAD}"
  by (auto simp: plan_finished_def plan_open_def TERMINAL_REPLY_PLAN_STATUSES_def)

lemma plan_open_iff:
  "plan_open r \<longleftrightarrow> p_status r \<in> {Plan_PENDING, Plan_READY, Plan_PROCESSING, Plan_FAILED}"
  by (cases "p_status r") (auto simp: plan_open_def TERMINAL_REPLY_PLAN_STATUSES_def)

text \<open>The columns a plan keeps for life: its identity and the fences it was computed under.\<close>

definition plan_keys :: "reply_plan \<Rightarrow> uuid \<times> (uuid \<times> int) \<times> int \<times> int \<times> ReplyPlanType" where
  "plan_keys r = (p_id r, (p_conversation_id r, p_context_version r), p_manager_epoch r,
     p_event_seq_hwm r, p_plan_type r)"

lemma plan_keys_rows [simp]:
  "plan_keys (plan_ready_row r) = plan_keys r"
  "plan_keys (plan_lease_row w token u r) = plan_keys r"
  "plan_keys (plan_dispatched_row r) = plan_keys r"
  "plan_keys (plan_fail_row target nb code r) = plan_keys r"
  "plan_keys (plan_close_row target reason r) = plan_keys r"
  "plan_keys (plan_started_row r) = plan_keys r"
  "plan_keys (r \<lparr> p_payload_json := d \<rparr>) = plan_keys r"
  by (simp_all add: plan_keys_def plan_row_defs)

lemma plan_id_rows [simp]:
  "p_id (plan_ready_row r) = p_id r"
  "p_id (plan_lease_row w token u r) = p_id r"
  "p_id (plan_dispatched_row r) = p_id r"
  "p_id (plan_fail_row target nb code r) = p_id r"
  "p_id (plan_close_row target reason r) = p_id r"
  "p_id (plan_started_row r) = p_id r"
  by (simp_all add: plan_row_defs)

lemma plan_step_keys: "plan_step r r' \<Longrightarrow> plan_keys r' = plan_keys r"
  by (cases rule: plan_step.cases) auto

lemma plan_step_fenced:
  assumes "plan_step r r'"
  shows "p_lease_version r \<le> p_lease_version r'"
    and "p_lease_version r' = p_lease_version r \<Longrightarrow>
           p_lease_token r' = p_lease_token r \<or> p_lease_token r' = None"
    and "\<not> plan_finished r"
    and "p_attempt_count r' - p_attempt_count r = p_lease_version r' - p_lease_version r"
    and "p_max_attempts r' = p_max_attempts r"
    and "p_attempt_count r \<le> p_max_attempts r \<Longrightarrow> p_attempt_count r' \<le> p_max_attempts r"
  using assms
  by (cases rule: plan_step.cases; simp add: plan_row_defs plan_finished_iff plan_open_iff; fastforce)+

section \<open>Operations, by what they did\<close>

lemma create_plan_Inr:
  assumes "create_client_reply_plan i m cid cv corr pl d mx nb ep sq t = Inr (plan, t')"
  shows "t' = t @ [plan]"
    and "plan = plan_new_row i m cid cv corr pl d mx
           (case nb of Some x \<Rightarrow> x | None \<Rightarrow> At (m + milliseconds d)) ep sq"
    and "\<forall>x \<in> set t. p_id x \<noteq> i \<and> (p_conversation_id x, p_context_version x) \<noteq> (cid, cv)"
    and "0 < mx"
  using assms
  by (auto simp: create_client_reply_plan_def Let_def plan_get_by_id_def sql_one_None
      split: if_splits)

lemma create_plan_new:
  "create_client_reply_plan i m cid cv corr pl d mx nb ep sq t = Inr (plan, t') \<Longrightarrow> plan_new plan"
  using create_plan_Inr(2,4) [of i m cid cv corr pl d mx nb ep sq t plan t']
  by (simp add: plan_new_def plan_new_row_def)

definition plan_claim_select ::
  "moment \<Rightarrow> (uuid \<Rightarrow> bool) \<Rightarrow> conversation list \<Rightarrow> reply_plan list \<Rightarrow> reply_plan option" where
  "plan_claim_select now locked convs t =
     sql_first_by (\<lambda>r. (p_not_before r, p_created_at r))
       (\<lambda>r. plan_claimable now convs r \<and> \<not> locked (p_id r)) (snd (mark_ready_due_plans now t))"

lemma mark_ready_map [simp]:
  "map plan_keys (snd (mark_ready_due_plans now t)) = map plan_keys t"
  "map p_id (snd (mark_ready_due_plans now t)) = map p_id t"
  by (simp_all add: mark_ready_due_plans_def map_sql_update)

lemma plan_claim_eq:
  fixes now :: moment and t :: "reply_plan list"
  assumes "distinct (map p_id t)" and "0 < secs"
  defines "t1 \<equiv> snd (mark_ready_due_plans now t)"
  shows "plan_claim_next w secs now token locked convs t =
    (case plan_claim_select now locked convs t of
       None \<Rightarrow> Inr (None, t1)
     | Some cand \<Rightarrow>
         Inr (Some (projr (plan_row_to_claim (plan_lease_row w token (now + seconds secs) cand))),
              sql_put p_id (plan_lease_row w token (now + seconds secs) cand) t1))"
proof (cases "plan_claim_select now locked convs t")
  case None
  with assms show ?thesis
    by (simp add: plan_claim_next_def plan_claim_select_def t1_def Let_def)
next
  case (Some cand)
  have d1: "distinct (map p_id t1)"
    using assms(1) by (simp add: t1_def)
  have in1: "cand \<in> set t1"
    using sql_first_by_Some [OF Some [unfolded plan_claim_select_def]] by (simp add: t1_def)
  let ?r = "plan_lease_row w token (now + seconds secs) cand"
  have "sql_update (\<lambda>r. p_id r = p_id cand) (plan_lease_row w token (now + seconds secs)) t1 =
      sql_put p_id ?r t1"
    using d1 in1 by (intro sql_update_current) auto
  moreover have "plan_get_by_id (p_id cand) (sql_put p_id ?r t1) = Some ?r"
    unfolding plan_get_by_id_def using in1 by (intro sql_one_put) auto
  moreover obtain claim where "plan_row_to_claim ?r = Inr claim"
    by (simp add: plan_row_to_claim_def plan_lease_row_def)
  ultimately show ?thesis
    using Some assms(2)
    by (simp add: plan_claim_next_def plan_claim_select_def t1_def Let_def)
qed

lemma plan_ready_evolves: "evolves N plan_step t (snd (mark_ready_due_plans now t))"
  by (auto simp: mark_ready_due_plans_def plan_pending_due_def intro!: evolves_update1 plan_step.ready)

lemma plan_claimable_status:
  "plan_claimable now convs r \<Longrightarrow> p_status r \<in> {Plan_READY, Plan_FAILED, Plan_PROCESSING}"
  by (auto simp: plan_claimable_def)

lemma plan_claim_evolves:
  assumes "plan_claim_next w secs now token locked convs t = Inr (c, t')" and "distinct (map p_id t)"
  shows "evolves N plan_step t t'" and "map plan_keys t' = map plan_keys t"
proof -
  have pos: "0 < secs"
    using assms(1) by (simp add: plan_claim_next_def split: if_splits)
  let ?t1 = "snd (mark_ready_due_plans now t)"
  have d1: "distinct (map p_id ?t1)"
    using assms(2) by simp
  show "evolves N plan_step t t'" and "map plan_keys t' = map plan_keys t"
  proof (atomize (full), cases "plan_claim_select now locked convs t")
    case None
    with assms pos show "evolves N plan_step t t' \<and> map plan_keys t' = map plan_keys t"
      by (auto simp: plan_claim_eq plan_ready_evolves)
  next
    case (Some cand)
    let ?r = "plan_lease_row w token (now + seconds secs) cand"
    note cand = sql_first_by_Some [OF Some [unfolded plan_claim_select_def]]
    have t': "t' = sql_put p_id ?r ?t1"
      using assms pos Some by (simp add: plan_claim_eq)
    have "plan_step cand ?r"
      using cand plan_claimable_status [of now convs cand]
      by (intro plan_step.claim) (auto simp: plan_claimable_def)
    then have "evolves N plan_step ?t1 t'"
      unfolding t' using d1 cand by (intro evolves_put) auto
    then have "evolves N plan_step t t'"
      using plan_ready_evolves evolves_trans by blast
    moreover have "map plan_keys t' = map plan_keys ?t1"
      unfolding t' using d1 cand by (intro map_sql_put [where r = cand]) auto
    ultimately show "evolves N plan_step t t' \<and> map plan_keys t' = map plan_keys t"
      by simp
  qed
qed

lemma plan_matching_row:
  assumes "distinct (map p_id t)" and "sql_count P t \<noteq> 0" and "\<And>x. P x \<Longrightarrow> p_id x = i"
  obtains r where "r \<in> set t" and "P r" and "p_id r = i" and "plan_get_by_id i t = Some r"
    and "\<And>f. (\<And>x. p_id (f x) = p_id x) \<Longrightarrow> sql_update P f t = sql_put p_id (f r) t"
    and "\<And>f. (\<And>x. p_id (f x) = p_id x) \<Longrightarrow> plan_get_by_id i (sql_put p_id (f r) t) = Some (f r)"
proof -
  obtain r where r: "r \<in> set t" "P r" "p_id r = i"
    using assms(2,3) by (auto simp: sql_count_0)
  have "sql_update P f t = sql_put p_id (f r) t" if "\<And>x. p_id (f x) = p_id x" for f
    using assms(1,3) r that by (intro sql_update_current) auto
  moreover have "plan_get_by_id i (sql_put p_id (f r) t) = Some (f r)" if "\<And>x. p_id (f x) = p_id x" for f
    using sql_one_put [OF r(1), of p_id "f r"] that r(3) by (simp add: plan_get_by_id_def)
  moreover have "plan_get_by_id i t = Some r"
    using sql_one_the_row [OF assms(1) r(1)] r(3) by (simp add: plan_get_by_id_def)
  ultimately show ?thesis using that r by blast
qed

lemma complete_dispatched_Inr:
  assumes "complete_dispatched_with_lease i token v t = Inr (plan, t')" and "distinct (map p_id t)"
  obtains r where "r \<in> set t" and "plan_held i token v r" and "plan = plan_dispatched_row r"
    and "t' = sql_put p_id plan t"
proof -
  have "sql_count (plan_held i token v) t \<noteq> 0"
    using assms(1) by (simp add: complete_dispatched_with_lease_def split: if_splits)
  from plan_matching_row [OF assms(2) this, of i]
  obtain r where r: "r \<in> set t" "plan_held i token v r"
    "sql_update (plan_held i token v) plan_dispatched_row t = sql_put p_id (plan_dispatched_row r) t"
    "plan_get_by_id i (sql_put p_id (plan_dispatched_row r) t) = Some (plan_dispatched_row r)"
    by (metis plan_held_def plan_id_rows(3))
  with assms(1) show ?thesis
    by (intro that [of r]) (auto simp: complete_dispatched_with_lease_def split: if_splits)
qed

lemma plan_fail_Inr:
  assumes "plan_fail_with_lease i token v code delay now t = Inr (plan, t')" and "distinct (map p_id t)"
  obtains r where "r \<in> set t" and "plan_held i token v r"
    and "plan = (if p_attempt_count r < p_max_attempts r
                 then plan_fail_row Plan_FAILED (At (now + seconds delay)) code r
                 else plan_fail_row Plan_DEAD (p_not_before r) code r)"
    and "t' = sql_put p_id plan t"
proof -
  have "sql_count (plan_held i token v) t \<noteq> 0"
    using assms(1)
    by (auto simp: plan_fail_with_lease_def Let_def split: if_splits option.splits)
  then obtain r where r: "r \<in> set t" "plan_held i token v r" "plan_get_by_id i t = Some r"
    and upd: "\<And>f. (\<And>x. p_id (f x) = p_id x) \<Longrightarrow> sql_update (plan_held i token v) f t = sql_put p_id (f r) t"
    and get: "\<And>f. (\<And>x. p_id (f x) = p_id x) \<Longrightarrow>
      plan_get_by_id i (sql_put p_id (f r) t) = Some (f r)"
    by (rule plan_matching_row [OF assms(2), of _ i]) (auto simp: plan_held_def)
  show ?thesis
    using assms(1) r
    by (intro that [of r]) (auto simp: plan_fail_with_lease_def Let_def upd get split: if_splits)
qed

lemma try_mark_started_cases:
  assumes "try_mark_booking_resolution_started i token v t = (b, t')" and "distinct (map p_id t)"
  obtains (no) "\<not> b" and "t' = t"
    | (yes) r where "b" and "r \<in> set t" and "plan_held i token v r"
      and "\<not> dict_has (p_payload_json r) ''booking_resolution_started''"
      and "\<not> dict_has (p_payload_json r) ''booking_resolution_result''"
      and "t' = sql_put p_id (plan_started_row r) t"
proof -
  let ?P = "\<lambda>r. plan_held i token v r \<and>
    \<not> dict_has (p_payload_json r) ''booking_resolution_started'' \<and>
    \<not> dict_has (p_payload_json r) ''booking_resolution_result''"
  show ?thesis
  proof (cases "sql_count ?P t = 0")
    case True
    with assms(1) no show ?thesis by (auto simp: try_mark_booking_resolution_started_def)
  next
    case False
    then obtain r where "r \<in> set t" "?P r"
      "sql_update ?P plan_started_row t = sql_put p_id (plan_started_row r) t"
      by (rule plan_matching_row [OF assms(2), of _ i]) (auto simp: plan_held_def)
    with assms(1) False yes show ?thesis
      by (auto simp: try_mark_booking_resolution_started_def Let_def)
  qed
qed

lemma persist_result_cases:
  assumes "persist_booking_resolution_result i token v result t = Inr (pl, t')"
    and "distinct (map p_id t)"
  obtains (kept) r x where "r \<in> set t" and "plan_held i token v r" and "pl = p_payload_json r"
      and "dict_get (p_payload_json r) ''booking_resolution_result'' = JObj x" and "t' = t"
    | (stored) r where "r \<in> set t" and "plan_held i token v r"
      and "\<And>x. dict_get (p_payload_json r) ''booking_resolution_result'' \<noteq> JObj x"
      and "pl = plan_result_payload (p_payload_json r) result"
      and "t' = sql_put p_id (r \<lparr> p_payload_json := pl \<rparr>) t"
proof -
  obtain r where get: "plan_get_by_id i t = Some r" and held: "plan_held i token v r"
    using assms(1) by (auto simp: persist_booking_resolution_result_def split: option.splits if_splits)
  have r: "r \<in> set t" "p_id r = i"
    using sql_one_Some [OF get [unfolded plan_get_by_id_def]] by simp_all
  have upd: "sql_update (\<lambda>r. p_id r = i) (\<lambda>r. r \<lparr> p_payload_json := d \<rparr>) t =
      sql_put p_id (r \<lparr> p_payload_json := d \<rparr>) t" for d
    using assms(2) r by (intro sql_update_current) auto
  show ?thesis
  proof (cases "\<exists>x. dict_get (p_payload_json r) ''booking_resolution_result'' = JObj x")
    case True
    then obtain x where x: "dict_get (p_payload_json r) ''booking_resolution_result'' = JObj x"
      by blast
    with get held have "persist_booking_resolution_result i token v result t = Inr (p_payload_json r, t)"
      by (simp add: persist_booking_resolution_result_def)
    with assms(1) x held r(1) show ?thesis by (intro kept [of r x]) auto
  next
    case False
    let ?pl = "plan_result_payload (p_payload_json r) result"
    have "persist_booking_resolution_result i token v result t =
        Inr (?pl, sql_put p_id (r \<lparr> p_payload_json := ?pl \<rparr>) t)"
      using False get held
      by (cases "dict_get (p_payload_json r) ''booking_resolution_result''")
        (simp_all add: persist_booking_resolution_result_def upd Let_def)
    with assms(1) False held r(1) show ?thesis by (intro stored [of r]) auto
  qed
qed

lemma plan_recover_cases:
  assumes "plan_recover_exhausted_lease i now t = (row, t')" and "distinct (map p_id t)"
  obtains (none) "row = None" and "t' = t"
      and "\<forall>r \<in> set t. p_id r = i \<longrightarrow> \<not> plan_exhausted now r"
    | (dead) r where "r \<in> set t" and "p_id r = i" and "plan_exhausted now r"
      and "row = Some (plan_close_row Plan_DEAD (Some ''LEASE_ATTEMPTS_EXHAUSTED'') r)"
      and "t' = sql_put p_id (plan_close_row Plan_DEAD (Some ''LEASE_ATTEMPTS_EXHAUSTED'') r) t"
proof (cases "sql_count (\<lambda>r. p_id r = i \<and> plan_exhausted now r) t = 0")
  case True
  with assms(1) none show ?thesis
    by (auto simp: plan_recover_exhausted_lease_def sql_count_0)
next
  case False
  then obtain r where "r \<in> set t" "p_id r = i \<and> plan_exhausted now r"
    and upd: "\<And>f. (\<And>x. p_id (f x) = p_id x) \<Longrightarrow>
      sql_update (\<lambda>r. p_id r = i \<and> plan_exhausted now r) f t = sql_put p_id (f r) t"
    and get: "\<And>f. (\<And>x. p_id (f x) = p_id x) \<Longrightarrow>
      plan_get_by_id i (sql_put p_id (f r) t) = Some (f r)"
    by (rule plan_matching_row [OF assms(2), of _ i]) auto
  with assms(1) False dead show ?thesis
    by (auto simp: plan_recover_exhausted_lease_def Let_def)
qed

section \<open>The contract, discharged\<close>

lemma plan_put_step:
  assumes "distinct (map p_id t)" and "r \<in> set t" and "plan_step r r'"
  shows "evolves N plan_step t (sql_put p_id r' t)"
    and "map plan_keys (sql_put p_id r' t) = map plan_keys t"
proof -
  have keys: "plan_keys r' = plan_keys r" and id: "p_id r' = p_id r"
    using plan_step_keys [OF assms(3)] by (auto simp: plan_keys_def)
  show "evolves N plan_step t (sql_put p_id r' t)"
    using assms id by (intro evolves_put) auto
  show "map plan_keys (sql_put p_id r' t) = map plan_keys t"
    using assms keys id by (intro map_sql_put [where r = r]) auto
qed

lemma plan_close_all:
  assumes "target \<in> {Plan_CANCELLED, Plan_SUPERSEDED}" and "\<And>r. P r \<Longrightarrow> plan_open r"
  shows "evolves N plan_step t (sql_update P (plan_close_row target reason) t)"
    and "map plan_keys (sql_update P (plan_close_row target reason) t) = map plan_keys t"
  using assms by (auto intro!: evolves_update1 plan_step.close simp: map_sql_update)

lemma plan_run_effect:
  assumes "plan_run t t'" and "distinct (map p_id t)"
  shows "evolves plan_new plan_step t t' \<and>
    (map plan_keys t' = map plan_keys t \<or>
     (\<exists>r. t' = t @ [r] \<and> (\<forall>x \<in> set t. fst (plan_keys x) \<noteq> fst (plan_keys r) \<and>
                                    fst (snd (plan_keys x)) \<noteq> fst (snd (plan_keys r)))))"
  using assms(1)
proof cases
  case (create i m cid cv corr pl d mx nb ep sq plan)
  then show ?thesis
    using create_plan_Inr [OF create] create_plan_new [OF create]
    by (auto simp: plan_keys_def plan_new_row_def)
next
  case (supersede cid reason n)
  then show ?thesis by (auto simp: supersede_open_plans_def Let_def intro!: plan_close_all)
next
  case (cancel cid reason n)
  then show ?thesis by (auto simp: cancel_open_plans_for_takeover_def Let_def intro!: plan_close_all)
next
  case (ready now n)
  then show ?thesis using plan_ready_evolves mark_ready_map(1) by (metis snd_conv)
next
  case (recover i now row)
  then show ?thesis
    using assms(2)
    by (cases rule: plan_recover_cases)
      (auto simp: plan_exhausted_def intro!: plan_put_step [OF assms(2)] plan_step.exhausted)
next
  case claim
  then show ?thesis using plan_claim_evolves assms(2) by blast
next
  case (complete i token v plan)
  then show ?thesis
    using assms(2)
    by (cases rule: complete_dispatched_Inr)
      (auto simp: plan_held_def intro!: plan_put_step [OF assms(2)] plan_step.dispatch)
next
  case (fail i token v code delay now plan)
  then show ?thesis
    using assms(2)
    by (cases rule: plan_fail_Inr)
      (auto simp: plan_held_def intro!: plan_put_step [OF assms(2)] plan_step.retry plan_step.dead)
next
  case (started i token v b)
  then show ?thesis
    using assms(2)
    by (cases rule: try_mark_started_cases)
      (auto simp: plan_held_def intro!: plan_put_step [OF assms(2)] plan_step.started)
next
  case (booked i token v result pl)
  then show ?thesis
    using assms(2)
    by (cases rule: persist_result_cases)
      (auto simp: plan_held_def intro!: plan_put_step [OF assms(2)] plan_step.booked)
qed

lemma plan_run_distinct:
  assumes "plan_run t t'" and "distinct (map p_id t)"
  shows "distinct (map p_id t')"
    and "distinct (map (\<lambda>r. fst (snd (plan_keys r))) t) \<Longrightarrow>
         distinct (map (\<lambda>r. fst (snd (plan_keys r))) t')"
proof -
  have "map plan_keys t' = map plan_keys t \<or>
    (\<exists>r. t' = t @ [r] \<and> (\<forall>x \<in> set t. fst (plan_keys x) \<noteq> fst (plan_keys r)))"
    using plan_run_effect [OF assms] by blast
  from distinct_columns [OF this] assms(2) show "distinct (map p_id t')"
    by (simp add: plan_keys_def)
  have "map plan_keys t' = map plan_keys t \<or>
    (\<exists>r. t' = t @ [r] \<and> (\<forall>x \<in> set t. fst (snd (plan_keys x)) \<noteq> fst (snd (plan_keys r))))"
    using plan_run_effect [OF assms] by blast
  from distinct_columns [where g = "\<lambda>k. fst (snd k)", OF this]
  show "distinct (map (\<lambda>r. fst (snd (plan_keys r))) t) \<Longrightarrow>
      distinct (map (\<lambda>r. fst (snd (plan_keys r))) t')" .
qed

interpretation plans: bounded_leases p_id p_lease_version p_lease_token plan_finished
  plan_new plan_step plan_run p_attempt_count p_max_attempts
proof unfold_locales
  fix r r' :: reply_plan assume step: "plan_step r r'"
  show "p_id r' = p_id r" using plan_step_keys [OF step] by (simp add: plan_keys_def)
  note fenced = plan_step_fenced [OF step]
  show "p_lease_version r \<le> p_lease_version r'" by (rule fenced(1))
  show "p_lease_version r' = p_lease_version r \<Longrightarrow>
      p_lease_token r' = p_lease_token r \<or> p_lease_token r' = None" by (rule fenced(2))
  show "plan_finished r \<Longrightarrow> r' = r" using fenced(3) by simp
  show "p_attempt_count r' - p_attempt_count r = p_lease_version r' - p_lease_version r"
    by (rule fenced(4))
  show "p_max_attempts r' = p_max_attempts r" by (rule fenced(5))
  show "p_attempt_count r \<le> p_max_attempts r \<Longrightarrow> p_attempt_count r' \<le> p_max_attempts r"
    by (rule fenced(6))
qed (use plan_run_effect plan_run_distinct(1) in \<open>auto simp: plan_new_def\<close>)

section \<open>Row invariant\<close>

definition plan_row_ok :: "reply_plan \<Rightarrow> bool" where
  "plan_row_ok r =
     (p_attempt_count r \<le> p_max_attempts r \<and>
      (p_status r = Plan_PROCESSING \<longleftrightarrow> p_lease_token r \<noteq> None) \<and>
      (p_lease_owner r = None \<longleftrightarrow> p_lease_token r = None) \<and>
      (p_lease_until r = None \<longleftrightarrow> p_lease_token r = None) \<and>
      (p_status r \<in> {Plan_PENDING, Plan_READY, Plan_FAILED} \<longrightarrow>
         p_attempt_count r < p_max_attempts r))"

lemma plan_step_ok:
  assumes "plan_step r r'" and "plan_row_ok r"
  shows "plan_row_ok r'"
  using assms
  by (cases rule: plan_step.cases) (auto simp: plan_row_ok_def plan_row_defs)

lemma plan_new_ok: "plan_new r \<Longrightarrow> plan_row_ok r"
  by (simp add: plan_new_def plan_row_ok_def)

lemma plan_reachable_distinct: "plan_run\<^sup>*\<^sup>* [] t \<Longrightarrow> distinct (map p_id t)"
  by (erule plans.runs_distinct) simp

text \<open>Every status change of a step is one the transition table of the model allows.\<close>

lemma plan_step_transition:
  assumes "plan_step r r'"
  shows "p_status r' = p_status r \<and> p_status r = Plan_PROCESSING \<or>
         reply_plan_transition_allowed (p_status r) (p_status r')"
  using assms
  by (cases rule: plan_step.cases)
    (auto simp: plan_row_defs reply_plan_transition_allowed_def plan_open_iff)

lemma plan_spent_stale:
  assumes "lease_spent p_id p_lease_version p_lease_token i v t" and "distinct (map p_id t)"
  shows "complete_dispatched_with_lease i token v t =
           Inl (StaleReplyPlanLeaseError ''REPLY_PLAN_STALE_LEASE'')"
    and "plan_fail_with_lease i token v code delay now t =
           Inl (StaleReplyPlanLeaseError ''REPLY_PLAN_STALE_LEASE'')"
    and "try_mark_booking_resolution_started i token v t = (False, t)"
    and "persist_booking_resolution_result i token v result t =
           Inl (StaleReplyPlanLeaseError ''REPLY_PLAN_STALE_LEASE'')"
proof -
  have none: "\<not> plan_held i token v r" if "r \<in> set t" for r
    using plans.spent_not_held [OF assms that] by (auto simp: plan_held_def)
  show "complete_dispatched_with_lease i token v t =
      Inl (StaleReplyPlanLeaseError ''REPLY_PLAN_STALE_LEASE'')"
    using none
    by (simp add: complete_dispatched_with_lease_def reply_plan_transition_allowed_def sql_count_0)
  show "try_mark_booking_resolution_started i token v t = (False, t)"
    using none by (simp add: try_mark_booking_resolution_started_def sql_count_0)
  obtain r where r: "sql_one (\<lambda>x. p_id x = i) t = Some r"
    using assms(1) by (auto simp: lease_spent_def split: option.splits)
  with sql_one_Some [OF r] none
  show "plan_fail_with_lease i token v code delay now t =
      Inl (StaleReplyPlanLeaseError ''REPLY_PLAN_STALE_LEASE'')"
    and "persist_booking_resolution_result i token v result t =
      Inl (StaleReplyPlanLeaseError ''REPLY_PLAN_STALE_LEASE'')"
    by (simp_all add: plan_fail_with_lease_def persist_booking_resolution_result_def plan_get_by_id_def)
qed

text \<open>
  The booking marker and the booking result stay in the payload once they are there.
\<close>

definition plan_booking_le :: "reply_plan \<Rightarrow> reply_plan \<Rightarrow> bool" where
  "plan_booking_le r r' =
     ((dict_has (p_payload_json r) ''booking_resolution_started'' \<longrightarrow>
       dict_has (p_payload_json r') ''booking_resolution_started'') \<and>
      (\<forall>x. dict_get (p_payload_json r) ''booking_resolution_result'' = JObj x \<longrightarrow>
        dict_get (p_payload_json r') ''booking_resolution_result'' = JObj x))"

lemma plan_step_booking: "plan_step r r' \<Longrightarrow> plan_booking_le r r'"
  by (cases rule: plan_step.cases)
    (auto simp: plan_booking_le_def plan_row_defs plan_result_payload_def)

lemma plan_steps_booking: "plan_step\<^sup>*\<^sup>* r r' \<Longrightarrow> plan_booking_le r r'"
proof (induction rule: rtranclp_induct)
  case base
  then show ?case by (simp add: plan_booking_le_def)
next
  case (step y z)
  with plan_step_booking [OF step.hyps(2)] show ?case by (simp add: plan_booking_le_def)
qed

lemma started_for_good:
  assumes "distinct (map p_id t)"
    and "try_mark_booking_resolution_started i token v t = (True, t1)"
    and "plan_run\<^sup>*\<^sup>* t1 t2"
  shows "try_mark_booking_resolution_started i token' v' t2 = (False, t2)"
proof -
  note d = assms(1)
  have run: "plan_run t t1"
    using assms(2) by (rule plan_run.started)
  then have d1: "distinct (map p_id t1)"
    using d by (rule plans.run_distinct)
  obtain r where r: "r \<in> set t" "plan_held i token v r"
    and t1: "t1 = sql_put p_id (plan_started_row r) t"
    using assms(2) d by (cases rule: try_mark_started_cases) auto
  have i: "p_id r = i"
    using r(2) by (simp add: plan_held_def)
  have "sql_one (\<lambda>x. p_id x = i) t1 = Some (plan_started_row r)"
    unfolding t1 using sql_one_put [OF r(1), of p_id "plan_started_row r"] i by simp
  then obtain r2 where r2: "sql_one (\<lambda>x. p_id x = i) t2 = Some r2" "plan_step\<^sup>*\<^sup>* (plan_started_row r) r2"
    by (rule plans.runs_row [OF assms(3) d1])
  have "dict_has (p_payload_json r2) ''booking_resolution_started''"
    using plan_steps_booking [OF r2(2)] by (simp add: plan_booking_le_def plan_started_row_def)
  moreover have "x = r2" if "x \<in> set t2" "p_id x = i" for x
    using sql_one_the_row [OF plans.runs_distinct [OF assms(3) d1] that(1)] r2(1) that(2) by simp
  ultimately show ?thesis
    by (auto simp: try_mark_booking_resolution_started_def sql_count_0 plan_held_def)
qed

text \<open>A plan that was open when its dialog's plans were closed is found as it was closed ever after.\<close>

lemma plan_closed_stays:
  assumes "distinct (map p_id t)" and "r \<in> set t" and "p_conversation_id r = cid" and "plan_open r"
    and "t1 = snd (supersede_open_plans cid reason t) \<or>
         t1 = snd (cancel_open_plans_for_takeover cid reason t)"
    and "plan_run\<^sup>*\<^sup>* t1 t2"
  shows "\<exists>target. target \<in> {Plan_SUPERSEDED, Plan_CANCELLED} \<and>
    sql_one (\<lambda>x. p_id x = p_id r) t2 = Some (plan_close_row target (Some (take 64 reason)) r) \<and>
    distinct (map p_id t2)"
proof -
  obtain target where target: "target \<in> {Plan_SUPERSEDED, Plan_CANCELLED}"
    and t1: "t1 = sql_update (\<lambda>x. p_conversation_id x = cid \<and> plan_open x)
      (plan_close_row target (Some (take 64 reason))) t"
    using assms(5) by (auto simp: supersede_open_plans_def cancel_open_plans_for_takeover_def Let_def)
  let ?r = "plan_close_row target (Some (take 64 reason)) r"
  have "plan_run t t1"
    using assms(5) by (metis plan_run.supersede plan_run.cancel prod.collapse)
  then have d1: "distinct (map p_id t1)"
    using assms(1) by (rule plans.run_distinct)
  have "sql_one (\<lambda>x. p_id x = p_id r) t = Some r"
    using sql_one_the_row [OF assms(1,2)] .
  then have row1: "sql_one (\<lambda>x. p_id x = p_id r) t1 = Some ?r"
    unfolding t1 using assms(3,4) by (subst sql_one_update) auto
  have fin: "plan_finished ?r"
    using target by (auto simp: plan_finished_iff plan_close_row_def)
  from target plans.finished_row_final [OF assms(6) d1 row1 fin] plans.runs_distinct [OF assms(6) d1]
  show ?thesis by blast
qed

section \<open>Properties\<close>

text \<open>
  A claimed plan is current. Whatever plan \<open>claim_next\<close> hands to a worker, its dialog is open,
  owned by the bot and not in handoff, and the dialog's context version, manager epoch and event
  number are the ones the plan was computed under; its scheduled instant has passed, and among the
  plans that could have been claimed none was scheduled earlier.
\<close>

theorem plan_claim_only_current:
  assumes "plan_run\<^sup>*\<^sup>* [] t"
    and "plan_claim_next w secs now token locked convs t = Inr (Some claim, t')"
  shows "(\<exists>c \<in> set convs. c_id c = pc_conversation_id claim \<and> c_status c = OPEN \<and>
            c_ownership c = BOT \<and> c_handoff_state c = BOT_ACTIVE \<and>
            c_context_version c = pc_context_version claim \<and>
            c_manager_epoch c = pc_manager_epoch claim \<and>
            c_current_event_seq c = pc_event_seq_hwm claim) \<and>
         pc_not_before claim \<le> At now \<and>
         (\<forall>r \<in> set t. plan_claimable now convs r \<and> \<not> locked (p_id r) \<longrightarrow>
            pc_not_before claim \<le> p_not_before r) \<and>
         pc_attempt_count claim \<le> pc_max_attempts claim"
proof -
  have d: "distinct (map p_id t)"
    using assms(1) by (rule plan_reachable_distinct)
  have pos: "0 < secs"
    using assms(2) by (simp add: plan_claim_next_def split: if_splits)
  let ?t1 = "snd (mark_ready_due_plans now t)"
  obtain cand where sel: "plan_claim_select now locked convs t = Some cand"
    and claim: "claim = projr (plan_row_to_claim (plan_lease_row w token (now + seconds secs) cand))"
    using assms(2) by (auto simp: plan_claim_eq [OF d pos] split: option.splits)
  note cand = sql_first_by_Some [OF sel [unfolded plan_claim_select_def]]
  have fields: "pc_conversation_id claim = p_conversation_id cand"
    "pc_context_version claim = p_context_version cand" "pc_manager_epoch claim = p_manager_epoch cand"
    "pc_event_seq_hwm claim = p_event_seq_hwm cand" "pc_not_before claim = p_not_before cand"
    "pc_attempt_count claim = p_attempt_count cand + 1" "pc_max_attempts claim = p_max_attempts cand"
    by (simp_all add: claim plan_row_to_claim_def plan_lease_row_def)
  have keep: "r \<in> set ?t1" if "r \<in> set t" "plan_claimable now convs r" for r
    using that
    by (auto simp: mark_ready_due_plans_def set_sql_update plan_pending_due_def plan_claimable_def)
  have "p_not_before cand \<le> p_not_before r"
    if "r \<in> set t" "plan_claimable now convs r" "\<not> locked (p_id r)" for r
    using cand keep [OF that(1,2)] that(2,3) by (fastforce simp: less_eq_prod_def)
  with cand show ?thesis
    by (auto simp: fields plan_claimable_def plan_fences_current_def list_ex_iff)
qed

text \<open>
  A newer event kills the plans of its dialog for good. After the open plans of a dialog were
  superseded or cancelled, every plan that was open is found, in every later table, exactly as it
  was closed; no lease of it can dispatch, fail, start or resolve a booking any more.
\<close>

theorem plan_closed_for_good:
  assumes "plan_run\<^sup>*\<^sup>* [] t" and "r \<in> set t" and "p_conversation_id r = cid" and "plan_open r"
    and "t1 = snd (supersede_open_plans cid reason t) \<or>
         t1 = snd (cancel_open_plans_for_takeover cid reason t)"
    and "plan_run\<^sup>*\<^sup>* t1 t2"
  shows "(\<exists>r'. plan_get_by_id (p_id r) t2 = Some r' \<and>
            p_status r' \<in> {Plan_SUPERSEDED, Plan_CANCELLED} \<and> p_lease_token r' = None) \<and>
         complete_dispatched_with_lease (p_id r) token v t2 =
           Inl (StaleReplyPlanLeaseError ''REPLY_PLAN_STALE_LEASE'') \<and>
         try_mark_booking_resolution_started (p_id r) token v t2 = (False, t2)"
proof -
  note d = plan_reachable_distinct [OF assms(1)]
  obtain target where target: "target \<in> {Plan_SUPERSEDED, Plan_CANCELLED}"
    and row2: "sql_one (\<lambda>x. p_id x = p_id r) t2 = Some (plan_close_row target (Some (take 64 reason)) r)"
    and d2: "distinct (map p_id t2)"
    using plan_closed_stays [OF d assms(2-6)] by blast
  let ?r = "plan_close_row target (Some (take 64 reason)) r"
  have none: "\<not> plan_held (p_id r) token v x" if "x \<in> set t2" for x
  proof
    assume held: "plan_held (p_id r) token v x"
    then have "x = ?r"
      using sql_one_the_row [OF d2 that] row2
      by (simp add: plan_held_def)
    with held target show False by (auto simp: plan_held_def plan_close_row_def)
  qed
  show ?thesis
    using row2 target none
    by (auto simp: plan_get_by_id_def plan_close_row_def complete_dispatched_with_lease_def
        reply_plan_transition_allowed_def sql_count_0 try_mark_booking_resolution_started_def)
qed

text \<open>
  At most one remote booking attempt per plan. Once the marker of a plan's booking resolution
  was set, no later call sets it again, under any lease and after any retries or crashes.
\<close>

theorem booking_resolution_started_once:
  assumes "plan_run\<^sup>*\<^sup>* [] t"
    and "try_mark_booking_resolution_started i token v t = (True, t1)"
    and "plan_run\<^sup>*\<^sup>* t1 t2"
  shows "try_mark_booking_resolution_started i token' v' t2 = (False, t2)"
  using started_for_good [OF plan_reachable_distinct [OF assms(1)] assms(2,3)] .

text \<open>
  Plan statuses move only along the transition table. Between any two reachable tables, each
  plan that is found again is connected to its earlier status by transitions the model's table
  allows (or by a reclaim of the lease, which keeps \<open>PROCESSING\<close>); a plan in a terminal status never
  moves, and the identity of a plan and its fences never change.
\<close>

theorem plan_moves_by_transitions:
  assumes "plan_run\<^sup>*\<^sup>* [] t" and "plan_run\<^sup>*\<^sup>* t t'" and "plan_get_by_id i t = Some r"
  shows "\<exists>r'. plan_get_by_id i t' = Some r' \<and>
    (\<lambda>a b. reply_plan_transition_allowed a b)\<^sup>*\<^sup>* (p_status r) (p_status r') \<and>
    (p_status r \<in> set TERMINAL_REPLY_PLAN_STATUSES \<longrightarrow> r' = r) \<and>
    (p_conversation_id r', p_context_version r', p_manager_epoch r', p_event_seq_hwm r') =
    (p_conversation_id r, p_context_version r, p_manager_epoch r, p_event_seq_hwm r)"
proof -
  have "sql_one (\<lambda>x. p_id x = i) t = Some r"
    using assms(3) by (simp add: plan_get_by_id_def)
  then obtain r' where r': "sql_one (\<lambda>x. p_id x = i) t' = Some r'" "plan_step\<^sup>*\<^sup>* r r'"
    by (rule plans.runs_row [OF assms(2) plan_reachable_distinct [OF assms(1)]])
  have "reply_plan_transition_allowed\<^sup>*\<^sup>* (p_status r) (p_status r')"
    using r'(2)
  proof (induction rule: rtranclp_induct)
    case (step y z)
    with plan_step_transition [OF step.hyps(2)] show ?case
      by (metis rtranclp.rtrancl_into_rtrancl)
  qed simp
  moreover have "plan_keys r' = plan_keys r"
    using r'(2) by (induction rule: rtranclp_induct) (auto dest: plan_step_keys)
  moreover have "p_status r \<in> set TERMINAL_REPLY_PLAN_STATUSES \<Longrightarrow> r' = r"
    using plans.steps_fin [OF r'(2)] by (simp add: plan_finished_def plan_open_def)
  ultimately show ?thesis
    using r'(1) by (auto simp: plan_get_by_id_def plan_keys_def)
qed

section \<open>A run of the plans\<close>

definition plan_demo_conv :: conversation where
  "plan_demo_conv =
     conv_new_row ''c1'' 0 Channel_SYNTHETIC ''ext1'' \<lparr> c_context_version := 1, c_current_event_seq := 1 \<rparr>"

definition plan_demo0 :: "reply_plan list" where
  "plan_demo0 =
     [plan_new_row ''p1'' 0 ''c1'' 1 ''r1'' [(''schema'', JStr ''client.reply.v1'')] 5000 5 (At 5000000) 0 1]"

definition plan_demo1 :: "reply_plan list" where
  "plan_demo1 = sql_update (\<lambda>_. True) (plan_lease_row ''w1'' ''k1'' 36000000 \<circ> plan_ready_row) plan_demo0"

definition plan_demo2 :: "reply_plan list" where
  "plan_demo2 = sql_update (\<lambda>_. True) plan_started_row plan_demo1"

lemma plan_demo_create:
  "create_client_reply_plan ''p1'' 0 ''c1'' 1 ''r1'' [(''schema'', JStr ''client.reply.v1'')] 5000 5 None
     0 1 [] = Inr (hd plan_demo0, plan_demo0)"
  by code_simp

lemma plan_demo_claim:
  "plan_claim_next ''w1'' 30 6000000 ''k1'' (\<lambda>_. False) [plan_demo_conv] plan_demo0 =
     Inr (Some (projr (plan_row_to_claim (hd plan_demo1))), plan_demo1)"
  by code_simp

lemma plan_demo_started:
  "try_mark_booking_resolution_started ''p1'' ''k1'' 1 plan_demo1 = (True, plan_demo2)"
  by code_simp

lemma plan_demo_reach: "plan_run\<^sup>*\<^sup>* [] plan_demo0" "plan_run\<^sup>*\<^sup>* [] plan_demo1"
proof -
  show r0: "plan_run\<^sup>*\<^sup>* [] plan_demo0"
    using plan_run.create [OF plan_demo_create] by simp
  show "plan_run\<^sup>*\<^sup>* [] plan_demo1"
    using r0 plan_run.claim [OF plan_demo_claim] by simp
qed

theorem plan_claim_only_current_witness:
  "pc_not_before (projr (plan_row_to_claim (hd plan_demo1))) \<le> At 6000000"
  using plan_claim_only_current [OF plan_demo_reach(1) plan_demo_claim] by simp

theorem plan_closed_for_good_witness:
  "complete_dispatched_with_lease ''p1'' ''k1'' 1 (snd (supersede_open_plans ''c1'' ''NEW_CLIENT_MESSAGE'' plan_demo1)) =
     Inl (StaleReplyPlanLeaseError ''REPLY_PLAN_STALE_LEASE'')"
proof -
  have "hd plan_demo1 \<in> set plan_demo1" "p_conversation_id (hd plan_demo1) = ''c1''"
    "plan_open (hd plan_demo1)" "p_id (hd plan_demo1) = ''p1''"
    by code_simp+
  then show ?thesis
    using plan_closed_for_good [OF plan_demo_reach(2), of "hd plan_demo1" "''c1''"
        "snd (supersede_open_plans ''c1'' ''NEW_CLIENT_MESSAGE'' plan_demo1)" "''NEW_CLIENT_MESSAGE''"]
    by simp
qed

theorem booking_resolution_started_once_witness:
  "try_mark_booking_resolution_started ''p1'' ''k9'' 7 plan_demo2 = (False, plan_demo2)"
  using booking_resolution_started_once [OF plan_demo_reach(2) plan_demo_started] by blast

theorem plan_moves_by_transitions_witness:
  "\<exists>r'. plan_get_by_id ''p1'' plan_demo1 = Some r' \<and>
     reply_plan_transition_allowed\<^sup>*\<^sup>* Plan_PENDING (p_status r')"
proof -
  have "plan_get_by_id ''p1'' plan_demo0 = Some (hd plan_demo0)" "p_status (hd plan_demo0) = Plan_PENDING"
    by code_simp+
  moreover have "plan_run\<^sup>*\<^sup>* plan_demo0 plan_demo1"
    using plan_run.claim [OF plan_demo_claim] by simp
  ultimately show ?thesis
    using plan_moves_by_transitions [OF plan_demo_reach(1), of plan_demo1 "''p1''" "hd plan_demo0"]
    by auto
qed

end
