(* ===== verification/Outbox.thy ===== *)
theory Outbox
  imports Fenced_Queue
begin

text \<open>
  The outbox: models/outbox.py, repositories/outbound.py and the draft half of
  repositories/messages.py. A row is an internal draft (a hint for the manager, never sent), a
  synthetic outbound or a VK outbound. The last two are leased by the sending worker. \<open>ADMITTED\<close> is the
  durable point of no return: before it a newer event cancels the row, after it only delivery or
  death remain, and the lease may be reissued for the same admitted row until the sink answers.
\<close>

section \<open>Data\<close>

datatype DestinationType = INTERNAL_DRAFT | SYNTHETIC_OUTBOUND | VK_CLIENT_OUTBOUND

datatype DeliveryStatus =
    Out_PENDING
  | Out_PROCESSING
  | Out_ADMITTED
  | Out_DELIVERED
  | Out_FAILED
  | Out_DEAD
  | Out_CANCELLED

fun OUTBOUND_TRANSITIONS :: "DeliveryStatus \<Rightarrow> DeliveryStatus list" where
  "OUTBOUND_TRANSITIONS Out_PENDING = [Out_PROCESSING, Out_CANCELLED]"
| "OUTBOUND_TRANSITIONS Out_PROCESSING = [Out_ADMITTED, Out_FAILED, Out_DEAD, Out_CANCELLED]"
| "OUTBOUND_TRANSITIONS Out_ADMITTED = [Out_DELIVERED, Out_DEAD]"
| "OUTBOUND_TRANSITIONS Out_FAILED = [Out_PROCESSING, Out_DEAD, Out_CANCELLED]"
| "OUTBOUND_TRANSITIONS Out_DELIVERED = []"
| "OUTBOUND_TRANSITIONS Out_DEAD = []"
| "OUTBOUND_TRANSITIONS Out_CANCELLED = []"

definition outbound_transition_allowed :: "DeliveryStatus \<Rightarrow> DeliveryStatus \<Rightarrow> bool" where
  "outbound_transition_allowed current target = (target \<in> set (OUTBOUND_TRANSITIONS current))"

record outbox_message =
  o_id :: uuid
  o_conversation_id :: uuid
  o_source_inbox_id :: "uuid option"
  o_reply_plan_id :: "uuid option"
  o_idempotency_key :: "string option"
  o_context_version :: "int option"
  o_manager_epoch :: int
  o_event_seq_hwm :: int
  o_destination_type :: DestinationType
  o_payload_json :: payload
  o_delivery_status :: DeliveryStatus
  o_not_before :: "pgtime option"
  o_attempt_count :: int
  o_max_attempts :: int
  o_lease_owner :: "string option"
  o_lease_token :: "uuid option"
  o_lease_version :: int
  o_lease_until :: "moment option"
  o_admitted_at :: "moment option"
  o_provider_message_id :: "int option"
  o_correlation_id :: "uuid option"
  o_created_at :: moment

record outbound_claim =
  oc_outbound_id :: uuid
  oc_conversation_id :: uuid
  oc_reply_plan_id :: "uuid option"
  oc_context_version :: "int option"
  oc_manager_epoch :: int
  oc_event_seq_hwm :: int
  oc_idempotency_key :: "string option"
  oc_destination_type :: DestinationType
  oc_delivery_status :: DeliveryStatus
  oc_not_before :: "pgtime option"
  oc_attempt_count :: int
  oc_max_attempts :: int
  oc_lease_owner :: string
  oc_lease_token :: uuid
  oc_lease_version :: int
  oc_lease_until :: moment
  oc_correlation_id :: "uuid option"
  oc_payload_json :: payload

definition OUTBOUND_DEFAULT_MAX_ATTEMPTS :: int where
  "OUTBOUND_DEFAULT_MAX_ATTEMPTS = 5"

definition CLAIMABLE_DESTINATIONS :: "DestinationType list" where
  "CLAIMABLE_DESTINATIONS = [SYNTHETIC_OUTBOUND, VK_CLIENT_OUTBOUND]"

text \<open>The check constraints of the table on admission and leases.\<close>

definition ck_outbox :: "outbox_message \<Rightarrow> bool" where
  "ck_outbox r =
     ((o_admitted_at r = None \<or>
       o_destination_type r \<in> set CLAIMABLE_DESTINATIONS \<and>
       o_delivery_status r \<in> {Out_ADMITTED, Out_DELIVERED, Out_DEAD}) \<and>
      (o_delivery_status r \<noteq> Out_ADMITTED \<or>
       o_destination_type r \<in> set CLAIMABLE_DESTINATIONS \<and> o_admitted_at r \<noteq> None) \<and>
      (o_destination_type r \<notin> set CLAIMABLE_DESTINATIONS \<or> o_delivery_status r \<noteq> Out_DELIVERED \<or>
       o_admitted_at r \<noteq> None) \<and>
      ((o_lease_owner r = None \<and> o_lease_token r = None \<and> o_lease_until r = None) \<or>
       (o_lease_owner r \<noteq> None \<and> o_lease_token r \<noteq> None \<and> o_lease_until r \<noteq> None)) \<and>
      (o_delivery_status r \<in> {Out_PENDING, Out_FAILED, Out_DELIVERED, Out_DEAD, Out_CANCELLED} \<longrightarrow>
       o_lease_token r = None) \<and>
      (o_delivery_status r = Out_PROCESSING \<longrightarrow> o_lease_token r \<noteq> None) \<and>
      (case o_provider_message_id r of None \<Rightarrow> True | Some n \<Rightarrow> 0 < n))"

section \<open>Operations\<close>

definition outbound_row_to_claim :: "outbox_message \<Rightarrow> exn + outbound_claim" where
  "outbound_row_to_claim row =
     (case (o_lease_token row, o_lease_owner row, o_lease_until row) of
        (Some token, Some owner, Some until) \<Rightarrow>
          Inr \<lparr> oc_outbound_id = o_id row, oc_conversation_id = o_conversation_id row,
                oc_reply_plan_id = o_reply_plan_id row, oc_context_version = o_context_version row,
                oc_manager_epoch = o_manager_epoch row, oc_event_seq_hwm = o_event_seq_hwm row,
                oc_idempotency_key = o_idempotency_key row,
                oc_destination_type = o_destination_type row,
                oc_delivery_status = o_delivery_status row, oc_not_before = o_not_before row,
                oc_attempt_count = o_attempt_count row, oc_max_attempts = o_max_attempts row,
                oc_lease_owner = owner, oc_lease_token = token,
                oc_lease_version = o_lease_version row, oc_lease_until = until,
                oc_correlation_id = o_correlation_id row, oc_payload_json = o_payload_json row \<rparr>
      | _ \<Rightarrow> Inl (RuntimeError ''OUTBOUND_LEASE_INCOMPLETE''))"

definition synthetic_outbound_idempotency_key :: "uuid \<Rightarrow> string" where
  "synthetic_outbound_idempotency_key plan_id = ''synthetic-outbound:reply-plan:'' @ plan_id"

definition vk_client_outbound_idempotency_key :: "uuid \<Rightarrow> string" where
  "vk_client_outbound_idempotency_key plan_id = ''vk-client-outbound:reply-plan:'' @ plan_id"

definition outbound_get_by_id :: "uuid \<Rightarrow> outbox_message list \<Rightarrow> outbox_message option" where
  "outbound_get_by_id outbound_id t = sql_one (\<lambda>r. o_id r = outbound_id) t"

definition outbound_get_by_idempotency_key ::
  "string \<Rightarrow> outbox_message list \<Rightarrow> outbox_message option" where
  "outbound_get_by_idempotency_key key t = sql_one (\<lambda>r. o_idempotency_key r = Some key) t"

definition outbound_new_row ::
  "DestinationType \<Rightarrow> string \<Rightarrow> uuid \<Rightarrow> moment \<Rightarrow> uuid \<Rightarrow> uuid \<Rightarrow> int \<Rightarrow> payload \<Rightarrow> uuid \<Rightarrow> pgtime \<Rightarrow> int
     \<Rightarrow> int \<Rightarrow> int \<Rightarrow> outbox_message" where
  "outbound_new_row dest key new_id now cid plan_id context_version payload corr not_before
     max_attempts manager_epoch event_seq_hwm =
     \<lparr> o_id = new_id, o_conversation_id = cid, o_source_inbox_id = None,
       o_reply_plan_id = Some plan_id, o_idempotency_key = Some key,
       o_context_version = Some context_version, o_manager_epoch = manager_epoch,
       o_event_seq_hwm = event_seq_hwm, o_destination_type = dest, o_payload_json = payload,
       o_delivery_status = Out_PENDING, o_not_before = Some not_before, o_attempt_count = 0,
       o_max_attempts = max_attempts, o_lease_owner = None, o_lease_token = None,
       o_lease_version = 0, o_lease_until = None, o_admitted_at = None,
       o_provider_message_id = None, o_correlation_id = Some corr, o_created_at = now \<rparr>"

text \<open>
  The two inserts differ in key and destination only. The conflict clause names the idempotency key;
  the other constraints of the table raise.
\<close>

definition insert_outbound_if_absent ::
  "DestinationType \<Rightarrow> string \<Rightarrow> uuid \<Rightarrow> moment \<Rightarrow> uuid \<Rightarrow> uuid \<Rightarrow> int \<Rightarrow> payload \<Rightarrow> uuid \<Rightarrow> pgtime \<Rightarrow> int
     \<Rightarrow> int \<Rightarrow> int \<Rightarrow> outbox_message list \<Rightarrow> exn + ((outbox_message \<times> bool) \<times> outbox_message list)"
where
  "insert_outbound_if_absent dest key new_id now cid plan_id context_version payload corr not_before
     max_attempts manager_epoch event_seq_hwm t =
     (case outbound_get_by_idempotency_key key t of
        Some existing \<Rightarrow> Inr ((existing, False), t)
      | None \<Rightarrow>
          if outbound_get_by_id new_id t \<noteq> None then Inl (IntegrityError ''outbox_messages_pkey'')
          else if sql_one (\<lambda>r. o_reply_plan_id r = Some plan_id \<and> o_destination_type r = dest) t \<noteq> None
          then Inl (IntegrityError ''uq_outbox_reply_plan_destination'')
          else if max_attempts \<le> 0 then Inl (IntegrityError ''ck_outbox_max_attempts_positive'')
          else if manager_epoch < 0 then Inl (IntegrityError ''ck_outbox_manager_epoch_nonnegative'')
          else if event_seq_hwm < 0 then Inl (IntegrityError ''ck_outbox_event_seq_hwm_nonnegative'')
          else
            let t' = t @ [outbound_new_row dest key new_id now cid plan_id context_version payload
                            corr not_before max_attempts manager_epoch event_seq_hwm]
            in case outbound_get_by_idempotency_key key t' of
                 None \<Rightarrow> Inl (RuntimeError ''OUTBOUND_LOOKUP_FAILED'')
               | Some row \<Rightarrow> Inr ((row, True), t'))"

definition insert_synthetic_outbound_if_absent ::
  "uuid \<Rightarrow> moment \<Rightarrow> uuid \<Rightarrow> uuid \<Rightarrow> int \<Rightarrow> payload \<Rightarrow> uuid \<Rightarrow> pgtime \<Rightarrow> int \<Rightarrow> int \<Rightarrow> int
     \<Rightarrow> outbox_message list \<Rightarrow> exn + ((outbox_message \<times> bool) \<times> outbox_message list)" where
  "insert_synthetic_outbound_if_absent new_id now cid plan_id context_version payload corr not_before
     max_attempts manager_epoch event_seq_hwm t =
     insert_outbound_if_absent SYNTHETIC_OUTBOUND (synthetic_outbound_idempotency_key plan_id) new_id
       now cid plan_id context_version payload corr not_before max_attempts manager_epoch
       event_seq_hwm t"

definition insert_vk_client_outbound_if_absent ::
  "uuid \<Rightarrow> moment \<Rightarrow> uuid \<Rightarrow> uuid \<Rightarrow> int \<Rightarrow> payload \<Rightarrow> uuid \<Rightarrow> pgtime \<Rightarrow> int \<Rightarrow> int \<Rightarrow> int
     \<Rightarrow> outbox_message list \<Rightarrow> exn + ((outbox_message \<times> bool) \<times> outbox_message list)" where
  "insert_vk_client_outbound_if_absent new_id now cid plan_id context_version payload corr not_before
     max_attempts manager_epoch event_seq_hwm t =
     insert_outbound_if_absent VK_CLIENT_OUTBOUND (vk_client_outbound_idempotency_key plan_id) new_id
       now cid plan_id context_version payload corr not_before max_attempts manager_epoch
       event_seq_hwm t"

definition get_internal_draft_for_inbox ::
  "uuid \<Rightarrow> outbox_message list \<Rightarrow> outbox_message option" where
  "get_internal_draft_for_inbox inbox_id t =
     sql_one (\<lambda>r. o_source_inbox_id r = Some inbox_id \<and> o_destination_type r = INTERNAL_DRAFT) t"

definition draft_new_row :: "uuid \<Rightarrow> moment \<Rightarrow> uuid \<Rightarrow> uuid \<Rightarrow> payload \<Rightarrow> outbox_message" where
  "draft_new_row new_id now cid inbox_id payload =
     \<lparr> o_id = new_id, o_conversation_id = cid, o_source_inbox_id = Some inbox_id,
       o_reply_plan_id = None, o_idempotency_key = None, o_context_version = None,
       o_manager_epoch = 0, o_event_seq_hwm = 0, o_destination_type = INTERNAL_DRAFT,
       o_payload_json = payload, o_delivery_status = Out_PENDING, o_not_before = None,
       o_attempt_count = 0, o_max_attempts = 5, o_lease_owner = None, o_lease_token = None,
       o_lease_version = 0, o_lease_until = None, o_admitted_at = None,
       o_provider_message_id = None, o_correlation_id = None, o_created_at = now \<rparr>"

definition create_internal_draft_outbox ::
  "uuid \<Rightarrow> moment \<Rightarrow> uuid \<Rightarrow> uuid \<Rightarrow> payload \<Rightarrow> outbox_message list
     \<Rightarrow> exn + ((outbox_message \<times> bool) \<times> outbox_message list)" where
  "create_internal_draft_outbox new_id now cid inbox_id payload t =
     (case get_internal_draft_for_inbox inbox_id t of
        Some existing \<Rightarrow> Inr ((existing, False), t)
      | None \<Rightarrow>
          if outbound_get_by_id new_id t \<noteq> None then Inl (IntegrityError ''outbox_messages_pkey'')
          else
            let t' = t @ [draft_new_row new_id now cid inbox_id payload]
            in case get_internal_draft_for_inbox inbox_id t' of
                 None \<Rightarrow> Inl (RuntimeError ''OUTBOX_LOOKUP_FAILED'')
               | Some row \<Rightarrow> Inr ((row, True), t'))"

definition outbound_close_row :: "DeliveryStatus \<Rightarrow> outbox_message \<Rightarrow> outbox_message" where
  "outbound_close_row target r =
     r \<lparr> o_delivery_status := target, o_lease_owner := None, o_lease_token := None,
         o_lease_until := None \<rparr>"

definition outbound_unadmitted :: "outbox_message \<Rightarrow> bool" where
  "outbound_unadmitted r =
     (o_destination_type r \<in> set CLAIMABLE_DESTINATIONS \<and>
      o_delivery_status r \<in> {Out_PENDING, Out_PROCESSING, Out_FAILED})"

definition cancel_unadmitted_for_conversation ::
  "uuid \<Rightarrow> outbox_message list \<Rightarrow> nat \<times> outbox_message list" where
  "cancel_unadmitted_for_conversation cid t =
     (let P = (\<lambda>r. o_conversation_id r = cid \<and> outbound_unadmitted r)
      in (sql_count P t, sql_update P (outbound_close_row Out_CANCELLED) t))"

definition cancel_unadmitted_for_manager_message ::
  "uuid \<Rightarrow> outbox_message list \<Rightarrow> nat \<times> outbox_message list" where
  "cancel_unadmitted_for_manager_message cid t = cancel_unadmitted_for_conversation cid t"

definition outbound_lease_expired :: "moment \<Rightarrow> outbox_message \<Rightarrow> bool" where
  "outbound_lease_expired now r = (case o_lease_until r of None \<Rightarrow> False | Some u \<Rightarrow> u < now)"

definition outbound_exhausted :: "moment \<Rightarrow> outbox_message \<Rightarrow> bool" where
  "outbound_exhausted now r =
     (o_destination_type r \<in> set CLAIMABLE_DESTINATIONS \<and> o_delivery_status r = Out_PROCESSING \<and>
      outbound_lease_expired now r \<and> o_attempt_count r \<ge> o_max_attempts r)"

definition outbound_recover_exhausted_leases ::
  "moment \<Rightarrow> outbox_message list \<Rightarrow> nat \<times> outbox_message list" where
  "outbound_recover_exhausted_leases now t =
     (sql_count (outbound_exhausted now) t,
      sql_update (outbound_exhausted now) (outbound_close_row Out_DEAD) t)"

definition outbound_claimable :: "moment \<Rightarrow> outbox_message \<Rightarrow> bool" where
  "outbound_claimable now r =
     (o_destination_type r \<in> {SYNTHETIC_OUTBOUND, VK_CLIENT_OUTBOUND} \<and>
      (o_delivery_status r = Out_ADMITTED \<or> o_attempt_count r < o_max_attempts r) \<and>
      (case o_not_before r of None \<Rightarrow> True | Some nb \<Rightarrow> nb \<le> At now) \<and>
      (o_delivery_status r = Out_PENDING \<or>
       o_delivery_status r = Out_FAILED \<and> (o_lease_until r = None \<or> outbound_lease_expired now r) \<or>
       o_delivery_status r = Out_PROCESSING \<and> outbound_lease_expired now r \<or>
       o_delivery_status r = Out_ADMITTED \<and> (o_lease_until r = None \<or> outbound_lease_expired now r)))"

definition outbound_lease_row :: "string \<Rightarrow> uuid \<Rightarrow> moment \<Rightarrow> outbox_message \<Rightarrow> outbox_message" where
  "outbound_lease_row worker token until r =
     r \<lparr> o_delivery_status :=
           (if o_delivery_status r = Out_ADMITTED then Out_ADMITTED else Out_PROCESSING),
         o_lease_owner := Some worker, o_lease_token := Some token,
         o_lease_version := o_lease_version r + 1, o_lease_until := Some until,
         o_attempt_count := o_attempt_count r + 1 \<rparr>"

definition outbound_claim_next ::
  "string \<Rightarrow> int \<Rightarrow> moment \<Rightarrow> uuid \<Rightarrow> (uuid \<Rightarrow> bool) \<Rightarrow> outbox_message list
     \<Rightarrow> exn + (outbound_claim option \<times> outbox_message list)" where
  "outbound_claim_next worker lease_seconds now token locked t =
     (if lease_seconds \<le> 0 then Inl (ValueError ''lease_seconds must be positive'')
      else
        let t1 = snd (outbound_recover_exhausted_leases now t);
            until = now + seconds lease_seconds
        in case sql_first_by o_created_at
                  (\<lambda>r. outbound_claimable now r \<and> \<not> locked (o_id r)) t1 of
             None \<Rightarrow> Inr (None, t1)
           | Some cand \<Rightarrow>
               let t2 = sql_update (\<lambda>r. o_id r = o_id cand)
                          (outbound_lease_row worker token until) t1
               in case outbound_get_by_id (o_id cand) t2 of
                    None \<Rightarrow> Inl (RuntimeError ''OUTBOUND_CLAIM_LOOKUP_FAILED'')
                  | Some row \<Rightarrow>
                      (case outbound_row_to_claim row of
                         Inl e \<Rightarrow> Inl e
                       | Inr claim \<Rightarrow> Inr (Some claim, t2)))"

definition outbound_held :: "uuid \<Rightarrow> uuid \<Rightarrow> int \<Rightarrow> outbox_message \<Rightarrow> bool" where
  "outbound_held outbound_id token version r =
     (o_id r = outbound_id \<and> o_delivery_status r = Out_PROCESSING \<and>
      o_lease_token r = Some token \<and> o_lease_version r = version)"

definition outbound_admitted_held :: "uuid \<Rightarrow> uuid \<Rightarrow> int \<Rightarrow> outbox_message \<Rightarrow> bool" where
  "outbound_admitted_held outbound_id token version r =
     (o_id r = outbound_id \<and> o_delivery_status r = Out_ADMITTED \<and> o_admitted_at r \<noteq> None \<and>
      o_lease_token r = Some token \<and> o_lease_version r = version)"

text \<open>One fenced UPDATE and the re-read after it.\<close>

definition outbound_fenced_update ::
  "uuid \<Rightarrow> (outbox_message \<Rightarrow> bool) \<Rightarrow> (outbox_message \<Rightarrow> outbox_message) \<Rightarrow> outbox_message list
     \<Rightarrow> exn + (outbox_message \<times> outbox_message list)" where
  "outbound_fenced_update outbound_id P f t =
     (if sql_count P t = 0 then Inl (StaleOutboundLeaseError ''OUTBOUND_STALE_LEASE'')
      else
        let t' = sql_update P f t
        in case outbound_get_by_id outbound_id t' of
             None \<Rightarrow> Inl (RuntimeError ''OUTBOUND_LOOKUP_FAILED'')
           | Some row \<Rightarrow> Inr (row, t'))"

definition outbound_admit_row :: "moment \<Rightarrow> outbox_message \<Rightarrow> outbox_message" where
  "outbound_admit_row moment r =
     r \<lparr> o_delivery_status := Out_ADMITTED, o_admitted_at := Some moment \<rparr>"

definition mark_admitted_with_lease ::
  "uuid \<Rightarrow> uuid \<Rightarrow> int \<Rightarrow> moment \<Rightarrow> outbox_message list
     \<Rightarrow> exn + (outbox_message \<times> outbox_message list)" where
  "mark_admitted_with_lease outbound_id token version now t =
     (if \<not> outbound_transition_allowed Out_PROCESSING Out_ADMITTED
      then Inl (OutboundStateError ''OUTBOUND_TRANSITION_DENIED'')
      else outbound_fenced_update outbound_id (outbound_held outbound_id token version)
             (outbound_admit_row now) t)"

text \<open>
  The partial unique index \<open>uq_outbox_vk_provider_message_id\<close>: writing a provider id that another VK
  row already carries raises.
\<close>

definition vk_provider_id_taken :: "uuid \<Rightarrow> int \<Rightarrow> outbox_message list \<Rightarrow> bool" where
  "vk_provider_id_taken outbound_id n t =
     (list_ex (\<lambda>r. o_id r = outbound_id \<and> o_destination_type r = VK_CLIENT_OUTBOUND) t \<and>
      list_ex (\<lambda>r. o_id r \<noteq> outbound_id \<and> o_destination_type r = VK_CLIENT_OUTBOUND \<and>
                 o_provider_message_id r = Some n) t)"

definition outbound_deliver_row :: "int option \<Rightarrow> outbox_message \<Rightarrow> outbox_message" where
  "outbound_deliver_row pid r =
     (let r' = outbound_close_row Out_DELIVERED r
      in case pid of
           Some n \<Rightarrow> if 0 < n then r' \<lparr> o_provider_message_id := Some n \<rparr> else r'
         | None \<Rightarrow> r')"

definition mark_delivered_with_lease ::
  "uuid \<Rightarrow> uuid \<Rightarrow> int \<Rightarrow> int option \<Rightarrow> outbox_message list
     \<Rightarrow> exn + (outbox_message \<times> outbox_message list)" where
  "mark_delivered_with_lease outbound_id token version provider_message_id t =
     (if \<not> outbound_transition_allowed Out_ADMITTED Out_DELIVERED
      then Inl (OutboundStateError ''OUTBOUND_TRANSITION_DENIED'')
      else if sql_count (outbound_admitted_held outbound_id token version) t \<noteq> 0 \<and>
              (case provider_message_id of
                 Some n \<Rightarrow> 0 < n \<and> vk_provider_id_taken outbound_id n t
               | None \<Rightarrow> False)
      then Inl (IntegrityError ''uq_outbox_vk_provider_message_id'')
      else outbound_fenced_update outbound_id (outbound_admitted_held outbound_id token version)
             (outbound_deliver_row provider_message_id) t)"

definition outbound_provider_row :: "int \<Rightarrow> outbox_message \<Rightarrow> outbox_message" where
  "outbound_provider_row n r = r \<lparr> o_provider_message_id := Some n \<rparr>"

definition set_vk_provider_message_id_with_lease ::
  "uuid \<Rightarrow> uuid \<Rightarrow> int \<Rightarrow> int \<Rightarrow> outbox_message list
     \<Rightarrow> exn + (outbox_message \<times> outbox_message list)" where
  "set_vk_provider_message_id_with_lease outbound_id token version provider_message_id t =
     (if provider_message_id \<le> 0 then Inl (ValueError ''PROVIDER_MESSAGE_ID_INVALID'')
      else
        let P = (\<lambda>r. outbound_admitted_held outbound_id token version r \<and>
                   o_destination_type r = VK_CLIENT_OUTBOUND \<and> o_provider_message_id r = None)
        in if sql_count P t = 0
           then (case outbound_get_by_id outbound_id t of
                   Some row \<Rightarrow>
                     if o_provider_message_id row = Some provider_message_id \<and>
                        o_lease_token row = Some token \<and> o_lease_version row = version
                     then Inr (row, t)
                     else Inl (StaleOutboundLeaseError ''OUTBOUND_STALE_LEASE'')
                 | None \<Rightarrow> Inl (StaleOutboundLeaseError ''OUTBOUND_STALE_LEASE''))
           else if vk_provider_id_taken outbound_id provider_message_id t
           then Inl (IntegrityError ''uq_outbox_vk_provider_message_id'')
           else outbound_fenced_update outbound_id P (outbound_provider_row provider_message_id) t)"

definition find_vk_outbound_by_provider_message_id ::
  "uuid \<Rightarrow> int \<Rightarrow> outbox_message list \<Rightarrow> outbox_message option" where
  "find_vk_outbound_by_provider_message_id cid n t =
     (if n \<le> 0 then None
      else sql_one (\<lambda>r. o_conversation_id r = cid \<and> o_destination_type r = VK_CLIENT_OUTBOUND \<and>
                      o_provider_message_id r = Some n) t)"

definition find_vk_outbound_by_id :: "uuid \<Rightarrow> uuid \<Rightarrow> outbox_message list \<Rightarrow> outbox_message option" where
  "find_vk_outbound_by_id cid outbound_id t =
     (case outbound_get_by_id outbound_id t of
        None \<Rightarrow> None
      | Some row \<Rightarrow>
          if o_conversation_id row \<noteq> cid then None
          else if o_destination_type row \<noteq> VK_CLIENT_OUTBOUND then None
          else Some row)"

definition has_admitted_vk_outbound_without_provider_id ::
  "uuid \<Rightarrow> outbox_message list \<Rightarrow> bool" where
  "has_admitted_vk_outbound_without_provider_id cid t =
     list_ex (\<lambda>r. o_conversation_id r = cid \<and> o_destination_type r = VK_CLIENT_OUTBOUND \<and>
                o_delivery_status r = Out_ADMITTED \<and> o_provider_message_id r = None) t"

definition outbound_fail_row ::
  "DeliveryStatus \<Rightarrow> pgtime option \<Rightarrow> outbox_message \<Rightarrow> outbox_message" where
  "outbound_fail_row target not_before r = outbound_close_row target r \<lparr> o_not_before := not_before \<rparr>"

definition fail_admitted_delivery_with_lease ::
  "uuid \<Rightarrow> uuid \<Rightarrow> int \<Rightarrow> bool \<Rightarrow> int \<Rightarrow> moment \<Rightarrow> outbox_message list
     \<Rightarrow> exn + (outbox_message \<times> outbox_message list)" where
  "fail_admitted_delivery_with_lease outbound_id token version permanent retry_delay_seconds now t =
     (case outbound_get_by_id outbound_id t of
        None \<Rightarrow> Inl (RuntimeError ''OUTBOUND_LOOKUP_FAILED'')
      | Some row \<Rightarrow>
          if \<not> outbound_admitted_held outbound_id token version row
          then Inl (StaleOutboundLeaseError ''OUTBOUND_STALE_LEASE'')
          else
            let terminal = (permanent \<or> o_attempt_count row \<ge> o_max_attempts row);
                target = (if terminal then Out_DEAD else Out_ADMITTED);
                retry_at = (if terminal then o_not_before row
                            else Some (At (now + seconds retry_delay_seconds)))
            in if target = Out_DEAD \<and> \<not> outbound_transition_allowed Out_ADMITTED target
               then Inl (OutboundStateError ''OUTBOUND_TRANSITION_DENIED'')
               else outbound_fenced_update outbound_id
                      (outbound_admitted_held outbound_id token version)
                      (outbound_fail_row target retry_at) t)"

definition outbound_fail_with_lease ::
  "uuid \<Rightarrow> uuid \<Rightarrow> int \<Rightarrow> int \<Rightarrow> moment \<Rightarrow> outbox_message list
     \<Rightarrow> exn + (outbox_message \<times> outbox_message list)" where
  "outbound_fail_with_lease outbound_id token version retry_delay_seconds now t =
     (case outbound_get_by_id outbound_id t of
        None \<Rightarrow> Inl (RuntimeError ''OUTBOUND_LOOKUP_FAILED'')
      | Some row \<Rightarrow>
          if \<not> outbound_held outbound_id token version row
          then Inl (StaleOutboundLeaseError ''OUTBOUND_STALE_LEASE'')
          else
            let dead = o_attempt_count row \<ge> o_max_attempts row;
                target = (if dead then Out_DEAD else Out_FAILED);
                not_before = (if dead then o_not_before row
                              else Some (At (now + seconds retry_delay_seconds)))
            in if \<not> outbound_transition_allowed Out_PROCESSING target
               then Inl (OutboundStateError ''OUTBOUND_TRANSITION_DENIED'')
               else outbound_fenced_update outbound_id (outbound_held outbound_id token version)
                      (outbound_fail_row target not_before) t)"

section \<open>Row steps and repository calls\<close>

definition outbound_new :: "outbox_message \<Rightarrow> bool" where
  "outbound_new r =
     (o_delivery_status r = Out_PENDING \<and> o_attempt_count r = 0 \<and> o_lease_version r = 0 \<and>
      0 < o_max_attempts r \<and> o_lease_owner r = None \<and> o_lease_token r = None \<and>
      o_lease_until r = None \<and> o_admitted_at r = None \<and> o_provider_message_id r = None)"

definition outbound_finished :: "outbox_message \<Rightarrow> bool" where
  "outbound_finished r = (o_delivery_status r \<in> {Out_DELIVERED, Out_DEAD, Out_CANCELLED})"

definition outbound_sendable :: "outbox_message \<Rightarrow> bool" where
  "outbound_sendable r = (o_destination_type r \<in> set CLAIMABLE_DESTINATIONS)"

inductive outbound_step :: "outbox_message \<Rightarrow> outbox_message \<Rightarrow> bool" where
  claim: "outbound_sendable r \<Longrightarrow> o_attempt_count r < o_max_attempts r \<Longrightarrow>
    o_delivery_status r \<in> {Out_PENDING, Out_FAILED, Out_PROCESSING} \<Longrightarrow>
    outbound_step r (outbound_lease_row w token until r)"
| reclaim: "o_delivery_status r = Out_ADMITTED \<Longrightarrow> outbound_step r (outbound_lease_row w token until r)"
| admit: "o_delivery_status r = Out_PROCESSING \<Longrightarrow> outbound_step r (outbound_admit_row m r)"
| deliver: "o_delivery_status r = Out_ADMITTED \<Longrightarrow> o_admitted_at r \<noteq> None \<Longrightarrow>
    outbound_step r (outbound_deliver_row pid r)"
| provider: "o_delivery_status r = Out_ADMITTED \<Longrightarrow> o_provider_message_id r = None \<Longrightarrow> 0 < n \<Longrightarrow>
    outbound_step r (outbound_provider_row n r)"
| retry: "o_delivery_status r = Out_PROCESSING \<Longrightarrow> o_attempt_count r < o_max_attempts r \<Longrightarrow>
    outbound_step r (outbound_fail_row Out_FAILED nb r)"
| dead: "o_delivery_status r = Out_PROCESSING \<Longrightarrow> o_attempt_count r \<ge> o_max_attempts r \<Longrightarrow>
    outbound_step r (outbound_fail_row Out_DEAD nb r)"
| redeliver: "o_delivery_status r = Out_ADMITTED \<Longrightarrow> o_attempt_count r < o_max_attempts r \<Longrightarrow>
    outbound_step r (outbound_fail_row Out_ADMITTED nb r)"
| undeliverable: "o_delivery_status r = Out_ADMITTED \<Longrightarrow> outbound_step r (outbound_fail_row Out_DEAD nb r)"
| exhausted: "o_delivery_status r = Out_PROCESSING \<Longrightarrow> o_attempt_count r \<ge> o_max_attempts r \<Longrightarrow>
    outbound_step r (outbound_close_row Out_DEAD r)"
| cancel: "outbound_unadmitted r \<Longrightarrow> outbound_step r (outbound_close_row Out_CANCELLED r)"

inductive outbound_run :: "outbox_message list \<Rightarrow> outbox_message list \<Rightarrow> bool" where
  synthetic: "insert_synthetic_outbound_if_absent i now cid pid cv pl corr nb mx ep sq t = Inr (res, t') \<Longrightarrow>
    outbound_run t t'"
| vk: "insert_vk_client_outbound_if_absent i now cid pid cv pl corr nb mx ep sq t = Inr (res, t') \<Longrightarrow>
    outbound_run t t'"
| draft: "create_internal_draft_outbox i now cid inbox pl t = Inr (res, t') \<Longrightarrow> outbound_run t t'"
| cancel: "cancel_unadmitted_for_conversation cid t = (n, t') \<Longrightarrow> outbound_run t t'"
| recover: "outbound_recover_exhausted_leases now t = (n, t') \<Longrightarrow> outbound_run t t'"
| claim: "outbound_claim_next w secs now token locked t = Inr (c, t') \<Longrightarrow> outbound_run t t'"
| admit: "mark_admitted_with_lease i token v now t = Inr (row, t') \<Longrightarrow> outbound_run t t'"
| deliver: "mark_delivered_with_lease i token v pid t = Inr (row, t') \<Longrightarrow> outbound_run t t'"
| provider: "set_vk_provider_message_id_with_lease i token v n t = Inr (row, t') \<Longrightarrow> outbound_run t t'"
| fail_admitted: "fail_admitted_delivery_with_lease i token v perm delay now t = Inr (row, t') \<Longrightarrow>
    outbound_run t t'"
| fail: "outbound_fail_with_lease i token v delay now t = Inr (row, t') \<Longrightarrow> outbound_run t t'"

lemmas outbound_row_defs =
  outbound_lease_row_def outbound_admit_row_def outbound_provider_row_def outbound_fail_row_def
  outbound_close_row_def

text \<open>The columns a row keeps for life.\<close>

definition outbound_keys ::
  "outbox_message \<Rightarrow> uuid \<times> string option \<times> uuid \<times> uuid option \<times> DestinationType \<times> int option \<times> int \<times> int \<times> uuid option"
where
  "outbound_keys r = (o_id r, o_idempotency_key r, o_conversation_id r, o_reply_plan_id r,
     o_destination_type r, o_context_version r, o_manager_epoch r, o_event_seq_hwm r,
     o_source_inbox_id r)"

lemma outbound_deliver_row_keys [simp]:
  "outbound_keys (outbound_deliver_row pid r) = outbound_keys r"
  "o_id (outbound_deliver_row pid r) = o_id r"
  "o_delivery_status (outbound_deliver_row pid r) = Out_DELIVERED"
  "o_lease_token (outbound_deliver_row pid r) = None"
  "o_lease_owner (outbound_deliver_row pid r) = None"
  "o_lease_until (outbound_deliver_row pid r) = None"
  "o_lease_version (outbound_deliver_row pid r) = o_lease_version r"
  "o_attempt_count (outbound_deliver_row pid r) = o_attempt_count r"
  "o_max_attempts (outbound_deliver_row pid r) = o_max_attempts r"
  "o_admitted_at (outbound_deliver_row pid r) = o_admitted_at r"
  "o_destination_type (outbound_deliver_row pid r) = o_destination_type r"
  by (simp_all add: outbound_deliver_row_def outbound_close_row_def outbound_keys_def Let_def
      split: option.split)

lemma outbound_keys_rows [simp]:
  "outbound_keys (outbound_lease_row w token u r) = outbound_keys r"
  "outbound_keys (outbound_admit_row m r) = outbound_keys r"
  "outbound_keys (outbound_provider_row n r) = outbound_keys r"
  "outbound_keys (outbound_fail_row target nb r) = outbound_keys r"
  "outbound_keys (outbound_close_row target r) = outbound_keys r"
  by (simp_all add: outbound_keys_def outbound_row_defs)

lemma outbound_id_rows [simp]:
  "o_id (outbound_lease_row w token u r) = o_id r"
  "o_id (outbound_admit_row m r) = o_id r"
  "o_id (outbound_provider_row n r) = o_id r"
  "o_id (outbound_fail_row target nb r) = o_id r"
  "o_id (outbound_close_row target r) = o_id r"
  by (simp_all add: outbound_row_defs)

lemma outbound_step_keys: "outbound_step r r' \<Longrightarrow> outbound_keys r' = outbound_keys r"
  by (cases rule: outbound_step.cases) auto

lemma outbound_step_fenced:
  assumes "outbound_step r r'"
  shows "o_lease_version r \<le> o_lease_version r'"
    and "o_lease_version r' = o_lease_version r \<Longrightarrow>
           o_lease_token r' = o_lease_token r \<or> o_lease_token r' = None"
    and "\<not> outbound_finished r"
    and "o_max_attempts r' = o_max_attempts r"
    and "o_attempt_count r' - o_attempt_count r = o_lease_version r' - o_lease_version r"
  using assms
  by (cases rule: outbound_step.cases;
      simp add: outbound_row_defs outbound_finished_def outbound_unadmitted_def; fastforce)+

text \<open>Status changes follow the transition table, apart from steps that keep the status.\<close>

lemma outbound_step_transition:
  assumes "outbound_step r r'"
  shows "o_delivery_status r' = o_delivery_status r \<or>
         outbound_transition_allowed (o_delivery_status r) (o_delivery_status r')"
  using assms
  by (cases rule: outbound_step.cases)
    (auto simp: outbound_row_defs outbound_transition_allowed_def outbound_unadmitted_def)

section \<open>Operations, by what they did\<close>

lemma outbound_fenced_update_Inr:
  assumes "outbound_fenced_update i P f t = Inr (row, t')" and "distinct (map o_id t)"
    and "\<And>x. P x \<Longrightarrow> o_id x = i" and "\<And>x. o_id (f x) = o_id x"
  obtains r where "r \<in> set t" and "P r" and "row = f r" and "t' = sql_put o_id (f r) t"
proof -
  obtain r where r: "r \<in> set t" "P r" "o_id r = i"
    using assms(1,3) by (auto simp: outbound_fenced_update_def sql_count_0 split: if_splits)
  have "sql_update P f t = sql_put o_id (f r) t"
    using assms r by (intro sql_update_current) auto
  moreover have "outbound_get_by_id i (sql_put o_id (f r) t) = Some (f r)"
    using sql_one_put [OF r(1), of o_id "f r"] assms(4) r(3) by (simp add: outbound_get_by_id_def)
  ultimately show ?thesis
    using assms(1) r that
    by (auto simp: outbound_fenced_update_def Let_def split: if_splits)
qed

lemma mark_admitted_Inr:
  assumes "mark_admitted_with_lease i token v now t = Inr (row, t')" and "distinct (map o_id t)"
  obtains r where "r \<in> set t" and "outbound_held i token v r" and "row = outbound_admit_row now r"
    and "t' = sql_put o_id row t"
proof -
  have "outbound_fenced_update i (outbound_held i token v) (outbound_admit_row now) t = Inr (row, t')"
    using assms(1) by (simp add: mark_admitted_with_lease_def split: if_splits)
  then show ?thesis
    by (rule outbound_fenced_update_Inr [OF _ assms(2)]) (auto simp: outbound_held_def intro: that)
qed

lemma mark_delivered_Inr:
  assumes "mark_delivered_with_lease i token v pid t = Inr (row, t')" and "distinct (map o_id t)"
  obtains r where "r \<in> set t" and "outbound_admitted_held i token v r"
    and "row = outbound_deliver_row pid r" and "t' = sql_put o_id row t"
proof -
  have "outbound_fenced_update i (outbound_admitted_held i token v) (outbound_deliver_row pid) t =
      Inr (row, t')"
    using assms(1) by (simp add: mark_delivered_with_lease_def split: if_splits)
  then show ?thesis
    by (rule outbound_fenced_update_Inr [OF _ assms(2)])
      (auto simp: outbound_admitted_held_def intro: that)
qed

lemma set_vk_provider_cases:
  assumes "set_vk_provider_message_id_with_lease i token v n t = Inr (row, t')"
    and "distinct (map o_id t)"
  obtains (known) "t' = t" and "outbound_get_by_id i t = Some row"
      and "o_provider_message_id row = Some n" and "o_lease_token row = Some token"
      and "o_lease_version row = v"
    | (stored) r where "r \<in> set t" and "outbound_admitted_held i token v r"
      and "o_provider_message_id r = None" and "0 < n" and "row = outbound_provider_row n r"
      and "t' = sql_put o_id row t"
proof -
  let ?P = "\<lambda>r. outbound_admitted_held i token v r \<and> o_destination_type r = VK_CLIENT_OUTBOUND \<and>
    o_provider_message_id r = None"
  have pos: "0 < n"
    using assms(1) by (simp add: set_vk_provider_message_id_with_lease_def split: if_splits)
  show ?thesis
  proof (cases "sql_count ?P t = 0")
    case True
    with assms(1) pos known show ?thesis
      by (auto simp: set_vk_provider_message_id_with_lease_def split: if_splits option.splits)
  next
    case False
    with assms(1) pos have "outbound_fenced_update i ?P (outbound_provider_row n) t = Inr (row, t')"
      by (simp add: set_vk_provider_message_id_with_lease_def split: if_splits)
    then show ?thesis
      by (rule outbound_fenced_update_Inr [OF _ assms(2)])
        (auto simp: outbound_admitted_held_def intro: stored pos)
  qed
qed

lemma outbound_row_by_id:
  assumes "outbound_get_by_id i t = Some row" and "distinct (map o_id t)" and "r \<in> set t" and "o_id r = i"
  shows "r = row"
  using sql_one_the_row [OF assms(2,3)] assms(1,4) by (simp add: outbound_get_by_id_def)

lemma fail_admitted_Inr:
  assumes "fail_admitted_delivery_with_lease i token v perm delay now t = Inr (row, t')"
    and "distinct (map o_id t)"
  obtains r where "r \<in> set t" and "outbound_admitted_held i token v r"
    and "row = (if perm \<or> o_attempt_count r \<ge> o_max_attempts r
                then outbound_fail_row Out_DEAD (o_not_before r) r
                else outbound_fail_row Out_ADMITTED (Some (At (now + seconds delay))) r)"
    and "t' = sql_put o_id row t"
proof -
  obtain x where x: "outbound_get_by_id i t = Some x" "outbound_admitted_held i token v x"
    using assms(1)
    by (auto simp: fail_admitted_delivery_with_lease_def split: option.splits if_splits)
  let ?dead = "perm \<or> o_attempt_count x \<ge> o_max_attempts x"
  have "outbound_fenced_update i (outbound_admitted_held i token v)
      (outbound_fail_row (if ?dead then Out_DEAD else Out_ADMITTED)
        (if ?dead then o_not_before x else Some (At (now + seconds delay)))) t = Inr (row, t')"
    using assms(1) x
    by (auto simp: fail_admitted_delivery_with_lease_def Let_def outbound_transition_allowed_def
        split: if_splits)
  then obtain r where r: "r \<in> set t" "outbound_admitted_held i token v r"
    "row = outbound_fail_row (if ?dead then Out_DEAD else Out_ADMITTED)
        (if ?dead then o_not_before x else Some (At (now + seconds delay))) r"
    "t' = sql_put o_id row t"
    by (rule outbound_fenced_update_Inr [OF _ assms(2)]) (auto simp: outbound_admitted_held_def)
  moreover have "r = x"
    using outbound_row_by_id [OF x(1) assms(2) r(1)] r(2) by (simp add: outbound_admitted_held_def)
  ultimately show ?thesis by (intro that [of r]) simp_all
qed

lemma outbound_fail_Inr:
  assumes "outbound_fail_with_lease i token v delay now t = Inr (row, t')" and "distinct (map o_id t)"
  obtains r where "r \<in> set t" and "outbound_held i token v r"
    and "row = (if o_attempt_count r \<ge> o_max_attempts r
                then outbound_fail_row Out_DEAD (o_not_before r) r
                else outbound_fail_row Out_FAILED (Some (At (now + seconds delay))) r)"
    and "t' = sql_put o_id row t"
proof -
  obtain x where x: "outbound_get_by_id i t = Some x" "outbound_held i token v x"
    using assms(1) by (auto simp: outbound_fail_with_lease_def split: option.splits if_splits)
  let ?dead = "o_attempt_count x \<ge> o_max_attempts x"
  have "outbound_fenced_update i (outbound_held i token v)
      (outbound_fail_row (if ?dead then Out_DEAD else Out_FAILED)
        (if ?dead then o_not_before x else Some (At (now + seconds delay)))) t = Inr (row, t')"
    using assms(1) x
    by (simp add: outbound_fail_with_lease_def Let_def outbound_transition_allowed_def
        split: if_splits)
  then obtain r where r: "r \<in> set t" "outbound_held i token v r"
    "row = outbound_fail_row (if ?dead then Out_DEAD else Out_FAILED)
        (if ?dead then o_not_before x else Some (At (now + seconds delay))) r"
    "t' = sql_put o_id row t"
    by (rule outbound_fenced_update_Inr [OF _ assms(2)]) (auto simp: outbound_held_def)
  moreover have "r = x"
    using outbound_row_by_id [OF x(1) assms(2) r(1)] r(2) by (simp add: outbound_held_def)
  ultimately show ?thesis by (intro that [of r]) simp_all
qed

lemma insert_outbound_cases:
  assumes "insert_outbound_if_absent dest key i now cid pid cv pl corr nb mx ep sq t =
      Inr ((row, created), t')"
  obtains (old) "\<not> created" and "t' = t" and "outbound_get_by_idempotency_key key t = Some row"
    | (new) "created" and "t' = t @ [row]"
      and "row = outbound_new_row dest key i now cid pid cv pl corr nb mx ep sq"
      and "outbound_get_by_idempotency_key key t = None" and "outbound_get_by_id i t = None"
      and "outbound_new row"
proof (cases "outbound_get_by_idempotency_key key t")
  case (Some existing)
  with assms old show ?thesis by (simp add: insert_outbound_if_absent_def)
next
  case None
  let ?r = "outbound_new_row dest key i now cid pid cv pl corr nb mx ep sq"
  have "outbound_get_by_idempotency_key key (t @ [?r]) = Some ?r"
    using None
    by (simp add: outbound_get_by_idempotency_key_def sql_one_append outbound_new_row_def)
  with assms None have res: "created" "row = ?r" "t' = t @ [?r]" "outbound_get_by_id i t = None" "0 < mx"
    by (auto simp: insert_outbound_if_absent_def split: if_splits)
  then have "outbound_new row"
    by (simp add: outbound_new_def outbound_new_row_def)
  with res None show ?thesis by (intro new) simp_all
qed

lemma create_draft_cases:
  assumes "create_internal_draft_outbox i now cid inbox pl t = Inr ((row, created), t')"
  obtains (old) "\<not> created" and "t' = t" and "get_internal_draft_for_inbox inbox t = Some row"
    | (new) "created" and "t' = t @ [row]" and "row = draft_new_row i now cid inbox pl"
      and "get_internal_draft_for_inbox inbox t = None" and "outbound_get_by_id i t = None"
      and "outbound_new row"
proof (cases "get_internal_draft_for_inbox inbox t")
  case (Some existing)
  with assms old show ?thesis by (simp add: create_internal_draft_outbox_def)
next
  case None
  let ?r = "draft_new_row i now cid inbox pl"
  have "get_internal_draft_for_inbox inbox (t @ [?r]) = Some ?r"
    using None by (simp add: get_internal_draft_for_inbox_def sql_one_append draft_new_row_def)
  with assms None have res: "created" "row = ?r" "t' = t @ [?r]" "outbound_get_by_id i t = None"
    by (auto simp: create_internal_draft_outbox_def split: if_splits)
  then have "outbound_new row"
    by (simp add: outbound_new_def draft_new_row_def)
  with res None show ?thesis by (intro new) simp_all
qed

definition outbound_claim_select ::
  "moment \<Rightarrow> (uuid \<Rightarrow> bool) \<Rightarrow> outbox_message list \<Rightarrow> outbox_message option" where
  "outbound_claim_select now locked t =
     sql_first_by o_created_at (\<lambda>r. outbound_claimable now r \<and> \<not> locked (o_id r))
       (snd (outbound_recover_exhausted_leases now t))"

lemma outbound_recover_map [simp]:
  "map outbound_keys (snd (outbound_recover_exhausted_leases now t)) = map outbound_keys t"
  "map o_id (snd (outbound_recover_exhausted_leases now t)) = map o_id t"
  by (simp_all add: outbound_recover_exhausted_leases_def map_sql_update)

lemma outbound_claim_eq:
  fixes now :: moment and t :: "outbox_message list"
  assumes "distinct (map o_id t)" and "0 < secs"
  defines "t1 \<equiv> snd (outbound_recover_exhausted_leases now t)"
  shows "outbound_claim_next w secs now token locked t =
    (case outbound_claim_select now locked t of
       None \<Rightarrow> Inr (None, t1)
     | Some cand \<Rightarrow>
         Inr (Some (projr (outbound_row_to_claim (outbound_lease_row w token (now + seconds secs) cand))),
              sql_put o_id (outbound_lease_row w token (now + seconds secs) cand) t1))"
proof (cases "outbound_claim_select now locked t")
  case None
  with assms show ?thesis
    by (simp add: outbound_claim_next_def outbound_claim_select_def t1_def Let_def)
next
  case (Some cand)
  have d1: "distinct (map o_id t1)"
    using assms(1) by (simp add: t1_def)
  have in1: "cand \<in> set t1"
    using sql_first_by_Some [OF Some [unfolded outbound_claim_select_def]] by (simp add: t1_def)
  let ?r = "outbound_lease_row w token (now + seconds secs) cand"
  have "sql_update (\<lambda>r. o_id r = o_id cand) (outbound_lease_row w token (now + seconds secs)) t1 =
      sql_put o_id ?r t1"
    using d1 in1 by (intro sql_update_current) auto
  moreover have "outbound_get_by_id (o_id cand) (sql_put o_id ?r t1) = Some ?r"
    unfolding outbound_get_by_id_def using in1 by (intro sql_one_put) auto
  moreover obtain claim where "outbound_row_to_claim ?r = Inr claim"
    by (simp add: outbound_row_to_claim_def outbound_lease_row_def)
  ultimately show ?thesis
    using Some assms(2)
    by (simp add: outbound_claim_next_def outbound_claim_select_def t1_def Let_def)
qed

lemma outbound_claimable_step:
  assumes "outbound_claimable now r"
  shows "outbound_step r (outbound_lease_row w token until r)"
proof (cases "o_delivery_status r = Out_ADMITTED")
  case True
  then show ?thesis by (rule outbound_step.reclaim)
next
  case False
  with assms show ?thesis
    by (intro outbound_step.claim)
      (auto simp: outbound_claimable_def outbound_sendable_def CLAIMABLE_DESTINATIONS_def)
qed

lemma outbound_put_step:
  assumes "distinct (map o_id t)" and "r \<in> set t" and "outbound_step r r'"
  shows "evolves N outbound_step t (sql_put o_id r' t)"
    and "map outbound_keys (sql_put o_id r' t) = map outbound_keys t"
proof -
  have keys: "outbound_keys r' = outbound_keys r" and id: "o_id r' = o_id r"
    using outbound_step_keys [OF assms(3)] by (auto simp: outbound_keys_def)
  show "evolves N outbound_step t (sql_put o_id r' t)"
    using assms id by (intro evolves_put) auto
  show "map outbound_keys (sql_put o_id r' t) = map outbound_keys t"
    using assms keys id by (intro map_sql_put [where r = r]) auto
qed

lemma outbound_recover_evolves:
  "evolves N outbound_step t (snd (outbound_recover_exhausted_leases now t))"
  by (auto simp: outbound_recover_exhausted_leases_def outbound_exhausted_def
      intro!: evolves_update1 outbound_step.exhausted)

lemma outbound_claim_evolves:
  assumes "outbound_claim_next w secs now token locked t = Inr (c, t')" and "distinct (map o_id t)"
  shows "evolves N outbound_step t t' \<and> map outbound_keys t' = map outbound_keys t"
proof -
  have pos: "0 < secs"
    using assms(1) by (simp add: outbound_claim_next_def split: if_splits)
  let ?t1 = "snd (outbound_recover_exhausted_leases now t)"
  have d1: "distinct (map o_id ?t1)"
    using assms(2) by simp
  show ?thesis
  proof (cases "outbound_claim_select now locked t")
    case None
    with assms pos show ?thesis by (auto simp: outbound_claim_eq outbound_recover_evolves)
  next
    case (Some cand)
    let ?r = "outbound_lease_row w token (now + seconds secs) cand"
    note cand = sql_first_by_Some [OF Some [unfolded outbound_claim_select_def]]
    have t': "t' = sql_put o_id ?r ?t1"
      using assms pos Some by (simp add: outbound_claim_eq)
    have "outbound_step cand ?r"
      using cand by (intro outbound_claimable_step) auto
    then have "evolves N outbound_step ?t1 t'" and "map outbound_keys t' = map outbound_keys ?t1"
      unfolding t' using outbound_put_step [OF d1, of cand] cand by blast+
    then show ?thesis
      using outbound_recover_evolves [of N t now] evolves_trans [of N outbound_step t ?t1 t'] by simp
  qed
qed

section \<open>The contract, discharged\<close>

lemma outbound_insert_effect:
  assumes "insert_outbound_if_absent dest key i now cid pid cv pl corr nb mx ep sq t = Inr (res, t')"
  shows "evolves outbound_new outbound_step t t' \<and>
    (map outbound_keys t' = map outbound_keys t \<or>
     (\<exists>r. t' = t @ [r] \<and> (\<forall>x \<in> set t. o_id x \<noteq> o_id r \<and>
        (o_idempotency_key r = None \<or> o_idempotency_key x \<noteq> o_idempotency_key r))))"
proof -
  obtain row created where "res = (row, created)" by fastforce
  with assms have
    "insert_outbound_if_absent dest key i now cid pid cv pl corr nb mx ep sq t = Inr ((row, created), t')"
    by simp
  then show ?thesis
    by (cases rule: insert_outbound_cases)
      (auto simp: outbound_get_by_idempotency_key_def outbound_get_by_id_def sql_one_None
        outbound_new_row_def)
qed

lemma outbound_run_effect:
  assumes "outbound_run t t'" and "distinct (map o_id t)"
  shows "evolves outbound_new outbound_step t t' \<and>
    (map outbound_keys t' = map outbound_keys t \<or>
     (\<exists>r. t' = t @ [r] \<and> (\<forall>x \<in> set t. o_id x \<noteq> o_id r \<and>
        (o_idempotency_key r = None \<or> o_idempotency_key x \<noteq> o_idempotency_key r))))"
  using assms(1)
proof cases
  case synthetic
  then show ?thesis
    unfolding insert_synthetic_outbound_if_absent_def by (rule outbound_insert_effect)
next
  case vk
  then show ?thesis
    unfolding insert_vk_client_outbound_if_absent_def by (rule outbound_insert_effect)
next
  case (draft i now cid inbox pl res)
  obtain row created where "res = (row, created)" by fastforce
  with draft have "create_internal_draft_outbox i now cid inbox pl t = Inr ((row, created), t')"
    by simp
  then show ?thesis
    by (cases rule: create_draft_cases)
      (auto simp: outbound_get_by_id_def sql_one_None draft_new_row_def)
next
  case (cancel cid n)
  then show ?thesis
    by (auto simp: cancel_unadmitted_for_conversation_def Let_def map_sql_update
        intro!: evolves_update1 outbound_step.cancel)
next
  case (recover now n)
  then show ?thesis using outbound_recover_evolves outbound_recover_map(1) by (metis snd_conv)
next
  case claim
  then show ?thesis using outbound_claim_evolves assms(2) by blast
next
  case (admit i token v now row)
  then show ?thesis
    using assms(2)
    by (cases rule: mark_admitted_Inr)
      (auto simp: outbound_held_def intro!: outbound_put_step [OF assms(2)] outbound_step.admit)
next
  case (deliver i token v pid row)
  then show ?thesis
    using assms(2)
    by (cases rule: mark_delivered_Inr)
      (auto simp: outbound_admitted_held_def intro!: outbound_put_step [OF assms(2)] outbound_step.deliver)
next
  case (provider i token v n row)
  then show ?thesis
    using assms(2)
    by (cases rule: set_vk_provider_cases)
      (auto simp: outbound_admitted_held_def intro!: outbound_put_step [OF assms(2)] outbound_step.provider)
next
  case (fail_admitted i token v perm delay now row)
  then show ?thesis
    using assms(2)
    by (cases rule: fail_admitted_Inr)
      (auto simp: outbound_admitted_held_def not_le
        intro!: outbound_put_step [OF assms(2)] outbound_step.redeliver outbound_step.undeliverable)
next
  case (fail i token v delay now row)
  then show ?thesis
    using assms(2)
    by (cases rule: outbound_fail_Inr)
      (auto simp: outbound_held_def not_le
        intro!: outbound_put_step [OF assms(2)] outbound_step.retry outbound_step.dead)
qed

lemma outbound_run_distinct:
  assumes "outbound_run t t'" and "distinct (map o_id t)"
  shows "distinct (map o_id t')"
proof -
  have "map outbound_keys t' = map outbound_keys t \<or>
    (\<exists>r. t' = t @ [r] \<and> (\<forall>x \<in> set t. fst (outbound_keys x) \<noteq> fst (outbound_keys r)))"
    using outbound_run_effect [OF assms] unfolding outbound_keys_def by fastforce
  from distinct_columns [OF this] assms(2) show ?thesis
    by (simp add: outbound_keys_def)
qed

interpretation outbox: fenced_table o_id o_lease_version o_lease_token outbound_finished
  outbound_new outbound_step outbound_run
proof unfold_locales
  fix r r' :: outbox_message assume step: "outbound_step r r'"
  show "o_id r' = o_id r" using outbound_step_keys [OF step] by (simp add: outbound_keys_def)
  note fenced = outbound_step_fenced [OF step]
  show "o_lease_version r \<le> o_lease_version r'" by (rule fenced(1))
  show "o_lease_version r' = o_lease_version r \<Longrightarrow>
      o_lease_token r' = o_lease_token r \<or> o_lease_token r' = None" by (rule fenced(2))
  show "outbound_finished r \<Longrightarrow> r' = r" using fenced(3) by simp
qed (use outbound_run_effect outbound_run_distinct in auto)

section \<open>Row invariant\<close>

definition outbound_row_ok :: "outbox_message \<Rightarrow> bool" where
  "outbound_row_ok r =
     (ck_outbox r \<and>
      (outbound_sendable r \<or> o_delivery_status r = Out_PENDING) \<and>
      (o_delivery_status r \<in> {Out_PENDING, Out_PROCESSING, Out_FAILED, Out_CANCELLED} \<longrightarrow>
         o_admitted_at r = None \<and> o_provider_message_id r = None \<and>
         o_attempt_count r \<le> o_max_attempts r) \<and>
      (o_delivery_status r \<in> {Out_PENDING, Out_FAILED} \<longrightarrow> o_attempt_count r < o_max_attempts r))"

lemma outbound_new_ok: "outbound_new r \<Longrightarrow> outbound_row_ok r"
  by (simp add: outbound_new_def outbound_row_ok_def ck_outbox_def)

lemma outbound_step_ok:
  assumes "outbound_step r r'" and "outbound_row_ok r"
  shows "outbound_row_ok r'"
  using assms
proof (cases rule: outbound_step.cases)
  case (deliver pid)
  with assms(2) show ?thesis
    by (auto simp: outbound_row_ok_def ck_outbox_def outbound_sendable_def outbound_deliver_row_def
        outbound_close_row_def Let_def split: option.splits)
qed (auto simp: outbound_row_ok_def ck_outbox_def outbound_row_defs outbound_sendable_def
    outbound_unadmitted_def)

lemma outbound_reachable_distinct: "outbound_run\<^sup>*\<^sup>* [] t \<Longrightarrow> distinct (map o_id t)"
  by (erule outbox.runs_distinct) simp

lemma outbound_reachable_ok:
  assumes "outbound_run\<^sup>*\<^sup>* [] t"
  shows "\<forall>r \<in> set t. outbound_row_ok r"
  by (rule evolves_invariant [OF outbox.runs_evolve [OF assms]])
    (auto intro: outbound_new_ok outbound_step_ok)

definition outbound_is_admitted :: "moment \<Rightarrow> outbox_message \<Rightarrow> bool" where
  "outbound_is_admitted m r =
     (o_admitted_at r = Some m \<and> o_delivery_status r \<in> {Out_ADMITTED, Out_DELIVERED, Out_DEAD})"

lemma outbound_step_admitted:
  assumes "outbound_step r r'" and "outbound_is_admitted m r"
  shows "outbound_is_admitted m r'"
  using assms
  by (cases rule: outbound_step.cases)
    (auto simp: outbound_is_admitted_def outbound_row_defs outbound_unadmitted_def)

lemma outbound_spent_stale:
  assumes "lease_spent o_id o_lease_version o_lease_token i v t" and "distinct (map o_id t)"
  shows "mark_admitted_with_lease i token v now t =
           Inl (StaleOutboundLeaseError ''OUTBOUND_STALE_LEASE'')"
    and "mark_delivered_with_lease i token v pid t =
           Inl (StaleOutboundLeaseError ''OUTBOUND_STALE_LEASE'')"
    and "outbound_fail_with_lease i token v delay now t =
           Inl (StaleOutboundLeaseError ''OUTBOUND_STALE_LEASE'')"
    and "fail_admitted_delivery_with_lease i token v perm delay now t =
           Inl (StaleOutboundLeaseError ''OUTBOUND_STALE_LEASE'')"
proof -
  have none: "\<not> outbound_held i token v r" "\<not> outbound_admitted_held i token v r" if "r \<in> set t" for r
    using outbox.spent_not_held [OF assms that]
    by (auto simp: outbound_held_def outbound_admitted_held_def)
  show "mark_admitted_with_lease i token v now t =
      Inl (StaleOutboundLeaseError ''OUTBOUND_STALE_LEASE'')"
    "mark_delivered_with_lease i token v pid t =
      Inl (StaleOutboundLeaseError ''OUTBOUND_STALE_LEASE'')"
    using none
    by (auto simp: mark_admitted_with_lease_def mark_delivered_with_lease_def
        outbound_fenced_update_def outbound_transition_allowed_def sql_count_0)
  obtain r where r: "sql_one (\<lambda>x. o_id x = i) t = Some r"
    using assms(1) by (auto simp: lease_spent_def split: option.splits)
  with sql_one_Some [OF r] none
  show "outbound_fail_with_lease i token v delay now t =
      Inl (StaleOutboundLeaseError ''OUTBOUND_STALE_LEASE'')"
    "fail_admitted_delivery_with_lease i token v perm delay now t =
      Inl (StaleOutboundLeaseError ''OUTBOUND_STALE_LEASE'')"
    by (simp_all add: outbound_fail_with_lease_def fail_admitted_delivery_with_lease_def
        outbound_get_by_id_def)
qed

text \<open>A row that was unadmitted when its dialog's outbound was cancelled stays cancelled.\<close>

lemma outbound_cancelled_stays:
  assumes "distinct (map o_id t)" and "r \<in> set t" and "o_conversation_id r = cid" and "outbound_unadmitted r"
    and "outbound_run\<^sup>*\<^sup>* (snd (cancel_unadmitted_for_conversation cid t)) t2"
  shows "sql_one (\<lambda>x. o_id x = o_id r) t2 = Some (outbound_close_row Out_CANCELLED r)"
    and "distinct (map o_id t2)"
proof -
  let ?t1 = "snd (cancel_unadmitted_for_conversation cid t)"
  let ?r = "outbound_close_row Out_CANCELLED r"
  have run: "outbound_run t ?t1"
    by (metis outbound_run.cancel prod.collapse)
  have d1: "distinct (map o_id ?t1)"
    using outbox.run_distinct [OF run assms(1)] .
  have "sql_one (\<lambda>x. o_id x = o_id r) t = Some r"
    using sql_one_the_row [OF assms(1,2)] .
  then have row1: "sql_one (\<lambda>x. o_id x = o_id r) ?t1 = Some ?r"
    unfolding cancel_unadmitted_for_conversation_def Let_def snd_conv
    using assms(3,4) by (subst sql_one_update) auto
  have "outbound_finished ?r"
    by (simp add: outbound_finished_def outbound_close_row_def)
  from outbox.finished_row_final [OF assms(5) d1 row1 this]
  show "sql_one (\<lambda>x. o_id x = o_id r) t2 = Some ?r" .
  show "distinct (map o_id t2)"
    by (rule outbox.runs_distinct [OF assms(5) d1])
qed

section \<open>Properties\<close>

text \<open>
  Admission is irrevocable. Once an outbound was admitted, in every later table it is admitted,
  delivered or dead, with the admission instant it was given: no cancellation, retry, recovery or
  reclaim brings it back before the point of no return.
\<close>

theorem outbound_admission_irrevocable:
  assumes "outbound_run\<^sup>*\<^sup>* [] t" and "mark_admitted_with_lease i token v now t = Inr (row, t1)"
    and "outbound_run\<^sup>*\<^sup>* t1 t2"
  shows "\<exists>r. outbound_get_by_id i t2 = Some r \<and> o_admitted_at r = Some now \<and>
    o_delivery_status r \<in> {Out_ADMITTED, Out_DELIVERED, Out_DEAD}"
proof -
  note d = outbound_reachable_distinct [OF assms(1)]
  have d1: "distinct (map o_id t1)"
    using outbox.run_distinct [OF outbound_run.admit [OF assms(2)] d] .
  obtain r where r: "r \<in> set t" "outbound_held i token v r" "row = outbound_admit_row now r"
    "t1 = sql_put o_id row t"
    using assms(2) d by (rule mark_admitted_Inr)
  have "sql_one (\<lambda>x. o_id x = i) t1 = Some row"
    using sql_one_put [OF r(1), of o_id row] r(2,3,4) by (simp add: outbound_held_def)
  then obtain r2 where r2: "sql_one (\<lambda>x. o_id x = i) t2 = Some r2" "outbound_step\<^sup>*\<^sup>* row r2"
    by (rule outbox.runs_row [OF assms(3) d1])
  have "outbound_is_admitted now row"
    by (simp add: r(3) outbound_is_admitted_def outbound_admit_row_def)
  then have "outbound_is_admitted now r2"
    using rtranclp_invariant [OF r2(2), of "outbound_is_admitted now"] outbound_step_admitted by blast
  with r2(1) show ?thesis
    by (simp add: outbound_is_admitted_def outbound_get_by_id_def)
qed

text \<open>
  Nothing reaches a client without admission. In every reachable table a delivered row is a
  synthetic or VK outbound that was admitted; an internal draft is never leased, admitted or
  delivered; a row that was not admitted holds no provider receipt; and the lease and admission
  constraints of the table hold of every row.
\<close>

theorem outbound_delivery_needs_admission:
  assumes "outbound_run\<^sup>*\<^sup>* [] t" and "r \<in> set t"
  shows "ck_outbox r \<and>
    (o_delivery_status r = Out_DELIVERED \<longrightarrow>
       o_destination_type r \<noteq> INTERNAL_DRAFT \<and> o_admitted_at r \<noteq> None) \<and>
    (o_destination_type r = INTERNAL_DRAFT \<longrightarrow>
       o_delivery_status r = Out_PENDING \<and> o_lease_token r = None \<and> o_admitted_at r = None) \<and>
    (o_delivery_status r \<in> {Out_PENDING, Out_PROCESSING, Out_FAILED, Out_CANCELLED} \<longrightarrow>
       o_provider_message_id r = None)"
proof -
  have ok: "outbound_row_ok r"
    using outbound_reachable_ok [OF assms(1)] assms(2) by blast
  then have ck: "ck_outbox r"
    by (simp add: outbound_row_ok_def)
  have send: "o_destination_type r \<noteq> INTERNAL_DRAFT \<or> o_delivery_status r = Out_PENDING"
    using ok by (auto simp: outbound_row_ok_def outbound_sendable_def CLAIMABLE_DESTINATIONS_def)
  have claimable: "o_destination_type r \<noteq> INTERNAL_DRAFT \<longleftrightarrow>
      o_destination_type r \<in> set CLAIMABLE_DESTINATIONS"
    by (cases "o_destination_type r") (simp_all add: CLAIMABLE_DESTINATIONS_def)
  show ?thesis
  proof (intro conjI impI)
    show "ck_outbox r" by (rule ck)
  next
    assume "o_delivery_status r = Out_DELIVERED"
    with ck send claimable show "o_destination_type r \<noteq> INTERNAL_DRAFT" and "o_admitted_at r \<noteq> None"
      by (simp_all add: ck_outbox_def)
  next
    assume "o_destination_type r = INTERNAL_DRAFT"
    with ck send show "o_delivery_status r = Out_PENDING" and "o_lease_token r = None"
      and "o_admitted_at r = None"
      by (simp_all add: ck_outbox_def CLAIMABLE_DESTINATIONS_def)
  next
    assume "o_delivery_status r \<in> {Out_PENDING, Out_PROCESSING, Out_FAILED, Out_CANCELLED}"
    with ok show "o_provider_message_id r = None" unfolding outbound_row_ok_def by blast
  qed
qed

text \<open>
  A newer event stops every outbound that is still reversible. After the unadmitted outbound of
  a dialog was cancelled, each such row is cancelled in every later table and no worker, whatever
  lease it holds, can admit it.
\<close>

theorem outbound_cancelled_never_admitted:
  assumes "outbound_run\<^sup>*\<^sup>* [] t" and "r \<in> set t" and "o_conversation_id r = cid"
    and "outbound_unadmitted r"
    and "outbound_run\<^sup>*\<^sup>* (snd (cancel_unadmitted_for_conversation cid t)) t2"
  shows "(\<exists>r'. outbound_get_by_id (o_id r) t2 = Some r' \<and> o_delivery_status r' = Out_CANCELLED) \<and>
    mark_admitted_with_lease (o_id r) token v now t2 =
      Inl (StaleOutboundLeaseError ''OUTBOUND_STALE_LEASE'')"
proof -
  note d = outbound_reachable_distinct [OF assms(1)]
  let ?r = "outbound_close_row Out_CANCELLED r"
  note row = outbound_cancelled_stays [OF d assms(2-5)]
  note row2 = row(1) and d2 = row(2)
  have none: "\<not> outbound_held (o_id r) token v x" if "x \<in> set t2" for x
    using outbound_row_by_id [of "o_id r" t2 ?r x] row2 d2 that
    by (auto simp: outbound_held_def outbound_get_by_id_def outbound_close_row_def)
  show ?thesis
    using row2 none
    by (auto simp: outbound_get_by_id_def outbound_close_row_def mark_admitted_with_lease_def
        outbound_transition_allowed_def outbound_fenced_update_def sql_count_0)
qed


section \<open>A run of the outbox\<close>

definition outbox_demo0 :: "outbox_message list" where
  "outbox_demo0 = [outbound_new_row SYNTHETIC_OUTBOUND (synthetic_outbound_idempotency_key ''p1'')
     ''o1'' 0 ''c1'' ''p1'' 1 [] ''r1'' (At 0) 5 0 1]"

definition outbox_demo1 :: "outbox_message list" where
  "outbox_demo1 = sql_update (\<lambda>_. True) (outbound_lease_row ''w1'' ''k1'' 30000001) outbox_demo0"

definition outbox_demo2 :: "outbox_message list" where
  "outbox_demo2 = sql_update (\<lambda>_. True) (outbound_admit_row 7) outbox_demo1"

lemma outbox_demo_insert:
  "insert_synthetic_outbound_if_absent ''o1'' 0 ''c1'' ''p1'' 1 [] ''r1'' (At 0) 5 0 1 [] =
     Inr ((hd outbox_demo0, True), outbox_demo0)"
  by code_simp

lemma outbox_demo_claim:
  "outbound_claim_next ''w1'' 30 1 ''k1'' (\<lambda>_. False) outbox_demo0 =
     Inr (Some (projr (outbound_row_to_claim (hd outbox_demo1))), outbox_demo1)"
  by code_simp

lemma outbox_demo_admit:
  "mark_admitted_with_lease ''o1'' ''k1'' 1 7 outbox_demo1 = Inr (hd outbox_demo2, outbox_demo2)"
  by code_simp

lemma outbox_demo_reach: "outbound_run\<^sup>*\<^sup>* [] outbox_demo1" "outbound_run\<^sup>*\<^sup>* [] outbox_demo2"
proof -
  have "outbound_run\<^sup>*\<^sup>* [] outbox_demo0"
    using outbound_run.synthetic [OF outbox_demo_insert] by simp
  then show r1: "outbound_run\<^sup>*\<^sup>* [] outbox_demo1"
    using outbound_run.claim [OF outbox_demo_claim] by simp
  then show "outbound_run\<^sup>*\<^sup>* [] outbox_demo2"
    using outbound_run.admit [OF outbox_demo_admit] by simp
qed

theorem outbound_admission_irrevocable_witness:
  "\<exists>r. outbound_get_by_id ''o1'' (snd (cancel_unadmitted_for_conversation ''c1'' outbox_demo2)) = Some r \<and>
     o_admitted_at r = Some 7"
proof -
  have "outbound_run outbox_demo2 (snd (cancel_unadmitted_for_conversation ''c1'' outbox_demo2))"
    by (metis outbound_run.cancel prod.collapse)
  then show ?thesis
    using outbound_admission_irrevocable [OF outbox_demo_reach(1) outbox_demo_admit] by blast
qed

theorem outbound_delivery_needs_admission_witness: "ck_outbox (hd outbox_demo2)"
proof -
  have "hd outbox_demo2 \<in> set outbox_demo2"
    by code_simp
  then show ?thesis
    using outbound_delivery_needs_admission [OF outbox_demo_reach(2)] by blast
qed

theorem outbound_cancelled_never_admitted_witness:
  "mark_admitted_with_lease ''o1'' ''k1'' 1 9 (snd (cancel_unadmitted_for_conversation ''c1'' outbox_demo1)) =
     Inl (StaleOutboundLeaseError ''OUTBOUND_STALE_LEASE'')"
proof -
  have "hd outbox_demo1 \<in> set outbox_demo1" "o_conversation_id (hd outbox_demo1) = ''c1''"
    "outbound_unadmitted (hd outbox_demo1)" "o_id (hd outbox_demo1) = ''o1''"
    by code_simp+
  then show ?thesis
    using outbound_cancelled_never_admitted [OF outbox_demo_reach(1), of "hd outbox_demo1" "''c1''"
        "snd (cancel_unadmitted_for_conversation ''c1'' outbox_demo1)"] by simp
qed


end
