(* ===== verification/Mirror.thy ===== *)
theory Mirror
  imports Fenced_Queue
begin

text \<open>
  The amoCRM mirror queue: models/amocrm_mirror.py, repositories/amocrm_mirror.py and the enqueue
  functions of services/amocrm_mirror.py. A domain transaction enqueues one job per event key; a
  leased worker converges the CRM and completes, skips or fails the job. A payload is built from a
  whitelist of technical keys with flat values.
\<close>

section \<open>Data\<close>

definition MIRROR_KEY_MAX_LENGTH :: nat where
  "MIRROR_KEY_MAX_LENGTH = 160"

definition MIRROR_PAYLOAD_SCHEMA :: string where
  "MIRROR_PAYLOAD_SCHEMA = ''amocrm.mirror.job.v1''"

definition DEFAULT_MIRROR_MAX_ATTEMPTS :: int where
  "DEFAULT_MIRROR_MAX_ATTEMPTS = 5"

datatype AmoCrmMirrorJobType =
    CLIENT_MESSAGE_RECEIVED_META
  | REPLY_PLAN_STATE_CHANGED
  | MANAGER_TAKEOVER
  | OUTBOUND_DELIVERED_META

fun mirror_job_type_value :: "AmoCrmMirrorJobType \<Rightarrow> string" where
  "mirror_job_type_value CLIENT_MESSAGE_RECEIVED_META = ''CLIENT_MESSAGE_RECEIVED_META''"
| "mirror_job_type_value REPLY_PLAN_STATE_CHANGED = ''REPLY_PLAN_STATE_CHANGED''"
| "mirror_job_type_value MANAGER_TAKEOVER = ''MANAGER_TAKEOVER''"
| "mirror_job_type_value OUTBOUND_DELIVERED_META = ''OUTBOUND_DELIVERED_META''"

datatype AmoCrmMirrorSubjectKind =
    Subj_CONVERSATION | Subj_INBOX_MESSAGE | Subj_REPLY_PLAN | Subj_OUTBOX_MESSAGE

fun mirror_subject_kind_value :: "AmoCrmMirrorSubjectKind \<Rightarrow> string" where
  "mirror_subject_kind_value Subj_CONVERSATION = ''CONVERSATION''"
| "mirror_subject_kind_value Subj_INBOX_MESSAGE = ''INBOX_MESSAGE''"
| "mirror_subject_kind_value Subj_REPLY_PLAN = ''REPLY_PLAN''"
| "mirror_subject_kind_value Subj_OUTBOX_MESSAGE = ''OUTBOX_MESSAGE''"

datatype AmoCrmMirrorStatus =
    Mir_PENDING | Mir_PROCESSING | Mir_MIRRORED | Mir_SKIPPED | Mir_FAILED | Mir_DEAD

datatype AmoCrmMirrorSkipReason =
    Skip_MANAGER_TAKEOVER | Skip_STALE_CONTEXT | Skip_SUBJECT_STATE_CHANGED

fun AMOCRM_MIRROR_TRANSITIONS :: "AmoCrmMirrorStatus \<Rightarrow> AmoCrmMirrorStatus list" where
  "AMOCRM_MIRROR_TRANSITIONS Mir_PENDING = [Mir_PROCESSING]"
| "AMOCRM_MIRROR_TRANSITIONS Mir_PROCESSING = [Mir_MIRRORED, Mir_SKIPPED, Mir_FAILED, Mir_DEAD]"
| "AMOCRM_MIRROR_TRANSITIONS Mir_FAILED = [Mir_PROCESSING, Mir_DEAD]"
| "AMOCRM_MIRROR_TRANSITIONS Mir_MIRRORED = []"
| "AMOCRM_MIRROR_TRANSITIONS Mir_SKIPPED = []"
| "AMOCRM_MIRROR_TRANSITIONS Mir_DEAD = []"

definition amocrm_mirror_transition_allowed ::
  "AmoCrmMirrorStatus \<Rightarrow> AmoCrmMirrorStatus \<Rightarrow> bool" where
  "amocrm_mirror_transition_allowed current target =
     (target \<in> set (AMOCRM_MIRROR_TRANSITIONS current))"

record mirror_job =
  j_id :: uuid
  j_job_type :: AmoCrmMirrorJobType
  j_subject_kind :: AmoCrmMirrorSubjectKind
  j_subject_id :: uuid
  j_conversation_id :: uuid
  j_context_version :: "int option"
  j_mirror_key :: string
  j_status :: AmoCrmMirrorStatus
  j_payload_json :: payload
  j_attempt_count :: int
  j_max_attempts :: int
  j_next_attempt_at :: "moment option"
  j_lease_owner :: "string option"
  j_lease_token :: "uuid option"
  j_lease_version :: int
  j_lease_until :: "moment option"
  j_correlation_id :: uuid
  j_error_code :: "string option"
  j_skip_reason :: "AmoCrmMirrorSkipReason option"
  j_created_at :: moment

record mirror_claim =
  jc_job_id :: uuid
  jc_job_type :: AmoCrmMirrorJobType
  jc_subject_kind :: AmoCrmMirrorSubjectKind
  jc_subject_id :: uuid
  jc_conversation_id :: uuid
  jc_context_version :: "int option"
  jc_mirror_key :: string
  jc_status :: AmoCrmMirrorStatus
  jc_attempt_count :: int
  jc_max_attempts :: int
  jc_lease_owner :: string
  jc_lease_token :: uuid
  jc_lease_version :: int
  jc_lease_until :: moment
  jc_correlation_id :: uuid
  jc_payload_json :: payload

section \<open>Payloads and keys\<close>

definition ALLOWED_MIRROR_PAYLOAD_KEYS :: "string list" where
  "ALLOWED_MIRROR_PAYLOAD_KEYS =
     [''schema'', ''job_type'', ''subject_kind'', ''subject_id'', ''conversation_id'',
      ''context_version'', ''subject_status'']"

definition FORBIDDEN_MIRROR_PAYLOAD_KEYS :: "string list" where
  "FORBIDDEN_MIRROR_PAYLOAD_KEYS =
     [''text'', ''draft_text'', ''phone'', ''email'', ''client_name'', ''external_conversation_id'',
      ''external_message_id'', ''external_event_id'', ''envelope_json'', ''payload_json'']"

fun json_flat_scalar :: "json \<Rightarrow> bool" where
  "json_flat_scalar (JStr _) = True"
| "json_flat_scalar (JInt _) = True"
| "json_flat_scalar _ = False"

definition assert_mirror_payload_is_safe :: "payload \<Rightarrow> exn + unit" where
  "assert_mirror_payload_is_safe payload =
     (let keys = map fst payload
      in if list_ex (\<lambda>k. k \<in> set FORBIDDEN_MIRROR_PAYLOAD_KEYS) keys
         then Inl (MirrorPayloadViolation ''MIRROR_PAYLOAD_FORBIDDEN_KEY'')
         else if \<not> list_all (\<lambda>k. k \<in> set ALLOWED_MIRROR_PAYLOAD_KEYS) keys
         then Inl (MirrorPayloadViolation ''MIRROR_PAYLOAD_KEY_NOT_ALLOWED'')
         else if dict_get payload ''schema'' \<noteq> JStr MIRROR_PAYLOAD_SCHEMA
         then Inl (MirrorPayloadViolation ''MIRROR_PAYLOAD_SCHEMA_MISMATCH'')
         else if \<not> list_all json_flat_scalar (map snd payload)
         then Inl (MirrorPayloadViolation ''MIRROR_PAYLOAD_VALUE_NOT_ALLOWED'')
         else Inr ())"

definition safe_mirror_payload ::
  "AmoCrmMirrorJobType \<Rightarrow> AmoCrmMirrorSubjectKind \<Rightarrow> uuid \<Rightarrow> uuid \<Rightarrow> int option \<Rightarrow> string option
     \<Rightarrow> exn + payload" where
  "safe_mirror_payload job_type subject_kind subject_id cid context_version subject_status =
     (let base =
            [(''schema'', JStr MIRROR_PAYLOAD_SCHEMA),
             (''job_type'', JStr (mirror_job_type_value job_type)),
             (''subject_kind'', JStr (mirror_subject_kind_value subject_kind)),
             (''subject_id'', JStr subject_id),
             (''conversation_id'', JStr cid)];
          p1 = (case context_version of None \<Rightarrow> base | Some n \<Rightarrow> dict_set base ''context_version'' (JInt n));
          p2 = (case subject_status of None \<Rightarrow> p1 | Some s \<Rightarrow> dict_set p1 ''subject_status'' (JStr s))
      in case assert_mirror_payload_is_safe p2 of Inl e \<Rightarrow> Inl e | Inr _ \<Rightarrow> Inr p2)"

definition client_message_mirror_key :: "uuid \<Rightarrow> string" where
  "client_message_mirror_key inbox_id = ''client-message-meta:'' @ inbox_id"

definition reply_plan_state_mirror_key :: "uuid \<Rightarrow> string \<Rightarrow> string" where
  "reply_plan_state_mirror_key plan_id status = ''reply-plan-state:'' @ plan_id @ '':'' @ status"

definition manager_takeover_mirror_key :: "uuid \<Rightarrow> string" where
  "manager_takeover_mirror_key cid = ''manager-takeover:'' @ cid"

definition outbound_delivered_mirror_key :: "uuid \<Rightarrow> string" where
  "outbound_delivered_mirror_key outbound_id = ''outbound-delivered:'' @ outbound_id"

section \<open>Operations\<close>

definition mirror_row_to_claim :: "mirror_job \<Rightarrow> exn + mirror_claim" where
  "mirror_row_to_claim row =
     (case (j_lease_token row, j_lease_owner row, j_lease_until row) of
        (Some token, Some owner, Some until) \<Rightarrow>
          Inr \<lparr> jc_job_id = j_id row, jc_job_type = j_job_type row,
                jc_subject_kind = j_subject_kind row, jc_subject_id = j_subject_id row,
                jc_conversation_id = j_conversation_id row,
                jc_context_version = j_context_version row, jc_mirror_key = j_mirror_key row,
                jc_status = j_status row, jc_attempt_count = j_attempt_count row,
                jc_max_attempts = j_max_attempts row, jc_lease_owner = owner,
                jc_lease_token = token, jc_lease_version = j_lease_version row,
                jc_lease_until = until, jc_correlation_id = j_correlation_id row,
                jc_payload_json = j_payload_json row \<rparr>
      | _ \<Rightarrow> Inl (RuntimeError ''AMOCRM_MIRROR_LEASE_INCOMPLETE''))"

definition mirror_get_by_id :: "uuid \<Rightarrow> mirror_job list \<Rightarrow> mirror_job option" where
  "mirror_get_by_id job_id t = sql_one (\<lambda>r. j_id r = job_id) t"

definition mirror_held :: "uuid \<Rightarrow> uuid \<Rightarrow> int \<Rightarrow> mirror_job \<Rightarrow> bool" where
  "mirror_held job_id token version r =
     (j_id r = job_id \<and> j_status r = Mir_PROCESSING \<and> j_lease_token r = Some token \<and>
      j_lease_version r = version)"

definition require_processing_lease ::
  "uuid \<Rightarrow> uuid \<Rightarrow> int \<Rightarrow> string \<Rightarrow> mirror_job list \<Rightarrow> exn + mirror_job" where
  "require_processing_lease job_id token version owner t =
     (case sql_one (\<lambda>r. j_id r = job_id) t of
        None \<Rightarrow> Inl (StaleAmoCrmMirrorLeaseError ''AMOCRM_MIRROR_STALE_LEASE'')
      | Some job \<Rightarrow>
          if \<not> mirror_held job_id token version job \<or> j_lease_owner job \<noteq> Some owner
          then Inl (StaleAmoCrmMirrorLeaseError ''AMOCRM_MIRROR_STALE_LEASE'')
          else Inr job)"

definition mirror_get_by_mirror_key :: "string \<Rightarrow> mirror_job list \<Rightarrow> mirror_job option" where
  "mirror_get_by_mirror_key key t = sql_one (\<lambda>r. j_mirror_key r = key) t"

definition mirror_new_row ::
  "uuid \<Rightarrow> moment \<Rightarrow> AmoCrmMirrorJobType \<Rightarrow> AmoCrmMirrorSubjectKind \<Rightarrow> uuid \<Rightarrow> uuid \<Rightarrow> string \<Rightarrow> payload
     \<Rightarrow> uuid \<Rightarrow> int option \<Rightarrow> int \<Rightarrow> mirror_job" where
  "mirror_new_row new_id now job_type subject_kind subject_id cid key payload corr context_version
     max_attempts =
     \<lparr> j_id = new_id, j_job_type = job_type, j_subject_kind = subject_kind,
       j_subject_id = subject_id, j_conversation_id = cid, j_context_version = context_version,
       j_mirror_key = key, j_status = Mir_PENDING, j_payload_json = payload, j_attempt_count = 0,
       j_max_attempts = max_attempts, j_next_attempt_at = None, j_lease_owner = None,
       j_lease_token = None, j_lease_version = 0, j_lease_until = None, j_correlation_id = corr,
       j_error_code = None, j_skip_reason = None, j_created_at = now \<rparr>"

definition mirror_enqueue_if_absent ::
  "uuid \<Rightarrow> moment \<Rightarrow> AmoCrmMirrorJobType \<Rightarrow> AmoCrmMirrorSubjectKind \<Rightarrow> uuid \<Rightarrow> uuid \<Rightarrow> string \<Rightarrow> payload
     \<Rightarrow> uuid \<Rightarrow> int option \<Rightarrow> int \<Rightarrow> mirror_job list \<Rightarrow> exn + ((mirror_job \<times> bool) \<times> mirror_job list)"
where
  "mirror_enqueue_if_absent new_id now job_type subject_kind subject_id cid key payload corr
     context_version max_attempts t =
     (if key = [] \<or> length key > MIRROR_KEY_MAX_LENGTH
      then Inl (ValueError ''mirror_key must be non-empty and within column length'')
      else if max_attempts \<le> 0 then Inl (ValueError ''max_attempts must be positive'')
      else case assert_mirror_payload_is_safe payload of
        Inl e \<Rightarrow> Inl e
      | Inr _ \<Rightarrow>
          (case mirror_get_by_mirror_key key t of
             Some existing \<Rightarrow> Inr ((existing, False), t)
           | None \<Rightarrow>
               if mirror_get_by_id new_id t \<noteq> None then Inl (IntegrityError ''amocrm_mirror_jobs_pkey'')
               else if (case context_version of None \<Rightarrow> False | Some n \<Rightarrow> n < 0)
               then Inl (IntegrityError ''ck_amocrm_mirror_context_version_nonnegative'')
               else
                 let t' = t @ [mirror_new_row new_id now job_type subject_kind subject_id cid key
                                 payload corr context_version max_attempts]
                 in case mirror_get_by_mirror_key key t' of
                      None \<Rightarrow> Inl (RuntimeError ''AMOCRM_MIRROR_LOOKUP_FAILED'')
                    | Some job \<Rightarrow> Inr ((job, True), t')))"

definition mirror_lease_expired :: "moment \<Rightarrow> mirror_job \<Rightarrow> bool" where
  "mirror_lease_expired now r = (case j_lease_until r of None \<Rightarrow> False | Some u \<Rightarrow> u < now)"

definition mirror_exhausted :: "moment \<Rightarrow> mirror_job \<Rightarrow> bool" where
  "mirror_exhausted now r =
     (j_status r = Mir_PROCESSING \<and> mirror_lease_expired now r \<and> j_attempt_count r \<ge> j_max_attempts r)"

definition mirror_close_row ::
  "AmoCrmMirrorStatus \<Rightarrow> moment option \<Rightarrow> AmoCrmMirrorSkipReason option \<Rightarrow> string option \<Rightarrow> mirror_job
     \<Rightarrow> mirror_job" where
  "mirror_close_row target next_at skip code r =
     r \<lparr> j_status := target, j_lease_owner := None, j_lease_token := None, j_lease_until := None,
         j_next_attempt_at := next_at, j_skip_reason := skip, j_error_code := code \<rparr>"

definition mirror_recover_exhausted_leases ::
  "moment \<Rightarrow> mirror_job list \<Rightarrow> nat \<times> mirror_job list" where
  "mirror_recover_exhausted_leases now t =
     (sql_count (mirror_exhausted now) t,
      sql_update (mirror_exhausted now)
        (mirror_close_row Mir_DEAD None None (Some ''LEASE_ATTEMPTS_EXHAUSTED'')) t)"

definition mirror_claimable :: "moment \<Rightarrow> mirror_job \<Rightarrow> bool" where
  "mirror_claimable now r =
     (j_attempt_count r < j_max_attempts r \<and>
      (j_status r = Mir_PENDING \<or>
       j_status r = Mir_FAILED \<and>
         (case j_next_attempt_at r of None \<Rightarrow> False | Some n \<Rightarrow> n \<le> now) \<or>
       j_status r = Mir_PROCESSING \<and> mirror_lease_expired now r))"

definition mirror_lease_row :: "string \<Rightarrow> uuid \<Rightarrow> moment \<Rightarrow> mirror_job \<Rightarrow> mirror_job" where
  "mirror_lease_row worker token until r =
     r \<lparr> j_status := Mir_PROCESSING, j_lease_owner := Some worker, j_lease_token := Some token,
         j_lease_version := j_lease_version r + 1, j_lease_until := Some until,
         j_attempt_count := j_attempt_count r + 1, j_next_attempt_at := None,
         j_error_code := None \<rparr>"

definition mirror_claim_next ::
  "string \<Rightarrow> int \<Rightarrow> moment \<Rightarrow> uuid \<Rightarrow> (uuid \<Rightarrow> bool) \<Rightarrow> mirror_job list
     \<Rightarrow> exn + (mirror_claim option \<times> mirror_job list)" where
  "mirror_claim_next worker lease_seconds now token locked t =
     (if lease_seconds \<le> 0 then Inl (ValueError ''lease_seconds must be positive'')
      else
        let t1 = snd (mirror_recover_exhausted_leases now t);
            until = now + seconds lease_seconds
        in case sql_first_by j_created_at
                  (\<lambda>r. mirror_claimable now r \<and> \<not> locked (j_id r)) t1 of
             None \<Rightarrow> Inr (None, t1)
           | Some cand \<Rightarrow>
               let t2 = sql_update (\<lambda>r. j_id r = j_id cand) (mirror_lease_row worker token until) t1
               in case mirror_get_by_id (j_id cand) t2 of
                    None \<Rightarrow> Inl (RuntimeError ''AMOCRM_MIRROR_CLAIM_LOOKUP_FAILED'')
                  | Some job \<Rightarrow>
                      (case mirror_row_to_claim job of
                         Inl e \<Rightarrow> Inl e
                       | Inr claim \<Rightarrow> Inr (Some claim, t2)))"

definition mirror_terminate_with_lease ::
  "uuid \<Rightarrow> uuid \<Rightarrow> int \<Rightarrow> AmoCrmMirrorStatus \<Rightarrow> AmoCrmMirrorSkipReason option \<Rightarrow> string option
     \<Rightarrow> mirror_job list \<Rightarrow> exn + (mirror_job \<times> mirror_job list)" where
  "mirror_terminate_with_lease job_id token version target skip_reason error_code t =
     (if \<not> amocrm_mirror_transition_allowed Mir_PROCESSING target
      then Inl (AmoCrmMirrorStateError ''AMOCRM_MIRROR_TRANSITION_DENIED'')
      else if sql_count (mirror_held job_id token version) t = 0
      then Inl (StaleAmoCrmMirrorLeaseError ''AMOCRM_MIRROR_STALE_LEASE'')
      else
        let t' = sql_update (mirror_held job_id token version)
                   (mirror_close_row target None skip_reason error_code) t
        in case mirror_get_by_id job_id t' of
             None \<Rightarrow> Inl (RuntimeError ''AMOCRM_MIRROR_LOOKUP_FAILED'')
           | Some job \<Rightarrow> Inr (job, t'))"

definition mirror_complete_with_lease ::
  "uuid \<Rightarrow> uuid \<Rightarrow> int \<Rightarrow> mirror_job list \<Rightarrow> exn + (mirror_job \<times> mirror_job list)" where
  "mirror_complete_with_lease job_id token version t =
     mirror_terminate_with_lease job_id token version Mir_MIRRORED None None t"

definition mirror_skip_with_lease ::
  "uuid \<Rightarrow> uuid \<Rightarrow> int \<Rightarrow> AmoCrmMirrorSkipReason \<Rightarrow> mirror_job list
     \<Rightarrow> exn + (mirror_job \<times> mirror_job list)" where
  "mirror_skip_with_lease job_id token version skip_reason t =
     mirror_terminate_with_lease job_id token version Mir_SKIPPED (Some skip_reason) None t"

definition mirror_fail_row ::
  "AmoCrmMirrorStatus \<Rightarrow> moment option \<Rightarrow> string \<Rightarrow> mirror_job \<Rightarrow> mirror_job" where
  "mirror_fail_row target next_at error_code r =
     r \<lparr> j_status := target, j_lease_owner := None, j_lease_token := None, j_lease_until := None,
         j_next_attempt_at := next_at, j_error_code := Some (take 64 error_code) \<rparr>"

definition mirror_fail_with_lease ::
  "uuid \<Rightarrow> uuid \<Rightarrow> int \<Rightarrow> string \<Rightarrow> int \<Rightarrow> moment \<Rightarrow> mirror_job list
     \<Rightarrow> exn + (mirror_job \<times> mirror_job list)" where
  "mirror_fail_with_lease job_id token version error_code retry_delay_seconds now t =
     (case mirror_get_by_id job_id t of
        None \<Rightarrow> Inl (RuntimeError ''AMOCRM_MIRROR_LOOKUP_FAILED'')
      | Some job \<Rightarrow>
          if \<not> mirror_held job_id token version job
          then Inl (StaleAmoCrmMirrorLeaseError ''AMOCRM_MIRROR_STALE_LEASE'')
          else
            let dead = j_attempt_count job \<ge> j_max_attempts job;
                target = (if dead then Mir_DEAD else Mir_FAILED);
                next_at = (if dead then None else Some (now + seconds retry_delay_seconds))
            in if \<not> amocrm_mirror_transition_allowed Mir_PROCESSING target
               then Inl (AmoCrmMirrorStateError ''AMOCRM_MIRROR_TRANSITION_DENIED'')
               else if sql_count (mirror_held job_id token version) t = 0
               then Inl (StaleAmoCrmMirrorLeaseError ''AMOCRM_MIRROR_STALE_LEASE'')
               else
                 let t' = sql_update (mirror_held job_id token version)
                            (mirror_fail_row target next_at error_code) t
                 in case mirror_get_by_id job_id t' of
                      None \<Rightarrow> Inl (RuntimeError ''AMOCRM_MIRROR_LOOKUP_FAILED'')
                    | Some refreshed \<Rightarrow> Inr (refreshed, t'))"

section \<open>Enqueueing domain events\<close>

definition mirror_enqueue_event ::
  "uuid \<Rightarrow> moment \<Rightarrow> AmoCrmMirrorJobType \<Rightarrow> AmoCrmMirrorSubjectKind \<Rightarrow> uuid \<Rightarrow> uuid \<Rightarrow> int option
     \<Rightarrow> string option \<Rightarrow> string \<Rightarrow> uuid \<Rightarrow> mirror_job list
     \<Rightarrow> exn + ((mirror_job \<times> bool) \<times> mirror_job list)" where
  "mirror_enqueue_event new_id now job_type subject_kind subject_id cid context_version
     subject_status key corr t =
     (case safe_mirror_payload job_type subject_kind subject_id cid context_version subject_status of
        Inl e \<Rightarrow> Inl e
      | Inr payload \<Rightarrow>
          mirror_enqueue_if_absent new_id now job_type subject_kind subject_id cid key payload corr
            context_version DEFAULT_MIRROR_MAX_ATTEMPTS t)"

definition enqueue_client_message_received ::
  "uuid \<Rightarrow> moment \<Rightarrow> uuid \<Rightarrow> uuid \<Rightarrow> int \<Rightarrow> uuid \<Rightarrow> mirror_job list
     \<Rightarrow> exn + ((mirror_job \<times> bool) \<times> mirror_job list)" where
  "enqueue_client_message_received new_id now cid inbox_id context_version corr t =
     mirror_enqueue_event new_id now CLIENT_MESSAGE_RECEIVED_META Subj_INBOX_MESSAGE inbox_id cid
       (Some context_version) None (client_message_mirror_key inbox_id) corr t"

definition enqueue_manager_takeover ::
  "uuid \<Rightarrow> moment \<Rightarrow> uuid \<Rightarrow> uuid \<Rightarrow> mirror_job list
     \<Rightarrow> exn + ((mirror_job \<times> bool) \<times> mirror_job list)" where
  "enqueue_manager_takeover new_id now cid corr t =
     mirror_enqueue_event new_id now MANAGER_TAKEOVER Subj_CONVERSATION cid cid None None
       (manager_takeover_mirror_key cid) corr t"

definition enqueue_reply_plan_state_changed ::
  "uuid \<Rightarrow> moment \<Rightarrow> uuid \<Rightarrow> uuid \<Rightarrow> string \<Rightarrow> int \<Rightarrow> uuid \<Rightarrow> mirror_job list
     \<Rightarrow> exn + ((mirror_job \<times> bool) \<times> mirror_job list)" where
  "enqueue_reply_plan_state_changed new_id now cid plan_id plan_status context_version corr t =
     mirror_enqueue_event new_id now REPLY_PLAN_STATE_CHANGED Subj_REPLY_PLAN plan_id cid
       (Some context_version) (Some plan_status) (reply_plan_state_mirror_key plan_id plan_status)
       corr t"

definition enqueue_outbound_delivered ::
  "uuid \<Rightarrow> moment \<Rightarrow> uuid \<Rightarrow> uuid \<Rightarrow> int option \<Rightarrow> uuid \<Rightarrow> mirror_job list
     \<Rightarrow> exn + ((mirror_job \<times> bool) \<times> mirror_job list)" where
  "enqueue_outbound_delivered new_id now cid outbound_id context_version corr t =
     mirror_enqueue_event new_id now OUTBOUND_DELIVERED_META Subj_OUTBOX_MESSAGE outbound_id cid
       context_version (Some ''DELIVERED'') (outbound_delivered_mirror_key outbound_id) corr t"

section \<open>Row steps and repository calls\<close>

definition mirror_payload_safe :: "payload \<Rightarrow> bool" where
  "mirror_payload_safe p =
     (dict_keys p \<subseteq> set ALLOWED_MIRROR_PAYLOAD_KEYS \<and>
      dict_keys p \<inter> set FORBIDDEN_MIRROR_PAYLOAD_KEYS = {} \<and>
      (\<forall>kv \<in> set p. json_flat_scalar (snd kv)))"

definition mirror_new :: "mirror_job \<Rightarrow> bool" where
  "mirror_new r =
     (j_status r = Mir_PENDING \<and> j_attempt_count r = 0 \<and> j_lease_version r = 0 \<and>
      0 < j_max_attempts r \<and> j_next_attempt_at r = None \<and> j_lease_owner r = None \<and>
      j_lease_token r = None \<and> j_lease_until r = None \<and> j_skip_reason r = None \<and>
      mirror_payload_safe (j_payload_json r))"

definition mirror_finished :: "mirror_job \<Rightarrow> bool" where
  "mirror_finished r = (j_status r \<in> {Mir_MIRRORED, Mir_SKIPPED, Mir_DEAD})"

inductive mirror_step :: "mirror_job \<Rightarrow> mirror_job \<Rightarrow> bool" where
  claim: "mirror_claimable now r \<Longrightarrow> mirror_step r (mirror_lease_row w token until r)"
| finish: "j_status r = Mir_PROCESSING \<Longrightarrow> target \<in> {Mir_MIRRORED, Mir_SKIPPED} \<Longrightarrow>
    mirror_step r (mirror_close_row target None skip None r)"
| retry: "j_status r = Mir_PROCESSING \<Longrightarrow> j_attempt_count r < j_max_attempts r \<Longrightarrow>
    mirror_step r (mirror_fail_row Mir_FAILED (Some n) code r)"
| dead: "j_status r = Mir_PROCESSING \<Longrightarrow> j_attempt_count r \<ge> j_max_attempts r \<Longrightarrow>
    mirror_step r (mirror_fail_row Mir_DEAD None code r)"
| exhausted: "j_status r = Mir_PROCESSING \<Longrightarrow> j_attempt_count r \<ge> j_max_attempts r \<Longrightarrow>
    mirror_step r (mirror_close_row Mir_DEAD None None code r)"

inductive mirror_run :: "mirror_job list \<Rightarrow> mirror_job list \<Rightarrow> bool" where
  enqueue: "mirror_enqueue_if_absent i now ty k sid cid key pl corr cv mx t = Inr (res, t') \<Longrightarrow>
    mirror_run t t'"
| recover: "mirror_recover_exhausted_leases now t = (n, t') \<Longrightarrow> mirror_run t t'"
| claim: "mirror_claim_next w secs now token locked t = Inr (c, t') \<Longrightarrow> mirror_run t t'"
| complete: "mirror_complete_with_lease i token v t = Inr (job, t') \<Longrightarrow> mirror_run t t'"
| skip: "mirror_skip_with_lease i token v reason t = Inr (job, t') \<Longrightarrow> mirror_run t t'"
| fail: "mirror_fail_with_lease i token v code delay now t = Inr (job, t') \<Longrightarrow> mirror_run t t'"

lemmas mirror_row_defs = mirror_lease_row_def mirror_close_row_def mirror_fail_row_def

definition mirror_keys :: "mirror_job \<Rightarrow> uuid \<times> string \<times> uuid \<times> AmoCrmMirrorJobType \<times> payload" where
  "mirror_keys r = (j_id r, j_mirror_key r, j_conversation_id r, j_job_type r, j_payload_json r)"

lemma mirror_keys_rows [simp]:
  "mirror_keys (mirror_lease_row w token u r) = mirror_keys r"
  "mirror_keys (mirror_close_row target n sk c r) = mirror_keys r"
  "mirror_keys (mirror_fail_row target n c2 r) = mirror_keys r"
  "j_id (mirror_lease_row w token u r) = j_id r"
  "j_id (mirror_close_row target n sk c r) = j_id r"
  "j_id (mirror_fail_row target n c2 r) = j_id r"
  by (simp_all add: mirror_keys_def mirror_row_defs)

lemma mirror_step_keys: "mirror_step r r' \<Longrightarrow> mirror_keys r' = mirror_keys r"
  by (cases rule: mirror_step.cases) auto

lemma mirror_step_fenced:
  assumes "mirror_step r r'"
  shows "j_lease_version r \<le> j_lease_version r'"
    and "j_lease_version r' = j_lease_version r \<Longrightarrow> j_lease_token r' = None"
    and "\<not> mirror_finished r"
    and "j_attempt_count r' - j_attempt_count r = j_lease_version r' - j_lease_version r"
    and "j_max_attempts r' = j_max_attempts r"
    and "j_attempt_count r \<le> j_max_attempts r \<Longrightarrow> j_attempt_count r' \<le> j_max_attempts r"
  using assms
  by (auto elim!: mirror_step.cases simp: mirror_row_defs mirror_finished_def mirror_claimable_def)

section \<open>Operations, by what they did\<close>

lemma assert_mirror_payload_safe:
  assumes "assert_mirror_payload_is_safe p = Inr u"
  shows "mirror_payload_safe p"
  using assms
  by (auto simp: assert_mirror_payload_is_safe_def Let_def mirror_payload_safe_def dict_keys_def
      list_all_iff list_ex_iff image_iff split: if_splits)

lemma mirror_enqueue_cases:
  assumes "mirror_enqueue_if_absent i now ty k sid cid key pl corr cv mx t = Inr ((job, created), t')"
  obtains (old) "\<not> created" and "t' = t" and "mirror_get_by_mirror_key key t = Some job"
    | (new) "created" and "t' = t @ [job]"
      and "job = mirror_new_row i now ty k sid cid key pl corr cv mx"
      and "mirror_get_by_mirror_key key t = None" and "mirror_get_by_id i t = None"
      and "mirror_new job"
proof (cases "mirror_get_by_mirror_key key t")
  case (Some existing)
  with assms old show ?thesis
    by (auto simp: mirror_enqueue_if_absent_def split: if_splits sum.splits)
next
  case None
  let ?r = "mirror_new_row i now ty k sid cid key pl corr cv mx"
  have get: "mirror_get_by_mirror_key key (t @ [?r]) = Some ?r"
    using None by (simp add: mirror_get_by_mirror_key_def sql_one_append mirror_new_row_def)
  obtain u where safe: "assert_mirror_payload_is_safe pl = Inr u"
    using assms by (auto simp: mirror_enqueue_if_absent_def split: if_splits sum.splits)
  from assms None get safe
  have res: "created" "job = ?r" "t' = t @ [?r]" "mirror_get_by_id i t = None" "0 < mx"
    by (auto simp: mirror_enqueue_if_absent_def split: if_splits)
  then have "mirror_new job"
    using assert_mirror_payload_safe [OF safe] by (simp add: mirror_new_def mirror_new_row_def)
  with res None show ?thesis by (intro new) simp_all
qed

lemma mirror_matching_row:
  assumes "distinct (map j_id t)" and "sql_count (mirror_held i token v) t \<noteq> 0"
  obtains r where "r \<in> set t" and "mirror_held i token v r" and "mirror_get_by_id i t = Some r"
    and "\<And>f. (\<And>x. j_id (f x) = j_id x) \<Longrightarrow> sql_update (mirror_held i token v) f t = sql_put j_id (f r) t"
    and "\<And>f. (\<And>x. j_id (f x) = j_id x) \<Longrightarrow> mirror_get_by_id i (sql_put j_id (f r) t) = Some (f r)"
proof -
  obtain r where r: "r \<in> set t" "mirror_held i token v r" "j_id r = i"
    using assms(2) by (auto simp: sql_count_0 mirror_held_def)
  have "sql_update (mirror_held i token v) f t = sql_put j_id (f r) t" if "\<And>x. j_id (f x) = j_id x" for f
    using assms(1) r that by (intro sql_update_current) (auto simp: mirror_held_def)
  moreover have "mirror_get_by_id i (sql_put j_id (f r) t) = Some (f r)" if "\<And>x. j_id (f x) = j_id x" for f
    using sql_one_put [OF r(1), of j_id "f r"] that r(3) by (simp add: mirror_get_by_id_def)
  moreover have "mirror_get_by_id i t = Some r"
    using sql_one_the_row [OF assms(1) r(1)] r(3) by (simp add: mirror_get_by_id_def)
  ultimately show ?thesis using that r by blast
qed

lemma mirror_terminate_Inr:
  assumes "mirror_terminate_with_lease i token v target skip code t = Inr (job, t')"
    and "distinct (map j_id t)"
  obtains r where "r \<in> set t" and "mirror_held i token v r"
    and "job = mirror_close_row target None skip code r" and "t' = sql_put j_id job t"
proof -
  have "sql_count (mirror_held i token v) t \<noteq> 0"
    using assms(1) by (simp add: mirror_terminate_with_lease_def split: if_splits)
  then obtain r where r: "r \<in> set t" "mirror_held i token v r"
    and upd: "\<And>f. (\<And>x. j_id (f x) = j_id x) \<Longrightarrow> sql_update (mirror_held i token v) f t = sql_put j_id (f r) t"
    and get: "\<And>f. (\<And>x. j_id (f x) = j_id x) \<Longrightarrow> mirror_get_by_id i (sql_put j_id (f r) t) = Some (f r)"
    by (rule mirror_matching_row [OF assms(2)]) auto
  with assms(1) show ?thesis
    by (intro that [of r])
      (auto simp: mirror_terminate_with_lease_def Let_def upd get split: if_splits)
qed

lemma mirror_fail_Inr:
  assumes "mirror_fail_with_lease i token v code delay now t = Inr (job, t')"
    and "distinct (map j_id t)"
  obtains r where "r \<in> set t" and "mirror_held i token v r"
    and "job = (if j_attempt_count r < j_max_attempts r
                then mirror_fail_row Mir_FAILED (Some (now + seconds delay)) code r
                else mirror_fail_row Mir_DEAD None code r)"
    and "t' = sql_put j_id job t"
proof -
  have "sql_count (mirror_held i token v) t \<noteq> 0"
    using assms(1) by (auto simp: mirror_fail_with_lease_def Let_def split: if_splits option.splits)
  then obtain r where r: "r \<in> set t" "mirror_held i token v r" "mirror_get_by_id i t = Some r"
    and upd: "\<And>f. (\<And>x. j_id (f x) = j_id x) \<Longrightarrow> sql_update (mirror_held i token v) f t = sql_put j_id (f r) t"
    and get: "\<And>f. (\<And>x. j_id (f x) = j_id x) \<Longrightarrow> mirror_get_by_id i (sql_put j_id (f r) t) = Some (f r)"
    by (rule mirror_matching_row [OF assms(2)]) auto
  with assms(1) show ?thesis
    by (intro that [of r]) (auto simp: mirror_fail_with_lease_def Let_def upd get split: if_splits)
qed

definition mirror_claim_select ::
  "moment \<Rightarrow> (uuid \<Rightarrow> bool) \<Rightarrow> mirror_job list \<Rightarrow> mirror_job option" where
  "mirror_claim_select now locked t =
     sql_first_by j_created_at (\<lambda>r. mirror_claimable now r \<and> \<not> locked (j_id r))
       (snd (mirror_recover_exhausted_leases now t))"

lemma mirror_recover_map [simp]:
  "map mirror_keys (snd (mirror_recover_exhausted_leases now t)) = map mirror_keys t"
  "map j_id (snd (mirror_recover_exhausted_leases now t)) = map j_id t"
  by (simp_all add: mirror_recover_exhausted_leases_def map_sql_update)

lemma mirror_claim_eq:
  fixes now :: moment and t :: "mirror_job list"
  assumes "distinct (map j_id t)" and "0 < secs"
  defines "t1 \<equiv> snd (mirror_recover_exhausted_leases now t)"
  shows "mirror_claim_next w secs now token locked t =
    (case mirror_claim_select now locked t of
       None \<Rightarrow> Inr (None, t1)
     | Some cand \<Rightarrow>
         Inr (Some (projr (mirror_row_to_claim (mirror_lease_row w token (now + seconds secs) cand))),
              sql_put j_id (mirror_lease_row w token (now + seconds secs) cand) t1))"
proof (cases "mirror_claim_select now locked t")
  case None
  with assms show ?thesis
    by (simp add: mirror_claim_next_def mirror_claim_select_def t1_def Let_def)
next
  case (Some cand)
  have d1: "distinct (map j_id t1)"
    using assms(1) by (simp add: t1_def)
  have in1: "cand \<in> set t1"
    using sql_first_by_Some [OF Some [unfolded mirror_claim_select_def]] by (simp add: t1_def)
  let ?r = "mirror_lease_row w token (now + seconds secs) cand"
  have "sql_update (\<lambda>r. j_id r = j_id cand) (mirror_lease_row w token (now + seconds secs)) t1 =
      sql_put j_id ?r t1"
    using d1 in1 by (intro sql_update_current) auto
  moreover have "mirror_get_by_id (j_id cand) (sql_put j_id ?r t1) = Some ?r"
    unfolding mirror_get_by_id_def using in1 by (intro sql_one_put) auto
  moreover obtain claim where "mirror_row_to_claim ?r = Inr claim"
    by (simp add: mirror_row_to_claim_def mirror_lease_row_def)
  ultimately show ?thesis
    using Some assms(2)
    by (simp add: mirror_claim_next_def mirror_claim_select_def t1_def Let_def)
qed

lemma mirror_put_step:
  assumes "distinct (map j_id t)" and "r \<in> set t" and "mirror_step r r'"
  shows "evolves N mirror_step t (sql_put j_id r' t)"
    and "map mirror_keys (sql_put j_id r' t) = map mirror_keys t"
proof -
  have keys: "mirror_keys r' = mirror_keys r" and id: "j_id r' = j_id r"
    using mirror_step_keys [OF assms(3)] by (auto simp: mirror_keys_def)
  show "evolves N mirror_step t (sql_put j_id r' t)"
    using assms id by (intro evolves_put) auto
  show "map mirror_keys (sql_put j_id r' t) = map mirror_keys t"
    using assms keys id by (intro map_sql_put [where r = r]) auto
qed

lemma mirror_recover_evolves:
  "evolves N mirror_step t (snd (mirror_recover_exhausted_leases now t))"
  by (auto simp: mirror_recover_exhausted_leases_def mirror_exhausted_def
      intro!: evolves_update1 mirror_step.exhausted)

lemma mirror_claim_evolves:
  assumes "mirror_claim_next w secs now token locked t = Inr (c, t')" and "distinct (map j_id t)"
  shows "evolves N mirror_step t t' \<and> map mirror_keys t' = map mirror_keys t"
proof -
  have pos: "0 < secs"
    using assms(1) by (simp add: mirror_claim_next_def split: if_splits)
  let ?t1 = "snd (mirror_recover_exhausted_leases now t)"
  have d1: "distinct (map j_id ?t1)"
    using assms(2) by simp
  show ?thesis
  proof (cases "mirror_claim_select now locked t")
    case None
    with assms pos show ?thesis by (auto simp: mirror_claim_eq mirror_recover_evolves)
  next
    case (Some cand)
    let ?r = "mirror_lease_row w token (now + seconds secs) cand"
    note cand = sql_first_by_Some [OF Some [unfolded mirror_claim_select_def]]
    have t': "t' = sql_put j_id ?r ?t1"
      using assms pos Some by (simp add: mirror_claim_eq)
    have "mirror_step cand ?r"
      using cand by (auto intro: mirror_step.claim)
    then have "evolves N mirror_step ?t1 t'" and "map mirror_keys t' = map mirror_keys ?t1"
      unfolding t' using mirror_put_step [OF d1, of cand] cand by blast+
    then show ?thesis
      using mirror_recover_evolves [of N t now] evolves_trans [of N mirror_step t ?t1 t'] by simp
  qed
qed

section \<open>The contract, discharged\<close>

lemma mirror_run_effect:
  assumes "mirror_run t t'" and "distinct (map j_id t)"
  shows "evolves mirror_new mirror_step t t' \<and>
    (map mirror_keys t' = map mirror_keys t \<or>
     (\<exists>r. t' = t @ [r] \<and> (\<forall>x \<in> set t. fst (mirror_keys x) \<noteq> fst (mirror_keys r) \<and>
                                    fst (snd (mirror_keys x)) \<noteq> fst (snd (mirror_keys r)))))"
  using assms(1)
proof cases
  case (enqueue i now ty k sid cid key pl corr cv mx res)
  obtain job created where "res = (job, created)" by fastforce
  with enqueue have
    "mirror_enqueue_if_absent i now ty k sid cid key pl corr cv mx t = Inr ((job, created), t')"
    by simp
  then show ?thesis
    by (cases rule: mirror_enqueue_cases)
      (auto simp: mirror_get_by_mirror_key_def mirror_get_by_id_def sql_one_None mirror_keys_def
        mirror_new_row_def)
next
  case (recover now n)
  then show ?thesis using mirror_recover_evolves mirror_recover_map(1) by (metis snd_conv)
next
  case claim
  then show ?thesis using mirror_claim_evolves assms(2) by blast
next
  case (complete i token v job)
  then show ?thesis
    unfolding mirror_complete_with_lease_def using assms(2)
    by (cases rule: mirror_terminate_Inr)
      (auto simp: mirror_held_def intro!: mirror_put_step [OF assms(2)] mirror_step.finish)
next
  case (skip i token v reason job)
  then show ?thesis
    unfolding mirror_skip_with_lease_def using assms(2)
    by (cases rule: mirror_terminate_Inr)
      (auto simp: mirror_held_def intro!: mirror_put_step [OF assms(2)] mirror_step.finish)
next
  case (fail i token v code delay now job)
  then show ?thesis
    using assms(2)
    by (cases rule: mirror_fail_Inr)
      (auto simp: mirror_held_def not_less
        intro!: mirror_put_step [OF assms(2)] mirror_step.retry mirror_step.dead)
qed

lemma mirror_run_distinct:
  assumes "mirror_run t t'" and "distinct (map j_id t)"
  shows "distinct (map j_id t')"
    and "distinct (map j_mirror_key t) \<Longrightarrow> distinct (map j_mirror_key t')"
proof -
  have "map mirror_keys t' = map mirror_keys t \<or>
    (\<exists>r. t' = t @ [r] \<and> (\<forall>x \<in> set t. fst (mirror_keys x) \<noteq> fst (mirror_keys r)))"
    using mirror_run_effect [OF assms] by blast
  from distinct_columns [OF this] assms(2) show "distinct (map j_id t')"
    by (simp add: mirror_keys_def)
  have "map mirror_keys t' = map mirror_keys t \<or>
    (\<exists>r. t' = t @ [r] \<and> (\<forall>x \<in> set t. fst (snd (mirror_keys x)) \<noteq> fst (snd (mirror_keys r))))"
    using mirror_run_effect [OF assms] by blast
  from distinct_columns [where g = "\<lambda>k. fst (snd k)", OF this]
  show "distinct (map j_mirror_key t) \<Longrightarrow> distinct (map j_mirror_key t')"
    by (simp add: mirror_keys_def)
qed

interpretation mirror: bounded_leases j_id j_lease_version j_lease_token mirror_finished
  mirror_new mirror_step mirror_run j_attempt_count j_max_attempts
proof unfold_locales
  fix r r' :: mirror_job assume step: "mirror_step r r'"
  show "j_id r' = j_id r" using mirror_step_keys [OF step] by (simp add: mirror_keys_def)
  note fenced = mirror_step_fenced [OF step]
  show "j_lease_version r \<le> j_lease_version r'" by (rule fenced(1))
  show "j_lease_version r' = j_lease_version r \<Longrightarrow>
      j_lease_token r' = j_lease_token r \<or> j_lease_token r' = None" using fenced(2) by simp
  show "mirror_finished r \<Longrightarrow> r' = r" using fenced(3) by simp
  show "j_attempt_count r' - j_attempt_count r = j_lease_version r' - j_lease_version r"
    by (rule fenced(4))
  show "j_max_attempts r' = j_max_attempts r" by (rule fenced(5))
  show "j_attempt_count r \<le> j_max_attempts r \<Longrightarrow> j_attempt_count r' \<le> j_max_attempts r"
    by (rule fenced(6))
qed (use mirror_run_effect mirror_run_distinct(1) in \<open>auto simp: mirror_new_def\<close>)

lemma mirror_reachable_distinct: "mirror_run\<^sup>*\<^sup>* [] t \<Longrightarrow> distinct (map j_id t)"
  by (erule mirror.runs_distinct) simp

lemma mirror_enqueue_event_run:
  "mirror_enqueue_event i now ty k sid cid cv st key corr t = Inr (res, t') \<Longrightarrow> mirror_run t t'"
  by (auto simp: mirror_enqueue_event_def intro: mirror_run.enqueue split: sum.splits)

section \<open>Properties\<close>

text \<open>
  Client data never enters a mirror job. In every reachable table each job's payload has only
  whitelisted technical keys, none of the forbidden ones, and flat values; and building the payload
  of an event never fails, whatever the identifiers and the status are.
\<close>

theorem mirror_payloads_safe:
  assumes "mirror_run\<^sup>*\<^sup>* [] t" and "r \<in> set t"
  shows "dict_keys (j_payload_json r) \<subseteq> set ALLOWED_MIRROR_PAYLOAD_KEYS \<and>
    dict_keys (j_payload_json r) \<inter> set FORBIDDEN_MIRROR_PAYLOAD_KEYS = {} \<and>
    (\<forall>kv \<in> set (j_payload_json r). json_flat_scalar (snd kv)) \<and>
    (\<exists>p. safe_mirror_payload ty k sid cid cv st = Inr p)"
proof -
  have "\<forall>r \<in> set t. mirror_payload_safe (j_payload_json r)"
  proof (rule evolves_invariant [OF mirror.runs_evolve [OF assms(1)]])
    fix x y assume "mirror_step x y" and "mirror_payload_safe (j_payload_json x)"
    then show "mirror_payload_safe (j_payload_json y)"
      using mirror_step_keys [of x y] by (simp add: mirror_keys_def)
  qed (auto simp: mirror_new_def)
  moreover have "\<exists>p. safe_mirror_payload ty k sid cid cv st = Inr p"
    by (cases cv; cases st)
      (simp_all add: safe_mirror_payload_def Let_def assert_mirror_payload_is_safe_def
        ALLOWED_MIRROR_PAYLOAD_KEYS_def FORBIDDEN_MIRROR_PAYLOAD_KEYS_def)
  ultimately show ?thesis
    using assms(2) by (auto simp: mirror_payload_safe_def)
qed

text \<open>
  One mirror job per event key, for ever. Once a job was enqueued under a key, a later enqueue
  under the same key, after any calls and whatever became of the job, adds nothing and returns that
  job. In particular the key of a manager takeover names the dialog only, so a dialog's second
  takeover enqueues no job.
\<close>

theorem mirror_takeover_enqueued_once:
  assumes "mirror_run\<^sup>*\<^sup>* [] t" and "enqueue_manager_takeover i now cid corr t = Inr ((job, True), t1)"
    and "mirror_run\<^sup>*\<^sup>* t1 t2" and "length (manager_takeover_mirror_key cid) \<le> MIRROR_KEY_MAX_LENGTH"
  shows "\<exists>job'. enqueue_manager_takeover i' now' cid corr' t2 = Inr ((job', False), t2) \<and>
    j_id job' = j_id job"
proof -
  obtain p where p: "safe_mirror_payload MANAGER_TAKEOVER Subj_CONVERSATION cid cid None None = Inr p"
    and ins: "mirror_enqueue_if_absent i now MANAGER_TAKEOVER Subj_CONVERSATION cid cid
      (manager_takeover_mirror_key cid) p corr None DEFAULT_MIRROR_MAX_ATTEMPTS t = Inr ((job, True), t1)"
    using assms(2)
    by (auto simp: enqueue_manager_takeover_def mirror_enqueue_event_def split: sum.splits)
  have d: "distinct (map j_id t)"
    using assms(1) by (rule mirror_reachable_distinct)
  have d1: "distinct (map j_id t1)"
    using mirror.run_distinct [OF mirror_run.enqueue [OF ins] d] .
  have "sql_one (\<lambda>x. j_mirror_key x = manager_takeover_mirror_key cid) t1 = Some job"
    using ins
    by (cases rule: mirror_enqueue_cases)
      (auto simp: mirror_get_by_mirror_key_def sql_one_append mirror_new_row_def)
  moreover have "j_mirror_key y = j_mirror_key x" if "mirror_step x y" for x y
    using mirror_step_keys [OF that] by (simp add: mirror_keys_def)
  ultimately obtain job' where
    found: "sql_one (\<lambda>x. j_mirror_key x = manager_takeover_mirror_key cid) t2 = Some job'"
    and steps: "mirror_step\<^sup>*\<^sup>* job job'"
    using evolves_lookup [OF mirror.runs_evolve [OF assms(3) d1], of j_mirror_key] by blast
  obtain u where "assert_mirror_payload_is_safe p = Inr u"
    using ins by (auto simp: mirror_enqueue_if_absent_def split: if_splits sum.splits)
  with found assms(4) p have "enqueue_manager_takeover i' now' cid corr' t2 = Inr ((job', False), t2)"
    by (simp add: enqueue_manager_takeover_def mirror_enqueue_event_def mirror_enqueue_if_absent_def
        mirror_get_by_mirror_key_def DEFAULT_MIRROR_MAX_ATTEMPTS_def manager_takeover_mirror_key_def)
  then show ?thesis
    using mirror.steps_key [OF steps] by blast
qed

section \<open>A run of the mirror\<close>

definition mirror_demo :: "mirror_job list" where
  "mirror_demo = snd (projr (enqueue_manager_takeover ''j1'' 5 ''c1'' ''r1'' []))"

lemma mirror_demo_enqueue:
  "enqueue_manager_takeover ''j1'' 5 ''c1'' ''r1'' [] = Inr ((hd mirror_demo, True), mirror_demo)"
  by code_simp

lemma mirror_demo_reach: "mirror_run\<^sup>*\<^sup>* [] mirror_demo"
proof -
  have "mirror_enqueue_event ''j1'' 5 MANAGER_TAKEOVER Subj_CONVERSATION ''c1'' ''c1'' None None
      (manager_takeover_mirror_key ''c1'') ''r1'' [] = Inr ((hd mirror_demo, True), mirror_demo)"
    using mirror_demo_enqueue by (simp add: enqueue_manager_takeover_def)
  from mirror_enqueue_event_run [OF this] show ?thesis by simp
qed

theorem mirror_payloads_safe_witness:
  "dict_keys (j_payload_json (hd mirror_demo)) \<inter> set FORBIDDEN_MIRROR_PAYLOAD_KEYS = {}"
proof -
  have "hd mirror_demo \<in> set mirror_demo"
    by code_simp
  then show ?thesis
    using mirror_payloads_safe [OF mirror_demo_reach] by blast
qed

theorem mirror_takeover_enqueued_once_witness:
  "\<exists>job'. enqueue_manager_takeover ''j2'' 900 ''c1'' ''r2'' mirror_demo = Inr ((job', False), mirror_demo) \<and>
     j_id job' = ''j1''"
proof -
  have "length (manager_takeover_mirror_key ''c1'') \<le> MIRROR_KEY_MAX_LENGTH" "j_id (hd mirror_demo) = ''j1''"
    by code_simp+
  then show ?thesis
    using mirror_takeover_enqueued_once [OF _ mirror_demo_enqueue, of mirror_demo] by auto
qed

end
