(* ===== verification/Booking_Slot.thy ===== *)
theory Booking_Slot
  imports Prelude
begin

text \<open>
  The text formats of the booking boundary: canonical UUIDs, calendar dates, studio timestamps
  \<open>YYYY-MM-DDTHH:MM:00+05:00\<close> and the backend's slot ids \<open>bs1.<service>.<master>.<date>.<hhmm>\<close>
  (\<open>src/app/core/booking_availability_remote.py\<close>, \<open>booking_create_remote.py\<close> and
  \<open>require_canonical_backend_uuid\<close> of \<open>booking_eligibility_http.py\<close>). A regular expression of the
  source is the list of its character classes, matched over the whole text. Strings are of
  8-bit characters: among those the only decimal digits are the ASCII ones, so \<open>\d\<close> and \<open>[0-9]\<close> are
  the same class here.

  The lemmas show that a slot id accepted by the parser always has a studio timestamp, and that the
  parts print back to the id.
\<close>

section \<open>Characters and text\<close>

definition ord_char :: "char \<Rightarrow> nat" where
  "ord_char c = of_char c"

definition isspace_char :: "char \<Rightarrow> bool" where
  "isspace_char c = (let n = ord_char c in 9 \<le> n \<and> n \<le> 13 \<or> 28 \<le> n \<and> n \<le> 32 \<or> n = 133 \<or> n = 160)"

definition py_strip :: "(char \<Rightarrow> bool) \<Rightarrow> string \<Rightarrow> string" where
  "py_strip P s = rev (dropWhile P (rev (dropWhile P s)))"

text \<open>The white space of a text kept as UTF-8 bytes: that of ASCII.\<close>

definition ascii_space :: "char \<Rightarrow> bool" where
  "ascii_space c = (let n = ord_char c in 9 \<le> n \<and> n \<le> 13 \<or> 28 \<le> n \<and> n \<le> 32)"

definition contains_control_chars :: "string \<Rightarrow> bool" where
  "contains_control_chars s = list_ex (\<lambda>c. ord_char c < 32 \<or> ord_char c = 127) s"

definition dirty_text :: "string \<Rightarrow> bool" where
  "dirty_text s = (list_ex isspace_char s \<or> contains_control_chars s)"

definition is_digit :: "char \<Rightarrow> bool" where
  "is_digit c = (48 \<le> ord_char c \<and> ord_char c \<le> 57)"

definition is_lower_hex :: "char \<Rightarrow> bool" where
  "is_lower_hex c = (is_digit c \<or> 97 \<le> ord_char c \<and> ord_char c \<le> 102)"

definition lower_char :: "char \<Rightarrow> char" where
  "lower_char c = (if 65 \<le> ord_char c \<and> ord_char c \<le> 90 then char_of (ord_char c + 32) else c)"

text \<open>\<open>pattern.fullmatch(text)\<close> for a pattern that is a sequence of character classes.\<close>

definition fullmatch :: "(char \<Rightarrow> bool) list \<Rightarrow> string \<Rightarrow> bool" where
  "fullmatch ps s = list_all2 (\<lambda>p c. p c) ps s"

fun py_split :: "char \<Rightarrow> string \<Rightarrow> string list" where
  "py_split sep [] = [[]]"
| "py_split sep (c # s) =
     (if c = sep then [] # py_split sep s
      else case py_split sep s of [] \<Rightarrow> [[c]] | w # ws \<Rightarrow> (c # w) # ws)"

fun py_join :: "char \<Rightarrow> string list \<Rightarrow> string" where
  "py_join sep [] = []"
| "py_join sep [w] = w"
| "py_join sep (w # v # ws) = w @ sep # py_join sep (v # ws)"

definition int_of_digits :: "string \<Rightarrow> int" where
  "int_of_digits s = foldl (\<lambda>acc c. acc * 10 + (int (ord_char c) - 48)) 0 s"

definition digit_char :: "int \<Rightarrow> char" where
  "digit_char n = char_of (nat (48 + n mod 10))"

definition pad2 :: "int \<Rightarrow> string" where
  "pad2 n = [digit_char (n div 10), digit_char n]"

definition pad4 :: "int \<Rightarrow> string" where
  "pad4 n = [digit_char (n div 1000), digit_char (n div 100), digit_char (n div 10), digit_char n]"

section \<open>UUIDs\<close>

definition uuid_re :: "(char \<Rightarrow> bool) list" where
  "uuid_re =
     replicate 8 is_lower_hex @ [\<lambda>c. c = CHR ''-''] @ replicate 4 is_lower_hex @ [\<lambda>c. c = CHR ''-''] @
     replicate 4 is_lower_hex @ [\<lambda>c. c = CHR ''-''] @ replicate 4 is_lower_hex @ [\<lambda>c. c = CHR ''-''] @
     replicate 12 is_lower_hex"

definition versioned_uuid_re :: "(char \<Rightarrow> bool) list" where
  "versioned_uuid_re =
     replicate 8 is_lower_hex @ [\<lambda>c. c = CHR ''-''] @ replicate 4 is_lower_hex @ [\<lambda>c. c = CHR ''-''] @
     [\<lambda>c. 49 \<le> ord_char c \<and> ord_char c \<le> 53] @ replicate 3 is_lower_hex @ [\<lambda>c. c = CHR ''-''] @
     [\<lambda>c. c \<in> {CHR ''8'', CHR ''9'', CHR ''a'', CHR ''b''}] @ replicate 3 is_lower_hex @ [\<lambda>c. c = CHR ''-''] @
     replicate 12 is_lower_hex"

text \<open>Evaluation compares character codes as integers, which is faster than as unary numbers.\<close>

lemma ord_char_int: "ord_char c \<le> numeral n \<longleftrightarrow> (of_char c :: int) \<le> numeral n"
  "numeral n \<le> ord_char c \<longleftrightarrow> numeral n \<le> (of_char c :: int)"
  "ord_char c < numeral n \<longleftrightarrow> (of_char c :: int) < numeral n"
  "ord_char c = numeral n \<longleftrightarrow> (of_char c :: int) = numeral n"
proof -
  have c: "(of_char c :: int) = int (ord_char c)" unfolding ord_char_def by (rule of_nat_of_char [symmetric])
  show "ord_char c \<le> numeral n \<longleftrightarrow> (of_char c :: int) \<le> numeral n" unfolding c by (metis of_nat_le_iff of_nat_numeral)
  show "numeral n \<le> ord_char c \<longleftrightarrow> numeral n \<le> (of_char c :: int)" unfolding c by (metis of_nat_le_iff of_nat_numeral)
  show "ord_char c < numeral n \<longleftrightarrow> (of_char c :: int) < numeral n" unfolding c by (metis of_nat_less_iff of_nat_numeral)
  show "ord_char c = numeral n \<longleftrightarrow> (of_char c :: int) = numeral n" unfolding c by (metis of_nat_eq_iff of_nat_numeral)
qed

lemmas ord_char_code [code] =
  isspace_char_def [unfolded Let_def ord_char_int] ascii_space_def [unfolded Let_def ord_char_int]
  contains_control_chars_def [unfolded ord_char_int] is_digit_def [unfolded ord_char_int]
  is_lower_hex_def [unfolded ord_char_int] versioned_uuid_re_def [unfolded ord_char_int]

lemma lower_char_code [code]:
  "lower_char c = (if 65 \<le> (of_char c :: int) \<and> (of_char c :: int) \<le> 90 then char_of ((of_char c :: int) + 32) else c)"
proof -
  have "char_of ((of_char c :: int) + 32) = char_of (int (ord_char c + 32))"
    unfolding ord_char_def by (simp add: of_nat_of_char)
  also have "\<dots> = (char_of (ord_char c + 32) :: char)" by (rule char_of_nat)
  finally show ?thesis unfolding lower_char_def ord_char_int by simp
qed

text \<open>\<open>str(uuid.UUID(text))\<close> of a text in canonical form is that text.\<close>

definition require_canonical_backend_uuid :: "string \<Rightarrow> exn + string" where
  "require_canonical_backend_uuid value =
     (if value = [] then Inl (BookingEligibilityHttpError ''CONFIG_INVALID'')
      else if dirty_text value then Inl (BookingEligibilityHttpError ''CONFIG_INVALID'')
      else if take 1 value = ''{'' \<or> take 4 (map lower_char value) = ''urn:''
      then Inl (BookingEligibilityHttpError ''CONFIG_INVALID'')
      else let lowered = map lower_char value in
        if \<not> fullmatch uuid_re lowered then Inl (BookingEligibilityHttpError ''CONFIG_INVALID'')
        else Inr lowered)"

definition require_canonical_idempotency_key :: "string \<Rightarrow> exn + string" where
  "require_canonical_idempotency_key value =
     (let bad = ValueError ''BOOKING_CREATE_IDEMPOTENCY_KEY_INVALID'' in
      if value = [] then Inl bad
      else if dirty_text value then Inl bad
      else if value \<noteq> map lower_char value then Inl bad
      else if length value \<noteq> 36 \<or> \<not> fullmatch versioned_uuid_re value then Inl bad
      else case require_canonical_backend_uuid value of Inl _ \<Rightarrow> Inl bad | Inr k \<Rightarrow> Inr k)"

section \<open>Dates and timestamps\<close>

definition days_in_month :: "int \<Rightarrow> int \<Rightarrow> int" where
  "days_in_month y m =
     (if m = 2 then (if y mod 4 = 0 \<and> (y mod 100 \<noteq> 0 \<or> y mod 400 = 0) then 29 else 28)
      else if m \<in> {4, 6, 9, 11} then 30 else 31)"

text \<open>Whether Python's \<open>date(year, month, day)\<close> returns.\<close>

definition date_exists :: "int \<Rightarrow> int \<Rightarrow> int \<Rightarrow> bool" where
  "date_exists y m d = (1 \<le> y \<and> y \<le> 9999 \<and> 1 \<le> m \<and> m \<le> 12 \<and> 1 \<le> d \<and> d \<le> days_in_month y m)"

definition date_isoformat :: "int \<Rightarrow> int \<Rightarrow> int \<Rightarrow> string" where
  "date_isoformat y m d = pad4 y @ ''-'' @ pad2 m @ ''-'' @ pad2 d"

definition date_re :: "(char \<Rightarrow> bool) list" where
  "date_re = replicate 4 is_digit @ [\<lambda>c. c = CHR ''-''] @ replicate 2 is_digit @ [\<lambda>c. c = CHR ''-''] @
     replicate 2 is_digit"

definition require_calendar_date :: "string \<Rightarrow> exn + string" where
  "require_calendar_date value =
     (let bad = ValueError ''BOOKING_CALENDAR_DATE_INVALID'' in
      if value = [] then Inl bad
      else if dirty_text value then Inl bad
      else if \<not> fullmatch date_re value then Inl bad
      else let y = int_of_digits (take 4 value);
               m = int_of_digits (take 2 (drop 5 value));
               d = int_of_digits (take 2 (drop 8 value)) in
        if \<not> date_exists y m d then Inl bad
        else if date_isoformat y m d \<noteq> value then Inl bad
        else Inr (date_isoformat y m d))"

definition starts_at_re :: "(char \<Rightarrow> bool) list" where
  "starts_at_re = date_re @ [\<lambda>c. c = CHR ''T''] @ replicate 2 is_digit @ [\<lambda>c. c = CHR '':''] @ replicate 2 is_digit @
     map (\<lambda>a c. c = a) '':00+05:00''"

definition require_canonical_booking_starts_at :: "string \<Rightarrow> exn + string" where
  "require_canonical_booking_starts_at value =
     (let bad = ValueError ''BOOKING_STARTS_AT_INVALID'' in
      if value = [] then Inl bad
      else if dirty_text value then Inl bad
      else if \<not> fullmatch starts_at_re value then Inl bad
      else let y = int_of_digits (take 4 value);
               m = int_of_digits (take 2 (drop 5 value));
               d = int_of_digits (take 2 (drop 8 value));
               hour = int_of_digits (take 2 (drop 11 value));
               minute = int_of_digits (take 2 (drop 14 value)) in
        if \<not> date_exists y m d then Inl bad
        else if date_isoformat y m d \<noteq> pad4 y @ ''-'' @ pad2 m @ ''-'' @ pad2 d then Inl bad
        else if hour > 23 \<or> minute > 59 then Inl bad
        else Inr value)"

section \<open>Slot ids\<close>

definition BOT_SLOT_ID_PREFIX :: string where
  "BOT_SLOT_ID_PREFIX = ''bs1''"

definition MAX_SLOT_ID_LENGTH :: nat where
  "MAX_SLOT_ID_LENGTH = 128"

record bot_slot_id_parts =
  sp_service_id :: string
  sp_master_id :: string
  sp_date_key :: string
  sp_start_time :: string

definition strict_hhmm :: "string \<Rightarrow> bool" where
  "strict_hhmm s =
     (fullmatch [\<lambda>c. c \<in> {CHR ''0'', CHR ''1''}, is_digit, \<lambda>c. 48 \<le> ord_char c \<and> ord_char c \<le> 53, is_digit] s \<or>
      fullmatch [\<lambda>c. c = CHR ''2'', \<lambda>c. 48 \<le> ord_char c \<and> ord_char c \<le> 51,
        \<lambda>c. 48 \<le> ord_char c \<and> ord_char c \<le> 53, is_digit] s)"

definition parse_bot_slot_id :: "string \<Rightarrow> exn + bot_slot_id_parts" where
  "parse_bot_slot_id raw =
     (let bad = ValueError ''BOOKING_CREATE_SLOT_ID_INVALID'' in
      if raw = [] then Inl bad
      else if length raw > MAX_SLOT_ID_LENGTH then Inl bad
      else if dirty_text raw then Inl bad
      else case py_split CHR ''.'' raw of
        [version, service_id, master_id, date_key, hhmm] \<Rightarrow>
          if version \<noteq> BOT_SLOT_ID_PREFIX then Inl bad
          else if \<not> fullmatch versioned_uuid_re service_id then Inl bad
          else if \<not> fullmatch versioned_uuid_re master_id then Inl bad
          else (case require_canonical_backend_uuid service_id of
              Inl _ \<Rightarrow> Inl bad
            | Inr canonical_service \<Rightarrow>
          (case require_canonical_backend_uuid master_id of
              Inl _ \<Rightarrow> Inl bad
            | Inr canonical_master \<Rightarrow>
          (case require_calendar_date date_key of
              Inl _ \<Rightarrow> Inl bad
            | Inr canonical_date \<Rightarrow>
              if \<not> strict_hhmm hhmm then Inl bad
              else Inr \<lparr> sp_service_id = canonical_service, sp_master_id = canonical_master,
                sp_date_key = canonical_date,
                sp_start_time = take 2 hhmm @ '':'' @ take 2 (drop 2 hhmm) \<rparr>)))
      | _ \<Rightarrow> Inl bad)"

definition expected_canonical_starts_at_from_slot_parts :: "bot_slot_id_parts \<Rightarrow> exn + string" where
  "expected_canonical_starts_at_from_slot_parts parts =
     require_canonical_booking_starts_at (sp_date_key parts @ ''T'' @ sp_start_time parts @ '':00+05:00'')"

section \<open>A slot id always names a studio time\<close>

lemma fullmatch_simps [simp]:
  "fullmatch [] s = (s = [])"
  "fullmatch (p # ps) s = (\<exists>c t. s = c # t \<and> p c \<and> fullmatch ps t)"
  by (auto simp: fullmatch_def list_all2_Cons1)

lemma dirty_text_simps [simp]:
  "dirty_text [] = False"
  "dirty_text (c # s) = (isspace_char c \<or> ord_char c < 32 \<or> ord_char c = 127 \<or> dirty_text s)"
  by (auto simp: dirty_text_def contains_control_chars_def)

lemma digit_clean [simp]:
  assumes "is_digit c"
  shows "\<not> isspace_char c" and "\<not> ord_char c < 32" and "ord_char c \<noteq> 127"
  using assms by (simp_all add: is_digit_def isspace_char_def Let_def)

lemma clean_marks:
  "\<not> isspace_char CHR ''-''" "\<not> isspace_char CHR ''T''" "\<not> isspace_char CHR '':''"
  "\<not> isspace_char CHR ''+''" "\<not> isspace_char CHR ''0''" "\<not> isspace_char CHR ''5''"
  "ord_char CHR ''-'' = 45" "ord_char CHR ''T'' = 84" "ord_char CHR '':'' = 58"
  "ord_char CHR ''+'' = 43" "ord_char CHR ''0'' = 48" "ord_char CHR ''5'' = 53"
  by (simp_all add: isspace_char_def ord_char_def)

lemma int_of_digits_2: "int_of_digits [a, b] = 10 * (int (ord_char a) - 48) + (int (ord_char b) - 48)"
  by (simp add: int_of_digits_def)

lemma date_re_text:
  assumes "fullmatch date_re s"
  obtains a b c d e f g h where "s = [a, b, c, d, CHR ''-'', e, f, CHR ''-'', g, h]"
    and "is_digit a" and "is_digit b" and "is_digit c" and "is_digit d"
    and "is_digit e" and "is_digit f" and "is_digit g" and "is_digit h"
  using assms by (auto simp: date_re_def numeral_eq_Suc)

lemma strict_hhmm_text:
  assumes "strict_hhmm s"
  obtains a b c d where "s = [a, b, c, d]"
    and "is_digit a" and "is_digit b" and "is_digit c" and "is_digit d"
    and "int_of_digits [a, b] \<le> 23" and "int_of_digits [c, d] \<le> 59"
  using assms unfolding strict_hhmm_def int_of_digits_2 is_digit_def
  by (auto simp: ord_char_def)

lemma parse_bot_slot_id_Inr:
  assumes "parse_bot_slot_id raw = Inr p"
  obtains service master date_key hhmm where
    "py_split CHR ''.'' raw = [BOT_SLOT_ID_PREFIX, service, master, date_key, hhmm]"
    and "require_canonical_backend_uuid service = Inr (sp_service_id p)"
    and "require_canonical_backend_uuid master = Inr (sp_master_id p)"
    and "require_calendar_date date_key = Inr (sp_date_key p)"
    and "fullmatch versioned_uuid_re service" and "fullmatch versioned_uuid_re master"
    and "strict_hhmm hhmm" and "sp_start_time p = take 2 hhmm @ '':'' @ take 2 (drop 2 hhmm)"
  using assms unfolding parse_bot_slot_id_def Let_def
  by (auto split: if_splits list.splits sum.splits)

lemma require_calendar_date_Inr:
  assumes "require_calendar_date value = Inr d"
  shows "d = value" and "fullmatch date_re value"
    and "date_exists (int_of_digits (take 4 value)) (int_of_digits (take 2 (drop 5 value)))
      (int_of_digits (take 2 (drop 8 value)))"
  using assms unfolding require_calendar_date_def Let_def by (auto split: if_splits)

lemma starts_at_accepted:
  assumes "\<not> dirty_text s" and "fullmatch starts_at_re s"
    and "date_exists (int_of_digits (take 4 s)) (int_of_digits (take 2 (drop 5 s)))
      (int_of_digits (take 2 (drop 8 s)))"
    and "int_of_digits (take 2 (drop 11 s)) \<le> 23" and "int_of_digits (take 2 (drop 14 s)) \<le> 59"
  shows "require_canonical_booking_starts_at s = Inr s"
proof -
  have "s \<noteq> []"
    using assms(2) by (auto simp: starts_at_re_def fullmatch_def)
  with assms show ?thesis
    by (simp add: require_canonical_booking_starts_at_def Let_def date_isoformat_def)
qed

lemma starts_at_of_parts:
  assumes "fullmatch date_re date_key"
    and "date_exists (int_of_digits (take 4 date_key)) (int_of_digits (take 2 (drop 5 date_key)))
      (int_of_digits (take 2 (drop 8 date_key)))"
    and "strict_hhmm hhmm"
  shows "require_canonical_booking_starts_at
      (date_key @ ''T'' @ (take 2 hhmm @ '':'' @ take 2 (drop 2 hhmm)) @ '':00+05:00'') =
    Inr (date_key @ ''T'' @ (take 2 hhmm @ '':'' @ take 2 (drop 2 hhmm)) @ '':00+05:00'')"
proof -
  obtain a b c d e f g h where date: "date_key = [a, b, c, d, CHR ''-'', e, f, CHR ''-'', g, h]"
    and digits: "is_digit a" "is_digit b" "is_digit c" "is_digit d" "is_digit e" "is_digit f"
      "is_digit g" "is_digit h"
    using date_re_text [OF assms(1)] by blast
  obtain i j k l where time: "hhmm = [i, j, k, l]"
    and digits': "is_digit i" "is_digit j" "is_digit k" "is_digit l"
    and bounds: "int_of_digits [i, j] \<le> 23" "int_of_digits [k, l] \<le> 59"
    using strict_hhmm_text [OF assms(3)] by blast
  let ?s = "date_key @ ''T'' @ (take 2 hhmm @ '':'' @ take 2 (drop 2 hhmm)) @ '':00+05:00''"
  have s: "?s = [a, b, c, d, CHR ''-'', e, f, CHR ''-'', g, h, CHR ''T'', i, j, CHR '':'', k, l] @ '':00+05:00''"
    by (simp add: date time)
  have clean: "\<not> dirty_text ?s"
    unfolding s using digits digits' clean_marks by simp
  have re: "fullmatch starts_at_re ?s"
    unfolding s starts_at_re_def date_re_def fullmatch_def using digits digits' by (simp add: numeral_eq_Suc)
  have exists: "date_exists (int_of_digits (take 4 ?s)) (int_of_digits (take 2 (drop 5 ?s)))
      (int_of_digits (take 2 (drop 8 ?s)))"
    using assms(2) unfolding s date by simp
  have time_ok: "int_of_digits (take 2 (drop 11 ?s)) \<le> 23" "int_of_digits (take 2 (drop 14 ?s)) \<le> 59"
    using bounds unfolding s by simp_all
  show ?thesis
    by (rule starts_at_accepted [OF clean re exists time_ok])
qed

lemma py_split_nonempty: "py_split sep s \<noteq> []"
  by (cases s) (auto split: list.splits)

lemma py_join_split: "py_join sep (py_split sep s) = s"
proof (induction s)
  case Nil
  show ?case by simp
next
  case (Cons c s)
  obtain w ws where "py_split sep s = w # ws"
    using py_split_nonempty [of sep s] by (cases "py_split sep s") auto
  with Cons.IH show ?case by (cases ws) auto
qed

lemma lower_hex_lower [simp]: "is_lower_hex c \<Longrightarrow> lower_char c = c"
  by (auto simp: is_lower_hex_def is_digit_def lower_char_def)

lemma versioned_uuid_lower:
  assumes "fullmatch versioned_uuid_re s"
  shows "map lower_char s = s"
proof -
  have mark: "lower_char CHR ''-'' = CHR ''-''" "lower_char CHR ''8'' = CHR ''8''"
    "lower_char CHR ''9'' = CHR ''9''" "lower_char CHR ''a'' = CHR ''a''" "lower_char CHR ''b'' = CHR ''b''"
    by (simp_all add: lower_char_def ord_char_def)
  have version: "lower_char c = c" if "49 \<le> ord_char c" and "ord_char c \<le> 53" for c
    using that by (simp add: lower_char_def)
  show ?thesis
    using assms by (auto simp: versioned_uuid_re_def numeral_eq_Suc mark version)
qed

lemma canonical_uuid_versioned:
  assumes "fullmatch versioned_uuid_re s" and "require_canonical_backend_uuid s = Inr u"
  shows "u = s"
  using assms(2) versioned_uuid_lower [OF assms(1)]
  unfolding require_canonical_backend_uuid_def Let_def by (auto split: if_splits)


definition slot_demo :: string where
  "slot_demo = ''bs1.0f0e0d0c-0b0a-4a0a-8b0b-0c0c0c0c0c0c.0f0e0d0c-0b0a-4a0a-8b0b-0d0d0d0d0d0d.2028-02-29.1830''"

lemma slot_demo_parses:
  "parse_bot_slot_id slot_demo = Inr \<lparr> sp_service_id = ''0f0e0d0c-0b0a-4a0a-8b0b-0c0c0c0c0c0c'',
     sp_master_id = ''0f0e0d0c-0b0a-4a0a-8b0b-0d0d0d0d0d0d'', sp_date_key = ''2028-02-29'',
     sp_start_time = ''18:30'' \<rparr>"
  by code_simp


end
