(* ===== verification/Active_Offer.thy ===== *)
theory Active_Offer
  imports Booking_Slot Outbox
begin

text \<open>
  The active self-booking offer of a dialog: models/self_booking_active_offer.py,
  core/self_booking_active_offer_types.py, repositories/self_booking_active_offers.py and
  services/self_booking_active_offer.py. A dialog has at most one active offer, the slots of a
  delivered \<open>OFFER_SLOTS\<close> message; deliveries may be reported late or twice, and the fence
  (manager epoch, context version, event sequence) of the message decides which one stays.

  The table is keyed by the dialog, so the theory treats it as one register per dialog. The locale
  \<open>newest_wins\<close> states what such a register promises its readers: after any sequence of offers it
  holds the first of those with the greatest fence. The interpretation discharges its laws for the
  repository's upsert.
\<close>

section \<open>Data\<close>

record active_offer_slot =
  as_slot_id :: string
  as_starts_at :: string

record active_offer =
  ao_conversation_id :: uuid
  ao_source_outbound_id :: uuid
  ao_source_context_version :: int
  ao_source_manager_epoch :: int
  ao_source_event_seq_hwm :: int
  ao_offered_slots :: json
  ao_activated_at :: moment
  ao_updated_at :: moment

datatype ActiveOfferActivateOutcome = ACTIVATED | REPLACED | REPLAYED | IGNORED_STALE | REJECTED

record active_offer_activate_result =
  ar_outcome :: ActiveOfferActivateOutcome
  ar_reason_code :: "string option"

datatype ActiveOfferResolveResult = SlotFound string uuid | SlotNotActive

definition MAX_ACTIVE_OFFER_SLOTS :: nat where
  "MAX_ACTIVE_OFFER_SLOTS = 3"

section \<open>Slots\<close>

text \<open>The constructor of \<open>ActiveOfferSlot\<close> validates both fields.\<close>

definition active_offer_slot_init :: "string \<Rightarrow> string \<Rightarrow> exn + active_offer_slot" where
  "active_offer_slot_init slot_id starts_at =
     (case parse_bot_slot_id slot_id of
        Inl e \<Rightarrow> Inl e
      | Inr _ \<Rightarrow>
          (case require_canonical_booking_starts_at starts_at of
             Inl e \<Rightarrow> Inl e
           | Inr _ \<Rightarrow> Inr \<lparr> as_slot_id = slot_id, as_starts_at = starts_at \<rparr>))"

definition slot_to_json_dict :: "active_offer_slot \<Rightarrow> json" where
  "slot_to_json_dict s = JObj [(''slot_id'', JStr (as_slot_id s)), (''starts_at'', JStr (as_starts_at s))]"

definition active_offer_slot_of_item :: "json \<Rightarrow> exn + active_offer_slot" where
  "active_offer_slot_of_item item =
     (case item of
        JObj d \<Rightarrow>
          (case (dict_get d ''slot_id'', dict_get d ''starts_at'') of
             (JStr slot_id, JStr starts_at) \<Rightarrow> active_offer_slot_init slot_id starts_at
           | _ \<Rightarrow> Inl (ValueError ''ACTIVE_OFFER_SLOTS_INVALID''))
      | _ \<Rightarrow> Inl (ValueError ''ACTIVE_OFFER_SLOTS_INVALID''))"

fun active_offer_slots_loop ::
  "json list \<Rightarrow> string list \<Rightarrow> active_offer_slot list \<Rightarrow> exn + active_offer_slot list" where
  "active_offer_slots_loop [] seen slots = Inr slots"
| "active_offer_slots_loop (item # items) seen slots =
     (case active_offer_slot_of_item item of
        Inl e \<Rightarrow> Inl e
      | Inr slot \<Rightarrow>
          if as_slot_id slot \<in> set seen then Inl (ValueError ''ACTIVE_OFFER_SLOTS_INVALID'')
          else active_offer_slots_loop items (as_slot_id slot # seen) (slots @ [slot]))"

definition require_active_offer_slots :: "json \<Rightarrow> exn + active_offer_slot list" where
  "require_active_offer_slots v =
     (case v of
        JList items \<Rightarrow>
          if items = [] \<or> length items > MAX_ACTIVE_OFFER_SLOTS
          then Inl (ValueError ''ACTIVE_OFFER_SLOTS_INVALID'')
          else active_offer_slots_loop items [] []
      | _ \<Rightarrow> Inl (ValueError ''ACTIVE_OFFER_SLOTS_INVALID''))"

section \<open>Repository\<close>

definition offer_get_by_conversation :: "uuid \<Rightarrow> active_offer list \<Rightarrow> active_offer option" where
  "offer_get_by_conversation cid t = sql_one (\<lambda>r. ao_conversation_id r = cid) t"

definition offer_fence :: "active_offer \<Rightarrow> int \<times> int \<times> int" where
  "offer_fence r = (ao_source_manager_epoch r, ao_source_context_version r, ao_source_event_seq_hwm r)"

text \<open>
  \<open>INSERT ... ON CONFLICT (conversation_id) DO UPDATE ... WHERE old fence < new fence\<close>. The unique
  index on \<open>source_outbound_id\<close> makes the statement fail when another dialog's row already names the
  message; the savepoint keeps the session usable and the error propagates.
\<close>

definition offer_upsert ::
  "active_offer \<Rightarrow> active_offer list \<Rightarrow> exn + (string \<times> active_offer list)" where
  "offer_upsert r t =
     (let existing = offer_get_by_conversation (ao_conversation_id r) t
      in if existing \<noteq> None \<and> ao_source_outbound_id (the existing) = ao_source_outbound_id r
         then Inr (''replayed'', t)
         else case existing of
           None \<Rightarrow>
             if sql_one (\<lambda>x. ao_source_outbound_id x = ao_source_outbound_id r) t \<noteq> None
             then Inl (IntegrityError ''uq_self_booking_active_offers_outbound'')
             else Inr (''activated'', t @ [r])
         | Some old \<Rightarrow>
             if offer_fence old < offer_fence r
             then
               if sql_one (\<lambda>x. ao_source_outbound_id x = ao_source_outbound_id r) t \<noteq> None
               then Inl (IntegrityError ''uq_self_booking_active_offers_outbound'')
               else Inr (''replaced'', sql_put ao_conversation_id r t)
             else Inr (''ignored_stale'', t))"

definition upsert_if_newer_or_same_outbound ::
  "uuid \<Rightarrow> uuid \<Rightarrow> int \<Rightarrow> int \<Rightarrow> int \<Rightarrow> json \<Rightarrow> moment \<Rightarrow> active_offer list
     \<Rightarrow> exn + (string \<times> active_offer list)" where
  "upsert_if_newer_or_same_outbound cid outbound_id ctx epoch hwm slots now t =
     offer_upsert \<lparr> ao_conversation_id = cid, ao_source_outbound_id = outbound_id,
       ao_source_context_version = ctx, ao_source_manager_epoch = epoch, ao_source_event_seq_hwm = hwm,
       ao_offered_slots = slots, ao_activated_at = now, ao_updated_at = now \<rparr> t"

definition delete_by_conversation :: "uuid \<Rightarrow> active_offer list \<Rightarrow> bool \<times> active_offer list" where
  "delete_by_conversation cid t =
     (sql_count (\<lambda>r. ao_conversation_id r = cid) t = 1, filter (\<lambda>r. ao_conversation_id r \<noteq> cid) t)"

section \<open>Service\<close>

definition offer_rejected :: "string \<Rightarrow> active_offer_activate_result" where
  "offer_rejected code = \<lparr> ar_outcome = REJECTED, ar_reason_code = Some code \<rparr>"

definition activate_outcome :: "string \<Rightarrow> active_offer_activate_result" where
  "activate_outcome action =
     (if action = ''activated'' then \<lparr> ar_outcome = ACTIVATED, ar_reason_code = None \<rparr>
      else if action = ''replaced'' then \<lparr> ar_outcome = REPLACED, ar_reason_code = None \<rparr>
      else if action = ''replayed'' then \<lparr> ar_outcome = REPLAYED, ar_reason_code = None \<rparr>
      else \<lparr> ar_outcome = IGNORED_STALE, ar_reason_code = Some ''STALE_OR_DELAYED'' \<rparr>)"

definition activate_from_delivered_outbound ::
  "moment \<Rightarrow> outbox_message \<Rightarrow> active_offer list
     \<Rightarrow> exn + (active_offer_activate_result \<times> active_offer list)" where
  "activate_from_delivered_outbound now ob t =
     (if o_delivery_status ob \<noteq> Out_DELIVERED then Inr (offer_rejected ''NOT_DELIVERED'', t)
      else case o_context_version ob of
        None \<Rightarrow> Inr (offer_rejected ''FENCE_MISSING'', t)
      | Some ctx \<Rightarrow>
          if ctx < 0 \<or> o_manager_epoch ob < 0 \<or> o_event_seq_hwm ob < 0
          then Inr (offer_rejected ''FENCE_MISSING'', t)
          else if dict_get (o_payload_json ob) ''booking_action'' \<noteq> JStr ''OFFER_SLOTS''
          then Inr (offer_rejected ''NOT_OFFER_SLOTS'', t)
          else case require_active_offer_slots (dict_get (o_payload_json ob) ''booking_offered_slots'') of
            Inl _ \<Rightarrow> Inr (offer_rejected ''OFFER_SLOTS_INVALID'', t)
          | Inr slots \<Rightarrow>
              (case upsert_if_newer_or_same_outbound (o_conversation_id ob) (o_id ob) ctx
                      (o_manager_epoch ob) (o_event_seq_hwm ob) (JList (map slot_to_json_dict slots)) now t of
                 Inl e \<Rightarrow> Inl e
               | Inr (action, t') \<Rightarrow> Inr (activate_outcome action, t')))"

definition resolve_slot :: "uuid \<Rightarrow> string \<Rightarrow> active_offer list \<Rightarrow> ActiveOfferResolveResult" where
  "resolve_slot cid slot_id t =
     (if slot_id = [] then SlotNotActive
      else case offer_get_by_conversation cid t of
        None \<Rightarrow> SlotNotActive
      | Some row \<Rightarrow>
          (case require_active_offer_slots (ao_offered_slots row) of
             Inl _ \<Rightarrow> SlotNotActive
           | Inr slots \<Rightarrow>
               (case find (\<lambda>s. as_slot_id s = slot_id) slots of
                  None \<Rightarrow> SlotNotActive
                | Some s \<Rightarrow> SlotFound (as_starts_at s) (ao_source_outbound_id row))))"

definition offer_invalidate :: "uuid \<Rightarrow> active_offer list \<Rightarrow> bool \<times> active_offer list" where
  "offer_invalidate cid t = delete_by_conversation cid t"

section \<open>The newest offer wins\<close>

locale newest_wins =
  fixes get :: "'k \<Rightarrow> 's \<Rightarrow> 'r option"
    and put :: "'r \<Rightarrow> 's \<Rightarrow> 's"
    and ok :: "'s \<Rightarrow> bool"
    and key :: "'r \<Rightarrow> 'k"
    and ident :: "'r \<Rightarrow> 'i"
    and fence :: "'r \<Rightarrow> 'f::linorder"
  assumes put_ok: "ok s \<Longrightarrow> ok (put r s)"
    and get_key: "get k s = Some x \<Longrightarrow> key x = k"
    and put_other: "ok s \<Longrightarrow> k \<noteq> key r \<Longrightarrow> get k (put r s) = get k s"
    and put_first: "ok s \<Longrightarrow> get (key r) s = None \<Longrightarrow> (\<And>k x. get k s = Some x \<Longrightarrow> ident x \<noteq> ident r) \<Longrightarrow>
      get (key r) (put r s) = Some r"
    and put_same: "get (key r) s = Some x \<Longrightarrow> ident x = ident r \<Longrightarrow> put r s = s"
    and put_newer: "ok s \<Longrightarrow> get (key r) s = Some x \<Longrightarrow> fence x < fence r \<Longrightarrow>
      (\<And>k x. get k s = Some x \<Longrightarrow> ident x \<noteq> ident r) \<Longrightarrow> get (key r) (put r s) = Some r"
    and put_stale: "get (key r) s = Some x \<Longrightarrow> \<not> fence x < fence r \<Longrightarrow> put r s = s"
begin

text \<open>Same message, same dialog and fence.\<close>

definition consistent :: "'r list \<Rightarrow> bool" where
  "consistent rs = (\<forall>r \<in> set rs. \<forall>r' \<in> set rs. ident r = ident r' \<longrightarrow> key r = key r' \<and> fence r = fence r')"

definition holds_newest :: "'r list \<Rightarrow> 's \<Rightarrow> bool" where
  "holds_newest rs s =
     ((\<forall>k x. get k s = Some x \<longrightarrow> x \<in> set rs) \<and>
      (\<forall>r \<in> set rs. \<exists>x. get (key r) s = Some x \<and> fence r \<le> fence x))"

lemma put_holds_newest:
  assumes "ok s" and "holds_newest rs s" and "consistent (rs @ [r])"
  shows "holds_newest (rs @ [r]) (put r s)"
proof -
  have known: "x \<in> set rs" if "get k s = Some x" for k x
    using assms(2) that by (auto simp: holds_newest_def)
  have newest: "\<exists>x. get (key r') s = Some x \<and> fence r' \<le> fence x" if "r' \<in> set rs" for r'
    using assms(2) that by (auto simp: holds_newest_def)
  have same: "get (key r) s = Some x \<and> fence x = fence r" if "get k s = Some x" and "ident x = ident r" for k x
  proof -
    have "x \<in> set (rs @ [r])" and "r \<in> set (rs @ [r])"
      using known [OF that(1)] by simp_all
    with assms(3) that(2) have "key x = key r \<and> fence x = fence r"
      unfolding consistent_def by blast
    with that(1) get_key [OF that(1)] show ?thesis by simp
  qed
  show ?thesis
  proof (cases "get (key r) (put r s) = Some r")
    case True
    have "\<exists>x. get (key r') (put r s) = Some x \<and> fence r' \<le> fence x" if old: "r' \<in> set rs" for r'
    proof (cases "key r' = key r")
      case same_key: True
      obtain x where x: "get (key r) s = Some x" "fence r' \<le> fence x"
        using newest [OF old] same_key by auto
      have "fence x \<le> fence r"
      proof (rule ccontr)
        assume "\<not> fence x \<le> fence r"
        then have "put r s = s" using put_stale [OF x(1)] by simp
        with True x(1) \<open>\<not> fence x \<le> fence r\<close> show False by simp
      qed
      with x True same_key show ?thesis by auto
    next
      case False
      then show ?thesis using newest [OF old] put_other [OF assms(1)] by simp
    qed
    moreover have "x \<in> set (rs @ [r])" if "get k (put r s) = Some x" for k x
      using that True known put_other [OF assms(1), of k r] by (cases "k = key r") auto
    ultimately show ?thesis
      using True by (auto simp: holds_newest_def)
  next
    case False
    have "\<exists>k x. get k s = Some x \<and> (ident x = ident r \<or> get (key r) s = Some x \<and> \<not> fence x < fence r)"
    proof (rule ccontr)
      assume none: "\<not> ?thesis"
      then have fresh: "ident x \<noteq> ident r" if "get k s = Some x" for k x
        using that by blast
      show False
      proof (cases "get (key r) s")
        case None
        from put_first [OF assms(1) None] fresh False show False by blast
      next
        case (Some x)
        with none have "fence x < fence r" by blast
        from put_newer [OF assms(1) Some this] fresh False show False by blast
      qed
    qed
    then obtain k x where "get k s = Some x"
      and "ident x = ident r \<or> get (key r) s = Some x \<and> \<not> fence x < fence r"
      by blast
    then have "get (key r) s = Some x \<and> fence r \<le> fence x \<and> put r s = s"
    proof (elim disjE conjE)
      assume "get k s = Some x" and ident: "ident x = ident r"
      then show ?thesis using same put_same [OF _ ident] by (metis order_refl)
    next
      assume x: "get (key r) s = Some x" and "\<not> fence x < fence r"
      with put_stale [OF x] show ?thesis by (simp add: not_less)
    qed
    then have x: "get (key r) s = Some x" and le: "fence r \<le> fence x" and unchanged: "put r s = s"
      by blast+
    show ?thesis
      unfolding unchanged holds_newest_def using known newest x le by auto
  qed
qed

lemma offers_hold_newest:
  assumes "consistent rs" and "ok s" and "\<And>k. get k s = None"
  shows "holds_newest rs (foldl (\<lambda>s r. put r s) s rs) \<and> ok (foldl (\<lambda>s r. put r s) s rs)"
  using assms(1)
proof (induction rs rule: rev_induct)
  case Nil
  show ?case using assms(2,3) by (simp add: holds_newest_def)
next
  case (snoc r rs)
  have "consistent rs" using snoc.prems unfolding consistent_def set_append by blast
  then have IH: "holds_newest rs (foldl (\<lambda>s r. put r s) s rs)" "ok (foldl (\<lambda>s r. put r s) s rs)"
    using snoc.IH by simp_all
  show ?case
    using put_holds_newest [OF IH(2,1) snoc.prems] put_ok [OF IH(2)] by simp
qed

end

text \<open>The table after an upsert whose error, if any, was rolled back to the savepoint.\<close>

definition offer_apply :: "active_offer \<Rightarrow> active_offer list \<Rightarrow> active_offer list" where
  "offer_apply r t = (case offer_upsert r t of Inl _ \<Rightarrow> t | Inr (_, t') \<Rightarrow> t')"

lemma offer_apply_eq:
  "offer_apply r t =
     (case offer_get_by_conversation (ao_conversation_id r) t of
        None \<Rightarrow>
          if sql_one (\<lambda>x. ao_source_outbound_id x = ao_source_outbound_id r) t = None then t @ [r] else t
      | Some x \<Rightarrow>
          if ao_source_outbound_id x \<noteq> ao_source_outbound_id r \<and> offer_fence x < offer_fence r \<and>
             sql_one (\<lambda>x. ao_source_outbound_id x = ao_source_outbound_id r) t = None
          then sql_put ao_conversation_id r t else t)"
  unfolding offer_apply_def offer_upsert_def Let_def by (auto split: option.split)

lemma offer_apply_cases:
  obtains (insert) "offer_apply r t = t @ [r]" and "offer_get_by_conversation (ao_conversation_id r) t = None"
  | (replace) x where "offer_apply r t = sql_put ao_conversation_id r t"
      and "offer_get_by_conversation (ao_conversation_id r) t = Some x" and "offer_fence x < offer_fence r"
  | (keep) "offer_apply r t = t"
proof (cases "offer_get_by_conversation (ao_conversation_id r) t")
  case None
  then have "offer_apply r t = t @ [r] \<or> offer_apply r t = t"
    by (simp add: offer_apply_eq)
  with None insert keep show ?thesis by blast
next
  case (Some x)
  then have "offer_apply r t = sql_put ao_conversation_id r t \<and> offer_fence x < offer_fence r \<or>
      offer_apply r t = t"
    by (simp add: offer_apply_eq)
  with Some replace [of x] keep show ?thesis by blast
qed

lemma offer_apply_same:
  "offer_get_by_conversation (ao_conversation_id r) t = Some x \<Longrightarrow>
   ao_source_outbound_id x = ao_source_outbound_id r \<or> \<not> offer_fence x < offer_fence r \<Longrightarrow> offer_apply r t = t"
  unfolding offer_apply_def offer_upsert_def Let_def by auto

lemma offer_get_row: "offer_get_by_conversation k t = Some x \<Longrightarrow> ao_conversation_id x = k \<and> x \<in> set t"
  unfolding offer_get_by_conversation_def by (drule sql_one_Some) simp

lemma offer_apply_fresh:
  assumes "distinct (map ao_conversation_id t)"
    and "\<forall>k x. offer_get_by_conversation k t = Some x \<longrightarrow> ao_source_outbound_id x \<noteq> ao_source_outbound_id r"
  shows "sql_one (\<lambda>x. ao_source_outbound_id x = ao_source_outbound_id r) t = None"
proof -
  have "ao_source_outbound_id x \<noteq> ao_source_outbound_id r" if "x \<in> set t" for x
    using assms(2) sql_one_the_row [OF assms(1) that] by (simp add: offer_get_by_conversation_def)
  then show ?thesis by (simp add: sql_one_None)
qed

interpretation offers: newest_wins offer_get_by_conversation offer_apply
    "\<lambda>t. distinct (map ao_conversation_id t)" ao_conversation_id ao_source_outbound_id offer_fence
proof
  fix s :: "active_offer list" and r k x
  show "distinct (map ao_conversation_id (offer_apply r s))" if "distinct (map ao_conversation_id s)"
    using that by (cases rule: offer_apply_cases [of r s])
      (auto simp: offer_get_by_conversation_def sql_one_None)
  show "ao_conversation_id x = k" if "offer_get_by_conversation k s = Some x"
    using offer_get_row [OF that] by simp
  show "offer_get_by_conversation k (offer_apply r s) = offer_get_by_conversation k s"
    if "k \<noteq> ao_conversation_id r"
    using that by (cases rule: offer_apply_cases [of r s])
      (auto simp: offer_get_by_conversation_def sql_one_append sql_one_put_other split: option.splits)
  show "offer_apply r s = s"
    if "offer_get_by_conversation (ao_conversation_id r) s = Some x"
      and "ao_source_outbound_id x = ao_source_outbound_id r"
    using offer_apply_same that by blast
  show "offer_apply r s = s"
    if "offer_get_by_conversation (ao_conversation_id r) s = Some x" and "\<not> offer_fence x < offer_fence r"
    using offer_apply_same that by blast
  show "offer_get_by_conversation (ao_conversation_id r) (offer_apply r s) = Some r"
    if "distinct (map ao_conversation_id s)" and none: "offer_get_by_conversation (ao_conversation_id r) s = None"
      and "\<And>k x. offer_get_by_conversation k s = Some x \<Longrightarrow> ao_source_outbound_id x \<noteq> ao_source_outbound_id r"
  proof -
    have "offer_apply r s = s @ [r]"
      using none offer_apply_fresh [of s r] that(1,3) by (simp add: offer_apply_eq)
    then show ?thesis
      using none by (simp add: offer_get_by_conversation_def sql_one_append)
  qed
  show "offer_get_by_conversation (ao_conversation_id r) (offer_apply r s) = Some r"
    if dist: "distinct (map ao_conversation_id s)"
      and old: "offer_get_by_conversation (ao_conversation_id r) s = Some x"
      and newer: "offer_fence x < offer_fence r"
      and fresh: "\<And>k x. offer_get_by_conversation k s = Some x \<Longrightarrow> ao_source_outbound_id x \<noteq> ao_source_outbound_id r"
  proof -
    have "offer_apply r s = sql_put ao_conversation_id r s"
      using old newer fresh [OF old] offer_apply_fresh [of s r] dist fresh by (simp add: offer_apply_eq)
    moreover have "ao_conversation_id x = ao_conversation_id r" and "x \<in> set s"
      using offer_get_row [OF old] by simp_all
    ultimately show ?thesis
      using sql_one_put [of x s ao_conversation_id r] by (simp add: offer_get_by_conversation_def)
  qed
qed

lemma offers_table:
  assumes "offers.consistent rs"
  shows "offers.holds_newest rs (foldl (\<lambda>t r. offer_apply r t) [] rs)"
    and "distinct (map ao_conversation_id (foldl (\<lambda>t r. offer_apply r t) [] rs))"
  using offers.offers_hold_newest [OF assms, of "[]"] by (simp_all add: offer_get_by_conversation_def)

lemma offer_upsert_never_fails:
  assumes "offers.consistent (us @ [r])"
  shows "offer_upsert r (foldl (\<lambda>t r. offer_apply r t) [] us) \<noteq> Inl e"
proof -
  let ?t = "foldl (\<lambda>t r. offer_apply r t) [] us"
  have "offers.consistent us"
    using assms unfolding offers.consistent_def set_append by blast
  note table = offers_table [OF this]
  have "offer_get_by_conversation (ao_conversation_id r) ?t = Some y"
    if y: "sql_one (\<lambda>x. ao_source_outbound_id x = ao_source_outbound_id r) ?t = Some y" for y
  proof -
    have row: "y \<in> set ?t" and same: "ao_source_outbound_id y = ao_source_outbound_id r"
      using sql_one_Some [OF y] by simp_all
    have get: "offer_get_by_conversation (ao_conversation_id y) ?t = Some y"
      using sql_one_the_row [OF table(2) row] by (simp add: offer_get_by_conversation_def)
    then have "y \<in> set us"
      using table(1) by (simp add: offers.holds_newest_def)
    then have "ao_conversation_id y = ao_conversation_id r"
      using assms same unfolding offers.consistent_def set_append by (metis UnI1 UnI2 list.set_intros(1))
    with get show ?thesis by simp
  qed
  then show ?thesis
    unfolding offer_upsert_def Let_def by (auto split: option.split dest: sql_one_Some)
qed

text \<open>
  The newest offer wins, whatever the order in which deliveries are reported: for a sequence of
  upserts in which one message always comes with the same dialog and fence, no upsert fails, every
  dialog of the sequence ends with an active offer taken from the sequence, and no offer of that dialog
  in the sequence has a greater fence.
\<close>

theorem active_offer_newest_wins:
  assumes "\<forall>r \<in> set rs. \<forall>r' \<in> set rs. ao_source_outbound_id r = ao_source_outbound_id r' \<longrightarrow>
      ao_conversation_id r = ao_conversation_id r' \<and> offer_fence r = offer_fence r'"
    and "rs = us @ r # vs"
  shows "(\<exists>x. offer_get_by_conversation (ao_conversation_id r) (foldl (\<lambda>t r. offer_apply r t) [] rs) = Some x \<and>
      x \<in> set rs \<and> ao_conversation_id x = ao_conversation_id r \<and> offer_fence r \<le> offer_fence x) \<and>
    (\<exists>action t'. offer_upsert r (foldl (\<lambda>t r. offer_apply r t) [] us) = Inr (action, t'))"
proof (rule conjI)
  let ?t = "foldl (\<lambda>t r. offer_apply r t) [] rs"
  have consistent: "offers.consistent rs"
    unfolding offers.consistent_def using assms(1) by blast
  note new = offers_table [OF consistent]
  obtain x where x: "offer_get_by_conversation (ao_conversation_id r) ?t = Some x" "offer_fence r \<le> offer_fence x"
    using new(1) assms(2) unfolding offers.holds_newest_def by force
  with new(1) offer_get_row [OF x(1)]
  show "\<exists>x. offer_get_by_conversation (ao_conversation_id r) ?t = Some x \<and>
      x \<in> set rs \<and> ao_conversation_id x = ao_conversation_id r \<and> offer_fence r \<le> offer_fence x"
    unfolding offers.holds_newest_def by blast
  have "offers.consistent (us @ [r])"
    using consistent unfolding offers.consistent_def assms(2) by (simp only: set_append list.set) blast
  from offer_upsert_never_fails [OF this]
  show "\<exists>action t'. offer_upsert r (foldl (\<lambda>t r. offer_apply r t) [] us) = Inr (action, t')"
    by (metis sumE surj_pair)
qed

section \<open>Offered slots\<close>

lemma slot_of_item_to_json:
  "active_offer_slot_of_item item = Inr slot \<Longrightarrow> active_offer_slot_of_item (slot_to_json_dict slot) = Inr slot"
  unfolding active_offer_slot_of_item_def active_offer_slot_init_def slot_to_json_dict_def
  by (auto split: json.splits sum.splits)

lemma slots_loop_Inr:
  assumes "active_offer_slots_loop items seen slots = Inr out"
    and "\<forall>s \<in> set slots. active_offer_slot_of_item (slot_to_json_dict s) = Inr s"
    and "set (map as_slot_id slots) = set seen" and "distinct (map as_slot_id slots)"
  shows "distinct (map as_slot_id out) \<and> length out = length slots + length items \<and>
    (\<forall>s \<in> set out. active_offer_slot_of_item (slot_to_json_dict s) = Inr s)"
  using assms
proof (induction items seen slots rule: active_offer_slots_loop.induct)
  case (1 seen slots)
  then show ?case by simp
next
  case (2 item items seen slots)
  then obtain s where item: "active_offer_slot_of_item item = Inr s" and fresh: "as_slot_id s \<notin> set seen"
    and rest: "active_offer_slots_loop items (as_slot_id s # seen) (slots @ [s]) = Inr out"
    by (auto split: sum.splits if_splits)
  from "2.IH" [OF item fresh rest] "2.prems" fresh slot_of_item_to_json [OF item]
  show ?case by auto
qed

lemma slots_loop_of_slots:
  assumes "\<forall>s \<in> set out. active_offer_slot_of_item (slot_to_json_dict s) = Inr s"
    and "distinct (map as_slot_id out)" and "set seen \<inter> set (map as_slot_id out) = {}"
  shows "active_offer_slots_loop (map slot_to_json_dict out) seen slots = Inr (slots @ out)"
  using assms by (induction out arbitrary: seen slots) auto

lemma require_slots_Inr:
  assumes "require_active_offer_slots v = Inr slots"
  shows "distinct (map as_slot_id slots)" and "slots \<noteq> []" and "length slots \<le> MAX_ACTIVE_OFFER_SLOTS"
    and "require_active_offer_slots (JList (map slot_to_json_dict slots)) = Inr slots"
proof -
  obtain items where items: "items \<noteq> []" "length items \<le> MAX_ACTIVE_OFFER_SLOTS"
    and loop: "active_offer_slots_loop items [] [] = Inr slots"
    using assms by (auto simp: require_active_offer_slots_def split: json.splits if_splits)
  have "distinct (map as_slot_id slots) \<and> length slots = length items \<and>
      (\<forall>s \<in> set slots. active_offer_slot_of_item (slot_to_json_dict s) = Inr s)"
    using slots_loop_Inr [OF loop] by simp
  with items slots_loop_of_slots [of slots "[]" "[]"]
  show "distinct (map as_slot_id slots)" and "slots \<noteq> []" and "length slots \<le> MAX_ACTIVE_OFFER_SLOTS"
    and "require_active_offer_slots (JList (map slot_to_json_dict slots)) = Inr slots"
    by (auto simp: require_active_offer_slots_def)
qed

lemma find_distinct_key:
  "distinct (map key xs) \<Longrightarrow> x \<in> set xs \<Longrightarrow> find (\<lambda>y. key y = key x) xs = Some x"
  by (induction xs) auto

lemma slots_nonempty_ids:
  assumes "require_active_offer_slots v = Inr slots" and "s \<in> set slots"
  shows "as_slot_id s \<noteq> []"
proof -
  obtain items where loop: "active_offer_slots_loop items [] [] = Inr slots"
    using assms(1) by (auto simp: require_active_offer_slots_def split: json.splits if_splits)
  have "active_offer_slot_of_item (slot_to_json_dict s) = Inr s"
    using slots_loop_Inr [OF loop] assms(2) by simp
  then show ?thesis
    by (auto simp: active_offer_slot_of_item_def slot_to_json_dict_def active_offer_slot_init_def
        parse_bot_slot_id_def split: sum.splits)
qed

lemma offer_upsert_wins:
  assumes "offer_upsert r t = Inr (action, t')" and "action = ''activated'' \<or> action = ''replaced''"
  shows "offer_get_by_conversation (ao_conversation_id r) t' = Some r"
proof (cases "offer_get_by_conversation (ao_conversation_id r) t")
  case None
  then have "t' = t @ [r]"
    using assms(1) by (simp add: offer_upsert_def Let_def split: if_splits)
  with None show ?thesis by (simp add: offer_get_by_conversation_def sql_one_append)
next
  case (Some x)
  then have "t' = sql_put ao_conversation_id r t"
    using assms by (auto simp add: offer_upsert_def Let_def split: if_splits)
  with offer_get_row [OF Some] sql_one_put [of x t ao_conversation_id r] show ?thesis
    by (simp add: offer_get_by_conversation_def)
qed

lemma activate_Inr:
  assumes "activate_from_delivered_outbound now ob t = Inr (res, t')" and "ar_outcome res \<in> {ACTIVATED, REPLACED}"
  obtains slots r where
    "require_active_offer_slots (dict_get (o_payload_json ob) ''booking_offered_slots'') = Inr slots"
    and "ao_conversation_id r = o_conversation_id ob" and "ao_source_outbound_id r = o_id ob"
    and "ao_offered_slots r = JList (map slot_to_json_dict slots)"
    and "offer_get_by_conversation (o_conversation_id ob) t' = Some r"
    and "o_delivery_status ob = Out_DELIVERED"
proof -
  from assms obtain ctx slots action where
    st: "o_delivery_status ob = Out_DELIVERED" and
    slots: "require_active_offer_slots (dict_get (o_payload_json ob) ''booking_offered_slots'') = Inr slots" and
    up: "upsert_if_newer_or_same_outbound (o_conversation_id ob) (o_id ob) ctx (o_manager_epoch ob)
      (o_event_seq_hwm ob) (JList (map slot_to_json_dict slots)) now t = Inr (action, t')" and
    res: "res = activate_outcome action"
    unfolding activate_from_delivered_outbound_def offer_rejected_def
    by (auto split: if_splits option.splits sum.splits)
  define r where "r = \<lparr> ao_conversation_id = o_conversation_id ob, ao_source_outbound_id = o_id ob,
       ao_source_context_version = ctx, ao_source_manager_epoch = o_manager_epoch ob,
       ao_source_event_seq_hwm = o_event_seq_hwm ob, ao_offered_slots = JList (map slot_to_json_dict slots),
       ao_activated_at = now, ao_updated_at = now \<rparr>"
  have upsert: "offer_upsert r t = Inr (action, t')"
    using up unfolding upsert_if_newer_or_same_outbound_def r_def .
  have "action = ''activated'' \<or> action = ''replaced''"
    using assms(2) res by (auto simp: activate_outcome_def split: if_splits)
  from offer_upsert_wins [OF upsert this] show thesis
    using that [of slots r] st slots by (simp add: r_def)
qed

text \<open>
  What a client can confirm is exactly what was delivered: once a delivered \<open>OFFER_SLOTS\<close> message
  is activated (first or replacing), a slot id resolves to the start time the message gave it, and to
  nothing when the message does not offer it; after the offer is invalidated no slot id resolves.
\<close>

theorem active_offer_resolves_delivered:
  assumes "activate_from_delivered_outbound now ob t = Inr (res, t')"
    and "ar_outcome res \<in> {ACTIVATED, REPLACED}"
  shows "(\<exists>slots. require_active_offer_slots (dict_get (o_payload_json ob) ''booking_offered_slots'') = Inr slots \<and>
      o_delivery_status ob = Out_DELIVERED \<and>
      (\<forall>slot_id. resolve_slot (o_conversation_id ob) slot_id t' =
        (case find (\<lambda>s. as_slot_id s = slot_id) slots of
           None \<Rightarrow> SlotNotActive | Some s \<Rightarrow> SlotFound (as_starts_at s) (o_id ob)))) \<and>
    (\<forall>slot_id. resolve_slot (o_conversation_id ob) slot_id (snd (offer_invalidate (o_conversation_id ob) t')) = SlotNotActive)"
proof (intro conjI allI)
  obtain slots r where slots: "require_active_offer_slots (dict_get (o_payload_json ob) ''booking_offered_slots'') = Inr slots"
    and r: "ao_source_outbound_id r = o_id ob" "ao_offered_slots r = JList (map slot_to_json_dict slots)"
    and row: "offer_get_by_conversation (o_conversation_id ob) t' = Some r"
    and st: "o_delivery_status ob = Out_DELIVERED"
    using activate_Inr [OF assms] by metis
  have none: "find (\<lambda>s. as_slot_id s = []) slots = None"
    using slots_nonempty_ids [OF slots] by (auto simp: find_None_iff)
  have "resolve_slot (o_conversation_id ob) slot_id t' =
        (case find (\<lambda>s. as_slot_id s = slot_id) slots of
           None \<Rightarrow> SlotNotActive | Some s \<Rightarrow> SlotFound (as_starts_at s) (o_id ob))" for slot_id
    using none r require_slots_Inr(4) [OF slots] by (auto simp: resolve_slot_def row split: option.split)
  with slots st show "\<exists>slots. require_active_offer_slots (dict_get (o_payload_json ob) ''booking_offered_slots'') = Inr slots \<and>
      o_delivery_status ob = Out_DELIVERED \<and>
      (\<forall>slot_id. resolve_slot (o_conversation_id ob) slot_id t' =
        (case find (\<lambda>s. as_slot_id s = slot_id) slots of
           None \<Rightarrow> SlotNotActive | Some s \<Rightarrow> SlotFound (as_starts_at s) (o_id ob)))"
    by blast
  show "resolve_slot (o_conversation_id ob) slot_id (snd (offer_invalidate (o_conversation_id ob) t')) = SlotNotActive" for slot_id
    by (auto simp: resolve_slot_def offer_invalidate_def delete_by_conversation_def offer_get_by_conversation_def
        dest!: sql_one_Some split: option.split)
qed

section \<open>An offer delivered twice and out of order\<close>

definition offer_demo_outbound :: "uuid \<Rightarrow> int \<Rightarrow> outbox_message" where
  "offer_demo_outbound i ctx =
     (draft_new_row i 0 ''conv'' ''inbox'' [(''booking_action'', JStr ''OFFER_SLOTS''), (''booking_offered_slots'',
        JList [JObj [(''slot_id'', JStr slot_demo), (''starts_at'', JStr ''2028-02-29T18:30:00+05:00'')]])])
     \<lparr> o_delivery_status := Out_DELIVERED, o_context_version := Some ctx \<rparr>"

definition offer_demo_row :: "uuid \<Rightarrow> int \<Rightarrow> active_offer" where
  "offer_demo_row i ctx = \<lparr> ao_conversation_id = ''conv'', ao_source_outbound_id = i,
     ao_source_context_version = ctx, ao_source_manager_epoch = 0, ao_source_event_seq_hwm = 0,
     ao_offered_slots = JList [JObj [(''slot_id'', JStr slot_demo), (''starts_at'', JStr ''2028-02-29T18:30:00+05:00'')]],
     ao_activated_at = 5, ao_updated_at = 5 \<rparr>"

lemma offer_demo_activate:
  "activate_from_delivered_outbound 5 (offer_demo_outbound ''m1'' 3) [] =
     Inr (\<lparr> ar_outcome = ACTIVATED, ar_reason_code = None \<rparr>, [offer_demo_row ''m1'' 3])"
  by code_simp

theorem active_offer_resolves_delivered_witness:
  "resolve_slot ''conv'' slot_demo (snd (offer_invalidate ''conv'' [offer_demo_row ''m1'' 3])) = SlotNotActive"
proof -
  have "o_conversation_id (offer_demo_outbound ''m1'' 3) = ''conv''" by code_simp
  with active_offer_resolves_delivered [OF offer_demo_activate] show ?thesis by simp
qed

theorem active_offer_newest_wins_witness:
  "\<exists>x. offer_get_by_conversation ''conv''
      (foldl (\<lambda>t r. offer_apply r t) [] [offer_demo_row ''m2'' 4, offer_demo_row ''m1'' 3]) = Some x \<and>
    offer_fence (offer_demo_row ''m2'' 4) \<le> offer_fence x"
  using active_offer_newest_wins [of "[offer_demo_row ''m2'' 4, offer_demo_row ''m1'' 3]" "[]"
      "offer_demo_row ''m2'' 4" "[offer_demo_row ''m1'' 3]"]
  by (auto simp: offer_demo_row_def)

end
