(* ===== verification/Create_Pending.thy ===== *)
theory Create_Pending
  imports Active_Offer Conversation
begin

text \<open>
  Confirmed self-booking commands: models/self_booking_create_pending.py,
  core/self_booking_create_types.py, repositories/self_booking_create_pendings.py,
  services/self_booking_create_pending.py, services/self_booking_confirm_admission.py,
  services/self_booking_create_execution.py and its worker. A client's confirmation of an offered slot
  becomes one durable row with the fences of the dialog and a caller-owned idempotency key; a worker
  leases the row, checks the fences again, and only then calls the booking service.

  Parameters of the model: the encrypted store of the client's phone and name (an object the services
  receive), given as what it answers, and the booking service behind
  \<open>confirm_selected_slot_for_conversation\<close>, given as a function from the request to its result. The
  calls made to both are returned as a list of effects.
\<close>

section \<open>Data\<close>

datatype SelfBookingCreatePendingState =
    SB_READY
  | SB_EXECUTING
  | SB_SUCCEEDED
  | SB_FAILED
  | SB_CANCELLED
  | SB_EXPIRED

definition ACTIVE_SELF_BOOKING_CREATE_STATES :: "SelfBookingCreatePendingState list" where
  "ACTIVE_SELF_BOOKING_CREATE_STATES = [SB_READY, SB_EXECUTING]"

definition TERMINAL_SELF_BOOKING_CREATE_STATES :: "SelfBookingCreatePendingState list" where
  "TERMINAL_SELF_BOOKING_CREATE_STATES = [SB_SUCCEEDED, SB_FAILED, SB_CANCELLED, SB_EXPIRED]"

fun sb_state_value :: "SelfBookingCreatePendingState \<Rightarrow> string" where
  "sb_state_value SB_READY = ''READY''"
| "sb_state_value SB_EXECUTING = ''EXECUTING''"
| "sb_state_value SB_SUCCEEDED = ''SUCCEEDED''"
| "sb_state_value SB_FAILED = ''FAILED''"
| "sb_state_value SB_CANCELLED = ''CANCELLED''"
| "sb_state_value SB_EXPIRED = ''EXPIRED''"

definition EXECUTION_LEASE_SECONDS :: int where
  "EXECUTION_LEASE_SECONDS = 60"

definition SB_DEFAULT_MAX_ATTEMPTS :: int where
  "SB_DEFAULT_MAX_ATTEMPTS = 3"

record create_pending =
  sb_id :: uuid
  sb_conversation_id :: uuid
  sb_channel :: string
  sb_confirm_external_message_id :: string
  sb_state :: SelfBookingCreatePendingState
  sb_command_version :: int
  sb_attempt_count :: int
  sb_max_attempts :: int
  sb_idempotency_key :: string
  sb_slot_id :: string
  sb_starts_at :: string
  sb_fence_context_version :: int
  sb_fence_manager_epoch :: int
  sb_fence_event_seq_hwm :: int
  sb_phone_ref_token :: string
  sb_name_ref_token :: string
  sb_execution_lease_token :: "uuid option"
  sb_execution_lease_expires_at :: "moment option"
  sb_result_code :: "string option"
  sb_result_outcome :: "string option"
  sb_created_at :: moment

datatype SelfBookingCreateAdmitOutcome =
    Admit_ADMITTED
  | Admit_DUPLICATE
  | Admit_ACTIVE_EXISTS
  | Admit_INVALID_INPUT
  | Admit_CONVERSATION_MISSING
  | Admit_FENCE_STALE
  | Admit_HANDOFF_BLOCKED

record admit_result =
  am_outcome :: SelfBookingCreateAdmitOutcome
  am_pending_id :: "uuid option"
  am_idempotency_key :: "string option"
  am_reason_code :: "string option"

record admit_request =
  rq_conversation_id :: uuid
  rq_channel :: string
  rq_confirm_external_message_id :: string
  rq_slot_id :: string
  rq_starts_at :: string
  rq_fence_context_version :: int
  rq_fence_manager_epoch :: int
  rq_fence_event_seq_hwm :: int
  rq_personal_data_consent :: bool
  rq_offer_acknowledgement :: bool
  rq_phone_ref_token :: string
  rq_name_ref_token :: string
  rq_idempotency_key :: string
  rq_max_attempts :: int

section \<open>Validation\<close>

definition printable_char :: "char \<Rightarrow> bool" where
  "printable_char c = (33 \<le> ord_char c \<and> ord_char c \<le> 126)"

definition require_self_booking_channel :: "string \<Rightarrow> exn + string" where
  "require_self_booking_channel v =
     (if v \<noteq> ''synthetic'' then Inl (ValueError ''SELF_BOOKING_CHANNEL_INVALID'') else Inr v)"

definition normalize_confirm_external_message_id :: "string \<Rightarrow> exn + string" where
  "normalize_confirm_external_message_id v =
     (let bad = ValueError ''SELF_BOOKING_CONFIRM_MESSAGE_ID_INVALID'' in
      if v = [] then Inl bad
      else if length v > 128 then Inl bad
      else if \<not> list_all printable_char v then Inl bad
      else Inr v)"

definition require_opaque_pii_ref_token :: "string \<Rightarrow> exn + string" where
  "require_opaque_pii_ref_token v =
     (let bad = ValueError ''SELF_BOOKING_PII_REF_INVALID'' in
      if v = [] then Inl bad
      else if \<not> (list_all printable_char v \<and> length v \<le> 64) then Inl bad
      else Inr v)"

definition require_pii_admission_request_id :: "string \<Rightarrow> exn + string" where
  "require_pii_admission_request_id v =
     (if v = [] then Inl (ValueError ''request_id invalid'')
      else if length v > 128 then Inl (ValueError ''request_id invalid'')
      else if \<not> list_all printable_char v then Inl (ValueError ''request_id invalid'')
      else Inr v)"

definition require_true_consent :: "bool \<Rightarrow> exn + bool" where
  "require_true_consent v = (if \<not> v then Inl (ValueError ''SELF_BOOKING_CONSENT_INVALID'') else Inr True)"

definition require_nonnegative_int :: "int \<Rightarrow> string \<Rightarrow> exn + int" where
  "require_nonnegative_int v code = (if v < 0 then Inl (ValueError code) else Inr v)"

definition require_positive_max_attempts :: "int \<Rightarrow> exn + int" where
  "require_positive_max_attempts v =
     (if v < 1 then Inl (ValueError ''SELF_BOOKING_MAX_ATTEMPTS_INVALID'') else Inr v)"

definition safe_selection_init :: "string \<Rightarrow> string \<Rightarrow> exn + active_offer_slot" where
  "safe_selection_init slot_id starts_at = active_offer_slot_init slot_id starts_at"

definition is_Inr :: "'a + 'b \<Rightarrow> bool" where
  "is_Inr v = (case v of Inl _ \<Rightarrow> False | Inr _ \<Rightarrow> True)"

text \<open>
  The \<open>try\<close> block at the start of \<open>admit_confirmed\<close>: each call raises or returns its argument
  unchanged (the key too, which is already canonical), so what matters is that none raises.
\<close>

definition admit_input_valid :: "admit_request \<Rightarrow> bool" where
  "admit_input_valid rq =
     (is_Inr (require_self_booking_channel (rq_channel rq)) \<and>
      is_Inr (normalize_confirm_external_message_id (rq_confirm_external_message_id rq)) \<and>
      is_Inr (safe_selection_init (rq_slot_id rq) (rq_starts_at rq)) \<and>
      is_Inr (require_nonnegative_int (rq_fence_context_version rq) ''SELF_BOOKING_FENCE_INVALID'') \<and>
      is_Inr (require_nonnegative_int (rq_fence_manager_epoch rq) ''SELF_BOOKING_FENCE_INVALID'') \<and>
      is_Inr (require_nonnegative_int (rq_fence_event_seq_hwm rq) ''SELF_BOOKING_FENCE_INVALID'') \<and>
      is_Inr (require_true_consent (rq_personal_data_consent rq)) \<and>
      is_Inr (require_true_consent (rq_offer_acknowledgement rq)) \<and>
      is_Inr (require_opaque_pii_ref_token (rq_phone_ref_token rq)) \<and>
      is_Inr (require_opaque_pii_ref_token (rq_name_ref_token rq)) \<and>
      is_Inr (require_canonical_idempotency_key (rq_idempotency_key rq)) \<and>
      is_Inr (require_positive_max_attempts (rq_max_attempts rq)))"

section \<open>Repository\<close>

definition sb_active :: "create_pending \<Rightarrow> bool" where
  "sb_active r = (sb_state r \<in> set ACTIVE_SELF_BOOKING_CREATE_STATES)"

definition sb_get_by_confirm :: "string \<Rightarrow> string \<Rightarrow> create_pending list \<Rightarrow> create_pending option" where
  "sb_get_by_confirm channel confirm_id t =
     sql_one (\<lambda>r. (sb_channel r, sb_confirm_external_message_id r) = (channel, confirm_id)) t"

definition sb_get_by_id :: "uuid \<Rightarrow> create_pending list \<Rightarrow> create_pending option" where
  "sb_get_by_id pid t = sql_one (\<lambda>r. sb_id r = pid) t"

definition lock_active_by_conversation :: "uuid \<Rightarrow> create_pending list \<Rightarrow> create_pending option" where
  "lock_active_by_conversation cid t = sql_one (\<lambda>r. sb_conversation_id r = cid \<and> sb_active r) t"

definition sb_new_row :: "uuid \<Rightarrow> moment \<Rightarrow> admit_request \<Rightarrow> create_pending" where
  "sb_new_row row_id now rq =
     \<lparr> sb_id = row_id, sb_conversation_id = rq_conversation_id rq, sb_channel = rq_channel rq,
       sb_confirm_external_message_id = rq_confirm_external_message_id rq, sb_state = SB_READY,
       sb_command_version = 1, sb_attempt_count = 0, sb_max_attempts = rq_max_attempts rq,
       sb_idempotency_key = rq_idempotency_key rq, sb_slot_id = rq_slot_id rq,
       sb_starts_at = rq_starts_at rq, sb_fence_context_version = rq_fence_context_version rq,
       sb_fence_manager_epoch = rq_fence_manager_epoch rq,
       sb_fence_event_seq_hwm = rq_fence_event_seq_hwm rq,
       sb_phone_ref_token = rq_phone_ref_token rq, sb_name_ref_token = rq_name_ref_token rq,
       sb_execution_lease_token = None, sb_execution_lease_expires_at = None, sb_result_code = None,
       sb_result_outcome = None, sb_created_at = now \<rparr>"

text \<open>The insert fails on the primary key, on the confirmation and on the partial index of active rows.\<close>

definition insert_pending :: "create_pending \<Rightarrow> create_pending list \<Rightarrow> exn + create_pending list" where
  "insert_pending r t =
     (if sb_get_by_id (sb_id r) t \<noteq> None then Inl (IntegrityError ''self_booking_create_pendings_pkey'')
      else if sb_get_by_confirm (sb_channel r) (sb_confirm_external_message_id r) t \<noteq> None
      then Inl (IntegrityError ''uq_self_booking_create_pendings_confirm'')
      else if sb_active r \<and> lock_active_by_conversation (sb_conversation_id r) t \<noteq> None
      then Inl (IntegrityError ''uq_self_booking_create_pendings_active_conversation'')
      else Inr (t @ [r]))"

definition sb_cas ::
  "(create_pending \<Rightarrow> bool) \<Rightarrow> (create_pending \<Rightarrow> create_pending) \<Rightarrow> create_pending list
     \<Rightarrow> bool \<times> create_pending list" where
  "sb_cas P f t = (sql_count P t = 1, sql_update P f t)"

definition sb_lease_row :: "uuid \<Rightarrow> moment \<Rightarrow> create_pending \<Rightarrow> create_pending" where
  "sb_lease_row token expires r =
     r \<lparr> sb_state := SB_EXECUTING, sb_execution_lease_token := Some token,
         sb_execution_lease_expires_at := Some expires, sb_attempt_count := sb_attempt_count r + 1,
         sb_result_code := None, sb_result_outcome := None \<rparr>"

definition sb_repo_claim_for_execution ::
  "create_pending \<Rightarrow> uuid \<Rightarrow> moment \<Rightarrow> int \<Rightarrow> create_pending list \<Rightarrow> bool \<times> create_pending list" where
  "sb_repo_claim_for_execution row token expires expected_version t =
     sb_cas (\<lambda>r. sb_id r = sb_id row \<and> sb_state r = SB_READY \<and> sb_command_version r = expected_version \<and>
               sb_attempt_count r < sb_max_attempts r)
       (sb_lease_row token expires) t"

definition sb_lease_expired :: "moment \<Rightarrow> create_pending \<Rightarrow> bool" where
  "sb_lease_expired now r =
     (case sb_execution_lease_expires_at r of None \<Rightarrow> False | Some u \<Rightarrow> u \<le> now)"

text \<open>The statement leaves \<open>state\<close> alone; it only matches rows that are \<open>EXECUTING\<close> already.\<close>

definition reclaim_expired_execution ::
  "create_pending \<Rightarrow> uuid \<Rightarrow> moment \<Rightarrow> int \<Rightarrow> moment \<Rightarrow> create_pending list \<Rightarrow> bool \<times> create_pending list" where
  "reclaim_expired_execution row token expires expected_version now t =
     sb_cas (\<lambda>r. sb_id r = sb_id row \<and> sb_state r = SB_EXECUTING \<and> sb_command_version r = expected_version \<and>
               sb_lease_expired now r \<and> sb_attempt_count r < sb_max_attempts r)
       (\<lambda>r. r \<lparr> sb_execution_lease_token := Some token, sb_execution_lease_expires_at := Some expires,
               sb_attempt_count := sb_attempt_count r + 1, sb_result_code := None,
               sb_result_outcome := None \<rparr>) t"

definition release_to_ready ::
  "create_pending \<Rightarrow> uuid \<Rightarrow> string option \<Rightarrow> create_pending list \<Rightarrow> bool \<times> create_pending list" where
  "release_to_ready row token result_code t =
     sb_cas (\<lambda>r. sb_id r = sb_id row \<and> sb_state r = SB_EXECUTING \<and> sb_execution_lease_token r = Some token)
       (\<lambda>r. r \<lparr> sb_state := SB_READY, sb_execution_lease_token := None,
               sb_execution_lease_expires_at := None, sb_result_code := result_code,
               sb_result_outcome := None \<rparr>) t"

definition sb_close_row ::
  "SelfBookingCreatePendingState \<Rightarrow> string option \<Rightarrow> string option \<Rightarrow> create_pending \<Rightarrow> create_pending" where
  "sb_close_row state code outcome r =
     r \<lparr> sb_state := state, sb_result_code := code, sb_result_outcome := outcome,
         sb_execution_lease_token := None, sb_execution_lease_expires_at := None \<rparr>"

definition sb_mark_terminal ::
  "create_pending \<Rightarrow> SelfBookingCreatePendingState \<Rightarrow> string option \<Rightarrow> string option \<Rightarrow> uuid option
     \<Rightarrow> create_pending list \<Rightarrow> exn + (bool \<times> create_pending list)" where
  "sb_mark_terminal row state code outcome lease t =
     (if state \<notin> set TERMINAL_SELF_BOOKING_CREATE_STATES
      then Inl (ValueError ''SELF_BOOKING_TERMINAL_STATE_INVALID'')
      else Inr (sb_cas
        (case lease of
           None \<Rightarrow> (\<lambda>r. sb_id r = sb_id row \<and> sb_active r)
         | Some token \<Rightarrow> (\<lambda>r. sb_id r = sb_id row \<and> sb_state r = SB_EXECUTING \<and>
                             sb_execution_lease_token r = Some token))
        (sb_close_row state code outcome) t))"

definition expire_exhausted_attempts :: "create_pending \<Rightarrow> create_pending list \<Rightarrow> bool \<times> create_pending list" where
  "expire_exhausted_attempts row t =
     sb_cas (\<lambda>r. sb_id r = sb_id row \<and> sb_state r = SB_READY \<and> sb_attempt_count r \<ge> sb_max_attempts r)
       (sb_close_row SB_EXPIRED (Some ''MAX_ATTEMPTS_EXCEEDED'') (Some (sb_state_value SB_EXPIRED))) t"

definition sb_claimable :: "moment \<Rightarrow> create_pending \<Rightarrow> bool" where
  "sb_claimable now r =
     (sb_attempt_count r < sb_max_attempts r \<and>
      (sb_state r = SB_READY \<or> sb_state r = SB_EXECUTING \<and> sb_lease_expired now r))"

definition lock_next_claimable_id :: "moment \<Rightarrow> (uuid \<Rightarrow> bool) \<Rightarrow> create_pending list \<Rightarrow> uuid option" where
  "lock_next_claimable_id now locked t =
     map_option sb_id (sql_first_by sb_created_at (\<lambda>r. sb_claimable now r \<and> \<not> locked (sb_id r)) t)"

section \<open>Admission service\<close>

definition admit_answer ::
  "SelfBookingCreateAdmitOutcome \<Rightarrow> create_pending option \<Rightarrow> string option \<Rightarrow> admit_result" where
  "admit_answer outcome row reason =
     \<lparr> am_outcome = outcome, am_pending_id = map_option sb_id row,
       am_idempotency_key = map_option sb_idempotency_key row, am_reason_code = reason \<rparr>"

definition admit_confirmed ::
  "uuid \<Rightarrow> moment \<Rightarrow> admit_request \<Rightarrow> conversation list \<Rightarrow> create_pending list
     \<Rightarrow> admit_result \<times> create_pending list" where
  "admit_confirmed row_id now rq cs t =
     (if \<not> admit_input_valid rq then (admit_answer Admit_INVALID_INPUT None (Some ''INVALID_INPUT''), t)
      else case sb_get_by_confirm (rq_channel rq) (rq_confirm_external_message_id rq) t of
        Some existing \<Rightarrow> (admit_answer Admit_DUPLICATE (Some existing) (Some ''CONFIRM_DUPLICATE''), t)
      | None \<Rightarrow>
      (case conv_get_by_id_for_update (rq_conversation_id rq) cs of
        None \<Rightarrow> (admit_answer Admit_CONVERSATION_MISSING None (Some ''CONVERSATION_MISSING''), t)
      | Some c \<Rightarrow>
          if \<not> conversation_allows_automatic_reply c
          then (admit_answer Admit_HANDOFF_BLOCKED None (Some ''HANDOFF_OR_TAKEOVER''), t)
          else if c_context_version c \<noteq> rq_fence_context_version rq \<or>
                  c_manager_epoch c \<noteq> rq_fence_manager_epoch rq \<or>
                  c_current_event_seq c \<noteq> rq_fence_event_seq_hwm rq
          then (admit_answer Admit_FENCE_STALE None (Some ''FENCE_STALE''), t)
          else case lock_active_by_conversation (rq_conversation_id rq) t of
            Some active \<Rightarrow> (admit_answer Admit_ACTIVE_EXISTS (Some active) (Some ''ACTIVE_PENDING_EXISTS''), t)
          | None \<Rightarrow>
          (case insert_pending (sb_new_row row_id now rq) t of
             Inr t' \<Rightarrow> (admit_answer Admit_ADMITTED (Some (sb_new_row row_id now rq)) None, t')
           | Inl _ \<Rightarrow>
               (case sb_get_by_confirm (rq_channel rq) (rq_confirm_external_message_id rq) t of
                  Some raced \<Rightarrow> (admit_answer Admit_DUPLICATE (Some raced) (Some ''CONFIRM_DUPLICATE''), t)
                | None \<Rightarrow>
                    (case lock_active_by_conversation (rq_conversation_id rq) t of
                       Some raced \<Rightarrow>
                         (admit_answer Admit_ACTIVE_EXISTS (Some raced) (Some ''ACTIVE_PENDING_EXISTS''), t)
                     | None \<Rightarrow> (admit_answer Admit_INVALID_INPUT None (Some ''INSERT_CONFLICT''), t))))))"

text \<open>
  \<open>claim_for_execution\<close> of the service: the row as it is after the claim, or nothing. A row out of
  attempts is closed here as a side effect.
\<close>

definition sb_claim_for_execution ::
  "uuid \<Rightarrow> uuid \<Rightarrow> moment \<Rightarrow> create_pending list \<Rightarrow> exn + (create_pending option \<times> create_pending list)" where
  "sb_claim_for_execution pid token now t =
     (case sb_get_by_id pid t of
        None \<Rightarrow> Inr (None, t)
      | Some row \<Rightarrow>
          if sb_state row = SB_READY then
            if sb_attempt_count row \<ge> sb_max_attempts row
            then Inr (None, snd (expire_exhausted_attempts row t))
            else
              (let (ok, t') = sb_repo_claim_for_execution row token (now + seconds EXECUTION_LEASE_SECONDS)
                                (sb_command_version row) t
               in if \<not> ok then Inr (None, t') else Inr (sb_get_by_id pid t', t'))
          else if sb_state row = SB_EXECUTING then
            if sb_lease_expired now row \<and> sb_attempt_count row \<ge> sb_max_attempts row
            then (case sb_mark_terminal row SB_EXPIRED (Some ''MAX_ATTEMPTS_EXCEEDED'')
                         (Some (sb_state_value SB_EXPIRED)) None t of
                    Inl e \<Rightarrow> Inl e
                  | Inr (_, t') \<Rightarrow> Inr (None, t'))
            else
              (let (ok, t') = reclaim_expired_execution row token (now + seconds EXECUTION_LEASE_SECONDS)
                                (sb_command_version row) now t
               in if \<not> ok then Inr (None, t') else Inr (sb_get_by_id pid t', t'))
          else Inr (None, t))"

definition sb_fences_stale :: "conversation \<Rightarrow> create_pending \<Rightarrow> bool" where
  "sb_fences_stale c row =
     (\<not> conversation_allows_automatic_reply c \<or>
      c_context_version c \<noteq> sb_fence_context_version row \<or>
      c_manager_epoch c \<noteq> sb_fence_manager_epoch row \<or>
      c_current_event_seq c \<noteq> sb_fence_event_seq_hwm row)"

definition cancel_if_conversation_fences_stale ::
  "uuid \<Rightarrow> conversation list \<Rightarrow> create_pending list \<Rightarrow> exn + (bool \<times> create_pending list)" where
  "cancel_if_conversation_fences_stale pid cs t =
     (case sb_get_by_id pid t of
        None \<Rightarrow> Inr (False, t)
      | Some row \<Rightarrow>
          if \<not> sb_active row then Inr (False, t)
          else case conv_get_by_id_for_update (sb_conversation_id row) cs of
            None \<Rightarrow> sb_mark_terminal row SB_CANCELLED (Some ''CONVERSATION_MISSING'')
                      (Some (sb_state_value SB_CANCELLED)) None t
          | Some c \<Rightarrow>
              if \<not> sb_fences_stale c row then Inr (False, t)
              else sb_mark_terminal row SB_CANCELLED (Some ''FENCE_STALE_OR_TAKEOVER'')
                     (Some (sb_state_value SB_CANCELLED)) None t)"

section \<open>Confirm admission\<close>

record pii_admission =
  pa_id :: uuid
  pa_conversation_id :: uuid
  pa_request_id :: string
  pa_phone_ref_token :: string
  pa_name_ref_token :: string

definition pii_get_by_request :: "uuid \<Rightarrow> string \<Rightarrow> pii_admission list \<Rightarrow> pii_admission option" where
  "pii_get_by_request cid request_id t =
     sql_one (\<lambda>r. pa_conversation_id r = cid \<and> pa_request_id r = request_id) t"

record confirm_action =
  ca_slot_id :: string
  ca_pii_admission_request_id :: string
  ca_personal_data_consent :: bool
  ca_offer_acknowledgement :: bool

datatype SelfBookingConfirmAdmissionOutcome =
    Confirm_ADMITTED
  | Confirm_DUPLICATE
  | Confirm_OFFER_NOT_ACTIVE
  | Confirm_PII_NOT_FOUND
  | Confirm_PII_EXPIRED
  | Confirm_HANDOFF_BLOCKED
  | Confirm_FAIL_CLOSED

record confirm_result =
  cf_outcome :: SelfBookingConfirmAdmissionOutcome
  cf_pending_id :: "uuid option"
  cf_idempotency_key :: "string option"
  cf_reason_code :: "string option"

definition confirm_answer :: "SelfBookingConfirmAdmissionOutcome \<Rightarrow> string \<Rightarrow> confirm_result" where
  "confirm_answer outcome reason =
     \<lparr> cf_outcome = outcome, cf_pending_id = None, cf_idempotency_key = None, cf_reason_code = Some reason \<rparr>"

fun admit_outcome_value :: "SelfBookingCreateAdmitOutcome \<Rightarrow> string" where
  "admit_outcome_value Admit_ADMITTED = ''ADMITTED''"
| "admit_outcome_value Admit_DUPLICATE = ''DUPLICATE''"
| "admit_outcome_value Admit_ACTIVE_EXISTS = ''ACTIVE_EXISTS''"
| "admit_outcome_value Admit_INVALID_INPUT = ''INVALID_INPUT''"
| "admit_outcome_value Admit_CONVERSATION_MISSING = ''CONVERSATION_MISSING''"
| "admit_outcome_value Admit_FENCE_STALE = ''FENCE_STALE''"
| "admit_outcome_value Admit_HANDOFF_BLOCKED = ''HANDOFF_BLOCKED''"

text \<open>\<open>reason or default\<close>: Python takes the default for None and for the empty string.\<close>

definition or_default :: "string option \<Rightarrow> string \<Rightarrow> string option" where
  "or_default reason d = (case reason of None \<Rightarrow> Some d | Some s \<Rightarrow> if s = [] then Some d else Some s)"

definition confirm_of_admit :: "admit_result \<Rightarrow> confirm_result" where
  "confirm_of_admit a =
     (case am_outcome a of
        Admit_ADMITTED \<Rightarrow> \<lparr> cf_outcome = Confirm_ADMITTED, cf_pending_id = am_pending_id a,
          cf_idempotency_key = am_idempotency_key a, cf_reason_code = None \<rparr>
      | Admit_DUPLICATE \<Rightarrow> \<lparr> cf_outcome = Confirm_DUPLICATE, cf_pending_id = am_pending_id a,
          cf_idempotency_key = am_idempotency_key a,
          cf_reason_code = or_default (am_reason_code a) ''CONFIRM_DUPLICATE'' \<rparr>
      | Admit_HANDOFF_BLOCKED \<Rightarrow> \<lparr> cf_outcome = Confirm_HANDOFF_BLOCKED, cf_pending_id = None,
          cf_idempotency_key = None, cf_reason_code = or_default (am_reason_code a) ''HANDOFF_OR_TAKEOVER'' \<rparr>
      | outcome \<Rightarrow> \<lparr> cf_outcome = Confirm_FAIL_CLOSED, cf_pending_id = None, cf_idempotency_key = None,
          cf_reason_code = or_default (am_reason_code a) (admit_outcome_value outcome) \<rparr>)"

text \<open>
  \<open>admit_from_confirm\<close>. \<open>alive\<close> is the store's answer to \<open>booking_phone_write_pair_alive\<close>, \<open>None\<close> when
  the call raises; \<open>key\<close> and \<open>row_id\<close> are the fresh uuids the code mints.
\<close>

definition admit_from_confirm ::
  "(string \<Rightarrow> string \<Rightarrow> uuid \<Rightarrow> bool option) \<Rightarrow> string \<Rightarrow> uuid \<Rightarrow> moment
     \<Rightarrow> uuid \<Rightarrow> string \<Rightarrow> string \<Rightarrow> confirm_action \<Rightarrow> int \<Rightarrow> int \<Rightarrow> int
     \<Rightarrow> conversation list \<Rightarrow> active_offer list \<Rightarrow> pii_admission list \<Rightarrow> create_pending list
     \<Rightarrow> confirm_result \<times> create_pending list" where
  "admit_from_confirm alive key row_id now cid channel confirm_id action ctx epoch hwm cs offers admissions t =
     (if \<not> (is_Inr (require_self_booking_channel channel) \<and>
            is_Inr (normalize_confirm_external_message_id confirm_id) \<and>
            is_Inr (require_pii_admission_request_id (ca_pii_admission_request_id action)) \<and>
            ca_slot_id action \<noteq> [])
      then (confirm_answer Confirm_FAIL_CLOSED ''INVALID_INPUT'', t)
      else case resolve_slot cid (ca_slot_id action) offers of
        SlotNotActive \<Rightarrow> (confirm_answer Confirm_OFFER_NOT_ACTIVE ''OFFER_NOT_ACTIVE'', t)
      | SlotFound starts_at _ \<Rightarrow>
          if starts_at = [] then (confirm_answer Confirm_FAIL_CLOSED ''OFFER_STARTS_AT_MISSING'', t)
          else case pii_get_by_request cid (ca_pii_admission_request_id action) admissions of
            None \<Rightarrow> (confirm_answer Confirm_PII_NOT_FOUND ''PII_NOT_FOUND'', t)
          | Some admission \<Rightarrow>
          (case alive (pa_phone_ref_token admission) (pa_name_ref_token admission) cid of
             None \<Rightarrow> (confirm_answer Confirm_FAIL_CLOSED ''PII_ALIVE_CHECK_FAILED'', t)
           | Some False \<Rightarrow> (confirm_answer Confirm_PII_EXPIRED ''PII_EXPIRED'', t)
           | Some True \<Rightarrow>
          (case sb_get_by_confirm channel confirm_id t of
             Some existing \<Rightarrow>
               (\<lparr> cf_outcome = Confirm_DUPLICATE, cf_pending_id = Some (sb_id existing),
                  cf_idempotency_key = Some (sb_idempotency_key existing),
                  cf_reason_code = Some ''CONFIRM_DUPLICATE'' \<rparr>, t)
           | None \<Rightarrow>
               (let (admitted, t') = admit_confirmed row_id now
                  \<lparr> rq_conversation_id = cid, rq_channel = channel, rq_confirm_external_message_id = confirm_id,
                    rq_slot_id = ca_slot_id action, rq_starts_at = starts_at,
                    rq_fence_context_version = ctx, rq_fence_manager_epoch = epoch,
                    rq_fence_event_seq_hwm = hwm,
                    rq_personal_data_consent = ca_personal_data_consent action,
                    rq_offer_acknowledgement = ca_offer_acknowledgement action,
                    rq_phone_ref_token = pa_phone_ref_token admission,
                    rq_name_ref_token = pa_name_ref_token admission,
                    rq_idempotency_key = key, rq_max_attempts = SB_DEFAULT_MAX_ATTEMPTS \<rparr> cs t
                in (confirm_of_admit admitted, t')))))"

section \<open>Execution\<close>

datatype BookingCreateMachineOutcome =
    Create_CONFIRMED
  | Create_SLOT_RESELECT_REQUIRED
  | Create_RETRY_LATER
  | Create_MANAGER_HANDOFF
  | Create_SERVICE_UNAVAILABLE
  | Create_FAIL_CLOSED

datatype BookingCreateResult =
    BookingCreateConfirmedResult string
  | BookingCreateRejectedResult BookingCreateMachineOutcome string

record create_request =
  cr_slot_id :: string
  cr_starts_at :: string
  cr_conversation_id :: uuid
  cr_idempotency_key :: string
  cr_client_name :: string
  cr_phone :: string

datatype exec_effect = CreateCall create_request | PiiDelete string

datatype SelfBookingCreateExecutionOutcome =
    Exec_SUCCEEDED
  | Exec_FAILED
  | Exec_CANCELLED
  | Exec_EXPIRED
  | Exec_RETRY_SCHEDULED
  | Exec_CLAIM_DENIED
  | Exec_LEASE_MISMATCH

record exec_result =
  ex_outcome :: SelfBookingCreateExecutionOutcome
  ex_pending_id :: uuid
  ex_pending_state :: "SelfBookingCreatePendingState option"
  ex_result_code :: "string option"
  ex_idempotency_key :: "string option"
  ex_booking_id :: "string option"

definition exec_answer ::
  "SelfBookingCreateExecutionOutcome \<Rightarrow> create_pending \<Rightarrow> SelfBookingCreatePendingState option
     \<Rightarrow> string option \<Rightarrow> exec_result" where
  "exec_answer outcome row state code =
     \<lparr> ex_outcome = outcome, ex_pending_id = sb_id row, ex_pending_state = state, ex_result_code = code,
       ex_idempotency_key = Some (sb_idempotency_key row), ex_booking_id = None \<rparr>"

definition lease_mismatch_result :: "create_pending \<Rightarrow> create_pending list \<Rightarrow> exec_result" where
  "lease_mismatch_result claimed t =
     exec_answer Exec_LEASE_MISMATCH claimed (map_option sb_state (sb_get_by_id (sb_id claimed) t))
       (Some ''LEASE_MISMATCH'')"

text \<open>
  \<open>_fail_terminal\<close>, also the closing step of the two failure branches that write the same columns.
\<close>

definition sb_fail_terminal ::
  "create_pending \<Rightarrow> uuid \<Rightarrow> string \<Rightarrow> create_pending list \<Rightarrow> exn + (exec_result \<times> create_pending list)" where
  "sb_fail_terminal claimed lease code t =
     (case sb_mark_terminal claimed SB_FAILED (Some code) (Some (sb_state_value SB_FAILED)) (Some lease) t of
        Inl e \<Rightarrow> Inl e
      | Inr (ok, t') \<Rightarrow>
          if \<not> ok then Inr (lease_mismatch_result claimed t', t')
          else Inr (exec_answer Exec_FAILED claimed (Some SB_FAILED) (Some code), t'))"

definition apply_create_result ::
  "create_pending \<Rightarrow> uuid \<Rightarrow> BookingCreateResult \<Rightarrow> create_pending list
     \<Rightarrow> exn + (exec_result \<times> exec_effect list \<times> create_pending list)" where
  "apply_create_result claimed lease result t =
     (case result of
        BookingCreateConfirmedResult booking_id \<Rightarrow>
          (case sb_mark_terminal claimed SB_SUCCEEDED (Some ''OK'') (Some (sb_state_value SB_SUCCEEDED))
                  (Some lease) t of
             Inl e \<Rightarrow> Inl e
           | Inr (ok, t') \<Rightarrow>
               if \<not> ok then Inr (lease_mismatch_result claimed t', [], t')
               else Inr ((exec_answer Exec_SUCCEEDED claimed (Some SB_SUCCEEDED) (Some ''OK''))
                           \<lparr> ex_booking_id := Some booking_id \<rparr>,
                         [PiiDelete (sb_phone_ref_token claimed), PiiDelete (sb_name_ref_token claimed)], t'))
      | BookingCreateRejectedResult machine reason \<Rightarrow>
          if machine = Create_RETRY_LATER then
            (let (ok, t') = release_to_ready claimed lease (Some reason) t
             in if \<not> ok then Inr (lease_mismatch_result claimed t', [], t')
                else Inr (exec_answer Exec_RETRY_SCHEDULED claimed (Some SB_READY) (Some reason), [], t'))
          else
            (case sb_fail_terminal claimed lease reason t of
               Inl e \<Rightarrow> Inl e
             | Inr (r, t') \<Rightarrow> Inr (r, [], t')))"

text \<open>
  \<open>create\<close> is \<open>confirm_selected_slot_for_conversation\<close> (Booking\_Create); an exception it lets through ends the
  execution. \<open>_slot_from_pending\<close> raises when a stored field is no longer valid. \<open>phone_of\<close> and \<open>name_of\<close> are the
  store's decryptions for the dialog, \<open>None\<close> when the call raises.
\<close>

definition slot_from_pending_valid :: "create_pending \<Rightarrow> bool" where
  "slot_from_pending_valid row =
     (is_Inr (require_canonical_booking_starts_at (sb_starts_at row)) \<and> is_Inr (parse_bot_slot_id (sb_slot_id row)))"

definition read_booking_pii ::
  "(uuid \<Rightarrow> string \<Rightarrow> string option) \<Rightarrow> (uuid \<Rightarrow> string \<Rightarrow> string option) \<Rightarrow> create_pending
     \<Rightarrow> (string \<times> string) option" where
  "read_booking_pii phone_of name_of row =
     (case (phone_of (sb_conversation_id row) (sb_phone_ref_token row),
            name_of (sb_conversation_id row) (sb_name_ref_token row)) of
        (Some phone, Some name) \<Rightarrow> if phone = [] \<or> name = [] then None else Some (phone, name)
      | _ \<Rightarrow> None)"

definition sb_create_request :: "create_pending \<Rightarrow> string \<Rightarrow> string \<Rightarrow> create_request" where
  "sb_create_request row phone name =
     \<lparr> cr_slot_id = sb_slot_id row, cr_starts_at = sb_starts_at row,
       cr_conversation_id = sb_conversation_id row, cr_idempotency_key = sb_idempotency_key row,
       cr_client_name = name, cr_phone = phone \<rparr>"

definition sb_execute ::
  "(uuid \<Rightarrow> string \<Rightarrow> string option) \<Rightarrow> (uuid \<Rightarrow> string \<Rightarrow> string option)
     \<Rightarrow> (create_request \<Rightarrow> exn + BookingCreateResult) \<Rightarrow> uuid \<Rightarrow> uuid \<Rightarrow> moment
     \<Rightarrow> conversation list \<Rightarrow> create_pending list
     \<Rightarrow> exn + (exec_result \<times> exec_effect list \<times> create_pending list)" where
  "sb_execute phone_of name_of create pid token now cs t =
     (case sb_claim_for_execution pid token now t of
        Inl e \<Rightarrow> Inl e
      | Inr (None, t1) \<Rightarrow>
          (let denied = \<lparr> ex_outcome = Exec_CLAIM_DENIED, ex_pending_id = pid, ex_pending_state = None,
                 ex_result_code = Some ''CLAIM_DENIED'', ex_idempotency_key = None, ex_booking_id = None \<rparr>
           in case sb_get_by_id pid t1 of
                Some row \<Rightarrow>
                  if sb_state row = SB_EXPIRED
                  then Inr (exec_answer Exec_EXPIRED row (Some SB_EXPIRED) (sb_result_code row), [], t1)
                  else Inr (denied, [], t1)
              | None \<Rightarrow> Inr (denied, [], t1))
      | Inr (Some claimed, t1) \<Rightarrow>
      (case sb_execution_lease_token claimed of
         None \<Rightarrow> Inr (exec_answer Exec_CLAIM_DENIED claimed (Some SB_EXECUTING) (Some ''LEASE_MISSING''), [], t1)
       | Some lease \<Rightarrow>
      (case cancel_if_conversation_fences_stale (sb_id claimed) cs t1 of
         Inl e \<Rightarrow> Inl e
       | Inr (cancelled, t2) \<Rightarrow>
          if cancelled
          then Inr (exec_answer Exec_CANCELLED claimed (Some SB_CANCELLED)
                      (case sb_get_by_id (sb_id claimed) t2 of None \<Rightarrow> None | Some r \<Rightarrow> sb_result_code r), [], t2)
          else case read_booking_pii phone_of name_of claimed of
            None \<Rightarrow>
              (case sb_fail_terminal claimed lease ''PII_UNAVAILABLE'' t2 of
                 Inl e \<Rightarrow> Inl e
               | Inr (r, t3) \<Rightarrow> Inr (r, [], t3))
          | Some (phone, name) \<Rightarrow>
              if \<not> slot_from_pending_valid claimed
              then (case sb_fail_terminal claimed lease ''SLOT_INVALID'' t2 of
                      Inl e \<Rightarrow> Inl e
                    | Inr (r, t3) \<Rightarrow> Inr (r, [], t3))
              else
                (let request = sb_create_request claimed phone name
                 in case create request of
                      Inl e \<Rightarrow> Inl e
                    | Inr result \<Rightarrow>
                        (case apply_create_result claimed lease result t2 of
                           Inl e \<Rightarrow> Inl e
                         | Inr (r, effects, t3) \<Rightarrow> Inr (r, CreateCall request # effects, t3))))))"

text \<open>The worker: discover a claimable row, then run it in a session of its own.\<close>

definition exec_worker_claim_one ::
  "bool \<Rightarrow> moment \<Rightarrow> (uuid \<Rightarrow> bool) \<Rightarrow> create_pending list \<Rightarrow> uuid option" where
  "exec_worker_claim_one has_pii_store now locked t =
     (if \<not> has_pii_store then None else lock_next_claimable_id now locked t)"

definition exec_worker_process_one ::
  "bool \<Rightarrow> (uuid \<Rightarrow> string \<Rightarrow> string option) \<Rightarrow> (uuid \<Rightarrow> string \<Rightarrow> string option)
     \<Rightarrow> (create_request \<Rightarrow> exn + BookingCreateResult) \<Rightarrow> uuid \<Rightarrow> uuid \<Rightarrow> moment
     \<Rightarrow> conversation list \<Rightarrow> create_pending list
     \<Rightarrow> exn + (exec_result \<times> exec_effect list \<times> create_pending list)" where
  "exec_worker_process_one has_pii_store phone_of name_of create pid token now cs t =
     (if \<not> has_pii_store then Inl (RuntimeError ''SELF_BOOKING_EXEC_PII_STORE_REQUIRED'')
      else sb_execute phone_of name_of create pid token now cs t)"

section \<open>Row steps\<close>

inductive sb_step :: "create_pending \<Rightarrow> create_pending \<Rightarrow> bool" where
  lease: "sb_active r \<Longrightarrow> sb_attempt_count r < sb_max_attempts r \<Longrightarrow> sb_step r (sb_lease_row token expires r)"
| release: "sb_state r = SB_EXECUTING \<Longrightarrow>
    sb_step r (r \<lparr> sb_state := SB_READY, sb_execution_lease_token := None,
      sb_execution_lease_expires_at := None, sb_result_code := code, sb_result_outcome := None \<rparr>)"
| close: "sb_active r \<Longrightarrow> st \<in> set TERMINAL_SELF_BOOKING_CREATE_STATES \<Longrightarrow> sb_step r (sb_close_row st code out r)"

definition sb_new :: "create_pending \<Rightarrow> bool" where
  "sb_new r = (\<exists>i now rq. r = sb_new_row i now rq \<and> 1 \<le> rq_max_attempts rq)"

definition sb_finished :: "create_pending \<Rightarrow> bool" where
  "sb_finished r = (sb_state r \<in> set TERMINAL_SELF_BOOKING_CREATE_STATES)"

text \<open>One call of a service on the table, with whatever dialogs, store and booking service it meets.\<close>

inductive sb_run :: "create_pending list \<Rightarrow> create_pending list \<Rightarrow> bool" where
  admit: "admit_confirmed row_id now rq cs t = (res, t') \<Longrightarrow> sb_run t t'"
| claim: "sb_claim_for_execution pid token now t = Inr (res, t') \<Longrightarrow> sb_run t t'"
| cancel: "cancel_if_conversation_fences_stale pid cs t = Inr (res, t') \<Longrightarrow> sb_run t t'"
| execute: "sb_execute phone_of name_of create pid token now cs t = Inr (res, effects, t') \<Longrightarrow> sb_run t t'"

lemma sb_active_iff: "sb_active r \<longleftrightarrow> sb_state r = SB_READY \<or> sb_state r = SB_EXECUTING"
  by (simp add: sb_active_def ACTIVE_SELF_BOOKING_CREATE_STATES_def)

lemma sb_finished_iff: "sb_finished r \<longleftrightarrow> \<not> sb_active r"
  by (cases "sb_state r") (auto simp: sb_finished_def sb_active_iff TERMINAL_SELF_BOOKING_CREATE_STATES_def)

text \<open>What never changes in a row: everything the confirmation fixed.\<close>

definition sb_command :: "create_pending \<Rightarrow> uuid \<times> uuid \<times> (string \<times> string) \<times> string \<times> (string \<times> string) \<times> (int \<times> int \<times> int) \<times> int" where
  "sb_command r = (sb_id r, sb_conversation_id r, (sb_channel r, sb_confirm_external_message_id r),
     sb_idempotency_key r, (sb_slot_id r, sb_starts_at r),
     (sb_fence_context_version r, sb_fence_manager_epoch r, sb_fence_event_seq_hwm r), sb_max_attempts r)"

lemma sb_step_command: "sb_step r r' \<Longrightarrow> sb_command r' = sb_command r"
  by (induction rule: sb_step.induct) (simp_all add: sb_command_def sb_lease_row_def sb_close_row_def)

lemma sb_command_cols:
  assumes "sb_command r' = sb_command r"
  shows "sb_id r' = sb_id r" and "sb_conversation_id r' = sb_conversation_id r"
    and "sb_channel r' = sb_channel r" and "sb_confirm_external_message_id r' = sb_confirm_external_message_id r"
    and "sb_idempotency_key r' = sb_idempotency_key r" and "sb_max_attempts r' = sb_max_attempts r"
    and "(sb_channel r', sb_confirm_external_message_id r') = (sb_channel r, sb_confirm_external_message_id r)"
  using assms by (simp_all add: sb_command_def)

lemma sb_step_active: "sb_step r r' \<Longrightarrow> sb_active r"
  by (auto simp: sb_active_iff elim: sb_step.cases)

lemma sb_step_fenced:
  assumes "sb_step r r'"
  shows "sb_attempt_count r \<le> sb_attempt_count r'"
    and "sb_attempt_count r' = sb_attempt_count r \<Longrightarrow> sb_execution_lease_token r' = None"
    and "sb_attempt_count r \<le> sb_max_attempts r \<Longrightarrow> sb_attempt_count r' \<le> sb_max_attempts r"
  using assms by (induction rule: sb_step.induct) (auto simp: sb_lease_row_def sb_close_row_def)

section \<open>Calls as row steps\<close>

definition sb_step_at :: "uuid \<Rightarrow> create_pending \<Rightarrow> create_pending \<Rightarrow> bool" where
  "sb_step_at pid r r' = (sb_step r r' \<and> sb_id r = pid)"

lemma sb_get_row: "sb_get_by_id pid t = Some row \<Longrightarrow> row \<in> set t \<and> sb_id row = pid"
  unfolding sb_get_by_id_def by (drule sql_one_Some) simp

lemma sb_cas_evolves:
  assumes "\<And>r. r \<in> set t \<Longrightarrow> P r \<Longrightarrow> sb_step_at pid r (f r)" and "sb_cas P f t = (ok, t')"
  shows "evolves N (sb_step_at pid) t t'"
  using assms by (auto simp: sb_cas_def intro: evolves_update1)

lemma sb_reclaim_row:
  "sb_state r = SB_EXECUTING \<Longrightarrow>
   r \<lparr> sb_execution_lease_token := Some token, sb_execution_lease_expires_at := Some expires,
       sb_attempt_count := sb_attempt_count r + 1, sb_result_code := None, sb_result_outcome := None \<rparr>
   = sb_lease_row token expires r"
  by (cases r) (simp add: sb_lease_row_def)

lemma sb_mark_terminal_evolves:
  assumes "sb_mark_terminal row st code out lease t = Inr (ok, t')"
  shows "evolves N (sb_step_at (sb_id row)) t t'"
proof -
  have st: "st \<in> set TERMINAL_SELF_BOOKING_CREATE_STATES"
    using assms by (simp add: sb_mark_terminal_def split: if_splits)
  show ?thesis
  proof (rule sb_cas_evolves)
    show "sb_cas (case lease of None \<Rightarrow> (\<lambda>r. sb_id r = sb_id row \<and> sb_active r)
        | Some token \<Rightarrow> (\<lambda>r. sb_id r = sb_id row \<and> sb_state r = SB_EXECUTING \<and>
            sb_execution_lease_token r = Some token)) (sb_close_row st code out) t = (ok, t')"
      using assms by (simp add: sb_mark_terminal_def split: if_splits)
  next
    fix r
    assume "(case lease of None \<Rightarrow> (\<lambda>r. sb_id r = sb_id row \<and> sb_active r)
        | Some token \<Rightarrow> (\<lambda>r. sb_id r = sb_id row \<and> sb_state r = SB_EXECUTING \<and>
            sb_execution_lease_token r = Some token)) r"
    then have "sb_active r" and id: "sb_id r = sb_id row" by (auto simp: sb_active_iff split: option.splits)
    from sb_step.close [OF this(1) st] id
    show "sb_step_at (sb_id row) r (sb_close_row st code out r)" by (simp add: sb_step_at_def)
  qed
qed

lemma sb_repo_evolves:
  "sb_repo_claim_for_execution row token expires v t = (ok, t') \<Longrightarrow> evolves N (sb_step_at (sb_id row)) t t'"
  "reclaim_expired_execution row token expires v now t = (ok, t') \<Longrightarrow> evolves N (sb_step_at (sb_id row)) t t'"
  "release_to_ready row token' code t = (ok, t') \<Longrightarrow> evolves N (sb_step_at (sb_id row)) t t'"
  "expire_exhausted_attempts row t = (ok, t') \<Longrightarrow> evolves N (sb_step_at (sb_id row)) t t'"
  subgoal
    unfolding sb_repo_claim_for_execution_def
    by (rule sb_cas_evolves) (auto simp: sb_step_at_def sb_active_iff intro: sb_step.lease)
  subgoal
    unfolding reclaim_expired_execution_def
    by (rule sb_cas_evolves) (auto simp: sb_step_at_def sb_reclaim_row sb_active_iff intro: sb_step.lease)
  subgoal
    unfolding release_to_ready_def by (rule sb_cas_evolves) (auto simp: sb_step_at_def intro: sb_step.release)
  subgoal
    unfolding expire_exhausted_attempts_def
    by (rule sb_cas_evolves) (auto simp: sb_step_at_def sb_active_iff TERMINAL_SELF_BOOKING_CREATE_STATES_def intro: sb_step.close)
  done

lemma sb_claim_evolves:
  assumes "sb_claim_for_execution pid token now t = Inr (res, t')"
  shows "evolves N (sb_step_at pid) t t'"
proof (cases "sb_get_by_id pid t")
  case None
  with assms show ?thesis by (simp add: sb_claim_for_execution_def)
next
  case (Some row)
  then have pid: "pid = sb_id row" using sb_get_row by simp
  show ?thesis
    using assms Some unfolding sb_claim_for_execution_def pid
    by (auto split: if_splits sum.splits prod.splits
        dest: sb_repo_evolves sb_mark_terminal_evolves
        intro: sb_repo_evolves(4) [OF prod.collapse [symmetric]])
qed

lemma sb_claim_id: "sb_claim_for_execution pid token now t = Inr (Some claimed, t') \<Longrightarrow> sb_id claimed = pid"
  unfolding sb_claim_for_execution_def
  by (auto split: option.splits if_splits sum.splits prod.splits dest: sb_get_row)

lemma sb_cancel_evolves:
  assumes "cancel_if_conversation_fences_stale pid cs t = Inr (res, t')"
  shows "evolves N (sb_step_at pid) t t'"
proof (cases "sb_get_by_id pid t")
  case None
  with assms show ?thesis by (simp add: cancel_if_conversation_fences_stale_def)
next
  case (Some row)
  then have pid: "pid = sb_id row" using sb_get_row by simp
  show ?thesis
    using assms Some unfolding cancel_if_conversation_fences_stale_def pid
    by (auto split: option.splits if_splits dest: sb_mark_terminal_evolves)
qed

lemma sb_fail_terminal_evolves:
  "sb_fail_terminal claimed lease code t = Inr (res, t') \<Longrightarrow> evolves N (sb_step_at (sb_id claimed)) t t'"
  unfolding sb_fail_terminal_def by (auto split: sum.splits if_splits dest: sb_mark_terminal_evolves)

lemma apply_create_result_evolves:
  "apply_create_result claimed lease result t = Inr (res, effects, t') \<Longrightarrow> evolves N (sb_step_at (sb_id claimed)) t t'"
  unfolding apply_create_result_def
  by (auto split: sum.splits if_splits prod.splits BookingCreateResult.splits
      dest: sb_mark_terminal_evolves sb_repo_evolves sb_fail_terminal_evolves)

lemma sb_execute_cases:
  assumes "sb_execute phone_of name_of create pid token now cs t = Inr (res, effects, t')"
  obtains (quiet) "effects = []" and "evolves N (sb_step_at pid) t t'"
  | (created) claimed lease t1 t2 phone name effs result where
      "sb_claim_for_execution pid token now t = Inr (Some claimed, t1)"
      and "sb_execution_lease_token claimed = Some lease"
      and "cancel_if_conversation_fences_stale (sb_id claimed) cs t1 = Inr (False, t2)"
      and "effects = CreateCall (sb_create_request claimed phone name) # effs"
      and "apply_create_result claimed lease result t2 = Inr (res, effs, t')"
      and "create (sb_create_request claimed phone name) = Inr result"
proof (cases "sb_claim_for_execution pid token now t")
  case (Inl e)
  with assms show ?thesis by (simp add: sb_execute_def)
next
  case (Inr p)
  then obtain c t1 where claim: "sb_claim_for_execution pid token now t = Inr (c, t1)"
    by (cases p) auto
  note ev1 = sb_claim_evolves [OF claim]
  show ?thesis
  proof (cases c)
    case None
    then have "effects = []" and "t' = t1"
      using assms claim by (auto simp: sb_execute_def Let_def split: option.splits if_splits)
    with ev1 quiet show ?thesis by blast
  next
    case (Some claimed)
    then have id: "sb_id claimed = pid" using sb_claim_id claim by blast
    show ?thesis
    proof (cases "sb_execution_lease_token claimed")
      case None
      then have "effects = []" and "t' = t1"
        using assms claim Some by (auto simp: sb_execute_def)
      with ev1 quiet show ?thesis by blast
    next
      case lease: (Some lease)
      obtain cancelled t2 where cancel: "cancel_if_conversation_fences_stale (sb_id claimed) cs t1 = Inr (cancelled, t2)"
        using assms claim Some lease by (auto simp: sb_execute_def split: sum.splits)
      note ev2 = evolves_trans [OF ev1 sb_cancel_evolves [OF cancel, unfolded id]]
      note facts = assms [unfolded sb_execute_def, simplified claim Some lease cancel sum.case option.case prod.case]
      consider (cancelled) "effects = []" "t' = t2"
        | (failed) code where "effects = []" "sb_fail_terminal claimed lease code t2 = Inr (res, t')"
        | (call) phone name effs result where "\<not> cancelled"
            "effects = CreateCall (sb_create_request claimed phone name) # effs"
            "apply_create_result claimed lease result t2 = Inr (res, effs, t')"
            "create (sb_create_request claimed phone name) = Inr result"
        using facts by (auto simp: Let_def split: if_splits option.splits sum.splits)
      then show ?thesis
      proof cases
        case cancelled
        with ev2 quiet show ?thesis by blast
      next
        case failed
        with evolves_trans [OF ev2 sb_fail_terminal_evolves [of claimed, unfolded id]] quiet show ?thesis by blast
      next
        case call
        with cancel have "cancel_if_conversation_fences_stale (sb_id claimed) cs t1 = Inr (False, t2)" by simp
        with call claim Some lease created show ?thesis by blast
      qed
    qed
  qed
qed

lemma sb_execute_evolves:
  assumes "sb_execute phone_of name_of create pid token now cs t = Inr (res, effects, t')"
  shows "evolves N (sb_step_at pid) t t'"
  using assms
proof (cases rule: sb_execute_cases [where N = N])
  case quiet
  then show ?thesis by blast
next
  case (created claimed lease t1 t2 phone name effs result)
  note id = sb_claim_id [OF created(1)]
  from evolves_trans [OF evolves_trans [OF sb_claim_evolves [OF created(1)] sb_cancel_evolves [OF created(3), unfolded id]]
      apply_create_result_evolves [OF created(5), unfolded id]]
  show ?thesis .
qed

lemma admit_confirmed_cases:
  assumes "admit_confirmed row_id now rq cs t = (res, t')"
  obtains (kept) "t' = t" and "am_outcome res \<noteq> Admit_ADMITTED"
  | (added) c where "t' = t @ [sb_new_row row_id now rq]" and "am_outcome res = Admit_ADMITTED"
      and "admit_input_valid rq" and "insert_pending (sb_new_row row_id now rq) t = Inr t'"
      and "conv_get_by_id_for_update (rq_conversation_id rq) cs = Some c"
      and "\<not> sb_fences_stale c (sb_new_row row_id now rq)"
proof -
  consider "t' = t" "am_outcome res \<noteq> Admit_ADMITTED"
    | c where "insert_pending (sb_new_row row_id now rq) t = Inr t'" "am_outcome res = Admit_ADMITTED"
        "admit_input_valid rq" "conv_get_by_id_for_update (rq_conversation_id rq) cs = Some c"
        "\<not> sb_fences_stale c (sb_new_row row_id now rq)"
    using assms unfolding admit_confirmed_def admit_answer_def sb_fences_stale_def
    by (auto split: if_splits option.splits sum.splits simp: sb_new_row_def)
  then show thesis
  proof cases
    case 1
    with kept show ?thesis by blast
  next
    case (2 c)
    moreover have "t' = t @ [sb_new_row row_id now rq]"
      using 2(1) by (simp add: insert_pending_def split: if_splits)
    ultimately show ?thesis using added by blast
  qed
qed

lemma sb_run_effect:
  assumes "sb_run t t'"
  shows "evolves sb_new sb_step t t'"
  using assms
proof cases
  case (admit row_id now rq cs res)
  from admit show ?thesis
  proof (cases rule: admit_confirmed_cases)
    case kept
    then show ?thesis by simp
  next
    case (added c)
    have "1 \<le> rq_max_attempts rq"
      using added(3) by (auto simp: admit_input_valid_def is_Inr_def require_positive_max_attempts_def split: if_splits)
    then have "sb_new (sb_new_row row_id now rq)"
      unfolding sb_new_def by blast
    with added(1) show ?thesis by (simp add: evolves_insert)
  qed
qed (auto simp: sb_step_at_def elim!: evolves_mono
    dest!: sb_claim_evolves [where N = sb_new] sb_cancel_evolves [where N = sb_new] sb_execute_evolves [where N = sb_new])

lemma sb_steps_command: "sb_step\<^sup>*\<^sup>* r r' \<Longrightarrow> sb_command r' = sb_command r"
  by (induction rule: rtranclp_induct) (auto dest: sb_step_command)

lemma sb_steps_active: "sb_step\<^sup>*\<^sup>* r r' \<Longrightarrow> sb_active r' \<Longrightarrow> sb_active r"
  by (induction rule: converse_rtranclp_induct) (auto dest: sb_step_active)

lemma sb_run_rows:
  assumes "sb_run t t'"
  shows "list_all2 sb_step\<^sup>*\<^sup>* t t' \<or> (\<exists>r. insert_pending r t = Inr t')"
  using assms
proof cases
  case (admit row_id now rq cs res)
  then show ?thesis
    by (cases rule: admit_confirmed_cases) (auto simp: list.rel_refl)
qed (auto simp: sb_step_at_def intro!: evolves_in_place elim!: evolves_mono
    dest!: sb_claim_evolves [where N = "\<lambda>_. False"] sb_cancel_evolves [where N = "\<lambda>_. False"]
      sb_execute_evolves [where N = "\<lambda>_. False"])

definition sb_table_ok :: "create_pending list \<Rightarrow> bool" where
  "sb_table_ok t =
     (distinct (map sb_id t) \<and>
      distinct (map (\<lambda>r. (sb_channel r, sb_confirm_external_message_id r)) t) \<and>
      distinct (map sb_conversation_id (filter sb_active t)))"

lemma insert_pending_Inr:
  assumes "insert_pending r t = Inr t'"
  shows "t' = t @ [r]" and "sb_id r \<notin> sb_id ` set t"
    and "(sb_channel r, sb_confirm_external_message_id r) \<notin>
      (\<lambda>r. (sb_channel r, sb_confirm_external_message_id r)) ` set t"
    and "sb_active r \<Longrightarrow> sb_conversation_id r \<notin> sb_conversation_id ` {x \<in> set t. sb_active x}"
  using assms by (auto simp: insert_pending_def sb_get_by_id_def sb_get_by_confirm_def
      lock_active_by_conversation_def sql_one_None split: if_splits)

lemma insert_pending_ok:
  assumes "insert_pending r t = Inr t'" and "sb_table_ok t"
  shows "sb_table_ok t'"
  using insert_pending_Inr [OF assms(1)] assms(2)
  unfolding sb_table_ok_def by (simp del: Pair_inject prod.inject)

lemma sb_rows_ok:
  assumes "list_all2 sb_step\<^sup>*\<^sup>* t t'" and "sb_table_ok t"
  shows "sb_table_ok t'"
proof -
  have cols: "map sb_id t' = map sb_id t"
    "map (\<lambda>r. (sb_channel r, sb_confirm_external_message_id r)) t' =
     map (\<lambda>r. (sb_channel r, sb_confirm_external_message_id r)) t"
    by (rule list_all2_map_eq [OF assms(1)], rule sb_command_cols [OF sb_steps_command], assumption)+
  have "distinct (map sb_conversation_id (filter sb_active t'))"
    using distinct_partial_index [OF assms(1), of sb_conversation_id sb_active] assms(2)
      sb_command_cols(2) [OF sb_steps_command] sb_steps_active
    unfolding sb_table_ok_def by blast
  with cols assms(2) show ?thesis by (simp add: sb_table_ok_def)
qed

lemma sb_run_ok: "sb_run t t' \<Longrightarrow> sb_table_ok t \<Longrightarrow> sb_table_ok t'"
  using sb_run_rows insert_pending_ok sb_rows_ok by blast

lemma sb_reachable_ok: "sb_run\<^sup>*\<^sup>* t t' \<Longrightarrow> sb_table_ok t \<Longrightarrow> sb_table_ok t'"
  by (induction rule: rtranclp_induct) (auto dest: sb_run_ok)

interpretation pendings: bounded_leases sb_id sb_attempt_count sb_execution_lease_token sb_finished
    sb_new sb_step sb_run sb_attempt_count sb_max_attempts
proof
  fix r r' :: create_pending and t t'
  show "sb_id r' = sb_id r" if "sb_step r r'"
    using sb_command_cols(1) [OF sb_step_command [OF that]] .
  show "sb_max_attempts r' = sb_max_attempts r" if "sb_step r r'"
    using sb_command_cols(6) [OF sb_step_command [OF that]] .
  show "sb_attempt_count r \<le> sb_attempt_count r'" if "sb_step r r'"
    using sb_step_fenced(1) [OF that] .
  show "sb_execution_lease_token r' = sb_execution_lease_token r \<or> sb_execution_lease_token r' = None"
    if "sb_step r r'" and "sb_attempt_count r' = sb_attempt_count r"
    using sb_step_fenced(2) [OF that] by simp
  show "r' = r" if "sb_step r r'" and "sb_finished r"
    using sb_step_active [OF that(1)] that(2) by (simp add: sb_finished_iff)
  show "evolves sb_new sb_step t t'" if "sb_run t t'"
    using sb_run_effect [OF that] .
  show "distinct (map sb_id t')" if "sb_run t t'" and "distinct (map sb_id t)"
    using sb_run_rows [OF that(1)]
  proof
    assume "list_all2 sb_step\<^sup>*\<^sup>* t t'"
    then have "map sb_id t' = map sb_id t"
      by (rule list_all2_map_eq) (rule sb_command_cols [OF sb_steps_command])
    with that(2) show ?thesis by simp
  next
    assume "\<exists>r. insert_pending r t = Inr t'"
    then obtain r where "insert_pending r t = Inr t'" ..
    from insert_pending_Inr(1,2) [OF this] that(2) show ?thesis by simp
  qed
  show "sb_attempt_count r = 0 \<and> sb_attempt_count r = 0 \<and> 0 < sb_max_attempts r" if "sb_new r"
    using that by (auto simp: sb_new_def sb_new_row_def)
  show "sb_attempt_count r' - sb_attempt_count r = sb_attempt_count r' - sb_attempt_count r" by simp
  show "sb_attempt_count r' \<le> sb_max_attempts r"
    if "sb_step r r'" and "sb_attempt_count r \<le> sb_max_attempts r"
    using sb_step_fenced(3) [OF that] .
qed

section \<open>What a booking call needs\<close>

lemma sb_cas_row:
  assumes "distinct (map sb_id t)" and "row \<in> set t" and "P row" and "\<And>x. P x \<Longrightarrow> sb_id x = sb_id row"
    and "sb_id (f row) = sb_id row"
  shows "sb_cas P f t = (True, sql_put sb_id (f row) t)"
  unfolding sb_cas_def
  using sql_count_current [where P = P and key = sb_id, OF assms(1-4)]
    sql_update_current [where P = P and key = sb_id and f = f, OF assms(1-5)] by simp

lemma sb_get_put:
  "row \<in> set t \<Longrightarrow> sb_id row' = sb_id row \<Longrightarrow> sb_get_by_id (sb_id row) (sql_put sb_id row' t) = Some row'"
  unfolding sb_get_by_id_def by (rule sql_one_put)

lemma sb_claim_Some:
  assumes "sb_claim_for_execution pid token now t = Inr (Some claimed, t1)" and "distinct (map sb_id t)"
  shows "\<exists>row. sb_get_by_id pid t = Some row \<and> sb_active row \<and>
    sb_attempt_count row < sb_max_attempts row \<and>
    claimed = sb_lease_row token (now + seconds EXECUTION_LEASE_SECONDS) row \<and> t1 = sql_put sb_id claimed t"
proof -
  let ?u = "now + seconds EXECUTION_LEASE_SECONDS"
  obtain row where row: "sb_get_by_id pid t = Some row"
    using assms(1) by (auto simp: sb_claim_for_execution_def split: option.splits)
  have in_t: "row \<in> set t" "sb_id row = pid"
    using sb_get_row [OF row] by simp_all
  let ?leased = "sb_lease_row token ?u row"
  have lease_id: "sb_id ?leased = sb_id row"
    by (simp add: sb_lease_row_def)
  have get: "sb_get_by_id pid (sql_put sb_id ?leased t) = Some ?leased"
    using sb_get_put [OF in_t(1) lease_id] in_t(2) by simp
  have "sb_active row \<and> sb_attempt_count row < sb_max_attempts row \<and> claimed = ?leased \<and>
      t1 = sql_put sb_id ?leased t"
  proof (cases "sb_state row = SB_READY")
    case True
    then have att: "sb_attempt_count row < sb_max_attempts row"
      using assms(1) row by (auto simp: sb_claim_for_execution_def split: if_splits)
    have "sb_repo_claim_for_execution row token ?u (sb_command_version row) t = (True, sql_put sb_id ?leased t)"
      unfolding sb_repo_claim_for_execution_def
      by (rule sb_cas_row [OF assms(2) in_t(1)]) (use True att lease_id in auto)
    with assms(1) row True att get show ?thesis
      by (auto simp: sb_claim_for_execution_def sb_active_iff)
  next
    case False
    then have st: "sb_state row = SB_EXECUTING"
      using assms(1) row by (auto simp: sb_claim_for_execution_def split: if_splits)
    then obtain ok where re: "reclaim_expired_execution row token ?u (sb_command_version row) now t = (ok, t1)"
      and ok: "ok" and claimed: "sb_get_by_id pid t1 = Some claimed"
      using assms(1) row False
      by (auto simp: sb_claim_for_execution_def split: if_splits sum.splits prod.splits)
    from re ok have "sql_count (\<lambda>r. sb_id r = sb_id row \<and> sb_state r = SB_EXECUTING \<and>
        sb_command_version r = sb_command_version row \<and> sb_lease_expired now r \<and>
        sb_attempt_count r < sb_max_attempts r) t = 1"
      by (simp add: reclaim_expired_execution_def sb_cas_def)
    then obtain r where "r \<in> set t" "sb_id r = sb_id row" and r: "sb_lease_expired now r" "sb_attempt_count r < sb_max_attempts r"
      using sql_count_0 by (metis (mono_tags, lifting) zero_neq_one)
    then have "r = row"
      using distinct_key_unique [OF assms(2)] in_t by metis
    have "reclaim_expired_execution row token ?u (sb_command_version row) now t = (True, sql_put sb_id ?leased t)"
      unfolding reclaim_expired_execution_def sb_reclaim_row [OF st, symmetric]
      by (rule sb_cas_row [OF assms(2) in_t(1)]) (use st r \<open>r = row\<close> in auto)
    with re claimed get st r \<open>r = row\<close> show ?thesis
      by (auto simp: sb_active_iff)
  qed
  with row show ?thesis by blast
qed

lemma sb_cancel_False:
  assumes "cancel_if_conversation_fences_stale (sb_id row) cs t = Inr (False, t')"
    and "distinct (map sb_id t)" and "row \<in> set t" and "sb_active row"
  shows "t' = t \<and> (\<exists>c. conv_get_by_id_for_update (sb_conversation_id row) cs = Some c \<and> \<not> sb_fences_stale c row)"
proof -
  have get: "sb_get_by_id (sb_id row) t = Some row"
    unfolding sb_get_by_id_def by (rule sql_one_the_row [OF assms(2,3)])
  have "sb_mark_terminal row SB_CANCELLED code out None t = Inr (True, sql_put sb_id (sb_close_row SB_CANCELLED code out row) t)"
    for code out
    using sb_cas_row [OF assms(2,3), of "\<lambda>r. sb_id r = sb_id row \<and> sb_active r" "sb_close_row SB_CANCELLED code out"] assms(4)
    by (simp add: sb_mark_terminal_def TERMINAL_SELF_BOOKING_CREATE_STATES_def sb_close_row_def)
  with assms(1,4) get show ?thesis
    by (auto simp: cancel_if_conversation_fences_stale_def split: option.splits if_splits)
qed

lemma sb_execute_call:
  assumes "sb_execute phone_of name_of create pid token now cs t = Inr (res, effects, t')"
    and "CreateCall rq \<in> set effects" and "distinct (map sb_id t)"
  obtains row c claimed effs result where "sb_get_by_id pid t = Some row" and "sb_active row"
    and "sb_attempt_count row < sb_max_attempts row"
    and "conv_get_by_id_for_update (sb_conversation_id row) cs = Some c" and "\<not> sb_fences_stale c row"
    and "claimed = sb_lease_row token (now + seconds EXECUTION_LEASE_SECONDS) row"
    and "sb_command claimed = sb_command row"
    and "effects = CreateCall rq # effs" and "\<exists>phone name. rq = sb_create_request row phone name"
    and "apply_create_result claimed token result (sql_put sb_id claimed t) = Inr (res, effs, t')"
    and "create rq = Inr result"
  using assms(1)
proof (cases rule: sb_execute_cases [where N = sb_new])
  case quiet
  with assms(2) show ?thesis by simp
next
  case (created claimed lease t1 t2 phone name effs result)
  obtain row where row: "sb_get_by_id pid t = Some row" "sb_active row"
    "sb_attempt_count row < sb_max_attempts row"
    and claimed: "claimed = sb_lease_row token (now + seconds EXECUTION_LEASE_SECONDS) row"
    and t1: "t1 = sql_put sb_id claimed t"
    using sb_claim_Some [OF created(1) assms(3)] by blast
  have same: "sb_command claimed = sb_command row" "sb_create_request claimed = sb_create_request row"
    by (auto simp: claimed sb_lease_row_def sb_command_def sb_create_request_def fun_eq_iff)
  have lease: "lease = token" and active: "sb_active claimed"
    using created(2) by (auto simp: claimed sb_lease_row_def sb_active_iff)
  have in_t1: "claimed \<in> set t1" and dist: "distinct (map sb_id t1)"
    using sb_get_row [OF row(1)] sb_command_cols(1) [OF same(1)] assms(3)
    by (auto simp: t1 intro: sql_put_in)
  obtain c where c: "conv_get_by_id_for_update (sb_conversation_id claimed) cs = Some c"
    "\<not> sb_fences_stale c claimed" and t2: "t2 = t1"
    using sb_cancel_False [OF created(3) dist in_t1 active] by blast
  have only: "\<nexists>rq'. CreateCall rq' \<in> set effs"
    using created(5) by (auto simp: apply_create_result_def split: BookingCreateResult.splits sum.splits if_splits prod.splits)
  with assms(2) created(4) have rq: "rq = sb_create_request claimed phone name" by auto
  have "conv_get_by_id_for_update (sb_conversation_id row) cs = Some c" and "\<not> sb_fences_stale c row"
    using c by (simp_all add: claimed sb_lease_row_def sb_fences_stale_def)
  with row claimed same created rq lease t1 t2 show ?thesis
    by (intro that [of row c claimed effs result]) auto
qed

lemma sb_reachable_facts:
  assumes "sb_run\<^sup>*\<^sup>* [] t"
  shows "sb_table_ok t" and "distinct (map sb_id t)"
  using sb_reachable_ok [OF assms] by (simp_all add: sb_table_ok_def)

text \<open>
  A dialog has at most one open self-booking command and a confirmation message has at most one
  command, whatever sequence of admissions and executions the table went through; and no command was
  ever leased more often than its attempt limit.
\<close>

theorem self_booking_one_command:
  assumes "sb_run\<^sup>*\<^sup>* [] t" and "r \<in> set t" and "r' \<in> set t"
  shows "(sb_active r \<and> sb_active r' \<and> sb_conversation_id r = sb_conversation_id r' \<longrightarrow> r = r') \<and>
    (sb_channel r = sb_channel r' \<and>
      sb_confirm_external_message_id r = sb_confirm_external_message_id r' \<longrightarrow> r = r') \<and>
    0 \<le> sb_attempt_count r \<and> sb_attempt_count r \<le> sb_max_attempts r"
proof (intro conjI impI; (elim conjE)?)
  note ok = sb_reachable_facts(1) [OF assms(1), unfolded sb_table_ok_def]
  show "r = r'" if "sb_active r" and "sb_active r'" and "sb_conversation_id r = sb_conversation_id r'"
    using distinct_key_unique [of sb_conversation_id "filter sb_active t" r r'] ok assms(2,3) that by simp
  show "r = r'" if "sb_channel r = sb_channel r'"
    and "sb_confirm_external_message_id r = sb_confirm_external_message_id r'"
    using distinct_key_unique [of "\<lambda>r. (sb_channel r, sb_confirm_external_message_id r)" t r r'] ok assms(2,3) that
    by simp
  show "0 \<le> sb_attempt_count r" and "sb_attempt_count r \<le> sb_max_attempts r"
    using pendings.attempts_are_versions [OF assms(1,2)] by simp_all
qed

text \<open>
  C12. The booking service is called only while the dialog still belongs to the bot and nothing has
  happened in it since the client confirmed: an execution that makes a call makes exactly one, for an
  open row of the table with attempts left, under the row's own idempotency key and slot, and the dialog
  it found allows automatic replies and has the fences stored in the row.
\<close>

theorem self_booking_create_fenced:
  assumes "sb_run\<^sup>*\<^sup>* [] t"
    and "sb_execute phone_of name_of create pid token now cs t = Inr (res, effects, t')"
    and "CreateCall rq \<in> set effects"
  shows "(\<exists>row c. sb_get_by_id pid t = Some row \<and> sb_active row \<and>
      sb_attempt_count row < sb_max_attempts row \<and>
      cr_idempotency_key rq = sb_idempotency_key row \<and> cr_slot_id rq = sb_slot_id row \<and>
      cr_starts_at rq = sb_starts_at row \<and> cr_conversation_id rq = sb_conversation_id row \<and>
      conv_get_by_id_for_update (sb_conversation_id row) cs = Some c \<and>
      conversation_allows_automatic_reply c \<and> c_context_version c = sb_fence_context_version row \<and>
      c_manager_epoch c = sb_fence_manager_epoch row \<and> c_current_event_seq c = sb_fence_event_seq_hwm row) \<and>
    (\<exists>effs. effects = CreateCall rq # effs \<and> (\<forall>rq'. CreateCall rq' \<notin> set effs))"
proof (rule conjI)
  obtain row c claimed effs result where row: "sb_get_by_id pid t = Some row" "sb_active row"
    "sb_attempt_count row < sb_max_attempts row"
    and c: "conv_get_by_id_for_update (sb_conversation_id row) cs = Some c" "\<not> sb_fences_stale c row"
    and effs: "effects = CreateCall rq # effs" and rq: "\<exists>phone name. rq = sb_create_request row phone name"
    and ap: "apply_create_result claimed token result (sql_put sb_id claimed t) = Inr (res, effs, t')"
    using sb_execute_call [OF assms(2,3) sb_reachable_facts(2) [OF assms(1)]] by metis
  show "\<exists>row c. sb_get_by_id pid t = Some row \<and> sb_active row \<and>
      sb_attempt_count row < sb_max_attempts row \<and>
      cr_idempotency_key rq = sb_idempotency_key row \<and> cr_slot_id rq = sb_slot_id row \<and>
      cr_starts_at rq = sb_starts_at row \<and> cr_conversation_id rq = sb_conversation_id row \<and>
      conv_get_by_id_for_update (sb_conversation_id row) cs = Some c \<and>
      conversation_allows_automatic_reply c \<and> c_context_version c = sb_fence_context_version row \<and>
      c_manager_epoch c = sb_fence_manager_epoch row \<and> c_current_event_seq c = sb_fence_event_seq_hwm row"
    using row c rq by (intro exI [of _ row] exI [of _ c]) (auto simp: sb_create_request_def sb_fences_stale_def)
  have "\<forall>rq'. CreateCall rq' \<notin> set effs"
    using ap by (auto simp: apply_create_result_def split: BookingCreateResult.splits sum.splits if_splits prod.splits)
  with effs show "\<exists>effs. effects = CreateCall rq # effs \<and> (\<forall>rq'. CreateCall rq' \<notin> set effs)"
    by blast
qed

lemma apply_create_result_row:
  assumes "apply_create_result claimed token result t = Inr (res, effs, t')"
    and "distinct (map sb_id t)" and "claimed \<in> set t"
    and "sb_state claimed = SB_EXECUTING" and "sb_execution_lease_token claimed = Some token"
  shows "\<exists>row'. t' = sql_put sb_id row' t \<and> sb_step claimed row' \<and>
    (ex_outcome res = Exec_SUCCEEDED \<longrightarrow> sb_finished row')"
proof -
  let ?P = "\<lambda>r. sb_id r = sb_id claimed \<and> sb_state r = SB_EXECUTING \<and> sb_execution_lease_token r = Some token"
  have cas: "sb_cas ?P f t = (True, sql_put sb_id (f claimed) t)" if "sb_id (f claimed) = sb_id claimed" for f
    by (rule sb_cas_row [OF assms(2,3)]) (use assms(4,5) that in auto)
  have marked: "sb_mark_terminal claimed st code out (Some token) t =
      Inr (True, sql_put sb_id (sb_close_row st code out claimed) t)"
    if "st \<in> set TERMINAL_SELF_BOOKING_CREATE_STATES" for st code out
    using cas [of "sb_close_row st code out"] that by (simp add: sb_mark_terminal_def sb_close_row_def)
  have states: "SB_SUCCEEDED \<in> set TERMINAL_SELF_BOOKING_CREATE_STATES"
    "SB_FAILED \<in> set TERMINAL_SELF_BOOKING_CREATE_STATES"
    by (simp_all add: TERMINAL_SELF_BOOKING_CREATE_STATES_def)
  have active: "sb_active claimed" using assms(4) by (simp add: sb_active_iff)
  have closed: "sb_step claimed (sb_close_row st code out claimed) \<and> sb_finished (sb_close_row st code out claimed)"
    if "st \<in> set TERMINAL_SELF_BOOKING_CREATE_STATES" for st code out
    using sb_step.close [OF active that] that by (simp add: sb_finished_def sb_close_row_def)
  show ?thesis
  proof (cases result)
    case (BookingCreateConfirmedResult b)
    then have "t' = sql_put sb_id (sb_close_row SB_SUCCEEDED (Some ''OK'') (Some (sb_state_value SB_SUCCEEDED)) claimed) t"
      using assms(1) marked [OF states(1)] by (simp add: apply_create_result_def)
    with closed [OF states(1)] show ?thesis by blast
  next
    case (BookingCreateRejectedResult m reason)
    show ?thesis
    proof (cases "m = Create_RETRY_LATER")
      case True
      let ?r = "claimed \<lparr> sb_state := SB_READY, sb_execution_lease_token := None,
        sb_execution_lease_expires_at := None, sb_result_code := Some reason, sb_result_outcome := None \<rparr>"
      have "release_to_ready claimed token (Some reason) t = (True, sql_put sb_id ?r t)"
        unfolding release_to_ready_def by (rule cas) simp
      then have "t' = sql_put sb_id ?r t" and "ex_outcome res = Exec_RETRY_SCHEDULED"
        using assms(1) BookingCreateRejectedResult True by (auto simp: apply_create_result_def exec_answer_def)
      with sb_step.release [OF assms(4), of "Some reason"] show ?thesis by fastforce
    next
      case False
      then have "t' = sql_put sb_id (sb_close_row SB_FAILED (Some reason) (Some (sb_state_value SB_FAILED)) claimed) t"
        using assms(1) BookingCreateRejectedResult marked [OF states(2)]
        by (auto simp: apply_create_result_def sb_fail_terminal_def)
      with closed [OF states(2)] show ?thesis by blast
    qed
  qed
qed

lemma sb_execute_leaves:
  assumes "sb_execute phone_of name_of create pid token now cs t = Inr (res, effects, t')"
    and "CreateCall rq \<in> set effects" and "distinct (map sb_id t)" and "sb_get_by_id pid t = Some row"
  shows "\<exists>row'. sb_get_by_id pid t' = Some row' \<and> sb_command row' = sb_command row \<and>
    (ex_outcome res = Exec_SUCCEEDED \<longrightarrow> sb_finished row')"
proof -
  obtain r c claimed effs result where r: "sb_get_by_id pid t = Some r"
    and claimed: "claimed = sb_lease_row token (now + seconds EXECUTION_LEASE_SECONDS) r"
      "sb_command claimed = sb_command r"
    and ap: "apply_create_result claimed token result (sql_put sb_id claimed t) = Inr (res, effs, t')"
    using sb_execute_call [OF assms(1-3)] by metis
  then have "r = row" and row: "row \<in> set t" "sb_id row = pid"
    using assms(4) sb_get_row by auto
  note id = sb_command_cols(1) [OF claimed(2)]
  have in_t1: "claimed \<in> set (sql_put sb_id claimed t)"
    using row \<open>r = row\<close> id by (auto intro: sql_put_in)
  obtain row' where row': "t' = sql_put sb_id row' (sql_put sb_id claimed t)" "sb_step claimed row'"
    "ex_outcome res = Exec_SUCCEEDED \<longrightarrow> sb_finished row'"
    using apply_create_result_row [OF ap _ in_t1] assms(3) by (auto simp: claimed(1) sb_lease_row_def)
  have "sb_command row' = sb_command row"
    using sb_step_command [OF row'(2)] claimed(2) \<open>r = row\<close> by simp
  moreover have "sb_get_by_id pid t' = Some row'"
    using sb_get_put [OF in_t1, of row'] sb_command_cols(1) [OF sb_step_command [OF row'(2)]] row'(1) id
      \<open>r = row\<close> row(2) by simp
  ultimately show ?thesis using row'(3) by blast
qed

text \<open>
  C13. A confirmed slot is booked under one idempotency key and never again after success: if one
  execution of a command called the booking service and a later one calls it again, in any later table,
  then the first did not end as succeeded, and both requests carry the same key, slot, time and dialog.
\<close>

theorem self_booking_retries_same_key:
  assumes "sb_run\<^sup>*\<^sup>* [] t"
    and "sb_execute phone_of name_of create pid token now cs t = Inr (res, effects, t1)"
    and "CreateCall rq \<in> set effects"
    and "sb_run\<^sup>*\<^sup>* t1 t2"
    and "sb_execute phone_of' name_of' create' pid token' now' cs' t2 = Inr (res', effects', t3)"
    and "CreateCall rq' \<in> set effects'"
  shows "ex_outcome res \<noteq> Exec_SUCCEEDED \<and>
    cr_idempotency_key rq' = cr_idempotency_key rq \<and> cr_slot_id rq' = cr_slot_id rq \<and>
      cr_starts_at rq' = cr_starts_at rq \<and> cr_conversation_id rq' = cr_conversation_id rq"
proof (rule conjI)
  note dist = sb_reachable_facts(2) [OF assms(1)]
  have dist1: "distinct (map sb_id t1)"
    using pendings.run_distinct [OF sb_run.execute [OF assms(2)] dist] .
  note dist2 = pendings.runs_distinct [OF assms(4) dist1]
  obtain row where row: "sb_get_by_id pid t = Some row" and rq: "\<exists>ph nm. rq = sb_create_request row ph nm"
    using sb_execute_call [OF assms(2,3) dist] by metis
  obtain row2 where row2: "sb_get_by_id pid t2 = Some row2" "sb_active row2"
    and rq': "\<exists>ph nm. rq' = sb_create_request row2 ph nm"
    using sb_execute_call [OF assms(5,6) dist2] by metis
  obtain row1 where row1: "sb_get_by_id pid t1 = Some row1" "sb_command row1 = sb_command row"
    "ex_outcome res = Exec_SUCCEEDED \<longrightarrow> sb_finished row1"
    using sb_execute_leaves [OF assms(2,3) dist row] by blast
  have steps: "sb_step\<^sup>*\<^sup>* row1 row2"
    using pendings.runs_row [OF assms(4) dist1, of pid row1] row1(1) row2(1)
    by (auto simp: sb_get_by_id_def)
  show "ex_outcome res \<noteq> Exec_SUCCEEDED"
    using row1(3) row2(2) pendings.steps_fin [OF steps] sb_finished_iff by auto
  have "sb_command row2 = sb_command row"
    using sb_steps_command [OF steps] row1(2) by simp
  with rq rq' show "cr_idempotency_key rq' = cr_idempotency_key rq \<and> cr_slot_id rq' = cr_slot_id rq \<and>
      cr_starts_at rq' = cr_starts_at rq \<and> cr_conversation_id rq' = cr_conversation_id rq"
    by (auto simp: sb_create_request_def sb_command_def)
qed

section \<open>A command out of attempts\<close>

text \<open>
  The system as it runs: admissions by the confirm path, executions by the worker, which only runs ids
  it discovered.
\<close>

inductive sb_system :: "create_pending list \<Rightarrow> create_pending list \<Rightarrow> bool" where
  admission: "admit_confirmed row_id now rq cs t = (res, t') \<Longrightarrow> sb_system t t'"
| worker: "exec_worker_claim_one True now locked t = Some pid \<Longrightarrow>
    exec_worker_process_one True phone_of name_of create pid token now' cs t = Inr (res, effects, t') \<Longrightarrow>
    sb_system t t'"

definition sb_out_of_attempts :: "create_pending \<Rightarrow> bool" where
  "sb_out_of_attempts row = (sb_state row = SB_READY \<and> sb_max_attempts row \<le> sb_attempt_count row)"

lemma discovered_not_exhausted:
  assumes "lock_next_claimable_id now locked t = Some pid" and "distinct (map sb_id t)"
    and "row \<in> set t" and "sb_out_of_attempts row"
  shows "sb_id row \<noteq> pid"
proof
  assume "sb_id row = pid"
  obtain r where r: "sql_first_by sb_created_at (\<lambda>r. sb_claimable now r \<and> \<not> locked (sb_id r)) t = Some r" "sb_id r = pid"
    using assms(1) by (auto simp: lock_next_claimable_id_def)
  then have "r \<in> set t" and claimable: "sb_claimable now r"
    using sql_first_by_Some [OF r(1)] by simp_all
  then have "r = row"
    using distinct_key_unique [OF assms(2) _ assms(3)] r(2) \<open>sb_id row = pid\<close> by simp
  with claimable assms(4) show False by (simp add: sb_claimable_def sb_out_of_attempts_def)
qed

lemma sb_step_at_other:
  assumes "(sb_step_at pid)\<^sup>*\<^sup>* r r'" and "sb_id r \<noteq> pid"
  shows "r' = r"
  using assms by (induction rule: rtranclp_induct) (auto simp: sb_step_at_def)

lemma sb_system_run: "sb_system t t' \<Longrightarrow> sb_run t t'"
  by (erule sb_system.cases) (auto simp: exec_worker_process_one_def intro: sb_run.intros)

lemma sb_system_keeps_exhausted:
  assumes "sb_system t t'" and "distinct (map sb_id t)" and "row \<in> set t" and "sb_out_of_attempts row"
  shows "row \<in> set t'"
  using assms(1)
proof cases
  case (admission row_id now rq cs res)
  then show ?thesis
    using assms(3) by (cases rule: admit_confirmed_cases) auto
next
  case (worker now locked pid phone_of name_of create token now' cs res effects)
  have other: "sb_id row \<noteq> pid"
    using discovered_not_exhausted [OF _ assms(2-4)] worker(1) by (simp add: exec_worker_claim_one_def)
  have "sb_execute phone_of name_of create pid token now' cs t = Inr (res, effects, t')"
    using worker(2) by (simp add: exec_worker_process_one_def)
  from evolves_member [OF sb_execute_evolves [OF this, where N = sb_new] assms(3)]
  obtain r' where "r' \<in> set t'" and "(sb_step_at pid)\<^sup>*\<^sup>* row r'" by blast
  with sb_step_at_other [OF _ other] show ?thesis by blast
qed

text \<open>
  C14. A command whose last permitted attempt ended in a retryable answer is never closed: the worker
  only discovers rows with attempts left, so nothing runs the branch that would expire it. The row stays
  open in every later table, and as long as it does no further confirmation of that dialog is admitted.
\<close>

theorem self_booking_exhausted_command_blocks_dialog:
  assumes "sb_run\<^sup>*\<^sup>* [] t" and "row \<in> set t" and "sb_out_of_attempts row" and "sb_system\<^sup>*\<^sup>* t t'"
  shows "row \<in> set t' \<and>
    (rq_conversation_id rq = sb_conversation_id row \<longrightarrow>
      am_outcome (fst (admit_confirmed row_id now rq cs t')) \<noteq> Admit_ADMITTED \<and>
      snd (admit_confirmed row_id now rq cs t') = t')"
proof (rule conjI [OF _ impI])
  have kept: "row \<in> set t' \<and> distinct (map sb_id t')"
    using assms(4)
  proof (induction rule: rtranclp_induct)
    case base
    then show ?case using assms(2) sb_reachable_facts(2) [OF assms(1)] by simp
  next
    case (step y z)
    then show ?case
      using sb_system_keeps_exhausted [OF step(2) _ _ assms(3)] pendings.run_distinct [OF sb_system_run [OF step(2)]]
      by blast
  qed
  then show "row \<in> set t'" ..
  show "am_outcome (fst (admit_confirmed row_id now rq cs t')) \<noteq> Admit_ADMITTED \<and>
      snd (admit_confirmed row_id now rq cs t') = t'"
    if "rq_conversation_id rq = sb_conversation_id row"
  proof -
    obtain res t'' where ad: "admit_confirmed row_id now rq cs t' = (res, t'')" by fastforce
    then show ?thesis
    proof (cases rule: admit_confirmed_cases)
      case kept
      with ad show ?thesis by simp
    next
      case (added c)
      have "sb_active row" using assms(3) by (simp add: sb_out_of_attempts_def sb_active_iff)
      with added(4) kept that show ?thesis
        by (auto simp: insert_pending_def lock_active_by_conversation_def sql_one_None sb_new_row_def
            sb_active_iff split: if_splits)
    qed
  qed
qed

section \<open>A confirmation retried until it runs out\<close>

definition sb_demo_conv :: conversation where
  "sb_demo_conv = (conv_new_row ''conv'' 0 Channel_SYNTHETIC ''ext'') \<lparr> c_context_version := 1, c_current_event_seq := 1 \<rparr>"

definition sb_demo_rq :: admit_request where
  "sb_demo_rq = \<lparr> rq_conversation_id = ''conv'', rq_channel = ''synthetic'', rq_confirm_external_message_id = ''m7'',
     rq_slot_id = slot_demo, rq_starts_at = ''2028-02-29T18:30:00+05:00'', rq_fence_context_version = 1,
     rq_fence_manager_epoch = 0, rq_fence_event_seq_hwm = 1, rq_personal_data_consent = True,
     rq_offer_acknowledgement = True, rq_phone_ref_token = ''ph'', rq_name_ref_token = ''nm'',
     rq_idempotency_key = ''0f0e0d0c-0b0a-4a0a-8b0b-0e0e0e0e0e0e'', rq_max_attempts = SB_DEFAULT_MAX_ATTEMPTS \<rparr>"

definition sb_demo_row :: "int \<Rightarrow> create_pending" where
  "sb_demo_row n = (sb_new_row ''p'' 10 sb_demo_rq)
     \<lparr> sb_attempt_count := n, sb_result_code := (if n = 0 then None else Some ''BUSY'') \<rparr>"

definition sb_demo_call :: create_request where
  "sb_demo_call = sb_create_request (sb_demo_row 0) ''+70000000000'' ''Ann''"

definition sb_demo_execute ::
  "create_pending list \<Rightarrow> exn + (exec_result \<times> exec_effect list \<times> create_pending list)" where
  "sb_demo_execute t = sb_execute (\<lambda>_ _. Some ''+70000000000'') (\<lambda>_ _. Some ''Ann'')
     (\<lambda>_. Inr (BookingCreateRejectedResult Create_RETRY_LATER ''BUSY'')) ''p'' ''tok'' 20 [sb_demo_conv] t"

definition sb_demo_retry :: exec_result where
  "sb_demo_retry = exec_answer Exec_RETRY_SCHEDULED (sb_demo_row 0) (Some SB_READY) (Some ''BUSY'')"

lemma sb_demo_admit:
  "admit_confirmed ''p'' 10 sb_demo_rq [sb_demo_conv] [] =
     (admit_answer Admit_ADMITTED (Some (sb_demo_row 0)) None, [sb_demo_row 0])"
  by code_simp

lemma sb_demo_executes:
  "sb_demo_execute [sb_demo_row 0] = Inr (sb_demo_retry, [CreateCall sb_demo_call], [sb_demo_row 1])"
  "sb_demo_execute [sb_demo_row 1] = Inr (sb_demo_retry, [CreateCall sb_demo_call], [sb_demo_row 2])"
  "sb_demo_execute [sb_demo_row 2] = Inr (sb_demo_retry, [CreateCall sb_demo_call], [sb_demo_row 3])"
  by code_simp+

lemma sb_demo_reach: "sb_run\<^sup>*\<^sup>* [] [sb_demo_row 0]" "sb_run\<^sup>*\<^sup>* [] [sb_demo_row 3]"
proof -
  show start: "sb_run\<^sup>*\<^sup>* [] [sb_demo_row 0]"
    using sb_run.admit [OF sb_demo_admit] by simp
  note runs = sb_demo_executes [unfolded sb_demo_execute_def, THEN sb_run.execute]
  show "sb_run\<^sup>*\<^sup>* [] [sb_demo_row 3]"
    using start runs by (meson rtranclp.rtrancl_into_rtrancl)
qed

theorem self_booking_one_command_witness:
  "0 \<le> sb_attempt_count (sb_demo_row 3) \<and> sb_attempt_count (sb_demo_row 3) \<le> sb_max_attempts (sb_demo_row 3)"
  using self_booking_one_command [OF sb_demo_reach(2), of "sb_demo_row 3" "sb_demo_row 3"] by simp

theorem self_booking_create_fenced_witness:
  "\<exists>effs. [CreateCall sb_demo_call] = CreateCall sb_demo_call # effs \<and> (\<forall>rq'. CreateCall rq' \<notin> set effs)"
  using self_booking_create_fenced [OF sb_demo_reach(1) sb_demo_executes(1) [unfolded sb_demo_execute_def],
      of sb_demo_call] by simp

theorem self_booking_retries_same_key_witness:
  "ex_outcome sb_demo_retry \<noteq> Exec_SUCCEEDED"
proof (rule self_booking_retries_same_key [THEN conjunct1, OF sb_demo_reach(1) sb_demo_executes(1) [unfolded sb_demo_execute_def] _ _
      sb_demo_executes(2) [unfolded sb_demo_execute_def]])
  show "CreateCall sb_demo_call \<in> set [CreateCall sb_demo_call]" by simp
  show "sb_run\<^sup>*\<^sup>* [sb_demo_row 1] [sb_demo_row 1]" by simp
  show "CreateCall sb_demo_call \<in> set [CreateCall sb_demo_call]" by simp
qed

theorem self_booking_exhausted_command_blocks_dialog_witness:
  "am_outcome (fst (admit_confirmed ''q'' 30 (sb_demo_rq \<lparr> rq_confirm_external_message_id := ''m8'' \<rparr>) [sb_demo_conv]
     [sb_demo_row 3])) \<noteq> Admit_ADMITTED"
proof -
  have "sb_out_of_attempts (sb_demo_row 3)" and
    "rq_conversation_id (sb_demo_rq \<lparr> rq_confirm_external_message_id := ''m8'' \<rparr>) = sb_conversation_id (sb_demo_row 3)"
    by code_simp+
  with self_booking_exhausted_command_blocks_dialog [OF sb_demo_reach(2), of "sb_demo_row 3" "[sb_demo_row 3]"]
  show ?thesis by simp
qed

end
