(* ===== verification/Booking_Payload.thy ===== *)
theory Booking_Payload
  imports Booking_Slot
begin

text \<open>
  The durable payloads of a booking reply: services/booking_synthetic.py, the client texts of
  core/booking_types.py, services/outbound_reply_text.py and the payloads of
  services/vk_client_outbound_proof.py. A booking result travels as a JSON object through the reply plan
  into the outbound row, and everything read back is sanitized again.

  The booking flow that produces a result (remote availability, eligibility) is in Booking\_Flow: the
  worker receives it as a function.

  The lemmas show that the sanitizer is idempotent and closed over its own output, and that a sanitized
  result always has a client text unless it is the machine-only offer of days.
\<close>

section \<open>Actions, kinds, texts\<close>

datatype BookingClientMessageKind =
    Kind_OFFER_SLOTS
  | Kind_HANDOFF_DURING_MANAGER_HOURS
  | Kind_HANDOFF_OUTSIDE_MANAGER_HOURS
  | Kind_SERVICE_TEMPORARILY_UNAVAILABLE

fun message_kind_value :: "BookingClientMessageKind \<Rightarrow> string" where
  "message_kind_value Kind_OFFER_SLOTS = ''OFFER_SLOTS''"
| "message_kind_value Kind_HANDOFF_DURING_MANAGER_HOURS = ''HANDOFF_DURING_MANAGER_HOURS''"
| "message_kind_value Kind_HANDOFF_OUTSIDE_MANAGER_HOURS = ''HANDOFF_OUTSIDE_MANAGER_HOURS''"
| "message_kind_value Kind_SERVICE_TEMPORARILY_UNAVAILABLE = ''SERVICE_TEMPORARILY_UNAVAILABLE''"

text \<open>The texts are kept as their UTF-8 bytes.\<close>

fun CLIENT_MESSAGE_TEXT :: "BookingClientMessageKind \<Rightarrow> string" where
  "CLIENT_MESSAGE_TEXT Kind_OFFER_SLOTS =
     [CHR 0xD0, CHR 0x9C, CHR 0xD0, CHR 0xBE, CHR 0xD0, CHR 0xB3, CHR 0xD1, CHR 0x83, CHR 0x20,
      CHR 0xD0, CHR 0xBF, CHR 0xD1, CHR 0x80, CHR 0xD0, CHR 0xB5, CHR 0xD0, CHR 0xB4, CHR 0xD0,
      CHR 0xBB, CHR 0xD0, CHR 0xBE, CHR 0xD0, CHR 0xB6, CHR 0xD0, CHR 0xB8, CHR 0xD1, CHR 0x82,
      CHR 0xD1, CHR 0x8C, CHR 0x20, CHR 0xD0, CHR 0xB1, CHR 0xD0, CHR 0xBB, CHR 0xD0, CHR 0xB8,
      CHR 0xD0, CHR 0xB6, CHR 0xD0, CHR 0xB0, CHR 0xD0, CHR 0xB9, CHR 0xD1, CHR 0x88, CHR 0xD0,
      CHR 0xB8, CHR 0xD0, CHR 0xB5, CHR 0x20, CHR 0xD1, CHR 0x81, CHR 0xD0, CHR 0xB2, CHR 0xD0,
      CHR 0xBE, CHR 0xD0, CHR 0xB1, CHR 0xD0, CHR 0xBE, CHR 0xD0, CHR 0xB4, CHR 0xD0, CHR 0xBD,
      CHR 0xD1, CHR 0x8B, CHR 0xD0, CHR 0xB5, CHR 0x20, CHR 0xD0, CHR 0xBE, CHR 0xD0, CHR 0xBA,
      CHR 0xD0, CHR 0xBD, CHR 0xD0, CHR 0xB0, CHR 0x2E, CHR 0x20, CHR 0xD0, CHR 0x92, CHR 0xD1,
      CHR 0x8B, CHR 0xD0, CHR 0xB1, CHR 0xD0, CHR 0xB5, CHR 0xD1, CHR 0x80, CHR 0xD0, CHR 0xB8,
      CHR 0xD1, CHR 0x82, CHR 0xD0, CHR 0xB5, CHR 0x20, CHR 0xD1, CHR 0x83, CHR 0xD0, CHR 0xB4,
      CHR 0xD0, CHR 0xBE, CHR 0xD0, CHR 0xB1, CHR 0xD0, CHR 0xBD, CHR 0xD0, CHR 0xBE, CHR 0xD0,
      CHR 0xB5, CHR 0x20, CHR 0xD0, CHR 0xB2, CHR 0xD1, CHR 0x80, CHR 0xD0, CHR 0xB5, CHR 0xD0,
      CHR 0xBC, CHR 0xD1, CHR 0x8F, CHR 0x2E]"
| "CLIENT_MESSAGE_TEXT Kind_HANDOFF_DURING_MANAGER_HOURS =
     [CHR 0xD0, CHR 0x9F, CHR 0xD0, CHR 0xB5, CHR 0xD1, CHR 0x80, CHR 0xD0, CHR 0xB5, CHR 0xD0,
      CHR 0xB4, CHR 0xD0, CHR 0xB0, CHR 0xD1, CHR 0x8E, CHR 0x20, CHR 0xD0, CHR 0xB2, CHR 0xD0,
      CHR 0xB0, CHR 0xD1, CHR 0x88, CHR 0x20, CHR 0xD0, CHR 0xB7, CHR 0xD0, CHR 0xB0, CHR 0xD0,
      CHR 0xBF, CHR 0xD1, CHR 0x80, CHR 0xD0, CHR 0xBE, CHR 0xD1, CHR 0x81, CHR 0x20, CHR 0xD0,
      CHR 0xBC, CHR 0xD0, CHR 0xB5, CHR 0xD0, CHR 0xBD, CHR 0xD0, CHR 0xB5, CHR 0xD0, CHR 0xB4,
      CHR 0xD0, CHR 0xB6, CHR 0xD0, CHR 0xB5, CHR 0xD1, CHR 0x80, CHR 0xD1, CHR 0x83, CHR 0x2E,
      CHR 0x20, CHR 0xD0, CHR 0x9E, CHR 0xD0, CHR 0xBD, CHR 0x20, CHR 0xD1, CHR 0x81, CHR 0xD0,
      CHR 0xBA, CHR 0xD0, CHR 0xBE, CHR 0xD1, CHR 0x80, CHR 0xD0, CHR 0xBE, CHR 0x20, CHR 0xD1,
      CHR 0x81, CHR 0xD0, CHR 0xB2, CHR 0xD1, CHR 0x8F, CHR 0xD0, CHR 0xB6, CHR 0xD0, CHR 0xB5,
      CHR 0xD1, CHR 0x82, CHR 0xD1, CHR 0x81, CHR 0xD1, CHR 0x8F, CHR 0x20, CHR 0xD1, CHR 0x81,
      CHR 0x20, CHR 0xD0, CHR 0xB2, CHR 0xD0, CHR 0xB0, CHR 0xD0, CHR 0xBC, CHR 0xD0, CHR 0xB8,
      CHR 0x2E]"
| "CLIENT_MESSAGE_TEXT Kind_HANDOFF_OUTSIDE_MANAGER_HOURS =
     [CHR 0xD0, CHR 0x9F, CHR 0xD0, CHR 0xB5, CHR 0xD1, CHR 0x80, CHR 0xD0, CHR 0xB5, CHR 0xD0,
      CHR 0xB4, CHR 0xD0, CHR 0xB0, CHR 0xD1, CHR 0x8E, CHR 0x20, CHR 0xD0, CHR 0xB2, CHR 0xD0,
      CHR 0xB0, CHR 0xD1, CHR 0x88, CHR 0x20, CHR 0xD0, CHR 0xB7, CHR 0xD0, CHR 0xB0, CHR 0xD0,
      CHR 0xBF, CHR 0xD1, CHR 0x80, CHR 0xD0, CHR 0xBE, CHR 0xD1, CHR 0x81, CHR 0x20, CHR 0xD0,
      CHR 0xBC, CHR 0xD0, CHR 0xB5, CHR 0xD0, CHR 0xBD, CHR 0xD0, CHR 0xB5, CHR 0xD0, CHR 0xB4,
      CHR 0xD0, CHR 0xB6, CHR 0xD0, CHR 0xB5, CHR 0xD1, CHR 0x80, CHR 0xD1, CHR 0x83, CHR 0x2E,
      CHR 0x20, CHR 0xD0, CHR 0x9E, CHR 0xD0, CHR 0xBD, CHR 0x20, CHR 0xD1, CHR 0x81, CHR 0xD0,
      CHR 0xB2, CHR 0xD1, CHR 0x8F, CHR 0xD0, CHR 0xB6, CHR 0xD0, CHR 0xB5, CHR 0xD1, CHR 0x82,
      CHR 0xD1, CHR 0x81, CHR 0xD1, CHR 0x8F, CHR 0x20, CHR 0xD1, CHR 0x81, CHR 0x20, CHR 0xD0,
      CHR 0xB2, CHR 0xD0, CHR 0xB0, CHR 0xD0, CHR 0xBC, CHR 0xD0, CHR 0xB8, CHR 0x20, CHR 0xD0,
      CHR 0xB2, CHR 0x20, CHR 0xD0, CHR 0xB1, CHR 0xD0, CHR 0xBB, CHR 0xD0, CHR 0xB8, CHR 0xD0,
      CHR 0xB6, CHR 0xD0, CHR 0xB0, CHR 0xD0, CHR 0xB9, CHR 0xD1, CHR 0x88, CHR 0xD0, CHR 0xB5,
      CHR 0xD0, CHR 0xB5, CHR 0x20, CHR 0xD1, CHR 0x80, CHR 0xD0, CHR 0xB0, CHR 0xD0, CHR 0xB1,
      CHR 0xD0, CHR 0xBE, CHR 0xD1, CHR 0x87, CHR 0xD0, CHR 0xB5, CHR 0xD0, CHR 0xB5, CHR 0x20,
      CHR 0xD0, CHR 0xB2, CHR 0xD1, CHR 0x80, CHR 0xD0, CHR 0xB5, CHR 0xD0, CHR 0xBC, CHR 0xD1,
      CHR 0x8F, CHR 0x2E]"
| "CLIENT_MESSAGE_TEXT Kind_SERVICE_TEMPORARILY_UNAVAILABLE =
     [CHR 0xD0, CHR 0xA1, CHR 0xD0, CHR 0xB5, CHR 0xD0, CHR 0xB9, CHR 0xD1, CHR 0x87, CHR 0xD0,
      CHR 0xB0, CHR 0xD1, CHR 0x81, CHR 0x20, CHR 0xD0, CHR 0xBD, CHR 0xD0, CHR 0xB5, CHR 0x20,
      CHR 0xD0, CHR 0xBC, CHR 0xD0, CHR 0xBE, CHR 0xD0, CHR 0xB3, CHR 0xD1, CHR 0x83, CHR 0x20,
      CHR 0xD0, CHR 0xB7, CHR 0xD0, CHR 0xB0, CHR 0xD0, CHR 0xB2, CHR 0xD0, CHR 0xB5, CHR 0xD1,
      CHR 0x80, CHR 0xD1, CHR 0x88, CHR 0xD0, CHR 0xB8, CHR 0xD1, CHR 0x82, CHR 0xD1, CHR 0x8C,
      CHR 0x20, CHR 0xD0, CHR 0xB7, CHR 0xD0, CHR 0xB0, CHR 0xD0, CHR 0xBF, CHR 0xD0, CHR 0xB8,
      CHR 0xD1, CHR 0x81, CHR 0xD1, CHR 0x8C, CHR 0x20, CHR 0xD1, CHR 0x81, CHR 0xD0, CHR 0xB0,
      CHR 0xD0, CHR 0xBC, CHR 0xD0, CHR 0xBE, CHR 0xD1, CHR 0x81, CHR 0xD1, CHR 0x82, CHR 0xD0,
      CHR 0xBE, CHR 0xD1, CHR 0x8F, CHR 0xD1, CHR 0x82, CHR 0xD0, CHR 0xB5, CHR 0xD0, CHR 0xBB,
      CHR 0xD1, CHR 0x8C, CHR 0xD0, CHR 0xBD, CHR 0xD0, CHR 0xBE, CHR 0x2E, CHR 0x20, CHR 0xD0,
      CHR 0x9F, CHR 0xD0, CHR 0xB5, CHR 0xD1, CHR 0x80, CHR 0xD0, CHR 0xB5, CHR 0xD0, CHR 0xB4,
      CHR 0xD0, CHR 0xB0, CHR 0xD1, CHR 0x8E, CHR 0x20, CHR 0xD0, CHR 0xB2, CHR 0xD0, CHR 0xB0,
      CHR 0xD1, CHR 0x88, CHR 0x20, CHR 0xD0, CHR 0xB7, CHR 0xD0, CHR 0xB0, CHR 0xD0, CHR 0xBF,
      CHR 0xD1, CHR 0x80, CHR 0xD0, CHR 0xBE, CHR 0xD1, CHR 0x81, CHR 0x20, CHR 0xD0, CHR 0xBC,
      CHR 0xD0, CHR 0xB5, CHR 0xD0, CHR 0xBD, CHR 0xD0, CHR 0xB5, CHR 0xD0, CHR 0xB4, CHR 0xD0,
      CHR 0xB6, CHR 0xD0, CHR 0xB5, CHR 0xD1, CHR 0x80, CHR 0xD1, CHR 0x83, CHR 0x2E]"

declare CLIENT_MESSAGE_TEXT.simps [simp del]

definition BOOKING_DIALOG_ACTIONS :: "string list" where
  "BOOKING_DIALOG_ACTIONS = [''OFFER_SLOTS'', ''OFFER_DAYS'', ''MANAGER_HANDOFF'', ''SERVICE_UNAVAILABLE'']"

definition BOOKING_INTERNAL_REASON_CODES :: "string list" where
  "BOOKING_INTERNAL_REASON_CODES =
     [''UNKNOWN_OUTCOME'', ''MALFORMED_ELIGIBILITY'', ''ELIGIBILITY_MASTER_MISMATCH'', ''NO_VALID_SLOTS'',
      ''NO_AVAILABLE_DAYS'', ''ALTERNATE_MASTER_WITHOUT_CONSENT'', ''ELIGIBILITY_MANAGER_HANDOFF'',
      ''ELIGIBILITY_SERVICE_UNAVAILABLE'', ''ELIGIBILITY_CLIENT_UNAVAILABLE'',
      ''AVAILABILITY_CLIENT_UNAVAILABLE'', ''AVAILABILITY_REQUEST_INVALID'',
      ''AVAILABILITY_SERVICE_UNAVAILABLE'', ''BOOKING_FLOW_UNAVAILABLE'',
      ''BOOKING_RESOLUTION_INTERRUPTED'']"

definition ALLOWED_BOOKING_REASONS :: "string list" where
  "ALLOWED_BOOKING_REASONS = BOOKING_INTERNAL_REASON_CODES @
     [''STUDIO_ONLINE_DISABLED'', ''SERVICE_INACTIVE'', ''MASTER_INACTIVE'', ''ONLINE_DISABLED'',
      ''MASTER_SERVICE_UNAVAILABLE'', ''MANAGER_ONLY'', ''REMOTE_REJECTED'', ''TIMEOUT'',
      ''TRANSPORT_ERROR'', ''RESPONSE_TOO_LARGE'', ''RESPONSE_INVALID'', ''CONFIG_INVALID'',
      ''REQUEST_INVALID'', ''UNAUTHORIZED'', ''RATE_LIMITED'', ''VALIDATION_ERROR'',
      ''SERVICE_UNAVAILABLE'']"

definition HANDOFF_MESSAGE_KINDS :: "string list" where
  "HANDOFF_MESSAGE_KINDS = [''HANDOFF_DURING_MANAGER_HOURS'', ''HANDOFF_OUTSIDE_MANAGER_HOURS'']"

definition MAX_OFFER_DAYS :: nat where "MAX_OFFER_DAYS = 31"

definition MAX_OFFERED_SLOTS :: nat where "MAX_OFFERED_SLOTS = 3"

definition OFFER_DAYS_KEYS :: "string list" where
  "OFFER_DAYS_KEYS =
     [''booking_action'', ''booking_reason'', ''booking_available_date_keys'', ''booking_studio_today'']"

definition OFFER_SLOTS_LEGACY_KEYS :: "string list" where
  "OFFER_SLOTS_LEGACY_KEYS = [''booking_action'', ''booking_reason'', ''booking_offered_slot_ids'']"

definition OFFER_SLOTS_NEW_KEYS :: "string list" where
  "OFFER_SLOTS_NEW_KEYS =
     [''booking_action'', ''booking_reason'', ''booking_offered_slot_ids'', ''booking_offered_slots'']"

text \<open>\<open>set(raw) == KEYS\<close> on a dict.\<close>

definition keys_are :: "payload \<Rightarrow> string list \<Rightarrow> bool" where
  "keys_are d ks = (list_all (\<lambda>k. k \<in> set ks) (map fst d) \<and> list_all (\<lambda>k. k \<in> set (map fst d)) ks)"

section \<open>Resolution phase\<close>

datatype BookingResolutionPhase = NON_BOOKING | NEEDS_REMOTE | INTERRUPTED | HAS_RESULT

definition plan_has_booking_fixture :: "payload \<Rightarrow> bool" where
  "plan_has_booking_fixture p = dict_has p ''booking''"

fun is_dict :: "json \<Rightarrow> bool" where
  "is_dict (JObj _) = True"
| "is_dict _ = False"

definition booking_resolution_phase :: "payload \<Rightarrow> BookingResolutionPhase" where
  "booking_resolution_phase p =
     (if \<not> plan_has_booking_fixture p then NON_BOOKING
      else if is_dict (dict_get p ''booking_resolution_result'') then HAS_RESULT
      else if dict_get p ''booking_resolution_started'' = JBool True then INTERRUPTED
      else NEEDS_REMOTE)"

section \<open>Sanitizer\<close>

definition allowlisted_reason :: "json \<Rightarrow> json" where
  "allowlisted_reason raw =
     (case raw of
        JNull \<Rightarrow> JNull
      | JStr s \<Rightarrow> if s \<in> set ALLOWED_BOOKING_REASONS then JStr s else JStr ''UNKNOWN_OUTCOME''
      | _ \<Rightarrow> JStr ''UNKNOWN_OUTCOME'')"

definition require_safe_slot_id :: "json \<Rightarrow> string option" where
  "require_safe_slot_id value =
     (case value of
        JStr s \<Rightarrow>
          if s = [] then None
          else if length s > MAX_SLOT_ID_LENGTH then None
          else if list_ex isspace_char s then None
          else if contains_control_chars s then None
          else Some s
      | _ \<Rightarrow> None)"

text \<open>Order of Python strings, by code points.\<close>

fun str_le :: "string \<Rightarrow> string \<Rightarrow> bool" where
  "str_le [] t = True"
| "str_le (c # s) [] = False"
| "str_le (c # s) (d # t) = (ord_char c < ord_char d \<or> c = d \<and> str_le s t)"

definition starts_at_of_json :: "json \<Rightarrow> string option" where
  "starts_at_of_json v =
     (case v of
        JStr s \<Rightarrow> (case require_canonical_booking_starts_at s of Inl _ \<Rightarrow> None | Inr x \<Rightarrow> Some x)
      | _ \<Rightarrow> None)"

definition calendar_date_of_json :: "json \<Rightarrow> string option" where
  "calendar_date_of_json v =
     (case v of
        JStr s \<Rightarrow> (case require_calendar_date s of Inl _ \<Rightarrow> None | Inr x \<Rightarrow> Some x)
      | _ \<Rightarrow> None)"

text \<open>
  The loop over offered slots with its running state: ids seen, start times seen, the previous start.
  \<open>seen_starts\<close> is implied by the strict order but the code keeps it.
\<close>

fun offered_slots_loop ::
  "(string \<times> json) list \<Rightarrow> string list \<Rightarrow> string list \<Rightarrow> string option \<Rightarrow> json list \<Rightarrow> json list option" where
  "offered_slots_loop [] seen_ids seen_starts previous acc = Some acc"
| "offered_slots_loop ((expected_id, item) # rest) seen_ids seen_starts previous acc =
     (case item of
        JObj d \<Rightarrow>
          if \<not> keys_are d [''slot_id'', ''starts_at''] then None
          else (case require_safe_slot_id (dict_get d ''slot_id'') of
              None \<Rightarrow> None
            | Some slot_id \<Rightarrow>
                if slot_id \<noteq> expected_id then None
                else if slot_id \<in> set seen_ids then None
                else (case starts_at_of_json (dict_get d ''starts_at'') of
                    None \<Rightarrow> None
                  | Some starts_at \<Rightarrow>
                      if starts_at \<in> set seen_starts then None
                      else if (case previous of None \<Rightarrow> False | Some p \<Rightarrow> str_le starts_at p) then None
                      else offered_slots_loop rest (slot_id # seen_ids) (starts_at # seen_starts) (Some starts_at)
                             (acc @ [JObj [(''slot_id'', JStr slot_id), (''starts_at'', JStr starts_at)]])))
      | _ \<Rightarrow> None)"

definition sanitize_offered_slots_new :: "string list \<Rightarrow> json \<Rightarrow> json list option" where
  "sanitize_offered_slots_new slot_ids offered =
     (case offered of
        JList items \<Rightarrow>
          if length items \<noteq> length slot_ids then None
          else if items = [] \<or> length items > MAX_OFFERED_SLOTS then None
          else offered_slots_loop (zip slot_ids items) [] [] None []
      | _ \<Rightarrow> None)"

fun date_keys_loop :: "json list \<Rightarrow> string list \<Rightarrow> string option \<Rightarrow> json list \<Rightarrow> json list option" where
  "date_keys_loop [] seen previous acc = Some acc"
| "date_keys_loop (item # rest) seen previous acc =
     (case calendar_date_of_json item of
        None \<Rightarrow> None
      | Some key \<Rightarrow>
          if key \<in> set seen then None
          else if (case previous of None \<Rightarrow> False | Some p \<Rightarrow> str_le key p) then None
          else date_keys_loop rest (key # seen) (Some key) (acc @ [JStr key]))"

definition sanitize_offer_days_fields :: "payload \<Rightarrow> payload option" where
  "sanitize_offer_days_fields raw =
     (if \<not> keys_are raw OFFER_DAYS_KEYS then None
      else if dict_get raw ''booking_action'' \<noteq> JStr ''OFFER_DAYS'' then None
      else if dict_get raw ''booking_reason'' \<noteq> JNull then None
      else case dict_get raw ''booking_available_date_keys'' of
        JList items \<Rightarrow>
          if items = [] \<or> length items > MAX_OFFER_DAYS then None
          else (case date_keys_loop items [] None [] of
              None \<Rightarrow> None
            | Some keys \<Rightarrow>
                (case calendar_date_of_json (dict_get raw ''booking_studio_today'') of
                   None \<Rightarrow> None
                 | Some today \<Rightarrow>
                     Some [(''booking_action'', JStr ''OFFER_DAYS''), (''booking_reason'', JNull),
                           (''booking_available_date_keys'', JList keys), (''booking_studio_today'', JStr today)]))
      | _ \<Rightarrow> None)"

fun slot_ids_loop :: "json list \<Rightarrow> string list \<Rightarrow> string list \<Rightarrow> string list option" where
  "slot_ids_loop [] seen acc = Some acc"
| "slot_ids_loop (item # rest) seen acc =
     (case require_safe_slot_id item of
        None \<Rightarrow> None
      | Some slot_id \<Rightarrow>
          if slot_id \<in> set seen then None else slot_ids_loop rest (slot_id # seen) (acc @ [slot_id]))"

definition sanitize_slot_ids_list :: "json \<Rightarrow> string list option" where
  "sanitize_slot_ids_list raw =
     (case raw of
        JList items \<Rightarrow>
          if items = [] \<or> length items > MAX_OFFERED_SLOTS then None else slot_ids_loop items [] []
      | _ \<Rightarrow> None)"

definition optional_offer_slots_kind :: "payload \<Rightarrow> string option" where
  "optional_offer_slots_kind raw =
     (if dict_get raw ''client_message_kind'' = JStr ''OFFER_SLOTS'' then Some ''OFFER_SLOTS'' else None)"

text \<open>The common end of both slot shapes.\<close>

definition with_offer_slots_kind :: "payload \<Rightarrow> payload \<Rightarrow> payload option" where
  "with_offer_slots_kind raw flds =
     (let kind = optional_offer_slots_kind raw
      in if dict_has raw ''client_message_kind'' \<and> kind = None then None
         else case kind of
           None \<Rightarrow> Some flds
         | Some k \<Rightarrow> Some (flds @ [(''client_message_kind'', JStr k)]))"

definition sanitize_offer_slots_legacy :: "payload \<Rightarrow> payload option" where
  "sanitize_offer_slots_legacy raw =
     (if dict_get raw ''booking_action'' \<noteq> JStr ''OFFER_SLOTS'' then None
      else if dict_get raw ''booking_reason'' \<noteq> JNull then None
      else case sanitize_slot_ids_list (dict_get raw ''booking_offered_slot_ids'') of
        None \<Rightarrow> None
      | Some slot_ids \<Rightarrow>
          with_offer_slots_kind raw
            [(''booking_action'', JStr ''OFFER_SLOTS''), (''booking_reason'', JNull),
             (''booking_offered_slot_ids'', JList (map JStr slot_ids))])"

definition sanitize_offer_slots_new_shape :: "payload \<Rightarrow> payload option" where
  "sanitize_offer_slots_new_shape raw =
     (if dict_get raw ''booking_action'' \<noteq> JStr ''OFFER_SLOTS'' then None
      else if dict_get raw ''booking_reason'' \<noteq> JNull then None
      else case sanitize_slot_ids_list (dict_get raw ''booking_offered_slot_ids'') of
        None \<Rightarrow> None
      | Some slot_ids \<Rightarrow>
          (case sanitize_offered_slots_new slot_ids (dict_get raw ''booking_offered_slots'') of
             None \<Rightarrow> None
           | Some offered \<Rightarrow>
               with_offer_slots_kind raw
                 [(''booking_action'', JStr ''OFFER_SLOTS''), (''booking_reason'', JNull),
                  (''booking_offered_slot_ids'', JList (map JStr slot_ids)),
                  (''booking_offered_slots'', JList offered)]))"

definition sanitize_offer_slots_fields :: "payload \<Rightarrow> payload option" where
  "sanitize_offer_slots_fields raw =
     (if keys_are raw OFFER_SLOTS_LEGACY_KEYS \<or> keys_are raw (OFFER_SLOTS_LEGACY_KEYS @ [''client_message_kind''])
      then sanitize_offer_slots_legacy raw
      else if keys_are raw OFFER_SLOTS_NEW_KEYS \<or> keys_are raw (OFFER_SLOTS_NEW_KEYS @ [''client_message_kind''])
      then sanitize_offer_slots_new_shape raw
      else None)"

definition interrupted_booking_fields :: payload where
  "interrupted_booking_fields =
     [(''booking_action'', JStr ''SERVICE_UNAVAILABLE''),
      (''booking_reason'', JStr ''BOOKING_RESOLUTION_INTERRUPTED''),
      (''client_message_kind'', JStr ''SERVICE_TEMPORARILY_UNAVAILABLE'')]"

definition sanitize_booking_result_fields :: "json \<Rightarrow> payload" where
  "sanitize_booking_result_fields v =
     (case v of
        JObj raw \<Rightarrow>
          (case dict_get raw ''booking_action'' of
             JStr action \<Rightarrow>
               if action \<notin> set BOOKING_DIALOG_ACTIONS then interrupted_booking_fields
               else if action = ''OFFER_DAYS''
               then (case sanitize_offer_days_fields raw of None \<Rightarrow> interrupted_booking_fields | Some f \<Rightarrow> f)
               else if action = ''OFFER_SLOTS''
               then (case sanitize_offer_slots_fields raw of None \<Rightarrow> interrupted_booking_fields | Some f \<Rightarrow> f)
               else
                 let kind = dict_get raw ''client_message_kind'';
                     flds = [(''booking_action'', JStr action),
                               (''booking_reason'', allowlisted_reason (dict_get raw ''booking_reason''))]
                 in if action = ''MANAGER_HANDOFF''
                    then (case kind of
                            JStr k \<Rightarrow> if k \<in> set HANDOFF_MESSAGE_KINDS
                                      then flds @ [(''client_message_kind'', kind)]
                                      else interrupted_booking_fields
                          | _ \<Rightarrow> interrupted_booking_fields)
                    else if action = ''SERVICE_UNAVAILABLE''
                    then (if kind = JNull \<or> kind = JStr ''SERVICE_TEMPORARILY_UNAVAILABLE''
                          then flds @ [(''client_message_kind'', JStr ''SERVICE_TEMPORARILY_UNAVAILABLE'')]
                          else interrupted_booking_fields)
                    else if kind \<noteq> JNull then interrupted_booking_fields
                    else flds
           | _ \<Rightarrow> interrupted_booking_fields)
      | _ \<Rightarrow> interrupted_booking_fields)"

definition read_booking_resolution_result :: "payload \<Rightarrow> payload option" where
  "read_booking_resolution_result p =
     (if dict_get p ''booking_resolution_result'' = JNull then None
      else Some (sanitize_booking_result_fields (dict_get p ''booking_resolution_result'')))"

section \<open>Outbound payloads\<close>

definition render_text_for_booking_fields :: "payload \<Rightarrow> exn + string" where
  "render_text_for_booking_fields flds =
     (let action = dict_get flds ''booking_action'' in
      if action = JStr ''OFFER_SLOTS'' then Inr (CLIENT_MESSAGE_TEXT Kind_OFFER_SLOTS)
      else if action = JStr ''SERVICE_UNAVAILABLE'' then Inr (CLIENT_MESSAGE_TEXT Kind_SERVICE_TEMPORARILY_UNAVAILABLE)
      else if action = JStr ''MANAGER_HANDOFF''
      then (if dict_get flds ''client_message_kind'' = JStr ''HANDOFF_DURING_MANAGER_HOURS''
            then Inr (CLIENT_MESSAGE_TEXT Kind_HANDOFF_DURING_MANAGER_HOURS)
            else if dict_get flds ''client_message_kind'' = JStr ''HANDOFF_OUTSIDE_MANAGER_HOURS''
            then Inr (CLIENT_MESSAGE_TEXT Kind_HANDOFF_OUTSIDE_MANAGER_HOURS)
            else Inl (OutboundReplyTextError ''OUTBOUND_REPLY_TEXT_MISSING''))
      else if action = JStr ''OFFER_DAYS'' then Inl (OutboundReplyTextError ''OUTBOUND_REPLY_TEXT_NOT_RENDERABLE'')
      else Inl (OutboundReplyTextError ''OUTBOUND_REPLY_TEXT_MISSING''))"

definition is_machine_only_outbound_payload :: "payload \<Rightarrow> bool" where
  "is_machine_only_outbound_payload p = (dict_get p ''booking_action'' = JStr ''OFFER_DAYS'')"

definition persisted_outbound_reply_text :: "payload \<Rightarrow> string option" where
  "persisted_outbound_reply_text p =
     (case dict_get p ''text'' of
        JStr text \<Rightarrow>
          if list_all isspace_char text then None
          else (case dict_get p ''synthetic_token'' of
              JStr token \<Rightarrow> if token \<noteq> [] \<and> text = token then None else Some text
            | _ \<Rightarrow> Some text)
      | _ \<Rightarrow> None)"

definition require_persisted_outbound_text :: "payload \<Rightarrow> exn + string" where
  "require_persisted_outbound_text p =
     (case persisted_outbound_reply_text p of
        None \<Rightarrow> Inl (OutboundReplyTextError ''OUTBOUND_REPLY_TEXT_MISSING'')
      | Some text \<Rightarrow> Inr text)"

definition base_synthetic_outbound_payload :: "payload \<Rightarrow> payload" where
  "base_synthetic_outbound_payload p =
     [(''schema'', JStr ''synthetic.outbound.v1''), (''source_schema'', dict_get p ''schema''),
      (''plan_type'', dict_get p ''plan_type''),
      (''synthetic_token'',
        if dict_has p ''synthetic_token'' then dict_get p ''synthetic_token'' else JStr ''SYNTHETIC_OK'')]"

text \<open>
  The worker's two uses: without booking fields the call always raises, with them the result is
  sanitized, merged and given its client text. (The \<open>booking_flow\<close> argument is for unit helpers only.)
\<close>

definition build_synthetic_outbound_payload :: "payload \<Rightarrow> payload option \<Rightarrow> exn + payload" where
  "build_synthetic_outbound_payload p booking_fields =
     (case booking_fields of
        None \<Rightarrow> Inl (OutboundReplyTextError ''OUTBOUND_REPLY_TEXT_MISSING'')
      | Some raw \<Rightarrow>
          let resolved = sanitize_booking_result_fields (JObj raw);
              merged = dict_update (base_synthetic_outbound_payload p) resolved
          in case render_text_for_booking_fields resolved of
               Inr text \<Rightarrow> Inr (dict_set merged ''text'' (JStr text))
             | Inl e \<Rightarrow>
                 if e = OutboundReplyTextError ''OUTBOUND_REPLY_TEXT_NOT_RENDERABLE'' \<and>
                    dict_get resolved ''booking_action'' = JStr ''OFFER_DAYS''
                 then Inr merged else Inl e)"

definition client_reply_plan_payload :: "string \<Rightarrow> json option \<Rightarrow> bool \<Rightarrow> payload" where
  "client_reply_plan_payload inbox_id booking deferred =
     [(''schema'', JStr ''synthetic.reply_plan.v1''), (''plan_type'', JStr ''CLIENT_REPLY''),
      (''synthetic_token'', JStr ''SYNTHETIC_OK''), (''inbox_id'', JStr inbox_id)] @
     (if deferred then [(''deferred_for_handoff'', JBool True)] else []) @
     (case booking of None \<Rightarrow> [] | Some wire \<Rightarrow> [(''booking'', wire)])"

section \<open>VK proof payloads\<close>

definition vk_client_proof_reply_plan_payload :: "string \<Rightarrow> payload" where
  "vk_client_proof_reply_plan_payload text =
     [(''schema'', JStr ''vk.client.proof.reply_plan.v1''), (''destination'', JStr ''VK_CLIENT_OUTBOUND''),
      (''text'', JStr text)]"

definition vk_client_outbound_payload :: "string \<Rightarrow> payload" where
  "vk_client_outbound_payload text = [(''schema'', JStr ''vk.client.outbound.v1''), (''text'', JStr text)]"

definition is_vk_client_proof_reply_plan :: "payload \<Rightarrow> bool" where
  "is_vk_client_proof_reply_plan p =
     (dict_get p ''schema'' = JStr ''vk.client.proof.reply_plan.v1'' \<and>
      dict_get p ''destination'' = JStr ''VK_CLIENT_OUTBOUND'' \<and>
      (case dict_get p ''text'' of JStr text \<Rightarrow> text \<noteq> [] | _ \<Rightarrow> False))"

section \<open>Sanitizing twice\<close>

lemma calendar_date_stable: "calendar_date_of_json v = Some k \<Longrightarrow> calendar_date_of_json (JStr k) = Some k"
  by (auto simp: calendar_date_of_json_def split: json.splits sum.splits)
    (metis require_calendar_date_Inr(1) sum.distinct(1))+

lemma starts_at_Inr: "require_canonical_booking_starts_at s = Inr x \<Longrightarrow> x = s"
  by (auto simp: require_canonical_booking_starts_at_def Let_def split: if_splits)

lemma starts_at_stable: "starts_at_of_json v = Some x \<Longrightarrow> starts_at_of_json (JStr x) = Some x"
  by (auto simp: starts_at_of_json_def split: json.splits sum.splits) (metis starts_at_Inr sum.distinct(1))+

lemma safe_slot_id_stable: "require_safe_slot_id v = Some x \<Longrightarrow> require_safe_slot_id (JStr x) = Some x"
  by (auto simp: require_safe_slot_id_def split: json.splits if_splits)

lemma date_keys_loop_again:
  assumes "date_keys_loop items seen previous acc = Some out"
  shows "\<exists>ks. out = acc @ map JStr ks \<and> length ks = length items \<and>
    (\<forall>acc'. date_keys_loop (map JStr ks) seen previous acc' = Some (acc' @ map JStr ks))"
  using assms
proof (induction items seen previous acc rule: date_keys_loop.induct)
  case (1 seen previous acc)
  then show ?case by auto
next
  case (2 item rest seen previous acc)
  then obtain key where key: "calendar_date_of_json item = Some key" and ok: "key \<notin> set seen"
    "\<not> (case previous of None \<Rightarrow> False | Some p \<Rightarrow> str_le key p)"
    and rest: "date_keys_loop rest (key # seen) (Some key) (acc @ [JStr key]) = Some out"
    by (auto split: option.splits if_splits)
  obtain ks where "out = (acc @ [JStr key]) @ map JStr ks" and "length ks = length rest"
    and "\<And>acc'. date_keys_loop (map JStr ks) (key # seen) (Some key) acc' = Some (acc' @ map JStr ks)"
    using "2.IH" [OF key ok rest] by auto
  with calendar_date_stable [OF key] ok show ?case
    by (intro exI [of _ "key # ks"]) auto
qed

lemma slot_ids_loop_again:
  assumes "slot_ids_loop items seen acc = Some out"
  shows "\<exists>ks. out = acc @ ks \<and> length ks = length items \<and>
    (\<forall>acc'. slot_ids_loop (map JStr ks) seen acc' = Some (acc' @ ks))"
  using assms
proof (induction items seen acc rule: slot_ids_loop.induct)
  case (1 seen acc)
  then show ?case by auto
next
  case (2 item rest seen acc)
  then obtain k where k: "require_safe_slot_id item = Some k" and ok: "k \<notin> set seen"
    and rest: "slot_ids_loop rest (k # seen) (acc @ [k]) = Some out"
    by (auto split: option.splits if_splits)
  obtain ks where "out = (acc @ [k]) @ ks" and "length ks = length rest"
    and "\<And>acc'. slot_ids_loop (map JStr ks) (k # seen) acc' = Some (acc' @ ks)"
    using "2.IH" [OF k ok rest] by auto
  with safe_slot_id_stable [OF k] ok show ?case
    by (intro exI [of _ "k # ks"]) auto
qed

lemma offered_slots_loop_again:
  assumes "offered_slots_loop (zip ids items) si ss previous acc = Some out" and "length items = length ids"
  shows "\<exists>ws. out = acc @ ws \<and> length ws = length ids \<and>
    (\<forall>acc'. offered_slots_loop (zip ids ws) si ss previous acc' = Some (acc' @ ws))"
  using assms
proof (induction ids arbitrary: items si ss previous acc)
  case Nil
  then show ?case by auto
next
  case (Cons i ids)
  then obtain item rest where items: "items = item # rest" "length rest = length ids"
    by (cases items) auto
  let ?w = "\<lambda>starts. JObj [(''slot_id'', JStr i), (''starts_at'', JStr starts)]"
  obtain d starts where "item = JObj d" and id: "require_safe_slot_id (dict_get d ''slot_id'') = Some i"
    and st: "starts_at_of_json (dict_get d ''starts_at'') = Some starts"
    and ok: "i \<notin> set si" "starts \<notin> set ss" "\<not> (case previous of None \<Rightarrow> False | Some p \<Rightarrow> str_le starts p)"
    and rest: "offered_slots_loop (zip ids rest) (i # si) (starts # ss) (Some starts) (acc @ [?w starts]) = Some out"
    using Cons.prems(1) items by (auto split: json.splits option.splits if_splits)
  obtain ws where "out = (acc @ [?w starts]) @ ws" and "length ws = length ids"
    and again: "\<And>acc'. offered_slots_loop (zip ids ws) (i # si) (starts # ss) (Some starts) acc' = Some (acc' @ ws)"
    using Cons.IH [OF rest items(2)] by auto
  moreover have "offered_slots_loop (zip (i # ids) (?w starts # ws)) si ss previous acc' = Some (acc' @ ?w starts # ws)" for acc'
    using safe_slot_id_stable [OF id] starts_at_stable [OF st] ok again [of "acc' @ [?w starts]"]
    by (simp add: keys_are_def)
  ultimately show ?case
    by (intro exI [of _ "?w starts # ws"]) auto
qed

lemma sanitize_days_again:
  assumes "sanitize_offer_days_fields raw = Some flds"
  shows "sanitize_offer_days_fields flds = Some flds"
proof -
  obtain items keys today where items: "items \<noteq> []" "length items \<le> MAX_OFFER_DAYS"
    and loop: "date_keys_loop items [] None [] = Some keys"
    and today: "calendar_date_of_json (JStr today) = Some today"
    and flds: "flds = [(''booking_action'', JStr ''OFFER_DAYS''), (''booking_reason'', JNull),
      (''booking_available_date_keys'', JList keys), (''booking_studio_today'', JStr today)]"
    using assms calendar_date_stable
    by (auto simp: sanitize_offer_days_fields_def split: if_splits json.splits option.splits)
  obtain ks where ks: "keys = map JStr ks" "length ks = length items"
    and again: "date_keys_loop (map JStr ks) [] None [] = Some (map JStr ks)"
    using date_keys_loop_again [OF loop] by auto
  have "ks \<noteq> []" using ks(2) items(1) by auto
  then show ?thesis
    using items today again by (auto simp: flds sanitize_offer_days_fields_def keys_are_def OFFER_DAYS_KEYS_def ks)
qed

lemma sanitize_slot_ids_again:
  assumes "sanitize_slot_ids_list v = Some ids"
  shows "sanitize_slot_ids_list (JList (map JStr ids)) = Some ids"
proof -
  obtain items where items: "items \<noteq> []" "length items \<le> MAX_OFFERED_SLOTS"
    and loop: "slot_ids_loop items [] [] = Some ids"
    using assms by (auto simp: sanitize_slot_ids_list_def split: json.splits if_splits)
  from slot_ids_loop_again [OF loop] items show ?thesis
    by (auto simp: sanitize_slot_ids_list_def)
qed

lemma sanitize_offered_again:
  assumes "sanitize_offered_slots_new ids v = Some offered"
  shows "sanitize_offered_slots_new ids (JList offered) = Some offered"
proof -
  obtain items where items: "length items = length ids" "items \<noteq> []" "length items \<le> MAX_OFFERED_SLOTS"
    and loop: "offered_slots_loop (zip ids items) [] [] None [] = Some offered"
    using assms by (auto simp: sanitize_offered_slots_new_def split: json.splits if_splits)
  from offered_slots_loop_again [OF loop items(1)] items show ?thesis
    by (auto simp: sanitize_offered_slots_new_def)
qed

lemma with_kind_again:
  assumes "with_offer_slots_kind raw base = Some flds" and "\<not> dict_has base ''client_message_kind''"
  shows "(flds = base \<and> \<not> dict_has raw ''client_message_kind'') \<or>
    flds = base @ [(''client_message_kind'', JStr ''OFFER_SLOTS'')] \<and> dict_has raw ''client_message_kind''"
proof -
  have "dict_get raw ''client_message_kind'' \<noteq> JNull \<Longrightarrow> dict_has raw ''client_message_kind''"
    using dict_get_absent by blast
  with assms show ?thesis
    by (auto simp: with_offer_slots_kind_def optional_offer_slots_kind_def Let_def split: if_splits)
qed

lemma legacy_slots_fixed:
  assumes "sanitize_slot_ids_list v = Some ids"
  shows "sanitize_offer_slots_fields
      [(''booking_action'', JStr ''OFFER_SLOTS''), (''booking_reason'', JNull),
       (''booking_offered_slot_ids'', JList (map JStr ids))] =
    Some [(''booking_action'', JStr ''OFFER_SLOTS''), (''booking_reason'', JNull),
       (''booking_offered_slot_ids'', JList (map JStr ids))]"
    and "sanitize_offer_slots_fields
      [(''booking_action'', JStr ''OFFER_SLOTS''), (''booking_reason'', JNull),
       (''booking_offered_slot_ids'', JList (map JStr ids)), (''client_message_kind'', JStr ''OFFER_SLOTS'')] =
    Some [(''booking_action'', JStr ''OFFER_SLOTS''), (''booking_reason'', JNull),
       (''booking_offered_slot_ids'', JList (map JStr ids)), (''client_message_kind'', JStr ''OFFER_SLOTS'')]"
  using sanitize_slot_ids_again [OF assms]
  by (simp_all add: sanitize_offer_slots_fields_def keys_are_def OFFER_SLOTS_LEGACY_KEYS_def
      sanitize_offer_slots_legacy_def with_offer_slots_kind_def optional_offer_slots_kind_def)

lemma new_slots_fixed:
  assumes "sanitize_slot_ids_list v = Some ids" and "sanitize_offered_slots_new ids w = Some offered"
  shows "sanitize_offer_slots_fields
      [(''booking_action'', JStr ''OFFER_SLOTS''), (''booking_reason'', JNull),
       (''booking_offered_slot_ids'', JList (map JStr ids)), (''booking_offered_slots'', JList offered)] =
    Some [(''booking_action'', JStr ''OFFER_SLOTS''), (''booking_reason'', JNull),
       (''booking_offered_slot_ids'', JList (map JStr ids)), (''booking_offered_slots'', JList offered)]"
    and "sanitize_offer_slots_fields
      [(''booking_action'', JStr ''OFFER_SLOTS''), (''booking_reason'', JNull),
       (''booking_offered_slot_ids'', JList (map JStr ids)), (''booking_offered_slots'', JList offered),
       (''client_message_kind'', JStr ''OFFER_SLOTS'')] =
    Some [(''booking_action'', JStr ''OFFER_SLOTS''), (''booking_reason'', JNull),
       (''booking_offered_slot_ids'', JList (map JStr ids)), (''booking_offered_slots'', JList offered),
       (''client_message_kind'', JStr ''OFFER_SLOTS'')]"
  using sanitize_slot_ids_again [OF assms(1)] sanitize_offered_again [OF assms(2)]
  by (simp_all add: sanitize_offer_slots_fields_def keys_are_def OFFER_SLOTS_LEGACY_KEYS_def OFFER_SLOTS_NEW_KEYS_def
      sanitize_offer_slots_new_shape_def with_offer_slots_kind_def optional_offer_slots_kind_def)

lemma sanitize_slots_again:
  assumes "sanitize_offer_slots_fields raw = Some flds"
  shows "sanitize_offer_slots_fields flds = Some flds \<and>
    (\<exists>rest. flds = (''booking_action'', JStr ''OFFER_SLOTS'') # rest \<and>
      fst ` set rest \<subseteq> {''booking_reason'', ''booking_offered_slot_ids'', ''booking_offered_slots'', ''client_message_kind''})"
proof -
  define B where "B = (\<lambda>ids. [(''booking_action'', JStr ''OFFER_SLOTS''), (''booking_reason'', JNull),
    (''booking_offered_slot_ids'', JList (map JStr ids))])"
  have cases: "(\<exists>ids. sanitize_slot_ids_list (dict_get raw ''booking_offered_slot_ids'') = Some ids \<and>
        with_offer_slots_kind raw (B ids) = Some flds) \<or>
      (\<exists>ids offered. sanitize_slot_ids_list (dict_get raw ''booking_offered_slot_ids'') = Some ids \<and>
        sanitize_offered_slots_new ids (dict_get raw ''booking_offered_slots'') = Some offered \<and>
        with_offer_slots_kind raw (B ids @ [(''booking_offered_slots'', JList offered)]) = Some flds)"
    using assms unfolding B_def
    by (auto simp: sanitize_offer_slots_fields_def sanitize_offer_slots_legacy_def sanitize_offer_slots_new_shape_def
        split: if_splits option.splits)
  then show ?thesis
  proof (elim disjE exE conjE)
    fix ids assume ids: "sanitize_slot_ids_list (dict_get raw ''booking_offered_slot_ids'') = Some ids"
      and w: "with_offer_slots_kind raw (B ids) = Some flds"
    have "flds = B ids \<or> flds = B ids @ [(''client_message_kind'', JStr ''OFFER_SLOTS'')]"
      using with_kind_again [OF w] by (simp add: B_def) blast
    with legacy_slots_fixed [OF ids] show ?thesis
      unfolding B_def by (elim disjE) simp_all
  next
    fix ids offered assume ids: "sanitize_slot_ids_list (dict_get raw ''booking_offered_slot_ids'') = Some ids"
      and offered: "sanitize_offered_slots_new ids (dict_get raw ''booking_offered_slots'') = Some offered"
      and w: "with_offer_slots_kind raw (B ids @ [(''booking_offered_slots'', JList offered)]) = Some flds"
    have "flds = B ids @ [(''booking_offered_slots'', JList offered)] \<or>
      flds = B ids @ [(''booking_offered_slots'', JList offered), (''client_message_kind'', JStr ''OFFER_SLOTS'')]"
      using with_kind_again [OF w] by (simp add: B_def) blast
    with new_slots_fixed [OF ids offered] show ?thesis
      unfolding B_def by (elim disjE) simp_all
  qed
qed

lemma sanitize_days_shape:
  assumes "sanitize_offer_days_fields raw = Some flds"
  shows "\<exists>rest. flds = (''booking_action'', JStr ''OFFER_DAYS'') # rest \<and>
    fst ` set rest \<subseteq> {''booking_reason'', ''booking_available_date_keys'', ''booking_studio_today''}"
  using assms by (auto simp: sanitize_offer_days_fields_def split: if_splits json.splits option.splits)

lemma allowlisted_again: "allowlisted_reason (allowlisted_reason v) = allowlisted_reason v"
  by (auto simp: allowlisted_reason_def ALLOWED_BOOKING_REASONS_def BOOKING_INTERNAL_REASON_CODES_def split: json.splits)

text \<open>Every sanitized result has one of these shapes.\<close>

lemma sanitize_cases:
  obtains (days) raw flds where "sanitize_offer_days_fields raw = Some flds" and "sanitize_booking_result_fields v = flds"
  | (slots) raw flds where "sanitize_offer_slots_fields raw = Some flds" and "sanitize_booking_result_fields v = flds"
  | (handoff) r k where "k \<in> set HANDOFF_MESSAGE_KINDS" and "sanitize_booking_result_fields v =
      [(''booking_action'', JStr ''MANAGER_HANDOFF''), (''booking_reason'', allowlisted_reason r), (''client_message_kind'', JStr k)]"
  | (unavailable) r where "sanitize_booking_result_fields v =
      [(''booking_action'', JStr ''SERVICE_UNAVAILABLE''), (''booking_reason'', allowlisted_reason r),
       (''client_message_kind'', JStr ''SERVICE_TEMPORARILY_UNAVAILABLE'')]"
proof -
  have int: "interrupted_booking_fields =
      [(''booking_action'', JStr ''SERVICE_UNAVAILABLE''),
       (''booking_reason'', allowlisted_reason (JStr ''BOOKING_RESOLUTION_INTERRUPTED'')),
       (''client_message_kind'', JStr ''SERVICE_TEMPORARILY_UNAVAILABLE'')]"
    by code_simp
  show thesis
  proof (cases "\<exists>raw a. v = JObj raw \<and> dict_get raw ''booking_action'' = JStr a \<and> a \<in> set BOOKING_DIALOG_ACTIONS")
    case False
    then have "sanitize_booking_result_fields v = interrupted_booking_fields"
      by (simp add: sanitize_booking_result_fields_def split: json.split)
    with int unavailable show ?thesis by metis
  next
    case True
    then obtain raw a where v: "v = JObj raw" "dict_get raw ''booking_action'' = JStr a" "a \<in> set BOOKING_DIALOG_ACTIONS"
      by blast
    let ?kind = "dict_get raw ''client_message_kind''"
    have "a = ''OFFER_SLOTS'' \<or> a = ''OFFER_DAYS'' \<or> a = ''MANAGER_HANDOFF'' \<or> a = ''SERVICE_UNAVAILABLE''"
      using v(3) by (simp add: BOOKING_DIALOG_ACTIONS_def)
    then consider "a = ''OFFER_DAYS''" | "a = ''OFFER_SLOTS''" | "a = ''MANAGER_HANDOFF''" | "a = ''SERVICE_UNAVAILABLE''"
      by blast
    then show ?thesis
    proof cases
      case 1
      then have "sanitize_booking_result_fields v =
          (case sanitize_offer_days_fields raw of None \<Rightarrow> interrupted_booking_fields | Some f \<Rightarrow> f)"
        using v by (simp add: sanitize_booking_result_fields_def)
      then show ?thesis using int unavailable days by (cases "sanitize_offer_days_fields raw") auto
    next
      case 2
      then have "sanitize_booking_result_fields v =
          (case sanitize_offer_slots_fields raw of None \<Rightarrow> interrupted_booking_fields | Some f \<Rightarrow> f)"
        using v by (simp add: sanitize_booking_result_fields_def)
      then show ?thesis using int unavailable slots by (cases "sanitize_offer_slots_fields raw") auto
    next
      case 3
      show ?thesis
      proof (cases "\<exists>k. ?kind = JStr k \<and> k \<in> set HANDOFF_MESSAGE_KINDS")
        case True
        then obtain k where k: "?kind = JStr k" "k \<in> set HANDOFF_MESSAGE_KINDS" by blast
        with 3 v have "sanitize_booking_result_fields v =
            [(''booking_action'', JStr ''MANAGER_HANDOFF''),
             (''booking_reason'', allowlisted_reason (dict_get raw ''booking_reason'')), (''client_message_kind'', JStr k)]"
          by (simp add: sanitize_booking_result_fields_def)
        with handoff k(2) show ?thesis by blast
      next
        case False
        with 3 v have "sanitize_booking_result_fields v = interrupted_booking_fields"
          by (simp add: sanitize_booking_result_fields_def Let_def split: json.split)
        with int unavailable show ?thesis by metis
      qed
    next
      case 4
      show ?thesis
      proof (cases "?kind = JNull \<or> ?kind = JStr ''SERVICE_TEMPORARILY_UNAVAILABLE''")
        case True
        with 4 v have "sanitize_booking_result_fields v =
            [(''booking_action'', JStr ''SERVICE_UNAVAILABLE''),
             (''booking_reason'', allowlisted_reason (dict_get raw ''booking_reason'')),
             (''client_message_kind'', JStr ''SERVICE_TEMPORARILY_UNAVAILABLE'')]"
          by (simp add: sanitize_booking_result_fields_def)
        with unavailable show ?thesis by blast
      next
        case False
        with 4 v have "sanitize_booking_result_fields v = interrupted_booking_fields"
          by (simp add: sanitize_booking_result_fields_def)
        with int unavailable show ?thesis by metis
      qed
    qed
  qed
qed

text \<open>
  Sanitizing a booking result is idempotent: what the worker reads back from a plan, or sanitizes
  again before the outbound row is built, is the very object it stored.
\<close>

theorem sanitize_booking_result_idempotent:
  "sanitize_booking_result_fields (JObj (sanitize_booking_result_fields v)) = sanitize_booking_result_fields v"
proof (cases rule: sanitize_cases [of v])
  case (days raw flds)
  have again: "sanitize_offer_days_fields flds = Some flds" by (rule sanitize_days_again [OF days(1)])
  from sanitize_days_shape [OF days(1)] again days(2) show ?thesis
    by (auto simp: sanitize_booking_result_fields_def BOOKING_DIALOG_ACTIONS_def)
next
  case (slots raw flds)
  from sanitize_slots_again [OF slots(1)] slots(2) show ?thesis
    by (auto simp: sanitize_booking_result_fields_def BOOKING_DIALOG_ACTIONS_def)
next
  case (handoff r k)
  then show ?thesis
    by (simp add: sanitize_booking_result_fields_def BOOKING_DIALOG_ACTIONS_def allowlisted_again)
next
  case (unavailable r)
  then show ?thesis
    by (simp add: sanitize_booking_result_fields_def BOOKING_DIALOG_ACTIONS_def allowlisted_again)
qed

section \<open>A sanitized result has its client text\<close>

lemma dict_update_Cons: "dict_update d ((k, v) # e) = dict_update (dict_set d k v) e"
  by (simp add: dict_update_def)

lemma dict_get_update_other: "k \<notin> fst ` set e \<Longrightarrow> dict_get (dict_update d e) k = dict_get d k"
  by (induction e arbitrary: d) (auto simp: dict_update_def)

lemma sanitized_shape:
  "\<exists>a rest. sanitize_booking_result_fields v = (''booking_action'', JStr a) # rest \<and>
     fst ` set rest \<subseteq> {''booking_reason'', ''booking_offered_slot_ids'', ''booking_offered_slots'',
       ''client_message_kind'', ''booking_available_date_keys'', ''booking_studio_today''} \<and>
     (a = ''OFFER_DAYS'' \<or> (\<exists>kind. render_text_for_booking_fields (sanitize_booking_result_fields v) =
        Inr (CLIENT_MESSAGE_TEXT kind)))"
proof (cases rule: sanitize_cases [of v])
  case (days raw flds)
  with sanitize_days_shape [OF days(1)] show ?thesis by auto
next
  case (slots raw flds)
  obtain rest where flds: "flds = (''booking_action'', JStr ''OFFER_SLOTS'') # rest"
    and keys: "fst ` set rest \<subseteq> {''booking_reason'', ''booking_offered_slot_ids'', ''booking_offered_slots'', ''client_message_kind''}"
    using sanitize_slots_again [OF slots(1)] by blast
  have "render_text_for_booking_fields flds = Inr (CLIENT_MESSAGE_TEXT Kind_OFFER_SLOTS)"
    by (simp add: flds render_text_for_booking_fields_def)
  with keys show ?thesis unfolding slots(2) flds by blast
next
  case (handoff r k)
  have "k = ''HANDOFF_DURING_MANAGER_HOURS'' \<or> k = ''HANDOFF_OUTSIDE_MANAGER_HOURS''"
    using handoff(1) by (simp add: HANDOFF_MESSAGE_KINDS_def)
  then have "\<exists>kind. render_text_for_booking_fields (sanitize_booking_result_fields v) = Inr (CLIENT_MESSAGE_TEXT kind)"
    unfolding handoff(2) by (elim disjE) (simp_all add: render_text_for_booking_fields_def, blast+)
  then show ?thesis unfolding handoff(2) by simp
next
  case (unavailable r)
  have "render_text_for_booking_fields (sanitize_booking_result_fields v) =
      Inr (CLIENT_MESSAGE_TEXT Kind_SERVICE_TEMPORARILY_UNAVAILABLE)"
    unfolding unavailable by (simp add: render_text_for_booking_fields_def)
  then show ?thesis unfolding unavailable by auto
qed

lemma client_text_visible: "\<not> list_all isspace_char (CLIENT_MESSAGE_TEXT kind)"
  by (cases kind) (simp_all add: CLIENT_MESSAGE_TEXT.simps isspace_char_def ord_char_def)

lemma client_text_not_token: "CLIENT_MESSAGE_TEXT kind \<noteq> ''SYNTHETIC_OK''"
  by (cases kind) (simp_all add: CLIENT_MESSAGE_TEXT.simps)

text \<open>
  Building the outbound payload from a booking result never fails, and what it stores can be
  delivered: for a plan carrying the program's own token the payload is machine-only (an offer of
  days) or holds, as its authoritative text, one of the fixed client texts.
\<close>

theorem booking_outbound_has_text:
  assumes "dict_get plan ''synthetic_token'' = JStr ''SYNTHETIC_OK''"
  shows "\<exists>payload. build_synthetic_outbound_payload plan (Some raw) = Inr payload \<and>
    (is_machine_only_outbound_payload payload \<or>
     (\<exists>kind. require_persisted_outbound_text payload = Inr (CLIENT_MESSAGE_TEXT kind)))"
proof -
  let ?f = "sanitize_booking_result_fields (JObj raw)"
  let ?m = "dict_update (base_synthetic_outbound_payload plan) ?f"
  obtain a rest where f: "?f = (''booking_action'', JStr a) # rest"
    and keys: "fst ` set rest \<subseteq> {''booking_reason'', ''booking_offered_slot_ids'', ''booking_offered_slots'',
       ''client_message_kind'', ''booking_available_date_keys'', ''booking_studio_today''}"
    and rendered: "a = ''OFFER_DAYS'' \<or> (\<exists>kind. render_text_for_booking_fields ?f = Inr (CLIENT_MESSAGE_TEXT kind))"
    using sanitized_shape [of "JObj raw"] by blast
  have "''booking_action'' \<notin> fst ` set rest" and "''synthetic_token'' \<notin> fst ` set rest"
    using keys by auto
  then have action: "dict_get ?m ''booking_action'' = JStr a"
    and token: "dict_get ?m ''synthetic_token'' = JStr ''SYNTHETIC_OK''"
    using assms
    by (simp_all add: f dict_update_Cons dict_get_update_other base_synthetic_outbound_payload_def)
  show ?thesis
  proof (cases "\<exists>kind. render_text_for_booking_fields ?f = Inr (CLIENT_MESSAGE_TEXT kind)")
    case True
    then obtain kind where r: "render_text_for_booking_fields ?f = Inr (CLIENT_MESSAGE_TEXT kind)" by blast
    let ?p = "dict_set ?m ''text'' (JStr (CLIENT_MESSAGE_TEXT kind))"
    have "build_synthetic_outbound_payload plan (Some raw) = Inr ?p"
      by (simp add: build_synthetic_outbound_payload_def r Let_def)
    moreover have "persisted_outbound_reply_text ?p = Some (CLIENT_MESSAGE_TEXT kind)"
      using token client_text_visible [of kind] client_text_not_token [of kind]
      by (simp add: persisted_outbound_reply_text_def)
    ultimately show ?thesis
      by (auto simp: require_persisted_outbound_text_def)
  next
    case False
    with rendered have "a = ''OFFER_DAYS''" by blast
    then have "build_synthetic_outbound_payload plan (Some raw) = Inr ?m"
      by (simp add: build_synthetic_outbound_payload_def f render_text_for_booking_fields_def Let_def)
    with action \<open>a = ''OFFER_DAYS''\<close> show ?thesis
      by (auto simp: is_machine_only_outbound_payload_def)
  qed
qed

theorem booking_outbound_has_text_witness:
  "\<exists>payload. build_synthetic_outbound_payload (client_reply_plan_payload ''i'' None False) (Some []) = Inr payload \<and>
    (is_machine_only_outbound_payload payload \<or>
     (\<exists>kind. require_persisted_outbound_text payload = Inr (CLIENT_MESSAGE_TEXT kind)))"
  using booking_outbound_has_text [of "client_reply_plan_payload ''i'' None False" "[]"]
  by (simp add: client_reply_plan_payload_def)

end
