(* ===== verification/Projection.thy ===== *)
theory Projection
  imports Outbox Booking_Payload
begin

text \<open>
  The chat projection queue: models/amocrm_message_projection.py, the enqueueing half of
  repositories/amocrm_message_projections.py and of services/amocrm_chat_projection.py. A row asks for
  one client message or one delivered bot message to be shown in the CRM chat; it stores no text.
\<close>

section \<open>Data\<close>

datatype AmocrmProjectionSourceKind = CLIENT_INBOUND | BOT_OUTBOUND

datatype AmocrmProjectionStatus =
    Proj_PENDING
  | Proj_PROCESSING
  | Proj_PROJECTED
  | Proj_SKIPPED
  | Proj_FAILED
  | Proj_DEAD

fun AMOCRM_PROJECTION_TRANSITIONS :: "AmocrmProjectionStatus \<Rightarrow> AmocrmProjectionStatus list" where
  "AMOCRM_PROJECTION_TRANSITIONS Proj_PENDING = [Proj_PROCESSING]"
| "AMOCRM_PROJECTION_TRANSITIONS Proj_PROCESSING = [Proj_PROJECTED, Proj_SKIPPED, Proj_FAILED, Proj_DEAD]"
| "AMOCRM_PROJECTION_TRANSITIONS Proj_FAILED = [Proj_PROCESSING, Proj_DEAD]"
| "AMOCRM_PROJECTION_TRANSITIONS Proj_PROJECTED = []"
| "AMOCRM_PROJECTION_TRANSITIONS Proj_SKIPPED = []"
| "AMOCRM_PROJECTION_TRANSITIONS Proj_DEAD = []"

definition DEFAULT_PROJECTION_MAX_ATTEMPTS :: int where
  "DEFAULT_PROJECTION_MAX_ATTEMPTS = 5"

definition INTEGRATION_MSGID_MAX_LENGTH :: nat where
  "INTEGRATION_MSGID_MAX_LENGTH = 40"

record projection =
  pr_id :: uuid
  pr_conversation_id :: uuid
  pr_source_kind :: AmocrmProjectionSourceKind
  pr_source_id :: uuid
  pr_integration_msgid :: string
  pr_amocrm_message_id :: "string option"
  pr_status :: AmocrmProjectionStatus
  pr_attempt_count :: int
  pr_max_attempts :: int
  pr_next_attempt_at :: "moment option"
  pr_lease_owner :: "string option"
  pr_lease_token :: "uuid option"
  pr_lease_version :: int
  pr_lease_until :: "moment option"
  pr_skip_reason :: "string option"
  pr_error_code :: "string option"
  pr_correlation_id :: uuid
  pr_created_at :: moment

section \<open>Operations\<close>

text \<open>\<open>uuid.hex\<close> of a canonical text: the text without its dashes.\<close>

definition uuid_hex :: "uuid \<Rightarrow> string" where
  "uuid_hex u = filter (\<lambda>c. c \<noteq> CHR ''-'') u"

definition integration_msgid_for_source :: "AmocrmProjectionSourceKind \<Rightarrow> uuid \<Rightarrow> exn + string" where
  "integration_msgid_for_source kind source_id =
     (let msgid = (if kind = CLIENT_INBOUND then CHR ''c'' else CHR ''b'') # uuid_hex source_id
      in if length msgid > INTEGRATION_MSGID_MAX_LENGTH then Inl (ValueError ''INTEGRATION_MSGID_TOO_LONG'')
         else Inr msgid)"

definition projection_by_source ::
  "AmocrmProjectionSourceKind \<Rightarrow> uuid \<Rightarrow> projection list \<Rightarrow> projection option" where
  "projection_by_source kind source_id t =
     sql_one (\<lambda>r. pr_source_kind r = kind \<and> pr_source_id r = source_id) t"

definition projection_new_row ::
  "uuid \<Rightarrow> moment \<Rightarrow> uuid \<Rightarrow> AmocrmProjectionSourceKind \<Rightarrow> uuid \<Rightarrow> string \<Rightarrow> uuid \<Rightarrow> int \<Rightarrow> projection" where
  "projection_new_row new_id now cid kind source_id msgid corr max_attempts =
     \<lparr> pr_id = new_id, pr_conversation_id = cid, pr_source_kind = kind, pr_source_id = source_id,
       pr_integration_msgid = msgid, pr_amocrm_message_id = None, pr_status = Proj_PENDING,
       pr_attempt_count = 0, pr_max_attempts = max_attempts, pr_next_attempt_at = None,
       pr_lease_owner = None, pr_lease_token = None, pr_lease_version = 0, pr_lease_until = None,
       pr_skip_reason = None, pr_error_code = None, pr_correlation_id = corr, pr_created_at = now \<rparr>"

definition projection_enqueue_if_absent ::
  "uuid \<Rightarrow> moment \<Rightarrow> uuid \<Rightarrow> AmocrmProjectionSourceKind \<Rightarrow> uuid \<Rightarrow> uuid \<Rightarrow> int \<Rightarrow> projection list
     \<Rightarrow> exn + ((projection \<times> bool) \<times> projection list)" where
  "projection_enqueue_if_absent new_id now cid kind source_id corr max_attempts t =
     (if max_attempts \<le> 0 then Inl (ValueError ''max_attempts must be positive'')
      else case integration_msgid_for_source kind source_id of
        Inl e \<Rightarrow> Inl e
      | Inr msgid \<Rightarrow>
      (case projection_by_source kind source_id t of
         Some existing \<Rightarrow> Inr ((existing, False), t)
       | None \<Rightarrow>
           if sql_one (\<lambda>r. pr_id r = new_id) t \<noteq> None
           then Inl (IntegrityError ''amocrm_message_projections_pkey'')
           else if sql_one (\<lambda>r. pr_integration_msgid r = msgid) t \<noteq> None
           then Inl (IntegrityError ''uq_amocrm_message_projections_integration_msgid'')
           else
             let t' = t @ [projection_new_row new_id now cid kind source_id msgid corr max_attempts]
             in case projection_by_source kind source_id t' of
                  None \<Rightarrow> Inl (RuntimeError ''AMOCRM_PROJECTION_LOOKUP_FAILED'')
                | Some row \<Rightarrow> Inr ((row, True), t')))"

text \<open>\<open>enabled\<close> is the answer of \<open>chat_egress_enabled()\<close>, read from the environment.\<close>

definition enqueue_client_inbound_projection ::
  "bool \<Rightarrow> uuid \<Rightarrow> moment \<Rightarrow> uuid \<Rightarrow> uuid \<Rightarrow> uuid \<Rightarrow> projection list
     \<Rightarrow> exn + ((projection \<times> bool) option \<times> projection list)" where
  "enqueue_client_inbound_projection enabled new_id now cid inbox_id corr t =
     (if \<not> enabled then Inr (None, t)
      else case projection_enqueue_if_absent new_id now cid CLIENT_INBOUND inbox_id corr
                  DEFAULT_PROJECTION_MAX_ATTEMPTS t of
        Inl e \<Rightarrow> Inl e
      | Inr (r, t') \<Rightarrow> Inr (Some r, t'))"

definition enqueue_bot_outbound_projection ::
  "bool \<Rightarrow> uuid \<Rightarrow> moment \<Rightarrow> uuid \<Rightarrow> uuid \<Rightarrow> uuid \<Rightarrow> outbox_message list \<Rightarrow> projection list
     \<Rightarrow> exn + ((projection \<times> bool) option \<times> projection list)" where
  "enqueue_bot_outbound_projection enabled new_id now cid outbound_id corr obs t =
     (if \<not> enabled then Inr (None, t)
      else case outbound_get_by_id outbound_id obs of
        None \<Rightarrow> Inr (None, t)
      | Some ob \<Rightarrow>
          if o_delivery_status ob \<noteq> Out_DELIVERED then Inr (None, t)
          else if persisted_outbound_reply_text (o_payload_json ob) = None then Inr (None, t)
          else case projection_enqueue_if_absent new_id now cid BOT_OUTBOUND outbound_id corr
                      DEFAULT_PROJECTION_MAX_ATTEMPTS t of
            Inl e \<Rightarrow> Inl e
          | Inr (r, t') \<Rightarrow> Inr (Some r, t'))"

end
