(* ===== verification/Chat_Binding.thy ===== *)
theory Chat_Binding
  imports Booking_Slot
begin

text \<open>
  The binding of a CRM chat to a dialog: models/amocrm_chat_binding.py and
  repositories/amocrm_chat_bindings.py. A chat has at most one binding and so has a dialog; the id under
  which the CRM knows the conversation of the integration is captured once and never replaced.
\<close>

section \<open>Data\<close>

datatype AmocrmChatBindingStatus = Bind_ACTIVE | Bind_REVOKED

record chat_binding =
  b_id :: uuid
  b_conversation_id :: uuid
  b_amocrm_chat_id :: string
  b_integration_conversation_id :: "string option"
  b_status :: AmocrmChatBindingStatus

section \<open>Operations\<close>

definition binding_get :: "uuid \<Rightarrow> chat_binding list \<Rightarrow> chat_binding option" where
  "binding_get binding_id t = sql_one (\<lambda>b. b_id b = binding_id) t"

text \<open>The single row of a result set, or the error of the caller when there are several.\<close>

definition binding_single :: "chat_binding list \<Rightarrow> exn + chat_binding option" where
  "binding_single rows =
     (case rows of
        [] \<Rightarrow> Inr None
      | [b] \<Rightarrow> Inr (Some b)
      | _ \<Rightarrow> Inl (AmocrmChatBindingAmbiguousError ''BINDING_AMBIGUOUS''))"

definition get_active_by_amocrm_chat_id :: "string \<Rightarrow> chat_binding list \<Rightarrow> exn + chat_binding option" where
  "get_active_by_amocrm_chat_id chat_id t =
     binding_single (filter (\<lambda>b. b_amocrm_chat_id b = chat_id \<and> b_status b = Bind_ACTIVE) t)"

definition get_active_by_conversation_id :: "uuid \<Rightarrow> chat_binding list \<Rightarrow> exn + chat_binding option" where
  "get_active_by_conversation_id cid t =
     binding_single (filter (\<lambda>b. b_conversation_id b = cid \<and> b_status b = Bind_ACTIVE) t)"

definition binding_integration_taken :: "uuid \<Rightarrow> string \<Rightarrow> chat_binding list \<Rightarrow> bool" where
  "binding_integration_taken binding_id v t =
     list_ex (\<lambda>b. b_id b \<noteq> binding_id \<and> b_integration_conversation_id b = Some v) t"

definition capture_integration_conversation_id ::
  "uuid \<Rightarrow> string \<Rightarrow> chat_binding list \<Rightarrow> exn + (chat_binding \<times> chat_binding list)" where
  "capture_integration_conversation_id binding_id raw t =
     (let v = py_strip ascii_space raw
      in if v = [] \<or> length v > 128 then Inl (ValueError ''INTEGRATION_CONVERSATION_ID_INVALID'')
         else case binding_get binding_id t of
           None \<Rightarrow> Inl (RuntimeError ''BINDING_LOOKUP_FAILED'')
         | Some row \<Rightarrow>
             (case b_integration_conversation_id row of
                Some known \<Rightarrow>
                  if known = v then Inr (row, t)
                  else Inl (AmocrmChatBindingAmbiguousError ''BINDING_INTEGRATION_CONVERSATION_CONFLICT'')
              | None \<Rightarrow>
                  if binding_integration_taken binding_id v t
                  then Inl (IntegrityError ''ix_amocrm_chat_bindings_integration_conversation_id'')
                  else let row' = row \<lparr> b_integration_conversation_id := Some v \<rparr>
                       in Inr (row', sql_put b_id row' t)))"

text \<open>
  \<open>INSERT ... ON CONFLICT DO NOTHING\<close> on the chat id; the other constraints of the table raise.
\<close>

definition binding_insert ::
  "chat_binding \<Rightarrow> chat_binding list \<Rightarrow> exn + (bool \<times> chat_binding list)" where
  "binding_insert r t =
     (if list_ex (\<lambda>b. b_amocrm_chat_id b = b_amocrm_chat_id r) t then Inr (False, t)
      else if binding_get (b_id r) t \<noteq> None then Inl (IntegrityError ''amocrm_chat_bindings_pkey'')
      else if list_ex (\<lambda>b. b_conversation_id b = b_conversation_id r) t
      then Inl (IntegrityError ''uq_amocrm_chat_bindings_conversation_id'')
      else if b_amocrm_chat_id r = [] then Inl (IntegrityError ''ck_amocrm_chat_bindings_chat_id_nonempty'')
      else if b_integration_conversation_id r = Some []
      then Inl (IntegrityError ''ck_amocrm_chat_bindings_integ_cid_nonempty'')
      else if (case b_integration_conversation_id r of
                 None \<Rightarrow> False | Some v \<Rightarrow> binding_integration_taken (b_id r) v t)
      then Inl (IntegrityError ''ix_amocrm_chat_bindings_integration_conversation_id'')
      else Inr (True, t @ [r]))"

definition binding_refreshed ::
  "string \<Rightarrow> bool \<Rightarrow> chat_binding list \<Rightarrow> exn + ((chat_binding \<times> bool) \<times> chat_binding list)" where
  "binding_refreshed chat_id created t =
     (case get_active_by_amocrm_chat_id chat_id t of
        Inl e \<Rightarrow> Inl e
      | Inr None \<Rightarrow> Inl (RuntimeError ''BINDING_LOOKUP_FAILED'')
      | Inr (Some row) \<Rightarrow> Inr ((row, created), t))"

text \<open>Python's truth of an optional string: absent and empty are false.\<close>

definition text_given :: "string option \<Rightarrow> bool" where
  "text_given s = (case s of None \<Rightarrow> False | Some v \<Rightarrow> v \<noteq> [])"

definition insert_active_if_absent ::
  "uuid \<Rightarrow> uuid \<Rightarrow> string \<Rightarrow> string option \<Rightarrow> chat_binding list
     \<Rightarrow> exn + ((chat_binding \<times> bool) \<times> chat_binding list)" where
  "insert_active_if_absent new_id cid chat_id integration t =
     (case get_active_by_amocrm_chat_id chat_id t of
        Inl e \<Rightarrow> Inl e
      | Inr (Some existing) \<Rightarrow>
          if b_conversation_id existing \<noteq> cid
          then Inl (AmocrmChatBindingAmbiguousError ''BINDING_AMBIGUOUS'')
          else if \<not> text_given integration then Inr ((existing, False), t)
          else (case capture_integration_conversation_id (b_id existing) (the integration) t of
                  Inl e \<Rightarrow> Inl e
                | Inr (_, t1) \<Rightarrow> binding_refreshed chat_id False t1)
      | Inr None \<Rightarrow>
          (case binding_insert \<lparr> b_id = new_id, b_conversation_id = cid, b_amocrm_chat_id = chat_id,
                   b_integration_conversation_id = integration, b_status = Bind_ACTIVE \<rparr> t of
             Inl e \<Rightarrow> Inl e
           | Inr (inserted, t1) \<Rightarrow>
               (case get_active_by_amocrm_chat_id chat_id t1 of
                  Inl e \<Rightarrow> Inl e
                | Inr None \<Rightarrow> Inl (RuntimeError ''BINDING_LOOKUP_FAILED'')
                | Inr (Some row) \<Rightarrow>
                    if b_conversation_id row \<noteq> cid
                    then Inl (AmocrmChatBindingAmbiguousError ''BINDING_AMBIGUOUS'')
                    else if text_given integration \<and> \<not> text_given (b_integration_conversation_id row)
                    then (case capture_integration_conversation_id (b_id row) (the integration) t1 of
                            Inl e \<Rightarrow> Inl e
                          | Inr (_, t2) \<Rightarrow> binding_refreshed chat_id inserted t2)
                    else Inr ((row, inserted), t1))))"

section \<open>The table stays a partial bijection\<close>

definition bindings_ok :: "chat_binding list \<Rightarrow> bool" where
  "bindings_ok t =
     (distinct (map b_id t) \<and> distinct (map b_conversation_id t) \<and> distinct (map b_amocrm_chat_id t) \<and>
      (\<forall>b \<in> set t. \<forall>c \<in> set t. b_integration_conversation_id b \<noteq> None \<longrightarrow>
         b_integration_conversation_id b = b_integration_conversation_id c \<longrightarrow> b = c))"

lemma filter_distinct_key:
  assumes "distinct (map f t)"
  shows "length (filter (\<lambda>x. f x = k \<and> P x) t) \<le> Suc 0"
  using assms
proof (induction t)
  case (Cons a t)
  have "f x \<noteq> f a" if "x \<in> set t" for x
    using Cons.prems imageI [OF that, of f] by auto
  then have "filter (\<lambda>x. f x = k \<and> P x) t = []" if "f a = k"
    using that by (auto simp: filter_empty_conv)
  with Cons show ?case by auto
qed simp

lemma short_list_cases:
  assumes "length xs \<le> Suc 0"
  obtains "xs = []" | x where "xs = [x]"
  using assms by (cases xs) auto

text \<open>On a table that satisfies its unique constraints the ambiguity errors are unreachable.\<close>

lemma binding_never_ambiguous:
  assumes "bindings_ok t"
  shows "\<exists>b. get_active_by_amocrm_chat_id chat t = Inr b" and "\<exists>b. get_active_by_conversation_id cid t = Inr b"
proof -
  have "length (filter (\<lambda>b. b_amocrm_chat_id b = chat \<and> b_status b = Bind_ACTIVE) t) \<le> Suc 0"
    and "length (filter (\<lambda>b. b_conversation_id b = cid \<and> b_status b = Bind_ACTIVE) t) \<le> Suc 0"
    by (rule filter_distinct_key, use assms in \<open>simp add: bindings_ok_def\<close>)+
  then show "\<exists>b. get_active_by_amocrm_chat_id chat t = Inr b" "\<exists>b. get_active_by_conversation_id cid t = Inr b"
    by (auto simp: get_active_by_amocrm_chat_id_def get_active_by_conversation_id_def binding_single_def
        elim!: short_list_cases)
qed

lemma get_active_chat_Some:
  "get_active_by_amocrm_chat_id chat t = Inr (Some b) \<Longrightarrow>
     b \<in> set t \<and> b_amocrm_chat_id b = chat \<and> b_status b = Bind_ACTIVE"
  by (auto simp: get_active_by_amocrm_chat_id_def binding_single_def filter_eq_Cons_iff split: list.splits)

lemma capture_integration_cases:
  assumes "capture_integration_conversation_id i raw t = Inr (row, t')"
  obtains (known) "t' = t" and "row \<in> set t" and "b_id row = i"
      and "b_integration_conversation_id row = Some (py_strip ascii_space raw)"
    | (captured) r where "r \<in> set t" and "b_id r = i" and "b_integration_conversation_id r = None"
      and "row = r \<lparr> b_integration_conversation_id := Some (py_strip ascii_space raw) \<rparr>"
      and "t' = sql_put b_id row t" and "\<not> binding_integration_taken i (py_strip ascii_space raw) t"
proof -
  obtain r where r: "binding_get i t = Some r"
    using assms by (auto simp: capture_integration_conversation_id_def Let_def split: if_splits option.splits)
  note rt = sql_one_Some [OF r [unfolded binding_get_def]]
  show thesis
  proof (cases "b_integration_conversation_id r")
    case None
    with r rt assms show thesis
      by (intro captured [of r]) (auto simp: capture_integration_conversation_id_def Let_def split: if_splits)
  next
    case (Some v)
    with r rt assms show thesis
      by (intro known) (auto simp: capture_integration_conversation_id_def Let_def split: if_splits)
  qed
qed

lemma capture_integration_ok:
  assumes "bindings_ok t" and "capture_integration_conversation_id i raw t = Inr (row, t')"
  shows "bindings_ok t'" and "\<forall>b \<in> set t. b_integration_conversation_id b \<noteq> None \<longrightarrow> b \<in> set t'"
    and "row \<in> set t'" and "map (\<lambda>b. (b_id b, b_conversation_id b, b_amocrm_chat_id b, b_status b)) t' =
      map (\<lambda>b. (b_id b, b_conversation_id b, b_amocrm_chat_id b, b_status b)) t"
proof -
  have ids: "distinct (map b_id t)" using assms(1) by (simp add: bindings_ok_def)
  have "bindings_ok t' \<and> (\<forall>b \<in> set t. b_integration_conversation_id b \<noteq> None \<longrightarrow> b \<in> set t') \<and> row \<in> set t' \<and>
      map (\<lambda>b. (b_id b, b_conversation_id b, b_amocrm_chat_id b, b_status b)) t' =
      map (\<lambda>b. (b_id b, b_conversation_id b, b_amocrm_chat_id b, b_status b)) t"
    using assms(2)
  proof (cases rule: capture_integration_cases)
    case known
    with assms(1) show ?thesis by simp
  next
    case (captured r)
    have cols: "map f t' = map f t"
      if "\<And>x v. f (x \<lparr> b_integration_conversation_id := v \<rparr>) = f x" for f :: "chat_binding \<Rightarrow> 'c"
      unfolding captured(5) using ids captured(1,4) that by (intro map_sql_put [where r = r]) auto
    have set': "set t' = insert row (set t - {r})"
      unfolding captured(5) using ids captured(1,4)
      by (auto simp: sql_put_def set_sql_update dest: distinct_key_unique)
    have "b_integration_conversation_id b \<noteq> b_integration_conversation_id row" if "b \<in> set t" and "b \<noteq> r" for b
    proof -
      have "b_id b \<noteq> i" using distinct_key_unique [OF ids that(1) captured(1)] that(2) captured(2) by auto
      with captured(4,6) that(1) show ?thesis by (auto simp: binding_integration_taken_def list_ex_iff)
    qed
    note free = this
    have "b = c" if b: "b \<in> set t'" and c: "c \<in> set t'" and "b_integration_conversation_id b \<noteq> None"
      and same: "b_integration_conversation_id b = b_integration_conversation_id c" for b c
    proof (cases "b = row \<or> c = row")
      case True
      with b c same free [of b] free [of c] show ?thesis unfolding set' by auto
    next
      case False
      then have "b \<in> set t" and "c \<in> set t" using b c set' by blast+
      with that(3) same assms(1) show ?thesis unfolding bindings_ok_def by blast
    qed
    moreover have "distinct (map b_id t') \<and> distinct (map b_conversation_id t') \<and> distinct (map b_amocrm_chat_id t')"
      using assms(1) cols [of b_id] cols [of b_conversation_id] cols [of b_amocrm_chat_id]
      by (simp add: bindings_ok_def)
    ultimately have "bindings_ok t'" unfolding bindings_ok_def by blast
    moreover have "b \<in> set t'" if "b \<in> set t" and "b_integration_conversation_id b \<noteq> None" for b
      using that captured(3) unfolding set' by auto
    moreover have "row \<in> set t'" unfolding set' by simp
    ultimately show ?thesis
      using cols [of "\<lambda>b. (b_id b, b_conversation_id b, b_amocrm_chat_id b, b_status b)"] by simp
  qed
  then show "bindings_ok t'" "\<forall>b \<in> set t. b_integration_conversation_id b \<noteq> None \<longrightarrow> b \<in> set t'"
    "row \<in> set t'" "map (\<lambda>b. (b_id b, b_conversation_id b, b_amocrm_chat_id b, b_status b)) t' =
      map (\<lambda>b. (b_id b, b_conversation_id b, b_amocrm_chat_id b, b_status b)) t" by simp_all
qed

lemma binding_insert_ok:
  assumes "bindings_ok t" and "binding_insert r t = Inr (inserted, t')"
  shows "bindings_ok t'" and "t' = (if inserted then t @ [r] else t)"
proof -
  show t': "t' = (if inserted then t @ [r] else t)"
    using assms(2) by (auto simp: binding_insert_def split: if_splits)
  show "bindings_ok t'"
  proof (cases inserted)
    case True
    with assms(2) have "b_id r \<notin> b_id ` set t" "b_conversation_id r \<notin> b_conversation_id ` set t"
      "b_amocrm_chat_id r \<notin> b_amocrm_chat_id ` set t"
      and free: "case b_integration_conversation_id r of None \<Rightarrow> True | Some v \<Rightarrow> \<not> binding_integration_taken (b_id r) v t"
      by (auto simp: binding_insert_def binding_get_def sql_one_None list_ex_iff image_iff split: if_splits option.splits)
    moreover have uniq: "b_integration_conversation_id b \<noteq> b_integration_conversation_id r"
      if b: "b \<in> set t" and some: "b_integration_conversation_id b \<noteq> None" for b
    proof
      assume same: "b_integration_conversation_id b = b_integration_conversation_id r"
      obtain v where v: "b_integration_conversation_id r = Some v" using some same by auto
      have "b_id b \<noteq> b_id r" using b \<open>b_id r \<notin> b_id ` set t\<close> by (metis imageI)
      with free v b same show False by (auto simp: binding_integration_taken_def list_ex_iff)
    qed
    moreover have "b = c" if "b \<in> set (t @ [r])" and "c \<in> set (t @ [r])"
      and "b_integration_conversation_id b \<noteq> None"
      and "b_integration_conversation_id b = b_integration_conversation_id c" for b c
    proof (cases "b = r \<or> c = r")
      case True
      with that uniq [of b] uniq [of c] show ?thesis by auto
    next
      case False
      with that assms(1) show ?thesis unfolding bindings_ok_def by simp
    qed
    moreover from calculation have "distinct (map b_id (t @ [r])) \<and> distinct (map b_conversation_id (t @ [r])) \<and>
        distinct (map b_amocrm_chat_id (t @ [r]))"
      using assms(1) by (simp add: bindings_ok_def)
    ultimately have "bindings_ok (t @ [r])"
      unfolding bindings_ok_def by blast
    with True t' show ?thesis by simp
  qed (use assms(1) t' in simp)
qed

lemma binding_refreshed_Inr:
  "binding_refreshed chat created t = Inr ((b, c), t') \<Longrightarrow>
     t' = t \<and> c = created \<and> get_active_by_amocrm_chat_id chat t = Inr (Some b)"
  by (auto simp: binding_refreshed_def split: sum.splits option.splits)

text \<open>Binding keeps the table a partial bijection, and what it returns is the active binding of the pair.\<close>

lemma insert_active_ok:
  assumes "bindings_ok t" and "insert_active_if_absent i cid chat integ t = Inr ((b, created), t')"
  shows "bindings_ok t'" and "b \<in> set t'" and "b_amocrm_chat_id b = chat" and "b_status b = Bind_ACTIVE"
proof -
  have "bindings_ok t' \<and> get_active_by_amocrm_chat_id chat t' = Inr (Some b)"
  proof (cases "get_active_by_amocrm_chat_id chat t")
    case (Inl e)
    with assms(2) show ?thesis by (simp add: insert_active_if_absent_def)
  next
    case got: (Inr found)
    show ?thesis
    proof (cases found)
      case (Some existing)
      with got assms show ?thesis
        by (auto simp: insert_active_if_absent_def split: if_splits sum.splits
            dest!: binding_refreshed_Inr intro: capture_integration_ok(1))
    next
      case None
      then obtain inserted t1 row where ins: "binding_insert \<lparr> b_id = i, b_conversation_id = cid, b_amocrm_chat_id = chat,
             b_integration_conversation_id = integ, b_status = Bind_ACTIVE \<rparr> t = Inr (inserted, t1)"
        and row: "get_active_by_amocrm_chat_id chat t1 = Inr (Some row)"
        using got assms(2)
        by (auto simp: insert_active_if_absent_def split: if_splits sum.splits option.splits)
      have ok1: "bindings_ok t1" using binding_insert_ok(1) [OF assms(1) ins] .
      with None got ins row assms(2) show ?thesis
        by (auto simp: insert_active_if_absent_def split: if_splits sum.splits
            dest!: binding_refreshed_Inr intro: capture_integration_ok(1))
    qed
  qed
  then show "bindings_ok t'" "b \<in> set t'" "b_amocrm_chat_id b = chat" "b_status b = Bind_ACTIVE"
    using get_active_chat_Some by blast+
qed

end
