(* ===== verification/Dialog_Db.thy ===== *)
theory Dialog_Db
  imports Ingress Reply_Plan Mirror Projection Create_Pending Chat_Binding
begin

text \<open>
  The database the services share, and how a service runs in a session.

  \<^item> The client inbox (models/inbox.py, the inbox half of repositories/messages.py) and the manager
    messages (models/manager_message.py, repositories/manager_messages.py): two tables that only the
    services below write.
  \<^item> \<open>db\<close>: the record of the tables. \<open>db_bind\<close> sequences repository calls in one session: a call
    raises, or returns its result and the changed database. \<open>session_scope\<close> of the prelude commits
    or rolls back the whole.
  \<^item> \<open>env\<close>: what a transaction reads from outside: the clock of PostgreSQL, the clock of the host,
    the uuids it mints (one field per \<open>uuid.uuid4()\<close> call site) and the egress switch of the
    environment.
  The invariant that ties the tables together is \<open>db_ok\<close> of Dialog_System.
\<close>

section \<open>Inbox\<close>

datatype ProcessingStatus = Inbox_RECEIVED | Inbox_PROCESSING | Inbox_PROCESSED | Inbox_FAILED

record inbox_message =
  i_id :: uuid
  i_conversation_id :: uuid
  i_channel :: Channel
  i_external_message_id :: string
  i_payload_json :: payload
  i_received_at :: moment
  i_processing_status :: ProcessingStatus
  i_error_code :: "string option"
  i_conversation_event_seq :: int
  i_created_at :: moment

definition get_inbox_by_external :: "Channel \<Rightarrow> string \<Rightarrow> inbox_message list \<Rightarrow> inbox_message option" where
  "get_inbox_by_external channel ext t =
     sql_one (\<lambda>m. (i_channel m, i_external_message_id m) = (channel, ext)) t"

definition inbox_new_row ::
  "uuid \<Rightarrow> moment \<Rightarrow> uuid \<Rightarrow> Channel \<Rightarrow> string \<Rightarrow> int \<Rightarrow> payload \<Rightarrow> moment \<Rightarrow> inbox_message" where
  "inbox_new_row new_id now cid channel ext seq payload received_at =
     \<lparr> i_id = new_id, i_conversation_id = cid, i_channel = channel, i_external_message_id = ext,
       i_payload_json = payload, i_received_at = received_at, i_processing_status = Inbox_RECEIVED,
       i_error_code = None, i_conversation_event_seq = seq, i_created_at = now \<rparr>"

definition insert_inbox_if_absent ::
  "uuid \<Rightarrow> moment \<Rightarrow> uuid \<Rightarrow> Channel \<Rightarrow> string \<Rightarrow> int \<Rightarrow> payload \<Rightarrow> moment \<Rightarrow> inbox_message list
     \<Rightarrow> exn + ((inbox_message \<times> bool) \<times> inbox_message list)" where
  "insert_inbox_if_absent new_id now cid channel ext seq payload received_at t =
     (case get_inbox_by_external channel ext t of
        Some existing \<Rightarrow> Inr ((existing, False), t)
      | None \<Rightarrow>
          if sql_one (\<lambda>m. i_id m = new_id) t \<noteq> None then Inl (IntegrityError ''inbox_messages_pkey'')
          else if sql_one (\<lambda>m. (i_conversation_id m, i_conversation_event_seq m) = (cid, seq)) t \<noteq> None
          then Inl (IntegrityError ''uq_inbox_conversation_event_seq'')
          else if seq \<le> 0 then Inl (IntegrityError ''ck_inbox_conversation_event_seq_positive'')
          else
            let t' = t @ [inbox_new_row new_id now cid channel ext seq payload received_at]
            in case get_inbox_by_external channel ext t' of
                 None \<Rightarrow> Inl (RuntimeError ''INBOX_LOOKUP_FAILED'')
               | Some m \<Rightarrow> Inr ((m, True), t'))"

section \<open>Manager messages\<close>

datatype ManagerMessageStatus = Mgr_APPLIED | Mgr_STALE | Mgr_QUARANTINED

record manager_message =
  mm_id :: uuid
  mm_conversation_id :: uuid
  mm_channel :: Channel
  mm_external_message_id :: string
  mm_provider_sequence :: "int option"
  mm_provider_occurred_at :: "moment option"
  mm_body_text :: string
  mm_status :: ManagerMessageStatus
  mm_conversation_event_seq :: "int option"
  mm_classification_reason :: "string option"
  mm_received_at :: moment

definition MANAGER_MESSAGE_TEXT_MAX_LENGTH :: nat where
  "MANAGER_MESSAGE_TEXT_MAX_LENGTH = 4000"

text \<open>The check constraints of the table that the columns above can violate.\<close>

definition ck_manager_messages :: "manager_message \<Rightarrow> bool" where
  "ck_manager_messages m =
     (mm_channel m = Channel_SYNTHETIC \<and>
      (case mm_provider_sequence m of None \<Rightarrow> True | Some n \<Rightarrow> 0 \<le> n) \<and>
      (case mm_conversation_event_seq m of None \<Rightarrow> True | Some n \<Rightarrow> 0 < n) \<and>
      1 \<le> length (mm_body_text m) \<and> length (mm_body_text m) \<le> MANAGER_MESSAGE_TEXT_MAX_LENGTH \<and>
      (case mm_status m of
         Mgr_APPLIED \<Rightarrow> mm_provider_sequence m \<noteq> None \<and> mm_conversation_event_seq m \<noteq> None
       | Mgr_STALE \<Rightarrow> mm_provider_sequence m \<noteq> None \<and> mm_conversation_event_seq m = None
       | Mgr_QUARANTINED \<Rightarrow> mm_conversation_event_seq m = None))"

definition manager_get_by_external ::
  "Channel \<Rightarrow> string \<Rightarrow> manager_message list \<Rightarrow> manager_message option" where
  "manager_get_by_external channel ext t =
     sql_one (\<lambda>m. (mm_channel m, mm_external_message_id m) = (channel, ext)) t"

definition manager_new_row ::
  "uuid \<Rightarrow> moment \<Rightarrow> uuid \<Rightarrow> Channel \<Rightarrow> string \<Rightarrow> int option \<Rightarrow> moment option \<Rightarrow> string \<Rightarrow> string
     \<Rightarrow> manager_message" where
  "manager_new_row new_id now cid channel ext provider_sequence occurred_at body reason =
     \<lparr> mm_id = new_id, mm_conversation_id = cid, mm_channel = channel, mm_external_message_id = ext,
       mm_provider_sequence = provider_sequence, mm_provider_occurred_at = occurred_at,
       mm_body_text = body, mm_status = Mgr_QUARANTINED, mm_conversation_event_seq = None,
       mm_classification_reason = Some (take 64 reason), mm_received_at = now \<rparr>"

definition insert_quarantined_if_absent ::
  "uuid \<Rightarrow> moment \<Rightarrow> uuid \<Rightarrow> Channel \<Rightarrow> string \<Rightarrow> int option \<Rightarrow> moment option \<Rightarrow> string \<Rightarrow> string
     \<Rightarrow> manager_message list \<Rightarrow> exn + ((manager_message \<times> bool) \<times> manager_message list)" where
  "insert_quarantined_if_absent new_id now cid channel ext provider_sequence occurred_at body reason t =
     (case manager_get_by_external channel ext t of
        Some existing \<Rightarrow> Inr ((existing, False), t)
      | None \<Rightarrow>
          let row = manager_new_row new_id now cid channel ext provider_sequence occurred_at body reason
          in if sql_one (\<lambda>m. mm_id m = new_id) t \<noteq> None then Inl (IntegrityError ''manager_messages_pkey'')
             else if \<not> ck_manager_messages row then Inl (IntegrityError ''ck_manager_messages'')
             else case manager_get_by_external channel ext (t @ [row]) of
                    None \<Rightarrow> Inl (RuntimeError ''MANAGER_MESSAGE_LOOKUP_FAILED'')
                  | Some m \<Rightarrow> Inr ((m, True), t @ [row]))"

text \<open>
  An attribute assignment on the loaded row and the \<open>flush\<close> that writes it: the UPDATE by primary key
  raises on the unique event sequence of the dialog and on the checks of the table.
\<close>

definition manager_flush ::
  "manager_message \<Rightarrow> manager_message list \<Rightarrow> exn + (manager_message \<times> manager_message list)" where
  "manager_flush m t =
     (if \<not> ck_manager_messages m then Inl (IntegrityError ''ck_manager_messages'')
      else if mm_conversation_event_seq m \<noteq> None \<and>
              sql_one (\<lambda>x. mm_id x \<noteq> mm_id m \<and> mm_conversation_id x = mm_conversation_id m \<and>
                         mm_conversation_event_seq x = mm_conversation_event_seq m) t \<noteq> None
      then Inl (IntegrityError ''uq_manager_messages_conversation_event_seq'')
      else Inr (m, sql_put mm_id m t))"

definition mark_applied ::
  "manager_message \<Rightarrow> int \<Rightarrow> manager_message list \<Rightarrow> exn + (manager_message \<times> manager_message list)" where
  "mark_applied m seq t =
     manager_flush (m \<lparr> mm_status := Mgr_APPLIED, mm_conversation_event_seq := Some seq,
                        mm_classification_reason := Some ''CHRONOLOGICALLY_NEW'' \<rparr>) t"

definition mark_stale ::
  "manager_message \<Rightarrow> string \<Rightarrow> manager_message list \<Rightarrow> exn + (manager_message \<times> manager_message list)" where
  "mark_stale m reason t =
     manager_flush (m \<lparr> mm_status := Mgr_STALE, mm_conversation_event_seq := None,
                        mm_classification_reason := Some (take 64 reason) \<rparr>) t"

section \<open>The database and its sessions\<close>

record db =
  db_conversations :: "conversation list"
  db_ops_events :: "ops_event list"
  db_inbox :: "inbox_message list"
  db_manager_messages :: "manager_message list"
  db_reply_plans :: "reply_plan list"
  db_outbox :: "outbox_message list"
  db_mirror :: "mirror_job list"
  db_projections :: "projection list"
  db_offers :: "active_offer list"
  db_pii_admissions :: "pii_admission list"
  db_create_pendings :: "create_pending list"
  db_bindings :: "chat_binding list"
  db_ingress :: "ingress_event list"

record env =
  en_now :: moment
  en_wall :: moment
  en_conversation_id :: uuid
  en_inbox_id :: uuid
  en_manager_message_id :: uuid
  en_ops_event_id :: uuid
  en_plan_id :: uuid
  en_outbox_id :: uuid
  en_mirror_id :: uuid
  en_projection_id :: uuid
  en_pending_id :: uuid
  en_idempotency_key :: string
  en_plan_correlation :: uuid
  en_mirror_correlation :: uuid
  en_projection_correlation :: uuid
  en_chat_egress_enabled :: bool

type_synonym 'a session = "db \<Rightarrow> exn + ('a \<times> db)"

definition db_return :: "'a \<Rightarrow> 'a session" where
  "db_return x s = Inr (x, s)"

definition db_raise :: "exn \<Rightarrow> 'a session" where
  "db_raise e s = Inl e"

definition db_bind :: "'a session \<Rightarrow> ('a \<Rightarrow> 'b session) \<Rightarrow> 'b session" where
  "db_bind m f s = (case m s of Inl e \<Rightarrow> Inl e | Inr (x, s') \<Rightarrow> f x s')"

definition db_read :: "(db \<Rightarrow> 'a) \<Rightarrow> 'a session" where
  "db_read g s = Inr (g s, s)"

text \<open>A repository call, lifted from the table it works on: a fallible one, and one that only counts.\<close>

definition on_table ::
  "(db \<Rightarrow> 't) \<Rightarrow> ('t \<Rightarrow> db \<Rightarrow> db) \<Rightarrow> ('t \<Rightarrow> exn + ('a \<times> 't)) \<Rightarrow> 'a session" where
  "on_table get put call s = (case call (get s) of Inl e \<Rightarrow> Inl e | Inr (x, t) \<Rightarrow> Inr (x, put t s))"

definition with_table ::
  "(db \<Rightarrow> 't) \<Rightarrow> ('t \<Rightarrow> db \<Rightarrow> db) \<Rightarrow> ('t \<Rightarrow> 'a \<times> 't) \<Rightarrow> 'a session" where
  "with_table get put call s = (case call (get s) of (x, t) \<Rightarrow> Inr (x, put t s))"

abbreviation on_conversations :: "(conversation list \<Rightarrow> exn + ('a \<times> conversation list)) \<Rightarrow> 'a session" where
  "on_conversations \<equiv> on_table db_conversations (\<lambda>t s. s \<lparr> db_conversations := t \<rparr>)"

abbreviation on_dialog ::
  "(conversation list \<Rightarrow> ops_event list \<Rightarrow> exn + ('a \<times> conversation list \<times> ops_event list)) \<Rightarrow> 'a session" where
  "on_dialog call \<equiv> on_table (\<lambda>s. (db_conversations s, db_ops_events s))
     (\<lambda>(t, ops) s. s \<lparr> db_conversations := t, db_ops_events := ops \<rparr>) (\<lambda>(t, ops). call t ops)"

abbreviation on_inbox :: "(inbox_message list \<Rightarrow> exn + ('a \<times> inbox_message list)) \<Rightarrow> 'a session" where
  "on_inbox \<equiv> on_table db_inbox (\<lambda>t s. s \<lparr> db_inbox := t \<rparr>)"

abbreviation on_manager_messages ::
  "(manager_message list \<Rightarrow> exn + ('a \<times> manager_message list)) \<Rightarrow> 'a session" where
  "on_manager_messages \<equiv> on_table db_manager_messages (\<lambda>t s. s \<lparr> db_manager_messages := t \<rparr>)"

abbreviation on_reply_plans :: "(reply_plan list \<Rightarrow> exn + ('a \<times> reply_plan list)) \<Rightarrow> 'a session" where
  "on_reply_plans \<equiv> on_table db_reply_plans (\<lambda>t s. s \<lparr> db_reply_plans := t \<rparr>)"

abbreviation with_reply_plans :: "(reply_plan list \<Rightarrow> 'a \<times> reply_plan list) \<Rightarrow> 'a session" where
  "with_reply_plans \<equiv> with_table db_reply_plans (\<lambda>t s. s \<lparr> db_reply_plans := t \<rparr>)"

abbreviation on_outbox :: "(outbox_message list \<Rightarrow> exn + ('a \<times> outbox_message list)) \<Rightarrow> 'a session" where
  "on_outbox \<equiv> on_table db_outbox (\<lambda>t s. s \<lparr> db_outbox := t \<rparr>)"

abbreviation with_outbox :: "(outbox_message list \<Rightarrow> 'a \<times> outbox_message list) \<Rightarrow> 'a session" where
  "with_outbox \<equiv> with_table db_outbox (\<lambda>t s. s \<lparr> db_outbox := t \<rparr>)"

abbreviation on_mirror :: "(mirror_job list \<Rightarrow> exn + ('a \<times> mirror_job list)) \<Rightarrow> 'a session" where
  "on_mirror \<equiv> on_table db_mirror (\<lambda>t s. s \<lparr> db_mirror := t \<rparr>)"

abbreviation on_projections :: "(projection list \<Rightarrow> exn + ('a \<times> projection list)) \<Rightarrow> 'a session" where
  "on_projections \<equiv> on_table db_projections (\<lambda>t s. s \<lparr> db_projections := t \<rparr>)"

abbreviation with_offers :: "(active_offer list \<Rightarrow> 'a \<times> active_offer list) \<Rightarrow> 'a session" where
  "with_offers \<equiv> with_table db_offers (\<lambda>t s. s \<lparr> db_offers := t \<rparr>)"

abbreviation with_create_pendings :: "(create_pending list \<Rightarrow> 'a \<times> create_pending list) \<Rightarrow> 'a session" where
  "with_create_pendings \<equiv> with_table db_create_pendings (\<lambda>t s. s \<lparr> db_create_pendings := t \<rparr>)"

abbreviation on_bindings :: "(chat_binding list \<Rightarrow> exn + ('a \<times> chat_binding list)) \<Rightarrow> 'a session" where
  "on_bindings \<equiv> on_table db_bindings (\<lambda>t s. s \<lparr> db_bindings := t \<rparr>)"

abbreviation on_ingress :: "(ingress_event list \<Rightarrow> exn + ('a \<times> ingress_event list)) \<Rightarrow> 'a session" where
  "on_ingress \<equiv> on_table db_ingress (\<lambda>t s. s \<lparr> db_ingress := t \<rparr>)"

text \<open>What a session that committed went through.\<close>

lemma db_bind_Inr [session_simps]:
  "(db_bind m f s = Inr r) = (\<exists>x s'. m s = Inr (x, s') \<and> f x s' = Inr r)"
  by (auto simp: db_bind_def split: sum.split)

lemma db_return_Inr [session_simps]: "(db_return x s = Inr (y, s')) = (y = x \<and> s' = s)"
  by (auto simp: db_return_def)

lemma db_raise_Inr [session_simps]: "db_raise e s \<noteq> Inr r"
  by (simp add: db_raise_def)

lemma db_read_Inr [session_simps]: "(db_read g s = Inr (y, s')) = (y = g s \<and> s' = s)"
  by (auto simp: db_read_def)

lemma on_table_Inr [session_simps]:
  "(on_table get put call s = Inr (x, s')) = (\<exists>t. call (get s) = Inr (x, t) \<and> s' = put t s)"
  by (auto simp: on_table_def split: sum.split)

lemma with_table_Inr [session_simps]:
  "(with_table get put call s = Inr (x, s')) = (\<exists>t. call (get s) = (x, t) \<and> s' = put t s)"
  by (auto simp: with_table_def split: prod.split)

text \<open>And how one runs, when each call is known to succeed.\<close>

lemma db_bind_run [simp]: "m s = Inr (x, s') \<Longrightarrow> db_bind m f s = f x s'"
  by (simp add: db_bind_def)

lemma db_bind_fail [simp]: "m s = Inl e \<Longrightarrow> db_bind m f s = Inl e"
  by (simp add: db_bind_def)

lemma on_table_run [simp]: "call (get s) = Inr (x, t) \<Longrightarrow> on_table get put call s = Inr (x, put t s)"
  by (simp add: on_table_def)

lemma with_table_run: "with_table get put call s = Inr (fst (call (get s)), put (snd (call (get s))) s)"
  by (simp add: with_table_def split: prod.split)

lemmas session_run = db_return_def db_raise_def db_read_def with_table_run

end
