(* ===== verification/Vk_Gate.thy ===== *)
theory Vk_Gate
  imports Booking_Slot
begin

text \<open>
  The switches in front of every client send: the operating mode of config.py, the global policy of
  core/outbound_policy.py (always closed), and the narrow VK allowlist gate of
  channels/vk_client_outbound_config.py with the peer id it derives from the conversation id.
\<close>

section \<open>Settings and the global policy\<close>

datatype BotMode = Mode_OFF | Mode_HINTS | Mode_DRAFT | Mode_AUTO_READ | Mode_AUTO_WRITE

record settings =
  st_bot_mode :: BotMode
  st_emergency_lock :: bool

definition is_automatic_outbound_allowed :: "settings option \<Rightarrow> string \<Rightarrow> bool" where
  "is_automatic_outbound_allowed settings action =
     (case settings of
        None \<Rightarrow> False
      | Some st \<Rightarrow>
          if st_emergency_lock st then False
          else if st_bot_mode st = Mode_OFF then False
          else if action \<noteq> ''SEND_MESSAGE'' then False
          else False)"

section \<open>The VK send gate\<close>

text \<open>\<open>^vk-(\d+)-(\d+)$\<close>, with the digits of ASCII.\<close>

definition vk_conversation_parts :: "string \<Rightarrow> (string \<times> string) option" where
  "vk_conversation_parts s =
     (if take 3 s \<noteq> ''vk-'' then None
      else let rest = drop 3 s;
               grp = takeWhile is_digit rest;
               tl1 = dropWhile is_digit rest
           in case tl1 of
                [] \<Rightarrow> None
              | sep # user \<Rightarrow>
                  if grp \<noteq> [] \<and> sep = CHR ''-'' \<and> user \<noteq> [] \<and> list_all is_digit user
                  then Some (grp, user) else None)"

definition parse_vk_client_peer_id :: "string \<Rightarrow> int \<Rightarrow> exn + int" where
  "parse_vk_client_peer_id ext expected_group_id =
     (if ext = [] then Inl (ValueError ''VK_CLIENT_PEER_INVALID'')
      else if expected_group_id \<le> 0 then Inl (ValueError ''VK_CLIENT_PEER_INVALID'')
      else case vk_conversation_parts ext of
        None \<Rightarrow> Inl (ValueError ''VK_CLIENT_PEER_INVALID'')
      | Some (grp, user) \<Rightarrow>
          if int_of_digits grp \<noteq> expected_group_id
          then Inl (ValueError ''VK_CLIENT_PEER_GROUP_MISMATCH'')
          else if int_of_digits user \<le> 0 then Inl (ValueError ''VK_CLIENT_PEER_INVALID'')
          else Inr (int_of_digits user))"

record vk_outbound_config =
  vc_outbound_enabled :: bool
  vc_access_token :: "string option"
  vc_allow_conversation :: "string option"
  vc_proof_enabled :: bool
  vc_proof_trigger :: "string option"
  vc_proof_reply :: "string option"
  vc_group_id :: "int option"
  vc_provenance_key :: "string option"

definition opt_text :: "string option \<Rightarrow> bool" where
  "opt_text v = (case v of None \<Rightarrow> False | Some s \<Rightarrow> s \<noteq> [])"

definition send_config_complete :: "vk_outbound_config \<Rightarrow> bool" where
  "send_config_complete cfg =
     ((case vc_group_id cfg of None \<Rightarrow> False | Some g \<Rightarrow> 0 < g) \<and> opt_text (vc_access_token cfg) \<and>
      opt_text (vc_allow_conversation cfg) \<and> opt_text (vc_provenance_key cfg))"

definition proof_config_complete :: "vk_outbound_config \<Rightarrow> bool" where
  "proof_config_complete cfg =
     (send_config_complete cfg \<and> opt_text (vc_proof_trigger cfg) \<and> opt_text (vc_proof_reply cfg))"

definition conversation_allowlisted :: "vk_outbound_config \<Rightarrow> string \<Rightarrow> bool" where
  "conversation_allowlisted cfg ext =
     (if \<not> send_config_complete cfg then False else vc_allow_conversation cfg = Some ext)"

definition vk_client_outbound_send_allowed :: "settings \<Rightarrow> vk_outbound_config \<Rightarrow> string \<Rightarrow> bool" where
  "vk_client_outbound_send_allowed st cfg ext =
     (if \<not> vc_outbound_enabled cfg then False
      else if \<not> send_config_complete cfg then False
      else if st_emergency_lock st then False
      else if st_bot_mode st \<noteq> Mode_AUTO_WRITE then False
      else if \<not> conversation_allowlisted cfg ext then False
      else case vc_group_id cfg of
             None \<Rightarrow> False
           | Some g \<Rightarrow> (case parse_vk_client_peer_id ext g of Inl _ \<Rightarrow> False | Inr _ \<Rightarrow> True))"

definition vk_client_outbound_proof_allowed ::
  "settings \<Rightarrow> vk_outbound_config \<Rightarrow> string \<Rightarrow> string \<Rightarrow> bool" where
  "vk_client_outbound_proof_allowed st cfg ext inbound_text =
     (if \<not> vk_client_outbound_send_allowed st cfg ext then False
      else if \<not> vc_proof_enabled cfg then False
      else if \<not> proof_config_complete cfg then False
      else vc_proof_trigger cfg = Some inbound_text)"

lemma global_policy_closed [simp]: "\<not> is_automatic_outbound_allowed settings action"
  by (simp add: is_automatic_outbound_allowed_def split: option.split)

lemma vk_send_allowedD:
  assumes "vk_client_outbound_send_allowed st cfg ext"
  shows "vc_outbound_enabled cfg" and "\<not> st_emergency_lock st" and "st_bot_mode st = Mode_AUTO_WRITE"
    and "vc_allow_conversation cfg = Some ext"
    and "\<exists>g peer. vc_group_id cfg = Some g \<and> parse_vk_client_peer_id ext g = Inr peer \<and> 0 < peer"
  using assms
  by (auto simp: vk_client_outbound_send_allowed_def conversation_allowlisted_def
      parse_vk_client_peer_id_def split: if_splits option.splits sum.splits prod.splits)

lemma vk_proof_allowed_reply:
  "vk_client_outbound_proof_allowed st cfg ext txt \<Longrightarrow> \<exists>reply. vc_proof_reply cfg = Some reply \<and> reply \<noteq> []"
  by (auto simp: vk_client_outbound_proof_allowed_def proof_config_complete_def opt_text_def
      split: if_splits option.splits)

end
