(* ===== verification/Vk_Provenance.thy ===== *)
theory Vk_Provenance
  imports Booking_Slot
begin

text \<open>
  The authenticated marker of the bot's own VK messages (channels/vk_client_outbound_provenance.py) and
  the switch of the external takeover (channels/vk_client_external_takeover_config.py).

  A message the bot sends carries its outbound id and an authentication code; VK returns the marker in
  the reply callback. \<open>hmac\<close> stands for \<open>hmac.new(key, material, sha256).hexdigest()\<close>, and \<open>loads\<close> for
  \<open>json.loads\<close> (\<open>None\<close> when it raises).
\<close>

section \<open>\<open>uuid.UUID(text)\<close>\<close>

text \<open>\<open>str.replace(pattern, '')\<close> for a non-empty pattern: leftmost occurrences, without overlap.\<close>

fun remove_all :: "nat \<Rightarrow> string \<Rightarrow> string \<Rightarrow> string" where
  "remove_all 0 pat s = s"
| "remove_all (Suc n) pat [] = []"
| "remove_all (Suc n) pat (c # s) =
     (if take (length pat) (c # s) = pat then remove_all n pat (drop (length pat) (c # s))
      else c # remove_all n pat s)"

definition py_remove :: "string \<Rightarrow> string \<Rightarrow> string" where
  "py_remove pat s = remove_all (length s) pat s"

definition is_hex :: "char \<Rightarrow> bool" where
  "is_hex c = is_lower_hex (lower_char c)"

text \<open>The digits \<open>int(text, 16)\<close> reads: spaces around, a sign, a \<open>0x\<close> prefix and single underscores are skipped.\<close>

fun hex_groups :: "string \<Rightarrow> string option" where
  "hex_groups [] = None"
| "hex_groups [c] = (if is_hex c then Some [lower_char c] else None)"
| "hex_groups (c # d # s) =
     (if \<not> is_hex c then None
      else map_option (\<lambda>r. lower_char c # r) (hex_groups (if d = CHR ''_'' then s else d # s)))"

definition int16_digits :: "string \<Rightarrow> string option" where
  "int16_digits s =
     (let s1 = py_strip isspace_char s;
          s2 = (case s1 of [] \<Rightarrow> [] | c # r \<Rightarrow> if c = CHR ''+'' then r else s1)
      in if take 2 s2 = ''0x'' \<or> take 2 s2 = ''0X''
         then (let r = drop 2 s2 in hex_groups (case r of [] \<Rightarrow> [] | c # r' \<Rightarrow> if c = CHR ''_'' then r' else r))
         else hex_groups s2)"

definition uuid_text :: "string \<Rightarrow> uuid" where
  "uuid_text h =
     take 8 h @ ''-'' @ take 4 (drop 8 h) @ ''-'' @ take 4 (drop 12 h) @ ''-'' @ take 4 (drop 16 h) @ ''-'' @ drop 20 h"

definition uuid_of_text :: "string \<Rightarrow> uuid option" where
  "uuid_of_text s =
     (let h = filter (\<lambda>c. c \<noteq> CHR ''-'')
                (py_strip (\<lambda>c. c = CHR ''{'' \<or> c = CHR ''}'') (py_remove ''uuid:'' (py_remove ''urn:'' s)))
      in if length h \<noteq> 32 then None
         else map_option (\<lambda>d. uuid_text (replicate (32 - length d) CHR ''0'' @ d)) (int16_digits h))"

section \<open>The marker\<close>

datatype VkReplyPayloadKind = Prov_ABSENT | Prov_FOREIGN | Prov_BOT_TV_CANDIDATE

record provenance =
  pv_kind :: VkReplyPayloadKind
  pv_v :: "int option"
  pv_ns :: "string option"
  pv_oid :: "string option"
  pv_mac :: "string option"

definition VK_OUTBOUND_PROVENANCE_NS :: string where
  "VK_OUTBOUND_PROVENANCE_NS = ''bot_tv.vk_out''"

definition VK_OUTBOUND_PROVENANCE_VERSION :: int where
  "VK_OUTBOUND_PROVENANCE_VERSION = 1"

definition MAC_HEX_LEN :: nat where "MAC_HEX_LEN = 32"

definition OID_LEN :: nat where "OID_LEN = 36"

definition provenance_post_init :: "provenance \<Rightarrow> exn + provenance" where
  "provenance_post_init p =
     (if pv_kind p = Prov_BOT_TV_CANDIDATE
      then if pv_v p \<noteq> Some VK_OUTBOUND_PROVENANCE_VERSION then Inl (ValueError ''INVALID_PROVENANCE_TECHNICAL'')
           else if pv_ns p \<noteq> Some VK_OUTBOUND_PROVENANCE_NS then Inl (ValueError ''INVALID_PROVENANCE_TECHNICAL'')
           else if (case pv_oid p of None \<Rightarrow> True | Some s \<Rightarrow> length s \<noteq> OID_LEN)
           then Inl (ValueError ''INVALID_PROVENANCE_TECHNICAL'')
           else if (case pv_mac p of None \<Rightarrow> True | Some s \<Rightarrow> length s \<noteq> MAC_HEX_LEN)
           then Inl (ValueError ''INVALID_PROVENANCE_TECHNICAL'')
           else Inr p
      else if pv_v p \<noteq> None \<or> pv_ns p \<noteq> None \<or> pv_oid p \<noteq> None \<or> pv_mac p \<noteq> None
      then Inl (ValueError ''INVALID_PROVENANCE_TECHNICAL'')
      else Inr p)"

definition bare_provenance :: "VkReplyPayloadKind \<Rightarrow> provenance" where
  "bare_provenance k = \<lparr> pv_kind = k, pv_v = None, pv_ns = None, pv_oid = None, pv_mac = None \<rparr>"

definition json_str :: "json \<Rightarrow> string option" where
  "json_str j = (case j of JStr s \<Rightarrow> Some s | _ \<Rightarrow> None)"

definition json_int :: "json \<Rightarrow> int option" where
  "json_int j = (case j of JInt n \<Rightarrow> Some n | _ \<Rightarrow> None)"

definition json_of_opt :: "('a \<Rightarrow> json) \<Rightarrow> 'a option \<Rightarrow> json" where
  "json_of_opt f v = (case v of None \<Rightarrow> JNull | Some x \<Rightarrow> f x)"

definition dict_keys_are :: "payload \<Rightarrow> string list \<Rightarrow> bool" where
  "dict_keys_are d ks = (set (map fst d) = set ks)"

definition to_envelope_fragment :: "provenance \<Rightarrow> payload" where
  "to_envelope_fragment p =
     (case pv_kind p of
        Prov_ABSENT \<Rightarrow> [(''kind'', JStr ''ABSENT'')]
      | Prov_FOREIGN \<Rightarrow> [(''kind'', JStr ''FOREIGN'')]
      | Prov_BOT_TV_CANDIDATE \<Rightarrow>
          [(''kind'', JStr ''BOT_TV_CANDIDATE''), (''v'', json_of_opt JInt (pv_v p)),
           (''ns'', json_of_opt JStr (pv_ns p)), (''oid'', json_of_opt JStr (pv_oid p)),
           (''mac'', json_of_opt JStr (pv_mac p))])"

definition from_envelope_fragment :: "json \<Rightarrow> provenance option" where
  "from_envelope_fragment value =
     (case value of
        JObj d \<Rightarrow>
          if dict_get d ''kind'' = JStr ''ABSENT''
          then if dict_keys_are d [''kind''] then Some (bare_provenance Prov_ABSENT) else None
          else if dict_get d ''kind'' = JStr ''FOREIGN''
          then if dict_keys_are d [''kind''] then Some (bare_provenance Prov_FOREIGN) else None
          else if dict_get d ''kind'' = JStr ''BOT_TV_CANDIDATE''
          then if dict_keys_are d [''kind'', ''v'', ''ns'', ''oid'', ''mac'']
               then (case provenance_post_init
                            \<lparr> pv_kind = Prov_BOT_TV_CANDIDATE, pv_v = json_int (dict_get d ''v''),
                              pv_ns = json_str (dict_get d ''ns''), pv_oid = json_str (dict_get d ''oid''),
                              pv_mac = json_str (dict_get d ''mac'') \<rparr> of
                       Inl _ \<Rightarrow> None | Inr p \<Rightarrow> Some p)
               else None
          else None
      | _ \<Rightarrow> None)"

definition mac_hex :: "(string \<Rightarrow> string \<Rightarrow> string) \<Rightarrow> uuid \<Rightarrow> string \<Rightarrow> string" where
  "mac_hex hmac outbound_id key =
     take MAC_HEX_LEN (hmac key (''1:'' @ VK_OUTBOUND_PROVENANCE_NS @ '':'' @ outbound_id))"

text \<open>The marker object; the code sends its JSON text.\<close>

definition vk_outbound_provenance_body :: "(string \<Rightarrow> string \<Rightarrow> string) \<Rightarrow> uuid \<Rightarrow> string \<Rightarrow> exn + payload" where
  "vk_outbound_provenance_body hmac outbound_id key =
     (if key = [] then Inl (ValueError ''PROVENANCE_KEY_INVALID'')
      else Inr [(''v'', JInt VK_OUTBOUND_PROVENANCE_VERSION), (''ns'', JStr VK_OUTBOUND_PROVENANCE_NS),
                (''oid'', JStr outbound_id), (''mac'', JStr (mac_hex hmac outbound_id key))])"

definition coerce_payload_object :: "(string \<Rightarrow> json option) \<Rightarrow> json \<Rightarrow> payload option" where
  "coerce_payload_object loads payload =
     (case payload of
        JObj d \<Rightarrow> Some d
      | JStr s \<Rightarrow>
          if s = [] \<or> length s > 1000 then None
          else (case loads s of Some (JObj d) \<Rightarrow> Some d | _ \<Rightarrow> None)
      | _ \<Rightarrow> None)"

definition classify_vk_reply_payload :: "(string \<Rightarrow> json option) \<Rightarrow> json \<Rightarrow> provenance" where
  "classify_vk_reply_payload loads payload =
     (if payload = JNull then bare_provenance Prov_ABSENT
      else case coerce_payload_object loads payload of
        None \<Rightarrow> bare_provenance Prov_FOREIGN
      | Some d \<Rightarrow>
          if \<not> dict_keys_are d [''v'', ''ns'', ''oid'', ''mac''] then bare_provenance Prov_FOREIGN
          else if dict_get d ''v'' \<notin> {JInt VK_OUTBOUND_PROVENANCE_VERSION, JBool True}
          then bare_provenance Prov_FOREIGN
          else if dict_get d ''ns'' \<noteq> JStr VK_OUTBOUND_PROVENANCE_NS then bare_provenance Prov_FOREIGN
          else (case (dict_get d ''oid'', dict_get d ''mac'') of
                  (JStr oid, JStr mac) \<Rightarrow>
                    if length oid \<noteq> OID_LEN then bare_provenance Prov_FOREIGN
                    else if uuid_of_text oid = None then bare_provenance Prov_FOREIGN
                    else if length mac \<noteq> MAC_HEX_LEN then bare_provenance Prov_FOREIGN
                    else if \<not> list_all is_hex mac then bare_provenance Prov_FOREIGN
                    else \<lparr> pv_kind = Prov_BOT_TV_CANDIDATE, pv_v = Some VK_OUTBOUND_PROVENANCE_VERSION,
                           pv_ns = Some VK_OUTBOUND_PROVENANCE_NS, pv_oid = Some oid,
                           pv_mac = Some (map lower_char mac) \<rparr>
                | _ \<Rightarrow> bare_provenance Prov_FOREIGN))"

definition verify_vk_outbound_provenance_technical ::
  "(string \<Rightarrow> string \<Rightarrow> string) \<Rightarrow> provenance \<Rightarrow> string \<Rightarrow> uuid option" where
  "verify_vk_outbound_provenance_technical hmac p key =
     (if key = [] then None
      else if pv_kind p \<noteq> Prov_BOT_TV_CANDIDATE then None
      else case (pv_oid p, pv_mac p) of
        (Some oid, Some mac) \<Rightarrow>
          (case uuid_of_text oid of
             None \<Rightarrow> None
           | Some outbound_id \<Rightarrow>
               if map lower_char mac \<noteq> mac_hex hmac outbound_id key then None else Some outbound_id)
      | _ \<Rightarrow> None)"

section \<open>The switch\<close>

datatype VkClientExternalTakeoverMode = Takeover_OFF | Takeover_ALLOWLIST | Takeover_ALL

record external_takeover_config =
  xt_mode :: VkClientExternalTakeoverMode
  xt_allowlist :: "string list"
  xt_provenance_key :: "string option"

definition fsm_mutation_allowed :: "external_takeover_config \<Rightarrow> string \<Rightarrow> bool" where
  "fsm_mutation_allowed cfg ext =
     (if xt_mode cfg = Takeover_OFF then False
      else if ext = [] then False
      else if xt_mode cfg = Takeover_ALL then True
      else ext \<in> set (xt_allowlist cfg))"

section \<open>The round trip\<close>

lemma remove_all_absent: "c \<notin> set s \<Longrightarrow> remove_all n (c # pat) s = s"
  by (induction n "c # pat" s rule: remove_all.induct) auto

lemma py_strip_clean: "\<forall>c \<in> set s. \<not> P c \<Longrightarrow> py_strip P s = s"
proof -
  assume clean: "\<forall>c \<in> set s. \<not> P c"
  have same: "dropWhile P t = t" if "set t \<subseteq> set s" for t
    using that clean by (cases t) auto
  show ?thesis by (simp add: py_strip_def same)
qed

lemma lower_hex_is_hex: "is_lower_hex c \<Longrightarrow> is_hex c \<and> lower_char c = c"
  by (auto simp: is_hex_def is_lower_hex_def is_digit_def lower_char_def)

lemma hex_groups_lower: "s \<noteq> [] \<Longrightarrow> list_all is_lower_hex s \<Longrightarrow> hex_groups s = Some s"
proof (induction s rule: hex_groups.induct)
  case (3 c d s)
  have "d \<noteq> CHR ''_''"
    using 3(3) by (auto simp: is_lower_hex_def is_digit_def ord_char_def)
  with 3 show ?case by (simp add: lower_hex_is_hex)
qed (simp_all add: lower_hex_is_hex)

lemma lower_hex_chars:
  assumes "is_lower_hex c"
  shows "c \<noteq> CHR ''+'' \<and> c \<noteq> CHR ''x'' \<and> c \<noteq> CHR ''X'' \<and> c \<noteq> CHR ''-'' \<and> c \<noteq> CHR ''u'' \<and>
    c \<noteq> CHR ''{'' \<and> c \<noteq> CHR ''}'' \<and> \<not> isspace_char c"
  using assms by (auto simp: is_lower_hex_def is_digit_def isspace_char_def Let_def ord_char_def)

lemma int16_digits_lower:
  assumes "list_all is_lower_hex (a # b # s)"
  shows "int16_digits (a # b # s) = Some (a # b # s)"
proof -
  have "py_strip isspace_char (a # b # s) = a # b # s"
    using assms by (intro py_strip_clean) (auto simp: list_all_iff dest: lower_hex_chars)
  with assms show ?thesis
    using lower_hex_chars [of a] lower_hex_chars [of b] hex_groups_lower [OF _ assms]
    by (simp add: int16_digits_def Let_def)
qed

lemma fullmatch_append: "fullmatch (ps @ qs) s = (\<exists>a b. s = a @ b \<and> fullmatch ps a \<and> fullmatch qs b)"
  unfolding fullmatch_def list_all2_append1 by (metis list_all2_lengthD)

lemma fullmatch_replicate: "fullmatch (replicate n p) s = (length s = n \<and> list_all p s)"
  by (auto simp: fullmatch_def list_all2_conv_all_nth list_all_length)

lemma fullmatch_char: "fullmatch [\<lambda>c. c = x] s = (s = [x])"
  by (auto simp: fullmatch_def list_all2_Cons1)

lemma canonical_uuid_parts:
  assumes "fullmatch uuid_re s"
  obtains a b c d f where "s = a @ ''-'' @ b @ ''-'' @ c @ ''-'' @ d @ ''-'' @ f"
    and "length a = 8" and "length b = 4" and "length c = 4" and "length d = 4" and "length f = 12"
    and "list_all is_lower_hex (a @ b @ c @ d @ f)"
  using assms
  unfolding uuid_re_def fullmatch_append fullmatch_replicate fullmatch_char by (elim exE conjE) (simp add: that)

text \<open>\<open>str(uuid.UUID(text))\<close> gives a canonical text back.\<close>

lemma uuid_of_canonical_text:
  assumes "fullmatch uuid_re s"
  shows "uuid_of_text s = Some s" and "length s = OID_LEN"
proof -
  obtain a b c d f where s: "s = a @ ''-'' @ b @ ''-'' @ c @ ''-'' @ d @ ''-'' @ f"
    and len: "length a = 8" "length b = 4" "length c = 4" "length d = 4" "length f = 12"
    and hex: "list_all is_lower_hex (a @ b @ c @ d @ f)"
    using assms by (rule canonical_uuid_parts)
  let ?h = "a @ b @ c @ d @ f"
  have chars: "is_lower_hex x \<or> x = CHR ''-''" if "x \<in> set s" for x
    using that hex by (auto simp: s list_all_iff)
  then have "CHR ''u'' \<notin> set s" and braces: "\<forall>x \<in> set s. \<not> (x = CHR ''{'' \<or> x = CHR ''}'')"
    using lower_hex_chars by fastforce+
  then have rem: "py_remove ''urn:'' s = s" "py_remove ''uuid:'' s = s"
    by (simp_all add: py_remove_def remove_all_absent)
  have no_dash: "filter (\<lambda>x. x \<noteq> CHR ''-'') t = t" if "list_all is_lower_hex t" for t
    using that lower_hex_chars by (auto simp: list_all_iff intro!: filter_True)
  have flat: "filter (\<lambda>x. x \<noteq> CHR ''-'') s = ?h"
    using hex by (simp add: s no_dash)
  obtain x y r where "?h = x # y # r"
    using len by (cases a; cases "tl a") auto
  with hex have "int16_digits ?h = Some ?h"
    by (metis int16_digits_lower)
  moreover have "uuid_text ?h = s"
    using len by (simp add: uuid_text_def s)
  ultimately show "uuid_of_text s = Some s"
    using len by (simp add: uuid_of_text_def rem py_strip_clean [OF braces] flat)
  show "length s = OID_LEN"
    using len by (simp add: s OID_LEN_def)
qed


definition vk_demo_hmac :: "string \<Rightarrow> string \<Rightarrow> string" where
  "vk_demo_hmac k m = replicate 64 (if k = ''secret-key'' then CHR ''a'' else CHR ''b'')"


end
