(* ===== verification/Inbound.thy ===== *)
theory Inbound
  imports Dialog_Db Vk_Gate
begin

text \<open>
  Client messages (services/inbound.py, services/vk_client_inbound.py, the plan half of
  services/vk_client_outbound_proof.py, with the event types of schemas/inbound.py and
  schemas/vk_client_ingress.py).

  \<open>accept\<close> is the whole session of a synthetic client message, in the code's statement order; a VK
  message is stored by \<open>vk_accept\<close>, and \<open>maybe_create_vk_client_proof_reply_plan\<close> runs after it in the
  same session. \<open>inbound_dialog\<close> and \<open>inbound_plan\<close> say what a new message does to the dialog row and
  which reply it schedules; the lemmas show that a committed session does exactly that, and that a
  session with fresh identifiers commits.
\<close>

section \<open>Events and results\<close>

record inbound_event =
  ev_channel :: string
  ev_external_conversation_id :: string
  ev_external_message_id :: string
  ev_text :: string
  ev_received_at :: "moment option"
  ev_booking :: "json option"
  ev_action :: "confirm_action option"

definition received_at_utc :: "env \<Rightarrow> inbound_event \<Rightarrow> moment" where
  "received_at_utc e ev = (case ev_received_at ev of None \<Rightarrow> en_wall e | Some m \<Rightarrow> m)"

definition preserves_active_offer :: "inbound_event \<Rightarrow> bool" where
  "preserves_active_offer ev = (ev_action ev \<noteq> None)"

definition safe_payload :: "inbound_event \<Rightarrow> payload" where
  "safe_payload ev = [(''schema'', JStr ''synthetic.inbound.v1''), (''text'', JStr (ev_text ev))]"

record inbound_result =
  ir_conversation :: conversation
  ir_inbox :: inbox_message
  ir_outbox :: outbox_message
  ir_created_conversation :: bool
  ir_created_inbox :: bool
  ir_created_outbox :: bool
  ir_duplicate :: bool
  ir_automatic_reply_allowed :: bool
  ir_context_version :: int
  ir_reply_plan :: "reply_plan option"
  ir_reply_plan_created :: bool

section \<open>The synthetic channel\<close>

definition lock_dialog :: "uuid \<Rightarrow> conversation session" where
  "lock_dialog cid = on_conversations (\<lambda>t. case lock_for_update cid t of Inl e \<Rightarrow> Inl e | Inr c \<Rightarrow> Inr (c, t))"

text \<open>Find or create the dialog, then lock it: the first statements of every inbound session.\<close>

definition open_dialog :: "env \<Rightarrow> Channel \<Rightarrow> string \<Rightarrow> (conversation \<times> bool) session" where
  "open_dialog e channel ext =
     db_bind (on_conversations (conv_get_or_create (en_conversation_id e) (en_now e) channel ext))
       (\<lambda>(c, created). db_bind (lock_dialog (c_id c)) (\<lambda>c'. db_return (c', created)))"

text \<open>The inbox row: looked up under the lock, else inserted under the next event sequence.\<close>

definition store_inbox ::
  "env \<Rightarrow> Channel \<Rightarrow> string \<Rightarrow> payload \<Rightarrow> moment \<Rightarrow> conversation
     \<Rightarrow> (conversation \<times> inbox_message \<times> bool) session" where
  "store_inbox e channel ext payload received_at c =
     db_bind (db_read (\<lambda>s. get_inbox_by_external channel ext (db_inbox s))) (\<lambda>found.
     db_bind
       (case found of
          Some inbox \<Rightarrow> db_return (c, inbox, False)
        | None \<Rightarrow>
            db_bind (on_conversations (allocate_next_event_seq c)) (\<lambda>c1.
            db_bind (on_inbox (insert_inbox_if_absent (en_inbox_id e) (en_now e) (c_id c1) channel ext
                       (c_current_event_seq c1) payload received_at)) (\<lambda>(inbox, created).
            db_return (c1, inbox, created))))
       (\<lambda>(c1, inbox, created).
          if i_conversation_id inbox \<noteq> c_id c1
          then db_raise (RuntimeError ''INBOX_CONVERSATION_MISMATCH'')
          else db_return (c1, inbox, created)))"

text \<open>
  \<open>_admit_confirm_selected_slot\<close>. \<open>pii\<close> is the PII store, absent in a deployment without it; its
  answers are those of \<open>booking_phone_write_pair_alive\<close>.
\<close>

definition admit_confirm_selected_slot ::
  "env \<Rightarrow> (string \<Rightarrow> string \<Rightarrow> uuid \<Rightarrow> bool option) option \<Rightarrow> inbound_event \<Rightarrow> conversation \<Rightarrow> unit session" where
  "admit_confirm_selected_slot e pii ev c =
     (case ev_action ev of
        None \<Rightarrow> db_return ()
      | Some action \<Rightarrow>
          (case pii of
             None \<Rightarrow> db_return ()
           | Some alive \<Rightarrow> (\<lambda>s.
               Inr ((), s \<lparr> db_create_pendings :=
                 snd (admit_from_confirm alive (en_idempotency_key e) (en_pending_id e) (en_now e) (c_id c)
                        (ev_channel ev) (ev_external_message_id ev) action (c_context_version c)
                        (c_manager_epoch c) (c_current_event_seq c) (db_conversations s) (db_offers s)
                        (db_pii_admissions s) (db_create_pendings s)) \<rparr>))))"

definition settle_offer ::
  "env \<Rightarrow> (string \<Rightarrow> string \<Rightarrow> uuid \<Rightarrow> bool option) option \<Rightarrow> inbound_event \<Rightarrow> conversation \<Rightarrow> unit session" where
  "settle_offer e pii ev c =
     (if \<not> preserves_active_offer ev
      then db_bind (with_offers (offer_invalidate (c_id c))) (\<lambda>_. db_return ())
      else admit_confirm_selected_slot e pii ev c)"

text \<open>The reply: planned after the bot's delay, deferred to the end of the manager's pause, or none.\<close>

definition plan_reply ::
  "env \<Rightarrow> int \<Rightarrow> inbound_event \<Rightarrow> inbox_message \<Rightarrow> conversation \<Rightarrow> (conversation \<times> reply_plan option) session" where
  "plan_reply e pause ev inbox c =
     (if conversation_allows_automatic_reply c then
        db_bind (on_reply_plans (create_client_reply_plan (en_plan_id e) (en_now e) (c_id c)
                   (c_context_version c) (en_plan_correlation e)
                   (client_reply_plan_payload (i_id inbox) (ev_booking ev) False) BOT_RESPONSE_DELAY_MS
                   REPLY_PLAN_DEFAULT_MAX_ATTEMPTS None (c_manager_epoch c) (c_current_event_seq c))) (\<lambda>plan.
        db_bind (on_conversations (set_active_reply_plan c (Some (p_id plan)))) (\<lambda>c1.
        db_return (c1, Some plan)))
      else if c_status c = HANDOFF \<and> (c_handoff_state c = HUMAN_ACTIVE \<or> c_handoff_state c = HUMAN_PAUSE) then
        db_bind (on_conversations (enter_or_continue_human_pause c (en_now e) pause)) (\<lambda>(c1, _).
        (case c_handoff_deadline_at c1 of
           None \<Rightarrow> db_raise (RuntimeError ''HUMAN_PAUSE_DEADLINE_MISSING'')
         | Some deadline \<Rightarrow>
             db_bind (on_reply_plans (create_client_reply_plan (en_plan_id e) (en_now e) (c_id c1)
                        (c_context_version c1) (en_plan_correlation e)
                        (client_reply_plan_payload (i_id inbox) (ev_booking ev) True) 0
                        REPLY_PLAN_DEFAULT_MAX_ATTEMPTS (Some deadline) (c_manager_epoch c1)
                        (c_current_event_seq c1))) (\<lambda>plan.
             db_bind (on_conversations (set_active_reply_plan c1 (Some (p_id plan)))) (\<lambda>c2.
             db_return (c2, Some plan)))))
      else
        db_bind (on_conversations (set_active_reply_plan c None)) (\<lambda>c1. db_return (c1, None)))"

definition advance_dialog ::
  "env \<Rightarrow> (string \<Rightarrow> string \<Rightarrow> uuid \<Rightarrow> bool option) option \<Rightarrow> int \<Rightarrow> inbound_event \<Rightarrow> inbox_message
     \<Rightarrow> conversation \<Rightarrow> (conversation \<times> reply_plan option) session" where
  "advance_dialog e pii pause ev inbox c =
     db_bind (on_conversations (bump_context_for_new_message c (received_at_utc e ev))) (\<lambda>c1.
     db_bind (with_reply_plans (supersede_open_plans (c_id c1) ''NEW_CLIENT_MESSAGE'')) (\<lambda>_.
     db_bind (with_outbox (cancel_unadmitted_for_conversation (c_id c1))) (\<lambda>_.
     db_bind (settle_offer e pii ev c1) (\<lambda>_.
     plan_reply e pause ev inbox c1))))"

definition internal_draft_payload :: "inbound_event \<Rightarrow> inbox_message \<Rightarrow> conversation \<Rightarrow> payload" where
  "internal_draft_payload ev inbox c =
     [(''schema'', JStr ''internal.draft.v1''), (''source'', JStr ''inbound''),
      (''inbox_id'', JStr (i_id inbox)), (''conversation_id'', JStr (c_id c)),
      (''destination_type'', JStr ''INTERNAL_DRAFT''), (''draft_text'', JStr (ev_text ev)),
      (''automatic_reply_allowed'', JBool (conversation_allows_automatic_reply c)),
      (''context_version'', JInt (c_context_version c))]"

definition announce_client_message :: "env \<Rightarrow> inbox_message \<Rightarrow> conversation \<Rightarrow> unit session" where
  "announce_client_message e inbox c =
     db_bind (on_mirror (enqueue_client_message_received (en_mirror_id e) (en_now e) (c_id c) (i_id inbox)
                (c_context_version c) (en_mirror_correlation e))) (\<lambda>_.
     db_bind (on_projections (enqueue_client_inbound_projection (en_chat_egress_enabled e)
                (en_projection_id e) (en_now e) (c_id c) (i_id inbox) (en_projection_correlation e))) (\<lambda>_.
     db_return ()))"

text \<open>\<open>InboundService(...).accept(event)\<close>; the range check of the pause is the constructor's.\<close>

definition accept ::
  "env \<Rightarrow> (string \<Rightarrow> string \<Rightarrow> uuid \<Rightarrow> bool option) option \<Rightarrow> int \<Rightarrow> inbound_event \<Rightarrow> inbound_result session" where
  "accept e pii pause ev =
     (if \<not> handoff_pause_valid pause
      then db_raise (ValueError ''handoff_pause_seconds must be between 600 and 900'')
      else if ev_channel ev \<noteq> ''synthetic'' then db_raise (ValueError ''UNSUPPORTED_CHANNEL'')
      else
        db_bind (open_dialog e Channel_SYNTHETIC (ev_external_conversation_id ev)) (\<lambda>(c0, created_conversation).
        db_bind (store_inbox e Channel_SYNTHETIC (ev_external_message_id ev) (safe_payload ev)
                   (received_at_utc e ev) c0) (\<lambda>(c1, inbox, created_inbox).
        db_bind (if created_inbox then advance_dialog e pii pause ev inbox c1 else db_return (c1, None))
          (\<lambda>(c, reply_plan).
        db_bind (on_outbox (create_internal_draft_outbox (en_outbox_id e) (en_now e) (c_id c) (i_id inbox)
                   (internal_draft_payload ev inbox c))) (\<lambda>(outbox, created_outbox).
        db_bind (if created_inbox then announce_client_message e inbox c else db_return ()) (\<lambda>_.
        db_return \<lparr> ir_conversation = c, ir_inbox = inbox, ir_outbox = outbox,
                    ir_created_conversation = created_conversation, ir_created_inbox = created_inbox,
                    ir_created_outbox = created_outbox, ir_duplicate = (\<not> created_inbox),
                    ir_automatic_reply_allowed = conversation_allows_automatic_reply c,
                    ir_context_version = c_context_version c, ir_reply_plan = reply_plan,
                    ir_reply_plan_created = (reply_plan \<noteq> None) \<rparr>))))))"

section \<open>The VK channel\<close>

record vk_inbound_result =
  vr_conversation :: conversation
  vr_inbox :: inbox_message
  vr_created_conversation :: bool
  vr_created_inbox :: bool
  vr_duplicate :: bool
  vr_context_version :: int

definition vk_safe_payload :: "string \<Rightarrow> payload" where
  "vk_safe_payload txt = [(''schema'', JStr ''vk.client.inbound.v1''), (''text'', JStr txt)]"

text \<open>
  \<open>VkClientInboundService.accept\<close>, on the fields of a \<open>VkClientInboundEvent\<close>: conversation and inbox
  only. \<open>inbound_event\<close> carries them; its booking and action fields are not read.
\<close>

definition vk_accept :: "env \<Rightarrow> inbound_event \<Rightarrow> vk_inbound_result session" where
  "vk_accept e ev =
     (if ev_channel ev \<noteq> ''vk'' then db_raise (ValueError ''UNSUPPORTED_CHANNEL'')
      else
        db_bind (open_dialog e Channel_VK (ev_external_conversation_id ev)) (\<lambda>(c0, created_conversation).
        db_bind (store_inbox e Channel_VK (ev_external_message_id ev) (vk_safe_payload (ev_text ev))
                   (received_at_utc e ev) c0) (\<lambda>(c1, inbox, created_inbox).
        db_bind (if created_inbox
                 then on_conversations (bump_context_for_new_message c1 (received_at_utc e ev))
                 else db_return c1) (\<lambda>c.
        db_return \<lparr> vr_conversation = c, vr_inbox = inbox,
                    vr_created_conversation = created_conversation, vr_created_inbox = created_inbox,
                    vr_duplicate = (\<not> created_inbox), vr_context_version = c_context_version c \<rparr>))))"

definition maybe_create_vk_client_proof_reply_plan ::
  "env \<Rightarrow> settings \<Rightarrow> vk_outbound_config option \<Rightarrow> conversation \<Rightarrow> string \<Rightarrow> bool
     \<Rightarrow> (reply_plan option) session" where
  "maybe_create_vk_client_proof_reply_plan e st config c inbound_text created_inbox =
     (if \<not> created_inbox then db_return None
      else case config of
        None \<Rightarrow> db_return None
      | Some cfg \<Rightarrow>
          if c_channel c \<noteq> Channel_VK then db_return None
          else if \<not> vk_client_outbound_proof_allowed st cfg (c_external_conversation_id c) inbound_text
          then db_return None
          else (case vc_proof_reply cfg of
            None \<Rightarrow> db_raise (AssertionError [])
          | Some reply \<Rightarrow>
              db_bind (with_reply_plans (supersede_open_plans (c_id c) ''VK_CLIENT_PROOF_TRIGGER'')) (\<lambda>_.
              db_bind (with_outbox (cancel_unadmitted_for_conversation (c_id c))) (\<lambda>_.
              db_bind (on_reply_plans (create_client_reply_plan (en_plan_id e) (en_now e) (c_id c)
                         (c_context_version c) (en_plan_correlation e)
                         (vk_client_proof_reply_plan_payload reply) BOT_RESPONSE_DELAY_MS
                         REPLY_PLAN_DEFAULT_MAX_ATTEMPTS None (c_manager_epoch c)
                         (c_current_event_seq c))) (\<lambda>plan.
              db_bind (on_conversations (set_active_reply_plan c (Some (p_id plan)))) (\<lambda>_.
              db_return (Some plan)))))))"

section \<open>What a committed session did\<close>

lemma lock_dialog_Inr [session_simps]:
  "(lock_dialog cid s = Inr (c, s')) = (lock_for_update cid (db_conversations s) = Inr c \<and> s' = s)"
  by (auto simp: lock_dialog_def session_simps split: sum.splits)

lemma lock_dialog_current [simp]:
  "conv_current c (db_conversations s) \<Longrightarrow> lock_dialog (c_id c) s = Inr (c, s)"
  by (simp add: session_simps conv_current_lock)

lemma open_dialog_Inr:
  assumes "open_dialog e channel ext s = Inr ((c, created), s')" and "distinct (map c_id (db_conversations s))"
  obtains t where "conv_get_or_create (en_conversation_id e) (en_now e) channel ext (db_conversations s) = Inr ((c, created), t)"
    and "s' = s \<lparr> db_conversations := t \<rparr>" and "conv_current c t"
proof -
  obtain c0 cr t where gc: "conv_get_or_create (en_conversation_id e) (en_now e) channel ext (db_conversations s) = Inr ((c0, cr), t)"
    and lock: "lock_for_update (c_id c0) t = Inr c" and s': "s' = s \<lparr> db_conversations := t \<rparr>" and "created = cr"
    using assms(1) by (auto simp: open_dialog_def session_simps)
  have cur: "conv_current c0 t"
    by (rule conv_get_or_create_Inr(1) [OF gc assms(2)])
  then have "c = c0"
    using lock by (simp add: conv_current_lock)
  with gc cur s' \<open>created = cr\<close> show thesis by (intro that) simp_all
qed

lemma insert_inbox_new:
  assumes "insert_inbox_if_absent i now cid ch ext seq pl ra t = Inr ((m, created), t')"
    and "get_inbox_by_external ch ext t = None"
  shows "created" and "m = inbox_new_row i now cid ch ext seq pl ra" and "t' = t @ [m]"
    and "\<forall>x \<in> set t. i_id x \<noteq> i"
proof -
  let ?r = "inbox_new_row i now cid ch ext seq pl ra"
  have "get_inbox_by_external ch ext (t @ [?r]) = Some ?r"
    using assms(2) by (simp add: get_inbox_by_external_def sql_one_append inbox_new_row_def)
  with assms show "created" and "m = ?r" and "t' = t @ [m]" and "\<forall>x \<in> set t. i_id x \<noteq> i"
    by (auto simp: insert_inbox_if_absent_def sql_one_None Let_def split: if_splits)
qed

lemma store_inbox_Inr:
  assumes "store_inbox e ch ext pl ra c s = Inr ((c1, m, created), s')"
    and "conv_current c (db_conversations s)"
  obtains (old) "\<not> created" and "c1 = c" and "s' = s" and "get_inbox_by_external ch ext (db_inbox s) = Some m"
      and "i_conversation_id m = c_id c"
    | (new) "created" and "c1 = conv_seq_row c" and "get_inbox_by_external ch ext (db_inbox s) = None"
      and "m = inbox_new_row (en_inbox_id e) (en_now e) (c_id c) ch ext (c_current_event_seq c + 1) pl ra"
      and "s' = s \<lparr> db_conversations := sql_put c_id (conv_seq_row c) (db_conversations s), db_inbox := db_inbox s @ [m] \<rparr>"
      and "\<forall>x \<in> set (db_inbox s). i_id x \<noteq> en_inbox_id e"
proof (cases "get_inbox_by_external ch ext (db_inbox s)")
  case (Some x)
  with assms(1) show ?thesis
    by (intro old) (auto simp: store_inbox_def session_simps split: if_splits)
next
  case None
  have seq: "allocate_next_event_seq c (db_conversations s) =
      Inr (conv_seq_row c, sql_put c_id (conv_seq_row c) (db_conversations s))"
    by (rule allocate_next_event_seq_current [OF assms(2)])
  obtain t where ins: "insert_inbox_if_absent (en_inbox_id e) (en_now e) (c_id c) ch ext (c_current_event_seq c + 1) pl ra
        (db_inbox s) = Inr ((m, created), t)"
    and c1: "c1 = conv_seq_row c"
    and s': "s' = s \<lparr> db_conversations := sql_put c_id (conv_seq_row c) (db_conversations s), db_inbox := t \<rparr>"
    using assms(1) None seq by (auto simp: store_inbox_def session_simps conv_seq_row_def split: if_splits)
  note row = insert_inbox_new [OF ins None]
  show ?thesis
    by (rule new) (use row c1 s' None in simp_all)
qed

text \<open>The specification: how a new message moves the dialog row, and the reply it schedules.\<close>

definition paused_dialog :: "env \<Rightarrow> int \<Rightarrow> conversation \<Rightarrow> conversation" where
  "paused_dialog e pause c = (if c_handoff_state c = HUMAN_ACTIVE then conv_pause_row (en_now e) pause c else c)"

definition reply_dialog :: "env \<Rightarrow> int \<Rightarrow> conversation \<Rightarrow> conversation" where
  "reply_dialog e pause c =
     (if conversation_allows_automatic_reply c then c \<lparr> c_active_reply_plan_id := Some (en_plan_id e) \<rparr>
      else if c_status c = HANDOFF then (paused_dialog e pause c) \<lparr> c_active_reply_plan_id := Some (en_plan_id e) \<rparr>
      else c \<lparr> c_active_reply_plan_id := None \<rparr>)"

definition scheduled_reply :: "env \<Rightarrow> int \<Rightarrow> inbound_event \<Rightarrow> uuid \<Rightarrow> conversation \<Rightarrow> reply_plan option" where
  "scheduled_reply e pause ev inbox_id c =
     (if conversation_allows_automatic_reply c
      then Some (plan_new_row (en_plan_id e) (en_now e) (c_id c) (c_context_version c) (en_plan_correlation e)
             (client_reply_plan_payload inbox_id (ev_booking ev) False) BOT_RESPONSE_DELAY_MS
             REPLY_PLAN_DEFAULT_MAX_ATTEMPTS (At (en_now e + milliseconds BOT_RESPONSE_DELAY_MS))
             (c_manager_epoch c) (c_current_event_seq c))
      else if c_status c = HANDOFF
      then Some (plan_new_row (en_plan_id e) (en_now e) (c_id c) (c_context_version c) (en_plan_correlation e)
             (client_reply_plan_payload inbox_id (ev_booking ev) True) 0
             REPLY_PLAN_DEFAULT_MAX_ATTEMPTS (conv_deadline (paused_dialog e pause c))
             (c_manager_epoch c) (c_current_event_seq c))
      else None)"

lemma paused_dialog_simps [simp]:
  "c_id (paused_dialog e pause c) = c_id c"
  "c_context_version (paused_dialog e pause c) = c_context_version c"
  "c_manager_epoch (paused_dialog e pause c) = c_manager_epoch c"
  "c_current_event_seq (paused_dialog e pause c) = c_current_event_seq c"
  by (simp_all add: paused_dialog_def conv_pause_row_def)

lemma reply_dialog_id [simp]: "c_id (reply_dialog e pause c) = c_id c"
  by (simp add: reply_dialog_def)

lemma paused_dialog_deadline:
  assumes "conversation_ok c" and "c_status c = HANDOFF"
  obtains d where "c_handoff_deadline_at (paused_dialog e pause c) = Some d"
  using assms
  by (cases "c_handoff_state c = HUMAN_ACTIVE")
    (auto simp: paused_dialog_def conv_pause_row_def conversation_ok_def ck_conversations_handoff_consistency_def)

lemma handoff_states:
  "conversation_ok c \<Longrightarrow> c_status c = HANDOFF \<Longrightarrow>
     (c_handoff_state c = HUMAN_ACTIVE \<or> c_handoff_state c = HUMAN_PAUSE) \<and> \<not> conversation_allows_automatic_reply c"
  by (auto simp: conversation_ok_def ck_conversations_handoff_consistency_def conversation_allows_automatic_reply_def)

lemma plan_reply_Inr:
  assumes "plan_reply e pause ev m c s = Inr ((c', p), s')" and "conv_current c (db_conversations s)"
    and "conversation_ok c" and "handoff_pause_valid pause"
  shows "c' = reply_dialog e pause c" and "p = scheduled_reply e pause ev (i_id m) c"
    and "s' = s \<lparr> db_conversations := sql_put c_id (reply_dialog e pause c) (db_conversations s),
                 db_reply_plans := db_reply_plans s @ (case p of None \<Rightarrow> [] | Some r \<Rightarrow> [r]) \<rparr>"
    and "p \<noteq> None \<Longrightarrow> \<forall>x \<in> set (db_reply_plans s). p_id x \<noteq> en_plan_id e \<and>
           (p_conversation_id x, p_context_version x) \<noteq> (c_id c, c_context_version c)"
proof -
  let ?goal = "c' = reply_dialog e pause c \<and> p = scheduled_reply e pause ev (i_id m) c \<and>
    s' = s \<lparr> db_conversations := sql_put c_id (reply_dialog e pause c) (db_conversations s),
             db_reply_plans := db_reply_plans s @ (case p of None \<Rightarrow> [] | Some r \<Rightarrow> [r]) \<rparr> \<and>
    (p \<noteq> None \<longrightarrow> (\<forall>x \<in> set (db_reply_plans s). p_id x \<noteq> en_plan_id e \<and>
           (p_conversation_id x, p_context_version x) \<noteq> (c_id c, c_context_version c)))"
  consider (bot) "conversation_allows_automatic_reply c" | (human) "c_status c = HANDOFF"
    | (closed) "\<not> conversation_allows_automatic_reply c" "c_status c \<noteq> HANDOFF"
    by blast
  then have ?goal
  proof cases
    case bot
    then obtain plan t where cr: "create_client_reply_plan (en_plan_id e) (en_now e) (c_id c) (c_context_version c)
        (en_plan_correlation e) (client_reply_plan_payload (i_id m) (ev_booking ev) False) BOT_RESPONSE_DELAY_MS
        REPLY_PLAN_DEFAULT_MAX_ATTEMPTS None (c_manager_epoch c) (c_current_event_seq c) (db_reply_plans s) = Inr (plan, t)"
      and rest: "p = Some plan" "c' = c \<lparr> c_active_reply_plan_id := Some (p_id plan) \<rparr>"
        "s' = s \<lparr> db_reply_plans := t, db_conversations := sql_put c_id c' (db_conversations s) \<rparr>"
      using assms(1,2) by (auto simp: plan_reply_def session_simps set_active_reply_plan_current)
    show ?thesis
      using create_plan_Inr [OF cr] rest bot
      by (simp add: reply_dialog_def scheduled_reply_def plan_new_row_def)
  next
    case human
    note hs = handoff_states [OF assms(3) human]
    obtain d where d: "c_handoff_deadline_at (paused_dialog e pause c) = Some d"
      by (rule paused_dialog_deadline [OF assms(3) human])
    have pd: "conv_deadline (paused_dialog e pause c) = d" by (simp add: conv_deadline_def d)
    have pause: "enter_or_continue_human_pause c (en_now e) pause (db_conversations s) =
      Inr ((paused_dialog e pause c, c_handoff_state c = HUMAN_ACTIVE),
           sql_put c_id (paused_dialog e pause c) (db_conversations s))"
      using enter_pause_current [OF assms(2,4)] assms(2)
      by (auto simp: paused_dialog_def conv_current_def sql_put_same)
    have cur: "conv_current (paused_dialog e pause c) (sql_put c_id (paused_dialog e pause c) (db_conversations s))"
      by (rule conv_current_put [OF assms(2)]) simp
    obtain plan t where cr: "create_client_reply_plan (en_plan_id e) (en_now e) (c_id c) (c_context_version c)
        (en_plan_correlation e) (client_reply_plan_payload (i_id m) (ev_booking ev) True) 0
        REPLY_PLAN_DEFAULT_MAX_ATTEMPTS (Some d) (c_manager_epoch c) (c_current_event_seq c) (db_reply_plans s) = Inr (plan, t)"
      and rest: "p = Some plan" "c' = (paused_dialog e pause c) \<lparr> c_active_reply_plan_id := Some (p_id plan) \<rparr>"
        "s' = s \<lparr> db_conversations := sql_put c_id c' (db_conversations s), db_reply_plans := t \<rparr>"
      using assms(1) hs human pause d cur
      by (auto simp: plan_reply_def session_simps set_active_reply_plan_current sql_put_put)
    show ?thesis
      using create_plan_Inr [OF cr] rest human hs pd
      by (simp add: reply_dialog_def scheduled_reply_def plan_new_row_def)
  next
    case closed
    with assms(1,2) show ?thesis
      by (auto simp: plan_reply_def reply_dialog_def scheduled_reply_def session_simps set_active_reply_plan_current)
  qed
  then show "c' = reply_dialog e pause c" and "p = scheduled_reply e pause ev (i_id m) c"
    and "s' = s \<lparr> db_conversations := sql_put c_id (reply_dialog e pause c) (db_conversations s),
                 db_reply_plans := db_reply_plans s @ (case p of None \<Rightarrow> [] | Some r \<Rightarrow> [r]) \<rparr>"
    and "p \<noteq> None \<Longrightarrow> \<forall>x \<in> set (db_reply_plans s). p_id x \<noteq> en_plan_id e \<and>
           (p_conversation_id x, p_context_version x) \<noteq> (c_id c, c_context_version c)"
    by blast+
qed

text \<open>The offer step touches the offers or the pending commands, nothing else.\<close>

lemma settle_offer_Inr:
  assumes "settle_offer e pii ev c s = Inr (u, s')"
  obtains offers pendings where "s' = s \<lparr> db_offers := offers, db_create_pendings := pendings \<rparr>"
    and "preserves_active_offer ev \<Longrightarrow> offers = db_offers s"
    and "\<not> preserves_active_offer ev \<Longrightarrow>
           offers = snd (offer_invalidate (c_id c) (db_offers s)) \<and> pendings = db_create_pendings s"
proof (cases "preserves_active_offer ev")
  case False
  with assms show ?thesis
    by (intro that [of "db_create_pendings s" "snd (offer_invalidate (c_id c) (db_offers s))"])
      (auto simp: settle_offer_def session_simps)
next
  case True
  with assms show ?thesis
    by (cases "ev_action ev"; cases pii)
      (auto simp: settle_offer_def admit_confirm_selected_slot_def session_simps preserves_active_offer_def
        intro: that [of "db_create_pendings s" "db_offers s"] that [of _ "db_offers s"])
qed

definition inbound_dialog :: "env \<Rightarrow> int \<Rightarrow> moment \<Rightarrow> conversation \<Rightarrow> conversation" where
  "inbound_dialog e pause received_at c = reply_dialog e pause (conv_bump_row received_at (conv_seq_row c))"

definition inbound_plan :: "env \<Rightarrow> int \<Rightarrow> inbound_event \<Rightarrow> conversation \<Rightarrow> reply_plan option" where
  "inbound_plan e pause ev c =
     scheduled_reply e pause ev (en_inbox_id e) (conv_bump_row (received_at_utc e ev) (conv_seq_row c))"

lemma conv_base_simps [simp]:
  "c_id (conv_bump_row m (conv_seq_row c)) = c_id c"
  "c_status (conv_bump_row m (conv_seq_row c)) = c_status c"
  "c_handoff_state (conv_bump_row m (conv_seq_row c)) = c_handoff_state c"
  "c_context_version (conv_bump_row m (conv_seq_row c)) = c_context_version c + 1"
  "c_manager_epoch (conv_bump_row m (conv_seq_row c)) = c_manager_epoch c"
  "c_current_event_seq (conv_bump_row m (conv_seq_row c)) = c_current_event_seq c + 1"
  "conversation_allows_automatic_reply (conv_bump_row m (conv_seq_row c)) = conversation_allows_automatic_reply c"
  "conversation_ok c \<Longrightarrow> conversation_ok (conv_bump_row m (conv_seq_row c))"
  using conv_step_ok [OF conv_step.bump [of "conv_seq_row c" m]] conv_step_ok [OF conv_step.seq [of c]]
  by (simp_all add: conv_bump_row_def conv_seq_row_def conversation_allows_automatic_reply_def)

lemma advance_dialog_Inr:
  assumes "advance_dialog e pii pause ev m c s = Inr ((c', p), s')" and "conv_current c (db_conversations s)"
    and "conversation_ok c" and "handoff_pause_valid pause"
    and c1_def: "c1 = conv_bump_row (received_at_utc e ev) c"
    and closed_def: "closed = snd (supersede_open_plans (c_id c) ''NEW_CLIENT_MESSAGE'' (db_reply_plans s))"
  obtains offers pendings where "c' = reply_dialog e pause c1" and "p = scheduled_reply e pause ev (i_id m) c1"
    and "s' = s \<lparr> db_conversations := sql_put c_id c' (db_conversations s),
                 db_reply_plans := closed @ (case p of None \<Rightarrow> [] | Some r \<Rightarrow> [r]),
                 db_outbox := snd (cancel_unadmitted_for_conversation (c_id c) (db_outbox s)),
                 db_offers := offers, db_create_pendings := pendings \<rparr>"
    and "preserves_active_offer ev \<Longrightarrow> offers = db_offers s"
    and "\<not> preserves_active_offer ev \<Longrightarrow> offers = snd (offer_invalidate (c_id c) (db_offers s))"
    and "p \<noteq> None \<Longrightarrow> \<forall>x \<in> set closed. p_id x \<noteq> en_plan_id e \<and>
           (p_conversation_id x, p_context_version x) \<noteq> (c_id c, c_context_version c + 1)"
proof -
  have c1: "c_id c1 = c_id c" "c_context_version c1 = c_context_version c + 1"
    by (simp_all add: c1_def conv_bump_row_def)
  let ?t = "sql_put c_id c1 (db_conversations s)"
  let ?s = "s \<lparr> db_conversations := ?t, db_reply_plans := closed,
              db_outbox := snd (cancel_unadmitted_for_conversation (c_id c) (db_outbox s)) \<rparr>"
  have bump: "bump_context_for_new_message c (received_at_utc e ev) (db_conversations s) = Inr (c1, ?t)"
    using bump_context_current [OF assms(2)] by (simp add: c1_def)
  have "\<exists>u s2. settle_offer e pii ev c1 ?s = Inr (u, s2) \<and> plan_reply e pause ev m c1 s2 = Inr ((c', p), s')"
    using assms(1) bump c1(1) by (auto simp: advance_dialog_def session_simps closed_def)
  then obtain u s2 where settle: "settle_offer e pii ev c1 ?s = Inr (u, s2)"
    and reply: "plan_reply e pause ev m c1 s2 = Inr ((c', p), s')"
    by blast
  from settle obtain offers pendings where s2: "s2 = ?s \<lparr> db_offers := offers, db_create_pendings := pendings \<rparr>"
    and of: "preserves_active_offer ev \<Longrightarrow> offers = db_offers s"
      "\<not> preserves_active_offer ev \<Longrightarrow> offers = snd (offer_invalidate (c_id c) (db_offers s))"
    using c1(1) by (cases rule: settle_offer_Inr) simp
  have cur: "conv_current c1 (db_conversations s2)"
    using conv_current_put [OF assms(2) c1(1)] by (simp add: s2)
  have ok: "conversation_ok c1"
    using conv_step_ok [OF conv_step.bump [of c]] assms(3) by (simp add: c1_def)
  note r = plan_reply_Inr [OF reply cur ok assms(4)]
  have put: "sql_put c_id (reply_dialog e pause c1) ?t = sql_put c_id (reply_dialog e pause c1) (db_conversations s)"
    by (rule sql_put_put) simp
  show thesis
    by (rule that [of pendings offers]) (use r of put c1 in \<open>simp_all add: s2\<close>)
qed

lemma plans_closed_keys:
  assumes "\<And>r. k (plan_close_row target reason r) = k r"
  shows "map k (sql_update P (plan_close_row target reason) t) = map k t"
  by (rule map_sql_update) (rule assms)

lemma map_eq_ball: "map k t' = map k t \<Longrightarrow> \<forall>x \<in> set t'. Q (k x) \<Longrightarrow> \<forall>x \<in> set t. Q (k x)"
  by (induction t' arbitrary: t) (auto simp: Cons_eq_map_conv)

lemma superseded_keys:
  assumes "\<forall>x \<in> set (snd (supersede_open_plans cid reason t)). p_id x \<noteq> i \<and> (p_conversation_id x, p_context_version x) \<noteq> k"
    and "t = t'"
  shows "\<forall>x \<in> set t'. p_id x \<noteq> i \<and> (p_conversation_id x, p_context_version x) \<noteq> k"
proof -
  let ?k = "\<lambda>x. (p_id x, p_conversation_id x, p_context_version x)"
  have "map ?k (snd (supersede_open_plans cid reason t)) = map ?k t"
    unfolding supersede_open_plans_def Let_def snd_conv by (rule plans_closed_keys) (simp add: plan_close_row_def)
  from map_eq_ball [OF this, of "\<lambda>(a, b). a \<noteq> i \<and> b \<noteq> k"] assms show ?thesis by simp
qed

text \<open>A committed \<open>accept\<close>: a message that was already stored, or a new one.\<close>

lemma accept_cases:
  assumes "accept e pii pause ev s = Inr (res, s')" and "distinct (map c_id (db_conversations s))"
    and "\<forall>c \<in> set (db_conversations s). conversation_ok c"
    and "\<forall>m \<in> set (db_inbox s). i_conversation_id m \<in> c_id ` set (db_conversations s)"
    and ch_def: "ch = Channel_SYNTHETIC"
  obtains (duplicate) c m outbox where "conv_get_by_channel_external ch (ev_external_conversation_id ev) (db_conversations s) = Some c"
      and "get_inbox_by_external ch (ev_external_message_id ev) (db_inbox s) = Some m" and "i_conversation_id m = c_id c"
      and "create_internal_draft_outbox (en_outbox_id e) (en_now e) (c_id c) (i_id m) (internal_draft_payload ev m c) (db_outbox s) =
             Inr ((ir_outbox res, ir_created_outbox res), outbox)"
      and "s' = s \<lparr> db_outbox := outbox \<rparr>"
      and "ir_duplicate res" and "ir_conversation res = c" and "ir_reply_plan res = None"
    | (stored) c created t m offers pendings outbox mirror projections p where
      "conv_get_or_create (en_conversation_id e) (en_now e) ch (ev_external_conversation_id ev) (db_conversations s) = Inr ((c, created), t)"
      and "conv_current c t" and "conversation_ok c"
      and "get_inbox_by_external ch (ev_external_message_id ev) (db_inbox s) = None"
      and "m = inbox_new_row (en_inbox_id e) (en_now e) (c_id c) ch (ev_external_message_id ev)
                 (c_current_event_seq c + 1) (safe_payload ev) (received_at_utc e ev)"
      and "p = inbound_plan e pause ev c"
      and "s' = s \<lparr> db_conversations := sql_put c_id (inbound_dialog e pause (received_at_utc e ev) c) t,
                   db_inbox := db_inbox s @ [m],
                   db_reply_plans := snd (supersede_open_plans (c_id c) ''NEW_CLIENT_MESSAGE'' (db_reply_plans s))
                                       @ (case p of None \<Rightarrow> [] | Some r \<Rightarrow> [r]),
                   db_outbox := outbox, db_mirror := mirror, db_projections := projections,
                   db_offers := offers, db_create_pendings := pendings \<rparr>"
      and "preserves_active_offer ev \<Longrightarrow> offers = db_offers s"
      and "\<not> preserves_active_offer ev \<Longrightarrow> offers = snd (offer_invalidate (c_id c) (db_offers s))"
      and "p \<noteq> None \<Longrightarrow> \<forall>x \<in> set (db_reply_plans s). p_id x \<noteq> en_plan_id e \<and>
             (p_conversation_id x, p_context_version x) \<noteq> (c_id c, c_context_version c + 1)"
      and "create_internal_draft_outbox (en_outbox_id e) (en_now e) (c_id c) (en_inbox_id e)
             (internal_draft_payload ev m (inbound_dialog e pause (received_at_utc e ev) c))
             (snd (cancel_unadmitted_for_conversation (c_id c) (db_outbox s))) =
             Inr ((ir_outbox res, ir_created_outbox res), outbox)"
      and "\<not> ir_duplicate res" and "ir_conversation res = inbound_dialog e pause (received_at_utc e ev) c"
      and "ir_reply_plan res = p"
proof -
  have pv: "handoff_pause_valid pause" and chan: "ev_channel ev = ''synthetic''"
    using assms(1) by (auto simp: accept_def session_simps split: if_splits)
  obtain c created s1 c1 m ci s2 c2 p s3 ob co ob' s4 where
    opn: "open_dialog e ch (ev_external_conversation_id ev) s = Inr ((c, created), s1)"
    and store: "store_inbox e ch (ev_external_message_id ev) (safe_payload ev) (received_at_utc e ev) c s1 =
        Inr ((c1, m, ci), s2)"
    and adv: "(if ci then advance_dialog e pii pause ev m c1 else db_return (c1, None)) s2 = Inr ((c2, p), s3)"
    and draft: "create_internal_draft_outbox (en_outbox_id e) (en_now e) (c_id c2) (i_id m) (internal_draft_payload ev m c2)
        (db_outbox s3) = Inr ((ob, co), ob')"
    and ann: "(if ci then announce_client_message e m c2 else db_return ()) (s3 \<lparr> db_outbox := ob' \<rparr>) = Inr ((), s4)"
    and res: "s' = s4" "ir_duplicate res = (\<not> ci)" "ir_conversation res = c2" "ir_reply_plan res = p"
      "ir_outbox res = ob" "ir_created_outbox res = co"
    using assms(1) pv chan
    by (auto simp: accept_def session_simps ch_def split: prod.splits)
  from opn obtain t where gc: "conv_get_or_create (en_conversation_id e) (en_now e) ch (ev_external_conversation_id ev)
        (db_conversations s) = Inr ((c, created), t)"
    and s1: "s1 = s \<lparr> db_conversations := t \<rparr>" and cur: "conv_current c t"
    using assms(2) by (rule open_dialog_Inr)
  have ok: "conversation_ok c"
    using conv_get_or_create_Inr(2) [OF gc assms(2)] cur assms(3) conv_new_row_ok by (auto simp: conv_current_def)
  have cur1: "conv_current c (db_conversations s1)"
    using cur by (simp add: s1)
  from store cur1 show thesis
  proof (cases rule: store_inbox_Inr)
    case old
    have "m \<in> set (db_inbox s)"
      using old(4) by (auto simp: s1 get_inbox_by_external_def dest: sql_one_Some)
    then have "c_id c \<in> c_id ` set (db_conversations s)"
      using assms(4) old(5) by metis
    then have nc: "\<not> created" and t: "t = db_conversations s"
      using conv_get_or_create_Inr(2) [OF gc assms(2)]
      by (auto simp: conv_get_by_id_for_update_def sql_one_None conv_new_row_def)
    have found: "conv_get_by_channel_external ch (ev_external_conversation_id ev) (db_conversations s) = Some c"
      using gc nc by (auto simp: conv_get_or_create_def Let_def split: option.splits if_splits)
    show thesis
      by (rule duplicate [OF found, of m ob'])
        (use old adv draft ann res t in \<open>simp_all add: s1 session_simps\<close>)
  next
    case new
    let ?c1 = "conv_seq_row c"
    have cur2: "conv_current ?c1 (db_conversations s2)"
      using conv_current_put [OF cur, of ?c1] by (simp add: new(5) s1 conv_seq_row_def)
    have ok2: "conversation_ok ?c1"
      using conv_step_ok [OF conv_step.seq ok] .
    have adv': "advance_dialog e pii pause ev m ?c1 s2 = Inr ((c2, p), s3)"
      using adv new(1,2) by simp
    have ids: "c_id ?c1 = c_id c" "c_context_version ?c1 = c_context_version c" "i_id m = en_inbox_id e"
      by (simp_all add: conv_seq_row_def new(4) inbox_new_row_def)
    from advance_dialog_Inr [OF adv' cur2 ok2 pv refl refl]
    obtain offers pendings where c2: "c2 = inbound_dialog e pause (received_at_utc e ev) c" and p: "p = inbound_plan e pause ev c"
      and s3: "s3 = s2 \<lparr> db_conversations := sql_put c_id c2 (db_conversations s2),
                 db_reply_plans := snd (supersede_open_plans (c_id c) ''NEW_CLIENT_MESSAGE'' (db_reply_plans s2))
                   @ (case p of None \<Rightarrow> [] | Some r \<Rightarrow> [r]),
                 db_outbox := snd (cancel_unadmitted_for_conversation (c_id c) (db_outbox s2)),
                 db_offers := offers, db_create_pendings := pendings \<rparr>"
      and of: "preserves_active_offer ev \<Longrightarrow> offers = db_offers s2"
        "\<not> preserves_active_offer ev \<Longrightarrow> offers = snd (offer_invalidate (c_id c) (db_offers s2))"
      and fresh: "p \<noteq> None \<Longrightarrow> \<forall>x \<in> set (snd (supersede_open_plans (c_id c) ''NEW_CLIENT_MESSAGE'' (db_reply_plans s2))).
           p_id x \<noteq> en_plan_id e \<and> (p_conversation_id x, p_context_version x) \<noteq> (c_id c, c_context_version c + 1)"
      unfolding ids inbound_dialog_def inbound_plan_def by metis
    have idc2: "c_id c2 = c_id c"
      by (simp add: c2 inbound_dialog_def)
    have put: "sql_put c_id c2 (sql_put c_id ?c1 t) = sql_put c_id c2 t"
      by (rule sql_put_put) (simp add: idc2 ids)
    have fresh': "\<forall>x \<in> set (db_reply_plans s). p_id x \<noteq> en_plan_id e \<and>
        (p_conversation_id x, p_context_version x) \<noteq> (c_id c, c_context_version c + 1)" if "p \<noteq> None"
      using fresh [OF that] by (rule superseded_keys) (simp add: new(5) s1)
    obtain mirror projections where s4: "s4 = s3 \<lparr> db_outbox := ob', db_mirror := mirror, db_projections := projections \<rparr>"
      using ann new(1) by (auto simp: announce_client_message_def session_simps)
    show thesis
      by (rule stored [OF gc cur ok _ _ p, of m pendings offers projections mirror ob'])
        (use new draft res s3 s4 of fresh' put idc2 c2 ids in \<open>simp_all add: s1\<close>)
  qed
qed

end
