(* ===== verification/Manager.thy ===== *)
theory Manager
  imports Inbound Vk_Provenance
begin

text \<open>
  Manager activity (services/manager_messages.py, services/takeover.py,
  services/vk_client_message_reply.py): a manager message, a takeover and a reply that somebody else
  wrote in the VK dialog all take the dialog from the bot. Each is one session under the lock of the
  dialog row: classify the event by its provider sequence, move the dialog, cancel the open reply
  plans and the unadmitted outbound of the dialog, and mirror the takeover.
\<close>

section \<open>Manager messages\<close>

datatype ManagerEventClassification = Mgr_CHRONOLOGICALLY_NEW | Mgr_EVENT_STALE | Mgr_EVENT_QUARANTINED

definition classify_manager_sequence :: "int option \<Rightarrow> int option \<Rightarrow> ManagerEventClassification" where
  "classify_manager_sequence current_hwm provider_sequence =
     (case provider_sequence of
        None \<Rightarrow> Mgr_EVENT_QUARANTINED
      | Some n \<Rightarrow>
          if (case current_hwm of None \<Rightarrow> True | Some h \<Rightarrow> n > h) then Mgr_CHRONOLOGICALLY_NEW
          else Mgr_EVENT_STALE)"

record manager_event =
  me_channel :: string
  me_external_conversation_id :: string
  me_external_message_id :: string
  me_provider_sequence :: "int option"
  me_provider_occurred_at :: "moment option"
  me_text :: string

record manager_result =
  mr_conversation_id :: uuid
  mr_manager_message_id :: uuid
  mr_status :: ManagerMessageStatus
  mr_duplicate :: bool
  mr_fsm_changed :: bool
  mr_entered_from_bot :: bool
  mr_cancelled_plans :: nat
  mr_cancelled_outbound :: nat
  mr_context_version :: int
  mr_manager_epoch :: int
  mr_event_seq_hwm :: int
  mr_manager_sequence_hwm :: "int option"

definition manager_result_of ::
  "conversation \<Rightarrow> manager_message \<Rightarrow> bool \<Rightarrow> bool \<Rightarrow> bool \<Rightarrow> nat \<Rightarrow> nat \<Rightarrow> manager_result" where
  "manager_result_of c m duplicate fsm_changed entered_from_bot cancelled_plans cancelled_outbound =
     \<lparr> mr_conversation_id = c_id c, mr_manager_message_id = mm_id m, mr_status = mm_status m,
       mr_duplicate = duplicate, mr_fsm_changed = fsm_changed, mr_entered_from_bot = entered_from_bot,
       mr_cancelled_plans = cancelled_plans, mr_cancelled_outbound = cancelled_outbound,
       mr_context_version = c_context_version c, mr_manager_epoch = c_manager_epoch c,
       mr_event_seq_hwm = c_current_event_seq c, mr_manager_sequence_hwm = c_manager_sequence_hwm c \<rparr>"

text \<open>The dialog: bound by its id (an amoCRM binding), or found or created by its external id.\<close>

definition manager_dialog :: "env \<Rightarrow> uuid option \<Rightarrow> string \<Rightarrow> conversation session" where
  "manager_dialog e bound ext =
     (case bound of
        Some cid \<Rightarrow>
          db_bind (lock_dialog cid) (\<lambda>c.
            if c_channel c \<noteq> Channel_SYNTHETIC
            then db_raise (RuntimeError ''BINDING_CONVERSATION_CHANNEL_MISMATCH'')
            else if c_external_conversation_id c \<noteq> ext
            then db_raise (RuntimeError ''BINDING_CONVERSATION_EXTERNAL_ID_MISMATCH'')
            else db_return c)
      | None \<Rightarrow> db_bind (open_dialog e Channel_SYNTHETIC ext) (\<lambda>(c, _). db_return c))"

text \<open>What every takeover does after the dialog row moved.\<close>

definition silence_bot :: "env \<Rightarrow> uuid \<Rightarrow> string \<Rightarrow> bool \<Rightarrow> (nat \<times> nat) session" where
  "silence_bot e cid reason entered_from_bot =
     db_bind (with_reply_plans (cancel_open_plans_for_takeover cid reason)) (\<lambda>cancelled.
     db_bind (with_outbox (cancel_unadmitted_for_manager_message cid)) (\<lambda>cancelled_outbound.
     db_bind (if entered_from_bot
              then db_bind (on_mirror (enqueue_manager_takeover (en_mirror_id e) (en_now e) cid
                              (en_mirror_correlation e))) (\<lambda>_. db_return ())
              else db_return ()) (\<lambda>_.
     db_return (cancelled, cancelled_outbound))))"

definition apply_new_manager_message ::
  "env \<Rightarrow> int \<Rightarrow> conversation \<Rightarrow> manager_message \<Rightarrow> int \<Rightarrow> manager_result session" where
  "apply_new_manager_message e pause c m provider_sequence =
     db_bind (on_conversations (allocate_next_event_seq c)) (\<lambda>c1.
     db_bind (on_manager_messages (mark_applied m (c_current_event_seq c1))) (\<lambda>m1.
     db_bind (on_dialog (apply_chronologically_new_manager_message (en_ops_event_id e) (en_now e) c1
                provider_sequence (en_now e) pause)) (\<lambda>(c2, entered_from_bot).
     db_bind (silence_bot e (c_id c2) ''MANAGER_MESSAGE'' entered_from_bot) (\<lambda>(cancelled, cancelled_outbound).
     db_return (manager_result_of c2 m1 False True entered_from_bot cancelled cancelled_outbound)))))"

text \<open>The branches after the message row is reserved.\<close>

definition settle_manager_message ::
  "env \<Rightarrow> int \<Rightarrow> manager_event \<Rightarrow> conversation \<Rightarrow> manager_message \<Rightarrow> bool \<Rightarrow> manager_result session" where
  "settle_manager_message e pause ev c m created =
     (if mm_conversation_id m \<noteq> c_id c
      then db_raise (RuntimeError ''MANAGER_MESSAGE_CONVERSATION_MISMATCH'')
      else if \<not> created then db_return (manager_result_of c m True False False 0 0)
      else if c_status c = CLOSED
      then db_bind (on_manager_messages
                     (manager_flush (m \<lparr> mm_classification_reason := Some ''CONVERSATION_CLOSED'' \<rparr>))) (\<lambda>m1.
           db_return (manager_result_of c m1 False False False 0 0))
      else (case classify_manager_sequence (c_manager_sequence_hwm c) (me_provider_sequence ev) of
        Mgr_EVENT_QUARANTINED \<Rightarrow>
          db_bind (on_manager_messages
                    (manager_flush (m \<lparr> mm_classification_reason := Some ''MISSING_PROVIDER_SEQUENCE'' \<rparr>))) (\<lambda>m1.
          db_return (manager_result_of c m1 False False False 0 0))
      | Mgr_EVENT_STALE \<Rightarrow>
          db_bind (on_manager_messages (mark_stale m ''PROVIDER_SEQUENCE_NOT_NEWER'')) (\<lambda>m1.
          db_return (manager_result_of c m1 False False False 0 0))
      | Mgr_CHRONOLOGICALLY_NEW \<Rightarrow>
          (case me_provider_sequence ev of
             None \<Rightarrow> db_raise (RuntimeError ''MANAGER_SEQUENCE_CLASSIFICATION_BROKEN'')
           | Some n \<Rightarrow> apply_new_manager_message e pause c m n)))"

definition apply_manager_message_in_session ::
  "env \<Rightarrow> int \<Rightarrow> uuid option \<Rightarrow> manager_event \<Rightarrow> manager_result session" where
  "apply_manager_message_in_session e pause bound ev =
     (if me_channel ev \<noteq> ''synthetic'' then db_raise (ValueError ''UNSUPPORTED_CHANNEL'')
      else
        db_bind (manager_dialog e bound (me_external_conversation_id ev)) (\<lambda>c.
        db_bind (on_manager_messages (insert_quarantined_if_absent (en_manager_message_id e) (en_now e) (c_id c)
                   Channel_SYNTHETIC (me_external_message_id ev) (me_provider_sequence ev)
                   (me_provider_occurred_at ev) (me_text ev) ''CLASSIFICATION_PENDING'')) (\<lambda>(m, created).
        settle_manager_message e pause ev c m created)))"

section \<open>Takeover\<close>

definition apply_manager_takeover_in_session ::
  "env \<Rightarrow> uuid \<Rightarrow> (conversation \<times> nat \<times> bool) session" where
  "apply_manager_takeover_in_session e cid =
     db_bind (on_conversations (apply_manager_takeover cid (en_now e))) (\<lambda>(c, changed).
     db_bind (with_reply_plans (cancel_open_plans_for_takeover cid ''MANAGER_TAKEOVER'')) (\<lambda>cancelled.
     db_bind (if changed
              then db_bind (with_outbox (cancel_unadmitted_for_conversation (c_id c))) (\<lambda>_.
                   db_bind (on_mirror (enqueue_manager_takeover (en_mirror_id e) (en_now e) (c_id c)
                              (en_mirror_correlation e))) (\<lambda>_.
                   db_return ()))
              else db_return ()) (\<lambda>_.
     db_return (c, cancelled, changed))))"

section \<open>Replies written in the VK dialog\<close>

datatype VkClientReplyClassification =
    Reply_OWN_TEYA_ECHO
  | Reply_EXTERNAL_ACTOR
  | Reply_OWN_ECHO_RACE_RETRY
  | Reply_FEATURE_OFF
  | Reply_UNRESOLVED_CONVERSATION
  | Reply_CONVERSATION_CLOSED
  | Reply_STALE

record vk_reply_envelope =
  ve_external_conversation_id :: string
  ve_provider_message_id :: int
  ve_conversation_message_id :: int
  ve_provenance :: json

record vk_reply_result =
  vx_classification :: VkClientReplyClassification
  vx_conversation_id :: "uuid option"
  vx_fsm_changed :: bool
  vx_cancelled_plans :: nat
  vx_cancelled_outbound :: nat

definition vk_reply_ignored :: "VkClientReplyClassification \<Rightarrow> uuid option \<Rightarrow> vk_reply_result" where
  "vk_reply_ignored cls cid =
     \<lparr> vx_classification = cls, vx_conversation_id = cid, vx_fsm_changed = False, vx_cancelled_plans = 0,
       vx_cancelled_outbound = 0 \<rparr>"

definition classify_own_echo ::
  "(string \<Rightarrow> string \<Rightarrow> string) \<Rightarrow> string option \<Rightarrow> conversation \<Rightarrow> int \<Rightarrow> provenance \<Rightarrow> outbox_message list
     \<Rightarrow> VkClientReplyClassification" where
  "classify_own_echo hmac provenance_key c provider_message_id provenance t =
     (case pv_kind provenance of
        Prov_FOREIGN \<Rightarrow> Reply_EXTERNAL_ACTOR
      | Prov_BOT_TV_CANDIDATE \<Rightarrow>
          (case provenance_key of
             None \<Rightarrow> Reply_EXTERNAL_ACTOR
           | Some key \<Rightarrow>
               if key = [] then Reply_EXTERNAL_ACTOR
               else case verify_vk_outbound_provenance_technical hmac provenance key of
                 None \<Rightarrow> Reply_EXTERNAL_ACTOR
               | Some outbound_id \<Rightarrow>
                   (case find_vk_outbound_by_id (c_id c) outbound_id t of
                      None \<Rightarrow> Reply_EXTERNAL_ACTOR
                    | Some row \<Rightarrow>
                        (case o_provider_message_id row of
                           Some n \<Rightarrow>
                             if n = provider_message_id then Reply_OWN_TEYA_ECHO else Reply_EXTERNAL_ACTOR
                         | None \<Rightarrow>
                             if o_delivery_status row = Out_ADMITTED then Reply_OWN_ECHO_RACE_RETRY
                             else Reply_EXTERNAL_ACTOR)))
      | Prov_ABSENT \<Rightarrow>
          if find_vk_outbound_by_provider_message_id (c_id c) provider_message_id t \<noteq> None
          then Reply_OWN_TEYA_ECHO
          else if has_admitted_vk_outbound_without_provider_id (c_id c) t then Reply_OWN_ECHO_RACE_RETRY
          else Reply_EXTERNAL_ACTOR)"

definition apply_vk_client_message_reply_in_session ::
  "env \<Rightarrow> (string \<Rightarrow> string \<Rightarrow> string) \<Rightarrow> external_takeover_config \<Rightarrow> int \<Rightarrow> vk_reply_envelope
     \<Rightarrow> vk_reply_result session" where
  "apply_vk_client_message_reply_in_session e hmac cfg pause env =
     (if ve_external_conversation_id env = [] \<or> ve_provider_message_id env \<le> 0 \<or>
         ve_conversation_message_id env \<le> 0 \<or> from_envelope_fragment (ve_provenance env) = None
      then db_raise (ValueError ''VK_CLIENT_REPLY_ENVELOPE_INVALID'')
      else if \<not> fsm_mutation_allowed cfg (ve_external_conversation_id env)
      then db_return (vk_reply_ignored Reply_FEATURE_OFF None)
      else
        db_bind (db_read (\<lambda>s. conv_get_by_channel_external Channel_VK (ve_external_conversation_id env)
                            (db_conversations s))) (\<lambda>found.
        (case found of
           None \<Rightarrow> db_return (vk_reply_ignored Reply_UNRESOLVED_CONVERSATION None)
         | Some c0 \<Rightarrow>
             db_bind (lock_dialog (c_id c0)) (\<lambda>c.
             db_bind (db_read (\<lambda>s. classify_own_echo hmac (xt_provenance_key cfg) c (ve_provider_message_id env)
                                (the (from_envelope_fragment (ve_provenance env))) (db_outbox s))) (\<lambda>own.
             if own = Reply_OWN_ECHO_RACE_RETRY
             then db_raise (VkClientMessageReplyOwnEchoRace ''VK_CLIENT_OWN_ECHO_RACE'')
             else if own = Reply_OWN_TEYA_ECHO
             then db_return (vk_reply_ignored Reply_OWN_TEYA_ECHO (Some (c_id c)))
             else if c_status c = CLOSED
             then db_return (vk_reply_ignored Reply_CONVERSATION_CLOSED (Some (c_id c)))
             else if classify_manager_sequence (c_vk_client_external_reply_hwm c)
                       (Some (ve_conversation_message_id env)) \<noteq> Mgr_CHRONOLOGICALLY_NEW
             then db_return (vk_reply_ignored Reply_STALE (Some (c_id c)))
             else
               db_bind (on_dialog (apply_chronologically_new_vk_external_reply (en_ops_event_id e) (en_now e) c
                          (ve_conversation_message_id env) (en_now e) pause)) (\<lambda>(c1, entered_from_bot).
               db_bind (silence_bot e (c_id c1) ''VK_CLIENT_EXTERNAL_REPLY'' entered_from_bot)
                 (\<lambda>(cancelled, cancelled_outbound).
               db_return \<lparr> vx_classification = Reply_EXTERNAL_ACTOR, vx_conversation_id = Some (c_id c1),
                           vx_fsm_changed = True, vx_cancelled_plans = cancelled,
                           vx_cancelled_outbound = cancelled_outbound \<rparr>)))))))"

section \<open>What a committed session did\<close>

text \<open>The tables after the bot was silenced: open plans and unadmitted outbound of the dialog are closed.\<close>

definition silenced :: "uuid \<Rightarrow> string \<Rightarrow> mirror_job list \<Rightarrow> db \<Rightarrow> db" where
  "silenced cid reason mirror s =
     s \<lparr> db_reply_plans := snd (cancel_open_plans_for_takeover cid reason (db_reply_plans s)),
         db_outbox := snd (cancel_unadmitted_for_conversation cid (db_outbox s)), db_mirror := mirror \<rparr>"

lemma silence_bot_Inr:
  assumes "silence_bot e cid reason entered s = Inr (r, s')"
  obtains mirror where "s' = silenced cid reason mirror s" and "\<not> entered \<Longrightarrow> mirror = db_mirror s"
proof (cases entered)
  case False
  with assms show ?thesis
    by (intro that [of "db_mirror s"])
      (auto simp: silence_bot_def session_simps silenced_def cancel_unadmitted_for_manager_message_def)
next
  case True
  with assms show ?thesis
    by (auto simp: silence_bot_def session_simps silenced_def cancel_unadmitted_for_manager_message_def intro!: that)
qed

lemma insert_quarantined_cases:
  assumes "insert_quarantined_if_absent i now cid ch ext n oc body reason t = Inr ((m, created), t')"
  obtains (old) "\<not> created" and "t' = t" and "manager_get_by_external ch ext t = Some m"
    | (new) "created" and "t' = t @ [m]" and "m = manager_new_row i now cid ch ext n oc body reason"
      and "manager_get_by_external ch ext t = None" and "\<forall>x \<in> set t. mm_id x \<noteq> i" and "ck_manager_messages m"
proof (cases "manager_get_by_external ch ext t")
  case (Some x)
  with assms show ?thesis by (intro old) (auto simp: insert_quarantined_if_absent_def)
next
  case None
  let ?r = "manager_new_row i now cid ch ext n oc body reason"
  have "manager_get_by_external ch ext (t @ [?r]) = Some ?r"
    using None by (simp add: manager_get_by_external_def sql_one_append manager_new_row_def)
  with assms None show ?thesis
    by (intro new) (auto simp: insert_quarantined_if_absent_def sql_one_None Let_def split: if_splits)
qed

lemma manager_flush_Inr:
  "manager_flush m t = Inr (m', t') \<Longrightarrow> m' = m \<and> t' = sql_put mm_id m t \<and> ck_manager_messages m"
  by (auto simp: manager_flush_def split: if_splits)

lemma classify_new_iff:
  "classify_manager_sequence h (Some n) = Mgr_CHRONOLOGICALLY_NEW \<longleftrightarrow> (case h of None \<Rightarrow> True | Some k \<Rightarrow> k < n)"
  by (auto simp: classify_manager_sequence_def split: option.splits)

lemma append_ops_event_fresh:
  "append_conversation_ops_event i now c ty r p ops = Inr x \<Longrightarrow> ops_fresh i ops"
  by (auto simp: append_conversation_ops_event_def ops_fresh_def Let_def split: if_splits)

lemma clear_quarantine_fresh:
  assumes "clear_active_handoff_quarantine_for_manager_message i now c m t ops = Inr x"
    and "handoff_expiry_quarantine_is_active c"
  shows "ops_fresh i ops"
  using assms append_ops_event_fresh
  by (fastforce simp: clear_active_handoff_quarantine_for_manager_message_def split: option.splits if_splits sum.splits)

lemma manager_message_fresh:
  assumes "apply_chronologically_new_manager_message i now c n m pause t ops = Inr x"
    and "handoff_expiry_quarantine_is_active c"
  shows "ops_fresh i ops"
  using assms clear_quarantine_fresh [OF _ assms(2)]
  by (auto simp: apply_chronologically_new_manager_message_def split: if_splits sum.splits)

lemma vk_reply_fresh:
  assumes "apply_chronologically_new_vk_external_reply i now c n m pause t ops = Inr x"
    and "handoff_expiry_quarantine_is_active c"
  shows "ops_fresh i ops"
  using assms clear_quarantine_fresh [OF _ assms(2)]
  by (auto simp: apply_chronologically_new_vk_external_reply_def split: if_splits sum.splits)

text \<open>The dialog row after a manager message, and after somebody else's reply in the VK dialog.\<close>

definition manager_row :: "env \<Rightarrow> int \<Rightarrow> int \<Rightarrow> conversation \<Rightarrow> conversation" where
  "manager_row e pause n c =
     conv_human_active_row (en_now e) pause (conv_opened (en_now e) (conv_seq_row c)) \<lparr> c_manager_sequence_hwm := Some n \<rparr>"

definition vk_reply_row :: "env \<Rightarrow> int \<Rightarrow> int \<Rightarrow> conversation \<Rightarrow> conversation" where
  "vk_reply_row e pause n c =
     conv_human_active_row (en_now e) pause (conv_opened (en_now e) c) \<lparr> c_vk_client_external_reply_hwm := Some n \<rparr>"

lemma manager_row_simps [simp]:
  "c_id (manager_row e pause n c) = c_id c" "c_id (vk_reply_row e pause n c) = c_id c"
  by (simp_all add: manager_row_def vk_reply_row_def conv_human_active_row_def conv_seq_row_def)

lemma apply_new_manager_message_Inr:
  assumes "apply_new_manager_message e pause c m n s = Inr (res, s')" and "conv_current c (db_conversations s)"
    and "conversation_ok c"
  obtains m1 evs mirror where
    "s' = silenced (c_id c) ''MANAGER_MESSAGE'' mirror
            (s \<lparr> db_conversations := sql_put c_id (manager_row e pause n c) (db_conversations s),
                 db_ops_events := db_ops_events s @ evs,
                 db_manager_messages := sql_put mm_id m1 (db_manager_messages s) \<rparr>)"
    and "m1 = m \<lparr> mm_status := Mgr_APPLIED, mm_conversation_event_seq := Some (c_current_event_seq c + 1),
                  mm_classification_reason := Some ''CHRONOLOGICALLY_NEW'' \<rparr>"
    and "mr_fsm_changed res" and "\<not> mr_duplicate res" and "mr_status res = Mgr_APPLIED" and "mr_conversation_id res = c_id c"
    and "handoff_pause_valid pause" and "mr_entered_from_bot res = (c_handoff_state c = BOT_ACTIVE)"
    and "c_handoff_state c \<noteq> BOT_ACTIVE \<Longrightarrow> mirror = db_mirror s"
proof -
  let ?c1 = "conv_seq_row c" and ?t1 = "sql_put c_id (conv_seq_row c) (db_conversations s)"
  have cur1: "conv_current ?c1 ?t1"
    by (rule conv_current_put [OF assms(2)]) (simp add: conv_seq_row_def)
  have ok1: "conversation_ok ?c1"
    by (rule conv_step_ok [OF conv_step.seq assms(3)])
  obtain m1 tm c2 ent t2 ops2 r s2 where mk: "mark_applied m (c_current_event_seq c + 1) (db_manager_messages s) = Inr (m1, tm)"
    and ap: "apply_chronologically_new_manager_message (en_ops_event_id e) (en_now e) ?c1 n (en_now e) pause ?t1
        (db_ops_events s) = Inr ((c2, ent), t2, ops2)"
    and sil: "silence_bot e (c_id c2) ''MANAGER_MESSAGE'' ent
        (s \<lparr> db_manager_messages := tm, db_conversations := t2, db_ops_events := ops2 \<rparr>) = Inr (r, s')"
    and res: "res = manager_result_of c2 m1 False True ent (fst r) (snd r)"
    using assms(1) allocate_next_event_seq_current [OF assms(2)]
    by (auto simp: apply_new_manager_message_def session_simps conv_seq_row_def)
  have m1: "m1 = m \<lparr> mm_status := Mgr_APPLIED, mm_conversation_event_seq := Some (c_current_event_seq c + 1),
                  mm_classification_reason := Some ''CHRONOLOGICALLY_NEW'' \<rparr>" and tm: "tm = sql_put mm_id m1 (db_manager_messages s)"
    using manager_flush_Inr [OF mk [unfolded mark_applied_def]] by simp_all
  have pv: "handoff_pause_valid pause"
    using ap by (auto simp: apply_chronologically_new_manager_message_def split: if_splits)
  obtain evs where "apply_chronologically_new_manager_message (en_ops_event_id e) (en_now e) ?c1 n (en_now e) pause ?t1
        (db_ops_events s) =
      Inr ((manager_row e pause n c, c_handoff_state ?c1 = BOT_ACTIVE), sql_put c_id (manager_row e pause n c) ?t1,
           db_ops_events s @ evs)"
    using manager_message_current [OF cur1 ok1 pv manager_message_fresh [OF ap] manager_row_def] by blast
  with ap have c2: "c2 = manager_row e pause n c" and ent: "ent = (c_handoff_state c = BOT_ACTIVE)"
    and t2: "t2 = sql_put c_id (manager_row e pause n c) (db_conversations s)" and ops2: "ops2 = db_ops_events s @ evs"
    by (auto simp: conv_seq_row_def sql_put_put)
  from sil obtain mirror where s': "s' = silenced (c_id c2) ''MANAGER_MESSAGE'' mirror
        (s \<lparr> db_manager_messages := tm, db_conversations := t2, db_ops_events := ops2 \<rparr>)" and mir: "\<not> ent \<Longrightarrow> mirror = db_mirror s"
    by (cases rule: silence_bot_Inr) simp
  show thesis
    by (rule that [of mirror m1 evs])
      (use s' mir m1 tm c2 ent t2 ops2 pv res in \<open>simp_all add: silenced_def manager_result_of_def\<close>)
qed

lemma manager_dialog_Inr:
  assumes "manager_dialog e bound ext s = Inr (c, s')" and "distinct (map c_id (db_conversations s))"
  obtains (known) "s' = s" and "conv_current c (db_conversations s)" and "c_channel c = Channel_SYNTHETIC"
    | (created) "s' = s \<lparr> db_conversations := db_conversations s @ [c] \<rparr>"
      and "c = conv_new_row (en_conversation_id e) (en_now e) Channel_SYNTHETIC ext"
      and "conv_get_by_channel_external Channel_SYNTHETIC ext (db_conversations s) = None"
      and "en_conversation_id e \<notin> c_id ` set (db_conversations s)"
proof (cases bound)
  case None
  then obtain cr where "open_dialog e Channel_SYNTHETIC ext s = Inr ((c, cr), s')"
    using assms(1) by (auto simp: manager_dialog_def session_simps)
  then obtain t where gc: "conv_get_or_create (en_conversation_id e) (en_now e) Channel_SYNTHETIC ext (db_conversations s) = Inr ((c, cr), t)"
    and s': "s' = s \<lparr> db_conversations := t \<rparr>" and cur: "conv_current c t"
    using assms(2) by (rule open_dialog_Inr)
  from conv_get_or_create_Inr(2) [OF gc assms(2)] show ?thesis
  proof (elim disjE conjE)
    assume "t = db_conversations s"
    with s' cur conv_get_or_create_Inr(3) [OF gc assms(2)] show ?thesis by (intro known) simp_all
  next
    assume "t = db_conversations s @ [c]" and "c = conv_new_row (en_conversation_id e) (en_now e) Channel_SYNTHETIC ext"
      and "conv_get_by_channel_external Channel_SYNTHETIC ext (db_conversations s) = None"
      and "conv_get_by_id_for_update (en_conversation_id e) (db_conversations s) = None"
    with s' show ?thesis
      by (intro created) (auto simp: conv_get_by_id_for_update_def sql_one_None)
  qed
next
  case (Some cid)
  with assms show ?thesis
    by (intro known) (auto simp: manager_dialog_def session_simps dest: lock_for_update_Inr split: if_splits)
qed

lemma manager_message_cases:
  assumes "apply_manager_message_in_session e pause bound ev s = Inr (res, s')"
    and "distinct (map c_id (db_conversations s))" and "\<forall>c \<in> set (db_conversations s). conversation_ok c"
  obtains (kept) c s1 mms where "manager_dialog e bound (me_external_conversation_id ev) s = Inr (c, s1)"
      and "s' = s1 \<lparr> db_manager_messages := mms \<rparr>" and "\<not> mr_fsm_changed res"
      and "\<forall>x \<in> set mms. x \<in> set (db_manager_messages s) \<or> mm_conversation_event_seq x = None"
      and "mr_duplicate res \<Longrightarrow> mms = db_manager_messages s"
      and "manager_get_by_external Channel_SYNTHETIC (me_external_message_id ev) (db_manager_messages s) = None \<Longrightarrow>
        c_status c = CLOSED \<or>
        classify_manager_sequence (c_manager_sequence_hwm c) (me_provider_sequence ev) \<noteq> Mgr_CHRONOLOGICALLY_NEW"
    | (applied) c s1 m n evs mirror where "manager_dialog e bound (me_external_conversation_id ev) s = Inr (c, s1)"
      and "conv_current c (db_conversations s1)" and "conversation_ok c"
      and "me_provider_sequence ev = Some n" and "case c_manager_sequence_hwm c of None \<Rightarrow> True | Some h \<Rightarrow> h < n"
      and "c_status c \<noteq> CLOSED" and "handoff_pause_valid pause" and "0 \<le> n"
      and "manager_get_by_external Channel_SYNTHETIC (me_external_message_id ev) (db_manager_messages s) = None"
      and "m = (manager_new_row (en_manager_message_id e) (en_now e) (c_id c) Channel_SYNTHETIC (me_external_message_id ev)
                 (Some n) (me_provider_occurred_at ev) (me_text ev) ''CLASSIFICATION_PENDING'')
                 \<lparr> mm_status := Mgr_APPLIED, mm_conversation_event_seq := Some (c_current_event_seq c + 1),
                   mm_classification_reason := Some ''CHRONOLOGICALLY_NEW'' \<rparr>"
      and "s' = silenced (c_id c) ''MANAGER_MESSAGE'' mirror
             (s1 \<lparr> db_conversations := sql_put c_id (manager_row e pause n c) (db_conversations s1),
                  db_ops_events := db_ops_events s @ evs, db_manager_messages := db_manager_messages s @ [m] \<rparr>)"
      and "mr_fsm_changed res" and "mr_conversation_id res = c_id c"
      and "mr_entered_from_bot res = (c_handoff_state c = BOT_ACTIVE)"
proof -
  have chan: "me_channel ev = ''synthetic''"
    using assms(1) by (auto simp: apply_manager_message_in_session_def session_simps split: if_splits)
  obtain c s1 m0 cr tm where dlg: "manager_dialog e bound (me_external_conversation_id ev) s = Inr (c, s1)"
    and ins: "insert_quarantined_if_absent (en_manager_message_id e) (en_now e) (c_id c) Channel_SYNTHETIC
        (me_external_message_id ev) (me_provider_sequence ev) (me_provider_occurred_at ev) (me_text ev)
        ''CLASSIFICATION_PENDING'' (db_manager_messages s1) = Inr ((m0, cr), tm)"
    and settle: "settle_manager_message e pause ev c m0 cr (s1 \<lparr> db_manager_messages := tm \<rparr>) = Inr (res, s')"
    using assms(1) chan by (auto simp: apply_manager_message_in_session_def session_simps)
  note rest = settle [unfolded settle_manager_message_def]
  have s1: "db_manager_messages s1 = db_manager_messages s" "db_ops_events s1 = db_ops_events s" "db_mirror s1 = db_mirror s"
    and cur: "conv_current c (db_conversations s1)" and ok: "conversation_ok c"
  proof -
    show "db_manager_messages s1 = db_manager_messages s" "db_ops_events s1 = db_ops_events s" "db_mirror s1 = db_mirror s"
      using dlg assms(2) by (cases rule: manager_dialog_Inr; simp)+
    show "conv_current c (db_conversations s1)"
      using dlg assms(2)
      by (cases rule: manager_dialog_Inr) (use assms(2) in \<open>auto simp: conv_current_def conv_new_row_def\<close>)
    show "conversation_ok c"
      using dlg assms(2) by (cases rule: manager_dialog_Inr) (use assms(3) conv_new_row_ok in \<open>auto simp: conv_current_def\<close>)
  qed
  from ins show thesis
  proof (cases rule: insert_quarantined_cases)
    case old
    with rest s1 show thesis
      by (intro kept [OF dlg, of "db_manager_messages s"])
        (auto simp: session_simps manager_result_of_def split: if_splits)
  next
    case new
    let ?old = "db_manager_messages s"
    have tm: "tm = ?old @ [m0]" and fresh: "\<forall>x \<in> set ?old. mm_id x \<noteq> en_manager_message_id e"
      using new(2,5) s1 by simp_all
    have m0: "mm_id m0 = en_manager_message_id e" "mm_conversation_event_seq m0 = None" "mm_conversation_id m0 = c_id c"
      "mm_provider_sequence m0 = me_provider_sequence ev"
      by (simp_all add: new(3) manager_new_row_def)
    have put: "sql_put mm_id m1 tm = ?old @ [m1]" if "mm_id m1 = mm_id m0" for m1
      using fresh that m0(1) by (simp add: tm sql_put_def sql_update_def map_idI)
    show thesis
    proof (cases "c_status c \<noteq> CLOSED \<and>
        classify_manager_sequence (c_manager_sequence_hwm c) (me_provider_sequence ev) = Mgr_CHRONOLOGICALLY_NEW")
      case False
      then obtain m1 m2 tm' where fl: "manager_flush m1 tm = Inr (m2, tm')"
        and m1: "mm_id m1 = mm_id m0" "mm_conversation_event_seq m1 = None"
        and res: "s' = s1 \<lparr> db_manager_messages := tm' \<rparr>" "\<not> mr_fsm_changed res" "\<not> mr_duplicate res"
        using rest new(1) m0
        by (auto simp: session_simps mark_stale_def manager_result_of_def
            split: if_splits ManagerEventClassification.splits)
      have s': "s' = s1 \<lparr> db_manager_messages := sql_put mm_id m1 tm \<rparr>"
        using manager_flush_Inr [OF fl] res(1) by simp
      show thesis
        by (rule kept [OF dlg, of "?old @ [m1]"]) (use s' put [OF m1(1)] m1 res False in auto)
    next
      case True
      then obtain n where n: "me_provider_sequence ev = Some n"
        by (cases "me_provider_sequence ev") (auto simp: classify_manager_sequence_def)
      have ap: "apply_new_manager_message e pause c m0 n (s1 \<lparr> db_manager_messages := tm \<rparr>) = Inr (res, s')"
        using rest True n new(1) m0 by simp
      have cur1: "conv_current c (db_conversations (s1 \<lparr> db_manager_messages := tm \<rparr>))"
        using cur by simp
      have pos: "0 \<le> n"
        using new(6) m0 n by (simp add: ck_manager_messages_def)
      have seq: "case c_manager_sequence_hwm c of None \<Rightarrow> True | Some h \<Rightarrow> h < n"
        using True n by (simp add: classify_new_iff)
      from ap cur1 ok show thesis
      proof (cases rule: apply_new_manager_message_Inr)
        case (1 m1 evs mirror)
        have "sql_put mm_id m1 tm = ?old @ [m1]"
          by (rule put) (simp add: 1(2))
        with 1 True n new s1 show thesis
          by (intro applied [OF dlg cur ok n seq _ _ pos, of m1 mirror evs]) (simp_all add: manager_result_of_def)
      qed
    qed
  qed
qed

lemma takeover_cases:
  assumes "apply_manager_takeover_in_session e cid s = Inr ((c', cancelled, changed), s')"
    and "distinct (map c_id (db_conversations s))" and "\<forall>c \<in> set (db_conversations s). conversation_ok c"
  obtains (kept) "\<not> changed" and "conv_current c' (db_conversations s)" and "c_id c' = cid"
      and "c_status c' = CLOSED \<or> c_handoff_state c' = HUMAN_ACTIVE"
      and "s' = s \<lparr> db_reply_plans := snd (cancel_open_plans_for_takeover cid ''MANAGER_TAKEOVER'' (db_reply_plans s)) \<rparr>"
    | (taken) c mirror where "changed" and "conv_current c (db_conversations s)" and "c_id c = cid"
      and "c_status c \<noteq> CLOSED" and "c_handoff_state c \<noteq> HUMAN_ACTIVE" and "c' = conv_takeover_row (en_now e) c"
      and "s' = silenced cid ''MANAGER_TAKEOVER'' mirror
             (s \<lparr> db_conversations := sql_put c_id (conv_takeover_row (en_now e) c) (db_conversations s) \<rparr>)"
proof -
  obtain t where ap: "apply_manager_takeover cid (en_now e) (db_conversations s) = Inr ((c', changed), t)"
    using assms(1) by (auto simp: apply_manager_takeover_in_session_def session_simps)
  then obtain c where lock: "lock_for_update cid (db_conversations s) = Inr c"
    by (auto simp: apply_manager_takeover_def split: sum.splits)
  note cur = lock_for_update_Inr [OF lock assms(2)]
  have ok: "conversation_ok c"
    using cur assms(3) by (simp add: conv_current_def)
  note eq = apply_manager_takeover_current [OF cur [THEN conjunct1] ok, of "en_now e"]
  show thesis
  proof (cases "c_status c = CLOSED \<or> c_handoff_state c = HUMAN_ACTIVE")
    case True
    with eq ap cur have "c' = c" "\<not> changed" "t = db_conversations s" by auto
    with assms(1) ap cur True show thesis
      by (intro kept) (auto simp: apply_manager_takeover_in_session_def session_simps)
  next
    case False
    with eq ap cur have ch: "c' = conv_takeover_row (en_now e) c" "changed" "t = sql_put c_id c' (db_conversations s)"
      "c_id c' = cid"
      by (auto simp: conv_takeover_row_def)
    with assms(1) ap obtain mirror where "s' = silenced cid ''MANAGER_TAKEOVER'' mirror (s \<lparr> db_conversations := t \<rparr>)"
      by (auto simp: apply_manager_takeover_in_session_def session_simps silenced_def)
    with ch cur False show thesis by (intro taken) auto
  qed
qed

lemma vk_reply_cases:
  assumes "apply_vk_client_message_reply_in_session e hmac cfg pause env s = Inr (res, s')"
    and "distinct (map c_id (db_conversations s))" and "\<forall>c \<in> set (db_conversations s). conversation_ok c"
  obtains (kept) "s' = s" and "\<not> vx_fsm_changed res"
    | (external) c evs mirror n where "vx_classification res = Reply_EXTERNAL_ACTOR" and "vx_fsm_changed res"
      and "conv_current c (db_conversations s)" and "conversation_ok c" and "c_status c \<noteq> CLOSED"
      and "c_channel c = Channel_VK" and "c_external_conversation_id c = ve_external_conversation_id env"
      and "n = ve_conversation_message_id env"
      and "case c_vk_client_external_reply_hwm c of None \<Rightarrow> True | Some h \<Rightarrow> h < n" and "0 < n"
      and "handoff_pause_valid pause" and "fsm_mutation_allowed cfg (ve_external_conversation_id env)"
      and "classify_own_echo hmac (xt_provenance_key cfg) c (ve_provider_message_id env)
             (the (from_envelope_fragment (ve_provenance env))) (db_outbox s) = Reply_EXTERNAL_ACTOR"
      and "s' = silenced (c_id c) ''VK_CLIENT_EXTERNAL_REPLY'' mirror
             (s \<lparr> db_conversations := sql_put c_id (vk_reply_row e pause n c) (db_conversations s),
                  db_ops_events := db_ops_events s @ evs \<rparr>)"
proof (cases "vx_fsm_changed res")
  case False
  with assms(1) show ?thesis
    by (intro kept)
      (auto simp: apply_vk_client_message_reply_in_session_def session_simps vk_reply_ignored_def
        split: if_splits option.splits)
next
  case True
  let ?n = "ve_conversation_message_id env"
  obtain c0 c c1 ent t1 ops1 r where valid: "0 < ?n" "fsm_mutation_allowed cfg (ve_external_conversation_id env)"
    and found: "conv_get_by_channel_external Channel_VK (ve_external_conversation_id env) (db_conversations s) = Some c0"
    and lock: "lock_for_update (c_id c0) (db_conversations s) = Inr c"
    and own: "classify_own_echo hmac (xt_provenance_key cfg) c (ve_provider_message_id env)
             (the (from_envelope_fragment (ve_provenance env))) (db_outbox s) \<notin> {Reply_OWN_ECHO_RACE_RETRY, Reply_OWN_TEYA_ECHO}"
    and opn: "c_status c \<noteq> CLOSED"
    and seq: "classify_manager_sequence (c_vk_client_external_reply_hwm c) (Some ?n) = Mgr_CHRONOLOGICALLY_NEW"
    and ap: "apply_chronologically_new_vk_external_reply (en_ops_event_id e) (en_now e) c ?n (en_now e) pause
        (db_conversations s) (db_ops_events s) = Inr ((c1, ent), t1, ops1)"
    and sil: "silence_bot e (c_id c1) ''VK_CLIENT_EXTERNAL_REPLY'' ent
        (s \<lparr> db_conversations := t1, db_ops_events := ops1 \<rparr>) = Inr (r, s')"
    and res: "vx_classification res = Reply_EXTERNAL_ACTOR"
    using assms(1) True
    by (auto simp: apply_vk_client_message_reply_in_session_def session_simps vk_reply_ignored_def
        split: if_splits option.splits)
  note cur = lock_for_update_Inr [OF lock assms(2), THEN conjunct1]
  have "conv_current c0 (db_conversations s)" "c_channel c0 = Channel_VK"
    "c_external_conversation_id c0 = ve_external_conversation_id env"
    using found assms(2) by (auto simp: conv_get_by_channel_external_def conv_current_def dest: sql_one_Some)
  with lock have c0: "c0 = c" and chan: "c_channel c = Channel_VK"
    "c_external_conversation_id c = ve_external_conversation_id env"
    by (auto simp: conv_current_lock)
  have ok: "conversation_ok c"
    using cur assms(3) by (simp add: conv_current_def)
  have pv: "handoff_pause_valid pause"
    using ap by (auto simp: apply_chronologically_new_vk_external_reply_def split: if_splits)
  obtain evs where "apply_chronologically_new_vk_external_reply (en_ops_event_id e) (en_now e) c ?n (en_now e) pause
        (db_conversations s) (db_ops_events s) =
      Inr ((vk_reply_row e pause ?n c, c_handoff_state c = BOT_ACTIVE),
        sql_put c_id (vk_reply_row e pause ?n c) (db_conversations s), db_ops_events s @ evs)"
    using vk_external_reply_current [OF cur ok pv vk_reply_fresh [OF ap] vk_reply_row_def] by blast
  with ap have c1: "c1 = vk_reply_row e pause ?n c" and t1: "t1 = sql_put c_id c1 (db_conversations s)"
    and ops1: "ops1 = db_ops_events s @ evs"
    by auto
  have ext: "classify_own_echo hmac (xt_provenance_key cfg) c (ve_provider_message_id env)
             (the (from_envelope_fragment (ve_provenance env))) (db_outbox s) = Reply_EXTERNAL_ACTOR"
    using own by (auto simp: classify_own_echo_def split: VkReplyPayloadKind.splits option.splits if_splits)
  from sil obtain mirror where "s' = silenced (c_id c1) ''VK_CLIENT_EXTERNAL_REPLY'' mirror
        (s \<lparr> db_conversations := t1, db_ops_events := ops1 \<rparr>)"
    by (cases rule: silence_bot_Inr) simp
  with c1 t1 ops1 show ?thesis
    using res True cur ok opn chan seq valid pv ext
    by (intro external [of c ?n mirror evs]) (simp_all add: classify_new_iff)
qed

end
