(* ===== verification/Handoff_Expiry.thy ===== *)
theory Handoff_Expiry
  imports Manager
begin

text \<open>
  The end of a handoff (services/handoff_expiry.py). \<open>expire_one\<close> is one transaction of the worker: the
  due dialog with the earliest deadline goes back to the bot, or is quarantined when the deferred reply
  it should have is not there; \<open>expiry_tick\<close> drains due dialogs, one transaction each. \<open>deferred_reply\<close>
  is what the worker requires of the deferred plan, and the lemmas show that a dialog whose plan has it
  is returned to the bot with that plan active.
\<close>

section \<open>The worker\<close>

datatype HandoffExpiryTransition = HUMAN_ACTIVE_TO_BOT | HUMAN_PAUSE_TO_BOT | EXPIRY_QUARANTINED

record expiry_result =
  xr_conversation_id :: uuid
  xr_transition :: HandoffExpiryTransition
  xr_active_reply_plan_id :: "uuid option"
  xr_cancelled_plans :: nat
  xr_cancelled_outbound :: nat
  xr_quarantine_reason :: "string option"

definition lock_current_deferred_plan :: "conversation \<Rightarrow> reply_plan list \<Rightarrow> exn + reply_plan" where
  "lock_current_deferred_plan c t =
     (case c_active_reply_plan_id c of
        None \<Rightarrow> Inl (HandoffExpiryInvariantError ''HANDOFF_DEFERRED_PLAN_MISSING'')
      | Some plan_id \<Rightarrow>
          (case plan_get_by_id plan_id t of
             None \<Rightarrow> Inl (HandoffExpiryInvariantError ''HANDOFF_DEFERRED_PLAN_MISSING'')
           | Some plan \<Rightarrow>
               if p_conversation_id plan \<noteq> c_id c
               then Inl (HandoffExpiryInvariantError ''HANDOFF_DEFERRED_PLAN_MISSING'')
               else if p_plan_type plan \<noteq> CLIENT_REPLY
               then Inl (HandoffExpiryInvariantError ''HANDOFF_DEFERRED_PLAN_TYPE'')
               else if p_status plan \<noteq> Plan_PENDING \<and> p_status plan \<noteq> Plan_READY
               then Inl (HandoffExpiryInvariantError ''HANDOFF_DEFERRED_PLAN_NOT_OPEN'')
               else if p_context_version plan \<noteq> c_context_version c
               then Inl (HandoffExpiryInvariantError ''HANDOFF_DEFERRED_PLAN_CONTEXT'')
               else if p_manager_epoch plan \<noteq> c_manager_epoch c
               then Inl (HandoffExpiryInvariantError ''HANDOFF_DEFERRED_PLAN_MANAGER_EPOCH'')
               else if p_event_seq_hwm plan \<noteq> c_current_event_seq c
               then Inl (HandoffExpiryInvariantError ''HANDOFF_DEFERRED_PLAN_EVENT_SEQ'')
               else if Some (p_not_before plan) \<noteq> c_handoff_deadline_at c
               then Inl (HandoffExpiryInvariantError ''HANDOFF_DEFERRED_PLAN_DEADLINE'')
               else if dict_get (p_payload_json plan) ''deferred_for_handoff'' \<noteq> JBool True
               then Inl (HandoffExpiryInvariantError ''HANDOFF_DEFERRED_PLAN_MARKER'')
               else Inr plan))"

definition quarantine_dialog :: "env \<Rightarrow> moment \<Rightarrow> conversation \<Rightarrow> string \<Rightarrow> expiry_result session" where
  "quarantine_dialog e moment c reason =
     db_bind (on_dialog (quarantine_due_handoff_expiry (en_ops_event_id e) (en_now e) c reason moment)) (\<lambda>c1.
     db_return \<lparr> xr_conversation_id = c_id c1, xr_transition = EXPIRY_QUARANTINED, xr_active_reply_plan_id = None,
                 xr_cancelled_plans = 0, xr_cancelled_outbound = 0, xr_quarantine_reason = Some reason \<rparr>)"

text \<open>
  \<open>moment\<close> is the database clock read after the claim. \<open>locked\<close> are the dialog rows other sessions
  hold, which \<open>SKIP LOCKED\<close> passes over.
\<close>

definition expire_one :: "env \<Rightarrow> moment \<Rightarrow> (uuid \<Rightarrow> bool) \<Rightarrow> (expiry_result option) session" where
  "expire_one e moment locked =
     db_bind (db_read (\<lambda>s. claim_next_due_handoff (en_now e) locked (db_conversations s))) (\<lambda>claimed.
     (case claimed of
        None \<Rightarrow> db_return None
      | Some c \<Rightarrow>
          (case c_handoff_state c of
             HUMAN_ACTIVE \<Rightarrow>
               db_bind (with_reply_plans (cancel_open_plans_for_takeover (c_id c) ''HANDOFF_EXPIRED_NO_CLIENT''))
                 (\<lambda>cancelled_plans.
               db_bind (with_outbox (cancel_unadmitted_for_manager_message (c_id c))) (\<lambda>cancelled_outbound.
               db_bind (on_conversations (return_due_handoff_to_bot c moment None)) (\<lambda>c1.
               db_return (Some \<lparr> xr_conversation_id = c_id c1, xr_transition = HUMAN_ACTIVE_TO_BOT,
                                 xr_active_reply_plan_id = None, xr_cancelled_plans = cancelled_plans,
                                 xr_cancelled_outbound = cancelled_outbound, xr_quarantine_reason = None \<rparr>))))
           | HUMAN_PAUSE \<Rightarrow>
               db_bind (db_read (\<lambda>s. lock_current_deferred_plan c (db_reply_plans s))) (\<lambda>locked_plan.
               (case locked_plan of
                  Inl (HandoffExpiryInvariantError reason) \<Rightarrow>
                    db_bind (quarantine_dialog e moment c reason) (\<lambda>r. db_return (Some r))
                | Inl err \<Rightarrow> db_raise err
                | Inr plan \<Rightarrow>
                    db_bind (on_conversations (return_due_handoff_to_bot c moment (Some (p_id plan)))) (\<lambda>c1.
                    db_return (Some \<lparr> xr_conversation_id = c_id c1, xr_transition = HUMAN_PAUSE_TO_BOT,
                                      xr_active_reply_plan_id = Some (p_id plan), xr_cancelled_plans = 0,
                                      xr_cancelled_outbound = 0, xr_quarantine_reason = None \<rparr>))))
           | _ \<Rightarrow>
               db_bind (quarantine_dialog e moment c ''HANDOFF_EXPIRY_UNSUPPORTED_STATE'') (\<lambda>r.
               db_return (Some r)))))"

text \<open>
  \<open>tick\<close>: one transaction per element of the list, which holds what each transaction reads from
  outside; its length is \<open>max_items\<close>. A transaction that raises ends the tick, and what the earlier
  ones committed stays.
\<close>

fun expiry_loop ::
  "(env \<times> moment \<times> (uuid \<Rightarrow> bool)) list \<Rightarrow> expiry_result list \<Rightarrow> db \<Rightarrow> (exn + expiry_result list) \<times> db" where
  "expiry_loop [] results s = (Inr (rev results), s)"
| "expiry_loop ((e, moment, locked) # xs) results s =
     (case expire_one e moment locked s of
        Inl err \<Rightarrow> (Inl err, s)
      | Inr (None, s') \<Rightarrow> (Inr (rev results), s')
      | Inr (Some r, s') \<Rightarrow> expiry_loop xs (r # results) s')"

definition expiry_tick :: "(env \<times> moment \<times> (uuid \<Rightarrow> bool)) list \<Rightarrow> db \<Rightarrow> (exn + expiry_result list) \<times> db" where
  "expiry_tick xs s =
     (if xs = [] then (Inl (ValueError ''max_items must be positive''), s) else expiry_loop xs [] s)"

section \<open>The deferred reply\<close>

definition deferred_reply :: "conversation \<Rightarrow> reply_plan \<Rightarrow> bool" where
  "deferred_reply c plan =
     (c_active_reply_plan_id c = Some (p_id plan) \<and> p_conversation_id plan = c_id c \<and>
      p_plan_type plan = CLIENT_REPLY \<and> (p_status plan = Plan_PENDING \<or> p_status plan = Plan_READY) \<and>
      p_context_version plan = c_context_version c \<and> p_manager_epoch plan = c_manager_epoch c \<and>
      p_event_seq_hwm plan = c_current_event_seq c \<and> c_handoff_deadline_at c = Some (p_not_before plan) \<and>
      dict_get (p_payload_json plan) ''deferred_for_handoff'' = JBool True)"

lemma lock_deferred_plan_iff:
  assumes "distinct (map p_id t)"
  shows "(lock_current_deferred_plan c t = Inr plan) = (plan \<in> set t \<and> deferred_reply c plan)"
proof (cases "c_active_reply_plan_id c")
  case None
  then show ?thesis by (simp add: lock_current_deferred_plan_def deferred_reply_def)
next
  case (Some i)
  have get: "plan_get_by_id i t = Some plan \<longleftrightarrow> plan \<in> set t \<and> p_id plan = i"
    using sql_one_the_row [OF assms, of plan] by (auto simp: plan_get_by_id_def dest: sql_one_Some)
  show ?thesis
  proof (cases "plan_get_by_id i t")
    case None
    with Some get show ?thesis by (auto simp: lock_current_deferred_plan_def deferred_reply_def)
  next
    case (Some r)
    have "(lock_current_deferred_plan c t = Inr plan) = (r = plan \<and> deferred_reply c r)"
      unfolding lock_current_deferred_plan_def deferred_reply_def \<open>c_active_reply_plan_id c = Some i\<close> Some option.case
      using get Some by (simp add: plan_get_by_id_def) (auto dest: sql_one_Some)
    with get Some \<open>c_active_reply_plan_id c = Some i\<close> show ?thesis by (auto simp: deferred_reply_def)
  qed
qed

lemma lock_deferred_plan_Inl:
  "lock_current_deferred_plan c t = Inl err \<Longrightarrow>
     \<exists>reason. err = HandoffExpiryInvariantError reason \<and> reason \<in> set HANDOFF_QUARANTINE_REASONS"
  unfolding lock_current_deferred_plan_def HANDOFF_QUARANTINE_REASONS_def
  by (simp split: option.splits if_splits; hypsubst; simp)

lemma due_dialog:
  assumes "claim_next_due_handoff now locked t = Some c" and "distinct (map c_id t)"
  shows "conv_current c t" and "conv_handoff_due now c" and "\<not> locked (c_id c)"
    and "\<forall>c' \<in> set t. conv_handoff_due now c' \<and> \<not> locked (c_id c') \<longrightarrow> conv_deadline c \<le> conv_deadline c'"
proof -
  note first = sql_first_by_Some [OF assms(1) [unfolded claim_next_due_handoff_def]]
  show "conv_current c t" and "conv_handoff_due now c" and "\<not> locked (c_id c)"
    using first assms(2) by (simp_all add: conv_current_def)
  show "\<forall>c' \<in> set t. conv_handoff_due now c' \<and> \<not> locked (c_id c') \<longrightarrow> conv_deadline c \<le> conv_deadline c'"
    using first unfolding less_eq_prod_def fst_conv by (meson order.strict_implies_order)
qed

lemma due_later: "conv_handoff_due now c \<Longrightarrow> now \<le> later \<Longrightarrow> conv_handoff_due later c"
  by (cases "conv_deadline c") (auto simp: conv_handoff_due_def split: option.splits pgtime.splits
      intro: order.trans [of _ "At now"])

text \<open>A committed transaction: nothing due, the dialog returned, or the dialog quarantined.\<close>

lemma expire_one_cases:
  assumes "expire_one e moment locked s = Inr (r, s')" and "distinct (map c_id (db_conversations s))"
    and "en_now e \<le> moment"
  obtains (idle) "r = None" and "s' = s" and "claim_next_due_handoff (en_now e) locked (db_conversations s) = None"
    | (active) c res where "r = Some res" and "claim_next_due_handoff (en_now e) locked (db_conversations s) = Some c"
      and "c_handoff_state c = HUMAN_ACTIVE" and "xr_transition res = HUMAN_ACTIVE_TO_BOT" and "xr_conversation_id res = c_id c"
      and "s' = s \<lparr> db_reply_plans := snd (cancel_open_plans_for_takeover (c_id c) ''HANDOFF_EXPIRED_NO_CLIENT'' (db_reply_plans s)),
                   db_outbox := snd (cancel_unadmitted_for_conversation (c_id c) (db_outbox s)),
                   db_conversations := sql_put c_id (conv_return_row None c) (db_conversations s) \<rparr>"
    | (paused) c plan res where "r = Some res" and "claim_next_due_handoff (en_now e) locked (db_conversations s) = Some c"
      and "c_handoff_state c = HUMAN_PAUSE" and "lock_current_deferred_plan c (db_reply_plans s) = Inr plan"
      and "xr_transition res = HUMAN_PAUSE_TO_BOT" and "xr_conversation_id res = c_id c"
      and "s' = s \<lparr> db_conversations := sql_put c_id (conv_return_row (Some (p_id plan)) c) (db_conversations s) \<rparr>"
    | (quarantined) c reason res ev where "r = Some res" and "claim_next_due_handoff (en_now e) locked (db_conversations s) = Some c"
      and "c_handoff_state c = HUMAN_PAUSE"
      and "lock_current_deferred_plan c (db_reply_plans s) = Inl (HandoffExpiryInvariantError reason)"
      and "reason \<in> set HANDOFF_QUARANTINE_REASONS"
      and "xr_transition res = EXPIRY_QUARANTINED" and "xr_conversation_id res = c_id c" and "xr_quarantine_reason res = Some reason"
      and "s' = s \<lparr> db_conversations := sql_put c_id (conv_quarantine_row moment reason c) (db_conversations s),
                   db_ops_events := db_ops_events s @ [ev] \<rparr>"
proof (cases "claim_next_due_handoff (en_now e) locked (db_conversations s)")
  case None
  with assms(1) show ?thesis by (intro idle) (auto simp: expire_one_def session_simps)
next
  case (Some c)
  note cl = due_dialog [OF Some assms(2)]
  have due: "conv_handoff_due moment c"
    by (rule due_later [OF cl(2) assms(3)])
  note ret = return_due_handoff_current [OF cl(1) due]
  have st: "c_handoff_state c = HUMAN_ACTIVE \<or> c_handoff_state c = HUMAN_PAUSE"
    using cl(2) by (auto simp: conv_handoff_due_def)
  then show ?thesis
  proof
    assume "c_handoff_state c = HUMAN_ACTIVE"
    with assms(1) Some show ?thesis
      by (intro active [of "the r", OF _ Some])
        (auto simp: expire_one_def session_simps ret cancel_unadmitted_for_manager_message_def conv_return_row_def)
  next
    assume pause: "c_handoff_state c = HUMAN_PAUSE"
    show ?thesis
    proof (cases "lock_current_deferred_plan c (db_reply_plans s)")
      case (Inr plan)
      with assms(1) Some pause show ?thesis
        by (intro paused [of "the r", OF _ Some pause Inr]) (auto simp: expire_one_def session_simps ret conv_return_row_def)
    next
      case (Inl err)
      then obtain reason where err: "err = HandoffExpiryInvariantError reason" "reason \<in> set HANDOFF_QUARANTINE_REASONS"
        using lock_deferred_plan_Inl by blast
      obtain res c1 t ops where q: "quarantine_due_handoff_expiry (en_ops_event_id e) (en_now e) c reason moment
          (db_conversations s) (db_ops_events s) = Inr (c1, t, ops)"
        and r: "r = Some res" "xr_transition res = EXPIRY_QUARANTINED" "xr_conversation_id res = c_id c1" "xr_quarantine_reason res = Some reason"
        and s': "s' = s \<lparr> db_conversations := t, db_ops_events := ops \<rparr>"
        using assms(1) Some pause Inl err by (auto simp: expire_one_def session_simps quarantine_dialog_def)
      have "ops_fresh (en_ops_event_id e) (db_ops_events s)"
        using q append_ops_event_fresh by (fastforce simp: quarantine_due_handoff_expiry_def split: if_splits sum.splits)
      from quarantine_current [OF cl(1) err(2) this, of "en_now e" moment] q
      obtain ev where "c1 = conv_quarantine_row moment reason c" "t = sql_put c_id c1 (db_conversations s)" "ops = db_ops_events s @ [ev]"
        by auto
      with r s' show ?thesis
        by (intro quarantined [OF r(1) Some pause Inl [unfolded err(1)] err(2)]) (auto simp: conv_quarantine_row_def)
    qed
  qed
qed

end
