(* ===== verification/Session_Rel.thy ===== *)
theory Session_Rel
  imports Dialog_Db
begin

text \<open>
  What a session does to the database, whichever way it went: \<open>keeps R m\<close> says that the database
  before and after a committed run of \<open>m\<close> are related by \<open>R\<close>. For a preorder \<open>R\<close> the rules compose along
  the sequencing of a session, so that a service is related as soon as its repository calls are
  (locale \<open>session_rel\<close>). The preorder of the leased tables, \<open>queues_run\<close>, says that plans, outbox
  and mirror jobs only moved by calls of their own repositories: it lifts what those theories prove
  of their tables to every session that is composed of them.
\<close>

named_theorems keeps_intros

definition keeps :: "(db \<Rightarrow> db \<Rightarrow> bool) \<Rightarrow> 'a session \<Rightarrow> bool" where
  "keeps R m = (\<forall>s x s'. m s = Inr (x, s') \<longrightarrow> R s s')"

lemma keepsD: "keeps R m \<Longrightarrow> m s = Inr (x, s') \<Longrightarrow> R s s'"
  by (auto simp: keeps_def)

lemma keeps_session_scope:
  "keeps R m \<Longrightarrow> (\<And>s. R s s) \<Longrightarrow> session_scope m s = (r, s') \<Longrightarrow> R s s'"
  by (auto simp: keeps_def session_scope_def split: sum.splits prod.splits)

lemma keeps_mono: "keeps R m \<Longrightarrow> (\<And>s s'. R s s' \<Longrightarrow> Q s s') \<Longrightarrow> keeps Q m"
  by (auto simp: keeps_def)

lemma keeps_raise [keeps_intros]: "keeps R (db_raise e)"
  by (simp add: keeps_def db_raise_def)

lemma keeps_if [keeps_intros]: "(b \<Longrightarrow> keeps R m) \<Longrightarrow> (\<not> b \<Longrightarrow> keeps R n) \<Longrightarrow> keeps R (if b then m else n)"
  by simp

lemma keeps_option [keeps_intros]:
  "keeps R m \<Longrightarrow> (\<And>x. keeps R (f x)) \<Longrightarrow> keeps R (case y of None \<Rightarrow> m | Some x \<Rightarrow> f x)"
  by (simp split: option.split)

lemma keeps_sum [keeps_intros]:
  "(\<And>x. keeps R (f x)) \<Longrightarrow> (\<And>x. keeps R (g x)) \<Longrightarrow> keeps R (case y of Inl x \<Rightarrow> f x | Inr x \<Rightarrow> g x)"
  by (simp split: sum.split)

lemma keeps_prod [keeps_intros]:
  "(\<And>x y. keeps R (f x y)) \<Longrightarrow> keeps R (case p of (x, y) \<Rightarrow> f x y)"
  by (simp split: prod.split)

lemma keeps_let [keeps_intros]: "(\<And>x. keeps R (f x)) \<Longrightarrow> keeps R (let x = y in f x)"
  by (simp add: Let_def)

lemma keeps_on_table:
  "(\<And>s x t. call (get s) = Inr (x, t) \<Longrightarrow> R s (put t s)) \<Longrightarrow> keeps R (on_table get put call)"
  by (auto simp: keeps_def session_simps)

lemma keeps_with_table:
  "(\<And>s x t. call (get s) = (x, t) \<Longrightarrow> R s (put t s)) \<Longrightarrow> keeps R (with_table get put call)"
  by (auto simp: keeps_def session_simps)

locale session_rel =
  fixes R :: "db \<Rightarrow> db \<Rightarrow> bool"
  assumes rel_refl: "R s s"
    and rel_trans: "R s t \<Longrightarrow> R t u \<Longrightarrow> R s u"
begin

lemma keeps_return [keeps_intros]: "keeps R (db_return x)"
  by (simp add: keeps_def db_return_def rel_refl)

lemma keeps_read [keeps_intros]: "keeps R (db_read g)"
  by (simp add: keeps_def db_read_def rel_refl)

lemma keeps_bind [keeps_intros]: "keeps R m \<Longrightarrow> (\<And>x. keeps R (f x)) \<Longrightarrow> keeps R (db_bind m f)"
  by (auto simp: keeps_def session_simps) (metis rel_trans)

lemma keeps_scope: "keeps R m \<Longrightarrow> session_scope m s = (r, s') \<Longrightarrow> R s s'"
  by (erule keeps_session_scope) (rule rel_refl)

end

section \<open>The leased tables\<close>

definition queues_run :: "db \<Rightarrow> db \<Rightarrow> bool" where
  "queues_run s s' =
     (plan_run\<^sup>*\<^sup>* (db_reply_plans s) (db_reply_plans s') \<and>
      outbound_run\<^sup>*\<^sup>* (db_outbox s) (db_outbox s') \<and>
      mirror_run\<^sup>*\<^sup>* (db_mirror s) (db_mirror s'))"

interpretation queues: session_rel queues_run
  by unfold_locales (auto simp: queues_run_def)

lemma queues_run_other:
  assumes "db_reply_plans s' = db_reply_plans s" and "db_outbox s' = db_outbox s"
    and "db_mirror s' = db_mirror s"
  shows "queues_run s s'"
  using assms by (simp add: queues_run_def)

lemma keeps_queues_plans [keeps_intros]:
  "(\<And>t x t'. call t = Inr (x, t') \<Longrightarrow> plan_run t t') \<Longrightarrow> keeps queues_run (on_reply_plans call)"
  by (rule keeps_on_table) (simp add: queues_run_def r_into_rtranclp)

lemma keeps_queues_plans_with [keeps_intros]:
  "(\<And>t x t'. call t = (x, t') \<Longrightarrow> plan_run t t') \<Longrightarrow> keeps queues_run (with_reply_plans call)"
  by (rule keeps_with_table) (simp add: queues_run_def r_into_rtranclp)

lemma keeps_queues_outbox [keeps_intros]:
  "(\<And>t x t'. call t = Inr (x, t') \<Longrightarrow> outbound_run t t') \<Longrightarrow> keeps queues_run (on_outbox call)"
  by (rule keeps_on_table) (simp add: queues_run_def r_into_rtranclp)

lemma keeps_queues_outbox_with [keeps_intros]:
  "(\<And>t x t'. call t = (x, t') \<Longrightarrow> outbound_run t t') \<Longrightarrow> keeps queues_run (with_outbox call)"
  by (rule keeps_with_table) (simp add: queues_run_def r_into_rtranclp)

lemma mirror_enqueue_run:
  "enqueue_client_message_received i now cid inbox cv corr t = Inr (r, t') \<Longrightarrow> mirror_run t t'"
  "enqueue_manager_takeover i now cid corr t = Inr (r, t') \<Longrightarrow> mirror_run t t'"
  "enqueue_reply_plan_state_changed i now cid pid st cv corr t = Inr (r, t') \<Longrightarrow> mirror_run t t'"
  "enqueue_outbound_delivered i now cid oid cv' corr t = Inr (r, t') \<Longrightarrow> mirror_run t t'"
  by (simp_all add: mirror_enqueue_event_run enqueue_client_message_received_def enqueue_manager_takeover_def
      enqueue_reply_plan_state_changed_def enqueue_outbound_delivered_def)

lemma keeps_queues_mirror [keeps_intros]:
  "(\<And>t x t'. call t = Inr (x, t') \<Longrightarrow> mirror_run t t') \<Longrightarrow> keeps queues_run (on_mirror call)"
  by (rule keeps_on_table) (simp add: queues_run_def r_into_rtranclp)

lemma keeps_queues_conversations [keeps_intros]: "keeps queues_run (on_conversations call)"
  by (rule keeps_on_table) (simp add: queues_run_other)

lemma keeps_queues_dialog [keeps_intros]: "keeps queues_run (on_dialog call)"
  by (rule keeps_on_table) (auto simp: queues_run_def split: prod.splits)

lemma keeps_queues_inbox [keeps_intros]: "keeps queues_run (on_inbox call)"
  by (rule keeps_on_table) (simp add: queues_run_other)

lemma keeps_queues_manager [keeps_intros]: "keeps queues_run (on_manager_messages call)"
  by (rule keeps_on_table) (simp add: queues_run_other)

lemma keeps_queues_projections [keeps_intros]: "keeps queues_run (on_projections call)"
  by (rule keeps_on_table) (simp add: queues_run_other)

lemma keeps_queues_offers [keeps_intros]: "keeps queues_run (with_offers call)"
  by (rule keeps_with_table) (simp add: queues_run_other)

section \<open>The dialogs\<close>

definition dialogs_fixed :: "db \<Rightarrow> db \<Rightarrow> bool" where
  "dialogs_fixed s s' = (db_conversations s' = db_conversations s)"

interpretation dialogs: session_rel dialogs_fixed
  by unfold_locales (auto simp: dialogs_fixed_def)

lemma keeps_dialogs_others [keeps_intros]:
  "keeps dialogs_fixed (on_reply_plans pcall)" "keeps dialogs_fixed (with_reply_plans pcall')"
  "keeps dialogs_fixed (on_outbox ocall)" "keeps dialogs_fixed (with_outbox ocall')"
  "keeps dialogs_fixed (on_mirror mcall)" "keeps dialogs_fixed (on_projections jcall)"
  "keeps dialogs_fixed (with_offers fcall)"
  by (auto simp: dialogs_fixed_def intro!: keeps_on_table keeps_with_table)

end
