(* ===== verification/Reply_Worker.thy ===== *)
theory Reply_Worker
  imports Inbound Session_Rel Booking_Payload
begin

text \<open>
  The reply plan worker: \<open>ReplyPlanWorker\<close> of services/reply_outbound.py. It leases a due plan, creates
  the one outbound row of the plan under the fences of the dialog, and completes the plan.

  \<^item> A method that opens one session is a \<open>session\<close>; a method that opens several is a function on the
    database that runs \<open>session_scope\<close> once per session. Between its sessions other processes
    commit: \<open>meanwhile\<close> is what they did to the database, and is arbitrary.
  \<^item> \<open>resolve\<close> is \<open>resolve_booking_outbound_fields\<close> with the injected booking flow, run off the
    transaction; the payloads it is called with are returned as a trace.
\<close>

section \<open>Data\<close>

fun plan_status_value :: "ReplyPlanStatus \<Rightarrow> string" where
  "plan_status_value Plan_PENDING = ''PENDING''"
| "plan_status_value Plan_READY = ''READY''"
| "plan_status_value Plan_PROCESSING = ''PROCESSING''"
| "plan_status_value Plan_DISPATCHED = ''DISPATCHED''"
| "plan_status_value Plan_CANCELLED = ''CANCELLED''"
| "plan_status_value Plan_SUPERSEDED = ''SUPERSEDED''"
| "plan_status_value Plan_FAILED = ''FAILED''"
| "plan_status_value Plan_DEAD = ''DEAD''"

record dispatch_result =
  dr_plan_id :: uuid
  dr_plan_status :: ReplyPlanStatus
  dr_outbound_id :: uuid
  dr_outbound_created :: bool

datatype BookingPrepareKind = Prep_FINALIZED | Prep_RUN_REMOTE | Prep_INTERRUPTED | Prep_USE_SAVED_RESULT

record booking_prepare =
  bp_kind :: BookingPrepareKind
  bp_plan_payload :: payload
  bp_max_attempts :: int
  bp_booking_fields :: "payload option"
  bp_result :: "dispatch_result option"

section \<open>Claiming\<close>

definition mirror_plan_state :: "env \<Rightarrow> uuid \<Rightarrow> reply_plan \<Rightarrow> int \<Rightarrow> uuid \<Rightarrow> unit session" where
  "mirror_plan_state e cid plan context_version corr =
     db_bind (on_mirror (enqueue_reply_plan_state_changed (en_mirror_id e) (en_now e) cid (p_id plan)
                (plan_status_value (p_status plan)) context_version corr)) (\<lambda>_. db_return ())"

definition recover_exhausted_plan :: "env \<Rightarrow> unit session" where
  "recover_exhausted_plan e =
     db_bind (db_read (\<lambda>s. plan_find_exhausted_lease (en_now e) (db_reply_plans s))) (\<lambda>exhausted.
     (case exhausted of
        None \<Rightarrow> db_return ()
      | Some x \<Rightarrow>
          db_bind (lock_dialog (xl_conversation_id x)) (\<lambda>_.
          db_bind (with_reply_plans (plan_recover_exhausted_lease (xl_plan_id x) (en_now e))) (\<lambda>recovered.
          (case recovered of
             None \<Rightarrow> db_return ()
           | Some plan \<Rightarrow>
               mirror_plan_state e (p_conversation_id plan) plan (p_context_version plan)
                 (p_correlation_id plan))))))"

definition plan_worker_claim_one ::
  "env \<Rightarrow> string \<Rightarrow> int \<Rightarrow> uuid \<Rightarrow> (uuid \<Rightarrow> bool) \<Rightarrow> (reply_plan_claim option) session" where
  "plan_worker_claim_one e worker lease_seconds token locked =
     db_bind (recover_exhausted_plan e) (\<lambda>_.
     db_bind (db_read db_conversations) (\<lambda>convs.
     on_reply_plans (plan_claim_next worker lease_seconds (en_now e) token locked convs)))"

section \<open>Dispatching\<close>

definition lock_and_validate :: "reply_plan_claim \<Rightarrow> reply_plan session" where
  "lock_and_validate claim =
     db_bind (lock_dialog (pc_conversation_id claim)) (\<lambda>c.
       if c_context_version c \<noteq> pc_context_version claim
       then db_raise (StaleReplyPlanLeaseError ''REPLY_PLAN_STALE_CONTEXT'')
       else if c_ownership c \<noteq> BOT
       then db_raise (StaleReplyPlanLeaseError ''REPLY_PLAN_MANAGER_OWNED'')
       else if c_handoff_state c \<noteq> BOT_ACTIVE
       then db_raise (StaleReplyPlanLeaseError ''REPLY_PLAN_HANDOFF_NOT_BOT_ACTIVE'')
       else if c_manager_takeover_at c \<noteq> None
       then db_raise (StaleReplyPlanLeaseError ''REPLY_PLAN_MANAGER_TAKEOVER'')
       else if c_manager_epoch c \<noteq> pc_manager_epoch claim
       then db_raise (StaleReplyPlanLeaseError ''REPLY_PLAN_STALE_MANAGER_EPOCH'')
       else if c_current_event_seq c \<noteq> pc_event_seq_hwm claim
       then db_raise (StaleReplyPlanLeaseError ''REPLY_PLAN_STALE_EVENT_SEQUENCE'')
       else
         db_bind (db_read (\<lambda>s. plan_get_by_id (pc_plan_id claim) (db_reply_plans s))) (\<lambda>found.
         (case found of
            None \<Rightarrow> db_raise (StaleReplyPlanLeaseError ''REPLY_PLAN_STALE_LEASE'')
          | Some row \<Rightarrow>
              if p_status row \<noteq> Plan_PROCESSING \<or> p_lease_token row \<noteq> Some (pc_lease_token claim) \<or>
                 p_lease_version row \<noteq> pc_lease_version claim \<or>
                 p_manager_epoch row \<noteq> pc_manager_epoch claim \<or>
                 p_event_seq_hwm row \<noteq> pc_event_seq_hwm claim
              then db_raise (StaleReplyPlanLeaseError ''REPLY_PLAN_STALE_LEASE'')
              else db_return row)))"

definition complete_dispatched :: "env \<Rightarrow> reply_plan_claim \<Rightarrow> uuid \<Rightarrow> bool \<Rightarrow> dispatch_result session" where
  "complete_dispatched e claim outbound_id outbound_created =
     db_bind (on_reply_plans (complete_dispatched_with_lease (pc_plan_id claim) (pc_lease_token claim)
                (pc_lease_version claim))) (\<lambda>plan.
     db_bind (mirror_plan_state e (pc_conversation_id claim) plan (pc_context_version claim)
                (pc_correlation_id claim)) (\<lambda>_.
     db_return \<lparr> dr_plan_id = p_id plan, dr_plan_status = p_status plan, dr_outbound_id = outbound_id,
                 dr_outbound_created = outbound_created \<rparr>))"

definition insert_synthetic :: "env \<Rightarrow> reply_plan_claim \<Rightarrow> reply_plan \<Rightarrow> payload \<Rightarrow> (outbox_message \<times> bool) session" where
  "insert_synthetic e claim row payload =
     on_outbox (insert_synthetic_outbound_if_absent (en_outbox_id e) (en_now e) (pc_conversation_id claim)
       (pc_plan_id claim) (pc_context_version claim) payload (pc_correlation_id claim)
       (pc_not_before claim) (p_max_attempts row) (pc_manager_epoch claim) (pc_event_seq_hwm claim))"

definition insert_vk :: "env \<Rightarrow> reply_plan_claim \<Rightarrow> reply_plan \<Rightarrow> payload \<Rightarrow> (outbox_message \<times> bool) session" where
  "insert_vk e claim row payload =
     on_outbox (insert_vk_client_outbound_if_absent (en_outbox_id e) (en_now e) (pc_conversation_id claim)
       (pc_plan_id claim) (pc_context_version claim) payload (pc_correlation_id claim)
       (pc_not_before claim) (p_max_attempts row) (pc_manager_epoch claim) (pc_event_seq_hwm claim))"

definition raise_or :: "exn + 'a \<Rightarrow> ('a \<Rightarrow> 'b session) \<Rightarrow> 'b session" where
  "raise_or r f = (case r of Inl e \<Rightarrow> db_raise e | Inr x \<Rightarrow> f x)"

definition existing_outbound :: "string \<Rightarrow> (outbox_message option) session" where
  "existing_outbound key = db_read (\<lambda>s. outbound_get_by_idempotency_key key (db_outbox s))"

definition vk_proof_outbound :: "env \<Rightarrow> reply_plan_claim \<Rightarrow> reply_plan \<Rightarrow> conversation \<Rightarrow> (outbox_message \<times> bool) session" where
  "vk_proof_outbound e claim row c =
     (if c_channel c \<noteq> Channel_VK then db_raise (RuntimeError ''VK_OUTBOUND_CHANNEL_MISMATCH'')
      else case dict_get (pc_payload_json claim) ''text'' of
        JStr msg \<Rightarrow>
          if msg = [] then db_raise (RuntimeError ''VK_OUTBOUND_TEXT_MISSING'')
          else
            db_bind (existing_outbound (vk_client_outbound_idempotency_key (pc_plan_id claim))) (\<lambda>existing.
            db_bind (case existing of
                Some outbound \<Rightarrow> db_return (outbound, False)
              | None \<Rightarrow> insert_vk e claim row (vk_client_outbound_payload msg)) (\<lambda>(outbound, created).
            if o_destination_type outbound \<noteq> VK_CLIENT_OUTBOUND
            then db_raise (RuntimeError ''VK_OUTBOUND_DESTINATION_MISMATCH'')
            else db_return (outbound, created)))
      | _ \<Rightarrow> db_raise (RuntimeError ''VK_OUTBOUND_TEXT_MISSING''))"

definition non_booking_outbound :: "env \<Rightarrow> reply_plan_claim \<Rightarrow> reply_plan \<Rightarrow> conversation \<Rightarrow> (outbox_message \<times> bool) session" where
  "non_booking_outbound e claim row c =
     (if c_channel c = Channel_VK then db_raise (RuntimeError ''VK_OUTBOUND_PROOF_REQUIRED'')
      else
        db_bind (existing_outbound (synthetic_outbound_idempotency_key (pc_plan_id claim))) (\<lambda>existing.
        (case existing of
           Some outbound \<Rightarrow> db_return (outbound, False)
         | None \<Rightarrow>
             raise_or (build_synthetic_outbound_payload (pc_payload_json claim) None)
               (insert_synthetic e claim row))))"

definition dispatch_non_booking :: "env \<Rightarrow> reply_plan_claim \<Rightarrow> dispatch_result session" where
  "dispatch_non_booking e claim =
     db_bind (lock_and_validate claim) (\<lambda>row.
     db_bind (db_read (\<lambda>s. conv_get_by_id_for_update (pc_conversation_id claim) (db_conversations s))) (\<lambda>found.
     (case found of
        None \<Rightarrow> db_raise (RuntimeError ''CONVERSATION_MISSING'')
      | Some c \<Rightarrow>
          db_bind (if is_vk_client_proof_reply_plan (pc_payload_json claim)
                   then vk_proof_outbound e claim row c
                   else non_booking_outbound e claim row c) (\<lambda>(outbound, created).
          complete_dispatched e claim (o_id outbound) created))))"

definition use_saved_result :: "reply_plan \<Rightarrow> payload \<Rightarrow> booking_prepare session" where
  "use_saved_result row plan_payload =
     (case read_booking_resolution_result plan_payload of
        None \<Rightarrow> db_raise (AssertionError [])
      | Some flds \<Rightarrow>
          db_return \<lparr> bp_kind = Prep_USE_SAVED_RESULT, bp_plan_payload = plan_payload,
            bp_max_attempts = p_max_attempts row, bp_booking_fields = Some flds, bp_result = None \<rparr>)"

definition prepare_plain :: "BookingPrepareKind \<Rightarrow> reply_plan \<Rightarrow> payload \<Rightarrow> dispatch_result option \<Rightarrow> booking_prepare" where
  "prepare_plain kind row plan_payload result =
     \<lparr> bp_kind = kind, bp_plan_payload = plan_payload, bp_max_attempts = p_max_attempts row,
       bp_booking_fields = None, bp_result = result \<rparr>"

definition booking_phase1_prepare :: "env \<Rightarrow> reply_plan_claim \<Rightarrow> booking_prepare session" where
  "booking_phase1_prepare e claim =
     db_bind (lock_and_validate claim) (\<lambda>row.
     db_bind (existing_outbound (synthetic_outbound_idempotency_key (pc_plan_id claim))) (\<lambda>existing.
     (case existing of
        Some outbound \<Rightarrow>
          db_bind (complete_dispatched e claim (o_id outbound) False) (\<lambda>result.
          db_return (prepare_plain Prep_FINALIZED row (p_payload_json row) (Some result)))
      | None \<Rightarrow>
          if booking_resolution_phase (p_payload_json row) = HAS_RESULT
          then use_saved_result row (p_payload_json row)
          else if booking_resolution_phase (p_payload_json row) = INTERRUPTED
          then db_return (prepare_plain Prep_INTERRUPTED row (p_payload_json row) None)
          else
            db_bind (with_reply_plans (try_mark_booking_resolution_started (pc_plan_id claim)
                       (pc_lease_token claim) (pc_lease_version claim))) (\<lambda>acquired.
            if acquired
            then db_return (prepare_plain Prep_RUN_REMOTE row
                   (dict_set (p_payload_json row) ''booking_resolution_started'' (JBool True)) None)
            else
              db_bind (db_read (\<lambda>s. plan_get_by_id (pc_plan_id claim) (db_reply_plans s))) (\<lambda>refreshed.
              (case refreshed of
                 None \<Rightarrow> db_raise (StaleReplyPlanLeaseError ''REPLY_PLAN_STALE_LEASE'')
               | Some r \<Rightarrow>
                   if booking_resolution_phase (p_payload_json r) = HAS_RESULT
                   then use_saved_result row (p_payload_json r)
                   else db_return (prepare_plain Prep_INTERRUPTED row (p_payload_json r) None)))))))"

definition persist_if_absent :: "reply_plan_claim \<Rightarrow> reply_plan \<Rightarrow> bool \<Rightarrow> payload \<Rightarrow> payload session" where
  "persist_if_absent claim row persist_result safe_fields =
     (if persist_result \<and> \<not> is_dict (dict_get (p_payload_json row) ''booking_resolution_result'')
      then on_reply_plans (persist_booking_resolution_result (pc_plan_id claim) (pc_lease_token claim)
             (pc_lease_version claim) safe_fields)
      else db_return (p_payload_json row))"

definition booking_phase2_finalize ::
  "env \<Rightarrow> reply_plan_claim \<Rightarrow> payload \<Rightarrow> payload \<Rightarrow> bool \<Rightarrow> dispatch_result session" where
  "booking_phase2_finalize e claim plan_payload booking_fields persist_result =
     (let safe_fields = sanitize_booking_result_fields (JObj booking_fields) in
     db_bind (lock_and_validate claim) (\<lambda>row.
     db_bind (existing_outbound (synthetic_outbound_idempotency_key (pc_plan_id claim))) (\<lambda>existing.
     (case existing of
        Some outbound \<Rightarrow> complete_dispatched e claim (o_id outbound) False
      | None \<Rightarrow>
          db_bind (persist_if_absent claim row persist_result safe_fields) (\<lambda>current_payload.
          let stored = read_booking_resolution_result current_payload in
          raise_or (build_synthetic_outbound_payload
                      (if stored \<noteq> None then current_payload else plan_payload)
                      (Some (case stored of Some f \<Rightarrow> f | None \<Rightarrow> safe_fields))) (\<lambda>outbound_payload.
          db_bind (insert_synthetic e claim row outbound_payload) (\<lambda>(outbound, created).
          complete_dispatched e claim (o_id outbound) created)))))))"

definition dispatch_booking ::
  "(payload \<Rightarrow> exn + payload) \<Rightarrow> env \<Rightarrow> env \<Rightarrow> (db \<Rightarrow> db) \<Rightarrow> reply_plan_claim \<Rightarrow> db
     \<Rightarrow> (exn + dispatch_result) \<times> payload list \<times> db" where
  "dispatch_booking resolve e1 e2 meanwhile claim d =
     (case session_scope (booking_phase1_prepare e1 claim) d of
        (Inl x, d1) \<Rightarrow> (Inl x, [], d1)
      | (Inr prepare, d1) \<Rightarrow>
          let finalize = (\<lambda>flds persist_result calls.
                case session_scope (booking_phase2_finalize e2 claim (bp_plan_payload prepare) flds
                                      persist_result) (meanwhile d1) of
                  (r, d2) \<Rightarrow> (r, calls, d2))
          in case bp_kind prepare of
               Prep_FINALIZED \<Rightarrow>
                 (case bp_result prepare of
                    None \<Rightarrow> (Inl (AssertionError []), [], d1)
                  | Some result \<Rightarrow> (Inr result, [], d1))
             | Prep_USE_SAVED_RESULT \<Rightarrow>
                 (case bp_booking_fields prepare of
                    None \<Rightarrow> (Inl (AssertionError []), [], d1)
                  | Some flds \<Rightarrow> finalize flds False [])
             | Prep_INTERRUPTED \<Rightarrow> finalize interrupted_booking_fields True []
             | Prep_RUN_REMOTE \<Rightarrow>
                 (case resolve (bp_plan_payload prepare) of
                    Inl x \<Rightarrow> (Inl x, [bp_plan_payload prepare], d1)
                  | Inr flds \<Rightarrow> finalize flds True [bp_plan_payload prepare]))"

definition fail_claimed :: "env \<Rightarrow> int \<Rightarrow> reply_plan_claim \<Rightarrow> string \<Rightarrow> reply_plan session" where
  "fail_claimed e retry_delay_seconds claim error_code =
     db_bind (lock_dialog (pc_conversation_id claim)) (\<lambda>_.
     db_bind (on_reply_plans (plan_fail_with_lease (pc_plan_id claim) (pc_lease_token claim)
                (pc_lease_version claim) error_code retry_delay_seconds (en_now e))) (\<lambda>plan.
     db_bind (if p_status plan = Plan_DEAD
              then mirror_plan_state e (pc_conversation_id claim) plan (pc_context_version claim)
                     (pc_correlation_id claim)
              else db_return ()) (\<lambda>_.
     db_return plan)))"

fun is_stale_plan_lease :: "exn \<Rightarrow> bool" where
  "is_stale_plan_lease (StaleReplyPlanLeaseError _) = True"
| "is_stale_plan_lease _ = False"

text \<open>The three environments are those of the sessions: the first, the second, the failing one.\<close>

definition dispatch_claimed ::
  "(payload \<Rightarrow> exn + payload) \<Rightarrow> int \<Rightarrow> env \<times> env \<times> env \<Rightarrow> (db \<Rightarrow> db) \<times> (db \<Rightarrow> db) \<Rightarrow> reply_plan_claim \<Rightarrow> db
     \<Rightarrow> (exn + dispatch_result) \<times> payload list \<times> db" where
  "dispatch_claimed resolve retry_delay_seconds envs meanwhile claim d =
     (case envs of (e1, e2, e3) \<Rightarrow>
        let attempt = (if \<not> plan_has_booking_fixture (pc_payload_json claim)
                       then (case session_scope (dispatch_non_booking e1 claim) d of (r, d1) \<Rightarrow> (r, [], d1))
                       else dispatch_booking resolve e1 e2 (fst meanwhile) claim d)
        in case attempt of
             (Inr result, calls, d1) \<Rightarrow> (Inr result, calls, d1)
           | (Inl x, calls, d1) \<Rightarrow>
               if is_stale_plan_lease x then (Inl x, calls, d1)
               else (case session_scope (fail_claimed e3 retry_delay_seconds claim (exn_name x))
                            (snd meanwhile d1) of
                       (Inl y, d2) \<Rightarrow> (Inl y, calls, d2)
                     | (Inr _, d2) \<Rightarrow> (Inl x, calls, d2)))"

section \<open>Every session moves the queues by their repositories and leaves the dialogs alone\<close>

lemmas queue_runs = plan_run.intros outbound_run.intros mirror_enqueue_run

lemma keeps_lock_dialog [keeps_intros]: "(\<And>s. R s s) \<Longrightarrow> keeps R (lock_dialog cid)"
  by (auto simp: keeps_def session_simps)

lemma keeps_lock_dialog_rels [keeps_intros]:
  "keeps queues_run (lock_dialog cid)" "keeps dialogs_fixed (lock_dialog cid)"
  by (auto intro: keeps_lock_dialog queues.rel_refl dialogs.rel_refl)

lemma keeps_raise_or [keeps_intros]: "(\<And>x. keeps R (f x)) \<Longrightarrow> keeps R (raise_or r f)"
  by (auto simp: raise_or_def intro!: keeps_intros)

lemma worker_steps_queues [keeps_intros]:
  "keeps queues_run (mirror_plan_state e cid plan cv corr)"
  "keeps queues_run (lock_and_validate claim)"
  "keeps queues_run (insert_synthetic e claim row pl)"
  "keeps queues_run (insert_vk e claim row pl)"
  "keeps queues_run (existing_outbound key)"
  "keeps queues_run (use_saved_result row pl)"
  "keeps queues_run (persist_if_absent claim row persist flds)"
  by (auto simp: persist_if_absent_def mirror_plan_state_def lock_and_validate_def insert_synthetic_def insert_vk_def
      existing_outbound_def use_saved_result_def intro!: keeps_intros intro: queue_runs)

lemma worker_sessions_queues:
  "keeps queues_run (plan_worker_claim_one e w secs token locked)"
  "keeps queues_run (dispatch_non_booking e claim)"
  "keeps queues_run (booking_phase1_prepare e claim)"
  "keeps queues_run (booking_phase2_finalize e claim pl flds persist)"
  "keeps queues_run (fail_claimed e delay claim code)"
proof -
  have recover: "keeps queues_run (recover_exhausted_plan e)"
    by (auto simp: recover_exhausted_plan_def intro!: keeps_intros intro: queue_runs)
  have complete: "keeps queues_run (complete_dispatched e claim oid created)" for oid created
    by (auto simp: complete_dispatched_def intro!: keeps_intros intro: queue_runs)
  have vk: "keeps queues_run (vk_proof_outbound e claim row c)" for row c
    by (auto simp: vk_proof_outbound_def intro!: keeps_intros split: json.split)
  show "keeps queues_run (plan_worker_claim_one e w secs token locked)"
    by (auto simp: plan_worker_claim_one_def intro!: keeps_intros recover intro: queue_runs)
  show "keeps queues_run (dispatch_non_booking e claim)"
    by (auto simp: dispatch_non_booking_def non_booking_outbound_def intro!: keeps_intros vk complete)
  show "keeps queues_run (booking_phase1_prepare e claim)"
    by (auto simp: booking_phase1_prepare_def intro!: keeps_intros complete intro: queue_runs)
  show "keeps queues_run (booking_phase2_finalize e claim pl flds persist)"
    by (auto simp: booking_phase2_finalize_def intro!: keeps_intros complete intro: queue_runs)
  show "keeps queues_run (fail_claimed e delay claim code)"
    by (auto simp: fail_claimed_def intro!: keeps_intros intro: queue_runs)
qed

lemma worker_steps_dialogs [keeps_intros]:
  "keeps dialogs_fixed (mirror_plan_state e cid plan cv corr)"
  "keeps dialogs_fixed (lock_and_validate claim)"
  "keeps dialogs_fixed (insert_synthetic e claim row pl)"
  "keeps dialogs_fixed (insert_vk e claim row pl)"
  "keeps dialogs_fixed (existing_outbound key)"
  "keeps dialogs_fixed (use_saved_result row pl)"
  "keeps dialogs_fixed (persist_if_absent claim row persist flds)"
  "keeps dialogs_fixed (recover_exhausted_plan e)"
  "keeps dialogs_fixed (complete_dispatched e claim oid created)"
  by (auto simp: mirror_plan_state_def lock_and_validate_def insert_synthetic_def insert_vk_def
      persist_if_absent_def existing_outbound_def use_saved_result_def recover_exhausted_plan_def complete_dispatched_def
      intro!: keeps_intros)

lemma worker_sessions_dialogs:
  "keeps dialogs_fixed (plan_worker_claim_one e w secs token locked)"
  "keeps dialogs_fixed (dispatch_non_booking e claim)"
  "keeps dialogs_fixed (booking_phase1_prepare e claim)"
  "keeps dialogs_fixed (booking_phase2_finalize e claim pl flds persist)"
  "keeps dialogs_fixed (fail_claimed e delay claim code)"
proof -
  have vk: "keeps dialogs_fixed (vk_proof_outbound e claim row c)" for row c
    by (auto simp: vk_proof_outbound_def intro!: keeps_intros split: json.split)
  show "keeps dialogs_fixed (dispatch_non_booking e claim)"
    by (auto simp: dispatch_non_booking_def non_booking_outbound_def intro!: keeps_intros vk)
qed (auto simp: plan_worker_claim_one_def booking_phase1_prepare_def booking_phase2_finalize_def
    fail_claimed_def intro!: keeps_intros)

section \<open>What a committed session did\<close>

text \<open>The lease is current and the dialog is where the plan left it.\<close>

definition claim_current :: "reply_plan_claim \<Rightarrow> conversation \<Rightarrow> bool" where
  "claim_current claim c =
     (c_id c = pc_conversation_id claim \<and> c_context_version c = pc_context_version claim \<and>
      c_ownership c = BOT \<and> c_handoff_state c = BOT_ACTIVE \<and> c_manager_takeover_at c = None \<and>
      c_manager_epoch c = pc_manager_epoch claim \<and> c_current_event_seq c = pc_event_seq_hwm claim)"

lemma lock_and_validate_Inr:
  assumes "lock_and_validate claim s = Inr (row, s')"
  obtains c where "s' = s" and "c \<in> set (db_conversations s)" and "claim_current claim c"
    and "plan_get_by_id (pc_plan_id claim) (db_reply_plans s) = Some row"
    and "plan_held (pc_plan_id claim) (pc_lease_token claim) (pc_lease_version claim) row"
proof -
  obtain c where c: "lock_for_update (pc_conversation_id claim) (db_conversations s) = Inr c"
    and rest: "s' = s" "claim_current claim c \<or> c_id c \<noteq> pc_conversation_id claim"
      "plan_get_by_id (pc_plan_id claim) (db_reply_plans s) = Some row"
      "p_status row = Plan_PROCESSING" "p_lease_token row = Some (pc_lease_token claim)"
      "p_lease_version row = pc_lease_version claim"
    using assms
    by (auto simp: lock_and_validate_def claim_current_def session_simps split: if_splits option.splits)
  have "c \<in> set (db_conversations s)" "c_id c = pc_conversation_id claim"
    using c by (auto simp: lock_for_update_def conv_get_by_id_for_update_def dest: sql_one_Some
        split: option.splits)
  moreover have "p_id row = pc_plan_id claim"
    using rest(3) by (auto simp: plan_get_by_id_def dest: sql_one_Some)
  ultimately show ?thesis
    using rest by (intro that [of c]) (auto simp: plan_held_def)
qed

lemma mirror_plan_state_Inr [session_simps]:
  "(mirror_plan_state e cid plan cv corr s = Inr (u, s')) =
     (\<exists>r t. enqueue_reply_plan_state_changed (en_mirror_id e) (en_now e) cid (p_id plan)
          (plan_status_value (p_status plan)) cv corr (db_mirror s) = Inr (r, t) \<and>
        s' = s \<lparr> db_mirror := t \<rparr>)"
  by (auto simp: mirror_plan_state_def session_simps)

lemma complete_dispatched_session:
  assumes "complete_dispatched e claim oid created s = Inr (res, s')"
    and "distinct (map p_id (db_reply_plans s))"
  obtains plan where "plan_get_by_id (pc_plan_id claim) (db_reply_plans s') = Some plan"
    and "p_status plan = Plan_DISPATCHED" and "p_lease_token plan = None"
    and "db_outbox s' = db_outbox s" and "db_conversations s' = db_conversations s"
    and "res = \<lparr> dr_plan_id = pc_plan_id claim, dr_plan_status = Plan_DISPATCHED, dr_outbound_id = oid,
                 dr_outbound_created = created \<rparr>"
proof -
  obtain plan t m where
    c: "complete_dispatched_with_lease (pc_plan_id claim) (pc_lease_token claim) (pc_lease_version claim)
        (db_reply_plans s) = Inr (plan, t)"
    and s': "s' = s \<lparr> db_reply_plans := t, db_mirror := m \<rparr>"
    and res: "res = \<lparr> dr_plan_id = p_id plan, dr_plan_status = p_status plan, dr_outbound_id = oid,
                 dr_outbound_created = created \<rparr>"
    using assms(1) by (auto simp: complete_dispatched_def session_simps)
  from c assms(2) obtain r where r: "r \<in> set (db_reply_plans s)"
    "plan_held (pc_plan_id claim) (pc_lease_token claim) (pc_lease_version claim) r"
    "plan = plan_dispatched_row r" "t = sql_put p_id plan (db_reply_plans s)"
    by (rule complete_dispatched_Inr)
  have "p_id plan = pc_plan_id claim"
    using r(2,3) by (simp add: plan_held_def)
  moreover have "plan_get_by_id (p_id plan) t = Some plan"
    using sql_one_put [OF r(1), of p_id plan] r(3,4) by (simp add: plan_get_by_id_def)
  ultimately show ?thesis
    using r(3) s' res by (intro that [of plan]) (auto simp: plan_dispatched_row_def)
qed

lemma option_session_Inr:
  "((case x of None \<Rightarrow> m | Some y \<Rightarrow> f y) s = Inr r) =
     (x = None \<and> m s = Inr r \<or> (\<exists>y. x = Some y \<and> f y s = Inr r))"
  by (cases x) auto

lemma if_session_Inr:
  "((if b then m else n) s = Inr r) = (b \<and> m s = Inr r \<or> \<not> b \<and> n s = Inr r)"
  by simp

lemma raise_or_Inr:
  "(raise_or r f s = Inr y) = (\<exists>x. r = Inr x \<and> f x s = Inr y)"
  by (cases r) (auto simp: raise_or_def db_raise_def)

lemmas branch_simps = option_session_Inr if_session_Inr raise_or_Inr

text \<open>The remote booking call is made in the one phase that set the marker of the plan.\<close>

lemma phase1_run_remote:
  assumes "booking_phase1_prepare e claim s = Inr (p, s')" and "bp_kind p = Prep_RUN_REMOTE"
  shows "try_mark_booking_resolution_started (pc_plan_id claim) (pc_lease_token claim)
           (pc_lease_version claim) (db_reply_plans s) = (True, db_reply_plans s')"
  using assms
  by (auto simp: booking_phase1_prepare_def use_saved_result_def prepare_plain_def existing_outbound_def
      session_simps branch_simps elim!: lock_and_validate_Inr)

text \<open>The outbound row of a plan: found under the key of the plan, or inserted with its fences.\<close>

definition plan_outbound :: "reply_plan_claim \<Rightarrow> outbox_message \<Rightarrow> bool \<Rightarrow> outbox_message list \<Rightarrow> bool" where
  "plan_outbound claim out created t =
     (out \<in> set t \<and>
      o_idempotency_key out \<in> {Some (synthetic_outbound_idempotency_key (pc_plan_id claim)),
                             Some (vk_client_outbound_idempotency_key (pc_plan_id claim))} \<and>
      (created \<longrightarrow>
         o_reply_plan_id out = Some (pc_plan_id claim) \<and> o_conversation_id out = pc_conversation_id claim \<and>
         o_context_version out = Some (pc_context_version claim) \<and>
         o_manager_epoch out = pc_manager_epoch claim \<and> o_event_seq_hwm out = pc_event_seq_hwm claim \<and>
         o_delivery_status out = Out_PENDING))"

lemma insert_outbound_plan:
  assumes "insert_outbound_if_absent dest key i now (pc_conversation_id claim) (pc_plan_id claim)
      (pc_context_version claim) pl corr nb mx (pc_manager_epoch claim) (pc_event_seq_hwm claim) t =
      Inr ((out, created), t')"
    and "key \<in> {synthetic_outbound_idempotency_key (pc_plan_id claim),
                vk_client_outbound_idempotency_key (pc_plan_id claim)}"
  shows "plan_outbound claim out created t'"
  using assms(1)
proof (cases rule: insert_outbound_cases)
  case old
  with assms(2) show ?thesis
    by (auto simp: plan_outbound_def outbound_get_by_idempotency_key_def dest: sql_one_Some)
next
  case new
  with assms(2) show ?thesis by (auto simp: plan_outbound_def outbound_new_row_def)
qed

lemma insert_plan_outbound:
  assumes "insert_synthetic e claim row pl s = Inr ((out, created), s') \<or>
           insert_vk e claim row pl s = Inr ((out, created), s')"
  shows "plan_outbound claim out created (db_outbox s') \<and> db_reply_plans s' = db_reply_plans s \<and>
    db_conversations s' = db_conversations s"
  using assms
  by (auto simp: insert_synthetic_def insert_vk_def insert_synthetic_outbound_if_absent_def
      insert_vk_client_outbound_if_absent_def session_simps intro!: insert_outbound_plan)

lemma existing_plan_outbound:
  assumes "outbound_get_by_idempotency_key key t = Some out"
    and "key \<in> {synthetic_outbound_idempotency_key (pc_plan_id claim),
                vk_client_outbound_idempotency_key (pc_plan_id claim)}"
  shows "plan_outbound claim out False t"
  using assms by (auto simp: plan_outbound_def outbound_get_by_idempotency_key_def dest: sql_one_Some)

text \<open>A dispatch that returned: the state it leaves.\<close>

definition dispatch_done :: "reply_plan_claim \<Rightarrow> dispatch_result \<Rightarrow> db \<Rightarrow> bool" where
  "dispatch_done claim res s =
     (\<exists>c plan out. c \<in> set (db_conversations s) \<and> claim_current claim c \<and>
        plan_get_by_id (pc_plan_id claim) (db_reply_plans s) = Some plan \<and>
        p_status plan = Plan_DISPATCHED \<and> p_lease_token plan = None \<and>
        plan_outbound claim out (dr_outbound_created res) (db_outbox s) \<and> o_id out = dr_outbound_id res \<and>
        dr_plan_id res = pc_plan_id claim \<and> dr_plan_status res = Plan_DISPATCHED)"

lemma complete_dispatched_done:
  assumes "complete_dispatched e claim (o_id out) created s = Inr (res, s')"
    and "distinct (map p_id (db_reply_plans s))"
    and "plan_outbound claim out created (db_outbox s)"
    and "c \<in> set (db_conversations s)" and "claim_current claim c"
  shows "dispatch_done claim res s'"
proof -
  from complete_dispatched_session [OF assms(1,2)] obtain plan where
    "plan_get_by_id (pc_plan_id claim) (db_reply_plans s') = Some plan" "p_status plan = Plan_DISPATCHED"
    "p_lease_token plan = None" "db_outbox s' = db_outbox s" "db_conversations s' = db_conversations s"
    "res = \<lparr> dr_plan_id = pc_plan_id claim, dr_plan_status = Plan_DISPATCHED, dr_outbound_id = o_id out,
             dr_outbound_created = created \<rparr>" .
  with assms(3-5) show ?thesis
    unfolding dispatch_done_def by (intro exI [of _ c] exI [of _ plan] exI [of _ out]) simp
qed

lemma vk_proof_outbound_Inr:
  assumes "vk_proof_outbound e claim row c s = Inr ((out, created), s')"
  shows "plan_outbound claim out created (db_outbox s') \<and> db_reply_plans s' = db_reply_plans s \<and>
    db_conversations s' = db_conversations s"
proof -
  let ?key = "vk_client_outbound_idempotency_key (pc_plan_id claim)"
  obtain msg where "outbound_get_by_idempotency_key ?key (db_outbox s) = Some out \<and> \<not> created \<and> s' = s \<or>
      insert_vk e claim row (vk_client_outbound_payload msg) s = Inr ((out, created), s')"
    using assms
    by (auto simp: vk_proof_outbound_def existing_outbound_def session_simps branch_simps
        split: if_splits json.splits)
  then show ?thesis
    using existing_plan_outbound [of ?key "db_outbox s" out claim]
      insert_plan_outbound [of e claim row _ s out created s'] by auto
qed

lemma non_booking_outbound_Inr:
  assumes "non_booking_outbound e claim row c s = Inr ((out, created), s')"
  shows "plan_outbound claim out created (db_outbox s') \<and> db_reply_plans s' = db_reply_plans s \<and>
    db_conversations s' = db_conversations s"
  using assms existing_plan_outbound [of "synthetic_outbound_idempotency_key (pc_plan_id claim)" "db_outbox s" out claim]
  by (auto simp: non_booking_outbound_def existing_outbound_def build_synthetic_outbound_payload_def
      session_simps branch_simps split: if_splits)

lemma dispatch_non_booking_done:
  assumes "dispatch_non_booking e claim s = Inr (res, s')" and "distinct (map p_id (db_reply_plans s))"
  shows "dispatch_done claim res s'"
proof -
  obtain row c out created s1 c0 where c: "c \<in> set (db_conversations s)" "claim_current claim c"
    and ins: "vk_proof_outbound e claim row c0 s = Inr ((out, created), s1) \<or>
              non_booking_outbound e claim row c0 s = Inr ((out, created), s1)"
    and fin: "complete_dispatched e claim (o_id out) created s1 = Inr (res, s')"
    using assms(1)
    by (auto simp: dispatch_non_booking_def session_simps branch_simps elim!: lock_and_validate_Inr) blast+
  have "plan_outbound claim out created (db_outbox s1) \<and> db_reply_plans s1 = db_reply_plans s \<and>
      db_conversations s1 = db_conversations s"
    using ins vk_proof_outbound_Inr non_booking_outbound_Inr by blast
  with c assms(2) complete_dispatched_done [OF fin] show ?thesis by auto
qed

lemma phase1_finalized:
  assumes "booking_phase1_prepare e claim s = Inr (p, s')" and "distinct (map p_id (db_reply_plans s))"
    and "bp_kind p = Prep_FINALIZED" and "bp_result p = Some res"
  shows "dispatch_done claim res s'"
proof -
  obtain c out where c: "c \<in> set (db_conversations s)" "claim_current claim c"
    and out: "outbound_get_by_idempotency_key (synthetic_outbound_idempotency_key (pc_plan_id claim))
                (db_outbox s) = Some out"
    and fin: "complete_dispatched e claim (o_id out) False s = Inr (res, s')"
    using assms(1,3,4)
    by (auto simp: booking_phase1_prepare_def use_saved_result_def prepare_plain_def existing_outbound_def
        session_simps branch_simps elim!: lock_and_validate_Inr)
  from complete_dispatched_done [OF fin assms(2) existing_plan_outbound [OF out] c]
  show ?thesis by simp
qed

lemma phase2_done:
  assumes "booking_phase2_finalize e claim pl flds persist s = Inr (res, s')"
    and "distinct (map p_id (db_reply_plans s))"
  shows "dispatch_done claim res s'"
proof -
  let ?key = "synthetic_outbound_idempotency_key (pc_plan_id claim)"
  let ?safe = "sanitize_booking_result_fields (JObj flds)"
  obtain c row where c: "c \<in> set (db_conversations s)" "claim_current claim c"
    and cases: "(\<exists>out. outbound_get_by_idempotency_key ?key (db_outbox s) = Some out \<and>
                  complete_dispatched e claim (o_id out) False s = Inr (res, s')) \<or>
       (\<exists>s1 s2 x pay out created. persist_if_absent claim row persist ?safe s = Inr (x, s1) \<and>
          insert_synthetic e claim row pay s1 = Inr ((out, created), s2) \<and>
          complete_dispatched e claim (o_id out) created s2 = Inr (res, s'))"
    using assms(1)
    by (auto simp: booking_phase2_finalize_def existing_outbound_def Let_def session_simps branch_simps
        elim!: lock_and_validate_Inr) blast+
  from cases show ?thesis
  proof (elim disjE exE conjE)
    fix out assume "outbound_get_by_idempotency_key ?key (db_outbox s) = Some out"
      and "complete_dispatched e claim (o_id out) False s = Inr (res, s')"
    then show ?thesis
      using complete_dispatched_done [OF _ assms(2) existing_plan_outbound c] by blast
  next
    fix s1 s2 x pay out created
    assume per: "persist_if_absent claim row persist ?safe s = Inr (x, s1)"
      and ins: "insert_synthetic e claim row pay s1 = Inr ((out, created), s2)"
      and fin: "complete_dispatched e claim (o_id out) created s2 = Inr (res, s')"
    have "distinct (map p_id (db_reply_plans s1))"
      using keepsD [OF worker_steps_queues(7) per] assms(2)
      by (auto simp: queues_run_def intro: plans.runs_distinct)
    moreover have "db_conversations s1 = db_conversations s"
      using keepsD [OF worker_steps_dialogs(7) per] by (simp add: dialogs_fixed_def)
    ultimately show ?thesis
      using insert_plan_outbound [of e claim row pay s1 out created s2] ins c
        complete_dispatched_done [OF fin] by auto
  qed
qed

lemma plan_fail_current:
  assumes "distinct (map p_id t)" and "plan_get_by_id i t = Some r" and "plan_held i token v r"
    and "p_attempt_count r < p_max_attempts r"
  shows "\<exists>plan t'. plan_fail_with_lease i token v code delay now t = Inr (plan, t') \<and>
    plan_get_by_id i t' = Some plan \<and> plan = plan_fail_row Plan_FAILED (At (now + seconds delay)) code r"
proof -
  have r: "r \<in> set t" "p_id r = i"
    using assms(2) by (auto simp: plan_get_by_id_def dest: sql_one_Some)
  have "sql_count (plan_held i token v) t \<noteq> 0"
    using r assms(3) by (auto simp: sql_count_0)
  moreover have "sql_update (plan_held i token v) f t = sql_put p_id (f r) t"
    if "\<And>x. p_id (f x) = p_id x" for f
    using assms(1,3) r that by (intro sql_update_current) (auto simp: plan_held_def)
  moreover have "plan_get_by_id i (sql_put p_id (plan_fail_row a b c r) t) = Some (plan_fail_row a b c r)" for a b c
    using sql_one_put [OF r(1), of p_id "plan_fail_row a b c r"] r(2) by (simp add: plan_get_by_id_def)
  ultimately show ?thesis
    using assms by (simp add: plan_fail_with_lease_def Let_def reply_plan_transition_allowed_def)
qed

section \<open>Whole dispatches\<close>

lemma dispatch_booking_done:
  assumes "dispatch_booking resolve e1 e2 meanwhile claim d = (Inr res, calls, d')"
    and "distinct (map p_id (db_reply_plans d))" and "\<And>x. queues_run x (meanwhile x)"
  shows "dispatch_done claim res d'"
proof -
  obtain p d1 where p1: "booking_phase1_prepare e1 claim d = Inr (p, d1)"
    and rest: "bp_kind p = Prep_FINALIZED \<and> bp_result p = Some res \<and> d' = d1 \<or>
      (\<exists>flds persist. booking_phase2_finalize e2 claim (bp_plan_payload p) flds persist (meanwhile d1) =
         Inr (res, d'))"
    using assms(1)
    by (auto simp: dispatch_booking_def Let_def session_scope_def
        split: sum.splits prod.splits BookingPrepareKind.splits option.splits)
  have "queues_run d (meanwhile d1)"
    using keepsD [OF worker_sessions_queues(3) p1] assms(3) queues.rel_trans by blast
  then have "distinct (map p_id (db_reply_plans (meanwhile d1)))"
    using assms(2) by (auto simp: queues_run_def intro: plans.runs_distinct)
  with rest p1 assms(2) show ?thesis using phase1_finalized phase2_done by blast
qed

lemma dispatch_booking_calls:
  assumes "dispatch_booking resolve e1 e2 meanwhile claim d = (r, calls, d')"
    and "\<And>x. queues_run x (meanwhile x)"
  shows "queues_run d d' \<and>
    (calls = [] \<or>
     (\<exists>p d1. booking_phase1_prepare e1 claim d = Inr (p, d1) \<and> bp_kind p = Prep_RUN_REMOTE \<and>
        calls = [bp_plan_payload p] \<and> queues_run d1 d'))"
proof (cases "booking_phase1_prepare e1 claim d")
  case (Inl x)
  with assms(1) show ?thesis by (auto simp: dispatch_booking_def session_scope_def queues.rel_refl)
next
  case (Inr pd)
  then obtain p d1 where p1: "booking_phase1_prepare e1 claim d = Inr (p, d1)" by (cases pd) auto
  have q1: "queues_run d d1"
    using keepsD [OF worker_sessions_queues(3) p1] .
  have q2: "queues_run d1 d2"
    if "session_scope (booking_phase2_finalize e2 claim pl flds persist) (meanwhile d1) = (x, d2)"
    for pl flds persist x d2
    using queues.keeps_scope [OF worker_sessions_queues(4) that] assms(2) queues.rel_trans by blast
  have "queues_run d1 d' \<and> (calls = [] \<or> bp_kind p = Prep_RUN_REMOTE \<and> calls = [bp_plan_payload p])"
    using assms(1) p1 q2 queues.rel_refl
    by (auto simp: dispatch_booking_def session_scope_def [of "booking_phase1_prepare e1 claim"] Let_def
        split: sum.splits prod.splits BookingPrepareKind.splits option.splits)
  with p1 q1 queues.rel_trans show ?thesis by blast
qed

lemma dispatch_claimed_calls:
  assumes "dispatch_claimed resolve delay envs meanwhile claim d = (r, calls, d')"
    and "\<And>x. queues_run x (fst meanwhile x)" and "\<And>x. queues_run x (snd meanwhile x)"
  shows "queues_run d d' \<and>
    (calls = [] \<or>
     (\<exists>p d1. booking_phase1_prepare (fst envs) claim d = Inr (p, d1) \<and> bp_kind p = Prep_RUN_REMOTE \<and>
        calls = [bp_plan_payload p] \<and> queues_run d1 d'))"
proof -
  obtain e1 e2 e3 where envs: "envs = (e1, e2, e3)" by (cases envs)
  define attempt where "attempt = (if \<not> plan_has_booking_fixture (pc_payload_json claim)
    then (case session_scope (dispatch_non_booking e1 claim) d of (r, d1) \<Rightarrow> (r, [], d1))
    else dispatch_booking resolve e1 e2 (fst meanwhile) claim d)"
  obtain r1 d1 where a: "attempt = (r1, calls, d1)"
    and d': "d' = d1 \<or> (\<exists>code x. session_scope (fail_claimed e3 delay claim code) (snd meanwhile d1) = (x, d'))"
    using assms(1)
    by (auto simp: dispatch_claimed_def envs attempt_def [symmetric] Let_def split: sum.splits prod.splits if_splits)
  have q: "queues_run d1 d'"
    using d' queues.keeps_scope [OF worker_sessions_queues(5)] assms(3) queues.rel_refl queues.rel_trans
    by metis
  have "queues_run d d1 \<and> (calls = [] \<or>
      (\<exists>p d2. booking_phase1_prepare e1 claim d = Inr (p, d2) \<and> bp_kind p = Prep_RUN_REMOTE \<and>
         calls = [bp_plan_payload p] \<and> queues_run d2 d1))"
  proof (cases "plan_has_booking_fixture (pc_payload_json claim)")
    case True
    with a dispatch_booking_calls [OF _ assms(2)] show ?thesis by (auto simp: attempt_def)
  next
    case False
    with a queues.keeps_scope [OF worker_sessions_queues(2)] show ?thesis
      by (auto simp: attempt_def split: prod.splits)
  qed
  with q queues.rel_trans show ?thesis by (auto simp: envs)
qed

section \<open>Properties\<close>

text \<open>
  A dispatch that returns has bound exactly what it says. In the database it leaves, the dialog
  is the bot's, not in handoff, without a takeover and at the very context version, manager epoch and
  event number of the claim; the plan is \<open>DISPATCHED\<close> with its lease given up; the outbound row the
  result names exists under the idempotency key of this plan, and when it was created here it waits
  for delivery with the fences of the claim. Other processes may commit anything through the
  repositories between the two transactions of a booking dispatch.
\<close>

theorem dispatch_binds_outbound:
  assumes "plan_run\<^sup>*\<^sup>* [] (db_reply_plans d)" and "\<And>x. queues_run x (fst meanwhile x)"
    and "dispatch_claimed resolve delay envs meanwhile claim d = (Inr res, calls, d')"
  shows "dispatch_done claim res d'"
proof -
  obtain e1 e2 e3 where envs: "envs = (e1, e2, e3)" by (cases envs)
  note d = plan_reachable_distinct [OF assms(1)]
  show ?thesis
  proof (cases "plan_has_booking_fixture (pc_payload_json claim)")
    case True
    with assms(3) have "dispatch_booking resolve e1 e2 (fst meanwhile) claim d = (Inr res, calls, d')"
      by (auto simp: dispatch_claimed_def envs Let_def split: sum.splits prod.splits if_splits)
    from dispatch_booking_done [OF this d assms(2)] show ?thesis .
  next
    case False
    with assms(3) have "dispatch_non_booking e1 claim d = Inr (res, d')"
      by (auto simp: dispatch_claimed_def envs Let_def session_scope_def split: sum.splits prod.splits if_splits)
    from dispatch_non_booking_done [OF this d] show ?thesis .
  qed
qed

text \<open>
  The remote booking service is asked at most once per plan. If a dispatch of a plan called it,
  then no dispatch of the same plan, under any later lease and after any crash, failure or retry,
  calls it again; a single dispatch calls it at most once.
\<close>

theorem booking_remote_at_most_once:
  assumes "plan_run\<^sup>*\<^sup>* [] (db_reply_plans d)"
    and "\<And>x. queues_run x (fst meanwhile x)" and "\<And>x. queues_run x (snd meanwhile x)"
    and "dispatch_claimed resolve delay envs meanwhile claim d = (r, calls, d1)" and "calls \<noteq> []"
    and "queues_run d1 d2"
    and "\<And>x. queues_run x (fst meanwhile' x)" and "\<And>x. queues_run x (snd meanwhile' x)"
    and "dispatch_claimed resolve' delay' envs' meanwhile' claim' d2 = (r', calls', d3)"
    and "pc_plan_id claim' = pc_plan_id claim"
  shows "length calls = 1 \<and> calls' = []"
proof -
  obtain p dp where p: "booking_phase1_prepare (fst envs) claim d = Inr (p, dp)"
    "bp_kind p = Prep_RUN_REMOTE" "calls = [bp_plan_payload p]" "queues_run dp d1"
    using dispatch_claimed_calls [OF assms(4,2,3)] assms(5) by blast
  have "queues_run dp d2"
    using p(4) assms(6) queues.rel_trans by blast
  then have "try_mark_booking_resolution_started (pc_plan_id claim) token v (db_reply_plans d2) =
      (False, db_reply_plans d2)" for token v
    using started_for_good [OF plan_reachable_distinct [OF assms(1)] phase1_run_remote [OF p(1,2)]]
    by (simp add: queues_run_def)
  then have "calls' = []"
    using dispatch_claimed_calls [OF assms(9,7,8)] phase1_run_remote [of "fst envs'" claim' d2] assms(10)
    by auto
  with p(3) show ?thesis by simp
qed

text \<open>
  A plain reply plan has no text and is never sent. The plan of a client message without booking
  data (the payload that \<open>accept\<close> stores for it) fails when it is dispatched, also when its lease and
  every fence are current: nothing is written to the outbox, the plan goes back to \<open>FAILED\<close> with the
  class of the error as its reason, and it is due again after the retry delay.
\<close>

theorem plain_reply_never_sent:
  assumes "plan_run\<^sup>*\<^sup>* [] (db_reply_plans d)"
    and "pc_payload_json claim = client_reply_plan_payload inbox_id None deferred"
    and "lock_and_validate claim d = Inr (row, d)" and "p_attempt_count row < p_max_attempts row"
    and "conv_get_by_id_for_update (pc_conversation_id claim) (db_conversations d) = Some c"
    and "c_channel c \<noteq> Channel_VK"
    and "outbound_get_by_idempotency_key (synthetic_outbound_idempotency_key (pc_plan_id claim))
           (db_outbox d) = None"
  shows "\<exists>d' plan.
    dispatch_claimed resolve delay (e1, e2, e3) (meanwhile, id) claim d =
      (Inl (OutboundReplyTextError ''OUTBOUND_REPLY_TEXT_MISSING''), [], d') \<and>
    db_outbox d' = db_outbox d \<and>
    plan_get_by_id (pc_plan_id claim) (db_reply_plans d') = Some plan \<and>
    p_status plan = Plan_FAILED \<and> p_cancel_reason plan = Some ''OutboundReplyTextError'' \<and>
    p_not_before plan = At (en_now e3 + seconds delay)"
proof -
  let ?x = "OutboundReplyTextError ''OUTBOUND_REPLY_TEXT_MISSING''"
  have kind: "\<not> plan_has_booking_fixture (pc_payload_json claim)"
    "\<not> is_vk_client_proof_reply_plan (pc_payload_json claim)"
    by (simp_all add: assms(2) client_reply_plan_payload_def plan_has_booking_fixture_def dict_has_def
        is_vk_client_proof_reply_plan_def dict_get_def)
  have lookup: "non_booking_outbound e1 claim row c d = Inl ?x"
    using assms(6,7)
    by (simp add: non_booking_outbound_def existing_outbound_def db_bind_def db_read_def raise_or_def
        build_synthetic_outbound_payload_def db_raise_def)
  have fails: "dispatch_non_booking e1 claim d = Inl ?x"
    using assms(3,5) kind(2) lookup by (simp add: dispatch_non_booking_def db_bind_def db_read_def)
  obtain c0 where lock: "plan_get_by_id (pc_plan_id claim) (db_reply_plans d) = Some row"
    "plan_held (pc_plan_id claim) (pc_lease_token claim) (pc_lease_version claim) row"
    using assms(3) by (rule lock_and_validate_Inr)
  have "\<exists>plan t. plan_fail_with_lease (pc_plan_id claim) (pc_lease_token claim) (pc_lease_version claim)
      ''OutboundReplyTextError'' delay (en_now e3) (db_reply_plans d) = Inr (plan, t) \<and>
      plan_get_by_id (pc_plan_id claim) t = Some plan \<and>
      plan = plan_fail_row Plan_FAILED (At (en_now e3 + seconds delay)) ''OutboundReplyTextError'' row"
    using plan_fail_current [OF plan_reachable_distinct [OF assms(1)] lock] assms(4) by simp
  then obtain plan t where plan: "plan_fail_with_lease (pc_plan_id claim) (pc_lease_token claim)
      (pc_lease_version claim) ''OutboundReplyTextError'' delay (en_now e3) (db_reply_plans d) = Inr (plan, t)"
    "plan_get_by_id (pc_plan_id claim) t = Some plan"
    "p_status plan = Plan_FAILED" "p_cancel_reason plan = Some ''OutboundReplyTextError''"
    "p_not_before plan = At (en_now e3 + seconds delay)"
    by (auto simp: plan_fail_row_def plan_close_row_def)
  have "fail_claimed e3 delay claim ''OutboundReplyTextError'' d = Inr (plan, d \<lparr> db_reply_plans := t \<rparr>)"
    using plan(1,3) assms(5)
    by (simp add: fail_claimed_def lock_dialog_def db_bind_def on_table_def lock_for_update_def db_return_def)
  then have "dispatch_claimed resolve delay (e1, e2, e3) (meanwhile, id) claim d =
      (Inl ?x, [], d \<lparr> db_reply_plans := t \<rparr>)"
    using kind(1) fails by (simp add: dispatch_claimed_def session_scope_def)
  with plan show ?thesis by auto
qed

section \<open>A run of the worker\<close>

definition worker_env :: "string \<Rightarrow> moment \<Rightarrow> env" where
  "worker_env tag now =
     \<lparr> en_now = now, en_wall = now, en_conversation_id = ''c'' @ tag, en_inbox_id = ''i'' @ tag,
       en_manager_message_id = ''m'' @ tag, en_ops_event_id = ''e'' @ tag, en_plan_id = ''p'' @ tag,
       en_outbox_id = ''o'' @ tag, en_mirror_id = ''j'' @ tag, en_projection_id = ''r'' @ tag,
       en_pending_id = ''s'' @ tag, en_idempotency_key = ''k'' @ tag, en_plan_correlation = ''q'' @ tag,
       en_mirror_correlation = ''w'' @ tag, en_projection_correlation = ''v'' @ tag,
       en_chat_egress_enabled = False \<rparr>"

definition worker_payload :: "json option \<Rightarrow> payload" where
  "worker_payload booking = client_reply_plan_payload ''i1'' booking False"

definition worker_plans :: "json option \<Rightarrow> reply_plan list" where
  "worker_plans booking =
     [plan_new_row ''p1'' 0 ''c1'' 1 ''q1'' (worker_payload booking) 5000 5 (At 5000000) 0 1]"

definition worker_claimed :: "json option \<Rightarrow> reply_plan list" where
  "worker_claimed booking = sql_update (\<lambda>_. True) (plan_lease_row ''w1'' ''k1'' 36000000 \<circ> plan_ready_row)
     (worker_plans booking)"

definition worker_claim :: "json option \<Rightarrow> reply_plan_claim" where
  "worker_claim booking = projr (plan_row_to_claim (hd (worker_claimed booking)))"

definition worker_db :: "json option \<Rightarrow> db" where
  "worker_db booking =
     \<lparr> db_conversations = [plan_demo_conv], db_ops_events = [], db_inbox = [], db_manager_messages = [],
       db_reply_plans = worker_claimed booking, db_outbox = [], db_mirror = [], db_projections = [],
       db_offers = [], db_pii_admissions = [], db_create_pendings = [],
     db_bindings = [], db_ingress = [] \<rparr>"

definition worker_dispatch :: "json option \<Rightarrow> db \<Rightarrow> (exn + dispatch_result) \<times> payload list \<times> db" where
  "worker_dispatch booking =
     dispatch_claimed (\<lambda>_. Inr interrupted_booking_fields) 30
       (worker_env ''1'' 7000000, worker_env ''2'' 8000000, worker_env ''3'' 9000000) (id, id)
       (worker_claim booking)"

lemma worker_plans_reach: "plan_run\<^sup>*\<^sup>* [] (worker_claimed None)" "plan_run\<^sup>*\<^sup>* [] (worker_claimed (Some (JObj [])))"
proof -
  have "create_client_reply_plan ''p1'' 0 ''c1'' 1 ''q1'' (worker_payload b) 5000 5 None 0 1 [] =
      Inr (hd (worker_plans b), worker_plans b)" for b
    by (simp add: create_client_reply_plan_def worker_plans_def plan_get_by_id_def sql_one_def Let_def milliseconds_def)
  then have new: "plan_run [] (worker_plans b)" for b
    by (rule plan_run.create)
  have "plan_claim_next ''w1'' 30 6000000 ''k1'' (\<lambda>_. False) [plan_demo_conv] (worker_plans None) =
      Inr (Some (worker_claim None), worker_claimed None)"
    by code_simp
  then show "plan_run\<^sup>*\<^sup>* [] (worker_claimed None)"
    using new plan_run.claim by (meson r_into_rtranclp rtranclp.rtrancl_into_rtrancl)
  have "plan_claim_next ''w1'' 30 6000000 ''k1'' (\<lambda>_. False) [plan_demo_conv]
      (worker_plans (Some (JObj []))) =
      Inr (Some (worker_claim (Some (JObj []))), worker_claimed (Some (JObj [])))"
    by code_simp
  then show "plan_run\<^sup>*\<^sup>* [] (worker_claimed (Some (JObj [])))"
    using new plan_run.claim by (meson r_into_rtranclp rtranclp.rtrancl_into_rtrancl)
qed

definition worker_done :: "(exn + dispatch_result) \<times> payload list \<times> db" where
  "worker_done = worker_dispatch (Some (JObj [])) (worker_db (Some (JObj [])))"

lemma worker_done_value:
  "fst worker_done = Inr \<lparr> dr_plan_id = ''p1'', dr_plan_status = Plan_DISPATCHED, dr_outbound_id = ''o2'',
     dr_outbound_created = True \<rparr>"
  by code_simp

lemma worker_done_calls: "fst (snd worker_done) \<noteq> []"
  by code_simp

theorem dispatch_binds_outbound_witness:
  "dispatch_done (worker_claim (Some (JObj [])))
     \<lparr> dr_plan_id = ''p1'', dr_plan_status = Plan_DISPATCHED, dr_outbound_id = ''o2'',
       dr_outbound_created = True \<rparr> (snd (snd worker_done))"
  using worker_plans_reach(2) worker_done_value
  by (intro dispatch_binds_outbound [where d = "worker_db (Some (JObj []))" and meanwhile = "(id, id)"
        and calls = "fst (snd worker_done)"])
    (auto simp: worker_db_def worker_done_def worker_dispatch_def queues.rel_refl prod_eq_iff)

theorem booking_remote_at_most_once_witness:
  "length (fst (snd worker_done)) = 1 \<and>
   fst (snd (worker_dispatch (Some (JObj [])) (snd (snd worker_done)))) = []"
  using worker_plans_reach(2) worker_done_calls
  by (intro booking_remote_at_most_once [where d = "worker_db (Some (JObj []))"
        and claim = "worker_claim (Some (JObj []))" and claim' = "worker_claim (Some (JObj []))"
        and meanwhile = "(id, id)" and meanwhile' = "(id, id)" and ?d2.0 = "snd (snd worker_done)"
        and r = "fst worker_done" and ?d1.0 = "snd (snd worker_done)"
        and r' = "fst (worker_dispatch (Some (JObj [])) (snd (snd worker_done)))"
        and ?d3.0 = "snd (snd (worker_dispatch (Some (JObj [])) (snd (snd worker_done))))"])
    (auto simp: worker_db_def worker_done_def worker_dispatch_def queues.rel_refl)

theorem plain_reply_never_sent_witness:
  "\<exists>d' plan. worker_dispatch None (worker_db None) =
      (Inl (OutboundReplyTextError ''OUTBOUND_REPLY_TEXT_MISSING''), [], d') \<and>
    db_outbox d' = db_outbox (worker_db None) \<and>
    plan_get_by_id (pc_plan_id (worker_claim None)) (db_reply_plans d') = Some plan \<and>
    p_status plan = Plan_FAILED \<and> p_cancel_reason plan = Some ''OutboundReplyTextError'' \<and>
    p_not_before plan = At (en_now (worker_env ''3'' 9000000) + seconds 30)"
proof -
  have "plan_run\<^sup>*\<^sup>* [] (db_reply_plans (worker_db None))"
    using worker_plans_reach(1) by (simp add: worker_db_def)
  moreover have "pc_payload_json (worker_claim None) = client_reply_plan_payload ''i1'' None False"
    by code_simp
  moreover have "lock_and_validate (worker_claim None) (worker_db None) =
      Inr (hd (worker_claimed None), worker_db None)"
    by code_simp
  moreover have "p_attempt_count (hd (worker_claimed None)) < p_max_attempts (hd (worker_claimed None))"
    by code_simp
  moreover have "conv_get_by_id_for_update (pc_conversation_id (worker_claim None))
      (db_conversations (worker_db None)) = Some plan_demo_conv"
    by code_simp
  moreover have "c_channel plan_demo_conv \<noteq> Channel_VK"
    by code_simp
  moreover have "outbound_get_by_idempotency_key
      (synthetic_outbound_idempotency_key (pc_plan_id (worker_claim None))) (db_outbox (worker_db None)) = None"
    by code_simp
  ultimately show ?thesis
    unfolding worker_dispatch_def by (rule plain_reply_never_sent)
qed

end
