(* ===== verification/Vk_Sender.thy ===== *)
theory Vk_Sender
  imports Vk_Provenance Vk_Gate "HOL-Library.Word"
begin

text \<open>
  The VK transport: channels/vk_client_outbound_http.py. One POST per call, no retries; the reply is
  classified as success with a provider message id, as transient, or as permanent.

  \<open>sha256\<close> and \<open>hmac\<close> are the digests of the standard library (bytes as characters) and \<open>http\<close> is the
  network: what the opener returned or raised for a request.
\<close>

unbundle bit_operations_syntax

section \<open>Outcomes\<close>

datatype VkClientSendOutcome = Send_SUCCESS | Send_TRANSIENT_ERROR | Send_PERMANENT_ERROR

record vk_send_result =
  vs_outcome :: VkClientSendOutcome
  vs_error_code :: "string option"
  vs_provider_message_id :: "int option"

definition vk_transient :: "string \<Rightarrow> vk_send_result" where
  "vk_transient code =
     \<lparr> vs_outcome = Send_TRANSIENT_ERROR, vs_error_code = Some code, vs_provider_message_id = None \<rparr>"

definition vk_permanent :: "string \<Rightarrow> vk_send_result" where
  "vk_permanent code =
     \<lparr> vs_outcome = Send_PERMANENT_ERROR, vs_error_code = Some code, vs_provider_message_id = None \<rparr>"

definition PERMANENT_VK_CODES :: "int list" where
  "PERMANENT_VK_CODES = [5, 7, 15, 100, 200, 203, 900, 902, 917, 936]"

definition TRANSIENT_VK_CODES :: "int list" where
  "TRANSIENT_VK_CODES = [1, 6, 9, 10, 29]"

definition MAX_MESSAGE_CHARS :: nat where "MAX_MESSAGE_CHARS = 3500"

definition MAX_RESPONSE_BYTES :: int where "MAX_RESPONSE_BYTES = 65536"

section \<open>The idempotency number of a message\<close>

text \<open>\<open>int.from_bytes(digest[:4], "big") & 0x7FFFFFFF\<close>, kept in a machine word of 32 bits.\<close>

definition word_of_bytes :: "string \<Rightarrow> 32 word" where
  "word_of_bytes bs = foldl (\<lambda>w c. push_bit 8 w OR of_nat (of_char c)) 0 bs"

definition vk_client_random_id_from_outbound_id :: "(string \<Rightarrow> string) \<Rightarrow> string \<Rightarrow> int" where
  "vk_client_random_id_from_outbound_id sha256 outbound_bytes =
     (let value = uint (word_of_bytes (take 4 (sha256 outbound_bytes)) AND 0x7FFFFFFF)
      in if value \<noteq> 0 then value else 1)"

section \<open>Sending\<close>

datatype http_reply =
    Http_response (http_status: int) (http_length: int) (http_json: "json option")
  | Http_redirected
  | Http_error int
  | Http_network_error

record vk_request =
  vq_access_token :: string
  vq_peer_id :: int
  vq_message :: string
  vq_random_id :: int
  vq_payload :: payload

definition parse_provider_message_id :: "json \<Rightarrow> int option" where
  "parse_provider_message_id v = (case v of JInt n \<Rightarrow> if 0 < n then Some n else None | _ \<Rightarrow> None)"

definition classify_vk_error :: "json \<Rightarrow> vk_send_result" where
  "classify_vk_error error =
     (let code = (case error of
            JObj d \<Rightarrow> (case dict_get d ''error_code'' of JInt n \<Rightarrow> Some n | _ \<Rightarrow> None)
          | _ \<Rightarrow> None)
      in if code \<noteq> None \<and> the code \<in> set TRANSIENT_VK_CODES then vk_transient ''VK_CLIENT_API_TRANSIENT''
         else if code \<noteq> None \<and> the code \<in> set PERMANENT_VK_CODES then vk_permanent ''VK_CLIENT_API_PERMANENT''
         else vk_permanent ''VK_CLIENT_API_PERMANENT'')"

definition classify_vk_reply :: "http_reply \<Rightarrow> vk_send_result" where
  "classify_vk_reply reply =
     (case reply of
        Http_redirected \<Rightarrow> vk_transient ''VK_CLIENT_SEND_TRANSIENT''
      | Http_error code \<Rightarrow>
          if code \<in> {429, 500, 502, 503, 504} then vk_transient ''VK_CLIENT_HTTP_TRANSIENT''
          else vk_permanent ''VK_CLIENT_HTTP_PERMANENT''
      | Http_network_error \<Rightarrow> vk_transient ''VK_CLIENT_NETWORK''
      | Http_response status len body \<Rightarrow>
          if 500 \<le> status then vk_transient ''VK_CLIENT_SEND_TRANSIENT''
          else if status = 429 then vk_transient ''VK_CLIENT_SEND_TRANSIENT''
          else if 400 \<le> status then vk_permanent ''VK_CLIENT_SEND_PERMANENT''
          else if MAX_RESPONSE_BYTES < len then vk_permanent ''VK_CLIENT_RESPONSE_TOO_LARGE''
          else (case body of
              Some (JObj d) \<Rightarrow>
                if dict_has d ''error'' then classify_vk_error (dict_get d ''error'')
                else if \<not> dict_has d ''response'' then vk_permanent ''VK_CLIENT_RESPONSE_INVALID''
                else (case parse_provider_message_id (dict_get d ''response'') of
                    None \<Rightarrow> vk_permanent ''VK_CLIENT_RESPONSE_MESSAGE_ID_INVALID''
                  | Some n \<Rightarrow> \<lparr> vs_outcome = Send_SUCCESS, vs_error_code = None,
                                vs_provider_message_id = Some n \<rparr>)
            | _ \<Rightarrow> vk_permanent ''VK_CLIENT_RESPONSE_INVALID''))"

text \<open>
  \<open>VkClientHttpSender.send_text\<close>; the requests it made are returned with the result. \<open>bytes_of\<close> is
  \<open>UUID.bytes\<close>.
\<close>

definition vk_send_text ::
  "(string \<Rightarrow> string) \<Rightarrow> (string \<Rightarrow> string \<Rightarrow> string) \<Rightarrow> (uuid \<Rightarrow> string) \<Rightarrow> (vk_request \<Rightarrow> http_reply) \<Rightarrow> vk_outbound_config
     \<Rightarrow> int \<Rightarrow> string \<Rightarrow> uuid \<Rightarrow> (exn + vk_send_result) \<times> vk_request list" where
  "vk_send_text sha256 hmac bytes_of http cfg peer_id msg outbound_id =
     (if peer_id \<le> 0 then (Inr (vk_permanent ''VK_CLIENT_PEER_INVALID''), [])
      else if msg = [] \<or> MAX_MESSAGE_CHARS < length msg
      then (Inr (vk_permanent ''VK_CLIENT_TEXT_INVALID''), [])
      else case vc_access_token cfg of
        None \<Rightarrow> (Inl (AssertionError []), [])
      | Some token \<Rightarrow>
          if \<not> opt_text (vc_provenance_key cfg)
          then (Inr (vk_permanent ''VK_CLIENT_PROVENANCE_KEY_MISSING''), [])
          else (case vk_outbound_provenance_body hmac outbound_id (the (vc_provenance_key cfg)) of
              Inl _ \<Rightarrow> (Inr (vk_permanent ''VK_CLIENT_PROVENANCE_INVALID''), [])
            | Inr marker \<Rightarrow>
                let req = \<lparr> vq_access_token = token, vq_peer_id = peer_id, vq_message = msg,
                            vq_random_id = vk_client_random_id_from_outbound_id sha256 (bytes_of outbound_id),
                            vq_payload = marker \<rparr>
                in (Inr (classify_vk_reply (http req)), [req])))"

definition null_send_text :: "int \<Rightarrow> string \<Rightarrow> uuid \<Rightarrow> (exn + vk_send_result) \<times> vk_request list" where
  "null_send_text peer_id msg outbound_id = (Inr (vk_permanent ''VK_CLIENT_SEND_DISABLED''), [])"

section \<open>Properties\<close>

lemma masked_word_bounds: "0 \<le> uint (w AND 0x7FFFFFFF :: 32 word) \<and> uint (w AND 0x7FFFFFFF :: 32 word) < 2 ^ 31"
proof -
  have "w AND 0x7FFFFFFF \<le> (0x7FFFFFFF :: 32 word)"
    by (rule word_and_le1)
  then have "uint (w AND 0x7FFFFFFF) \<le> uint (0x7FFFFFFF :: 32 word)"
    by (simp add: word_le_def)
  then show ?thesis by simp
qed

text \<open>
  C40. The \<open>random_id\<close> of a message is a positive signed 32-bit number and is a function of the outbound
  row alone: it does not depend on what is sent, to whom, under which token or on which attempt, so
  that every repetition of a delivery carries the same number. Each request carries it, together with
  the marker that names the same row.
\<close>

theorem vk_random_id_stable_and_in_range:
  assumes "vk_send_text sha256 hmac bytes_of http cfg peer msg oid = (r, reqs)" and "req \<in> set reqs"
    and "vk_send_text sha256 hmac bytes_of http' cfg' peer' msg' oid = (r', reqs')" and "req' \<in> set reqs'"
  shows "vq_random_id req = vq_random_id req' \<and> 1 \<le> vq_random_id req \<and> vq_random_id req < 2 ^ 31 \<and>
    length reqs = 1 \<and> dict_get (vq_payload req) ''oid'' = JStr oid"
proof -
  have id: "vq_random_id q = vk_client_random_id_from_outbound_id sha256 (bytes_of oid) \<and> length qs = 1 \<and>
      dict_get (vq_payload q) ''oid'' = JStr oid"
    if "vk_send_text sha256 hmac bytes_of h c p m oid = (x, qs)" and "q \<in> set qs" for h c p m x qs q
    using that
    by (auto simp: vk_send_text_def vk_outbound_provenance_body_def dict_get_def Let_def
        split: if_splits option.splits sum.splits)
  moreover have "1 \<le> vk_client_random_id_from_outbound_id sha256 b \<and>
      vk_client_random_id_from_outbound_id sha256 b < 2 ^ 31" for b
  proof -
    have "0 \<le> u \<and> u < 2 ^ 31 \<Longrightarrow> 1 \<le> (if u \<noteq> 0 then u else 1) \<and> (if u \<noteq> 0 then u else 1) < 2 ^ 31" for u :: int
      by auto
    from this [OF masked_word_bounds] show ?thesis
      unfolding vk_client_random_id_from_outbound_id_def Let_def .
  qed
  ultimately show ?thesis
    using id [OF assms(1,2)] id [OF assms(3,4)] by simp
qed

lemma vk_error_not_success: "vs_outcome (classify_vk_error v) \<noteq> Send_SUCCESS"
  by (simp add: classify_vk_error_def vk_transient_def vk_permanent_def Let_def)

text \<open>
  No reply of the network is taken for a delivery unless it names the message: a result is a
  success exactly when the HTTP status is below 400, the body is a JSON object of at most 64 KiB with
  no \<open>error\<close> key whose \<open>response\<close> is a positive integer, and that integer is the provider id of the
  result. Every other reply is an error, and an unknown API error is permanent.
\<close>

theorem vk_success_only_with_message_id:
  "vs_outcome (classify_vk_reply reply) = Send_SUCCESS \<longleftrightarrow>
     (\<exists>status len d n. reply = Http_response status len (Some (JObj d)) \<and> status < 400 \<and>
        len \<le> MAX_RESPONSE_BYTES \<and> \<not> dict_has d ''error'' \<and> dict_get d ''response'' = JInt n \<and> 0 < n \<and>
        vs_provider_message_id (classify_vk_reply reply) = Some n)"
proof (cases "\<exists>status len d. reply = Http_response status len (Some (JObj d)) \<and> status < 400 \<and>
    len \<le> MAX_RESPONSE_BYTES \<and> \<not> dict_has d ''error''")
  case True
  then obtain status len d where reply: "reply = Http_response status len (Some (JObj d))" "status < 400"
    "len \<le> MAX_RESPONSE_BYTES" "\<not> dict_has d ''error''"
    by blast
  have "dict_has d ''response''" if "dict_get d ''response'' = JInt n" for n
    using that by (auto simp: dict_has_def dict_get_def split: option.splits)
  with reply show ?thesis
    by (cases "dict_get d ''response''")
      (auto simp: classify_vk_reply_def vk_permanent_def parse_provider_message_id_def)
next
  case False
  then have "vs_outcome (classify_vk_reply reply) \<noteq> Send_SUCCESS"
    by (cases reply; cases "http_json reply"; cases "the (http_json reply)")
      (auto simp: classify_vk_reply_def vk_transient_def vk_permanent_def vk_error_not_success)
  with False show ?thesis by blast
qed

definition vk_sender_config :: vk_outbound_config where
  "vk_sender_config =
     \<lparr> vc_outbound_enabled = True, vc_access_token = Some ''token'', vc_allow_conversation = Some ''vk-1-2'',
       vc_proof_enabled = False, vc_proof_trigger = None, vc_proof_reply = None, vc_group_id = Some 1,
       vc_provenance_key = Some ''key'' \<rparr>"

definition vk_sender_demo :: "http_reply \<Rightarrow> string \<Rightarrow> (exn + vk_send_result) \<times> vk_request list" where
  "vk_sender_demo reply msg =
     vk_send_text (\<lambda>b. CHR 0xFF # CHR 0x00 # b) (\<lambda>k b. k @ b) (\<lambda>u. u) (\<lambda>_. reply) vk_sender_config 2 msg ''o1''"

theorem vk_random_id_stable_and_in_range_witness:
  "vq_random_id (hd (snd (vk_sender_demo Http_network_error ''hello''))) =
     vq_random_id (hd (snd (vk_sender_demo (Http_error 500) ''hello''))) \<and>
   1 \<le> vq_random_id (hd (snd (vk_sender_demo Http_network_error ''hello''))) \<and>
   vq_random_id (hd (snd (vk_sender_demo Http_network_error ''hello''))) < 2 ^ 31 \<and>
   length (snd (vk_sender_demo Http_network_error ''hello'')) = 1 \<and>
   dict_get (vq_payload (hd (snd (vk_sender_demo Http_network_error ''hello'')))) ''oid'' = JStr ''o1''"
proof (rule vk_random_id_stable_and_in_range)
  show "vk_send_text (\<lambda>b. CHR 0xFF # CHR 0x00 # b) (\<lambda>k b. k @ b) (\<lambda>u. u) (\<lambda>_. Http_network_error)
      vk_sender_config 2 ''hello'' ''o1'' =
      (fst (vk_sender_demo Http_network_error ''hello''), snd (vk_sender_demo Http_network_error ''hello''))"
    and "vk_send_text (\<lambda>b. CHR 0xFF # CHR 0x00 # b) (\<lambda>k b. k @ b) (\<lambda>u. u) (\<lambda>_. Http_error 500)
      vk_sender_config 2 ''hello'' ''o1'' =
      (fst (vk_sender_demo (Http_error 500) ''hello''), snd (vk_sender_demo (Http_error 500) ''hello''))"
    by (simp_all add: vk_sender_demo_def)
  have "snd (vk_sender_demo reply ''hello'') \<noteq> []" for reply
    by (simp add: vk_sender_demo_def vk_send_text_def vk_sender_config_def opt_text_def MAX_MESSAGE_CHARS_def
        vk_outbound_provenance_body_def)
  then show "hd (snd (vk_sender_demo Http_network_error ''hello'')) \<in> set (snd (vk_sender_demo Http_network_error ''hello''))"
    and "hd (snd (vk_sender_demo (Http_error 500) ''hello'')) \<in> set (snd (vk_sender_demo (Http_error 500) ''hello''))"
    by simp_all
qed

end
