(* ===== verification/Arbiter.thy ===== *)
theory Arbiter
  imports Reply_Worker Vk_Sender
begin

text \<open>
  The single gate of delivery: services/outbound_arbiter.py with the sink of
  services/synthetic_outbound.py, and \<open>OutboundWorker\<close> of services/reply_outbound.py.

  An outbound row is admitted in a transaction that checks the lease, the dialog and the plan; only
  after that transaction committed the message is handed to its transport, outside every transaction;
  then the delivery is recorded. A \<open>world\<close> is the database, the in-process sink and the trace of the
  calls of the VK transport. \<open>es k\<close> is the environment of the k-th session of a call, and \<open>mw k\<close> is what
  other processes committed before it.
\<close>

section \<open>The synthetic sink\<close>

datatype SyntheticOutboundOutcome = Sink_SUCCESS | Sink_TRANSIENT_ERROR | Sink_PERMANENT_ERROR

text \<open>\<open>rq_payload_schema\<close> is the value whose \<open>str\<close> the code takes.\<close>

record outbound_request =
  rq_outbound_id :: string
  rq_conversation_id :: string
  rq_reply_plan_id :: "string option"
  rq_context_version :: "int option"
  rq_correlation_id :: "string option"
  rq_payload_schema :: json
  rq_text :: "string option"

record outbound_result =
  rs_outcome :: SyntheticOutboundOutcome
  rs_error_code :: "string option"
  rs_provider_message_id :: "int option"

record sink =
  sk_forced_outcome :: SyntheticOutboundOutcome
  sk_delivered_ids :: "string set"
  sk_calls :: "outbound_request list"

definition plain_result :: "SyntheticOutboundOutcome \<Rightarrow> string option \<Rightarrow> outbound_result" where
  "plain_result outcome code =
     \<lparr> rs_outcome = outcome, rs_error_code = code, rs_provider_message_id = None \<rparr>"

definition sink_deliver :: "outbound_request \<Rightarrow> sink \<Rightarrow> outbound_result \<times> sink" where
  "sink_deliver req sk =
     (if rq_outbound_id req \<in> sk_delivered_ids sk then (plain_result Sink_SUCCESS None, sk)
      else let sk1 = sk \<lparr> sk_calls := sk_calls sk @ [req] \<rparr>
           in case sk_forced_outcome sk of
                Sink_SUCCESS \<Rightarrow>
                  (plain_result Sink_SUCCESS None,
                   sk1 \<lparr> sk_delivered_ids := insert (rq_outbound_id req) (sk_delivered_ids sk) \<rparr>)
              | Sink_TRANSIENT_ERROR \<Rightarrow> (plain_result Sink_TRANSIENT_ERROR (Some ''SYNTHETIC_TRANSIENT''), sk1)
              | Sink_PERMANENT_ERROR \<Rightarrow> (plain_result Sink_PERMANENT_ERROR (Some ''SYNTHETIC_PERMANENT''), sk1))"

section \<open>Admission\<close>

definition LIVE_DESTINATIONS :: "DestinationType list" where
  "LIVE_DESTINATIONS = [SYNTHETIC_OUTBOUND, VK_CLIENT_OUTBOUND]"

definition request_from_outbound :: "outbox_message \<Rightarrow> exn + outbound_request" where
  "request_from_outbound ob =
     (let payload = o_payload_json ob;
          req = (\<lambda>body. \<lparr> rq_outbound_id = o_id ob, rq_conversation_id = o_conversation_id ob,
                  rq_reply_plan_id = o_reply_plan_id ob, rq_context_version = o_context_version ob,
                  rq_correlation_id = o_correlation_id ob,
                  rq_payload_schema =
                    (if dict_has payload ''schema'' then dict_get payload ''schema'' else JStr ''unknown''),
                  rq_text = body \<rparr>)
      in case require_persisted_outbound_text payload of
           Inr body \<Rightarrow> Inr (req (Some body))
         | Inl _ \<Rightarrow>
             if is_machine_only_outbound_payload payload then Inr (req None)
             else Inl (OutboundArbiterDenied ''OUTBOUND_REPLY_TEXT_MISSING''))"

text \<open>The denials of the dialog, of the row and of its plan, in the order of the code.\<close>

definition dialog_denial :: "conversation \<Rightarrow> exn option" where
  "dialog_denial c =
     (if c_ownership c \<noteq> BOT then Some (OutboundArbiterDenied ''MANAGER_OWNED'')
      else if c_status c \<noteq> OPEN then Some (OutboundArbiterDenied ''CONVERSATION_NOT_OPEN'')
      else if c_handoff_state c \<noteq> BOT_ACTIVE then Some (OutboundArbiterDenied ''HANDOFF_NOT_BOT_ACTIVE'')
      else if c_manager_takeover_at c \<noteq> None then Some (OutboundArbiterDenied ''MANAGER_TAKEOVER'')
      else None)"

definition outbound_denial :: "moment \<Rightarrow> outbound_claim \<Rightarrow> conversation \<Rightarrow> outbox_message \<Rightarrow> exn option" where
  "outbound_denial moment claim c ob =
     (if o_delivery_status ob \<noteq> Out_PROCESSING \<or> o_lease_token ob \<noteq> Some (oc_lease_token claim) \<or>
         o_lease_version ob \<noteq> oc_lease_version claim
      then Some (StaleOutboundLeaseError ''OUTBOUND_STALE_LEASE'')
      else if o_destination_type ob \<notin> set LIVE_DESTINATIONS
      then Some (OutboundArbiterDenied ''UNSUPPORTED_DESTINATION'')
      else if o_delivery_status ob = Out_DELIVERED then Some (OutboundArbiterDenied ''ALREADY_DELIVERED'')
      else if (case o_not_before ob of None \<Rightarrow> False | Some nb \<Rightarrow> At moment < nb)
      then Some (OutboundArbiterDenied ''NOT_BEFORE'')
      else if (case o_context_version ob of None \<Rightarrow> False | Some v \<Rightarrow> v \<noteq> c_context_version c)
      then Some (OutboundArbiterDenied ''STALE_CONTEXT_VERSION'')
      else if o_manager_epoch ob \<noteq> c_manager_epoch c then Some (OutboundArbiterDenied ''STALE_MANAGER_EPOCH'')
      else if o_event_seq_hwm ob \<noteq> c_current_event_seq c
      then Some (OutboundArbiterDenied ''STALE_EVENT_SEQUENCE'')
      else if oc_manager_epoch claim \<noteq> o_manager_epoch ob
      then Some (StaleOutboundLeaseError ''OUTBOUND_STALE_MANAGER_EPOCH_CLAIM'')
      else if oc_event_seq_hwm claim \<noteq> o_event_seq_hwm ob
      then Some (StaleOutboundLeaseError ''OUTBOUND_STALE_EVENT_SEQUENCE_CLAIM'')
      else None)"

definition plan_denial :: "conversation \<Rightarrow> outbox_message \<Rightarrow> reply_plan option \<Rightarrow> exn option" where
  "plan_denial c ob found =
     (case found of
        None \<Rightarrow> Some (OutboundArbiterDenied ''REPLY_PLAN_MISSING'')
      | Some plan \<Rightarrow>
          if p_status plan \<noteq> Plan_DISPATCHED
          then Some (OutboundArbiterDenied (''REPLY_PLAN_'' @ plan_status_value (p_status plan)))
          else if p_context_version plan \<noteq> c_context_version c
          then Some (OutboundArbiterDenied ''REPLY_PLAN_STALE_CONTEXT'')
          else if p_manager_epoch plan \<noteq> o_manager_epoch ob
          then Some (OutboundArbiterDenied ''REPLY_PLAN_STALE_MANAGER_EPOCH'')
          else if p_event_seq_hwm plan \<noteq> o_event_seq_hwm ob
          then Some (OutboundArbiterDenied ''REPLY_PLAN_STALE_EVENT_SEQUENCE'')
          else None)"

definition deny_or :: "exn option \<Rightarrow> 'a session \<Rightarrow> 'a session" where
  "deny_or denial m = (case denial of Some x \<Rightarrow> db_raise x | None \<Rightarrow> m)"

definition admit_in_session :: "settings \<Rightarrow> env \<Rightarrow> outbound_claim \<Rightarrow> outbound_request session" where
  "admit_in_session st e claim =
     (if is_automatic_outbound_allowed (Some st) ''SEND_MESSAGE''
      then db_raise (OutboundArbiterDenied ''AUTO_OUTBOUND_UNEXPECTEDLY_ENABLED'')
      else
        db_bind (db_read (\<lambda>s. conv_get_by_id_for_update (oc_conversation_id claim) (db_conversations s))) (\<lambda>conv.
        (case conv of
           None \<Rightarrow> db_raise (OutboundArbiterDenied ''CONVERSATION_MISSING'')
         | Some c \<Rightarrow>
             deny_or (dialog_denial c)
             (db_bind (db_read (\<lambda>s. outbound_get_by_id (oc_outbound_id claim) (db_outbox s))) (\<lambda>found.
             (case found of
                None \<Rightarrow> db_raise (OutboundArbiterDenied ''OUTBOUND_MISSING'')
              | Some ob \<Rightarrow>
                  deny_or (outbound_denial (en_now e) claim c ob)
                  (db_bind (db_read (\<lambda>s. case o_reply_plan_id ob of
                       None \<Rightarrow> None
                     | Some pid \<Rightarrow> plan_denial c ob (plan_get_by_id pid (db_reply_plans s)))) (\<lambda>denial.
                  deny_or denial
                  (db_bind (on_outbox (mark_admitted_with_lease (oc_outbound_id claim)
                     (oc_lease_token claim) (oc_lease_version claim) (en_now e))) (\<lambda>admitted.
                  raise_or (request_from_outbound admitted) db_return))))))))))"

definition prepare_reclaimed_admission :: "outbound_claim \<Rightarrow> outbound_request session" where
  "prepare_reclaimed_admission claim =
     db_bind (lock_dialog (oc_conversation_id claim)) (\<lambda>_.
     db_bind (db_read (\<lambda>s. outbound_get_by_id (oc_outbound_id claim) (db_outbox s))) (\<lambda>found.
     (case found of
        None \<Rightarrow> db_raise (OutboundArbiterDenied ''OUTBOUND_MISSING'')
      | Some ob \<Rightarrow>
          if o_delivery_status ob \<noteq> Out_ADMITTED \<or> o_admitted_at ob = None \<or>
             o_lease_token ob \<noteq> Some (oc_lease_token claim) \<or> o_lease_version ob \<noteq> oc_lease_version claim
          then db_raise (StaleOutboundLeaseError ''OUTBOUND_STALE_LEASE'')
          else if o_destination_type ob \<notin> set LIVE_DESTINATIONS
          then db_raise (OutboundArbiterDenied ''UNSUPPORTED_DESTINATION'')
          else raise_or (request_from_outbound ob) db_return)))"

section \<open>Delivery\<close>

record world =
  w_db :: db
  w_sink :: sink
  w_vk_sends :: "(int \<times> string \<times> uuid) list"

definition in_session :: "(db \<Rightarrow> db) \<Rightarrow> 'a session \<Rightarrow> world \<Rightarrow> (exn + 'a) \<times> world" where
  "in_session others body w =
     (case session_scope body (others (w_db w)) of (r, d) \<Rightarrow> (r, w \<lparr> w_db := d \<rparr>))"

fun is_stale_outbound_lease :: "exn \<Rightarrow> bool" where
  "is_stale_outbound_lease (StaleOutboundLeaseError _) = True"
| "is_stale_outbound_lease _ = False"

definition OUTBOUND_DEFAULT_RETRY_DELAY_SECONDS :: int where
  "OUTBOUND_DEFAULT_RETRY_DELAY_SECONDS = 1"

text \<open>A failing session swallows a stale lease; any other exception takes the place of the first.\<close>

definition fail_then_raise :: "(db \<Rightarrow> db) \<Rightarrow> outbox_message session \<Rightarrow> exn \<Rightarrow> world \<Rightarrow> (exn + 'a) \<times> world" where
  "fail_then_raise others body x w =
     (case in_session others body w of
        (Inl y, w1) \<Rightarrow> if is_stale_outbound_lease y then (Inl x, w1) else (Inl y, w1)
      | (Inr _, w1) \<Rightarrow> (Inl x, w1))"

definition fail_claim :: "env \<Rightarrow> outbound_claim \<Rightarrow> outbox_message session" where
  "fail_claim e claim =
     on_outbox (outbound_fail_with_lease (oc_outbound_id claim) (oc_lease_token claim)
       (oc_lease_version claim) OUTBOUND_DEFAULT_RETRY_DELAY_SECONDS (en_now e))"

definition fail_admitted_delivery :: "env \<Rightarrow> outbound_claim \<Rightarrow> bool \<Rightarrow> outbox_message session" where
  "fail_admitted_delivery e claim permanent =
     on_outbox (fail_admitted_delivery_with_lease (oc_outbound_id claim) (oc_lease_token claim)
       (oc_lease_version claim) permanent OUTBOUND_DEFAULT_RETRY_DELAY_SECONDS (en_now e))"

definition obtain_request ::
  "settings \<Rightarrow> (nat \<Rightarrow> env) \<Rightarrow> (nat \<Rightarrow> db \<Rightarrow> db) \<Rightarrow> outbound_claim \<Rightarrow> world \<Rightarrow> (exn + outbound_request) \<times> world" where
  "obtain_request st es mw claim w =
     (if oc_delivery_status claim = Out_ADMITTED
      then in_session (mw 0) (prepare_reclaimed_admission claim) w
      else case in_session (mw 0) (admit_in_session st (es 0) claim) w of
             (Inr req, w1) \<Rightarrow> (Inr req, w1)
           | (Inl x, w1) \<Rightarrow>
               if is_stale_outbound_lease x then (Inl x, w1)
               else fail_then_raise (mw 5) (fail_claim (es 5) claim) x w1)"

definition vk_result_of :: "vk_send_result \<Rightarrow> outbound_result" where
  "vk_result_of r =
     (case vs_outcome r of
        Send_SUCCESS \<Rightarrow> \<lparr> rs_outcome = Sink_SUCCESS, rs_error_code = None,
                         rs_provider_message_id = vs_provider_message_id r \<rparr>
      | Send_TRANSIENT_ERROR \<Rightarrow>
          plain_result Sink_TRANSIENT_ERROR
            (Some (case vs_error_code r of
                     Some c \<Rightarrow> if c = [] then ''VK_CLIENT_SEND_TRANSIENT'' else c
                   | None \<Rightarrow> ''VK_CLIENT_SEND_TRANSIENT''))
      | Send_PERMANENT_ERROR \<Rightarrow>
          plain_result Sink_PERMANENT_ERROR
            (Some (case vs_error_code r of
                     Some c \<Rightarrow> if c = [] then ''VK_CLIENT_SEND_PERMANENT'' else c
                   | None \<Rightarrow> ''VK_CLIENT_SEND_PERMANENT'')))"

text \<open>\<open>send\<close> is the sender the arbiter was built with.\<close>

definition deliver_vk_client ::
  "settings \<Rightarrow> vk_outbound_config option \<Rightarrow> (int \<Rightarrow> string \<Rightarrow> uuid \<Rightarrow> exn + vk_send_result) \<Rightarrow> (db \<Rightarrow> db)
     \<Rightarrow> outbound_claim \<Rightarrow> outbound_request \<Rightarrow> world \<Rightarrow> (exn + outbound_result) \<times> world" where
  "deliver_vk_client st config send others claim req w =
     (case in_session others (db_read (\<lambda>s. conv_get_by_id_for_update (oc_conversation_id claim)
             (db_conversations s))) w of
        (Inl x, w1) \<Rightarrow> (Inl x, w1)
      | (Inr None, w1) \<Rightarrow> (Inr (plain_result Sink_PERMANENT_ERROR (Some ''CONVERSATION_MISSING'')), w1)
      | (Inr (Some c), w1) \<Rightarrow>
          (case config of
             None \<Rightarrow> (Inr (plain_result Sink_PERMANENT_ERROR (Some ''VK_CLIENT_SEND_GATE_DENIED'')), w1)
           | Some cfg \<Rightarrow>
               if \<not> vk_client_outbound_send_allowed st cfg (c_external_conversation_id c)
               then (Inr (plain_result Sink_PERMANENT_ERROR (Some ''VK_CLIENT_SEND_GATE_DENIED'')), w1)
               else (case vc_group_id cfg of
                 None \<Rightarrow> (Inl (AssertionError []), w1)
               | Some grp \<Rightarrow>
                   (case parse_vk_client_peer_id (c_external_conversation_id c) grp of
                      Inl _ \<Rightarrow> (Inr (plain_result Sink_PERMANENT_ERROR (Some ''VK_CLIENT_PEER_INVALID'')), w1)
                    | Inr peer \<Rightarrow>
                        (case rq_text req of
                           None \<Rightarrow> (Inr (plain_result Sink_PERMANENT_ERROR (Some ''OUTBOUND_REPLY_TEXT_MISSING'')), w1)
                         | Some msg \<Rightarrow>
                             if msg = []
                             then (Inr (plain_result Sink_PERMANENT_ERROR (Some ''OUTBOUND_REPLY_TEXT_MISSING'')), w1)
                             else let w2 = w1 \<lparr> w_vk_sends := w_vk_sends w1 @ [(peer, msg, oc_outbound_id claim)] \<rparr>
                                  in (case send peer msg (oc_outbound_id claim) of
                                        Inl x \<Rightarrow> (Inl x, w2)
                                      | Inr r \<Rightarrow> (Inr (vk_result_of r), w2)))))))"

definition store_provider_id :: "outbound_claim \<Rightarrow> int \<Rightarrow> unit session" where
  "store_provider_id claim n =
     db_bind (lock_dialog (oc_conversation_id claim)) (\<lambda>_.
     db_bind (on_outbox (set_vk_provider_message_id_with_lease (oc_outbound_id claim) (oc_lease_token claim)
                (oc_lease_version claim) n)) (\<lambda>_. db_return ()))"

abbreviation on_offers :: "(active_offer list \<Rightarrow> exn + ('a \<times> active_offer list)) \<Rightarrow> 'a session" where
  "on_offers \<equiv> on_table db_offers (\<lambda>t s. s \<lparr> db_offers := t \<rparr>)"

definition activation_denial :: "active_offer_activate_result \<Rightarrow> exn option" where
  "activation_denial act =
     (if ar_outcome act = REJECTED \<and> ar_reason_code act \<noteq> Some ''NOT_OFFER_SLOTS''
      then Some (OutboundArbiterDenied (take 64 (''ACTIVE_OFFER_'' @
             (case ar_reason_code act of None \<Rightarrow> ''REJECTED'' | Some c \<Rightarrow> if c = [] then ''REJECTED'' else c))))
      else None)"

definition record_delivery :: "env \<Rightarrow> outbound_claim \<Rightarrow> int option \<Rightarrow> (outbox_message \<times> uuid) session" where
  "record_delivery e claim provider_message_id =
     db_bind (lock_dialog (oc_conversation_id claim)) (\<lambda>_.
     db_bind (on_outbox (mark_delivered_with_lease (oc_outbound_id claim) (oc_lease_token claim)
                (oc_lease_version claim) provider_message_id)) (\<lambda>delivered.
     db_bind (on_offers (activate_from_delivered_outbound (en_now e) delivered)) (\<lambda>act.
     deny_or (activation_denial act)
     (let correlation_id = (case o_correlation_id delivered of
            Some corr \<Rightarrow> corr | None \<Rightarrow> en_mirror_correlation e)
      in db_bind (on_mirror (enqueue_outbound_delivered (en_mirror_id e) (en_now e)
                    (o_conversation_id delivered) (o_id delivered) (o_context_version delivered)
                    correlation_id)) (\<lambda>_.
         db_return (delivered, correlation_id))))))"

definition project_delivery :: "env \<Rightarrow> outbox_message \<Rightarrow> uuid \<Rightarrow> unit session" where
  "project_delivery e delivered corr =
     db_bind (db_read db_outbox) (\<lambda>obs.
     db_bind (on_projections (enqueue_bot_outbound_projection (en_chat_egress_enabled e)
                (en_projection_id e) (en_now e) (o_conversation_id delivered) (o_id delivered) corr obs))
       (\<lambda>_. db_return ()))"

record admit_outcome =
  aa_admitted :: bool
  aa_outbound_id :: uuid
  aa_delivery_status :: DeliveryStatus

text \<open>What follows a successful transport.\<close>

definition note_provider_id ::
  "(nat \<Rightarrow> db \<Rightarrow> db) \<Rightarrow> outbound_claim \<Rightarrow> outbound_result \<Rightarrow> world \<Rightarrow> (exn + unit) \<times> world" where
  "note_provider_id mw claim result w =
     (if oc_destination_type claim = VK_CLIENT_OUTBOUND
      then (case rs_provider_message_id result of
              Some n \<Rightarrow> if 0 < n then in_session (mw 2) (store_provider_id claim n) w else (Inr (), w)
            | None \<Rightarrow> (Inr (), w))
      else (Inr (), w))"

definition settle_delivery ::
  "(nat \<Rightarrow> env) \<Rightarrow> (nat \<Rightarrow> db \<Rightarrow> db) \<Rightarrow> outbound_claim \<Rightarrow> outbound_result \<Rightarrow> world \<Rightarrow> (exn + admit_outcome) \<times> world" where
  "settle_delivery es mw claim result w =
     (case note_provider_id mw claim result w of
        (Inl x, w1) \<Rightarrow> (Inl x, w1)
      | (Inr _, w1) \<Rightarrow>
          (case in_session (mw 3) (record_delivery (es 3) claim (rs_provider_message_id result)) w1 of
             (Inl x, w2) \<Rightarrow> (Inl x, w2)
           | (Inr (delivered, corr), w2) \<Rightarrow>
               let w3 = (if o_destination_type delivered = SYNTHETIC_OUTBOUND
                         then snd (in_session (mw 4) (project_delivery (es 4) delivered corr) w2) else w2)
               in (Inr \<lparr> aa_admitted = True, aa_outbound_id = o_id delivered,
                         aa_delivery_status = o_delivery_status delivered \<rparr>, w3)))"

definition admit_claimed ::
  "settings \<Rightarrow> vk_outbound_config option \<Rightarrow> (int \<Rightarrow> string \<Rightarrow> uuid \<Rightarrow> exn + vk_send_result) \<Rightarrow> (nat \<Rightarrow> env)
     \<Rightarrow> (nat \<Rightarrow> db \<Rightarrow> db) \<Rightarrow> outbound_claim \<Rightarrow> world \<Rightarrow> (exn + admit_outcome) \<times> world" where
  "admit_claimed st config send es mw claim w =
     (case obtain_request st es mw claim w of
        (Inl x, w1) \<Rightarrow> (Inl x, w1)
      | (Inr req, w1) \<Rightarrow>
          let transport =
            (if oc_destination_type claim = SYNTHETIC_OUTBOUND
             then (case sink_deliver req (w_sink w1) of (r, sk) \<Rightarrow> (Inr r, w1 \<lparr> w_sink := sk \<rparr>))
             else if oc_destination_type claim = VK_CLIENT_OUTBOUND
             then deliver_vk_client st config send (mw 1) claim req w1
             else fail_then_raise (mw 5) (fail_admitted_delivery (es 5) claim True)
                    (OutboundArbiterDenied ''UNSUPPORTED_DESTINATION'') w1)
          in case transport of
               (Inl x, w2) \<Rightarrow> (Inl x, w2)
             | (Inr result, w2) \<Rightarrow>
                 (case rs_outcome result of
                    Sink_TRANSIENT_ERROR \<Rightarrow>
                      fail_then_raise (mw 5) (fail_admitted_delivery (es 5) claim False)
                        (OutboundArbiterDenied (case rs_error_code result of
                           Some c \<Rightarrow> if c = [] then ''TRANSPORT_TRANSIENT'' else c
                         | None \<Rightarrow> ''TRANSPORT_TRANSIENT'')) w2
                  | Sink_PERMANENT_ERROR \<Rightarrow>
                      fail_then_raise (mw 5) (fail_admitted_delivery (es 5) claim True)
                        (OutboundArbiterDenied (case rs_error_code result of
                           Some c \<Rightarrow> if c = [] then ''TRANSPORT_PERMANENT'' else c
                         | None \<Rightarrow> ''TRANSPORT_PERMANENT'')) w2
                  | Sink_SUCCESS \<Rightarrow> settle_delivery es mw claim result w2))"

text \<open>\<open>OutboundWorker\<close>.\<close>

definition outbound_worker_claim_one ::
  "env \<Rightarrow> string \<Rightarrow> int \<Rightarrow> uuid \<Rightarrow> (uuid \<Rightarrow> bool) \<Rightarrow> (outbound_claim option) session" where
  "outbound_worker_claim_one e worker lease_seconds token locked =
     on_outbox (outbound_claim_next worker lease_seconds (en_now e) token locked)"

definition outbound_worker_process_claimed ::
  "settings \<Rightarrow> vk_outbound_config option \<Rightarrow> (int \<Rightarrow> string \<Rightarrow> uuid \<Rightarrow> exn + vk_send_result) \<Rightarrow> (nat \<Rightarrow> env)
     \<Rightarrow> (nat \<Rightarrow> db \<Rightarrow> db) \<Rightarrow> outbound_claim \<Rightarrow> world \<Rightarrow> (exn + admit_outcome) \<times> world" where
  "outbound_worker_process_claimed st config send es mw claim w = admit_claimed st config send es mw claim w"

section \<open>The sessions move the queues by their repositories and leave the dialogs alone\<close>

lemma keeps_deny_or [keeps_intros]: "keeps R m \<Longrightarrow> keeps R (deny_or denial m)"
  by (auto simp: deny_or_def intro!: keeps_intros)

lemma keeps_offers [keeps_intros]:
  "keeps queues_run (on_offers call)" "keeps dialogs_fixed (on_offers call)"
  by (auto simp: dialogs_fixed_def intro!: keeps_on_table queues_run_other)

lemma arbiter_sessions_queues:
  "keeps queues_run (admit_in_session st e claim)"
  "keeps queues_run (prepare_reclaimed_admission claim)"
  "keeps queues_run (store_provider_id claim n)"
  "keeps queues_run (record_delivery e claim pid)"
  "keeps queues_run (project_delivery e delivered corr)"
  "keeps queues_run (fail_claim e claim)"
  "keeps queues_run (fail_admitted_delivery e claim permanent)"
  "keeps queues_run (outbound_worker_claim_one e worker secs token locked)"
  by (auto simp: admit_in_session_def prepare_reclaimed_admission_def store_provider_id_def
      record_delivery_def project_delivery_def fail_claim_def fail_admitted_delivery_def
      outbound_worker_claim_one_def intro!: keeps_intros intro: queue_runs)

lemma arbiter_sessions_dialogs:
  "keeps dialogs_fixed (admit_in_session st e claim)"
  "keeps dialogs_fixed (prepare_reclaimed_admission claim)"
  "keeps dialogs_fixed (store_provider_id claim n)"
  "keeps dialogs_fixed (record_delivery e claim pid)"
  "keeps dialogs_fixed (project_delivery e delivered corr)"
  "keeps dialogs_fixed (fail_claim e claim)"
  "keeps dialogs_fixed (fail_admitted_delivery e claim permanent)"
  "keeps dialogs_fixed (outbound_worker_claim_one e worker secs token locked)"
  by (auto simp: admit_in_session_def prepare_reclaimed_admission_def store_provider_id_def
      record_delivery_def project_delivery_def fail_claim_def fail_admitted_delivery_def
      outbound_worker_claim_one_def intro!: keeps_intros)

section \<open>What a committed session did\<close>

lemma deny_or_Inr: "(deny_or denial m s = Inr r) = (denial = None \<and> m s = Inr r)"
  by (cases denial) (auto simp: deny_or_def db_raise_def)

lemma dialog_denial_None:
  "(dialog_denial c = None) = (c_ownership c = BOT \<and> c_status c = OPEN \<and> c_handoff_state c = BOT_ACTIVE \<and>
     c_manager_takeover_at c = None)"
  by (simp add: dialog_denial_def)

lemma outbound_denial_None:
  "(outbound_denial now claim c ob = None) =
     (o_delivery_status ob = Out_PROCESSING \<and> o_lease_token ob = Some (oc_lease_token claim) \<and>
      o_lease_version ob = oc_lease_version claim \<and> o_destination_type ob \<in> set LIVE_DESTINATIONS \<and>
      (\<forall>nb. o_not_before ob = Some nb \<longrightarrow> nb \<le> At now) \<and>
      o_context_version ob \<in> {None, Some (c_context_version c)} \<and>
      o_manager_epoch ob = c_manager_epoch c \<and> o_event_seq_hwm ob = c_current_event_seq c \<and>
      oc_manager_epoch claim = o_manager_epoch ob \<and> oc_event_seq_hwm claim = o_event_seq_hwm ob)"
  by (auto simp: outbound_denial_def split: option.splits)

lemma plan_denial_None:
  "(plan_denial c ob found = None) =
     (\<exists>plan. found = Some plan \<and> p_status plan = Plan_DISPATCHED \<and>
        p_context_version plan = c_context_version c \<and> p_manager_epoch plan = o_manager_epoch ob \<and>
        p_event_seq_hwm plan = o_event_seq_hwm ob)"
  by (auto simp: plan_denial_def split: option.splits)

lemmas denial_None = dialog_denial_None outbound_denial_None plan_denial_None

lemma admit_in_session_Inr:
  assumes "admit_in_session st e claim s = Inr (req, s')" and "distinct (map o_id (db_outbox s))"
  obtains c ob where "c \<in> set (db_conversations s)" and "c_id c = oc_conversation_id claim"
    and "dialog_denial c = None" and "outbound_get_by_id (oc_outbound_id claim) (db_outbox s) = Some ob"
    and "outbound_denial (en_now e) claim c ob = None"
    and "\<forall>pid. o_reply_plan_id ob = Some pid \<longrightarrow>
           plan_denial c ob (plan_get_by_id pid (db_reply_plans s)) = None"
    and "s' = s \<lparr> db_outbox := sql_put o_id (outbound_admit_row (en_now e) ob) (db_outbox s) \<rparr>"
    and "request_from_outbound (outbound_admit_row (en_now e) ob) = Inr req"
proof -
  obtain c ob row t where c: "conv_get_by_id_for_update (oc_conversation_id claim) (db_conversations s) = Some c"
    and ob: "outbound_get_by_id (oc_outbound_id claim) (db_outbox s) = Some ob"
    and den: "dialog_denial c = None" "outbound_denial (en_now e) claim c ob = None"
      "(case o_reply_plan_id ob of None \<Rightarrow> None
        | Some pid \<Rightarrow> plan_denial c ob (plan_get_by_id pid (db_reply_plans s))) = None"
    and adm: "mark_admitted_with_lease (oc_outbound_id claim) (oc_lease_token claim) (oc_lease_version claim)
      (en_now e) (db_outbox s) = Inr (row, t)" "s' = s \<lparr> db_outbox := t \<rparr>"
      "request_from_outbound row = Inr req"
    using assms(1)
    by (auto simp: admit_in_session_def session_simps branch_simps deny_or_Inr split: if_splits)
  from adm(1) assms(2) obtain r where r: "r \<in> set (db_outbox s)"
    "outbound_held (oc_outbound_id claim) (oc_lease_token claim) (oc_lease_version claim) r"
    "row = outbound_admit_row (en_now e) r" "t = sql_put o_id row (db_outbox s)"
    by (rule mark_admitted_Inr) auto
  have "r = ob"
    using sql_one_the_row [OF assms(2) r(1)] r(2) ob by (simp add: outbound_held_def outbound_get_by_id_def)
  moreover have "c \<in> set (db_conversations s)" "c_id c = oc_conversation_id claim"
    using c by (auto simp: conv_get_by_id_for_update_def dest: sql_one_Some)
  ultimately show ?thesis
    using den ob adm r by (intro that [of c ob]) (auto split: option.splits)
qed

lemma prepare_reclaimed_Inr:
  assumes "prepare_reclaimed_admission claim s = Inr (req, s')"
  obtains ob where "s' = s" and "outbound_get_by_id (oc_outbound_id claim) (db_outbox s) = Some ob"
    and "o_delivery_status ob = Out_ADMITTED" and "o_admitted_at ob \<noteq> None"
    and "o_lease_token ob = Some (oc_lease_token claim)" and "o_lease_version ob = oc_lease_version claim"
    and "o_destination_type ob \<in> set LIVE_DESTINATIONS" and "request_from_outbound ob = Inr req"
  using assms
  by (auto simp: prepare_reclaimed_admission_def session_simps branch_simps split: if_splits)

text \<open>The admitted row of a claim, and how a request was obtained.\<close>

definition admitted_for :: "outbound_claim \<Rightarrow> outbound_request \<Rightarrow> db \<Rightarrow> bool" where
  "admitted_for claim req s =
     (\<exists>row. outbound_get_by_id (oc_outbound_id claim) (db_outbox s) = Some row \<and>
        outbound_admitted_held (oc_outbound_id claim) (oc_lease_token claim) (oc_lease_version claim) row \<and>
        request_from_outbound row = Inr req)"

lemma in_session_Inr:
  "(in_session others body w = (Inr x, w')) = (\<exists>d. body (others (w_db w)) = Inr (x, d) \<and> w' = w \<lparr> w_db := d \<rparr>)"
  by (auto simp: in_session_def session_scope_def split: sum.splits)

lemma in_session_frame:
  assumes "in_session others body w = (r, w')"
  shows "w_sink w' = w_sink w" and "w_vk_sends w' = w_vk_sends w"
  using assms by (auto simp: in_session_def split: prod.splits)

lemma in_session_queues:
  assumes "in_session others body w = (r, w')" and "keeps queues_run body" and "\<And>x. queues_run x (others x)"
  shows "queues_run (w_db w) (w_db w')"
  using assms queues.keeps_scope [OF assms(2)] queues.rel_trans
  by (auto simp: in_session_def split: prod.splits) blast

lemma fail_then_raise_frame:
  assumes "fail_then_raise others body x w = (r, w')"
  shows "w_sink w' = w_sink w" and "w_vk_sends w' = w_vk_sends w" and "\<exists>y. r = Inl y"
  using assms in_session_frame
  by (auto simp: fail_then_raise_def split: sum.splits prod.splits if_splits)

lemma obtain_request_Inr:
  assumes "obtain_request st es mw claim w = (Inr req, w')"
    and "outbound_run\<^sup>*\<^sup>* [] (db_outbox (w_db w))" and "\<And>k x. queues_run x (mw k x)"
  shows "admitted_for claim req (w_db w') \<and> w_sink w' = w_sink w \<and> w_vk_sends w' = w_vk_sends w"
proof -
  have reach: "outbound_run\<^sup>*\<^sup>* [] (db_outbox (mw 0 (w_db w)))"
    using assms(2) assms(3) [of "w_db w" 0] by (auto simp: queues_run_def)
  note d = outbound_reachable_distinct [OF reach]
  show ?thesis
  proof (cases "oc_delivery_status claim = Out_ADMITTED")
    case True
    with assms(1) have s: "in_session (mw 0) (prepare_reclaimed_admission claim) w = (Inr req, w')"
      by (simp add: obtain_request_def)
    then obtain d' where "prepare_reclaimed_admission claim (mw 0 (w_db w)) = Inr (req, d')" "w_db w' = d'"
      by (auto simp: in_session_Inr)
    then show ?thesis
      using in_session_frame [OF s]
      by (elim prepare_reclaimed_Inr)
        (auto simp: admitted_for_def outbound_admitted_held_def outbound_get_by_id_def dest: sql_one_Some)
  next
    case False
    with assms(1) have s: "in_session (mw 0) (admit_in_session st (es 0) claim) w = (Inr req, w')"
      using fail_then_raise_frame(3)
      by (fastforce simp: obtain_request_def split: sum.splits prod.splits if_splits)
    then obtain d' where adm: "admit_in_session st (es 0) claim (mw 0 (w_db w)) = Inr (req, d')" "w_db w' = d'"
      by (auto simp: in_session_Inr)
    from adm(1) d obtain c ob where ob:
      "outbound_get_by_id (oc_outbound_id claim) (db_outbox (mw 0 (w_db w))) = Some ob"
      "outbound_denial (en_now (es 0)) claim c ob = None"
      "db_outbox d' = sql_put o_id (outbound_admit_row (en_now (es 0)) ob) (db_outbox (mw 0 (w_db w)))"
      "request_from_outbound (outbound_admit_row (en_now (es 0)) ob) = Inr req"
      by (rule admit_in_session_Inr) auto
    have row: "ob \<in> set (db_outbox (mw 0 (w_db w)))" "o_id ob = oc_outbound_id claim"
      using ob(1) by (auto simp: outbound_get_by_id_def dest: sql_one_Some)
    have "outbound_get_by_id (oc_outbound_id claim) (db_outbox d') = Some (outbound_admit_row (en_now (es 0)) ob)"
      using sql_one_put [OF row(1), of o_id "outbound_admit_row (en_now (es 0)) ob"] row(2) ob(3)
      by (simp add: outbound_get_by_id_def)
    with ob(2,4) row(2) adm(2) show ?thesis
      using in_session_frame [OF s]
      by (auto simp: admitted_for_def outbound_admitted_held_def outbound_denial_None outbound_admit_row_def)
  qed
qed

lemma sends_only_by_vk:
  assumes "deliver_vk_client st config send others claim req w = (r, w')"
  shows "w_sink w' = w_sink w \<and>
    (w_vk_sends w' = w_vk_sends w \<or>
     (\<exists>cfg c grp peer msg. config = Some cfg \<and> c \<in> set (db_conversations (others (w_db w))) \<and>
        c_id c = oc_conversation_id claim \<and>
        vk_client_outbound_send_allowed st cfg (c_external_conversation_id c) \<and>
        vc_group_id cfg = Some grp \<and> parse_vk_client_peer_id (c_external_conversation_id c) grp = Inr peer \<and>
        rq_text req = Some msg \<and> msg \<noteq> [] \<and>
        w_vk_sends w' = w_vk_sends w @ [(peer, msg, oc_outbound_id claim)]))"
proof -
  define found where "found = conv_get_by_id_for_update (oc_conversation_id claim) (db_conversations (others (w_db w)))"
  let ?w1 = "w \<lparr> w_db := others (w_db w) \<rparr>"
  have read: "in_session others (db_read (\<lambda>s. conv_get_by_id_for_update (oc_conversation_id claim)
      (db_conversations s))) w = (Inr found, ?w1)"
    by (simp add: in_session_def session_scope_def db_read_def found_def)
  show ?thesis
  proof (cases found)
    case None
    with assms read show ?thesis by (auto simp: deliver_vk_client_def)
  next
    case (Some c)
    have c: "c \<in> set (db_conversations (others (w_db w)))" "c_id c = oc_conversation_id claim"
      using Some by (auto simp: found_def conv_get_by_id_for_update_def dest: sql_one_Some)
    show ?thesis
    proof (cases "\<exists>cfg grp peer msg. config = Some cfg \<and>
        vk_client_outbound_send_allowed st cfg (c_external_conversation_id c) \<and> vc_group_id cfg = Some grp \<and>
        parse_vk_client_peer_id (c_external_conversation_id c) grp = Inr peer \<and> rq_text req = Some msg \<and> msg \<noteq> []")
      case True
      then obtain cfg grp peer msg where q: "config = Some cfg"
        "vk_client_outbound_send_allowed st cfg (c_external_conversation_id c)" "vc_group_id cfg = Some grp"
        "parse_vk_client_peer_id (c_external_conversation_id c) grp = Inr peer" "rq_text req = Some msg" "msg \<noteq> []"
        by blast
      with assms read Some have "w_sink w' = w_sink w \<and> w_vk_sends w' = w_vk_sends w @ [(peer, msg, oc_outbound_id claim)]"
        by (auto simp: deliver_vk_client_def Let_def split: sum.splits)
      with q c show ?thesis by blast
    next
      case False
      with assms read Some have "w_sink w' = w_sink w \<and> w_vk_sends w' = w_vk_sends w"
        by (auto simp: deliver_vk_client_def Let_def split: option.splits sum.splits if_splits)
      then show ?thesis by blast
    qed
  qed
qed

lemma settle_delivery_frame:
  assumes "settle_delivery es mw claim result w = (r, w')"
  shows "w_sink w' = w_sink w" and "w_vk_sends w' = w_vk_sends w"
proof -
  obtain r1 w1 where first: "note_provider_id mw claim result w = (r1, w1)"
    by (metis surj_pair)
  obtain r2 w2 where second:
    "in_session (mw 3) (record_delivery (es 3) claim (rs_provider_message_id result)) w1 = (r2, w2)"
    by (metis surj_pair)
  have "w_sink w1 = w_sink w \<and> w_vk_sends w1 = w_vk_sends w"
    using first in_session_frame [of "mw 2" _ w r1 w1] by (auto simp: note_provider_id_def split: if_splits option.splits)
  moreover have "w_sink w2 = w_sink w1 \<and> w_vk_sends w2 = w_vk_sends w1"
    using in_session_frame [OF second] by simp
  moreover have "w_sink (snd (in_session f b w2)) = w_sink w2 \<and> w_vk_sends (snd (in_session f b w2)) = w_vk_sends w2"
    for f and b :: "unit session"
    using in_session_frame [of f b w2 "fst (in_session f b w2)" "snd (in_session f b w2)"] by simp
  ultimately show "w_sink w' = w_sink w" and "w_vk_sends w' = w_vk_sends w"
    using assms unfolding settle_delivery_def first
    by (auto simp: second Let_def split: sum.splits if_splits prod.splits)
qed

text \<open>The transport step of a call, and what follows leaves both transports alone.\<close>

definition hand_over ::
  "settings \<Rightarrow> vk_outbound_config option \<Rightarrow> (int \<Rightarrow> string \<Rightarrow> uuid \<Rightarrow> exn + vk_send_result) \<Rightarrow> (nat \<Rightarrow> env)
     \<Rightarrow> (nat \<Rightarrow> db \<Rightarrow> db) \<Rightarrow> outbound_claim \<Rightarrow> outbound_request \<Rightarrow> world \<Rightarrow> (exn + outbound_result) \<times> world" where
  "hand_over st config send es mw claim req w1 =
     (if oc_destination_type claim = SYNTHETIC_OUTBOUND
      then (case sink_deliver req (w_sink w1) of (r, sk) \<Rightarrow> (Inr r, w1 \<lparr> w_sink := sk \<rparr>))
      else if oc_destination_type claim = VK_CLIENT_OUTBOUND
      then deliver_vk_client st config send (mw 1) claim req w1
      else fail_then_raise (mw 5) (fail_admitted_delivery (es 5) claim True)
             (OutboundArbiterDenied ''UNSUPPORTED_DESTINATION'') w1)"

lemma admit_claimed_transport:
  assumes "admit_claimed st config send es mw claim w = (r, w')"
  obtains (refused) w1 x where "obtain_request st es mw claim w = (Inl x, w1)"
      and "w_sink w' = w_sink w" and "w_vk_sends w' = w_vk_sends w"
    | (handed) req w1 h w2 where "obtain_request st es mw claim w = (Inr req, w1)"
      and "hand_over st config send es mw claim req w1 = (h, w2)"
      and "w_sink w' = w_sink w2" and "w_vk_sends w' = w_vk_sends w2"
proof (cases "obtain_request st es mw claim w")
  case (Pair o1 w1)
  show ?thesis
  proof (cases o1)
    case (Inl x)
    have frame: "w_sink w1 = w_sink w \<and> w_vk_sends w1 = w_vk_sends w"
    proof (cases "oc_delivery_status claim = Out_ADMITTED")
      case True
      with Pair show ?thesis using in_session_frame by (auto simp: obtain_request_def)
    next
      case False
      obtain o2 w2 where s: "in_session (mw 0) (admit_in_session st (es 0) claim) w = (o2, w2)"
        by (metis surj_pair)
      with Pair Inl False show ?thesis
        using in_session_frame [OF s] fail_then_raise_frame(1,2) [of "mw 5" "fail_claim (es 5) claim" _ w2]
        by (auto simp: obtain_request_def split: sum.splits if_splits)
    qed
    with assms Pair Inl show ?thesis
      by (intro refused [of x w1]) (auto simp: admit_claimed_def)
  next
    case (Inr req)
    obtain h w2 where h: "hand_over st config send es mw claim req w1 = (h, w2)"
      by (metis surj_pair)
    have "w_sink w' = w_sink w2 \<and> w_vk_sends w' = w_vk_sends w2"
      using assms fail_then_raise_frame(1,2) settle_delivery_frame
      by (auto simp: admit_claimed_def Pair Inr hand_over_def [symmetric] Let_def h
          split: sum.splits SyntheticOutboundOutcome.splits)
    with Pair Inr h handed show ?thesis by blast
  qed
qed

lemma admit_claimed_Inr:
  assumes "admit_claimed st config send es mw claim w = (Inr out, w')"
  obtains req w1 result w2 where "obtain_request st es mw claim w = (Inr req, w1)"
    and "hand_over st config send es mw claim req w1 = (Inr result, w2)"
    and "settle_delivery es mw claim result w2 = (Inr out, w')"
proof -
  obtain o1 w1 h w2 where o1: "obtain_request st es mw claim w = (o1, w1)"
    and h: "hand_over st config send es mw claim (projr o1) w1 = (h, w2)"
    by (metis surj_pair)
  have not_fail: "fail_then_raise others body x v \<noteq> (Inr out, v')" for others body x v v'
    using fail_then_raise_frame(3) by fastforce
  obtain req where req: "o1 = Inr req"
    using assms o1 by (cases o1) (auto simp: admit_claimed_def)
  obtain result where result: "h = Inr result"
    using assms o1 h req by (cases h) (auto simp: admit_claimed_def hand_over_def [symmetric])
  have "settle_delivery es mw claim result w2 = (Inr out, w')"
    using assms o1 h req result not_fail
    by (cases "rs_outcome result") (auto simp: admit_claimed_def hand_over_def [symmetric])
  with o1 h req result that show ?thesis by auto
qed

lemma hand_over_calls:
  assumes "hand_over st config send es mw claim req w = (h, w')"
  shows "sk_calls (w_sink w') = sk_calls (w_sink w) \<or>
    oc_destination_type claim = SYNTHETIC_OUTBOUND \<and> sk_calls (w_sink w') = sk_calls (w_sink w) @ [req]"
  using assms sends_only_by_vk [of st config send "mw 1" claim req w h w']
    fail_then_raise_frame(1) [of "mw 5" "fail_admitted_delivery (es 5) claim True" _ w h w']
  by (auto simp: hand_over_def sink_deliver_def Let_def split: if_splits SyntheticOutboundOutcome.splits)

lemma mirror_enqueued_key:
  "mirror_enqueue_event i now ty k sid cid cv st key corr t = Inr ((job, created), t') \<Longrightarrow>
     \<exists>job \<in> set t'. j_mirror_key job = key"
  by (auto simp: mirror_enqueue_event_def mirror_get_by_mirror_key_def mirror_new_row_def
      split: sum.splits elim!: mirror_enqueue_cases dest!: sql_one_Some)

lemma mirror_key_stays:
  assumes "mirror_run\<^sup>*\<^sup>* t t'" and "distinct (map j_id t)" and "job \<in> set t"
  shows "\<exists>job' \<in> set t'. j_mirror_key job' = j_mirror_key job"
proof -
  obtain job' where "job' \<in> set t'" and steps: "mirror_step\<^sup>*\<^sup>* job job'"
    using evolves_member [OF mirror.runs_evolve [OF assms(1,2)] assms(3)] by blast
  moreover have "j_mirror_key job' = j_mirror_key job"
    using steps by (induction rule: rtranclp_induct) (auto dest!: mirror_step_keys simp: mirror_keys_def)
  ultimately show ?thesis by blast
qed

lemma record_delivery_Inr:
  assumes "record_delivery e claim pid s = Inr ((delivered, corr), s')" and "distinct (map o_id (db_outbox s))"
  shows "outbound_get_by_id (oc_outbound_id claim) (db_outbox s') = Some delivered \<and>
    o_id delivered = oc_outbound_id claim \<and> o_delivery_status delivered = Out_DELIVERED \<and>
    o_lease_token delivered = None \<and> o_admitted_at delivered \<noteq> None \<and>
    (\<exists>job \<in> set (db_mirror s'). j_mirror_key job = outbound_delivered_mirror_key (oc_outbound_id claim))"
proof -
  obtain t act f job created m where
    del: "mark_delivered_with_lease (oc_outbound_id claim) (oc_lease_token claim) (oc_lease_version claim) pid
        (db_outbox s) = Inr (delivered, t)"
    and enq: "enqueue_outbound_delivered (en_mirror_id e) (en_now e) (o_conversation_id delivered)
        (o_id delivered) (o_context_version delivered) corr (db_mirror s) = Inr ((job, created), m)"
    and s': "db_outbox s' = t" "db_mirror s' = m"
    using assms(1)
    by (auto simp: record_delivery_def session_simps branch_simps deny_or_Inr Let_def)
  from del assms(2) obtain r where r: "r \<in> set (db_outbox s)"
    "outbound_admitted_held (oc_outbound_id claim) (oc_lease_token claim) (oc_lease_version claim) r"
    "delivered = outbound_deliver_row pid r" "t = sql_put o_id delivered (db_outbox s)"
    by (rule mark_delivered_Inr)
  have id: "o_id delivered = oc_outbound_id claim"
    using r(2,3) by (simp add: outbound_admitted_held_def)
  have "outbound_get_by_id (oc_outbound_id claim) t = Some delivered"
    using sql_one_put [OF r(1), of o_id delivered] r(3,4) id by (simp add: outbound_get_by_id_def)
  moreover have "\<exists>job \<in> set m. j_mirror_key job = outbound_delivered_mirror_key (oc_outbound_id claim)"
    using enq id mirror_enqueued_key by (auto simp: enqueue_outbound_delivered_def)
  ultimately show ?thesis
    using r(2,3) id s' by (auto simp: outbound_admitted_held_def)
qed

lemma settle_delivery_Inr:
  assumes "settle_delivery es mw claim result w = (Inr out, w')"
    and "outbound_run\<^sup>*\<^sup>* [] (db_outbox (w_db w))" and "mirror_run\<^sup>*\<^sup>* [] (db_mirror (w_db w))"
    and "\<And>k x. queues_run x (mw k x)"
  obtains delivered corr d0 d where
    "record_delivery (es 3) claim (rs_provider_message_id result) d0 = Inr ((delivered, corr), d)"
    and "queues_run (w_db w) d0" and "queues_run d (w_db w')"
    and "out = \<lparr> aa_admitted = True, aa_outbound_id = o_id delivered,
                 aa_delivery_status = o_delivery_status delivered \<rparr>"
proof -
  obtain r1 w1 where first: "note_provider_id mw claim result w = (r1, w1)"
    by (metis surj_pair)
  have q1: "queues_run (w_db w) (w_db w1)"
    using first in_session_queues [OF _ arbiter_sessions_queues(3) assms(4)] queues.rel_refl
    by (auto simp: note_provider_id_def split: if_splits option.splits)
  obtain r2 w2 where second:
    "in_session (mw 3) (record_delivery (es 3) claim (rs_provider_message_id result)) w1 = (r2, w2)"
    by (metis surj_pair)
  obtain delivered corr where r2: "r2 = Inr (delivered, corr)"
    and out: "out = \<lparr> aa_admitted = True, aa_outbound_id = o_id delivered,
                      aa_delivery_status = o_delivery_status delivered \<rparr>"
    and w': "w' = w2 \<or> w' = snd (in_session (mw 4) (project_delivery (es 4) delivered corr) w2)"
    using assms(1) unfolding settle_delivery_def first
    by (auto simp: second Let_def split: sum.splits prod.splits if_splits)
  have rec: "record_delivery (es 3) claim (rs_provider_message_id result) (mw 3 (w_db w1)) =
      Inr ((delivered, corr), w_db w2)"
    using second r2 by (auto simp: in_session_Inr)
  have q2: "queues_run (w_db w) (mw 3 (w_db w1))"
    using q1 assms(4) queues.rel_trans by blast
  have q3: "queues_run (w_db w2) (w_db w')"
  proof -
    have "queues_run (w_db w2) (w_db (snd (in_session (mw 4) (project_delivery (es 4) delivered corr) w2)))"
      by (rule in_session_queues [OF prod.collapse [symmetric] arbiter_sessions_queues(5)]) (rule assms(4))
    with w' queues.rel_refl show ?thesis by auto
  qed
  from that [OF rec q2 q3 out] show ?thesis .
qed

lemma fail_then_raise_queues:
  assumes "fail_then_raise others body x w = (r, w')" and "keeps queues_run body" and "\<And>x. queues_run x (others x)"
  shows "queues_run (w_db w) (w_db w')"
  using assms(1) in_session_queues [OF _ assms(2,3), of w]
  by (auto simp: fail_then_raise_def split: sum.splits prod.splits if_splits)

lemma obtain_request_queues:
  assumes "obtain_request st es mw claim w = (r, w')" and "\<And>k x. queues_run x (mw k x)"
  shows "queues_run (w_db w) (w_db w')"
proof -
  obtain o2 w2 where s: "in_session (mw 0) (admit_in_session st (es 0) claim) w = (o2, w2)"
    by (metis surj_pair)
  have "queues_run (w_db w2) (w_db w')" if "fail_then_raise (mw 5) (fail_claim (es 5) claim) x w2 = (r, w')" for x
    using fail_then_raise_queues [OF that arbiter_sessions_queues(6) assms(2)] .
  with assms(1) s in_session_queues [OF s arbiter_sessions_queues(1) assms(2)]
    in_session_queues [OF _ arbiter_sessions_queues(2) assms(2), of _ claim w] queues.rel_trans
  show ?thesis
    by (auto simp: obtain_request_def split: sum.splits if_splits)
qed

lemma hand_over_queues:
  assumes "hand_over st config send es mw claim req w = (h, w')" and "\<And>k x. queues_run x (mw k x)"
  shows "queues_run (w_db w) (w_db w')"
proof -
  have "queues_run (w_db w) (w_db w')" if "deliver_vk_client st config send (mw 1) claim req w = (h, w')"
  proof -
    have "w_db w' = mw 1 (w_db w)"
      using that
      by (auto simp: deliver_vk_client_def in_session_def session_scope_def db_read_def Let_def
          split: option.splits sum.splits if_splits)
    with assms(2) show ?thesis by simp
  qed
  with assms(1) fail_then_raise_queues [OF _ arbiter_sessions_queues(7) assms(2)] queues.rel_refl
  show ?thesis
    by (auto simp: hand_over_def split: if_splits prod.splits)
qed

lemma mark_delivered_current:
  assumes "distinct (map o_id t)" and "outbound_get_by_id i t = Some row" and "outbound_admitted_held i token v row"
  shows "mark_delivered_with_lease i token v None t =
    Inr (outbound_deliver_row None row, sql_put o_id (outbound_deliver_row None row) t)"
proof -
  have row: "row \<in> set t" "o_id row = i"
    using assms(2) by (auto simp: outbound_get_by_id_def dest: sql_one_Some)
  have "sql_count (outbound_admitted_held i token v) t \<noteq> 0"
    using row assms(3) by (auto simp: sql_count_0)
  moreover have "sql_update (outbound_admitted_held i token v) (outbound_deliver_row None) t =
      sql_put o_id (outbound_deliver_row None row) t"
    using assms(1,3) row by (intro sql_update_current) (auto simp: outbound_admitted_held_def)
  moreover have "outbound_get_by_id i (sql_put o_id (outbound_deliver_row None row) t) = Some (outbound_deliver_row None row)"
    using sql_one_put [OF row(1), of o_id "outbound_deliver_row None row"] row(2) by (simp add: outbound_get_by_id_def)
  ultimately show ?thesis
    by (simp add: mark_delivered_with_lease_def outbound_fenced_update_def outbound_transition_allowed_def)
qed

section \<open>Properties\<close>

text \<open>
  C16. A message is admitted only while everything it was computed under still holds. In the
  transaction that admits an outbound row, the dialog is open, the bot's, not in handoff and without
  takeover; the row is leased by this very claim, due, and its context version, manager epoch and
  event number are those of the dialog; the plan it answers was dispatched under the same fences; and
  the row the transaction leaves is \<open>ADMITTED\<close> at the instant of the transaction.
\<close>

theorem admission_only_when_current:
  assumes "outbound_run\<^sup>*\<^sup>* [] (db_outbox s)" and "admit_in_session st e claim s = Inr (req, s')"
  shows "\<exists>c ob. c \<in> set (db_conversations s) \<and> c_id c = oc_conversation_id claim \<and>
    c_ownership c = BOT \<and> c_status c = OPEN \<and> c_handoff_state c = BOT_ACTIVE \<and> c_manager_takeover_at c = None \<and>
    outbound_get_by_id (oc_outbound_id claim) (db_outbox s) = Some ob \<and>
    outbound_held (oc_outbound_id claim) (oc_lease_token claim) (oc_lease_version claim) ob \<and>
    (case o_not_before ob of None \<Rightarrow> True | Some nb \<Rightarrow> nb \<le> At (en_now e)) \<and>
    o_context_version ob \<in> {None, Some (c_context_version c)} \<and>
    o_manager_epoch ob = c_manager_epoch c \<and> o_event_seq_hwm ob = c_current_event_seq c \<and>
    (case o_reply_plan_id ob of
       None \<Rightarrow> True
     | Some pid \<Rightarrow> \<exists>plan. plan_get_by_id pid (db_reply_plans s) = Some plan \<and> p_status plan = Plan_DISPATCHED \<and>
         p_context_version plan = c_context_version c \<and> p_manager_epoch plan = c_manager_epoch c \<and>
         p_event_seq_hwm plan = c_current_event_seq c) \<and>
    outbound_get_by_id (oc_outbound_id claim) (db_outbox s') =
      Some (ob \<lparr> o_delivery_status := Out_ADMITTED, o_admitted_at := Some (en_now e) \<rparr>)"
proof -
  note d = outbound_reachable_distinct [OF assms(1)]
  from assms(2) d obtain c ob where c: "c \<in> set (db_conversations s)" "c_id c = oc_conversation_id claim"
    "dialog_denial c = None"
    and ob: "outbound_get_by_id (oc_outbound_id claim) (db_outbox s) = Some ob"
      "outbound_denial (en_now e) claim c ob = None"
    and plan: "\<forall>pid. o_reply_plan_id ob = Some pid \<longrightarrow> plan_denial c ob (plan_get_by_id pid (db_reply_plans s)) = None"
    and s': "s' = s \<lparr> db_outbox := sql_put o_id (outbound_admit_row (en_now e) ob) (db_outbox s) \<rparr>"
    by (rule admit_in_session_Inr)
  have row: "ob \<in> set (db_outbox s)" "o_id ob = oc_outbound_id claim"
    using ob(1) by (auto simp: outbound_get_by_id_def dest: sql_one_Some)
  have "outbound_get_by_id (oc_outbound_id claim) (db_outbox s') = Some (outbound_admit_row (en_now e) ob)"
    using sql_one_put [OF row(1), of o_id "outbound_admit_row (en_now e) ob"] row(2)
    by (simp add: s' outbound_get_by_id_def)
  with c ob plan row show ?thesis
    by (intro exI [of _ c] exI [of _ ob])
      (auto simp: denial_None outbound_held_def outbound_admit_row_def split: option.splits)
qed

text \<open>
  C17. Nothing is handed to a transport before its admission is durable. If a call of the arbiter
  reached the sink or the VK sender, then a committed transaction before it left the row \<open>ADMITTED\<close>
  under the lease of the claim, the transport was reached once, and what it was given is the text
  stored in that row.
\<close>

theorem transport_only_after_admission:
  assumes "outbound_run\<^sup>*\<^sup>* [] (db_outbox (w_db w))" and "\<And>k x. queues_run x (mw k x)"
    and "admit_claimed st config send es mw claim w = (r, w')"
    and "sk_calls (w_sink w') \<noteq> sk_calls (w_sink w) \<or> w_vk_sends w' \<noteq> w_vk_sends w"
  shows "\<exists>req w1. obtain_request st es mw claim w = (Inr req, w1) \<and> admitted_for claim req (w_db w1) \<and>
    (sk_calls (w_sink w') = sk_calls (w_sink w) @ [req] \<and> w_vk_sends w' = w_vk_sends w \<or>
     sk_calls (w_sink w') = sk_calls (w_sink w) \<and>
     (\<exists>peer msg. rq_text req = Some msg \<and> w_vk_sends w' = w_vk_sends w @ [(peer, msg, oc_outbound_id claim)]))"
  using assms(3)
proof (cases rule: admit_claimed_transport)
  case (refused w1 x)
  with assms(4) show ?thesis by simp
next
  case (handed req w1 h w2)
  have adm: "admitted_for claim req (w_db w1)" and frame: "w_sink w1 = w_sink w" "w_vk_sends w1 = w_vk_sends w"
    using obtain_request_Inr [OF handed(1) assms(1,2)] by simp_all
  show ?thesis
  proof (cases "oc_destination_type claim = SYNTHETIC_OUTBOUND")
    case True
    then have "w_vk_sends w2 = w_vk_sends w1"
      using handed(2) by (auto simp: hand_over_def split: prod.splits)
    with hand_over_calls [OF handed(2)] handed assms(4) adm frame show ?thesis by auto
  next
    case False
    have "w_sink w2 = w_sink w1 \<and> (w_vk_sends w2 = w_vk_sends w1 \<or>
        (\<exists>peer msg. rq_text req = Some msg \<and> w_vk_sends w2 = w_vk_sends w1 @ [(peer, msg, oc_outbound_id claim)]))"
      using handed(2) False sends_only_by_vk [of st config send "mw 1" claim req w1 h w2]
        fail_then_raise_frame [of "mw 5" "fail_admitted_delivery (es 5) claim True" _ w1 h w2]
      by (auto simp: hand_over_def split: if_splits)
    with handed assms(4) adm frame show ?thesis by auto
  qed
qed

text \<open>
  C18. A VK message is sent only through the narrow gate. If a call of the arbiter sent to VK, then it
  sent once, outbound was enabled, the emergency lock was off, the mode was \<open>AUTO_WRITE\<close>, the dialog of
  the claim is the one allowlisted dialog, and the receiver is the positive peer number that the
  external id of this dialog spells.
\<close>

theorem vk_send_only_through_gate:
  assumes "admit_claimed st config send es mw claim w = (r, w')" and "w_vk_sends w' \<noteq> w_vk_sends w"
    and "outbound_run\<^sup>*\<^sup>* [] (db_outbox (w_db w))" and "\<And>k x. queues_run x (mw k x)"
  shows "\<exists>req w1 cfg c grp peer msg. obtain_request st es mw claim w = (Inr req, w1) \<and>
    c \<in> set (db_conversations (mw 1 (w_db w1))) \<and> c_id c = oc_conversation_id claim \<and>
    config = Some cfg \<and> vc_outbound_enabled cfg \<and> \<not> st_emergency_lock st \<and>
    st_bot_mode st = Mode_AUTO_WRITE \<and>
    vc_allow_conversation cfg = Some (c_external_conversation_id c) \<and> vc_group_id cfg = Some grp \<and>
    parse_vk_client_peer_id (c_external_conversation_id c) grp = Inr peer \<and> 0 < peer \<and>
    w_vk_sends w' = w_vk_sends w @ [(peer, msg, oc_outbound_id claim)]"
  using assms(1)
proof (cases rule: admit_claimed_transport)
  case (refused w1 x)
  with assms(2) show ?thesis by simp
next
  case (handed req w1 h w2)
  have frame: "w_vk_sends w1 = w_vk_sends w"
    using obtain_request_Inr [OF handed(1) assms(3,4)] by simp
  have changed: "w_vk_sends w2 \<noteq> w_vk_sends w1"
    using assms(2) handed frame by simp
  have "deliver_vk_client st config send (mw 1) claim req w1 = (h, w2)"
    using handed(2) changed fail_then_raise_frame(2) [of "mw 5" "fail_admitted_delivery (es 5) claim True" _ w1 h w2]
    by (auto simp: hand_over_def split: if_splits prod.splits)
  from sends_only_by_vk [OF this] changed obtain cfg c grp peer msg where q: "config = Some cfg"
    "c \<in> set (db_conversations (mw 1 (w_db w1)))" "c_id c = oc_conversation_id claim"
    "vk_client_outbound_send_allowed st cfg (c_external_conversation_id c)" "vc_group_id cfg = Some grp"
    "parse_vk_client_peer_id (c_external_conversation_id c) grp = Inr peer"
    "w_vk_sends w2 = w_vk_sends w1 @ [(peer, msg, oc_outbound_id claim)]"
    by blast
  with vk_send_allowedD [OF q(4)] handed(1,4) frame show ?thesis
    by (intro exI [of _ req] exI [of _ w1] exI [of _ cfg] exI [of _ c] exI [of _ grp] exI [of _ peer]
        exI [of _ msg]) auto
qed

text \<open>
  A call that returns has recorded the delivery: the row is \<open>DELIVERED\<close>, its lease is given up, its
  admission is on record and the delivery is announced to the CRM under the key of the row; the outcome
  names the row. In every later database the row is still there as it was recorded, and so is the job.
\<close>

theorem delivery_recorded:
  assumes "outbound_run\<^sup>*\<^sup>* [] (db_outbox (w_db w))" and "mirror_run\<^sup>*\<^sup>* [] (db_mirror (w_db w))"
    and "\<And>k x. queues_run x (mw k x)"
    and "admit_claimed st config send es mw claim w = (Inr out, w')" and "queues_run (w_db w') d"
  shows "aa_admitted out \<and> aa_outbound_id out = oc_outbound_id claim \<and> aa_delivery_status out = Out_DELIVERED \<and>
    (\<exists>row. outbound_get_by_id (oc_outbound_id claim) (db_outbox d) = Some row \<and>
       o_delivery_status row = Out_DELIVERED \<and> o_lease_token row = None \<and> o_admitted_at row \<noteq> None) \<and>
    (\<exists>job \<in> set (db_mirror d). j_mirror_key job = outbound_delivered_mirror_key (oc_outbound_id claim))"
proof -
  obtain req w1 result w2 where req: "obtain_request st es mw claim w = (Inr req, w1)"
    and hand: "hand_over st config send es mw claim req w1 = (Inr result, w2)"
    and settle: "settle_delivery es mw claim result w2 = (Inr out, w')"
    using assms(4) by (rule admit_claimed_Inr)
  have q1: "queues_run (w_db w) (w_db w1)" and q2: "queues_run (w_db w1) (w_db w2)"
    using obtain_request_queues [OF req assms(3)] hand_over_queues [OF hand assms(3)] .
  have q: "queues_run (w_db w) (w_db w2)"
    using q1 q2 queues.rel_trans by blast
  have reach: "outbound_run\<^sup>*\<^sup>* [] (db_outbox (w_db w2))" "mirror_run\<^sup>*\<^sup>* [] (db_mirror (w_db w2))"
    using q assms(1,2) by (auto simp: queues_run_def)
  obtain delivered corr d0 d1 where
    rec: "record_delivery (es 3) claim (rs_provider_message_id result) d0 = Inr ((delivered, corr), d1)"
    and q3: "queues_run (w_db w2) d0" "queues_run d1 (w_db w')"
    and out: "out = \<lparr> aa_admitted = True, aa_outbound_id = o_id delivered,
                 aa_delivery_status = o_delivery_status delivered \<rparr>"
    by (rule settle_delivery_Inr [OF settle reach assms(3)])
  have r0: "outbound_run\<^sup>*\<^sup>* [] (db_outbox d0)" "mirror_run\<^sup>*\<^sup>* [] (db_mirror d0)"
    using q3(1) reach by (auto simp: queues_run_def)
  have r1: "outbound_run\<^sup>*\<^sup>* [] (db_outbox d1)" "mirror_run\<^sup>*\<^sup>* [] (db_mirror d1)"
    using keepsD [OF arbiter_sessions_queues(4) rec] r0 by (auto simp: queues_run_def)
  note done1 = record_delivery_Inr [OF rec outbound_reachable_distinct [OF r0(1)]]
  have later: "outbound_run\<^sup>*\<^sup>* (db_outbox d1) (db_outbox d)" "mirror_run\<^sup>*\<^sup>* (db_mirror d1) (db_mirror d)"
    using q3(2) assms(5) by (auto simp: queues_run_def)
  have "outbound_get_by_id (oc_outbound_id claim) (db_outbox d) = Some delivered"
    using outbox.finished_row_final [OF later(1) outbound_reachable_distinct [OF r1(1)], of "oc_outbound_id claim" delivered]
      done1 by (simp add: outbound_get_by_id_def outbound_finished_def)
  moreover have "\<exists>job \<in> set (db_mirror d). j_mirror_key job = outbound_delivered_mirror_key (oc_outbound_id claim)"
    using done1 mirror_key_stays [OF later(2) mirror_reachable_distinct [OF r1(2)]] by metis
  ultimately show ?thesis
    using done1 out by auto
qed

text \<open>
  C19. An offer whose slots cannot be bound is sent and never recorded. When the stored payload of an
  admitted \<open>OFFER_SLOTS\<close> message has no valid slot list, the call hands the message to the sink and then
  fails with \<open>ACTIVE_OFFER_OFFER_SLOTS_INVALID\<close>; the database is exactly what it was: the row stays
  \<open>ADMITTED\<close>, is not failed, and can be claimed again as soon as its lease has expired, whatever its
  number of attempts.
\<close>

theorem unbindable_offer_never_recorded:
  fixes w :: world and ctx :: int
  assumes "outbound_run\<^sup>*\<^sup>* [] (db_outbox (w_db w))"
    and "outbound_get_by_id (oc_outbound_id claim) (db_outbox (w_db w)) = Some row"
    and "outbound_admitted_held (oc_outbound_id claim) (oc_lease_token claim) (oc_lease_version claim) row"
    and "oc_delivery_status claim = Out_ADMITTED" and "oc_destination_type claim = SYNTHETIC_OUTBOUND"
    and "o_destination_type row = SYNTHETIC_OUTBOUND" and "request_from_outbound row = Inr req"
    and "conv_get_by_id_for_update (oc_conversation_id claim) (db_conversations (w_db w)) = Some c"
    and "o_context_version row = Some ctx" and "0 \<le> ctx" and "0 \<le> o_manager_epoch row" and "0 \<le> o_event_seq_hwm row"
    and "dict_get (o_payload_json row) ''booking_action'' = JStr ''OFFER_SLOTS''"
    and "require_active_offer_slots (dict_get (o_payload_json row) ''booking_offered_slots'') = Inl err"
    and "sk_forced_outcome (w_sink w) = Sink_SUCCESS"
    and "o_lease_until row = Some until" and "until < now" and "o_not_before row = Some nb" and "nb \<le> At now"
  shows "\<exists>w'. admit_claimed st config send es (\<lambda>_. id) claim w =
      (Inl (OutboundArbiterDenied ''ACTIVE_OFFER_OFFER_SLOTS_INVALID''), w') \<and>
    w_db w' = w_db w \<and> rq_outbound_id req \<in> sk_delivered_ids (w_sink w') \<and> outbound_claimable now row"
proof -
  let ?s = "w_db w"
  note d = outbound_reachable_distinct [OF assms(1)]
  have held: "o_delivery_status row = Out_ADMITTED" "o_admitted_at row \<noteq> None"
    "o_lease_token row = Some (oc_lease_token claim)" "o_lease_version row = oc_lease_version claim"
    using assms(3) by (auto simp: outbound_admitted_held_def)
  have lock: "lock_dialog (oc_conversation_id claim) s = Inr (c, s)" if "db_conversations s = db_conversations ?s" for s
    using assms(8) that by (simp add: lock_dialog_def on_table_def lock_for_update_def)
  have "prepare_reclaimed_admission claim ?s = Inr (req, ?s)"
    using assms(2,6,7) held
    by (auto simp: prepare_reclaimed_admission_def lock db_bind_def db_read_def raise_or_def db_return_def
        LIVE_DESTINATIONS_def)
  then have req: "obtain_request st es (\<lambda>_. id) claim w = (Inr req, w)"
    using assms(4) by (simp add: obtain_request_def in_session_def session_scope_def)
  define sk where "sk = snd (sink_deliver req (w_sink w))"
  have sink: "sink_deliver req (w_sink w) = (plain_result Sink_SUCCESS None, sk)"
    and delivered: "rq_outbound_id req \<in> sk_delivered_ids sk"
    using assms(15) by (auto simp: sk_def sink_deliver_def Let_def)
  have "activate_from_delivered_outbound (en_now (es 3)) (outbound_deliver_row None row) (db_offers ?s) =
      Inr (offer_rejected ''OFFER_SLOTS_INVALID'', db_offers ?s)"
    using assms(9-14)
    by (simp add: activate_from_delivered_outbound_def outbound_deliver_row_def outbound_close_row_def)
  then have rec: "record_delivery (es 3) claim None ?s = Inl (OutboundArbiterDenied ''ACTIVE_OFFER_OFFER_SLOTS_INVALID'')"
    using mark_delivered_current [OF d assms(2,3)]
    by (simp add: record_delivery_def lock db_bind_def on_table_def deny_or_def db_raise_def activation_denial_def
        offer_rejected_def)
  have "admit_claimed st config send es (\<lambda>_. id) claim w =
      (Inl (OutboundArbiterDenied ''ACTIVE_OFFER_OFFER_SLOTS_INVALID''), w \<lparr> w_sink := sk \<rparr>)"
    using assms(5) rec
    by (simp add: admit_claimed_def req sink settle_delivery_def note_provider_id_def plain_result_def in_session_def
        session_scope_def)
  moreover have "outbound_claimable now row"
    using assms(6,16-19) held by (simp add: outbound_claimable_def outbound_lease_expired_def)
  ultimately show ?thesis using delivered by auto
qed

text \<open>
  The sink is given each message once. Whatever sequence of requests a process hands to its sink,
  repeated deliveries included, the sink's record holds exactly one call for each outbound id.
\<close>

theorem sink_called_once_per_message:
  "let sk = foldl (\<lambda>sk req. snd (sink_deliver req sk))
              \<lparr> sk_forced_outcome = Sink_SUCCESS, sk_delivered_ids = {}, sk_calls = [] \<rparr> reqs
   in distinct (map rq_outbound_id (sk_calls sk)) \<and>
      set (map rq_outbound_id (sk_calls sk)) = set (map rq_outbound_id reqs)"
proof -
  have "sk_forced_outcome sk = Sink_SUCCESS \<Longrightarrow> distinct (map rq_outbound_id (sk_calls sk)) \<Longrightarrow>
      set (map rq_outbound_id (sk_calls sk)) = sk_delivered_ids sk \<Longrightarrow>
      distinct (map rq_outbound_id (sk_calls (foldl (\<lambda>sk req. snd (sink_deliver req sk)) sk reqs))) \<and>
      set (map rq_outbound_id (sk_calls (foldl (\<lambda>sk req. snd (sink_deliver req sk)) sk reqs))) =
        sk_delivered_ids sk \<union> set (map rq_outbound_id reqs)" for sk
  proof (induction reqs arbitrary: sk)
    case (Cons req reqs)
    have "sk_forced_outcome (snd (sink_deliver req sk)) = Sink_SUCCESS \<and>
        distinct (map rq_outbound_id (sk_calls (snd (sink_deliver req sk)))) \<and>
        set (map rq_outbound_id (sk_calls (snd (sink_deliver req sk)))) = sk_delivered_ids (snd (sink_deliver req sk)) \<and>
        sk_delivered_ids (snd (sink_deliver req sk)) = insert (rq_outbound_id req) (sk_delivered_ids sk)"
      using Cons.prems by (auto simp: sink_deliver_def Let_def)
    with Cons.IH [of "snd (sink_deliver req sk)"] show ?case by auto
  qed simp
  then show ?thesis by (simp add: Let_def)
qed

section \<open>Runs of the arbiter\<close>

definition arbiter_row :: "DestinationType \<Rightarrow> payload \<Rightarrow> outbox_message" where
  "arbiter_row dest pl =
     outbound_new_row dest
       (if dest = VK_CLIENT_OUTBOUND then vk_client_outbound_idempotency_key ''p1''
        else synthetic_outbound_idempotency_key ''p1'')
       ''o1'' 0 ''c1'' ''p1'' 1 pl ''q1'' (At 5000000) 5 0 1"

definition arbiter_claimed :: "DestinationType \<Rightarrow> payload \<Rightarrow> outbox_message list" where
  "arbiter_claimed dest pl = [outbound_lease_row ''w1'' ''t1'' 37000000 (arbiter_row dest pl)]"

definition arbiter_claim :: "DestinationType \<Rightarrow> payload \<Rightarrow> outbound_claim" where
  "arbiter_claim dest pl = projr (outbound_row_to_claim (hd (arbiter_claimed dest pl)))"

definition arbiter_world :: "conversation \<Rightarrow> outbox_message list \<Rightarrow> world" where
  "arbiter_world c obs =
     \<lparr> w_db = \<lparr> db_conversations = [c], db_ops_events = [], db_inbox = [], db_manager_messages = [],
         db_reply_plans = [plan_dispatched_row (hd (worker_claimed None))], db_outbox = obs, db_mirror = [],
         db_projections = [], db_offers = [], db_pii_admissions = [], db_create_pendings = [],
     db_bindings = [], db_ingress = [] \<rparr>,
       w_sink = \<lparr> sk_forced_outcome = Sink_SUCCESS, sk_delivered_ids = {}, sk_calls = [] \<rparr>, w_vk_sends = [] \<rparr>"

definition arbiter_settings :: settings where
  "arbiter_settings = \<lparr> st_bot_mode = Mode_AUTO_WRITE, st_emergency_lock = False \<rparr>"

definition arbiter_run :: "DestinationType \<Rightarrow> conversation \<Rightarrow> payload \<Rightarrow> (exn + admit_outcome) \<times> world" where
  "arbiter_run dest c pl =
     admit_claimed arbiter_settings (Some vk_sender_config)
       (\<lambda>peer msg oid. fst (vk_send_text (\<lambda>b. b) (\<lambda>k b. k @ b) (\<lambda>u. u)
          (\<lambda>_. Http_response 200 20 (Some (JObj [(''response'', JInt 77)]))) vk_sender_config peer msg oid))
       (\<lambda>k. worker_env [char_of (k + 49)] 8000000) (\<lambda>_. id) (arbiter_claim dest pl)
       (arbiter_world c (arbiter_claimed dest pl))"

definition arbiter_vk_conv :: conversation where
  "arbiter_vk_conv = plan_demo_conv \<lparr> c_channel := Channel_VK, c_external_conversation_id := ''vk-1-2'' \<rparr>"

definition arbiter_text :: payload where
  "arbiter_text = [(''schema'', JStr ''vk.client.outbound.v1''), (''text'', JStr ''hello'')]"

lemma arbiter_rows_new:
  "outbound_run [] [arbiter_row SYNTHETIC_OUTBOUND pl]" "outbound_run [] [arbiter_row VK_CLIENT_OUTBOUND pl]"
proof -
  have "insert_synthetic_outbound_if_absent ''o1'' 0 ''c1'' ''p1'' 1 pl ''q1'' (At 5000000) 5 0 1 [] =
      Inr ((arbiter_row SYNTHETIC_OUTBOUND pl, True), [arbiter_row SYNTHETIC_OUTBOUND pl])"
    by (simp add: insert_synthetic_outbound_if_absent_def insert_outbound_if_absent_def arbiter_row_def
        outbound_get_by_idempotency_key_def outbound_get_by_id_def sql_one_def outbound_new_row_def)
  then show "outbound_run [] [arbiter_row SYNTHETIC_OUTBOUND pl]"
    by (rule outbound_run.synthetic)
  have "insert_vk_client_outbound_if_absent ''o1'' 0 ''c1'' ''p1'' 1 pl ''q1'' (At 5000000) 5 0 1 [] =
      Inr ((arbiter_row VK_CLIENT_OUTBOUND pl, True), [arbiter_row VK_CLIENT_OUTBOUND pl])"
    by (simp add: insert_vk_client_outbound_if_absent_def insert_outbound_if_absent_def arbiter_row_def
        outbound_get_by_idempotency_key_def outbound_get_by_id_def sql_one_def outbound_new_row_def)
  then show "outbound_run [] [arbiter_row VK_CLIENT_OUTBOUND pl]"
    by (rule outbound_run.vk)
qed

lemma arbiter_claims:
  "outbound_claim_next ''w1'' 30 7000000 ''t1'' (\<lambda>_. False) [arbiter_row SYNTHETIC_OUTBOUND arbiter_text] =
     Inr (Some (arbiter_claim SYNTHETIC_OUTBOUND arbiter_text), arbiter_claimed SYNTHETIC_OUTBOUND arbiter_text)"
  "outbound_claim_next ''w1'' 30 7000000 ''t1'' (\<lambda>_. False) [arbiter_row VK_CLIENT_OUTBOUND arbiter_text] =
     Inr (Some (arbiter_claim VK_CLIENT_OUTBOUND arbiter_text), arbiter_claimed VK_CLIENT_OUTBOUND arbiter_text)"
  by code_simp+

lemma arbiter_reach:
  "outbound_run\<^sup>*\<^sup>* [] (arbiter_claimed SYNTHETIC_OUTBOUND arbiter_text)"
  "outbound_run\<^sup>*\<^sup>* [] (arbiter_claimed VK_CLIENT_OUTBOUND arbiter_text)"
  using arbiter_rows_new [of arbiter_text] outbound_run.claim [OF arbiter_claims(1)] outbound_run.claim [OF arbiter_claims(2)]
  by (meson r_into_rtranclp rtranclp.rtrancl_into_rtrancl)+

lemma arbiter_world_tables [simp]:
  "db_outbox (w_db (arbiter_world c obs)) = obs" "db_mirror (w_db (arbiter_world c obs)) = []"
  by (simp_all add: arbiter_world_def)

abbreviation arbiter_vk :: "(exn + admit_outcome) \<times> world" where
  "arbiter_vk \<equiv> arbiter_run VK_CLIENT_OUTBOUND arbiter_vk_conv arbiter_text"

lemma arbiter_vk_value:
  "fst arbiter_vk = Inr \<lparr> aa_admitted = True, aa_outbound_id = ''o1'', aa_delivery_status = Out_DELIVERED \<rparr>"
  "w_vk_sends (snd arbiter_vk) = [(2, ''hello'', ''o1'')]"
  by code_simp+

lemma arbiter_vk_call:
  "admit_claimed arbiter_settings (Some vk_sender_config)
     (\<lambda>peer msg oid. fst (vk_send_text (\<lambda>b. b) (\<lambda>k b. k @ b) (\<lambda>u. u)
        (\<lambda>_. Http_response 200 20 (Some (JObj [(''response'', JInt 77)]))) vk_sender_config peer msg oid))
     (\<lambda>k. worker_env [char_of (k + 49)] 8000000) (\<lambda>_. id) (arbiter_claim VK_CLIENT_OUTBOUND arbiter_text)
     (arbiter_world arbiter_vk_conv (arbiter_claimed VK_CLIENT_OUTBOUND arbiter_text)) =
   (fst arbiter_vk, snd arbiter_vk)"
  by (simp add: arbiter_run_def)

lemma arbiter_vk_sends:
  "w_vk_sends (snd arbiter_vk) \<noteq>
     w_vk_sends (arbiter_world arbiter_vk_conv (arbiter_claimed VK_CLIENT_OUTBOUND arbiter_text))"
  by (simp add: arbiter_vk_value arbiter_world_def)

theorem admission_only_when_current_witness:
  "\<exists>c ob. c \<in> {arbiter_vk_conv} \<and> o_manager_epoch ob = c_manager_epoch c \<and>
     outbound_held ''o1'' ''t1'' 1 ob"
proof -
  let ?s = "w_db (arbiter_world arbiter_vk_conv (arbiter_claimed VK_CLIENT_OUTBOUND arbiter_text))"
  let ?claim = "arbiter_claim VK_CLIENT_OUTBOUND arbiter_text"
  have claim: "oc_outbound_id ?claim = ''o1''" "oc_lease_token ?claim = ''t1''" "oc_lease_version ?claim = 1"
    by code_simp+
  have "\<not> isl (admit_in_session arbiter_settings (worker_env ''1'' 8000000) ?claim ?s)"
    by code_simp
  then obtain req s' where "admit_in_session arbiter_settings (worker_env ''1'' 8000000) ?claim ?s = Inr (req, s')"
    by (metis isl_def sum.exhaust surj_pair)
  from admission_only_when_current [OF _ this] arbiter_reach(2) show ?thesis
    by (auto simp: arbiter_world_def claim)
qed

theorem transport_only_after_admission_witness:
  "\<exists>req (w1 :: world). admitted_for (arbiter_claim VK_CLIENT_OUTBOUND arbiter_text) req (w_db w1) \<and>
     rq_text req = Some ''hello''"
  using transport_only_after_admission [OF _ _ arbiter_vk_call disjI2 [OF arbiter_vk_sends]] arbiter_reach(2)
  by (auto simp: queues.rel_refl arbiter_vk_value arbiter_world_def)

theorem vk_send_only_through_gate_witness:
  "\<exists>c :: conversation. c_id c = ''c1'' \<and> c_external_conversation_id c = ''vk-1-2'' \<and>
     w_vk_sends (snd arbiter_vk) = [(2, ''hello'', ''o1'')]"
proof -
  have "oc_conversation_id (arbiter_claim VK_CLIENT_OUTBOUND arbiter_text) = ''c1''"
    by code_simp
  then show ?thesis
    using vk_send_only_through_gate [OF arbiter_vk_call arbiter_vk_sends] arbiter_reach(2)
    by (auto simp: queues.rel_refl arbiter_vk_value vk_sender_config_def)
qed

theorem delivery_recorded_witness:
  "\<exists>row. outbound_get_by_id (oc_outbound_id (arbiter_claim VK_CLIENT_OUTBOUND arbiter_text))
       (db_outbox (w_db (snd arbiter_vk))) = Some row \<and> o_delivery_status row = Out_DELIVERED"
  using delivery_recorded [OF _ _ _ arbiter_vk_call [unfolded arbiter_vk_value(1)] queues.rel_refl] arbiter_reach(2)
  by (auto simp: queues.rel_refl)

definition arbiter_offer :: payload where
  "arbiter_offer = [(''schema'', JStr ''synthetic.outbound.v1''), (''booking_action'', JStr ''OFFER_SLOTS''),
     (''text'', JStr ''slots'')]"

definition arbiter_reclaimed :: "outbox_message list" where
  "arbiter_reclaimed = [outbound_lease_row ''w1'' ''t2'' 70000000
     (outbound_admit_row 8000000 (hd (arbiter_claimed SYNTHETIC_OUTBOUND arbiter_offer)))]"

definition arbiter_reclaim :: outbound_claim where
  "arbiter_reclaim = projr (outbound_row_to_claim (hd arbiter_reclaimed))"

lemma arbiter_reclaimed_reach: "outbound_run\<^sup>*\<^sup>* [] arbiter_reclaimed"
proof -
  have "outbound_claim_next ''w1'' 30 7000000 ''t1'' (\<lambda>_. False) [arbiter_row SYNTHETIC_OUTBOUND arbiter_offer] =
      Inr (Some (arbiter_claim SYNTHETIC_OUTBOUND arbiter_offer), arbiter_claimed SYNTHETIC_OUTBOUND arbiter_offer)"
    by code_simp
  then have "outbound_run [arbiter_row SYNTHETIC_OUTBOUND arbiter_offer] (arbiter_claimed SYNTHETIC_OUTBOUND arbiter_offer)"
    by (rule outbound_run.claim)
  moreover have "mark_admitted_with_lease ''o1'' ''t1'' 1 8000000 (arbiter_claimed SYNTHETIC_OUTBOUND arbiter_offer) =
      Inr (outbound_admit_row 8000000 (hd (arbiter_claimed SYNTHETIC_OUTBOUND arbiter_offer)),
           [outbound_admit_row 8000000 (hd (arbiter_claimed SYNTHETIC_OUTBOUND arbiter_offer))])"
    by code_simp
  then have "outbound_run (arbiter_claimed SYNTHETIC_OUTBOUND arbiter_offer)
      [outbound_admit_row 8000000 (hd (arbiter_claimed SYNTHETIC_OUTBOUND arbiter_offer))]"
    by (rule outbound_run.admit)
  moreover have "outbound_claim_next ''w1'' 30 40000000 ''t2'' (\<lambda>_. False)
      [outbound_admit_row 8000000 (hd (arbiter_claimed SYNTHETIC_OUTBOUND arbiter_offer))] =
      Inr (Some arbiter_reclaim, arbiter_reclaimed)"
    by code_simp
  then have "outbound_run [outbound_admit_row 8000000 (hd (arbiter_claimed SYNTHETIC_OUTBOUND arbiter_offer))]
      arbiter_reclaimed"
    by (rule outbound_run.claim)
  ultimately show ?thesis
    using arbiter_rows_new(1) [of arbiter_offer]
    by (meson r_into_rtranclp rtranclp.rtrancl_into_rtrancl)
qed

theorem unbindable_offer_never_recorded_witness:
  "\<exists>w'. admit_claimed arbiter_settings None (\<lambda>_ _ _. Inl (AssertionError [])) (\<lambda>_. worker_env ''1'' 41000000)
      (\<lambda>_. id) arbiter_reclaim (arbiter_world plan_demo_conv arbiter_reclaimed) =
      (Inl (OutboundArbiterDenied ''ACTIVE_OFFER_OFFER_SLOTS_INVALID''), w') \<and>
    w_db w' = w_db (arbiter_world plan_demo_conv arbiter_reclaimed) \<and>
    rq_outbound_id (projr (request_from_outbound (hd arbiter_reclaimed))) \<in> sk_delivered_ids (w_sink w') \<and>
    outbound_claimable 80000000 (hd arbiter_reclaimed)"
proof (rule unbindable_offer_never_recorded [where ctx = 1 and c = plan_demo_conv and until = 70000000
      and nb = "At 5000000" and err = "projl (require_active_offer_slots JNull)"])
  show "outbound_run\<^sup>*\<^sup>* [] (db_outbox (w_db (arbiter_world plan_demo_conv arbiter_reclaimed)))"
    using arbiter_reclaimed_reach by simp
qed code_simp+

end
