(* ===== verification/Dialog_System.thy ===== *)
theory Dialog_System
  imports Handoff_Expiry Arbiter
begin

text \<open>
  The dialog core as one system. \<open>sys_step\<close> is a committed session of any of the services: a client
  message on either channel, a manager message, a takeover, a reply written in the VK dialog, the
  expiry worker, the reply plan worker and the outbound worker. \<open>db_ok\<close> is the invariant they keep
  together: the constraints of the dialog rows, the foreign keys, at most one open reply plan per dialog,
  the fences of the open plan of a synthetic dialog, and the deferred reply of every paused dialog.
  Because of it the expiry worker finds the reply it looks for, and a tick returns every due dialog.
\<close>

section \<open>The reply plans of a dialog\<close>

definition open_plans :: "uuid \<Rightarrow> reply_plan list \<Rightarrow> reply_plan list" where
  "open_plans cid t = filter (\<lambda>r. p_conversation_id r = cid \<and> plan_open r) t"

definition plan_current :: "conversation \<Rightarrow> reply_plan \<Rightarrow> bool" where
  "plan_current c r =
     (p_context_version r = c_context_version c \<and> p_manager_epoch r = c_manager_epoch c \<and>
      p_event_seq_hwm r = c_current_event_seq c)"

text \<open>
  A synthetic dialog's open plan is its active one and carries the fences of the dialog; a dialog in
  \<open>HUMAN_PAUSE\<close> is a synthetic one and holds its deferred reply.
\<close>

definition replies_ok :: "conversation \<Rightarrow> reply_plan list \<Rightarrow> bool" where
  "replies_ok c ps =
     (length ps \<le> 1 \<and>
      (c_channel c = Channel_SYNTHETIC \<longrightarrow>
         (\<forall>r \<in> set ps. plan_current c r \<and> c_active_reply_plan_id c = Some (p_id r))) \<and>
      (c_handoff_state c = HUMAN_PAUSE \<longrightarrow>
         c_channel c = Channel_SYNTHETIC \<and> (\<exists>r \<in> set ps. deferred_reply c r)))"

definition db_ok :: "db \<Rightarrow> bool" where
  "db_ok s =
     (distinct (map c_id (db_conversations s)) \<and>
      (\<forall>c \<in> set (db_conversations s). conversation_ok c \<and> replies_ok c (open_plans (c_id c) (db_reply_plans s))) \<and>
      (\<forall>m \<in> set (db_inbox s). i_conversation_id m \<in> c_id ` set (db_conversations s)) \<and>
      distinct (map p_id (db_reply_plans s)) \<and>
      p_conversation_id ` set (db_reply_plans s) \<subseteq> c_id ` set (db_conversations s))"

lemma db_okD:
  assumes "db_ok s"
  shows "distinct (map c_id (db_conversations s))" and "\<forall>c \<in> set (db_conversations s). conversation_ok c"
    and "\<forall>m \<in> set (db_inbox s). i_conversation_id m \<in> c_id ` set (db_conversations s)"
    and "distinct (map p_id (db_reply_plans s))"
    and "c \<in> set (db_conversations s) \<Longrightarrow> replies_ok c (open_plans (c_id c) (db_reply_plans s))"
    and "p_conversation_id ` set (db_reply_plans s) \<subseteq> c_id ` set (db_conversations s)"
  using assms by (auto simp: db_ok_def)

lemma replies_ok_closed: "c_handoff_state c \<noteq> HUMAN_PAUSE \<Longrightarrow> replies_ok c []"
  by (simp add: replies_ok_def)

lemma open_plans_none: "\<forall>r \<in> set t. p_conversation_id r \<noteq> cid \<Longrightarrow> open_plans cid t = []"
  by (auto simp: open_plans_def filter_empty_conv)

lemma open_plans_append [simp]: "open_plans cid (t @ u) = open_plans cid t @ open_plans cid u"
  by (simp add: open_plans_def)

lemma open_plans_simps [simp]:
  "open_plans cid [] = []"
  "open_plans cid [r] = (if p_conversation_id r = cid \<and> plan_open r then [r] else [])"
  by (simp_all add: open_plans_def)

text \<open>Superseding and cancelling close the open plans of one dialog and leave the others alone.\<close>

lemma open_plans_closing:
  assumes "\<And>r. \<not> plan_open (f r)"
  shows "open_plans cid' (sql_update (\<lambda>r. p_conversation_id r = cid \<and> plan_open r) f t) =
    (if cid' = cid then [] else filter (\<lambda>r. p_conversation_id r = cid' \<and> plan_open r) t)"
  using assms by (induction t) (auto simp: open_plans_def)

lemma closed_rows [simp]:
  "\<not> plan_open (plan_close_row Plan_SUPERSEDED reason r)" "\<not> plan_open (plan_close_row Plan_CANCELLED reason r)"
  by (simp_all add: plan_open_iff plan_close_row_def)

lemma supersede_open [simp]:
  "open_plans cid' (snd (supersede_open_plans cid reason t)) = (if cid' = cid then [] else open_plans cid' t)"
  by (simp add: supersede_open_plans_def Let_def open_plans_closing) (simp add: open_plans_def)

lemma cancel_open [simp]:
  "open_plans cid' (snd (cancel_open_plans_for_takeover cid reason t)) = (if cid' = cid then [] else open_plans cid' t)"
  by (simp add: cancel_open_plans_for_takeover_def Let_def open_plans_closing) (simp add: open_plans_def)

lemma closing_keys [simp]:
  "map p_id (snd (supersede_open_plans cid reason t)) = map p_id t"
  "map p_id (snd (cancel_open_plans_for_takeover cid reason t)) = map p_id t"
  "map p_conversation_id (snd (supersede_open_plans cid reason t)) = map p_conversation_id t"
  "map p_conversation_id (snd (cancel_open_plans_for_takeover cid reason t)) = map p_conversation_id t"
  by (simp_all add: supersede_open_plans_def cancel_open_plans_for_takeover_def Let_def map_sql_update plan_close_row_def)

lemma closing_dialogs [simp]:
  "p_conversation_id ` set (snd (supersede_open_plans cid reason t)) = p_conversation_id ` set t"
  "p_conversation_id ` set (snd (cancel_open_plans_for_takeover cid reason t)) = p_conversation_id ` set t"
  by (metis closing_keys(3) list.set_map) (metis closing_keys(4) list.set_map)

text \<open>One dialog moves, with its plans; a dialog is created.\<close>

lemma db_ok_move:
  assumes "db_ok s" and "c \<in> set (db_conversations s)" and "c_id c' = c_id c"
    and "db_conversations s' = sql_put c_id c' (db_conversations s)"
    and "conversation_ok c'" and "replies_ok c' (open_plans (c_id c) (db_reply_plans s'))"
    and "\<And>cid. cid \<noteq> c_id c \<Longrightarrow> open_plans cid (db_reply_plans s') = open_plans cid (db_reply_plans s)"
    and "distinct (map p_id (db_reply_plans s'))"
    and "p_conversation_id ` set (db_reply_plans s') \<subseteq> c_id ` set (db_conversations s)"
    and "\<forall>m \<in> set (db_inbox s'). i_conversation_id m \<in> c_id ` set (db_conversations s)"
  shows "db_ok s'"
proof -
  have ids: "c_id ` set (db_conversations s') = c_id ` set (db_conversations s)"
    unfolding assms(4) by (metis list.set_map map_key_sql_put)
  have "conversation_ok x \<and> replies_ok x (open_plans (c_id x) (db_reply_plans s'))"
    if "x \<in> set (db_conversations s')" for x
  proof (cases "x = c'")
    case True
    with assms(3,5,6) show ?thesis by simp
  next
    case False
    then have "x \<in> set (db_conversations s)" "c_id x \<noteq> c_id c"
      using sql_put_cases that assms(3,4) by metis+
    with assms(1,7) show ?thesis by (auto simp: db_ok_def)
  qed
  then show ?thesis
    using assms(1,8-10) ids by (simp add: db_ok_def assms(4))
qed

lemma db_ok_create:
  assumes "db_ok s" and "i \<notin> c_id ` set (db_conversations s)"
    and "db_conversations s' = db_conversations s @ [conv_new_row i now ch ext]"
    and "db_reply_plans s' = db_reply_plans s" and "db_inbox s' = db_inbox s"
  shows "db_ok s'"
proof -
  have "open_plans i (db_reply_plans s) = []"
    using assms(1,2) by (intro open_plans_none) (auto simp: db_ok_def)
  then have "replies_ok (conv_new_row i now ch ext) (open_plans i (db_reply_plans s))"
    by (simp add: replies_ok_closed conv_new_row_def)
  moreover have "c_id (conv_new_row i now ch ext) = i"
    by (simp add: conv_new_row_def)
  ultimately show ?thesis
    using assms by (auto simp: db_ok_def conv_new_row_ok)
qed

lemma db_ok_opened:
  assumes "db_ok s" and "conv_get_or_create i now ch ext (db_conversations s) = Inr ((c, created), t)"
  shows "db_ok (s \<lparr> db_conversations := t \<rparr>)" and "conv_current c t" and "c_channel c = ch"
proof -
  note gc = conv_get_or_create_Inr [OF assms(2) db_okD(1) [OF assms(1)]]
  show "conv_current c t" and "c_channel c = ch" by (rule gc(1), rule gc(3))
  from gc(2) show "db_ok (s \<lparr> db_conversations := t \<rparr>)"
  proof (elim disjE conjE)
    assume "t = db_conversations s"
    with assms(1) show ?thesis by simp
  next
    assume "t = db_conversations s @ [c]" "c = conv_new_row i now ch ext"
      "conv_get_by_id_for_update i (db_conversations s) = None"
    moreover from this(3) have "i \<notin> c_id ` set (db_conversations s)"
      by (auto simp: conv_get_by_id_for_update_def sql_one_None)
    ultimately show ?thesis
      by (intro db_ok_create [OF assms(1), of i _ now ch ext]) simp_all
  qed
qed

section \<open>The workers\<close>

text \<open>
  How a session of a worker moves the plans: in place, by row steps, and a plan that waits while its
  dialog is not the bot's is at most marked ready.
\<close>

definition plan_worked :: "conversation list \<Rightarrow> reply_plan \<Rightarrow> reply_plan \<Rightarrow> bool" where
  "plan_worked convs r r' =
     (plan_step\<^sup>*\<^sup>* r r' \<and>
      ((p_status r = Plan_PENDING \<or> p_status r = Plan_READY) \<and>
       (\<forall>c \<in> set convs. c_id c = p_conversation_id r \<longrightarrow> c_handoff_state c \<noteq> BOT_ACTIVE) \<longrightarrow>
       r' = r \<or> r' = plan_ready_row r))"

definition plans_worked :: "db \<Rightarrow> db \<Rightarrow> bool" where
  "plans_worked s s' =
     (db_conversations s' = db_conversations s \<and> db_inbox s' = db_inbox s \<and>
      (distinct (map p_id (db_reply_plans s)) \<longrightarrow>
         list_all2 (plan_worked (db_conversations s)) (db_reply_plans s) (db_reply_plans s')))"

lemma plan_steps_keys: "plan_step\<^sup>*\<^sup>* r r' \<Longrightarrow> plan_keys r' = plan_keys r"
  by (induction rule: rtranclp_induct) (auto dest: plan_step_keys)

lemma plan_worked_keys: "plan_worked convs r r' \<Longrightarrow> plan_keys r' = plan_keys r"
  by (simp add: plan_worked_def plan_steps_keys)

lemma plan_worked_refl [simp]: "plan_worked convs r r"
  by (simp add: plan_worked_def)

lemma plan_worked_trans: "plan_worked convs r r' \<Longrightarrow> plan_worked convs r' r'' \<Longrightarrow> plan_worked convs r r''"
  unfolding plan_worked_def
  by (auto simp: plan_ready_row_def intro: rtranclp_trans)

lemma plans_worked_ids:
  "list_all2 (plan_worked convs) t t' \<Longrightarrow> map p_id t' = map p_id t"
  by (erule list_all2_map_eq) (auto dest: plan_worked_keys simp: plan_keys_def)

lemma list_worked_trans:
  assumes "list_all2 (plan_worked convs) t u" and "list_all2 (plan_worked convs) u v"
  shows "list_all2 (plan_worked convs) t v"
  by (rule list_all2_trans [OF _ assms]) (rule plan_worked_trans)

interpretation worked: session_rel plans_worked
proof
  fix s t u
  show "plans_worked s s"
    by (simp add: plans_worked_def list.rel_refl)
  show "plans_worked s u" if "plans_worked s t" and "plans_worked t u"
    using that plans_worked_ids [of "db_conversations s" "db_reply_plans s" "db_reply_plans t"]
    by (auto simp: plans_worked_def intro: list_worked_trans)
qed

lemma plans_worked_put:
  assumes "distinct (map p_id t)" and "r \<in> set t" and "plan_step r r'" and "p_status r = Plan_PROCESSING"
  shows "list_all2 (plan_worked convs) t (sql_put p_id r' t)"
proof -
  have id: "p_id r' = p_id r"
    using plan_step_keys [OF assms(3)] by (simp add: plan_keys_def)
  have "plan_worked convs r r'"
    using assms(3,4) by (simp add: plan_worked_def)
  then have "plan_worked convs x (if p_id x = p_id r' then r' else x)" if "x \<in> set t" for x
    using distinct_key_unique [OF assms(1) that assms(2)] id by auto
  then show ?thesis
    unfolding sql_put_def sql_update_def by (auto simp: list_all2_conv_all_nth)
qed

lemma plans_worked_other:
  assumes "db_conversations s' = db_conversations s" and "db_inbox s' = db_inbox s"
    and "db_reply_plans s' = db_reply_plans s"
  shows "plans_worked s s'"
  using assms by (simp add: plans_worked_def list.rel_refl)

lemma keeps_worked_others [keeps_intros]:
  "keeps plans_worked (on_outbox ocall)" "keeps plans_worked (with_outbox ocall')"
  "keeps plans_worked (on_mirror mcall)" "keeps plans_worked (on_projections jcall)"
  "keeps plans_worked (with_offers fcall)" "keeps plans_worked (on_offers gcall)"
  "keeps plans_worked (lock_dialog cid)"
  by (auto intro!: keeps_on_table keeps_with_table keeps_lock_dialog plans_worked_other worked.rel_refl)

lemma keeps_worked_plans:
  assumes "\<And>t x t' convs. distinct (map p_id t) \<Longrightarrow> call t = Inr (x, t') \<Longrightarrow> list_all2 (plan_worked convs) t t'"
  shows "keeps plans_worked (on_reply_plans call)"
  by (rule keeps_on_table) (simp add: plans_worked_def assms)

lemma keeps_worked_plans_with:
  assumes "\<And>t x t' convs. distinct (map p_id t) \<Longrightarrow> call t = (x, t') \<Longrightarrow> list_all2 (plan_worked convs) t t'"
  shows "keeps plans_worked (with_reply_plans call)"
  by (rule keeps_with_table) (simp add: plans_worked_def assms)

lemma plan_held_processing: "plan_held i token v r \<Longrightarrow> p_status r = Plan_PROCESSING"
  by (simp add: plan_held_def)

lemma keeps_worked_leases [keeps_intros]:
  "keeps plans_worked (on_reply_plans (complete_dispatched_with_lease i token v))"
  "keeps plans_worked (on_reply_plans (plan_fail_with_lease i token v code delay now))"
  "keeps plans_worked (on_reply_plans (persist_booking_resolution_result i token v result))"
  "keeps plans_worked (with_reply_plans (try_mark_booking_resolution_started i token v))"
  "keeps plans_worked (with_reply_plans (plan_recover_exhausted_lease i now))"
proof -
  show "keeps plans_worked (on_reply_plans (complete_dispatched_with_lease i token v))"
  proof (rule keeps_worked_plans)
    fix t x t' convs assume d: "distinct (map p_id t)" and "complete_dispatched_with_lease i token v t = Inr (x, t')"
    from this(2,1) show "list_all2 (plan_worked convs) t t'"
      by (cases rule: complete_dispatched_Inr)
        (auto dest!: plan_held_processing intro!: plans_worked_put [OF d] plan_step.dispatch)
  qed
  show "keeps plans_worked (on_reply_plans (plan_fail_with_lease i token v code delay now))"
  proof (rule keeps_worked_plans)
    fix t x t' convs assume d: "distinct (map p_id t)" and "plan_fail_with_lease i token v code delay now t = Inr (x, t')"
    from this(2,1) show "list_all2 (plan_worked convs) t t'"
      by (cases rule: plan_fail_Inr)
        (auto dest!: plan_held_processing intro!: plans_worked_put [OF d] plan_step.retry plan_step.dead)
  qed
  show "keeps plans_worked (on_reply_plans (persist_booking_resolution_result i token v result))"
  proof (rule keeps_worked_plans)
    fix t x t' convs assume d: "distinct (map p_id t)" and "persist_booking_resolution_result i token v result t = Inr (x, t')"
    from this(2,1) show "list_all2 (plan_worked convs) t t'"
      by (cases rule: persist_result_cases)
        (auto dest!: plan_held_processing intro!: plans_worked_put [OF d] plan_step.booked simp: list.rel_refl)
  qed
  show "keeps plans_worked (with_reply_plans (try_mark_booking_resolution_started i token v))"
  proof (rule keeps_worked_plans_with)
    fix t x t' convs assume d: "distinct (map p_id t)" and "try_mark_booking_resolution_started i token v t = (x, t')"
    from this(2,1) show "list_all2 (plan_worked convs) t t'"
      by (cases rule: try_mark_started_cases)
        (auto dest!: plan_held_processing intro!: plans_worked_put [OF d] plan_step.started simp: list.rel_refl)
  qed
  show "keeps plans_worked (with_reply_plans (plan_recover_exhausted_lease i now))"
  proof (rule keeps_worked_plans_with)
    fix t x t' convs assume d: "distinct (map p_id t)" and "plan_recover_exhausted_lease i now t = (x, t')"
    from this(2,1) show "list_all2 (plan_worked convs) t t'"
      by (cases rule: plan_recover_cases)
        (auto simp: plan_exhausted_def list.rel_refl intro!: plans_worked_put [OF d] plan_step.exhausted)
  qed
qed

text \<open>A claim takes a plan only from a dialog that is the bot's.\<close>

lemma plans_worked_claim:
  assumes "plan_claim_next w secs now token locked convs t = Inr (x, t')" and "distinct (map p_id t)"
  shows "list_all2 (plan_worked convs) t t'"
proof -
  let ?t1 = "snd (mark_ready_due_plans now t)"
  have ready: "list_all2 (plan_worked convs) t ?t1"
    unfolding mark_ready_due_plans_def Let_def snd_conv sql_update_def
    by (auto simp: list_all2_conv_all_nth plan_worked_def plan_pending_due_def intro!: r_into_rtranclp plan_step.ready)
  have secs: "0 < secs"
    using assms(1) by (auto simp: plan_claim_next_def split: if_splits)
  note eq = plan_claim_eq [OF assms(2) secs, of w now token locked convs]
  show ?thesis
  proof (cases "plan_claim_select now locked convs t")
    case None
    with eq assms(1) ready show ?thesis by simp
  next
    case (Some cand)
    let ?r = "plan_lease_row w token (now + seconds secs) cand"
    have cand: "cand \<in> set ?t1" "plan_claimable now convs cand"
      using sql_first_by_Some [OF Some [unfolded plan_claim_select_def]] by blast+
    then have "plan_worked convs cand ?r"
      by (auto simp: plan_worked_def plan_claimable_def list_ex_iff plan_fences_current_def intro!: r_into_rtranclp plan_step.claim)
    moreover have "distinct (map p_id ?t1)"
      using assms(2) by simp
    ultimately have "plan_worked convs y (if p_id y = p_id ?r then ?r else y)" if "y \<in> set ?t1" for y
      using distinct_key_unique [of p_id ?t1 y cand] that cand(1) by auto
    then have "list_all2 (plan_worked convs) ?t1 (sql_put p_id ?r ?t1)"
      unfolding sql_put_def sql_update_def by (auto simp: list_all2_conv_all_nth)
    with ready have "list_all2 (plan_worked convs) t (sql_put p_id ?r ?t1)"
      by (rule list_worked_trans)
    with eq assms(1) Some show ?thesis by simp
  qed
qed

lemma keeps_worked_claim [keeps_intros]:
  "keeps plans_worked (db_bind (db_read db_conversations)
     (\<lambda>convs. on_reply_plans (plan_claim_next w secs now token locked convs)))"
  by (auto simp: keeps_def session_simps plans_worked_def intro: plans_worked_claim)

lemma worker_steps_worked [keeps_intros]:
  "keeps plans_worked (mirror_plan_state e cid plan cv corr)"
  "keeps plans_worked (lock_and_validate claim)"
  "keeps plans_worked (insert_synthetic e claim row pl)"
  "keeps plans_worked (insert_vk e claim row pl)"
  "keeps plans_worked (existing_outbound key)"
  "keeps plans_worked (use_saved_result row pl)"
  "keeps plans_worked (persist_if_absent claim row persist flds)"
  "keeps plans_worked (recover_exhausted_plan e)"
  "keeps plans_worked (complete_dispatched e claim oid created)"
  by (auto simp: mirror_plan_state_def lock_and_validate_def insert_synthetic_def insert_vk_def
      persist_if_absent_def existing_outbound_def use_saved_result_def recover_exhausted_plan_def complete_dispatched_def
      intro!: keeps_intros)

lemma worker_sessions_worked:
  "keeps plans_worked (plan_worker_claim_one e w secs token locked)"
  "keeps plans_worked (dispatch_non_booking e claim)"
  "keeps plans_worked (booking_phase1_prepare e claim)"
  "keeps plans_worked (booking_phase2_finalize e claim pl flds persist)"
  "keeps plans_worked (fail_claimed e delay claim code)"
proof -
  have vk: "keeps plans_worked (vk_proof_outbound e claim row c)" for row c
    by (auto simp: vk_proof_outbound_def intro!: keeps_intros split: json.split)
  show "keeps plans_worked (dispatch_non_booking e claim)"
    by (auto simp: dispatch_non_booking_def non_booking_outbound_def intro!: keeps_intros vk)
  show "keeps plans_worked (plan_worker_claim_one e w secs token locked)"
    unfolding plan_worker_claim_one_def by (intro worked.keeps_bind keeps_worked_claim worker_steps_worked)
qed (auto simp: booking_phase1_prepare_def booking_phase2_finalize_def
    fail_claimed_def intro!: keeps_intros)

lemma arbiter_sessions_worked:
  "keeps plans_worked (admit_in_session st e oclaim)"
  "keeps plans_worked (prepare_reclaimed_admission oclaim)"
  "keeps plans_worked (store_provider_id oclaim n)"
  "keeps plans_worked (record_delivery e oclaim pid)"
  "keeps plans_worked (project_delivery e delivered corr)"
  "keeps plans_worked (fail_claim e oclaim)"
  "keeps plans_worked (fail_admitted_delivery e oclaim permanent)"
  "keeps plans_worked (outbound_worker_claim_one e worker osecs otoken olocked)"
  by (auto simp: admit_in_session_def prepare_reclaimed_admission_def store_provider_id_def
      record_delivery_def project_delivery_def fail_claim_def fail_admitted_delivery_def
      outbound_worker_claim_one_def intro!: keeps_intros)

text \<open>The sessions of the two workers.\<close>

inductive worker_step :: "db \<Rightarrow> db \<Rightarrow> bool" where
  plan_claim: "plan_worker_claim_one e w secs token locked s = Inr (r1, s') \<Longrightarrow> worker_step s s'"
| plan_dispatch: "dispatch_non_booking e claim s = Inr (r2, s') \<Longrightarrow> worker_step s s'"
| plan_prepare: "booking_phase1_prepare e claim s = Inr (r3, s') \<Longrightarrow> worker_step s s'"
| plan_finalize: "booking_phase2_finalize e claim pl flds persist s = Inr (r4, s') \<Longrightarrow> worker_step s s'"
| plan_fail: "fail_claimed e delay claim code s = Inr (r5, s') \<Longrightarrow> worker_step s s'"
| out_claim: "outbound_worker_claim_one e w secs token locked s = Inr (r6, s') \<Longrightarrow> worker_step s s'"
| out_admit: "admit_in_session st e oclaim s = Inr (r7, s') \<Longrightarrow> worker_step s s'"
| out_reclaim: "prepare_reclaimed_admission oclaim s = Inr (r8, s') \<Longrightarrow> worker_step s s'"
| out_provider: "store_provider_id oclaim n s = Inr (r9, s') \<Longrightarrow> worker_step s s'"
| out_deliver: "record_delivery e oclaim pid s = Inr (r10, s') \<Longrightarrow> worker_step s s'"
| out_project: "project_delivery e delivered corr s = Inr (r11, s') \<Longrightarrow> worker_step s s'"
| out_fail: "fail_claim e oclaim s = Inr (r12, s') \<Longrightarrow> worker_step s s'"
| out_fail_admitted: "fail_admitted_delivery e oclaim permanent s = Inr (r13, s') \<Longrightarrow> worker_step s s'"

lemma worker_step_worked: "worker_step s s' \<Longrightarrow> plans_worked s s'"
  by (induction rule: worker_step.induct)
    (auto dest: keepsD [OF worker_sessions_worked(1)] keepsD [OF worker_sessions_worked(2)]
      keepsD [OF worker_sessions_worked(3)] keepsD [OF worker_sessions_worked(4)] keepsD [OF worker_sessions_worked(5)]
      keepsD [OF arbiter_sessions_worked(1)] keepsD [OF arbiter_sessions_worked(2)] keepsD [OF arbiter_sessions_worked(3)]
      keepsD [OF arbiter_sessions_worked(4)] keepsD [OF arbiter_sessions_worked(5)] keepsD [OF arbiter_sessions_worked(6)]
      keepsD [OF arbiter_sessions_worked(7)] keepsD [OF arbiter_sessions_worked(8)])

lemma worker_step_queues: "worker_step s s' \<Longrightarrow> queues_run s s'"
  by (induction rule: worker_step.induct)
    (auto dest: keepsD [OF worker_sessions_queues(1)] keepsD [OF worker_sessions_queues(2)]
      keepsD [OF worker_sessions_queues(3)] keepsD [OF worker_sessions_queues(4)] keepsD [OF worker_sessions_queues(5)]
      keepsD [OF arbiter_sessions_queues(1)] keepsD [OF arbiter_sessions_queues(2)] keepsD [OF arbiter_sessions_queues(3)]
      keepsD [OF arbiter_sessions_queues(4)] keepsD [OF arbiter_sessions_queues(5)] keepsD [OF arbiter_sessions_queues(6)]
      keepsD [OF arbiter_sessions_queues(7)] keepsD [OF arbiter_sessions_queues(8)])

lemma length_filter_rel:
  assumes "list_all2 S t t'" and "\<And>x y. S x y \<Longrightarrow> P y \<Longrightarrow> P x"
  shows "length (filter P t') \<le> length (filter P t)"
  using assms(1)
proof (induction rule: list_all2_induct)
  case (Cons x xs y ys)
  then show ?case using assms(2) [OF Cons(1)] by auto
qed simp

lemma plan_worked_open:
  assumes "plan_worked convs r r'" and "plan_open r'"
  shows "plan_open r"
  using assms(2) plans.steps_fin [OF conjunct1 [OF assms(1) [unfolded plan_worked_def]]]
  by (cases "plan_open r") (simp_all add: plan_finished_def)

lemma replies_ok_worked:
  assumes "list_all2 (plan_worked convs) t t'" and "replies_ok c (open_plans (c_id c) t)"
    and "distinct (map c_id convs)" and "c \<in> set convs"
  shows "replies_ok c (open_plans (c_id c) t')"
proof -
  let ?P = "\<lambda>r. p_conversation_id r = c_id c \<and> plan_open r"
  have was_open: "?P x" if "plan_worked convs x y" "?P y" for x y
    using plan_worked_open [OF that(1)] plan_worked_keys [OF that(1)] that(2) by (simp add: plan_keys_def)
  have len: "length (open_plans (c_id c) t') \<le> length (open_plans (c_id c) t)"
    unfolding open_plans_def by (rule length_filter_rel [OF assms(1) was_open])
  have origin: "\<exists>r \<in> set (open_plans (c_id c) t). plan_keys r' = plan_keys r" if "r' \<in> set (open_plans (c_id c) t')" for r'
  proof -
    have r': "r' \<in> set t'" "?P r'" using that by (auto simp: open_plans_def)
    then obtain r where "r \<in> set t" "plan_worked convs r r'"
      using assms(1) by (metis in_set_conv_nth list_all2_conv_all_nth)
    with was_open [OF _ r'(2)] plan_worked_keys show ?thesis by (auto simp: open_plans_def)
  qed
  have deferred: "\<exists>r' \<in> set (open_plans (c_id c) t'). deferred_reply c r'"
    if "c_handoff_state c = HUMAN_PAUSE" and r: "r \<in> set (open_plans (c_id c) t)" "deferred_reply c r" for r
  proof -
    obtain r' where r': "r' \<in> set t'" "plan_worked convs r r'"
      using r(1) assms(1) by (auto simp: open_plans_def) (metis in_set_conv_nth list_all2_conv_all_nth)
    have "c_handoff_state x \<noteq> BOT_ACTIVE" if "x \<in> set convs" "c_id x = p_conversation_id r" for x
      using distinct_key_unique [OF assms(3) that(1) assms(4)] that(2) r(2) \<open>c_handoff_state c = HUMAN_PAUSE\<close>
      by (simp add: deferred_reply_def)
    with r' r(2) have "r' = r \<or> r' = plan_ready_row r"
      by (auto simp: plan_worked_def deferred_reply_def)
    with r r'(1) show ?thesis
      by (intro bexI [of _ r']) (auto simp: open_plans_def deferred_reply_def plan_ready_row_def plan_open_iff)
  qed
  show ?thesis
    using assms(2) len origin deferred unfolding replies_ok_def plan_current_def plan_keys_def
    by (intro conjI impI ballI) fastforce+
qed

lemma db_ok_worked:
  assumes "db_ok s" and "plans_worked s s'"
  shows "db_ok s'"
proof -
  have fixed: "db_conversations s' = db_conversations s" "db_inbox s' = db_inbox s"
    and all: "list_all2 (plan_worked (db_conversations s)) (db_reply_plans s) (db_reply_plans s')"
    using assms by (auto simp: plans_worked_def db_ok_def)
  have "map p_conversation_id (db_reply_plans s') = map p_conversation_id (db_reply_plans s)"
    using all by (rule list_all2_map_eq) (auto dest: plan_worked_keys simp: plan_keys_def)
  then have "p_conversation_id ` set (db_reply_plans s') = p_conversation_id ` set (db_reply_plans s)"
    by (metis list.set_map)
  with assms(1) fixed plans_worked_ids [OF all] replies_ok_worked [OF all] show ?thesis
    by (auto simp: db_ok_def)
qed

section \<open>The services\<close>

lemma db_ok_cong:
  assumes "db_ok s" and "db_conversations s' = db_conversations s" and "db_inbox s' = db_inbox s"
    and "db_reply_plans s' = db_reply_plans s"
  shows "db_ok s'"
  using assms by (simp add: db_ok_def)

lemma reply_dialog_ok:
  assumes "conversation_ok c" and "handoff_pause_valid pause"
  shows "conversation_ok (reply_dialog e pause c)"
proof -
  have "conversation_ok (paused_dialog e pause c)"
    using assms conv_step_ok [OF conv_step.pause [of pause c "en_now e"]] by (simp add: paused_dialog_def)
  with assms(1) show ?thesis
    using conv_step_ok [OF conv_step.active_plan] by (simp add: reply_dialog_def)
qed

lemma paused_state:
  assumes "conversation_ok c" and "c_status c = HANDOFF"
  shows "c_handoff_state (paused_dialog e pause c) = HUMAN_PAUSE" and "c_channel (paused_dialog e pause c) = c_channel c"
  using handoff_states [OF assms] by (auto simp: paused_dialog_def conv_pause_row_def)

lemma deferred_marker: "dict_get (client_reply_plan_payload i b True) ''deferred_for_handoff'' = JBool True"
  by (simp add: client_reply_plan_payload_def split: option.split)

lemma scheduled_reply_ok:
  assumes "conversation_ok c" and "handoff_pause_valid pause" and "c_channel c = Channel_SYNTHETIC"
  shows "replies_ok (reply_dialog e pause c)
    (open_plans (c_id c) (case scheduled_reply e pause ev i c of None \<Rightarrow> [] | Some r \<Rightarrow> [r]))"
proof -
  consider (bot) "conversation_allows_automatic_reply c" | (human) "c_status c = HANDOFF"
    | (closed) "\<not> conversation_allows_automatic_reply c" "c_status c \<noteq> HANDOFF"
    by blast
  then show ?thesis
  proof cases
    case bot
    then have "c_handoff_state c \<noteq> HUMAN_PAUSE"
      by (auto simp: conversation_allows_automatic_reply_def split: if_splits)
    with bot show ?thesis
      by (simp add: scheduled_reply_def reply_dialog_def replies_ok_def open_plans_def plan_new_row_def
          plan_current_def)
  next
    case human
    note hs = handoff_states [OF assms(1) human] and ps = paused_state [OF assms(1) human, of e pause]
    obtain d where d: "c_handoff_deadline_at (paused_dialog e pause c) = Some d"
      by (rule paused_dialog_deadline [OF assms(1) human])
    show ?thesis
      using hs human ps d assms(3)
      by (simp add: scheduled_reply_def reply_dialog_def replies_ok_def open_plans_def plan_new_row_def
          plan_current_def deferred_reply_def deferred_marker plan_open_iff conv_deadline_def)
  next
    case closed
    then have "c_handoff_state c \<noteq> HUMAN_PAUSE"
      using assms(1) by (auto simp: conversation_ok_def ck_conversations_handoff_consistency_def)
    with closed show ?thesis
      by (simp add: scheduled_reply_def reply_dialog_def replies_ok_def open_plans_def)
  qed
qed

lemma scheduled_reply_keys:
  assumes "scheduled_reply e pause ev i c = Some r"
  shows "p_id r = en_plan_id e" and "p_conversation_id r = c_id c"
  using assms by (auto simp: scheduled_reply_def plan_new_row_def split: if_splits)

lemma accept_db_ok:
  assumes "accept e pii pause ev s = Inr (res, s')" and "db_ok s"
  shows "db_ok s'"
  using assms(1) db_okD(1-3) [OF assms(2)] refl
proof (cases rule: accept_cases)
  case (duplicate c m outbox)
  with assms(2) show ?thesis by (simp add: db_ok_cong)
next
  case (stored c created t m offers pendings outbox mirror projections p)
  let ?s = "s \<lparr> db_conversations := t \<rparr>" and ?c1 = "conv_bump_row (received_at_utc e ev) (conv_seq_row c)"
  note op = db_ok_opened [OF assms(2) stored(1)]
  have pv: "handoff_pause_valid pause"
    using assms(1) by (auto simp: accept_def session_simps split: if_splits)
  have c: "c \<in> set t" using stored(2) by (simp add: conv_current_def)
  have ok1: "conversation_ok ?c1" and ch1: "c_channel ?c1 = Channel_SYNTHETIC"
    using stored(3) op(3) by (simp, simp add: conv_bump_row_def conv_seq_row_def)
  have replies: "replies_ok (inbound_dialog e pause (received_at_utc e ev) c)
      (open_plans (c_id c) (case p of None \<Rightarrow> [] | Some r \<Rightarrow> [r]))"
    using scheduled_reply_ok [OF ok1 pv ch1, of e ev "en_inbox_id e"]
    by (simp add: inbound_dialog_def stored(6) inbound_plan_def)
  have keys: "p_id r = en_plan_id e" "p_conversation_id r = c_id c" if "p = Some r" for r
    using scheduled_reply_keys [of e pause ev _ ?c1 r] that by (simp_all add: stored(6) inbound_plan_def)
  have fk: "p_conversation_id ` set (case p of None \<Rightarrow> [] | Some r \<Rightarrow> [r]) \<subseteq> {c_id c}"
    using keys(2) by (cases p) simp_all
  have plans': "db_reply_plans s' = snd (supersede_open_plans (c_id c) ''NEW_CLIENT_MESSAGE'' (db_reply_plans s))
      @ (case p of None \<Rightarrow> [] | Some r \<Rightarrow> [r])"
    by (simp add: stored(7))
  have old: "p_conversation_id ` set (db_reply_plans s) \<subseteq> c_id ` set t" "{c_id c} \<subseteq> c_id ` set t"
    using db_okD(6) [OF op(1)] c by simp_all
  have fresh: "distinct (map p_id (snd (supersede_open_plans (c_id c) ''NEW_CLIENT_MESSAGE'' (db_reply_plans s))
      @ (case p of None \<Rightarrow> [] | Some r \<Rightarrow> [r])))"
  proof -
    have "distinct (map p_id (db_reply_plans s) @ map p_id (case p of None \<Rightarrow> [] | Some r \<Rightarrow> [r]))"
    proof (cases p)
      case (Some r)
      then have "\<forall>x \<in> set (db_reply_plans s). p_id x \<noteq> p_id r"
        using stored(10) keys(1) by simp
      with Some db_okD(4) [OF assms(2)] show ?thesis by (simp add: image_iff) metis
    qed (use db_okD(4) [OF assms(2)] in simp)
    then show ?thesis by (simp only: map_append closing_keys)
  qed
  show ?thesis
  proof (rule db_ok_move [OF op(1), of c "inbound_dialog e pause (received_at_utc e ev) c"])
    have "p_conversation_id ` set (db_reply_plans s') \<subseteq> c_id ` set t"
      unfolding plans' set_append image_Un closing_dialogs by (intro Un_least old(1) subset_trans [OF fk old(2)])
    then show "p_conversation_id ` set (db_reply_plans s') \<subseteq> c_id ` set (db_conversations ?s)"
      by simp
    show "\<forall>x \<in> set (db_inbox s'). i_conversation_id x \<in> c_id ` set (db_conversations ?s)"
      using db_okD(3) [OF op(1)] c by (auto simp: stored(5,7) inbox_new_row_def)
    show "open_plans cid (db_reply_plans s') = open_plans cid (db_reply_plans ?s)" if "cid \<noteq> c_id c" for cid
    proof -
      have "open_plans cid (case p of None \<Rightarrow> [] | Some r \<Rightarrow> [r]) = []"
        using that keys(2) by (intro open_plans_none) (simp split: option.split)
      with that show ?thesis by (simp add: plans')
    qed
  qed (use c replies fresh reply_dialog_ok [OF ok1 pv] in
      \<open>simp_all add: stored(7) inbound_dialog_def\<close>)
qed

text \<open>A VK message, and the closed proof reply it may trigger in the same session.\<close>

lemma vk_accept_cases:
  assumes "vk_accept e ev s = Inr (r, s')" and "db_ok s"
  obtains (old) "s' = s" and "\<not> vr_created_inbox r"
    | (new) c t created m where "vr_created_inbox r"
      and "conv_get_or_create (en_conversation_id e) (en_now e) Channel_VK (ev_external_conversation_id ev)
             (db_conversations s) = Inr ((c, created), t)"
      and "vr_conversation r = conv_bump_row (received_at_utc e ev) (conv_seq_row c)"
      and "i_conversation_id m = c_id c"
      and "s' = s \<lparr> db_conversations := sql_put c_id (vr_conversation r) t, db_inbox := db_inbox s @ [m] \<rparr>"
proof -
  let ?ra = "received_at_utc e ev"
  have chan: "ev_channel ev = ''vk''"
    using assms(1) by (auto simp: vk_accept_def session_simps split: if_splits)
  obtain c created s1 c1 m ci s2 c2 where opn: "open_dialog e Channel_VK (ev_external_conversation_id ev) s = Inr ((c, created), s1)"
    and store: "store_inbox e Channel_VK (ev_external_message_id ev) (vk_safe_payload (ev_text ev)) ?ra c s1 =
        Inr ((c1, m, ci), s2)"
    and bump: "(if ci then on_conversations (bump_context_for_new_message c1 ?ra) else db_return c1) s2 = Inr (c2, s')"
    and r: "vr_created_inbox r = ci" "vr_conversation r = c2"
    using assms(1) chan by (auto simp: vk_accept_def session_simps)
  note d = db_okD [OF assms(2)]
  from opn obtain t where gc: "conv_get_or_create (en_conversation_id e) (en_now e) Channel_VK
        (ev_external_conversation_id ev) (db_conversations s) = Inr ((c, created), t)"
    and s1: "s1 = s \<lparr> db_conversations := t \<rparr>" and cur: "conv_current c t"
    using d(1) by (rule open_dialog_Inr)
  have cur1: "conv_current c (db_conversations s1)"
    using cur by (simp add: s1)
  from store cur1 show thesis
  proof (cases rule: store_inbox_Inr)
    case old
    have "m \<in> set (db_inbox s)"
      using old(4) by (auto simp: s1 get_inbox_by_external_def dest: sql_one_Some)
    then have "c_id c \<in> c_id ` set (db_conversations s)"
      using d(3) old(5) by metis
    then have "t = db_conversations s"
      using conv_get_or_create_Inr(2) [OF gc d(1)]
      by (auto simp: conv_get_by_id_for_update_def sql_one_None conv_new_row_def)
    with old bump r show thesis by (intro that(1)) (simp_all add: s1 session_simps)
  next
    case new
    have cur2: "conv_current (conv_seq_row c) (db_conversations s2)"
      using conv_current_put [OF cur, of "conv_seq_row c"] by (simp add: new(5) s1 conv_seq_row_def)
    have put: "sql_put c_id c' (sql_put c_id (conv_seq_row c) t) = sql_put c_id c' t" if "c_id c' = c_id c" for c'
      by (rule sql_put_put) (simp add: that conv_seq_row_def)
    show thesis
      by (rule that(2) [OF _ gc, of m])
        (use new bump r bump_context_current [OF cur2, of ?ra] put [of "conv_bump_row ?ra (conv_seq_row c)"] in
          \<open>simp_all add: session_simps s1 inbox_new_row_def\<close>)
  qed
qed

lemma vk_proof_cases:
  assumes "maybe_create_vk_client_proof_reply_plan e st cfg c txt created s = Inr (p, s')"
    and "conv_current c (db_conversations s)"
  obtains (none) "s' = s" | (planned) plan outbox where "created" and "c_channel c = Channel_VK"
      and "p_conversation_id plan = c_id c" and "\<forall>x \<in> set (db_reply_plans s). p_id x \<noteq> p_id plan"
      and "s' = s \<lparr> db_conversations := sql_put c_id (c \<lparr> c_active_reply_plan_id := Some (p_id plan) \<rparr>) (db_conversations s),
                   db_reply_plans := snd (supersede_open_plans (c_id c) ''VK_CLIENT_PROOF_TRIGGER'' (db_reply_plans s)) @ [plan],
                   db_outbox := outbox \<rparr>"
proof (cases "s' = s")
  case True
  then show ?thesis by (rule none)
next
  case False
  let ?closed = "snd (supersede_open_plans (c_id c) ''VK_CLIENT_PROOF_TRIGGER'' (db_reply_plans s))"
  obtain reply plan t c1 t1 where created and chan: "c_channel c = Channel_VK"
    and cr: "create_client_reply_plan (en_plan_id e) (en_now e) (c_id c) (c_context_version c) (en_plan_correlation e)
        (vk_client_proof_reply_plan_payload reply) BOT_RESPONSE_DELAY_MS REPLY_PLAN_DEFAULT_MAX_ATTEMPTS None
        (c_manager_epoch c) (c_current_event_seq c) ?closed = Inr (plan, t)"
    and act: "set_active_reply_plan c (Some (p_id plan)) (db_conversations s) = Inr (c1, t1)"
    and s': "s' = s \<lparr> db_reply_plans := t, db_outbox := snd (cancel_unadmitted_for_conversation (c_id c) (db_outbox s)),
        db_conversations := t1 \<rparr>"
    using assms(1) False
    by (auto simp: maybe_create_vk_client_proof_reply_plan_def session_simps split: if_splits option.splits)
  note n = create_plan_Inr [OF cr]
  have "\<forall>x \<in> set (db_reply_plans s). p_id x \<noteq> p_id plan"
    using superseded_keys [OF n(3) refl] n(2) by (simp add: plan_new_row_def)
  moreover have "p_conversation_id plan = c_id c"
    using n(2) by (simp add: plan_new_row_def)
  moreover have "t1 = sql_put c_id (c \<lparr> c_active_reply_plan_id := Some (p_id plan) \<rparr>) (db_conversations s)"
    using act set_active_reply_plan_current [OF assms(2)] by auto
  ultimately show ?thesis
    using \<open>created\<close> chan
    by (intro planned [of plan "snd (cancel_unadmitted_for_conversation (c_id c) (db_outbox s))"])
      (simp_all add: s' n(1))
qed

text \<open>Every silenced dialog is left without an open plan.\<close>

lemma db_ok_silenced:
  assumes "db_ok s" and "c \<in> set (db_conversations s)" and "c_id c' = c_id c" and "conversation_ok c'"
    and "c_handoff_state c' \<noteq> HUMAN_PAUSE"
    and "db_conversations s' = sql_put c_id c' (db_conversations s)"
    and "db_reply_plans s' = snd (cancel_open_plans_for_takeover (c_id c) reason (db_reply_plans s))"
    and "db_inbox s' = db_inbox s"
  shows "db_ok s'"
  using assms db_okD [OF assms(1)]
  by (intro db_ok_move [OF assms(1,2,3,6)]) (simp_all add: replies_ok_closed)

lemma vk_client_db_ok:
  assumes "vk_accept e ev s = Inr (r, s1)" and "db_ok s"
    and "maybe_create_vk_client_proof_reply_plan e' st cfg (vr_conversation r) txt (vr_created_inbox r) s1 = Inr (p, s')"
  shows "db_ok s'"
  using assms(1,2)
proof (cases rule: vk_accept_cases)
  case old
  then have "s' = s"
    using assms(3) by (simp add: maybe_create_vk_client_proof_reply_plan_def session_simps)
  with assms(2) show ?thesis by simp
next
  case (new c t created m)
  let ?s = "s \<lparr> db_conversations := t \<rparr>" and ?c = "vr_conversation r"
  note op = db_ok_opened [OF assms(2) new(2)]
  have c: "c \<in> set t" using op(2) by (simp add: conv_current_def)
  have c': "c_id ?c = c_id c" "c_channel ?c = Channel_VK" "c_handoff_state ?c = c_handoff_state c"
    "conversation_ok c \<Longrightarrow> conversation_ok ?c"
    using op(3) by (simp_all add: new(3)) (simp add: conv_bump_row_def conv_seq_row_def)
  have ok: "conversation_ok c" and rep: "replies_ok c (open_plans (c_id c) (db_reply_plans s))"
    using op(1) c by (auto simp: db_ok_def)
  have active: "c_handoff_state ?c \<noteq> HUMAN_PAUSE"
    using rep op(3) c'(3) by (auto simp: replies_ok_def)
  have ok1: "db_ok s1"
  proof (rule db_ok_move [OF op(1), of c ?c])
    show "replies_ok ?c (open_plans (c_id c) (db_reply_plans s1))"
      using rep active c'(2) by (simp add: replies_ok_def new(5))
    show "\<forall>x \<in> set (db_inbox s1). i_conversation_id x \<in> c_id ` set (db_conversations ?s)"
      using db_okD(3) [OF op(1)] c by (auto simp: new(4,5))
  qed (use c c' ok db_okD [OF op(1)] in \<open>simp_all add: new(5)\<close>)
  have in1: "conv_current ?c (db_conversations s1)"
    using conv_current_put [OF op(2) c'(1)] by (simp add: new(5))
  from assms(3) in1 show ?thesis
  proof (cases rule: vk_proof_cases)
    case none
    with ok1 show ?thesis by simp
  next
    case (planned plan outbox)
    let ?c2 = "?c \<lparr> c_active_reply_plan_id := Some (p_id plan) \<rparr>"
    have c1: "?c \<in> set (db_conversations s1)" using in1 by (simp add: conv_current_def)
    show ?thesis
    proof (rule db_ok_move [OF ok1 c1, of ?c2])
      show "conversation_ok ?c2"
        using conv_step_ok [OF conv_step.active_plan] c'(4) ok by blast
      show "replies_ok ?c2 (open_plans (c_id ?c) (db_reply_plans s'))"
        using c'(2) active by (simp add: planned(5) replies_ok_def)
      show "p_conversation_id ` set (db_reply_plans s') \<subseteq> c_id ` set (db_conversations s1)"
        using db_okD(6) [OF ok1] c1 planned(3) by (simp add: planned(5) image_Un)
      show "distinct (map p_id (db_reply_plans s'))"
        using db_okD(4) [OF ok1] planned(4) by (simp add: planned(5) flip: set_map) auto
    qed (use planned(3) db_okD(3) [OF ok1] in \<open>simp_all add: planned(5)\<close>)
  qed
qed

lemma manager_rows_ok:
  assumes "conversation_ok c" and "handoff_pause_valid pause" and "0 \<le> n"
  shows "case c_manager_sequence_hwm c of None \<Rightarrow> True | Some h \<Rightarrow> h < n \<Longrightarrow> conversation_ok (manager_row e pause n c)"
    and "case c_vk_client_external_reply_hwm c of None \<Rightarrow> True | Some h \<Rightarrow> h < n \<Longrightarrow> conversation_ok (vk_reply_row e pause n c)"
    and "c_handoff_state (manager_row e pause n c) = HUMAN_ACTIVE"
    and "c_handoff_state (vk_reply_row e pause n c) = HUMAN_ACTIVE"
proof -
  have opened: "conversation_ok (conv_opened m x)" if "conversation_ok x" for m x
    using that conv_step_ok [OF conv_step.clear] by (simp add: conv_opened_def)
  have seq: "conversation_ok (conv_seq_row c)"
    by (rule conv_step_ok [OF conv_step.seq assms(1)])
  show "conversation_ok (manager_row e pause n c)"
    if "case c_manager_sequence_hwm c of None \<Rightarrow> True | Some h \<Rightarrow> h < n"
    unfolding manager_row_def
    by (rule conv_step_ok [OF conv_step.manager [OF assms(2,3)] opened [OF seq]])
      (use that in \<open>simp add: conv_seq_row_def\<close>)
  show "conversation_ok (vk_reply_row e pause n c)"
    if "case c_vk_client_external_reply_hwm c of None \<Rightarrow> True | Some h \<Rightarrow> h < n"
    unfolding vk_reply_row_def
    by (rule conv_step_ok [OF conv_step.vk_reply [OF assms(2,3)] opened [OF assms(1)]]) (use that in simp)
qed (simp_all add: manager_row_def vk_reply_row_def conv_human_active_row_def)

lemma manager_dialog_db_ok:
  assumes "manager_dialog e bound ext s = Inr (c, s1)" and "db_ok s"
  shows "db_ok s1"
  using assms(1) db_okD(1) [OF assms(2)]
proof (cases rule: manager_dialog_Inr)
  case known
  with assms(2) show ?thesis by simp
next
  case created
  with assms(2) show ?thesis
    by (intro db_ok_create [OF assms(2) created(4)]) simp_all
qed

lemma manager_message_db_ok:
  assumes "apply_manager_message_in_session e pause bound ev s = Inr (res, s')" and "db_ok s"
  shows "db_ok s'"
  using assms(1) db_okD(1,2) [OF assms(2)]
proof (cases rule: manager_message_cases)
  case (kept c s1 mms)
  with manager_dialog_db_ok [OF kept(1) assms(2)] show ?thesis by (simp add: db_ok_cong)
next
  case (applied c s1 m n evs mirror)
  note rows = manager_rows_ok [OF applied(3,7,8)]
  have "c \<in> set (db_conversations s1)" using applied(2) by (simp add: conv_current_def)
  then show ?thesis
    by (rule db_ok_silenced [OF manager_dialog_db_ok [OF applied(1) assms(2)]])
      (use rows(1) [OF applied(5)] rows(3) in \<open>simp_all add: applied(11) silenced_def\<close>)
qed

lemma takeover_db_ok:
  assumes "apply_manager_takeover_in_session e cid s = Inr ((c', cancelled, changed), s')" and "db_ok s"
  shows "db_ok s'"
  using assms(1) db_okD(1,2) [OF assms(2)]
proof (cases rule: takeover_cases)
  case kept
  have c: "c' \<in> set (db_conversations s)" and d: "distinct (map c_id (db_conversations s))"
    using kept(2) by (simp_all add: conv_current_def)
  have "conversation_ok c'" using db_okD(2) [OF assms(2)] c by blast
  with kept(4) have "c_handoff_state c' \<noteq> HUMAN_PAUSE"
    by (auto simp: conversation_ok_def ck_conversations_handoff_consistency_def)
  with \<open>conversation_ok c'\<close> kept(3) sql_put_same [OF d c] show ?thesis
    by (intro db_ok_silenced [OF assms(2) c refl]) (simp_all add: kept(5))
next
  case (taken c mirror)
  have c: "c \<in> set (db_conversations s)" using taken(2) by (simp add: conv_current_def)
  have "conversation_ok (conv_takeover_row (en_now e) c)"
    using conv_step_ok [OF conv_step.takeover [OF taken(4)]] db_okD(2) [OF assms(2)] c by blast
  then show ?thesis
    by (intro db_ok_silenced [OF assms(2) c]) (simp_all add: taken(3,7) silenced_def conv_takeover_row_def)
qed

lemma vk_reply_db_ok:
  assumes "apply_vk_client_message_reply_in_session e hmac cfg pause env s = Inr (res, s')" and "db_ok s"
  shows "db_ok s'"
  using assms(1) db_okD(1,2) [OF assms(2)]
proof (cases rule: vk_reply_cases)
  case kept
  with assms(2) show ?thesis by simp
next
  case (external c evs mirror n)
  have n: "0 \<le> n" using external(10) by simp
  note rows = manager_rows_ok [OF external(4,11) n]
  have "c \<in> set (db_conversations s)" using external(3) by (simp add: conv_current_def)
  then show ?thesis
    by (rule db_ok_silenced [OF assms(2)])
      (use rows(2) [OF external(9)] rows(4) in \<open>simp_all add: external(14) silenced_def\<close>)
qed

text \<open>The expiry worker finds the deferred reply of every paused dialog.\<close>

lemma deferred_open: "deferred_reply c r \<Longrightarrow> plan_open r"
  by (auto simp: deferred_reply_def plan_open_iff)

lemma paused_plan_found:
  assumes "db_ok s" and "c \<in> set (db_conversations s)" and "c_handoff_state c = HUMAN_PAUSE"
  obtains plan where "lock_current_deferred_plan c (db_reply_plans s) = Inr plan" and "deferred_reply c plan"
    and "plan \<in> set (db_reply_plans s)" and "open_plans (c_id c) (db_reply_plans s) = [plan]"
    and "c_channel c = Channel_SYNTHETIC"
proof -
  note rep = db_okD(5) [OF assms(1,2), unfolded replies_ok_def]
  obtain plan where plan: "plan \<in> set (open_plans (c_id c) (db_reply_plans s))" "deferred_reply c plan"
    and ch: "c_channel c = Channel_SYNTHETIC"
    using rep assms(3) by blast
  have one: "open_plans (c_id c) (db_reply_plans s) = [plan]"
    using plan(1) rep by (cases "open_plans (c_id c) (db_reply_plans s)") auto
  have in_t: "plan \<in> set (db_reply_plans s)"
    using plan(1) by (simp add: open_plans_def)
  have "lock_current_deferred_plan c (db_reply_plans s) = Inr plan"
    using lock_deferred_plan_iff [OF db_okD(4) [OF assms(1)]] plan(2) in_t by blast
  with plan(2) in_t one ch show thesis by (intro that)
qed

lemma expire_one_run:
  assumes "db_ok s" and "en_now e \<le> moment"
    and "claim_next_due_handoff (en_now e) locked (db_conversations s) = Some c"
  obtains (active) res where "c_handoff_state c = HUMAN_ACTIVE" and "expire_one e moment locked s =
      Inr (Some res, s \<lparr> db_reply_plans := snd (cancel_open_plans_for_takeover (c_id c) ''HANDOFF_EXPIRED_NO_CLIENT'' (db_reply_plans s)),
             db_outbox := snd (cancel_unadmitted_for_conversation (c_id c) (db_outbox s)),
             db_conversations := sql_put c_id (conv_return_row None c) (db_conversations s) \<rparr>)"
      and "xr_transition res = HUMAN_ACTIVE_TO_BOT" and "xr_conversation_id res = c_id c"
    | (paused) res plan where "c_handoff_state c = HUMAN_PAUSE" and "expire_one e moment locked s =
      Inr (Some res, s \<lparr> db_conversations := sql_put c_id (conv_return_row (Some (p_id plan)) c) (db_conversations s) \<rparr>)"
      and "xr_transition res = HUMAN_PAUSE_TO_BOT" and "xr_conversation_id res = c_id c"
      and "deferred_reply c plan" and "plan \<in> set (db_reply_plans s)"
      and "open_plans (c_id c) (db_reply_plans s) = [plan]" and "c_channel c = Channel_SYNTHETIC"
proof -
  note cl = due_dialog [OF assms(3) db_okD(1) [OF assms(1)]]
  note ret = return_due_handoff_current [OF cl(1) due_later [OF cl(2) assms(2)]]
  have c: "c \<in> set (db_conversations s)" using cl(1) by (simp add: conv_current_def)
  have "c_handoff_state c = HUMAN_ACTIVE \<or> c_handoff_state c = HUMAN_PAUSE"
    using cl(2) by (auto simp: conv_handoff_due_def)
  then show thesis
  proof
    assume act: "c_handoff_state c = HUMAN_ACTIVE"
    show thesis
      by (rule active [OF act, of "\<lparr> xr_conversation_id = c_id c, xr_transition = HUMAN_ACTIVE_TO_BOT,
            xr_active_reply_plan_id = None,
            xr_cancelled_plans = fst (cancel_open_plans_for_takeover (c_id c) ''HANDOFF_EXPIRED_NO_CLIENT'' (db_reply_plans s)),
            xr_cancelled_outbound = fst (cancel_unadmitted_for_conversation (c_id c) (db_outbox s)),
            xr_quarantine_reason = None \<rparr>"])
        (simp_all add: expire_one_def db_read_def assms(3) act with_table_run ret db_return_def
          cancel_unadmitted_for_manager_message_def conv_return_row_def)
  next
    assume pause: "c_handoff_state c = HUMAN_PAUSE"
    from assms(1) c pause obtain plan where plan: "lock_current_deferred_plan c (db_reply_plans s) = Inr plan"
      "deferred_reply c plan" "plan \<in> set (db_reply_plans s)" "open_plans (c_id c) (db_reply_plans s) = [plan]"
      "c_channel c = Channel_SYNTHETIC"
      by (rule paused_plan_found)
    show thesis
      by (rule paused [OF pause, of "\<lparr> xr_conversation_id = c_id c, xr_transition = HUMAN_PAUSE_TO_BOT,
            xr_active_reply_plan_id = Some (p_id plan), xr_cancelled_plans = 0, xr_cancelled_outbound = 0,
            xr_quarantine_reason = None \<rparr>", OF _ _ _ plan(2-5)])
        (simp_all add: expire_one_def db_read_def assms(3) pause plan(1) ret db_return_def conv_return_row_def)
  qed
qed

lemma return_row_ok: "conv_handoff_due now c \<Longrightarrow> conversation_ok c \<Longrightarrow> conversation_ok (conv_return_row p c)"
  by (auto simp: conversation_ok_defs conv_return_row_def conv_handoff_due_def split: option.splits)

lemma expire_one_db_ok:
  assumes "expire_one e moment locked s = Inr (r, s')" and "db_ok s" and "en_now e \<le> moment"
  shows "db_ok s'"
proof (cases "claim_next_due_handoff (en_now e) locked (db_conversations s)")
  case None
  with assms show ?thesis by (simp add: expire_one_def session_simps)
next
  case (Some c)
  note cl = due_dialog [OF Some db_okD(1) [OF assms(2)]]
  have c: "c \<in> set (db_conversations s)" using cl(1) by (simp add: conv_current_def)
  have ok: "conversation_ok (conv_return_row p c)" for p
    using return_row_ok [OF cl(2)] db_okD(2) [OF assms(2)] c by blast
  from assms(2,3) Some show ?thesis
  proof (cases rule: expire_one_run)
    case (active res)
    then show ?thesis
      using assms(1) ok by (intro db_ok_silenced [OF assms(2) c, of "conv_return_row None c"])
        (auto simp: conv_return_row_def)
  next
    case (paused res plan)
    show ?thesis
    proof (rule db_ok_move [OF assms(2) c, of "conv_return_row (Some (p_id plan)) c"])
      show "replies_ok (conv_return_row (Some (p_id plan)) c) (open_plans (c_id c) (db_reply_plans s'))"
        using paused assms(1) by (auto simp: replies_ok_def conv_return_row_def plan_current_def deferred_reply_def)
    qed (use paused(2) assms(1) ok db_okD [OF assms(2)] in \<open>auto simp: conv_return_row_def\<close>)
  qed
qed

section \<open>The system\<close>

definition empty_db :: db where
  "empty_db = \<lparr> db_conversations = [], db_ops_events = [], db_inbox = [], db_manager_messages = [],
     db_reply_plans = [], db_outbox = [], db_mirror = [], db_projections = [], db_offers = [],
     db_pii_admissions = [], db_create_pendings = [],
     db_bindings = [], db_ingress = [] \<rparr>"

text \<open>A committed session of any service; the expiry worker reads the clock again after its claim.\<close>

inductive sys_step :: "db \<Rightarrow> db \<Rightarrow> bool" where
  client: "accept e pii pause ev s = Inr (r1, s') \<Longrightarrow> sys_step s s'"
| vk_client: "vk_accept e ev s = Inr (r2, s1) \<Longrightarrow>
    maybe_create_vk_client_proof_reply_plan e st cfg (vr_conversation r2) (ev_text ev) (vr_created_inbox r2) s1 = Inr (p, s') \<Longrightarrow>
    sys_step s s'"
| manager: "apply_manager_message_in_session e pause bound mev s = Inr (r3, s') \<Longrightarrow> sys_step s s'"
| takeover: "apply_manager_takeover_in_session e cid s = Inr (r4, s') \<Longrightarrow> sys_step s s'"
| vk_reply: "apply_vk_client_message_reply_in_session e hmac xcfg pause env s = Inr (r5, s') \<Longrightarrow> sys_step s s'"
| expiry: "expire_one e moment locked s = Inr (r6, s') \<Longrightarrow> en_now e \<le> moment \<Longrightarrow> sys_step s s'"
| worker: "worker_step s s' \<Longrightarrow> sys_step s s'"

lemma sys_step_db_ok: "sys_step s s' \<Longrightarrow> db_ok s \<Longrightarrow> db_ok s'"
proof (induction rule: sys_step.induct)
  case (takeover e cid s r4 s')
  then show ?case using takeover_db_ok by (cases r4) blast
qed (blast intro: accept_db_ok vk_client_db_ok manager_message_db_ok vk_reply_db_ok expire_one_db_ok
    db_ok_worked worker_step_worked)+

lemma empty_db_ok: "db_ok empty_db"
  by (simp add: db_ok_def empty_db_def)

lemma sys_reach_db_ok: "sys_step\<^sup>*\<^sup>* s s' \<Longrightarrow> db_ok s \<Longrightarrow> db_ok s'"
  by (induction rule: rtranclp_induct) (blast dest: sys_step_db_ok)+

text \<open>Every step moves the leased tables by calls of their repositories.\<close>

lemma keeps_queues_settle: "keeps queues_run (settle_offer e pii ev c)"
proof -
  have "queues_run s s'" if settled: "settle_offer e pii ev c s = Inr (u, s')" for s u s'
    using settled by (cases rule: settle_offer_Inr) (simp add: queues_run_other)
  then show ?thesis by (auto simp: keeps_def)
qed

lemma keeps_queues_plan_reply: "keeps queues_run (plan_reply e pause ev m c)"
  by (auto simp: plan_reply_def intro!: keeps_intros intro: queue_runs)

lemma keeps_queues_open: "keeps queues_run (open_dialog e ch ext)" "keeps queues_run (store_inbox e ch ext pl ra c)"
  by (auto simp: open_dialog_def store_inbox_def intro!: keeps_intros intro: queue_runs)

lemma keeps_queues_accept: "keeps queues_run (accept e pii pause ev)"
  unfolding accept_def advance_dialog_def announce_client_message_def
  by (auto intro!: keeps_intros keeps_queues_settle keeps_queues_plan_reply keeps_queues_open intro: queue_runs)

lemma keeps_queues_vk:
  "keeps queues_run (vk_accept e ev)"
  "keeps queues_run (maybe_create_vk_client_proof_reply_plan e st cfg c txt created)"
  by (auto simp: vk_accept_def maybe_create_vk_client_proof_reply_plan_def
      intro!: keeps_intros keeps_queues_open intro: queue_runs)

lemma keeps_queues_silence: "keeps queues_run (silence_bot e cid reason entered)"
  by (auto simp: silence_bot_def cancel_unadmitted_for_manager_message_def intro!: keeps_intros intro: queue_runs)

lemma keeps_queues_manager_message: "keeps queues_run (apply_manager_message_in_session e pause bound ev)"
proof -
  have new: "keeps queues_run (apply_new_manager_message e pause c m n)" for c m n
    by (auto simp: apply_new_manager_message_def intro!: keeps_intros keeps_queues_silence)
  have settle: "keeps queues_run (settle_manager_message e pause ev c m created)" for c m created
    by (auto simp: settle_manager_message_def intro!: keeps_intros new split: ManagerEventClassification.split)
  have dialog: "keeps queues_run (manager_dialog e bound ext)" for ext
    by (auto simp: manager_dialog_def intro!: keeps_intros keeps_queues_open)
  show ?thesis
    by (auto simp: apply_manager_message_in_session_def intro!: keeps_intros settle dialog)
qed

lemma keeps_queues_takeover:
  "keeps queues_run (apply_manager_takeover_in_session e cid)"
  "keeps queues_run (apply_vk_client_message_reply_in_session e hmac xcfg pause env)"
  by (auto simp: apply_manager_takeover_in_session_def apply_vk_client_message_reply_in_session_def
      intro!: keeps_intros keeps_queues_silence intro: queue_runs)

lemma keeps_queues_expire: "keeps queues_run (expire_one e moment locked)"
  by (auto simp: expire_one_def quarantine_dialog_def cancel_unadmitted_for_manager_message_def
      intro!: keeps_intros intro: queue_runs split: HandoffState.split exn.split) (blast intro: queue_runs)+

lemma sys_step_queues: "sys_step s s' \<Longrightarrow> queues_run s s'"
proof (induction rule: sys_step.induct)
  case (vk_client e ev s r2 s1 st cfg p s')
  from keepsD [OF keeps_queues_vk(1) vk_client(1)] keepsD [OF keeps_queues_vk(2) vk_client(2)]
  show ?case by (rule queues.rel_trans)
qed (blast dest: keepsD [OF keeps_queues_accept] keepsD [OF keeps_queues_manager_message]
    keepsD [OF keeps_queues_takeover(1)] keepsD [OF keeps_queues_takeover(2)] keepsD [OF keeps_queues_expire]
    worker_step_queues)+

lemma sys_reach_queues: "sys_step\<^sup>*\<^sup>* s s' \<Longrightarrow> queues_run s s'"
  by (induction rule: rtranclp_induct) (blast intro: queues.rel_refl queues.rel_trans sys_step_queues)+

end
