(* ===== verification/Dialog_Spec.thy ===== *)
theory Dialog_Spec
  imports Dialog_System
begin

text \<open>
  The abstract dialog, and what the system promises about every dialog. \<open>dialog_next\<close> specifies how
  client messages, manager activity and the expiry of a handoff move a dialog; every committed session
  refines it (\<open>dialogs_refined\<close>). The properties of the whole system are stated over the states that
  are reachable from the empty database.
\<close>

section \<open>The abstract dialog\<close>

text \<open>
  What a reader of the handoff document sees of a dialog: whose it is and until when, and its three
  fences. \<open>dialog_next\<close> is the specification of how an event moves it; an event that does not apply has
  no successor.
\<close>

datatype dialog_phase = Phase_Bot | Phase_Manager pgtime | Phase_Waiting pgtime | Phase_Closed

record dialog_view =
  dv_phase :: dialog_phase
  dv_context :: int
  dv_epoch :: int
  dv_seq :: int

datatype dialog_event =
    Client_Message pgtime
  | Vk_Message
  | Manager_Message pgtime
  | Vk_External_Reply pgtime
  | Takeover
  | Handoff_Expired moment

definition dialog_phase_of :: "conversation \<Rightarrow> dialog_phase" where
  "dialog_phase_of c =
     (if c_status c = CLOSED then Phase_Closed
      else case c_handoff_state c of
        BOT_ACTIVE \<Rightarrow> Phase_Bot
      | HUMAN_ACTIVE \<Rightarrow> Phase_Manager (conv_deadline c)
      | HUMAN_PAUSE \<Rightarrow> Phase_Waiting (conv_deadline c))"

definition dialog_view_of :: "conversation \<Rightarrow> dialog_view" where
  "dialog_view_of c =
     \<lparr> dv_phase = dialog_phase_of c, dv_context = c_context_version c, dv_epoch = c_manager_epoch c,
       dv_seq = c_current_event_seq c \<rparr>"

fun dialog_next :: "dialog_event \<Rightarrow> dialog_view \<Rightarrow> dialog_view option" where
  "dialog_next (Client_Message d) v =
     Some (v \<lparr> dv_phase := (case dv_phase v of Phase_Manager _ \<Rightarrow> Phase_Waiting d | ph \<Rightarrow> ph),
               dv_context := dv_context v + 1, dv_seq := dv_seq v + 1 \<rparr>)"
| "dialog_next Vk_Message v = Some (v \<lparr> dv_context := dv_context v + 1, dv_seq := dv_seq v + 1 \<rparr>)"
| "dialog_next (Manager_Message d) v =
     (if dv_phase v = Phase_Closed then None
      else Some (v \<lparr> dv_phase := Phase_Manager d, dv_context := dv_context v + 1, dv_epoch := dv_epoch v + 1,
                     dv_seq := dv_seq v + 1 \<rparr>))"
| "dialog_next (Vk_External_Reply d) v =
     (if dv_phase v = Phase_Closed then None
      else Some (v \<lparr> dv_phase := Phase_Manager d, dv_context := dv_context v + 1, dv_epoch := dv_epoch v + 1 \<rparr>))"
| "dialog_next Takeover v =
     (case dv_phase v of
        Phase_Bot \<Rightarrow> Some (v \<lparr> dv_phase := Phase_Manager Infinity, dv_epoch := dv_epoch v + 1 \<rparr>)
      | Phase_Waiting _ \<Rightarrow> Some (v \<lparr> dv_phase := Phase_Manager Infinity, dv_epoch := dv_epoch v + 1 \<rparr>)
      | _ \<Rightarrow> None)"
| "dialog_next (Handoff_Expired now) v =
     (case dv_phase v of
        Phase_Manager d \<Rightarrow> if d \<le> At now then Some (v \<lparr> dv_phase := Phase_Bot \<rparr>) else None
      | Phase_Waiting d \<Rightarrow> if d \<le> At now then Some (v \<lparr> dv_phase := Phase_Bot \<rparr>) else None
      | _ \<Rightarrow> None)"

definition new_dialog_view :: dialog_view where
  "new_dialog_view = \<lparr> dv_phase = Phase_Bot, dv_context = 0, dv_epoch = 0, dv_seq = 0 \<rparr>"

definition dialog_moves :: "dialog_view \<Rightarrow> dialog_view \<Rightarrow> bool" where
  "dialog_moves v v' = (v' = v \<or> (\<exists>ev. dialog_next ev v = Some v'))"

lemma dialog_moves_refl [simp]: "dialog_moves v v"
  by (simp add: dialog_moves_def)

lemma dialog_movesI: "dialog_next ev v = Some v' \<Longrightarrow> dialog_moves v v'"
  by (auto simp: dialog_moves_def)

lemmas view_defs = dialog_view_of_def dialog_phase_of_def conv_deadline_def

lemma new_row_view: "dialog_view_of (conv_new_row i now ch ext) = new_dialog_view"
  by (simp add: view_defs conv_new_row_def new_dialog_view_def)

lemma inbound_dialog_moves:
  assumes "conversation_ok c"
  shows "dialog_next (Client_Message (At (en_now e + seconds pause))) (dialog_view_of c) =
    Some (dialog_view_of (inbound_dialog e pause m c))"
  using assms
  by (cases "c_handoff_state c"; cases "c_status c")
    (simp_all add: conversation_ok_def ck_conversations_handoff_consistency_def view_defs inbound_dialog_def
      reply_dialog_def paused_dialog_def conv_row_defs conversation_allows_automatic_reply_def)

lemma vk_dialog_moves:
  "dialog_next Vk_Message (dialog_view_of c) = Some (dialog_view_of (conv_bump_row m (conv_seq_row c)))"
  by (simp add: view_defs conv_row_defs split: HandoffState.split)

lemma manager_row_moves:
  assumes "c_status c \<noteq> CLOSED"
  shows "dialog_next (Manager_Message (At (en_now e + seconds pause))) (dialog_view_of c) =
      Some (dialog_view_of (manager_row e pause n c))"
    and "dialog_next (Vk_External_Reply (At (en_now e + seconds pause))) (dialog_view_of c) =
      Some (dialog_view_of (vk_reply_row e pause n c))"
  using assms
  by (simp_all add: view_defs manager_row_def vk_reply_row_def conv_opened_def conv_row_defs split: HandoffState.split)

lemma takeover_row_moves:
  assumes "conversation_ok c" and "c_status c \<noteq> CLOSED" and "c_handoff_state c \<noteq> HUMAN_ACTIVE"
  shows "dialog_next Takeover (dialog_view_of c) = Some (dialog_view_of (conv_takeover_row m c))"
  using assms(2,3) by (cases "c_handoff_state c") (simp_all add: view_defs conv_row_defs)

lemma return_row_moves:
  assumes "conv_handoff_due now c"
  shows "dialog_next (Handoff_Expired now) (dialog_view_of c) = Some (dialog_view_of (conv_return_row p c))"
  using assms by (auto simp: conv_handoff_due_def view_defs conv_row_defs split: option.splits)

definition dialogs_refined :: "db \<Rightarrow> db \<Rightarrow> bool" where
  "dialogs_refined s s' =
     (c_id ` set (db_conversations s) \<subseteq> c_id ` set (db_conversations s') \<and>
      (\<forall>c' \<in> set (db_conversations s').
         (\<exists>c \<in> set (db_conversations s). c_id c = c_id c' \<and> dialog_moves (dialog_view_of c) (dialog_view_of c')) \<or>
         (c_id c' \<notin> c_id ` set (db_conversations s) \<and> dialog_moves new_dialog_view (dialog_view_of c'))))"

lemma dialogs_refined_same: "db_conversations s' = db_conversations s \<Longrightarrow> dialogs_refined s s'"
  by (auto simp: dialogs_refined_def)

lemma dialogs_refined_put:
  assumes "c \<in> set (db_conversations s)" and "c_id c' = c_id c"
    and "dialog_moves (dialog_view_of c) (dialog_view_of c')"
    and "db_conversations s' = sql_put c_id c' (db_conversations s)"
  shows "dialogs_refined s s'"
proof -
  have "c_id ` set (db_conversations s') = c_id ` set (db_conversations s)"
    unfolding assms(4) by (metis list.set_map map_key_sql_put)
  moreover have "\<exists>c0 \<in> set (db_conversations s). c_id c0 = c_id x \<and> dialog_moves (dialog_view_of c0) (dialog_view_of x)"
    if "x \<in> set (db_conversations s')" for x
  proof (cases "x = c'")
    case True
    then show ?thesis using assms(1-3) by auto
  next
    case False
    then have "x \<in> set (db_conversations s)" using that assms(4) sql_put_cases by metis
    then show ?thesis by auto
  qed
  ultimately show ?thesis by (auto simp: dialogs_refined_def)
qed

text \<open>A session that first finds or creates the dialog, then moves it.\<close>

lemma dialogs_refined_opened:
  assumes "db_ok s" and "conv_get_or_create i now ch ext (db_conversations s) = Inr ((c, created), t)"
    and "c_id c' = c_id c" and "dialog_moves (dialog_view_of c) (dialog_view_of c')"
    and "db_conversations s' = sql_put c_id c' t"
  shows "dialogs_refined s s'"
proof -
  note gc = conv_get_or_create_Inr [OF assms(2) db_okD(1) [OF assms(1)]]
  have c: "c \<in> set t" using gc(1) by (simp add: conv_current_def)
  from gc(2) show ?thesis
  proof (elim disjE conjE)
    assume "t = db_conversations s"
    with c assms(3-5) show ?thesis by (intro dialogs_refined_put [of c s c']) simp_all
  next
    assume t: "t = db_conversations s @ [c]" and new: "c = conv_new_row i now ch ext"
      and none: "conv_get_by_id_for_update i (db_conversations s) = None"
    have fresh: "c_id c \<notin> c_id ` set (db_conversations s)"
      using none by (auto simp: new conv_new_row_def conv_get_by_id_for_update_def sql_one_None)
    have ids: "c_id ` set (db_conversations s') = c_id ` set t"
      unfolding assms(5) by (metis list.set_map map_key_sql_put)
    have "(\<exists>c0 \<in> set (db_conversations s). c_id c0 = c_id x \<and> dialog_moves (dialog_view_of c0) (dialog_view_of x)) \<or>
        (c_id x \<notin> c_id ` set (db_conversations s) \<and> dialog_moves new_dialog_view (dialog_view_of x))"
      if "x \<in> set (db_conversations s')" for x
    proof (cases "x = c'")
      case True
      then show ?thesis using fresh assms(3,4) new_row_view by (simp add: new)
    next
      case False
      then have "x \<in> set t" "c_id x \<noteq> c_id c" using that assms(3,5) sql_put_cases by metis+
      then show ?thesis by (auto simp: t)
    qed
    with ids show ?thesis by (auto simp: dialogs_refined_def t)
  qed
qed

lemma accept_refined:
  assumes "accept e pii pause ev s = Inr (res, s')" and "db_ok s"
  shows "dialogs_refined s s'"
  using assms(1) db_okD(1-3) [OF assms(2)] refl
proof (cases rule: accept_cases)
  case (duplicate c m outbox)
  then show ?thesis by (intro dialogs_refined_same) simp
next
  case (stored c created t m offers pendings outbox mirror projections p)
  show ?thesis
    by (rule dialogs_refined_opened [OF assms(2) stored(1) _ dialog_movesI [OF inbound_dialog_moves [OF stored(3), of e pause "received_at_utc e ev"]]])
      (simp_all add: stored(7) inbound_dialog_def)
qed

lemma vk_client_refined:
  assumes "vk_accept e ev s = Inr (r, s1)" and "db_ok s"
    and "maybe_create_vk_client_proof_reply_plan e' st cfg (vr_conversation r) txt (vr_created_inbox r) s1 = Inr (p, s')"
  shows "dialogs_refined s s'"
  using assms(1,2)
proof (cases rule: vk_accept_cases)
  case old
  then have "s' = s"
    using assms(3) by (simp add: maybe_create_vk_client_proof_reply_plan_def session_simps)
  then show ?thesis by (simp add: dialogs_refined_same)
next
  case (new c t created m)
  note op = db_ok_opened [OF assms(2) new(2)]
  have id: "c_id (vr_conversation r) = c_id c" by (simp add: new(3))
  have cur: "conv_current (vr_conversation r) (db_conversations s1)"
    using conv_current_put [OF op(2) id] by (simp add: new(5))
  have view: "dialog_moves (dialog_view_of c) (dialog_view_of (vr_conversation r))"
    unfolding new(3) by (rule dialog_movesI [OF vk_dialog_moves])
  from assms(3) cur show ?thesis
  proof (cases rule: vk_proof_cases)
    case none
    show ?thesis
      by (rule dialogs_refined_opened [OF assms(2) new(2) id view]) (simp add: none new(5))
  next
    case (planned plan outbox)
    let ?c = "vr_conversation r \<lparr> c_active_reply_plan_id := Some (p_id plan) \<rparr>"
    have "dialog_view_of ?c = dialog_view_of (vr_conversation r)"
      by (simp add: view_defs split: HandoffState.split)
    with view have "dialog_moves (dialog_view_of c) (dialog_view_of ?c)" by simp
    then show ?thesis
      by (rule dialogs_refined_opened [OF assms(2) new(2), rotated]) (simp_all add: planned(5) new(5) id sql_put_put)
  qed
qed

lemma manager_dialog_opened:
  assumes "manager_dialog e bound ext s = Inr (c, s1)" and "db_ok s" and "c_id c' = c_id c"
    and "dialog_moves (dialog_view_of c) (dialog_view_of c')"
    and "db_conversations s' = sql_put c_id c' (db_conversations s1)"
  shows "dialogs_refined s s'"
  using assms(1) db_okD(1) [OF assms(2)]
proof (cases rule: manager_dialog_Inr)
  case known
  with assms(3-5) show ?thesis
    by (intro dialogs_refined_put [of c s c']) (simp_all add: conv_current_def)
next
  case created
  have id: "conv_get_by_id_for_update (en_conversation_id e) (db_conversations s) = None"
    using created(4) by (force simp: conv_get_by_id_for_update_def sql_one_None)
  have "conv_get_by_channel_external Channel_SYNTHETIC ext (db_conversations s @ [c]) = Some c"
    using created(3) by (simp add: conv_get_by_channel_external_def sql_one_append created(2) conv_new_row_def)
  then have "conv_get_or_create (en_conversation_id e) (en_now e) Channel_SYNTHETIC ext (db_conversations s) =
      Inr ((c, True), db_conversations s1)"
    using created(2) by (simp add: conv_get_or_create_def created(1,3) id Let_def)
  from dialogs_refined_opened [OF assms(2) this assms(3-5)] show ?thesis .
qed

lemma manager_dialog_current:
  assumes "manager_dialog e bound ext s = Inr (c, s1)" and "db_ok s"
  shows "conv_current c (db_conversations s1)"
  using assms(1) db_okD(1) [OF assms(2)]
  by (cases rule: manager_dialog_Inr) (use db_okD(1) [OF assms(2)] in \<open>auto simp: conv_current_def conv_new_row_def\<close>)

lemma manager_message_refined:
  assumes "apply_manager_message_in_session e pause bound ev s = Inr (res, s')" and "db_ok s"
  shows "dialogs_refined s s'"
  using assms(1) db_okD(1,2) [OF assms(2)]
proof (cases rule: manager_message_cases)
  case (kept c s1 mms)
  have "conv_current c (db_conversations s1)"
    by (rule manager_dialog_current [OF kept(1) assms(2)])
  then have "sql_put c_id c (db_conversations s1) = db_conversations s1"
    by (simp add: conv_current_def sql_put_same)
  then show ?thesis
    by (intro manager_dialog_opened [OF kept(1) assms(2) refl dialog_moves_refl]) (simp add: kept(2))
next
  case (applied c s1 m n evs mirror)
  show ?thesis
    by (rule manager_dialog_opened [OF applied(1) assms(2) _ dialog_movesI [OF manager_row_moves(1) [OF applied(6), of e pause n]]])
      (simp_all add: applied(11) silenced_def)
qed

lemma takeover_refined:
  assumes "apply_manager_takeover_in_session e cid s = Inr ((c', cancelled, changed), s')" and "db_ok s"
  shows "dialogs_refined s s'"
  using assms(1) db_okD(1,2) [OF assms(2)]
proof (cases rule: takeover_cases)
  case kept
  then show ?thesis by (intro dialogs_refined_same) simp
next
  case (taken c mirror)
  have c: "c \<in> set (db_conversations s)" using taken(2) by (simp add: conv_current_def)
  then have ok: "conversation_ok c" using db_okD(2) [OF assms(2)] by blast
  show ?thesis
    by (rule dialogs_refined_put [OF c _ dialog_movesI [OF takeover_row_moves [OF ok taken(4,5), of "en_now e"]]])
      (simp_all add: taken(7) silenced_def conv_takeover_row_def)
qed

lemma vk_reply_refined:
  assumes "apply_vk_client_message_reply_in_session e hmac cfg pause env s = Inr (res, s')" and "db_ok s"
  shows "dialogs_refined s s'"
  using assms(1) db_okD(1,2) [OF assms(2)]
proof (cases rule: vk_reply_cases)
  case kept
  then show ?thesis by (simp add: dialogs_refined_same)
next
  case (external c evs mirror n)
  have "c \<in> set (db_conversations s)" using external(3) by (simp add: conv_current_def)
  then show ?thesis
    by (rule dialogs_refined_put [OF _ _ dialog_movesI [OF manager_row_moves(2) [OF external(5), of e pause n]]])
      (simp_all add: external(14) silenced_def)
qed

lemma expire_one_refined:
  assumes "expire_one e moment locked s = Inr (r, s')" and "db_ok s" and "en_now e \<le> moment"
  shows "dialogs_refined s s'"
proof (cases "claim_next_due_handoff (en_now e) locked (db_conversations s)")
  case None
  with assms show ?thesis by (intro dialogs_refined_same) (simp add: expire_one_def session_simps)
next
  case (Some c)
  note cl = due_dialog [OF Some db_okD(1) [OF assms(2)]]
  have c: "c \<in> set (db_conversations s)" using cl(1) by (simp add: conv_current_def)
  note put = dialogs_refined_put [OF c _ dialog_movesI [OF return_row_moves [OF cl(2)]]]
  from assms(2,3) Some show ?thesis
  proof (cases rule: expire_one_run)
    case (active res)
    then show ?thesis using assms(1) by (intro put [of None]) (auto simp: conv_return_row_def)
  next
    case (paused res plan)
    then show ?thesis using assms(1) by (intro put [of "Some (p_id plan)"]) (auto simp: conv_return_row_def)
  qed
qed

lemma sys_step_refined: "sys_step s s' \<Longrightarrow> db_ok s \<Longrightarrow> dialogs_refined s s'"
proof (induction rule: sys_step.induct)
  case (takeover e cid s r4 s')
  then show ?case using takeover_refined by (cases r4) blast
next
  case (worker s s')
  then show ?case using worker_step_worked by (intro dialogs_refined_same) (auto simp: plans_worked_def)
qed (blast intro: accept_refined vk_client_refined manager_message_refined vk_reply_refined expire_one_refined)+

section \<open>Properties of the system\<close>

text \<open>
  C1. The tables of the dialog core stay consistent. In every state the services can reach, every dialog row
  satisfies its check constraints, no dialog has two open reply plans, the open plan of a synthetic dialog
  is its active plan and carries the dialog's own fences, and a dialog in \<open>HUMAN_PAUSE\<close> holds the
  deferred reply that the expiry worker will look for; inbox rows and plans belong to stored dialogs.
\<close>

theorem system_invariant:
  assumes "sys_step\<^sup>*\<^sup>* empty_db s"
  shows "db_ok s"
  using sys_reach_db_ok [OF assms empty_db_ok] .

text \<open>
  C2. Every committed session refines the abstract dialog. No dialog disappears; a stored dialog either
  looks the same afterwards or moved by exactly one event of the specification, and a dialog that was created
  started as the bot's with zero fences and moved by at most one event.
\<close>

theorem system_refines_dialog:
  assumes "sys_step\<^sup>*\<^sup>* empty_db s" and "sys_step s s'"
  shows "c_id ` set (db_conversations s) \<subseteq> c_id ` set (db_conversations s') \<and>
    (\<forall>c' \<in> set (db_conversations s').
       (\<exists>c \<in> set (db_conversations s). c_id c = c_id c' \<and>
          (dialog_view_of c' = dialog_view_of c \<or> (\<exists>ev. dialog_next ev (dialog_view_of c) = Some (dialog_view_of c')))) \<or>
       (c_id c' \<notin> c_id ` set (db_conversations s) \<and>
          (dialog_view_of c' = new_dialog_view \<or> (\<exists>ev. dialog_next ev new_dialog_view = Some (dialog_view_of c')))))"
  using sys_step_refined [OF assms(2) sys_reach_db_ok [OF assms(1) empty_db_ok]]
  by (simp add: dialogs_refined_def dialog_moves_def)

text \<open>
  C4. A due handoff always goes back to the bot. In a reachable state the transaction of the expiry worker
  that claims a due dialog commits and never quarantines it; the dialog becomes open and the bot's, and when a client had
  written during the pause, the reply deferred for it is the active plan and satisfies every fence
  of the claiming query.
\<close>

theorem expiry_returns_dialog:
  assumes "sys_step\<^sup>*\<^sup>* empty_db s" and "en_now e \<le> moment"
    and "claim_next_due_handoff (en_now e) locked (db_conversations s) = Some c"
  shows "\<exists>res s' c'. expire_one e moment locked s = Inr (Some res, s') \<and> xr_conversation_id res = c_id c \<and>
    xr_transition res \<noteq> EXPIRY_QUARANTINED \<and> c' \<in> set (db_conversations s') \<and> c_id c' = c_id c \<and>
    conversation_allows_automatic_reply c' \<and>
    (c_handoff_state c = HUMAN_PAUSE \<longrightarrow>
       (\<exists>plan. open_plans (c_id c) (db_reply_plans s') = [plan] \<and> c_active_reply_plan_id c' = Some (p_id plan) \<and>
          plan_fences_current plan c'))"
proof -
  note ok = sys_reach_db_ok [OF assms(1) empty_db_ok]
  note cl = due_dialog [OF assms(3) db_okD(1) [OF ok]]
  have c: "c \<in> set (db_conversations s)" using cl(1) by (simp add: conv_current_def)
  have put: "conv_return_row p c \<in> set (sql_put c_id (conv_return_row p c) (db_conversations s))" for p
    by (rule sql_put_in [OF c]) (simp add: conv_return_row_def)
  have ret: "conversation_allows_automatic_reply (conv_return_row p c)" "c_id (conv_return_row p c) = c_id c" for p
    by (simp_all add: conversation_allows_automatic_reply_def conv_return_row_def)
  from ok assms(2,3) show ?thesis
  proof (cases rule: expire_one_run)
    case (active res)
    with put [of None] ret [of None] show ?thesis by auto
  next
    case (paused res plan)
    have "plan_fences_current plan (conv_return_row (Some (p_id plan)) c)"
      using paused(5) by (simp add: plan_fences_current_def conv_return_row_def deferred_reply_def)
    moreover have "c_active_reply_plan_id (conv_return_row (Some (p_id plan)) c) = Some (p_id plan)"
      by (simp add: conv_return_row_def)
    ultimately show ?thesis
      using paused put [of "Some (p_id plan)"] ret [of "Some (p_id plan)"]
      by (intro exI [of _ res] exI conjI) (auto intro!: exI [of _ plan])
  qed
qed

lemma filter_put_length:
  assumes "distinct (map key t)" and "r \<in> set t" and "key r' = key r" and "P r" and "\<not> P r'"
  shows "length (filter P t) = Suc (length (filter P (sql_put key r' t)))"
proof -
  obtain us vs where t: "t = us @ r # vs" using split_list [OF assms(2)] by blast
  have "sql_put key r' us = us" "sql_put key r' vs = vs"
    using assms(1,3) unfolding t sql_put_def by (auto intro!: sql_update_none) (metis image_eqI)+
  then have "sql_put key r' t = us @ r' # vs"
    using assms(3) by (simp add: t sql_put_def sql_update_append)
  with assms(4,5) show ?thesis by (simp add: t)
qed

lemma returned_not_due: "\<not> conv_handoff_due now (conv_return_row p c)"
  by (simp add: conv_handoff_due_def conv_return_row_def)

lemma expire_one_progress:
  assumes "db_ok s" and "en_now e \<le> moment"
    and "claim_next_due_handoff (en_now e) locked (db_conversations s) = Some c"
  obtains res s' where "expire_one e moment locked s = Inr (Some res, s')" and "db_ok s'"
    and "xr_transition res \<noteq> EXPIRY_QUARANTINED"
    and "length (filter (conv_handoff_due (en_now e)) (db_conversations s)) =
      Suc (length (filter (conv_handoff_due (en_now e)) (db_conversations s')))"
proof -
  note cl = due_dialog [OF assms(3) db_okD(1) [OF assms(1)]]
  have c: "c \<in> set (db_conversations s)" using cl(1) by (simp add: conv_current_def)
  have len: "length (filter (conv_handoff_due (en_now e)) (db_conversations s)) =
      Suc (length (filter (conv_handoff_due (en_now e)) (sql_put c_id (conv_return_row p c) (db_conversations s))))" for p
    by (rule filter_put_length [OF db_okD(1) [OF assms(1)] c _ cl(2) returned_not_due]) (simp add: conv_return_row_def)
  note inv = expire_one_db_ok [OF _ assms(1,2)]
  from assms show thesis
  proof (cases rule: expire_one_run)
    case (active res)
    show thesis by (rule that [OF active(2) inv [OF active(2)]]) (use active len [of None] in simp_all)
  next
    case (paused res plan)
    show thesis by (rule that [OF paused(2) inv [OF paused(2)]]) (use paused len [of "Some (p_id plan)"] in simp_all)
  qed
qed

lemma expiry_loop_drains:
  assumes "db_ok s" and "\<forall>(e, moment, locked) \<in> set xs. en_now e = now \<and> now \<le> moment \<and> (\<forall>i. \<not> locked i)"
    and "length (filter (conv_handoff_due now) (db_conversations s)) \<le> length xs"
    and "\<forall>r \<in> set acc. xr_transition r \<noteq> EXPIRY_QUARANTINED"
  shows "\<exists>rs s'. expiry_loop xs acc s = (Inr rs, s') \<and>
    length rs = length acc + length (filter (conv_handoff_due now) (db_conversations s)) \<and>
    (\<forall>r \<in> set rs. xr_transition r \<noteq> EXPIRY_QUARANTINED) \<and>
    (\<forall>c \<in> set (db_conversations s'). \<not> conv_handoff_due now c)"
  using assms
proof (induction xs arbitrary: acc s)
  case Nil
  then show ?case by (auto simp: filter_empty_conv)
next
  case (Cons x xs)
  obtain e moment locked where x: "x = (e, moment, locked)" by (cases x)
  have e: "en_now e = now" "now \<le> moment" "\<And>i. \<not> locked i" using Cons.prems(2) by (auto simp: x)
  show ?case
  proof (cases "claim_next_due_handoff (en_now e) locked (db_conversations s)")
    case None
    then have "\<forall>c \<in> set (db_conversations s). \<not> conv_handoff_due now c"
      using e by (simp add: claim_next_due_handoff_def sql_first_by_None)
    moreover have "expire_one e moment locked s = Inr (None, s)"
      using None by (simp add: expire_one_def db_read_def db_return_def)
    moreover have "filter (conv_handoff_due now) (db_conversations s) = []"
      using calculation(1) by (simp add: filter_empty_conv)
    ultimately show ?thesis using Cons.prems(4) by (simp add: x)
  next
    case (Some c)
    have le: "en_now e \<le> moment" using e by simp
    from Cons.prems(1) le Some obtain res s1 where run: "expire_one e moment locked s = Inr (Some res, s1)"
      and ok: "db_ok s1" and tr: "xr_transition res \<noteq> EXPIRY_QUARANTINED"
      and len: "length (filter (conv_handoff_due (en_now e)) (db_conversations s)) =
        Suc (length (filter (conv_handoff_due (en_now e)) (db_conversations s1)))"
      by (rule expire_one_progress)
    have "\<exists>rs s'. expiry_loop xs (res # acc) s1 = (Inr rs, s') \<and>
      length rs = length (res # acc) + length (filter (conv_handoff_due now) (db_conversations s1)) \<and>
      (\<forall>r \<in> set rs. xr_transition r \<noteq> EXPIRY_QUARANTINED) \<and>
      (\<forall>c \<in> set (db_conversations s'). \<not> conv_handoff_due now c)"
      using Cons.prems(2-4) len tr e(1) by (intro Cons.IH [OF ok]) auto
    with len e(1) run show ?thesis by (simp add: x)
  qed
qed

text \<open>
  C5. A tick of the expiry worker drains. When it may take as many transactions as there are due dialogs and
  no other session holds a dialog row, it returns normally, reports one result per due dialog, none of
  them a quarantine, and leaves no dialog due at that instant.
\<close>

theorem expiry_tick_drains:
  assumes "sys_step\<^sup>*\<^sup>* empty_db s"
    and "\<forall>(e, moment, locked) \<in> set xs. en_now e = now \<and> now \<le> moment \<and> (\<forall>i. \<not> locked i)"
    and "length (filter (conv_handoff_due now) (db_conversations s)) \<le> length xs" and "xs \<noteq> []"
  shows "\<exists>rs s'. expiry_tick xs s = (Inr rs, s') \<and>
    length rs = length (filter (conv_handoff_due now) (db_conversations s)) \<and>
    (\<forall>r \<in> set rs. xr_transition r \<noteq> EXPIRY_QUARANTINED) \<and>
    (\<forall>c \<in> set (db_conversations s'). \<not> conv_handoff_due now c)"
  using expiry_loop_drains [OF sys_reach_db_ok [OF assms(1) empty_db_ok] assms(2,3), of "[]"] assms(4)
  by (simp add: expiry_tick_def)

lemma sys_reach_outbox: "sys_step\<^sup>*\<^sup>* empty_db s \<Longrightarrow> outbound_run\<^sup>*\<^sup>* [] (db_outbox s)"
  using sys_reach_queues [of empty_db s] by (simp add: queues_run_def empty_db_def)

text \<open>
  C3. A manager message silences the bot. Once a chronologically new manager message was applied, the dialog
  is the manager's until the end of the pause that starts at the message, and whatever the services do afterwards,
  every reply plan of the dialog that was open stays closed and every outbound message that was not yet admitted
  stays cancelled.
\<close>

theorem manager_message_silences_bot:
  assumes "sys_step\<^sup>*\<^sup>* empty_db s" and "apply_manager_message_in_session e pause bound ev s = Inr (res, s1)"
    and "mr_fsm_changed res" and "sys_step\<^sup>*\<^sup>* s1 s2"
  shows "(\<exists>c \<in> set (db_conversations s1). c_id c = mr_conversation_id res \<and> c_handoff_state c = HUMAN_ACTIVE \<and>
      c_handoff_deadline_at c = Some (At (en_now e + seconds pause))) \<and>
    (\<forall>r \<in> set (db_reply_plans s). p_conversation_id r = mr_conversation_id res \<and> plan_open r \<longrightarrow>
      (\<exists>r'. plan_get_by_id (p_id r) (db_reply_plans s2) = Some r' \<and> plan_finished r' \<and> p_status r' \<noteq> Plan_DISPATCHED)) \<and>
    (\<forall>ob \<in> set (db_outbox s). o_conversation_id ob = mr_conversation_id res \<and> outbound_unadmitted ob \<longrightarrow>
      (\<exists>ob'. outbound_get_by_id (o_id ob) (db_outbox s2) = Some ob' \<and> o_delivery_status ob' = Out_CANCELLED))"
proof -
  note ok = sys_reach_db_ok [OF assms(1) empty_db_ok] and runs = sys_reach_queues [OF assms(4), unfolded queues_run_def]
  from assms(2) db_okD(1,2) [OF ok] show ?thesis
  proof (cases rule: manager_message_cases)
    case (kept c s1' mms)
    with assms(3) show ?thesis by simp
  next
    case (applied c s1' m n evs mirror)
    have same: "db_reply_plans s1' = db_reply_plans s" "db_outbox s1' = db_outbox s"
      using applied(1) db_okD(1) [OF ok] by (cases rule: manager_dialog_Inr; simp)+
    have s1: "db_reply_plans s1 = snd (cancel_open_plans_for_takeover (c_id c) ''MANAGER_MESSAGE'' (db_reply_plans s))"
      "db_outbox s1 = snd (cancel_unadmitted_for_conversation (c_id c) (db_outbox s))"
      "db_conversations s1 = sql_put c_id (manager_row e pause n c) (db_conversations s1')"
      by (simp_all add: applied(11) silenced_def same)
    have "c \<in> set (db_conversations s1')" using applied(2) by (simp add: conv_current_def)
    then have "manager_row e pause n c \<in> set (db_conversations s1)"
      unfolding s1(3) by (rule sql_put_in) simp
    then have dialog: "\<exists>c' \<in> set (db_conversations s1). c_id c' = mr_conversation_id res \<and> c_handoff_state c' = HUMAN_ACTIVE \<and>
        c_handoff_deadline_at c' = Some (At (en_now e + seconds pause))"
      by (rule rev_bexI) (simp add: applied(13) manager_row_def conv_human_active_row_def conv_seq_row_def)
    have plans: "\<exists>r'. plan_get_by_id (p_id r) (db_reply_plans s2) = Some r' \<and> plan_finished r' \<and> p_status r' \<noteq> Plan_DISPATCHED"
      if r: "r \<in> set (db_reply_plans s)" "p_conversation_id r = c_id c" "plan_open r" for r
    proof -
      have "plan_run\<^sup>*\<^sup>* (db_reply_plans s1) (db_reply_plans s2)" using runs by blast
      from plan_closed_stays [OF db_okD(4) [OF ok] r disjI2 [OF s1(1)] this]
      show ?thesis by (auto simp: plan_get_by_id_def plan_close_row_def plan_finished_iff)
    qed
    have outs: "\<exists>ob'. outbound_get_by_id (o_id ob) (db_outbox s2) = Some ob' \<and> o_delivery_status ob' = Out_CANCELLED"
      if ob: "ob \<in> set (db_outbox s)" "o_conversation_id ob = c_id c" "outbound_unadmitted ob" for ob
    proof -
      have "outbound_run\<^sup>*\<^sup>* (snd (cancel_unadmitted_for_conversation (c_id c) (db_outbox s))) (db_outbox s2)"
        using runs s1(2) by simp
      from outbound_cancelled_stays(1) [OF outbound_reachable_distinct [OF sys_reach_outbox [OF assms(1)]] ob this]
      show ?thesis by (simp add: outbound_get_by_id_def outbound_close_row_def)
    qed
    show ?thesis
      using dialog plans outs by (simp add: applied(13))
  qed
qed

section \<open>A run\<close>

text \<open>
  A client writes, a manager answers, the client writes again during the handoff: three committed sessions
  from the empty database.
\<close>

definition run_message :: "string \<Rightarrow> inbound_event" where
  "run_message i = \<lparr> ev_channel = ''synthetic'', ev_external_conversation_id = ''d'', ev_external_message_id = i,
     ev_text = ''hi'', ev_received_at = Some 0, ev_booking = None, ev_action = None \<rparr>"

definition run_manager :: manager_event where
  "run_manager = \<lparr> me_channel = ''synthetic'', me_external_conversation_id = ''d'', me_external_message_id = ''m'',
     me_provider_sequence = Some 1, me_provider_occurred_at = None, me_text = ''hello'' \<rparr>"

definition run_db1 :: db where
  "run_db1 = snd (projr (accept (worker_env ''1'' 0) None 600 (run_message ''a'') empty_db))"

definition run_db2 :: db where
  "run_db2 = snd (projr (apply_manager_message_in_session (worker_env ''2'' 1000000) 600 None run_manager run_db1))"

definition run_db3 :: db where
  "run_db3 = snd (projr (accept (worker_env ''3'' 2000000) None 600 (run_message ''b'') run_db2))"

text \<open>What is read off the states of the run, each evaluated once.\<close>

definition run_view2 :: "db \<Rightarrow> bool" where
  "run_view2 s = (map dialog_view_of (db_conversations s) =
     [\<lparr> dv_phase = Phase_Manager (At 601000000), dv_context = 2, dv_epoch = 1, dv_seq = 2 \<rparr>])"

definition run_view3 :: "db \<Rightarrow> bool" where
  "run_view3 s =
     (map dialog_view_of (db_conversations s) =
        [\<lparr> dv_phase = Phase_Waiting (At 602000000), dv_context = 3, dv_epoch = 1, dv_seq = 3 \<rparr>] \<and>
      map c_handoff_state (db_conversations s) = [HUMAN_PAUSE] \<and>
      claim_next_due_handoff 602000000 (\<lambda>_. False) (db_conversations s) = Some (hd (db_conversations s)) \<and>
      length (filter (conv_handoff_due 602000000) (db_conversations s)) = 1)"

definition run_plans1 :: "db \<Rightarrow> bool" where
  "run_plans1 s = (map (\<lambda>r. (p_id r, p_conversation_id r)) (db_reply_plans s) = [(''p1'', ''c1'')] \<and>
     list_all plan_open (db_reply_plans s))"

definition run_manager_result :: "manager_result \<Rightarrow> bool" where
  "run_manager_result r = (mr_fsm_changed r \<and> mr_conversation_id r = ''c1'')"

lemma run_committed:
  "\<not> isl (accept (worker_env ''1'' 0) None 600 (run_message ''a'') empty_db)"
  "\<not> isl (apply_manager_message_in_session (worker_env ''2'' 1000000) 600 None run_manager run_db1)"
  "\<not> isl (accept (worker_env ''3'' 2000000) None 600 (run_message ''b'') run_db2)"
  by code_simp+

lemma run_facts: "run_plans1 run_db1" "run_view2 run_db2" "run_view3 run_db3"
  "run_manager_result (fst (projr (apply_manager_message_in_session (worker_env ''2'' 1000000) 600 None run_manager run_db1)))"
  by code_simp+

lemma not_isl_pair: "\<not> isl x \<Longrightarrow> x = Inr (fst (projr x), snd (projr x))"
  by (cases x) simp_all

lemmas run_results = run_committed [THEN not_isl_pair, folded run_db1_def run_db2_def run_db3_def]

lemma run_steps: "sys_step empty_db run_db1" "sys_step run_db1 run_db2" "sys_step run_db2 run_db3"
  by (rule sys_step.client [OF run_results(1)], rule sys_step.manager [OF run_results(2)],
      rule sys_step.client [OF run_results(3)])

lemma run_reach: "sys_step\<^sup>*\<^sup>* empty_db run_db1" "sys_step\<^sup>*\<^sup>* empty_db run_db2" "sys_step\<^sup>*\<^sup>* empty_db run_db3"
  using run_steps by (auto intro: rtranclp.rtrancl_into_rtrancl)

theorem system_invariant_witness: "db_ok run_db3 \<and> map c_handoff_state (db_conversations run_db3) = [HUMAN_PAUSE]"
proof
  show "db_ok run_db3" by (rule system_invariant [OF run_reach(3)])
  show "map c_handoff_state (db_conversations run_db3) = [HUMAN_PAUSE]"
    using run_facts(3) by (simp add: run_view3_def)
qed

theorem system_refines_dialog_witness:
  "c_id ` set (db_conversations run_db2) \<subseteq> c_id ` set (db_conversations run_db3) \<and>
   dialog_next (Client_Message (At 602000000)) (dialog_view_of (hd (db_conversations run_db2))) =
     Some (dialog_view_of (hd (db_conversations run_db3)))"
proof
  show "c_id ` set (db_conversations run_db2) \<subseteq> c_id ` set (db_conversations run_db3)"
    using system_refines_dialog [OF run_reach(2) run_steps(3)] by blast
  show "dialog_next (Client_Message (At 602000000)) (dialog_view_of (hd (db_conversations run_db2))) =
     Some (dialog_view_of (hd (db_conversations run_db3)))"
    using run_facts(2,3) by (auto simp: run_view2_def run_view3_def map_eq_Cons_conv)
qed

lemma run_due:
  "claim_next_due_handoff (en_now (worker_env ''4'' 602000000)) (\<lambda>_. False) (db_conversations run_db3) =
     Some (hd (db_conversations run_db3))"
  "c_handoff_state (hd (db_conversations run_db3)) = HUMAN_PAUSE"
  "length (filter (conv_handoff_due 602000000) (db_conversations run_db3)) = 1"
  using run_facts(3) by (auto simp: run_view3_def worker_env_def map_eq_Cons_conv)

theorem expiry_returns_dialog_witness:
  "\<exists>res s'. expire_one (worker_env ''4'' 602000000) 602000000 (\<lambda>_. False) run_db3 = Inr (Some res, s') \<and>
     xr_transition res \<noteq> EXPIRY_QUARANTINED \<and>
     (\<exists>plan c'. c' \<in> set (db_conversations s') \<and> plan_fences_current plan c')"
proof -
  have "en_now (worker_env ''4'' 602000000) \<le> 602000000" by (simp add: worker_env_def)
  from expiry_returns_dialog [OF run_reach(3) this run_due(1)] run_due(2) show ?thesis by blast
qed

theorem expiry_tick_drains_witness:
  "\<exists>rs s'. expiry_tick [(worker_env ''4'' 602000000, 602000000, \<lambda>_. False)] run_db3 = (Inr rs, s') \<and>
     length rs = 1 \<and> (\<forall>c \<in> set (db_conversations s'). \<not> conv_handoff_due 602000000 c)"
  using expiry_tick_drains [OF run_reach(3), of "[(worker_env ''4'' 602000000, 602000000, \<lambda>_. False)]" 602000000]
    run_due(3)
  by (fastforce simp: worker_env_def)

lemma run_silenced:
  "mr_fsm_changed (fst (projr (apply_manager_message_in_session (worker_env ''2'' 1000000) 600 None run_manager run_db1)))"
  "mr_conversation_id (fst (projr (apply_manager_message_in_session (worker_env ''2'' 1000000) 600 None run_manager run_db1))) = ''c1''"
  "map (\<lambda>r. (p_id r, p_conversation_id r)) (db_reply_plans run_db1) = [(''p1'', ''c1'')]"
  "list_all plan_open (db_reply_plans run_db1)"
  using run_facts(1,4) by (simp_all add: run_plans1_def run_manager_result_def)

theorem manager_message_silences_bot_witness:
  "\<exists>r'. plan_get_by_id ''p1'' (db_reply_plans run_db3) = Some r' \<and> plan_finished r' \<and> p_status r' \<noteq> Plan_DISPATCHED"
proof -
  obtain r where r: "db_reply_plans run_db1 = [r]" "p_id r = ''p1''" "p_conversation_id r = ''c1''" "plan_open r"
    using run_silenced(3,4) by (auto simp: map_eq_Cons_conv)
  from manager_message_silences_bot [OF run_reach(1) run_results(2) run_silenced(1) r_into_rtranclp [of sys_step, OF run_steps(3)]]
  show ?thesis using r run_silenced(2) by simp
qed

end
