(* ===== verification/Projection_Queue.thy ===== *)
theory Projection_Queue
  imports Fenced_Queue Projection
begin

text \<open>
  The leases of the chat projection queue: the worker half of
  repositories/amocrm_message_projections.py. Beside claiming and finishing, a worker renews its lease
  right before it calls the CRM and stores the id the CRM gave to the message while it still holds the
  lease. The lemmas interpret the contract of the leased tables and bound the attempts.
\<close>

section \<open>Data\<close>

datatype AmocrmProjectionSkipReason =
    PSkip_BINDING_UNKNOWN
  | PSkip_BINDING_REVOKED
  | PSkip_BINDING_INTEGRATION_CONVERSATION_MISSING
  | PSkip_SOURCE_MISSING
  | PSkip_SOURCE_EMPTY_TEXT
  | PSkip_SOURCE_NOT_DELIVERED
  | PSkip_EGRESS_DISABLED
  | PSkip_BOT_ID_MISSING

fun projection_skip_value :: "AmocrmProjectionSkipReason \<Rightarrow> string" where
  "projection_skip_value PSkip_BINDING_UNKNOWN = ''BINDING_UNKNOWN''"
| "projection_skip_value PSkip_BINDING_REVOKED = ''BINDING_REVOKED''"
| "projection_skip_value PSkip_BINDING_INTEGRATION_CONVERSATION_MISSING =
     ''BINDING_INTEGRATION_CONVERSATION_MISSING''"
| "projection_skip_value PSkip_SOURCE_MISSING = ''SOURCE_MISSING''"
| "projection_skip_value PSkip_SOURCE_EMPTY_TEXT = ''SOURCE_EMPTY_TEXT''"
| "projection_skip_value PSkip_SOURCE_NOT_DELIVERED = ''SOURCE_NOT_DELIVERED''"
| "projection_skip_value PSkip_EGRESS_DISABLED = ''EGRESS_DISABLED''"
| "projection_skip_value PSkip_BOT_ID_MISSING = ''BOT_ID_MISSING''"

fun projection_status_value :: "AmocrmProjectionStatus \<Rightarrow> string" where
  "projection_status_value Proj_PENDING = ''PENDING''"
| "projection_status_value Proj_PROCESSING = ''PROCESSING''"
| "projection_status_value Proj_PROJECTED = ''PROJECTED''"
| "projection_status_value Proj_SKIPPED = ''SKIPPED''"
| "projection_status_value Proj_FAILED = ''FAILED''"
| "projection_status_value Proj_DEAD = ''DEAD''"

definition amocrm_projection_transition_allowed ::
  "AmocrmProjectionStatus \<Rightarrow> AmocrmProjectionStatus \<Rightarrow> bool" where
  "amocrm_projection_transition_allowed current target =
     (target \<in> set (AMOCRM_PROJECTION_TRANSITIONS current))"

record projection_claim =
  qc_projection_id :: uuid
  qc_conversation_id :: uuid
  qc_source_kind :: AmocrmProjectionSourceKind
  qc_source_id :: uuid
  qc_integration_msgid :: string
  qc_amocrm_message_id :: "string option"
  qc_status :: AmocrmProjectionStatus
  qc_attempt_count :: int
  qc_max_attempts :: int
  qc_lease_owner :: string
  qc_lease_token :: uuid
  qc_lease_version :: int
  qc_lease_until :: moment
  qc_correlation_id :: uuid

section \<open>Operations\<close>

definition projection_row_to_claim :: "projection \<Rightarrow> exn + projection_claim" where
  "projection_row_to_claim row =
     (case (pr_lease_token row, pr_lease_owner row, pr_lease_until row) of
        (Some token, Some owner, Some until) \<Rightarrow>
          Inr \<lparr> qc_projection_id = pr_id row, qc_conversation_id = pr_conversation_id row,
                qc_source_kind = pr_source_kind row, qc_source_id = pr_source_id row,
                qc_integration_msgid = pr_integration_msgid row,
                qc_amocrm_message_id = pr_amocrm_message_id row, qc_status = pr_status row,
                qc_attempt_count = pr_attempt_count row, qc_max_attempts = pr_max_attempts row,
                qc_lease_owner = owner, qc_lease_token = token,
                qc_lease_version = pr_lease_version row, qc_lease_until = until,
                qc_correlation_id = pr_correlation_id row \<rparr>
      | _ \<Rightarrow> Inl (RuntimeError ''AMOCRM_PROJECTION_LEASE_INCOMPLETE''))"

definition projection_get_by_id :: "uuid \<Rightarrow> projection list \<Rightarrow> projection option" where
  "projection_get_by_id i t = sql_one (\<lambda>r. pr_id r = i) t"

definition get_projected_by_amocrm_message_id :: "string \<Rightarrow> projection list \<Rightarrow> projection option" where
  "get_projected_by_amocrm_message_id amo_id t = sql_one (\<lambda>r. pr_amocrm_message_id r = Some amo_id) t"

definition projection_lease_expired :: "moment \<Rightarrow> projection \<Rightarrow> bool" where
  "projection_lease_expired now r = (case pr_lease_until r of None \<Rightarrow> False | Some u \<Rightarrow> u < now)"

definition projection_due :: "moment \<Rightarrow> projection \<Rightarrow> bool" where
  "projection_due now r = (case pr_next_attempt_at r of None \<Rightarrow> True | Some n \<Rightarrow> n \<le> now)"

definition projection_exhausted :: "moment \<Rightarrow> projection \<Rightarrow> bool" where
  "projection_exhausted now r =
     (pr_status r = Proj_PROCESSING \<and> projection_lease_expired now r \<and>
      pr_attempt_count r \<ge> pr_max_attempts r)"

definition projection_fail_row ::
  "AmocrmProjectionStatus \<Rightarrow> moment option \<Rightarrow> string \<Rightarrow> projection \<Rightarrow> projection" where
  "projection_fail_row target next_at code r =
     r \<lparr> pr_status := target, pr_lease_owner := None, pr_lease_token := None, pr_lease_until := None,
         pr_next_attempt_at := next_at, pr_error_code := Some code \<rparr>"

definition projection_recover_exhausted_leases :: "moment \<Rightarrow> projection list \<Rightarrow> nat \<times> projection list" where
  "projection_recover_exhausted_leases now t =
     (sql_count (projection_exhausted now) t,
      sql_update (projection_exhausted now)
        (projection_fail_row Proj_DEAD None ''AMOCRM_PROJECTION_ATTEMPTS_EXHAUSTED'') t)"

text \<open>The \<open>WHERE\<close> of the claim: a \<open>PENDING\<close> row is not compared with \<open>max_attempts\<close>.\<close>

definition projection_claimable :: "moment \<Rightarrow> projection \<Rightarrow> bool" where
  "projection_claimable now r =
     (pr_status r = Proj_PENDING \<and> projection_due now r \<or>
      pr_status r = Proj_FAILED \<and> projection_due now r \<and> pr_attempt_count r < pr_max_attempts r \<or>
      pr_status r = Proj_PROCESSING \<and> projection_lease_expired now r \<and> pr_attempt_count r < pr_max_attempts r)"

definition projection_lease_row :: "string \<Rightarrow> uuid \<Rightarrow> moment \<Rightarrow> projection \<Rightarrow> projection" where
  "projection_lease_row worker token until r =
     r \<lparr> pr_status := Proj_PROCESSING, pr_attempt_count := pr_attempt_count r + 1,
         pr_lease_owner := Some worker, pr_lease_token := Some token,
         pr_lease_version := pr_lease_version r + 1, pr_lease_until := Some until,
         pr_next_attempt_at := None, pr_error_code := None \<rparr>"

definition projection_claim_next ::
  "string \<Rightarrow> int \<Rightarrow> moment \<Rightarrow> uuid \<Rightarrow> (uuid \<Rightarrow> bool) \<Rightarrow> projection list
     \<Rightarrow> exn + (projection_claim option \<times> projection list)" where
  "projection_claim_next worker lease_seconds now token locked t =
     (if lease_seconds \<le> 0 then Inl (ValueError ''lease_seconds must be positive'')
      else
        let t1 = snd (projection_recover_exhausted_leases now t);
            until = now + seconds lease_seconds
        in case sql_first_by pr_created_at (\<lambda>r. projection_claimable now r \<and> \<not> locked (pr_id r)) t1 of
             None \<Rightarrow> Inr (None, t1)
           | Some cand \<Rightarrow>
               let t2 = sql_update (\<lambda>r. pr_id r = pr_id cand) (projection_lease_row worker token until) t1
               in case projection_get_by_id (pr_id cand) t2 of
                    None \<Rightarrow> Inl (RuntimeError ''AMOCRM_PROJECTION_CLAIM_LOOKUP_FAILED'')
                  | Some row \<Rightarrow>
                      (case projection_row_to_claim row of
                         Inl e \<Rightarrow> Inl e
                       | Inr claim \<Rightarrow> Inr (Some claim, t2)))"

text \<open>The row of a live lease: fencing pair, owner and a deadline in the future.\<close>

definition projection_held :: "uuid \<Rightarrow> uuid \<Rightarrow> int \<Rightarrow> projection \<Rightarrow> bool" where
  "projection_held i token version r =
     (pr_id r = i \<and> pr_status r = Proj_PROCESSING \<and> pr_lease_token r = Some token \<and>
      pr_lease_version r = version)"

definition projection_alive :: "moment \<Rightarrow> projection \<Rightarrow> bool" where
  "projection_alive now r = (case pr_lease_until r of None \<Rightarrow> False | Some u \<Rightarrow> now < u)"

definition require_processing_lease ::
  "uuid \<Rightarrow> uuid \<Rightarrow> int \<Rightarrow> string \<Rightarrow> moment \<Rightarrow> projection list \<Rightarrow> exn + projection" where
  "require_processing_lease i token version owner now t =
     (case projection_get_by_id i t of
        None \<Rightarrow> Inl (StaleAmocrmProjectionLeaseError ''AMOCRM_PROJECTION_STALE_LEASE'')
      | Some row \<Rightarrow>
          if pr_status row \<noteq> Proj_PROCESSING \<or> pr_lease_token row \<noteq> Some token \<or>
             pr_lease_version row \<noteq> version \<or> pr_lease_owner row \<noteq> Some owner \<or> \<not> projection_alive now row
          then Inl (StaleAmocrmProjectionLeaseError ''AMOCRM_PROJECTION_STALE_LEASE'')
          else Inr row)"

text \<open>An \<open>UPDATE ... RETURNING\<close> under a predicate on the row, followed by a lookup.\<close>

definition projection_fenced_update ::
  "uuid \<Rightarrow> (projection \<Rightarrow> bool) \<Rightarrow> (projection \<Rightarrow> projection) \<Rightarrow> projection list
     \<Rightarrow> exn + (projection \<times> projection list)" where
  "projection_fenced_update i P f t =
     (if sql_count P t = 0
      then Inl (StaleAmocrmProjectionLeaseError ''AMOCRM_PROJECTION_STALE_LEASE'')
      else let t' = sql_update P f t
           in case projection_get_by_id i t' of
                None \<Rightarrow> Inl (RuntimeError ''AMOCRM_PROJECTION_LOOKUP_FAILED'')
              | Some row \<Rightarrow> Inr (row, t'))"

definition projection_renew_row :: "moment \<Rightarrow> projection \<Rightarrow> projection" where
  "projection_renew_row until r = r \<lparr> pr_lease_until := Some until \<rparr>"

definition renew_processing_lease ::
  "uuid \<Rightarrow> uuid \<Rightarrow> int \<Rightarrow> string \<Rightarrow> int \<Rightarrow> moment \<Rightarrow> projection list \<Rightarrow> exn + (projection \<times> projection list)" where
  "renew_processing_lease i token version owner lease_seconds now t =
     (if lease_seconds \<le> 0 then Inl (ValueError ''lease_seconds must be positive'')
      else case require_processing_lease i token version owner now t of
        Inl e \<Rightarrow> Inl e
      | Inr _ \<Rightarrow>
          projection_fenced_update i
            (\<lambda>r. projection_held i token version r \<and> pr_lease_owner r = Some owner \<and> projection_alive now r)
            (projection_renew_row (now + seconds lease_seconds)) t)"

text \<open>The unique constraint on the message id of the CRM.\<close>

definition amo_id_taken :: "uuid \<Rightarrow> string \<Rightarrow> projection list \<Rightarrow> bool" where
  "amo_id_taken i amo_id t = list_ex (\<lambda>r. pr_id r \<noteq> i \<and> pr_amocrm_message_id r = Some amo_id) t"

definition projection_attach_row :: "string \<Rightarrow> projection \<Rightarrow> projection" where
  "projection_attach_row amo_id r = r \<lparr> pr_amocrm_message_id := Some amo_id \<rparr>"

definition attach_amocrm_message_id_with_lease ::
  "uuid \<Rightarrow> uuid \<Rightarrow> int \<Rightarrow> string \<Rightarrow> string \<Rightarrow> moment \<Rightarrow> projection list
     \<Rightarrow> exn + (projection \<times> projection list)" where
  "attach_amocrm_message_id_with_lease i token version owner amo_id now t =
     (case require_processing_lease i token version owner now t of
        Inl e \<Rightarrow> Inl e
      | Inr _ \<Rightarrow>
          if amo_id = [] then Inl (ValueError ''AMOCRM_MESSAGE_ID_INVALID'')
          else if amo_id_taken i amo_id t
          then Inl (IntegrityError ''uq_amocrm_message_projections_amocrm_message_id'')
          else projection_fenced_update i (projection_held i token version) (projection_attach_row amo_id) t)"

definition projection_close_row ::
  "AmocrmProjectionStatus \<Rightarrow> string option \<Rightarrow> string option \<Rightarrow> string option \<Rightarrow> projection \<Rightarrow> projection" where
  "projection_close_row target skip code amo_id r =
     r \<lparr> pr_status := target, pr_lease_owner := None, pr_lease_token := None, pr_lease_until := None,
         pr_next_attempt_at := None, pr_skip_reason := skip, pr_error_code := code,
         pr_amocrm_message_id := (case amo_id of None \<Rightarrow> pr_amocrm_message_id r | Some a \<Rightarrow> Some a) \<rparr>"

definition projection_terminate_with_lease ::
  "uuid \<Rightarrow> uuid \<Rightarrow> int \<Rightarrow> AmocrmProjectionStatus \<Rightarrow> string option \<Rightarrow> string option \<Rightarrow> string option
     \<Rightarrow> projection list \<Rightarrow> exn + (projection \<times> projection list)" where
  "projection_terminate_with_lease i token version target skip code amo_id t =
     (if \<not> amocrm_projection_transition_allowed Proj_PROCESSING target
      then Inl (AmocrmProjectionStateError ''AMOCRM_PROJECTION_TRANSITION_DENIED'')
      else if sql_count (projection_held i token version) t \<noteq> 0 \<and>
              (case amo_id of None \<Rightarrow> False | Some a \<Rightarrow> amo_id_taken i a t)
      then Inl (IntegrityError ''uq_amocrm_message_projections_amocrm_message_id'')
      else projection_fenced_update i (projection_held i token version)
             (projection_close_row target skip code amo_id) t)"

definition complete_projected_with_lease ::
  "uuid \<Rightarrow> uuid \<Rightarrow> int \<Rightarrow> string \<Rightarrow> projection list \<Rightarrow> exn + (projection \<times> projection list)" where
  "complete_projected_with_lease i token version amo_id t =
     projection_terminate_with_lease i token version Proj_PROJECTED None None (Some amo_id) t"

definition projection_skip_with_lease ::
  "uuid \<Rightarrow> uuid \<Rightarrow> int \<Rightarrow> AmocrmProjectionSkipReason \<Rightarrow> projection list
     \<Rightarrow> exn + (projection \<times> projection list)" where
  "projection_skip_with_lease i token version reason t =
     projection_terminate_with_lease i token version Proj_SKIPPED (Some (projection_skip_value reason)) None
       None t"

definition projection_fail_with_lease ::
  "uuid \<Rightarrow> uuid \<Rightarrow> int \<Rightarrow> string \<Rightarrow> int \<Rightarrow> bool \<Rightarrow> moment \<Rightarrow> projection list
     \<Rightarrow> exn + (projection \<times> projection list)" where
  "projection_fail_with_lease i token version code retry_delay_seconds permanent now t =
     (case projection_get_by_id i t of
        None \<Rightarrow> Inl (RuntimeError ''AMOCRM_PROJECTION_LOOKUP_FAILED'')
      | Some current \<Rightarrow>
          if pr_status current \<noteq> Proj_PROCESSING \<or> pr_lease_token current \<noteq> Some token \<or>
             pr_lease_version current \<noteq> version \<or> \<not> projection_alive now current
          then Inl (StaleAmocrmProjectionLeaseError ''AMOCRM_PROJECTION_STALE_LEASE'')
          else
            let exhausted = permanent \<or> pr_attempt_count current \<ge> pr_max_attempts current;
                target = (if exhausted then Proj_DEAD else Proj_FAILED);
                next_at = (if exhausted then None else Some (now + seconds retry_delay_seconds))
            in if \<not> amocrm_projection_transition_allowed Proj_PROCESSING target
               then Inl (AmocrmProjectionStateError ''AMOCRM_PROJECTION_TRANSITION_DENIED'')
               else projection_fenced_update i (projection_held i token version)
                      (projection_fail_row target next_at (take 64 code)) t)"

section \<open>Row steps and repository calls\<close>

definition projection_new :: "projection \<Rightarrow> bool" where
  "projection_new r =
     (pr_status r = Proj_PENDING \<and> pr_attempt_count r = 0 \<and> pr_lease_version r = 0 \<and> 0 < pr_max_attempts r \<and>
      pr_lease_owner r = None \<and> pr_lease_token r = None \<and> pr_lease_until r = None \<and>
      pr_amocrm_message_id r = None \<and> pr_skip_reason r = None)"

definition projection_finished :: "projection \<Rightarrow> bool" where
  "projection_finished r = (pr_status r \<in> {Proj_PROJECTED, Proj_SKIPPED, Proj_DEAD})"

inductive projection_step :: "projection \<Rightarrow> projection \<Rightarrow> bool" where
  claim: "projection_claimable now r \<Longrightarrow> projection_step r (projection_lease_row w token until r)"
| renew: "pr_status r = Proj_PROCESSING \<Longrightarrow> pr_lease_until r \<noteq> None \<Longrightarrow> projection_step r (projection_renew_row until r)"
| attach: "pr_status r = Proj_PROCESSING \<Longrightarrow> projection_step r (projection_attach_row amo_id r)"
| project: "pr_status r = Proj_PROCESSING \<Longrightarrow>
    projection_step r (projection_close_row Proj_PROJECTED None None (Some amo_id) r)"
| skip: "pr_status r = Proj_PROCESSING \<Longrightarrow>
    projection_step r (projection_close_row Proj_SKIPPED (Some reason) None None r)"
| retry: "pr_status r = Proj_PROCESSING \<Longrightarrow> pr_attempt_count r < pr_max_attempts r \<Longrightarrow>
    projection_step r (projection_fail_row Proj_FAILED (Some n) code r)"
| dead: "pr_status r = Proj_PROCESSING \<Longrightarrow> projection_step r (projection_fail_row Proj_DEAD None code r)"

inductive projection_run :: "projection list \<Rightarrow> projection list \<Rightarrow> bool" where
  enqueue: "projection_enqueue_if_absent i now cid kind sid corr mx t = Inr (res, t') \<Longrightarrow> projection_run t t'"
| recover: "projection_recover_exhausted_leases now t = (n, t') \<Longrightarrow> projection_run t t'"
| claim: "projection_claim_next w secs now token locked t = Inr (c, t') \<Longrightarrow> projection_run t t'"
| renew: "renew_processing_lease i token v w secs now t = Inr (row, t') \<Longrightarrow> projection_run t t'"
| attach: "attach_amocrm_message_id_with_lease i token v w amo_id now t = Inr (row, t') \<Longrightarrow> projection_run t t'"
| complete: "complete_projected_with_lease i token v amo_id t = Inr (row, t') \<Longrightarrow> projection_run t t'"
| skip: "projection_skip_with_lease i token v reason t = Inr (row, t') \<Longrightarrow> projection_run t t'"
| fail: "projection_fail_with_lease i token v code delay permanent now t = Inr (row, t') \<Longrightarrow> projection_run t t'"

lemmas projection_row_defs = projection_lease_row_def projection_renew_row_def projection_attach_row_def
  projection_close_row_def projection_fail_row_def

definition projection_keys :: "projection \<Rightarrow> uuid \<times> (AmocrmProjectionSourceKind \<times> uuid) \<times> uuid \<times> string" where
  "projection_keys r =
     (pr_id r, (pr_source_kind r, pr_source_id r), pr_conversation_id r, pr_integration_msgid r)"

lemma projection_keys_rows [simp]:
  "projection_keys (projection_lease_row w token u r) = projection_keys r"
  "projection_keys (projection_renew_row u r) = projection_keys r"
  "projection_keys (projection_attach_row a r) = projection_keys r"
  "projection_keys (projection_close_row target sk c m r) = projection_keys r"
  "projection_keys (projection_fail_row target n c2 r) = projection_keys r"
  "pr_id (projection_lease_row w token u r) = pr_id r"
  "pr_id (projection_renew_row u r) = pr_id r"
  "pr_id (projection_attach_row a r) = pr_id r"
  "pr_id (projection_close_row target sk c m r) = pr_id r"
  "pr_id (projection_fail_row target n c2 r) = pr_id r"
  by (simp_all add: projection_keys_def projection_row_defs)

lemma projection_step_keys: "projection_step r r' \<Longrightarrow> projection_keys r' = projection_keys r"
  by (cases rule: projection_step.cases) auto

lemma projection_step_fenced:
  assumes "projection_step r r'"
  shows "pr_lease_version r \<le> pr_lease_version r'"
    and "pr_lease_version r' = pr_lease_version r \<Longrightarrow>
      pr_lease_token r' = pr_lease_token r \<or> pr_lease_token r' = None"
    and "\<not> projection_finished r"
  using assms
  by (auto elim!: projection_step.cases
      simp: projection_row_defs projection_finished_def projection_claimable_def)

section \<open>Operations, by what they did\<close>

lemma projection_enqueue_cases:
  assumes "projection_enqueue_if_absent i now cid kind sid corr mx t = Inr ((row, created), t')"
  obtains (old) "\<not> created" and "t' = t" and "projection_by_source kind sid t = Some row"
    | (new) "created" and "t' = t @ [row]" and "projection_by_source kind sid t = None"
      and "projection_get_by_id i t = None" and "projection_new row" and "pr_id row = i"
      and "pr_source_kind row = kind" and "pr_source_id row = sid" and "pr_conversation_id row = cid"
proof (cases "projection_by_source kind sid t")
  case (Some existing)
  with assms old show ?thesis
    by (auto simp: projection_enqueue_if_absent_def split: if_splits sum.splits)
next
  case None
  obtain msgid where msgid: "integration_msgid_for_source kind sid = Inr msgid"
    using assms by (auto simp: projection_enqueue_if_absent_def split: if_splits sum.splits)
  let ?r = "projection_new_row i now cid kind sid msgid corr mx"
  have get: "projection_by_source kind sid (t @ [?r]) = Some ?r"
    using None by (simp add: projection_by_source_def sql_one_append projection_new_row_def)
  from assms None get msgid
  have "created" "row = ?r" "t' = t @ [?r]" "projection_get_by_id i t = None" "0 < mx"
    by (auto simp: projection_enqueue_if_absent_def projection_get_by_id_def Let_def split: if_splits)
  with None show ?thesis
    by (intro new) (simp_all add: projection_new_def projection_new_row_def)
qed

lemma projection_fenced_update_Inr:
  assumes "projection_fenced_update i P f t = Inr (row, t')" and "distinct (map pr_id t)"
    and "\<And>x. P x \<Longrightarrow> pr_id x = i" and "\<And>x. pr_id (f x) = pr_id x"
  obtains r where "r \<in> set t" and "P r" and "row = f r" and "t' = sql_put pr_id row t"
    and "projection_get_by_id i t = Some r"
proof -
  have "sql_count P t \<noteq> 0"
    using assms(1) by (simp add: projection_fenced_update_def split: if_splits)
  then obtain r where r: "r \<in> set t" "P r"
    by (auto simp: sql_count_0)
  have i: "pr_id r = i" using r(2) by (rule assms(3))
  have upd: "sql_update P f t = sql_put pr_id (f r) t"
    using assms(2) r assms(3,4) i by (intro sql_update_current) auto
  have get: "projection_get_by_id i (sql_put pr_id (f r) t) = Some (f r)"
    using sql_one_put [OF r(1), of pr_id "f r"] assms(4) i by (simp add: projection_get_by_id_def)
  have "projection_get_by_id i t = Some r"
    using sql_one_the_row [OF assms(2) r(1)] i by (simp add: projection_get_by_id_def)
  with assms(1) r upd get show ?thesis
    by (intro that [of r]) (auto simp: projection_fenced_update_def Let_def split: if_splits)
qed

lemma require_lease_Inr:
  "require_processing_lease i token v w now t = Inr row \<Longrightarrow>
     projection_get_by_id i t = Some row \<and> projection_held i token v row \<and> pr_lease_owner row = Some w \<and>
     projection_alive now row"
  by (auto simp: require_processing_lease_def projection_held_def projection_get_by_id_def
      dest: sql_one_Some split: option.splits if_splits)

lemma renew_lease_Inr:
  assumes "renew_processing_lease i token v w secs now t = Inr (row, t')" and "distinct (map pr_id t)"
  obtains r where "r \<in> set t" and "projection_held i token v r" and "pr_lease_owner r = Some w"
    and "projection_alive now r" and "row = projection_renew_row (now + seconds secs) r"
    and "t' = sql_put pr_id row t" and "projection_get_by_id i t = Some r" and "0 < secs"
proof -
  have "0 < secs" and upd: "projection_fenced_update i
      (\<lambda>r. projection_held i token v r \<and> pr_lease_owner r = Some w \<and> projection_alive now r)
      (projection_renew_row (now + seconds secs)) t = Inr (row, t')"
    using assms(1) by (auto simp: renew_processing_lease_def split: if_splits sum.splits)
  from upd assms(2) show ?thesis
    by (rule projection_fenced_update_Inr) (use \<open>0 < secs\<close> in \<open>auto simp: projection_held_def intro: that\<close>)
qed

lemma attach_id_Inr:
  assumes "attach_amocrm_message_id_with_lease i token v w amo_id now t = Inr (row, t')" and "distinct (map pr_id t)"
  obtains r where "r \<in> set t" and "projection_held i token v r" and "row = projection_attach_row amo_id r"
    and "t' = sql_put pr_id row t" and "\<not> amo_id_taken i amo_id t" and "projection_get_by_id i t = Some r"
    and "pr_lease_owner r = Some w" and "projection_alive now r"
proof -
  obtain x where x: "require_processing_lease i token v w now t = Inr x" and free: "\<not> amo_id_taken i amo_id t"
    and upd: "projection_fenced_update i (projection_held i token v) (projection_attach_row amo_id) t = Inr (row, t')"
    using assms(1) by (auto simp: attach_amocrm_message_id_with_lease_def split: if_splits sum.splits)
  from upd assms(2) show ?thesis
    by (rule projection_fenced_update_Inr)
      (use require_lease_Inr [OF x] free in \<open>auto simp: projection_held_def intro: that\<close>)
qed

lemma projection_terminate_Inr:
  assumes "projection_terminate_with_lease i token v target skip code amo_id t = Inr (row, t')"
    and "distinct (map pr_id t)"
  obtains r where "r \<in> set t" and "projection_held i token v r"
    and "row = projection_close_row target skip code amo_id r" and "t' = sql_put pr_id row t"
    and "projection_get_by_id i t = Some r" and "case amo_id of None \<Rightarrow> True | Some a \<Rightarrow> \<not> amo_id_taken i a t"
proof -
  have upd: "projection_fenced_update i (projection_held i token v) (projection_close_row target skip code amo_id) t =
      Inr (row, t')"
    and free: "sql_count (projection_held i token v) t = 0 \<or>
      \<not> (case amo_id of None \<Rightarrow> False | Some a \<Rightarrow> amo_id_taken i a t)"
    using assms(1) by (auto simp: projection_terminate_with_lease_def split: if_splits)
  from upd assms(2) show ?thesis
  proof (rule projection_fenced_update_Inr)
    fix r assume "r \<in> set t" and "projection_held i token v r" and "row = projection_close_row target skip code amo_id r"
      and "t' = sql_put pr_id row t" and "projection_get_by_id i t = Some r"
    moreover from this(1,2) free have "case amo_id of None \<Rightarrow> True | Some a \<Rightarrow> \<not> amo_id_taken i a t"
      by (auto simp: sql_count_0 split: option.splits)
    ultimately show ?thesis by (rule that)
  qed (auto simp: projection_held_def)
qed

lemma projection_fail_Inr:
  assumes "projection_fail_with_lease i token v code delay permanent now t = Inr (row, t')"
    and "distinct (map pr_id t)"
  obtains r where "r \<in> set t" and "projection_held i token v r" and "projection_get_by_id i t = Some r"
    and "row = (if \<not> permanent \<and> pr_attempt_count r < pr_max_attempts r
                then projection_fail_row Proj_FAILED (Some (now + seconds delay)) (take 64 code) r
                else projection_fail_row Proj_DEAD None (take 64 code) r)"
    and "t' = sql_put pr_id row t"
proof -
  obtain cur target next_at where cur: "projection_get_by_id i t = Some cur"
    and target: "(target, next_at) = (if permanent \<or> pr_attempt_count cur \<ge> pr_max_attempts cur
        then (Proj_DEAD, None) else (Proj_FAILED, Some (now + seconds delay)))"
    and upd: "projection_fenced_update i (projection_held i token v) (projection_fail_row target next_at (take 64 code)) t =
      Inr (row, t')"
    using assms(1) by (auto simp: projection_fail_with_lease_def Let_def split: option.splits if_splits)
  from upd assms(2) show ?thesis
  proof (rule projection_fenced_update_Inr)
    fix r assume "r \<in> set t" and "projection_held i token v r" and "row = projection_fail_row target next_at (take 64 code) r"
      and "t' = sql_put pr_id row t" and "projection_get_by_id i t = Some r"
    with cur target show ?thesis by (intro that [of r]) (auto split: if_splits)
  qed (auto simp: projection_held_def)
qed

definition projection_claim_select ::
  "moment \<Rightarrow> (uuid \<Rightarrow> bool) \<Rightarrow> projection list \<Rightarrow> projection option" where
  "projection_claim_select now locked t =
     sql_first_by pr_created_at (\<lambda>r. projection_claimable now r \<and> \<not> locked (pr_id r))
       (snd (projection_recover_exhausted_leases now t))"

lemma projection_recover_map [simp]:
  "map projection_keys (snd (projection_recover_exhausted_leases now t)) = map projection_keys t"
  "map pr_id (snd (projection_recover_exhausted_leases now t)) = map pr_id t"
  by (simp_all add: projection_recover_exhausted_leases_def map_sql_update)

lemma projection_claim_eq:
  fixes now :: moment and t :: "projection list"
  assumes "distinct (map pr_id t)" and "0 < secs"
  defines "t1 \<equiv> snd (projection_recover_exhausted_leases now t)"
  shows "projection_claim_next w secs now token locked t =
    (case projection_claim_select now locked t of
       None \<Rightarrow> Inr (None, t1)
     | Some cand \<Rightarrow>
         Inr (Some (projr (projection_row_to_claim (projection_lease_row w token (now + seconds secs) cand))),
              sql_put pr_id (projection_lease_row w token (now + seconds secs) cand) t1))"
proof (cases "projection_claim_select now locked t")
  case None
  with assms show ?thesis
    by (simp add: projection_claim_next_def projection_claim_select_def t1_def Let_def)
next
  case (Some cand)
  let ?r = "projection_lease_row w token (now + seconds secs) cand"
  have d1: "distinct (map pr_id t1)"
    using assms(1) by (simp add: t1_def)
  have in1: "cand \<in> set t1"
    using sql_first_by_Some [OF Some [unfolded projection_claim_select_def]] by (simp add: t1_def)
  have "sql_update (\<lambda>r. pr_id r = pr_id cand) (projection_lease_row w token (now + seconds secs)) t1 = sql_put pr_id ?r t1"
    using d1 in1 by (intro sql_update_current) auto
  moreover have "projection_get_by_id (pr_id cand) (sql_put pr_id ?r t1) = Some ?r"
    unfolding projection_get_by_id_def using in1 by (intro sql_one_put) auto
  moreover obtain claim where "projection_row_to_claim ?r = Inr claim"
    by (simp add: projection_row_to_claim_def projection_lease_row_def)
  ultimately show ?thesis
    using Some assms(2)
    by (simp add: projection_claim_next_def projection_claim_select_def t1_def Let_def)
qed

text \<open>One row of the table moved.\<close>

lemma projection_put_step:
  assumes "distinct (map pr_id t)" and "r \<in> set t" and "projection_step r r'"
  shows "evolves N projection_step t (sql_put pr_id r' t) \<and>
    map projection_keys (sql_put pr_id r' t) = map projection_keys t"
proof
  have keys: "projection_keys r' = projection_keys r" and id: "pr_id r' = pr_id r"
    using projection_step_keys [OF assms(3)] by (auto simp: projection_keys_def)
  show "evolves N projection_step t (sql_put pr_id r' t)"
    using assms id by (intro evolves_put) auto
  show "map projection_keys (sql_put pr_id r' t) = map projection_keys t"
    using assms keys id by (intro map_sql_put [where r = r]) auto
qed

lemma projection_recover_evolves:
  "evolves N projection_step t (snd (projection_recover_exhausted_leases now t))"
  by (auto simp: projection_recover_exhausted_leases_def projection_exhausted_def
      intro!: evolves_update1 projection_step.dead)

lemma projection_claim_evolves:
  assumes "projection_claim_next w secs now token locked t = Inr (c, t')" and "distinct (map pr_id t)"
  shows "evolves N projection_step t t' \<and> map projection_keys t' = map projection_keys t"
proof -
  have pos: "0 < secs"
    using assms(1) by (simp add: projection_claim_next_def split: if_splits)
  let ?t1 = "snd (projection_recover_exhausted_leases now t)"
  have d1: "distinct (map pr_id ?t1)"
    using assms(2) by simp
  show ?thesis
  proof (cases "projection_claim_select now locked t")
    case None
    with assms pos show ?thesis by (auto simp: projection_claim_eq projection_recover_evolves)
  next
    case (Some cand)
    let ?r = "projection_lease_row w token (now + seconds secs) cand"
    note cand = sql_first_by_Some [OF Some [unfolded projection_claim_select_def]]
    have t': "t' = sql_put pr_id ?r ?t1"
      using assms pos Some by (simp add: projection_claim_eq)
    have "projection_step cand ?r"
      using cand by (auto intro: projection_step.claim)
    then have "evolves N projection_step ?t1 t' \<and> map projection_keys t' = map projection_keys ?t1"
      unfolding t' using projection_put_step [OF d1, of cand] cand by blast
    then show ?thesis
      using projection_recover_evolves [of N t now] evolves_trans [of N projection_step t ?t1 t'] by simp
  qed
qed

section \<open>The contract, discharged\<close>

lemma projection_run_effect:
  assumes "projection_run t t'" and "distinct (map pr_id t)"
  shows "evolves projection_new projection_step t t' \<and>
    (map projection_keys t' = map projection_keys t \<or>
     (\<exists>r. t' = t @ [r] \<and> (\<forall>x \<in> set t. fst (projection_keys x) \<noteq> fst (projection_keys r) \<and>
                                    fst (snd (projection_keys x)) \<noteq> fst (snd (projection_keys r)))))"
  using assms(1)
proof cases
  case (enqueue i now cid kind sid corr mx res)
  obtain row created where "res = (row, created)" by fastforce
  with enqueue have "projection_enqueue_if_absent i now cid kind sid corr mx t = Inr ((row, created), t')"
    by simp
  then show ?thesis
    by (cases rule: projection_enqueue_cases)
      (auto simp: projection_by_source_def projection_get_by_id_def sql_one_None projection_keys_def)
next
  case (recover now n)
  then show ?thesis using projection_recover_evolves projection_recover_map(1) by (metis snd_conv)
next
  case claim
  then show ?thesis using projection_claim_evolves assms(2) by blast
next
  case (renew i token v w secs now row)
  from renew assms(2) show ?thesis
    by (cases rule: renew_lease_Inr)
      (auto simp: projection_held_def projection_alive_def split: option.splits
        intro!: projection_put_step [OF assms(2), THEN conjunct1] projection_put_step [OF assms(2), THEN conjunct2]
          projection_step.renew)
next
  case (attach i token v w amo_id now row)
  from attach assms(2) show ?thesis
    by (cases rule: attach_id_Inr)
      (auto simp: projection_held_def intro!: projection_put_step [OF assms(2), THEN conjunct1]
        projection_put_step [OF assms(2), THEN conjunct2] projection_step.attach)
next
  case (complete i token v amo_id row)
  from complete [unfolded complete_projected_with_lease_def] assms(2) show ?thesis
    by (cases rule: projection_terminate_Inr)
      (auto simp: projection_held_def intro!: projection_put_step [OF assms(2), THEN conjunct1]
        projection_put_step [OF assms(2), THEN conjunct2] projection_step.project)
next
  case (skip i token v reason row)
  from skip [unfolded projection_skip_with_lease_def] assms(2) show ?thesis
    by (cases rule: projection_terminate_Inr)
      (auto simp: projection_held_def intro!: projection_put_step [OF assms(2), THEN conjunct1]
        projection_put_step [OF assms(2), THEN conjunct2] projection_step.skip)
next
  case (fail i token v code delay permanent now row)
  from fail assms(2) show ?thesis
    by (cases rule: projection_fail_Inr)
      (auto simp: projection_held_def intro!: projection_put_step [OF assms(2), THEN conjunct1]
        projection_put_step [OF assms(2), THEN conjunct2] projection_step.retry projection_step.dead)
qed

lemma projection_run_distinct:
  assumes "projection_run t t'" and "distinct (map pr_id t)"
  shows "distinct (map pr_id t')"
    and "distinct (map (\<lambda>r. (pr_source_kind r, pr_source_id r)) t) \<Longrightarrow>
      distinct (map (\<lambda>r. (pr_source_kind r, pr_source_id r)) t')"
proof -
  have "map projection_keys t' = map projection_keys t \<or>
    (\<exists>r. t' = t @ [r] \<and> (\<forall>x \<in> set t. fst (projection_keys x) \<noteq> fst (projection_keys r)))"
    using projection_run_effect [OF assms] by blast
  from distinct_columns [OF this] assms(2) show "distinct (map pr_id t')"
    by (simp add: projection_keys_def)
  have "map projection_keys t' = map projection_keys t \<or>
    (\<exists>r. t' = t @ [r] \<and> (\<forall>x \<in> set t. fst (snd (projection_keys x)) \<noteq> fst (snd (projection_keys r))))"
    using projection_run_effect [OF assms] by blast
  from distinct_columns [where g = "\<lambda>k. fst (snd k)", OF this]
  show "distinct (map (\<lambda>r. (pr_source_kind r, pr_source_id r)) t) \<Longrightarrow>
      distinct (map (\<lambda>r. (pr_source_kind r, pr_source_id r)) t')"
    by (simp add: projection_keys_def)
qed

interpretation projection: fenced_table pr_id pr_lease_version pr_lease_token projection_finished
  projection_new projection_step projection_run
proof unfold_locales
  fix r r' :: projection assume step: "projection_step r r'"
  show "pr_id r' = pr_id r" using projection_step_keys [OF step] by (simp add: projection_keys_def)
  note fenced = projection_step_fenced [OF step]
  show "pr_lease_version r \<le> pr_lease_version r'" by (rule fenced(1))
  show "pr_lease_version r' = pr_lease_version r \<Longrightarrow>
      pr_lease_token r' = pr_lease_token r \<or> pr_lease_token r' = None" by (rule fenced(2))
  show "projection_finished r \<Longrightarrow> r' = r" using fenced(3) by simp
qed (use projection_run_effect projection_run_distinct(1) in auto)

lemma projection_reachable_distinct: "projection_run\<^sup>*\<^sup>* [] t \<Longrightarrow> distinct (map pr_id t)"
  by (erule projection.runs_distinct) simp

text \<open>
  What every reachable row satisfies: each lease is an attempt and attempts are bounded (a row that
  was never leased is the only \<open>PENDING\<close> one), a lease is complete exactly while the row is in work,
  and a projected row carries the id of its message in the CRM.
\<close>

definition projection_ok :: "projection \<Rightarrow> bool" where
  "projection_ok r =
     (pr_attempt_count r = pr_lease_version r \<and> 0 \<le> pr_lease_version r \<and>
      pr_attempt_count r \<le> pr_max_attempts r \<and> 0 < pr_max_attempts r \<and>
      (pr_status r = Proj_PENDING \<longrightarrow> pr_attempt_count r = 0) \<and>
      (pr_status r = Proj_PROJECTED \<longrightarrow> pr_amocrm_message_id r \<noteq> None) \<and>
      (pr_status r = Proj_SKIPPED \<longleftrightarrow> pr_skip_reason r \<noteq> None) \<and>
      (if pr_status r = Proj_PROCESSING
       then pr_lease_token r \<noteq> None \<and> pr_lease_owner r \<noteq> None \<and> pr_lease_until r \<noteq> None
       else pr_lease_token r = None \<and> pr_lease_owner r = None \<and> pr_lease_until r = None))"

lemma projection_step_ok: "projection_step r r' \<Longrightarrow> projection_ok r \<Longrightarrow> projection_ok r'"
proof (induction rule: projection_step.induct)
  case (claim now r w token until)
  then have "pr_attempt_count r < pr_max_attempts r" and "pr_status r \<noteq> Proj_SKIPPED"
    by (auto simp: projection_claimable_def projection_ok_def)
  with claim.prems show ?case by (simp add: projection_ok_def projection_lease_row_def)
qed (simp_all add: projection_ok_def projection_row_defs)

lemma projection_new_ok: "projection_new r \<Longrightarrow> projection_ok r"
  by (simp add: projection_ok_def projection_new_def)

lemma projection_reachable_ok:
  assumes "projection_run\<^sup>*\<^sup>* [] t" and "r \<in> set t"
  shows "projection_ok r"
proof -
  have "\<forall>r \<in> set t. projection_ok r"
    by (rule evolves_invariant [OF projection.runs_evolve [OF assms(1)]])
      (auto intro: projection_step_ok projection_new_ok)
  with assms(2) show ?thesis by blast
qed

end
