(* ===== verification/Chat_Http.thy ===== *)
theory Chat_Http
  imports Projection_Queue Chat_Binding
begin

text \<open>
  The client of the CRM's chat API: core/amocrm_chat_egress_http.py. A message is posted once per call;
  the history of a chat is scanned page by page for the id the integration gave a message.

  \<open>transport\<close> is \<open>_signed_request\<close>, the signed HTTP exchange: \<open>None\<close> when the network failed, otherwise the
  status and what \<open>json.loads\<close> made of the body (\<open>None\<close> when it raised). The body of a request is kept as
  the object that is dumped.
\<close>

section \<open>Data\<close>

datatype AmoCrmChatEgressOutcome =
    Chat_SUCCESS | Chat_TRANSIENT_ERROR | Chat_PERMANENT_ERROR | Chat_NOT_FOUND

datatype AmoCrmChatHistoryScan = Scan_FOUND | Scan_ABSENT | Scan_UNCERTAIN

record chat_send_result =
  cs_outcome :: AmoCrmChatEgressOutcome
  cs_amocrm_message_id :: "string option"
  cs_error_code :: "string option"

record history_hit =
  hh_found :: bool
  hh_amocrm_message_id :: "string option"
  hh_outcome :: AmoCrmChatEgressOutcome
  hh_error_code :: "string option"
  hh_absence_proven :: bool
  hh_messages_on_page :: nat

record history_scan =
  hs_scan :: AmoCrmChatHistoryScan
  hs_amocrm_message_id :: "string option"
  hs_error_code :: "string option"

record chat_request =
  cq_method :: string
  cq_path :: string
  cq_body :: payload

type_synonym chat_transport = "chat_request \<Rightarrow> (int \<times> json option) option"

definition HISTORY_PAGE_LIMIT :: nat where "HISTORY_PAGE_LIMIT = 50"

definition HISTORY_MAX_PAGES :: nat where "HISTORY_MAX_PAGES = 20"

text \<open>\<open>str(n)\<close>.\<close>

fun nat_text :: "nat \<Rightarrow> string" where
  "nat_text n =
     (if n < 10 then [char_of (48 + n)] else nat_text (n div 10) @ [char_of (48 + n mod 10)])"

declare nat_text.simps [simp del]

definition int_text :: "int \<Rightarrow> string" where
  "int_text i = (if i < 0 then CHR ''-'' # nat_text (nat (- i)) else nat_text (nat i))"

definition chat_classify_status :: "int \<Rightarrow> AmoCrmChatEgressOutcome" where
  "chat_classify_status status =
     (if 200 \<le> status \<and> status < 300 then Chat_SUCCESS
      else if status \<in> {400, 401, 403} then Chat_PERMANENT_ERROR
      else if status = 204 then Chat_NOT_FOUND
      else Chat_TRANSIENT_ERROR)"

section \<open>Sending\<close>

definition chat_send_error :: "AmoCrmChatEgressOutcome \<Rightarrow> string \<Rightarrow> chat_send_result" where
  "chat_send_error outcome code =
     \<lparr> cs_outcome = outcome, cs_amocrm_message_id = None, cs_error_code = Some code \<rparr>"

definition parse_send_msgid :: "json option \<Rightarrow> string option" where
  "parse_send_msgid body =
     (case body of
        Some (JObj p) \<Rightarrow>
          (case dict_get p ''new_message'' of
             JObj m \<Rightarrow>
               (case dict_get m ''msgid'' of
                  JStr i \<Rightarrow> if i = [] \<or> length i > 128 then None else Some i
                | _ \<Rightarrow> None)
           | _ \<Rightarrow> None)
      | _ \<Rightarrow> None)"

text \<open>The receiver object, absent when no part of it is given, an error when it is incomplete.\<close>

definition chat_receiver :: "string option \<Rightarrow> string option \<Rightarrow> string option \<Rightarrow> string + payload option" where
  "chat_receiver rid rname rref =
     (if rid = None \<and> rname = None \<and> rref = None then Inr None
      else case (rid, rname) of
        (Some i, Some n) \<Rightarrow>
          if py_strip ascii_space i = [] \<or> py_strip ascii_space n = [] then Inl ''AMOCRM_CHAT_RECEIVER_INVALID''
          else let base = [(''id'', JStr (py_strip ascii_space i)), (''name'', JStr (py_strip ascii_space n))]
               in (case rref of
                     None \<Rightarrow> Inr (Some base)
                   | Some r \<Rightarrow>
                       if py_strip ascii_space r = [] then Inl ''AMOCRM_CHAT_RECEIVER_INVALID''
                       else Inr (Some (base @ [(''ref_id'', JStr (py_strip ascii_space r))])))
      | _ \<Rightarrow> Inl ''AMOCRM_CHAT_RECEIVER_INVALID'')"

record chat_message =
  cm_integration_msgid :: string
  cm_integration_conversation_id :: string
  cm_conversation_ref_id :: string
  cm_sender_id :: string
  cm_sender_name :: string
  cm_text :: string
  cm_timestamp_unix :: int
  cm_sender_ref_id :: "string option"
  cm_receiver_id :: "string option"
  cm_receiver_name :: "string option"
  cm_receiver_ref_id :: "string option"

definition chat_send_body :: "chat_message \<Rightarrow> payload option \<Rightarrow> payload" where
  "chat_send_body m receiver =
     (let sender = [(''id'', JStr (cm_sender_id m)), (''name'', JStr (cm_sender_name m))] @
            (case cm_sender_ref_id m of None \<Rightarrow> [] | Some r \<Rightarrow> [(''ref_id'', JStr r)]);
          base = [(''timestamp'', JInt (cm_timestamp_unix m)),
                  (''msec_timestamp'', JInt (cm_timestamp_unix m * 1000)),
                  (''msgid'', JStr (cm_integration_msgid m)),
                  (''conversation_id'', JStr (cm_integration_conversation_id m)),
                  (''conversation_ref_id'', JStr (cm_conversation_ref_id m)),
                  (''sender'', JObj sender),
                  (''message'', JObj [(''type'', JStr ''text''), (''text'', JStr (cm_text m))]),
                  (''silent'', JBool True)]
      in [(''event_type'', JStr ''new_message''),
          (''payload'', JObj (base @ (case receiver of None \<Rightarrow> [] | Some r \<Rightarrow> [(''receiver'', JObj r)])))])"

definition chat_path :: "string \<Rightarrow> string" where
  "chat_path scope = ''/v2/origin/custom/'' @ scope"

definition classify_send_reply :: "(int \<times> json option) option \<Rightarrow> chat_send_result" where
  "classify_send_reply reply =
     (case reply of
        None \<Rightarrow> chat_send_error Chat_TRANSIENT_ERROR ''AMOCRM_CHAT_TRANSPORT''
      | Some (status, body) \<Rightarrow>
          if chat_classify_status status \<noteq> Chat_SUCCESS
          then chat_send_error (chat_classify_status status) (''AMOCRM_CHAT_HTTP_'' @ int_text status)
          else (case parse_send_msgid body of
                  None \<Rightarrow> chat_send_error Chat_TRANSIENT_ERROR ''AMOCRM_CHAT_RESPONSE_INVALID''
                | Some i \<Rightarrow> \<lparr> cs_outcome = Chat_SUCCESS, cs_amocrm_message_id = Some i, cs_error_code = None \<rparr>))"

text \<open>\<open>send_silent_text\<close>; the requests it made are returned with the result.\<close>

definition send_silent_text ::
  "chat_transport \<Rightarrow> string \<Rightarrow> chat_message \<Rightarrow> chat_send_result \<times> chat_request list" where
  "send_silent_text transport scope m =
     (if cm_integration_msgid m = [] \<or> length (cm_integration_msgid m) > INTEGRATION_MSGID_MAX_LENGTH
      then (chat_send_error Chat_PERMANENT_ERROR ''AMOCRM_CHAT_MSGID_INVALID'', [])
      else case chat_receiver (cm_receiver_id m) (cm_receiver_name m) (cm_receiver_ref_id m) of
        Inl code \<Rightarrow> (chat_send_error Chat_PERMANENT_ERROR code, [])
      | Inr receiver \<Rightarrow>
          if cm_sender_ref_id m \<noteq> None \<and> receiver = None
          then (chat_send_error Chat_PERMANENT_ERROR ''AMOCRM_CHAT_RECEIVER_REQUIRED'', [])
          else let req = \<lparr> cq_method = ''POST'', cq_path = chat_path scope, cq_body = chat_send_body m receiver \<rparr>
               in (classify_send_reply (transport req), [req]))"

section \<open>The history of a chat\<close>

text \<open>The id the CRM gave to the message of a history entry, when the entry is the message looked for.\<close>

definition history_match :: "string \<Rightarrow> json \<Rightarrow> string option" where
  "history_match msgid item =
     (case item of
        JObj i \<Rightarrow>
          (case dict_get i ''message'' of
             JObj m \<Rightarrow>
               if dict_get m ''client_id'' = JStr msgid
               then (case dict_get m ''id'' of JStr a \<Rightarrow> if a = [] then None else Some a | _ \<Rightarrow> None)
               else None
           | _ \<Rightarrow> None)
      | _ \<Rightarrow> None)"

fun first_match :: "string \<Rightarrow> json list \<Rightarrow> string option" where
  "first_match msgid [] = None"
| "first_match msgid (item # items) =
     (case history_match msgid item of Some a \<Rightarrow> Some a | None \<Rightarrow> first_match msgid items)"

definition parse_history_page_for_msgid :: "string \<Rightarrow> json option \<Rightarrow> history_hit option" where
  "parse_history_page_for_msgid msgid body =
     (case body of
        Some (JObj p) \<Rightarrow>
          (case dict_get p ''messages'' of
             JList messages \<Rightarrow>
               Some (case first_match msgid messages of
                 Some a \<Rightarrow> \<lparr> hh_found = True, hh_amocrm_message_id = Some a, hh_outcome = Chat_SUCCESS,
                            hh_error_code = None, hh_absence_proven = False,
                            hh_messages_on_page = length messages \<rparr>
               | None \<Rightarrow> \<lparr> hh_found = False, hh_amocrm_message_id = None, hh_outcome = Chat_NOT_FOUND,
                          hh_error_code = None, hh_absence_proven = False,
                          hh_messages_on_page = length messages \<rparr>)
           | _ \<Rightarrow> None)
      | _ \<Rightarrow> None)"

definition find_msgid_in_history_body :: "string \<Rightarrow> json option \<Rightarrow> string option" where
  "find_msgid_in_history_body msgid body =
     (case parse_history_page_for_msgid msgid body of
        None \<Rightarrow> None
      | Some page \<Rightarrow> if hh_found page then hh_amocrm_message_id page else None)"

definition history_error :: "AmoCrmChatEgressOutcome \<Rightarrow> string \<Rightarrow> history_hit" where
  "history_error outcome code =
     \<lparr> hh_found = False, hh_amocrm_message_id = None, hh_outcome = outcome, hh_error_code = Some code,
       hh_absence_proven = False, hh_messages_on_page = 0 \<rparr>"

definition history_request :: "string \<Rightarrow> string \<Rightarrow> nat \<Rightarrow> nat \<Rightarrow> chat_request" where
  "history_request scope chat limit offset =
     \<lparr> cq_method = ''GET'',
       cq_path = chat_path scope @ ''/chats/'' @ chat @ ''/history?limit='' @ nat_text limit @
                 ''&offset='' @ nat_text offset,
       cq_body = [] \<rparr>"

definition history_page ::
  "chat_transport \<Rightarrow> string \<Rightarrow> string \<Rightarrow> string \<Rightarrow> nat \<Rightarrow> nat \<Rightarrow> history_hit" where
  "history_page transport scope chat msgid limit offset =
     (case transport (history_request scope chat limit offset) of
        None \<Rightarrow> history_error Chat_TRANSIENT_ERROR ''AMOCRM_CHAT_TRANSPORT''
      | Some (status, body) \<Rightarrow>
          if status = 204
          then \<lparr> hh_found = False, hh_amocrm_message_id = None, hh_outcome = Chat_NOT_FOUND,
                 hh_error_code = None, hh_absence_proven = True, hh_messages_on_page = 0 \<rparr>
          else if chat_classify_status status \<noteq> Chat_SUCCESS
          then history_error (chat_classify_status status) (''AMOCRM_CHAT_HTTP_'' @ int_text status)
          else (case parse_history_page_for_msgid msgid body of
                  None \<Rightarrow> history_error Chat_TRANSIENT_ERROR ''AMOCRM_CHAT_HISTORY_PARSE''
                | Some parsed \<Rightarrow> parsed))"

definition code_or :: "string option \<Rightarrow> string \<Rightarrow> string" where
  "code_or code fallback = (if text_given code then the code else fallback)"

definition scan_uncertain :: "string \<Rightarrow> history_scan" where
  "scan_uncertain code = \<lparr> hs_scan = Scan_UNCERTAIN, hs_amocrm_message_id = None, hs_error_code = Some code \<rparr>"

text \<open>The loop over at most \<open>_HISTORY_MAX_PAGES\<close> pages.\<close>

fun scan_pages :: "(nat \<Rightarrow> history_hit) \<Rightarrow> nat \<Rightarrow> nat \<Rightarrow> nat \<Rightarrow> history_scan" where
  "scan_pages page limit 0 offset = scan_uncertain ''AMOCRM_CHAT_HISTORY_TRUNCATED''"
| "scan_pages page limit (Suc n) offset =
     (let p = page offset
      in if hh_outcome p = Chat_TRANSIENT_ERROR
         then scan_uncertain (code_or (hh_error_code p) ''AMOCRM_CHAT_HISTORY_TRANSIENT'')
         else if hh_outcome p = Chat_PERMANENT_ERROR
         then scan_uncertain (code_or (hh_error_code p) ''AMOCRM_CHAT_HISTORY_PERMANENT'')
         else if hh_found p \<and> text_given (hh_amocrm_message_id p)
         then \<lparr> hs_scan = Scan_FOUND, hs_amocrm_message_id = hh_amocrm_message_id p, hs_error_code = None \<rparr>
         else if hh_messages_on_page p < limit
         then \<lparr> hs_scan = Scan_ABSENT, hs_amocrm_message_id = None, hs_error_code = None \<rparr>
         else scan_pages page limit n (offset + limit))"

definition scan_msgid_in_history :: "chat_transport \<Rightarrow> string \<Rightarrow> string \<Rightarrow> string \<Rightarrow> history_scan" where
  "scan_msgid_in_history transport scope chat msgid =
     scan_pages (history_page transport scope chat msgid HISTORY_PAGE_LIMIT) HISTORY_PAGE_LIMIT HISTORY_MAX_PAGES 0"

section \<open>What a scan proves\<close>

lemma first_match_None: "first_match msgid items = None \<longleftrightarrow> (\<forall>x \<in> set items. history_match msgid x = None)"
  by (induction items) (auto split: option.split)

lemma first_match_Some: "first_match msgid items = Some a \<Longrightarrow> a \<noteq> [] \<and> (\<exists>x \<in> set items. history_match msgid x = Some a)"
  by (induction items)
    (auto simp: history_match_def split: option.splits json.splits if_splits)

text \<open>A page that was read: an empty answer, or a list of messages.\<close>

definition page_read :: "chat_transport \<Rightarrow> chat_request \<Rightarrow> json list \<Rightarrow> bool" where
  "page_read transport req messages =
     (\<exists>status body. transport req = Some (status, body) \<and>
        (status = 204 \<and> messages = [] \<or>
         status \<noteq> 204 \<and> 200 \<le> status \<and> status < 300 \<and>
           (\<exists>p. body = Some (JObj p) \<and> dict_get p ''messages'' = JList messages)))"

lemma classify_success_iff: "chat_classify_status status = Chat_SUCCESS \<longleftrightarrow> 200 \<le> status \<and> status < 300"
  by (simp add: chat_classify_status_def)

lemma history_page_read:
  assumes "hh_outcome (history_page transport scope chat msgid limit offset) \<noteq> Chat_TRANSIENT_ERROR"
    and "hh_outcome (history_page transport scope chat msgid limit offset) \<noteq> Chat_PERMANENT_ERROR"
  obtains messages where "page_read transport (history_request scope chat limit offset) messages"
    and "hh_messages_on_page (history_page transport scope chat msgid limit offset) = length messages"
    and "hh_amocrm_message_id (history_page transport scope chat msgid limit offset) = first_match msgid messages"
    and "hh_found (history_page transport scope chat msgid limit offset) = (first_match msgid messages \<noteq> None)"
proof -
  let ?req = "history_request scope chat limit offset"
  obtain status body where r: "transport ?req = Some (status, body)"
    using assms(1) by (cases "transport ?req") (auto simp: history_page_def history_error_def)
  show thesis
  proof (cases "status = 204")
    case True
    with r show thesis by (intro that [of "[]"]) (simp_all add: history_page_def page_read_def)
  next
    case False
    have ok: "chat_classify_status status = Chat_SUCCESS"
      using assms r False
      by (auto simp: history_page_def history_error_def chat_classify_status_def split: if_splits)
    obtain hit where hit: "parse_history_page_for_msgid msgid body = Some hit"
      using assms(1) r False ok by (auto simp: history_page_def history_error_def split: option.splits)
    then obtain p messages where body: "body = Some (JObj p)" "dict_get p ''messages'' = JList messages"
      by (auto simp: parse_history_page_for_msgid_def split: option.splits json.splits)
    have pg: "history_page transport scope chat msgid limit offset = hit"
      using r False ok hit by (simp add: history_page_def)
    have h: "hh_messages_on_page hit = length messages \<and> hh_amocrm_message_id hit = first_match msgid messages \<and>
        hh_found hit = (first_match msgid messages \<noteq> None)"
      using hit body by (auto simp: parse_history_page_for_msgid_def split: option.splits)
    show thesis
    proof (rule that [of messages])
      show "page_read transport ?req messages"
        using r False ok body by (auto simp: page_read_def classify_success_iff)
    qed (use h pg in simp_all)
  qed
qed

lemma scan_pages_absent:
  assumes "hs_scan (scan_pages (history_page transport scope chat msgid limit) limit n offset) = Scan_ABSENT"
  shows "\<exists>pages. pages \<noteq> [] \<and> length pages \<le> n \<and>
    (\<forall>k < length pages. page_read transport (history_request scope chat limit (offset + k * limit)) (pages ! k)) \<and>
    (\<forall>k < length pages. (length (pages ! k) < limit) = (Suc k = length pages)) \<and>
    first_match msgid (concat pages) = None"
  using assms
proof (induction n arbitrary: offset)
  case 0
  then show ?case by (simp add: scan_uncertain_def)
next
  case (Suc n)
  let ?p = "history_page transport scope chat msgid limit offset"
  have out: "hh_outcome ?p \<noteq> Chat_TRANSIENT_ERROR" "hh_outcome ?p \<noteq> Chat_PERMANENT_ERROR"
    using Suc.prems by (auto simp: Let_def scan_uncertain_def split: if_splits)
  obtain messages where read: "page_read transport (history_request scope chat limit offset) messages"
    and len: "hh_messages_on_page ?p = length messages"
    and mid: "hh_amocrm_message_id ?p = first_match msgid messages" "hh_found ?p = (first_match msgid messages \<noteq> None)"
    using out by (rule history_page_read)
  have nomatch: "first_match msgid messages = None"
  proof (rule ccontr)
    assume "first_match msgid messages \<noteq> None"
    then obtain a where "first_match msgid messages = Some a" by blast
    with first_match_Some [OF this] Suc.prems out mid show False
      by (simp add: Let_def text_given_def)
  qed
  show ?case
  proof (cases "length messages < limit")
    case True
    with read nomatch show ?thesis by (intro exI [of _ "[messages]"]) simp
  next
    case False
    then have "hs_scan (scan_pages (history_page transport scope chat msgid limit) limit n (offset + limit)) = Scan_ABSENT"
      using Suc.prems out mid nomatch len by (simp add: Let_def)
    from Suc.IH [OF this] obtain pages where "pages \<noteq> []" "length pages \<le> n"
      and rd: "\<forall>k < length pages. page_read transport (history_request scope chat limit (offset + limit + k * limit)) (pages ! k)"
      and sh: "\<forall>k < length pages. (length (pages ! k) < limit) = (Suc k = length pages)"
      and nm: "first_match msgid (concat pages) = None"
      by blast
    moreover have "page_read transport (history_request scope chat limit (offset + k * limit)) ((messages # pages) ! k)"
      if "k < length (messages # pages)" for k
      using that read rd by (cases k) (auto simp: algebra_simps)
    moreover have "(length ((messages # pages) ! k) < limit) = (Suc k = length (messages # pages))"
      if "k < length (messages # pages)" for k
      using that False sh \<open>pages \<noteq> []\<close> by (cases k) auto
    ultimately show ?thesis
      using nomatch by (intro exI [of _ "messages # pages"]) (auto simp: first_match_None)
  qed
qed

lemma scan_pages_found:
  assumes "hs_scan (scan_pages (history_page transport scope chat msgid limit) limit n offset) = Scan_FOUND"
  shows "\<exists>a k messages x. k < n \<and> page_read transport (history_request scope chat limit (offset + k * limit)) messages \<and>
    x \<in> set messages \<and> history_match msgid x = Some a \<and>
    hs_amocrm_message_id (scan_pages (history_page transport scope chat msgid limit) limit n offset) = Some a"
  using assms
proof (induction n arbitrary: offset)
  case 0
  then show ?case by (simp add: scan_uncertain_def)
next
  case (Suc n)
  let ?p = "history_page transport scope chat msgid limit offset"
  have out: "hh_outcome ?p \<noteq> Chat_TRANSIENT_ERROR" "hh_outcome ?p \<noteq> Chat_PERMANENT_ERROR"
    using Suc.prems by (auto simp: Let_def scan_uncertain_def split: if_splits)
  obtain messages where read: "page_read transport (history_request scope chat limit offset) messages"
    and mid: "hh_amocrm_message_id ?p = first_match msgid messages" "hh_found ?p = (first_match msgid messages \<noteq> None)"
    using out by (rule history_page_read)
  show ?case
  proof (cases "first_match msgid messages")
    case (Some a)
    then obtain x where "x \<in> set messages" "history_match msgid x = Some a" "a \<noteq> []"
      using first_match_Some by blast
    with read mid out Some show ?thesis
      by (intro exI [of _ a] exI [of _ 0] exI [of _ messages] exI [of _ x]) (simp add: Let_def text_given_def)
  next
    case None
    with Suc.prems out mid
    have eq: "scan_pages (history_page transport scope chat msgid limit) limit (Suc n) offset =
        scan_pages (history_page transport scope chat msgid limit) limit n (offset + limit)"
      by (auto simp: Let_def split: if_splits)
    from Suc.IH [OF Suc.prems [unfolded eq]] obtain a k ms x where "k < n"
      "page_read transport (history_request scope chat limit (offset + limit + k * limit)) ms"
      "x \<in> set ms" "history_match msgid x = Some a"
      "hs_amocrm_message_id (scan_pages (history_page transport scope chat msgid limit) limit n (offset + limit)) = Some a"
      by blast
    then show ?thesis unfolding eq
      by (intro exI [of _ a] exI [of _ "Suc k"] exI [of _ ms] exI [of _ x]) (simp add: algebra_simps)
  qed
qed

text \<open>
  The history shows that a message is not there: some number of consecutive pages from the beginning of
  the chat was read, only the last of them short, and no entry of them is the message.
\<close>

definition absence_proven :: "chat_transport \<Rightarrow> string \<Rightarrow> string \<Rightarrow> string \<Rightarrow> bool" where
  "absence_proven transport scope chat msgid =
     (\<exists>pages. pages \<noteq> [] \<and> length pages \<le> HISTORY_MAX_PAGES \<and>
       (\<forall>k < length pages.
          page_read transport (history_request scope chat HISTORY_PAGE_LIMIT (k * HISTORY_PAGE_LIMIT)) (pages ! k) \<and>
          (length (pages ! k) < HISTORY_PAGE_LIMIT) = (Suc k = length pages)) \<and>
       (\<forall>x \<in> set (concat pages). history_match msgid x = None))"

lemma scan_absent:
  assumes "hs_scan (scan_msgid_in_history transport scope chat msgid) = Scan_ABSENT"
  shows "absence_proven transport scope chat msgid"
  using scan_pages_absent [OF assms [unfolded scan_msgid_in_history_def]]
  by (auto simp: absence_proven_def first_match_None)

end
