(* ===== verification/Chat_Projection.thy ===== *)
theory Chat_Projection
  imports Reply_Worker Chat_Http
begin

text \<open>
  The worker that shows messages in the CRM chat: \<open>AmocrmChatProjectionWorker\<close> and
  \<open>repair_bot_outbound_projection\<close> of services/amocrm_chat_projection.py.

  A claim is processed in several sessions with calls of the chat API between them. \<open>others k\<close> is what other
  processes committed before the k-th session, \<open>clock k\<close> the database clock it reads. The calls of the API
  are returned as a trace; \<open>history\<close> and \<open>post\<close> are the transports of the two calls.
\<close>

section \<open>The source of a projection\<close>

definition CLIENT_PARTICIPANT_NAME :: string where "CLIENT_PARTICIPANT_NAME = ''Client''"

definition AMOCRM_CHAT_BOT_SENDER_ID :: string where "AMOCRM_CHAT_BOT_SENDER_ID = ''teya-bot''"

definition AMOCRM_CHAT_BOT_SENDER_NAME :: string where
  "AMOCRM_CHAT_BOT_SENDER_NAME =
     ''Teya Bot ('' @ [CHR 0xD0, CHR 0xB1, CHR 0xD0, CHR 0xBE, CHR 0xD1, CHR 0x82, CHR 0x20, CHR 0xD0, CHR 0xA2,
       CHR 0xD0, CHR 0xB5, CHR 0xD1, CHR 0x8F] @ '')''"

definition client_participant_id_for_conversation :: "uuid \<Rightarrow> string" where
  "client_participant_id_for_conversation cid = ''cli'' @ take 29 (uuid_hex cid)"

record chat_config =
  cc_enabled :: bool
  cc_channel_secret :: "string option"
  cc_scope_id :: "string option"
  cc_bot_id :: "string option"

text \<open>\<open>CHAT_HTTP_TIMEOUT_SECONDS\<close> rounded up and the headroom make the smallest lease.\<close>

definition lease_seconds_for_http :: "int \<Rightarrow> int" where
  "lease_seconds_for_http lease_seconds = max lease_seconds (10 + 5)"

datatype binding_lookup =
    Binding_found chat_binding
  | Binding_none
  | Binding_revoked
  | Binding_ambiguous

definition active_binding_for_conversation :: "uuid \<Rightarrow> chat_binding list \<Rightarrow> binding_lookup" where
  "active_binding_for_conversation cid t =
     (case filter (\<lambda>b. b_conversation_id b = cid \<and> b_status b = Bind_ACTIVE) t of
        _ # _ # _ \<Rightarrow> Binding_ambiguous
      | [b] \<Rightarrow> Binding_found b
      | [] \<Rightarrow>
          if list_ex (\<lambda>b. b_conversation_id b = cid \<and> b_status b = Bind_REVOKED) t
          then Binding_revoked else Binding_none)"

definition inbox_get_by_id :: "uuid \<Rightarrow> inbox_message list \<Rightarrow> inbox_message option" where
  "inbox_get_by_id i t = sql_one (\<lambda>m. i_id m = i) t"

definition unix_time :: "moment \<Rightarrow> int" where
  "unix_time m = m div 1000000"

definition load_source_text ::
  "AmocrmProjectionSourceKind \<Rightarrow> uuid \<Rightarrow> inbox_message list \<Rightarrow> outbox_message list \<Rightarrow> string option \<times> int option" where
  "load_source_text kind source_id inbox outbox =
     (case kind of
        CLIENT_INBOUND \<Rightarrow>
          (case inbox_get_by_id source_id inbox of
             None \<Rightarrow> (None, None)
           | Some m \<Rightarrow>
               (case dict_get (i_payload_json m) ''text'' of
                  JStr body \<Rightarrow>
                    if py_strip ascii_space body = [] then (Some [], None)
                    else (Some body, Some (unix_time (i_received_at m)))
                | _ \<Rightarrow> (Some [], None)))
      | BOT_OUTBOUND \<Rightarrow>
          (case outbound_get_by_id source_id outbox of
             None \<Rightarrow> (None, None)
           | Some ob \<Rightarrow>
               if o_delivery_status ob \<noteq> Out_DELIVERED then (Some [], None)
               else (case persisted_outbound_reply_text (o_payload_json ob) of
                       None \<Rightarrow> (Some [], None)
                     | Some body \<Rightarrow> (Some body, Some (unix_time (o_created_at ob))))))"

section \<open>Sessions\<close>

record projection_result =
  pa_projection_id :: uuid
  pa_status :: string
  pa_projected :: bool
  pa_skip_reason :: "string option"

definition skipped_result :: "projection \<Rightarrow> projection_result" where
  "skipped_result row =
     \<lparr> pa_projection_id = pr_id row, pa_status = projection_status_value (pr_status row), pa_projected = False,
       pa_skip_reason = pr_skip_reason row \<rparr>"

text \<open>Lock the dialog, then prove the lease: how every session of the worker but the failing one begins.\<close>

definition under_lease :: "moment \<Rightarrow> projection_claim \<Rightarrow> 'a session \<Rightarrow> 'a session" where
  "under_lease now claim body =
     db_bind (lock_dialog (qc_conversation_id claim)) (\<lambda>_.
     db_bind (db_read (\<lambda>s. require_processing_lease (qc_projection_id claim) (qc_lease_token claim)
                (qc_lease_version claim) (qc_lease_owner claim) now (db_projections s))) (\<lambda>lease.
     raise_or lease (\<lambda>_. body)))"

definition skip_claim :: "projection_claim \<Rightarrow> AmocrmProjectionSkipReason \<Rightarrow> projection session" where
  "skip_claim claim reason =
     on_projections (projection_skip_with_lease (qc_projection_id claim) (qc_lease_token claim)
       (qc_lease_version claim) reason)"

text \<open>The row is skipped and \<open>_ProjectionSkip\<close> is raised with the result, inside the session.\<close>

definition skip_and_raise :: "projection_claim \<Rightarrow> AmocrmProjectionSkipReason \<Rightarrow> 'a session" where
  "skip_and_raise claim reason =
     db_bind (skip_claim claim reason) (\<lambda>row.
     db_raise (ProjectionSkip (pr_id row) (projection_status_value (pr_status row))
       (case pr_skip_reason row of None \<Rightarrow> [] | Some r \<Rightarrow> r)))"

definition chat_message_for ::
  "chat_config \<Rightarrow> moment \<Rightarrow> projection_claim \<Rightarrow> chat_binding \<Rightarrow> string \<Rightarrow> int option \<Rightarrow> chat_message" where
  "chat_message_for cfg wall claim b body unix =
     (let participant = client_participant_id_for_conversation (qc_conversation_id claim);
          bot = (qc_source_kind claim = BOT_OUTBOUND)
      in \<lparr> cm_integration_msgid = qc_integration_msgid claim,
           cm_integration_conversation_id = the (b_integration_conversation_id b),
           cm_conversation_ref_id = b_amocrm_chat_id b,
           cm_sender_id = (if bot then AMOCRM_CHAT_BOT_SENDER_ID else participant),
           cm_sender_name = (if bot then AMOCRM_CHAT_BOT_SENDER_NAME else CLIENT_PARTICIPANT_NAME),
           cm_text = body,
           cm_timestamp_unix = (case unix of None \<Rightarrow> unix_time wall | Some u \<Rightarrow> u),
           cm_sender_ref_id = (if bot then cc_bot_id cfg else None),
           cm_receiver_id = (if bot then Some participant else None),
           cm_receiver_name = (if bot then Some CLIENT_PARTICIPANT_NAME else None),
           cm_receiver_ref_id = None \<rparr>)"

definition source_skip ::
  "projection_claim \<Rightarrow> outbox_message list \<Rightarrow> AmocrmProjectionSkipReason option" where
  "source_skip claim outbox =
     (if qc_source_kind claim \<noteq> BOT_OUTBOUND then None
      else case outbound_get_by_id (qc_source_id claim) outbox of
        None \<Rightarrow> Some PSkip_SOURCE_MISSING
      | Some ob \<Rightarrow> if o_delivery_status ob \<noteq> Out_DELIVERED then Some PSkip_SOURCE_NOT_DELIVERED else None)"

definition prepare_source :: "chat_config \<Rightarrow> moment \<Rightarrow> projection_claim \<Rightarrow> chat_binding \<Rightarrow> chat_message session" where
  "prepare_source cfg wall claim b =
     db_bind (db_read (\<lambda>s. (source_skip claim (db_outbox s),
        load_source_text (qc_source_kind claim) (qc_source_id claim) (db_inbox s) (db_outbox s))))
     (\<lambda>(early, body, unix).
     (case early of
        Some reason \<Rightarrow> skip_and_raise claim reason
      | None \<Rightarrow>
          (case body of
             None \<Rightarrow> skip_and_raise claim PSkip_SOURCE_MISSING
           | Some content \<Rightarrow>
               if py_strip ascii_space content = [] then skip_and_raise claim PSkip_SOURCE_EMPTY_TEXT
               else if qc_source_kind claim = BOT_OUTBOUND \<and> cc_bot_id cfg = None
               then skip_and_raise claim PSkip_BOT_ID_MISSING
               else db_return (chat_message_for cfg wall claim b content unix))))"

definition prepare_send :: "chat_config \<Rightarrow> moment \<Rightarrow> moment \<Rightarrow> projection_claim \<Rightarrow> chat_message session" where
  "prepare_send cfg now wall claim =
     under_lease now claim
      (db_bind (db_read (\<lambda>s. active_binding_for_conversation (qc_conversation_id claim) (db_bindings s))) (\<lambda>found.
       (case found of
          Binding_ambiguous \<Rightarrow> skip_and_raise claim PSkip_BINDING_UNKNOWN
        | Binding_revoked \<Rightarrow> skip_and_raise claim PSkip_BINDING_REVOKED
        | Binding_none \<Rightarrow> skip_and_raise claim PSkip_BINDING_UNKNOWN
        | Binding_found b \<Rightarrow>
            if \<not> text_given (b_integration_conversation_id b)
            then skip_and_raise claim PSkip_BINDING_INTEGRATION_CONVERSATION_MISSING
            else prepare_source cfg wall claim b)))"

definition complete_projection :: "moment \<Rightarrow> projection_claim \<Rightarrow> string \<Rightarrow> projection_result session" where
  "complete_projection now claim amo_id =
     under_lease now claim
      (db_bind (on_projections (complete_projected_with_lease (qc_projection_id claim) (qc_lease_token claim)
         (qc_lease_version claim) amo_id)) (\<lambda>row.
       db_return \<lparr> pa_projection_id = pr_id row, pa_status = projection_status_value (pr_status row),
                   pa_projected = True, pa_skip_reason = None \<rparr>))"

definition skip_disabled :: "moment \<Rightarrow> projection_claim \<Rightarrow> projection_result session" where
  "skip_disabled now claim =
     under_lease now claim
      (db_bind (skip_claim claim PSkip_EGRESS_DISABLED) (\<lambda>row. db_return (skipped_result row)))"

definition renew_before_http :: "moment \<Rightarrow> int \<Rightarrow> projection_claim \<Rightarrow> unit session" where
  "renew_before_http now lease_seconds claim =
     db_bind (lock_dialog (qc_conversation_id claim)) (\<lambda>_.
     db_bind (on_projections (renew_processing_lease (qc_projection_id claim) (qc_lease_token claim)
       (qc_lease_version claim) (qc_lease_owner claim) lease_seconds now)) (\<lambda>_. db_return ()))"

definition attach_amo_id :: "moment \<Rightarrow> projection_claim \<Rightarrow> string \<Rightarrow> unit session" where
  "attach_amo_id now claim amo_id =
     db_bind (lock_dialog (qc_conversation_id claim)) (\<lambda>_.
     db_bind (on_projections (attach_amocrm_message_id_with_lease (qc_projection_id claim) (qc_lease_token claim)
       (qc_lease_version claim) (qc_lease_owner claim) amo_id now)) (\<lambda>_. db_return ()))"

section \<open>The worker\<close>

datatype chat_call = Call_history string string | Call_send chat_message

type_synonym 'a chat_run = "(exn + 'a) \<times> chat_call list \<times> db"

text \<open>What the worker does once and for all processing: its settings, clocks and neighbours.\<close>

record chat_env =
  ce_config :: chat_config
  ce_lease_seconds :: int
  ce_retry_delay :: int
  ce_clock :: "nat \<Rightarrow> moment"
  ce_wall :: moment
  ce_others :: "nat \<Rightarrow> db \<Rightarrow> db"
  ce_history :: chat_transport
  ce_post :: chat_transport

definition chat_session :: "chat_env \<Rightarrow> nat \<Rightarrow> (moment \<Rightarrow> 'a session) \<Rightarrow> db \<Rightarrow> (exn + 'a) \<times> db" where
  "chat_session e k body d = session_scope (body (ce_clock e k)) (ce_others e k d)"

definition projection_claim_one :: "chat_env \<Rightarrow> string \<Rightarrow> uuid \<Rightarrow> (uuid \<Rightarrow> bool) \<Rightarrow> db \<Rightarrow> (exn + projection_claim option) \<times> db" where
  "projection_claim_one e worker token locked d =
     (if \<not> cc_enabled (ce_config e) then (Inr None, d)
      else chat_session e 0 (\<lambda>now. on_projections (projection_claim_next worker
             (lease_seconds_for_http (ce_lease_seconds e)) now token locked)) d)"

text \<open>\<open>fail_claimed\<close> followed by \<open>raise RuntimeError(code)\<close>.\<close>

definition fail_projection :: "chat_env \<Rightarrow> projection_claim \<Rightarrow> string \<Rightarrow> bool \<Rightarrow> db \<Rightarrow> (exn + 'a) \<times> db" where
  "fail_projection e claim code permanent d =
     (case chat_session e 7 (\<lambda>now. on_projections (projection_fail_with_lease (qc_projection_id claim)
             (qc_lease_token claim) (qc_lease_version claim) code (ce_retry_delay e) permanent now)) d of
        (Inl x, d1) \<Rightarrow> (Inl x, d1)
      | (Inr _, d1) \<Rightarrow> (Inl (RuntimeError code), d1))"

text \<open>The id is stored under the lease first, then the row is completed: sessions k and k + 1.\<close>

definition record_amo_id ::
  "chat_env \<Rightarrow> nat \<Rightarrow> projection_claim \<Rightarrow> string \<Rightarrow> db \<Rightarrow> (exn + projection_result) \<times> db" where
  "record_amo_id e k claim amo_id d =
     (case chat_session e k (\<lambda>now. attach_amo_id now claim amo_id) d of
        (Inl x, d1) \<Rightarrow> (Inl x, d1)
      | (Inr _, d1) \<Rightarrow> chat_session e (Suc k) (\<lambda>now. complete_projection now claim amo_id) d1)"

text \<open>Building the client checks the settings; a missing one raises before any call.\<close>

definition chat_client_scope :: "chat_config \<Rightarrow> exn + string" where
  "chat_client_scope cfg =
     (if \<not> cc_enabled cfg then Inl (ValueError ''AMOCRM_CHAT_EGRESS_DISABLED'')
      else if cc_channel_secret cfg = None then Inl (ValueError ''AMOCRM_CHAT_SECRET_INVALID'')
      else case cc_scope_id cfg of
        None \<Rightarrow> Inl (ValueError ''AMOCRM_CHAT_SCOPE_INVALID'')
      | Some scope \<Rightarrow> Inr scope)"

definition post_message :: "chat_env \<Rightarrow> projection_claim \<Rightarrow> chat_message \<Rightarrow> db \<Rightarrow> projection_result chat_run" where
  "post_message e claim m d =
     (case chat_session e 4 (\<lambda>now. renew_before_http now (lease_seconds_for_http (ce_lease_seconds e)) claim) d of
        (Inl x, d1) \<Rightarrow> (Inl x, [], d1)
      | (Inr _, d1) \<Rightarrow>
          (case chat_client_scope (ce_config e) of
             Inl x \<Rightarrow> (Inl x, [], d1)
           | Inr scope \<Rightarrow>
               let r = fst (send_silent_text (ce_post e) scope m)
               in if cs_outcome r = Chat_SUCCESS \<and> text_given (cs_amocrm_message_id r)
                  then (case record_amo_id e 5 claim (the (cs_amocrm_message_id r)) d1 of
                          (res, d2) \<Rightarrow> (res, [Call_send m], d2))
                  else if cs_outcome r = Chat_PERMANENT_ERROR
                  then (case fail_projection e claim (code_or (cs_error_code r) ''AMOCRM_CHAT_PERMANENT'') True d1 of
                          (res, d2) \<Rightarrow> (res, [Call_send m], d2))
                  else (case fail_projection e claim (code_or (cs_error_code r) ''AMOCRM_CHAT_AMBIGUOUS'') False d1 of
                          (res, d2) \<Rightarrow> (res, [Call_send m], d2))))"

text \<open>\<open>Inr None\<close>: the history proved the message absent, so that it may be posted.\<close>

definition reconcile_before_send ::
  "chat_env \<Rightarrow> projection_claim \<Rightarrow> chat_message \<Rightarrow> db \<Rightarrow> (projection_result option) chat_run" where
  "reconcile_before_send e claim m d =
     (case chat_session e 1 (\<lambda>now. renew_before_http now (lease_seconds_for_http (ce_lease_seconds e)) claim) d of
        (Inl x, d1) \<Rightarrow> (Inl x, [], d1)
      | (Inr _, d1) \<Rightarrow>
          (case chat_client_scope (ce_config e) of
             Inl x \<Rightarrow> (Inl x, [], d1)
           | Inr scope \<Rightarrow>
               let call = Call_history (cm_conversation_ref_id m) (qc_integration_msgid claim);
                   r = scan_msgid_in_history (ce_history e) scope (cm_conversation_ref_id m) (qc_integration_msgid claim)
               in if hs_scan r = Scan_FOUND \<and> text_given (hs_amocrm_message_id r)
                  then (case record_amo_id e 2 claim (the (hs_amocrm_message_id r)) d1 of
                          (Inl x, d2) \<Rightarrow> (Inl x, [call], d2)
                        | (Inr res, d2) \<Rightarrow> (Inr (Some res), [call], d2))
                  else if hs_scan r = Scan_ABSENT then (Inr None, [call], d1)
                  else (case fail_projection e claim (code_or (hs_error_code r) ''AMOCRM_CHAT_HISTORY_UNCERTAIN'') False d1 of
                          (res, d2) \<Rightarrow> (res, [call], d2))))"

definition send_prepared :: "chat_env \<Rightarrow> projection_claim \<Rightarrow> chat_message \<Rightarrow> db \<Rightarrow> projection_result chat_run" where
  "send_prepared e claim m d =
     (if qc_attempt_count claim > 1
      then (case reconcile_before_send e claim m d of
              (Inl x, calls, d1) \<Rightarrow> (Inl x, calls, d1)
            | (Inr (Some res), calls, d1) \<Rightarrow> (Inr res, calls, d1)
            | (Inr None, calls, d1) \<Rightarrow>
                (case post_message e claim m d1 of (res, sent, d2) \<Rightarrow> (res, calls @ sent, d2)))
      else post_message e claim m d)"

definition projection_process_claimed :: "chat_env \<Rightarrow> projection_claim \<Rightarrow> db \<Rightarrow> projection_result chat_run" where
  "projection_process_claimed e claim d =
     (if \<not> cc_enabled (ce_config e)
      then (case chat_session e 0 (\<lambda>now. skip_disabled now claim) d of (res, d1) \<Rightarrow> (res, [], d1))
      else if text_given (qc_amocrm_message_id claim)
      then (case chat_session e 0 (\<lambda>now. complete_projection now claim (the (qc_amocrm_message_id claim))) d of
              (res, d1) \<Rightarrow> (res, [], d1))
      else (case chat_session e 0 (\<lambda>now. prepare_send (ce_config e) now (ce_wall e) claim) d of
              (Inl (ProjectionSkip i status reason), d1) \<Rightarrow>
                (Inr \<lparr> pa_projection_id = i, pa_status = status, pa_projected = False,
                       pa_skip_reason = Some reason \<rparr>, [], d1)
            | (Inl x, d1) \<Rightarrow> (Inl x, [], d1)
            | (Inr m, d1) \<Rightarrow> send_prepared e claim m d1))"

section \<open>Repair\<close>

record repair_result =
  rr_outbound_id :: uuid
  rr_enqueued :: bool
  rr_created :: bool
  rr_projection_id :: "uuid option"
  rr_error_code :: "string option"

definition repair_refused :: "uuid \<Rightarrow> string \<Rightarrow> repair_result" where
  "repair_refused oid code =
     \<lparr> rr_outbound_id = oid, rr_enqueued = False, rr_created = False, rr_projection_id = None,
       rr_error_code = Some code \<rparr>"

definition repair_bot_outbound_projection :: "env \<Rightarrow> uuid \<Rightarrow> repair_result session" where
  "repair_bot_outbound_projection e oid =
     db_bind (db_read (\<lambda>s. outbound_get_by_id oid (db_outbox s))) (\<lambda>found.
     (case found of
        None \<Rightarrow> db_return (repair_refused oid ''OUTBOUND_MISSING'')
      | Some ob \<Rightarrow>
          if o_delivery_status ob \<noteq> Out_DELIVERED then db_return (repair_refused oid ''OUTBOUND_NOT_DELIVERED'')
          else if persisted_outbound_reply_text (o_payload_json ob) = None
          then db_return (repair_refused oid ''OUTBOUND_REPLY_TEXT_MISSING'')
          else
            db_bind (lock_dialog (o_conversation_id ob)) (\<lambda>_.
            db_bind (db_read db_outbox) (\<lambda>obs.
            db_bind (on_projections (enqueue_bot_outbound_projection (en_chat_egress_enabled e) (en_projection_id e)
               (en_now e) (o_conversation_id ob) (o_id ob)
               (case o_correlation_id ob of Some c \<Rightarrow> c | None \<Rightarrow> en_projection_correlation e) obs)) (\<lambda>result.
            db_return (case result of
               None \<Rightarrow> repair_refused oid ''EGRESS_DISABLED''
             | Some (row, created) \<Rightarrow>
                 \<lparr> rr_outbound_id = oid, rr_enqueued = True, rr_created = created,
                   rr_projection_id = Some (pr_id row), rr_error_code = None \<rparr>))))))"

section \<open>What the sessions did\<close>

lemma under_lease_Inr [session_simps]:
  "(under_lease now claim body s = Inr r) =
     (\<exists>c row. lock_for_update (qc_conversation_id claim) (db_conversations s) = Inr c \<and>
        require_processing_lease (qc_projection_id claim) (qc_lease_token claim) (qc_lease_version claim)
          (qc_lease_owner claim) now (db_projections s) = Inr row \<and> body s = Inr r)"
  by (auto simp: under_lease_def session_simps raise_or_Inr)

lemma skip_and_raise_never [session_simps]: "skip_and_raise claim reason s \<noteq> Inr r"
  by (simp add: skip_and_raise_def session_simps)

lemma not_projection_skip:
  "lock_for_update cid t \<noteq> Inl (ProjectionSkip i st r)"
  "require_processing_lease pid token v w now ps \<noteq> Inl (ProjectionSkip i st r)"
  by (auto simp: lock_for_update_def require_processing_lease_def split: option.splits)

text \<open>A skip is raised only after the lease was proved.\<close>

lemma under_lease_skip:
  assumes "under_lease now claim body s = Inl (ProjectionSkip i st r)"
  shows "\<exists>row. require_processing_lease (qc_projection_id claim) (qc_lease_token claim) (qc_lease_version claim)
    (qc_lease_owner claim) now (db_projections s) = Inr row"
proof (rule ccontr)
  assume no: "\<nexists>row. require_processing_lease (qc_projection_id claim) (qc_lease_token claim) (qc_lease_version claim)
    (qc_lease_owner claim) now (db_projections s) = Inr row"
  then obtain x where x: "require_processing_lease (qc_projection_id claim) (qc_lease_token claim) (qc_lease_version claim)
    (qc_lease_owner claim) now (db_projections s) = Inl x" by (meson sumE)
  show False
  proof (cases "lock_for_update (qc_conversation_id claim) (db_conversations s)")
    case (Inl y)
    with assms show False
      using not_projection_skip(1) by (simp add: under_lease_def db_bind_def lock_dialog_def on_table_def)
  next
    case (Inr c)
    with assms x show False
      using not_projection_skip(2)
      by (simp add: under_lease_def db_bind_def lock_dialog_def on_table_def db_read_def raise_or_def db_raise_def)
  qed
qed

lemma prepare_send_Inr:
  assumes "prepare_send cfg now wall claim s = Inr (m, s')"
  obtains b body unix row where "s' = s" and "m = chat_message_for cfg wall claim b body unix"
    and "active_binding_for_conversation (qc_conversation_id claim) (db_bindings s) = Binding_found b"
    and "load_source_text (qc_source_kind claim) (qc_source_id claim) (db_inbox s) (db_outbox s) = (Some body, unix)"
    and "py_strip ascii_space body \<noteq> []"
    and "require_processing_lease (qc_projection_id claim) (qc_lease_token claim) (qc_lease_version claim)
      (qc_lease_owner claim) now (db_projections s) = Inr row"
proof -
  obtain row where row: "require_processing_lease (qc_projection_id claim) (qc_lease_token claim) (qc_lease_version claim)
      (qc_lease_owner claim) now (db_projections s) = Inr row"
    and rest: "db_bind (db_read (\<lambda>s. active_binding_for_conversation (qc_conversation_id claim) (db_bindings s))) (\<lambda>found.
       (case found of
          Binding_ambiguous \<Rightarrow> skip_and_raise claim PSkip_BINDING_UNKNOWN
        | Binding_revoked \<Rightarrow> skip_and_raise claim PSkip_BINDING_REVOKED
        | Binding_none \<Rightarrow> skip_and_raise claim PSkip_BINDING_UNKNOWN
        | Binding_found b \<Rightarrow>
            if \<not> text_given (b_integration_conversation_id b)
            then skip_and_raise claim PSkip_BINDING_INTEGRATION_CONVERSATION_MISSING
            else prepare_source cfg wall claim b)) s = Inr (m, s')"
    using assms by (auto simp: prepare_send_def session_simps)
  obtain b where b: "active_binding_for_conversation (qc_conversation_id claim) (db_bindings s) = Binding_found b"
    and src: "prepare_source cfg wall claim b s = Inr (m, s')"
    using rest by (auto simp: session_simps split: binding_lookup.splits if_splits)
  obtain early body unix where l: "source_skip claim (db_outbox s) = early"
    "load_source_text (qc_source_kind claim) (qc_source_id claim) (db_inbox s) (db_outbox s) = (body, unix)" by fastforce
  with src have "early = None"
    by (auto simp: prepare_source_def session_simps split: option.splits)
  with src l obtain content where "body = Some content"
    by (cases body) (auto simp: prepare_source_def session_simps)
  with src l \<open>early = None\<close> b row show thesis
    by (intro that [of b content unix row])
      (auto simp: prepare_source_def session_simps split: if_splits)
qed

lemma chat_session_Inr: "chat_session e k body d = (Inr x, d') \<longleftrightarrow> body (ce_clock e k) (ce_others e k d) = Inr (x, d')"
  by (simp add: chat_session_def session_scope_Inr)

lemma chat_session_Inl: "chat_session e k body d = (Inl x, d') \<Longrightarrow> d' = ce_others e k d \<and> body (ce_clock e k) (ce_others e k d) = Inl x"
  by (auto simp: chat_session_def session_scope_def split: sum.splits)

text \<open>The other processes keep the primary key of the queue.\<close>

definition keeps_projection_ids :: "chat_env \<Rightarrow> bool" where
  "keeps_projection_ids e =
     (\<forall>k s. distinct (map pr_id (db_projections s)) \<longrightarrow> distinct (map pr_id (db_projections (ce_others e k s))))"

definition projected_as :: "uuid \<Rightarrow> string \<Rightarrow> db \<Rightarrow> bool" where
  "projected_as i a s =
     (\<exists>r. projection_get_by_id i (db_projections s) = Some r \<and> pr_status r = Proj_PROJECTED \<and>
        pr_amocrm_message_id r = Some a \<and> pr_lease_token r = None)"

lemma complete_projection_Inr:
  assumes "complete_projection now claim a s = Inr (res, s')" and "distinct (map pr_id (db_projections s))"
  shows "pa_projected res \<and> projected_as (qc_projection_id claim) a s'"
proof -
  obtain row t where c: "complete_projected_with_lease (qc_projection_id claim) (qc_lease_token claim)
      (qc_lease_version claim) a (db_projections s) = Inr (row, t)"
    and s': "s' = s \<lparr> db_projections := t \<rparr>" and res: "pa_projected res"
    using assms(1) by (auto simp: complete_projection_def session_simps)
  from c [unfolded complete_projected_with_lease_def] assms(2) show ?thesis
  proof (cases rule: projection_terminate_Inr)
    case (1 r)
    have "projection_get_by_id (qc_projection_id claim) t = Some row"
      unfolding 1(4) using sql_one_put [OF 1(1), of pr_id row] 1(2,3) by (simp add: projection_get_by_id_def projection_held_def)
    with s' res 1(3) show ?thesis by (simp add: projected_as_def projection_close_row_def)
  qed
qed

lemma attach_amo_id_distinct:
  assumes "attach_amo_id now claim a s = Inr (u, s')" and "distinct (map pr_id (db_projections s))"
  shows "distinct (map pr_id (db_projections s'))"
proof -
  obtain row t where "attach_amocrm_message_id_with_lease (qc_projection_id claim) (qc_lease_token claim)
      (qc_lease_version claim) (qc_lease_owner claim) a now (db_projections s) = Inr (row, t)" and "s' = s \<lparr> db_projections := t \<rparr>"
    using assms(1) by (auto simp: attach_amo_id_def session_simps)
  then show ?thesis using projection_run_distinct(1) [OF projection_run.attach assms(2)] by simp
qed

lemma renew_distinct:
  assumes "renew_before_http now secs claim s = Inr (u, s')" and "distinct (map pr_id (db_projections s))"
  shows "distinct (map pr_id (db_projections s'))"
proof -
  obtain row t where "renew_processing_lease (qc_projection_id claim) (qc_lease_token claim)
      (qc_lease_version claim) (qc_lease_owner claim) secs now (db_projections s) = Inr (row, t)" and "s' = s \<lparr> db_projections := t \<rparr>"
    using assms(1) by (auto simp: renew_before_http_def session_simps)
  then show ?thesis using projection_run_distinct(1) [OF projection_run.renew assms(2)] by simp
qed

lemma record_amo_id_Inr:
  assumes "record_amo_id e k claim a d = (Inr res, d')" and "keeps_projection_ids e" and "distinct (map pr_id (db_projections d))"
  shows "pa_projected res \<and> projected_as (qc_projection_id claim) a d'"
proof -
  obtain u d1 where s1: "attach_amo_id (ce_clock e k) claim a (ce_others e k d) = Inr (u, d1)"
    and s2: "complete_projection (ce_clock e (Suc k)) claim a (ce_others e (Suc k) d1) = Inr (res, d')"
    using assms(1) by (auto simp: record_amo_id_def chat_session_Inr split: prod.splits sum.splits)
  have "distinct (map pr_id (db_projections d1))"
    using attach_amo_id_distinct [OF s1] assms(2,3) by (simp add: keeps_projection_ids_def)
  then show ?thesis
    using complete_projection_Inr [OF s2] assms(2) by (simp add: keeps_projection_ids_def)
qed

lemma fail_projection_never: "fail_projection e claim code permanent d \<noteq> (Inr x, d')"
  by (auto simp: fail_projection_def split: prod.splits sum.splits)

section \<open>What a processed claim did\<close>

lemma post_message_calls:
  assumes "post_message e claim m d = (r, calls, d')"
  shows "set calls \<subseteq> {Call_send m} \<and> length calls \<le> 1"
  using assms by (auto simp: post_message_def Let_def split: prod.splits sum.splits if_splits)

lemma reconcile_calls:
  assumes "reconcile_before_send e claim m d = (r, calls, d')"
  shows "Call_send x \<notin> set calls"
    and "r = Inr None \<Longrightarrow> calls = [Call_history (cm_conversation_ref_id m) (qc_integration_msgid claim)] \<and>
      (\<exists>scope. absence_proven (ce_history e) scope (cm_conversation_ref_id m) (qc_integration_msgid claim))"
proof -
  show "Call_send x \<notin> set calls"
    using assms by (auto simp: reconcile_before_send_def Let_def split: prod.splits sum.splits if_splits)
  show "calls = [Call_history (cm_conversation_ref_id m) (qc_integration_msgid claim)] \<and>
      (\<exists>scope. absence_proven (ce_history e) scope (cm_conversation_ref_id m) (qc_integration_msgid claim))"
    if "r = Inr None"
    using assms that
    by (auto simp: reconcile_before_send_def Let_def fail_projection_never split: prod.splits sum.splits if_splits
        intro: scan_absent)
qed

lemma post_message_Inr:
  assumes "post_message e claim m d = (Inr res, calls, d')" and "keeps_projection_ids e"
    and "distinct (map pr_id (db_projections d))"
  obtains scope a where "pa_projected res" and "projected_as (qc_projection_id claim) a d'"
    and "cs_outcome (fst (send_silent_text (ce_post e) scope m)) = Chat_SUCCESS"
    and "cs_amocrm_message_id (fst (send_silent_text (ce_post e) scope m)) = Some a"
proof -
  obtain u d1 scope where s1: "renew_before_http (ce_clock e 4) (lease_seconds_for_http (ce_lease_seconds e)) claim (ce_others e 4 d) = Inr (u, d1)"
    and r: "cs_outcome (fst (send_silent_text (ce_post e) scope m)) = Chat_SUCCESS"
      "text_given (cs_amocrm_message_id (fst (send_silent_text (ce_post e) scope m)))"
    and rc: "record_amo_id e 5 claim (the (cs_amocrm_message_id (fst (send_silent_text (ce_post e) scope m)))) d1 = (Inr res, d')"
    using assms(1)
    by (auto simp: post_message_def Let_def chat_session_Inr fail_projection_never split: prod.splits sum.splits if_splits)
  have "distinct (map pr_id (db_projections d1))"
    using renew_distinct [OF s1] assms(2,3) by (simp add: keeps_projection_ids_def)
  from record_amo_id_Inr [OF rc assms(2) this] r show thesis
    by (intro that [of "the (cs_amocrm_message_id (fst (send_silent_text (ce_post e) scope m)))" scope])
      (auto simp: text_given_def split: option.splits)
qed

lemma reconcile_Inr:
  assumes "reconcile_before_send e claim m d = (Inr ro, calls, d')" and "keeps_projection_ids e"
    and "distinct (map pr_id (db_projections d))"
  obtains (absent) "ro = None" and "distinct (map pr_id (db_projections d'))"
    | (found) res scope a where "ro = Some res" and "pa_projected res" and "projected_as (qc_projection_id claim) a d'"
      and "hs_scan (scan_msgid_in_history (ce_history e) scope (cm_conversation_ref_id m) (qc_integration_msgid claim)) = Scan_FOUND"
      and "hs_amocrm_message_id (scan_msgid_in_history (ce_history e) scope (cm_conversation_ref_id m)
        (qc_integration_msgid claim)) = Some a"
proof -
  let ?scan = "\<lambda>scope. scan_msgid_in_history (ce_history e) scope (cm_conversation_ref_id m) (qc_integration_msgid claim)"
  obtain u d1 scope where s1: "renew_before_http (ce_clock e 1) (lease_seconds_for_http (ce_lease_seconds e)) claim (ce_others e 1 d) = Inr (u, d1)"
    and cases: "hs_scan (?scan scope) = Scan_ABSENT \<and> ro = None \<and> d' = d1 \<or>
      hs_scan (?scan scope) = Scan_FOUND \<and> text_given (hs_amocrm_message_id (?scan scope)) \<and>
        (\<exists>res. ro = Some res \<and> record_amo_id e 2 claim (the (hs_amocrm_message_id (?scan scope))) d1 = (Inr res, d'))"
    using assms(1)
    by (auto simp: reconcile_before_send_def Let_def chat_session_Inr fail_projection_never split: prod.splits sum.splits if_splits)
  have d1: "distinct (map pr_id (db_projections d1))"
    using renew_distinct [OF s1] assms(2,3) by (simp add: keeps_projection_ids_def)
  from cases show thesis
  proof (elim disjE conjE exE)
    assume "ro = None" and "d' = d1"
    with d1 show thesis by (intro absent) simp_all
  next
    fix res assume "hs_scan (?scan scope) = Scan_FOUND" "text_given (hs_amocrm_message_id (?scan scope))" "ro = Some res"
      and rc: "record_amo_id e 2 claim (the (hs_amocrm_message_id (?scan scope))) d1 = (Inr res, d')"
    with record_amo_id_Inr [OF rc assms(2) d1] show thesis
      by (intro found [of res "the (hs_amocrm_message_id (?scan scope))" scope]) (auto simp: text_given_def split: option.splits)
  qed
qed

text \<open>Where the id of a projected message came from.\<close>

definition amo_id_known :: "chat_env \<Rightarrow> projection_claim \<Rightarrow> string \<Rightarrow> bool" where
  "amo_id_known e claim a =
     (qc_amocrm_message_id claim = Some a \<or>
      (\<exists>scope chat. hs_scan (scan_msgid_in_history (ce_history e) scope chat (qc_integration_msgid claim)) = Scan_FOUND \<and>
         hs_amocrm_message_id (scan_msgid_in_history (ce_history e) scope chat (qc_integration_msgid claim)) = Some a) \<or>
      (\<exists>scope m. cs_outcome (fst (send_silent_text (ce_post e) scope m)) = Chat_SUCCESS \<and>
         cs_amocrm_message_id (fst (send_silent_text (ce_post e) scope m)) = Some a \<and>
         cm_integration_msgid m = qc_integration_msgid claim))"

lemma send_prepared_Inr:
  assumes "send_prepared e claim m d = (Inr res, calls, d')" and "keeps_projection_ids e"
    and "distinct (map pr_id (db_projections d))" and "cm_integration_msgid m = qc_integration_msgid claim"
  shows "pa_projected res \<and> (\<exists>a. projected_as (qc_projection_id claim) a d' \<and> amo_id_known e claim a)"
proof -
  have post: "pa_projected res \<and> (\<exists>a. projected_as (qc_projection_id claim) a d' \<and> amo_id_known e claim a)"
    if "post_message e claim m d1 = (Inr res, sent, d')" and "distinct (map pr_id (db_projections d1))" for d1 sent
    using that(1) assms(2) that(2)
  proof (rule post_message_Inr)
    fix scope a assume "pa_projected res" "projected_as (qc_projection_id claim) a d'"
      "cs_outcome (fst (send_silent_text (ce_post e) scope m)) = Chat_SUCCESS"
      "cs_amocrm_message_id (fst (send_silent_text (ce_post e) scope m)) = Some a"
    with assms(4) show ?thesis unfolding amo_id_known_def by blast
  qed
  show ?thesis
  proof (cases "qc_attempt_count claim > 1")
    case False
    with assms(1) have "post_message e claim m d = (Inr res, calls, d')" by (simp add: send_prepared_def)
    then show ?thesis using assms(3) by (rule post)
  next
    case True
    then obtain ro c1 d1 where rc: "reconcile_before_send e claim m d = (Inr ro, c1, d1)"
      and rest: "case ro of None \<Rightarrow> (\<exists>sent. post_message e claim m d1 = (Inr res, sent, d')) | Some r \<Rightarrow> r = res \<and> d' = d1"
      using assms(1) by (auto simp: send_prepared_def split: prod.splits sum.splits option.splits)
    from rc assms(2,3) show ?thesis
    proof (cases rule: reconcile_Inr)
      case absent
      with rest show ?thesis using post by auto
    next
      case (found r scope a)
      with rest show ?thesis unfolding amo_id_known_def by auto
    qed
  qed
qed

section \<open>Properties\<close>


text \<open>
  A projection that is reported as done is recorded as done. When a processed claim reports its
  message as projected, its row is \<open>PROJECTED\<close>, its lease is given up, and it carries the id of the message in
  the CRM: the one stored before a crash, the one found in the history of the chat, or the one the CRM
  gave to the posted message.
\<close>

theorem projection_done_is_recorded:
  assumes "projection_process_claimed e claim d = (Inr res, calls, d')" and "pa_projected res"
    and "keeps_projection_ids e" and "distinct (map pr_id (db_projections d))"
  shows "\<exists>r a. projection_get_by_id (qc_projection_id claim) (db_projections d') = Some r \<and>
    pr_status r = Proj_PROJECTED \<and> pr_amocrm_message_id r = Some a \<and> pr_lease_token r = None \<and> amo_id_known e claim a"
proof -
  have d0: "distinct (map pr_id (db_projections (ce_others e 0 d)))"
    using assms(3,4) by (simp add: keeps_projection_ids_def)
  have en: "cc_enabled (ce_config e)"
    using assms(1,2)
    by (auto simp: projection_process_claimed_def chat_session_Inr skip_disabled_def skipped_result_def session_simps
        split: if_splits prod.splits)
  have "\<exists>a. projected_as (qc_projection_id claim) a d' \<and> amo_id_known e claim a"
  proof (cases "text_given (qc_amocrm_message_id claim)")
    case True
    with assms(1) en have "complete_projection (ce_clock e 0) claim (the (qc_amocrm_message_id claim)) (ce_others e 0 d) = Inr (res, d')"
      by (auto simp: projection_process_claimed_def chat_session_Inr split: prod.splits)
    from complete_projection_Inr [OF this d0] True show ?thesis
      by (intro exI [of _ "the (qc_amocrm_message_id claim)"]) (auto simp: amo_id_known_def text_given_def split: option.splits)
  next
    case False
    then obtain m d1 where prep: "prepare_send (ce_config e) (ce_clock e 0) (ce_wall e) claim (ce_others e 0 d) = Inr (m, d1)"
      and send: "send_prepared e claim m d1 = (Inr res, calls, d')"
      using assms(1,2) en
      by (auto simp: projection_process_claimed_def chat_session_Inr split: prod.splits sum.splits exn.splits)
    from prep have "d1 = ce_others e 0 d" and "cm_integration_msgid m = qc_integration_msgid claim"
      by (auto elim!: prepare_send_Inr simp: chat_message_for_def Let_def)
    with send_prepared_Inr [OF send assms(3)] d0 show ?thesis by simp
  qed
  then show ?thesis by (auto simp: projected_as_def)
qed

text \<open>
  C9. A skip that is reported is not recorded. When the egress is enabled and a processed claim reports
  its message as skipped, nothing was called and nothing was written: the session that skipped the row
  was rolled back by the exception that carries the report. The row is still in work under the lease of
  the claim; once that lease has expired it is claimed again or, with its attempts used up, ends as
  \<open>DEAD\<close>.
\<close>

theorem projection_skip_not_recorded:
  assumes "projection_process_claimed e claim d = (Inr res, calls, d')" and "cc_enabled (ce_config e)"
    and "\<not> pa_projected res" and "keeps_projection_ids e" and "distinct (map pr_id (db_projections d))"
  shows "calls = [] \<and> d' = ce_others e 0 d \<and> pa_skip_reason res \<noteq> None \<and>
    (\<exists>r. projection_get_by_id (qc_projection_id claim) (db_projections d') = Some r \<and> pr_status r = Proj_PROCESSING \<and>
       pr_lease_token r = Some (qc_lease_token claim) \<and> pr_lease_version r = qc_lease_version claim \<and>
       (\<forall>now. projection_lease_expired now r \<longrightarrow>
          (if pr_attempt_count r < pr_max_attempts r then projection_claimable now r else projection_exhausted now r)))"
proof -
  have d0: "distinct (map pr_id (db_projections (ce_others e 0 d)))"
    using assms(4,5) by (simp add: keeps_projection_ids_def)
  have "\<not> text_given (qc_amocrm_message_id claim)"
  proof
    assume "text_given (qc_amocrm_message_id claim)"
    with assms(1,2) have "complete_projection (ce_clock e 0) claim (the (qc_amocrm_message_id claim)) (ce_others e 0 d) = Inr (res, d')"
      by (auto simp: projection_process_claimed_def chat_session_Inr split: prod.splits)
    with complete_projection_Inr [OF _ d0] assms(3) show False by blast
  qed
  moreover have "\<not> pa_projected res \<Longrightarrow> send_prepared e claim m d1 \<noteq> (Inr res, calls, d')"
    if "prepare_send (ce_config e) (ce_clock e 0) (ce_wall e) claim (ce_others e 0 d) = Inr (m, d1)" for m d1
  proof -
    from that have "d1 = ce_others e 0 d" and "cm_integration_msgid m = qc_integration_msgid claim"
      by (auto elim!: prepare_send_Inr simp: chat_message_for_def Let_def)
    then show "\<not> pa_projected res \<Longrightarrow> send_prepared e claim m d1 \<noteq> (Inr res, calls, d')"
      using send_prepared_Inr [OF _ assms(4)] d0 by blast
  qed
  ultimately obtain i st reason where sk: "chat_session e 0 (\<lambda>now. prepare_send (ce_config e) now (ce_wall e) claim) d =
      (Inl (ProjectionSkip i st reason), d')" and "calls = []" and "pa_skip_reason res = Some reason"
    using assms(1-3)
    by (auto simp: projection_process_claimed_def chat_session_Inr split: prod.splits sum.splits exn.splits)
  note s = chat_session_Inl [OF sk]
  then obtain row where "require_processing_lease (qc_projection_id claim) (qc_lease_token claim) (qc_lease_version claim)
      (qc_lease_owner claim) (ce_clock e 0) (db_projections (ce_others e 0 d)) = Inr row"
    unfolding prepare_send_def using under_lease_skip by blast
  from require_lease_Inr [OF this] s \<open>calls = []\<close> \<open>pa_skip_reason res = Some reason\<close> show ?thesis
    by (auto simp: projection_held_def projection_claimable_def projection_exhausted_def)
qed

section \<open>A run of the worker\<close>

text \<open>
  One client message whose first attempt was lost with its worker: the second claim reads the empty
  history, posts and records.
\<close>

definition chat_demo_queue :: "projection list" where
  "chat_demo_queue =
     (let t0 = snd (projr (projection_enqueue_if_absent ''p1'' 5 ''c1'' CLIENT_INBOUND ''i1'' ''k1'' 5 []));
          t1 = snd (projr (projection_claim_next ''w1'' 30 10 ''t1'' (\<lambda>_. False) t0))
      in snd (projr (projection_claim_next ''w2'' 30 40000000 ''t2'' (\<lambda>_. False) t1)))"

definition chat_demo_claim :: projection_claim where
  "chat_demo_claim = projr (projection_row_to_claim (hd chat_demo_queue))"

definition chat_demo_db :: "chat_binding list \<Rightarrow> db" where
  "chat_demo_db bindings =
     \<lparr> db_conversations = [conv_new_row ''c1'' 0 Channel_SYNTHETIC ''ext''], db_ops_events = [],
       db_inbox = [inbox_new_row ''i1'' 5 ''c1'' Channel_SYNTHETIC ''m1'' 1 [(''text'', JStr ''hello'')] 5],
       db_manager_messages = [], db_reply_plans = [], db_outbox = [], db_mirror = [],
       db_projections = chat_demo_queue, db_offers = [], db_pii_admissions = [], db_create_pendings = [],
       db_bindings = bindings, db_ingress = [] \<rparr>"

definition chat_demo_binding :: chat_binding where
  "chat_demo_binding = \<lparr> b_id = ''b1'', b_conversation_id = ''c1'', b_amocrm_chat_id = ''chat1'',
     b_integration_conversation_id = Some ''int1'', b_status = Bind_ACTIVE \<rparr>"

definition chat_demo_env :: chat_env where
  "chat_demo_env =
     \<lparr> ce_config = \<lparr> cc_enabled = True, cc_channel_secret = Some ''s'', cc_scope_id = Some ''scope'', cc_bot_id = None \<rparr>,
       ce_lease_seconds = 30, ce_retry_delay = 1, ce_clock = (\<lambda>_. 41000000), ce_wall = 41000000,
       ce_others = (\<lambda>_ d. d),
       ce_history = (\<lambda>_. Some (200, Some (JObj [(''messages'', JList [])]))),
       ce_post = (\<lambda>_. Some (200, Some (JObj [(''new_message'', JObj [(''msgid'', JStr ''amo1'')])]))) \<rparr>"

definition chat_demo_message :: chat_message where
  "chat_demo_message = chat_message_for (ce_config chat_demo_env) 41000000 chat_demo_claim chat_demo_binding ''hello'' (Some 0)"

lemma chat_demo_ids: "keeps_projection_ids chat_demo_env \<and> distinct (map pr_id (db_projections (chat_demo_db bs)))"
proof -
  have "distinct (map pr_id chat_demo_queue)" by code_simp
  then show ?thesis by (simp add: keeps_projection_ids_def chat_demo_env_def chat_demo_db_def)
qed

definition chat_view :: "projection_result chat_run \<Rightarrow> (bool \<times> string option) option \<times> chat_call list" where
  "chat_view x = ((case fst x of Inl _ \<Rightarrow> None | Inr r \<Rightarrow> Some (pa_projected r, pa_skip_reason r)), fst (snd x))"

lemma chat_demo_runs:
  "chat_view (projection_process_claimed chat_demo_env chat_demo_claim (chat_demo_db [chat_demo_binding])) =
     (Some (True, None), [Call_history ''chat1'' ''ci1'', Call_send chat_demo_message])"
  "chat_view (projection_process_claimed chat_demo_env chat_demo_claim (chat_demo_db [])) =
     (Some (False, Some ''BINDING_UNKNOWN''), [])"
  by code_simp+

lemma chat_view_run:
  assumes "chat_view x = (Some (p, sk), calls)"
  obtains res d' where "x = (Inr res, calls, d')" and "pa_projected res = p" and "pa_skip_reason res = sk"
  using assms by (cases x) (auto simp: chat_view_def split: sum.splits)


theorem projection_done_is_recorded_witness:
  "\<exists>d'. \<exists>r a. projection_get_by_id ''p1'' (db_projections d') = Some r \<and> pr_status r = Proj_PROJECTED \<and>
     pr_amocrm_message_id r = Some a \<and> amo_id_known chat_demo_env chat_demo_claim a \<and>
     snd (snd (projection_process_claimed chat_demo_env chat_demo_claim (chat_demo_db [chat_demo_binding]))) = d'"
proof -
  obtain res d' where run: "projection_process_claimed chat_demo_env chat_demo_claim (chat_demo_db [chat_demo_binding]) =
      (Inr res, [Call_history ''chat1'' ''ci1'', Call_send chat_demo_message], d')" and "pa_projected res"
    using chat_demo_runs(1) by (rule chat_view_run) simp
  moreover have "qc_projection_id chat_demo_claim = ''p1''" by code_simp
  ultimately show ?thesis
    using projection_done_is_recorded [OF run] chat_demo_ids by auto
qed

theorem projection_skip_not_recorded_witness:
  "snd (snd (projection_process_claimed chat_demo_env chat_demo_claim (chat_demo_db []))) = chat_demo_db []"
proof -
  obtain res d' where run: "projection_process_claimed chat_demo_env chat_demo_claim (chat_demo_db []) = (Inr res, [], d')"
    and "\<not> pa_projected res"
    using chat_demo_runs(2) by (rule chat_view_run) simp
  moreover have "cc_enabled (ce_config chat_demo_env)" "ce_others chat_demo_env 0 (chat_demo_db []) = chat_demo_db []"
    by (simp_all add: chat_demo_env_def)
  ultimately show ?thesis
    using projection_skip_not_recorded [OF run] chat_demo_ids by simp
qed

end
