(* ===== verification/Ingress_Worker.thy ===== *)
theory Ingress_Worker
  imports Dialog_System Projection_Queue
begin

text \<open>
  From the ingress queue to the dialogs: services/ingress.py, with the schemas the events pass
  (schemas/ingress.py, schemas/inbound.py, schemas/vk_client_ingress.py, schemas/manager_message.py,
  schemas/self_booking_confirm_action.py).

  \<open>ingress_accept\<close> is the adapter: it acknowledges an event only after its row is committed.
  \<open>ingress_process_claimed\<close> is the worker: the effect of the event on the dialog and the completion of the
  event are one session, a failure is recorded in a second one. \<open>others\<close> is what other processes
  committed before each of the two sessions.

  Parameters: \<open>booking_schema\<close> is \<open>SyntheticBookingInput.model_validate\<close> followed by \<open>wire_dict\<close> (\<open>None\<close> when it
  raises), \<open>fromisoformat\<close> is \<open>datetime.fromisoformat\<close>, \<open>hmac\<close> as in Vk_Provenance.
\<close>

section \<open>Schemas\<close>

text \<open>The length of a text that is kept as its UTF-8 bytes: continuation bytes do not count.\<close>

definition utf8_length :: "string \<Rightarrow> nat" where
  "utf8_length s = length (filter (\<lambda>c. \<not> (128 \<le> ord_char c \<and> ord_char c < 192)) s)"

definition is_ascii_alnum :: "char \<Rightarrow> bool" where
  "is_ascii_alnum c =
     (let n = ord_char c in 48 \<le> n \<and> n \<le> 57 \<or> 65 \<le> n \<and> n \<le> 90 \<or> 97 \<le> n \<and> n \<le> 122)"

text \<open>\<open>_safe_external_id\<close>; \<open>extra\<close> are the separators that are removed before \<open>isalnum\<close>.\<close>

definition safe_external_id :: "char set \<Rightarrow> nat \<Rightarrow> string \<Rightarrow> bool" where
  "safe_external_id extra bound s =
     (s \<noteq> [] \<and> utf8_length s \<le> bound \<and>
      (let rest = filter (\<lambda>c. c \<notin> extra) s in rest \<noteq> [] \<and> list_all is_ascii_alnum rest))"

definition id_marks :: "char set" where "id_marks = {CHR ''-'', CHR ''_''}"

definition no_control_chars :: "string \<Rightarrow> bool" where
  "no_control_chars s =
     list_all (\<lambda>c. \<not> (ord_char c < 32 \<and> ord_char c \<noteq> 9 \<and> ord_char c \<noteq> 10 \<and> ord_char c \<noteq> 13)) s"

definition schema_text :: "nat \<Rightarrow> string \<Rightarrow> bool" where
  "schema_text bound s = (s \<noteq> [] \<and> utf8_length s \<le> bound \<and> no_control_chars s)"

text \<open>\<open>SyntheticConfirmSelectedSlotAction.model_validate\<close>: strict types and no other keys.\<close>

definition confirm_action_validate :: "json \<Rightarrow> confirm_action option" where
  "confirm_action_validate raw =
     (case raw of
        JObj d \<Rightarrow>
          if set (map fst d) \<subseteq> {''kind'', ''slot_id'', ''pii_admission_request_id'', ''personal_data_consent'',
               ''offer_acknowledgement''} \<and>
             dict_get d ''kind'' = JStr ''CONFIRM_SELECTED_SLOT'' \<and>
             dict_get d ''personal_data_consent'' = JBool True \<and> dict_get d ''offer_acknowledgement'' = JBool True
          then (case (dict_get d ''slot_id'', dict_get d ''pii_admission_request_id'') of
                  (JStr slot, JStr request) \<Rightarrow>
                    if slot \<noteq> [] \<and> utf8_length slot \<le> 128 \<and> \<not> isl (parse_bot_slot_id slot) \<and>
                       request \<noteq> [] \<and> \<not> isl (require_pii_admission_request_id request)
                    then Some \<lparr> ca_slot_id = slot,
                                ca_pii_admission_request_id = projr (require_pii_admission_request_id request),
                                ca_personal_data_consent = True, ca_offer_acknowledgement = True \<rparr>
                    else None
                | _ \<Rightarrow> None)
          else None
      | _ \<Rightarrow> None)"

definition confirm_action_wire_dict :: "confirm_action \<Rightarrow> payload" where
  "confirm_action_wire_dict a =
     [(''kind'', JStr ''CONFIRM_SELECTED_SLOT''), (''slot_id'', JStr (ca_slot_id a)),
      (''pii_admission_request_id'', JStr (ca_pii_admission_request_id a)),
      (''personal_data_consent'', JBool True), (''offer_acknowledgement'', JBool True)]"

definition synthetic_inbound_valid :: "inbound_event \<Rightarrow> bool" where
  "synthetic_inbound_valid ev =
     (ev_channel ev = ''synthetic'' \<and> safe_external_id id_marks 128 (ev_external_conversation_id ev) \<and>
      safe_external_id id_marks 128 (ev_external_message_id ev) \<and> schema_text 2000 (ev_text ev) \<and>
      (ev_booking ev = None \<or> ev_action ev = None))"

definition vk_inbound_valid :: "inbound_event \<Rightarrow> bool" where
  "vk_inbound_valid ev =
     (ev_channel ev = ''vk'' \<and> safe_external_id id_marks 128 (ev_external_conversation_id ev) \<and>
      safe_external_id id_marks 128 (ev_external_message_id ev) \<and> schema_text 2000 (ev_text ev))"

definition manager_event_valid :: "manager_event \<Rightarrow> bool" where
  "manager_event_valid ev =
     (me_channel ev = ''synthetic'' \<and> safe_external_id id_marks 128 (me_external_conversation_id ev) \<and>
      safe_external_id (insert (CHR '':'') id_marks) 256 (me_external_message_id ev) \<and>
      (case me_provider_sequence ev of None \<Rightarrow> True | Some n \<Rightarrow> 0 \<le> n \<and> n \<le> 9223372036854775807) \<and>
      schema_text 4000 (me_text ev))"

section \<open>The adapter\<close>

record ingress_input =
  ii_channel :: string
  ii_external_event_id :: string
  ii_external_conversation_id :: string
  ii_text :: string
  ii_correlation_id :: "uuid option"
  ii_booking :: "payload option"
  ii_action :: "confirm_action option"

definition safe_envelope :: "ingress_input \<Rightarrow> payload" where
  "safe_envelope ev =
     [(''schema'', JStr ''synthetic.ingress.v1''), (''event_type'', JStr ''SYNTHETIC_MESSAGE''),
      (''text'', JStr (ii_text ev))] @
     (case ii_booking ev of None \<Rightarrow> [] | Some b \<Rightarrow> [(''booking'', JObj b)]) @
     (case ii_action ev of None \<Rightarrow> [] | Some a \<Rightarrow> [(''action'', JObj (confirm_action_wire_dict a))])"

record ingress_ack =
  ik_accepted :: bool
  ik_duplicate :: bool
  ik_event_id :: uuid
  ik_status :: IngressStatus
  ik_correlation_id :: uuid

text \<open>\<open>new_id\<close> and \<open>new_corr\<close> are the uuids minted by the insert and by \<open>correlation_id_or_new\<close>.\<close>

definition ingress_accept ::
  "uuid \<Rightarrow> uuid \<Rightarrow> moment \<Rightarrow> int \<Rightarrow> ingress_input \<Rightarrow> db \<Rightarrow> (exn + ingress_ack) \<times> db" where
  "ingress_accept new_id new_corr now max_attempts ev d =
     (if ii_channel ev \<noteq> ''synthetic'' then (Inl (ValueError ''UNSUPPORTED_CHANNEL''), d)
      else let corr = (case ii_correlation_id ev of Some c \<Rightarrow> c | None \<Rightarrow> new_corr)
           in case session_scope
                (db_bind (on_ingress (ingress_insert_if_absent new_id now Ing_synthetic (ii_external_event_id ev)
                   (ii_external_conversation_id ev) SYNTHETIC_MESSAGE (safe_envelope ev) corr max_attempts))
                 (\<lambda>(row, created).
                 db_return \<lparr> ik_accepted = True, ik_duplicate = (\<not> created), ik_event_id = ie_id row,
                             ik_status = ie_status row, ik_correlation_id = ie_correlation_id row \<rparr>)) d of
                (Inr ack, d1) \<Rightarrow> (Inr ack, d1)
              | (Inl x, d1) \<Rightarrow> (Inl (IngressPersistError (''INGRESS_PERSIST_FAILED ('' @ exn_name x @ '')'')), d1))"

section \<open>Envelopes\<close>

definition envelope_to_inbound :: "(json \<Rightarrow> json option) \<Rightarrow> ingress_claim \<Rightarrow> exn + inbound_event" where
  "envelope_to_inbound booking_schema claim =
     (case dict_get (ic_envelope_json claim) ''text'' of
        JStr body \<Rightarrow>
          if body = [] then Inl (ValueError ''INGRESS_ENVELOPE_INVALID'')
          else
            let raw_booking = dict_get (ic_envelope_json claim) ''booking'';
                raw_action = dict_get (ic_envelope_json claim) ''action'';
                booking = (if raw_booking = JNull then None else booking_schema raw_booking);
                action = (if raw_action = JNull then None else confirm_action_validate raw_action)
            in if raw_booking \<noteq> JNull \<and> booking = None then Inl (ValueError ''INGRESS_BOOKING_INVALID'')
               else if raw_action \<noteq> JNull \<and> action = None then Inl (ValueError ''INGRESS_ACTION_INVALID'')
               else let ev = \<lparr> ev_channel = ''synthetic'',
                               ev_external_conversation_id = ic_external_conversation_id claim,
                               ev_external_message_id = ic_external_event_id claim, ev_text = body,
                               ev_received_at = None, ev_booking = booking, ev_action = action \<rparr>
                    in if synthetic_inbound_valid ev then Inr ev else Inl (ValidationError [])
      | _ \<Rightarrow> Inl (ValueError ''INGRESS_ENVELOPE_INVALID''))"

definition vk_envelope_to_inbound :: "(string \<Rightarrow> moment option) \<Rightarrow> ingress_claim \<Rightarrow> exn + inbound_event" where
  "vk_envelope_to_inbound fromisoformat claim =
     (case dict_get (ic_envelope_json claim) ''text'' of
        JStr body \<Rightarrow>
          if body = [] then Inl (ValueError ''INGRESS_ENVELOPE_INVALID'')
          else
            let received = (case dict_get (ic_envelope_json claim) ''received_at'' of
                  JStr raw \<Rightarrow>
                    if raw = [] then Inr None
                    else (case fromisoformat raw of
                            None \<Rightarrow> Inl (ValueError ''INGRESS_ENVELOPE_INVALID'')
                          | Some m \<Rightarrow> Inr (Some m))
                | _ \<Rightarrow> Inr None)
            in (case received of
                  Inl x \<Rightarrow> Inl x
                | Inr m \<Rightarrow>
                    let ev = \<lparr> ev_channel = ''vk'',
                               ev_external_conversation_id = ic_external_conversation_id claim,
                               ev_external_message_id = ic_external_event_id claim, ev_text = body,
                               ev_received_at = m, ev_booking = None, ev_action = None \<rparr>
                    in if vk_inbound_valid ev then Inr ev else Inl (ValidationError []))
      | _ \<Rightarrow> Inl (ValueError ''INGRESS_ENVELOPE_INVALID''))"

text \<open>
  The fields that \<open>apply_vk_client_message_reply_in_session\<close> reads; a field of the wrong type becomes the
  empty text or zero, which that function refuses in the same way.
\<close>

definition vk_reply_of_envelope :: "payload \<Rightarrow> vk_reply_envelope" where
  "vk_reply_of_envelope env =
     \<lparr> ve_external_conversation_id = (case dict_get env ''external_conversation_id'' of JStr s \<Rightarrow> s | _ \<Rightarrow> []),
       ve_provider_message_id = (case dict_get env ''provider_message_id'' of JInt n \<Rightarrow> n | _ \<Rightarrow> 0),
       ve_conversation_message_id = (case dict_get env ''conversation_message_id'' of JInt n \<Rightarrow> n | _ \<Rightarrow> 0),
       ve_provenance = dict_get env ''provenance'' \<rparr>"

record amo_manager_envelope =
  ae_amocrm_chat_id :: string
  ae_amocrm_message_id :: string
  ae_external_message_id :: string
  ae_provider_sequence :: int
  ae_text :: string
  ae_conversation_client_id :: "string option"

text \<open>\<open>isinstance(x, int)\<close> holds of booleans too.\<close>

definition json_int :: "json \<Rightarrow> int option" where
  "json_int v = (case v of JInt n \<Rightarrow> Some n | JBool b \<Rightarrow> Some (if b then 1 else 0) | _ \<Rightarrow> None)"

definition json_text :: "json \<Rightarrow> string option" where
  "json_text v = (case v of JStr s \<Rightarrow> if s = [] then None else Some s | _ \<Rightarrow> None)"

definition amo_envelope :: "ingress_claim \<Rightarrow> exn + amo_manager_envelope" where
  "amo_envelope claim =
     (let env = ic_envelope_json claim
      in case (json_text (dict_get env ''amocrm_chat_id''), json_text (dict_get env ''amocrm_message_id''),
               json_text (dict_get env ''external_message_id''), json_int (dict_get env ''provider_sequence''),
               json_text (dict_get env ''text'')) of
           (Some chat, Some msg, Some ext, Some n, Some body) \<Rightarrow>
             if ic_external_event_id claim \<noteq> ext \<or> ic_external_conversation_id claim \<noteq> chat
             then Inl (ValueError ''INGRESS_ENVELOPE_INVALID'')
             else Inr \<lparr> ae_amocrm_chat_id = chat, ae_amocrm_message_id = msg, ae_external_message_id = ext,
                        ae_provider_sequence = n, ae_text = body,
                        ae_conversation_client_id = json_text (dict_get env ''conversation_client_id'') \<rparr>
         | _ \<Rightarrow> Inl (ValueError ''INGRESS_ENVELOPE_INVALID''))"

section \<open>The worker\<close>

record ingress_result =
  gr_event_id :: uuid
  gr_status :: IngressStatus
  gr_duplicate_business :: bool
  gr_inbox_id :: "uuid option"
  gr_outbox_id :: "uuid option"
  gr_conversation_id :: "uuid option"

record ingress_config =
  gc_handoff_pause_seconds :: int
  gc_retry_delay_seconds :: int
  gc_settings :: settings
  gc_vk_outbound_config :: "vk_outbound_config option"
  gc_takeover_config :: "external_takeover_config option"
  gc_pii :: "(string \<Rightarrow> string \<Rightarrow> uuid \<Rightarrow> bool option) option"
  gc_booking_schema :: "json \<Rightarrow> json option"
  gc_fromisoformat :: "string \<Rightarrow> moment option"
  gc_hmac :: "string \<Rightarrow> string \<Rightarrow> string"

definition complete_event :: "ingress_claim \<Rightarrow> ingress_event session" where
  "complete_event claim =
     on_ingress (ingress_complete_with_lease (ic_event_id claim) (ic_lease_token claim) (ic_lease_version claim))"

text \<open>The end of every processing session: complete the event, then build the result from it.\<close>

definition complete_with :: "ingress_claim \<Rightarrow> bool \<Rightarrow> uuid option \<Rightarrow> uuid option \<Rightarrow> uuid option \<Rightarrow> ingress_result session" where
  "complete_with claim duplicate inbox outbox cid =
     db_bind (complete_event claim) (\<lambda>event.
     db_return \<lparr> gr_event_id = ie_id event, gr_status = ie_status event, gr_duplicate_business = duplicate,
                 gr_inbox_id = inbox, gr_outbox_id = outbox, gr_conversation_id = cid \<rparr>)"

definition process_synthetic :: "ingress_config \<Rightarrow> env \<Rightarrow> ingress_claim \<Rightarrow> inbound_event \<Rightarrow> ingress_result session" where
  "process_synthetic g e claim ev =
     db_bind (accept e (gc_pii g) (gc_handoff_pause_seconds g) ev) (\<lambda>r.
     complete_with claim (ir_duplicate r) (Some (i_id (ir_inbox r))) (Some (o_id (ir_outbox r)))
       (Some (c_id (ir_conversation r))))"

definition process_vk_client :: "ingress_config \<Rightarrow> env \<Rightarrow> ingress_claim \<Rightarrow> inbound_event \<Rightarrow> ingress_result session" where
  "process_vk_client g e claim ev =
     db_bind (vk_accept e ev) (\<lambda>r.
     db_bind (maybe_create_vk_client_proof_reply_plan e (gc_settings g) (gc_vk_outbound_config g) (vr_conversation r)
                (ev_text ev) (vr_created_inbox r)) (\<lambda>_.
     complete_with claim (vr_duplicate r) (Some (i_id (vr_inbox r))) None (Some (c_id (vr_conversation r)))))"

definition process_vk_reply ::
  "ingress_config \<Rightarrow> env \<Rightarrow> external_takeover_config \<Rightarrow> ingress_claim \<Rightarrow> ingress_result session" where
  "process_vk_reply g e cfg claim =
     db_bind (apply_vk_client_message_reply_in_session e (gc_hmac g) cfg (gc_handoff_pause_seconds g)
                (vk_reply_of_envelope (ic_envelope_json claim))) (\<lambda>r.
     complete_with claim False None None (vx_conversation_id r))"

text \<open>
  The echo of a projected message: what the binding learns from it is stored when it can be, and a
  conflict, an ambiguity or an invalid id is passed over.
\<close>

definition capture_quietly :: "amo_manager_envelope \<Rightarrow> unit session" where
  "capture_quietly ae s =
     (case ae_conversation_client_id ae of
        None \<Rightarrow> Inr ((), s)
      | Some client \<Rightarrow>
          (case get_active_by_amocrm_chat_id (ae_amocrm_chat_id ae) (db_bindings s) of
             Inr (Some b) \<Rightarrow>
               (case on_bindings (capture_integration_conversation_id (b_id b) client) s of
                  Inr (_, s1) \<Rightarrow> Inr ((), s1)
                | Inl (AmocrmChatBindingAmbiguousError _) \<Rightarrow> Inr ((), s)
                | Inl (ValueError _) \<Rightarrow> Inr ((), s)
                | Inl x \<Rightarrow> Inl x)
           | _ \<Rightarrow> Inr ((), s)))"

definition capture_client :: "amo_manager_envelope \<Rightarrow> chat_binding \<Rightarrow> unit session" where
  "capture_client ae b s =
     (case ae_conversation_client_id ae of
        None \<Rightarrow> Inr ((), s)
      | Some client \<Rightarrow>
          (case on_bindings (capture_integration_conversation_id (b_id b) client) s of
             Inr (_, s1) \<Rightarrow> Inr ((), s1)
           | Inl (AmocrmChatBindingAmbiguousError _) \<Rightarrow>
               Inl (ValueError ''BINDING_INTEGRATION_CONVERSATION_CONFLICT'')
           | Inl x \<Rightarrow> Inl x))"

definition amo_manager_event :: "amo_manager_envelope \<Rightarrow> conversation \<Rightarrow> manager_event" where
  "amo_manager_event ae c =
     \<lparr> me_channel = ''synthetic'', me_external_conversation_id = c_external_conversation_id c,
       me_external_message_id = ae_external_message_id ae, me_provider_sequence = Some (ae_provider_sequence ae),
       me_provider_occurred_at = None, me_text = ae_text ae \<rparr>"

definition process_bound_manager ::
  "ingress_config \<Rightarrow> env \<Rightarrow> ingress_claim \<Rightarrow> amo_manager_envelope \<Rightarrow> chat_binding \<Rightarrow> ingress_result session" where
  "process_bound_manager g e claim ae b =
     db_bind (capture_client ae b) (\<lambda>_.
     db_bind (db_read (\<lambda>s. sql_one (\<lambda>c. c_id c = b_conversation_id b) (db_conversations s))) (\<lambda>found.
     (case found of
        None \<Rightarrow> db_raise (ValueError ''BINDING_CONVERSATION_MISSING'')
      | Some c \<Rightarrow>
          if \<not> manager_event_valid (amo_manager_event ae c) then db_raise (ValidationError [])
          else
            db_bind (apply_manager_message_in_session e (gc_handoff_pause_seconds g) (Some (c_id c))
                       (amo_manager_event ae c)) (\<lambda>r.
            complete_with claim (mr_duplicate r) None None None))))"

definition process_amocrm_manager :: "ingress_config \<Rightarrow> env \<Rightarrow> ingress_claim \<Rightarrow> ingress_result session" where
  "process_amocrm_manager g e claim =
     raise_or (amo_envelope claim) (\<lambda>ae.
     db_bind (db_read (\<lambda>s. get_projected_by_amocrm_message_id (ae_amocrm_message_id ae) (db_projections s))) (\<lambda>projected.
     if projected \<noteq> None
     then db_bind (capture_quietly ae) (\<lambda>_. complete_with claim True None None None)
     else
       db_bind (db_read (\<lambda>s. get_active_by_amocrm_chat_id (ae_amocrm_chat_id ae) (db_bindings s))) (\<lambda>looked.
       (case looked of
          Inl _ \<Rightarrow> db_raise (ValueError ''BINDING_AMBIGUOUS'')
        | Inr None \<Rightarrow> db_raise (ValueError ''BINDING_UNKNOWN'')
        | Inr (Some b) \<Rightarrow> process_bound_manager g e claim ae b))))"

fun is_stale_ingress_lease :: "exn \<Rightarrow> bool" where
  "is_stale_ingress_lease (StaleIngressLeaseError _) = True"
| "is_stale_ingress_lease _ = False"

text \<open>\<open>fail_claimed\<close> in a session of its own; when it raises, its exception takes the place of the first.\<close>

definition ingress_fail_claimed ::
  "ingress_config \<Rightarrow> env \<Rightarrow> ingress_claim \<Rightarrow> string \<Rightarrow> exn \<Rightarrow> db \<Rightarrow> (exn + 'a) \<times> db" where
  "ingress_fail_claimed g e claim code x d =
     (case session_scope (on_ingress (ingress_fail_with_lease (ic_event_id claim) (ic_lease_token claim)
             (ic_lease_version claim) code (gc_retry_delay_seconds g) (en_now e))) d of
        (Inl y, d1) \<Rightarrow> (Inl y, d1)
      | (Inr _, d1) \<Rightarrow> (Inl x, d1))"

definition str_isupper :: "string \<Rightarrow> bool" where
  "str_isupper s =
     (list_ex (\<lambda>c. 65 \<le> ord_char c \<and> ord_char c \<le> 90) s \<and>
      \<not> list_ex (\<lambda>c. 97 \<le> ord_char c \<and> ord_char c \<le> 122) s)"

text \<open>The error code of the amoCRM branch: the message of a \<open>ValueError\<close> that is itself a code.\<close>

definition amo_error_code :: "exn \<Rightarrow> string" where
  "amo_error_code x =
     (case x of
        ValueError m \<Rightarrow> if str_isupper m \<and> CHR '' '' \<notin> set m then m else exn_name x
      | _ \<Rightarrow> exn_name x)"

definition vk_reply_error_code :: "exn \<Rightarrow> string" where
  "vk_reply_error_code x =
     (case x of VkClientMessageReplyOwnEchoRace _ \<Rightarrow> ''VK_CLIENT_OWN_ECHO_RACE'' | _ \<Rightarrow> exn_name x)"

text \<open>A processing session, and what is recorded when it raises: nothing for a stale lease.\<close>

definition process_or_fail ::
  "ingress_config \<Rightarrow> env \<times> env \<Rightarrow> (db \<Rightarrow> db) \<times> (db \<Rightarrow> db) \<Rightarrow> ingress_claim \<Rightarrow> (exn \<Rightarrow> string)
     \<Rightarrow> ingress_result session \<Rightarrow> db \<Rightarrow> (exn + ingress_result) \<times> db" where
  "process_or_fail g es others claim code body d =
     (case session_scope body (fst others d) of
        (Inr r, d1) \<Rightarrow> (Inr r, d1)
      | (Inl x, d1) \<Rightarrow>
          if is_stale_ingress_lease x then (Inl x, d1)
          else ingress_fail_claimed g (snd es) claim (code x) x (snd others d1))"

definition refuse_claim ::
  "ingress_config \<Rightarrow> env \<times> env \<Rightarrow> (db \<Rightarrow> db) \<times> (db \<Rightarrow> db) \<Rightarrow> ingress_claim \<Rightarrow> string \<Rightarrow> db
     \<Rightarrow> (exn + ingress_result) \<times> db" where
  "refuse_claim g es others claim code d =
     ingress_fail_claimed g (snd es) claim code (ValueError code) (snd others d)"

definition ingress_process_claimed ::
  "ingress_config \<Rightarrow> env \<times> env \<Rightarrow> (db \<Rightarrow> db) \<times> (db \<Rightarrow> db) \<Rightarrow> ingress_claim \<Rightarrow> db
     \<Rightarrow> (exn + ingress_result) \<times> db" where
  "ingress_process_claimed g es others claim d =
     (case (ic_channel claim, ic_event_type claim) of
        (Ing_amocrm, AMOCRM_MANAGER_MESSAGE) \<Rightarrow>
          process_or_fail g es others claim amo_error_code (process_amocrm_manager g (fst es) claim) d
      | (Ing_vk, VK_CLIENT_MESSAGE) \<Rightarrow>
          (case vk_envelope_to_inbound (gc_fromisoformat g) claim of
             Inl x \<Rightarrow> (Inl x, d)
           | Inr ev \<Rightarrow> process_or_fail g es others claim exn_name (process_vk_client g (fst es) claim ev) d)
      | (Ing_vk, VK_CLIENT_MESSAGE_REPLY) \<Rightarrow>
          (case gc_takeover_config g of
             None \<Rightarrow> refuse_claim g es others claim ''VK_CLIENT_EXTERNAL_TAKEOVER_CONFIG_INVALID'' d
           | Some cfg \<Rightarrow>
               process_or_fail g es others claim vk_reply_error_code (process_vk_reply g (fst es) cfg claim) d)
      | (Ing_synthetic, SYNTHETIC_MESSAGE) \<Rightarrow>
          (case envelope_to_inbound (gc_booking_schema g) claim of
             Inl x \<Rightarrow> (Inl x, d)
           | Inr ev \<Rightarrow> process_or_fail g es others claim exn_name (process_synthetic g (fst es) claim ev) d)
      | _ \<Rightarrow> refuse_claim g es others claim ''INGRESS_CHANNEL_EVENT_MISMATCH'' d)"

definition ingress_claim_one ::
  "string \<Rightarrow> int \<Rightarrow> moment \<Rightarrow> uuid \<Rightarrow> (uuid \<Rightarrow> bool) \<Rightarrow> (ingress_claim option) session" where
  "ingress_claim_one worker lease_seconds now token locked =
     on_ingress (ingress_claim_next worker lease_seconds now token locked)"

section \<open>The dialog services leave the ingress queue and the bindings alone\<close>

definition ingress_fixed :: "db \<Rightarrow> db \<Rightarrow> bool" where
  "ingress_fixed s s' = (db_ingress s' = db_ingress s \<and> db_bindings s' = db_bindings s)"

interpretation fixed_ingress: session_rel ingress_fixed
  by unfold_locales (auto simp: ingress_fixed_def)

lemma keeps_ingress_tables [keeps_intros]:
  "keeps ingress_fixed (on_conversations ccall)" "keeps ingress_fixed (on_dialog dcall)"
  "keeps ingress_fixed (on_inbox icall)" "keeps ingress_fixed (on_manager_messages mmcall)"
  "keeps ingress_fixed (on_reply_plans pcall)" "keeps ingress_fixed (with_reply_plans pcall')"
  "keeps ingress_fixed (on_outbox ocall)" "keeps ingress_fixed (with_outbox ocall')"
  "keeps ingress_fixed (on_mirror mcall)" "keeps ingress_fixed (on_projections jcall)"
  "keeps ingress_fixed (with_offers fcall)"
  by (auto simp: ingress_fixed_def intro!: keeps_on_table keeps_with_table split: prod.splits)

lemma keeps_ingress_lock [keeps_intros]: "keeps ingress_fixed (lock_dialog cid)"
  unfolding lock_dialog_def by (rule keeps_ingress_tables)

lemma keeps_ingress_open:
  "keeps ingress_fixed (open_dialog e ch ext)" "keeps ingress_fixed (store_inbox e ch ext pl ra c)"
  by (auto simp: open_dialog_def store_inbox_def intro!: keeps_intros)

lemma keeps_ingress_accept: "keeps ingress_fixed (accept e pii pause ev)"
proof -
  have settle: "keeps ingress_fixed (settle_offer e pii ev c)" for c
  proof -
    have "ingress_fixed s s'" if settled: "settle_offer e pii ev c s = Inr (u, s')" for s u s'
      using settled by (cases rule: settle_offer_Inr) (simp add: ingress_fixed_def)
    then show ?thesis by (auto simp: keeps_def)
  qed
  have plan: "keeps ingress_fixed (plan_reply e pause ev m c)" for m c
    by (auto simp: plan_reply_def intro!: keeps_intros)
  show ?thesis
    unfolding accept_def advance_dialog_def announce_client_message_def
    by (auto intro!: keeps_intros settle plan keeps_ingress_open)
qed

lemma keeps_ingress_vk:
  "keeps ingress_fixed (vk_accept e ev)"
  "keeps ingress_fixed (maybe_create_vk_client_proof_reply_plan e st cfg c txt created)"
  by (auto simp: vk_accept_def maybe_create_vk_client_proof_reply_plan_def intro!: keeps_intros keeps_ingress_open)

lemma keeps_ingress_silence: "keeps ingress_fixed (silence_bot e cid reason entered)"
  by (auto simp: silence_bot_def intro!: keeps_intros)

lemma keeps_ingress_manager: "keeps ingress_fixed (apply_manager_message_in_session e pause bound ev)"
proof -
  have new: "keeps ingress_fixed (apply_new_manager_message e pause c m n)" for c m n
    by (auto simp: apply_new_manager_message_def intro!: keeps_intros keeps_ingress_silence)
  have settle: "keeps ingress_fixed (settle_manager_message e pause ev c m created)" for c m created
    by (auto simp: settle_manager_message_def intro!: keeps_intros new split: ManagerEventClassification.split)
  have dialog: "keeps ingress_fixed (manager_dialog e bound ext)" for ext
    by (auto simp: manager_dialog_def intro!: keeps_intros keeps_ingress_open)
  show ?thesis
    by (auto simp: apply_manager_message_in_session_def intro!: keeps_intros settle dialog)
qed

lemma keeps_ingress_vk_reply: "keeps ingress_fixed (apply_vk_client_message_reply_in_session e hmac xcfg pause env)"
  by (auto simp: apply_vk_client_message_reply_in_session_def intro!: keeps_intros keeps_ingress_silence)

section \<open>What a processed event did\<close>

text \<open>
  The dialog tables moved by at most one step of the system, the queue of this event by its completion.
\<close>

definition applied_and_completed :: "ingress_claim \<Rightarrow> db \<Rightarrow> db \<Rightarrow> bool" where
  "applied_and_completed claim s s' =
     (\<exists>bs s1 ev. sys_step\<^sup>=\<^sup>= (s \<lparr> db_bindings := bs \<rparr>) s1 \<and>
        ingress_complete_with_lease (ic_event_id claim) (ic_lease_token claim) (ic_lease_version claim) (db_ingress s) =
          Inr (ev, db_ingress s') \<and>
        s' = s1 \<lparr> db_ingress := db_ingress s' \<rparr>)"

lemma complete_with_Inr:
  assumes "complete_with claim dup inb out cid s1 = Inr (r, s')"
  obtains ev where "ingress_complete_with_lease (ic_event_id claim) (ic_lease_token claim) (ic_lease_version claim)
      (db_ingress s1) = Inr (ev, db_ingress s')"
    and "s' = s1 \<lparr> db_ingress := db_ingress s' \<rparr>" and "gr_event_id r = ie_id ev" and "gr_status r = ie_status ev"
  using assms by (auto simp: complete_with_def complete_event_def session_simps)

lemma applied_completedI:
  assumes "sys_step\<^sup>=\<^sup>= (s \<lparr> db_bindings := bs \<rparr>) s1" and "db_ingress s1 = db_ingress s"
    and "complete_with claim dup inb out cid s1 = Inr (r, s')"
  shows "applied_and_completed claim s s'"
  using assms(3)
  by (rule complete_with_Inr) (use assms(1,2) in \<open>auto simp: applied_and_completed_def\<close>)

lemma process_synthetic_applied:
  assumes "process_synthetic g e claim ev s = Inr (r, s')"
  shows "applied_and_completed claim s s'"
proof -
  obtain a s1 where "accept e (gc_pii g) (gc_handoff_pause_seconds g) ev s = Inr (a, s1)"
    and c: "complete_with claim (ir_duplicate a) (Some (i_id (ir_inbox a))) (Some (o_id (ir_outbox a)))
      (Some (c_id (ir_conversation a))) s1 = Inr (r, s')"
    using assms by (auto simp: process_synthetic_def session_simps)
  then have "sys_step (s \<lparr> db_bindings := db_bindings s \<rparr>) s1" and "db_ingress s1 = db_ingress s"
    using sys_step.client keepsD [OF keeps_ingress_accept] by (auto simp: ingress_fixed_def)
  then show ?thesis using c by (intro applied_completedI [where bs = "db_bindings s"]) auto
qed

lemma process_vk_client_applied:
  assumes "process_vk_client g e claim ev s = Inr (r, s')"
  shows "applied_and_completed claim s s'"
proof -
  obtain a s1 p s2 where a: "vk_accept e ev s = Inr (a, s1)"
    and p: "maybe_create_vk_client_proof_reply_plan e (gc_settings g) (gc_vk_outbound_config g) (vr_conversation a)
      (ev_text ev) (vr_created_inbox a) s1 = Inr (p, s2)"
    and c: "complete_with claim (vr_duplicate a) (Some (i_id (vr_inbox a))) None (Some (c_id (vr_conversation a))) s2 =
      Inr (r, s')"
    using assms by (auto simp: process_vk_client_def session_simps)
  have "sys_step (s \<lparr> db_bindings := db_bindings s \<rparr>) s2"
    using sys_step.vk_client [OF a p] by simp
  moreover have "db_ingress s2 = db_ingress s"
    using keepsD [OF keeps_ingress_vk(1) a] keepsD [OF keeps_ingress_vk(2) p] by (simp add: ingress_fixed_def)
  ultimately show ?thesis using c by (intro applied_completedI [where bs = "db_bindings s"]) auto
qed

lemma process_vk_reply_applied:
  assumes "process_vk_reply g e cfg claim s = Inr (r, s')"
  shows "applied_and_completed claim s s'"
proof -
  obtain a s1 where a: "apply_vk_client_message_reply_in_session e (gc_hmac g) cfg (gc_handoff_pause_seconds g)
      (vk_reply_of_envelope (ic_envelope_json claim)) s = Inr (a, s1)"
    and c: "complete_with claim False None None (vx_conversation_id a) s1 = Inr (r, s')"
    using assms by (auto simp: process_vk_reply_def session_simps)
  have "sys_step (s \<lparr> db_bindings := db_bindings s \<rparr>) s1"
    using sys_step.vk_reply [OF a] by simp
  moreover have "db_ingress s1 = db_ingress s"
    using keepsD [OF keeps_ingress_vk_reply a] by (simp add: ingress_fixed_def)
  ultimately show ?thesis using c by (intro applied_completedI [where bs = "db_bindings s"]) auto
qed

lemma capture_quietly_Inr:
  "capture_quietly ae s = Inr (u, s') \<Longrightarrow> s' = s \<lparr> db_bindings := db_bindings s' \<rparr>"
  by (auto simp: capture_quietly_def on_table_def split: option.splits sum.splits exn.splits)

lemma capture_client_Inr:
  "capture_client ae b s = Inr (u, s') \<Longrightarrow> s' = s \<lparr> db_bindings := db_bindings s' \<rparr>"
  by (auto simp: capture_client_def on_table_def split: option.splits sum.splits exn.splits)

lemma process_amocrm_applied:
  assumes "process_amocrm_manager g e claim s = Inr (r, s')"
  shows "applied_and_completed claim s s'"
proof -
  obtain ae where ae: "amo_envelope claim = Inr ae"
    using assms by (auto simp: process_amocrm_manager_def raise_or_Inr)
  show ?thesis
  proof (cases "get_projected_by_amocrm_message_id (ae_amocrm_message_id ae) (db_projections s)")
    case (Some x)
    then obtain u s1 where q: "capture_quietly ae s = Inr (u, s1)" and c: "complete_with claim True None None None s1 = Inr (r, s')"
      using assms ae by (auto simp: process_amocrm_manager_def raise_or_Inr session_simps)
    from capture_quietly_Inr [OF q] have "s1 = s \<lparr> db_bindings := db_bindings s1 \<rparr>" .
    moreover have "db_ingress s1 = db_ingress s" by (subst calculation) simp
    ultimately show ?thesis using c by (intro applied_completedI [where bs = "db_bindings s1"]) auto
  next
    case None
    then obtain b where b: "process_bound_manager g e claim ae b s = Inr (r, s')"
      using assms ae by (auto simp: process_amocrm_manager_def raise_or_Inr session_simps split: sum.splits option.splits)
    obtain u s1 where cap: "capture_client ae b s = Inr (u, s1)"
      and bound: "(case sql_one (\<lambda>c. c_id c = b_conversation_id b) (db_conversations s1) of
         None \<Rightarrow> db_raise (ValueError ''BINDING_CONVERSATION_MISSING'')
       | Some c \<Rightarrow>
           if \<not> manager_event_valid (amo_manager_event ae c) then db_raise (ValidationError [])
           else db_bind (apply_manager_message_in_session e (gc_handoff_pause_seconds g) (Some (c_id c)) (amo_manager_event ae c))
             (\<lambda>r. complete_with claim (mr_duplicate r) None None None)) s1 = Inr (r, s')"
      using b unfolding process_bound_manager_def db_bind_Inr db_read_Inr by blast
    obtain c where rest: "db_bind (apply_manager_message_in_session e (gc_handoff_pause_seconds g) (Some (c_id c)) (amo_manager_event ae c))
        (\<lambda>r. complete_with claim (mr_duplicate r) None None None) s1 = Inr (r, s')"
      using bound by (cases "sql_one (\<lambda>c. c_id c = b_conversation_id b) (db_conversations s1)")
        (auto simp: db_raise_Inr simp del: db_bind_Inr split: if_splits)
    obtain m s2 where m: "apply_manager_message_in_session e (gc_handoff_pause_seconds g) (Some (c_id c)) (amo_manager_event ae c) s1 = Inr (m, s2)"
      and cm: "complete_with claim (mr_duplicate m) None None None s2 = Inr (r, s')"
      using rest by (auto simp: session_simps)
    note s1 = capture_client_Inr [OF cap]
    have "sys_step (s \<lparr> db_bindings := db_bindings s1 \<rparr>) s2"
      using sys_step.manager [OF m] s1 by simp
    moreover have "db_ingress s1 = db_ingress s"
      by (subst s1) simp
    then have "db_ingress s2 = db_ingress s"
      using keepsD [OF keeps_ingress_manager m] by (simp add: ingress_fixed_def)
    ultimately show ?thesis using cm by (intro applied_completedI [where bs = "db_bindings s1"]) auto
  qed
qed

lemma fail_claimed_effect:
  assumes "ingress_fail_claimed g e claim code x d = (r, d')"
  shows "isl r \<and> d' = d \<lparr> db_ingress := db_ingress d' \<rparr>"
  using assms by (auto simp: ingress_fail_claimed_def session_scope_def on_table_def split: sum.splits prod.splits)

lemma process_or_fail_Inr:
  "process_or_fail g es others claim code body d = (Inr r, d') \<Longrightarrow> body (fst others d) = Inr (r, d')"
  by (auto simp: process_or_fail_def session_scope_def split: sum.splits prod.splits if_splits dest!: fail_claimed_effect)

lemma process_or_fail_Inl:
  assumes "process_or_fail g es others claim code body d = (Inl x, d')"
  shows "d' = fst others d \<or> d' = snd others (fst others d) \<lparr> db_ingress := db_ingress d' \<rparr>"
  using assms
  by (auto simp: process_or_fail_def session_scope_def split: sum.splits prod.splits if_splits dest!: fail_claimed_effect)

lemma ingress_process_Inr:
  assumes "ingress_process_claimed g es others claim d = (Inr r, d')"
  shows "applied_and_completed claim (fst others d) d'"
proof (cases "ic_channel claim")
  case Ing_synthetic
  with assms show ?thesis
    by (cases "ic_event_type claim")
      (auto simp: ingress_process_claimed_def refuse_claim_def split: sum.splits
        dest!: fail_claimed_effect process_or_fail_Inr process_synthetic_applied)
next
  case Ing_amocrm
  with assms show ?thesis
    by (cases "ic_event_type claim")
      (auto simp: ingress_process_claimed_def refuse_claim_def
        dest!: fail_claimed_effect process_or_fail_Inr process_amocrm_applied)
next
  case Ing_vk
  with assms show ?thesis
    by (cases "ic_event_type claim")
      (auto simp: ingress_process_claimed_def refuse_claim_def split: sum.splits option.splits
        dest!: fail_claimed_effect process_or_fail_Inr process_vk_client_applied process_vk_reply_applied)
qed

text \<open>The databases a failed processing can start its last session from.\<close>

definition seen_dbs :: "(db \<Rightarrow> db) \<times> (db \<Rightarrow> db) \<Rightarrow> db \<Rightarrow> db set" where
  "seen_dbs others d = {d, fst others d, snd others d, snd others (fst others d)}"

lemma ingress_process_Inl:
  assumes "ingress_process_claimed g es others claim d = (Inl x, d')"
  shows "\<exists>base \<in> seen_dbs others d. d' = base \<lparr> db_ingress := db_ingress d' \<rparr>"
proof -
  have pf: "\<exists>base \<in> seen_dbs others d. d' = base \<lparr> db_ingress := db_ingress d' \<rparr>"
    if "process_or_fail g es others claim code body d = (Inl x, d')" for code body
    using process_or_fail_Inl [OF that] by (auto simp: seen_dbs_def)
  have rf: "\<exists>base \<in> seen_dbs others d. d' = base \<lparr> db_ingress := db_ingress d' \<rparr>"
    if "refuse_claim g es others claim code d = (Inl x, d')" for code
    using fail_claimed_effect [OF that [unfolded refuse_claim_def]] by (auto simp: seen_dbs_def)
  have same: "\<exists>base \<in> seen_dbs others d. d = base \<lparr> db_ingress := db_ingress d \<rparr>"
    by (auto simp: seen_dbs_def)
  show ?thesis
    using assms pf rf same
    by (cases "ic_channel claim"; cases "ic_event_type claim")
      (auto simp: ingress_process_claimed_def split: sum.splits option.splits)
qed

section \<open>Properties\<close>


lemma complete_finishes:
  assumes "ingress_complete_with_lease i token v t = Inr (ev, t')" and "distinct (map ie_id t)"
  shows "\<exists>r. sql_one (\<lambda>x. ie_id x = i) t' = Some r \<and> ingress_finished r"
proof -
  from assms(1) show ?thesis
  proof (cases rule: ingress_completeE)
    case (1 r)
    have i: "ie_id r = i" using 1(2) by (simp add: ingress_held_def)
    have "t' = sql_put ie_id (ingress_close_row Ing_PROCESSED None None r) t"
      unfolding 1(3) using assms(2) 1(1,2)
      by (intro sql_update_current) (auto simp: ingress_held_def ingress_close_row_def)
    then have "sql_one (\<lambda>x. ie_id x = i) t' = Some (ingress_close_row Ing_PROCESSED None None r)"
      using sql_one_put [OF 1(1), of ie_id "ingress_close_row Ing_PROCESSED None None r"] i
      by (simp add: ingress_close_row_def)
    then show ?thesis by (simp add: ingress_finished_def ingress_close_row_def)
  qed
qed

lemma finished_not_completed:
  assumes "sql_one (\<lambda>x. ie_id x = i) t = Some r" and "ingress_finished r" and "distinct (map ie_id t)"
  shows "ingress_complete_with_lease i token v t \<noteq> Inr res"
proof
  assume "ingress_complete_with_lease i token v t = Inr res"
  then obtain q where "q \<in> set t" and held: "ingress_held i token v q"
    by (cases res) (auto elim: ingress_completeE)
  then have "q = r"
    using sql_one_the_row [OF assms(3), of q] assms(1) by (simp add: ingress_held_def)
  with held assms(2) show False by (simp add: ingress_held_def ingress_finished_def)
qed

text \<open>
  C7. An event takes effect at most once. After one processing of an event returned, every later
  processing of the same event raises, whatever lease it holds and whatever happened in between, and so
  leaves no trace in the dialog tables.
\<close>

theorem ingress_event_applied_once:
  assumes "ingress_process_claimed g es others claim d = (Inr res, d1)"
    and "ingress_run\<^sup>*\<^sup>* [] (db_ingress (fst others d))"
    and "ingress_run\<^sup>*\<^sup>* (db_ingress d1) (db_ingress (fst others' d2))" and "ic_event_id claim' = ic_event_id claim"
  shows "\<exists>x d3. ingress_process_claimed g' es' others' claim' d2 = (Inl x, d3) \<and>
    (\<exists>base \<in> seen_dbs others' d2. d3 = base \<lparr> db_ingress := db_ingress d3 \<rparr>)"
proof -
  obtain ev where done1: "ingress_complete_with_lease (ic_event_id claim) (ic_lease_token claim) (ic_lease_version claim)
      (db_ingress (fst others d)) = Inr (ev, db_ingress d1)"
    using ingress_process_Inr [OF assms(1)] by (auto simp: applied_and_completed_def)
  have dist: "distinct (map ie_id (db_ingress (fst others d)))"
    using assms(2) by (rule ingress_reachable_distinct)
  have dist1: "distinct (map ie_id (db_ingress d1))"
    using ingress.run_distinct [OF ingress_run.complete [OF done1] dist] .
  obtain r where r: "sql_one (\<lambda>x. ie_id x = ic_event_id claim) (db_ingress d1) = Some r" "ingress_finished r"
    using complete_finishes [OF done1 dist] by blast
  have "sql_one (\<lambda>x. ie_id x = ic_event_id claim) (db_ingress (fst others' d2)) = Some r"
    using ingress.finished_row_final [OF assms(3) dist1 r] .
  moreover have "distinct (map ie_id (db_ingress (fst others' d2)))"
    using ingress.runs_distinct [OF assms(3) dist1] .
  ultimately have no: "ingress_complete_with_lease (ic_event_id claim') token v (db_ingress (fst others' d2)) \<noteq> Inr z" for token v z
    using finished_not_completed r(2) assms(4) by simp
  obtain out d3 where run: "ingress_process_claimed g' es' others' claim' d2 = (out, d3)" by fastforce
  have "out \<noteq> Inr y" for y
  proof
    assume "out = Inr y"
    then have "applied_and_completed claim' (fst others' d2) d3"
      using ingress_process_Inr run by blast
    with no show False unfolding applied_and_completed_def by blast
  qed
  then obtain x where "out = Inl x" by (cases out) auto
  with run have "ingress_process_claimed g' es' others' claim' d2 = (Inl x, d3)" by simp
  with ingress_process_Inl [OF this] show ?thesis by blast
qed

text \<open>What the schemas of the adapter accept.\<close>

definition confirm_action_valid :: "confirm_action \<Rightarrow> bool" where
  "confirm_action_valid a =
     (ca_slot_id a \<noteq> [] \<and> utf8_length (ca_slot_id a) \<le> 128 \<and> \<not> isl (parse_bot_slot_id (ca_slot_id a)) \<and>
      \<not> isl (require_pii_admission_request_id (ca_pii_admission_request_id a)) \<and>
      ca_personal_data_consent a \<and> ca_offer_acknowledgement a)"

definition ingress_input_valid :: "ingress_input \<Rightarrow> bool" where
  "ingress_input_valid ev =
     (ii_channel ev = ''synthetic'' \<and> safe_external_id id_marks 128 (ii_external_event_id ev) \<and>
      safe_external_id id_marks 128 (ii_external_conversation_id ev) \<and> schema_text 2000 (ii_text ev) \<and>
      (ii_booking ev = None \<or> ii_action ev = None) \<and>
      (case ii_action ev of None \<Rightarrow> True | Some a \<Rightarrow> confirm_action_valid a))"

lemma confirm_action_round_trip:
  assumes "confirm_action_valid a"
  shows "confirm_action_validate (JObj (confirm_action_wire_dict a)) = Some a"
proof -
  have "require_pii_admission_request_id (ca_pii_admission_request_id a) = Inr (ca_pii_admission_request_id a)"
    and "ca_pii_admission_request_id a \<noteq> []"
    using assms by (auto simp: confirm_action_valid_def require_pii_admission_request_id_def split: if_splits)
  with assms show ?thesis
    by (simp add: confirm_action_validate_def confirm_action_wire_dict_def confirm_action_valid_def dict_get_def)
qed

text \<open>
  The worker reads back what the adapter stored. For an event that passed the schema of the adapter,
  decoding the stored envelope never raises and gives the event itself: its ids, its text, its booking
  and its confirmation of a slot.
\<close>

theorem ingress_envelope_round_trip:
  assumes "ingress_input_valid ev" and "ic_envelope_json claim = safe_envelope ev"
    and "ic_external_event_id claim = ii_external_event_id ev"
    and "ic_external_conversation_id claim = ii_external_conversation_id ev"
    and "\<And>b. ii_booking ev = Some b \<Longrightarrow> booking_schema (JObj b) = Some (JObj b)"
  shows "envelope_to_inbound booking_schema claim =
    Inr \<lparr> ev_channel = ''synthetic'', ev_external_conversation_id = ii_external_conversation_id ev,
          ev_external_message_id = ii_external_event_id ev, ev_text = ii_text ev, ev_received_at = None,
          ev_booking = map_option JObj (ii_booking ev), ev_action = ii_action ev \<rparr>"
proof -
  have body: "dict_get (safe_envelope ev) ''text'' = JStr (ii_text ev)" "ii_text ev \<noteq> []"
    using assms(1) by (auto simp: safe_envelope_def dict_get_def ingress_input_valid_def schema_text_def)
  have bk: "dict_get (safe_envelope ev) ''booking'' = (case ii_booking ev of None \<Rightarrow> JNull | Some b \<Rightarrow> JObj b)"
    by (auto simp: safe_envelope_def dict_get_def split: option.splits)
  have ac: "dict_get (safe_envelope ev) ''action'' = (case ii_action ev of None \<Rightarrow> JNull | Some a \<Rightarrow> JObj (confirm_action_wire_dict a))"
    by (auto simp: safe_envelope_def dict_get_def split: option.splits)
  have "confirm_action_validate (JObj (confirm_action_wire_dict a)) = Some a" if "ii_action ev = Some a" for a
    using assms(1) that by (intro confirm_action_round_trip) (simp add: ingress_input_valid_def)
  with assms body bk ac show ?thesis
    by (cases "ii_booking ev"; cases "ii_action ev")
      (simp_all add: envelope_to_inbound_def Let_def synthetic_inbound_valid_def ingress_input_valid_def)
qed

text \<open>An envelope that does not decode raises before any session is opened: the event keeps its lease and its
  error code.\<close>

lemma undecodable_event_not_failed:
  assumes "ic_channel claim = Ing_synthetic" and "ic_event_type claim = SYNTHETIC_MESSAGE"
    and "envelope_to_inbound (gc_booking_schema g) claim = Inl x"
  shows "ingress_process_claimed g es others claim d = (Inl x, d)"
  using assms by (simp add: ingress_process_claimed_def)

section \<open>A run\<close>

definition ingress_demo_input :: ingress_input where
  "ingress_demo_input = \<lparr> ii_channel = ''synthetic'', ii_external_event_id = ''e-1'', ii_external_conversation_id = ''x_1'',
     ii_text = ''hello'', ii_correlation_id = None, ii_booking = None, ii_action = None \<rparr>"

definition ingress_demo_config :: ingress_config where
  "ingress_demo_config =
     \<lparr> gc_handoff_pause_seconds = 600, gc_retry_delay_seconds = 1,
       gc_settings = \<lparr> st_bot_mode = Mode_AUTO_WRITE, st_emergency_lock = False \<rparr>, gc_vk_outbound_config = None,
       gc_takeover_config = None, gc_pii = None, gc_booking_schema = Some, gc_fromisoformat = (\<lambda>_. None),
       gc_hmac = (\<lambda>_ _. []) \<rparr>"

definition ingress_demo_stored :: "ingress_event list" where
  "ingress_demo_stored = snd (projr (ingress_insert_if_absent ''g1'' 5 Ing_synthetic ''e-1'' ''x_1'' SYNTHETIC_MESSAGE
     (safe_envelope ingress_demo_input) ''k1'' 5 []))"

definition ingress_demo_leased :: "ingress_event list" where
  "ingress_demo_leased = snd (projr (ingress_claim_next ''w1'' 30 10 ''t1'' (\<lambda>_. False) ingress_demo_stored))"

definition ingress_worker_claim :: ingress_claim where
  "ingress_worker_claim = the (fst (projr (ingress_claim_next ''w1'' 30 10 ''t1'' (\<lambda>_. False) ingress_demo_stored)))"

definition ingress_demo_db :: db where
  "ingress_demo_db = empty_db \<lparr> db_ingress := ingress_demo_leased \<rparr>"

definition ingress_demo_run :: "db \<Rightarrow> (exn + ingress_result) \<times> db" where
  "ingress_demo_run d = ingress_process_claimed ingress_demo_config (worker_env ''1'' 11, worker_env ''2'' 12) (id, id)
     ingress_worker_claim d"

lemma isr_pair: "\<not> isl x \<Longrightarrow> \<exists>r. x = Inr (r, snd (projr x))"
  by (cases x) auto

lemma ingress_leased_reach: "ingress_run\<^sup>*\<^sup>* [] (db_ingress ingress_demo_db)"
proof -
  have "\<not> isl (ingress_insert_if_absent ''g1'' 5 Ing_synthetic ''e-1'' ''x_1'' SYNTHETIC_MESSAGE
      (safe_envelope ingress_demo_input) ''k1'' 5 [])" by code_simp
  from isr_pair [OF this] have "ingress_run [] ingress_demo_stored"
    unfolding ingress_demo_stored_def by (blast intro: ingress_run.insert)
  moreover have "\<not> isl (ingress_claim_next ''w1'' 30 10 ''t1'' (\<lambda>_. False) ingress_demo_stored)" by code_simp
  from isr_pair [OF this] have "ingress_run ingress_demo_stored ingress_demo_leased"
    unfolding ingress_demo_leased_def by (blast intro: ingress_run.claim)
  ultimately show ?thesis by (simp add: ingress_demo_db_def)
qed

lemma ingress_demo_returns: "\<exists>res d'. ingress_demo_run ingress_demo_db = (Inr res, d') \<and> length (db_conversations d') = 1"
proof -
  have "(case ingress_demo_run ingress_demo_db of (r, d') \<Rightarrow> (\<not> isl r, length (db_conversations d'))) = (True, 1)"
    by code_simp
  then show ?thesis by (cases "ingress_demo_run ingress_demo_db"; cases "fst (ingress_demo_run ingress_demo_db)") auto
qed


theorem ingress_event_applied_once_witness:
  "\<exists>res d1 x d3. ingress_demo_run ingress_demo_db = (Inr res, d1) \<and> ingress_demo_run d1 = (Inl x, d3)"
proof -
  obtain res d1 where run: "ingress_demo_run ingress_demo_db = (Inr res, d1)"
    using ingress_demo_returns by blast
  from ingress_event_applied_once [OF run [unfolded ingress_demo_run_def], where claim' = ingress_worker_claim and
      others' = "(id, id)" and ?d2.0 = d1 and g' = ingress_demo_config and es' = "(worker_env ''1'' 11, worker_env ''2'' 12)"]
    ingress_leased_reach run
  show ?thesis unfolding ingress_demo_run_def by auto
qed

theorem ingress_envelope_round_trip_witness:
  "\<exists>ev. envelope_to_inbound Some ingress_worker_claim = Inr ev \<and> ev_text ev = ''hello'' \<and> ev_external_message_id ev = ''e-1''"
proof -
  have "ingress_input_valid ingress_demo_input"
    "ic_envelope_json ingress_worker_claim = safe_envelope ingress_demo_input"
    "ic_external_event_id ingress_worker_claim = ii_external_event_id ingress_demo_input"
    "ic_external_conversation_id ingress_worker_claim = ii_external_conversation_id ingress_demo_input"
    "ii_text ingress_demo_input = ''hello''" "ii_external_event_id ingress_demo_input = ''e-1''"
    by code_simp+
  then show ?thesis
    using ingress_envelope_round_trip [of ingress_demo_input ingress_worker_claim Some] by simp
qed

end
