(* ===== verification/Calendar.thy ===== *)
theory Calendar
  imports Booking_Slot
begin

text \<open>
  The calendar of Python's \<open>datetime\<close> module, which core/booking_availability_remote.py and
  core/manager_working_hours.py use: the proleptic Gregorian calendar, with the day number of a date
  (\<open>ymd2ord\<close>) and the date of a day number (\<open>ord2ymd\<close>). The two are inverse and monotone.
\<close>

section \<open>The calendar\<close>

definition days_before_year :: "int \<Rightarrow> int" where
  "days_before_year y = (let n = y - 1 in n * 365 + n div 4 - n div 100 + n div 400)"

definition days_before_month :: "int \<Rightarrow> int \<Rightarrow> int" where
  "days_before_month y m = sum_list (map (days_in_month y) [1..m - 1])"

definition ymd2ord :: "int \<Rightarrow> int \<Rightarrow> int \<Rightarrow> int" where
  "ymd2ord y m d = days_before_year y + days_before_month y m + d"

fun month_day :: "int \<Rightarrow> int list \<Rightarrow> int \<Rightarrow> int \<times> int" where
  "month_day y [] d = (12, d + 1)"
| "month_day y (m # ms) d =
     (if d < days_in_month y m then (m, d + 1) else month_day y ms (d - days_in_month y m))"

text \<open>The year of the day number \<open>n\<close> (from 0) and the day in that year.\<close>

definition year_day :: "int \<Rightarrow> int \<times> int" where
  "year_day n =
     (let n400 = n div 146097; r = n mod 146097;
          n100 = min (r div 36524) 3; r2 = r - n100 * 36524;
          n4 = r2 div 1461; r3 = r2 mod 1461;
          n1 = min (r3 div 365) 3
      in (400 * n400 + 100 * n100 + 4 * n4 + n1 + 1, r3 - n1 * 365))"

definition ord2ymd :: "int \<Rightarrow> int \<times> int \<times> int" where
  "ord2ymd k = (case year_day (k - 1) of (y, doy) \<Rightarrow> (y, month_day y [1..12] doy))"

section \<open>The calendar is a bijection\<close>

lemma year_day_spec:
  assumes "year_day n = (y, doy)"
  shows "days_before_year y + doy = n" and "0 \<le> doy" and "doy < 337 + days_in_month y 2"
proof -
  define a r where "a = n div 146097" and "r = n mod 146097"
  define b r2 where "b = min (r div 36524) 3" and "r2 = r - b * 36524"
  define c r3 where "c = r2 div 1461" and "r3 = r2 mod 1461"
  define d where "d = min (r3 div 365) 3"
  note defs = a_def r_def b_def r2_def c_def r3_def d_def
  have y: "y = 400 * a + 100 * b + 4 * c + d + 1" and doy: "doy = r3 - d * 365"
    using assms by (simp_all add: year_day_def Let_def defs)
  have n: "n = 146097 * a + r" "0 \<le> r" "r < 146097" by (simp_all add: a_def r_def)
  have b: "0 \<le> b" "b \<le> 3" "0 \<le> r2" "r2 \<le> 36524" "b < 3 \<longrightarrow> r2 < 36524"
    using n unfolding b_def r2_def by (auto simp: min_def)
  have c: "r2 = 1461 * c + r3" "0 \<le> r3" "r3 < 1461" "0 \<le> c" "c \<le> 24"
    using b by (simp_all add: c_def r3_def)
  have d: "0 \<le> d" "d \<le> 3" "0 \<le> doy" "doy \<le> 365" "d < 3 \<longrightarrow> doy < 365"
    using c unfolding doy d_def by (auto simp: min_def)
  have q: "(y - 1) div 4 = 100 * a + 25 * b + c" "(y - 1) div 100 = 4 * a + b" "(y - 1) div 400 = a"
    using y b c d by (auto intro!: int_div_pos_eq [where r = d] int_div_pos_eq [where r = "4 * c + d"]
        int_div_pos_eq [where r = "100 * b + 4 * c + d"])
  show "days_before_year y + doy = n"
    unfolding days_before_year_def Let_def q using y doy n c r2_def by simp
  show "0 \<le> doy" by (rule d)
  have leap: "y mod 4 = 0" "y mod 100 \<noteq> 0 \<or> y mod 400 = 0" if "doy = 365"
  proof -
    have "d = 3" using that d by simp
    then show "y mod 4 = 0" using y by simp
    have "r3 = 1460" using that doy \<open>d = 3\<close> by simp
    then have "c = 24 \<longrightarrow> b = 3" using b c by auto
    have m100: "y mod 100 = 4 * c + 4" if "c < 24"
      using y \<open>d = 3\<close> c that by (intro int_mod_pos_eq [where q = "4 * a + b"]) auto
    show "y mod 100 \<noteq> 0 \<or> y mod 400 = 0"
    proof (cases "c < 24")
      case True
      with m100 c show ?thesis by simp
    next
      case False
      with c \<open>c = 24 \<longrightarrow> b = 3\<close> have "y = (a + 1) * 400" using y \<open>d = 3\<close> by simp
      then show ?thesis by simp
    qed
  qed
  show "doy < 337 + days_in_month y 2"
  proof (cases "doy = 365")
    case True
    with leap [OF True] show ?thesis by (auto simp: days_in_month_def)
  next
    case False
    with d show ?thesis by (auto simp: days_in_month_def)
  qed
qed

lemma month_day_spec:
  assumes "month_day y [k..12] doy = (m, d)" and "k \<le> 12" and "0 \<le> doy"
    and "doy < sum_list (map (days_in_month y) [k..12])"
  shows "k \<le> m \<and> m \<le> 12 \<and> 1 \<le> d \<and> d \<le> days_in_month y m \<and>
    sum_list (map (days_in_month y) [k..m - 1]) + d = doy + 1"
  using assms
proof (induction "nat (12 - k)" arbitrary: k doy)
  case 0
  then have "[k..12] = [12]" by (simp add: upto_rec1)
  with 0 show ?case by (auto split: if_splits)
next
  case (Suc n)
  then have k: "k < 12" and list: "[k..12] = k # [k + 1..12]" by (simp_all add: upto_rec1)
  show ?case
  proof (cases "doy < days_in_month y k")
    case True
    with Suc.prems list show ?thesis by simp
  next
    case False
    have "k + 1 \<le> m \<and> m \<le> 12 \<and> 1 \<le> d \<and> d \<le> days_in_month y m \<and>
        sum_list (map (days_in_month y) [k + 1..m - 1]) + d = doy - days_in_month y k + 1"
      using False Suc.prems list k by (intro Suc.hyps) (use Suc.hyps(2) in auto)
    moreover from this have "[k..m - 1] = k # [k + 1..m - 1]" by (intro upto_rec1) simp
    ultimately show ?thesis by simp
  qed
qed

lemma months_of_year: "sum_list (map (days_in_month y) [1..12]) = 337 + days_in_month y 2"
  by (simp add: upto_rec1 days_in_month_def)

lemma ord2ymd_spec:
  assumes "ord2ymd k = (y, m, d)"
  shows "ymd2ord y m d = k" and "1 \<le> m" "m \<le> 12" "1 \<le> d" "d \<le> days_in_month y m"
proof -
  obtain doy where yd: "year_day (k - 1) = (y, doy)" and md: "month_day y [1..12] doy = (m, d)"
    using assms by (auto simp: ord2ymd_def split: prod.splits)
  note month = month_day_spec [OF md _ year_day_spec(2) [OF yd], unfolded months_of_year,
      OF _ year_day_spec(3) [OF yd], simplified]
  show "1 \<le> m" "m \<le> 12" "1 \<le> d" "d \<le> days_in_month y m" using month by auto
  show "ymd2ord y m d = k"
    using month year_day_spec(1) [OF yd] by (simp add: ymd2ord_def days_before_month_def)
qed

lemma days_in_month_pos: "28 \<le> days_in_month y m"
  by (simp add: days_in_month_def)

lemma months_nonneg: "0 \<le> sum_list (map (days_in_month y) ms)"
proof (induction ms)
  case (Cons m ms)
  then show ?case using days_in_month_pos [of y m] by simp
qed simp

lemma div_pred:
  fixes y c :: int
  assumes "0 < c"
  shows "y div c = (y - 1) div c + (if y mod c = 0 then 1 else 0)"
proof (cases "y mod c = 0")
  case True
  then have "y - 1 = c * (y div c - 1) + (c - 1)" using mult_div_mod_eq [of c y] by (simp add: right_diff_distrib)
  then have "(y - 1) div c = y div c - 1" by (rule int_div_pos_eq) (use assms in simp_all)
  with True show ?thesis by simp
next
  case False
  have "y - 1 = c * (y div c) + (y mod c - 1)" by simp
  moreover have "0 \<le> y mod c - 1" "y mod c - 1 < c"
    using assms False pos_mod_sign [of c y] pos_mod_bound [of c y] by linarith+
  ultimately have "(y - 1) div c = y div c" by (rule int_div_pos_eq)
  with False show ?thesis by simp
qed

lemma days_before_month_mono:
  assumes "m < m'" and "1 \<le> m"
  shows "days_before_month y m + days_in_month y m \<le> days_before_month y m'"
proof -
  have "[1..m' - 1] = [1..m - 1] @ m # [m + 1..m' - 1]"
    using assms by (metis upto_split3 le_add_diff_inverse less_imp_le zle_diff1_eq)
  moreover have "0 \<le> sum_list (map (days_in_month y) [m + 1..m' - 1])"
    by (rule months_nonneg)
  ultimately show ?thesis by (simp add: days_before_month_def)
qed

lemma days_before_year_step: "days_before_year (y + 1) = days_before_year y + 337 + days_in_month y 2"
proof -
  define A B C where "A \<longleftrightarrow> y mod 4 = 0" and "B \<longleftrightarrow> y mod 100 = 0" and "C \<longleftrightarrow> y mod 400 = 0"
  define p q r where "p = (y - 1) div 4" and "q = (y - 1) div 100" and "r = (y - 1) div 400"
  have "4 dvd (100 :: int)" "100 dvd (400 :: int)" by simp_all
  then have impl: "B \<Longrightarrow> A" "C \<Longrightarrow> B"
    unfolding A_def B_def C_def by (meson dvd_trans mod_0_imp_dvd dvd_imp_mod_0)+
  have "y div 4 = p + (if A then 1 else 0)" "y div 100 = q + (if B then 1 else 0)" "y div 400 = r + (if C then 1 else 0)"
    unfolding p_def q_def r_def A_def B_def C_def by (rule div_pred, simp)+
  then have next_year: "days_before_year (y + 1) =
      y * 365 + (p + (if A then 1 else 0)) - (q + (if B then 1 else 0)) + (r + (if C then 1 else 0))"
    unfolding days_before_year_def Let_def by (simp only: add_diff_cancel_right')
  have this_year: "days_before_year y = (y - 1) * 365 + p - q + r"
    unfolding days_before_year_def Let_def p_def q_def r_def ..
  have "days_in_month y 2 = (if A \<and> (\<not> B \<or> C) then 29 else 28)"
    unfolding days_in_month_def A_def B_def C_def by simp
  with impl show ?thesis unfolding next_year this_year by (cases A; cases B; cases C) simp_all
qed

lemma days_before_year_mono: "y \<le> y' \<Longrightarrow> days_before_year y \<le> days_before_year y'"
proof (induction y' rule: int_ge_induct)
  case (step i)
  then show ?case using days_before_year_step [of i] days_in_month_pos [of i 2] by simp
qed simp

lemma day_in_year:
  assumes "1 \<le> m" "m \<le> 12" "d \<le> days_in_month y m"
  shows "ymd2ord y m d \<le> days_before_year (y + 1)"
proof -
  have "days_before_month y m + d \<le> days_before_month y 13"
    using days_before_month_mono [of m 13 y] assms by simp
  then show ?thesis
    by (simp add: ymd2ord_def days_before_year_step days_before_month_def months_of_year)
qed

text \<open>Dates that exist are numbered in their order.\<close>

definition ymd_less :: "int \<times> int \<times> int \<Rightarrow> int \<times> int \<times> int \<Rightarrow> bool" where
  "ymd_less a b = (fst a < fst b \<or> fst a = fst b \<and>
     (fst (snd a) < fst (snd b) \<or> fst (snd a) = fst (snd b) \<and> snd (snd a) < snd (snd b)))"

definition month_day_ok :: "int \<times> int \<times> int \<Rightarrow> bool" where
  "month_day_ok a = (case a of (y, m, d) \<Rightarrow> 1 \<le> m \<and> m \<le> 12 \<and> 1 \<le> d \<and> d \<le> days_in_month y m)"

lemma ymd2ord_less:
  assumes "ymd_less (y, m, d) (y', m', d')" and "month_day_ok (y, m, d)" and "month_day_ok (y', m', d')"
  shows "ymd2ord y m d < ymd2ord y' m' d'"
proof -
  have nonneg: "0 \<le> days_before_month y' m'"
    unfolding days_before_month_def by (rule months_nonneg)
  consider "y < y'" | "y = y'" "m < m'" | "y = y'" "m = m'" "d < d'"
    using assms(1) by (auto simp: ymd_less_def)
  then show ?thesis
  proof cases
    case 1
    then have "ymd2ord y m d \<le> days_before_year y'"
      using day_in_year [of m d y] days_before_year_mono [of "y + 1" y'] assms(2) by (simp add: month_day_ok_def)
    with nonneg assms(3) show ?thesis by (simp add: ymd2ord_def month_day_ok_def)
  next
    case 2
    with days_before_month_mono [of m m' y] assms(2,3) show ?thesis by (simp add: ymd2ord_def month_day_ok_def)
  next
    case 3
    then show ?thesis by (simp add: ymd2ord_def)
  qed
qed

lemma ord2ymd_ymd2ord:
  assumes "month_day_ok (y, m, d)"
  shows "ord2ymd (ymd2ord y m d) = (y, m, d)"
proof (rule ccontr)
  obtain y' m' d' where o: "ord2ymd (ymd2ord y m d) = (y', m', d')" by (metis prod_cases3)
  note spec = ord2ymd_spec [OF o]
  assume "ord2ymd (ymd2ord y m d) \<noteq> (y, m, d)"
  with o have "ymd_less (y, m, d) (y', m', d') \<or> ymd_less (y', m', d') (y, m, d)" by (auto simp: ymd_less_def)
  then show False
    using ymd2ord_less [of y m d y' m' d'] ymd2ord_less [of y' m' d' y m d] assms spec by (auto simp: month_day_ok_def)
qed

lemma ord2ymd_mono:
  assumes "k < k'"
  shows "ymd_less (ord2ymd k) (ord2ymd k')"
proof (rule ccontr)
  obtain y m d y' m' d' where o: "ord2ymd k = (y, m, d)" "ord2ymd k' = (y', m', d')" by (metis prod_cases3)
  note spec = ord2ymd_spec [OF o(1)] and spec' = ord2ymd_spec [OF o(2)]
  assume "\<not> ymd_less (ord2ymd k) (ord2ymd k')"
  with o have "ymd_less (y', m', d') (y, m, d) \<or> (y', m', d') = (y, m, d)" by (auto simp: ymd_less_def)
  then show False
    using ymd2ord_less [of y' m' d' y m d] spec spec' assms by (auto simp: month_day_ok_def)
qed

end
