(* ===== verification/Studio_Time.thy ===== *)
theory Studio_Time
  imports Calendar Booking_Payload
begin

text \<open>
  The studio's clock: core/manager_working_hours.py and the calendar half of
  core/booking_availability_remote.py. An aware \<open>datetime\<close> is its instant, in microseconds since
  1970-01-01T00:00Z; \<open>astimezone\<close> reads the wall clock at an offset and raises \<open>OverflowError\<close> outside the
  years 1 to 9999.

  The lemmas show that the canonical texts of studio times are ordered like the times (the comment of
  \<open>_sanitize_offered_slots_new\<close>), and that reading such a text back gives the time.
\<close>

section \<open>Wall clocks\<close>

definition day_us :: moment where "day_us = 86400000000"

definition epoch_ordinal :: int where "epoch_ordinal = 719163"

record wall =
  w_year :: int
  w_month :: int
  w_day :: int
  w_hour :: int
  w_minute :: int
  w_second :: int
  w_microsecond :: int

definition wall_of :: "moment \<Rightarrow> wall" where
  "wall_of t =
     (case ord2ymd (t div day_us + epoch_ordinal) of (y, m, d) \<Rightarrow>
        let us = t mod day_us
        in \<lparr> w_year = y, w_month = m, w_day = d, w_hour = us div 3600000000, w_minute = us div 60000000 mod 60,
             w_second = us div 1000000 mod 60, w_microsecond = us mod 1000000 \<rparr>)"

definition year_in_range :: "moment \<Rightarrow> bool" where
  "year_in_range t = (1 \<le> w_year (wall_of t) \<and> w_year (wall_of t) \<le> 9999)"

definition astimezone :: "moment \<Rightarrow> moment \<Rightarrow> exn + wall" where
  "astimezone offset t =
     (if year_in_range t \<and> year_in_range (t + offset) then Inr (wall_of (t + offset)) else Inl (OverflowError []))"

definition STUDIO_UTC_OFFSET :: moment where "STUDIO_UTC_OFFSET = seconds 18000"

text \<open>
  \<open>tz\<close> is the offset that the time zone data has at an instant (\<open>ZoneInfo\<close>); without that data it is the
  fixed offset.
\<close>

definition fixed_manager_tz :: "moment \<Rightarrow> moment" where "fixed_manager_tz _ = seconds 18000"

definition is_manager_working_time :: "(moment \<Rightarrow> moment) \<Rightarrow> moment \<Rightarrow> exn + bool" where
  "is_manager_working_time tz t =
     (case astimezone (tz t) t of
        Inl x \<Rightarrow> Inl x
      | Inr w \<Rightarrow> Inr (9 \<le> w_hour w \<and> w_hour w < 18))"

definition starts_at_text :: "wall \<Rightarrow> string" where
  "starts_at_text w =
     pad4 (w_year w) @ ''-'' @ pad2 (w_month w) @ ''-'' @ pad2 (w_day w) @ ''T'' @ pad2 (w_hour w) @ '':'' @
     pad2 (w_minute w) @ '':00+05:00''"

definition format_canonical_booking_starts_at :: "moment \<Rightarrow> exn + string" where
  "format_canonical_booking_starts_at t =
     (case astimezone STUDIO_UTC_OFFSET t of
        Inl x \<Rightarrow> Inl x
      | Inr w \<Rightarrow>
          if w_second w \<noteq> 0 \<or> w_microsecond w \<noteq> 0 then Inl (ValueError ''BOOKING_STARTS_AT_INVALID'')
          else require_canonical_booking_starts_at (starts_at_text w))"

text \<open>\<open>datetime(year, month, day, hour, minute, 0, tzinfo=_STUDIO_TZ)\<close> of a canonical text.\<close>

definition studio_moment :: "int \<Rightarrow> int \<Rightarrow> int \<Rightarrow> int \<Rightarrow> int \<Rightarrow> moment" where
  "studio_moment y m d hour minute =
     (ymd2ord y m d - epoch_ordinal) * day_us + hour * 3600000000 + minute * 60000000 - STUDIO_UTC_OFFSET"

definition studio_moment_of_text :: "string \<Rightarrow> moment" where
  "studio_moment_of_text s =
     studio_moment (int_of_digits (take 4 s)) (int_of_digits (take 2 (drop 5 s))) (int_of_digits (take 2 (drop 8 s)))
       (int_of_digits (take 2 (drop 11 s))) (int_of_digits (take 2 (drop 14 s)))"

definition month_re :: "(char \<Rightarrow> bool) list" where
  "month_re = replicate 4 is_digit @ [\<lambda>c. c = CHR ''-''] @ replicate 2 is_digit"

definition require_calendar_month :: "string \<Rightarrow> exn + string" where
  "require_calendar_month value =
     (let bad = ValueError ''BOOKING_CALENDAR_MONTH_INVALID'' in
      if value = [] then Inl bad
      else if dirty_text value then Inl bad
      else if \<not> fullmatch month_re value then Inl bad
      else let y = int_of_digits (take 4 value); m = int_of_digits (take 2 (drop 5 value)) in
        if y < 1 \<or> m < 1 \<or> m > 12 then Inl bad
        else if \<not> date_exists y m 1 then Inl bad
        else Inr (pad4 y @ ''-'' @ pad2 m))"

section \<open>Canonical texts\<close>

lemma ord_char_digit [simp]: "ord_char (digit_char n) = 48 + nat (n mod 10)"
  by (simp add: ord_char_def digit_char_def nat_add_distrib)

lemma is_digit_digit [simp]: "is_digit (digit_char n)"
  by (simp add: is_digit_def nat_le_iff)

lemma digit_char_eq: "digit_char a = digit_char b \<longleftrightarrow> a mod 10 = b mod 10"
proof
  assume "digit_char a = digit_char b"
  then have "ord_char (digit_char a) = ord_char (digit_char b)" by simp
  then show "a mod 10 = b mod 10" by simp
qed (simp add: digit_char_def)

lemma digit_char_less: "ord_char (digit_char a) < ord_char (digit_char b) \<longleftrightarrow> a mod 10 < b mod 10"
  by (simp only: ord_char_digit add_less_cancel_left) (use pos_mod_sign [of 10 a] in \<open>auto simp: nat_less_eq_zless\<close>)

lemma div_mod_less:
  fixes a b :: int
  assumes "0 < c"
  shows "a < b \<longleftrightarrow> a div c < b div c \<or> a div c = b div c \<and> a mod c < b mod c"
proof -
  have "a div c \<le> b div c" if "a \<le> b" using that assms by (rule zdiv_mono1)
  moreover have "b div c \<le> a div c" if "b \<le> a" using that assms by (rule zdiv_mono1)
  moreover have "a = c * (a div c) + a mod c" "b = c * (b div c) + b mod c" by simp_all
  ultimately show ?thesis by (smt (verit))
qed

lemma str_le_pad2:
  assumes "0 \<le> a" "a < 100" "0 \<le> b" "b < 100"
  shows "str_le (pad2 a @ s) (pad2 b @ t) \<longleftrightarrow> a < b \<or> a = b \<and> str_le s t"
proof -
  have eq: "a = b \<longleftrightarrow> a div 10 = b div 10 \<and> a mod 10 = b mod 10" by (metis div_mult_mod_eq)
  have small: "a div 10 mod 10 = a div 10" "b div 10 mod 10 = b div 10" using assms by simp_all
  have "str_le (pad2 a @ s) (pad2 b @ t) \<longleftrightarrow> a div 10 < b div 10 \<or>
      a div 10 = b div 10 \<and> (a mod 10 < b mod 10 \<or> a mod 10 = b mod 10 \<and> str_le s t)"
    by (simp add: pad2_def digit_char_eq small del: ord_char_digit add: digit_char_less)
  then show ?thesis using div_mod_less [of 10 a b, simplified] eq by blast
qed

lemma pad4_pad2: "pad4 a = pad2 (a div 100) @ pad2 (a mod 100)"
proof -
  have "a mod (10 * 10) = 10 * (a div 10 mod 10) + a mod 10" by (rule zmod_zmult2_eq) simp
  then have "a mod 100 div 10 = a div 10 mod 10" by simp
  moreover have "a mod 100 mod 10 = a mod 10" by (simp add: mod_mod_cancel)
  moreover have "a div 1000 = a div 100 div 10" by (simp add: zdiv_zmult2_eq [of 10 a 100, simplified])
  ultimately show ?thesis by (simp add: pad4_def pad2_def digit_char_def)
qed

lemma str_le_pad4:
  assumes "0 \<le> a" "a < 10000" "0 \<le> b" "b < 10000"
  shows "str_le (pad4 a @ s) (pad4 b @ t) \<longleftrightarrow> a < b \<or> a = b \<and> str_le s t"
proof -
  have "a = b \<longleftrightarrow> a div 100 = b div 100 \<and> a mod 100 = b mod 100" by (metis div_mult_mod_eq)
  moreover have "0 \<le> a div 100" "a div 100 < 100" "0 \<le> b div 100" "b div 100 < 100" using assms by auto
  ultimately show ?thesis
    using div_mod_less [of 100 a b, simplified] by (simp add: pad4_pad2 str_le_pad2) blast
qed

lemma digit_value: "int (ord_char (digit_char n)) - 48 = n mod 10"
  by simp

lemma int_of_pad2: "0 \<le> a \<Longrightarrow> a < 100 \<Longrightarrow> int_of_digits (pad2 a) = a"
  unfolding pad2_def int_of_digits_2 digit_value by (simp add: div_pos_pos_trivial)

lemma int_of_pad4:
  assumes "0 \<le> a" "a < 10000"
  shows "int_of_digits (pad4 a) = a"
proof -
  have "int_of_digits (pad4 a) = 100 * int_of_digits (pad2 (a div 100)) + int_of_digits (pad2 (a mod 100))"
    by (simp add: pad4_pad2 pad2_def int_of_digits_def del: ord_char_digit)
  also have "\<dots> = 100 * (a div 100) + a mod 100" using assms by (simp add: int_of_pad2)
  finally show ?thesis by simp
qed

text \<open>The fields of a wall clock, and what they say of the instant.\<close>

lemma wall_bounds:
  "1 \<le> w_month (wall_of t)" "w_month (wall_of t) \<le> 12" "1 \<le> w_day (wall_of t)"
  "w_day (wall_of t) \<le> days_in_month (w_year (wall_of t)) (w_month (wall_of t))"
  "0 \<le> w_hour (wall_of t)" "w_hour (wall_of t) < 24" "0 \<le> w_minute (wall_of t)" "w_minute (wall_of t) < 60"
proof -
  obtain y m d where o: "ord2ymd (t div day_us + epoch_ordinal) = (y, m, d)" by (metis prod_cases3)
  note spec = ord2ymd_spec [OF o]
  show "1 \<le> w_month (wall_of t)" "w_month (wall_of t) \<le> 12" "1 \<le> w_day (wall_of t)"
    "w_day (wall_of t) \<le> days_in_month (w_year (wall_of t)) (w_month (wall_of t))"
    using spec by (simp_all add: wall_of_def o Let_def)
  have "0 \<le> t mod day_us" "t mod day_us < day_us" by (simp_all add: day_us_def)
  moreover have "w_hour (wall_of t) = t mod day_us div 3600000000" "w_minute (wall_of t) = t mod day_us div 60000000 mod 60"
    by (simp_all add: wall_of_def o Let_def)
  ultimately show "0 \<le> w_hour (wall_of t)" "w_hour (wall_of t) < 24" "0 \<le> w_minute (wall_of t)" "w_minute (wall_of t) < 60"
    by (auto simp: day_us_def)
qed

lemma wall_date: "(w_year (wall_of t), w_month (wall_of t), w_day (wall_of t)) = ord2ymd (t div day_us + epoch_ordinal)"
  by (simp add: wall_of_def Let_def split: prod.split)

lemma wall_time:
  "w_hour (wall_of t) = t mod day_us div 3600000000" "w_minute (wall_of t) = t mod day_us div 60000000 mod 60"
  "w_second (wall_of t) = t mod day_us div 1000000 mod 60" "w_microsecond (wall_of t) = t mod day_us mod 1000000"
  by (cases "ord2ymd (t div day_us + epoch_ordinal)"; simp only: wall_of_def Let_def prod.case wall.simps)+

lemma wall_minutes:
  assumes "w_second (wall_of t) = 0" and "w_microsecond (wall_of t) = 0"
  shows "t mod day_us = 60000000 * (60 * w_hour (wall_of t) + w_minute (wall_of t))"
proof -
  define u where "u = t mod day_us"
  have w: "w_hour (wall_of t) = u div 3600000000" "w_minute (wall_of t) = u div 60000000 mod 60"
    "u div 1000000 mod 60 = 0" "u mod 1000000 = 0"
    using assms by (simp_all only: wall_time u_def)
  define n where "n = u div 60000000"
  have "n = u div 1000000 div 60" unfolding n_def using zdiv_zmult2_eq [of 60 u 1000000] by simp
  then have "u div 1000000 = 60 * n + u div 1000000 mod 60" by (simp only: mult_div_mod_eq)
  then have "u div 1000000 = 60 * n" by (simp only: w(3) add_0_right)
  moreover have "u = 1000000 * (u div 1000000) + u mod 1000000" by (simp only: mult_div_mod_eq)
  ultimately have u: "u = 60000000 * n" by (simp add: w(4))
  have "u div 3600000000 = n div 60" unfolding n_def using zdiv_zmult2_eq [of 60 u 60000000] by simp
  then have "w_hour (wall_of t) = n div 60" and "w_minute (wall_of t) = n mod 60"
    by (simp_all only: w n_def)
  then have "60 * w_hour (wall_of t) + w_minute (wall_of t) = n" by (simp only: mult_div_mod_eq)
  with u show ?thesis by (simp add: u_def)
qed

lemma starts_text_less:
  assumes "t < t'" and "year_in_range t" "year_in_range t'"
    and "w_second (wall_of t) = 0" "w_microsecond (wall_of t) = 0"
    and "w_second (wall_of t') = 0" "w_microsecond (wall_of t') = 0"
  shows "\<not> str_le (starts_at_text (wall_of t')) (starts_at_text (wall_of t))"
proof
  assume le: "str_le (starts_at_text (wall_of t')) (starts_at_text (wall_of t))"
  let ?w = "wall_of t" and ?w' = "wall_of t'"
  have small: "w_day w < 100" if "w = wall_of u" for u w
    using wall_bounds(4) [of u] that by (auto simp: days_in_month_def split: if_splits)
  note bounds = wall_bounds [of t] wall_bounds [of t'] small [of ?w t] small [of ?w' t']
    assms(2,3) [unfolded year_in_range_def]
  from le have lex: "w_year ?w' < w_year ?w \<or> w_year ?w' = w_year ?w \<and> (w_month ?w' < w_month ?w \<or>
      w_month ?w' = w_month ?w \<and> (w_day ?w' < w_day ?w \<or> w_day ?w' = w_day ?w \<and>
      (w_hour ?w' < w_hour ?w \<or> w_hour ?w' = w_hour ?w \<and> w_minute ?w' \<le> w_minute ?w)))"
    unfolding starts_at_text_def using bounds by (auto simp: str_le_pad4 str_le_pad2)
  have days: "t div day_us \<le> t' div day_us" using assms(1) by (intro zdiv_mono1) (simp_all add: day_us_def)
  show False
  proof (cases "t div day_us = t' div day_us")
    case True
    then have "w_year ?w = w_year ?w'" "w_month ?w = w_month ?w'" "w_day ?w = w_day ?w'"
      using wall_date [of t] wall_date [of t'] by (metis prod.inject)+
    with lex have "60 * w_hour ?w' + w_minute ?w' \<le> 60 * w_hour ?w + w_minute ?w" using bounds by auto
    then have "t' mod day_us \<le> t mod day_us"
      using wall_minutes [OF assms(4,5)] wall_minutes [OF assms(6,7)] by simp
    moreover have "day_us * (t div day_us) + t mod day_us < day_us * (t' div day_us) + t' mod day_us"
      using assms(1) by (simp only: mult_div_mod_eq)
    ultimately show False using True by (simp only: True)
  next
    case False
    with days have "ymd_less (w_year ?w, w_month ?w, w_day ?w) (w_year ?w', w_month ?w', w_day ?w')"
      unfolding wall_date by (intro ord2ymd_mono) simp
    with lex show False by (auto simp: ymd_less_def)
  qed
qed

lemma pads_clean [simp]:
  "dirty_text (pad2 a @ s) = dirty_text s" "dirty_text (pad4 a @ s) = dirty_text s"
  by (simp_all add: pad2_def pad4_def del: ord_char_digit)

lemma starts_at_text_cut:
  "take 4 (starts_at_text w) = pad4 (w_year w)" "take 2 (drop 5 (starts_at_text w)) = pad2 (w_month w)"
  "take 2 (drop 8 (starts_at_text w)) = pad2 (w_day w)" "take 2 (drop 11 (starts_at_text w)) = pad2 (w_hour w)"
  "take 2 (drop 14 (starts_at_text w)) = pad2 (w_minute w)"
  by (simp_all add: starts_at_text_def pad4_def pad2_def)

lemma wall_small: "w_day (wall_of t) < 100"
  using wall_bounds(4) [of t] by (auto simp: days_in_month_def split: if_splits)

lemma starts_text_accepted:
  assumes "year_in_range t"
  shows "require_canonical_booking_starts_at (starts_at_text (wall_of t)) = Inr (starts_at_text (wall_of t))"
proof (rule starts_at_accepted)
  let ?w = "wall_of t"
  note bounds = wall_bounds [of t] wall_small [of t] assms [unfolded year_in_range_def]
  show "\<not> dirty_text (starts_at_text ?w)" unfolding starts_at_text_def by (simp add: clean_marks)
  show "fullmatch starts_at_re (starts_at_text ?w)"
    unfolding starts_at_text_def starts_at_re_def date_re_def pad4_def pad2_def fullmatch_def by (simp add: numeral_eq_Suc)
  show "date_exists (int_of_digits (take 4 (starts_at_text ?w))) (int_of_digits (take 2 (drop 5 (starts_at_text ?w))))
      (int_of_digits (take 2 (drop 8 (starts_at_text ?w))))"
    unfolding starts_at_text_cut using bounds by (simp add: int_of_pad2 int_of_pad4 date_exists_def)
  show "int_of_digits (take 2 (drop 11 (starts_at_text ?w))) \<le> 23" "int_of_digits (take 2 (drop 14 (starts_at_text ?w))) \<le> 59"
    unfolding starts_at_text_cut using bounds by (simp_all add: int_of_pad2)
qed

definition on_the_minute :: "moment \<Rightarrow> bool" where
  "on_the_minute t = (year_in_range t \<and> year_in_range (t + STUDIO_UTC_OFFSET) \<and>
     w_second (wall_of (t + STUDIO_UTC_OFFSET)) = 0 \<and> w_microsecond (wall_of (t + STUDIO_UTC_OFFSET)) = 0)"

lemma format_starts_at:
  "format_canonical_booking_starts_at t = Inr s \<longleftrightarrow>
     on_the_minute t \<and> s = starts_at_text (wall_of (t + STUDIO_UTC_OFFSET))"
  using starts_text_accepted [of "t + STUDIO_UTC_OFFSET"]
  by (auto simp: format_canonical_booking_starts_at_def astimezone_def on_the_minute_def split: if_splits)

lemma format_starts_at_less:
  assumes "format_canonical_booking_starts_at t = Inr s" and "format_canonical_booking_starts_at t' = Inr s'" and "t < t'"
  shows "\<not> str_le s' s"
  using starts_text_less [of "t + STUDIO_UTC_OFFSET" "t' + STUDIO_UTC_OFFSET"] assms
  by (simp add: format_starts_at on_the_minute_def)

text \<open>A formatted time reads back.\<close>

lemma read_formatted_starts_at:
  assumes "format_canonical_booking_starts_at t = Inr s"
  shows "studio_moment_of_text s = t"
proof -
  define u where "u = t + STUDIO_UTC_OFFSET"
  let ?w = "wall_of u"
  have u: "year_in_range u" "w_second ?w = 0" "w_microsecond ?w = 0" and s: "s = starts_at_text ?w"
    using assms by (simp_all add: format_starts_at on_the_minute_def u_def)
  note bounds = wall_bounds [of u] wall_small [of u] u(1) [unfolded year_in_range_def]
  have "studio_moment_of_text s = studio_moment (w_year ?w) (w_month ?w) (w_day ?w) (w_hour ?w) (w_minute ?w)"
    unfolding studio_moment_of_text_def s starts_at_text_cut using bounds by (simp add: int_of_pad2 int_of_pad4)
  moreover have "ymd2ord (w_year ?w) (w_month ?w) (w_day ?w) = u div day_us + epoch_ordinal"
    by (rule ord2ymd_spec(1)) (simp add: wall_date)
  ultimately have "studio_moment_of_text s = u div day_us * day_us + u mod day_us - STUDIO_UTC_OFFSET"
    using wall_minutes [OF u(2,3)] by (simp add: studio_moment_def)
  then show ?thesis by (simp only: div_mult_mod_eq) (simp add: u_def)
qed

text \<open>Reading a canonical text.\<close>

lemma digit_char_of_digit: "is_digit c \<Longrightarrow> n mod 10 = int (ord_char c) - 48 \<Longrightarrow> digit_char n = c"
  by (simp add: digit_char_def ord_char_def)

lemma pad2_of_digits:
  assumes "is_digit a" "is_digit b"
  shows "pad2 (int_of_digits [a, b]) = [a, b]" "0 \<le> int_of_digits [a, b]"
proof -
  define x y where "x = int (ord_char a) - 48" and "y = int (ord_char b) - 48"
  have xy: "0 \<le> x" "x < 10" "0 \<le> y" "y < 10" using assms by (simp_all add: x_def y_def is_digit_def)
  have v: "int_of_digits [a, b] = 10 * x + y" by (simp add: int_of_digits_2 x_def y_def)
  have "(10 * x + y) div 10 mod 10 = x" "(10 * x + y) mod 10 = y" using xy by simp_all
  then show "pad2 (int_of_digits [a, b]) = [a, b]"
    unfolding pad2_def v using assms by (simp add: digit_char_of_digit x_def y_def)
  show "0 \<le> int_of_digits [a, b]" unfolding v using xy by simp
qed

lemma pad4_of_digits:
  assumes "is_digit a" "is_digit b" "is_digit c" "is_digit d"
  shows "pad4 (int_of_digits [a, b, c, d]) = [a, b, c, d]"
proof -
  have split: "int_of_digits [a, b, c, d] = 100 * int_of_digits [a, b] + int_of_digits [c, d]"
    by (simp add: int_of_digits_def)
  have "int_of_digits [c, d] < 100" using assms by (simp add: int_of_digits_2 is_digit_def)
  with pad2_of_digits(2) [of c d] assms
  have "(100 * int_of_digits [a, b] + int_of_digits [c, d]) div 100 = int_of_digits [a, b]"
    "(100 * int_of_digits [a, b] + int_of_digits [c, d]) mod 100 = int_of_digits [c, d]" by simp_all
  then show ?thesis unfolding pad4_pad2 split using assms by (simp add: pad2_of_digits)
qed

lemma starts_at_re_text:
  assumes "fullmatch starts_at_re s"
  obtains a b c d e f g h i j k l where
    "s = [a, b, c, d, CHR ''-'', e, f, CHR ''-'', g, h, CHR ''T'', i, j, CHR '':'', k, l] @ '':00+05:00''"
    and "is_digit a" "is_digit b" "is_digit c" "is_digit d" "is_digit e" "is_digit f"
    and "is_digit g" "is_digit h" "is_digit i" "is_digit j" "is_digit k" "is_digit l"
  using assms by (auto simp: starts_at_re_def date_re_def numeral_eq_Suc)

lemma wall_of_studio_moment:
  assumes "date_exists y m d" and "0 \<le> hour" "hour \<le> 23" "0 \<le> minute" "minute \<le> 59"
  shows "wall_of (studio_moment y m d hour minute + STUDIO_UTC_OFFSET) =
    \<lparr> w_year = y, w_month = m, w_day = d, w_hour = hour, w_minute = minute, w_second = 0, w_microsecond = 0 \<rparr>"
proof -
  let ?t = "studio_moment y m d hour minute + STUDIO_UTC_OFFSET"
  define n where "n = 60 * hour + minute"
  have n: "0 \<le> 60000000 * n" "60000000 * n < day_us" using assms by (simp_all add: n_def day_us_def)
  have t: "?t = day_us * (ymd2ord y m d - epoch_ordinal) + 60000000 * n"
    by (simp add: studio_moment_def n_def algebra_simps)
  have dm: "?t div day_us = ymd2ord y m d - epoch_ordinal" "?t mod day_us = 60000000 * n"
    using int_div_pos_eq [OF t n] int_mod_pos_eq [OF t n] by simp_all
  have day: "ord2ymd (ymd2ord y m d - epoch_ordinal + epoch_ordinal) = (y, m, d)"
    using assms(1) by (simp add: ord2ymd_ymd2ord month_day_ok_def date_exists_def)
  have "60000000 * n div (60000000 * 60) = n div 60" by (rule div_mult_mult1) simp
  then have "60000000 * n div 3600000000 = n div 60" by simp
  moreover have "n div 60 = hour" "n mod 60 = minute" using assms by (simp_all add: n_def)
  ultimately have "60000000 * n div 3600000000 = hour" "60000000 * n div 60000000 mod 60 = minute"
    "60000000 * n div 1000000 mod 60 = 0" "60000000 * n mod 1000000 = 0" by simp_all
  then show ?thesis by (simp only: wall_of_def day dm prod.case Let_def)
qed

lemma format_studio_moment:
  assumes "require_canonical_booking_starts_at s = Inr s'" and "year_in_range (studio_moment_of_text s)"
  shows "format_canonical_booking_starts_at (studio_moment_of_text s) = Inr s"
proof -
  have re: "fullmatch starts_at_re s"
    and exists: "date_exists (int_of_digits (take 4 s)) (int_of_digits (take 2 (drop 5 s))) (int_of_digits (take 2 (drop 8 s)))"
    and bounds: "int_of_digits (take 2 (drop 11 s)) \<le> 23" "int_of_digits (take 2 (drop 14 s)) \<le> 59"
    using assms(1) unfolding require_canonical_booking_starts_at_def Let_def by (auto split: if_splits)
  obtain a b c d e f g h i j k l where
    s: "s = [a, b, c, d, CHR ''-'', e, f, CHR ''-'', g, h, CHR ''T'', i, j, CHR '':'', k, l] @ '':00+05:00''"
    and digits: "is_digit a" "is_digit b" "is_digit c" "is_digit d" "is_digit e" "is_digit f"
      "is_digit g" "is_digit h" "is_digit i" "is_digit j" "is_digit k" "is_digit l"
    using starts_at_re_text [OF re] by metis
  have cut: "take 4 s = [a, b, c, d]" "take 2 (drop 5 s) = [e, f]" "take 2 (drop 8 s) = [g, h]"
    "take 2 (drop 11 s) = [i, j]" "take 2 (drop 14 s) = [k, l]" by (simp_all add: s)
  have w: "wall_of (studio_moment_of_text s + STUDIO_UTC_OFFSET) =
    \<lparr> w_year = int_of_digits [a, b, c, d], w_month = int_of_digits [e, f], w_day = int_of_digits [g, h],
      w_hour = int_of_digits [i, j], w_minute = int_of_digits [k, l], w_second = 0, w_microsecond = 0 \<rparr>"
    unfolding studio_moment_of_text_def cut
    by (rule wall_of_studio_moment) (use exists bounds digits in \<open>simp_all add: cut pad2_of_digits\<close>)
  have "on_the_minute (studio_moment_of_text s)"
    using assms(2) exists by (simp add: on_the_minute_def year_in_range_def w cut date_exists_def)
  moreover have "starts_at_text (wall_of (studio_moment_of_text s + STUDIO_UTC_OFFSET)) = s"
    unfolding w starts_at_text_def using digits by (simp add: pad2_of_digits pad4_of_digits s)
  ultimately show ?thesis by (simp add: format_starts_at)
qed

end
