(* ===== verification/Booking_Policy.thy ===== *)
theory Booking_Policy
  imports Studio_Time "HOL-Library.List_Lexorder" "HOL-Library.Char_ord" "HOL-Library.Multiset"
begin

text \<open>
  What the bot may offer: the closed types of core/booking_types.py, the dialog policy of
  core/booking_dialog_policy.py and the eligibility flow of services/booking_eligibility_flow.py.

  \<^item> A value the code checks with \<open>type(x) is\<close> at a boundary is an option: \<open>None\<close> is a value of another
    type. A list of raw slots is \<open>Some xs\<close> when it is a tuple or a list.
  \<^item> A reason code is its text; \<open>__post_init__\<close> of the frozen dataclasses is the function that builds the
    value or raises.
  \<^item> \<open>tz\<close> is the time zone data of the managers' clock, \<open>client\<close> the injected eligibility client.

  The lemmas show that the policy never raises for an instant the clock can show, that it builds only
  well formed decisions, and that an offer consists of the nearest slots of the backend for the master the
  eligibility names, or for masters it lists when the client agreed.
\<close>

section \<open>Types\<close>

definition MAX_ID_LENGTH :: nat where "MAX_ID_LENGTH = 128"

definition require_non_empty_id :: "string \<Rightarrow> exn + string" where
  "require_non_empty_id value =
     (if value = [] \<or> length value > MAX_ID_LENGTH then Inl (BookingDomainError ''BOOKING_DOMAIN_VALUE_INVALID'')
      else if list_ex isspace_char value then Inl (BookingDomainError ''BOOKING_DOMAIN_VALUE_INVALID'')
      else Inr value)"

datatype BookingEligibilityOutcome =
    SELF_BOOKING_ALLOWED
  | Elig_MANAGER_HANDOFF
  | Elig_SERVICE_UNAVAILABLE

fun eligibility_outcome_value :: "BookingEligibilityOutcome \<Rightarrow> string" where
  "eligibility_outcome_value SELF_BOOKING_ALLOWED = ''SELF_BOOKING_ALLOWED''"
| "eligibility_outcome_value Elig_MANAGER_HANDOFF = ''MANAGER_HANDOFF''"
| "eligibility_outcome_value Elig_SERVICE_UNAVAILABLE = ''SERVICE_UNAVAILABLE''"

definition require_optional_internal_reason :: "string option \<Rightarrow> exn + string option" where
  "require_optional_internal_reason value =
     (case value of
        None \<Rightarrow> Inr None
      | Some r \<Rightarrow> (case require_non_empty_id r of Inl x \<Rightarrow> Inl x | Inr s \<Rightarrow> Inr (Some s)))"

record eligibility_result =
  el_outcome :: BookingEligibilityOutcome
  el_selected_service :: "string option"
  el_selected_master :: "string option"
  el_other_online_master_ids :: "string list"
  el_internal_reason_code :: "string option"

fun first_error :: "(exn + 'a) list \<Rightarrow> exn option" where
  "first_error [] = None"
| "first_error (Inl x # rs) = Some x"
| "first_error (Inr _ # rs) = first_error rs"

definition make_eligibility ::
  "BookingEligibilityOutcome \<Rightarrow> string option \<Rightarrow> string option \<Rightarrow> string list \<Rightarrow> string option \<Rightarrow> exn + eligibility_result" where
  "make_eligibility outcome service master others reason =
     (case first_error (map require_non_empty_id others) of
        Some x \<Rightarrow> Inl x
      | None \<Rightarrow>
          (case require_optional_internal_reason reason of
             Inl x \<Rightarrow> Inl x
           | Inr r \<Rightarrow>
               Inr \<lparr> el_outcome = outcome, el_selected_service = service, el_selected_master = master,
                     el_other_online_master_ids = others, el_internal_reason_code = r \<rparr>))"

record available_slot =
  sl_slot_id :: string
  sl_starts_at :: moment
  sl_master_id :: string
  sl_service_id :: string

definition make_slot :: "string \<Rightarrow> moment \<Rightarrow> string \<Rightarrow> string \<Rightarrow> exn + available_slot" where
  "make_slot slot_id starts_at master_id service_id =
     (case first_error (map require_non_empty_id [slot_id, master_id, service_id]) of
        Some x \<Rightarrow> Inl x
      | None \<Rightarrow> Inr \<lparr> sl_slot_id = slot_id, sl_starts_at = starts_at, sl_master_id = master_id, sl_service_id = service_id \<rparr>)"

datatype booking_decision =
    SlotOfferDecision "available_slot list" BookingClientMessageKind
  | AvailableDaysOfferDecision "string list" string
  | ManagerHandoffDecision BookingClientMessageKind bool "string option"
  | ServiceUnavailableDecision BookingClientMessageKind "string option"

definition make_slot_offer :: "available_slot list \<Rightarrow> BookingClientMessageKind \<Rightarrow> exn + booking_decision" where
  "make_slot_offer slots kind =
     (if slots = [] \<or> length slots > MAX_OFFERED_SLOTS then Inl (BookingDomainError ''BOOKING_DOMAIN_POLICY_INVALID'')
      else if kind \<noteq> Kind_OFFER_SLOTS then Inl (BookingDomainError ''BOOKING_DOMAIN_POLICY_INVALID'')
      else Inr (SlotOfferDecision slots kind))"

definition make_days_offer :: "string list \<Rightarrow> string \<Rightarrow> exn + booking_decision" where
  "make_days_offer date_keys studio_today =
     (if date_keys = [] \<or> list_ex (\<lambda>k. k = []) date_keys \<or> studio_today = []
      then Inl (BookingDomainError ''BOOKING_DOMAIN_POLICY_INVALID'')
      else Inr (AvailableDaysOfferDecision date_keys studio_today))"

definition make_handoff :: "BookingClientMessageKind \<Rightarrow> bool \<Rightarrow> string option \<Rightarrow> exn + booking_decision" where
  "make_handoff kind during reason =
     (if kind \<noteq> (if during then Kind_HANDOFF_DURING_MANAGER_HOURS else Kind_HANDOFF_OUTSIDE_MANAGER_HOURS)
      then Inl (BookingDomainError ''BOOKING_DOMAIN_POLICY_INVALID'')
      else case require_optional_internal_reason reason of
             Inl x \<Rightarrow> Inl x
           | Inr r \<Rightarrow> Inr (ManagerHandoffDecision kind during r))"

definition make_unavailable :: "BookingClientMessageKind \<Rightarrow> string option \<Rightarrow> exn + booking_decision" where
  "make_unavailable kind reason =
     (if kind \<noteq> Kind_SERVICE_TEMPORARILY_UNAVAILABLE then Inl (BookingDomainError ''BOOKING_DOMAIN_POLICY_INVALID'')
      else case require_optional_internal_reason reason of
             Inl x \<Rightarrow> Inl x
           | Inr r \<Rightarrow> Inr (ServiceUnavailableDecision kind r))"

definition client_message_for_decision :: "booking_decision \<Rightarrow> exn + string" where
  "client_message_for_decision decision =
     (case decision of
        AvailableDaysOfferDecision _ _ \<Rightarrow> Inl (BookingDomainError ''BOOKING_DOMAIN_POLICY_INVALID'')
      | SlotOfferDecision _ kind \<Rightarrow> Inr (CLIENT_MESSAGE_TEXT kind)
      | ManagerHandoffDecision kind _ _ \<Rightarrow> Inr (CLIENT_MESSAGE_TEXT kind)
      | ServiceUnavailableDecision kind _ \<Rightarrow> Inr (CLIENT_MESSAGE_TEXT kind))"

section \<open>Normalizing an eligibility answer\<close>

text \<open>An untrusted outcome: a member of the enumeration, a text, or anything else.\<close>

datatype raw_outcome = Raw_outcome BookingEligibilityOutcome | Raw_text string | Raw_other

text \<open>An untrusted reason: absent, a member of the enumeration, a text, or anything else.\<close>

datatype raw_reason = No_reason | Code_reason string | Text_reason string | Other_reason

definition outcome_of_raw :: "raw_outcome \<Rightarrow> BookingEligibilityOutcome option" where
  "outcome_of_raw raw =
     (case raw of
        Raw_outcome a \<Rightarrow> Some a
      | Raw_text s \<Rightarrow>
          if s = ''SELF_BOOKING_ALLOWED'' then Some SELF_BOOKING_ALLOWED
          else if s = ''MANAGER_HANDOFF'' then Some Elig_MANAGER_HANDOFF
          else if s = ''SERVICE_UNAVAILABLE'' then Some Elig_SERVICE_UNAVAILABLE
          else None
      | Raw_other \<Rightarrow> None)"

definition clean_id :: "string option \<Rightarrow> bool" where
  "clean_id item = (case item of None \<Rightarrow> False | Some s \<Rightarrow> s \<noteq> [] \<and> \<not> list_ex isspace_char s)"

definition default_reason :: "string \<Rightarrow> string option \<Rightarrow> string option" where
  "default_reason code reason = (case reason of None \<Rightarrow> Some code | Some r \<Rightarrow> Some r)"

definition normalize_eligibility_outcome ::
  "raw_outcome \<Rightarrow> string option \<Rightarrow> string option \<Rightarrow> string option list option \<Rightarrow> raw_reason \<Rightarrow> exn + eligibility_result" where
  "normalize_eligibility_outcome outcome service master others reason_code =
     (case others of
        None \<Rightarrow> make_eligibility Elig_SERVICE_UNAVAILABLE service master [] (Some ''MALFORMED_ELIGIBILITY'')
      | Some items \<Rightarrow>
          if \<not> list_all clean_id items
          then make_eligibility Elig_SERVICE_UNAVAILABLE service master [] (Some ''MALFORMED_ELIGIBILITY'')
          else
            let ids = map the items;
                normal = (\<lambda>reason.
                  case outcome_of_raw outcome of
                    Some SELF_BOOKING_ALLOWED \<Rightarrow> make_eligibility SELF_BOOKING_ALLOWED service master ids reason
                  | Some Elig_MANAGER_HANDOFF \<Rightarrow>
                      make_eligibility Elig_MANAGER_HANDOFF service master ids
                        (default_reason ''ELIGIBILITY_MANAGER_HANDOFF'' reason)
                  | Some Elig_SERVICE_UNAVAILABLE \<Rightarrow>
                      make_eligibility Elig_SERVICE_UNAVAILABLE service master ids
                        (default_reason ''ELIGIBILITY_SERVICE_UNAVAILABLE'' reason)
                  | None \<Rightarrow> make_eligibility Elig_SERVICE_UNAVAILABLE service master ids (Some ''UNKNOWN_OUTCOME''));
                malformed = make_eligibility Elig_SERVICE_UNAVAILABLE service master ids (Some ''MALFORMED_ELIGIBILITY'')
            in (case reason_code of
                  No_reason \<Rightarrow> normal None
                | Code_reason r \<Rightarrow> normal (Some r)
                | Text_reason r \<Rightarrow> if clean_id (Some r) then normal (Some r) else malformed
                | Other_reason \<Rightarrow> malformed))"

section \<open>The dialog policy\<close>

type_synonym raw_slots = "available_slot option list option"

definition collect_valid_slots :: "raw_slots \<Rightarrow> available_slot list" where
  "collect_valid_slots raw = (case raw of None \<Rightarrow> [] | Some items \<Rightarrow> List.map_filter id items)"

definition handoff_decision :: "(moment \<Rightarrow> moment) \<Rightarrow> moment \<Rightarrow> string option \<Rightarrow> exn + booking_decision" where
  "handoff_decision tz now reason =
     (case is_manager_working_time tz now of
        Inl x \<Rightarrow> Inl x
      | Inr during \<Rightarrow>
          make_handoff (if during then Kind_HANDOFF_DURING_MANAGER_HOURS else Kind_HANDOFF_OUTSIDE_MANAGER_HOURS)
            during reason)"

definition service_unavailable_decision :: "string option \<Rightarrow> exn + booking_decision" where
  "service_unavailable_decision reason = make_unavailable Kind_SERVICE_TEMPORARILY_UNAVAILABLE reason"

definition slot_key :: "available_slot \<Rightarrow> moment \<times> string" where
  "slot_key s = (sl_starts_at s, sl_slot_id s)"

definition select_nearest_slots :: "available_slot list \<Rightarrow> available_slot list" where
  "select_nearest_slots slots = take MAX_OFFERED_SLOTS (sort_key slot_key slots)"

definition offer_slots :: "available_slot list \<Rightarrow> exn + booking_decision" where
  "offer_slots slots = make_slot_offer (select_nearest_slots slots) Kind_OFFER_SLOTS"

text \<open>\<open>reason or CODE\<close>.\<close>

definition reason_or :: "string option \<Rightarrow> string \<Rightarrow> string option" where
  "reason_or reason code = (if reason = None \<or> reason = Some [] then Some code else reason)"

definition decide_booking_dialog ::
  "(moment \<Rightarrow> moment) \<Rightarrow> eligibility_result \<Rightarrow> raw_slots \<Rightarrow> moment \<Rightarrow> bool \<Rightarrow> exn + booking_decision" where
  "decide_booking_dialog tz eligibility raw now consent =
     (case el_outcome eligibility of
        Elig_SERVICE_UNAVAILABLE \<Rightarrow>
          service_unavailable_decision
            (reason_or (el_internal_reason_code eligibility) ''ELIGIBILITY_SERVICE_UNAVAILABLE'')
      | Elig_MANAGER_HANDOFF \<Rightarrow>
          handoff_decision tz now (reason_or (el_internal_reason_code eligibility) ''ELIGIBILITY_MANAGER_HANDOFF'')
      | SELF_BOOKING_ALLOWED \<Rightarrow>
          let valid_slots = collect_valid_slots raw in
          if valid_slots = [] then handoff_decision tz now (Some ''NO_VALID_SLOTS'')
          else case el_selected_master eligibility of
            None \<Rightarrow> offer_slots valid_slots
          | Some selected_id \<Rightarrow>
              let matching = filter (\<lambda>s. sl_master_id s = selected_id) valid_slots in
              if matching \<noteq> [] then offer_slots matching
              else if \<not> consent then handoff_decision tz now (Some ''ALTERNATE_MASTER_WITHOUT_CONSENT'')
              else
                let alternate = filter (\<lambda>s. sl_master_id s \<in> set (el_other_online_master_ids eligibility) \<and>
                                            sl_master_id s \<noteq> selected_id) valid_slots in
                if alternate = [] then handoff_decision tz now (Some ''NO_VALID_SLOTS'')
                else offer_slots alternate)"

section \<open>The eligibility flow\<close>

type_synonym eligibility_client = "string \<Rightarrow> string option \<Rightarrow> bool \<Rightarrow> exn + eligibility_result option"

definition unavailable_eligibility :: "string \<Rightarrow> string option \<Rightarrow> string \<Rightarrow> exn + eligibility_result" where
  "unavailable_eligibility service master reason =
     normalize_eligibility_outcome (Raw_outcome Elig_SERVICE_UNAVAILABLE) (Some service) master (Some []) (Code_reason reason)"

definition flow_check_eligibility ::
  "eligibility_client option \<Rightarrow> string \<Rightarrow> string option \<Rightarrow> bool \<Rightarrow> exn + eligibility_result" where
  "flow_check_eligibility client service master include_alternatives =
     (case client of
        None \<Rightarrow> unavailable_eligibility service master ''ELIGIBILITY_CLIENT_UNAVAILABLE''
      | Some check \<Rightarrow>
          (case check service master include_alternatives of
             Inl _ \<Rightarrow> unavailable_eligibility service master ''ELIGIBILITY_SERVICE_UNAVAILABLE''
           | Inr None \<Rightarrow> unavailable_eligibility service master ''UNKNOWN_OUTCOME''
           | Inr (Some eligibility) \<Rightarrow> Inr eligibility))"

definition flow_resolve ::
  "(moment \<Rightarrow> moment) \<Rightarrow> eligibility_client option \<Rightarrow> string \<Rightarrow> string option \<Rightarrow> raw_slots \<Rightarrow> moment \<Rightarrow> bool \<Rightarrow> bool
     \<Rightarrow> exn + booking_decision" where
  "flow_resolve tz client service master raw now include_alternatives consent =
     (case flow_check_eligibility client service master include_alternatives of
        Inl x \<Rightarrow> Inl x
      | Inr eligibility \<Rightarrow> decide_booking_dialog tz eligibility raw now consent)"

section \<open>Offers\<close>

text \<open>
  The reference: which slots of the backend may be offered. With a selected master, that master's
  slots; when there are none, and only with the client's consent, those of the masters that the
  eligibility lists.
\<close>

definition slot_suitable :: "eligibility_result \<Rightarrow> bool \<Rightarrow> available_slot list \<Rightarrow> available_slot \<Rightarrow> bool" where
  "slot_suitable el consent backend s =
     (case el_selected_master el of
        None \<Rightarrow> True
      | Some m \<Rightarrow>
          if \<exists>b\<in>set backend. sl_master_id b = m then sl_master_id s = m
          else consent \<and> sl_master_id s \<in> set (el_other_online_master_ids el))"

lemma select_nearest_empty [simp]: "select_nearest_slots slots = [] \<longleftrightarrow> slots = []"
proof -
  have "sort_key slot_key slots = [] \<longleftrightarrow> slots = []" by (metis length_0_conv length_sort)
  then show ?thesis by (auto simp: select_nearest_slots_def MAX_OFFERED_SLOTS_def)
qed

lemma select_nearest_length: "length (select_nearest_slots slots) = min 3 (length slots)"
  by (simp add: select_nearest_slots_def MAX_OFFERED_SLOTS_def min.commute)

lemma select_nearest_nearest:
  "sorted (map slot_key (select_nearest_slots slots)) \<and>
   (\<exists>later. mset slots = mset (select_nearest_slots slots) + mset later \<and>
      (\<forall>a\<in>set (select_nearest_slots slots). \<forall>b\<in>set later. slot_key a \<le> slot_key b))"
proof -
  let ?k = "sort_key slot_key slots"
  have "sorted (map slot_key (take 3 ?k) @ map slot_key (drop 3 ?k))"
    by (metis append_take_drop_id map_append sorted_sort_key)
  then have "sorted (map slot_key (take 3 ?k))"
    and "\<forall>a\<in>set (take 3 ?k). \<forall>b\<in>set (drop 3 ?k). slot_key a \<le> slot_key b"
    by (simp_all add: sorted_append)
  moreover have "mset slots = mset (take 3 ?k) + mset (drop 3 ?k)"
    by (metis append_take_drop_id mset_append mset_sort)
  ultimately show ?thesis unfolding select_nearest_slots_def MAX_OFFERED_SLOTS_def by blast
qed

lemma nearest_subset: "set (select_nearest_slots (filter P xs)) \<subseteq> set xs"
proof -
  have "set (select_nearest_slots (filter P xs)) \<subseteq> set (sort_key slot_key (filter P xs))"
    unfolding select_nearest_slots_def by (rule set_take_subset)
  then show ?thesis by auto
qed

lemma offer_slots_Inr: "offer_slots slots = Inr d \<longleftrightarrow> slots \<noteq> [] \<and> d = SlotOfferDecision (select_nearest_slots slots) Kind_OFFER_SLOTS"
  using select_nearest_length [of slots]
  by (auto simp: offer_slots_def make_slot_offer_def MAX_OFFERED_SLOTS_def)

lemma handoff_no_offer: "handoff_decision tz now r \<noteq> Inr (SlotOfferDecision offered kind)"
  by (auto simp: handoff_decision_def make_handoff_def split: sum.splits)

lemma unavailable_no_offer: "service_unavailable_decision r \<noteq> Inr (SlotOfferDecision offered kind)"
  by (auto simp: service_unavailable_decision_def make_unavailable_def split: sum.splits)

lemma decide_offer:
  "decide_booking_dialog tz el raw now consent = Inr (SlotOfferDecision offered kind) \<longleftrightarrow>
     el_outcome el = SELF_BOOKING_ALLOWED \<and> kind = Kind_OFFER_SLOTS \<and> offered \<noteq> [] \<and>
     offered = select_nearest_slots (filter (slot_suitable el consent (collect_valid_slots raw)) (collect_valid_slots raw))"
proof (cases "el_outcome el = SELF_BOOKING_ALLOWED \<and> collect_valid_slots raw \<noteq> []")
  case False
  then show ?thesis
    by (auto simp: decide_booking_dialog_def Let_def handoff_no_offer unavailable_no_offer split: BookingEligibilityOutcome.splits)
next
  case allowed: True
  define V where "V = collect_valid_slots raw"
  show ?thesis
  proof (cases "el_selected_master el")
    case None
    then have "filter (slot_suitable el consent V) V = V" by (simp add: slot_suitable_def)
    with None allowed show ?thesis
      by (auto simp: decide_booking_dialog_def Let_def offer_slots_Inr V_def [symmetric])
  next
    case (Some m)
    show ?thesis
    proof (cases "filter (\<lambda>s. sl_master_id s = m) V = []")
      case False
      then have "\<exists>b\<in>set V. sl_master_id b = m" by (auto simp: filter_empty_conv)
      then have "filter (slot_suitable el consent V) V = filter (\<lambda>s. sl_master_id s = m) V"
        by (intro filter_cong) (simp_all add: slot_suitable_def Some)
      with False Some allowed show ?thesis
        by (auto simp: decide_booking_dialog_def Let_def offer_slots_Inr V_def [symmetric])
    next
      case True
      then have none: "\<forall>b\<in>set V. sl_master_id b \<noteq> m" by (auto simp: filter_empty_conv)
      then have "filter (slot_suitable el consent V) V =
          (if consent then filter (\<lambda>s. sl_master_id s \<in> set (el_other_online_master_ids el) \<and> sl_master_id s \<noteq> m) V else [])"
        by (auto simp: slot_suitable_def Some intro: filter_cong)
      with True Some allowed show ?thesis
        by (auto simp: decide_booking_dialog_def Let_def offer_slots_Inr handoff_no_offer V_def [symmetric])
    qed
  qed
qed


section \<open>Well formed decisions\<close>

definition id_ok :: "string \<Rightarrow> bool" where
  "id_ok s = (s \<noteq> [] \<and> length s \<le> 128 \<and> \<not> list_ex isspace_char s)"

definition reason_ok :: "string option \<Rightarrow> bool" where
  "reason_ok r = (case r of None \<Rightarrow> True | Some s \<Rightarrow> id_ok s)"

definition eligibility_ok :: "eligibility_result \<Rightarrow> bool" where
  "eligibility_ok el = (list_all id_ok (el_other_online_master_ids el) \<and> reason_ok (el_internal_reason_code el))"

fun decision_ok :: "booking_decision \<Rightarrow> bool" where
  "decision_ok (SlotOfferDecision slots kind) = (slots \<noteq> [] \<and> length slots \<le> 3 \<and> kind = Kind_OFFER_SLOTS)"
| "decision_ok (AvailableDaysOfferDecision keys today) = (keys \<noteq> [] \<and> [] \<notin> set keys \<and> today \<noteq> [])"
| "decision_ok (ManagerHandoffDecision kind during r) =
     (kind = (if during then Kind_HANDOFF_DURING_MANAGER_HOURS else Kind_HANDOFF_OUTSIDE_MANAGER_HOURS) \<and> reason_ok r)"
| "decision_ok (ServiceUnavailableDecision kind r) = (kind = Kind_SERVICE_TEMPORARILY_UNAVAILABLE \<and> reason_ok r)"

lemma require_id: "require_non_empty_id s = (if id_ok s then Inr s else Inl (BookingDomainError ''BOOKING_DOMAIN_VALUE_INVALID''))"
  by (auto simp: require_non_empty_id_def id_ok_def MAX_ID_LENGTH_def)

lemma require_reason:
  "require_optional_internal_reason r =
     (if reason_ok r then Inr r else Inl (BookingDomainError ''BOOKING_DOMAIN_VALUE_INVALID''))"
  by (cases r) (simp_all add: require_optional_internal_reason_def reason_ok_def require_id)

lemma first_error_None: "first_error (map require_non_empty_id ids) = None \<longleftrightarrow> list_all id_ok ids"
  by (induction ids) (auto simp: require_id)

lemma make_eligibility_Inr:
  "make_eligibility outcome service master others reason = Inr el \<longleftrightarrow>
     el = \<lparr> el_outcome = outcome, el_selected_service = service, el_selected_master = master,
            el_other_online_master_ids = others, el_internal_reason_code = reason \<rparr> \<and> eligibility_ok el"
  by (auto simp: make_eligibility_def eligibility_ok_def require_reason first_error_None [symmetric] split: option.splits)

lemma reason_codes_ok:
  "c \<in> set BOOKING_INTERNAL_REASON_CODES \<Longrightarrow> id_ok c"
  by (auto simp: BOOKING_INTERNAL_REASON_CODES_def id_ok_def isspace_char_def ord_char_def)

lemma reason_or_ok: "reason_ok r \<Longrightarrow> id_ok c \<Longrightarrow> reason_ok (reason_or r c)"
  by (auto simp: reason_or_def reason_ok_def)

lemma handoff_returns:
  assumes "year_in_range now" "year_in_range (now + tz now)" and "reason_ok r"
  shows "\<exists>d. handoff_decision tz now r = Inr d \<and> decision_ok d"
  using assms by (auto simp: handoff_decision_def is_manager_working_time_def astimezone_def make_handoff_def require_reason)

lemma unavailable_returns: "reason_ok r \<Longrightarrow> service_unavailable_decision r = Inr (ServiceUnavailableDecision Kind_SERVICE_TEMPORARILY_UNAVAILABLE r)"
  by (simp add: service_unavailable_decision_def make_unavailable_def require_reason)

lemma offer_returns: "slots \<noteq> [] \<Longrightarrow> \<exists>d. offer_slots slots = Inr d \<and> decision_ok d"
  using select_nearest_length [of slots] by (simp add: offer_slots_Inr)

lemma decide_returns:
  assumes "eligibility_ok el" and now: "year_in_range now" "year_in_range (now + tz now)"
  shows "\<exists>d. decide_booking_dialog tz el raw now consent = Inr d \<and> decision_ok d"
proof -
  have r: "reason_ok (el_internal_reason_code el)" using assms(1) by (simp add: eligibility_ok_def)
  have codes: "reason_ok (Some c)" "reason_ok (reason_or (el_internal_reason_code el) c)"
    if "c \<in> set BOOKING_INTERNAL_REASON_CODES" for c
    using reason_codes_ok [OF that] reason_or_ok [OF r] by (simp_all add: reason_ok_def)
  show ?thesis
    unfolding decide_booking_dialog_def Let_def
    by (auto split: BookingEligibilityOutcome.splits option.splits
        intro!: handoff_returns offer_returns now codes simp: unavailable_returns codes BOOKING_INTERNAL_REASON_CODES_def)
qed

lemma unavailable_eligibility_Inr:
  assumes "c \<in> set BOOKING_INTERNAL_REASON_CODES"
  shows "\<exists>el. unavailable_eligibility service master c = Inr el \<and> eligibility_ok el \<and> el_outcome el = Elig_SERVICE_UNAVAILABLE"
  using reason_codes_ok [OF assms]
  by (auto simp: unavailable_eligibility_def normalize_eligibility_outcome_def outcome_of_raw_def default_reason_def
      make_eligibility_Inr eligibility_ok_def reason_ok_def)

text \<open>What a \<open>BookingEligibilityResult\<close> of the client satisfies by its \<open>__post_init__\<close>.\<close>

definition client_answer_ok :: "eligibility_client option \<Rightarrow> string \<Rightarrow> string option \<Rightarrow> bool \<Rightarrow> bool" where
  "client_answer_ok client service master incl =
     (case client of
        None \<Rightarrow> True
      | Some check \<Rightarrow>
          (case check service master incl of Inr (Some el) \<Rightarrow> eligibility_ok el | _ \<Rightarrow> True))"

lemma flow_check_returns:
  assumes "client_answer_ok client service master incl"
  shows "\<exists>el. flow_check_eligibility client service master incl = Inr el \<and> eligibility_ok el \<and>
    (el_outcome el = SELF_BOOKING_ALLOWED \<longrightarrow> (\<exists>check. client = Some check \<and> check service master incl = Inr (Some el)))"
proof -
  have un: "\<exists>el. unavailable_eligibility service master c = Inr el \<and> eligibility_ok el \<and> el_outcome el \<noteq> SELF_BOOKING_ALLOWED"
    if "c \<in> set BOOKING_INTERNAL_REASON_CODES" for c
    using unavailable_eligibility_Inr [OF that, of service master] by fastforce
  show ?thesis
  proof (cases client)
    case None
    with un [of "''ELIGIBILITY_CLIENT_UNAVAILABLE''"] show ?thesis
      by (auto simp: flow_check_eligibility_def BOOKING_INTERNAL_REASON_CODES_def)
  next
    case (Some check)
    show ?thesis
    proof (cases "check service master incl")
      case (Inl x)
      with Some un [of "''ELIGIBILITY_SERVICE_UNAVAILABLE''"] show ?thesis
        by (auto simp: flow_check_eligibility_def BOOKING_INTERNAL_REASON_CODES_def)
    next
      case (Inr answer)
      with Some assms un [of "''UNKNOWN_OUTCOME''"] show ?thesis
        by (cases answer) (auto simp: flow_check_eligibility_def BOOKING_INTERNAL_REASON_CODES_def client_answer_ok_def)
    qed
  qed
qed


section \<open>A run\<close>

definition policy_demo_slots :: raw_slots where
  "policy_demo_slots =
     Some [Some \<lparr> sl_slot_id = ''s2'', sl_starts_at = 20, sl_master_id = ''m1'', sl_service_id = ''v'' \<rparr>,
           None,
           Some \<lparr> sl_slot_id = ''s1'', sl_starts_at = 10, sl_master_id = ''m1'', sl_service_id = ''v'' \<rparr>,
           Some \<lparr> sl_slot_id = ''s0'', sl_starts_at = 5, sl_master_id = ''m2'', sl_service_id = ''v'' \<rparr>]"

definition policy_demo_client :: eligibility_client where
  "policy_demo_client service master incl =
     Inr (Some \<lparr> el_outcome = SELF_BOOKING_ALLOWED, el_selected_service = Some service, el_selected_master = master,
                 el_other_online_master_ids = [], el_internal_reason_code = None \<rparr>)"

definition demo_now :: moment where "demo_now = seconds 1700000000"



end
