(* ===== verification/Booking_Http.thy ===== *)
theory Booking_Http
  imports Booking_Policy Vk_Gate
begin

text \<open>
  The read clients of the booking service: core/booking_availability_http.py (available days and
  slots), core/booking_eligibility_http.py with core/booking_eligibility_remote.py (eligibility), and the gate
  of core/mode_contract.py.

  \<open>http_lib\<close> is the code outside: \<open>lib_transport\<close> the injected transport with its one exchange, \<open>lib_dumps\<close> and
  \<open>lib_loads\<close> the JSON codec on bytes (\<open>None\<close> when it raises), \<open>lib_url_path\<close> the path of \<open>urlsplit\<close>. The timeout
  of a request is passed on by the code and not modelled.

  The lemmas show that a client reads nothing unless the mode allows it, that a request goes out at most
  once, and that what a client returns satisfies the contract of the source: days of the asked
  month, slots of the asked service, master and date, both in strict order of time.
\<close>

section \<open>The exchange\<close>

record http_request =
  hq_method :: string
  hq_url :: string
  hq_headers :: "(string \<times> string) list"
  hq_body :: string
  hq_allow_redirects :: bool
  hq_max_response_bytes :: nat

record http_response =
  hr_status_code :: int
  hr_headers :: "(string \<times> string) list"
  hr_body :: string

datatype transport_answer =
    Answer http_response
  | Transport_error string
  | Transport_raises
  | Other_answer

record http_lib =
  lib_transport :: "http_request \<Rightarrow> transport_answer"
  lib_dumps :: "payload \<Rightarrow> string option"
  lib_loads :: "string \<Rightarrow> json option"
  lib_url_path :: "string \<Rightarrow> string option"

record booking_http_config =
  hc_base_url :: string
  hc_bearer_token :: string
  hc_max_response_bytes :: nat

definition header_value :: "(string \<times> string) list \<Rightarrow> string \<Rightarrow> string option" where
  "header_value headers name =
     (case filter (\<lambda>(k, v). map lower_char k = map lower_char name) headers of
        [] \<Rightarrow> None
      | (k, v) # _ \<Rightarrow> Some v)"

definition content_type_is_json :: "string option \<Rightarrow> bool" where
  "content_type_is_json content_type =
     (case content_type of
        None \<Rightarrow> False
      | Some t \<Rightarrow>
          t \<noteq> [] \<and> map lower_char (py_strip isspace_char (takeWhile (\<lambda>c. c \<noteq> CHR '';'') t)) = ''application/json'')"

definition starts_with :: "string \<Rightarrow> string \<Rightarrow> bool" where
  "starts_with s p = (take (length p) s = p)"

definition is_live_booking_s2s_read_allowed :: "settings option \<Rightarrow> bool" where
  "is_live_booking_s2s_read_allowed settings =
     (case settings of
        None \<Rightarrow> False
      | Some st \<Rightarrow>
          if st_emergency_lock st then False else st_bot_mode st \<in> {Mode_AUTO_READ, Mode_AUTO_WRITE})"

definition json_post :: "booking_http_config \<Rightarrow> string \<Rightarrow> string \<Rightarrow> http_request" where
  "json_post cfg url body =
     \<lparr> hq_method = ''POST'', hq_url = url,
       hq_headers = [(''Authorization'', ''Bearer '' @ hc_bearer_token cfg), (''Content-Type'', ''application/json''),
                     (''Accept'', ''application/json'')],
       hq_body = body, hq_allow_redirects = False, hq_max_response_bytes = hc_max_response_bytes cfg \<rparr>"

definition MAX_REQUEST_BYTES :: nat where "MAX_REQUEST_BYTES = 4096"

section \<open>Availability\<close>

definition AVAILABILITY_ERROR_CODE_BY_STATUS :: "(int \<times> string list) list" where
  "AVAILABILITY_ERROR_CODE_BY_STATUS =
     [(400, [''VALIDATION_ERROR'', ''SERVICE_UNAVAILABLE'']), (401, [''UNAUTHORIZED'']), (413, [''PAYLOAD_TOO_LARGE'']),
      (429, [''RATE_LIMITED'']), (500, [''INTERNAL_ERROR''])]"

definition AVAILABILITY_CODE_TO_ADAPTER :: "(string \<times> string) list" where
  "AVAILABILITY_CODE_TO_ADAPTER =
     [(''VALIDATION_ERROR'', ''VALIDATION_ERROR''), (''SERVICE_UNAVAILABLE'', ''SERVICE_UNAVAILABLE''),
      (''UNAUTHORIZED'', ''UNAUTHORIZED''), (''RATE_LIMITED'', ''RATE_LIMITED''), (''PAYLOAD_TOO_LARGE'', ''REMOTE_REJECTED''),
      (''INTERNAL_ERROR'', ''TRANSPORT_ERROR'')]"

text \<open>\<open>by_status\<close> and \<open>to_adapter\<close> are the two tables; the create client has its own.\<close>

definition map_error_envelope ::
  "(int \<times> string list) list \<Rightarrow> (string \<times> string) list \<Rightarrow> http_lib \<Rightarrow> int \<Rightarrow> string \<Rightarrow> string" where
  "map_error_envelope by_status to_adapter lib status body =
     (case map_of by_status status of
        None \<Rightarrow> ''REMOTE_REJECTED''
      | Some allowed \<Rightarrow>
          if body = [] then ''REMOTE_REJECTED''
          else case lib_loads lib body of
            Some (JObj p) \<Rightarrow>
              if dict_get p ''ok'' \<noteq> JBool False then ''REMOTE_REJECTED''
              else (case dict_get p ''code'' of
                      JStr code \<Rightarrow>
                        if code \<notin> set allowed then ''REMOTE_REJECTED''
                        else (case map_of to_adapter code of None \<Rightarrow> ''REMOTE_REJECTED'' | Some m \<Rightarrow> m)
                    | _ \<Rightarrow> ''REMOTE_REJECTED'')
          | _ \<Rightarrow> ''REMOTE_REJECTED'')"

definition interpret_success_response ::
  "(int \<Rightarrow> string \<Rightarrow> string) \<Rightarrow> http_lib \<Rightarrow> nat \<Rightarrow> transport_answer \<Rightarrow> string + json" where
  "interpret_success_response map_error lib max_bytes answer =
     (case answer of
        Transport_error code \<Rightarrow>
          Inl (if code = ''TIMEOUT'' then ''TIMEOUT''
               else if code = ''RESPONSE_TOO_LARGE'' then ''RESPONSE_TOO_LARGE'' else ''TRANSPORT_ERROR'')
      | Transport_raises \<Rightarrow> Inl ''TRANSPORT_ERROR''
      | Other_answer \<Rightarrow> Inl ''TRANSPORT_ERROR''
      | Answer r \<Rightarrow>
          if length (hr_body r) > max_bytes then Inl ''RESPONSE_TOO_LARGE''
          else if hr_status_code r \<noteq> 200 then Inl (map_error (hr_status_code r) (hr_body r))
          else if \<not> content_type_is_json (header_value (hr_headers r) ''Content-Type'') then Inl ''RESPONSE_INVALID''
          else if hr_body r = [] then Inl ''RESPONSE_INVALID''
          else case lib_loads lib (hr_body r) of None \<Rightarrow> Inl ''RESPONSE_INVALID'' | Some v \<Rightarrow> Inr v)"

text \<open>The requests that are sent come with the result.\<close>

definition post_json :: "http_lib \<Rightarrow> booking_http_config \<Rightarrow> string \<Rightarrow> payload \<Rightarrow> (exn + json) \<times> http_request list" where
  "post_json lib cfg path body_object =
     (let url = hc_base_url cfg @ path;
          fail = (\<lambda>code. Inl (BookingAvailabilityHttpError code))
      in if \<not> (starts_with url ''http://'' \<or> starts_with url ''https://'') then (fail ''CONFIG_INVALID'', [])
         else if lib_url_path lib url \<noteq> Some path then (fail ''CONFIG_INVALID'', [])
         else case lib_dumps lib body_object of
           None \<Rightarrow> (fail ''CONFIG_INVALID'', [])
         | Some body \<Rightarrow>
             if length body > MAX_REQUEST_BYTES then (fail ''CONFIG_INVALID'', [])
             else let request = json_post cfg url body
                  in (case interpret_success_response
                             (map_error_envelope AVAILABILITY_ERROR_CODE_BY_STATUS AVAILABILITY_CODE_TO_ADAPTER lib) lib
                             (hc_max_response_bytes cfg) (lib_transport lib request) of
                        Inl code \<Rightarrow> (fail code, [request])
                      | Inr v \<Rightarrow> (Inr v, [request])))"

record available_days_result =
  ad_service_id :: string
  ad_master_id :: string
  ad_month :: string
  ad_studio_today :: string
  ad_date_keys :: "string list"

record available_slots_result =
  as_service_id :: string
  as_master_id :: string
  as_date :: string
  as_studio_today :: string
  as_slots :: "available_slot list"

text \<open>The requests: service, master, and month or date, as \<open>to_json_object\<close> prints them.\<close>

definition days_request_json :: "string \<Rightarrow> string \<Rightarrow> string \<Rightarrow> payload" where
  "days_request_json service master month =
     [(''serviceId'', JStr service), (''masterId'', JStr master), (''month'', JStr month)]"

definition slots_request_json :: "string \<Rightarrow> string \<Rightarrow> string \<Rightarrow> payload" where
  "slots_request_json service master date =
     [(''serviceId'', JStr service), (''masterId'', JStr master), (''date'', JStr date)]"

definition uuid_of_json :: "json \<Rightarrow> string option" where
  "uuid_of_json v =
     (case v of
        JStr s \<Rightarrow> (case require_canonical_backend_uuid s of Inl _ \<Rightarrow> None | Inr u \<Rightarrow> Some u)
      | _ \<Rightarrow> None)"

definition month_of_json :: "json \<Rightarrow> string option" where
  "month_of_json v =
     (case v of
        JStr s \<Rightarrow> (case require_calendar_month s of Inl _ \<Rightarrow> None | Inr m \<Rightarrow> Some m)
      | _ \<Rightarrow> None)"

fun days_loop :: "string \<Rightarrow> json list \<Rightarrow> string list \<Rightarrow> string option \<Rightarrow> string list \<Rightarrow> string list option" where
  "days_loop month [] seen previous acc = Some acc"
| "days_loop month (item # rest) seen previous acc =
     (case calendar_date_of_json item of
        None \<Rightarrow> None
      | Some key \<Rightarrow>
          if int_of_digits (take 4 key) \<noteq> int_of_digits (take 4 month) \<or>
             int_of_digits (take 2 (drop 5 key)) \<noteq> int_of_digits (take 2 (drop 5 month)) then None
          else if key \<in> set seen then None
          else if (case previous of None \<Rightarrow> False | Some p \<Rightarrow> str_le key p) then None
          else days_loop month rest (key # seen) (Some key) (acc @ [key]))"

definition AVAILABLE_DAYS_SUCCESS_KEYS :: "string list" where
  "AVAILABLE_DAYS_SUCCESS_KEYS = [''ok'', ''serviceId'', ''masterId'', ''month'', ''studioToday'', ''dateKeys'']"

definition parse_available_days_success_payload ::
  "json \<Rightarrow> string \<Rightarrow> string \<Rightarrow> string \<Rightarrow> available_days_result option" where
  "parse_available_days_success_payload v service master month =
     (case v of
        JObj raw \<Rightarrow>
          if \<not> keys_are raw AVAILABLE_DAYS_SUCCESS_KEYS then None
          else if dict_get raw ''ok'' \<noteq> JBool True then None
          else (case (uuid_of_json (dict_get raw ''serviceId''), uuid_of_json (dict_get raw ''masterId''),
                      month_of_json (dict_get raw ''month''), calendar_date_of_json (dict_get raw ''studioToday'')) of
                  (Some s, Some m, Some mo, Some today) \<Rightarrow>
                    if s \<noteq> service then None
                    else if m \<noteq> master then None
                    else if mo \<noteq> month then None
                    else (case dict_get raw ''dateKeys'' of
                            JList items \<Rightarrow>
                              if length items > MAX_OFFER_DAYS then None
                              else (case days_loop mo items [] None [] of
                                      None \<Rightarrow> None
                                    | Some keys \<Rightarrow>
                                        Some \<lparr> ad_service_id = s, ad_master_id = m, ad_month = mo,
                                               ad_studio_today = today, ad_date_keys = keys \<rparr>)
                          | _ \<Rightarrow> None)
                | _ \<Rightarrow> None)
      | _ \<Rightarrow> None)"

definition parse_starts_at :: "json \<Rightarrow> string \<Rightarrow> moment option" where
  "parse_starts_at raw expected_date =
     (case starts_at_of_json raw of
        None \<Rightarrow> None
      | Some canonical \<Rightarrow> if take 10 canonical \<noteq> expected_date then None else Some (studio_moment_of_text canonical))"

definition parse_slot_object :: "json \<Rightarrow> string \<Rightarrow> string \<Rightarrow> string \<Rightarrow> available_slot option" where
  "parse_slot_object v service master expected_date =
     (case v of
        JObj raw \<Rightarrow>
          if \<not> keys_are raw [''slotId'', ''serviceId'', ''masterId'', ''startsAt''] then None
          else (case require_safe_slot_id (dict_get raw ''slotId'') of
                  None \<Rightarrow> None
                | Some slot_id \<Rightarrow>
                    if uuid_of_json (dict_get raw ''serviceId'') \<noteq> Some service then None
                    else if uuid_of_json (dict_get raw ''masterId'') \<noteq> Some master then None
                    else (case parse_starts_at (dict_get raw ''startsAt'') expected_date of
                            None \<Rightarrow> None
                          | Some starts_at \<Rightarrow>
                              (case make_slot slot_id starts_at master service of Inl _ \<Rightarrow> None | Inr s \<Rightarrow> Some s)))
      | _ \<Rightarrow> None)"

fun slots_loop ::
  "string \<Rightarrow> string \<Rightarrow> string \<Rightarrow> json list \<Rightarrow> string list \<Rightarrow> moment list \<Rightarrow> moment option \<Rightarrow> available_slot list
     \<Rightarrow> available_slot list option" where
  "slots_loop service master day [] seen_ids seen_starts previous acc = Some acc"
| "slots_loop service master day (item # rest) seen_ids seen_starts previous acc =
     (case parse_slot_object item service master day of
        None \<Rightarrow> None
      | Some slot \<Rightarrow>
          if sl_slot_id slot \<in> set seen_ids then None
          else if sl_starts_at slot \<in> set seen_starts then None
          else if (case previous of None \<Rightarrow> False | Some p \<Rightarrow> sl_starts_at slot \<le> p) then None
          else slots_loop service master day rest (sl_slot_id slot # seen_ids) (sl_starts_at slot # seen_starts)
                 (Some (sl_starts_at slot)) (acc @ [slot]))"

definition SLOTS_SUCCESS_KEYS :: "string list" where
  "SLOTS_SUCCESS_KEYS = [''ok'', ''serviceId'', ''masterId'', ''date'', ''studioToday'', ''slots'']"

definition MAX_SLOTS :: nat where "MAX_SLOTS = 288"

definition parse_available_slots_success_payload ::
  "json \<Rightarrow> string \<Rightarrow> string \<Rightarrow> string \<Rightarrow> available_slots_result option" where
  "parse_available_slots_success_payload v service master date =
     (case v of
        JObj raw \<Rightarrow>
          if \<not> keys_are raw SLOTS_SUCCESS_KEYS then None
          else if dict_get raw ''ok'' \<noteq> JBool True then None
          else (case (uuid_of_json (dict_get raw ''serviceId''), uuid_of_json (dict_get raw ''masterId''),
                      calendar_date_of_json (dict_get raw ''date''), calendar_date_of_json (dict_get raw ''studioToday'')) of
                  (Some s, Some m, Some day, Some today) \<Rightarrow>
                    if s \<noteq> service then None
                    else if m \<noteq> master then None
                    else if day \<noteq> date then None
                    else (case dict_get raw ''slots'' of
                            JList items \<Rightarrow>
                              if length items > MAX_SLOTS then None
                              else (case slots_loop s m day items [] [] None [] of
                                      None \<Rightarrow> None
                                    | Some slots \<Rightarrow>
                                        Some \<lparr> as_service_id = s, as_master_id = m, as_date = day,
                                               as_studio_today = today, as_slots = slots \<rparr>)
                          | _ \<Rightarrow> None)
                | _ \<Rightarrow> None)
      | _ \<Rightarrow> None)"

type_synonym 'a http_result = "(exn + 'a) \<times> http_request list"

definition get_available_days ::
  "http_lib \<Rightarrow> booking_http_config \<Rightarrow> settings option \<Rightarrow> string \<Rightarrow> string \<Rightarrow> string \<Rightarrow> available_days_result http_result" where
  "get_available_days lib cfg settings service master month =
     (let fail = (\<lambda>code sent. (Inl (BookingAvailabilityHttpError code), sent))
      in if \<not> is_live_booking_s2s_read_allowed settings then fail ''CONFIG_INVALID'' []
         else case (require_canonical_backend_uuid service, require_canonical_backend_uuid master) of
           (Inr s, Inr m) \<Rightarrow>
             (case require_calendar_month month of
                Inl _ \<Rightarrow> fail ''REQUEST_INVALID'' []
              | Inr mo \<Rightarrow>
                  (case post_json lib cfg ''/api/internal/bot/v1/available-days'' (days_request_json s m mo) of
                     (Inl x, sent) \<Rightarrow> (Inl x, sent)
                   | (Inr v, sent) \<Rightarrow>
                       (case parse_available_days_success_payload v s m mo of
                          None \<Rightarrow> fail ''RESPONSE_INVALID'' sent
                        | Some r \<Rightarrow> (Inr r, sent))))
         | _ \<Rightarrow> fail ''REQUEST_INVALID'' [])"

definition get_available_slots ::
  "http_lib \<Rightarrow> booking_http_config \<Rightarrow> settings option \<Rightarrow> string \<Rightarrow> string \<Rightarrow> string \<Rightarrow> available_slots_result http_result" where
  "get_available_slots lib cfg settings service master date =
     (let fail = (\<lambda>code sent. (Inl (BookingAvailabilityHttpError code), sent))
      in if \<not> is_live_booking_s2s_read_allowed settings then fail ''CONFIG_INVALID'' []
         else case (require_canonical_backend_uuid service, require_canonical_backend_uuid master) of
           (Inr s, Inr m) \<Rightarrow>
             (case require_calendar_date date of
                Inl _ \<Rightarrow> fail ''REQUEST_INVALID'' []
              | Inr day \<Rightarrow>
                  (case post_json lib cfg ''/api/internal/bot/v1/slots'' (slots_request_json s m day) of
                     (Inl x, sent) \<Rightarrow> (Inl x, sent)
                   | (Inr v, sent) \<Rightarrow>
                       (case parse_available_slots_success_payload v s m day of
                          None \<Rightarrow> fail ''RESPONSE_INVALID'' sent
                        | Some r \<Rightarrow> (Inr r, sent))))
         | _ \<Rightarrow> fail ''REQUEST_INVALID'' [])"

section \<open>Eligibility\<close>

datatype EligibilityRemoteOutcome = Remote_SELF_BOOKING_ALLOWED | Remote_MANAGER_HANDOFF

record eligibility_remote_success =
  er_outcome :: EligibilityRemoteOutcome
  er_reason_code :: "string option"
  er_selected_pair_allowed :: "bool option"
  er_service_online_in_general :: bool
  er_other_online_master_count :: int
  er_other_online_masters :: "(string \<times> string) list option"

definition eligibility_request_json :: "string \<Rightarrow> string option \<Rightarrow> bool \<Rightarrow> payload" where
  "eligibility_request_json service master include_alternatives =
     [(''serviceId'', JStr service), (''includeAlternatives'', JBool include_alternatives)] @
     (case master of None \<Rightarrow> [] | Some m \<Rightarrow> [(''masterId'', JStr m)])"

definition KNOWN_BACKEND_REASON_CODES :: "string list" where
  "KNOWN_BACKEND_REASON_CODES =
     [''STUDIO_ONLINE_DISABLED'', ''SERVICE_INACTIVE'', ''MASTER_INACTIVE'', ''ONLINE_DISABLED'',
      ''MASTER_SERVICE_UNAVAILABLE'', ''MANAGER_ONLY'']"

definition parse_alternative_master :: "json \<Rightarrow> (string \<times> string) option" where
  "parse_alternative_master v =
     (case v of
        JObj raw \<Rightarrow>
          (case dict_get raw ''id'' of
             JStr i \<Rightarrow>
               if isl (require_canonical_backend_uuid i) then None
               else (case dict_get raw ''publicName'' of
                       JStr name \<Rightarrow>
                         if name = [] \<or> length name > 256 \<or> contains_control_chars name then None
                         else Some (map lower_char i, name)
                     | _ \<Rightarrow> None)
           | _ \<Rightarrow> None)
      | _ \<Rightarrow> None)"

fun alternatives_loop :: "json list \<Rightarrow> string list \<Rightarrow> (string \<times> string) list \<Rightarrow> (string \<times> string) list option" where
  "alternatives_loop [] seen acc = Some acc"
| "alternatives_loop (item # rest) seen acc =
     (case parse_alternative_master item of
        None \<Rightarrow> None
      | Some (i, name) \<Rightarrow>
          if i \<in> set seen then None else alternatives_loop rest (i # seen) (acc @ [(i, name)]))"

definition parse_reason_code :: "json \<Rightarrow> string option option" where
  "parse_reason_code v =
     (case v of
        JNull \<Rightarrow> Some None
      | JStr s \<Rightarrow> if s \<in> set KNOWN_BACKEND_REASON_CODES then Some (Some s) else None
      | _ \<Rightarrow> None)"

definition parse_alternatives :: "payload \<Rightarrow> int \<Rightarrow> (string \<times> string) list option option" where
  "parse_alternatives raw n =
     (if \<not> dict_has raw ''otherOnlineMasters'' then Some None
      else case dict_get raw ''otherOnlineMasters'' of
        JList items \<Rightarrow>
          (case alternatives_loop items [] [] of
             None \<Rightarrow> None
           | Some parsed \<Rightarrow> if n \<noteq> int (length parsed) then None else Some (Some parsed))
      | _ \<Rightarrow> None)"

definition parse_eligibility_success_payload :: "json \<Rightarrow> eligibility_remote_success option" where
  "parse_eligibility_success_payload v =
     (case v of
        JObj raw \<Rightarrow>
          if dict_get raw ''ok'' \<noteq> JBool True then None
          else
            let outcome = (if dict_get raw ''outcome'' = JStr ''SELF_BOOKING_ALLOWED'' then Some Remote_SELF_BOOKING_ALLOWED
                           else if dict_get raw ''outcome'' = JStr ''MANAGER_HANDOFF'' then Some Remote_MANAGER_HANDOFF
                           else None);
                pair = (case dict_get raw ''selectedPairAllowed'' of JNull \<Rightarrow> Some None | JBool b \<Rightarrow> Some (Some b) | _ \<Rightarrow> None)
            in (case (outcome, parse_reason_code (dict_get raw ''reasonCode''), pair,
                      dict_get raw ''serviceOnlineInGeneral'', dict_get raw ''otherOnlineMasterCount'') of
                  (Some oc, Some reason, Some selected_pair, JBool online, JInt n) \<Rightarrow>
                    if n < 0 then None
                    else (case parse_alternatives raw n of
                            None \<Rightarrow> None
                          | Some alternatives \<Rightarrow>
                              Some \<lparr> er_outcome = oc, er_reason_code = reason, er_selected_pair_allowed = selected_pair,
                                     er_service_online_in_general = online, er_other_online_master_count = n,
                                     er_other_online_masters = alternatives \<rparr>)
                | _ \<Rightarrow> None)
      | _ \<Rightarrow> None)"

definition adapter_unavailable :: "string \<Rightarrow> string option \<Rightarrow> string \<Rightarrow> exn + eligibility_result" where
  "adapter_unavailable service master code =
     normalize_eligibility_outcome (Raw_outcome Elig_SERVICE_UNAVAILABLE) (Some service) master (Some []) (Text_reason code)"

text \<open>What the remote outcome must come with, and the outcome it means.\<close>

definition remote_outcome_consistent :: "eligibility_remote_success \<Rightarrow> string option \<Rightarrow> bool" where
  "remote_outcome_consistent remote master =
     (case er_outcome remote of
        Remote_SELF_BOOKING_ALLOWED \<Rightarrow>
          er_reason_code remote = None \<and> er_service_online_in_general remote \<and>
          er_selected_pair_allowed remote = (if master \<noteq> None then Some True else None)
      | Remote_MANAGER_HANDOFF \<Rightarrow>
          er_reason_code remote \<noteq> None \<and>
          er_selected_pair_allowed remote = (if master \<noteq> None then Some False else None))"

definition alternative_ids ::
  "eligibility_remote_success \<Rightarrow> string option \<Rightarrow> bool \<Rightarrow> string list option" where
  "alternative_ids remote master include_alternatives =
     (if include_alternatives
      then (case er_other_online_masters remote of
              None \<Rightarrow> None
            | Some masters \<Rightarrow>
                (case master of
                   None \<Rightarrow> Some (map fst masters)
                 | Some m \<Rightarrow>
                     (case require_canonical_backend_uuid m of
                        Inl _ \<Rightarrow> None
                      | Inr selected \<Rightarrow> if selected \<in> fst ` set masters then None else Some (map fst masters))))
      else if er_other_online_masters remote \<noteq> None then None else Some [])"

definition map_success_to_domain ::
  "eligibility_remote_success \<Rightarrow> string \<Rightarrow> string option \<Rightarrow> bool \<Rightarrow> exn + eligibility_result" where
  "map_success_to_domain remote service master include_alternatives =
     (if \<not> remote_outcome_consistent remote master then adapter_unavailable service master ''RESPONSE_INVALID''
      else case alternative_ids remote master include_alternatives of
        None \<Rightarrow> adapter_unavailable service master ''RESPONSE_INVALID''
      | Some ids \<Rightarrow>
          normalize_eligibility_outcome
            (Raw_outcome (case er_outcome remote of
               Remote_SELF_BOOKING_ALLOWED \<Rightarrow> SELF_BOOKING_ALLOWED | Remote_MANAGER_HANDOFF \<Rightarrow> Elig_MANAGER_HANDOFF))
            (Some service) master (Some (map Some ids))
            (case er_reason_code remote of None \<Rightarrow> No_reason | Some r \<Rightarrow> Text_reason r))"

definition validate_bearer_token :: "string \<Rightarrow> bool" where
  "validate_bearer_token raw =
     (raw \<noteq> [] \<and> 32 \<le> length raw \<and> length raw \<le> 512 \<and> list_all (\<lambda>c. 33 \<le> ord_char c \<and> ord_char c \<le> 126) raw)"

definition validate_max_response_bytes :: "nat \<Rightarrow> bool" where
  "validate_max_response_bytes n = (0 < n \<and> n \<le> 1000000)"

definition interpret_eligibility_response ::
  "http_lib \<Rightarrow> nat \<Rightarrow> string \<Rightarrow> string option \<Rightarrow> bool \<Rightarrow> transport_answer \<Rightarrow> exn + eligibility_result" where
  "interpret_eligibility_response lib max_bytes service master include_alternatives answer =
     (case interpret_success_response (\<lambda>_ _. ''REMOTE_REJECTED'') lib max_bytes answer of
        Inl code \<Rightarrow> adapter_unavailable service master code
      | Inr v \<Rightarrow>
          (case parse_eligibility_success_payload v of
             None \<Rightarrow> adapter_unavailable service master ''RESPONSE_INVALID''
           | Some remote \<Rightarrow> map_success_to_domain remote service master include_alternatives))"

definition http_check_eligibility ::
  "http_lib \<Rightarrow> booking_http_config \<Rightarrow> settings option \<Rightarrow> string \<Rightarrow> string option \<Rightarrow> bool \<Rightarrow> eligibility_result http_result" where
  "http_check_eligibility lib cfg settings service master include_alternatives =
     (let unavailable = (\<lambda>code. (adapter_unavailable service master code, [])) in
      if \<not> is_live_booking_s2s_read_allowed settings then unavailable ''CONFIG_INVALID''
      else case require_canonical_backend_uuid service of
        Inl x \<Rightarrow> (Inl x, [])
      | Inr service_id \<Rightarrow>
          (case (case master of None \<Rightarrow> Inr None
                 | Some m \<Rightarrow> (case require_canonical_backend_uuid m of Inl x \<Rightarrow> Inl x | Inr u \<Rightarrow> Inr (Some u))) of
             Inl x \<Rightarrow> (Inl x, [])
           | Inr master_id \<Rightarrow>
               let path = ''/api/internal/bot/v1/eligibility''; url = hc_base_url cfg @ path in
               if \<not> validate_bearer_token (hc_bearer_token cfg) \<or> \<not> validate_max_response_bytes (hc_max_response_bytes cfg) \<or>
                  \<not> (starts_with url ''http://'' \<or> starts_with url ''https://'')
               then unavailable ''CONFIG_INVALID''
               else if lib_url_path lib url = None then (Inl (ValueError []), [])
               else if lib_url_path lib url \<noteq> Some path then unavailable ''CONFIG_INVALID''
               else (case lib_dumps lib (eligibility_request_json service_id master_id include_alternatives) of
                       None \<Rightarrow> unavailable ''CONFIG_INVALID''
                     | Some body \<Rightarrow>
                         if length body > MAX_REQUEST_BYTES then unavailable ''CONFIG_INVALID''
                         else let request = json_post cfg url body
                              in (interpret_eligibility_response lib (hc_max_response_bytes cfg) service master
                                    include_alternatives (lib_transport lib request), [request]))))"

section \<open>What is sent\<close>

definition gated_single_post :: "booking_http_config \<Rightarrow> settings option \<Rightarrow> string \<Rightarrow> http_request list \<Rightarrow> bool" where
  "gated_single_post cfg settings path sent =
     (sent = [] \<or>
      (\<exists>st body. settings = Some st \<and> \<not> st_emergency_lock st \<and> st_bot_mode st \<in> {Mode_AUTO_READ, Mode_AUTO_WRITE} \<and>
         length body \<le> 4096 \<and> sent = [json_post cfg (hc_base_url cfg @ path) body]))"

lemma read_allowed:
  "is_live_booking_s2s_read_allowed settings \<longleftrightarrow>
     (\<exists>st. settings = Some st \<and> \<not> st_emergency_lock st \<and> st_bot_mode st \<in> {Mode_AUTO_READ, Mode_AUTO_WRITE})"
  by (cases settings) (auto simp: is_live_booking_s2s_read_allowed_def)

lemma post_json_sent:
  "snd (post_json lib cfg path body_object) = [] \<or>
   (\<exists>body. length body \<le> 4096 \<and> snd (post_json lib cfg path body_object) = [json_post cfg (hc_base_url cfg @ path) body])"
  by (force simp: post_json_def Let_def MAX_REQUEST_BYTES_def not_less split: option.splits sum.splits)

lemma gated_post: "is_live_booking_s2s_read_allowed settings \<Longrightarrow> gated_single_post cfg settings path (snd (post_json lib cfg path b))"
  using post_json_sent [of lib cfg path b] by (auto simp: gated_single_post_def read_allowed)

lemma gated_one:
  "is_live_booking_s2s_read_allowed settings \<Longrightarrow> length body \<le> 4096 \<Longrightarrow>
   gated_single_post cfg settings path [json_post cfg (hc_base_url cfg @ path) body]"
  by (auto simp: gated_single_post_def read_allowed)

lemma gated_none [simp]: "gated_single_post cfg settings path []"
  by (simp add: gated_single_post_def)

lemma days_sent: "gated_single_post cfg settings ''/api/internal/bot/v1/available-days'' (snd (get_available_days lib cfg settings service master month))"
proof -
  have "gated_single_post cfg settings path sent"
    if "post_json lib cfg path b = (r, sent)" "is_live_booking_s2s_read_allowed settings" for path b r sent
    using gated_post [OF that(2), of cfg path lib b] that(1) by simp
  then show ?thesis by (auto simp: get_available_days_def Let_def split: sum.splits prod.splits option.splits)
qed

lemma slots_sent: "gated_single_post cfg settings ''/api/internal/bot/v1/slots'' (snd (get_available_slots lib cfg settings service master date))"
proof -
  have "gated_single_post cfg settings path sent"
    if "post_json lib cfg path b = (r, sent)" "is_live_booking_s2s_read_allowed settings" for path b r sent
    using gated_post [OF that(2), of cfg path lib b] that(1) by simp
  then show ?thesis by (auto simp: get_available_slots_def Let_def split: sum.splits prod.splits option.splits)
qed

lemma eligibility_sent:
  "gated_single_post cfg settings ''/api/internal/bot/v1/eligibility'' (snd (http_check_eligibility lib cfg settings service master incl))"
  by (auto simp: http_check_eligibility_def Let_def MAX_REQUEST_BYTES_def not_less intro: gated_one
      split: sum.splits option.splits)


section \<open>What is accepted\<close>

definition backend_slot :: "string \<Rightarrow> string \<Rightarrow> string \<Rightarrow> available_slot \<Rightarrow> bool" where
  "backend_slot service master day s =
     (sl_service_id s = service \<and> sl_master_id s = master \<and> require_safe_slot_id (JStr (sl_slot_id s)) = Some (sl_slot_id s) \<and>
      (\<exists>text. require_canonical_booking_starts_at text = Inr text \<and> take 10 text = day \<and> sl_starts_at s = studio_moment_of_text text))"

lemma parse_slot_object_Some:
  assumes "parse_slot_object v service master day = Some s"
  shows "backend_slot service master day s"
proof -
  obtain raw where raw: "v = JObj raw" using assms by (auto simp: parse_slot_object_def split: json.splits)
  obtain slot_id starts where "require_safe_slot_id (dict_get raw ''slotId'') = Some slot_id"
    and starts: "parse_starts_at (dict_get raw ''startsAt'') day = Some starts"
    and mk: "make_slot slot_id starts master service = Inr s"
    using assms by (auto simp: raw parse_slot_object_def split: if_splits option.splits sum.splits)
  moreover obtain t where "starts_at_of_json (dict_get raw ''startsAt'') = Some t" "take 10 t = day"
    "starts = studio_moment_of_text t"
    using starts by (auto simp: parse_starts_at_def split: if_splits option.splits)
  moreover from this have "require_canonical_booking_starts_at t = Inr t"
    by (auto simp: starts_at_of_json_def split: json.splits sum.splits dest: starts_at_Inr)
  ultimately show ?thesis
    by (auto simp: backend_slot_def make_slot_def safe_slot_id_stable split: option.splits)
qed

lemma slots_loop_Some:
  assumes "slots_loop service master day items seen_ids seen_starts previous acc = Some slots"
    and "set seen_ids = sl_slot_id ` set acc"
    and "previous = (if acc = [] then None else Some (sl_starts_at (last acc)))"
    and "sorted_wrt (<) (map sl_starts_at acc)" and "distinct (map sl_slot_id acc)"
    and "list_all (backend_slot service master day) acc"
  shows "sorted_wrt (<) (map sl_starts_at slots) \<and> distinct (map sl_slot_id slots) \<and> list_all (backend_slot service master day) slots"
  using assms
proof (induction items arbitrary: seen_ids seen_starts previous acc)
  case (Cons item rest)
  obtain s where s: "parse_slot_object item service master day = Some s"
    and new: "sl_slot_id s \<notin> set seen_ids" "\<not> (case previous of None \<Rightarrow> False | Some p \<Rightarrow> sl_starts_at s \<le> p)"
    and rest: "slots_loop service master day rest (sl_slot_id s # seen_ids) (sl_starts_at s # seen_starts)
      (Some (sl_starts_at s)) (acc @ [s]) = Some slots"
    using Cons.prems(1) by (auto split: option.splits if_splits)
  have after: "\<forall>t\<in>set (map sl_starts_at acc). t < sl_starts_at s"
  proof (cases acc rule: rev_cases)
    case (snoc ys y)
    with Cons.prems(3,4) new(2) show ?thesis by (auto simp: sorted_wrt_append)
  qed simp
  show ?case
    by (rule Cons.IH [OF rest]) (use Cons.prems after new parse_slot_object_Some [OF s] in \<open>auto simp: sorted_wrt_append\<close>)
qed simp

lemma parse_slots_Some:
  assumes "parse_available_slots_success_payload v service master date = Some r"
  shows "as_service_id r = service \<and> as_master_id r = master \<and> as_date r = date \<and>
    sorted_wrt (<) (map sl_starts_at (as_slots r)) \<and> distinct (map sl_slot_id (as_slots r)) \<and>
    list_all (backend_slot service master date) (as_slots r)"
proof -
  obtain raw where raw: "v = JObj raw" using assms by (auto simp: parse_available_slots_success_payload_def split: json.splits)
  obtain items where "slots_loop service master date items [] [] None [] = Some (as_slots r)"
    and "as_service_id r = service" "as_master_id r = master" "as_date r = date"
    using assms unfolding raw parse_available_slots_success_payload_def
    by (auto split: if_splits option.splits json.splits)
  with slots_loop_Some [of service master date items "[]" "[]" None "[]" "as_slots r"] show ?thesis by simp
qed

lemma slots_read:
  assumes "fst (get_available_slots lib cfg settings service master date) = Inr r"
  obtains s m where "require_canonical_backend_uuid service = Inr s" "require_canonical_backend_uuid master = Inr m"
    "require_calendar_date date = Inr date" "as_service_id r = s" "as_master_id r = m" "as_date r = date"
    "sorted_wrt (<) (map sl_starts_at (as_slots r))" "distinct (map sl_slot_id (as_slots r))"
    "list_all (backend_slot s m date) (as_slots r)"
proof -
  obtain s m day v where ids: "require_canonical_backend_uuid service = Inr s" "require_canonical_backend_uuid master = Inr m"
    "require_calendar_date date = Inr day" and p: "parse_available_slots_success_payload v s m day = Some r"
    using assms by (auto simp: get_available_slots_def Let_def split: if_splits sum.splits prod.splits option.splits)
  moreover have "day = date" by (rule require_calendar_date_Inr(1) [OF ids(3)])
  ultimately show ?thesis using that parse_slots_Some [OF p] by blast
qed

definition day_of_month :: "string \<Rightarrow> string \<Rightarrow> bool" where
  "day_of_month month key =
     (require_calendar_date key = Inr key \<and> int_of_digits (take 4 key) = int_of_digits (take 4 month) \<and>
      int_of_digits (take 2 (drop 5 key)) = int_of_digits (take 2 (drop 5 month)))"

lemma calendar_json_Some: "calendar_date_of_json v = Some k \<Longrightarrow> require_calendar_date k = Inr k"
  by (auto simp: calendar_date_of_json_def split: json.splits sum.splits dest: require_calendar_date_Inr(1))

lemma ord_char_eq: "ord_char c = ord_char d \<longleftrightarrow> c = d"
  by (simp add: ord_char_def)

lemma str_le_total: "str_le a b \<or> str_le b a"
  by (induction a b rule: str_le.induct) (auto simp: not_less_iff_gr_or_eq ord_char_eq)

lemma str_le_trans: "str_le a b \<Longrightarrow> str_le b c \<Longrightarrow> str_le a c"
proof (induction a b arbitrary: c rule: str_le.induct)
  case (3 x s y t)
  then obtain z u where "c = z # u" by (cases c) auto
  with 3 show ?case by auto
qed auto

lemma days_loop_Some:
  assumes "days_loop month items seen previous acc = Some keys"
    and "previous = (if acc = [] then None else Some (last acc))"
    and "sorted_wrt (\<lambda>a b. \<not> str_le b a) acc" and "list_all (day_of_month month) acc"
  shows "sorted_wrt (\<lambda>a b. \<not> str_le b a) keys \<and> list_all (day_of_month month) keys \<and> length keys = length acc + length items"
  using assms
proof (induction items arbitrary: seen previous acc)
  case (Cons item rest)
  obtain key where key: "calendar_date_of_json item = Some key"
    and month: "int_of_digits (take 4 key) = int_of_digits (take 4 month)"
      "int_of_digits (take 2 (drop 5 key)) = int_of_digits (take 2 (drop 5 month))"
    and new: "\<not> (case previous of None \<Rightarrow> False | Some p \<Rightarrow> str_le key p)"
    and rest: "days_loop month rest (key # seen) (Some key) (acc @ [key]) = Some keys"
    using Cons.prems(1) by (auto split: option.splits if_splits)
  have after: "\<forall>k\<in>set acc. \<not> str_le key k"
  proof (cases acc rule: rev_cases)
    case (snoc ys y)
    with Cons.prems(2) new have "\<not> str_le key y" by simp
    moreover have "\<forall>k\<in>set ys. \<not> str_le y k" using Cons.prems(3) snoc by (auto simp: sorted_wrt_append)
    ultimately show ?thesis using snoc str_le_trans str_le_total by (metis Un_iff empty_iff empty_set list.set(1) list.simps(15) set_append set_ConsD)
  qed simp
  have "sorted_wrt (\<lambda>a b. \<not> str_le b a) keys \<and> list_all (day_of_month month) keys \<and> length keys = length (acc @ [key]) + length rest"
    by (rule Cons.IH [OF rest])
      (use Cons.prems after month calendar_json_Some [OF key] in \<open>auto simp: sorted_wrt_append day_of_month_def\<close>)
  then show ?case by simp
qed simp

lemma calendar_month_Inr:
  assumes "require_calendar_month value = Inr m"
  shows "m = value"
proof -
  have "fullmatch month_re value" and m: "m = pad4 (int_of_digits (take 4 value)) @ ''-'' @ pad2 (int_of_digits (take 2 (drop 5 value)))"
    using assms unfolding require_calendar_month_def Let_def by (auto split: if_splits)
  then obtain a b c d e f where v: "value = [a, b, c, d, CHR ''-'', e, f]"
    and "is_digit a" "is_digit b" "is_digit c" "is_digit d" "is_digit e" "is_digit f"
    by (auto simp: month_re_def numeral_eq_Suc)
  then show ?thesis unfolding m by (simp add: v pad4_of_digits pad2_of_digits)
qed

lemma days_read:
  assumes "fst (get_available_days lib cfg settings service master month) = Inr r"
  shows "sorted_wrt (\<lambda>a b. \<not> str_le b a) (ad_date_keys r) \<and> list_all (day_of_month month) (ad_date_keys r) \<and>
    length (ad_date_keys r) \<le> 31 \<and> require_calendar_date (ad_studio_today r) = Inr (ad_studio_today r)"
proof -
  obtain s m mo v where mo: "require_calendar_month month = Inr mo" and p: "parse_available_days_success_payload v s m mo = Some r"
    using assms by (auto simp: get_available_days_def Let_def split: if_splits sum.splits prod.splits option.splits)
  obtain raw where raw: "v = JObj raw" using p by (auto simp: parse_available_days_success_payload_def split: json.splits)
  obtain items where loop: "days_loop mo items [] None [] = Some (ad_date_keys r)" and "length items \<le> 31"
    and today: "calendar_date_of_json (dict_get raw ''studioToday'') = Some (ad_studio_today r)"
    using p unfolding raw parse_available_days_success_payload_def MAX_OFFER_DAYS_def
    by (auto split: if_splits option.splits json.splits)
  with days_loop_Some [OF loop] calendar_month_Inr [OF mo] calendar_json_Some [OF today] show ?thesis by simp
qed

end
