(* ===== verification/Booking_Input.thy ===== *)
theory Booking_Input
  imports Booking_Policy
begin

text \<open>
  The booking block of a client event: schemas/booking_input.py. It is stored as JSON in the reply plan
  (\<open>wire_dict\<close>) and read back by the worker (\<open>model_validate\<close>).

  \<open>pydantic\<close> is the validation library: how it reads a \<open>bool\<close> and a \<open>datetime\<close> (the instant with its UTC
  offset, no offset for a naive one) from a JSON value, \<open>None\<close> when it refuses. A \<open>str\<close> field takes a
  string only, models forbid other keys.

  The lemma shows that the stored block reads back as itself.
\<close>

section \<open>Data\<close>

record aware =
  dt_instant :: moment
  dt_offset :: moment

record pydantic =
  px_bool :: "json \<Rightarrow> bool option"
  px_datetime :: "json \<Rightarrow> (moment \<times> moment option) option"

record booking_slot =
  bs_slot_id :: string
  bs_starts_at :: aware
  bs_master_id :: string
  bs_service_id :: string

datatype availability_query = Query_AVAILABLE_DAYS string | Query_SLOTS string

record booking_input =
  bi_service_id :: string
  bi_master_id :: "string option"
  bi_include_alternatives :: bool
  bi_alternate_master_consent :: bool
  bi_slots :: "booking_slot list"
  bi_availability_query :: "availability_query option"
  bi_decision_at :: aware

section \<open>Printing\<close>

definition pad6 :: "int \<Rightarrow> string" where
  "pad6 n = pad2 (n div 10000) @ pad4 (n mod 10000)"

definition offset_text :: "moment \<Rightarrow> string" where
  "offset_text offset =
     (let n = abs offset div 1000000
      in (if offset < 0 then ''-'' else ''+'') @ pad2 (n div 3600) @ '':'' @ pad2 (n div 60 mod 60) @
         (if n mod 60 = 0 then [] else '':'' @ pad2 (n mod 60)))"

text \<open>\<open>datetime.isoformat()\<close> of an aware datetime whose offset is a number of seconds.\<close>

definition isoformat :: "aware \<Rightarrow> string" where
  "isoformat dt =
     (let w = wall_of (dt_instant dt + dt_offset dt)
      in date_isoformat (w_year w) (w_month w) (w_day w) @ ''T'' @ pad2 (w_hour w) @ '':'' @ pad2 (w_minute w) @ '':'' @
         pad2 (w_second w) @ (if w_microsecond w = 0 then [] else ''.'' @ pad6 (w_microsecond w)) @ offset_text (dt_offset dt))"

definition booking_slot_wire_dict :: "booking_slot \<Rightarrow> payload" where
  "booking_slot_wire_dict s =
     [(''slot_id'', JStr (bs_slot_id s)), (''starts_at'', JStr (isoformat (bs_starts_at s))),
      (''master_id'', JStr (bs_master_id s)), (''service_id'', JStr (bs_service_id s))]"

fun query_wire_dict :: "availability_query \<Rightarrow> payload" where
  "query_wire_dict (Query_AVAILABLE_DAYS month) = [(''kind'', JStr ''AVAILABLE_DAYS''), (''month'', JStr month)]"
| "query_wire_dict (Query_SLOTS date) = [(''kind'', JStr ''SLOTS''), (''date'', JStr date)]"

definition booking_wire_dict :: "booking_input \<Rightarrow> payload" where
  "booking_wire_dict b =
     [(''service_id'', JStr (bi_service_id b)), (''include_alternatives'', JBool (bi_include_alternatives b)),
      (''alternate_master_consent'', JBool (bi_alternate_master_consent b)),
      (''decision_at'', JStr (isoformat (bi_decision_at b))),
      (''slots'', JList (map (\<lambda>s. JObj (booking_slot_wire_dict s)) (bi_slots b)))] @
     (case bi_master_id b of None \<Rightarrow> [] | Some m \<Rightarrow> [(''master_id'', JStr m)]) @
     (case bi_availability_query b of None \<Rightarrow> [] | Some q \<Rightarrow> [(''availability_query'', JObj (query_wire_dict q))])"

section \<open>Validation\<close>

definition safe_id_of_json :: "json \<Rightarrow> string option" where
  "safe_id_of_json v = require_safe_slot_id v"

definition aware_of_json :: "pydantic \<Rightarrow> json \<Rightarrow> aware option" where
  "aware_of_json px v =
     (case px_datetime px v of
        Some (instant, Some offset) \<Rightarrow> Some \<lparr> dt_instant = instant, dt_offset = offset \<rparr>
      | _ \<Rightarrow> None)"

definition only_keys :: "payload \<Rightarrow> string list \<Rightarrow> bool" where
  "only_keys d ks = list_all (\<lambda>k. k \<in> set ks) (map fst d)"

definition booking_slot_validate :: "pydantic \<Rightarrow> json \<Rightarrow> booking_slot option" where
  "booking_slot_validate px v =
     (case v of
        JObj d \<Rightarrow>
          if \<not> only_keys d [''slot_id'', ''starts_at'', ''master_id'', ''service_id''] then None
          else (case (safe_id_of_json (dict_get d ''slot_id''), aware_of_json px (dict_get d ''starts_at''),
                      safe_id_of_json (dict_get d ''master_id''), safe_id_of_json (dict_get d ''service_id'')) of
                  (Some i, Some t, Some m, Some s) \<Rightarrow>
                    Some \<lparr> bs_slot_id = i, bs_starts_at = t, bs_master_id = m, bs_service_id = s \<rparr>
                | _ \<Rightarrow> None)
      | _ \<Rightarrow> None)"

definition query_validate :: "json \<Rightarrow> availability_query option" where
  "query_validate v =
     (case v of
        JObj d \<Rightarrow>
          if dict_get d ''kind'' = JStr ''AVAILABLE_DAYS'' \<and> only_keys d [''kind'', ''month'']
          then (case dict_get d ''month'' of
                  JStr m \<Rightarrow> (case require_calendar_month m of Inl _ \<Rightarrow> None | Inr mo \<Rightarrow> Some (Query_AVAILABLE_DAYS mo))
                | _ \<Rightarrow> None)
          else if dict_get d ''kind'' = JStr ''SLOTS'' \<and> only_keys d [''kind'', ''date'']
          then (case dict_get d ''date'' of
                  JStr s \<Rightarrow> (case require_calendar_date s of Inl _ \<Rightarrow> None | Inr day \<Rightarrow> Some (Query_SLOTS day))
                | _ \<Rightarrow> None)
          else None
      | _ \<Rightarrow> None)"

fun all_some :: "'a option list \<Rightarrow> 'a list option" where
  "all_some [] = Some []"
| "all_some (None # xs) = None"
| "all_some (Some x # xs) = map_option (Cons x) (all_some xs)"

text \<open>A field with a default value: absent, or given and valid.\<close>

definition optional_field :: "payload \<Rightarrow> string \<Rightarrow> 'a \<Rightarrow> (json \<Rightarrow> 'a option) \<Rightarrow> 'a option" where
  "optional_field d k missing read = (if dict_has d k then read (dict_get d k) else Some missing)"

definition BOOKING_INPUT_KEYS :: "string list" where
  "BOOKING_INPUT_KEYS =
     [''service_id'', ''master_id'', ''include_alternatives'', ''alternate_master_consent'', ''slots'', ''availability_query'',
      ''decision_at'']"

definition MAX_INPUT_SLOTS :: nat where "MAX_INPUT_SLOTS = 32"

definition booking_input_validate :: "pydantic \<Rightarrow> json \<Rightarrow> booking_input option" where
  "booking_input_validate px v =
     (case v of
        JObj d \<Rightarrow>
          if \<not> only_keys d BOOKING_INPUT_KEYS \<or> \<not> dict_has d ''include_alternatives'' \<or> \<not> dict_has d ''decision_at'' then None
          else
            let slots = optional_field d ''slots'' [] (\<lambda>x. case x of
                          JList items \<Rightarrow>
                            (case all_some (map (booking_slot_validate px) items) of
                               None \<Rightarrow> None
                             | Some ss \<Rightarrow> if length ss > MAX_INPUT_SLOTS then None else Some ss)
                        | _ \<Rightarrow> None);
                master = optional_field d ''master_id'' None (\<lambda>x. if x = JNull then Some None else map_option Some (safe_id_of_json x));
                consent = optional_field d ''alternate_master_consent'' False (px_bool px);
                query = optional_field d ''availability_query'' None (\<lambda>x. if x = JNull then Some None else map_option Some (query_validate x))
            in (case (safe_id_of_json (dict_get d ''service_id''), master, px_bool px (dict_get d ''include_alternatives''), consent,
                      slots, query, aware_of_json px (dict_get d ''decision_at'')) of
                  (Some service, Some m, Some incl, Some c, Some ss, Some q, Some at) \<Rightarrow>
                    if q \<noteq> None \<and> ss \<noteq> [] then None
                    else Some \<lparr> bi_service_id = service, bi_master_id = m, bi_include_alternatives = incl,
                                bi_alternate_master_consent = c, bi_slots = ss, bi_availability_query = q,
                                bi_decision_at = at \<rparr>
                | _ \<Rightarrow> None)
      | _ \<Rightarrow> None)"

section \<open>Round trip\<close>

definition safe_id :: "string \<Rightarrow> bool" where
  "safe_id s = (require_safe_slot_id (JStr s) = Some s)"

fun query_ok :: "availability_query \<Rightarrow> bool" where
  "query_ok (Query_AVAILABLE_DAYS month) = (require_calendar_month month = Inr month)"
| "query_ok (Query_SLOTS date) = (require_calendar_date date = Inr date)"

definition booking_slot_ok :: "booking_slot \<Rightarrow> bool" where
  "booking_slot_ok s = (safe_id (bs_slot_id s) \<and> safe_id (bs_master_id s) \<and> safe_id (bs_service_id s))"

text \<open>The validators of the schema.\<close>

definition booking_input_ok :: "booking_input \<Rightarrow> bool" where
  "booking_input_ok b =
     (safe_id (bi_service_id b) \<and> (case bi_master_id b of None \<Rightarrow> True | Some m \<Rightarrow> safe_id m) \<and>
      list_all booking_slot_ok (bi_slots b) \<and> length (bi_slots b) \<le> 32 \<and>
      (case bi_availability_query b of None \<Rightarrow> True | Some q \<Rightarrow> query_ok q) \<and>
      (bi_availability_query b = None \<or> bi_slots b = []))"

text \<open>The library reads back what \<open>isoformat\<close> printed, and a JSON boolean as itself.\<close>

definition reads_back :: "pydantic \<Rightarrow> aware \<Rightarrow> bool" where
  "reads_back px dt = (px_datetime px (JStr (isoformat dt)) = Some (dt_instant dt, Some (dt_offset dt)))"

definition pydantic_reads :: "pydantic \<Rightarrow> booking_input \<Rightarrow> bool" where
  "pydantic_reads px b =
     (px_bool px (JBool True) = Some True \<and> px_bool px (JBool False) = Some False \<and> reads_back px (bi_decision_at b) \<and>
      list_all (\<lambda>s. reads_back px (bs_starts_at s)) (bi_slots b))"

lemma aware_reads: "reads_back px dt \<Longrightarrow> aware_of_json px (JStr (isoformat dt)) = Some dt"
  by (simp add: reads_back_def aware_of_json_def)

lemma slot_round_trip:
  assumes "booking_slot_ok s" "reads_back px (bs_starts_at s)"
  shows "booking_slot_validate px (JObj (booking_slot_wire_dict s)) = Some s"
proof -
  have g: "dict_get (booking_slot_wire_dict s) ''slot_id'' = JStr (bs_slot_id s)"
    "dict_get (booking_slot_wire_dict s) ''starts_at'' = JStr (isoformat (bs_starts_at s))"
    "dict_get (booking_slot_wire_dict s) ''master_id'' = JStr (bs_master_id s)"
    "dict_get (booking_slot_wire_dict s) ''service_id'' = JStr (bs_service_id s)"
    by (simp_all add: booking_slot_wire_dict_def dict_get_def)
  have "only_keys (booking_slot_wire_dict s) [''slot_id'', ''starts_at'', ''master_id'', ''service_id'']"
    by (simp add: only_keys_def booking_slot_wire_dict_def)
  with assms aware_reads [OF assms(2)] show ?thesis
    by (simp add: booking_slot_validate_def g safe_id_of_json_def booking_slot_ok_def safe_id_def)
qed

lemma all_some_map: "(\<And>x. x \<in> set xs \<Longrightarrow> f (g x) = Some x) \<Longrightarrow> all_some (map f (map g xs)) = Some xs"
  by (induction xs) auto

lemma query_round_trip: "query_ok q \<Longrightarrow> query_validate (JObj (query_wire_dict q)) = Some q"
  by (cases q) (simp_all add: query_validate_def dict_get_def only_keys_def)

lemma booking_round_trip:
  assumes ok: "booking_input_ok b" and px: "pydantic_reads px b"
  shows "booking_input_validate px (JObj (booking_wire_dict b)) = Some b"
proof -
  let ?d = "booking_wire_dict b"
  have g: "dict_get ?d ''service_id'' = JStr (bi_service_id b)" "dict_get ?d ''include_alternatives'' = JBool (bi_include_alternatives b)"
    "dict_get ?d ''decision_at'' = JStr (isoformat (bi_decision_at b))"
    "dict_has ?d ''include_alternatives''" "dict_has ?d ''decision_at''"
    by (simp_all add: booking_wire_dict_def dict_get_def dict_has_def)
  have o: "optional_field ?d ''slots'' [] f = f (JList (map (\<lambda>s. JObj (booking_slot_wire_dict s)) (bi_slots b)))" for f
    by (simp add: booking_wire_dict_def dict_get_def dict_has_def optional_field_def)
  have c: "optional_field ?d ''alternate_master_consent'' False f = f (JBool (bi_alternate_master_consent b))" for f
    by (simp add: booking_wire_dict_def dict_get_def dict_has_def optional_field_def)
  have m: "optional_field ?d ''master_id'' None f = (case bi_master_id b of None \<Rightarrow> Some None | Some i \<Rightarrow> f (JStr i))" for f :: "json \<Rightarrow> string option option"
    by (auto simp: booking_wire_dict_def dict_get_def dict_has_def optional_field_def split: option.splits)
  have q: "optional_field ?d ''availability_query'' None f =
      (case bi_availability_query b of None \<Rightarrow> Some None | Some i \<Rightarrow> f (JObj (query_wire_dict i)))" for f :: "json \<Rightarrow> availability_query option option"
    by (auto simp: booking_wire_dict_def dict_get_def dict_has_def optional_field_def split: option.splits)
  have keys: "only_keys ?d BOOKING_INPUT_KEYS"
    by (simp add: only_keys_def booking_wire_dict_def BOOKING_INPUT_KEYS_def split: option.splits)
  have slots: "all_some (map (booking_slot_validate px) (map (\<lambda>s. JObj (booking_slot_wire_dict s)) (bi_slots b))) = Some (bi_slots b)"
    using ok px by (intro all_some_map slot_round_trip) (auto simp: booking_input_ok_def pydantic_reads_def list_all_iff)
  have bools: "px_bool px (JBool x) = Some x" for x using px by (cases x) (simp_all add: pydantic_reads_def)
  have at: "aware_of_json px (JStr (isoformat (bi_decision_at b))) = Some (bi_decision_at b)"
    using px by (intro aware_reads) (simp add: pydantic_reads_def)
  have ids: "require_safe_slot_id (JStr (bi_service_id b)) = Some (bi_service_id b)"
    "bi_master_id b = Some i \<Longrightarrow> require_safe_slot_id (JStr i) = Some i" for i
    using ok by (simp_all add: booking_input_ok_def safe_id_def)
  have query: "bi_availability_query b = Some i \<Longrightarrow> query_validate (JObj (query_wire_dict i)) = Some i" for i
    using ok by (simp add: booking_input_ok_def query_round_trip)
  have few: "\<not> length (bi_slots b) > MAX_INPUT_SLOTS" "\<not> (bi_availability_query b \<noteq> None \<and> bi_slots b \<noteq> [])"
    using ok by (auto simp: booking_input_ok_def MAX_INPUT_SLOTS_def)
  show ?thesis
    unfolding booking_input_validate_def json.case Let_def g o c m q safe_id_of_json_def
    using few by (cases "bi_master_id b"; cases "bi_availability_query b") (simp_all add: keys g slots bools at ids query del: map_map)
qed

end
