(* ===== verification/Booking_Flow.thy ===== *)
theory Booking_Flow
  imports Booking_Http Booking_Input
begin

text \<open>
  From a booking block to the fields of a reply: the read half of services/booking_flow.py
  (\<open>BookingFlowService\<close>), and \<open>resolve_booking_outbound_fields\<close> with \<open>decision_to_outbound_fields\<close> of
  services/booking_synthetic.py. The checks \<open>type(x) is\<close> of arguments that a constructor has already
  typed are left out.

  The lemmas show that an offer of slots read from the backend survives the sanitizer that the worker
  runs before it stores the result, and that an offer of two slots with the same start does not.
\<close>

section \<open>The service\<close>

record booking_flow =
  bf_eligibility_flow :: "eligibility_client option option"
  bf_available_days :: "(string \<Rightarrow> string \<Rightarrow> string \<Rightarrow> exn + available_days_result option) option"
  bf_available_slots :: "(string \<Rightarrow> string \<Rightarrow> string \<Rightarrow> exn + available_slots_result option) option"
  bf_tz :: "moment \<Rightarrow> moment"

definition manager_bound_unavailable :: "string \<Rightarrow> exn + booking_decision" where
  "manager_bound_unavailable reason = make_unavailable Kind_SERVICE_TEMPORARILY_UNAVAILABLE (Some reason)"

definition flow_manager_handoff :: "(moment \<Rightarrow> moment) \<Rightarrow> moment \<Rightarrow> string \<Rightarrow> exn + booking_decision" where
  "flow_manager_handoff tz now reason = handoff_decision tz now (Some reason)"

definition map_availability_error :: "string \<Rightarrow> exn + booking_decision" where
  "map_availability_error code =
     (if code = ''CONFIG_INVALID'' then manager_bound_unavailable ''AVAILABILITY_CLIENT_UNAVAILABLE''
      else if code = ''REQUEST_INVALID'' then manager_bound_unavailable ''AVAILABILITY_REQUEST_INVALID''
      else manager_bound_unavailable ''AVAILABILITY_SERVICE_UNAVAILABLE'')"

definition availability_exception :: "exn \<Rightarrow> exn + booking_decision" where
  "availability_exception x =
     (case x of
        BookingAvailabilityHttpError code \<Rightarrow> map_availability_error code
      | _ \<Rightarrow> manager_bound_unavailable ''AVAILABILITY_SERVICE_UNAVAILABLE'')"

definition eligibility_confirmed_master :: "string option \<Rightarrow> eligibility_result \<Rightarrow> string + string" where
  "eligibility_confirmed_master requested eligibility =
     (case el_selected_master eligibility of
        None \<Rightarrow> Inl ''MALFORMED_ELIGIBILITY''
      | Some selected \<Rightarrow>
          (case requested of
             None \<Rightarrow> Inr selected
           | Some r \<Rightarrow> if r \<noteq> selected then Inl ''ELIGIBILITY_MASTER_MISMATCH'' else Inr selected))"

text \<open>\<open>except Exception\<close> around the policy.\<close>

definition decided :: "exn + booking_decision \<Rightarrow> exn + booking_decision" where
  "decided r = (case r of Inl _ \<Rightarrow> manager_bound_unavailable ''ELIGIBILITY_SERVICE_UNAVAILABLE'' | Inr d \<Rightarrow> Inr d)"

definition booking_resolve ::
  "booking_flow \<Rightarrow> string \<Rightarrow> string option \<Rightarrow> raw_slots \<Rightarrow> moment \<Rightarrow> bool \<Rightarrow> bool \<Rightarrow> exn + booking_decision" where
  "booking_resolve bf service master raw now include_alternatives consent =
     (case bf_eligibility_flow bf of
        None \<Rightarrow> manager_bound_unavailable ''BOOKING_FLOW_UNAVAILABLE''
      | Some client \<Rightarrow> decided (flow_resolve (bf_tz bf) client service master raw now include_alternatives consent))"

text \<open>The common beginning of both availability reads: one eligibility check, then the master it confirms.\<close>

definition with_confirmed_master ::
  "booking_flow \<Rightarrow> string \<Rightarrow> string option \<Rightarrow> moment \<Rightarrow> bool \<Rightarrow> bool
     \<Rightarrow> (eligibility_result \<Rightarrow> string \<Rightarrow> exn + booking_decision) \<Rightarrow> exn + booking_decision" where
  "with_confirmed_master bf service master now include_alternatives consent continue =
     (case bf_eligibility_flow bf of
        None \<Rightarrow> manager_bound_unavailable ''BOOKING_FLOW_UNAVAILABLE''
      | Some client \<Rightarrow>
          (case flow_check_eligibility client service master include_alternatives of
             Inl _ \<Rightarrow> manager_bound_unavailable ''ELIGIBILITY_SERVICE_UNAVAILABLE''
           | Inr eligibility \<Rightarrow>
               if el_outcome eligibility \<noteq> SELF_BOOKING_ALLOWED
               then decided (decide_booking_dialog (bf_tz bf) eligibility (Some []) now consent)
               else (case eligibility_confirmed_master master eligibility of
                       Inl reason \<Rightarrow> manager_bound_unavailable reason
                     | Inr confirmed \<Rightarrow> continue eligibility confirmed)))"

definition resolve_available_days ::
  "booking_flow \<Rightarrow> string \<Rightarrow> string option \<Rightarrow> string \<Rightarrow> moment \<Rightarrow> bool \<Rightarrow> bool \<Rightarrow> exn + booking_decision" where
  "resolve_available_days bf service master month now include_alternatives consent =
     (case require_calendar_month month of
        Inl _ \<Rightarrow> manager_bound_unavailable ''AVAILABILITY_REQUEST_INVALID''
      | Inr canonical_month \<Rightarrow>
          with_confirmed_master bf service master now include_alternatives consent (\<lambda>eligibility confirmed.
          (case bf_available_days bf of
             None \<Rightarrow> manager_bound_unavailable ''AVAILABILITY_CLIENT_UNAVAILABLE''
           | Some days \<Rightarrow>
               (case days service confirmed canonical_month of
                  Inl x \<Rightarrow> availability_exception x
                | Inr None \<Rightarrow> manager_bound_unavailable ''AVAILABILITY_SERVICE_UNAVAILABLE''
                | Inr (Some remote) \<Rightarrow>
                    if ad_date_keys remote = [] then flow_manager_handoff (bf_tz bf) now ''NO_AVAILABLE_DAYS''
                    else make_days_offer (ad_date_keys remote) (ad_studio_today remote)))))"

definition resolve_available_slots ::
  "booking_flow \<Rightarrow> string \<Rightarrow> string option \<Rightarrow> string \<Rightarrow> moment \<Rightarrow> bool \<Rightarrow> bool \<Rightarrow> exn + booking_decision" where
  "resolve_available_slots bf service master date now include_alternatives consent =
     (case require_calendar_date date of
        Inl _ \<Rightarrow> manager_bound_unavailable ''AVAILABILITY_REQUEST_INVALID''
      | Inr canonical_date \<Rightarrow>
          with_confirmed_master bf service master now include_alternatives consent (\<lambda>eligibility confirmed.
          (case bf_available_slots bf of
             None \<Rightarrow> manager_bound_unavailable ''AVAILABILITY_CLIENT_UNAVAILABLE''
           | Some slots \<Rightarrow>
               (case slots service confirmed canonical_date of
                  Inl x \<Rightarrow> availability_exception x
                | Inr None \<Rightarrow> manager_bound_unavailable ''AVAILABILITY_SERVICE_UNAVAILABLE''
                | Inr (Some remote) \<Rightarrow>
                    decided (decide_booking_dialog (bf_tz bf) eligibility (Some (map Some (as_slots remote))) now consent)))))"

section \<open>Fields of the reply\<close>

definition booking_fields :: "string \<Rightarrow> json \<Rightarrow> BookingClientMessageKind \<Rightarrow> payload" where
  "booking_fields action reason kind =
     [(''booking_action'', JStr action), (''booking_reason'', reason), (''client_message_kind'', JStr (message_kind_value kind))]"

definition unavailable_fields :: "string \<Rightarrow> payload" where
  "unavailable_fields reason = booking_fields ''SERVICE_UNAVAILABLE'' (JStr reason) Kind_SERVICE_TEMPORARILY_UNAVAILABLE"

fun format_all :: "available_slot list \<Rightarrow> exn + json list" where
  "format_all [] = Inr []"
| "format_all (s # ss) =
     (case format_canonical_booking_starts_at (sl_starts_at s) of
        Inl x \<Rightarrow> Inl x
      | Inr t \<Rightarrow>
          (case format_all ss of
             Inl x \<Rightarrow> Inl x
           | Inr js \<Rightarrow> Inr (JObj [(''slot_id'', JStr (sl_slot_id s)), (''starts_at'', JStr t)] # js)))"

definition json_of_reason :: "string option \<Rightarrow> json" where
  "json_of_reason r = (case r of None \<Rightarrow> JNull | Some s \<Rightarrow> JStr s)"

definition decision_to_outbound_fields :: "booking_decision \<Rightarrow> exn + payload" where
  "decision_to_outbound_fields decision =
     (case decision of
        SlotOfferDecision slots kind \<Rightarrow>
          (case format_all slots of
             Inl x \<Rightarrow> Inl x
           | Inr offered \<Rightarrow>
               Inr [(''booking_action'', JStr ''OFFER_SLOTS''), (''booking_reason'', JNull),
                    (''booking_offered_slot_ids'', JList (map (\<lambda>s. JStr (sl_slot_id s)) slots)),
                    (''booking_offered_slots'', JList offered), (''client_message_kind'', JStr (message_kind_value kind))])
      | AvailableDaysOfferDecision keys today \<Rightarrow>
          Inr [(''booking_action'', JStr ''OFFER_DAYS''), (''booking_reason'', JNull),
               (''booking_available_date_keys'', JList (map JStr keys)), (''booking_studio_today'', JStr today)]
      | ManagerHandoffDecision kind during r \<Rightarrow>
          Inr (booking_fields ''MANAGER_HANDOFF'' (allowlisted_reason (json_of_reason r)) kind)
      | ServiceUnavailableDecision kind r \<Rightarrow>
          Inr (booking_fields ''SERVICE_UNAVAILABLE'' (allowlisted_reason (json_of_reason r)) kind))"

definition parse_booking_fixture :: "pydantic \<Rightarrow> json \<Rightarrow> exn + booking_input option" where
  "parse_booking_fixture px raw =
     (case raw of
        JNull \<Rightarrow> Inr None
      | JObj _ \<Rightarrow>
          (case booking_input_validate px raw of
             None \<Rightarrow> Inl (ValueError ''BOOKING_INPUT_INVALID'')
           | Some b \<Rightarrow> Inr (Some b))
      | _ \<Rightarrow> Inl (ValueError ''BOOKING_INPUT_INVALID''))"

fun all_inr :: "(exn + 'a) list \<Rightarrow> exn + 'a list" where
  "all_inr [] = Inr []"
| "all_inr (Inl x # rs) = Inl x"
| "all_inr (Inr a # rs) = (case all_inr rs of Inl x \<Rightarrow> Inl x | Inr as \<Rightarrow> Inr (a # as))"

text \<open>The body of the \<open>try\<close>.\<close>

definition fixture_decision :: "booking_flow \<Rightarrow> booking_input \<Rightarrow> exn + booking_decision" where
  "fixture_decision bf b =
     (case first_error (map require_non_empty_id (bi_service_id b # (case bi_master_id b of None \<Rightarrow> [] | Some m \<Rightarrow> [m]))) of
        Some x \<Rightarrow> Inl x
      | None \<Rightarrow>
          let now = dt_instant (bi_decision_at b); incl = bi_include_alternatives b; consent = bi_alternate_master_consent b
          in (case bi_availability_query b of
                Some (Query_AVAILABLE_DAYS month) \<Rightarrow>
                  resolve_available_days bf (bi_service_id b) (bi_master_id b) month now incl consent
              | Some (Query_SLOTS date) \<Rightarrow>
                  resolve_available_slots bf (bi_service_id b) (bi_master_id b) date now incl consent
              | None \<Rightarrow>
                  (case all_inr (map (\<lambda>s. make_slot (bs_slot_id s) (dt_instant (bs_starts_at s)) (bs_master_id s) (bs_service_id s))
                           (bi_slots b)) of
                     Inl x \<Rightarrow> Inl x
                   | Inr slots \<Rightarrow>
                       booking_resolve bf (bi_service_id b) (bi_master_id b) (Some (map Some slots)) now incl consent)))"

fun is_caught_by_resolution :: "exn \<Rightarrow> bool" where
  "is_caught_by_resolution (BookingDomainError _) = True"
| "is_caught_by_resolution (ValueError _) = True"
| "is_caught_by_resolution (TypeError _) = True"
| "is_caught_by_resolution _ = False"

definition resolve_booking_outbound_fields :: "pydantic \<Rightarrow> booking_flow \<Rightarrow> payload \<Rightarrow> exn + payload" where
  "resolve_booking_outbound_fields px bf plan_payload =
     (if \<not> dict_has plan_payload ''booking'' then Inr []
      else case parse_booking_fixture px (dict_get plan_payload ''booking'') of
        Inl _ \<Rightarrow> Inr (unavailable_fields ''MALFORMED_ELIGIBILITY'')
      | Inr None \<Rightarrow> Inr (unavailable_fields ''MALFORMED_ELIGIBILITY'')
      | Inr (Some b) \<Rightarrow>
          (case fixture_decision bf b of
             Inl x \<Rightarrow>
               if is_caught_by_resolution x then Inr (unavailable_fields ''ELIGIBILITY_SERVICE_UNAVAILABLE'') else Inl x
           | Inr decision \<Rightarrow> decision_to_outbound_fields decision))"

section \<open>Composition\<close>

text \<open>
  \<open>build_booking_flow_from_settings\<close> of core/booking_eligibility_factory.py: \<open>cfg\<close> is the shared configuration
  (\<open>None\<close> when the integration is not configured).
\<close>

definition port_of :: "'a http_result \<Rightarrow> exn + 'a option" where
  "port_of r = (case fst r of Inl x \<Rightarrow> Inl x | Inr a \<Rightarrow> Inr (Some a))"

definition build_booking_flow :: "http_lib \<Rightarrow> booking_http_config option \<Rightarrow> settings option \<Rightarrow> (moment \<Rightarrow> moment) \<Rightarrow> booking_flow" where
  "build_booking_flow lib cfg settings tz =
     (case cfg of
        Some c \<Rightarrow>
          if is_live_booking_s2s_read_allowed settings
          then \<lparr> bf_eligibility_flow = Some (Some (\<lambda>s m incl. port_of (http_check_eligibility lib c settings s m incl))),
                 bf_available_days = Some (\<lambda>s m month. port_of (get_available_days lib c settings s m month)),
                 bf_available_slots = Some (\<lambda>s m date. port_of (get_available_slots lib c settings s m date)), bf_tz = tz \<rparr>
          else \<lparr> bf_eligibility_flow = Some None, bf_available_days = None, bf_available_slots = None, bf_tz = tz \<rparr>
      | None \<Rightarrow> \<lparr> bf_eligibility_flow = Some None, bf_available_days = None, bf_available_slots = None, bf_tz = tz \<rparr>)"

section \<open>What the sanitizer keeps\<close>

lemma slot_ids_kept:
  assumes "list_all safe_id ids" and "distinct ids" and "set ids \<inter> set seen = {}"
  shows "slot_ids_loop (map JStr ids) seen acc = Some (acc @ ids)"
  using assms
proof (induction ids arbitrary: seen acc)
  case (Cons i ids)
  then have "slot_ids_loop (map JStr ids) (i # seen) (acc @ [i]) = Some ((acc @ [i]) @ ids)" by (intro Cons.IH) auto
  with Cons.prems show ?case by (simp add: safe_id_def)
qed simp

definition offered_json :: "string \<times> string \<Rightarrow> json" where
  "offered_json p = JObj [(''slot_id'', JStr (fst p)), (''starts_at'', JStr (snd p))]"

lemma offered_json_step:
  "offered_slots_loop ((i, offered_json (i, t)) # rest) seen_ids seen_starts previous acc =
     (if \<not> safe_id i \<or> i \<in> set seen_ids \<or> starts_at_of_json (JStr t) = None \<or> t \<in> set seen_starts \<or>
         (case previous of None \<Rightarrow> False | Some p \<Rightarrow> str_le t p) then None
      else offered_slots_loop rest (i # seen_ids) (t # seen_starts) (Some t) (acc @ [offered_json (i, t)]))"
proof -
  have keys: "keys_are [(''slot_id'', JStr i), (''starts_at'', JStr t)] [''slot_id'', ''starts_at'']"
    by (simp add: keys_are_def)
  have id: "require_safe_slot_id (JStr i) = (if safe_id i then Some i else None)"
    by (auto simp: safe_id_def require_safe_slot_id_def)
  have t: "starts_at_of_json (JStr t) = None \<or> starts_at_of_json (JStr t) = Some t"
    by (auto simp: starts_at_of_json_def split: sum.splits dest: starts_at_Inr)
  have get: "dict_get [(''slot_id'', JStr i), (''starts_at'', JStr t)] ''slot_id'' = JStr i"
    "dict_get [(''slot_id'', JStr i), (''starts_at'', JStr t)] ''starts_at'' = JStr t"
    by (simp_all add: dict_get_def)
  show ?thesis
    using t by (auto simp: offered_json_def keys id get)
qed

lemma offered_kept:
  assumes "list_all safe_id (map fst ps)" and "distinct (map fst ps)" and "fst ` set ps \<inter> set seen_ids = {}"
    and "list_all (\<lambda>p. starts_at_of_json (JStr (snd p)) \<noteq> None) ps"
    and "sorted_wrt (\<lambda>a b. \<not> str_le b a) (map snd ps)"
    and "\<forall>t\<in>set seen_starts. \<forall>p\<in>set ps. \<not> str_le (snd p) t"
    and "case previous of None \<Rightarrow> True | Some t \<Rightarrow> t \<in> set seen_starts"
  shows "offered_slots_loop (zip (map fst ps) (map offered_json ps)) seen_ids seen_starts previous acc =
    Some (acc @ map offered_json ps)"
  using assms
proof (induction ps arbitrary: seen_ids seen_starts previous acc)
  case (Cons p ps)
  obtain i t where p: "p = (i, t)" by (cases p)
  have refl: "str_le t t" using str_le_total [of t t] by blast
  have new: "t \<notin> set seen_starts" "\<not> (case previous of None \<Rightarrow> False | Some u \<Rightarrow> str_le t u)"
    using Cons.prems(6,7) refl by (auto simp: p split: option.splits)
  have "offered_slots_loop (zip (map fst ps) (map offered_json ps)) (i # seen_ids) (t # seen_starts) (Some t) (acc @ [offered_json (i, t)]) =
      Some ((acc @ [offered_json (i, t)]) @ map offered_json ps)"
    by (rule Cons.IH) (use Cons.prems in \<open>auto simp: p\<close>)
  with Cons.prems new show ?case by (simp add: p offered_json_step del: offered_slots_loop.simps(2))
qed simp

lemma offered_distinct_starts:
  assumes "offered_slots_loop (zip (map fst ps) (map offered_json ps)) seen_ids seen_starts previous acc = Some out"
  shows "distinct (map snd ps) \<and> snd ` set ps \<inter> set seen_starts = {}"
  using assms
proof (induction ps arbitrary: seen_ids seen_starts previous acc)
  case (Cons p ps)
  obtain i t where p: "p = (i, t)" by (cases p)
  have rest: "offered_slots_loop (zip (map fst ps) (map offered_json ps)) (i # seen_ids) (t # seen_starts) (Some t)
      (acc @ [offered_json (i, t)]) = Some out" and "t \<notin> set seen_starts"
    using Cons.prems by (simp_all add: p offered_json_step del: offered_slots_loop.simps(2) split: if_splits)
  with Cons.IH [OF rest] show ?case by (auto simp: p)
qed simp

definition offer_fields :: "(string \<times> string) list \<Rightarrow> payload" where
  "offer_fields ps =
     [(''booking_action'', JStr ''OFFER_SLOTS''), (''booking_reason'', JNull),
      (''booking_offered_slot_ids'', JList (map JStr (map fst ps))), (''booking_offered_slots'', JList (map offered_json ps)),
      (''client_message_kind'', JStr ''OFFER_SLOTS'')]"

lemma sanitize_offer:
  "sanitize_booking_result_fields (JObj (offer_fields ps)) =
     (case sanitize_slot_ids_list (JList (map JStr (map fst ps))) of
        None \<Rightarrow> interrupted_booking_fields
      | Some ids \<Rightarrow>
          (case sanitize_offered_slots_new ids (JList (map offered_json ps)) of
             None \<Rightarrow> interrupted_booking_fields
           | Some js \<Rightarrow>
               [(''booking_action'', JStr ''OFFER_SLOTS''), (''booking_reason'', JNull),
                (''booking_offered_slot_ids'', JList (map JStr ids)), (''booking_offered_slots'', JList js),
                (''client_message_kind'', JStr ''OFFER_SLOTS'')]))"
proof -
  have get: "dict_get (offer_fields ps) ''booking_action'' = JStr ''OFFER_SLOTS''"
    "dict_get (offer_fields ps) ''booking_reason'' = JNull"
    "dict_get (offer_fields ps) ''booking_offered_slot_ids'' = JList (map JStr (map fst ps))"
    "dict_get (offer_fields ps) ''booking_offered_slots'' = JList (map offered_json ps)"
    "dict_get (offer_fields ps) ''client_message_kind'' = JStr ''OFFER_SLOTS''"
    by (simp_all add: offer_fields_def dict_get_def)
  have keys: "\<not> keys_are (offer_fields ps) OFFER_SLOTS_LEGACY_KEYS"
    "\<not> keys_are (offer_fields ps) (OFFER_SLOTS_LEGACY_KEYS @ [''client_message_kind''])"
    "keys_are (offer_fields ps) (OFFER_SLOTS_NEW_KEYS @ [''client_message_kind''])"
    by (simp_all add: keys_are_def offer_fields_def OFFER_SLOTS_LEGACY_KEYS_def OFFER_SLOTS_NEW_KEYS_def)
  show ?thesis
    unfolding sanitize_booking_result_fields_def json.case get sanitize_offer_slots_fields_def sanitize_offer_slots_new_shape_def
    by (simp add: keys get BOOKING_DIALOG_ACTIONS_def with_offer_slots_kind_def optional_offer_slots_kind_def Let_def
        del: map_map split: option.splits)
qed

lemma offer_kept:
  assumes "ps \<noteq> []" "length ps \<le> 3" and "list_all safe_id (map fst ps)" and "distinct (map fst ps)"
    and "list_all (\<lambda>p. starts_at_of_json (JStr (snd p)) \<noteq> None) ps" and "sorted_wrt (\<lambda>a b. \<not> str_le b a) (map snd ps)"
  shows "sanitize_booking_result_fields (JObj (offer_fields ps)) = offer_fields ps"
proof -
  have "sanitize_slot_ids_list (JList (map JStr (map fst ps))) = Some (map fst ps)"
    unfolding sanitize_slot_ids_list_def json.case using assms slot_ids_kept [of "map fst ps" "[]" "[]"]
    by (simp add: MAX_OFFERED_SLOTS_def del: map_map)
  moreover have "sanitize_offered_slots_new (map fst ps) (JList (map offered_json ps)) = Some (map offered_json ps)"
    unfolding sanitize_offered_slots_new_def json.case using assms offered_kept [of ps "[]" "[]" None "[]"]
    by (simp add: MAX_OFFERED_SLOTS_def)
  ultimately show ?thesis unfolding sanitize_offer by (simp add: offer_fields_def)
qed

lemma offer_same_start_lost:
  assumes "\<not> distinct (map snd ps)"
  shows "sanitize_booking_result_fields (JObj (offer_fields ps)) = interrupted_booking_fields"
proof -
  have ids: "sanitize_slot_ids_list (JList (map JStr (map fst ps))) \<in> {None, Some (map fst ps)}"
  proof -
    have "slot_ids_loop (map JStr xs) seen acc = Some ys \<Longrightarrow> ys = acc @ xs" for xs seen acc ys
    proof (induction xs arbitrary: seen acc)
      case (Cons x xs)
      then have "slot_ids_loop (map JStr xs) (x # seen) (acc @ [x]) = Some ys"
        by (auto simp: require_safe_slot_id_def split: option.splits if_splits)
      from Cons.IH [OF this] show ?case by simp
    qed simp
    from this [of "map fst ps" "[]" "[]"] show ?thesis
      unfolding sanitize_slot_ids_list_def json.case by (cases "slot_ids_loop (map JStr (map fst ps)) [] []") (auto simp del: map_map)
  qed
  have "sanitize_offered_slots_new (map fst ps) (JList (map offered_json ps)) = None"
    using assms offered_distinct_starts [of ps "[]" "[]" None "[]"]
    unfolding sanitize_offered_slots_new_def json.case
    by (cases "offered_slots_loop (zip (map fst ps) (map offered_json ps)) [] [] None []") auto
  with ids show ?thesis unfolding sanitize_offer by auto
qed

section \<open>Offers as fields\<close>

definition offered_pairs :: "available_slot list \<Rightarrow> (string \<times> string) list" where
  "offered_pairs slots = map (\<lambda>s. (sl_slot_id s, projr (format_canonical_booking_starts_at (sl_starts_at s)))) slots"

lemma format_all_Inr:
  "format_all slots = Inr js \<longleftrightarrow>
     list_all (\<lambda>s. \<not> isl (format_canonical_booking_starts_at (sl_starts_at s))) slots \<and> js = map offered_json (offered_pairs slots)"
proof (induction slots arbitrary: js)
  case (Cons s ss)
  then show ?case
    by (cases "format_canonical_booking_starts_at (sl_starts_at s)"; cases "format_all ss")
      (auto simp: offered_pairs_def offered_json_def)
qed (auto simp: offered_pairs_def)

lemma offer_to_fields:
  "decision_to_outbound_fields (SlotOfferDecision slots Kind_OFFER_SLOTS) = Inr f \<longleftrightarrow>
     list_all (\<lambda>s. \<not> isl (format_canonical_booking_starts_at (sl_starts_at s))) slots \<and> f = offer_fields (offered_pairs slots)"
proof (cases "format_all slots")
  case (Inl x)
  then show ?thesis using format_all_Inr [of slots "map offered_json (offered_pairs slots)"]
    by (auto simp: decision_to_outbound_fields_def)
next
  case (Inr js)
  then show ?thesis using format_all_Inr [of slots js]
    by (auto simp: decision_to_outbound_fields_def offer_fields_def offered_pairs_def)
qed

lemma formats:
  "\<not> isl (format_canonical_booking_starts_at t) \<longleftrightarrow> on_the_minute t"
  "on_the_minute t \<Longrightarrow> format_canonical_booking_starts_at t = Inr (starts_at_text (wall_of (t + STUDIO_UTC_OFFSET)))"
proof -
  show printed: "on_the_minute t \<Longrightarrow> format_canonical_booking_starts_at t = Inr (starts_at_text (wall_of (t + STUDIO_UTC_OFFSET)))"
    by (simp add: format_starts_at)
  show "\<not> isl (format_canonical_booking_starts_at t) \<longleftrightarrow> on_the_minute t"
  proof
    assume "\<not> isl (format_canonical_booking_starts_at t)"
    then obtain s where "format_canonical_booking_starts_at t = Inr s" by (cases "format_canonical_booking_starts_at t") auto
    then show "on_the_minute t" by (simp add: format_starts_at)
  qed (simp add: format_starts_at [THEN iffD2])
qed

lemma formatted_accepted: "on_the_minute t \<Longrightarrow> starts_at_of_json (JStr (projr (format_canonical_booking_starts_at t))) \<noteq> None"
  using starts_text_accepted [of "t + STUDIO_UTC_OFFSET"]
  by (simp add: formats starts_at_of_json_def on_the_minute_def)

lemma sorted_pairs:
  assumes "sorted_wrt (<) (map sl_starts_at slots)" and "list_all (\<lambda>s. on_the_minute (sl_starts_at s)) slots"
  shows "sorted_wrt (\<lambda>a b. \<not> str_le b a) (map snd (offered_pairs slots))"
  using assms
proof (induction slots)
  case (Cons s ss)
  have "\<not> str_le (projr (format_canonical_booking_starts_at (sl_starts_at x))) (projr (format_canonical_booking_starts_at (sl_starts_at s)))"
    if "x \<in> set ss" for x
    using Cons.prems that
    by (intro format_starts_at_less [of "sl_starts_at s" _ "sl_starts_at x"]) (auto simp: formats list_all_iff)
  with Cons show ?case by (auto simp: offered_pairs_def)
qed (simp add: offered_pairs_def)

lemma slot_offer_survives:
  assumes "slots \<noteq> []" "length slots \<le> 3" and "sorted_wrt (<) (map sl_starts_at slots)" and "distinct (map sl_slot_id slots)"
    and "list_all (\<lambda>s. on_the_minute (sl_starts_at s) \<and> safe_id (sl_slot_id s)) slots"
  shows "\<exists>f. decision_to_outbound_fields (SlotOfferDecision slots Kind_OFFER_SLOTS) = Inr f \<and> sanitize_booking_result_fields (JObj f) = f"
proof -
  have "sanitize_booking_result_fields (JObj (offer_fields (offered_pairs slots))) = offer_fields (offered_pairs slots)"
  proof (rule offer_kept)
    show "sorted_wrt (\<lambda>a b. \<not> str_le b a) (map snd (offered_pairs slots))"
      using assms by (intro sorted_pairs) (auto simp: list_all_iff)
    show "list_all (\<lambda>p. starts_at_of_json (JStr (snd p)) \<noteq> None) (offered_pairs slots)"
      using assms(5) formatted_accepted by (auto simp: offered_pairs_def list_all_iff)
  qed (use assms in \<open>auto simp: offered_pairs_def list_all_iff comp_def\<close>)
  moreover have "list_all (\<lambda>s. \<not> isl (format_canonical_booking_starts_at (sl_starts_at s))) slots"
    using assms(5) by (auto simp: formats list_all_iff)
  ultimately show ?thesis using offer_to_fields by blast
qed

lemma date_keys_kept:
  assumes "list_all (\<lambda>k. require_calendar_date k = Inr k) keys" and "sorted_wrt (\<lambda>a b. \<not> str_le b a) keys"
    and "\<forall>t\<in>set seen. \<forall>k\<in>set keys. \<not> str_le k t" and "case previous of None \<Rightarrow> True | Some t \<Rightarrow> t \<in> set seen"
  shows "date_keys_loop (map JStr keys) seen previous acc = Some (acc @ map JStr keys)"
  using assms
proof (induction keys arbitrary: seen previous acc)
  case (Cons k keys)
  have refl: "str_le k k" using str_le_total [of k k] by blast
  have new: "k \<notin> set seen" "\<not> (case previous of None \<Rightarrow> False | Some u \<Rightarrow> str_le k u)"
    using Cons.prems(3,4) refl by (auto split: option.splits)
  have "calendar_date_of_json (JStr k) = Some k" using Cons.prems(1) by (simp add: calendar_date_of_json_def)
  moreover have "date_keys_loop (map JStr keys) (k # seen) (Some k) (acc @ [JStr k]) = Some ((acc @ [JStr k]) @ map JStr keys)"
    by (rule Cons.IH) (use Cons.prems in auto)
  ultimately show ?case using new by simp
qed simp

lemma days_offer_survives:
  assumes "keys \<noteq> []" "length keys \<le> 31" and "list_all (\<lambda>k. require_calendar_date k = Inr k) keys"
    and "sorted_wrt (\<lambda>a b. \<not> str_le b a) keys" and "require_calendar_date today = Inr today"
  shows "\<exists>f. decision_to_outbound_fields (AvailableDaysOfferDecision keys today) = Inr f \<and> sanitize_booking_result_fields (JObj f) = f"
proof -
  define f where "f = [(''booking_action'', JStr ''OFFER_DAYS''), (''booking_reason'', JNull),
     (''booking_available_date_keys'', JList (map JStr keys)), (''booking_studio_today'', JStr today)]"
  have get: "dict_get f ''booking_action'' = JStr ''OFFER_DAYS''" "dict_get f ''booking_reason'' = JNull"
    "dict_get f ''booking_available_date_keys'' = JList (map JStr keys)" "dict_get f ''booking_studio_today'' = JStr today"
    by (simp_all add: f_def dict_get_def)
  have "keys_are f OFFER_DAYS_KEYS" by (simp add: keys_are_def f_def OFFER_DAYS_KEYS_def)
  moreover have "date_keys_loop (map JStr keys) [] None [] = Some (map JStr keys)"
    using date_keys_kept [of keys "[]" None "[]"] assms by simp
  moreover have "calendar_date_of_json (JStr today) = Some today" using assms(5) by (simp add: calendar_date_of_json_def)
  ultimately have "sanitize_offer_days_fields f = Some f"
    using assms(1,2) unfolding sanitize_offer_days_fields_def get json.case
    by (simp add: MAX_OFFER_DAYS_def f_def)
  then have "sanitize_booking_result_fields (JObj f) = f"
    unfolding sanitize_booking_result_fields_def json.case get by (simp add: BOOKING_DIALOG_ACTIONS_def)
  moreover have "decision_to_outbound_fields (AvailableDaysOfferDecision keys today) = Inr f"
    by (simp add: decision_to_outbound_fields_def f_def)
  ultimately show ?thesis by blast
qed

lemma message_survives:
  assumes "decision_ok d" and "\<And>slots kind. d \<noteq> SlotOfferDecision slots kind" and "\<And>keys today. d \<noteq> AvailableDaysOfferDecision keys today"
  shows "\<exists>f. decision_to_outbound_fields d = Inr f \<and> sanitize_booking_result_fields (JObj f) = f"
proof (cases d)
  case (ManagerHandoffDecision kind during r)
  with assms(1) show ?thesis
    by (auto simp: decision_to_outbound_fields_def booking_fields_def sanitize_booking_result_fields_def dict_get_def
        BOOKING_DIALOG_ACTIONS_def HANDOFF_MESSAGE_KINDS_def Let_def allowlisted_again split: if_splits)
next
  case (ServiceUnavailableDecision kind r)
  with assms(1) show ?thesis
    by (auto simp: decision_to_outbound_fields_def booking_fields_def sanitize_booking_result_fields_def dict_get_def
        BOOKING_DIALOG_ACTIONS_def Let_def allowlisted_again)
qed (use assms in auto)

section \<open>Decisions from the backend\<close>

lemma unavailable_Inr: "manager_bound_unavailable r = Inr d \<Longrightarrow> \<exists>q. d = ServiceUnavailableDecision Kind_SERVICE_TEMPORARILY_UNAVAILABLE q \<and> decision_ok d"
  by (auto simp: manager_bound_unavailable_def make_unavailable_def require_reason split: if_splits)

lemma handoff_Inr: "handoff_decision tz now r = Inr d \<Longrightarrow> (\<exists>k during q. d = ManagerHandoffDecision k during q) \<and> decision_ok d"
  by (auto simp: handoff_decision_def make_handoff_def require_reason split: sum.splits if_splits)

definition from_message :: "booking_decision \<Rightarrow> bool" where
  "from_message d = (decision_ok d \<and> (case d of SlotOfferDecision _ _ \<Rightarrow> False | AvailableDaysOfferDecision _ _ \<Rightarrow> False | _ \<Rightarrow> True))"

lemma from_messageI:
  "manager_bound_unavailable r = Inr d \<Longrightarrow> from_message d"
  "handoff_decision tz now q = Inr d \<Longrightarrow> from_message d"
  "service_unavailable_decision q = Inr d \<Longrightarrow> from_message d"
  using unavailable_Inr [of r d] handoff_Inr [of tz now q d]
  by (auto simp: from_message_def service_unavailable_decision_def make_unavailable_def require_reason split: if_splits)

lemma availability_exception_message: "availability_exception x = Inr d \<Longrightarrow> from_message d"
  by (auto simp: availability_exception_def map_availability_error_def intro: from_messageI split: exn.splits if_splits)

lemma decide_cases:
  assumes "decide_booking_dialog tz el raw now consent = Inr d"
  shows "from_message d \<or> (\<exists>offered. d = SlotOfferDecision offered Kind_OFFER_SLOTS)"
  using assms
  by (auto simp: decide_booking_dialog_def Let_def offer_slots_Inr intro: from_messageI
      split: BookingEligibilityOutcome.splits if_splits option.splits)

lemma decided_cases:
  "decided r = Inr d \<Longrightarrow> r = Inr d \<or> from_message d"
  by (auto simp: decided_def intro: from_messageI split: sum.splits)

lemma confirmed_cases:
  assumes "with_confirmed_master bf service master now incl consent k = Inr d"
  shows "from_message d \<or> (\<exists>el confirmed. k el confirmed = Inr d)"
proof -
  have refused: "from_message d" if "decided (decide_booking_dialog tz el raw now consent) = Inr d" "el_outcome el \<noteq> SELF_BOOKING_ALLOWED" for tz el raw
    using decided_cases [OF that(1)] decide_cases [of tz el raw now consent d] decide_offer [of tz el raw now consent] that(2) by blast
  show ?thesis
    using assms unfolding with_confirmed_master_def
    by (auto intro: from_messageI refused split: option.splits sum.splits if_splits)
qed

lemma built_slots: "bf_available_slots (build_booking_flow lib cfg settings tz) = Some f \<Longrightarrow>
    \<exists>c. f = (\<lambda>s m date. port_of (get_available_slots lib c settings s m date)) \<and> cfg = Some c"
  by (auto simp: build_booking_flow_def split: option.splits if_splits)

lemma built_days: "bf_available_days (build_booking_flow lib cfg settings tz) = Some f \<Longrightarrow>
    \<exists>c. f = (\<lambda>s m month. port_of (get_available_days lib c settings s m month)) \<and> cfg = Some c"
  by (auto simp: build_booking_flow_def split: option.splits if_splits)

lemma port_of_Inr: "port_of r = Inr (Some a) \<longleftrightarrow> fst r = Inr a"
  by (auto simp: port_of_def split: sum.splits)

lemma nearest_of_increasing:
  assumes "sorted_wrt (<) (map sl_starts_at slots)"
  shows "select_nearest_slots (filter P slots) = take 3 (filter P slots)"
proof -
  have "sorted_wrt (\<lambda>a b. slot_key a \<le> slot_key b) slots"
    using assms by (auto simp: sorted_wrt_map slot_key_def elim!: sorted_wrt_mono_rel [rotated])
  then have "sorted (map slot_key (filter P slots))" by (simp add: sorted_wrt_map sorted_wrt_filter)
  then show ?thesis by (simp add: select_nearest_slots_def MAX_OFFERED_SLOTS_def sort_key_id_if_sorted)
qed

lemma backend_slot_ok:
  assumes "backend_slot service master day s" and "year_in_range (sl_starts_at s)"
  shows "on_the_minute (sl_starts_at s)" and "safe_id (sl_slot_id s)"
proof -
  obtain t where t: "require_canonical_booking_starts_at t = Inr t" "sl_starts_at s = studio_moment_of_text t"
    using assms(1) by (auto simp: backend_slot_def)
  then show "on_the_minute (sl_starts_at s)"
    using format_studio_moment [OF t(1)] assms(2) format_starts_at [of "sl_starts_at s" t] by simp
  show "safe_id (sl_slot_id s)" using assms(1) by (simp add: backend_slot_def safe_id_def)
qed

lemma backend_offer_survives:
  assumes slots: "sorted_wrt (<) (map sl_starts_at slots)" "distinct (map sl_slot_id slots)" "list_all (backend_slot service master day) slots"
    and d: "decide_booking_dialog tz el (Some (map Some slots)) now consent = Inr (SlotOfferDecision offered kind)"
    and range: "\<forall>s\<in>set offered. year_in_range (sl_starts_at s)"
  shows "\<exists>f. decision_to_outbound_fields (SlotOfferDecision offered kind) = Inr f \<and> sanitize_booking_result_fields (JObj f) = f"
    and "set offered \<subseteq> set slots"
proof -
  have valid: "collect_valid_slots (Some (map Some slots)) = slots"
    by (induction slots) (simp_all add: collect_valid_slots_def map_filter_simps)
  define P where "P = slot_suitable el consent slots"
  have offer: "kind = Kind_OFFER_SLOTS" "offered \<noteq> []" "offered = take 3 (filter P slots)"
    using d nearest_of_increasing [OF slots(1)] unfolding decide_offer valid P_def by auto
  have sub: "set offered \<subseteq> set slots" unfolding offer(3) using set_take_subset by fastforce
  then show "set offered \<subseteq> set slots" .
  have "sorted_wrt (<) (map sl_starts_at offered)"
    unfolding offer(3) using slots(1) by (simp add: sorted_wrt_map sorted_wrt_filter sorted_wrt_take)
  moreover have "distinct (map sl_slot_id offered)"
    unfolding offer(3) take_map [symmetric] using slots(2) by (intro distinct_take distinct_map_filter)
  moreover have "list_all (\<lambda>s. on_the_minute (sl_starts_at s) \<and> safe_id (sl_slot_id s)) offered"
    unfolding list_all_iff
  proof
    fix s assume "s \<in> set offered"
    then show "on_the_minute (sl_starts_at s) \<and> safe_id (sl_slot_id s)"
      using sub slots(3) range backend_slot_ok [of service master day s] by (auto simp: list_all_iff)
  qed
  moreover have "length offered \<le> 3" unfolding offer(3) by simp
  ultimately show "\<exists>f. decision_to_outbound_fields (SlotOfferDecision offered kind) = Inr f \<and> sanitize_booking_result_fields (JObj f) = f"
    unfolding offer(1) using offer(2) by (intro slot_offer_survives)
qed

lemma message_fields: "from_message d \<Longrightarrow> \<exists>f. decision_to_outbound_fields d = Inr f \<and> sanitize_booking_result_fields (JObj f) = f"
  by (intro message_survives) (auto simp: from_message_def)

lemma port_read:
  assumes "(case p of None \<Rightarrow> manager_bound_unavailable a
     | Some f \<Rightarrow> (case f x y z of Inl e \<Rightarrow> availability_exception e | Inr None \<Rightarrow> manager_bound_unavailable b | Inr (Some r) \<Rightarrow> k r)) = Inr d"
    and "\<not> from_message d"
  obtains f r where "p = Some f" "f x y z = Inr (Some r)" "k r = Inr d"
proof (cases p)
  case None
  with assms show ?thesis by (auto dest: from_messageI)
next
  case (Some f)
  show ?thesis
  proof (cases "f x y z")
    case (Inl e)
    with Some assms show ?thesis by (auto dest: availability_exception_message)
  next
    case (Inr r)
    with Some assms that show ?thesis by (cases r) (auto dest: from_messageI)
  qed
qed

lemma slots_query_survives:
  assumes "resolve_available_slots (build_booking_flow lib cfg settings tz) service master date now incl consent = Inr d"
    and "\<forall>offered kind. d = SlotOfferDecision offered kind \<longrightarrow> (\<forall>s\<in>set offered. year_in_range (sl_starts_at s))"
  shows "\<exists>f. decision_to_outbound_fields d = Inr f \<and> sanitize_booking_result_fields (JObj f) = f"
proof (cases "from_message d")
  case False
  let ?bf = "build_booking_flow lib cfg settings tz"
  obtain day where with_day: "with_confirmed_master ?bf service master now incl consent (\<lambda>eligibility confirmed.
          (case bf_available_slots ?bf of
             None \<Rightarrow> manager_bound_unavailable ''AVAILABILITY_CLIENT_UNAVAILABLE''
           | Some slots \<Rightarrow>
               (case slots service confirmed day of
                  Inl x \<Rightarrow> availability_exception x
                | Inr None \<Rightarrow> manager_bound_unavailable ''AVAILABILITY_SERVICE_UNAVAILABLE''
                | Inr (Some remote) \<Rightarrow>
                    decided (decide_booking_dialog (bf_tz ?bf) eligibility (Some (map Some (as_slots remote))) now consent)))) = Inr d"
    using assms(1) False unfolding resolve_available_slots_def by (auto intro: from_messageI split: sum.splits)
  then obtain el confirmed f remote where f: "bf_available_slots ?bf = Some f"
    and r: "f service confirmed day = Inr (Some remote)"
    and d: "decided (decide_booking_dialog (bf_tz ?bf) el (Some (map Some (as_slots remote))) now consent) = Inr d"
    using confirmed_cases [OF with_day] False by (elim disjE exE port_read) blast+
  obtain c where c: "f = (\<lambda>s m date. port_of (get_available_slots lib c settings s m date))"
    using built_slots [OF f] by blast
  have "fst (get_available_slots lib c settings service confirmed day) = Inr remote" using r unfolding c port_of_Inr .
  from slots_read [OF this] obtain s m where slots: "sorted_wrt (<) (map sl_starts_at (as_slots remote))"
    "distinct (map sl_slot_id (as_slots remote))" "list_all (backend_slot s m day) (as_slots remote)" by metis
  have dec: "decide_booking_dialog (bf_tz ?bf) el (Some (map Some (as_slots remote))) now consent = Inr d"
    using decided_cases [OF d] False by blast
  then obtain offered where offer: "d = SlotOfferDecision offered Kind_OFFER_SLOTS"
    using decide_cases False by blast
  show ?thesis
    using backend_offer_survives(1) [OF slots dec [unfolded offer]] assms(2) unfolding offer by blast
qed (rule message_fields)

lemma days_query_survives:
  assumes "resolve_available_days (build_booking_flow lib cfg settings tz) service master month now incl consent = Inr d"
  shows "\<exists>f. decision_to_outbound_fields d = Inr f \<and> sanitize_booking_result_fields (JObj f) = f"
proof (cases "from_message d")
  case False
  let ?bf = "build_booking_flow lib cfg settings tz"
  obtain mo where with_month: "with_confirmed_master ?bf service master now incl consent (\<lambda>eligibility confirmed.
          (case bf_available_days ?bf of
             None \<Rightarrow> manager_bound_unavailable ''AVAILABILITY_CLIENT_UNAVAILABLE''
           | Some days \<Rightarrow>
               (case days service confirmed mo of
                  Inl x \<Rightarrow> availability_exception x
                | Inr None \<Rightarrow> manager_bound_unavailable ''AVAILABILITY_SERVICE_UNAVAILABLE''
                | Inr (Some remote) \<Rightarrow>
                    if ad_date_keys remote = [] then flow_manager_handoff (bf_tz ?bf) now ''NO_AVAILABLE_DAYS''
                    else make_days_offer (ad_date_keys remote) (ad_studio_today remote)))) = Inr d"
    using assms(1) False unfolding resolve_available_days_def by (auto intro: from_messageI split: sum.splits)
  then obtain confirmed f remote where f: "bf_available_days ?bf = Some f"
    and r: "f service confirmed mo = Inr (Some remote)"
    and offer: "(if ad_date_keys remote = [] then flow_manager_handoff (bf_tz ?bf) now ''NO_AVAILABLE_DAYS''
                 else make_days_offer (ad_date_keys remote) (ad_studio_today remote)) = Inr d"
    using confirmed_cases [OF with_month] False by (elim disjE exE port_read) blast+
  have keys: "ad_date_keys remote \<noteq> []" and d: "make_days_offer (ad_date_keys remote) (ad_studio_today remote) = Inr d"
    using offer False by (auto simp: flow_manager_handoff_def dest: from_messageI split: if_splits)
  obtain c where c: "f = (\<lambda>s m month. port_of (get_available_days lib c settings s m month))"
    using built_days [OF f] by blast
  have "fst (get_available_days lib c settings service confirmed mo) = Inr remote" using r unfolding c port_of_Inr .
  from days_read [OF this] have days: "sorted_wrt (\<lambda>a b. \<not> str_le b a) (ad_date_keys remote)"
    "list_all (\<lambda>k. require_calendar_date k = Inr k) (ad_date_keys remote)" "length (ad_date_keys remote) \<le> 31"
    "require_calendar_date (ad_studio_today remote) = Inr (ad_studio_today remote)"
    by (auto simp: list_all_iff day_of_month_def)
  have "d = AvailableDaysOfferDecision (ad_date_keys remote) (ad_studio_today remote)"
    using d by (auto simp: make_days_offer_def split: if_splits)
  with days_offer_survives [OF keys days(3,2,1,4)] show ?thesis by simp
qed (rule message_fields)

text \<open>
  C23. What the booking flow decides is what the plan stores. For a booking block that asks the booking
  service for days or slots, and the flow composed of the HTTP clients, the fields of every decision
  pass the worker's sanitizer unchanged: an accepted answer of the backend is never turned into an
  interrupted resolution on its way into the reply plan. (The hypothesis on the offered slots leaves
  out instants before the year 1 or after 9999 in UTC.)
\<close>

theorem remote_decision_survives:
  assumes "fixture_decision (build_booking_flow lib cfg settings tz) b = Inr d" and "bi_availability_query b \<noteq> None"
    and "\<forall>offered kind. d = SlotOfferDecision offered kind \<longrightarrow> (\<forall>s\<in>set offered. year_in_range (sl_starts_at s))"
  shows "\<exists>f. decision_to_outbound_fields d = Inr f \<and> sanitize_booking_result_fields (JObj f) = f"
proof -
  obtain q where q: "bi_availability_query b = Some q" using assms(2) by blast
  show ?thesis
  proof (cases q)
    case (Query_AVAILABLE_DAYS month)
    with assms(1) q days_query_survives show ?thesis unfolding fixture_decision_def Let_def by (auto split: option.splits)
  next
    case (Query_SLOTS date)
    with assms(1) q slots_query_survives [OF _ assms(3)] show ?thesis
      unfolding fixture_decision_def Let_def by (auto split: option.splits)
  qed
qed

text \<open>
  C24. An offer of two slots that start at the same time is lost. The policy offers them (two masters
  who are free at the same hour, when the client named no master), but the sanitizer wants start times that
  increase strictly: the worker stores the fields of an interrupted resolution, and the client is told
  that booking is unavailable although slots were found.
\<close>

theorem same_start_offer_lost:
  assumes "decision_to_outbound_fields (SlotOfferDecision offered Kind_OFFER_SLOTS) = Inr f"
    and "\<not> distinct (map sl_starts_at offered)"
  shows "sanitize_booking_result_fields (JObj f) = interrupted_booking_fields"
proof -
  have f: "f = offer_fields (offered_pairs offered)" using assms(1) offer_to_fields by blast
  have "map snd (offered_pairs offered) = map (\<lambda>t. projr (format_canonical_booking_starts_at t)) (map sl_starts_at offered)"
    by (simp add: offered_pairs_def comp_def)
  with assms(2) have "\<not> distinct (map snd (offered_pairs offered))" by (metis distinct_map)
  then show ?thesis unfolding f by (rule offer_same_start_lost)
qed

section \<open>A run\<close>

definition flow_demo_service :: string where "flow_demo_service = ''11111111-1111-4111-8111-111111111111''"
definition flow_demo_master :: string where "flow_demo_master = ''22222222-2222-4222-8222-222222222222''"

definition flow_demo_slot_json :: "string \<Rightarrow> string \<Rightarrow> json" where
  "flow_demo_slot_json i t =
     JObj [(''slotId'', JStr i), (''serviceId'', JStr flow_demo_service), (''masterId'', JStr flow_demo_master), (''startsAt'', JStr t)]"

text \<open>A backend that allows self-booking and has a free slot on the first of May.\<close>

definition flow_demo_answers :: "string \<Rightarrow> json option" where
  "flow_demo_answers body =
     (if body = ''E''
      then Some (JObj [(''ok'', JBool True), (''outcome'', JStr ''SELF_BOOKING_ALLOWED''), (''reasonCode'', JNull),
             (''selectedPairAllowed'', JBool True), (''serviceOnlineInGeneral'', JBool True), (''otherOnlineMasterCount'', JInt 0)])
      else if body = ''S''
      then Some (JObj [(''ok'', JBool True), (''serviceId'', JStr flow_demo_service), (''masterId'', JStr flow_demo_master),
             (''date'', JStr ''2026-05-01''), (''studioToday'', JStr ''2026-04-30''),
             (''slots'', JList [flow_demo_slot_json ''s1'' ''2026-05-01T10:00:00+05:00''])])
      else None)"

definition flow_demo_lib :: http_lib where
  "flow_demo_lib =
     \<lparr> lib_transport = (\<lambda>r. Answer \<lparr> hr_status_code = 200, hr_headers = [(''content-type'', ''application/json; charset=utf-8'')],
                                    hr_body = (if hq_url r = ''https://b/api/internal/bot/v1/eligibility'' then ''E'' else ''S'') \<rparr>),
       lib_dumps = (\<lambda>_. Some ''{}''), lib_loads = flow_demo_answers, lib_url_path = (\<lambda>url. Some (drop 9 url)) \<rparr>"

definition flow_demo_config :: booking_http_config where
  "flow_demo_config = \<lparr> hc_base_url = ''https://b'', hc_bearer_token = replicate 32 CHR ''t'', hc_max_response_bytes = 1000 \<rparr>"

definition flow_demo_settings :: settings where
  "flow_demo_settings = \<lparr> st_bot_mode = Mode_AUTO_READ, st_emergency_lock = False \<rparr>"

definition flow_demo_flow :: booking_flow where
  "flow_demo_flow = build_booking_flow flow_demo_lib (Some flow_demo_config) (Some flow_demo_settings) fixed_manager_tz"

definition flow_demo_input :: booking_input where
  "flow_demo_input =
     \<lparr> bi_service_id = flow_demo_service, bi_master_id = Some flow_demo_master, bi_include_alternatives = False,
       bi_alternate_master_consent = False, bi_slots = [], bi_availability_query = Some (Query_SLOTS ''2026-05-01''),
       bi_decision_at = \<lparr> dt_instant = demo_now, dt_offset = 0 \<rparr> \<rparr>"

definition offered_of :: "exn + booking_decision \<Rightarrow> available_slot list option" where
  "offered_of r = (case r of Inr (SlotOfferDecision offered _) \<Rightarrow> Some offered | _ \<Rightarrow> None)"

text \<open>The bound of a response is compared on integers when the model is run.\<close>

lemma validate_max_response_bytes_code [code]: "validate_max_response_bytes n = (0 < n \<and> int n \<le> 1000000)"
  by (auto simp: validate_max_response_bytes_def)

lemma flow_demo_offer:
  "case offered_of (fixture_decision flow_demo_flow flow_demo_input) of None \<Rightarrow> False
   | Some offered \<Rightarrow> map sl_slot_id offered = [''s1''] \<and> list_all (\<lambda>s. year_in_range (sl_starts_at s)) offered"
  by code_simp

theorem remote_decision_survives_witness:
  "\<exists>offered kind f. fixture_decision flow_demo_flow flow_demo_input = Inr (SlotOfferDecision offered kind) \<and>
     map sl_slot_id offered = [''s1''] \<and> decision_to_outbound_fields (SlotOfferDecision offered kind) = Inr f \<and>
     sanitize_booking_result_fields (JObj f) = f"
proof -
  obtain offered kind where d: "fixture_decision flow_demo_flow flow_demo_input = Inr (SlotOfferDecision offered kind)"
    and "map sl_slot_id offered = [''s1'']" and range: "list_all (\<lambda>s. year_in_range (sl_starts_at s)) offered"
    using flow_demo_offer
    by (auto simp: offered_of_def split: option.splits sum.splits booking_decision.splits)
  with remote_decision_survives [OF d [unfolded flow_demo_flow_def]] show ?thesis
    by (auto simp: flow_demo_input_def list_all_iff)
qed

definition same_start_demo :: "available_slot list" where
  "same_start_demo =
     [\<lparr> sl_slot_id = ''s1'', sl_starts_at = demo_now - 800 * 1000000, sl_master_id = ''m1'', sl_service_id = ''v'' \<rparr>,
      \<lparr> sl_slot_id = ''s2'', sl_starts_at = demo_now - 800 * 1000000, sl_master_id = ''m2'', sl_service_id = ''v'' \<rparr>]"

theorem same_start_offer_lost_witness:
  "offered_of (flow_resolve fixed_manager_tz (Some policy_demo_client) ''v'' None (Some (map Some same_start_demo)) demo_now False False)
     = Some same_start_demo \<and>
   (\<exists>f. decision_to_outbound_fields (SlotOfferDecision same_start_demo Kind_OFFER_SLOTS) = Inr f \<and>
      sanitize_booking_result_fields (JObj f) = interrupted_booking_fields)"
proof -
  have "\<not> isl (decision_to_outbound_fields (SlotOfferDecision same_start_demo Kind_OFFER_SLOTS))" by code_simp
  then obtain f where f: "decision_to_outbound_fields (SlotOfferDecision same_start_demo Kind_OFFER_SLOTS) = Inr f"
    by (cases "decision_to_outbound_fields (SlotOfferDecision same_start_demo Kind_OFFER_SLOTS)") auto
  moreover have "\<not> distinct (map sl_starts_at same_start_demo)" by (simp add: same_start_demo_def)
  ultimately have "sanitize_booking_result_fields (JObj f) = interrupted_booking_fields" by (rule same_start_offer_lost)
  moreover have "offered_of (flow_resolve fixed_manager_tz (Some policy_demo_client) ''v'' None (Some (map Some same_start_demo))
      demo_now False False) = Some same_start_demo" by code_simp
  ultimately show ?thesis using f by blast
qed

end
