(* ===== verification/Text_Chars.thy ===== *)
theory Text_Chars
  imports Booking_Slot
begin

text \<open>
  Characters of a text. A text of the model is its UTF-8 bytes; where the code looks at characters beyond
  ASCII (white space, digits), the bytes are cut into characters first. The tables are those of Unicode 15,
  the version of Python 3.12.
\<close>

fun utf8_chars :: "string \<Rightarrow> string list" where
  "utf8_chars [] = []"
| "utf8_chars (c # s) =
     (case utf8_chars s of
        (d # w) # ws \<Rightarrow>
          if 128 \<le> ord_char d \<and> ord_char d < 192 then (c # d # w) # ws else [c] # (d # w) # ws
      | ws \<Rightarrow> [c] # ws)"

text \<open>\<open>str.isspace\<close> of one character.\<close>

definition is_space_text :: "string \<Rightarrow> bool" where
  "is_space_text w =
     (case w of
        [c] \<Rightarrow> ascii_space c
      | _ \<Rightarrow> map ord_char w \<in> set ([[194, 133], [194, 160], [225, 154, 128], [226, 128, 168], [226, 128, 169],
               [226, 128, 175], [226, 129, 159], [227, 128, 128]] @ map (\<lambda>n. [226, 128, n]) [128..<139]))"

definition code_point :: "string \<Rightarrow> int" where
  "code_point w =
     (case map (\<lambda>c. int (ord_char c)) w of
        [a] \<Rightarrow> a
      | [a, b] \<Rightarrow> (a - 192) * 64 + (b - 128)
      | [a, b, c] \<Rightarrow> (a - 224) * 4096 + (b - 128) * 64 + (c - 128)
      | [a, b, c, d] \<Rightarrow> (a - 240) * 262144 + (b - 128) * 4096 + (c - 128) * 64 + (d - 128)
      | _ \<Rightarrow> 0)"

text \<open>The zeros of the decimal digits of Unicode 15; each starts a run of ten.\<close>

definition DECIMAL_ZEROS :: "int list" where
  "DECIMAL_ZEROS =
     [48, 1632, 1776, 1984, 2406, 2534, 2662, 2790, 2918, 3046, 3174, 3302, 3430, 3558, 3664, 3792, 3872, 4160, 4240,
      6112, 6160, 6470, 6608, 6784, 6800, 6992, 7088, 7232, 7248, 42528, 43216, 43264, 43472, 43504, 43600, 44016,
      65296, 66720, 68912, 69734, 69872, 69942, 70096, 70384, 70736, 70864, 71248, 71360, 71472, 71904, 72016, 72784,
      73040, 73120, 73552, 92768, 92864, 93008, 120782, 120792, 120802, 120812, 120822, 123200, 123632, 124144, 125264,
      130032]"

text \<open>\<open>\d\<close> of a pattern on text.\<close>

definition is_decimal_point :: "int \<Rightarrow> bool" where
  "is_decimal_point p = list_ex (\<lambda>z. z \<le> p \<and> p \<le> z + 9) DECIMAL_ZEROS"

definition is_decimal_text :: "string \<Rightarrow> bool" where
  "is_decimal_text w = is_decimal_point (code_point w)"

text \<open>\<open>str.isdigit\<close> knows more than decimals: superscripts, circled digits and the like.\<close>

definition OTHER_DIGITS :: "(int \<times> int) list" where
  "OTHER_DIGITS =
     [(178, 179), (185, 185), (4969, 4977), (6618, 6618), (8304, 8304), (8308, 8313), (8320, 8329), (9312, 9320),
      (9332, 9340), (9352, 9360), (9450, 9450), (9461, 9469), (9471, 9471), (10102, 10110), (10112, 10120),
      (10122, 10130), (68160, 68163), (69216, 69224), (69714, 69722), (127232, 127242)]"

definition is_digit_point :: "int \<Rightarrow> bool" where
  "is_digit_point p = (is_decimal_point p \<or> list_ex (\<lambda>(a, b). a \<le> p \<and> p \<le> b) OTHER_DIGITS)"

definition is_digit_text :: "string \<Rightarrow> bool" where
  "is_digit_text w = is_digit_point (code_point w)"

text \<open>\<open>str.strip()\<close> on characters.\<close>

definition strip_chars :: "string list \<Rightarrow> string list" where
  "strip_chars ws = rev (dropWhile is_space_text (rev (dropWhile is_space_text ws)))"

text \<open>\<open>str.split()\<close>: the words between runs of white space.\<close>

fun space_words :: "string \<Rightarrow> string list \<Rightarrow> string list" where
  "space_words cur [] = (if cur = [] then [] else [cur])"
| "space_words cur (w # ws) =
     (if is_space_text w then (if cur = [] then space_words [] ws else cur # space_words [] ws)
      else space_words (cur @ w) ws)"

end
