(* ===== verification/Booking_Create.thy ===== *)
theory Booking_Create
  imports Booking_Flow Create_Pending Text_Chars
begin

text \<open>
  The create call: core/booking_create_remote.py (request and reply bodies), core/booking_create_http.py
  (the client), the write half of services/booking_flow.py (\<open>confirm_selected_slot\<close> and
  \<open>confirm_selected_slot_for_conversation\<close>), services/client_ref_resolution.py, and the wiring with the
  execution of a stored command (Create\_Pending). A text is its UTF-8 bytes, cut into
  characters (Text\_Chars) where the code looks at characters.

  The lemmas show that at most one request leaves for one confirmation, that it carries the key and the
  slot of the command, and that a booking is reported as confirmed only when the backend answered so for
  that slot.
\<close>

section \<open>The request\<close>

definition require_canonical_client_ref :: "string \<Rightarrow> exn + string" where
  "require_canonical_client_ref value =
     (let bad = ValueError ''BOOKING_CREATE_CLIENT_REF_INVALID'' in
      if value = [] then Inl bad
      else if dirty_text value then Inl bad
      else if value \<noteq> map lower_char value then Inl bad
      else if length value \<noteq> 36 \<or> \<not> fullmatch versioned_uuid_re value then Inl bad
      else case require_canonical_backend_uuid value of Inl _ \<Rightarrow> Inl bad | Inr k \<Rightarrow> Inr k)"

definition require_canonical_booking_id :: "json \<Rightarrow> exn + string" where
  "require_canonical_booking_id v =
     (let bad = ValueError ''BOOKING_CREATE_BOOKING_ID_INVALID'' in
      case v of
        JStr value \<Rightarrow>
          if value = [] then Inl bad
          else if value \<noteq> map lower_char value then Inl bad
          else (case require_canonical_backend_uuid value of Inl _ \<Rightarrow> Inl bad | Inr i \<Rightarrow> Inr i)
      | _ \<Rightarrow> Inl bad)"

definition require_confirmed_client_name :: "string \<Rightarrow> exn + string" where
  "require_confirmed_client_name value =
     (let bad = ValueError ''BOOKING_CREATE_CLIENT_NAME_INVALID'';
          normalized = py_join CHR '' '' (space_words [] (utf8_chars value))
      in if contains_control_chars value then Inl bad
         else if length (utf8_chars normalized) < 2 \<or> length (utf8_chars normalized) > 256 then Inl bad
         else Inr normalized)"

definition phone_digit_count :: "string list \<Rightarrow> nat" where
  "phone_digit_count ws = length (filter is_digit_text ws)"

definition require_confirmed_phone :: "string \<Rightarrow> exn + string" where
  "require_confirmed_phone value =
     (let bad = ValueError ''BOOKING_CREATE_PHONE_INVALID'';
          phone = strip_chars (utf8_chars value)
      in if contains_control_chars value then Inl bad
         else if phone = [] \<or> list_ex is_space_text phone then Inl bad
         else if phone_digit_count phone < 10 \<or> phone_digit_count phone > 15 then Inl bad
         else if \<not> (hd phone = ''+'' \<and> tl phone \<noteq> [] \<and> list_all is_decimal_text (tl phone)) then Inl bad
         else Inr (concat phone))"

text \<open>The two consents of a request are the literal \<open>True\<close>.\<close>

record create_remote_request =
  rr_idempotency_key :: string
  rr_slot_id :: string
  rr_client_name :: string
  rr_phone :: string
  rr_client_ref :: "string option"

definition create_request_json :: "create_remote_request \<Rightarrow> payload" where
  "create_request_json rq =
     [(''idempotencyKey'', JStr (rr_idempotency_key rq)), (''slotId'', JStr (rr_slot_id rq)),
      (''clientName'', JStr (rr_client_name rq)), (''phone'', JStr (rr_phone rq)),
      (''personalDataConsent'', JBool True), (''offerAcknowledgement'', JBool True)] @
     (case rr_client_ref rq of None \<Rightarrow> [] | Some r \<Rightarrow> [(''clientRef'', JStr r)])"

definition build_booking_create_remote_request ::
  "string \<Rightarrow> string \<Rightarrow> string \<Rightarrow> string \<Rightarrow> bool \<Rightarrow> bool \<Rightarrow> string option \<Rightarrow> exn + create_remote_request" where
  "build_booking_create_remote_request key slot_id name phone consent ack client_ref =
     (if \<not> consent \<or> \<not> ack then Inl (ValueError ''BOOKING_CREATE_CONSENT_INVALID'')
      else case require_canonical_idempotency_key key of
        Inl x \<Rightarrow> Inl x
      | Inr k \<Rightarrow>
      (case parse_bot_slot_id slot_id of
         Inl x \<Rightarrow> Inl x
       | Inr _ \<Rightarrow>
      (case require_confirmed_client_name name of
         Inl x \<Rightarrow> Inl x
       | Inr n \<Rightarrow>
      (case require_confirmed_phone phone of
         Inl x \<Rightarrow> Inl x
       | Inr p \<Rightarrow>
      (case (case client_ref of None \<Rightarrow> Inr None | Some r \<Rightarrow> map_sum id Some (require_canonical_client_ref r)) of
         Inl x \<Rightarrow> Inl x
       | Inr ref \<Rightarrow>
           Inr \<lparr> rr_idempotency_key = k, rr_slot_id = slot_id, rr_client_name = n, rr_phone = p, rr_client_ref = ref \<rparr>)))))"

section \<open>The reply\<close>

record create_remote_success =
  cs_booking_id :: string
  cs_slot_id :: string
  cs_starts_at :: string
  cs_idempotent_replay :: bool

definition CREATE_SUCCESS_KEYS :: "string list" where
  "CREATE_SUCCESS_KEYS = [''ok'', ''bookingId'', ''slotId'', ''status'', ''startsAt'', ''idempotentReplay'']"

definition parse_booking_create_success_payload :: "json \<Rightarrow> create_remote_request \<Rightarrow> create_remote_success option" where
  "parse_booking_create_success_payload v request =
     (case v of
        JObj raw \<Rightarrow>
          if \<not> keys_are raw CREATE_SUCCESS_KEYS then None
          else if dict_get raw ''ok'' \<noteq> JBool True then None
          else if dict_get raw ''status'' \<noteq> JStr ''SCHEDULED'' then None
          else (case dict_get raw ''idempotentReplay'' of
                  JBool replay \<Rightarrow>
                    (case (require_canonical_booking_id (dict_get raw ''bookingId''), starts_at_of_json (dict_get raw ''startsAt''),
                           dict_get raw ''slotId'') of
                       (Inr booking_id, Some starts_at, JStr slot_id) \<Rightarrow>
                         (case parse_bot_slot_id slot_id of
                            Inl _ \<Rightarrow> None
                          | Inr parts \<Rightarrow>
                              (case expected_canonical_starts_at_from_slot_parts parts of
                                 Inl _ \<Rightarrow> None
                               | Inr expected \<Rightarrow>
                                   if slot_id \<noteq> rr_slot_id request then None
                                   else if starts_at \<noteq> expected then None
                                   else Some \<lparr> cs_booking_id = booking_id, cs_slot_id = slot_id, cs_starts_at = starts_at,
                                               cs_idempotent_replay = replay \<rparr>))
                     | _ \<Rightarrow> None)
                | _ \<Rightarrow> None)
      | _ \<Rightarrow> None)"

definition assert_success_matches_available_slot :: "create_remote_success \<Rightarrow> available_slot \<Rightarrow> exn + unit" where
  "assert_success_matches_available_slot success slot =
     (let bad = ValueError ''BOOKING_CREATE_SLOT_MISMATCH'' in
      if cs_slot_id success \<noteq> sl_slot_id slot then Inl bad
      else case format_canonical_booking_starts_at (sl_starts_at slot) of
        Inl (ValueError _) \<Rightarrow> Inl bad
      | Inl x \<Rightarrow> Inl x
      | Inr expected \<Rightarrow>
          if cs_starts_at success \<noteq> expected then Inl bad
          else (case parse_bot_slot_id (sl_slot_id slot) of
                  Inl x \<Rightarrow> Inl x
                | Inr parsed \<Rightarrow>
                    if sp_service_id parsed \<noteq> sl_service_id slot \<or> sp_master_id parsed \<noteq> sl_master_id slot
                    then Inl bad else Inr ()))"

section \<open>The client\<close>

definition CREATE_ERROR_CODE_BY_STATUS :: "(int \<times> string list) list" where
  "CREATE_ERROR_CODE_BY_STATUS =
     [(400, [''VALIDATION_ERROR'', ''SLOT_INVALID'', ''SERVICE_UNAVAILABLE'', ''MASTER_UNAVAILABLE'',
             ''SERVICE_MASTER_MISMATCH'', ''BOOKING_REQUEST_INVALID'']),
      (401, [''UNAUTHORIZED'']),
      (409, [''IDEMPOTENCY_CONFLICT'', ''IDEMPOTENCY_IN_PROGRESS'', ''SLOT_NO_LONGER_AVAILABLE'', ''CLIENT_AMBIGUOUS'',
             ''BOOKING_REQUEST_CONFLICT'', ''BOOKING_CONFLICT'']),
      (413, [''PAYLOAD_TOO_LARGE'']),
      (429, [''RATE_LIMITED'']),
      (500, [''INTERNAL_ERROR''])]"

definition BOOKING_CREATE_REMOTE_ERROR_CODES :: "string list" where
  "BOOKING_CREATE_REMOTE_ERROR_CODES =
     [''VALIDATION_ERROR'', ''PAYLOAD_TOO_LARGE'', ''UNAUTHORIZED'', ''RATE_LIMITED'', ''IDEMPOTENCY_CONFLICT'',
      ''IDEMPOTENCY_IN_PROGRESS'', ''SLOT_INVALID'', ''SLOT_NO_LONGER_AVAILABLE'', ''SERVICE_UNAVAILABLE'',
      ''MASTER_UNAVAILABLE'', ''SERVICE_MASTER_MISMATCH'', ''CLIENT_AMBIGUOUS'', ''BOOKING_REQUEST_INVALID'',
      ''BOOKING_REQUEST_CONFLICT'', ''BOOKING_CONFLICT'', ''INTERNAL_ERROR'']"

definition CREATE_CODE_TO_ADAPTER :: "(string \<times> string) list" where
  "CREATE_CODE_TO_ADAPTER = map (\<lambda>code. (code, code)) BOOKING_CREATE_REMOTE_ERROR_CODES"

definition encode_booking_create_request_body :: "http_lib \<Rightarrow> payload \<Rightarrow> string + string" where
  "encode_booking_create_request_body lib body_object =
     (case lib_dumps lib body_object of
        None \<Rightarrow> Inl ''CONFIG_INVALID''
      | Some body \<Rightarrow> if length body > MAX_REQUEST_BYTES then Inl ''REQUEST_INVALID'' else Inr body)"

text \<open>What a create client does: it raises its own error with a code, raises something else, or returns.\<close>

datatype create_answer = Create_error string | Create_raises | Create_other | Create_success create_remote_success

definition BOOKINGS_ROUTE_PATH :: string where "BOOKINGS_ROUTE_PATH = ''/api/internal/bot/v1/bookings''"

definition post_create ::
  "http_lib \<Rightarrow> booking_http_config \<Rightarrow> create_remote_request \<Rightarrow> create_answer \<times> http_request list" where
  "post_create lib cfg request =
     (let url = hc_base_url cfg @ BOOKINGS_ROUTE_PATH in
      if \<not> (starts_with url ''http://'' \<or> starts_with url ''https://'') then (Create_error ''CONFIG_INVALID'', [])
      else if lib_url_path lib url \<noteq> Some BOOKINGS_ROUTE_PATH then (Create_error ''CONFIG_INVALID'', [])
      else case encode_booking_create_request_body lib (create_request_json request) of
        Inl code \<Rightarrow> (Create_error code, [])
      | Inr body \<Rightarrow>
          let http_request = json_post cfg url body
          in (case interpret_success_response
                     (map_error_envelope CREATE_ERROR_CODE_BY_STATUS CREATE_CODE_TO_ADAPTER lib) lib
                     (hc_max_response_bytes cfg) (lib_transport lib http_request) of
                Inl code \<Rightarrow> (Create_error code, [http_request])
              | Inr v \<Rightarrow>
                  (case parse_booking_create_success_payload v request of
                     None \<Rightarrow> (Create_error ''RESPONSE_INVALID'', [http_request])
                   | Some success \<Rightarrow> (Create_success success, [http_request]))))"

definition create_booking ::
  "http_lib \<Rightarrow> booking_http_config \<Rightarrow> string \<Rightarrow> string \<Rightarrow> string \<Rightarrow> string \<Rightarrow> bool \<Rightarrow> bool \<Rightarrow> string option
     \<Rightarrow> create_answer \<times> http_request list" where
  "create_booking lib cfg key slot_id name phone consent ack client_ref =
     (case build_booking_create_remote_request key slot_id name phone consent ack client_ref of
        Inl _ \<Rightarrow> (Create_error ''REQUEST_INVALID'', [])
      | Inr request \<Rightarrow> post_create lib cfg request)"

section \<open>Confirming a slot\<close>

datatype create_application_result =
    Confirmed string string moment bool string
  | Rejected BookingCreateMachineOutcome string string

definition CREATE_RETRY_LATER_CODES :: "string list" where
  "CREATE_RETRY_LATER_CODES =
     [''RATE_LIMITED'', ''IDEMPOTENCY_IN_PROGRESS'', ''INTERNAL_ERROR'', ''TIMEOUT'', ''TRANSPORT_ERROR'', ''RESPONSE_TOO_LARGE'']"

definition map_create_http_error :: "string \<Rightarrow> string \<Rightarrow> create_application_result" where
  "map_create_http_error code key =
     (if code \<in> set CREATE_RETRY_LATER_CODES then Rejected Create_RETRY_LATER code key
      else if code \<in> {''SLOT_NO_LONGER_AVAILABLE'', ''BOOKING_CONFLICT''} then Rejected Create_SLOT_RESELECT_REQUIRED code key
      else if code = ''CLIENT_AMBIGUOUS'' then Rejected Create_MANAGER_HANDOFF code key
      else if code \<in> {''SERVICE_UNAVAILABLE'', ''MASTER_UNAVAILABLE''} then Rejected Create_SERVICE_UNAVAILABLE code key
      else Rejected Create_FAIL_CLOSED code key)"

definition NIL_KEY :: string where "NIL_KEY = ''00000000-0000-4000-8000-000000000000''"

text \<open>
  The checks before any request: the result is the request, or a caught \<open>ValueError\<close> (\<open>Inr None\<close>), or an
  exception that \<open>except ValueError\<close> does not catch.
\<close>

definition confirm_request ::
  "available_slot \<Rightarrow> string \<Rightarrow> string \<Rightarrow> string \<Rightarrow> string option \<Rightarrow> exn + create_remote_request option" where
  "confirm_request slot key name phone client_ref =
     (case parse_bot_slot_id (sl_slot_id slot) of
        Inl _ \<Rightarrow> Inr None
      | Inr parsed \<Rightarrow>
          (case format_canonical_booking_starts_at (sl_starts_at slot) of
             Inl (ValueError _) \<Rightarrow> Inr None
           | Inl x \<Rightarrow> Inl x
           | Inr expected \<Rightarrow>
               if sp_service_id parsed \<noteq> sl_service_id slot \<or> sp_master_id parsed \<noteq> sl_master_id slot \<or>
                  take 10 expected \<noteq> sp_date_key parsed \<or> take 5 (drop 11 expected) \<noteq> sp_start_time parsed
               then Inr None
               else (case build_booking_create_remote_request key (sl_slot_id slot) name phone True True client_ref of
                       Inl _ \<Rightarrow> Inr None
                     | Inr request \<Rightarrow> Inr (Some request))))"

type_synonym create_client = "create_remote_request \<Rightarrow> create_answer \<times> http_request list"

definition confirm_success :: "available_slot \<Rightarrow> string \<Rightarrow> create_remote_success \<Rightarrow> exn + create_application_result" where
  "confirm_success slot key remote =
     (let invalid = Rejected Create_FAIL_CLOSED ''RESPONSE_INVALID'' key in
      case assert_success_matches_available_slot remote slot of
        Inl (ValueError _) \<Rightarrow> Inr invalid
      | Inl x \<Rightarrow> Inl x
      | Inr _ \<Rightarrow>
          (case require_canonical_booking_starts_at (cs_starts_at remote) of
             Inl _ \<Rightarrow> Inr invalid
           | Inr _ \<Rightarrow>
               if cs_booking_id remote = [] then Inr invalid
               else Inr (Confirmed (cs_booking_id remote) (cs_slot_id remote) (studio_moment_of_text (cs_starts_at remote))
                           (cs_idempotent_replay remote) key)))"

definition confirm_selected_slot ::
  "create_client option \<Rightarrow> available_slot \<Rightarrow> string \<Rightarrow> string \<Rightarrow> string \<Rightarrow> bool \<Rightarrow> bool \<Rightarrow> string option
     \<Rightarrow> (exn + create_application_result) \<times> http_request list" where
  "confirm_selected_slot client slot idempotency_key name phone consent ack client_ref =
     (case require_canonical_idempotency_key idempotency_key of
        Inl _ \<Rightarrow> (Inr (Rejected Create_FAIL_CLOSED ''REQUEST_INVALID'' NIL_KEY), [])
      | Inr key \<Rightarrow>
          if \<not> consent \<or> \<not> ack then (Inr (Rejected Create_FAIL_CLOSED ''REQUEST_INVALID'' key), [])
          else (case confirm_request slot key name phone client_ref of
                  Inl x \<Rightarrow> (Inl x, [])
                | Inr None \<Rightarrow> (Inr (Rejected Create_FAIL_CLOSED ''REQUEST_INVALID'' key), [])
                | Inr (Some request) \<Rightarrow>
                    (case client of
                       None \<Rightarrow> (Inr (Rejected Create_FAIL_CLOSED ''CONFIG_INVALID'' key), [])
                     | Some create \<Rightarrow>
                         (case create request of
                            (Create_error code, sent) \<Rightarrow> (Inr (map_create_http_error code key), sent)
                          | (Create_raises, sent) \<Rightarrow> (Inr (Rejected Create_FAIL_CLOSED ''UNEXPECTED_ERROR'' key), sent)
                          | (Create_other, sent) \<Rightarrow> (Inr (Rejected Create_FAIL_CLOSED ''RESPONSE_INVALID'' key), sent)
                          | (Create_success remote, sent) \<Rightarrow> (confirm_success slot key remote, sent)))))"

text \<open>The flow calls the client with the fields of the request and both consents.\<close>

definition http_create_client :: "http_lib \<Rightarrow> booking_http_config \<Rightarrow> create_client" where
  "http_create_client lib cfg rq =
     create_booking lib cfg (rr_idempotency_key rq) (rr_slot_id rq) (rr_client_name rq) (rr_phone rq) True True (rr_client_ref rq)"

section \<open>The client's reference\<close>

datatype CanonicalIdentityStatus = Identity_ACTIVE | Identity_ARCHIVED

record canonical_identity =
  ci_id :: uuid
  ci_status :: CanonicalIdentityStatus

datatype ClientRefResolution = Ref_FOUND string | Ref_NOT_FOUND | Ref_REFUSED string | Ref_INVALID_INPUT string

text \<open>The id of a stored dialog is a UUID, so that \<open>_as_uuid\<close> returns it.\<close>

definition resolve_for_conversation :: "conversation list \<Rightarrow> canonical_identity list \<Rightarrow> uuid \<Rightarrow> ClientRefResolution" where
  "resolve_for_conversation cs ids cid =
     (case find (\<lambda>c. c_id c = cid) cs of
        None \<Rightarrow> Ref_REFUSED ''CONVERSATION_MISSING''
      | Some conversation \<Rightarrow>
          (case c_canonical_identity_id conversation of
             None \<Rightarrow> Ref_NOT_FOUND
           | Some canonical_id \<Rightarrow>
               (case find (\<lambda>i. ci_id i = canonical_id) ids of
                  None \<Rightarrow> Ref_REFUSED ''CANONICAL_MISSING''
                | Some canonical \<Rightarrow>
                    if ci_status canonical \<noteq> Identity_ACTIVE then Ref_REFUSED ''CANONICAL_NOT_ACTIVE''
                    else Ref_FOUND (ci_id canonical))))"

fun client_ref_resolution_reason :: "ClientRefResolution \<Rightarrow> string" where
  "client_ref_resolution_reason Ref_NOT_FOUND = ''CLIENT_REF_NOT_FOUND''"
| "client_ref_resolution_reason (Ref_REFUSED reason) = (if reason \<noteq> [] then reason else ''CLIENT_REF_REFUSED'')"
| "client_ref_resolution_reason (Ref_INVALID_INPUT code) = (if code \<noteq> [] then code else ''CLIENT_REF_INVALID'')"
| "client_ref_resolution_reason (Ref_FOUND _) = ''CLIENT_REF_INVALID''"

definition confirm_selected_slot_for_conversation ::
  "create_client option \<Rightarrow> (uuid \<Rightarrow> ClientRefResolution) \<Rightarrow> available_slot \<Rightarrow> uuid \<Rightarrow> string \<Rightarrow> string \<Rightarrow> string \<Rightarrow> bool \<Rightarrow> bool
     \<Rightarrow> (exn + create_application_result) \<times> http_request list" where
  "confirm_selected_slot_for_conversation client resolver slot cid idempotency_key name phone consent ack =
     (case resolver cid of
        Ref_FOUND client_ref \<Rightarrow> confirm_selected_slot client slot idempotency_key name phone consent ack (Some client_ref)
      | resolution \<Rightarrow>
          (let key = (case require_canonical_idempotency_key idempotency_key of Inl _ \<Rightarrow> NIL_KEY | Inr k \<Rightarrow> k)
           in (Inr (Rejected Create_FAIL_CLOSED (client_ref_resolution_reason resolution) key), [])))"

section \<open>Execution of a stored command\<close>

text \<open>
  What the executor passes as \<open>create\<close>: the slot of the row (\<open>_slot_from_pending\<close>), the consents that the
  table's check constraints hold at \<open>True\<close>, and the result reduced to what the executor reads.
\<close>

definition slot_from_request :: "create_request \<Rightarrow> exn + available_slot" where
  "slot_from_request rq =
     (case (require_canonical_booking_starts_at (cr_starts_at rq), parse_bot_slot_id (cr_slot_id rq)) of
        (Inr starts_raw, Inr parts) \<Rightarrow>
          make_slot (cr_slot_id rq) (studio_moment_of_text starts_raw) (sp_master_id parts) (sp_service_id parts)
      | (Inl x, _) \<Rightarrow> Inl x
      | (_, Inl x) \<Rightarrow> Inl x)"

fun machine_result :: "create_application_result \<Rightarrow> BookingCreateResult" where
  "machine_result (Confirmed booking_id _ _ _ _) = BookingCreateConfirmedResult booking_id"
| "machine_result (Rejected outcome reason _) = BookingCreateRejectedResult outcome reason"

definition self_booking_create ::
  "create_client option \<Rightarrow> (uuid \<Rightarrow> ClientRefResolution) \<Rightarrow> create_request \<Rightarrow> exn + BookingCreateResult" where
  "self_booking_create client resolver rq =
     (case slot_from_request rq of
        Inl x \<Rightarrow> Inl x
      | Inr slot \<Rightarrow>
          map_sum id machine_result
            (fst (confirm_selected_slot_for_conversation client resolver slot (cr_conversation_id rq) (cr_idempotency_key rq)
                    (cr_client_name rq) (cr_phone rq) True True)))"

section \<open>What is sent\<close>

lemma canonical_uuid_lower: "require_canonical_backend_uuid v = Inr u \<Longrightarrow> v = map lower_char v \<Longrightarrow> u = v"
  by (auto simp: require_canonical_backend_uuid_def Let_def split: if_splits)

lemma idempotency_key_Inr: "require_canonical_idempotency_key v = Inr k \<Longrightarrow> k = v"
  by (auto simp: require_canonical_idempotency_key_def Let_def dest: canonical_uuid_lower split: if_splits sum.splits)

lemma client_ref_Inr: "require_canonical_client_ref v = Inr k \<Longrightarrow> k = v"
  by (auto simp: require_canonical_client_ref_def Let_def dest: canonical_uuid_lower split: if_splits sum.splits)

lemma booking_id_Inr: "require_canonical_booking_id v = Inr i \<Longrightarrow> v = JStr i \<and> i \<noteq> []"
  by (auto simp: require_canonical_booking_id_def Let_def dest: canonical_uuid_lower split: if_splits sum.splits json.splits)

lemma map_sum_Some: "map_sum id Some x = Inr y \<Longrightarrow> \<exists>z. x = Inr z \<and> y = Some z"
  by (cases x) auto

lemma build_request_Inr:
  assumes "build_booking_create_remote_request key slot_id name phone consent ack client_ref = Inr rq"
  shows "consent \<and> ack \<and> rr_idempotency_key rq = key \<and> rr_slot_id rq = slot_id \<and> rr_client_ref rq = client_ref"
  using assms
  by (auto simp: build_booking_create_remote_request_def dest!: map_sum_Some dest: idempotency_key_Inr client_ref_Inr
      split: if_splits sum.splits option.splits)

text \<open>The one request of a confirmation: its body is the JSON of a request with this key, slot and client.\<close>

definition create_post :: "http_lib \<Rightarrow> booking_http_config \<Rightarrow> create_remote_request \<Rightarrow> string \<Rightarrow> http_request \<Rightarrow> bool" where
  "create_post lib cfg rq body request =
     (lib_dumps lib (create_request_json rq) = Some body \<and> length body \<le> 4096 \<and>
      request = json_post cfg (hc_base_url cfg @ BOOKINGS_ROUTE_PATH) body)"

definition backend_confirmed :: "http_lib \<Rightarrow> http_request \<Rightarrow> string \<Rightarrow> string \<Rightarrow> bool" where
  "backend_confirmed lib request slot_id booking_id =
     (\<exists>r v. lib_transport lib request = Answer r \<and> hr_status_code r = 200 \<and> lib_loads lib (hr_body r) = Some (JObj v) \<and>
        dict_get v ''ok'' = JBool True \<and> dict_get v ''status'' = JStr ''SCHEDULED'' \<and>
        dict_get v ''bookingId'' = JStr booking_id \<and> dict_get v ''slotId'' = JStr slot_id)"

lemma interpret_Inr:
  assumes "interpret_success_response f lib n answer = Inr v"
  obtains r where "answer = Answer r" "hr_status_code r = 200" "lib_loads lib (hr_body r) = Some v"
  using assms by (auto simp: interpret_success_response_def split: transport_answer.splits if_splits option.splits)

lemma parse_create_Some:
  assumes "parse_booking_create_success_payload v rq = Some success"
  obtains raw where "v = JObj raw" "dict_get raw ''ok'' = JBool True" "dict_get raw ''status'' = JStr ''SCHEDULED''"
    "dict_get raw ''bookingId'' = JStr (cs_booking_id success)" "dict_get raw ''slotId'' = JStr (rr_slot_id rq)"
    "cs_slot_id success = rr_slot_id rq" "cs_booking_id success \<noteq> []"
  using assms booking_id_Inr
  by (fastforce simp: parse_booking_create_success_payload_def split: json.splits if_splits sum.splits option.splits)

lemma post_create_cases:
  assumes "post_create lib cfg rq = (answer, sent)"
  obtains (none) code where "sent = []" "answer = Create_error code"
  | (failed) body request code where "sent = [request]" "create_post lib cfg rq body request" "answer = Create_error code"
  | (created) body request success where "sent = [request]" "create_post lib cfg rq body request" "answer = Create_success success"
      "cs_slot_id success = rr_slot_id rq" "backend_confirmed lib request (rr_slot_id rq) (cs_booking_id success)"
proof -
  let ?post = "json_post cfg (hc_base_url cfg @ BOOKINGS_ROUTE_PATH)"
  consider (none) code where "sent = []" "answer = Create_error code"
    | (failed) body code where "sent = [?post body]" "create_post lib cfg rq body (?post body)" "answer = Create_error code"
    | (created) body success f n v where "sent = [?post body]" "create_post lib cfg rq body (?post body)"
        "answer = Create_success success" "interpret_success_response f lib n (lib_transport lib (?post body)) = Inr v"
        "parse_booking_create_success_payload v rq = Some success"
    using assms
    by (auto simp: post_create_def Let_def encode_booking_create_request_body_def create_post_def MAX_REQUEST_BYTES_def
        split: if_splits sum.splits option.splits)
  then show ?thesis
  proof cases
    case (created body success f n v)
    obtain r where r: "lib_transport lib (?post body) = Answer r" "hr_status_code r = 200" "lib_loads lib (hr_body r) = Some v"
      using interpret_Inr [OF created(4)] by blast
    obtain raw where raw: "v = JObj raw" "dict_get raw ''ok'' = JBool True" "dict_get raw ''status'' = JStr ''SCHEDULED''"
      "dict_get raw ''bookingId'' = JStr (cs_booking_id success)" "dict_get raw ''slotId'' = JStr (rr_slot_id rq)"
      "cs_slot_id success = rr_slot_id rq"
      using parse_create_Some [OF created(5)] by metis
    then have "backend_confirmed lib (?post body) (rr_slot_id rq) (cs_booking_id success)"
      using r by (auto simp: backend_confirmed_def)
    with created(1-3) raw(6) show ?thesis by (intro that(3)) 
  qed (use that in blast)+
qed

text \<open>What the client sends and answers, in terms of the request the flow built.\<close>

definition same_command :: "create_remote_request \<Rightarrow> create_remote_request \<Rightarrow> bool" where
  "same_command rq rq' = (rr_idempotency_key rq' = rr_idempotency_key rq \<and> rr_slot_id rq' = rr_slot_id rq \<and>
     rr_client_ref rq' = rr_client_ref rq)"

lemma http_create_cases:
  assumes "http_create_client lib cfg rq = (answer, sent)"
  obtains (none) code where "sent = []" "answer = Create_error code"
  | (failed) rq' body request code where "same_command rq rq'" "sent = [request]" "create_post lib cfg rq' body request"
      "answer = Create_error code"
  | (created) rq' body request success where "same_command rq rq'" "sent = [request]" "create_post lib cfg rq' body request"
      "answer = Create_success success" "cs_slot_id success = rr_slot_id rq"
      "backend_confirmed lib request (rr_slot_id rq) (cs_booking_id success)"
proof (cases "build_booking_create_remote_request (rr_idempotency_key rq) (rr_slot_id rq) (rr_client_name rq) (rr_phone rq) True True
    (rr_client_ref rq)")
  case (Inl x)
  with assms none show ?thesis by (auto simp: http_create_client_def create_booking_def)
next
  case (Inr rq')
  have same: "same_command rq rq'" using build_request_Inr [OF Inr] by (simp add: same_command_def)
  have "post_create lib cfg rq' = (answer, sent)" using assms Inr by (simp add: http_create_client_def create_booking_def)
  then show ?thesis
    by (cases rule: post_create_cases) (use same none failed created in \<open>auto simp: same_command_def\<close>)
qed

lemma confirm_request_Some:
  assumes "confirm_request slot key name phone ref = Inr (Some rq)"
  shows "rr_idempotency_key rq = key \<and> rr_slot_id rq = sl_slot_id slot \<and> rr_client_ref rq = ref"
  using assms by (auto simp: confirm_request_def dest: build_request_Inr split: sum.splits exn.splits if_splits)

lemma confirm_success_Confirmed:
  assumes "confirm_success slot key remote = Inr (Confirmed bid sid start replay k)"
  shows "bid = cs_booking_id remote \<and> sid = sl_slot_id slot \<and> start = sl_starts_at slot \<and> k = key"
proof -
  obtain s where "format_canonical_booking_starts_at (sl_starts_at slot) = Inr s" "cs_starts_at remote = s"
    "cs_slot_id remote = sl_slot_id slot"
    using assms
    by (auto simp: confirm_success_def assert_success_matches_available_slot_def Let_def split: sum.splits exn.splits if_splits)
  with assms show ?thesis
    by (auto simp: confirm_success_def Let_def read_formatted_starts_at split: sum.splits exn.splits if_splits)
qed

lemma confirm_cases:
  assumes "confirm_selected_slot client slot idempotency_key name phone consent ack ref = (r, sent)"
  obtains (none) "sent = []" "\<And>bid sid start replay k. r \<noteq> Inr (Confirmed bid sid start replay k)"
      "\<And>reason k. r \<noteq> Inr (Rejected Create_RETRY_LATER reason k)"
  | (called) create rq answer where "consent" "ack" "client = Some create" "create rq = (answer, sent)"
      "rr_idempotency_key rq = idempotency_key" "rr_slot_id rq = sl_slot_id slot" "rr_client_ref rq = ref"
      "r = (case answer of
              Create_error code \<Rightarrow> Inr (map_create_http_error code idempotency_key)
            | Create_raises \<Rightarrow> Inr (Rejected Create_FAIL_CLOSED ''UNEXPECTED_ERROR'' idempotency_key)
            | Create_other \<Rightarrow> Inr (Rejected Create_FAIL_CLOSED ''RESPONSE_INVALID'' idempotency_key)
            | Create_success remote \<Rightarrow> confirm_success slot idempotency_key remote)"
proof (cases "require_canonical_idempotency_key idempotency_key")
  case (Inl x)
  with assms none show ?thesis by (auto simp: confirm_selected_slot_def)
next
  case (Inr key)
  note key = idempotency_key_Inr [OF Inr]
  show ?thesis
  proof (cases "consent \<and> ack \<and> (\<exists>rq create. confirm_request slot key name phone ref = Inr (Some rq) \<and> client = Some create)")
    case True
    then obtain rq create where rq: "confirm_request slot key name phone ref = Inr (Some rq)" and client: "client = Some create" by blast
    obtain answer sent' where answer: "create rq = (answer, sent')" by fastforce
    with assms Inr True rq client have "sent' = sent" "create rq = (answer, sent)"
      by (auto simp: confirm_selected_slot_def split: create_answer.splits)
    with assms Inr True rq client confirm_request_Some [OF rq] called [of create rq answer] key show ?thesis
      by (auto simp: confirm_selected_slot_def split: create_answer.splits)
  next
    case False
    with assms Inr none show ?thesis
      by (auto simp: confirm_selected_slot_def split: if_splits sum.splits option.splits)
  qed
qed

text \<open>
  A confirmation sends at most one request. With the HTTP client, \<open>confirm_selected_slot\<close> sends nothing or
  exactly one POST of at most 4096 bytes, without redirects, to the booking path; it sends it only with both
  consents, and the body is the JSON of a request under the caller's own idempotency key, for the slot that
  was selected and the client that was resolved.
\<close>

theorem confirm_sends_one_request:
  "snd (confirm_selected_slot (Some (http_create_client lib cfg)) slot key name phone consent ack ref) = [] \<or>
   (\<exists>rq body request. consent \<and> ack \<and> rr_idempotency_key rq = key \<and> rr_slot_id rq = sl_slot_id slot \<and> rr_client_ref rq = ref \<and>
      create_post lib cfg rq body request \<and>
      snd (confirm_selected_slot (Some (http_create_client lib cfg)) slot key name phone consent ack ref) = [request])"
proof -
  obtain r sent where run: "confirm_selected_slot (Some (http_create_client lib cfg)) slot key name phone consent ack ref = (r, sent)"
    by fastforce
  then show ?thesis
  proof (cases rule: confirm_cases)
    case (called create rq answer)
    then have "http_create_client lib cfg rq = (answer, sent)" by simp
    then show ?thesis
      by (cases rule: http_create_cases) (use called run in \<open>auto simp: same_command_def\<close>)
  qed (simp add: run)
qed

lemma confirmed_is_backed:
  assumes "confirm_selected_slot (Some (http_create_client lib cfg)) slot key name phone consent ack ref =
      (Inr (Confirmed bid sid start replay k), sent)"
  shows "sid = sl_slot_id slot \<and> start = sl_starts_at slot \<and> k = key \<and>
    (\<exists>rq body request. rr_idempotency_key rq = key \<and> rr_slot_id rq = sl_slot_id slot \<and> rr_client_ref rq = ref \<and>
       create_post lib cfg rq body request \<and> sent = [request] \<and> backend_confirmed lib request (sl_slot_id slot) bid)"
  using assms
proof (cases rule: confirm_cases)
  case (called create rq answer)
  then have "http_create_client lib cfg rq = (answer, sent)" by simp
  then show ?thesis
  proof (cases rule: http_create_cases)
    case (created rq' body request success)
    then have "confirm_success slot key success = Inr (Confirmed bid sid start replay k)" using called(8) by simp
    note c = confirm_success_Confirmed [OF this]
    show ?thesis using c created called(5,6,7)
      by (intro conjI exI [of _ rq'] exI [of _ body] exI [of _ request]) (auto simp: same_command_def)
  qed (use called(8) in \<open>auto simp: map_create_http_error_def split: if_splits\<close>)
qed blast

lemma retry_is_transient:
  assumes "confirm_selected_slot (Some (http_create_client lib cfg)) slot key name phone consent ack ref =
      (Inr (Rejected Create_RETRY_LATER reason k), sent)"
  shows "reason \<in> set CREATE_RETRY_LATER_CODES"
  using assms
proof (cases rule: confirm_cases)
  case (called create rq answer)
  then show ?thesis
    by (auto simp: map_create_http_error_def confirm_success_def Let_def split: if_splits create_answer.splits sum.splits exn.splits)
qed blast

section \<open>A stored command that succeeds\<close>

lemma sb_fail_outcome: "sb_fail_terminal claimed lease code t = Inr (res, t') \<Longrightarrow> ex_outcome res \<in> {Exec_FAILED, Exec_LEASE_MISMATCH}"
  by (auto simp: sb_fail_terminal_def lease_mismatch_result_def exec_answer_def split: sum.splits if_splits)

lemma sb_execute_outcome:
  assumes "sb_execute phone_of name_of create pid token now cs t = Inr (res, effects, t')"
    and "ex_outcome res \<in> {Exec_SUCCEEDED, Exec_RETRY_SCHEDULED}"
  obtains rq where "CreateCall rq \<in> set effects"
proof -
  have "effects \<noteq> []"
    using assms by (auto simp: sb_execute_def exec_answer_def Let_def dest!: sb_fail_outcome split: sum.splits option.splits if_splits)
  with assms(1) that show ?thesis by (cases rule: sb_execute_cases [where N = sb_new]) auto
qed

lemma apply_create_outcome:
  assumes "apply_create_result claimed lease result t = Inr (res, effs, t')"
  shows "(ex_outcome res = Exec_SUCCEEDED \<longrightarrow> (\<exists>bid. result = BookingCreateConfirmedResult bid \<and> ex_booking_id res = Some bid)) \<and>
    (ex_outcome res = Exec_RETRY_SCHEDULED \<longrightarrow>
       (\<exists>reason. result = BookingCreateRejectedResult Create_RETRY_LATER reason \<and> ex_result_code res = Some reason))"
  using assms
  by (auto simp: apply_create_result_def lease_mismatch_result_def exec_answer_def dest: sb_fail_outcome
      split: BookingCreateResult.splits sum.splits prod.splits if_splits)

lemma self_booking_create_Inr:
  assumes "self_booking_create client resolver rq = Inr result"
  obtains (found) slot ref r sent where "sl_slot_id slot = cr_slot_id rq" "resolver (cr_conversation_id rq) = Ref_FOUND ref"
      "confirm_selected_slot client slot (cr_idempotency_key rq) (cr_client_name rq) (cr_phone rq) True True (Some ref) = (Inr r, sent)"
      "result = machine_result r"
  | (refused) reason where "result = BookingCreateRejectedResult Create_FAIL_CLOSED reason"
proof -
  obtain slot where slot: "slot_from_request rq = Inr slot" using assms by (auto simp: self_booking_create_def split: sum.splits)
  then have id: "sl_slot_id slot = cr_slot_id rq"
    by (auto simp: slot_from_request_def make_slot_def split: sum.splits option.splits)
  show ?thesis
  proof (cases "resolver (cr_conversation_id rq)")
    case (Ref_FOUND ref)
    obtain x sent where run: "confirm_selected_slot client slot (cr_idempotency_key rq) (cr_client_name rq) (cr_phone rq) True True (Some ref) = (x, sent)"
      by fastforce
    then obtain r where "x = Inr r" "result = machine_result r"
      using assms slot Ref_FOUND by (cases x) (auto simp: self_booking_create_def confirm_selected_slot_for_conversation_def)
    with id Ref_FOUND run found show ?thesis by blast
  qed (use assms slot refused in \<open>auto simp: self_booking_create_def confirm_selected_slot_for_conversation_def Let_def\<close>)
qed

lemma machine_result_cases:
  "machine_result r = BookingCreateConfirmedResult bid \<Longrightarrow> \<exists>sid start replay k. r = Confirmed bid sid start replay k"
  "machine_result r = BookingCreateRejectedResult outcome reason \<Longrightarrow> \<exists>k. r = Rejected outcome reason k"
  by (cases r; simp)+


section \<open>A run\<close>

definition create_demo_ref :: string where "create_demo_ref = ''33333333-3333-4333-8333-333333333333''"

definition create_demo_lib :: http_lib where
  "create_demo_lib =
     \<lparr> lib_transport = (\<lambda>_. Answer \<lparr> hr_status_code = 200, hr_headers = [(''content-type'', ''application/json'')], hr_body = ''B'' \<rparr>),
       lib_dumps = (\<lambda>_. Some ''{}''),
       lib_loads = (\<lambda>_. Some (JObj [(''ok'', JBool True), (''bookingId'', JStr create_demo_ref), (''slotId'', JStr slot_demo),
                        (''status'', JStr ''SCHEDULED''), (''startsAt'', JStr ''2028-02-29T18:30:00+05:00''),
                        (''idempotentReplay'', JBool False)])),
       lib_url_path = (\<lambda>_. Some BOOKINGS_ROUTE_PATH) \<rparr>"

definition create_demo_conv :: conversation where
  "create_demo_conv = sb_demo_conv \<lparr> c_canonical_identity_id := Some create_demo_ref \<rparr>"

definition create_demo_resolver :: "uuid \<Rightarrow> ClientRefResolution" where
  "create_demo_resolver = resolve_for_conversation [create_demo_conv] [\<lparr> ci_id = create_demo_ref, ci_status = Identity_ACTIVE \<rparr>]"

definition create_demo_execute :: "exn + (exec_result \<times> exec_effect list \<times> create_pending list)" where
  "create_demo_execute =
     sb_execute (\<lambda>_ _. Some ''+70000000000'') (\<lambda>_ _. Some ''Ann'')
       (self_booking_create (Some (http_create_client create_demo_lib flow_demo_config)) create_demo_resolver)
       ''p'' ''tok'' 20 [create_demo_conv] [sb_demo_row 0]"

definition create_demo_slot :: available_slot where
  "create_demo_slot =
     \<lparr> sl_slot_id = slot_demo, sl_starts_at = studio_moment_of_text ''2028-02-29T18:30:00+05:00'',
       sl_master_id = ''0f0e0d0c-0b0a-4a0a-8b0b-0d0d0d0d0d0d'', sl_service_id = ''0f0e0d0c-0b0a-4a0a-8b0b-0c0c0c0c0c0c'' \<rparr>"

definition create_demo_request :: create_remote_request where
  "create_demo_request =
     \<lparr> rr_idempotency_key = ''0f0e0d0c-0b0a-4a0a-8b0b-0e0e0e0e0e0e'', rr_slot_id = slot_demo, rr_client_name = ''Ann'',
       rr_phone = ''+70000000000'', rr_client_ref = Some create_demo_ref \<rparr>"

text \<open>The run is evaluated in stages, each validator once.\<close>

lemma create_demo_key: "require_canonical_idempotency_key ''0f0e0d0c-0b0a-4a0a-8b0b-0e0e0e0e0e0e'' = Inr ''0f0e0d0c-0b0a-4a0a-8b0b-0e0e0e0e0e0e''"
  by code_simp

lemma create_demo_client: "require_canonical_client_ref create_demo_ref = Inr create_demo_ref"
  "require_confirmed_client_name ''Ann'' = Inr ''Ann''" "require_confirmed_phone ''+70000000000'' = Inr ''+70000000000''"
  by code_simp+

lemma create_demo_starts: "require_canonical_booking_starts_at ''2028-02-29T18:30:00+05:00'' = Inr ''2028-02-29T18:30:00+05:00''"
  "year_in_range (studio_moment_of_text ''2028-02-29T18:30:00+05:00'')"
  by code_simp+

lemmas create_demo_facts = create_demo_key create_demo_client create_demo_starts slot_demo_parses
  format_studio_moment [OF create_demo_starts]

lemma create_demo_build:
  "build_booking_create_remote_request ''0f0e0d0c-0b0a-4a0a-8b0b-0e0e0e0e0e0e'' slot_demo ''Ann'' ''+70000000000'' True True (Some create_demo_ref) =
     Inr create_demo_request"
  by (simp add: build_booking_create_remote_request_def create_demo_facts create_demo_request_def)

lemma create_demo_post:
  "fst (post_create create_demo_lib flow_demo_config create_demo_request) =
     Create_success \<lparr> cs_booking_id = create_demo_ref, cs_slot_id = slot_demo, cs_starts_at = ''2028-02-29T18:30:00+05:00'',
       cs_idempotent_replay = False \<rparr>"
  by code_simp

lemma create_demo_confirm:
  "fst (confirm_selected_slot (Some (http_create_client create_demo_lib flow_demo_config)) create_demo_slot
      ''0f0e0d0c-0b0a-4a0a-8b0b-0e0e0e0e0e0e'' ''Ann'' ''+70000000000'' True True (Some create_demo_ref)) =
   Inr (Confirmed create_demo_ref slot_demo (sl_starts_at create_demo_slot) False ''0f0e0d0c-0b0a-4a0a-8b0b-0e0e0e0e0e0e'')"
proof -
  have request: "confirm_request create_demo_slot ''0f0e0d0c-0b0a-4a0a-8b0b-0e0e0e0e0e0e'' ''Ann'' ''+70000000000'' (Some create_demo_ref) =
      Inr (Some create_demo_request)"
    by (simp add: confirm_request_def create_demo_slot_def create_demo_facts create_demo_build)
  have "fst (http_create_client create_demo_lib flow_demo_config create_demo_request) =
      fst (post_create create_demo_lib flow_demo_config create_demo_request)"
    using create_demo_build by (simp add: http_create_client_def create_booking_def create_demo_request_def)
  moreover have "confirm_success create_demo_slot key \<lparr> cs_booking_id = create_demo_ref, cs_slot_id = slot_demo,
      cs_starts_at = ''2028-02-29T18:30:00+05:00'', cs_idempotent_replay = False \<rparr> =
      Inr (Confirmed create_demo_ref slot_demo (sl_starts_at create_demo_slot) False key)" for key
    by (simp add: confirm_success_def assert_success_matches_available_slot_def create_demo_slot_def create_demo_facts create_demo_ref_def)
  ultimately show ?thesis
    using request create_demo_post
    by (cases "http_create_client create_demo_lib flow_demo_config create_demo_request") (simp add: confirm_selected_slot_def create_demo_key)
qed

lemma create_demo_call:
  "self_booking_create (Some (http_create_client create_demo_lib flow_demo_config)) create_demo_resolver sb_demo_call =
     Inr (BookingCreateConfirmedResult create_demo_ref)"
proof -
  have call: "cr_slot_id sb_demo_call = slot_demo" "cr_starts_at sb_demo_call = ''2028-02-29T18:30:00+05:00''"
    "cr_idempotency_key sb_demo_call = ''0f0e0d0c-0b0a-4a0a-8b0b-0e0e0e0e0e0e''" "cr_client_name sb_demo_call = ''Ann''"
    "cr_phone sb_demo_call = ''+70000000000''"
    by (simp_all add: sb_demo_call_def sb_create_request_def sb_demo_row_def sb_new_row_def sb_demo_rq_def)
  have found: "create_demo_resolver (cr_conversation_id sb_demo_call) = Ref_FOUND create_demo_ref" by code_simp
  have "make_slot slot_demo m ''0f0e0d0c-0b0a-4a0a-8b0b-0d0d0d0d0d0d'' ''0f0e0d0c-0b0a-4a0a-8b0b-0c0c0c0c0c0c'' =
      Inr \<lparr> sl_slot_id = slot_demo, sl_starts_at = m, sl_master_id = ''0f0e0d0c-0b0a-4a0a-8b0b-0d0d0d0d0d0d'',
            sl_service_id = ''0f0e0d0c-0b0a-4a0a-8b0b-0c0c0c0c0c0c'' \<rparr>" for m
    by code_simp
  then have slot: "slot_from_request sb_demo_call = Inr create_demo_slot"
    by (simp add: slot_from_request_def call create_demo_facts create_demo_slot_def)
  show ?thesis
    by (simp add: self_booking_create_def slot confirm_selected_slot_for_conversation_def found call create_demo_confirm)
qed

lemma create_demo_outcome:
  "\<exists>res effects t'. create_demo_execute = Inr (res, effects, t') \<and> ex_outcome res = Exec_SUCCEEDED"
proof -
  let ?claimed = "sb_lease_row ''tok'' (20 + seconds EXECUTION_LEASE_SECONDS) (sb_demo_row 0)"
  have claim: "sb_claim_for_execution ''p'' ''tok'' 20 [sb_demo_row 0] = Inr (Some ?claimed, [?claimed])" by code_simp
  have current: "cancel_if_conversation_fences_stale (sb_id ?claimed) [create_demo_conv] [?claimed] = Inr (False, [?claimed])" by code_simp
  have call: "sb_create_request ?claimed ''+70000000000'' ''Ann'' = sb_demo_call" by code_simp
  have "slot_from_pending_valid ?claimed = (is_Inr (require_canonical_booking_starts_at ''2028-02-29T18:30:00+05:00'') \<and> is_Inr (parse_bot_slot_id slot_demo))"
    by (simp add: slot_from_pending_valid_def sb_lease_row_def sb_demo_row_def sb_new_row_def sb_demo_rq_def)
  then have valid: "slot_from_pending_valid ?claimed" by (simp add: create_demo_facts is_Inr_def)
  have "\<exists>res effects t'. apply_create_result ?claimed ''tok'' (BookingCreateConfirmedResult create_demo_ref) [?claimed] = Inr (res, effects, t') \<and>
      ex_outcome res = Exec_SUCCEEDED"
    by (simp add: apply_create_result_def sb_mark_terminal_def sb_cas_def sql_count_def sb_lease_row_def exec_answer_def
        TERMINAL_SELF_BOOKING_CREATE_STATES_def)
  with claim current call valid create_demo_call show ?thesis
    by (auto simp: create_demo_execute_def sb_execute_def read_booking_pii_def sb_lease_row_def)
qed


end
