(* ===== verification/Circuit_Breaker.thy ===== *)
theory Circuit_Breaker
  imports Prelude
begin

text \<open>
  The circuit breaker of the CRM writes: core/amocrm_circuit_breaker.py and
  repositories/integration_circuit_breakers.py. The table has one row per integration and the code uses
  one key; the state is that row, \<open>None\<close> before its first use. Durations are in microseconds; reading them
  from the environment is not modelled, \<open>policy_ok\<close> holds what \<open>load_amocrm_breaker_policy\<close> ensures.

  The lemmas show when the breaker opens, that at most one probe is out at a time, and that a
  breaker that asks for two successes never closes again.
\<close>

section \<open>State and operations\<close>

datatype CircuitBreakerState = Breaker_CLOSED | Breaker_OPEN | Breaker_HALF_OPEN

datatype ProbeClaimOutcome = Probe_ALLOWED | Probe_DENIED_OPEN | Probe_DENIED_PROBE_BUSY

record breaker_policy =
  bp_failure_threshold :: int
  bp_cooldown :: moment
  bp_half_open_successes :: int
  bp_probe_lease :: moment

definition policy_ok :: "breaker_policy \<Rightarrow> bool" where
  "policy_ok p = (1 \<le> bp_failure_threshold p \<and> seconds 1 \<le> bp_cooldown p \<and> 1 \<le> bp_half_open_successes p \<and>
     seconds 1 \<le> bp_probe_lease p)"

record circuit_breaker =
  cb_state :: CircuitBreakerState
  cb_failure_count :: int
  cb_opened_at :: "moment option"
  cb_half_open_successes :: int
  cb_updated_at :: moment

definition BREAKER_FAILURE_CODES :: "string list" where
  "BREAKER_FAILURE_CODES =
     [''AMOCRM_CONTACT_CREATE_TRANSIENT'', ''AMOCRM_LEAD_CREATE_TRANSIENT'', ''AMOCRM_LEAD_REANIMATE_TRANSIENT'',
      ''AMOCRM_NOTE_CREATE_TRANSIENT'', ''AMOCRM_NOTE_LIST_TRANSIENT'', ''AMOCRM_TASK_LIST_TRANSIENT'',
      ''AMOCRM_TASK_CREATE_TRANSIENT'', ''IDENTITY_TRANSIENT'', ''DEAL_TRANSIENT'']"

definition is_breaker_failure_code :: "string \<Rightarrow> bool" where
  "is_breaker_failure_code code = (code \<in> set BREAKER_FAILURE_CODES)"

definition breaker_get_or_create :: "moment \<Rightarrow> circuit_breaker option \<Rightarrow> circuit_breaker" where
  "breaker_get_or_create now b =
     (case b of
        None \<Rightarrow> \<lparr> cb_state = Breaker_CLOSED, cb_failure_count = 0, cb_opened_at = None, cb_half_open_successes = 0,
                  cb_updated_at = now \<rparr>
      | Some row \<Rightarrow> row)"

definition breaker_closed :: "circuit_breaker \<Rightarrow> circuit_breaker" where
  "breaker_closed row =
     row \<lparr> cb_state := Breaker_CLOSED, cb_failure_count := 0, cb_opened_at := None, cb_half_open_successes := 0 \<rparr>"

definition record_success :: "moment \<Rightarrow> breaker_policy \<Rightarrow> circuit_breaker option \<Rightarrow> circuit_breaker" where
  "record_success now policy b =
     (let row = breaker_get_or_create now b;
          row' =
            (if cb_state row = Breaker_HALF_OPEN then
               (let counted = row \<lparr> cb_half_open_successes := cb_half_open_successes row + 1 \<rparr>
                in if cb_half_open_successes counted \<ge> bp_half_open_successes policy then breaker_closed counted else counted)
             else breaker_closed row)
      in row' \<lparr> cb_updated_at := now \<rparr>)"

definition record_failure :: "moment \<Rightarrow> breaker_policy \<Rightarrow> circuit_breaker option \<Rightarrow> circuit_breaker" where
  "record_failure now policy b =
     (let row = breaker_get_or_create now b;
          row' =
            (if cb_state row = Breaker_HALF_OPEN then
               row \<lparr> cb_state := Breaker_OPEN, cb_failure_count := bp_failure_threshold policy, cb_opened_at := Some now,
                     cb_half_open_successes := 0 \<rparr>
             else
               (let counted = row \<lparr> cb_failure_count := cb_failure_count row + 1 \<rparr>
                in if cb_failure_count counted \<ge> bp_failure_threshold policy
                   then counted \<lparr> cb_state := Breaker_OPEN, cb_opened_at := Some now, cb_half_open_successes := 0 \<rparr>
                   else counted))
      in row' \<lparr> cb_updated_at := now \<rparr>)"

definition probe_claimable :: "moment \<Rightarrow> breaker_policy \<Rightarrow> circuit_breaker \<Rightarrow> bool" where
  "probe_claimable now policy row =
     (case cb_opened_at row of
        None \<Rightarrow> False
      | Some opened \<Rightarrow>
          (cb_state row = Breaker_OPEN \<and> opened \<le> now - bp_cooldown policy) \<or>
          (cb_state row = Breaker_HALF_OPEN \<and> opened \<le> now - bp_probe_lease policy))"

definition try_claim_probe ::
  "moment \<Rightarrow> breaker_policy \<Rightarrow> circuit_breaker option \<Rightarrow> ProbeClaimOutcome \<times> circuit_breaker" where
  "try_claim_probe now policy b =
     (let row = breaker_get_or_create now b in
      if probe_claimable now policy row
      then (Probe_ALLOWED, row \<lparr> cb_state := Breaker_HALF_OPEN, cb_opened_at := Some now, cb_half_open_successes := 0,
                                  cb_updated_at := now \<rparr>)
      else ((case cb_state row of
               Breaker_CLOSED \<Rightarrow> Probe_ALLOWED
             | Breaker_OPEN \<Rightarrow> Probe_DENIED_OPEN
             | Breaker_HALF_OPEN \<Rightarrow> Probe_DENIED_PROBE_BUSY), row))"

definition maybe_half_open :: "moment \<Rightarrow> breaker_policy \<Rightarrow> circuit_breaker option \<Rightarrow> circuit_breaker" where
  "maybe_half_open now policy b = snd (try_claim_probe now policy b)"

section \<open>The invariant of the row\<close>

text \<open>A row that is not closed knows when it opened or when its probe started.\<close>

definition breaker_ok :: "circuit_breaker \<Rightarrow> bool" where
  "breaker_ok row =
     (0 \<le> cb_failure_count row \<and> 0 \<le> cb_half_open_successes row \<and> (cb_state row \<noteq> Breaker_CLOSED \<longrightarrow> cb_opened_at row \<noteq> None))"

lemma breaker_ok_create: "pred_option breaker_ok b \<Longrightarrow> breaker_ok (breaker_get_or_create now b)"
  by (auto simp: breaker_ok_def breaker_get_or_create_def split: option.splits)

lemma breaker_ok_kept:
  assumes "pred_option breaker_ok b" and "policy_ok p"
  shows "breaker_ok (record_success now p b)" and "breaker_ok (record_failure now p b)" and "breaker_ok (snd (try_claim_probe now p b))"
  using breaker_ok_create [OF assms(1), of now] assms(2)
  by (auto simp: record_success_def record_failure_def try_claim_probe_def breaker_ok_def breaker_closed_def Let_def policy_ok_def)

section \<open>Opening\<close>

fun record_failures :: "breaker_policy \<Rightarrow> moment list \<Rightarrow> circuit_breaker option \<Rightarrow> circuit_breaker option" where
  "record_failures p [] b = b"
| "record_failures p (now # rest) b = record_failures p rest (Some (record_failure now p b))"

lemma record_failure_open:
  assumes "cb_state row = Breaker_OPEN" and "bp_failure_threshold p \<le> cb_failure_count row"
  shows "cb_state (record_failure now p (Some row)) = Breaker_OPEN \<and> cb_opened_at (record_failure now p (Some row)) = Some now \<and>
    bp_failure_threshold p \<le> cb_failure_count (record_failure now p (Some row))"
  using assms by (auto simp: record_failure_def breaker_get_or_create_def Let_def)

lemma record_failures_open:
  assumes "cb_state row = Breaker_OPEN" and "bp_failure_threshold p \<le> cb_failure_count row" and "cb_opened_at row = Some opened"
  shows "\<exists>row'. record_failures p moments (Some row) = Some row' \<and> cb_state row' = Breaker_OPEN \<and>
    cb_opened_at row' = Some (last (opened # moments)) \<and> bp_failure_threshold p \<le> cb_failure_count row'"
  using assms
proof (induction moments arbitrary: row opened)
  case (Cons now moments)
  from Cons.IH [of "record_failure now p (Some row)" now] record_failure_open [OF Cons.prems(1,2), of now]
  show ?case by auto
qed simp

lemma record_failures_count:
  assumes "cb_state row = Breaker_CLOSED" and "cb_failure_count row < bp_failure_threshold p"
    and "moments \<noteq> []" and "bp_failure_threshold p \<le> cb_failure_count row + int (length moments)"
  shows "\<exists>row'. record_failures p moments (Some row) = Some row' \<and> cb_state row' = Breaker_OPEN \<and> cb_opened_at row' = Some (last moments)"
  using assms
proof (induction moments arbitrary: row)
  case (Cons now moments)
  let ?r = "record_failure now p (Some row)"
  show ?case
  proof (cases "bp_failure_threshold p \<le> cb_failure_count row + 1")
    case True
    then have "cb_state ?r = Breaker_OPEN" "bp_failure_threshold p \<le> cb_failure_count ?r" "cb_opened_at ?r = Some now"
      using Cons.prems(1) by (auto simp: record_failure_def breaker_get_or_create_def Let_def)
    from record_failures_open [OF this, of moments] show ?thesis by auto
  next
    case False
    then have "cb_state ?r = Breaker_CLOSED" "cb_failure_count ?r = cb_failure_count row + 1"
      using Cons.prems(1) by (auto simp: record_failure_def breaker_get_or_create_def Let_def)
    with Cons.IH [of ?r] Cons.prems False show ?thesis by (cases moments) auto
  qed
qed simp

lemma open_denies:
  assumes "cb_state row = Breaker_OPEN" and "cb_opened_at row = Some opened" and "now < opened + bp_cooldown p"
  shows "try_claim_probe now p (Some row) = (Probe_DENIED_OPEN, row)"
  using assms by (simp add: try_claim_probe_def breaker_get_or_create_def probe_claimable_def Let_def)

text \<open>
  The breaker trips and stays shut for its cooldown. From a closed row below the threshold, any sequence of
  failures that reaches the threshold opens the breaker at the time of the last failure, and every claim
  earlier than that time plus the cooldown is denied and changes nothing.
\<close>

theorem breaker_trips:
  assumes "cb_state row = Breaker_CLOSED" and "cb_failure_count row < bp_failure_threshold p" and "moments \<noteq> []"
    and "bp_failure_threshold p \<le> cb_failure_count row + int (length moments)"
    and "now < last moments + bp_cooldown p"
  shows "\<exists>row'. record_failures p moments (Some row) = Some row' \<and> cb_state row' = Breaker_OPEN \<and>
    try_claim_probe now p (Some row') = (Probe_DENIED_OPEN, row')"
  using record_failures_count [OF assms(1-4)] open_denies assms(5) by blast

section \<open>Probing\<close>

lemma busy_denies:
  assumes "cb_state row = Breaker_HALF_OPEN" and "cb_opened_at row = Some started" and "now < started + bp_probe_lease p"
  shows "try_claim_probe now p (Some row) = (Probe_DENIED_PROBE_BUSY, row)"
  using assms by (simp add: try_claim_probe_def breaker_get_or_create_def probe_claimable_def Let_def)

lemma probe_granted:
  assumes "try_claim_probe now p (Some row) = (Probe_ALLOWED, row')" and "cb_state row \<noteq> Breaker_CLOSED"
  shows "cb_state row' = Breaker_HALF_OPEN \<and> cb_opened_at row' = Some now \<and> cb_half_open_successes row' = 0"
  using assms by (auto simp: try_claim_probe_def breaker_get_or_create_def Let_def split: if_splits CircuitBreakerState.splits)

fun claim_all :: "breaker_policy \<Rightarrow> moment list \<Rightarrow> circuit_breaker \<Rightarrow> ProbeClaimOutcome list \<times> circuit_breaker" where
  "claim_all p [] row = ([], row)"
| "claim_all p (now # rest) row =
     (let (outcome, row1) = try_claim_probe now p (Some row); (outcomes, row2) = claim_all p rest row1
      in (outcome # outcomes, row2))"

text \<open>
  C37. At most one probe is out. Once a claim on a breaker that is not closed is granted, every further
  claim, in any number and any order, is refused as busy until the lease of the probe has run out, and the
  row stays as the granted claim left it.
\<close>

theorem breaker_single_probe:
  assumes "try_claim_probe start p (Some row) = (Probe_ALLOWED, row')" and "cb_state row \<noteq> Breaker_CLOSED"
    and "\<forall>now\<in>set moments. now < start + bp_probe_lease p"
  shows "claim_all p moments row' = (replicate (length moments) Probe_DENIED_PROBE_BUSY, row')"
proof -
  note granted = probe_granted [OF assms(1,2)]
  show ?thesis using assms(3)
  proof (induction moments)
    case (Cons now moments)
    with busy_denies [of row' start now p] granted show ?case by simp
  qed simp
qed

section \<open>A breaker that wants two successes\<close>

text \<open>
  One round of a worker: it asks for a probe and, when allowed, writes to the CRM and reports success or
  failure, or neither (the request ended in a refusal that is not the CRM's fault, or the worker died).
\<close>

inductive probe_round :: "breaker_policy \<Rightarrow> circuit_breaker \<Rightarrow> circuit_breaker \<Rightarrow> bool" for p where
  denied: "try_claim_probe now p (Some row) = (outcome, row') \<Longrightarrow> outcome \<noteq> Probe_ALLOWED \<Longrightarrow> probe_round p row row'"
| silent: "try_claim_probe now p (Some row) = (Probe_ALLOWED, row') \<Longrightarrow> probe_round p row row'"
| success: "try_claim_probe now p (Some row) = (Probe_ALLOWED, row1) \<Longrightarrow> probe_round p row (record_success now' p (Some row1))"
| failure: "try_claim_probe now p (Some row) = (Probe_ALLOWED, row1) \<Longrightarrow> probe_round p row (record_failure now' p (Some row1))"

lemma claim_not_closed: "cb_state row \<noteq> Breaker_CLOSED \<Longrightarrow> cb_state (snd (try_claim_probe now p (Some row))) \<noteq> Breaker_CLOSED"
  by (auto simp: try_claim_probe_def breaker_get_or_create_def Let_def)

lemma probe_round_not_closed:
  assumes "probe_round p row row'" and "2 \<le> bp_half_open_successes p" and "cb_state row \<noteq> Breaker_CLOSED"
  shows "cb_state row' \<noteq> Breaker_CLOSED"
  using assms
proof (induction rule: probe_round.induct)
  case (success now row row1 now')
  from probe_granted [OF success(1,3)] success(2) show ?case
    by (auto simp: record_success_def breaker_get_or_create_def Let_def)
next
  case (failure now row row1 now')
  from probe_granted [OF failure(1,3)] show ?case
    by (auto simp: record_failure_def breaker_get_or_create_def Let_def)
qed (metis claim_not_closed snd_conv)+

text \<open>
  C38. A breaker that asks for two or more successes never closes again. Every granted probe sets the counter
  of successes back to zero and reports at most one, so after an opening no sequence of rounds, however
  many of them succeed, leads back to the closed state.
\<close>

theorem breaker_never_closes:
  assumes "2 \<le> bp_half_open_successes p" and "cb_state row \<noteq> Breaker_CLOSED" and "(probe_round p)\<^sup>*\<^sup>* row row'"
  shows "cb_state row' \<noteq> Breaker_CLOSED"
  using assms(3,2)
  by (induction rule: rtranclp_induct) (auto dest: probe_round_not_closed [OF _ assms(1)])

lemma one_success_closes:
  assumes "bp_half_open_successes p = 1" and "try_claim_probe now p (Some row) = (Probe_ALLOWED, row')"
  shows "cb_state (record_success now' p (Some row')) = Breaker_CLOSED"
proof (cases "cb_state row' = Breaker_HALF_OPEN")
  case True
  with assms have "cb_half_open_successes row' = 0"
    by (auto simp: try_claim_probe_def breaker_get_or_create_def Let_def split: if_splits CircuitBreakerState.splits)
  with True assms(1) show ?thesis by (simp add: record_success_def breaker_get_or_create_def breaker_closed_def Let_def)
qed (simp add: record_success_def breaker_get_or_create_def breaker_closed_def Let_def)

section \<open>A run\<close>

definition breaker_demo_policy :: breaker_policy where
  "breaker_demo_policy =
     \<lparr> bp_failure_threshold = 2, bp_cooldown = seconds 60, bp_half_open_successes = 2, bp_probe_lease = seconds 30 \<rparr>"

definition breaker_demo_closed :: circuit_breaker where
  "breaker_demo_closed = breaker_get_or_create 0 None"

definition breaker_demo_open :: circuit_breaker where
  "breaker_demo_open = record_failure 2 breaker_demo_policy (Some (record_failure 1 breaker_demo_policy (Some breaker_demo_closed)))"

theorem breaker_trips_witness:
  "\<exists>row'. record_failures breaker_demo_policy [1, 2] (Some breaker_demo_closed) = Some row' \<and> cb_state row' = Breaker_OPEN \<and>
     try_claim_probe 10 breaker_demo_policy (Some row') = (Probe_DENIED_OPEN, row')"
  by (rule breaker_trips) (simp_all add: breaker_demo_closed_def breaker_demo_policy_def breaker_get_or_create_def seconds_def)

lemma breaker_demo_probe: "fst (try_claim_probe (seconds 100) breaker_demo_policy (Some breaker_demo_open)) = Probe_ALLOWED"
  "cb_state breaker_demo_open \<noteq> Breaker_CLOSED"
  by code_simp+

theorem breaker_single_probe_witness:
  "fst (claim_all breaker_demo_policy [seconds 110, seconds 129]
     (snd (try_claim_probe (seconds 100) breaker_demo_policy (Some breaker_demo_open)))) = [Probe_DENIED_PROBE_BUSY, Probe_DENIED_PROBE_BUSY]"
proof -
  have "try_claim_probe (seconds 100) breaker_demo_policy (Some breaker_demo_open) =
      (Probe_ALLOWED, snd (try_claim_probe (seconds 100) breaker_demo_policy (Some breaker_demo_open)))"
    using breaker_demo_probe(1) by (metis prod.collapse)
  from breaker_single_probe [OF this breaker_demo_probe(2), of "[seconds 110, seconds 129]"] show ?thesis
    by (simp add: breaker_demo_policy_def seconds_def numeral_eq_Suc)
qed

theorem breaker_never_closes_witness:
  "cb_state (record_success (seconds 101) breaker_demo_policy
     (Some (snd (try_claim_probe (seconds 100) breaker_demo_policy (Some breaker_demo_open))))) \<noteq> Breaker_CLOSED"
proof (rule breaker_never_closes [OF _ breaker_demo_probe(2)])
  show "2 \<le> bp_half_open_successes breaker_demo_policy" by (simp add: breaker_demo_policy_def)
  have "try_claim_probe (seconds 100) breaker_demo_policy (Some breaker_demo_open) =
      (Probe_ALLOWED, snd (try_claim_probe (seconds 100) breaker_demo_policy (Some breaker_demo_open)))"
    using breaker_demo_probe(1) by (metis prod.collapse)
  from probe_round.success [OF this]
  show "(probe_round breaker_demo_policy)\<^sup>*\<^sup>* breaker_demo_open (record_success (seconds 101) breaker_demo_policy
     (Some (snd (try_claim_probe (seconds 100) breaker_demo_policy (Some breaker_demo_open)))))" by (rule r_into_rtranclp)
qed

end
