(* ===== verification/Phone_Number.thy ===== *)
theory Phone_Number
  imports Text_Chars
begin

text \<open>
  \<open>normalize_phone_e164\<close> of core/identity_resolution.py, which gives a phone the form under which identities
  and CRM contacts are found. The lemmas show that the form is stable, and that two different
  canonical numbers can share it.
\<close>

section \<open>Normalizing\<close>

text \<open>\<open>_E164_RE\<close> on the characters of a candidate without its plus sign.\<close>

definition e164_digits :: "string list \<Rightarrow> bool" where
  "e164_digits ds =
     (case ds of
        [] \<Rightarrow> False
      | d # rest \<Rightarrow> d \<in> set (map (\<lambda>c. [c]) ''123456789'') \<and> 9 \<le> length rest \<and> length rest \<le> 14 \<and> list_all is_decimal_text rest)"

text \<open>\<open>None\<close> is \<open>IdentityResolutionError\<close> with code \<open>INVALID_INPUT\<close>.\<close>

definition normalize_phone_e164 :: "string \<Rightarrow> string option" where
  "normalize_phone_e164 value =
     (let stripped = strip_chars (utf8_chars value);
          digits = filter is_decimal_text stripped;
          digits' =
            (if length digits = 11 \<and> hd digits = ''8'' then ''7'' # tl digits
             else if length digits = 10 then ''7'' # digits else digits)
      in if value = [] \<or> contains_control_chars value then None
         else if stripped = [] \<or> digits = [] then None
         else if \<not> list_all (\<lambda>w. is_digit_text w \<or> w \<in> set (map (\<lambda>c. [c]) ''+-(). '')) stripped then None
         else if e164_digits digits' then Some (''+'' @ concat digits') else None)"

section \<open>Text in ASCII\<close>

definition ascii_char :: "char \<Rightarrow> bool" where
  "ascii_char c = (ord_char c < 128)"

lemma utf8_ascii: "list_all ascii_char s \<Longrightarrow> utf8_chars s = map (\<lambda>c. [c]) s"
proof (induction s)
  case (Cons c s)
  then show ?case by (cases s) (auto simp: ascii_char_def)
qed simp

lemma code_point_ascii [simp]: "code_point [c] = int (ord_char c)"
  by (simp add: code_point_def)

lemma is_decimal_ascii: "ascii_char c \<Longrightarrow> is_decimal_text [c] = is_digit c"
  by (auto simp: is_decimal_text_def is_decimal_point_def DECIMAL_ZEROS_def is_digit_def ascii_char_def)

lemma is_digit_ascii: "ascii_char c \<Longrightarrow> is_digit_text [c] = is_digit c"
  using is_decimal_ascii [of c]
  by (auto simp: is_digit_text_def is_digit_point_def is_decimal_text_def OTHER_DIGITS_def ascii_char_def)

lemma digit_ascii: "is_digit c \<Longrightarrow> ascii_char c \<and> \<not> ascii_space c \<and> \<not> is_space_text [c]"
  by (auto simp: is_digit_def ascii_char_def ascii_space_def is_space_text_def)

lemma strip_no_space: "list_all (\<lambda>w. \<not> is_space_text w) ws \<Longrightarrow> strip_chars ws = ws"
proof -
  assume clean: "list_all (\<lambda>w. \<not> is_space_text w) ws"
  have "dropWhile is_space_text vs = vs" if "list_all (\<lambda>w. \<not> is_space_text w) vs" for vs :: "string list"
    using that by (cases vs) auto
  with clean show ?thesis by (simp add: strip_chars_def)
qed

section \<open>Plus and digits\<close>

lemma digit_literals: "is_digit c \<Longrightarrow> c \<in> set ''0123456789''"
proof -
  assume "is_digit c"
  then have "48 \<le> ord_char c \<and> ord_char c \<le> 57" by (simp add: is_digit_def)
  then have "ord_char c = 48 \<or> ord_char c = 49 \<or> ord_char c = 50 \<or> ord_char c = 51 \<or> ord_char c = 52 \<or> ord_char c = 53 \<or>
    ord_char c = 54 \<or> ord_char c = 55 \<or> ord_char c = 56 \<or> ord_char c = 57" by presburger
  moreover have "c = char_of (ord_char c)" by (simp add: ord_char_def)
  moreover have "char_of (48 :: nat) = CHR ''0''" "char_of (49 :: nat) = CHR ''1''" "char_of (50 :: nat) = CHR ''2''"
    "char_of (51 :: nat) = CHR ''3''" "char_of (52 :: nat) = CHR ''4''" "char_of (53 :: nat) = CHR ''5''"
    "char_of (54 :: nat) = CHR ''6''" "char_of (55 :: nat) = CHR ''7''" "char_of (56 :: nat) = CHR ''8''"
    "char_of (57 :: nat) = CHR ''9''"
    by code_simp+
  ultimately show ?thesis by auto
qed

lemma plus_facts: "ascii_char CHR ''+''" "\<not> is_digit CHR ''+''" "\<not> is_space_text ''+''"
  by code_simp+

definition plus_digits :: "string \<Rightarrow> string" where
  "plus_digits ds =
     (if length ds = 11 \<and> hd ds = CHR ''8'' then CHR ''7'' # tl ds else if length ds = 10 then CHR ''7'' # ds else ds)"

lemma e164_plus:
  assumes "list_all is_digit ds" and "ds \<noteq> []"
  shows "e164_digits (map (\<lambda>c. [c]) ds) = (hd ds \<noteq> CHR ''0'' \<and> 10 \<le> length ds \<and> length ds \<le> 15)"
proof (cases ds)
  case (Cons d rest)
  have "list_all is_decimal_text (map (\<lambda>c. [c]) rest)"
    using assms(1) Cons digit_ascii is_decimal_ascii by (auto simp: list_all_iff)
  moreover have "d \<in> set ''0123456789''" using assms(1) Cons digit_literals by simp
  then have "d \<in> set ''123456789'' \<longleftrightarrow> d \<noteq> CHR ''0''" by auto
  ultimately show ?thesis using Cons by (auto simp: e164_digits_def)
qed (use assms in simp)

lemma concat_chars: "concat (map (\<lambda>c. [c]) vs) = vs"
  by (induction vs) auto

lemma shift_chars:
  "ds \<noteq> [] \<Longrightarrow>
   (if length (map (\<lambda>c. [c]) ds) = 11 \<and> hd (map (\<lambda>c. [c]) ds) = ''8'' then ''7'' # tl (map (\<lambda>c. [c]) ds)
    else if length (map (\<lambda>c. [c]) ds) = 10 then ''7'' # map (\<lambda>c. [c]) ds else map (\<lambda>c. [c]) ds) = map (\<lambda>c. [c]) (plus_digits ds)"
  by (cases ds) (auto simp: plus_digits_def)

lemma plus_digits_digits:
  assumes "list_all is_digit ds" and "ds \<noteq> []"
  shows "list_all is_digit (plus_digits ds)" and "plus_digits ds \<noteq> []"
  using assms by (cases ds; auto simp: plus_digits_def is_digit_def ord_char_def)+

lemma normalize_plus:
  assumes "list_all is_digit ds" and "ds \<noteq> []"
  shows "normalize_phone_e164 (CHR ''+'' # ds) =
    (if hd (plus_digits ds) \<noteq> CHR ''0'' \<and> 10 \<le> length (plus_digits ds) \<and> length (plus_digits ds) \<le> 15
     then Some (CHR ''+'' # plus_digits ds) else None)"
proof -
  let ?ch = "\<lambda>c :: char. [c]"
  have digit: "ascii_char c" "is_decimal_text [c]" "is_digit_text [c]" "\<not> is_space_text [c]" if "c \<in> set ds" for c
    using assms(1) that digit_ascii [of c] is_decimal_ascii [of c] is_digit_ascii [of c] by (auto simp: list_all_iff)
  have chars: "utf8_chars (CHR ''+'' # ds) = map ?ch (CHR ''+'' # ds)"
    by (rule utf8_ascii) (auto simp: list_all_iff digit plus_facts)
  have strip: "strip_chars (map ?ch (CHR ''+'' # ds)) = map ?ch (CHR ''+'' # ds)"
    by (rule strip_no_space) (auto simp: list_all_iff digit plus_facts)
  have "\<not> is_decimal_text ''+''" using is_decimal_ascii [OF plus_facts(1)] plus_facts(2) by simp
  then have digits: "filter is_decimal_text (map ?ch (CHR ''+'' # ds)) = map ?ch ds"
    by (auto simp: filter_map comp_def digit intro!: filter_True)
  have clean: "\<not> contains_control_chars (CHR ''+'' # ds)"
    using assms(1) by (auto simp: contains_control_chars_def list_ex_iff list_all_iff is_digit_def ord_char_def)
  have known: "list_all (\<lambda>w. is_digit_text w \<or> w \<in> set (map ?ch ''+-(). '')) (map ?ch (CHR ''+'' # ds))"
    by (auto simp: list_all_iff digit)
  note e = e164_plus [OF plus_digits_digits [OF assms]]
  from assms(2) show ?thesis
    unfolding normalize_phone_e164_def Let_def chars strip digits shift_chars [OF assms(2)] e concat_chars
    using clean known by simp
qed

text \<open>
  The normal form is stable: normalizing a number that \<open>normalize_phone_e164\<close> returned for an ASCII
  text returns it again.
\<close>

theorem phone_normal_form_stable:
  assumes "normalize_phone_e164 value = Some phone" and "list_all ascii_char value"
  shows "normalize_phone_e164 phone = Some phone"
proof -
  let ?ch = "\<lambda>c :: char. [c]" and ?sp = "\<lambda>c. is_space_text [c]"
  define v where "v = rev (dropWhile ?sp (rev (dropWhile ?sp value)))"
  define ds where "ds = filter is_digit v"
  have "set v \<subseteq> set value" unfolding v_def by (auto dest!: set_dropWhileD)
  with assms(2) have ascii: "list_all ascii_char v" by (auto simp: list_all_iff)
  have strip: "strip_chars (utf8_chars value) = map ?ch v"
    unfolding utf8_ascii [OF assms(2)] strip_chars_def v_def by (simp add: dropWhile_map rev_map comp_def)
  have "filter is_decimal_text (map ?ch v) = map ?ch (filter (\<lambda>c. is_decimal_text [c]) v)"
    by (simp add: filter_map comp_def)
  also have "filter (\<lambda>c. is_decimal_text [c]) v = ds"
    unfolding ds_def using ascii by (intro filter_cong) (auto simp: list_all_iff is_decimal_ascii)
  finally have digits: "filter is_decimal_text (map ?ch v) = map ?ch ds" .
  have ds: "list_all is_digit ds" unfolding ds_def by (simp add: list_all_iff)
  have some: "ds \<noteq> []" using assms(1) unfolding normalize_phone_e164_def Let_def strip digits by (auto split: if_splits)
  have e: "e164_digits (map ?ch (plus_digits ds))" and phone: "phone = CHR ''+'' # plus_digits ds"
    using assms(1) unfolding normalize_phone_e164_def Let_def strip digits shift_chars [OF some] concat_chars
    by (auto split: if_splits)
  note vs = plus_digits_digits [OF ds some]
  have "plus_digits (plus_digits ds) = plus_digits ds" by (auto simp: plus_digits_def)
  with normalize_plus [OF vs] e [unfolded e164_plus [OF vs]] show ?thesis by (simp add: phone)
qed

theorem phone_normal_form_stable_witness: "normalize_phone_e164 ''+79001234567'' = Some ''+79001234567''"
proof (rule phone_normal_form_stable [of "''8 (900) 123-45-67''"])
  show "normalize_phone_e164 ''8 (900) 123-45-67'' = Some ''+79001234567''" by code_simp
  show "list_all ascii_char ''8 (900) 123-45-67''" by code_simp
qed

text \<open>
  C39. Two canonical numbers share a normal form. Every number of eleven digits whose country code starts with 8
  (Hong Kong and Macau among them), written in canonical form with its plus sign, is normalized to the
  Russian number with the same ten last digits, which is its own normal form.
\<close>

theorem phone_normal_forms_collide:
  assumes "list_all is_digit rest" and "length rest = 10"
  shows "normalize_phone_e164 (''+8'' @ rest) = Some (''+7'' @ rest) \<and> normalize_phone_e164 (''+7'' @ rest) = Some (''+7'' @ rest)"
proof -
  have "is_digit CHR ''8''" "is_digit CHR ''7''" by code_simp+
  with assms normalize_plus [of "CHR ''8'' # rest"] normalize_plus [of "CHR ''7'' # rest"] show ?thesis
    by (simp add: plus_digits_def)
qed

theorem phone_normal_forms_collide_witness:
  "normalize_phone_e164 ''+85212345678'' = Some ''+75212345678'' \<and> normalize_phone_e164 ''+75212345678'' = Some ''+75212345678''"
proof -
  have "list_all is_digit ''5212345678''" by code_simp
  from phone_normal_forms_collide [OF this] show ?thesis by simp
qed

end
