(* ===== verification/Teya_Request.thy ===== *)
theory Teya_Request
  imports Fenced_Queue Circuit_Breaker Phone_Number
begin

text \<open>
  The booking requests of the web site ("Teya"): core/teya_request_types.py, core/teya_request_retry.py,
  the table and its repository (models and repositories/teya_request_pendings.py),
  services/teya_request_pending.py, services/teya_request_contact_route.py and the state machine of
  services/teya_request_orchestrator.py.

  The remote booking service and the CRM service are arguments, as they are in the code; a call returns,
  raises the adapter's error with a code, or raises something else. A step yields the result (\<open>None\<close> when an
  exception leaves it), the calls it made, and the database. One step reads the clock once, and the
  delay of a retry (exponential with random jitter) is an argument. A task text is kept as its template with
  the fields.
\<close>

section \<open>States and codes\<close>

datatype TeyaRequestPendingState =
    Teya_DISCOVERED | Teya_IDENTITY | Teya_CRM_READY | Teya_RECONCILED | Teya_CONTACT_ROUTE | Teya_READY_TO_BOOK
  | Teya_WAITING_CONTACT | Teya_BOOKING | Teya_VERIFYING | Teya_DONE | Teya_FAIL_CLOSED
  | Teya_RECONCILIATION_REQUIRED | Teya_MANUAL_REVIEW

fun teya_state_value :: "TeyaRequestPendingState \<Rightarrow> string" where
  "teya_state_value Teya_DISCOVERED = ''DISCOVERED''"
| "teya_state_value Teya_IDENTITY = ''IDENTITY''"
| "teya_state_value Teya_CRM_READY = ''CRM_READY''"
| "teya_state_value Teya_RECONCILED = ''RECONCILED''"
| "teya_state_value Teya_CONTACT_ROUTE = ''CONTACT_ROUTE''"
| "teya_state_value Teya_READY_TO_BOOK = ''READY_TO_BOOK''"
| "teya_state_value Teya_WAITING_CONTACT = ''WAITING_CONTACT''"
| "teya_state_value Teya_BOOKING = ''BOOKING''"
| "teya_state_value Teya_VERIFYING = ''VERIFYING''"
| "teya_state_value Teya_DONE = ''DONE''"
| "teya_state_value Teya_FAIL_CLOSED = ''FAIL_CLOSED''"
| "teya_state_value Teya_RECONCILIATION_REQUIRED = ''RECONCILIATION_REQUIRED''"
| "teya_state_value Teya_MANUAL_REVIEW = ''MANUAL_REVIEW''"

definition TERMINAL_TEYA_REQUEST_STATES :: "TeyaRequestPendingState list" where
  "TERMINAL_TEYA_REQUEST_STATES = [Teya_DONE, Teya_FAIL_CLOSED, Teya_RECONCILIATION_REQUIRED, Teya_MANUAL_REVIEW]"

definition TEYA_LEASE_SECONDS :: int where "TEYA_LEASE_SECONDS = 90"

definition TEYA_MAX_ATTEMPTS :: int where "TEYA_MAX_ATTEMPTS = 8"

definition is_teya_post_book_analytics_phase :: "TeyaRequestPendingState \<Rightarrow> bool" where
  "is_teya_post_book_analytics_phase state = (state = Teya_VERIFYING)"

definition RETRYABLE_REMOTE_CODES :: "string list" where
  "RETRYABLE_REMOTE_CODES =
     [''RATE_LIMITED'', ''IDEMPOTENCY_IN_PROGRESS'', ''TRANSPORT_ERROR'', ''TIMEOUT'', ''INTERNAL_ERROR'', ''SERVICE_UNAVAILABLE'']"

definition MANUAL_REVIEW_CODES :: "string list" where
  "MANUAL_REVIEW_CODES =
     [''IDENTITY_AMBIGUOUS'', ''ACTIVE_DEAL_AMBIGUOUS'', ''REANIMATION_AMBIGUOUS'', ''AMOCRM_NOTE_AMBIGUOUS'',
      ''AMOCRM_TASK_AMBIGUOUS'', ''AMOCRM_ANALYTICS_FIELD_AMBIGUOUS'', ''CRM_UNBOUND'', ''AMOCRM_CRM_REST_DISABLED'',
      ''AMOCRM_CRM_BUSINESS_WRITE_DISABLED'', ''AMOCRM_CRM_BUSINESS_WRITE_CONFIG_INVALID'',
      ''AMOCRM_CRM_BUSINESS_WRITE_IDS_INVALID'', ''AMOCRM_CRM_OAUTH_NOT_FOUND'', ''MAX_ATTEMPTS_EXCEEDED'',
      ''BREAKER_OPEN_EXHAUSTED'']"

datatype remote_class = Class_RETRY | Class_SPECIAL | Class_MANUAL | Class_FAIL_CLOSED

definition classify_remote_code :: "string \<Rightarrow> remote_class" where
  "classify_remote_code code =
     (if code \<in> set RETRYABLE_REMOTE_CODES then Class_RETRY
      else if code \<in> {''CONSULTATION_SERVICE_REQUIRED'', ''RECONCILIATION_REQUIRED''} then Class_SPECIAL
      else if code \<in> set MANUAL_REVIEW_CODES then Class_MANUAL
      else Class_FAIL_CLOSED)"

section \<open>The table\<close>

record teya_row =
  te_id :: uuid
  te_request_id :: uuid
  te_state :: TeyaRequestPendingState
  te_attempt_count :: int
  te_max_attempts :: int
  te_lease_token :: "uuid option"
  te_lease_expires_at :: "moment option"
  te_next_retry_at :: "moment option"
  te_result_code :: "string option"
  te_result_outcome :: "string option"
  te_manual_review_reason :: "string option"
  te_contact_route_outcome :: "string option"
  te_amocrm_contact_id :: "string option"
  te_amocrm_deal_id :: "string option"
  te_amocrm_task_id :: "string option"
  te_structured_note :: "string option"
  te_selected_starts_at :: "string option"
  te_book_idempotency_key :: "string option"
  te_created_at :: moment
  te_updated_at :: moment

definition teya_terminal :: "teya_row \<Rightarrow> bool" where
  "teya_terminal r = (te_state r \<in> set TERMINAL_TEYA_REQUEST_STATES)"

definition teya_get_by_id :: "uuid \<Rightarrow> teya_row list \<Rightarrow> teya_row option" where
  "teya_get_by_id i t = sql_one (\<lambda>r. te_id r = i) t"

definition teya_get_by_request_id :: "uuid \<Rightarrow> teya_row list \<Rightarrow> teya_row option" where
  "teya_get_by_request_id i t = sql_one (\<lambda>r. te_request_id r = i) t"

definition teya_new_row :: "uuid \<Rightarrow> uuid \<Rightarrow> moment \<Rightarrow> int \<Rightarrow> teya_row" where
  "teya_new_row row_id request_id now max_attempts =
     \<lparr> te_id = row_id, te_request_id = request_id, te_state = Teya_DISCOVERED, te_attempt_count = 0,
       te_max_attempts = max_attempts, te_lease_token = None, te_lease_expires_at = None, te_next_retry_at = None,
       te_result_code = None, te_result_outcome = None, te_manual_review_reason = None, te_contact_route_outcome = None,
       te_amocrm_contact_id = None, te_amocrm_deal_id = None, te_amocrm_task_id = None, te_structured_note = None,
       te_selected_starts_at = None, te_book_idempotency_key = None, te_created_at = now, te_updated_at = now \<rparr>"

text \<open>A new row whose id is taken violates the primary key: the call raises and stores nothing.\<close>

definition teya_repo_upsert_discovered ::
  "uuid \<Rightarrow> uuid \<Rightarrow> moment \<Rightarrow> int \<Rightarrow> teya_row list \<Rightarrow> (teya_row \<times> teya_row list) option" where
  "teya_repo_upsert_discovered row_id request_id now max_attempts t =
     (case teya_get_by_request_id request_id t of
        Some existing \<Rightarrow> Some (existing, t)
      | None \<Rightarrow>
          if row_id \<in> te_id ` set t then None
          else (let row = teya_new_row row_id request_id now max_attempts in Some (row, t @ [row])))"

text \<open>\<open>row_id\<close> is \<open>uuid.uuid4()\<close>; the race that the service handles needs a second writer.\<close>

definition teya_upsert_discovered ::
  "uuid \<Rightarrow> uuid \<Rightarrow> int \<Rightarrow> moment \<Rightarrow> teya_row list \<Rightarrow> (teya_row \<times> teya_row list) option" where
  "teya_upsert_discovered row_id request_id max_attempts now t =
     teya_repo_upsert_discovered row_id request_id now (if max_attempts < 1 then TEYA_MAX_ATTEMPTS else max_attempts) t"

definition teya_free :: "moment \<Rightarrow> moment option \<Rightarrow> bool" where
  "teya_free now at = (case at of None \<Rightarrow> True | Some m \<Rightarrow> m \<le> now)"

definition teya_claimable :: "moment \<Rightarrow> teya_row \<Rightarrow> bool" where
  "teya_claimable now r =
     (te_attempt_count r < te_max_attempts r \<and> \<not> teya_terminal r \<and> teya_free now (te_next_retry_at r) \<and>
      teya_free now (te_lease_expires_at r))"

definition teya_lock_next_claimable_id :: "moment \<Rightarrow> (uuid \<Rightarrow> bool) \<Rightarrow> teya_row list \<Rightarrow> uuid option" where
  "teya_lock_next_claimable_id now locked t =
     map_option te_id (sql_first_by te_created_at (\<lambda>r. teya_claimable now r \<and> \<not> locked (te_id r)) t)"

definition teya_cas :: "(teya_row \<Rightarrow> bool) \<Rightarrow> (teya_row \<Rightarrow> teya_row) \<Rightarrow> teya_row list \<Rightarrow> bool \<times> teya_row list" where
  "teya_cas P f t = (sql_count P t = 1, sql_update P f t)"

definition teya_lease_row :: "uuid \<Rightarrow> moment \<Rightarrow> moment \<Rightarrow> teya_row \<Rightarrow> teya_row" where
  "teya_lease_row token expires now r =
     r \<lparr> te_lease_token := Some token, te_lease_expires_at := Some expires, te_attempt_count := te_attempt_count r + 1,
         te_next_retry_at := None, te_updated_at := now \<rparr>"

definition teya_claim_lease :: "uuid \<Rightarrow> uuid \<Rightarrow> moment \<Rightarrow> moment \<Rightarrow> teya_row list \<Rightarrow> bool \<times> teya_row list" where
  "teya_claim_lease row_id token expires now t =
     teya_cas (\<lambda>r. te_id r = row_id \<and> teya_claimable now r) (teya_lease_row token expires now) t"

definition teya_held :: "teya_row \<Rightarrow> uuid \<Rightarrow> teya_row \<Rightarrow> bool" where
  "teya_held row lease r = (te_id r = te_id row \<and> te_lease_token r = Some lease)"

definition teya_release_lease ::
  "teya_row \<Rightarrow> uuid \<Rightarrow> moment \<Rightarrow> moment option \<Rightarrow> string option \<Rightarrow> teya_row list \<Rightarrow> bool \<times> teya_row list" where
  "teya_release_lease row lease now next_retry_at code t =
     teya_cas (teya_held row lease)
       (\<lambda>r. r \<lparr> te_lease_token := None, te_lease_expires_at := None, te_next_retry_at := next_retry_at,
                te_result_code := code, te_updated_at := now \<rparr>) t"

text \<open>The optional columns of \<open>advance_state\<close>; \<open>None\<close> leaves the column.\<close>

record teya_patch =
  tp_result_code :: "string option"
  tp_result_outcome :: "string option"
  tp_contact_route_outcome :: "string option"
  tp_amocrm_contact_id :: "string option"
  tp_amocrm_deal_id :: "string option"
  tp_amocrm_task_id :: "string option"
  tp_structured_note :: "string option"
  tp_selected_starts_at :: "string option"
  tp_book_idempotency_key :: "string option"

definition no_patch :: teya_patch where
  "no_patch =
     \<lparr> tp_result_code = None, tp_result_outcome = None, tp_contact_route_outcome = None, tp_amocrm_contact_id = None,
       tp_amocrm_deal_id = None, tp_amocrm_task_id = None, tp_structured_note = None, tp_selected_starts_at = None,
       tp_book_idempotency_key = None \<rparr>"

definition or_keep :: "string option \<Rightarrow> string option \<Rightarrow> string option" where
  "or_keep patch old = (case patch of None \<Rightarrow> old | Some v \<Rightarrow> Some v)"

text \<open>The orchestrator always passes \<open>clear_lease=True\<close> and no \<open>next_retry_at\<close>.\<close>

definition teya_advance_row :: "TeyaRequestPendingState \<Rightarrow> teya_patch \<Rightarrow> moment \<Rightarrow> teya_row \<Rightarrow> teya_row" where
  "teya_advance_row state p now r =
     r \<lparr> te_state := state, te_updated_at := now,
         te_result_code := or_keep (tp_result_code p) (te_result_code r),
         te_result_outcome := or_keep (tp_result_outcome p) (te_result_outcome r),
         te_contact_route_outcome := or_keep (tp_contact_route_outcome p) (te_contact_route_outcome r),
         te_amocrm_contact_id := or_keep (tp_amocrm_contact_id p) (te_amocrm_contact_id r),
         te_amocrm_deal_id := or_keep (tp_amocrm_deal_id p) (te_amocrm_deal_id r),
         te_amocrm_task_id := or_keep (tp_amocrm_task_id p) (te_amocrm_task_id r),
         te_structured_note := or_keep (tp_structured_note p) (te_structured_note r),
         te_selected_starts_at := or_keep (tp_selected_starts_at p) (te_selected_starts_at r),
         te_book_idempotency_key := or_keep (tp_book_idempotency_key p) (te_book_idempotency_key r),
         te_lease_token := None, te_lease_expires_at := None, te_next_retry_at := None \<rparr>"

definition teya_advance_state ::
  "teya_row \<Rightarrow> uuid \<Rightarrow> TeyaRequestPendingState \<Rightarrow> teya_patch \<Rightarrow> moment \<Rightarrow> teya_row list \<Rightarrow> bool \<times> teya_row list" where
  "teya_advance_state row lease state p now t = teya_cas (teya_held row lease) (teya_advance_row state p now) t"

definition teya_manual_row :: "string \<Rightarrow> moment \<Rightarrow> teya_row \<Rightarrow> teya_row" where
  "teya_manual_row reason now r =
     r \<lparr> te_state := Teya_MANUAL_REVIEW, te_result_code := Some reason,
         te_result_outcome := Some (teya_state_value Teya_MANUAL_REVIEW), te_manual_review_reason := Some reason,
         te_lease_token := None, te_lease_expires_at := None, te_next_retry_at := None, te_updated_at := now \<rparr>"

definition teya_mark_manual_review ::
  "teya_row \<Rightarrow> moment \<Rightarrow> string \<Rightarrow> uuid option \<Rightarrow> teya_row list \<Rightarrow> bool \<times> teya_row list" where
  "teya_mark_manual_review row now reason lease t =
     teya_cas (case lease of None \<Rightarrow> (\<lambda>r. te_id r = te_id row) | Some l \<Rightarrow> teya_held row l) (teya_manual_row reason now) t"

definition teya_booked_row :: "moment \<Rightarrow> teya_row \<Rightarrow> teya_row" where
  "teya_booked_row now r =
     r \<lparr> te_state := Teya_DONE, te_result_code := Some ''BOOKED_ANALYTICS_MANUAL'',
         te_result_outcome := Some (teya_state_value Teya_DONE), te_manual_review_reason := None,
         te_lease_token := None, te_lease_expires_at := None, te_next_retry_at := None, te_updated_at := now \<rparr>"

definition teya_exhausted :: "teya_row \<Rightarrow> bool" where
  "teya_exhausted r = (te_attempt_count r \<ge> te_max_attempts r)"

definition teya_expire_exhausted :: "moment \<Rightarrow> teya_row list \<Rightarrow> nat \<times> teya_row list" where
  "teya_expire_exhausted now t =
     (let post_book = (\<lambda>r. teya_exhausted r \<and> te_state r = Teya_VERIFYING);
          t1 = sql_update post_book (teya_booked_row now) t;
          other = (\<lambda>r. teya_exhausted r \<and> \<not> teya_terminal r)
      in (sql_count post_book t + sql_count other t1, sql_update other (teya_manual_row ''MAX_ATTEMPTS_EXCEEDED'' now) t1))"

definition teya_claim_by_id :: "uuid \<Rightarrow> uuid \<Rightarrow> moment \<Rightarrow> teya_row list \<Rightarrow> teya_row option \<times> teya_row list" where
  "teya_claim_by_id pid token now t =
     (case teya_get_by_id pid t of
        None \<Rightarrow> (None, t)
      | Some row \<Rightarrow>
          (let (ok, t') = teya_claim_lease (te_id row) token (now + seconds TEYA_LEASE_SECONDS) now t
           in if ok then (teya_get_by_id pid t', t') else (None, t')))"

section \<open>The ports\<close>

datatype 'a remote = Remote_ok 'a | Remote_error string | Remote_raises

record booking_request =
  br_status :: string
  br_request_type :: string
  br_service_id :: "string option"
  br_master_id :: "string option"
  br_client_name :: "string option"
  br_phone_e164 :: "string option"
  br_game :: "(string option \<times> string option) option"
  br_appointment_id :: "string option"

datatype AppointmentsLookupOutcome = Lookup_NONE | Lookup_UNIQUE | Lookup_AMBIGUOUS

record teya_remote =
  tr_get :: "uuid \<Rightarrow> booking_request remote"
  tr_lookup :: "string \<Rightarrow> (AppointmentsLookupOutcome \<times> string option) remote"
  tr_book :: "uuid \<Rightarrow> string \<Rightarrow> string \<Rightarrow> string option \<Rightarrow> unit remote"

datatype TeyaCrmActionOutcome = Crm_READY | Crm_FAIL_CLOSED | Crm_RECONCILIATION_REQUIRED | Crm_RETRY | Crm_MANUAL_REVIEW | Crm_NONE

record crm_action_result =
  ca_outcome :: TeyaCrmActionOutcome
  ca_contact_id :: "string option"
  ca_deal_id :: "string option"
  ca_task_id :: "string option"
  ca_note_id :: "string option"
  ca_error_code :: "string option"
  ca_analytics_decision :: "string option"

datatype task_text = Task_default | Task_game_self_booking "string option" string | Task_game_no_booking "string option" "string option"

text \<open>A call of the CRM service that raises is \<open>None\<close>.\<close>

record teya_crm =
  tc_ensure :: "string \<Rightarrow> string option \<Rightarrow> crm_action_result option"
  tc_attach :: "string \<Rightarrow> string \<Rightarrow> task_text \<Rightarrow> crm_action_result option"
  tc_analytics :: "string \<Rightarrow> crm_action_result option"
  tc_reconcile :: "string \<Rightarrow> string \<Rightarrow> task_text \<Rightarrow> crm_action_result option"

datatype teya_effect =
    BookCall uuid string string "string option"
  | CrmEnsure string
  | CrmAttach string
  | CrmAnalytics string

definition truthy :: "string option \<Rightarrow> bool" where
  "truthy v = (case v of None \<Rightarrow> False | Some s \<Rightarrow> s \<noteq> [])"

definition take_chars :: "nat \<Rightarrow> string \<Rightarrow> string" where
  "take_chars n s = concat (take n (utf8_chars s))"

definition note_field :: "string \<Rightarrow> string option \<Rightarrow> string list" where
  "note_field label v = (if truthy v then [label @ take_chars 80 (the v)] else [])"

fun join_parts :: "string list \<Rightarrow> string" where
  "join_parts [] = []"
| "join_parts [p] = p"
| "join_parts (p # q # ps) = p @ ''; '' @ join_parts (q # ps)"

definition build_teya_structured_note :: "booking_request \<Rightarrow> string" where
  "build_teya_structured_note dto =
     join_parts
       ([''type='' @ (if br_request_type dto = [] then ''UNKNOWN'' else br_request_type dto),
         ''status='' @ (if br_status dto = [] then ''UNKNOWN'' else br_status dto)] @
        (if truthy (br_service_id dto) then [''service=set''] else []) @
        (if truthy (br_master_id dto) then [''master=set''] else []) @
        (case br_game dto of None \<Rightarrow> [] | Some (gift, procedure) \<Rightarrow> ''game=set'' # note_field ''gift='' gift @ note_field ''procedure='' procedure))"

definition falsy_none :: "string option \<Rightarrow> string option" where
  "falsy_none v = (if truthy v then v else None)"

definition build_game_task_text :: "string option \<Rightarrow> string option \<Rightarrow> string option \<Rightarrow> task_text" where
  "build_game_task_text gift procedure appointment_id =
     (if truthy appointment_id then Task_game_self_booking (falsy_none gift) (the appointment_id)
      else Task_game_no_booking (falsy_none gift) (falsy_none procedure))"

definition build_teya_crm_task_text :: "booking_request \<Rightarrow> string option \<Rightarrow> task_text" where
  "build_teya_crm_task_text dto appointment_id =
     (case br_game dto of None \<Rightarrow> Task_default | Some (gift, procedure) \<Rightarrow> build_game_task_text gift procedure appointment_id)"

section \<open>The contact route\<close>

datatype ContactRouteOutcome = Route_TEXT_CHANNEL_AVAILABLE | Route_PHONE_ONLY | Route_AMBIGUOUS_CHANNEL | Route_NO_CONTACT_ROUTE

fun route_value :: "ContactRouteOutcome \<Rightarrow> string" where
  "route_value Route_TEXT_CHANNEL_AVAILABLE = ''TEXT_CHANNEL_AVAILABLE''"
| "route_value Route_PHONE_ONLY = ''PHONE_ONLY''"
| "route_value Route_AMBIGUOUS_CHANNEL = ''AMBIGUOUS_CHANNEL''"
| "route_value Route_NO_CONTACT_ROUTE = ''NO_CONTACT_ROUTE''"

text \<open>\<open>ConversationLocator.resolve\<close>; \<open>text_dialogs\<close> are the dialogs of the identity outside the synthetic channel.\<close>

definition locator_resolve :: "(uuid \<Rightarrow> uuid list) option \<Rightarrow> uuid option \<Rightarrow> ContactRouteOutcome" where
  "locator_resolve text_dialogs canonical =
     (case (canonical, text_dialogs) of
        (None, _) \<Rightarrow> Route_PHONE_ONLY
      | (_, None) \<Rightarrow> Route_PHONE_ONLY
      | (Some i, Some dialogs) \<Rightarrow>
          (case dialogs i of [] \<Rightarrow> Route_PHONE_ONLY | [_] \<Rightarrow> Route_TEXT_CHANNEL_AVAILABLE | _ \<Rightarrow> Route_AMBIGUOUS_CHANNEL))"

section \<open>The orchestrator\<close>

record teya_db =
  tb_rows :: "teya_row list"
  tb_breaker :: "circuit_breaker option"

record teya_env =
  tv_remote :: teya_remote
  tv_crm :: "teya_crm option"
  tv_policy :: breaker_policy
  tv_delay :: "int \<Rightarrow> moment"
  tv_retry_base :: moment
  tv_new_key :: string
  tv_now :: moment

datatype TeyaRequestOrchestratorOutcome = Orch_ADVANCED | Orch_TERMINAL | Orch_RETRY_SCHEDULED | Orch_CLAIM_DENIED | Orch_IDLE

record teya_result =
  tx_outcome :: TeyaRequestOrchestratorOutcome
  tx_pending_id :: uuid
  tx_pending_state :: "TeyaRequestPendingState option"
  tx_result_code :: "string option"

type_synonym teya_out = "teya_result option \<times> teya_effect list \<times> teya_db"

definition teya_answer ::
  "TeyaRequestOrchestratorOutcome \<Rightarrow> teya_row \<Rightarrow> TeyaRequestPendingState option \<Rightarrow> string option \<Rightarrow> teya_result" where
  "teya_answer outcome row state code =
     \<lparr> tx_outcome = outcome, tx_pending_id = te_id row, tx_pending_state = state, tx_result_code = code \<rparr>"

definition with_effect :: "teya_effect \<Rightarrow> teya_out \<Rightarrow> teya_out" where
  "with_effect e out = (case out of (r, es, db) \<Rightarrow> (r, e # es, db))"

definition teya_raise :: "teya_db \<Rightarrow> teya_out" where
  "teya_raise db = (None, [], db)"

definition teya_advance :: "teya_env \<Rightarrow> teya_row \<Rightarrow> uuid \<Rightarrow> TeyaRequestPendingState \<Rightarrow> teya_patch \<Rightarrow> teya_db \<Rightarrow> teya_out" where
  "teya_advance e row lease state p db =
     (let (ok, t') = teya_advance_state row lease state p (tv_now e) (tb_rows db); db' = db \<lparr> tb_rows := t' \<rparr>
      in (Some (if \<not> ok then teya_answer Orch_CLAIM_DENIED row None (Some ''LEASE_MISMATCH'')
                else if state \<in> set TERMINAL_TEYA_REQUEST_STATES then teya_answer Orch_TERMINAL row (Some state) (tp_result_code p)
                else teya_answer Orch_ADVANCED row (Some state) (tp_result_code p)), [], db'))"

definition teya_close :: "teya_env \<Rightarrow> teya_row \<Rightarrow> uuid \<Rightarrow> TeyaRequestPendingState \<Rightarrow> string \<Rightarrow> teya_db \<Rightarrow> teya_out" where
  "teya_close e row lease state code db =
     teya_advance e row lease state (no_patch \<lparr> tp_result_code := Some code, tp_result_outcome := Some (teya_state_value state) \<rparr>) db"

definition teya_fail_closed :: "teya_env \<Rightarrow> teya_row \<Rightarrow> uuid \<Rightarrow> string \<Rightarrow> teya_db \<Rightarrow> teya_out" where
  "teya_fail_closed e row lease code db = teya_close e row lease Teya_FAIL_CLOSED code db"

definition teya_reconciliation :: "teya_env \<Rightarrow> teya_row \<Rightarrow> uuid \<Rightarrow> string \<Rightarrow> teya_db \<Rightarrow> teya_out" where
  "teya_reconciliation e row lease code db = teya_close e row lease Teya_RECONCILIATION_REQUIRED code db"

definition teya_manual_review :: "teya_env \<Rightarrow> teya_row \<Rightarrow> uuid \<Rightarrow> string \<Rightarrow> teya_db \<Rightarrow> teya_out" where
  "teya_manual_review e row lease code db =
     (Some (teya_answer Orch_TERMINAL row (Some Teya_MANUAL_REVIEW) (Some code)), [],
      db \<lparr> tb_rows := snd (teya_mark_manual_review row (tv_now e) code (Some lease) (tb_rows db)) \<rparr>)"

text \<open>Give the lease back until \<open>delay\<close> from now; a failure of the CRM is reported to the breaker.\<close>

definition teya_release :: "teya_env \<Rightarrow> teya_row \<Rightarrow> uuid \<Rightarrow> moment \<Rightarrow> string \<Rightarrow> teya_db \<Rightarrow> teya_db" where
  "teya_release e row lease delay code db =
     db \<lparr> tb_rows := snd (teya_release_lease row lease (tv_now e) (Some (tv_now e + delay)) (Some code) (tb_rows db)) \<rparr>"

definition teya_report_failure :: "teya_env \<Rightarrow> string \<Rightarrow> teya_db \<Rightarrow> teya_db" where
  "teya_report_failure e code db =
     (if is_breaker_failure_code code
      then db \<lparr> tb_breaker := Some (record_failure (tv_now e) (tv_policy e) (tb_breaker db)) \<rparr> else db)"

definition teya_report_success :: "teya_env \<Rightarrow> teya_db \<Rightarrow> teya_db" where
  "teya_report_success e db = db \<lparr> tb_breaker := Some (record_success (tv_now e) (tv_policy e) (tb_breaker db)) \<rparr>"

definition teya_retry :: "teya_env \<Rightarrow> teya_row \<Rightarrow> uuid \<Rightarrow> string \<Rightarrow> teya_db \<Rightarrow> teya_out" where
  "teya_retry e row lease code db =
     (if te_attempt_count row \<ge> te_max_attempts row then teya_manual_review e row lease ''MAX_ATTEMPTS_EXCEEDED'' db
      else (Some (teya_answer Orch_RETRY_SCHEDULED row (Some (te_state row)) (Some code)), [],
            teya_report_failure e code (teya_release e row lease (tv_delay e (te_attempt_count row)) code db)))"

definition teya_retry_post_book_analytics :: "teya_env \<Rightarrow> teya_row \<Rightarrow> uuid \<Rightarrow> string \<Rightarrow> teya_db \<Rightarrow> teya_out" where
  "teya_retry_post_book_analytics e row lease code db =
     (if te_attempt_count row \<ge> te_max_attempts row then teya_close e row lease Teya_DONE ''BOOKED_ANALYTICS_MANUAL'' db
      else (Some (teya_answer Orch_RETRY_SCHEDULED row (Some Teya_VERIFYING) (Some code)), [],
            teya_report_failure e code (teya_release e row lease (tv_delay e (te_attempt_count row)) code db)))"

definition teya_handle_remote_error :: "teya_env \<Rightarrow> teya_row \<Rightarrow> uuid \<Rightarrow> string \<Rightarrow> teya_db \<Rightarrow> teya_out" where
  "teya_handle_remote_error e row lease code db =
     (if code = ''CONSULTATION_SERVICE_REQUIRED'' then teya_close e row lease Teya_WAITING_CONTACT code db
      else if code = ''RECONCILIATION_REQUIRED'' then teya_reconciliation e row lease code db
      else if is_teya_post_book_analytics_phase (te_state row) then
        (if classify_remote_code code = Class_RETRY then teya_retry_post_book_analytics e row lease code db
         else teya_close e row lease Teya_DONE ''BOOKED_ANALYTICS_MANUAL'' db)
      else (case classify_remote_code code of
              Class_RETRY \<Rightarrow> teya_retry e row lease code db
            | Class_MANUAL \<Rightarrow> teya_manual_review e row lease code db
            | _ \<Rightarrow> teya_fail_closed e row lease code db))"

definition teya_guard_crm_breaker :: "teya_env \<Rightarrow> teya_row \<Rightarrow> uuid \<Rightarrow> teya_db \<Rightarrow> teya_out + teya_db" where
  "teya_guard_crm_breaker e row lease db =
     (let (outcome, breaker) = try_claim_probe (tv_now e) (tv_policy e) (tb_breaker db);
          db' = db \<lparr> tb_breaker := Some breaker \<rparr>;
          delay = max (bp_cooldown (tv_policy e)) (max (bp_probe_lease (tv_policy e)) (tv_retry_base e));
          code = (if outcome = Probe_DENIED_PROBE_BUSY then ''AMOCRM_BREAKER_PROBE_BUSY'' else ''AMOCRM_BREAKER_OPEN'')
      in if outcome = Probe_ALLOWED then Inr db'
         else Inl (if te_attempt_count row \<ge> te_max_attempts row then teya_manual_review e row lease ''BREAKER_OPEN_EXHAUSTED'' db'
                   else (Some (teya_answer Orch_RETRY_SCHEDULED row (Some (te_state row)) (Some code)), [],
                         teya_release e row lease delay code db')))"

text \<open>\<open>self._remote.get\<close> as the first call of a step.\<close>

definition teya_with_request ::
  "teya_env \<Rightarrow> teya_row \<Rightarrow> uuid \<Rightarrow> teya_db \<Rightarrow> (booking_request \<Rightarrow> teya_out) \<Rightarrow> teya_out" where
  "teya_with_request e row lease db k =
     (case tr_get (tv_remote e) (te_request_id row) of
        Remote_ok dto \<Rightarrow> k dto
      | Remote_error code \<Rightarrow> teya_handle_remote_error e row lease code db
      | Remote_raises \<Rightarrow> teya_raise db)"

definition teya_code_or :: "string option \<Rightarrow> string \<Rightarrow> string" where
  "teya_code_or v d = (if truthy v then the v else d)"

text \<open>The four refusals of the CRM service, in the order of the code; otherwise \<open>k\<close>.\<close>

definition teya_crm_outcome ::
  "teya_env \<Rightarrow> teya_row \<Rightarrow> uuid \<Rightarrow> crm_action_result \<Rightarrow> string \<times> string \<times> string \<times> string \<Rightarrow> teya_db \<Rightarrow> teya_out \<Rightarrow> teya_out" where
  "teya_crm_outcome e row lease res codes db k =
     (case codes of (retry, manual, failed, recon) \<Rightarrow>
        case ca_outcome res of
          Crm_RETRY \<Rightarrow> teya_retry e row lease (teya_code_or (ca_error_code res) retry) db
        | Crm_MANUAL_REVIEW \<Rightarrow> teya_manual_review e row lease (teya_code_or (ca_error_code res) manual) db
        | Crm_FAIL_CLOSED \<Rightarrow> teya_fail_closed e row lease (teya_code_or (ca_error_code res) failed) db
        | Crm_RECONCILIATION_REQUIRED \<Rightarrow> teya_reconciliation e row lease (teya_code_or (ca_error_code res) recon) db
        | _ \<Rightarrow> k)"

definition teya_step_discovered :: "teya_env \<Rightarrow> teya_row \<Rightarrow> uuid \<Rightarrow> teya_db \<Rightarrow> teya_out" where
  "teya_step_discovered e row lease db =
     teya_with_request e row lease db (\<lambda>_. teya_advance e row lease Teya_IDENTITY no_patch db)"

definition teya_step_identity :: "teya_env \<Rightarrow> teya_row \<Rightarrow> uuid \<Rightarrow> teya_db \<Rightarrow> teya_out" where
  "teya_step_identity e row lease db =
     teya_with_request e row lease db (\<lambda>dto.
       case tv_crm e of
         None \<Rightarrow> teya_manual_review e row lease ''CRM_UNBOUND'' db
       | Some crm \<Rightarrow>
           (case teya_guard_crm_breaker e row lease db of
              Inl blocked \<Rightarrow> blocked
            | Inr db1 \<Rightarrow>
                if \<not> truthy (br_phone_e164 dto) then teya_fail_closed e row lease ''PHONE_MISSING'' db1
                else (case normalize_phone_e164 (the (br_phone_e164 dto)) of
                        None \<Rightarrow> teya_fail_closed e row lease ''PHONE_INVALID'' db1
                      | Some phone \<Rightarrow>
                          with_effect (CrmEnsure phone)
                            (case tc_ensure crm phone (br_client_name dto) of
                               None \<Rightarrow> teya_raise db1
                             | Some res \<Rightarrow>
                                 teya_crm_outcome e row lease res (''CRM_RETRY'', ''CRM_MANUAL_REVIEW'', ''CRM_FAIL_CLOSED'', ''CRM_RECONCILIATION'') db1
                                   (teya_advance e row lease Teya_CRM_READY
                                      (no_patch \<lparr> tp_amocrm_contact_id := ca_contact_id res, tp_amocrm_deal_id := ca_deal_id res \<rparr>)
                                      (teya_report_success e db1))))))"

definition teya_step_crm_ready :: "teya_env \<Rightarrow> teya_row \<Rightarrow> uuid \<Rightarrow> teya_db \<Rightarrow> teya_out" where
  "teya_step_crm_ready e row lease db =
     teya_with_request e row lease db (\<lambda>dto.
       case tv_crm e of
         None \<Rightarrow> teya_manual_review e row lease ''CRM_UNBOUND'' db
       | Some crm \<Rightarrow>
           if \<not> truthy (te_amocrm_deal_id row) then teya_fail_closed e row lease ''CRM_DEAL_MISSING'' db
           else (case teya_guard_crm_breaker e row lease db of
                   Inl blocked \<Rightarrow> blocked
                 | Inr db1 \<Rightarrow>
                     (let deal = the (te_amocrm_deal_id row); note = build_teya_structured_note dto
                      in with_effect (CrmAttach deal)
                           (case tc_attach crm deal note (build_teya_crm_task_text dto None) of
                              None \<Rightarrow> teya_raise db1
                            | Some res \<Rightarrow>
                                teya_crm_outcome e row lease res (''CRM_NOTE_RETRY'', ''CRM_NOTE_MANUAL'', ''CRM_NOTE_FAIL'', ''CRM_NOTE_RECON'') db1
                                  (teya_advance e row lease Teya_RECONCILED
                                     (no_patch \<lparr> tp_amocrm_task_id := ca_task_id res, tp_structured_note := Some note \<rparr>)
                                     (teya_report_success e db1))))))"

text \<open>The writes of a game request; nothing asks the breaker here.\<close>

definition teya_game_attach ::
  "teya_env \<Rightarrow> teya_row \<Rightarrow> string \<Rightarrow> task_text \<Rightarrow> teya_db \<Rightarrow> (crm_action_result option \<Rightarrow> teya_out) \<Rightarrow> teya_out" where
  "teya_game_attach e row note task db k =
     (case tv_crm e of
        None \<Rightarrow> k None
      | Some crm \<Rightarrow>
          if \<not> truthy (te_amocrm_deal_id row) then k None
          else (let deal = the (te_amocrm_deal_id row)
                in with_effect (CrmAttach deal)
                     (case tc_attach crm deal note task of None \<Rightarrow> teya_raise db | Some res \<Rightarrow> k (Some res))))"

definition teya_step_reconciled :: "teya_env \<Rightarrow> teya_row \<Rightarrow> uuid \<Rightarrow> teya_db \<Rightarrow> teya_out" where
  "teya_step_reconciled e row lease db =
     teya_with_request e row lease db (\<lambda>dto.
       case br_game dto of
         None \<Rightarrow> teya_advance e row lease Teya_CONTACT_ROUTE no_patch db
       | Some (gift, procedure) \<Rightarrow>
           if \<not> truthy (br_phone_e164 dto) then teya_fail_closed e row lease ''PHONE_MISSING'' db
           else (case tr_lookup (tv_remote e) (the (br_phone_e164 dto)) of
                   Remote_error code \<Rightarrow> teya_handle_remote_error e row lease code db
                 | Remote_raises \<Rightarrow> teya_raise db
                 | Remote_ok (Lookup_AMBIGUOUS, _) \<Rightarrow>
                     teya_game_attach e row ''GAME_APPOINTMENTS_AMBIGUOUS'' Task_default db
                       (\<lambda>_. teya_reconciliation e row lease ''GAME_APPOINTMENTS_AMBIGUOUS'' db)
                 | Remote_ok (Lookup_UNIQUE, appointment_id) \<Rightarrow>
                     teya_game_attach e row (build_teya_structured_note dto) (build_game_task_text gift procedure appointment_id) db
                       (\<lambda>res. case res of
                           Some a \<Rightarrow>
                             if ca_outcome a = Crm_RECONCILIATION_REQUIRED
                             then teya_reconciliation e row lease (teya_code_or (ca_error_code a) ''GAME_TASK_RECON'') db
                             else teya_advance e row lease Teya_CONTACT_ROUTE (no_patch \<lparr> tp_result_code := Some ''GAME_SELF_BOOKED'' \<rparr>) db
                         | None \<Rightarrow> teya_advance e row lease Teya_CONTACT_ROUTE (no_patch \<lparr> tp_result_code := Some ''GAME_SELF_BOOKED'' \<rparr>) db)
                 | Remote_ok (Lookup_NONE, _) \<Rightarrow>
                     teya_game_attach e row (build_teya_structured_note dto) (build_game_task_text gift procedure None) db
                       (\<lambda>_. teya_advance e row lease Teya_CONTACT_ROUTE no_patch db)))"

definition teya_step_contact_route :: "teya_env \<Rightarrow> teya_row \<Rightarrow> uuid \<Rightarrow> teya_db \<Rightarrow> teya_out" where
  "teya_step_contact_route e row lease db =
     teya_with_request e row lease db (\<lambda>dto.
       let route = locator_resolve None None; r = Some (route_value route) in
       if route = Route_AMBIGUOUS_CHANNEL then teya_fail_closed e row lease ''CONTACT_ROUTE_AMBIGUOUS'' db
       else if route = Route_NO_CONTACT_ROUTE then teya_fail_closed e row lease ''NO_CONTACT_ROUTE'' db
       else if te_result_code row = Some ''GAME_SELF_BOOKED'' then
         teya_advance e row lease Teya_DONE
           (no_patch \<lparr> tp_contact_route_outcome := r, tp_result_code := Some ''GAME_SELF_BOOKED'',
                       tp_result_outcome := Some (teya_state_value Teya_DONE) \<rparr>) db
       else if truthy (br_service_id dto) \<and> truthy (br_master_id dto) then
         teya_advance e row lease Teya_READY_TO_BOOK (no_patch \<lparr> tp_contact_route_outcome := r \<rparr>) db
       else if br_request_type dto = ''CONSULTATION_REQUEST'' \<and> \<not> truthy (br_service_id dto) then
         teya_advance e row lease Teya_WAITING_CONTACT
           (no_patch \<lparr> tp_contact_route_outcome := r, tp_result_code := Some ''CONSULTATION_SERVICE_REQUIRED'',
                       tp_result_outcome := Some (teya_state_value Teya_WAITING_CONTACT) \<rparr>) db
       else teya_advance e row lease Teya_WAITING_CONTACT
              (no_patch \<lparr> tp_contact_route_outcome := r, tp_result_code := Some ''NEEDS_SLOT_SELECTION'' \<rparr>) db)"

definition teya_terminal_wait :: "teya_env \<Rightarrow> teya_row \<Rightarrow> uuid \<Rightarrow> teya_db \<Rightarrow> teya_out" where
  "teya_terminal_wait e row lease db =
     (if te_attempt_count row \<ge> te_max_attempts row then teya_manual_review e row lease ''MAX_ATTEMPTS_EXCEEDED'' db
      else (Some (teya_answer Orch_RETRY_SCHEDULED row (Some Teya_WAITING_CONTACT) (te_result_code row)), [],
            teya_release e row lease (seconds 300) (teya_code_or (te_result_code row) ''WAITING_CONTACT'') db))"

definition teya_step_ready_to_book :: "teya_env \<Rightarrow> teya_row \<Rightarrow> uuid \<Rightarrow> teya_db \<Rightarrow> teya_out" where
  "teya_step_ready_to_book e row lease db =
     (if \<not> truthy (te_selected_starts_at row) then teya_close e row lease Teya_WAITING_CONTACT ''NEEDS_SLOT_SELECTION'' db
      else teya_advance e row lease Teya_BOOKING
             (no_patch \<lparr> tp_book_idempotency_key := Some (teya_code_or (te_book_idempotency_key row) (tv_new_key e)) \<rparr>) db)"

definition teya_step_booking :: "teya_env \<Rightarrow> teya_row \<Rightarrow> uuid \<Rightarrow> teya_db \<Rightarrow> teya_out" where
  "teya_step_booking e row lease db =
     teya_with_request e row lease db (\<lambda>dto.
       if \<not> truthy (te_selected_starts_at row) \<or> \<not> truthy (te_book_idempotency_key row)
       then teya_fail_closed e row lease ''BOOKING_INPUT_MISSING'' db
       else (let starts = the (te_selected_starts_at row); key = the (te_book_idempotency_key row)
             in with_effect (BookCall (te_request_id row) starts key (br_service_id dto))
                  (case tr_book (tv_remote e) (te_request_id row) starts key (br_service_id dto) of
                     Remote_error code \<Rightarrow> teya_handle_remote_error e row lease code db
                   | Remote_raises \<Rightarrow> teya_raise db
                   | Remote_ok _ \<Rightarrow>
                       teya_advance e row lease Teya_VERIFYING
                         (no_patch \<lparr> tp_result_code := Some ''BOOK_VERIFIED_ANALYTICS_PENDING'' \<rparr>) db)))"

definition analytics_code :: "crm_action_result \<Rightarrow> string" where
  "analytics_code res =
     (case ca_analytics_decision res of
        Some d \<Rightarrow>
          if d = ''APPLIED'' then ''BOOKED_ANALYTICS_APPLIED''
          else if d = ''ALREADY_SAME'' then ''BOOKED_ANALYTICS_SAME''
          else if d = ''CONFLICT_NONEMPTY'' then ''BOOKED_ANALYTICS_CONFLICT''
          else if ca_outcome res \<in> {Crm_MANUAL_REVIEW, Crm_FAIL_CLOSED} \<or> d = ''MANUAL_REVIEW'' then ''BOOKED_ANALYTICS_MANUAL''
          else ''BOOKED_ANALYTICS_SKIPPED''
      | None \<Rightarrow> if ca_outcome res \<in> {Crm_MANUAL_REVIEW, Crm_FAIL_CLOSED} then ''BOOKED_ANALYTICS_MANUAL'' else ''BOOKED_ANALYTICS_SKIPPED'')"

definition teya_step_verifying :: "teya_env \<Rightarrow> teya_row \<Rightarrow> uuid \<Rightarrow> teya_db \<Rightarrow> teya_out" where
  "teya_step_verifying e row lease db =
     teya_with_request e row lease db (\<lambda>dto.
       if \<not> truthy (br_appointment_id dto) then teya_reconciliation e row lease ''BOOK_POSTCHECK_MISSING'' db
       else if br_status dto \<noteq> ''CLOSED'' then teya_reconciliation e row lease ''BOOK_POSTCHECK_STATUS'' db
       else (case tv_crm e of
               None \<Rightarrow> teya_close e row lease Teya_DONE ''BOOKED_ANALYTICS_SKIPPED'' db
             | Some crm \<Rightarrow>
                 if \<not> truthy (te_amocrm_deal_id row) then teya_close e row lease Teya_DONE ''BOOKED_ANALYTICS_SKIPPED'' db
                 else (let deal = the (te_amocrm_deal_id row)
                       in with_effect (CrmAnalytics deal)
                            (case tc_analytics crm deal of
                               None \<Rightarrow> teya_raise db
                             | Some res \<Rightarrow>
                                 if ca_outcome res = Crm_RETRY
                                 then teya_retry_post_book_analytics e row lease
                                        (teya_code_or (ca_error_code res) ''AMOCRM_ANALYTICS_PATCH_TRANSIENT'') db
                                 else teya_close e row lease Teya_DONE (analytics_code res) db))))"

definition teya_process_claimed :: "teya_env \<Rightarrow> teya_row \<Rightarrow> teya_db \<Rightarrow> teya_out" where
  "teya_process_claimed e row db =
     (case te_lease_token row of
        None \<Rightarrow> (Some (teya_answer Orch_CLAIM_DENIED row None (Some ''LEASE_MISSING'')), [], db)
      | Some lease \<Rightarrow>
          (case te_state row of
             Teya_DISCOVERED \<Rightarrow> teya_step_discovered e row lease db
           | Teya_IDENTITY \<Rightarrow> teya_step_identity e row lease db
           | Teya_CRM_READY \<Rightarrow> teya_step_crm_ready e row lease db
           | Teya_RECONCILED \<Rightarrow> teya_step_reconciled e row lease db
           | Teya_CONTACT_ROUTE \<Rightarrow> teya_step_contact_route e row lease db
           | Teya_READY_TO_BOOK \<Rightarrow> teya_step_ready_to_book e row lease db
           | Teya_WAITING_CONTACT \<Rightarrow> teya_terminal_wait e row lease db
           | Teya_BOOKING \<Rightarrow> teya_step_booking e row lease db
           | Teya_VERIFYING \<Rightarrow> teya_step_verifying e row lease db
           | _ \<Rightarrow> teya_fail_closed e row lease ''STATE_UNEXPECTED'' db))"

text \<open>
  \<open>TeyaRequestOrchestratorWorker.process_one\<close>: claim and step in one session; an exception rolls the session
  back, the calls were made all the same. The result is \<open>None\<close> then.
\<close>

definition teya_process_one :: "teya_env \<Rightarrow> uuid \<Rightarrow> uuid \<Rightarrow> teya_db \<Rightarrow> teya_out" where
  "teya_process_one e pid token db =
     (case teya_claim_by_id pid token (tv_now e) (tb_rows db) of
        (None, t') \<Rightarrow>
          (Some \<lparr> tx_outcome = Orch_CLAIM_DENIED, tx_pending_id = pid, tx_pending_state = None, tx_result_code = Some ''CLAIM_DENIED'' \<rparr>,
           [], db \<lparr> tb_rows := t' \<rparr>)
      | (Some row, t') \<Rightarrow>
          (case teya_process_claimed e row (db \<lparr> tb_rows := t' \<rparr>) of
             (None, effects, _) \<Rightarrow> (None, effects, db)
           | out \<Rightarrow> out))"

text \<open>\<open>claim_one\<close> of the worker: exhausted requests are closed before the next one is looked for.\<close>

definition teya_worker_claim_one :: "moment \<Rightarrow> (uuid \<Rightarrow> bool) \<Rightarrow> teya_db \<Rightarrow> uuid option \<times> teya_db" where
  "teya_worker_claim_one now locked db =
     (let t = snd (teya_expire_exhausted now (tb_rows db))
      in (teya_lock_next_claimable_id now locked t, db \<lparr> tb_rows := t \<rparr>))"

end
