(* ===== verification/Teya_Run.thy ===== *)
theory Teya_Run
  imports Teya_Request
begin

text \<open>
  The life of a booking request: services/teya_request_reconciliation_worker.py, the feed of
  services/teya_request_orchestrator_worker.py, and every run of the workers on the table. The lemmas show
  that the orchestrator moves a request only along the edges of its workflow, that finished requests stay
  finished and attempts stay bounded, that no run of the application ever reaches the booking step, and
  that the writes of a game request do not ask the circuit breaker.
\<close>

section \<open>Reconciliation\<close>

definition BOOKING_RECON_STATES :: "TeyaRequestPendingState list" where
  "BOOKING_RECON_STATES = [Teya_VERIFYING, Teya_BOOKING, Teya_RECONCILIATION_REQUIRED, Teya_IDENTITY, Teya_CRM_READY]"

definition CRM_RECON_STATES :: "TeyaRequestPendingState list" where
  "CRM_RECON_STATES = [Teya_IDENTITY, Teya_CRM_READY, Teya_RECONCILIATION_REQUIRED, Teya_MANUAL_REVIEW]"

definition teya_operator_owned :: "teya_row \<Rightarrow> bool" where
  "teya_operator_owned row = (te_state row = Teya_MANUAL_REVIEW \<or> te_attempt_count row \<ge> te_max_attempts row)"

text \<open>The columns that every repair writes on the row object.\<close>

definition teya_repaired ::
  "TeyaRequestPendingState \<Rightarrow> string \<Rightarrow> string option \<Rightarrow> string option \<Rightarrow> moment option \<Rightarrow> moment \<Rightarrow> teya_row \<Rightarrow> teya_row" where
  "teya_repaired state code outcome reason next_retry_at now r =
     r \<lparr> te_state := state, te_result_code := Some code, te_result_outcome := outcome, te_manual_review_reason := reason,
         te_lease_token := None, te_lease_expires_at := None, te_next_retry_at := next_retry_at, te_updated_at := now \<rparr>"

definition teya_put :: "teya_row \<Rightarrow> teya_db \<Rightarrow> teya_db" where
  "teya_put row db = db \<lparr> tb_rows := sql_put te_id row (tb_rows db) \<rparr>"

definition teya_set_manual :: "teya_env \<Rightarrow> teya_row \<Rightarrow> string \<Rightarrow> teya_db \<Rightarrow> teya_db" where
  "teya_set_manual e row reason db = db \<lparr> tb_rows := snd (teya_mark_manual_review row (tv_now e) reason None (tb_rows db)) \<rparr>"

definition teya_attached :: "crm_action_result \<Rightarrow> string \<Rightarrow> teya_row \<Rightarrow> teya_row" where
  "teya_attached res note row =
     row \<lparr> te_amocrm_contact_id := (if truthy (ca_contact_id res) then ca_contact_id res else te_amocrm_contact_id row),
           te_amocrm_deal_id := (if truthy (ca_deal_id res) then ca_deal_id res else te_amocrm_deal_id row),
           te_amocrm_task_id := (if truthy (ca_task_id res) then ca_task_id res else te_amocrm_task_id row),
           te_structured_note :=
             (if truthy (ca_note_id res) \<and> \<not> truthy (te_structured_note row) then Some note else te_structured_note row) \<rparr>"

definition teya_needs_crm :: "teya_row \<Rightarrow> bool" where
  "teya_needs_crm row =
     (\<not> truthy (te_amocrm_contact_id row) \<or> \<not> truthy (te_amocrm_deal_id row) \<or>
      te_state row \<in> {Teya_CRM_READY, Teya_RECONCILIATION_REQUIRED, Teya_MANUAL_REVIEW} \<and> \<not> truthy (te_amocrm_task_id row))"

definition teya_recover :: "teya_env \<Rightarrow> crm_action_result \<Rightarrow> string \<Rightarrow> teya_row \<Rightarrow> teya_db \<Rightarrow> bool \<times> teya_db" where
  "teya_recover e res note row db =
     (let row1 = teya_attached res note row; now = tv_now e;
          contact_deal = truthy (te_amocrm_contact_id row1) \<and> truthy (te_amocrm_deal_id row1)
      in if contact_deal \<and> truthy (te_amocrm_task_id row1) \<and>
            te_state row1 \<in> {Teya_IDENTITY, Teya_MANUAL_REVIEW, Teya_RECONCILIATION_REQUIRED, Teya_CRM_READY}
         then (True, teya_put (teya_repaired Teya_RECONCILED ''RECON_CRM_VERIFIED'' None None None now row1) db)
         else if contact_deal \<and> \<not> truthy (te_amocrm_task_id row1) \<and> teya_operator_owned row1
         then (True, teya_put (teya_repaired Teya_MANUAL_REVIEW ''RECON_CRM_PARTIAL'' (Some (teya_state_value Teya_MANUAL_REVIEW))
                                (Some ''RECON_CRM_PARTIAL'') None now row1) db)
         else if contact_deal \<and> \<not> truthy (te_amocrm_task_id row1) \<and> te_state row1 \<in> {Teya_IDENTITY, Teya_RECONCILIATION_REQUIRED}
         then (True, teya_put (teya_repaired Teya_CRM_READY ''RECON_CRM_CONTACT_DEAL'' None None None now row1) db)
         else (truthy (ca_contact_id res) \<or> truthy (ca_deal_id res), teya_put (row1 \<lparr> te_updated_at := now \<rparr>) db))"

definition teya_reconcile_crm :: "teya_env \<Rightarrow> teya_crm \<Rightarrow> teya_row \<Rightarrow> booking_request \<Rightarrow> teya_db \<Rightarrow> (bool \<times> teya_db) option" where
  "teya_reconcile_crm e crm row dto db =
     (if te_state row \<notin> set CRM_RECON_STATES \<or> \<not> truthy (br_phone_e164 dto) \<or> \<not> teya_needs_crm row then Some (False, db)
      else let note = build_teya_structured_note dto in
        (case tc_reconcile crm (the (br_phone_e164 dto)) note (build_teya_crm_task_text dto None) of
           None \<Rightarrow> None
         | Some res \<Rightarrow>
             (case ca_outcome res of
                Crm_MANUAL_REVIEW \<Rightarrow> Some (True, teya_set_manual e row (teya_code_or (ca_error_code res) ''CRM_RECON_AMBIGUOUS'') db)
              | Crm_READY \<Rightarrow> Some (teya_recover e res note row db)
              | _ \<Rightarrow> Some (False, db))))"

definition teya_reconcile_one :: "teya_env \<Rightarrow> teya_row \<Rightarrow> teya_db \<Rightarrow> (bool \<times> teya_db) option" where
  "teya_reconcile_one e row db =
     (case tr_get (tv_remote e) (te_request_id row) of
        Remote_ok dto \<Rightarrow>
          if br_status dto = ''CLOSED'' \<and> truthy (br_appointment_id dto) \<and> te_state row \<notin> {Teya_DONE, Teya_FAIL_CLOSED} then
            Some (True,
              if tv_crm e \<noteq> None \<and> truthy (te_amocrm_deal_id row)
              then teya_put (teya_repaired Teya_VERIFYING ''RECON_BOOKING_CLOSED_ANALYTICS_PENDING'' None None (Some (tv_now e)) (tv_now e) row) db
              else teya_put (teya_repaired Teya_DONE ''BOOKED_ANALYTICS_SKIPPED'' (Some (teya_state_value Teya_DONE)) None None (tv_now e) row) db)
          else if te_state row = Teya_VERIFYING then
            (if te_attempt_count row \<ge> te_max_attempts row then Some (True, teya_set_manual e row ''VERIFY_POSTCHECK_EXHAUSTED'' db)
             else Some (False, db))
          else
            (let continue = (case tv_crm e of None \<Rightarrow> Some (False, db) | Some crm \<Rightarrow> teya_reconcile_crm e crm row dto db)
             in if te_state row \<in> {Teya_RECONCILED, Teya_RECONCILIATION_REQUIRED} \<and> truthy (br_phone_e164 dto)
                then (case tr_lookup (tv_remote e) (the (br_phone_e164 dto)) of
                        Remote_ok (Lookup_AMBIGUOUS, _) \<Rightarrow> Some (True, teya_set_manual e row ''APPOINTMENTS_AMBIGUOUS'' db)
                      | Remote_ok _ \<Rightarrow> continue
                      | _ \<Rightarrow> Some (False, db))
                else continue)
      | _ \<Rightarrow> Some (False, db))"

fun teya_recon_loop :: "teya_env \<Rightarrow> teya_row list \<Rightarrow> teya_db \<Rightarrow> (nat \<times> teya_db) option" where
  "teya_recon_loop e [] db = Some (0, db)"
| "teya_recon_loop e (row # rows) db =
     (case teya_reconcile_one e row db of
        None \<Rightarrow> None
      | Some (repaired, db') \<Rightarrow>
          (case teya_recon_loop e rows db' of
             None \<Rightarrow> None
           | Some (n, db'') \<Rightarrow> Some ((if repaired then 1 else 0) + n, db'')))"

text \<open>One session for the whole tick: an exception of the CRM rolls all of it back, and the result is \<open>None\<close>.\<close>

definition teya_recon_tick :: "teya_env \<Rightarrow> nat \<Rightarrow> teya_db \<Rightarrow> (nat \<times> teya_db) option" where
  "teya_recon_tick e batch_size db =
     (let db1 = db \<lparr> tb_rows := snd (teya_expire_exhausted (tv_now e) (tb_rows db)) \<rparr>;
          rows = filter (\<lambda>r. te_state r \<in> set BOOKING_RECON_STATES \<or> te_state r \<in> set CRM_RECON_STATES) (tb_rows db1)
      in teya_recon_loop e (take batch_size (sort_key te_updated_at rows)) db1)"

section \<open>What a write does to a row\<close>

definition teya_finished :: "teya_row \<Rightarrow> bool" where
  "teya_finished r = (te_state r \<in> {Teya_DONE, Teya_FAIL_CLOSED} \<and> te_lease_token r = None)"

definition teya_fixed :: "teya_row \<Rightarrow> uuid \<times> uuid \<times> int \<times> int \<times> moment \<times> string option" where
  "teya_fixed r = (te_id r, te_request_id r, te_max_attempts r, te_attempt_count r, te_created_at r, te_selected_starts_at r)"

definition teya_write :: "teya_row \<Rightarrow> teya_row \<Rightarrow> bool" where
  "teya_write r r' = (teya_fixed r' = teya_fixed r \<and> te_lease_token r' \<in> {te_lease_token r, None})"

inductive teya_step :: "teya_row \<Rightarrow> teya_row \<Rightarrow> bool" where
  lease: "\<not> teya_terminal r \<Longrightarrow> te_attempt_count r < te_max_attempts r \<Longrightarrow> teya_step r (teya_lease_row token expires now r)"
| update_row: "\<not> teya_finished r \<Longrightarrow> teya_write r r' \<Longrightarrow>
    (te_state r' = Teya_BOOKING \<Longrightarrow> te_state r = Teya_BOOKING \<or> truthy (te_selected_starts_at r)) \<Longrightarrow> teya_step r r'"

section \<open>The workflow\<close>

text \<open>Where a step may take a request; a request that stays where it is waits for another attempt.\<close>

definition teya_next :: "teya_row \<Rightarrow> TeyaRequestPendingState set" where
  "teya_next row =
     (let refused = {te_state row, Teya_WAITING_CONTACT, Teya_RECONCILIATION_REQUIRED, Teya_MANUAL_REVIEW, Teya_FAIL_CLOSED}
      in case te_state row of
           Teya_DISCOVERED \<Rightarrow> insert Teya_IDENTITY refused
         | Teya_IDENTITY \<Rightarrow> insert Teya_CRM_READY refused
         | Teya_CRM_READY \<Rightarrow> insert Teya_RECONCILED refused
         | Teya_RECONCILED \<Rightarrow> insert Teya_CONTACT_ROUTE refused
         | Teya_CONTACT_ROUTE \<Rightarrow> {Teya_DONE, Teya_READY_TO_BOOK} \<union> refused
         | Teya_READY_TO_BOOK \<Rightarrow> {if truthy (te_selected_starts_at row) then Teya_BOOKING else Teya_WAITING_CONTACT}
         | Teya_WAITING_CONTACT \<Rightarrow> {Teya_WAITING_CONTACT, Teya_MANUAL_REVIEW}
         | Teya_BOOKING \<Rightarrow> insert Teya_VERIFYING refused
         | Teya_VERIFYING \<Rightarrow> {Teya_VERIFYING, Teya_DONE, Teya_RECONCILIATION_REQUIRED, Teya_WAITING_CONTACT}
         | _ \<Rightarrow> {Teya_FAIL_CLOSED})"

text \<open>The rows after a step: only the row that holds the lease may have changed, and only to a state of \<open>S\<close>.\<close>

definition teya_lands :: "teya_row \<Rightarrow> uuid \<Rightarrow> TeyaRequestPendingState set \<Rightarrow> teya_row list \<Rightarrow> teya_out \<Rightarrow> bool" where
  "teya_lands row lease S t out =
     (\<exists>f. tb_rows (snd (snd out)) = sql_update (teya_held row lease) f t \<and>
        (\<forall>r. teya_write r (f r) \<and> (te_state r = te_state row \<longrightarrow> te_state (f r) \<in> S)))"

lemma lands_update:
  assumes "tb_rows (snd (snd out)) = sql_update (teya_held row lease) f t" and "\<And>r. teya_write r (f r)"
    and "\<And>r. te_state r = te_state row \<Longrightarrow> te_state (f r) \<in> S"
  shows "teya_lands row lease S t out"
  using assms unfolding teya_lands_def by blast

lemma lands_effect [simp]: "teya_lands row lease S t (with_effect e out) = teya_lands row lease S t out"
  by (cases out) (simp add: teya_lands_def with_effect_def)

lemma lands_raise: "te_state row \<in> S \<Longrightarrow> teya_lands row lease S (tb_rows db) (teya_raise db)"
  by (rule lands_update [where f = id]) (auto simp: teya_raise_def sql_update_def teya_write_def intro: map_idI [symmetric])

lemma lands_advance:
  "state \<in> S \<Longrightarrow> tp_selected_starts_at p = None \<Longrightarrow> teya_lands row lease S (tb_rows db) (teya_advance e row lease state p db)"
  by (rule lands_update [where f = "teya_advance_row state p (tv_now e)"])
    (auto simp: teya_advance_def teya_advance_state_def teya_cas_def teya_write_def teya_fixed_def teya_advance_row_def or_keep_def)

lemma lands_close: "state \<in> S \<Longrightarrow> teya_lands row lease S (tb_rows db) (teya_close e row lease state code db)"
  unfolding teya_close_def by (rule lands_advance) (simp_all add: no_patch_def)

lemma lands_manual: "Teya_MANUAL_REVIEW \<in> S \<Longrightarrow> teya_lands row lease S (tb_rows db) (teya_manual_review e row lease code db)"
  by (rule lands_update [where f = "teya_manual_row code (tv_now e)"])
    (auto simp: teya_manual_review_def teya_mark_manual_review_def teya_cas_def teya_write_def teya_fixed_def teya_manual_row_def)

lemma lands_release:
  assumes "te_state row \<in> S" and "tb_rows (snd (snd out)) = tb_rows (teya_release e row lease delay code db)"
  shows "teya_lands row lease S (tb_rows db) out"
  by (rule lands_update [where f = "\<lambda>r. r \<lparr> te_lease_token := None, te_lease_expires_at := None,
        te_next_retry_at := Some (tv_now e + delay), te_result_code := Some code, te_updated_at := tv_now e \<rparr>"])
    (use assms in \<open>auto simp: teya_release_def teya_release_lease_def teya_cas_def teya_write_def teya_fixed_def\<close>)

lemma report_rows [simp]: "tb_rows (teya_report_failure e code db) = tb_rows db" "tb_rows (teya_report_success e db) = tb_rows db"
  by (simp_all add: teya_report_failure_def teya_report_success_def)

lemma lands_retry:
  assumes "te_state row \<in> S" and "Teya_MANUAL_REVIEW \<in> S"
  shows "teya_lands row lease S (tb_rows db) (teya_retry e row lease code db)"
  unfolding teya_retry_def using assms by (auto intro!: lands_manual lands_release)

lemma lands_retry_post_book:
  assumes "te_state row \<in> S" and "Teya_DONE \<in> S"
  shows "teya_lands row lease S (tb_rows db) (teya_retry_post_book_analytics e row lease code db)"
  unfolding teya_retry_post_book_analytics_def using assms by (auto intro!: lands_close lands_release)

lemmas teya_closings = teya_fail_closed_def teya_reconciliation_def

lemma lands_remote_error:
  assumes "{te_state row, Teya_WAITING_CONTACT, Teya_RECONCILIATION_REQUIRED} \<subseteq> S"
    and "te_state row = Teya_VERIFYING \<Longrightarrow> Teya_DONE \<in> S"
    and "te_state row \<noteq> Teya_VERIFYING \<Longrightarrow> {Teya_MANUAL_REVIEW, Teya_FAIL_CLOSED} \<subseteq> S"
  shows "teya_lands row lease S (tb_rows db) (teya_handle_remote_error e row lease code db)"
  using assms unfolding teya_handle_remote_error_def is_teya_post_book_analytics_phase_def teya_closings
  by (auto intro!: lands_close lands_retry lands_retry_post_book lands_manual split: remote_class.splits)

lemma lands_with_request:
  assumes "\<And>dto. teya_lands row lease S (tb_rows db) (k dto)"
    and "{te_state row, Teya_WAITING_CONTACT, Teya_RECONCILIATION_REQUIRED} \<subseteq> S"
    and "te_state row = Teya_VERIFYING \<Longrightarrow> Teya_DONE \<in> S"
    and "te_state row \<noteq> Teya_VERIFYING \<Longrightarrow> {Teya_MANUAL_REVIEW, Teya_FAIL_CLOSED} \<subseteq> S"
  shows "teya_lands row lease S (tb_rows db) (teya_with_request e row lease db k)"
  using assms lands_remote_error [OF assms(2-4)] unfolding teya_with_request_def
  by (auto intro: lands_raise split: remote.splits)

lemma lands_guard:
  assumes "te_state row \<in> S" and "Teya_MANUAL_REVIEW \<in> S"
  shows "teya_guard_crm_breaker e row lease db = Inl out \<Longrightarrow> teya_lands row lease S (tb_rows db) out"
    and "teya_guard_crm_breaker e row lease db = Inr db' \<Longrightarrow> tb_rows db' = tb_rows db"
proof -
  obtain outcome breaker where claim: "try_claim_probe (tv_now e) (tv_policy e) (tb_breaker db) = (outcome, breaker)" by fastforce
  let ?db = "db \<lparr> tb_breaker := Some breaker \<rparr>"
  have rows: "tb_rows ?db = tb_rows db" by simp
  show "teya_lands row lease S (tb_rows db) out" if "teya_guard_crm_breaker e row lease db = Inl out"
    using that assms lands_manual [of S row lease ?db e] lands_release [of row S _ e lease _ _ ?db]
    unfolding rows teya_guard_crm_breaker_def claim Let_def by (auto split: if_splits)
  show "tb_rows db' = tb_rows db" if "teya_guard_crm_breaker e row lease db = Inr db'"
    using that unfolding teya_guard_crm_breaker_def claim Let_def by (auto split: if_splits)
qed

lemma lands_crm_outcome:
  assumes "{te_state row, Teya_MANUAL_REVIEW, Teya_FAIL_CLOSED, Teya_RECONCILIATION_REQUIRED} \<subseteq> S"
    and "teya_lands row lease S (tb_rows db) k"
  shows "teya_lands row lease S (tb_rows db) (teya_crm_outcome e row lease res codes db k)"
  using assms unfolding teya_crm_outcome_def teya_closings
  by (auto intro!: lands_close lands_retry lands_manual split: prod.splits TeyaCrmActionOutcome.splits)

lemma lands_game_attach:
  assumes "te_state row \<in> S" and "\<And>res. teya_lands row lease S (tb_rows db) (k res)"
  shows "teya_lands row lease S (tb_rows db) (teya_game_attach e row note task db k)"
  using assms unfolding teya_game_attach_def by (auto simp: Let_def intro!: lands_raise split: option.splits)

lemma lands_guarded:
  assumes "te_state row \<in> S" and "Teya_MANUAL_REVIEW \<in> S" and "\<And>db'. teya_lands row lease S (tb_rows db') (k db')"
  shows "teya_lands row lease S (tb_rows db)
    (case teya_guard_crm_breaker e row lease db of Inl blocked \<Rightarrow> blocked | Inr db' \<Rightarrow> k db')"
proof (cases "teya_guard_crm_breaker e row lease db")
  case (Inl out)
  then show ?thesis using lands_guard(1) [OF assms(1,2) Inl] by simp
next
  case (Inr db')
  then have "tb_rows db' = tb_rows db" by (rule lands_guard(2) [OF assms(1,2)])
  then show ?thesis using assms(3) [of db'] Inr by simp
qed

lemma lands_advance_reported:
  assumes "state \<in> S" and "tp_selected_starts_at p = None"
  shows "teya_lands row lease S (tb_rows db) (teya_advance e row lease state p (teya_report_success e db))"
  using lands_advance [OF assms, of row lease "teya_report_success e db" e] by simp

lemmas lands_intros =
  lands_with_request lands_advance lands_advance_reported lands_close lands_manual lands_retry lands_retry_post_book
  lands_remote_error lands_raise lands_game_attach lands_guarded lands_crm_outcome

lemmas lands_setup = teya_closings teya_next_def no_patch_def Let_def

lemma lands_discovered:
  "te_state row = Teya_DISCOVERED \<Longrightarrow> teya_lands row lease (teya_next row) (tb_rows db) (teya_step_discovered e row lease db)"
  unfolding teya_step_discovered_def by (auto simp: lands_setup intro!: lands_intros)

lemma lands_identity:
  "te_state row = Teya_IDENTITY \<Longrightarrow> teya_lands row lease (teya_next row) (tb_rows db) (teya_step_identity e row lease db)"
  unfolding teya_step_identity_def by (auto simp: lands_setup intro!: lands_intros split: option.splits)

lemma lands_crm_ready:
  "te_state row = Teya_CRM_READY \<Longrightarrow> teya_lands row lease (teya_next row) (tb_rows db) (teya_step_crm_ready e row lease db)"
  unfolding teya_step_crm_ready_def by (auto simp: lands_setup intro!: lands_intros split: option.splits)

lemma lands_reconciled:
  "te_state row = Teya_RECONCILED \<Longrightarrow> teya_lands row lease (teya_next row) (tb_rows db) (teya_step_reconciled e row lease db)"
  unfolding teya_step_reconciled_def
  by (auto simp: lands_setup intro!: lands_intros split: option.splits remote.splits prod.splits AppointmentsLookupOutcome.splits)

lemma lands_contact_route:
  "te_state row = Teya_CONTACT_ROUTE \<Longrightarrow> teya_lands row lease (teya_next row) (tb_rows db) (teya_step_contact_route e row lease db)"
  unfolding teya_step_contact_route_def by (auto simp: lands_setup intro!: lands_intros)

lemma lands_ready_to_book:
  "te_state row = Teya_READY_TO_BOOK \<Longrightarrow> teya_lands row lease (teya_next row) (tb_rows db) (teya_step_ready_to_book e row lease db)"
  unfolding teya_step_ready_to_book_def by (auto simp: lands_setup intro!: lands_intros)

lemma lands_waiting:
  "te_state row = Teya_WAITING_CONTACT \<Longrightarrow> teya_lands row lease (teya_next row) (tb_rows db) (teya_terminal_wait e row lease db)"
  unfolding teya_terminal_wait_def by (auto simp: lands_setup intro!: lands_manual lands_release)

lemma lands_booking:
  "te_state row = Teya_BOOKING \<Longrightarrow> teya_lands row lease (teya_next row) (tb_rows db) (teya_step_booking e row lease db)"
  unfolding teya_step_booking_def by (auto simp: lands_setup intro!: lands_intros split: remote.splits)

lemma lands_verifying:
  "te_state row = Teya_VERIFYING \<Longrightarrow> teya_lands row lease (teya_next row) (tb_rows db) (teya_step_verifying e row lease db)"
  unfolding teya_step_verifying_def by (auto simp: lands_setup intro!: lands_intros split: option.splits)

lemma lands_process_claimed:
  assumes "te_lease_token row = Some lease"
  shows "teya_lands row lease (teya_next row) (tb_rows db) (teya_process_claimed e row db)"
  using assms unfolding teya_process_claimed_def
  by (auto intro!: lands_discovered lands_identity lands_crm_ready lands_reconciled lands_contact_route lands_ready_to_book
      lands_waiting lands_booking lands_verifying lands_close simp: teya_closings split: TeyaRequestPendingState.split)
    (simp_all add: teya_next_def)

section \<open>Calls as row steps\<close>

inductive teya_run :: "teya_row list \<Rightarrow> teya_row list \<Rightarrow> bool" where
  upsert: "teya_upsert_discovered row_id request_id max_attempts now t = Some (row, t') \<Longrightarrow> teya_run t t'"
| claim_one: "teya_worker_claim_one now locked db = (pid, db') \<Longrightarrow> teya_run (tb_rows db) (tb_rows db')"
| process_one: "teya_process_one e pid token db = (res, calls, db') \<Longrightarrow> teya_run (tb_rows db) (tb_rows db')"
| tick: "teya_recon_tick e batch_size db = Some (n, db') \<Longrightarrow> teya_run (tb_rows db) (tb_rows db')"

definition teya_new :: "teya_row \<Rightarrow> bool" where
  "teya_new r = (\<exists>i rq now mx. r = teya_new_row i rq now mx \<and> 1 \<le> mx)"

lemma terminal_iff: "teya_terminal r \<longleftrightarrow>
    te_state r \<in> {Teya_DONE, Teya_FAIL_CLOSED, Teya_RECONCILIATION_REQUIRED, Teya_MANUAL_REVIEW}"
  by (simp add: teya_terminal_def TERMINAL_TEYA_REQUEST_STATES_def)

lemma open_unfinished: "\<not> teya_terminal r \<Longrightarrow> \<not> teya_finished r"
  by (auto simp: terminal_iff teya_finished_def)

lemma expire_evolves: "evolves N teya_step t (snd (teya_expire_exhausted now t))"
proof -
  have booked: "teya_step r (teya_booked_row now r)" if "te_state r = Teya_VERIFYING" for r
    using that by (intro teya_step.update_row)
      (auto simp: teya_finished_def teya_booked_row_def teya_write_def teya_fixed_def)
  have manual: "teya_step r (teya_manual_row c now r)" if "\<not> teya_terminal r" for r c
    using that by (intro teya_step.update_row)
      (auto simp: open_unfinished teya_manual_row_def teya_write_def teya_fixed_def)
  show ?thesis
    unfolding teya_expire_exhausted_def Let_def snd_conv
    by (rule evolves_trans; rule evolves_update1) (simp_all add: booked manual)
qed

lemma teya_get_row: "teya_get_by_id pid t = Some row \<Longrightarrow> row \<in> set t \<and> te_id row = pid"
  unfolding teya_get_by_id_def by (drule sql_one_Some) simp

lemma claim_evolves:
  assumes "teya_claim_by_id pid token now t = (res, t')"
  shows "evolves N teya_step t t'"
proof (cases "teya_get_by_id pid t")
  case None
  with assms show ?thesis by (simp add: teya_claim_by_id_def)
next
  case (Some row)
  with assms have "t' = snd (teya_claim_lease (te_id row) token (now + seconds TEYA_LEASE_SECONDS) now t)"
    by (auto simp: teya_claim_by_id_def split: prod.splits if_splits)
  then show ?thesis
    by (auto simp: teya_claim_lease_def teya_cas_def teya_claimable_def intro: evolves_update1 teya_step.lease)
qed

lemma claim_row: "teya_claim_by_id pid token now t = (Some row, t') \<Longrightarrow> row \<in> set t' \<and> te_id row = pid"
  by (auto simp: teya_claim_by_id_def dest: teya_get_row split: option.splits prod.splits if_splits)

lemma claim_ids:
  assumes "teya_claim_by_id pid token now t = (res, t')"
  shows "map te_id t' = map te_id t"
  using assms by (auto simp: teya_claim_by_id_def teya_claim_lease_def teya_cas_def teya_lease_row_def
      split: option.splits prod.splits if_splits intro!: map_sql_update)

lemma next_books: "Teya_BOOKING \<in> teya_next row \<Longrightarrow> te_state row = Teya_BOOKING \<or> truthy (te_selected_starts_at row)"
  by (auto simp: teya_next_def Let_def split: TeyaRequestPendingState.splits if_splits)

lemma lands_evolves:
  assumes "teya_lands row lease (teya_next row) t out" and "distinct (map te_id t)" and "row \<in> set t"
  shows "evolves N teya_step t (tb_rows (snd (snd out)))" and "map te_id (tb_rows (snd (snd out))) = map te_id t"
proof -
  obtain f where f: "tb_rows (snd (snd out)) = sql_update (teya_held row lease) f t"
    and upd: "\<And>r. teya_write r (f r)" and lands: "\<And>r. te_state r = te_state row \<Longrightarrow> te_state (f r) \<in> teya_next row"
    using assms(1) unfolding teya_lands_def by blast
  have "teya_step r (f r)" if "r \<in> set t" and "teya_held row lease r" for r
  proof (rule teya_step.update_row [OF _ upd])
    show "\<not> teya_finished r" using that(2) by (simp add: teya_held_def teya_finished_def)
    have "r = row" using that assms(2,3) by (auto simp: teya_held_def distinct_map dest: inj_onD)
    then show "te_state r = Teya_BOOKING \<or> truthy (te_selected_starts_at r)" if "te_state (f r) = Teya_BOOKING"
      using next_books lands [of r] that by simp
  qed
  then show "evolves N teya_step t (tb_rows (snd (snd out)))"
    unfolding f by (rule evolves_update1)
  show "map te_id (tb_rows (snd (snd out))) = map te_id t"
    unfolding f by (rule map_sql_update) (use upd in \<open>simp add: teya_write_def teya_fixed_def\<close>)
qed

lemma process_claimed_evolves:
  assumes "teya_process_claimed e row db = out" and "distinct (map te_id (tb_rows db))" and "row \<in> set (tb_rows db)"
  shows "evolves N teya_step (tb_rows db) (tb_rows (snd (snd out)))"
    and "map te_id (tb_rows (snd (snd out))) = map te_id (tb_rows db)"
proof -
  have "evolves N teya_step (tb_rows db) (tb_rows (snd (snd out))) \<and> map te_id (tb_rows (snd (snd out))) = map te_id (tb_rows db)"
  proof (cases "te_lease_token row")
    case None
    with assms(1) show ?thesis by (auto simp: teya_process_claimed_def)
  next
    case (Some lease)
    note lands_evolves [OF lands_process_claimed [OF Some, where e = e] assms(2,3)]
    then show ?thesis unfolding assms(1) by simp
  qed
  then show "evolves N teya_step (tb_rows db) (tb_rows (snd (snd out)))"
    and "map te_id (tb_rows (snd (snd out))) = map te_id (tb_rows db)" by auto
qed

lemma process_one_evolves:
  assumes "teya_process_one e pid token db = (res, calls, db')" and "distinct (map te_id (tb_rows db))"
  shows "evolves N teya_step (tb_rows db) (tb_rows db')" and "map te_id (tb_rows db') = map te_id (tb_rows db)"
proof -
  obtain claimed t' where claim: "teya_claim_by_id pid token (tv_now e) (tb_rows db) = (claimed, t')" by fastforce
  note ids = claim_ids [OF claim] and ev = claim_evolves [OF claim, of N]
  have "evolves N teya_step (tb_rows db) (tb_rows db') \<and> map te_id (tb_rows db') = map te_id (tb_rows db)"
  proof (cases claimed)
    case None
    with assms(1) claim have "tb_rows db' = t'" by (auto simp: teya_process_one_def)
    with ev ids show ?thesis by simp
  next
    case (Some row)
    let ?db = "db \<lparr> tb_rows := t' \<rparr>"
    obtain r c d where out: "teya_process_claimed e row ?db = (r, c, d)" by (metis prod_cases3)
    have "row \<in> set (tb_rows ?db)" and "distinct (map te_id (tb_rows ?db))"
      using claim_row claim Some ids assms(2) by auto
    note step = process_claimed_evolves [OF out this(2,1), simplified]
    have "db' = db \<or> db' = d"
      using assms(1) claim Some out by (cases r) (auto simp: teya_process_one_def)
    with evolves_trans [OF ev step(1) [of N]] step(2) ids show ?thesis by auto
  qed
  then show "evolves N teya_step (tb_rows db) (tb_rows db')" and "map te_id (tb_rows db') = map te_id (tb_rows db)" by auto
qed

text \<open>A repair writes the row that was read: the rows after it.\<close>

definition teya_puts :: "teya_row \<Rightarrow> teya_row list \<Rightarrow> teya_row list \<Rightarrow> bool" where
  "teya_puts row t t' =
     (\<exists>row'. t' = sql_put te_id row' t \<and> teya_write row row' \<and>
        (te_state row' = te_state row \<or> te_state row' \<noteq> Teya_BOOKING))"

lemma puts_put:
  "teya_write row row' \<Longrightarrow> te_state row' = te_state row \<or> te_state row' \<noteq> Teya_BOOKING \<Longrightarrow>
   teya_puts row (tb_rows db) (tb_rows (teya_put row' db))"
  unfolding teya_puts_def teya_put_def by auto

lemma repaired_write: "teya_write row r \<Longrightarrow> teya_write row (teya_repaired st c out reason at now r)"
  by (simp add: teya_write_def teya_fixed_def teya_repaired_def)

lemma attached_write: "teya_write row (teya_attached res note row)" "te_state (teya_attached res note row) = te_state row"
  by (simp_all add: teya_write_def teya_fixed_def teya_attached_def)

lemma repaired_state [simp]: "te_state (teya_repaired st c out reason at now r) = st"
  by (simp add: teya_repaired_def)

lemma puts_manual:
  assumes "distinct (map te_id (tb_rows db))" and "row \<in> set (tb_rows db)"
  shows "teya_puts row (tb_rows db) (tb_rows (teya_set_manual e row reason db))"
  using sql_update_current [OF assms, where P = "\<lambda>r. te_id r = te_id row" and f = "teya_manual_row reason (tv_now e)"]
  unfolding teya_puts_def teya_set_manual_def teya_mark_manual_review_def teya_cas_def
  by (auto simp: teya_manual_row_def teya_write_def teya_fixed_def intro!: exI [of _ "teya_manual_row reason (tv_now e) row"])

lemma puts_same:
  assumes "distinct (map te_id t)" and "row \<in> set t"
  shows "teya_puts row t t"
proof -
  have "sql_put te_id row t = t"
    unfolding sql_put_def sql_update_def using distinct_key_unique [OF assms(1) _ assms(2)] by (intro map_idI) auto
  then show ?thesis unfolding teya_puts_def by (intro exI [of _ row]) (simp add: teya_write_def)
qed

lemma puts_recover:
  assumes "teya_recover e res note row db = (b, db')"
  shows "teya_puts row (tb_rows db) (tb_rows db')"
proof -
  define row1 where "row1 = teya_attached res note row"
  have upd: "teya_write row row1" and st: "te_state row1 = te_state row" by (simp_all add: row1_def attached_write)
  have repaired: "teya_puts row (tb_rows db) (tb_rows (teya_put (teya_repaired state c out reason at now row1) db))"
    if "state \<noteq> Teya_BOOKING" for state c out reason at now
    using that by (intro puts_put repaired_write upd) simp
  have touched: "teya_puts row (tb_rows db) (tb_rows (teya_put (row1 \<lparr> te_updated_at := now \<rparr>) db))" for now
    using upd st by (intro puts_put) (simp_all add: teya_write_def teya_fixed_def)
  show ?thesis
    using assms unfolding teya_recover_def row1_def [symmetric] Let_def
    by (simp only: split: if_splits) (auto intro: repaired touched)
qed

lemma puts_reconcile_crm:
  assumes "teya_reconcile_crm e crm row dto db = Some (b, db')" and "distinct (map te_id (tb_rows db))" and "row \<in> set (tb_rows db)"
  shows "teya_puts row (tb_rows db) (tb_rows db')"
  using assms(1) puts_manual [OF assms(2,3)] puts_same [OF assms(2,3)] puts_recover
  unfolding teya_reconcile_crm_def Let_def
  by (auto split: if_splits option.splits TeyaCrmActionOutcome.splits)

lemma puts_reconcile_one:
  assumes "teya_reconcile_one e row db = Some (b, db')" and "distinct (map te_id (tb_rows db))" and "row \<in> set (tb_rows db)"
  shows "teya_puts row (tb_rows db) (tb_rows db')"
proof -
  have same: "teya_write row row" by (simp add: teya_write_def)
  show ?thesis
    using assms(1) puts_manual [OF assms(2,3)] puts_same [OF assms(2,3)] puts_reconcile_crm [OF _ assms(2,3)]
    unfolding teya_reconcile_one_def Let_def
    by (auto split: if_splits option.splits remote.splits prod.splits AppointmentsLookupOutcome.splits
        intro!: puts_put repaired_write same)
qed

lemma puts_evolves:
  assumes "teya_puts row t t'" and "distinct (map te_id t)" and "row \<in> set t" and "\<not> teya_finished row"
  shows "evolves N teya_step t t'" and "map te_id t' = map te_id t"
    and "x \<in> set t \<Longrightarrow> te_id x \<noteq> te_id row \<Longrightarrow> x \<in> set t'"
proof -
  obtain row' where t': "t' = sql_put te_id row' t" and upd: "teya_write row row'"
    and st: "te_state row' = te_state row \<or> te_state row' \<noteq> Teya_BOOKING"
    using assms(1) unfolding teya_puts_def by blast
  have id: "te_id row' = te_id row" using upd by (simp add: teya_write_def teya_fixed_def)
  have step: "teya_step row row'" by (rule teya_step.update_row [OF assms(4) upd]) (use st in auto)
  show "evolves N teya_step t t'"
    unfolding t' sql_put_def
    by (rule evolves_update1) (use distinct_key_unique [OF assms(2) _ assms(3)] id step in auto)
  show "map te_id t' = map te_id t" unfolding t' by simp
  show "x \<in> set t'" if "x \<in> set t" and "te_id x \<noteq> te_id row"
    unfolding t' using that id by (simp add: sql_put_other)
qed

lemma recon_loop_evolves:
  assumes "teya_recon_loop e rows db = Some (n, db')" and "distinct (map te_id (tb_rows db))"
    and "distinct (map te_id rows)" and "set rows \<subseteq> set (tb_rows db)" and "\<forall>r \<in> set rows. \<not> teya_finished r"
  shows "evolves N teya_step (tb_rows db) (tb_rows db') \<and> map te_id (tb_rows db') = map te_id (tb_rows db)"
  using assms
proof (induction rows arbitrary: db n)
  case Nil
  then show ?case by simp
next
  case (Cons row rows)
  obtain b db1 m where one: "teya_reconcile_one e row db = Some (b, db1)" and rest: "teya_recon_loop e rows db1 = Some (m, db')"
    using Cons.prems(1) by (auto split: option.splits prod.splits)
  have row: "row \<in> set (tb_rows db)" and fin: "\<not> teya_finished row" using Cons.prems(4,5) by auto
  note puts = puts_evolves [OF puts_reconcile_one [OF one Cons.prems(2) row] Cons.prems(2) row fin]
  have "set rows \<subseteq> set (tb_rows db1)"
  proof
    fix x assume "x \<in> set rows"
    then have "x \<in> set (tb_rows db)" and "te_id x \<noteq> te_id row" using Cons.prems(3,4) by (auto simp: image_iff)
    then show "x \<in> set (tb_rows db1)" by (rule puts(3))
  qed
  then have "evolves N teya_step (tb_rows db1) (tb_rows db') \<and> map te_id (tb_rows db') = map te_id (tb_rows db1)"
    using Cons.IH [OF rest] Cons.prems(2,3,5) puts(2) by simp
  with puts(1,2) evolves_trans show ?case by fastforce
qed

lemma tick_evolves:
  assumes "teya_recon_tick e batch_size db = Some (n, db')" and "distinct (map te_id (tb_rows db))"
  shows "evolves N teya_step (tb_rows db) (tb_rows db') \<and> map te_id (tb_rows db') = map te_id (tb_rows db)"
proof -
  define db1 where "db1 = db \<lparr> tb_rows := snd (teya_expire_exhausted (tv_now e) (tb_rows db)) \<rparr>"
  define rows where "rows = take batch_size (sort_key te_updated_at
    (filter (\<lambda>r. te_state r \<in> set BOOKING_RECON_STATES \<or> te_state r \<in> set CRM_RECON_STATES) (tb_rows db1)))"
  have loop: "teya_recon_loop e rows db1 = Some (n, db')"
    using assms(1) by (simp add: teya_recon_tick_def db1_def rows_def Let_def)
  have ids: "map te_id (tb_rows db1) = map te_id (tb_rows db)"
    unfolding db1_def teya_expire_exhausted_def Let_def by (simp add: map_sql_update teya_booked_row_def teya_manual_row_def)
  have ev: "evolves N teya_step (tb_rows db) (tb_rows db1)" using expire_evolves by (simp add: db1_def)
  have mem: "r \<in> set (tb_rows db1) \<and> \<not> teya_finished r" if "r \<in> set rows" for r
  proof -
    have "r \<in> set (tb_rows db1)" and "te_state r \<in> set BOOKING_RECON_STATES \<or> te_state r \<in> set CRM_RECON_STATES"
      using in_set_takeD [OF that [unfolded rows_def]] by simp_all
    then show ?thesis by (auto simp: BOOKING_RECON_STATES_def CRM_RECON_STATES_def teya_finished_def)
  qed
  have d1: "distinct (map te_id (tb_rows db1))" using ids assms(2) by simp
  then have "distinct (tb_rows db1)" by (simp add: distinct_map)
  then have "distinct rows" unfolding rows_def by simp
  moreover have "inj_on te_id (set rows)"
    by (rule inj_onI) (use distinct_key_unique [OF d1] mem in blast)
  ultimately have d2: "distinct (map te_id rows)" by (simp add: distinct_map)
  have "set rows \<subseteq> set (tb_rows db1)" and "\<forall>r \<in> set rows. \<not> teya_finished r" using mem by blast+
  note recon_loop_evolves [OF loop d1 d2 this, of N]
  then show ?thesis using ids evolves_trans [OF ev] by simp
qed

lemma upsert_cases:
  assumes "teya_upsert_discovered row_id request_id mx now t = Some (row, t')"
  obtains "t' = t" | "t' = t @ [row]" and "teya_new row" and "te_id row \<notin> te_id ` set t"
  using assms unfolding teya_upsert_discovered_def teya_repo_upsert_discovered_def teya_new_def Let_def
  by (auto split: option.splits if_splits simp: TEYA_MAX_ATTEMPTS_def teya_new_row_def)

lemma teya_run_effect:
  assumes "teya_run t t'" and "distinct (map te_id t)"
  shows "evolves teya_new teya_step t t' \<and> distinct (map te_id t')"
  using assms
proof cases
  case (upsert row_id request_id max_attempts now row)
  then show ?thesis using assms(2) by (cases rule: upsert_cases) (auto intro: evolves_insert)
next
  case (claim_one now locked db pid db')
  then have "t' = snd (teya_expire_exhausted now t)" by (auto simp: teya_worker_claim_one_def Let_def)
  moreover have "map te_id (snd (teya_expire_exhausted now t)) = map te_id t"
    by (simp add: teya_expire_exhausted_def Let_def map_sql_update teya_booked_row_def teya_manual_row_def)
  ultimately show ?thesis using assms(2) expire_evolves by simp
next
  case (process_one e pid token db res calls db')
  then show ?thesis using process_one_evolves [OF process_one(3)] assms(2) by simp
next
  case (tick e batch_size db n db')
  then show ?thesis using tick_evolves [OF tick(3), of teya_new] assms(2) by simp
qed

lemma step_fixed:
  assumes "teya_step r r'"
  shows "te_id r' = te_id r" and "te_max_attempts r' = te_max_attempts r" and "te_selected_starts_at r' = te_selected_starts_at r"
    and "te_attempt_count r \<le> te_attempt_count r'"
    and "te_attempt_count r' = te_attempt_count r \<Longrightarrow> te_lease_token r' = te_lease_token r \<or> te_lease_token r' = None"
    and "te_attempt_count r \<le> te_max_attempts r \<Longrightarrow> te_attempt_count r' \<le> te_max_attempts r"
    and "\<not> teya_finished r"
  using assms
  by (induction rule: teya_step.induct) (auto simp: teya_lease_row_def teya_write_def teya_fixed_def open_unfinished)

interpretation teya: bounded_leases te_id te_attempt_count te_lease_token teya_finished
    teya_new teya_step teya_run te_attempt_count te_max_attempts
proof
  fix r r' :: teya_row and t t'
  show "te_id r' = te_id r" if "teya_step r r'" by (rule step_fixed(1) [OF that])
  show "te_attempt_count r \<le> te_attempt_count r'" if "teya_step r r'" by (rule step_fixed(4) [OF that])
  show "te_lease_token r' = te_lease_token r \<or> te_lease_token r' = None"
    if "teya_step r r'" and "te_attempt_count r' = te_attempt_count r" by (rule step_fixed(5) [OF that])
  show "r' = r" if "teya_step r r'" and "teya_finished r" using step_fixed(7) [OF that(1)] that(2) by contradiction
  show "evolves teya_new teya_step t t'" if "teya_run t t'" and "distinct (map te_id t)" using teya_run_effect [OF that] by simp
  show "distinct (map te_id t')" if "teya_run t t'" and "distinct (map te_id t)" using teya_run_effect [OF that] by simp
  show "te_attempt_count r = 0 \<and> te_attempt_count r = 0 \<and> 0 < te_max_attempts r" if "teya_new r"
    using that by (auto simp: teya_new_def teya_new_row_def)
  show "te_attempt_count r' - te_attempt_count r = te_attempt_count r' - te_attempt_count r" by simp
  show "te_max_attempts r' = te_max_attempts r" if "teya_step r r'" by (rule step_fixed(2) [OF that])
  show "te_attempt_count r' \<le> te_max_attempts r" if "teya_step r r'" and "te_attempt_count r \<le> te_max_attempts r"
    by (rule step_fixed(6) [OF that])
qed

section \<open>The calls of a step\<close>

definition teya_books :: "teya_out \<Rightarrow> teya_effect list" where
  "teya_books out = filter (\<lambda>c. case c of BookCall _ _ _ _ \<Rightarrow> True | _ \<Rightarrow> False) (fst (snd out))"

lemma books_effect [simp]:
  "teya_books (with_effect c out) = (case c of BookCall _ _ _ _ \<Rightarrow> [c] | _ \<Rightarrow> []) @ teya_books out"
  by (simp add: with_effect_def teya_books_def split: prod.splits teya_effect.splits)

lemma books_leaf [simp]:
  "teya_books (r, [], db) = []" "teya_books (teya_raise db) = []" "teya_books (teya_advance e row lease state p db) = []"
  by (simp_all add: teya_books_def teya_raise_def teya_advance_def split: prod.splits)

lemma books_closings [simp]:
  "teya_books (teya_close e row lease state code db) = []" "teya_books (teya_fail_closed e row lease code db) = []"
  "teya_books (teya_reconciliation e row lease code db) = []" "teya_books (teya_manual_review e row lease code db) = []"
  by (simp_all add: teya_close_def teya_closings teya_manual_review_def)

lemma books_retries [simp]:
  "teya_books (teya_retry e row lease code db) = []" "teya_books (teya_retry_post_book_analytics e row lease code db) = []"
  "teya_books (teya_terminal_wait e row lease db) = []"
  by (simp_all add: teya_retry_def teya_retry_post_book_analytics_def teya_terminal_wait_def)

lemma books_remote_error [simp]: "teya_books (teya_handle_remote_error e row lease code db) = []"
  by (simp add: teya_handle_remote_error_def split: remote_class.splits)

lemma books_request: "(\<And>dto. teya_books (k dto) = []) \<Longrightarrow> teya_books (teya_with_request e row lease db k) = []"
  by (simp add: teya_with_request_def split: remote.splits)

lemma books_guarded:
  assumes "\<And>db'. teya_books (k db') = []"
  shows "teya_books (case teya_guard_crm_breaker e row lease db of Inl blocked \<Rightarrow> blocked | Inr db' \<Rightarrow> k db') = []"
  using assms by (simp add: teya_guard_crm_breaker_def Let_def split: prod.splits)

lemma books_crm_outcome: "teya_books k = [] \<Longrightarrow> teya_books (teya_crm_outcome e row lease res codes db k) = []"
  by (simp add: teya_crm_outcome_def split: prod.splits TeyaCrmActionOutcome.splits)

lemma books_game: "(\<And>r. teya_books (k r) = []) \<Longrightarrow> teya_books (teya_game_attach e row note task db k) = []"
  by (simp add: teya_game_attach_def Let_def split: option.splits)

lemmas books_intros = books_request books_guarded books_crm_outcome books_game

lemma books_reconciled: "teya_books (teya_step_reconciled e row lease db) = []"
  unfolding teya_step_reconciled_def
  by (auto intro!: books_intros split: option.splits remote.splits prod.splits AppointmentsLookupOutcome.splits)

lemma books_crm_steps:
  "teya_books (teya_step_identity e row lease db) = []" "teya_books (teya_step_crm_ready e row lease db) = []"
  unfolding teya_step_identity_def teya_step_crm_ready_def by (auto simp: Let_def intro!: books_intros split: option.splits)

lemma books_plain_steps:
  "teya_books (teya_step_discovered e row lease db) = []" "teya_books (teya_step_contact_route e row lease db) = []"
  "teya_books (teya_step_ready_to_book e row lease db) = []" "teya_books (teya_step_verifying e row lease db) = []"
  unfolding teya_step_discovered_def teya_step_contact_route_def teya_step_ready_to_book_def teya_step_verifying_def
  by (auto simp: Let_def intro!: books_intros split: option.splits)

lemma books_booking:
  "teya_books (teya_step_booking e row lease db) = [] \<or>
   (\<exists>starts key sid. teya_books (teya_step_booking e row lease db) = [BookCall (te_request_id row) starts key sid] \<and>
      te_selected_starts_at row = Some starts \<and> te_book_idempotency_key row = Some key)"
  by (auto simp: teya_step_booking_def teya_with_request_def Let_def truthy_def split: remote.splits option.splits)

lemma books_only_booking:
  "teya_books (teya_process_claimed e row db) = [] \<or>
   te_state row = Teya_BOOKING \<and>
   (\<exists>starts key sid. teya_books (teya_process_claimed e row db) = [BookCall (te_request_id row) starts key sid] \<and>
      te_selected_starts_at row = Some starts \<and> te_book_idempotency_key row = Some key)"
  using books_booking [of e row _ db] unfolding teya_process_claimed_def
  by (auto simp: books_reconciled books_crm_steps books_plain_steps split: option.splits TeyaRequestPendingState.split)

section \<open>Properties\<close>

lemma lands_put:
  assumes "teya_lands row lease S t out" and "distinct (map te_id t)" and "row \<in> set t" and "te_lease_token row = Some lease"
  shows "\<exists>row'. tb_rows (snd (snd out)) = sql_put te_id row' t \<and> teya_fixed row' = teya_fixed row \<and> te_state row' \<in> S"
proof -
  obtain f where f: "tb_rows (snd (snd out)) = sql_update (teya_held row lease) f t"
    and upd: "\<And>r. teya_write r (f r)" and lands: "\<And>r. te_state r = te_state row \<Longrightarrow> te_state (f r) \<in> S"
    using assms(1) unfolding teya_lands_def by blast
  have "sql_update (teya_held row lease) f t = sql_put te_id (f row) t"
    using upd [of row] assms(4) by (intro sql_update_current [OF assms(2,3)]) (auto simp: teya_held_def teya_write_def teya_fixed_def)
  with f upd [of row] lands [of row] show ?thesis by (auto simp: teya_write_def)
qed

text \<open>
  C26. One step of the orchestrator on a leased request changes the row of that request only, keeps its id,
  attempts and chosen slot, and moves it along an edge of the workflow; the booking service is asked to book at
  most once, only in the state BOOKING, and then with the request's own slot and idempotency key.
\<close>

theorem teya_step_follows_workflow:
  assumes "distinct (map te_id (tb_rows db))" and "row \<in> set (tb_rows db)" and "te_lease_token row = Some lease"
    and "teya_process_claimed e row db = (res, calls, db')"
  shows "(\<exists>row'. tb_rows db' = sql_put te_id row' (tb_rows db) \<and> teya_fixed row' = teya_fixed row \<and> te_state row' \<in> teya_next row) \<and>
    (teya_books (res, calls, db') = [] \<or>
     te_state row = Teya_BOOKING \<and>
     (\<exists>starts key sid. teya_books (res, calls, db') = [BookCall (te_request_id row) starts key sid] \<and>
        te_selected_starts_at row = Some starts \<and> te_book_idempotency_key row = Some key))"
  using lands_put [OF lands_process_claimed [OF assms(3)] assms(1-3), of e] books_only_booking [of e row db]
  unfolding assms(4) by simp

lemma truthy_some: "s \<noteq> [] \<Longrightarrow> truthy (Some s)"
  by (simp add: truthy_def)

definition silent :: "teya_db \<Rightarrow> teya_out \<Rightarrow> bool" where
  "silent db out = (fst (snd out) = [] \<and> tb_breaker (snd (snd out)) = tb_breaker db)"

lemma silent_leaf: "silent db (teya_raise db)" "silent db (teya_advance e row lease s p db)" "silent db (teya_reconciliation e row lease c db)"
  by (simp_all add: silent_def teya_raise_def teya_advance_def teya_reconciliation_def teya_close_def split: prod.splits)

lemma quiet_attach:
  assumes "tv_crm e = Some crm" and "te_amocrm_deal_id row = Some deal" and "truthy (Some deal)" and "\<And>r. silent db (k r)"
  shows "fst (snd (teya_game_attach e row note task db k)) = [CrmAttach deal] \<and>
    tb_breaker (snd (snd (teya_game_attach e row note task db k))) = tb_breaker db"
  using assms silent_leaf(1) [of db]
  by (auto simp: teya_game_attach_def silent_def Let_def with_effect_def case_prod_beta split: option.splits)

lemma quiet_step:
  assumes "tv_crm e = Some crm" and "te_amocrm_deal_id row = Some deal" and "truthy (Some deal)"
    and "tr_get (tv_remote e) (te_request_id row) = Remote_ok dto" and "br_game dto = Some g"
    and "truthy (br_phone_e164 dto)" and "tr_lookup (tv_remote e) (the (br_phone_e164 dto)) = Remote_ok found"
  shows "fst (snd (teya_step_reconciled e row lease db)) = [CrmAttach deal] \<and>
    tb_breaker (snd (snd (teya_step_reconciled e row lease db))) = tb_breaker db"
  unfolding teya_step_reconciled_def teya_with_request_def assms(4) remote.case assms(5) assms(7) option.case
  using assms(6)
  by (cases g; cases found; cases "fst found") (auto intro!: quiet_attach [OF assms(1-3)] silent_leaf split: option.splits)

text \<open>
  C29. While the circuit breaker refuses calls, the steps that create the deal and its note make no call of the
  CRM, but the step that follows them still writes a note and a task for a game request, and whatever the CRM
  answers there is not counted by the breaker.
\<close>

theorem game_writes_bypass_breaker:
  assumes denied: "fst (try_claim_probe (tv_now e) (tv_policy e) (tb_breaker db)) \<noteq> Probe_ALLOWED"
    and lease: "te_lease_token row = Some lease" and crm: "tv_crm e = Some crm" and deal: "te_amocrm_deal_id row = Some deal" "deal \<noteq> []"
    and dto: "tr_get (tv_remote e) (te_request_id row) = Remote_ok dto" and game: "br_game dto = Some g"
    and phone: "truthy (br_phone_e164 dto)" and found: "tr_lookup (tv_remote e) (the (br_phone_e164 dto)) = Remote_ok found"
    and out: "teya_process_claimed e row db = (res, calls, db')"
  shows "(te_state row \<in> {Teya_IDENTITY, Teya_CRM_READY} \<longrightarrow> calls = []) \<and>
    (te_state row = Teya_RECONCILED \<longrightarrow> calls = [CrmAttach deal] \<and> tb_breaker db' = tb_breaker db)"
proof (rule conjI; rule impI)
  have blocked: "\<exists>r d. teya_guard_crm_breaker e row lease db = Inl (r, [], d)"
    using denied by (auto simp: teya_guard_crm_breaker_def Let_def teya_manual_review_def split: prod.splits)
  show "calls = []" if "te_state row \<in> {Teya_IDENTITY, Teya_CRM_READY}"
    using that out blocked lease crm dto deal(1) truthy_some [OF deal(2)]
    by (auto simp: teya_process_claimed_def teya_step_identity_def teya_step_crm_ready_def teya_with_request_def)
next
  assume "te_state row = Teya_RECONCILED"
  then have "teya_step_reconciled e row lease db = (res, calls, db')"
    using out lease by (simp add: teya_process_claimed_def)
  then show "calls = [CrmAttach deal] \<and> tb_breaker db' = tb_breaker db"
    using quiet_step [OF crm deal(1) truthy_some [OF deal(2)] dto game phone found, of lease db] by simp
qed

definition never_chosen :: "teya_row \<Rightarrow> bool" where
  "never_chosen r = (te_selected_starts_at r = None \<and> te_state r \<noteq> Teya_BOOKING)"

lemma never_chosen_kept: "teya_step r r' \<Longrightarrow> never_chosen r \<Longrightarrow> never_chosen r'"
  by (induction rule: teya_step.induct)
    (auto simp: never_chosen_def teya_lease_row_def teya_write_def teya_fixed_def truthy_def)

lemma never_chosen_new: "teya_new r \<Longrightarrow> never_chosen r"
  by (auto simp: never_chosen_def teya_new_def teya_new_row_def)

lemma never_chosen_reachable:
  assumes "teya_run\<^sup>*\<^sup>* [] t"
  shows "\<forall>r \<in> set t. never_chosen r"
  by (rule evolves_invariant [OF teya.runs_evolve [OF assms]]) (auto intro: never_chosen_kept never_chosen_new)

lemma process_one_books:
  assumes "teya_process_one e pid token db = (res, calls, db')" and "\<forall>r \<in> set (tb_rows db). never_chosen r"
  shows "teya_books (res, calls, db') = []"
proof -
  obtain claimed t' where claim: "teya_claim_by_id pid token (tv_now e) (tb_rows db) = (claimed, t')" by fastforce
  have kept: "\<forall>r \<in> set t'. never_chosen r"
    by (rule evolves_invariant [OF claim_evolves [OF claim, of "\<lambda>_. False"] assms(2)]) (auto intro: never_chosen_kept)
  show ?thesis
  proof (cases claimed)
    case None
    with assms(1) claim show ?thesis by (auto simp: teya_process_one_def)
  next
    case (Some row)
    then have "never_chosen row" using claim_row claim kept by blast
    then have quiet: "teya_books (teya_process_claimed e row (db \<lparr> tb_rows := t' \<rparr>)) = []"
      using books_only_booking [of e row "db \<lparr> tb_rows := t' \<rparr>"] by (auto simp: never_chosen_def)
    with assms(1) claim Some show ?thesis
      by (auto simp: teya_process_one_def teya_books_def split: prod.splits option.splits)
  qed
qed

text \<open>
  C28. No run of the application ever books: nothing chooses the slot of a request, so in every table the workers
  can produce no request is in BOOKING or has a slot, and no step of the orchestrator calls the booking service to book.
\<close>

theorem teya_never_books:
  assumes "teya_run\<^sup>*\<^sup>* [] (tb_rows db)"
  shows "(\<forall>r \<in> set (tb_rows db). te_selected_starts_at r = None \<and> te_state r \<noteq> Teya_BOOKING) \<and>
    teya_books (teya_process_one e pid token db) = []"
  using never_chosen_reachable [OF assms] process_one_books [of e pid token db]
  by (cases "teya_process_one e pid token db") (auto simp: never_chosen_def)

text \<open>
  C27. In every table the workers can produce from an empty one, a request has been leased at most
  \<open>max_attempts\<close> times, and once it is DONE or closed it is found unchanged after every further run.
\<close>

theorem teya_attempts_end:
  assumes "teya_run\<^sup>*\<^sup>* [] t" and "r \<in> set t" and "teya_run\<^sup>*\<^sup>* t t'"
  shows "0 \<le> te_attempt_count r \<and> te_attempt_count r \<le> te_max_attempts r \<and>
    (teya_finished r \<longrightarrow> teya_get_by_id (te_id r) t' = Some r)"
proof -
  have "distinct (map te_id t)" using teya.runs_distinct [OF assms(1)] by simp
  then show ?thesis
    using teya.attempts_are_versions(2,3) [OF assms(1,2)] teya.finished_row_final [OF assms(3) _ sql_one_the_row [OF _ assms(2)]]
    by (simp add: teya_get_by_id_def)
qed

text \<open>
  C30. When the reconciliation finds that an exhausted request has been booked, it sends the request to VERIFYING to
  resume the analytics, but no worker can ever claim it there: the next look at the table closes it with the analytics undone.
\<close>

theorem exhausted_analytics_never_resumed:
  assumes "distinct (map te_id (tb_rows db))" and "row \<in> set (tb_rows db)" and "te_max_attempts row \<le> te_attempt_count row"
    and "te_state row = Teya_MANUAL_REVIEW" and "truthy (te_amocrm_deal_id row)" and "tv_crm e = Some crm"
    and "tr_get (tv_remote e) (te_request_id row) = Remote_ok dto" and "br_status dto = ''CLOSED''" and "truthy (br_appointment_id dto)"
  shows "\<exists>row' db'. teya_reconcile_one e row db = Some (True, db') \<and> teya_get_by_id (te_id row) (tb_rows db') = Some row' \<and>
    te_state row' = Teya_VERIFYING \<and> te_result_code row' = Some ''RECON_BOOKING_CLOSED_ANALYTICS_PENDING'' \<and>
    (\<forall>now. \<not> teya_claimable now row' \<and>
       teya_get_by_id (te_id row) (snd (teya_expire_exhausted now (tb_rows db'))) = Some (teya_booked_row now row'))"
proof -
  define row' where "row' = teya_repaired Teya_VERIFYING ''RECON_BOOKING_CLOSED_ANALYTICS_PENDING'' None None (Some (tv_now e)) (tv_now e) row"
  have id: "te_id row' = te_id row" and spent: "teya_exhausted row'" and st: "te_state row' = Teya_VERIFYING"
    using assms(3) by (simp_all add: row'_def teya_repaired_def teya_exhausted_def)
  have "teya_reconcile_one e row db = Some (True, teya_put row' db)"
    using assms(4-9) by (simp add: teya_reconcile_one_def row'_def)
  moreover have found: "teya_get_by_id (te_id row) (tb_rows (teya_put row' db)) = Some row'"
    using sql_one_put [OF assms(2) id] by (simp add: teya_get_by_id_def teya_put_def)
  moreover have "\<not> teya_claimable now row'" for now
    using spent by (simp add: teya_claimable_def teya_exhausted_def)
  moreover have "teya_get_by_id (te_id row) (snd (teya_expire_exhausted now (tb_rows (teya_put row' db)))) = Some (teya_booked_row now row')" for now
    using found spent st unfolding teya_expire_exhausted_def Let_def teya_get_by_id_def
    by (simp add: sql_one_update teya_booked_row_def teya_manual_row_def terminal_iff)
  moreover have "te_result_code row' = Some ''RECON_BOOKING_CLOSED_ANALYTICS_PENDING''" by (simp add: row'_def teya_repaired_def)
  ultimately show ?thesis using st by blast
qed

section \<open>Witnesses\<close>

definition demo_request :: booking_request where
  "demo_request =
     \<lparr> br_status = ''CLOSED'', br_request_type = ''GAME'', br_service_id = None, br_master_id = None, br_client_name = None,
       br_phone_e164 = Some ''+79001234567'', br_game = Some (Some ''gift'', None), br_appointment_id = Some ''a'' \<rparr>"

definition demo_crm :: teya_crm where
  "demo_crm = \<lparr> tc_ensure = (\<lambda>_ _. None), tc_attach = (\<lambda>_ _ _. None), tc_analytics = (\<lambda>_. None), tc_reconcile = (\<lambda>_ _ _. None) \<rparr>"

definition demo_env :: teya_env where
  "demo_env =
     \<lparr> tv_remote = \<lparr> tr_get = (\<lambda>_. Remote_ok demo_request), tr_lookup = (\<lambda>_. Remote_ok (Lookup_NONE, None)),
                     tr_book = (\<lambda>_ _ _ _. Remote_ok ()) \<rparr>,
       tv_crm = Some demo_crm, tv_policy = breaker_demo_policy, tv_delay = (\<lambda>_. 0), tv_retry_base = 0, tv_new_key = ''k'', tv_now = 10 \<rparr>"

definition demo_row :: "TeyaRequestPendingState \<Rightarrow> teya_row" where
  "demo_row st = teya_lease_row ''lease'' 90 5 (teya_new_row ''p'' ''r'' 0 1 \<lparr> te_state := st, te_amocrm_deal_id := Some ''d'' \<rparr>)"

definition demo_db :: "TeyaRequestPendingState \<Rightarrow> teya_db" where
  "demo_db st = \<lparr> tb_rows = [demo_row st], tb_breaker = Some breaker_demo_open \<rparr>"

lemmas demo_defs = demo_db_def demo_row_def demo_env_def demo_request_def teya_lease_row_def teya_new_row_def truthy_def

theorem teya_step_follows_workflow_witness:
  "\<exists>res calls db'. teya_process_claimed demo_env (demo_row Teya_DISCOVERED) (demo_db Teya_DISCOVERED) = (res, calls, db') \<and>
     (\<exists>row'. tb_rows db' = sql_put te_id row' [demo_row Teya_DISCOVERED] \<and> te_state row' \<in> teya_next (demo_row Teya_DISCOVERED))"
proof -
  obtain res calls db' where out:
    "teya_process_claimed demo_env (demo_row Teya_DISCOVERED) (demo_db Teya_DISCOVERED) = (res, calls, db')" by (metis prod_cases3)
  from teya_step_follows_workflow [OF _ _ _ this] have
    "\<exists>row'. tb_rows db' = sql_put te_id row' [demo_row Teya_DISCOVERED] \<and> te_state row' \<in> teya_next (demo_row Teya_DISCOVERED)"
    by (auto simp: demo_db_def demo_row_def teya_lease_row_def)
  with out show ?thesis by blast
qed

lemma demo_denied: "fst (try_claim_probe 10 breaker_demo_policy (Some breaker_demo_open)) \<noteq> Probe_ALLOWED"
  by code_simp

theorem game_writes_bypass_breaker_witness:
  "fst (snd (teya_process_claimed demo_env (demo_row Teya_RECONCILED) (demo_db Teya_RECONCILED))) = [CrmAttach ''d''] \<and>
   fst (snd (teya_process_claimed demo_env (demo_row Teya_IDENTITY) (demo_db Teya_IDENTITY))) = []"
proof -
  have calls: "(st \<in> {Teya_IDENTITY, Teya_CRM_READY} \<longrightarrow> fst (snd (teya_process_claimed demo_env (demo_row st) (demo_db st))) = []) \<and>
      (st = Teya_RECONCILED \<longrightarrow> fst (snd (teya_process_claimed demo_env (demo_row st) (demo_db st))) = [CrmAttach ''d''])" for st
  proof -
    obtain res calls db' where out: "teya_process_claimed demo_env (demo_row st) (demo_db st) = (res, calls, db')" by (metis prod_cases3)
    from game_writes_bypass_breaker [OF _ _ _ _ _ _ _ _ _ this, where deal = "''d''" and crm = demo_crm and lease = "''lease''"
        and dto = demo_request and g = "(Some ''gift'', None)" and found = "(Lookup_NONE, None)"] demo_denied
    show ?thesis unfolding out by (simp add: demo_defs)
  qed
  show ?thesis using calls [of Teya_RECONCILED] calls [of Teya_IDENTITY] by simp
qed

lemma demo_upsert: "teya_run\<^sup>*\<^sup>* [] [teya_new_row ''p'' ''r'' 0 1]"
  by (rule r_into_rtranclp, rule teya_run.upsert [where row_id = "''p''" and request_id = "''r''" and now = 0 and max_attempts = 1])
    (simp add: teya_upsert_discovered_def teya_repo_upsert_discovered_def teya_get_by_request_id_def Let_def)

theorem teya_never_books_witness:
  "teya_books (teya_process_one demo_env ''p'' ''lease'' \<lparr> tb_rows = [teya_new_row ''p'' ''r'' 0 1], tb_breaker = None \<rparr>) = []"
  using teya_never_books [of "\<lparr> tb_rows = [teya_new_row ''p'' ''r'' 0 1], tb_breaker = None \<rparr>"] demo_upsert by simp

theorem teya_attempts_end_witness:
  "te_attempt_count (teya_new_row ''p'' ''r'' 0 1) \<le> te_max_attempts (teya_new_row ''p'' ''r'' 0 1)"
  using teya_attempts_end [OF demo_upsert, of "teya_new_row ''p'' ''r'' 0 1", OF _ rtranclp.rtrancl_refl] by simp

theorem exhausted_analytics_never_resumed_witness:
  "\<exists>row' db'. teya_reconcile_one demo_env (demo_row Teya_MANUAL_REVIEW) (demo_db Teya_MANUAL_REVIEW) = Some (True, db') \<and>
     teya_get_by_id ''p'' (tb_rows db') = Some row' \<and> te_state row' = Teya_VERIFYING \<and> (\<forall>now. \<not> teya_claimable now row')"
proof -
  have id: "te_id (demo_row Teya_MANUAL_REVIEW) = ''p''" by (simp add: demo_defs)
  have "\<exists>row' db'. teya_reconcile_one demo_env (demo_row Teya_MANUAL_REVIEW) (demo_db Teya_MANUAL_REVIEW) = Some (True, db') \<and>
      teya_get_by_id (te_id (demo_row Teya_MANUAL_REVIEW)) (tb_rows db') = Some row' \<and> te_state row' = Teya_VERIFYING \<and>
      te_result_code row' = Some ''RECON_BOOKING_CLOSED_ANALYTICS_PENDING'' \<and>
      (\<forall>now. \<not> teya_claimable now row' \<and>
         teya_get_by_id (te_id (demo_row Teya_MANUAL_REVIEW)) (snd (teya_expire_exhausted now (tb_rows db'))) = Some (teya_booked_row now row'))"
    by (rule exhausted_analytics_never_resumed [where crm = demo_crm and dto = demo_request]) (simp_all add: demo_defs)
  then show ?thesis unfolding id by blast
qed

end
