(* ===== verification/Crm_Writes.thy ===== *)
theory Crm_Writes
  imports Text_Chars Chat_Http
begin

text \<open>
  The client that writes to amoCRM for the requests of the web site: core/amocrm_crm_writes_http.py and the
  field contract core/amocrm_analytics_fields.py.

  amoCRM is an argument: a transport that answers a request in some state of the world and moves it, so that
  a later answer may differ from an earlier one. An operation yields its receipt or its exception, the
  requests it sent, and the world. The bytes of a body are the JSON value they carry (\<open>None\<close> for bytes that
  are no JSON), and \<open>http_calls\<close> of the receipts, a list for the logs, is the list of the requests.
\<close>

section \<open>Requests\<close>

datatype AmoCrmCrmRestOutcome = Rest_SUCCESS | Rest_TRANSIENT_ERROR | Rest_PERMANENT_ERROR | Rest_UNAUTHORIZED | Rest_DISABLED

datatype crm_exn = CrmRestHttpError string | CrmValueError | CrmAttributeError

record crm_http =
  ch_label :: string
  ch_method :: string
  ch_path :: string
  ch_token :: string
  ch_body :: "json option"

record crm_response =
  cs_status :: int
  cs_json :: "json option"

text \<open>\<open>cl_repr\<close> is \<open>str\<close> of a list or a dict; \<open>cl_now\<close> is \<open>int(time.time())\<close>.\<close>

record 'w crm_client =
  cl_enabled :: bool
  cl_pipeline_id :: int
  cl_open_status_id :: int
  cl_manager_id :: int
  cl_task_type_id :: int
  cl_transport :: "crm_http \<Rightarrow> 'w \<Rightarrow> crm_response option \<times> 'w"
  cl_repr :: "json \<Rightarrow> string"
  cl_now :: int

type_synonym ('w, 'a) crm = "'w \<Rightarrow> (crm_exn + 'a) \<times> crm_http list \<times> 'w"

definition crm_return :: "'a \<Rightarrow> ('w, 'a) crm" where
  "crm_return x w = (Inr x, [], w)"

definition crm_raise :: "crm_exn \<Rightarrow> ('w, 'a) crm" where
  "crm_raise e w = (Inl e, [], w)"

definition crm_bind :: "('w, 'a) crm \<Rightarrow> ('a \<Rightarrow> ('w, 'b) crm) \<Rightarrow> ('w, 'b) crm" where
  "crm_bind m k w =
     (case m w of
        (Inl e, calls, w1) \<Rightarrow> (Inl e, calls, w1)
      | (Inr x, calls, w1) \<Rightarrow> (case k x w1 of (r, more_calls, w2) \<Rightarrow> (r, calls @ more_calls, w2)))"

definition crm_classify_status :: "int \<Rightarrow> AmoCrmCrmRestOutcome" where
  "crm_classify_status status =
     (if 200 \<le> status \<and> status < 300 then Rest_SUCCESS
      else if status = 401 then Rest_UNAUTHORIZED
      else if status \<in> {400, 403, 404, 422} then Rest_PERMANENT_ERROR
      else Rest_TRANSIENT_ERROR)"

definition crm_request ::
  "'w crm_client \<Rightarrow> string \<Rightarrow> string \<Rightarrow> string \<Rightarrow> json option \<Rightarrow> string \<Rightarrow> ('w, AmoCrmCrmRestOutcome \<times> crm_response option) crm" where
  "crm_request cl method_name path token body label w =
     (if token = [] then (Inl (CrmRestHttpError ''AMOCRM_CRM_TOKEN_INVALID''), [], w)
      else let req = \<lparr> ch_label = label, ch_method = method_name, ch_path = path, ch_token = token, ch_body = body \<rparr>;
               (answer, w1) = cl_transport cl req w
           in (Inr (case answer of
                      None \<Rightarrow> (Rest_TRANSIENT_ERROR, None)
                    | Some resp \<Rightarrow> (crm_classify_status (cs_status resp), Some resp)), [req], w1))"

section \<open>Reading answers\<close>

definition json_dict :: "crm_response \<Rightarrow> payload" where
  "json_dict resp = (case cs_json resp of Some (JObj d) \<Rightarrow> d | _ \<Rightarrow> [])"

fun positive_id :: "json \<Rightarrow> string option" where
  "positive_id (JInt n) = (if 0 < n then Some (int_text n) else None)"
| "positive_id _ = None"

definition parse_entity_id :: "crm_response \<Rightarrow> string option" where
  "parse_entity_id resp = positive_id (dict_get (json_dict resp) ''id'')"

definition parse_embedded_id :: "string \<Rightarrow> crm_response \<Rightarrow> string option" where
  "parse_embedded_id key resp =
     (case dict_get (json_dict resp) ''_embedded'' of
        JObj embedded \<Rightarrow>
          (case dict_get embedded key of
             JList (JObj first # _) \<Rightarrow> positive_id (dict_get first ''id'')
           | _ \<Rightarrow> None)
      | _ \<Rightarrow> None)"

text \<open>Python compares \<open>True\<close> with 1.\<close>

fun json_is_int :: "json \<Rightarrow> int \<Rightarrow> bool" where
  "json_is_int (JInt n) k = (n = k)"
| "json_is_int (JBool b) k = ((if b then 1 else 0) = k)"
| "json_is_int _ k = False"

fun json_truthy :: "json \<Rightarrow> bool" where
  "json_truthy JNull = False"
| "json_truthy (JBool b) = b"
| "json_truthy (JInt n) = (n \<noteq> 0)"
| "json_truthy (JStr s) = (s \<noteq> [])"
| "json_truthy (JList xs) = (xs \<noteq> [])"
| "json_truthy (JObj d) = (d \<noteq> [])"

fun py_str :: "(json \<Rightarrow> string) \<Rightarrow> json \<Rightarrow> string" where
  "py_str r JNull = ''None''"
| "py_str r (JBool b) = (if b then ''True'' else ''False'')"
| "py_str r (JInt n) = int_text n"
| "py_str r (JStr s) = s"
| "py_str r v = r v"

text \<open>\<open>str(row.get("text") or "")\<close>\<close>

definition text_or_empty :: "(json \<Rightarrow> string) \<Rightarrow> json \<Rightarrow> string" where
  "text_or_empty r v = (if json_truthy v then py_str r v else [])"

definition task_text_fingerprint :: "string \<Rightarrow> string" where
  "task_text_fingerprint s = concat (strip_chars (utf8_chars s))"

definition note_text :: "payload \<Rightarrow> string" where
  "note_text row =
     (let own = (case dict_get row ''text'' of JStr s \<Rightarrow> s | _ \<Rightarrow> []) in
      case dict_get row ''params'' of
        JObj params \<Rightarrow> (case dict_get params ''text'' of JStr s \<Rightarrow> s | _ \<Rightarrow> own)
      | _ \<Rightarrow> own)"

fun dict_rows :: "json list \<Rightarrow> payload list" where
  "dict_rows [] = []"
| "dict_rows (JObj d # xs) = d # dict_rows xs"
| "dict_rows (_ # xs) = dict_rows xs"

fun positive_ints :: "payload list \<Rightarrow> int list" where
  "positive_ints [] = []"
| "positive_ints (v # vs) =
     (case dict_get v ''enum_id'' of JInt n \<Rightarrow> if 0 < n then n # positive_ints vs else positive_ints vs | _ \<Rightarrow> positive_ints vs)"

definition extract_lead_field_enum_ids :: "payload \<Rightarrow> int \<Rightarrow> int list" where
  "extract_lead_field_enum_ids d field_id =
     (case dict_get d ''custom_fields_values'' of
        JList rows \<Rightarrow>
          concat (map (\<lambda>row. if json_is_int (dict_get row ''field_id'') field_id
                             then (case dict_get row ''values'' of JList vs \<Rightarrow> positive_ints (dict_rows vs) | _ \<Rightarrow> [])
                             else []) (dict_rows rows))
      | _ \<Rightarrow> [])"

text \<open>\<open>str.isdigit\<close>, and \<open>int(s)\<close> for such a text: superscripts are digits without a value.\<close>

definition text_isdigit :: "string \<Rightarrow> bool" where
  "text_isdigit s = (utf8_chars s \<noteq> [] \<and> list_all is_digit_text (utf8_chars s))"

definition decimal_value :: "string \<Rightarrow> int option" where
  "decimal_value c = map_option (\<lambda>z. code_point c - z) (List.find (\<lambda>z. z \<le> code_point c \<and> code_point c \<le> z + 9) DECIMAL_ZEROS)"

fun digits_value :: "int \<Rightarrow> string list \<Rightarrow> int option" where
  "digits_value acc [] = Some acc"
| "digits_value acc (c # cs) = (case decimal_value c of None \<Rightarrow> None | Some d \<Rightarrow> digits_value (acc * 10 + d) cs)"

definition text_int_value :: "string \<Rightarrow> int option" where
  "text_int_value s = (if length (utf8_chars s) > 4300 then None else digits_value 0 (utf8_chars s))"

section \<open>Receipts\<close>

datatype AmoCrmCrmWriteOutcome = Write_VERIFIED | Write_FAILED | Write_RECONCILIATION_REQUIRED | Write_DISABLED

record crm_receipt =
  wr_outcome :: AmoCrmCrmWriteOutcome
  wr_contact_id :: "string option"
  wr_lead_id :: "string option"
  wr_note_id :: "string option"
  wr_task_id :: "string option"
  wr_error_code :: "string option"

definition receipt :: "AmoCrmCrmWriteOutcome \<Rightarrow> string option \<Rightarrow> crm_receipt" where
  "receipt outcome code =
     \<lparr> wr_outcome = outcome, wr_contact_id = None, wr_lead_id = None, wr_note_id = None, wr_task_id = None, wr_error_code = code \<rparr>"

definition failed :: "string \<Rightarrow> crm_receipt" where
  "failed code = receipt Write_FAILED (Some code)"

text \<open>The code of a refused request: transient or not.\<close>

definition refused :: "AmoCrmCrmRestOutcome \<Rightarrow> string \<Rightarrow> string \<Rightarrow> crm_receipt" where
  "refused outcome transient_code code = failed (if outcome = Rest_TRANSIENT_ERROR then transient_code else code)"

section \<open>Contacts and leads\<close>

definition AMOCRM_SYSTEM_LEAD_STATUS_UNREALIZED :: int where
  "AMOCRM_SYSTEM_LEAD_STATUS_UNREALIZED = 143"

definition contact_body :: "string \<Rightarrow> string \<Rightarrow> json" where
  "contact_body name phone =
     JList [JObj [(''name'', JStr name),
       (''custom_fields_values'', JList [JObj [(''field_code'', JStr ''PHONE''),
          (''values'', JList [JObj [(''value'', JStr phone), (''enum_code'', JStr ''WORK'')]])]])]]"

definition create_contact :: "'w crm_client \<Rightarrow> string \<Rightarrow> string \<Rightarrow> string \<Rightarrow> ('w, crm_receipt) crm" where
  "create_contact cl name phone token =
     (if \<not> cl_enabled cl then crm_return (receipt Write_DISABLED (Some ''AMOCRM_CRM_REST_DISABLED''))
      else if name = [] \<or> length (utf8_chars name) > 256 then crm_return (failed ''AMOCRM_CONTACT_NAME_INVALID'')
      else if phone = [] \<or> hd phone \<noteq> CHR ''+'' then crm_return (failed ''AMOCRM_CONTACT_PHONE_INVALID'')
      else crm_bind (crm_request cl ''POST'' ''/api/v4/contacts'' token (Some (contact_body name phone)) ''POST_CONTACT'')
        (\<lambda>(outcome, answer). case (outcome, answer) of
           (Rest_SUCCESS, Some resp) \<Rightarrow>
             (case parse_embedded_id ''contacts'' resp of
                None \<Rightarrow> crm_return (receipt Write_RECONCILIATION_REQUIRED (Some ''AMOCRM_CONTACT_CREATE_PARSE''))
              | Some contact_id \<Rightarrow>
                  crm_bind (crm_request cl ''GET'' (''/api/v4/contacts/'' @ contact_id) token None ''GET_CONTACT_POSTCHECK'')
                    (\<lambda>(outcome, answer). case (outcome, answer) of
                       (Rest_SUCCESS, Some got) \<Rightarrow>
                         crm_return
                           (if parse_entity_id got \<noteq> Some contact_id
                            then receipt Write_RECONCILIATION_REQUIRED (Some ''AMOCRM_CONTACT_POSTCHECK_MISMATCH'') \<lparr> wr_contact_id := Some contact_id \<rparr>
                            else receipt Write_VERIFIED None \<lparr> wr_contact_id := Some contact_id \<rparr>)
                     | _ \<Rightarrow> crm_return (receipt Write_RECONCILIATION_REQUIRED (Some ''AMOCRM_CONTACT_POSTCHECK_FAILED'')
                               \<lparr> wr_contact_id := Some contact_id \<rparr>)))
         | _ \<Rightarrow> crm_return (refused outcome ''AMOCRM_CONTACT_CREATE_TRANSIENT'' ''AMOCRM_CONTACT_CREATE_FAILED'')))"

definition postcheck_lead :: "'w crm_client \<Rightarrow> string \<Rightarrow> string \<Rightarrow> string \<Rightarrow> int \<Rightarrow> ('w, crm_receipt) crm" where
  "postcheck_lead cl lead_id contact_id token expect_status =
     (let ids = (\<lambda>r. r \<lparr> wr_contact_id := Some contact_id, wr_lead_id := Some lead_id \<rparr>) in
      crm_bind (crm_request cl ''GET'' (''/api/v4/leads/'' @ lead_id) token None ''GET_LEAD_POSTCHECK'')
        (\<lambda>(outcome, answer). case (outcome, answer) of
           (Rest_SUCCESS, Some resp) \<Rightarrow>
             crm_return (ids
               (if json_is_int (dict_get (json_dict resp) ''pipeline_id'') (cl_pipeline_id cl) \<and>
                   json_is_int (dict_get (json_dict resp) ''status_id'') expect_status
                then receipt Write_VERIFIED None
                else receipt Write_RECONCILIATION_REQUIRED (Some ''AMOCRM_LEAD_POSTCHECK_MISMATCH'')))
         | _ \<Rightarrow> crm_return (ids (receipt Write_RECONCILIATION_REQUIRED (Some ''AMOCRM_LEAD_POSTCHECK_FAILED'')))))"

text \<open>The texts are kept as their UTF-8 bytes.\<close>

definition LEAD_NAME_DEFAULT :: string where
  "LEAD_NAME_DEFAULT =
    [CHR 0xD0, CHR 0x97, CHR 0xD0, CHR 0xB0, CHR 0xD1, CHR 0x8F, CHR 0xD0, CHR 0xB2, CHR 0xD0, CHR 0xBA, CHR 0xD0,
     CHR 0xB0, CHR 0x20, CHR 0xD0, CHR 0xBE, CHR 0xD0, CHR 0xBD, CHR 0xD0, CHR 0xBB, CHR 0xD0, CHR 0xB0, CHR 0xD0,
     CHR 0xB9, CHR 0xD0, CHR 0xBD, CHR 0x2D, CHR 0xD0, CHR 0xB7, CHR 0xD0, CHR 0xB0, CHR 0xD0, CHR 0xBF, CHR 0xD0,
     CHR 0xB8, CHR 0xD1, CHR 0x81, CHR 0xD0, CHR 0xB8]"

definition lead_body :: "'w crm_client \<Rightarrow> string \<Rightarrow> int \<Rightarrow> json" where
  "lead_body cl name contact =
     JList [JObj [(''name'', JStr (if name \<noteq> [] then name else LEAD_NAME_DEFAULT)),
       (''pipeline_id'', JInt (cl_pipeline_id cl)), (''status_id'', JInt (cl_open_status_id cl)),
       (''_embedded'', JObj [(''contacts'', JList [JObj [(''id'', JInt contact), (''is_main'', JBool True)]])])]]"

definition create_business_lead :: "'w crm_client \<Rightarrow> string \<Rightarrow> string \<Rightarrow> string \<Rightarrow> ('w, crm_receipt) crm" where
  "create_business_lead cl name contact_id token =
     (if \<not> cl_enabled cl then crm_return (receipt Write_DISABLED (Some ''AMOCRM_CRM_REST_DISABLED''))
      else if \<not> text_isdigit contact_id then crm_return (failed ''AMOCRM_CONTACT_ID_INVALID'')
      else (case text_int_value contact_id of
        None \<Rightarrow> crm_raise CrmValueError
      | Some contact \<Rightarrow>
          crm_bind (crm_request cl ''POST'' ''/api/v4/leads'' token (Some (lead_body cl name contact)) ''POST_LEAD'')
            (\<lambda>(outcome, answer). case (outcome, answer) of
               (Rest_SUCCESS, Some resp) \<Rightarrow>
                 (case parse_embedded_id ''leads'' resp of
                    None \<Rightarrow> crm_return (receipt Write_RECONCILIATION_REQUIRED (Some ''AMOCRM_LEAD_CREATE_PARSE'')
                              \<lparr> wr_contact_id := Some contact_id \<rparr>)
                  | Some lead_id \<Rightarrow> postcheck_lead cl lead_id contact_id token (cl_open_status_id cl))
             | _ \<Rightarrow> crm_return (refused outcome ''AMOCRM_LEAD_CREATE_TRANSIENT'' ''AMOCRM_LEAD_CREATE_FAILED''
                       \<lparr> wr_contact_id := Some contact_id \<rparr>))))"

definition reanimate_body :: "'w crm_client \<Rightarrow> json" where
  "reanimate_body cl = JObj [(''pipeline_id'', JInt (cl_pipeline_id cl)), (''status_id'', JInt (cl_open_status_id cl))]"

definition reanimate_lead :: "'w crm_client \<Rightarrow> string \<Rightarrow> string \<Rightarrow> string \<Rightarrow> ('w, crm_receipt) crm" where
  "reanimate_lead cl lead_id contact_id token =
     (if \<not> text_isdigit lead_id then crm_return (failed ''AMOCRM_LEAD_ID_INVALID'')
      else let ids = (\<lambda>r. r \<lparr> wr_contact_id := Some contact_id, wr_lead_id := Some lead_id \<rparr>) in
        crm_bind (crm_request cl ''GET'' (''/api/v4/leads/'' @ lead_id) token None ''GET_LEAD_BEFORE_REANIMATE'')
          (\<lambda>(outcome, answer). case (outcome, answer) of
             (Rest_SUCCESS, Some before) \<Rightarrow>
               if \<not> json_is_int (dict_get (json_dict before) ''status_id'') AMOCRM_SYSTEM_LEAD_STATUS_UNREALIZED
               then crm_return (ids (failed ''AMOCRM_LEAD_NOT_REANIMATABLE''))
               else crm_bind (crm_request cl ''PATCH'' (''/api/v4/leads/'' @ lead_id) token (Some (reanimate_body cl)) ''PATCH_LEAD_REANIMATE'')
                 (\<lambda>(outcome, answer). case (outcome, answer) of
                    (Rest_SUCCESS, Some _) \<Rightarrow> postcheck_lead cl lead_id contact_id token (cl_open_status_id cl)
                  | _ \<Rightarrow> crm_return (ids (refused outcome ''AMOCRM_LEAD_REANIMATE_TRANSIENT'' ''AMOCRM_LEAD_REANIMATE_FAILED'')))
           | _ \<Rightarrow> crm_return (ids (refused outcome ''AMOCRM_LEAD_REANIMATE_TRANSIENT'' ''AMOCRM_LEAD_REANIMATE_READ''))))"

section \<open>Notes and tasks\<close>

text \<open>\<open>None\<close>: the list could not be read. \<open>.get\<close> on a value that is no dict raises.\<close>

definition embedded_rows :: "string \<Rightarrow> crm_response \<Rightarrow> ('w, payload list option) crm" where
  "embedded_rows key resp =
     (let embedded = dict_get (json_dict resp) ''_embedded'';
          dict = (if json_truthy embedded then (case embedded of JObj d \<Rightarrow> Some d | _ \<Rightarrow> None) else Some [])
      in case dict of
           None \<Rightarrow> crm_raise CrmAttributeError
         | Some d \<Rightarrow>
             (let rows = dict_get d key in
              if \<not> json_truthy rows then crm_return (Some [])
              else (case rows of JList xs \<Rightarrow> crm_return (Some (dict_rows xs)) | _ \<Rightarrow> crm_return None)))"

definition list_rows :: "'w crm_client \<Rightarrow> string \<Rightarrow> string \<Rightarrow> string \<Rightarrow> string \<Rightarrow> ('w, payload list option) crm" where
  "list_rows cl path key token label =
     crm_bind (crm_request cl ''GET'' path token None label)
       (\<lambda>(outcome, answer). case (outcome, answer) of
          (_, None) \<Rightarrow> crm_return None
        | (outcome, Some resp) \<Rightarrow>
            if cs_status resp = 204 then crm_return (Some [])
            else if outcome \<noteq> Rest_SUCCESS then crm_return None
            else embedded_rows key resp)"

definition list_lead_notes :: "'w crm_client \<Rightarrow> string \<Rightarrow> string \<Rightarrow> ('w, payload list option) crm" where
  "list_lead_notes cl lead_id token =
     list_rows cl (''/api/v4/leads/'' @ lead_id @ ''/notes?limit=250'') ''notes'' token ''GET_LEAD_NOTES''"

definition list_active_tasks :: "'w crm_client \<Rightarrow> string \<Rightarrow> string \<Rightarrow> ('w, payload list option) crm" where
  "list_active_tasks cl lead_id token =
     list_rows cl (''/api/v4/tasks?filter[entity_type]=leads&filter[entity_id]='' @ lead_id @ ''&filter[is_completed]=0&limit=250'')
       ''tasks'' token ''GET_ACTIVE_TASKS''"

definition notes_matching :: "string \<Rightarrow> payload list \<Rightarrow> payload list" where
  "notes_matching s = filter (\<lambda>row. task_text_fingerprint (note_text row) = task_text_fingerprint s)"

definition tasks_matching :: "'w crm_client \<Rightarrow> string \<Rightarrow> payload list \<Rightarrow> payload list" where
  "tasks_matching cl s =
     filter (\<lambda>row. task_text_fingerprint (text_or_empty (cl_repr cl) (dict_get row ''text'')) = task_text_fingerprint s \<and>
       json_is_int (dict_get row ''task_type_id'') (cl_task_type_id cl) \<and>
       json_is_int (dict_get row ''responsible_user_id'') (cl_manager_id cl))"

definition note_invalid :: "string \<Rightarrow> string \<Rightarrow> string option" where
  "note_invalid lead_id s =
     (if \<not> text_isdigit lead_id then Some ''AMOCRM_LEAD_ID_INVALID''
      else if s = [] \<or> length (utf8_chars s) > 2000 then Some ''AMOCRM_NOTE_TEXT_INVALID'' else None)"

definition task_invalid :: "string \<Rightarrow> string \<Rightarrow> string option" where
  "task_invalid lead_id s =
     (if \<not> text_isdigit lead_id then Some ''AMOCRM_LEAD_ID_INVALID''
      else if s = [] \<or> length (utf8_chars s) > 500 then Some ''AMOCRM_TASK_TEXT_INVALID'' else None)"

definition note_body :: "string \<Rightarrow> json" where
  "note_body s = JList [JObj [(''note_type'', JStr ''common''), (''params'', JObj [(''text'', JStr s)])]]"

definition add_lead_note :: "'w crm_client \<Rightarrow> string \<Rightarrow> string \<Rightarrow> string \<Rightarrow> ('w, crm_receipt) crm" where
  "add_lead_note cl lead_id s token =
     (case note_invalid lead_id s of
        Some code \<Rightarrow> crm_return (failed code)
      | None \<Rightarrow>
          crm_bind (crm_request cl ''POST'' (''/api/v4/leads/'' @ lead_id @ ''/notes'') token (Some (note_body s)) ''POST_NOTE'')
            (\<lambda>(outcome, answer). case (outcome, answer) of
               (Rest_SUCCESS, Some resp) \<Rightarrow>
                 (case parse_embedded_id ''notes'' resp of
                    None \<Rightarrow> crm_return (receipt Write_RECONCILIATION_REQUIRED (Some ''AMOCRM_NOTE_CREATE_PARSE'')
                              \<lparr> wr_lead_id := Some lead_id \<rparr>)
                  | Some note_id \<Rightarrow>
                      crm_bind (crm_request cl ''GET'' (''/api/v4/leads/'' @ lead_id @ ''/notes/'' @ note_id) token None ''GET_NOTE_POSTCHECK'')
                        (\<lambda>_. crm_return (receipt Write_VERIFIED None \<lparr> wr_lead_id := Some lead_id, wr_note_id := Some note_id \<rparr>)))
             | _ \<Rightarrow> crm_return (refused outcome ''AMOCRM_NOTE_CREATE_TRANSIENT'' ''AMOCRM_NOTE_CREATE_FAILED''
                       \<lparr> wr_lead_id := Some lead_id \<rparr>)))"

text \<open>The common part of the note calls: what the list says, and otherwise \<open>unmatched\<close>.\<close>

definition with_lead_notes ::
  "'w crm_client \<Rightarrow> string \<Rightarrow> string \<Rightarrow> string \<Rightarrow> ('w, crm_receipt) crm \<Rightarrow> ('w, crm_receipt) crm" where
  "with_lead_notes cl lead_id s token unmatched =
     (case note_invalid lead_id s of
        Some code \<Rightarrow> crm_return (failed code)
      | None \<Rightarrow>
          crm_bind (list_lead_notes cl lead_id token) (\<lambda>notes.
            case notes of
              None \<Rightarrow> crm_return (failed ''AMOCRM_NOTE_LIST_TRANSIENT'' \<lparr> wr_lead_id := Some lead_id \<rparr>)
            | Some rows \<Rightarrow>
                (case notes_matching s rows of
                   [] \<Rightarrow> unmatched
                 | [row] \<Rightarrow> crm_return (receipt Write_VERIFIED None
                       \<lparr> wr_lead_id := Some lead_id, wr_note_id := Some (py_str (cl_repr cl) (dict_get row ''id'')) \<rparr>)
                 | _ \<Rightarrow> crm_return (failed ''AMOCRM_NOTE_AMBIGUOUS'' \<lparr> wr_lead_id := Some lead_id \<rparr>))))"

definition ensure_lead_note :: "'w crm_client \<Rightarrow> string \<Rightarrow> string \<Rightarrow> string \<Rightarrow> ('w, crm_receipt) crm" where
  "ensure_lead_note cl lead_id s token = with_lead_notes cl lead_id s token (add_lead_note cl lead_id s token)"

definition find_lead_note :: "'w crm_client \<Rightarrow> string \<Rightarrow> string \<Rightarrow> string \<Rightarrow> ('w, crm_receipt) crm" where
  "find_lead_note cl lead_id s token =
     with_lead_notes cl lead_id s token (crm_return (failed ''AMOCRM_NOTE_NONE'' \<lparr> wr_lead_id := Some lead_id \<rparr>))"

definition with_lead_tasks ::
  "'w crm_client \<Rightarrow> string \<Rightarrow> string \<Rightarrow> string \<Rightarrow> ('w, crm_receipt) crm \<Rightarrow> ('w, crm_receipt) crm" where
  "with_lead_tasks cl lead_id s token unmatched =
     (case task_invalid lead_id s of
        Some code \<Rightarrow> crm_return (failed code)
      | None \<Rightarrow>
          crm_bind (list_active_tasks cl lead_id token) (\<lambda>tasks.
            case tasks of
              None \<Rightarrow> crm_return (failed ''AMOCRM_TASK_LIST_TRANSIENT'' \<lparr> wr_lead_id := Some lead_id \<rparr>)
            | Some rows \<Rightarrow>
                (case tasks_matching cl s rows of
                   [] \<Rightarrow> unmatched
                 | [row] \<Rightarrow> crm_return (receipt Write_VERIFIED None
                       \<lparr> wr_lead_id := Some lead_id, wr_task_id := Some (py_str (cl_repr cl) (dict_get row ''id'')) \<rparr>)
                 | _ \<Rightarrow> crm_return (failed ''AMOCRM_TASK_AMBIGUOUS'' \<lparr> wr_lead_id := Some lead_id \<rparr>))))"

definition task_body :: "'w crm_client \<Rightarrow> int \<Rightarrow> string \<Rightarrow> json" where
  "task_body cl lead s =
     JList [JObj [(''entity_id'', JInt lead), (''entity_type'', JStr ''leads''), (''responsible_user_id'', JInt (cl_manager_id cl)),
       (''task_type_id'', JInt (cl_task_type_id cl)), (''text'', JStr s), (''complete_till'', JInt (cl_now cl + 3600))]]"

definition task_listed :: "'w crm_client \<Rightarrow> string \<Rightarrow> string \<Rightarrow> payload list \<Rightarrow> bool" where
  "task_listed cl task_id s rows =
     (length (filter (\<lambda>row. py_str (cl_repr cl) (dict_get row ''id'') = task_id \<and>
        task_text_fingerprint (text_or_empty (cl_repr cl) (dict_get row ''text'')) = task_text_fingerprint s) rows) = 1)"

definition add_lead_task :: "'w crm_client \<Rightarrow> string \<Rightarrow> string \<Rightarrow> string \<Rightarrow> ('w, crm_receipt) crm" where
  "add_lead_task cl lead_id s token =
     (case text_int_value lead_id of
        None \<Rightarrow> crm_raise CrmValueError
      | Some lead \<Rightarrow>
          crm_bind (crm_request cl ''POST'' ''/api/v4/tasks'' token (Some (task_body cl lead s)) ''POST_TASK'')
            (\<lambda>(outcome, answer). case (outcome, answer) of
               (Rest_SUCCESS, Some resp) \<Rightarrow>
                 (let task_id = parse_embedded_id ''tasks'' resp in
                  crm_bind (list_active_tasks cl lead_id token) (\<lambda>after.
                    crm_return
                      ((case (after, task_id) of
                          (Some rows, Some i) \<Rightarrow>
                            if task_listed cl i s rows then receipt Write_VERIFIED None
                            else receipt Write_RECONCILIATION_REQUIRED (Some ''AMOCRM_TASK_POSTCHECK_MISMATCH'')
                        | _ \<Rightarrow> receipt Write_RECONCILIATION_REQUIRED (Some ''AMOCRM_TASK_POSTCHECK_FAILED''))
                       \<lparr> wr_lead_id := Some lead_id, wr_task_id := task_id \<rparr>)))
             | _ \<Rightarrow> crm_return (refused outcome ''AMOCRM_TASK_CREATE_TRANSIENT'' ''AMOCRM_TASK_CREATE_FAILED''
                       \<lparr> wr_lead_id := Some lead_id \<rparr>)))"

definition ensure_lead_task :: "'w crm_client \<Rightarrow> string \<Rightarrow> string \<Rightarrow> string \<Rightarrow> ('w, crm_receipt) crm" where
  "ensure_lead_task cl lead_id s token = with_lead_tasks cl lead_id s token (add_lead_task cl lead_id s token)"

definition find_lead_task :: "'w crm_client \<Rightarrow> string \<Rightarrow> string \<Rightarrow> string \<Rightarrow> ('w, crm_receipt) crm" where
  "find_lead_task cl lead_id s token =
     with_lead_tasks cl lead_id s token (crm_return (failed ''AMOCRM_TASK_NONE'' \<lparr> wr_lead_id := Some lead_id \<rparr>))"

section \<open>Analytics fields\<close>

definition FIELD_SOURCE_PRIMARY :: int where "FIELD_SOURCE_PRIMARY = 1258095"

definition FIELD_BOOKING_CREATION_METHOD :: int where "FIELD_BOOKING_CREATION_METHOD = 1321305"

definition AMOCRM_ANALYTICS_CHANNEL_FIELD_ID :: int where "AMOCRM_ANALYTICS_CHANNEL_FIELD_ID = 1321303"

definition AMOCRM_ANALYTICS_WRITABLE_FIELD_IDS :: "int list" where
  "AMOCRM_ANALYTICS_WRITABLE_FIELD_IDS = [FIELD_SOURCE_PRIMARY, FIELD_BOOKING_CREATION_METHOD]"

definition AMOCRM_ANALYTICS_SOURCE_PRIMARY_ENUM_IDS :: "int list" where
  "AMOCRM_ANALYTICS_SOURCE_PRIMARY_ENUM_IDS =
     [721341, 723321, 723323, 730677, 782973, 784167, 784331, 809011, 851499, 851501]"

definition AMOCRM_ANALYTICS_BOOKING_METHOD_ENUM_IDS :: "int list" where
  "AMOCRM_ANALYTICS_BOOKING_METHOD_ENUM_IDS = [851489, 851491, 851493, 851495, 851497]"

text \<open>The error code, or \<open>None\<close> when the check passes.\<close>

definition writable_analytics_field_error :: "int \<Rightarrow> string option" where
  "writable_analytics_field_error field_id =
     (if field_id \<le> 0 then Some ''AMOCRM_ANALYTICS_FIELD_ID_INVALID''
      else if field_id = AMOCRM_ANALYTICS_CHANNEL_FIELD_ID then Some ''AMOCRM_ANALYTICS_CHANNEL_WRITE_FORBIDDEN''
      else if field_id \<notin> set AMOCRM_ANALYTICS_WRITABLE_FIELD_IDS then Some ''AMOCRM_ANALYTICS_FIELD_NOT_WRITABLE''
      else None)"

definition enum_for_field_error :: "int \<Rightarrow> int \<Rightarrow> string option" where
  "enum_for_field_error field_id enum_id =
     (case writable_analytics_field_error field_id of
        Some code \<Rightarrow> Some code
      | None \<Rightarrow>
          if enum_id \<le> 0 then Some ''AMOCRM_ANALYTICS_ENUM_ID_INVALID''
          else if field_id = FIELD_SOURCE_PRIMARY then
            (if enum_id \<notin> set AMOCRM_ANALYTICS_SOURCE_PRIMARY_ENUM_IDS then Some ''AMOCRM_ANALYTICS_ENUM_NOT_ALLOWED_FOR_FIELD'' else None)
          else if field_id = FIELD_BOOKING_CREATION_METHOD then
            (if enum_id \<notin> set AMOCRM_ANALYTICS_BOOKING_METHOD_ENUM_IDS then Some ''AMOCRM_ANALYTICS_ENUM_NOT_ALLOWED_FOR_FIELD'' else None)
          else Some ''AMOCRM_ANALYTICS_FIELD_NOT_WRITABLE'')"

datatype AmoCrmAnalyticsApplyDecision =
    Apply_APPLIED | Apply_ALREADY_SAME | Apply_CONFLICT_NONEMPTY | Apply_SKIPPED_NO_EVIDENCE | Apply_TRANSIENT_RETRY | Apply_MANUAL_REVIEW

fun apply_decision_value :: "AmoCrmAnalyticsApplyDecision \<Rightarrow> string" where
  "apply_decision_value Apply_APPLIED = ''APPLIED''"
| "apply_decision_value Apply_ALREADY_SAME = ''ALREADY_SAME''"
| "apply_decision_value Apply_CONFLICT_NONEMPTY = ''CONFLICT_NONEMPTY''"
| "apply_decision_value Apply_SKIPPED_NO_EVIDENCE = ''SKIPPED_NO_EVIDENCE''"
| "apply_decision_value Apply_TRANSIENT_RETRY = ''TRANSIENT_RETRY''"
| "apply_decision_value Apply_MANUAL_REVIEW = ''MANUAL_REVIEW''"

record analytics_receipt =
  an_outcome :: AmoCrmCrmWriteOutcome
  an_decision :: "AmoCrmAnalyticsApplyDecision option"
  an_field_id :: "int option"
  an_enum_id :: "int option"
  an_lead_id :: "string option"
  an_error_code :: "string option"

text \<open>The sentinels of the client beside a value.\<close>

datatype analytics_read = Read_enum int | Read_EMPTY | Read_AMBIGUOUS | Read_TRANSIENT | Read_PERMANENT | Read_UNAUTHORIZED

definition read_of_answer :: "int \<Rightarrow> AmoCrmCrmRestOutcome \<times> crm_response option \<Rightarrow> analytics_read" where
  "read_of_answer field_id a =
     (case a of
        (Rest_UNAUTHORIZED, _) \<Rightarrow> Read_UNAUTHORIZED
      | (Rest_PERMANENT_ERROR, _) \<Rightarrow> Read_PERMANENT
      | (Rest_SUCCESS, Some resp) \<Rightarrow>
          (case extract_lead_field_enum_ids (json_dict resp) field_id of
             [] \<Rightarrow> Read_EMPTY | [n] \<Rightarrow> Read_enum n | _ \<Rightarrow> Read_AMBIGUOUS)
      | _ \<Rightarrow> Read_TRANSIENT)"

definition read_lead_analytics_enum :: "'w crm_client \<Rightarrow> string \<Rightarrow> int \<Rightarrow> string \<Rightarrow> string \<Rightarrow> ('w, analytics_read) crm" where
  "read_lead_analytics_enum cl lead_id field_id token label =
     crm_bind (crm_request cl ''GET'' (''/api/v4/leads/'' @ lead_id) token None label)
       (\<lambda>answer. crm_return (read_of_answer field_id answer))"

definition analytics_answer ::
  "int \<Rightarrow> int \<Rightarrow> string \<Rightarrow> AmoCrmCrmWriteOutcome \<Rightarrow> AmoCrmAnalyticsApplyDecision \<Rightarrow> string option \<Rightarrow> analytics_receipt" where
  "analytics_answer field_id enum_id lead_id outcome decision code =
     \<lparr> an_outcome = outcome, an_decision = Some decision, an_field_id = Some field_id, an_enum_id = Some enum_id,
       an_lead_id = Some lead_id, an_error_code = code \<rparr>"

definition analytics_read_failure ::
  "int \<Rightarrow> int \<Rightarrow> string \<Rightarrow> bool \<Rightarrow> analytics_read \<Rightarrow> analytics_receipt option" where
  "analytics_read_failure field_id enum_id lead_id first_read v =
     (case v of
        Read_UNAUTHORIZED \<Rightarrow>
          Some (analytics_answer field_id enum_id lead_id Write_FAILED Apply_MANUAL_REVIEW (Some ''AMOCRM_ANALYTICS_UNAUTHORIZED''))
      | Read_PERMANENT \<Rightarrow>
          Some (analytics_answer field_id enum_id lead_id Write_FAILED Apply_MANUAL_REVIEW
            (Some (if first_read then ''AMOCRM_ANALYTICS_READ_PERMANENT'' else ''AMOCRM_ANALYTICS_POSTCHECK_PERMANENT'')))
      | Read_TRANSIENT \<Rightarrow>
          Some (analytics_answer field_id enum_id lead_id (if first_read then Write_FAILED else Write_RECONCILIATION_REQUIRED)
            Apply_TRANSIENT_RETRY
            (Some (if first_read then ''AMOCRM_ANALYTICS_READ_TRANSIENT'' else ''AMOCRM_ANALYTICS_POSTCHECK_TRANSIENT'')))
      | _ \<Rightarrow> None)"

definition analytics_body :: "int \<Rightarrow> int \<Rightarrow> int \<Rightarrow> json" where
  "analytics_body lead field_id enum_id =
     JList [JObj [(''id'', JInt lead),
       (''custom_fields_values'', JList [JObj [(''field_id'', JInt field_id), (''values'', JList [JObj [(''enum_id'', JInt enum_id)]])]])]]"

text \<open>After a PATCH that was refused or whose answer was lost: what the field holds now.\<close>

definition analytics_verified :: "int \<Rightarrow> int \<Rightarrow> string \<Rightarrow> AmoCrmCrmRestOutcome \<Rightarrow> analytics_read \<Rightarrow> analytics_receipt" where
  "analytics_verified field_id enum_id lead_id outcome v =
     (let answer = analytics_answer field_id enum_id lead_id;
          uncertain = (if outcome = Rest_PERMANENT_ERROR \<or> v = Read_PERMANENT
            then answer Write_FAILED Apply_MANUAL_REVIEW (Some ''AMOCRM_ANALYTICS_PATCH_PERMANENT'')
            else answer Write_RECONCILIATION_REQUIRED Apply_TRANSIENT_RETRY (Some ''AMOCRM_ANALYTICS_PATCH_TRANSIENT''))
      in case v of
           Read_enum n \<Rightarrow>
             if n = enum_id then answer Write_VERIFIED Apply_APPLIED None
             else answer Write_VERIFIED Apply_CONFLICT_NONEMPTY (Some ''AMOCRM_ANALYTICS_CONFLICT_NONEMPTY'')
         | Read_UNAUTHORIZED \<Rightarrow> answer Write_FAILED Apply_MANUAL_REVIEW (Some ''AMOCRM_ANALYTICS_UNAUTHORIZED'')
         | _ \<Rightarrow> uncertain)"

text \<open>After a PATCH that amoCRM accepted.\<close>

definition analytics_postchecked :: "int \<Rightarrow> int \<Rightarrow> string \<Rightarrow> analytics_read \<Rightarrow> analytics_receipt" where
  "analytics_postchecked field_id enum_id lead_id v =
     (let answer = analytics_answer field_id enum_id lead_id in
      if v = Read_enum enum_id then answer Write_VERIFIED Apply_APPLIED None
      else (case analytics_read_failure field_id enum_id lead_id False v of
              Some r \<Rightarrow> r
            | None \<Rightarrow>
                (case v of
                   Read_EMPTY \<Rightarrow> answer Write_RECONCILIATION_REQUIRED Apply_TRANSIENT_RETRY (Some ''AMOCRM_ANALYTICS_POSTCHECK_TRANSIENT'')
                 | Read_AMBIGUOUS \<Rightarrow> answer Write_FAILED Apply_MANUAL_REVIEW (Some ''AMOCRM_ANALYTICS_FIELD_AMBIGUOUS'')
                 | _ \<Rightarrow> answer Write_VERIFIED Apply_CONFLICT_NONEMPTY (Some ''AMOCRM_ANALYTICS_CONFLICT_NONEMPTY''))))"

definition analytics_settle ::
  "'w crm_client \<Rightarrow> string \<Rightarrow> int \<Rightarrow> int \<Rightarrow> string \<Rightarrow> AmoCrmCrmRestOutcome \<times> crm_response option \<Rightarrow> ('w, analytics_receipt) crm" where
  "analytics_settle cl lead_id field_id enum_id token a =
     (if fst a = Rest_SUCCESS \<and> snd a \<noteq> None then
        crm_bind (read_lead_analytics_enum cl lead_id field_id token ''GET_LEAD_ANALYTICS_POSTCHECK'')
          (\<lambda>v. crm_return (analytics_postchecked field_id enum_id lead_id v))
      else if fst a = Rest_UNAUTHORIZED then
        crm_return (analytics_answer field_id enum_id lead_id Write_FAILED Apply_MANUAL_REVIEW (Some ''AMOCRM_ANALYTICS_UNAUTHORIZED''))
      else
        crm_bind (read_lead_analytics_enum cl lead_id field_id token ''GET_LEAD_ANALYTICS_VERIFY'')
          (\<lambda>v. crm_return (analytics_verified field_id enum_id lead_id (fst a) v)))"

definition analytics_patch :: "'w crm_client \<Rightarrow> string \<Rightarrow> int \<Rightarrow> int \<Rightarrow> string \<Rightarrow> ('w, analytics_receipt) crm" where
  "analytics_patch cl lead_id field_id enum_id token =
     (case text_int_value lead_id of
        None \<Rightarrow> crm_raise CrmValueError
      | Some lead \<Rightarrow>
          crm_bind (crm_request cl ''PATCH'' ''/api/v4/leads'' token (Some (analytics_body lead field_id enum_id)) ''PATCH_LEAD_ANALYTICS'')
            (analytics_settle cl lead_id field_id enum_id token))"

definition analytics_decide :: "'w crm_client \<Rightarrow> string \<Rightarrow> int \<Rightarrow> int \<Rightarrow> string \<Rightarrow> analytics_read \<Rightarrow> ('w, analytics_receipt) crm" where
  "analytics_decide cl lead_id field_id enum_id token before =
     (let answer = analytics_answer field_id enum_id lead_id in
      case analytics_read_failure field_id enum_id lead_id True before of
        Some r \<Rightarrow> crm_return r
      | None \<Rightarrow>
          (case before of
             Read_AMBIGUOUS \<Rightarrow> crm_return (answer Write_FAILED Apply_MANUAL_REVIEW (Some ''AMOCRM_ANALYTICS_FIELD_AMBIGUOUS''))
           | Read_enum n \<Rightarrow>
               crm_return (if n = enum_id then answer Write_VERIFIED Apply_ALREADY_SAME None
                           else answer Write_VERIFIED Apply_CONFLICT_NONEMPTY (Some ''AMOCRM_ANALYTICS_CONFLICT_NONEMPTY''))
           | _ \<Rightarrow> analytics_patch cl lead_id field_id enum_id token))"

definition ensure_lead_analytics_enum_if_empty ::
  "'w crm_client \<Rightarrow> string \<Rightarrow> int \<Rightarrow> int \<Rightarrow> string \<Rightarrow> ('w, analytics_receipt) crm" where
  "ensure_lead_analytics_enum_if_empty cl lead_id field_id enum_id token =
     (let plain = \<lparr> an_outcome = Write_FAILED, an_decision = None, an_field_id = Some field_id, an_enum_id = Some enum_id,
                    an_lead_id = Some lead_id, an_error_code = None \<rparr>
      in case enum_for_field_error field_id enum_id of
           Some code \<Rightarrow> crm_return (plain \<lparr> an_error_code := Some code \<rparr>)
         | None \<Rightarrow>
             if \<not> text_isdigit lead_id then crm_return (plain \<lparr> an_lead_id := None, an_error_code := Some ''AMOCRM_LEAD_ID_INVALID'' \<rparr>)
             else if \<not> cl_enabled cl
             then crm_return (plain \<lparr> an_outcome := Write_DISABLED, an_error_code := Some ''AMOCRM_CRM_REST_DISABLED'' \<rparr>)
             else crm_bind (read_lead_analytics_enum cl lead_id field_id token ''GET_LEAD_ANALYTICS_BEFORE'')
                    (analytics_decide cl lead_id field_id enum_id token))"

section \<open>Composed calls\<close>

lemma crm_bindE:
  assumes "crm_bind m k w = (Inr r, calls, w')"
  obtains x c1 w1 c2 where "m w = (Inr x, c1, w1)" and "k x w1 = (Inr r, c2, w')" and "calls = c1 @ c2"
  using assms by (auto simp: crm_bind_def split: prod.splits sum.splits)

lemma crm_returnE: "crm_return x w = (Inr r, calls, w') \<Longrightarrow> r = x \<and> calls = [] \<and> w' = w"
  by (simp add: crm_return_def)

lemma crm_raise_not [simp]: "crm_raise e w = (Inr r, calls, w') \<longleftrightarrow> False"
  by (simp add: crm_raise_def)

definition crm_ask :: "'w crm_client \<Rightarrow> crm_http \<Rightarrow> 'w \<Rightarrow> AmoCrmCrmRestOutcome \<times> crm_response option" where
  "crm_ask cl req w =
     (case fst (cl_transport cl req w) of
        None \<Rightarrow> (Rest_TRANSIENT_ERROR, None)
      | Some resp \<Rightarrow> (crm_classify_status (cs_status resp), Some resp))"

lemma crm_requestE:
  assumes "crm_request cl m path token body label w = (Inr a, calls, w')"
  obtains req where "req = \<lparr> ch_label = label, ch_method = m, ch_path = path, ch_token = token, ch_body = body \<rparr>"
    and "calls = [req]" and "a = crm_ask cl req w" and "w' = snd (cl_transport cl req w)"
  using assms by (auto simp: crm_request_def crm_ask_def Let_def split: prod.splits if_splits)

lemma crm_ask_success:
  assumes "crm_ask cl req w = (Rest_SUCCESS, a)"
  obtains resp where "a = Some resp" and "fst (cl_transport cl req w) = Some resp" and "200 \<le> cs_status resp" and "cs_status resp < 300"
proof (cases "fst (cl_transport cl req w)")
  case None
  with assms show ?thesis by (simp add: crm_ask_def)
next
  case (Some resp)
  with assms have "a = Some resp" and "crm_classify_status (cs_status resp) = Rest_SUCCESS" by (simp_all add: crm_ask_def)
  with Some that show ?thesis by (simp add: crm_classify_status_def split: if_splits)
qed

text \<open>The requests of a trace that change something.\<close>

definition crm_writes :: "crm_http list \<Rightarrow> crm_http list" where
  "crm_writes calls = filter (\<lambda>c. ch_method c \<noteq> ''GET'') calls"

lemma crm_writes_simps [simp]:
  "crm_writes [] = []" "crm_writes (a @ b) = crm_writes a @ crm_writes b"
  "crm_writes (c # cs) = (if ch_method c = ''GET'' then crm_writes cs else c # crm_writes cs)"
  by (simp_all add: crm_writes_def)

lemma readE:
  assumes "read_lead_analytics_enum cl lead_id field_id token label w = (Inr v, calls, w')"
  shows "crm_writes calls = []"
  using assms unfolding read_lead_analytics_enum_def
  by (elim crm_bindE crm_requestE) (auto dest: crm_returnE)

section \<open>Properties\<close>

lemma verified_applied:
  "an_decision (analytics_verified f n lead outcome v) = Some Apply_APPLIED \<Longrightarrow> v = Read_enum n"
  "an_decision (analytics_postchecked f n lead v) = Some Apply_APPLIED \<Longrightarrow> v = Read_enum n"
  by (auto simp: analytics_verified_def analytics_postchecked_def analytics_answer_def analytics_read_failure_def Let_def
      split: analytics_read.splits if_splits)

lemma channel_not_writable: "enum_for_field_error f n = None \<Longrightarrow> f \<noteq> AMOCRM_ANALYTICS_CHANNEL_FIELD_ID"
  by (auto simp: enum_for_field_error_def writable_analytics_field_error_def split: if_splits option.splits)

lemma analytics_settled:
  assumes "analytics_settle cl lead_id f n token a w = (Inr r, calls, w')"
  shows "crm_writes calls = [] \<and>
    (an_decision r = Some Apply_APPLIED \<longrightarrow>
      (\<exists>label calls1 w1. read_lead_analytics_enum cl lead_id f token label w = (Inr (Read_enum n), calls1, w1)))"
proof -
  have settled: "crm_writes c = [] \<and> (an_decision (k v) = Some Apply_APPLIED \<longrightarrow>
      (\<exists>label calls1 w1. read_lead_analytics_enum cl lead_id f token label w = (Inr (Read_enum n), calls1, w1)))"
    if "read_lead_analytics_enum cl lead_id f token label w = (Inr v, c, w1)" and "an_decision (k v) = Some Apply_APPLIED \<Longrightarrow> v = Read_enum n"
    for k :: "analytics_read \<Rightarrow> analytics_receipt" and v c w1 label
    using that readE [OF that(1)] by blast
  show ?thesis
    using assms unfolding analytics_settle_def
    by (auto split: if_splits elim!: crm_bindE dest!: crm_returnE simp: analytics_answer_def
        intro: settled [THEN conjunct1] settled [THEN conjunct2, rule_format] verified_applied)
qed

lemma analytics_decided:
  assumes "analytics_decide cl lead_id f n token before w = (Inr r, calls, w')"
  shows "crm_writes calls = [] \<and> an_decision r \<noteq> Some Apply_APPLIED \<or>
    before = Read_EMPTY \<and> analytics_patch cl lead_id f n token w = (Inr r, calls, w')"
  using assms
  by (auto simp: analytics_decide_def analytics_read_failure_def analytics_answer_def Let_def dest!: crm_returnE
      split: analytics_read.splits if_splits)

text \<open>
  C34. The analytics field of a deal is written at most once per call, only with a value allowed for the field, never
  the channel field, and only when the read before it found the field empty; the call reports that the value was
  applied only if the field was read back with this value after the write.
\<close>

theorem analytics_never_overwritten:
  assumes "ensure_lead_analytics_enum_if_empty cl lead_id f n token w = (Inr r, calls, w')"
  shows "(crm_writes calls = [] \<and> an_decision r \<noteq> Some Apply_APPLIED) \<or>
    (enum_for_field_error f n = None \<and> f \<noteq> AMOCRM_ANALYTICS_CHANNEL_FIELD_ID \<and>
     (\<exists>lead first rest w1 w2 patch.
        read_lead_analytics_enum cl lead_id f token ''GET_LEAD_ANALYTICS_BEFORE'' w = (Inr Read_EMPTY, first, w1) \<and>
        text_int_value lead_id = Some lead \<and> ch_body patch = Some (analytics_body lead f n) \<and>
        calls = first @ patch # rest \<and> crm_writes calls = [patch] \<and> w2 = snd (cl_transport cl patch w1) \<and>
        (an_decision r = Some Apply_APPLIED \<longrightarrow>
          (\<exists>label calls2 w3. read_lead_analytics_enum cl lead_id f token label w2 = (Inr (Read_enum n), calls2, w3)))))"
proof (cases "enum_for_field_error f n \<noteq> None \<or> \<not> text_isdigit lead_id \<or> \<not> cl_enabled cl")
  case True
  with assms show ?thesis
    by (auto simp: ensure_lead_analytics_enum_if_empty_def Let_def dest!: crm_returnE split: option.splits if_splits)
next
  case False
  then have allowed: "enum_for_field_error f n = None" by simp
  obtain before c1 w1 c2 where read: "read_lead_analytics_enum cl lead_id f token ''GET_LEAD_ANALYTICS_BEFORE'' w = (Inr before, c1, w1)"
    and decide: "analytics_decide cl lead_id f n token before w1 = (Inr r, c2, w')" and calls: "calls = c1 @ c2"
    using assms False by (auto simp: ensure_lead_analytics_enum_if_empty_def Let_def elim: crm_bindE)
  note quiet = readE [OF read]
  from analytics_decided [OF decide] show ?thesis
  proof
    assume "crm_writes c2 = [] \<and> an_decision r \<noteq> Some Apply_APPLIED"
    with quiet calls show ?thesis by simp
  next
    assume empty: "before = Read_EMPTY \<and> analytics_patch cl lead_id f n token w1 = (Inr r, c2, w')"
    then obtain lead a c3 w2 c4 where lead: "text_int_value lead_id = Some lead"
      and patch: "crm_request cl ''PATCH'' ''/api/v4/leads'' token (Some (analytics_body lead f n)) ''PATCH_LEAD_ANALYTICS'' w1 = (Inr a, c3, w2)"
      and c2: "c2 = c3 @ c4" and settle: "analytics_settle cl lead_id f n token a w2 = (Inr r, c4, w')"
      by (auto simp: analytics_patch_def elim!: crm_bindE split: option.splits)
    from patch obtain req where req: "c3 = [req]" "ch_body req = Some (analytics_body lead f n)" "ch_method req = ''PATCH''"
        "w2 = snd (cl_transport cl req w1)"
      by (rule crm_requestE) simp
    have split_calls: "calls = c1 @ req # c4" "crm_writes calls = [req]"
      using calls c2 req analytics_settled [OF settle] quiet by simp_all
    show ?thesis
      using allowed channel_not_writable [OF allowed] read [unfolded conjunct1 [OF empty]] lead req split_calls
        analytics_settled [OF settle, unfolded req(4)] by blast
  qed
qed

text \<open>What a reread of a lead proves.\<close>

definition lead_reread :: "'w crm_client \<Rightarrow> string \<Rightarrow> crm_http list \<Rightarrow> bool" where
  "lead_reread cl lead_id calls =
     (\<exists>req w resp. calls \<noteq> [] \<and> last calls = req \<and> ch_method req = ''GET'' \<and> ch_path req = ''/api/v4/leads/'' @ lead_id \<and>
        fst (cl_transport cl req w) = Some resp \<and> 200 \<le> cs_status resp \<and> cs_status resp < 300 \<and>
        json_is_int (dict_get (json_dict resp) ''pipeline_id'') (cl_pipeline_id cl) \<and>
        json_is_int (dict_get (json_dict resp) ''status_id'') (cl_open_status_id cl))"

lemma lead_reread_append [simp]: "lead_reread cl lead_id c2 \<Longrightarrow> lead_reread cl lead_id (c1 @ c2)"
  by (auto simp: lead_reread_def)

lemma postcheck_verified:
  assumes "postcheck_lead cl lead_id contact_id token (cl_open_status_id cl) w = (Inr r, calls, w')" and "wr_outcome r = Write_VERIFIED"
  shows "wr_lead_id r = Some lead_id \<and> lead_reread cl lead_id calls"
proof -
  obtain outcome answer c1 w1 c2 where ask: "crm_request cl ''GET'' (''/api/v4/leads/'' @ lead_id) token None ''GET_LEAD_POSTCHECK'' w =
      (Inr (outcome, answer), c1, w1)" and calls: "calls = c1 @ c2" and c2: "c2 = []"
    and ok: "outcome = Rest_SUCCESS" "wr_lead_id r = Some lead_id"
    and resp: "\<And>resp. answer = Some resp \<Longrightarrow>
      json_is_int (dict_get (json_dict resp) ''pipeline_id'') (cl_pipeline_id cl) \<and>
      json_is_int (dict_get (json_dict resp) ''status_id'') (cl_open_status_id cl)"
    using assms unfolding postcheck_lead_def Let_def
    by (elim crm_bindE) (auto dest!: crm_returnE simp: receipt_def split: AmoCrmCrmRestOutcome.splits option.splits if_splits)
  from ask obtain req where req: "req = \<lparr> ch_label = ''GET_LEAD_POSTCHECK'', ch_method = ''GET'', ch_path = ''/api/v4/leads/'' @ lead_id,
      ch_token = token, ch_body = None \<rparr>" and c1: "c1 = [req]" and a: "(outcome, answer) = crm_ask cl req w"
    by (rule crm_requestE)
  from a ok(1) have "crm_ask cl req w = (Rest_SUCCESS, answer)" by simp
  then obtain got where "answer = Some got" "fst (cl_transport cl req w) = Some got" "200 \<le> cs_status got" "cs_status got < 300"
    by (rule crm_ask_success)
  with resp ok c1 c2 calls req show ?thesis unfolding lead_reread_def by fastforce
qed


text \<open>
  A new note is reported as verified whatever its postcheck says: once amoCRM has accepted it, the answer
  to the read that should confirm it changes nothing.
\<close>

theorem note_verified_unread:
  assumes "token \<noteq> []" and "note_invalid lead_id s = None"
    and "req = \<lparr> ch_label = ''POST_NOTE'', ch_method = ''POST'', ch_path = ''/api/v4/leads/'' @ lead_id @ ''/notes'', ch_token = token,
      ch_body = Some (note_body s) \<rparr>"
    and "cl_transport cl req w = (Some resp, w1)" and "200 \<le> cs_status resp" and "cs_status resp < 300"
    and "parse_embedded_id ''notes'' resp = Some note_id"
  shows "\<exists>calls w2. add_lead_note cl lead_id s token w =
    (Inr (receipt Write_VERIFIED None \<lparr> wr_lead_id := Some lead_id, wr_note_id := Some note_id \<rparr>), calls, w2)"
  using assms by (simp add: add_lead_note_def crm_bind_def crm_request_def crm_classify_status_def crm_return_def case_prod_beta Let_def)

lemma embedded_rows_silent: "embedded_rows key resp w = (Inr x, calls, w') \<Longrightarrow> calls = []"
  by (auto simp: embedded_rows_def Let_def dest!: crm_returnE split: if_splits json.splits option.splits)

lemma list_rows_silent:
  assumes "list_rows cl path key token label w = (Inr x, calls, w')"
  shows "crm_writes calls = []"
  using assms unfolding list_rows_def
  by (elim crm_bindE crm_requestE) (auto dest!: crm_returnE embedded_rows_silent split: prod.splits option.splits if_splits)

lemma with_notes_cases:
  assumes "with_lead_notes cl lead_id s token unmatched w = (Inr r, calls, w')"
  obtains "crm_writes calls = []"
  | rows first w1 rest where "list_lead_notes cl lead_id token w = (Inr (Some rows), first, w1)" and "notes_matching s rows = []"
      and "unmatched w1 = (Inr r, rest, w')" and "calls = first @ rest" and "crm_writes first = []"
  using assms list_rows_silent unfolding with_lead_notes_def list_lead_notes_def
  by (fastforce elim!: crm_bindE dest!: crm_returnE split: option.splits list.splits)

lemma with_tasks_cases:
  assumes "with_lead_tasks cl lead_id s token unmatched w = (Inr r, calls, w')"
  obtains "crm_writes calls = []"
  | rows first w1 rest where "list_active_tasks cl lead_id token w = (Inr (Some rows), first, w1)" and "tasks_matching cl s rows = []"
      and "unmatched w1 = (Inr r, rest, w')" and "calls = first @ rest" and "crm_writes first = []"
  using assms list_rows_silent unfolding with_lead_tasks_def list_active_tasks_def
  by (fastforce elim!: crm_bindE dest!: crm_returnE split: option.splits list.splits)

lemma add_note_posts:
  assumes "add_lead_note cl lead_id s token w = (Inr r, calls, w')"
  shows "crm_writes calls = [] \<or> (\<exists>post. crm_writes calls = [post] \<and> ch_body post = Some (note_body s))"
  using assms unfolding add_lead_note_def
  by (auto elim!: crm_bindE crm_requestE dest!: crm_returnE split: option.splits AmoCrmCrmRestOutcome.splits)

lemma add_task_posts:
  assumes "add_lead_task cl lead_id s token w = (Inr r, calls, w')"
  shows "crm_writes calls = [] \<or>
    (\<exists>post lead. crm_writes calls = [post] \<and> text_int_value lead_id = Some lead \<and> ch_body post = Some (task_body cl lead s))"
  using assms list_rows_silent unfolding add_lead_task_def list_active_tasks_def Let_def
  by (fastforce elim!: crm_bindE crm_requestE dest!: crm_returnE split: option.splits AmoCrmCrmRestOutcome.splits)

lemma find_silent:
  "find_lead_note cl lead_id s token w = (Inr r, calls, w') \<Longrightarrow> crm_writes calls = []"
  "find_lead_task cl lead_id s token w = (Inr r, calls, w') \<Longrightarrow> crm_writes calls = []"
  unfolding find_lead_note_def find_lead_task_def
  by (erule with_notes_cases with_tasks_cases; auto dest!: crm_returnE)+


section \<open>Witnesses\<close>

text \<open>amoCRM in a state that counts its requests: it accepts every write and forgets the notes and tasks.\<close>

definition demo_answer :: "crm_http \<Rightarrow> nat \<Rightarrow> crm_response option" where
  "demo_answer req n =
     (let ok = (\<lambda>j. Some \<lparr> cs_status = 200, cs_json = Some j \<rparr>); created = JList [JObj [(''id'', JInt 5)]] in
      if ch_method req = ''POST'' then
        ok (JObj [(''_embedded'', JObj [(''contacts'', created), (''leads'', created), (''notes'', created), (''tasks'', created)])])
      else if ch_method req = ''PATCH'' then ok (JObj [])
      else if ch_path req = ''/api/v4/leads/5'' then ok (JObj [(''pipeline_id'', JInt 1), (''status_id'', JInt 2)])
      else if ch_path req = ''/api/v4/leads/7'' then
        ok (if n = 0 then JObj []
            else JObj [(''custom_fields_values'', JList [JObj [(''field_id'', JInt 1321305), (''values'', JList [JObj [(''enum_id'', JInt 851491)]])]])])
      else if ch_label req = ''GET_NOTE_POSTCHECK'' then Some \<lparr> cs_status = 404, cs_json = None \<rparr>
      else Some \<lparr> cs_status = 204, cs_json = None \<rparr>)"

definition demo_client :: "nat crm_client" where
  "demo_client =
     \<lparr> cl_enabled = True, cl_pipeline_id = 1, cl_open_status_id = 2, cl_manager_id = 3, cl_task_type_id = 4,
       cl_transport = (\<lambda>req n. (demo_answer req n, n + 1)), cl_repr = (\<lambda>_. ''?''), cl_now = 100 \<rparr>"

fun run_result :: "(crm_exn + 'a) \<times> crm_http list \<times> 'w \<Rightarrow> 'a option" where
  "run_result (Inr r, _, _) = Some r"
| "run_result (Inl _, _, _) = None"

lemma run_result_Some: "run_result out = Some r \<Longrightarrow> \<exists>calls w'. out = (Inr r, calls, w')"
  by (cases out rule: run_result.cases) auto

lemma demo_applied:
  "run_result (ensure_lead_analytics_enum_if_empty demo_client ''7'' 1321305 851491 ''t'' 0) =
     Some (analytics_answer 1321305 851491 ''7'' Write_VERIFIED Apply_APPLIED None)"
  by code_simp

theorem analytics_never_overwritten_witness:
  "\<exists>r calls w'. ensure_lead_analytics_enum_if_empty demo_client ''7'' 1321305 851491 ''t'' 0 = (Inr r, calls, w') \<and>
     an_decision r = Some Apply_APPLIED \<and> length (crm_writes calls) = 1"
proof -
  obtain calls w' where run: "ensure_lead_analytics_enum_if_empty demo_client ''7'' 1321305 851491 ''t'' 0 =
      (Inr (analytics_answer 1321305 851491 ''7'' Write_VERIFIED Apply_APPLIED None), calls, w')"
    using run_result_Some [OF demo_applied] by blast
  have "\<exists>patch. crm_writes calls = [patch]"
    using analytics_never_overwritten [OF run] by (auto simp: analytics_answer_def)
  with run show ?thesis by (auto simp: analytics_answer_def)
qed

lemma demo_lead:
  "run_result (create_business_lead demo_client ''L'' ''12'' ''t'' 0) =
     Some (receipt Write_VERIFIED None \<lparr> wr_contact_id := Some ''12'', wr_lead_id := Some ''5'' \<rparr>)"
  by code_simp


definition demo_post :: crm_http where
  "demo_post =
     \<lparr> ch_label = ''POST_NOTE'', ch_method = ''POST'', ch_path = ''/api/v4/leads/'' @ ''9'' @ ''/notes'', ch_token = ''t'',
       ch_body = Some (note_body ''hello'') \<rparr>"

lemma demo_posted:
  "note_invalid ''9'' ''hello'' = None"
  "map_option (parse_embedded_id ''notes'') (demo_answer demo_post 0) = Some (Some ''5'')"
  "map_option cs_status (demo_answer demo_post 0) = Some 200"
  by code_simp+

theorem note_verified_unread_witness:
  "\<exists>calls w2. add_lead_note demo_client ''9'' ''hello'' ''t'' 0 =
     (Inr (receipt Write_VERIFIED None \<lparr> wr_lead_id := Some ''9'', wr_note_id := Some ''5'' \<rparr>), calls, w2)"
proof -
  obtain resp where resp: "demo_answer demo_post 0 = Some resp" "cs_status resp = 200" "parse_embedded_id ''notes'' resp = Some ''5''"
    using demo_posted(2,3) by auto
  have sent: "cl_transport demo_client demo_post 0 = (Some resp, 1)" using resp(1) by (simp add: demo_client_def)
  show ?thesis
    by (rule note_verified_unread [OF _ demo_posted(1) demo_post_def sent]) (use resp in simp_all)
qed

lemma demo_ensured:
  "map_option wr_outcome (run_result (ensure_lead_note demo_client ''9'' ''hello'' ''t'' 0)) = Some Write_VERIFIED"
  "map_option wr_outcome (run_result (ensure_lead_task demo_client ''9'' ''call'' ''t'' 0)) = Some Write_RECONCILIATION_REQUIRED"
  by code_simp+


end
