(* ===== verification/Crm_Service.thy ===== *)
theory Crm_Service
  imports Crm_Writes Teya_Run
begin

text \<open>
  The CRM service behind the requests of the web site: services/teya_request_crm.py, with the result types
  of core/amocrm_identity_lookup.py and core/amocrm_deal_discovery.py. The identity lookup, the deal
  discovery and the token store are ports, as in the code; they may raise, send requests and find a changed
  world like every other call.
\<close>

section \<open>Ports\<close>

datatype AmoCrmIdentityLookupOutcome =
    Ident_FOUND | Ident_NOT_FOUND | Ident_AMBIGUOUS | Ident_INVALID_INPUT | Ident_TRANSIENT_ERROR | Ident_PERMANENT_ERROR
  | Ident_DISABLED | Ident_INCOMPLETE

record identity_lookup =
  il_outcome :: AmoCrmIdentityLookupOutcome
  il_contact_id :: "string option"
  il_contact_ids :: "string list"
  il_error_code :: "string option"

text \<open>\<open>__post_init__\<close>: what a result of the lookup satisfies.\<close>

definition identity_lookup_ok :: "identity_lookup \<Rightarrow> bool" where
  "identity_lookup_ok r =
     (if il_outcome r = Ident_FOUND then truthy (il_contact_id r)
      else if il_outcome r = Ident_AMBIGUOUS then 2 \<le> length (il_contact_ids r)
      else il_contact_id r = None)"

datatype AmoCrmDealDiscoveryOutcome =
    Deal_FOUND | Deal_NOT_FOUND | Deal_INCOMPLETE | Deal_INVALID_INPUT | Deal_DISABLED | Deal_TRANSIENT_ERROR | Deal_PERMANENT_ERROR

record deal_discovery =
  dd_outcome :: AmoCrmDealDiscoveryOutcome
  dd_contact_id :: "string option"
  dd_business_active :: "string list"
  dd_reanimation :: "string list"
  dd_successfully_closed :: "string list"
  dd_technical :: "string list"
  dd_known_technical :: "string list"
  dd_error_code :: "string option"

record 'w crm_ports =
  cp_lookup :: "string \<Rightarrow> ('w, identity_lookup) crm"
  cp_discover :: "string \<Rightarrow> string list \<Rightarrow> ('w, deal_discovery) crm"
  cp_technical :: "('w, string list) crm option"
  cp_token :: "('w, string option) crm"
  cp_refresh :: "string \<Rightarrow> ('w, string option) crm"
  cp_client :: "'w crm_client"

section \<open>Mapping receipts\<close>

definition RETRYABLE_CRM_ERROR_CODES :: "string list" where
  "RETRYABLE_CRM_ERROR_CODES =
     [''IDENTITY_TRANSIENT'', ''DEAL_TRANSIENT'', ''AMOCRM_CONTACT_CREATE_TRANSIENT'', ''AMOCRM_LEAD_CREATE_TRANSIENT'',
      ''AMOCRM_LEAD_REANIMATE_TRANSIENT'', ''AMOCRM_NOTE_CREATE_TRANSIENT'', ''AMOCRM_NOTE_LIST_TRANSIENT'',
      ''AMOCRM_TASK_LIST_TRANSIENT'', ''AMOCRM_TASK_CREATE_TRANSIENT'', ''AMOCRM_ANALYTICS_READ_TRANSIENT'',
      ''AMOCRM_ANALYTICS_PATCH_TRANSIENT'', ''AMOCRM_ANALYTICS_POSTCHECK_TRANSIENT'', ''AMOCRM_BREAKER_OPEN'',
      ''AMOCRM_BREAKER_PROBE_BUSY'']"

definition is_retryable_crm_error :: "string option \<Rightarrow> bool" where
  "is_retryable_crm_error code = (case code of None \<Rightarrow> False | Some c \<Rightarrow> c \<in> set RETRYABLE_CRM_ERROR_CODES)"

definition crm_action :: "TeyaCrmActionOutcome \<Rightarrow> string option \<Rightarrow> crm_action_result" where
  "crm_action outcome code =
     \<lparr> ca_outcome = outcome, ca_contact_id = None, ca_deal_id = None, ca_task_id = None, ca_note_id = None,
       ca_error_code = code, ca_analytics_decision = None \<rparr>"

text \<open>\<open>a or b\<close> on optional texts.\<close>

definition or_text :: "string option \<Rightarrow> string option \<Rightarrow> string option" where
  "or_text a b = (if truthy a then a else b)"

definition map_write :: "crm_receipt \<Rightarrow> string option \<Rightarrow> string option \<Rightarrow> crm_action_result" where
  "map_write r contact_id deal_id =
     (let ids = (\<lambda>a. a \<lparr> ca_contact_id := or_text (wr_contact_id r) contact_id, ca_deal_id := or_text (wr_lead_id r) deal_id \<rparr>);
          full = (\<lambda>a. ids a \<lparr> ca_task_id := wr_task_id r, ca_note_id := wr_note_id r \<rparr>)
      in if wr_outcome r = Write_VERIFIED then full (crm_action Crm_READY None)
         else if wr_outcome r = Write_RECONCILIATION_REQUIRED then full (crm_action Crm_RECONCILIATION_REQUIRED (wr_error_code r))
         else if wr_outcome r = Write_DISABLED
         then ids (crm_action Crm_MANUAL_REVIEW (or_text (wr_error_code r) (Some ''AMOCRM_CRM_REST_DISABLED'')))
         else if wr_error_code r \<in> {Some ''AMOCRM_NOTE_AMBIGUOUS'', Some ''AMOCRM_TASK_AMBIGUOUS'',
              Some ''AMOCRM_CRM_BUSINESS_WRITE_DISABLED'', Some ''AMOCRM_CRM_BUSINESS_WRITE_CONFIG_INVALID'',
              Some ''AMOCRM_CRM_BUSINESS_WRITE_IDS_INVALID''}
         then full (crm_action Crm_MANUAL_REVIEW (wr_error_code r))
         else if is_retryable_crm_error (wr_error_code r) then full (crm_action Crm_RETRY (wr_error_code r))
         else ids (crm_action Crm_FAIL_CLOSED (wr_error_code r)))"

definition ANALYTICS_FAIL_CLOSED_CODES :: "string list" where
  "ANALYTICS_FAIL_CLOSED_CODES =
     [''AMOCRM_ANALYTICS_CHANNEL_WRITE_FORBIDDEN'', ''AMOCRM_ANALYTICS_FIELD_NOT_WRITABLE'', ''AMOCRM_ANALYTICS_FIELD_ID_INVALID'',
      ''AMOCRM_ANALYTICS_ENUM_ID_INVALID'', ''AMOCRM_ANALYTICS_ENUM_NOT_ALLOWED_FOR_FIELD'', ''ANALYTICS_TECHNICAL_DEAL_FORBIDDEN'']"

definition ANALYTICS_MANUAL_CODES :: "string list" where
  "ANALYTICS_MANUAL_CODES =
     [''AMOCRM_ANALYTICS_FIELD_AMBIGUOUS'', ''AMOCRM_CRM_REST_DISABLED'', ''AMOCRM_CRM_OAUTH_NOT_FOUND'',
      ''AMOCRM_ANALYTICS_UNAUTHORIZED'', ''AMOCRM_ANALYTICS_PATCH_PERMANENT'', ''AMOCRM_ANALYTICS_READ_PERMANENT'',
      ''AMOCRM_ANALYTICS_POSTCHECK_PERMANENT'']"

definition code_in :: "string option \<Rightarrow> string list \<Rightarrow> bool" where
  "code_in code codes = (case code of None \<Rightarrow> False | Some c \<Rightarrow> c \<in> set codes)"

definition map_analytics :: "analytics_receipt \<Rightarrow> string option \<Rightarrow> crm_action_result" where
  "map_analytics r deal_id =
     (let decision = map_option apply_decision_value (an_decision r);
          answer = (\<lambda>outcome code d. crm_action outcome code
            \<lparr> ca_deal_id := or_text (an_lead_id r) deal_id, ca_analytics_decision := d \<rparr>);
          manual = (case decision of None \<Rightarrow> Some (apply_decision_value Apply_MANUAL_REVIEW) | Some d \<Rightarrow> Some d)
      in if an_decision r = Some Apply_APPLIED then answer Crm_READY (Some ''ANALYTICS_APPLIED'') decision
         else if an_decision r = Some Apply_ALREADY_SAME then answer Crm_READY (Some ''ANALYTICS_ALREADY_SAME'') decision
         else if an_decision r = Some Apply_CONFLICT_NONEMPTY then answer Crm_READY (Some ''ANALYTICS_CONFLICT_NONEMPTY'') decision
         else if an_decision r = Some Apply_SKIPPED_NO_EVIDENCE then answer Crm_READY (Some ''ANALYTICS_SKIPPED_NO_EVIDENCE'') decision
         else if code_in (an_error_code r) ANALYTICS_FAIL_CLOSED_CODES then answer Crm_FAIL_CLOSED (an_error_code r) manual
         else if code_in (an_error_code r) ANALYTICS_MANUAL_CODES \<or> an_decision r = Some Apply_MANUAL_REVIEW
         then answer Crm_MANUAL_REVIEW (or_text (an_error_code r) (Some ''AMOCRM_ANALYTICS_MANUAL'')) manual
         else if an_outcome r = Write_RECONCILIATION_REQUIRED \<or> an_decision r = Some Apply_TRANSIENT_RETRY \<or>
                 is_retryable_crm_error (an_error_code r)
         then answer Crm_RETRY (or_text (an_error_code r) (Some ''AMOCRM_ANALYTICS_PATCH_TRANSIENT''))
                (Some (apply_decision_value Apply_TRANSIENT_RETRY))
         else answer Crm_FAIL_CLOSED (or_text (an_error_code r) (Some ''AMOCRM_ANALYTICS_FAILED'')) decision)"

section \<open>Discovery\<close>

definition known_technical_deal_ids :: "'w crm_ports \<Rightarrow> ('w, string list) crm" where
  "known_technical_deal_ids p = (case cp_technical p of None \<Rightarrow> crm_return [] | Some m \<Rightarrow> m)"

definition discover :: "'w crm_ports \<Rightarrow> string \<Rightarrow> ('w, deal_discovery) crm" where
  "discover p contact_id = crm_bind (known_technical_deal_ids p) (cp_discover p contact_id)"

text \<open>The refusals of a discovery, the same in every operation; \<open>None\<close>: go on.\<close>

definition discovery_refusal :: "string \<Rightarrow> deal_discovery \<Rightarrow> crm_action_result option" where
  "discovery_refusal contact_id d =
     (let answer = (\<lambda>outcome code. Some (crm_action outcome code \<lparr> ca_contact_id := Some contact_id \<rparr>)) in
      case dd_outcome d of
        Deal_DISABLED \<Rightarrow> answer Crm_MANUAL_REVIEW (or_text (dd_error_code d) (Some ''AMOCRM_CRM_REST_DISABLED''))
      | Deal_TRANSIENT_ERROR \<Rightarrow> answer Crm_RETRY (or_text (dd_error_code d) (Some ''DEAL_TRANSIENT''))
      | Deal_PERMANENT_ERROR \<Rightarrow> answer Crm_FAIL_CLOSED (or_text (dd_error_code d) (Some ''DEAL_FAIL_CLOSED''))
      | Deal_INVALID_INPUT \<Rightarrow> answer Crm_FAIL_CLOSED (or_text (dd_error_code d) (Some ''DEAL_FAIL_CLOSED''))
      | Deal_INCOMPLETE \<Rightarrow> answer Crm_FAIL_CLOSED (or_text (dd_error_code d) (Some ''DEAL_FAIL_CLOSED''))
      | _ \<Rightarrow> if length (dd_business_active d) > 1 then answer Crm_MANUAL_REVIEW (Some ''ACTIVE_DEAL_AMBIGUOUS'') else None)"

definition ready_deal :: "string \<Rightarrow> string \<Rightarrow> crm_action_result" where
  "ready_deal contact_id deal_id = crm_action Crm_READY None \<lparr> ca_contact_id := Some contact_id, ca_deal_id := Some deal_id \<rparr>"

text \<open>
  The read-only half, shared by \<open>discover_existing_business_deal\<close> and \<open>reconcile_readonly\<close>: the one active
  deal of the contact with this phone (\<open>Inr\<close>), or the answer (\<open>Inl\<close>).
\<close>

definition find_business_deal :: "'w crm_ports \<Rightarrow> string \<Rightarrow> ('w, crm_action_result + (string \<times> string)) crm" where
  "find_business_deal p phone =
     crm_bind (cp_lookup p phone) (\<lambda>l.
       case il_outcome l of
         Ident_AMBIGUOUS \<Rightarrow> crm_return (Inl (crm_action Crm_MANUAL_REVIEW (Some ''IDENTITY_AMBIGUOUS'')))
       | Ident_DISABLED \<Rightarrow> crm_return (Inl (crm_action Crm_MANUAL_REVIEW (or_text (il_error_code l) (Some ''AMOCRM_CRM_REST_DISABLED''))))
       | Ident_TRANSIENT_ERROR \<Rightarrow> crm_return (Inl (crm_action Crm_RETRY (or_text (il_error_code l) (Some ''IDENTITY_TRANSIENT''))))
       | Ident_NOT_FOUND \<Rightarrow> crm_return (Inl (crm_action Crm_NONE (Some ''CONTACT_NONE'')))
       | Ident_FOUND \<Rightarrow>
           if \<not> truthy (il_contact_id l) then crm_return (Inl (crm_action Crm_NONE (Some ''CONTACT_NONE'')))
           else let contact_id = the (il_contact_id l) in
             crm_bind (discover p contact_id) (\<lambda>d. crm_return
               (case discovery_refusal contact_id d of
                  Some r \<Rightarrow> Inl r
                | None \<Rightarrow>
                    (case dd_business_active d of
                       [] \<Rightarrow> Inl (crm_action Crm_NONE (Some ''DEAL_NONE'') \<lparr> ca_contact_id := Some contact_id \<rparr>)
                     | deal_id # _ \<Rightarrow> Inr (contact_id, deal_id))))
       | _ \<Rightarrow> crm_return (Inl (crm_action Crm_FAIL_CLOSED (or_text (il_error_code l) (Some ''IDENTITY_FAIL_CLOSED'')))))"

definition discover_existing_business_deal :: "'w crm_ports \<Rightarrow> string \<Rightarrow> ('w, crm_action_result) crm" where
  "discover_existing_business_deal p phone =
     crm_bind (find_business_deal p phone) (\<lambda>r. crm_return (case r of Inl a \<Rightarrow> a | Inr (contact_id, deal_id) \<Rightarrow> ready_deal contact_id deal_id))"

text \<open>One read of the note or task list: an answer that ends the call, or the id that was found.\<close>

definition found_or_stop :: "crm_receipt \<Rightarrow> string option \<Rightarrow> string \<Rightarrow> string \<Rightarrow> crm_action_result \<Rightarrow> crm_action_result + string option" where
  "found_or_stop r found_id ambiguous transient base =
     (if wr_outcome r = Write_FAILED then
        (if wr_error_code r = Some ambiguous then Inl (base \<lparr> ca_outcome := Crm_MANUAL_REVIEW, ca_error_code := Some ambiguous \<rparr>)
         else if wr_error_code r = Some transient then Inl (base \<lparr> ca_outcome := Crm_RETRY, ca_error_code := Some transient \<rparr>)
         else Inr None)
      else if wr_outcome r = Write_VERIFIED then Inr found_id else Inr None)"

definition reconcile_readonly :: "'w crm_ports \<Rightarrow> string \<Rightarrow> string option \<Rightarrow> string option \<Rightarrow> ('w, crm_action_result) crm" where
  "reconcile_readonly p phone note task =
     crm_bind (find_business_deal p phone) (\<lambda>found.
       case found of
         Inl a \<Rightarrow> crm_return a
       | Inr (contact_id, deal_id) \<Rightarrow>
           crm_bind (cp_token p) (\<lambda>token.
             if \<not> truthy token
             then crm_return (ready_deal contact_id deal_id
                    \<lparr> ca_outcome := Crm_MANUAL_REVIEW, ca_error_code := Some ''AMOCRM_CRM_OAUTH_NOT_FOUND'' \<rparr>)
             else
               crm_bind
                 (if truthy note
                  then crm_bind (find_lead_note (cp_client p) deal_id (the note) (the token)) (\<lambda>r. crm_return
                    (found_or_stop r (wr_note_id r) ''AMOCRM_NOTE_AMBIGUOUS'' ''AMOCRM_NOTE_LIST_TRANSIENT'' (ready_deal contact_id deal_id)))
                  else crm_return (Inr None)) (\<lambda>n.
                 case n of
                   Inl stop \<Rightarrow> crm_return stop
                 | Inr note_id \<Rightarrow>
                     let base = ready_deal contact_id deal_id \<lparr> ca_note_id := note_id \<rparr> in
                     crm_bind
                       (if truthy task
                        then crm_bind (find_lead_task (cp_client p) deal_id (the task) (the token)) (\<lambda>r. crm_return
                          (found_or_stop r (wr_task_id r) ''AMOCRM_TASK_AMBIGUOUS'' ''AMOCRM_TASK_LIST_TRANSIENT'' base))
                        else crm_return (Inr None)) (\<lambda>t.
                       case t of
                         Inl stop \<Rightarrow> crm_return stop
                       | Inr task_id \<Rightarrow> crm_return (base \<lparr> ca_task_id := task_id \<rparr>)))))"

section \<open>Creating\<close>

definition CONTACT_NAME_DEFAULT :: string where
  "CONTACT_NAME_DEFAULT =
    [CHR 0xD0, CHR 0x9A, CHR 0xD0, CHR 0xBB, CHR 0xD0, CHR 0xB8, CHR 0xD0, CHR 0xB5, CHR 0xD0, CHR 0xBD, CHR 0xD1,
     CHR 0x82, CHR 0x20, CHR 0xD0, CHR 0xBE, CHR 0xD0, CHR 0xBD, CHR 0xD0, CHR 0xBB, CHR 0xD0, CHR 0xB0, CHR 0xD0,
     CHR 0xB9, CHR 0xD0, CHR 0xBD, CHR 0x2D, CHR 0xD0, CHR 0xB7, CHR 0xD0, CHR 0xB0, CHR 0xD0, CHR 0xBF, CHR 0xD0,
     CHR 0xB8, CHR 0xD1, CHR 0x81, CHR 0xD0, CHR 0xB8]"

text \<open>The contact of the phone: found, or created and, when the answer was lost, found again.\<close>

definition ensure_contact ::
  "'w crm_ports \<Rightarrow> identity_lookup \<Rightarrow> string \<Rightarrow> string option \<Rightarrow> string \<Rightarrow> ('w, crm_action_result + string option) crm" where
  "ensure_contact p l phone client_name token =
     (if il_outcome l = Ident_FOUND then crm_return (Inr (il_contact_id l))
      else if il_outcome l = Ident_NOT_FOUND then
        crm_bind (create_contact (cp_client p) (if truthy client_name then the client_name else CONTACT_NAME_DEFAULT) phone token) (\<lambda>created.
          let mapped = map_write created None None in
          case ca_outcome mapped of
            Crm_READY \<Rightarrow> crm_return (Inr (wr_contact_id created))
          | Crm_RETRY \<Rightarrow>
              crm_bind (cp_lookup p phone) (\<lambda>again. crm_return
                (case il_outcome again of
                   Ident_FOUND \<Rightarrow> Inr (il_contact_id again)
                 | Ident_AMBIGUOUS \<Rightarrow> Inl (crm_action Crm_MANUAL_REVIEW (Some ''IDENTITY_AMBIGUOUS''))
                 | _ \<Rightarrow> Inl mapped))
          | _ \<Rightarrow> crm_return (Inl mapped))
      else crm_return (Inl (crm_action Crm_FAIL_CLOSED (Some ''IDENTITY_UNEXPECTED''))))"

definition ensure_lead :: "'w crm_ports \<Rightarrow> string \<Rightarrow> string \<Rightarrow> deal_discovery \<Rightarrow> ('w, crm_action_result) crm" where
  "ensure_lead p contact_id token d =
     (case dd_business_active d of
        deal_id # _ \<Rightarrow> crm_return (ready_deal contact_id deal_id)
      | [] \<Rightarrow>
          (case dd_reanimation d of
             [lead_id] \<Rightarrow>
               crm_bind (reanimate_lead (cp_client p) lead_id contact_id token) (\<lambda>r. crm_return (map_write r (Some contact_id) None))
           | _ # _ \<Rightarrow> crm_return (crm_action Crm_MANUAL_REVIEW (Some ''REANIMATION_AMBIGUOUS'') \<lparr> ca_contact_id := Some contact_id \<rparr>)
           | [] \<Rightarrow>
               crm_bind (create_business_lead (cp_client p) LEAD_NAME_DEFAULT contact_id token) (\<lambda>r.
                 let mapped = map_write r (Some contact_id) None in
                 if ca_outcome mapped = Crm_RETRY then
                   crm_bind (discover p contact_id) (\<lambda>again. crm_return
                     (case dd_business_active again of
                        [deal_id] \<Rightarrow> ready_deal contact_id deal_id
                      | _ # _ \<Rightarrow> crm_action Crm_MANUAL_REVIEW (Some ''ACTIVE_DEAL_AMBIGUOUS'') \<lparr> ca_contact_id := Some contact_id \<rparr>
                      | [] \<Rightarrow> mapped))
                 else crm_return mapped)))"

definition ensure_deal :: "'w crm_ports \<Rightarrow> string \<Rightarrow> string \<Rightarrow> ('w, crm_action_result) crm" where
  "ensure_deal p contact_id token =
     crm_bind (discover p contact_id) (\<lambda>d.
       case discovery_refusal contact_id d of
         Some r \<Rightarrow> crm_return r
       | None \<Rightarrow> ensure_lead p contact_id token d)"

definition ensure_with_token ::
  "'w crm_ports \<Rightarrow> string \<Rightarrow> string option \<Rightarrow> identity_lookup \<Rightarrow> string option \<Rightarrow> ('w, crm_action_result) crm" where
  "ensure_with_token p phone client_name l token =
     (if \<not> truthy token then crm_return (crm_action Crm_MANUAL_REVIEW (Some ''AMOCRM_CRM_OAUTH_NOT_FOUND''))
      else crm_bind (ensure_contact p l phone client_name (the token)) (\<lambda>contact.
        case contact of
          Inl stop \<Rightarrow> crm_return stop
        | Inr None \<Rightarrow> crm_return (crm_action Crm_FAIL_CLOSED (Some ''CONTACT_MISSING''))
        | Inr (Some contact_id) \<Rightarrow> ensure_deal p contact_id (the token)))"

text \<open>\<open>ensure_contact_and_deal\<close> after its lookup.\<close>

definition ensure_after_lookup :: "'w crm_ports \<Rightarrow> string \<Rightarrow> string option \<Rightarrow> identity_lookup \<Rightarrow> ('w, crm_action_result) crm" where
  "ensure_after_lookup p phone client_name l =
     (case il_outcome l of
        Ident_AMBIGUOUS \<Rightarrow> crm_return (crm_action Crm_MANUAL_REVIEW (Some ''IDENTITY_AMBIGUOUS''))
      | Ident_DISABLED \<Rightarrow> crm_return (crm_action Crm_MANUAL_REVIEW (or_text (il_error_code l) (Some ''AMOCRM_CRM_REST_DISABLED'')))
      | Ident_TRANSIENT_ERROR \<Rightarrow> crm_return (crm_action Crm_RETRY (or_text (il_error_code l) (Some ''IDENTITY_TRANSIENT'')))
      | Ident_PERMANENT_ERROR \<Rightarrow> crm_return (crm_action Crm_FAIL_CLOSED (or_text (il_error_code l) (Some ''IDENTITY_FAIL_CLOSED'')))
      | Ident_INVALID_INPUT \<Rightarrow> crm_return (crm_action Crm_FAIL_CLOSED (or_text (il_error_code l) (Some ''IDENTITY_FAIL_CLOSED'')))
      | Ident_INCOMPLETE \<Rightarrow> crm_return (crm_action Crm_FAIL_CLOSED (or_text (il_error_code l) (Some ''IDENTITY_FAIL_CLOSED'')))
      | _ \<Rightarrow> crm_bind (cp_token p) (ensure_with_token p phone client_name l))"

definition ensure_contact_and_deal :: "'w crm_ports \<Rightarrow> string \<Rightarrow> string option \<Rightarrow> ('w, crm_action_result) crm" where
  "ensure_contact_and_deal p phone client_name = crm_bind (cp_lookup p phone) (ensure_after_lookup p phone client_name)"

definition attach_note_and_task :: "'w crm_ports \<Rightarrow> string \<Rightarrow> string \<Rightarrow> string \<Rightarrow> ('w, crm_action_result) crm" where
  "attach_note_and_task p deal_id note task =
     crm_bind (cp_token p) (\<lambda>token.
       if \<not> truthy token
       then crm_return (crm_action Crm_MANUAL_REVIEW (Some ''AMOCRM_CRM_OAUTH_NOT_FOUND'') \<lparr> ca_deal_id := Some deal_id \<rparr>)
       else crm_bind (ensure_lead_note (cp_client p) deal_id note (the token)) (\<lambda>n.
         if wr_outcome n = Write_RECONCILIATION_REQUIRED
         then crm_return (crm_action Crm_RECONCILIATION_REQUIRED (wr_error_code n) \<lparr> ca_deal_id := Some deal_id, ca_note_id := wr_note_id n \<rparr>)
         else if wr_outcome n \<noteq> Write_VERIFIED \<and> ca_outcome (map_write n None (Some deal_id)) \<noteq> Crm_READY
         then crm_return (map_write n None (Some deal_id))
         else crm_bind (ensure_lead_task (cp_client p) deal_id task (the token)) (\<lambda>t. crm_return
           (let mapped = map_write t None (Some deal_id) in
            if ca_outcome mapped = Crm_READY
            then crm_action Crm_READY None \<lparr> ca_deal_id := Some deal_id, ca_note_id := wr_note_id n, ca_task_id := wr_task_id t \<rparr>
            else mapped))))"

text \<open>One refresh of the token when the first answer was 401.\<close>

definition apply_lead_analytics_enum_if_empty ::
  "'w crm_ports \<Rightarrow> string option \<Rightarrow> int \<Rightarrow> int option \<Rightarrow> ('w, crm_action_result) crm" where
  "apply_lead_analytics_enum_if_empty p deal_id field_id enum_id =
     (let answer = (\<lambda>outcome code d. crm_action outcome (Some code)
            \<lparr> ca_deal_id := deal_id, ca_analytics_decision := Some (apply_decision_value d) \<rparr>) in
      case enum_id of
        None \<Rightarrow> crm_return (answer Crm_READY ''ANALYTICS_SKIPPED_NO_EVIDENCE'' Apply_SKIPPED_NO_EVIDENCE)
      | Some enum \<Rightarrow>
          if deal_id = None \<or> \<not> text_isdigit (the deal_id)
          then crm_return (answer Crm_READY ''ANALYTICS_SKIPPED_NO_DEAL'' Apply_SKIPPED_NO_EVIDENCE)
          else crm_bind (known_technical_deal_ids p) (\<lambda>tech.
            if the deal_id \<in> set tech
            then crm_return (answer Crm_FAIL_CLOSED ''ANALYTICS_TECHNICAL_DEAL_FORBIDDEN'' Apply_MANUAL_REVIEW)
            else crm_bind (cp_token p) (\<lambda>token.
              if \<not> truthy token then crm_return (answer Crm_MANUAL_REVIEW ''AMOCRM_CRM_OAUTH_NOT_FOUND'' Apply_MANUAL_REVIEW)
              else crm_bind (ensure_lead_analytics_enum_if_empty (cp_client p) (the deal_id) field_id enum (the token)) (\<lambda>r.
                if an_error_code r \<noteq> Some ''AMOCRM_ANALYTICS_UNAUTHORIZED'' then crm_return (map_analytics r deal_id)
                else crm_bind (cp_refresh p (the token)) (\<lambda>refreshed.
                  if \<not> truthy refreshed then crm_return (map_analytics r deal_id)
                  else crm_bind (ensure_lead_analytics_enum_if_empty (cp_client p) (the deal_id) field_id enum (the refreshed))
                    (\<lambda>r2. crm_return (map_analytics r2 deal_id)))))))"

section \<open>The texts of the tasks\<close>

definition TASK_TEXT_DEFAULT :: string where
  "TASK_TEXT_DEFAULT =
    [CHR 0xD0, CHR 0x9E, CHR 0xD0, CHR 0xB1, CHR 0xD1, CHR 0x80, CHR 0xD0, CHR 0xB0, CHR 0xD0, CHR 0xB1, CHR 0xD0,
     CHR 0xBE, CHR 0xD1, CHR 0x82, CHR 0xD0, CHR 0xB0, CHR 0xD1, CHR 0x82, CHR 0xD1, CHR 0x8C, CHR 0x20, CHR 0xD0,
     CHR 0xB7, CHR 0xD0, CHR 0xB0, CHR 0xD1, CHR 0x8F, CHR 0xD0, CHR 0xB2, CHR 0xD0, CHR 0xBA, CHR 0xD1, CHR 0x83,
     CHR 0x20, CHR 0xD0, CHR 0xB8, CHR 0xD0, CHR 0xB7, CHR 0x20, CHR 0xD0, CHR 0xBE, CHR 0xD0, CHR 0xBD, CHR 0xD0,
     CHR 0xBB, CHR 0xD0, CHR 0xB0, CHR 0xD0, CHR 0xB9, CHR 0xD0, CHR 0xBD, CHR 0x2D, CHR 0xD0, CHR 0xB7, CHR 0xD0,
     CHR 0xB0, CHR 0xD0, CHR 0xBF, CHR 0xD0, CHR 0xB8, CHR 0xD1, CHR 0x81, CHR 0xD0, CHR 0xB8]"

definition EM_DASH :: string where
  "EM_DASH = [CHR 0xE2, CHR 0x80, CHR 0x94]"

definition format_game_no_booking_task_text :: "string \<Rightarrow> string \<Rightarrow> string" where
  "format_game_no_booking_task_text gift procedure =
    [CHR 0xD0, CHR 0x9E, CHR 0xD0, CHR 0xB1, CHR 0xD1, CHR 0x80, CHR 0xD0, CHR 0xB0, CHR 0xD0, CHR 0xB1, CHR 0xD0,
     CHR 0xBE, CHR 0xD1, CHR 0x82, CHR 0xD0, CHR 0xB0, CHR 0xD1, CHR 0x82, CHR 0xD1, CHR 0x8C, CHR 0x20, CHR 0xD0,
     CHR 0xB7, CHR 0xD0, CHR 0xB0, CHR 0xD1, CHR 0x8F, CHR 0xD0, CHR 0xB2, CHR 0xD0, CHR 0xBA, CHR 0xD1, CHR 0x83,
     CHR 0x20, CHR 0xD0, CHR 0xBF, CHR 0xD0, CHR 0xBE, CHR 0x20, CHR 0xD0, CHR 0xB8, CHR 0xD0, CHR 0xB3, CHR 0xD1,
     CHR 0x80, CHR 0xD0, CHR 0xB5, CHR 0x20, CHR 0xE2, CHR 0x80, CHR 0x94, CHR 0x20, CHR 0xD0, CHR 0xBF, CHR 0xD0,
     CHR 0xBE, CHR 0xD0, CHR 0xB4, CHR 0xD0, CHR 0xB0, CHR 0xD1, CHR 0x80, CHR 0xD0, CHR 0xBE, CHR 0xD0, CHR 0xBA,
     CHR 0x3A, CHR 0x20] @
     gift @
    [CHR 0x3B, CHR 0x20, CHR 0xD0, CHR 0xB8, CHR 0xD0, CHR 0xBD, CHR 0xD1, CHR 0x82, CHR 0xD0, CHR 0xB5, CHR 0xD1,
     CHR 0x80, CHR 0xD0, CHR 0xB5, CHR 0xD1, CHR 0x81, CHR 0x3A, CHR 0x20] @
     procedure"

definition format_game_self_booking_task_text :: "string \<Rightarrow> string \<Rightarrow> string" where
  "format_game_self_booking_task_text gift appointment_id =
    [CHR 0xD0, CHR 0x9A, CHR 0xD0, CHR 0xBB, CHR 0xD0, CHR 0xB8, CHR 0xD0, CHR 0xB5, CHR 0xD0, CHR 0xBD, CHR 0xD1,
     CHR 0x82, CHR 0x20, CHR 0xD1, CHR 0x81, CHR 0xD1, CHR 0x8B, CHR 0xD0, CHR 0xB3, CHR 0xD1, CHR 0x80, CHR 0xD0,
     CHR 0xB0, CHR 0xD0, CHR 0xBB, CHR 0x20, CHR 0xD0, CHR 0xB2, CHR 0x20, CHR 0xD0, CHR 0xB8, CHR 0xD0, CHR 0xB3,
     CHR 0xD1, CHR 0x80, CHR 0xD1, CHR 0x83, CHR 0x20, CHR 0xD0, CHR 0xB8, CHR 0x20, CHR 0xD1, CHR 0x83, CHR 0xD0,
     CHR 0xB6, CHR 0xD0, CHR 0xB5, CHR 0x20, CHR 0xD0, CHR 0xB7, CHR 0xD0, CHR 0xB0, CHR 0xD0, CHR 0xBF, CHR 0xD0,
     CHR 0xB8, CHR 0xD1, CHR 0x81, CHR 0xD0, CHR 0xB0, CHR 0xD0, CHR 0xBB, CHR 0xD1, CHR 0x81, CHR 0xD1, CHR 0x8F,
     CHR 0x20, CHR 0xD1, CHR 0x81, CHR 0xD0, CHR 0xB0, CHR 0xD0, CHR 0xBC, CHR 0xD0, CHR 0xBE, CHR 0xD1, CHR 0x81,
     CHR 0xD1, CHR 0x82, CHR 0xD0, CHR 0xBE, CHR 0xD1, CHR 0x8F, CHR 0xD1, CHR 0x82, CHR 0xD0, CHR 0xB5, CHR 0xD0,
     CHR 0xBB, CHR 0xD1, CHR 0x8C, CHR 0xD0, CHR 0xBD, CHR 0xD0, CHR 0xBE, CHR 0x2E, CHR 0x20, CHR 0xD0, CHR 0x9F,
     CHR 0xD1, CHR 0x80, CHR 0xD0, CHR 0xBE, CHR 0xD0, CHR 0xB2, CHR 0xD0, CHR 0xB5, CHR 0xD1, CHR 0x80, CHR 0xD0,
     CHR 0xB8, CHR 0xD1, CHR 0x82, CHR 0xD1, CHR 0x8C, CHR 0x20, CHR 0xD0, CHR 0xBF, CHR 0xD0, CHR 0xBE, CHR 0xD0,
     CHR 0xB4, CHR 0xD0, CHR 0xB0, CHR 0xD1, CHR 0x80, CHR 0xD0, CHR 0xBE, CHR 0xD0, CHR 0xBA, CHR 0x20] @
     gift @
    [CHR 0x20, CHR 0xD0, CHR 0xBA, CHR 0x20, CHR 0xD0, CHR 0xB7, CHR 0xD0, CHR 0xB0, CHR 0xD0, CHR 0xBF, CHR 0xD0,
     CHR 0xB8, CHR 0xD1, CHR 0x81, CHR 0xD0, CHR 0xB8, CHR 0x20] @
     appointment_id @ ''.''"

fun render_task_text :: "task_text \<Rightarrow> string" where
  "render_task_text Task_default = TASK_TEXT_DEFAULT"
| "render_task_text (Task_game_self_booking gift appointment_id) =
     format_game_self_booking_task_text (case gift of None \<Rightarrow> EM_DASH | Some g \<Rightarrow> g) appointment_id"
| "render_task_text (Task_game_no_booking gift procedure) =
     format_game_no_booking_task_text (case gift of None \<Rightarrow> EM_DASH | Some g \<Rightarrow> g) (case procedure of None \<Rightarrow> EM_DASH | Some q \<Rightarrow> q)"

text \<open>The service in a state of the world, as the orchestrator calls it; an exception is \<open>None\<close>.\<close>

definition crm_answer :: "('w, crm_action_result) crm \<Rightarrow> 'w \<Rightarrow> crm_action_result option" where
  "crm_answer m w = (case fst (m w) of Inl _ \<Rightarrow> None | Inr r \<Rightarrow> Some r)"

definition teya_crm_of :: "'w crm_ports \<Rightarrow> 'w \<Rightarrow> teya_crm" where
  "teya_crm_of p w =
     \<lparr> tc_ensure = (\<lambda>phone name. crm_answer (ensure_contact_and_deal p phone name) w),
       tc_attach = (\<lambda>deal note task. crm_answer (attach_note_and_task p deal note (render_task_text task)) w),
       tc_analytics = (\<lambda>deal. crm_answer (apply_lead_analytics_enum_if_empty p (Some deal) FIELD_BOOKING_CREATION_METHOD (Some 851491)) w),
       tc_reconcile = (\<lambda>phone note task. crm_answer (reconcile_readonly p phone (Some note) (Some (render_task_text task))) w) \<rparr>"

section \<open>What the calls send\<close>

text \<open>\<open>sends P n m\<close>: in every state of the world, \<open>m\<close> sends at most \<open>n\<close> requests of kind \<open>P\<close>.\<close>

definition sends :: "(crm_http \<Rightarrow> bool) \<Rightarrow> nat \<Rightarrow> ('w, 'a) crm \<Rightarrow> bool" where
  "sends P n m = (\<forall>w. length (filter P (fst (snd (m w)))) \<le> n)"

lemma sends_mono: "sends P n m \<Longrightarrow> n \<le> k \<Longrightarrow> sends P k m"
  by (auto simp: sends_def intro: order_trans)

lemma sends_return [simp]: "sends P n (crm_return x)" and sends_raise [simp]: "sends P n (crm_raise e)"
  by (simp_all add: sends_def crm_return_def crm_raise_def)

lemma sends_bind:
  assumes "sends P a m" and "\<And>x v c v'. m v = (Inr x, c, v') \<Longrightarrow> sends P b (k x)"
  shows "sends P (a + b) (crm_bind m k)"
  unfolding sends_def
proof
  fix w
  obtain r c1 w1 where m: "m w = (r, c1, w1)" by (metis prod_cases3)
  have c1: "length (filter P c1) \<le> a" using assms(1) m unfolding sends_def by (metis fst_conv snd_conv)
  show "length (filter P (fst (snd (crm_bind m k w)))) \<le> a + b"
  proof (cases r)
    case (Inl e)
    with c1 m show ?thesis by (simp add: crm_bind_def)
  next
    case (Inr x)
    obtain r2 c2 w2 where k: "k x w1 = (r2, c2, w2)" by (metis prod_cases3)
    have "length (filter P c2) \<le> b" using assms(2) m k unfolding Inr sends_def by (metis fst_conv snd_conv)
    with c1 m k Inr show ?thesis by (simp add: crm_bind_def)
  qed
qed

lemma sends_bind0: "sends P 0 m \<Longrightarrow> (\<And>x. sends P n (k x)) \<Longrightarrow> sends P n (crm_bind m k)"
  using sends_bind [of P 0 m n k] by simp

lemma sends_bind1: "sends P n m \<Longrightarrow> (\<And>x. sends P 0 (k x)) \<Longrightarrow> sends P n (crm_bind m k)"
  using sends_bind [of P n m 0 k] by simp

lemma sends_one: "sends P (Suc 0) (crm_request cl meth path token body label)"
  by (auto simp: sends_def crm_request_def Let_def split: prod.splits)

lemma sends_other:
  "(\<And>req. ch_method req = meth \<Longrightarrow> ch_path req = path \<Longrightarrow> \<not> P req) \<Longrightarrow> sends P n (crm_request cl meth path token body label)"
  by (auto simp: sends_def crm_request_def Let_def split: prod.splits)

text \<open>The two kinds of writes: of contacts, and of deals with their notes and tasks.\<close>

definition contact_write :: "crm_http \<Rightarrow> bool" where
  "contact_write req = (ch_method req \<noteq> ''GET'' \<and> ch_path req = ''/api/v4/contacts'')"

definition deal_write :: "crm_http \<Rightarrow> bool" where
  "deal_write req = (ch_method req \<noteq> ''GET'' \<and> ch_path req \<noteq> ''/api/v4/contacts'')"

definition any_write :: "crm_http \<Rightarrow> bool" where
  "any_write req = (ch_method req \<noteq> ''GET'')"

lemmas write_kinds = contact_write_def deal_write_def any_write_def

lemma sends_get:
  "sends contact_write 0 (crm_request cl ''GET'' path token body label)"
  "sends deal_write 0 (crm_request cl ''GET'' path token body label)"
  "sends any_write 0 (crm_request cl ''GET'' path token body label)"
  by (rule sends_other, simp add: write_kinds)+

lemma writes_of_none: "sends any_write 0 m \<Longrightarrow> crm_writes (fst (snd (m w))) = []"
  by (simp add: sends_def crm_writes_def any_write_def [abs_def])

lemma kinds_of_none: "sends any_write 0 m \<Longrightarrow> sends contact_write 0 m \<and> sends deal_write 0 m"
  by (auto simp: sends_def write_kinds filter_empty_conv)

lemma sends_rows: "sends any_write 0 (list_rows cl path key token label)"
  unfolding list_rows_def embedded_rows_def Let_def
  by (auto intro!: sends_bind0 sends_get split: prod.splits option.splits json.splits)

lemma sends_find:
  "sends any_write 0 (find_lead_note cl lead_id s token)" "sends any_write 0 (find_lead_task cl lead_id s token)"
  unfolding find_lead_note_def find_lead_task_def with_lead_notes_def with_lead_tasks_def list_lead_notes_def list_active_tasks_def
  by (auto intro!: sends_bind0 sends_rows split: option.splits list.splits)

lemma sends_postcheck:
  "sends contact_write 0 (postcheck_lead cl lead_id contact_id token st)" "sends deal_write 0 (postcheck_lead cl lead_id contact_id token st)"
  unfolding postcheck_lead_def Let_def
  by (auto intro!: sends_bind0 sends_get split: AmoCrmCrmRestOutcome.splits option.splits)

lemma sends_contact: "sends contact_write (Suc 0) (create_contact cl name phone token)" "sends deal_write 0 (create_contact cl name phone token)"
  unfolding create_contact_def
  by (auto intro!: sends_bind1 sends_one sends_get split: AmoCrmCrmRestOutcome.splits option.splits)
    (auto intro!: sends_bind0 sends_other sends_get simp: write_kinds split: AmoCrmCrmRestOutcome.splits option.splits)

lemma sends_lead:
  "sends deal_write (Suc 0) (create_business_lead cl name contact_id token)" "sends contact_write 0 (create_business_lead cl name contact_id token)"
  unfolding create_business_lead_def
  by (auto intro!: sends_bind1 sends_one sends_postcheck split: AmoCrmCrmRestOutcome.splits option.splits)
    (auto intro!: sends_bind0 sends_other sends_postcheck simp: write_kinds split: AmoCrmCrmRestOutcome.splits option.splits)

lemma sends_reanimate:
  "sends deal_write (Suc 0) (reanimate_lead cl lead_id contact_id token)" "sends contact_write 0 (reanimate_lead cl lead_id contact_id token)"
  unfolding reanimate_lead_def Let_def
  by (auto intro!: sends_bind0 [OF sends_get(2)] sends_bind1 sends_one sends_postcheck split: AmoCrmCrmRestOutcome.splits option.splits)
    (auto intro!: sends_bind0 sends_get sends_other sends_postcheck simp: write_kinds split: AmoCrmCrmRestOutcome.splits option.splits)

section \<open>Reading ports\<close>

text \<open>
  What the service relies on: the lookup, the discovery and the token store only read, and the ids they find
  are no empty texts.
\<close>

definition ports_read :: "'w crm_ports \<Rightarrow> bool" where
  "ports_read p =
     ((\<forall>phone. sends any_write 0 (cp_lookup p phone)) \<and> (\<forall>c t. sends any_write 0 (cp_discover p c t)) \<and>
      sends any_write 0 (known_technical_deal_ids p) \<and> sends any_write 0 (cp_token p) \<and> (\<forall>t. sends any_write 0 (cp_refresh p t)))"

definition ports_ok :: "'w crm_ports \<Rightarrow> bool" where
  "ports_ok p =
     ((\<forall>phone w l c w'. cp_lookup p phone w = (Inr l, c, w') \<longrightarrow> identity_lookup_ok l) \<and>
      (\<forall>cid t w d c w'. cp_discover p cid t w = (Inr d, c, w') \<longrightarrow> [] \<notin> set (dd_business_active d)))"

lemma reading_ports:
  assumes "ports_read p"
  shows "sends any_write 0 (cp_lookup p phone)" "sends any_write 0 (discover p contact_id)" "sends any_write 0 (cp_token p)"
  using assms unfolding ports_read_def discover_def by (auto intro!: sends_bind0)

lemma reading_kinds:
  assumes "ports_read p"
  shows "sends contact_write 0 (cp_lookup p phone)" "sends deal_write 0 (cp_lookup p phone)"
    "sends contact_write 0 (discover p contact_id)" "sends deal_write 0 (discover p contact_id)"
    "sends contact_write 0 (cp_token p)" "sends deal_write 0 (cp_token p)"
  using kinds_of_none [OF reading_ports(1) [OF assms]] kinds_of_none [OF reading_ports(2) [OF assms]]
    kinds_of_none [OF reading_ports(3) [OF assms]] by blast+

lemma find_business_deal_reads: "ports_read p \<Longrightarrow> sends any_write 0 (find_business_deal p phone)"
  unfolding find_business_deal_def Let_def
  by (auto intro!: sends_bind0 reading_ports split: AmoCrmIdentityLookupOutcome.splits)


lemma ensure_contact_sends:
  assumes "ports_read p"
  shows "sends contact_write (Suc 0) (ensure_contact p l phone name token)" "sends deal_write 0 (ensure_contact p l phone name token)"
    "il_outcome l \<noteq> Ident_NOT_FOUND \<Longrightarrow> sends contact_write 0 (ensure_contact p l phone name token)"
proof -
  have tail: "sends P 0 (crm_bind (cp_lookup p phone) (\<lambda>again. crm_return (h again)))"
    if "P = contact_write \<or> P = deal_write" for P and h :: "_ \<Rightarrow> crm_action_result + string option"
    using that reading_kinds [OF assms] by (auto intro!: sends_bind0)
  show "sends contact_write (Suc 0) (ensure_contact p l phone name token)"
    unfolding ensure_contact_def Let_def
    by (auto intro!: sends_bind1 sends_contact tail split: TeyaCrmActionOutcome.splits)
  show "sends deal_write 0 (ensure_contact p l phone name token)"
    unfolding ensure_contact_def Let_def
    by (auto intro!: sends_bind1 sends_contact tail split: TeyaCrmActionOutcome.splits)
  show "sends contact_write 0 (ensure_contact p l phone name token)" if "il_outcome l \<noteq> Ident_NOT_FOUND"
    using that by (simp add: ensure_contact_def)
qed

lemma ensure_lead_sends:
  assumes "ports_read p"
  shows "sends deal_write (Suc 0) (ensure_lead p contact_id token d)" "sends contact_write 0 (ensure_lead p contact_id token d)"
    "dd_business_active d \<noteq> [] \<Longrightarrow> sends deal_write 0 (ensure_lead p contact_id token d)"
proof -
  have tail: "sends P 0 (crm_bind (discover p contact_id) (\<lambda>again. crm_return (h again)))"
    if "P = contact_write \<or> P = deal_write" for P and h :: "_ \<Rightarrow> crm_action_result"
    using that reading_kinds [OF assms] by (auto intro!: sends_bind0)
  show "sends deal_write (Suc 0) (ensure_lead p contact_id token d)"
    unfolding ensure_lead_def Let_def by (auto intro!: sends_bind1 sends_lead sends_reanimate tail split: list.splits)
  show "sends contact_write 0 (ensure_lead p contact_id token d)"
    unfolding ensure_lead_def Let_def by (auto intro!: sends_bind1 sends_lead sends_reanimate tail split: list.splits)
  show "sends deal_write 0 (ensure_lead p contact_id token d)" if "dd_business_active d \<noteq> []"
    using that by (auto simp: ensure_lead_def split: list.splits)
qed

lemma ensure_deal_sends:
  assumes "ports_read p"
  shows "sends deal_write (Suc 0) (ensure_deal p contact_id token)" and "sends contact_write 0 (ensure_deal p contact_id token)"
  unfolding ensure_deal_def
  using reading_kinds [OF assms] ensure_lead_sends [OF assms] by (auto intro!: sends_bind0 split: option.splits)

lemmas ensure_defs = ensure_contact_and_deal_def ensure_after_lookup_def ensure_with_token_def

lemma ensure_sends:
  assumes "ports_read p"
  shows "sends contact_write (Suc 0) (ensure_contact_and_deal p phone name)" and "sends deal_write (Suc 0) (ensure_contact_and_deal p phone name)"
  unfolding ensure_defs
  by (auto intro!: sends_bind0 [OF reading_kinds(1) [OF assms]] sends_bind0 [OF reading_kinds(2) [OF assms]]
      sends_bind0 [OF reading_kinds(5) [OF assms]] sends_bind0 [OF reading_kinds(6) [OF assms]]
      sends_bind1 [OF ensure_contact_sends(1) [OF assms]] sends_bind0 [OF ensure_contact_sends(2) [OF assms]]
      ensure_deal_sends [OF assms]
      split: AmoCrmIdentityLookupOutcome.splits sum.splits option.splits)

lemma found_deal_kept:
  assumes "ports_read p" and "\<And>cid v d c v'. discover p cid v = (Inr d, c, v') \<Longrightarrow> dd_business_active d \<noteq> []"
  shows "sends deal_write 0 (ensure_contact_and_deal p phone name)"
proof -
  have after_contact: "sends deal_write 0 (ensure_deal p contact_id token)" for contact_id token
  proof -
    have "sends deal_write (0 + 0) (ensure_deal p contact_id token)"
      unfolding ensure_deal_def
    proof (rule sends_bind [OF reading_kinds(4) [OF assms(1)]])
      fix d v c v' assume "discover p contact_id v = (Inr d, c, v')"
      from ensure_lead_sends(3) [OF assms(1) assms(2) [OF this]]
      show "sends deal_write 0 (case discovery_refusal contact_id d of Some r \<Rightarrow> crm_return r | None \<Rightarrow> ensure_lead p contact_id token d)"
        by (simp split: option.split)
    qed
    then show ?thesis by simp
  qed
  show ?thesis
    unfolding ensure_defs
    by (auto intro!: sends_bind0 [OF reading_kinds(2) [OF assms(1)]] sends_bind0 [OF reading_kinds(6) [OF assms(1)]]
        sends_bind0 [OF ensure_contact_sends(2) [OF assms(1)]] after_contact
        split: AmoCrmIdentityLookupOutcome.splits sum.splits option.splits)
qed

lemma sends_nothing: "sends P 0 m \<Longrightarrow> m w = (r, calls, w') \<Longrightarrow> filter P calls = []"
  unfolding sends_def by (metis fst_conv le_zero_eq length_0_conv snd_conv)

lemma found_contact_kept:
  assumes "ports_read p" and "cp_lookup p phone w = (Inr l, c0, w0)" and "il_outcome l \<noteq> Ident_NOT_FOUND"
    and "ensure_contact_and_deal p phone name w = (out, calls, w')"
  shows "filter contact_write calls = []"
proof -
  have "sends contact_write 0 (ensure_after_lookup p phone name l)"
    unfolding ensure_after_lookup_def ensure_with_token_def using assms(3)
    by (auto intro!: sends_bind0 [OF reading_kinds(5) [OF assms(1)]] sends_bind0 [OF ensure_contact_sends(3) [OF assms(1)]]
        ensure_deal_sends [OF assms(1)]
        split: AmoCrmIdentityLookupOutcome.splits sum.splits option.splits)
  note later = sends_nothing [OF this]
  have "filter contact_write c0 = []" by (rule sends_nothing [OF reading_kinds(1) [OF assms(1)] assms(2)])
  with assms(4) later show ?thesis
    by (auto simp: ensure_contact_and_deal_def crm_bind_def assms(2) split: prod.splits)
qed


section \<open>Ready means a deal\<close>

lemma int_text_nonempty: "int_text n \<noteq> []"
  by (simp add: int_text_def nat_text.simps)

lemma positive_id_nonempty: "positive_id j = Some i \<Longrightarrow> i \<noteq> []"
  by (cases j) (auto simp: int_text_nonempty split: if_splits)

lemma embedded_id_nonempty: "parse_embedded_id key resp = Some i \<Longrightarrow> i \<noteq> []"
  by (auto simp: parse_embedded_id_def dest: positive_id_nonempty split: json.splits list.splits)

lemma contact_verified_id:
  assumes "create_contact cl name phone token w = (Inr r, calls, w')" and "wr_outcome r = Write_VERIFIED"
  shows "truthy (wr_contact_id r)"
  using assms unfolding create_contact_def
  by (auto simp: failed_def refused_def receipt_def truthy_def dest!: crm_returnE embedded_id_nonempty elim!: crm_bindE
      split: if_splits option.splits AmoCrmCrmRestOutcome.splits)

lemma postcheck_id:
  "postcheck_lead cl lead_id contact_id token st w = (Inr r, calls, w') \<Longrightarrow> wr_lead_id r = Some lead_id"
  unfolding postcheck_lead_def Let_def
  by (auto dest!: crm_returnE elim!: crm_bindE split: if_splits option.splits AmoCrmCrmRestOutcome.splits)

lemma lead_verified_id:
  assumes "create_business_lead cl name contact_id token w = (Inr r, calls, w')" and "wr_outcome r = Write_VERIFIED"
  shows "truthy (wr_lead_id r)"
  using assms unfolding create_business_lead_def
  by (auto simp: failed_def refused_def receipt_def truthy_def dest!: crm_returnE postcheck_id embedded_id_nonempty elim!: crm_bindE
      split: if_splits option.splits AmoCrmCrmRestOutcome.splits)

lemma reanimated_id:
  assumes "reanimate_lead cl lead_id contact_id token w = (Inr r, calls, w')" and "wr_outcome r = Write_VERIFIED"
  shows "truthy (wr_lead_id r)"
proof (cases "text_isdigit lead_id")
  case False
  with assms show ?thesis by (auto simp: reanimate_lead_def failed_def receipt_def dest!: crm_returnE)
next
  case True
  then have "lead_id \<noteq> []" by (auto simp: text_isdigit_def)
  moreover have "wr_lead_id r = Some lead_id"
    using assms True unfolding reanimate_lead_def Let_def
    by (auto simp: failed_def refused_def receipt_def dest!: crm_returnE postcheck_id elim!: crm_bindE
        split: if_splits option.splits AmoCrmCrmRestOutcome.splits)
  ultimately show ?thesis by (simp add: truthy_def)
qed

lemma map_write_outcome:
  "ca_outcome (map_write r c d) \<noteq> Crm_NONE"
  "ca_outcome (map_write r c d) = Crm_READY \<longleftrightarrow> wr_outcome r = Write_VERIFIED"
  by (auto simp: map_write_def crm_action_def Let_def)

lemma map_write_ids:
  "ca_contact_id (map_write r c d) = or_text (wr_contact_id r) c" "ca_deal_id (map_write r c d) = or_text (wr_lead_id r) d"
  by (auto simp: map_write_def crm_action_def Let_def)

definition ready_ok :: "crm_action_result \<Rightarrow> bool" where
  "ready_ok a = (ca_outcome a \<noteq> Crm_NONE \<and> (ca_outcome a = Crm_READY \<longrightarrow> truthy (ca_contact_id a) \<and> truthy (ca_deal_id a)))"

lemma or_text_truthy: "truthy a \<or> truthy b \<Longrightarrow> truthy (or_text a b)"
  by (auto simp: or_text_def)

lemma ready_ok_simps:
  "o1 \<noteq> Crm_NONE \<Longrightarrow> o1 \<noteq> Crm_READY \<Longrightarrow> ready_ok (crm_action o1 code)"
  "o1 \<noteq> Crm_NONE \<Longrightarrow> o1 \<noteq> Crm_READY \<Longrightarrow> ready_ok (crm_action o1 code \<lparr> ca_contact_id := c \<rparr>)"
  "contact_id \<noteq> [] \<Longrightarrow> deal_id \<noteq> [] \<Longrightarrow> ready_ok (ready_deal contact_id deal_id)"
  by (simp_all add: ready_ok_def crm_action_def ready_deal_def truthy_def)

lemma refusal_ready_ok: "discovery_refusal contact_id d = Some r \<Longrightarrow> ready_ok r"
  by (auto simp: discovery_refusal_def Let_def ready_ok_simps split: AmoCrmDealDiscoveryOutcome.splits if_splits)

lemma discover_ids:
  assumes "ports_ok p" and "discover p contact_id w = (Inr d, calls, w')"
  shows "[] \<notin> set (dd_business_active d)"
  using assms(2) unfolding discover_def
proof (rule crm_bindE)
  fix t c1 w1 c2
  assume "cp_discover p contact_id t w1 = (Inr d, c2, w')"
  then show ?thesis using assms(1) unfolding ports_ok_def by blast
qed

lemma ensure_lead_ready:
  assumes "ensure_lead p contact_id token d w = (Inr r, calls, w')" and "ports_ok p" and "contact_id \<noteq> []"
    and "[] \<notin> set (dd_business_active d)"
  shows "ready_ok r"
proof (cases "dd_business_active d")
  case (Cons deal_id rest)
  with assms show ?thesis by (auto simp: ensure_lead_def ready_ok_simps dest!: crm_returnE)
next
  case Nil
  have given: "truthy (Some contact_id)" using assms(3) by (simp add: truthy_def)
  have mapped: "ready_ok (map_write x (Some contact_id) None)" if "wr_outcome x = Write_VERIFIED \<Longrightarrow> truthy (wr_lead_id x)" for x
    using that given by (auto simp: ready_ok_def map_write_outcome map_write_ids or_text_truthy)
  consider (reanimate) lead_id where "dd_reanimation d = [lead_id]" | (create) "dd_reanimation d = []"
    | (many) a b c where "dd_reanimation d = a # b # c" by (metis list.exhaust)
  then show ?thesis
  proof cases
    case (reanimate lead_id)
    with assms(1) Nil show ?thesis
      by (auto simp: ensure_lead_def elim!: crm_bindE dest!: crm_returnE intro!: mapped reanimated_id)
  next
    case many
    with assms(1) Nil show ?thesis by (auto simp: ensure_lead_def ready_ok_simps dest!: crm_returnE)
  next
    case create
    with assms(1) Nil obtain x c1 w1 c2 where made: "create_business_lead (cp_client p) LEAD_NAME_DEFAULT contact_id token w = (Inr x, c1, w1)"
      and rest: "(let mapped = map_write x (Some contact_id) None in
        if ca_outcome mapped = Crm_RETRY then
          crm_bind (discover p contact_id) (\<lambda>again. crm_return
            (case dd_business_active again of
               [deal_id] \<Rightarrow> ready_deal contact_id deal_id
             | _ # _ \<Rightarrow> crm_action Crm_MANUAL_REVIEW (Some ''ACTIVE_DEAL_AMBIGUOUS'') \<lparr> ca_contact_id := Some contact_id \<rparr>
             | [] \<Rightarrow> mapped))
        else crm_return mapped) w1 = (Inr r, c2, w')"
      by (auto simp: ensure_lead_def elim: crm_bindE)
    have ok: "ready_ok (map_write x (Some contact_id) None)" by (rule mapped) (rule lead_verified_id [OF made])
    show ?thesis
      using rest ok discover_ids [OF assms(2)] assms(3)
      by (auto simp: Let_def ready_ok_simps elim!: crm_bindE dest!: crm_returnE split: if_splits list.splits) (fastforce simp: ready_ok_simps)
  qed
qed

lemma lookup_found:
  assumes "ports_ok p" and "cp_lookup p phone w = (Inr l, c, w')"
  shows "il_outcome l = Ident_FOUND \<Longrightarrow> truthy (il_contact_id l)" "il_outcome l \<noteq> Ident_FOUND \<Longrightarrow> il_outcome l \<noteq> Ident_AMBIGUOUS \<Longrightarrow> il_contact_id l = None"
proof -
  have "identity_lookup_ok l" using assms unfolding ports_ok_def by blast
  then show "il_outcome l = Ident_FOUND \<Longrightarrow> truthy (il_contact_id l)"
    "il_outcome l \<noteq> Ident_FOUND \<Longrightarrow> il_outcome l \<noteq> Ident_AMBIGUOUS \<Longrightarrow> il_contact_id l = None"
    by (simp_all add: identity_lookup_ok_def split: if_splits)
qed

lemma ensure_contact_id:
  assumes "ensure_contact p l phone name token w = (Inr x, calls, w')" and "ports_ok p"
    and "il_outcome l = Ident_FOUND \<Longrightarrow> truthy (il_contact_id l)"
  shows "(\<forall>a. x = Inl a \<longrightarrow> ready_ok a) \<and> (\<forall>c. x = Inr (Some c) \<longrightarrow> c \<noteq> [])"
proof -
  consider (found) "il_outcome l = Ident_FOUND" | (create) "il_outcome l = Ident_NOT_FOUND"
    | (other) "il_outcome l \<noteq> Ident_FOUND" "il_outcome l \<noteq> Ident_NOT_FOUND" by blast
  then show ?thesis
  proof cases
    case found
    with assms show ?thesis by (auto simp: ensure_contact_def truthy_def dest!: crm_returnE split: option.splits)
  next
    case other
    with assms(1) show ?thesis by (auto simp: ensure_contact_def ready_ok_simps dest!: crm_returnE)
  next
    case create
    obtain r c1 w1 c2 where made: "create_contact (cp_client p) (if truthy name then the name else CONTACT_NAME_DEFAULT) phone token w = (Inr r, c1, w1)"
      and rest: "(let mapped = map_write r None None in
          case ca_outcome mapped of
            Crm_READY \<Rightarrow> crm_return (Inr (wr_contact_id r))
          | Crm_RETRY \<Rightarrow>
              crm_bind (cp_lookup p phone) (\<lambda>again. crm_return
                (case il_outcome again of
                   Ident_FOUND \<Rightarrow> Inr (il_contact_id again)
                 | Ident_AMBIGUOUS \<Rightarrow> Inl (crm_action Crm_MANUAL_REVIEW (Some ''IDENTITY_AMBIGUOUS''))
                 | _ \<Rightarrow> Inl mapped))
          | _ \<Rightarrow> crm_return (Inl mapped)) w1 = (Inr x, c2, w')"
      using assms(1) create by (auto simp: ensure_contact_def elim: crm_bindE)
    have refused: "ready_ok (map_write r None None)" if "ca_outcome (map_write r None None) \<noteq> Crm_READY"
      using that map_write_outcome(1) by (simp add: ready_ok_def)
    show ?thesis
    proof (cases "ca_outcome (map_write r None None)")
      case Crm_READY
      with rest contact_verified_id [OF made] show ?thesis
        by (auto simp: map_write_outcome(2) truthy_def dest!: crm_returnE split: option.splits)
    next
      case Crm_RETRY
      with rest obtain again c3 where look: "cp_lookup p phone w1 = (Inr again, c3, w')"
        and x: "x = (case il_outcome again of
                   Ident_FOUND \<Rightarrow> Inr (il_contact_id again)
                 | Ident_AMBIGUOUS \<Rightarrow> Inl (crm_action Crm_MANUAL_REVIEW (Some ''IDENTITY_AMBIGUOUS''))
                 | _ \<Rightarrow> Inl (map_write r None None))"
        by (auto simp: Let_def elim!: crm_bindE dest!: crm_returnE)
      have "ready_ok (map_write r None None)" using Crm_RETRY refused by simp
      with lookup_found(1) [OF assms(2) look] x show ?thesis
        by (auto simp: ready_ok_simps truthy_def split: AmoCrmIdentityLookupOutcome.splits option.splits)
    qed (use rest refused map_write_outcome(1) in \<open>auto simp: Let_def dest!: crm_returnE\<close>)
  qed
qed

lemma ensure_deal_ready:
  assumes "ensure_deal p contact_id token w = (Inr r, calls, w')" and "ports_ok p" and "contact_id \<noteq> []"
  shows "ready_ok r"
  using assms(1) unfolding ensure_deal_def
proof (rule crm_bindE)
  fix d c1 w1 c2
  assume disc: "discover p contact_id w = (Inr d, c1, w1)"
    and rest: "(case discovery_refusal contact_id d of Some r \<Rightarrow> crm_return r | None \<Rightarrow> ensure_lead p contact_id token d) w1 = (Inr r, c2, w')"
  show ?thesis
  proof (cases "discovery_refusal contact_id d")
    case None
    with rest ensure_lead_ready [OF _ assms(2,3) discover_ids [OF assms(2) disc]] show ?thesis by simp
  next
    case (Some a)
    with rest refusal_ready_ok show ?thesis by (auto dest!: crm_returnE)
  qed
qed

lemma ensure_with_token_ready:
  assumes "ensure_with_token p phone name l token w = (Inr r, calls, w')" and "ports_ok p"
    and "il_outcome l = Ident_FOUND \<Longrightarrow> truthy (il_contact_id l)"
  shows "ready_ok r"
proof (cases "truthy token")
  case False
  with assms(1) show ?thesis by (auto simp: ensure_with_token_def ready_ok_simps dest!: crm_returnE)
next
  case True
  obtain x c1 w1 c2 where con: "ensure_contact p l phone name (the token) w = (Inr x, c1, w1)"
    and rest: "(case x of
          Inl stop \<Rightarrow> crm_return stop
        | Inr None \<Rightarrow> crm_return (crm_action Crm_FAIL_CLOSED (Some ''CONTACT_MISSING''))
        | Inr (Some contact_id) \<Rightarrow> ensure_deal p contact_id (the token)) w1 = (Inr r, c2, w')"
    by (rule crm_bindE [OF assms(1) [unfolded ensure_with_token_def, simplified True not_True_eq_False if_False]])
  note ids = ensure_contact_id [OF con assms(2,3)]
  show ?thesis
    using rest ids ensure_deal_ready [OF _ assms(2)] by (auto simp: ready_ok_simps dest!: crm_returnE split: sum.splits option.splits)
qed

lemma ensure_ready:
  assumes "ensure_contact_and_deal p phone name w = (Inr r, calls, w')" and "ports_ok p"
  shows "ready_ok r"
  using assms(1) unfolding ensure_contact_and_deal_def
proof (rule crm_bindE)
  fix l c1 w1 c2
  assume look: "cp_lookup p phone w = (Inr l, c1, w1)" and rest: "ensure_after_lookup p phone name l w1 = (Inr r, c2, w')"
  have token: "ready_ok r" if "crm_bind (cp_token p) (ensure_with_token p phone name l) w1 = (Inr r, c2, w')"
    using that by (rule crm_bindE) (rule ensure_with_token_ready [OF _ assms(2) lookup_found(1) [OF assms(2) look]])
  show ?thesis
    using rest token
    by (auto simp: ensure_after_lookup_def ready_ok_simps dest!: crm_returnE split: AmoCrmIdentityLookupOutcome.splits)
qed

section \<open>The service behind the orchestrator\<close>

text \<open>A step that lands outside CRM_READY, or in it with a contact and a deal.\<close>

definition lands_ready :: "teya_row \<Rightarrow> uuid \<Rightarrow> TeyaRequestPendingState set \<Rightarrow> teya_row list \<Rightarrow> teya_out \<Rightarrow> bool" where
  "lands_ready row lease S t out =
     (teya_lands row lease S t out \<or>
      (\<exists>patch now. tb_rows (snd (snd out)) = sql_update (teya_held row lease) (teya_advance_row Teya_CRM_READY patch now) t \<and>
         truthy (tp_amocrm_contact_id patch) \<and> truthy (tp_amocrm_deal_id patch)))"

lemma lands_ready_effect [simp]: "lands_ready row lease S t (with_effect c out) = lands_ready row lease S t out"
  by (cases out) (simp add: lands_ready_def teya_lands_def with_effect_def)

lemma ready_lands: "teya_lands row lease S t out \<Longrightarrow> lands_ready row lease S t out"
  by (simp add: lands_ready_def)

lemma ready_advance:
  assumes "truthy (tp_amocrm_contact_id patch)" and "truthy (tp_amocrm_deal_id patch)"
  shows "lands_ready row lease S (tb_rows db) (teya_advance e row lease Teya_CRM_READY patch (teya_report_success e db))"
  using assms unfolding lands_ready_def
  by (auto simp: teya_advance_def teya_advance_state_def teya_cas_def)

lemma ready_request:
  assumes "\<And>dto. lands_ready row lease S (tb_rows db) (k dto)"
    and "{te_state row, Teya_WAITING_CONTACT, Teya_RECONCILIATION_REQUIRED, Teya_MANUAL_REVIEW, Teya_FAIL_CLOSED} \<subseteq> S"
    and "te_state row \<noteq> Teya_VERIFYING"
  shows "lands_ready row lease S (tb_rows db) (teya_with_request e row lease db k)"
  using assms unfolding teya_with_request_def
  by (auto intro!: ready_lands intro: lands_remote_error lands_raise split: remote.splits)

lemma ready_guarded:
  assumes "te_state row \<in> S" and "Teya_MANUAL_REVIEW \<in> S" and "\<And>db'. lands_ready row lease S (tb_rows db') (k db')"
  shows "lands_ready row lease S (tb_rows db)
    (case teya_guard_crm_breaker e row lease db of Inl blocked \<Rightarrow> blocked | Inr db' \<Rightarrow> k db')"
proof (cases "teya_guard_crm_breaker e row lease db")
  case (Inl out)
  then show ?thesis using lands_guard(1) [OF assms(1,2) Inl] by (simp add: ready_lands)
next
  case (Inr db')
  then have "tb_rows db' = tb_rows db" by (rule lands_guard(2) [OF assms(1,2)])
  then show ?thesis using assms(3) [of db'] Inr by simp
qed

lemma ready_outcome:
  assumes "{te_state row, Teya_MANUAL_REVIEW, Teya_FAIL_CLOSED, Teya_RECONCILIATION_REQUIRED} \<subseteq> S" and "ready_ok res"
    and "ca_outcome res = Crm_READY \<Longrightarrow> lands_ready row lease S (tb_rows db) k"
  shows "lands_ready row lease S (tb_rows db) (teya_crm_outcome e row lease res codes db k)"
  using assms unfolding teya_crm_outcome_def teya_closings
  by (auto intro!: ready_lands lands_close lands_retry lands_manual simp: ready_ok_def split: prod.splits TeyaCrmActionOutcome.splits)

lemma teya_crm_of_ready: "ports_ok p \<Longrightarrow> tc_ensure (teya_crm_of p w) phone name = Some res \<Longrightarrow> ready_ok res"
  by (cases "ensure_contact_and_deal p phone name w")
    (auto simp: teya_crm_of_def crm_answer_def dest: ensure_ready split: sum.splits)

lemma teya_crm_of_ids:
  assumes "ports_ok p" and "tc_ensure (teya_crm_of p w) phone name = Some res" and "ca_outcome res = Crm_READY"
  shows "truthy (ca_contact_id res)" and "truthy (ca_deal_id res)"
  using teya_crm_of_ready [OF assms(1,2)] assms(3) by (auto simp: ready_ok_def)

lemma identity_ready:
  assumes "ports_ok p" and "tv_crm e = Some (teya_crm_of p w)" and "te_state row = Teya_IDENTITY"
  shows "lands_ready row lease {Teya_IDENTITY, Teya_WAITING_CONTACT, Teya_RECONCILIATION_REQUIRED, Teya_MANUAL_REVIEW, Teya_FAIL_CLOSED}
    (tb_rows db) (teya_step_identity e row lease db)"
  using assms unfolding teya_step_identity_def teya_closings
  by (auto intro!: ready_request ready_guarded ready_outcome [OF _ teya_crm_of_ready] ready_lands [OF lands_close]
        ready_lands [OF lands_raise] ready_advance
      simp: no_patch_def teya_crm_of_ids split: option.splits intro: teya_crm_of_ids)


section \<open>The hypotheses at a concrete input\<close>

text \<open>A lookup that knows one contact, and a discovery that finds its business deal.\<close>

definition demo_ports :: "nat crm_ports" where
  "demo_ports =
     \<lparr> cp_lookup = (\<lambda>_. crm_return \<lparr> il_outcome = Ident_FOUND, il_contact_id = Some ''12'', il_contact_ids = [''12''], il_error_code = None \<rparr>),
       cp_discover = (\<lambda>c _. crm_return
         \<lparr> dd_outcome = Deal_FOUND, dd_contact_id = Some c, dd_business_active = [''5''], dd_reanimation = [], dd_successfully_closed = [],
            dd_technical = [], dd_known_technical = [], dd_error_code = None \<rparr>),
       cp_technical = None, cp_token = crm_return (Some ''t''), cp_refresh = (\<lambda>_. crm_return None), cp_client = demo_client \<rparr>"

lemma demo_ports_read: "ports_read demo_ports"
  by (simp add: ports_read_def demo_ports_def known_technical_deal_ids_def)

lemma demo_ports_ok: "ports_ok demo_ports"
  by (auto simp: ports_ok_def demo_ports_def identity_lookup_ok_def truthy_def dest!: crm_returnE)



definition demo_ready_env :: teya_env where
  "demo_ready_env = demo_env \<lparr> tv_crm := Some (teya_crm_of demo_ports 0) \<rparr>"

definition demo_ready_db :: teya_db where
  "demo_ready_db = \<lparr> tb_rows = [demo_row Teya_IDENTITY], tb_breaker = None \<rparr>"

lemma demo_ready:
  "map te_state (tb_rows (snd (snd (teya_process_claimed demo_ready_env (demo_row Teya_IDENTITY) demo_ready_db)))) = [Teya_CRM_READY]"
  "map te_id (tb_rows (snd (snd (teya_process_claimed demo_ready_env (demo_row Teya_IDENTITY) demo_ready_db)))) = [''p'']"
  by code_simp+


end
