(* ===== verification/Spec2Isabelle.thy ===== *)
theory Spec2Isabelle
  imports Prelude Fenced_Queue Ingress Conversation Reply_Plan Outbox Mirror Booking_Slot Active_Offer Create_Pending Booking_Payload Projection
    Dialog_Db Vk_Gate Vk_Provenance Inbound Manager Handoff_Expiry Session_Rel Reply_Worker Vk_Sender Arbiter
    Dialog_System Dialog_Spec Chat_Binding Projection_Queue Chat_Http Chat_Projection Ingress_Worker
    Calendar Studio_Time Booking_Policy Booking_Http Booking_Input Booking_Flow Text_Chars Booking_Create
    Circuit_Breaker Phone_Number Teya_Request Teya_Run Crm_Writes Crm_Service
begin

text \<open>
  A verification library of the dialog core of bot-TV: the part of the program (under src/app) that
  receives what clients and managers write, decides whose turn it is, plans replies, books slots, and
  lets a message leave the system.

  \<^bold>\<open>The program.\<close> Everything durable is in PostgreSQL. A provider event is stored in the ingress
  queue and acknowledged; a worker leases it and applies it to the dialog: a client message moves the
  fences of the dialog (context version, manager epoch, event number) and leaves a reply plan, a manager
  message takes the dialog from the bot, cancels what the bot had planned and starts a pause. When the
  pause is over the expiry worker gives the dialog back. The reply plan worker leases a due plan, asks
  the booking service when the plan carries a booking, and binds one outbound row to it; the arbiter
  admits the row (the point of no return) while every fence still holds, hands it to its transport and
  records the delivery. A delivered offer of slots becomes the active offer of the dialog; a client's
  confirmation of one of its slots becomes one self-booking command that another worker executes.
  Announcements to amoCRM are jobs that the same transactions enqueue.

  \<^bold>\<open>How it is modelled.\<close> A table is the list of its rows, a row a record with the columns of its model
  class, an enumeration a datatype. A repository function is a function from the table to an exception
  or a result with the new table; the SQL statements are \<open>sql_update\<close>, \<open>sql_one\<close> and \<open>sql_first_by\<close> of
  Prelude, unique indexes and check constraints are tested where the flush would raise. A service method
  that opens a session is a function on the record \<open>db\<close> of all tables; \<open>session_scope\<close> commits it or rolls
  it back. A method that opens several sessions takes as an argument what other processes committed in
  between (\<open>meanwhile\<close>, \<open>others\<close>, \<open>mw\<close>), which the theorems leave arbitrary or bound by the
  repositories' own runs. Clocks, minted uuids, \<open>SKIP LOCKED\<close> rows and environment variables are fields of
  \<open>env\<close> or arguments. Code outside the repository is a parameter: the booking service, HMAC and SHA-256,
  \<open>json.loads\<close>, the HTTP exchange, the encrypted store of client data. No definition needs fuel: loops
  run over a list that is given (the transactions of a tick) or over the data itself.

  \<^bold>\<open>The theories.\<close>

  \<^item> Prelude: identifiers, instants, JSON, exceptions, SQL over lists, \<open>evolves\<close>. Fenced_Queue: the
    locales \<open>fenced_table\<close> and \<open>bounded_leases\<close>, the contract of every leased table; each of the tables below
    is an interpretation, and the facts on stale leases, finished rows and attempt bounds are theirs.
  \<^item> Ingress (models/ingress.py, repositories/ingress.py), Conversation (models/conversation.py,
    repositories/conversations.py), Reply_Plan (models/reply_plan.py, repositories/reply_plans.py), Outbox
    (models/outbox.py, repositories/outbound.py), Mirror (models/amocrm_mirror.py,
    repositories/amocrm_mirror.py): the tables with every operation; leases are fenced, used once and
    bounded, closed plans and cancelled messages stay so, admission is irrevocable.
  \<^item> Booking_Slot, Booking_Payload, Active_Offer, Create_Pending: the formats of the booking boundary,
    the payloads of a booking reply (services/booking_synthetic.py), the active offer (newest fence wins)
    and the self-booking commands (one open command per dialog, one idempotency key per command).
  \<^item> Projection: the queue of messages shown in the CRM chat. Dialog_Db: inbox, manager messages, the
    record \<open>db\<close> and the session combinators.
  \<^item> Vk_Gate, Vk_Provenance, Vk_Sender: the send gate, the authenticated marker and the transport of
    the VK channel (channels/).
  \<^item> Inbound, Manager, Handoff_Expiry, Reply_Worker, Arbiter: the services of the same names
    (services/inbound.py, manager_messages.py with takeover.py and vk_client_message_reply.py,
    handoff_expiry.py, reply_outbound.py, outbound_arbiter.py), whole handlers with all their branches.
    Session_Rel: the locale \<open>session_rel\<close>, by which a relation on the database that the repository calls keep
    is kept by every session composed of them.
  \<^item> Chat_Binding, Projection_Queue, Chat_Http, Chat_Projection: which CRM chat belongs to which dialog
    (repositories/amocrm_chat_bindings.py), the leased queue of projections, the answers of the chat API
    (core/amocrm_chat_http.py) and the projection worker (services/amocrm_chat_projection.py): a message that may
    already have been posted is looked up in the chat before it is posted again.
  \<^item> Ingress_Worker: services/ingress.py with the schemas of the events; the effect of an event and its
    completion are one transaction, so that an event is applied once however often it is leased.
  \<^item> Calendar, Studio_Time: days and dates as Python's datetime computes them, the studio's UTC+5 wall clock,
    the canonical slot time and the managers' hours (core/manager_working_hours.py). The time zone of the
    managers is a parameter (ZoneInfo), its documented fallback is \<open>fixed_manager_tz\<close>.
  \<^item> Booking_Policy: core/booking_types.py, core/booking_dialog_policy.py and
    services/booking_eligibility_flow.py; the policy against a declarative specification of which slots are
    offered, and that the flow is total and fails closed.
  \<^item> Booking_Http: the eligibility and availability clients (core/booking_eligibility_http.py,
    core/booking_availability_http.py): when a request is sent, and what the strict parsers accept. The transport,
    json and urlsplit are a record of parameters.
  \<^item> Booking_Input, Booking_Flow: schemas/booking_input.py, services/booking_flow.py and the resolution of a
    booking block (services/booking_synthetic.py): what the flow decides is what the reply plan stores.
  \<^item> Booking_Create: core/booking_create_remote.py, core/booking_create_http.py, the confirmation of a slot in
    services/booking_flow.py and services/client_ref_resolution.py: one confirmation, at most one request, and no
    success without the backend's answer for that slot and key; composed with the stored command of Create_Pending.
  \<^item> Circuit_Breaker, Phone_Number: the breaker of the CRM writes (core/amocrm_circuit_breaker.py and its repository)
    and the normal form of phone numbers (core/identity_resolution.py).
  \<^item> Teya_Request, Teya_Run: the booking requests of the web site: the table, the orchestrator with its steps, retries
    and breaker (services/teya_request_orchestrator.py), the reconciliation and every run of the workers. The remote
    booking service and the CRM service are records of functions; a step reads the clock once and the delay of a
    retry (exponential with random jitter) is an argument.
  \<^item> Crm_Writes, Crm_Service: the client that writes to amoCRM (core/amocrm_crm_writes_http.py, with the contract of
    the analytics fields) and the service that provides contact, deal, note, task and analytics of a request
    (services/teya_request_crm.py). amoCRM is a transport that moves a state of the world, so that two reads may
    differ; identity lookup, deal discovery and the token store are computations that satisfy their documented result types.
    The service is connected to the orchestrator of Teya_Run.
  \<^item> Dialog_System, Dialog_Spec: all services as one step relation \<open>sys_step\<close>, its invariant \<open>db_ok\<close>, and
    the abstract dialog \<open>dialog_next\<close> that every committed session refines; the expiry worker returns every
    due dialog and never quarantines one, and a manager message silences the bot.

  \<^bold>\<open>Not modelled.\<close> Parsing of webhooks and settings, the clients of the booking service for statistics, requests and live facts, OAuth,
  cryptography and key files, the attachment spool (a file system), the language model and its prompts,
  process start, polling and health files: input and output, or third-party code, which the modelled parts
  see through parameters. The identity graph, master commands, the HTTP clients of the CRM that read, and the feed of the web site requests,
  the control plane and the analytics workers are separate subsystems that do not touch the dialog tables. The worker half of the
  mirror calls the CRM. Text is kept as its UTF-8 bytes (\<open>utf8_length\<close> counts characters); digits of
  \<open>\d\<close> are those of ASCII.
\<close>

end
